(* ===== verification/Prelude.thy ===== *)
theory Prelude
  imports Main "HOL-Library.AList"
begin

text \<open>
  Shared vocabulary of the development: Python exceptions as the left side of a sum, the
  effectful methods as state transformers that return such a sum, Python strings as lists
  of code points below 256, Python dictionaries as association lists in insertion order,
  and the generic lemmas and collections the component theories rely on.

  \<^item> \<open>raise_if c e\<close> is the statement \<open>if c: raise e\<close>; \<open>bindE\<close> is sequencing of pure
    checks, \<open>bindM\<close> is sequencing of effectful calls: the first exception ends the method,
    and the effects made before it stay.
  \<^item> \<open>py_strip\<close> is \<open>str.strip()\<close>.
  \<^item> \<open>keeps I m\<close> says that the method \<open>m\<close> keeps the invariant \<open>I\<close>, whether it
    returns or raises.
\<close>

section \<open>Pure checks: exceptions as values\<close>

definition bindE :: "'e + 'a \<Rightarrow> ('a \<Rightarrow> 'e + 'b) \<Rightarrow> 'e + 'b" where
  "bindE m f = (case m of Inl e \<Rightarrow> Inl e | Inr x \<Rightarrow> f x)"

definition raise_if :: "bool \<Rightarrow> 'e \<Rightarrow> 'e + unit" where
  "raise_if c e = (if c then Inl e else Inr ())"

lemma bindE_Inl [simp]: "bindE (Inl e) f = Inl e"
  by (simp add: bindE_def)

lemma bindE_Inr [simp]: "bindE (Inr x) f = f x"
  by (simp add: bindE_def)

lemma bindE_eq_Inr [simp]: "bindE m f = Inr y \<longleftrightarrow> (\<exists>x. m = Inr x \<and> f x = Inr y)"
  by (cases m) simp_all

lemma bindE_eq_Inl: "bindE m f = Inl e \<longleftrightarrow> m = Inl e \<or> (\<exists>x. m = Inr x \<and> f x = Inl e)"
  by (cases m) simp_all

lemma raise_if_eq_Inr [simp]: "raise_if c e = Inr u \<longleftrightarrow> \<not> c"
  by (simp add: raise_if_def)

lemma raise_if_eq_Inl [simp]: "raise_if c e = Inl e' \<longleftrightarrow> c \<and> e' = e"
  by (auto simp add: raise_if_def)

lemma raise_if_simps [simp]: "raise_if True e = Inl e" "raise_if False e = Inr ()"
  by (simp_all add: raise_if_def)

text \<open>A passed guard, without the existential of the general rule.\<close>

lemma bindE_raise_if [simp]:
  "bindE (raise_if c e) f = Inr y \<longleftrightarrow> \<not> c \<and> f () = Inr y"
  by (simp add: raise_if_def)

lemma bindE_raise_if_Inl:
  "bindE (raise_if c e) f = Inl e' \<longleftrightarrow> (if c then e' = e else f () = Inl e')"
  by (auto simp add: raise_if_def)

text \<open>A loop that checks every element and stops at the first exception.\<close>

fun check_all :: "('a \<Rightarrow> 'e + unit) \<Rightarrow> 'a list \<Rightarrow> 'e + unit" where
  "check_all f [] = Inr ()"
| "check_all f (x # xs) = bindE (f x) (\<lambda>_. check_all f xs)"

lemma check_all_eq_Inr [simp]: "check_all f xs = Inr u \<longleftrightarrow> (\<forall>x \<in> set xs. f x = Inr ())"
  by (induction xs) auto

lemma check_all_cong [fundef_cong]:
  "xs = ys \<Longrightarrow> (\<And>x. x \<in> set ys \<Longrightarrow> f x = g x) \<Longrightarrow> check_all f xs = check_all g ys"
proof (induction xs arbitrary: ys)
  case (Cons x xs)
  then show ?case by (cases "g x") auto
qed simp

section \<open>Methods with effects\<close>

type_synonym ('w, 'e, 'a) meth = "'w \<Rightarrow> ('e + 'a) \<times> 'w"

definition retM :: "'a \<Rightarrow> ('w, 'e, 'a) meth" where
  "retM x = (\<lambda>w. (Inr x, w))"

definition raiseM :: "'e \<Rightarrow> ('w, 'e, 'a) meth" where
  "raiseM e = (\<lambda>w. (Inl e, w))"

definition liftE :: "'e + 'a \<Rightarrow> ('w, 'e, 'a) meth" where
  "liftE r = (\<lambda>w. (r, w))"

definition bindM :: "('w, 'e, 'a) meth \<Rightarrow> ('a \<Rightarrow> ('w, 'e, 'b) meth) \<Rightarrow> ('w, 'e, 'b) meth" where
  "bindM m f = (\<lambda>w. case m w of (Inl e, w') \<Rightarrow> (Inl e, w') | (Inr x, w') \<Rightarrow> f x w')"

definition readM :: "('w \<Rightarrow> 'a) \<Rightarrow> ('w, 'e, 'a) meth" where
  "readM g = (\<lambda>w. (Inr (g w), w))"

definition modifyM :: "('w \<Rightarrow> 'w) \<Rightarrow> ('w, 'e, unit) meth" where
  "modifyM g = (\<lambda>w. (Inr (), g w))"

definition whenM :: "bool \<Rightarrow> ('w, 'e, unit) meth \<Rightarrow> ('w, 'e, unit) meth" where
  "whenM c m = (if c then m else retM ())"

abbreviation result :: "('e + 'a) \<times> 'w \<Rightarrow> 'e + 'a" where
  "result \<equiv> fst"

abbreviation after :: "('e + 'a) \<times> 'w \<Rightarrow> 'w" where
  "after \<equiv> snd"

lemma retM_app [simp]: "retM x w = (Inr x, w)"
  by (simp add: retM_def)

lemma raiseM_app [simp]: "raiseM e w = (Inl e, w)"
  by (simp add: raiseM_def)

lemma liftE_app [simp]: "liftE r w = (r, w)"
  by (simp add: liftE_def)

lemma readM_app [simp]: "readM g w = (Inr (g w), w)"
  by (simp add: readM_def)

lemma modifyM_app [simp]: "modifyM g w = (Inr (), g w)"
  by (simp add: modifyM_def)

lemma whenM_simps [simp]: "whenM True m = m" "whenM False m = retM ()"
  by (simp_all add: whenM_def)

lemma bindM_Inl: "m w = (Inl e, w') \<Longrightarrow> bindM m f w = (Inl e, w')"
  by (simp add: bindM_def)

lemma bindM_Inr: "m w = (Inr x, w') \<Longrightarrow> bindM m f w = f x w'"
  by (simp add: bindM_def)

lemma bindM_basic [simp]:
  "bindM (retM x) f w = f x w"
  "bindM (raiseM e) f' w = (Inl e, w)"
  "bindM (readM g) f w = f (g w) w"
  "bindM (modifyM h) f'' w = f'' () (h w)"
  by (simp_all add: bindM_def)

lemma bindM_liftE:
  "bindM (liftE r) f w = (case r of Inl e \<Rightarrow> (Inl e, w) | Inr x \<Rightarrow> f x w)"
  by (simp add: bindM_def split: sum.split)

lemma bindM_liftE_simps [simp]:
  "bindM (liftE (Inl e)) f w = (Inl e, w)"
  "bindM (liftE (Inr x)) f w = f x w"
  by (simp_all add: bindM_liftE)

lemma bindM_eq_Inr [simp]:
  "bindM m f w = (Inr y, w'') \<longleftrightarrow> (\<exists>x w'. m w = (Inr x, w') \<and> f x w' = (Inr y, w''))"
  by (auto simp: bindM_def split: prod.split sum.split)

lemma bindM_eq_Inl:
  "bindM m f w = (Inl e, w'') \<longleftrightarrow>
     m w = (Inl e, w'') \<or> (\<exists>x w'. m w = (Inr x, w') \<and> f x w' = (Inl e, w''))"
  by (auto simp: bindM_def split: prod.split sum.split)

lemma result_bindM_Inr:
  "result (bindM m f w) = Inr y \<longleftrightarrow>
     (\<exists>x w'. m w = (Inr x, w') \<and> result (f x w') = Inr y)"
  by (auto simp: bindM_def split: prod.split sum.split)

section \<open>Invariants kept by a method\<close>

named_theorems keeps_intros
  \<open>rules that reduce \<open>keeps I m\<close> to the parts of \<open>m\<close>\<close>

definition keeps :: "('w \<Rightarrow> bool) \<Rightarrow> ('w, 'e, 'a) meth \<Rightarrow> bool" where
  "keeps I m \<longleftrightarrow> (\<forall>w. I w \<longrightarrow> I (after (m w)))"

lemma keepsI: "(\<And>w. I w \<Longrightarrow> I (after (m w))) \<Longrightarrow> keeps I m"
  by (simp add: keeps_def)

lemma keepsD: "keeps I m \<Longrightarrow> I w \<Longrightarrow> I (after (m w))"
  by (simp add: keeps_def)

lemma keeps_run: "keeps I m \<Longrightarrow> I w \<Longrightarrow> m w = (r, w') \<Longrightarrow> I w'"
  by (metis keepsD snd_conv)

lemma keeps_retM [keeps_intros]: "keeps I (retM x)"
  by (simp add: keeps_def)

lemma keeps_raiseM [keeps_intros]: "keeps I (raiseM e)"
  by (simp add: keeps_def)

lemma keeps_liftE [keeps_intros]: "keeps I (liftE r)"
  by (simp add: keeps_def)

lemma keeps_readM [keeps_intros]: "keeps I (readM g)"
  by (simp add: keeps_def)

lemma keeps_modifyM: "(\<And>w. I w \<Longrightarrow> I (g w)) \<Longrightarrow> keeps I (modifyM g)"
  by (simp add: keeps_def)

lemma keeps_bindM [keeps_intros]:
  assumes "keeps I m" and "\<And>x. keeps I (f x)"
  shows "keeps I (bindM m f)"
  using assms by (auto simp: keeps_def bindM_def split: prod.split sum.split)

text \<open>The same when the continuation needs to know how its argument came about.\<close>

lemma keeps_bindM_result:
  assumes "keeps I m" and "\<And>x w w'. I w \<Longrightarrow> m w = (Inr x, w') \<Longrightarrow> I (after (f x w'))"
  shows "keeps I (bindM m f)"
proof (rule keepsI)
  fix w assume w: "I w"
  show "I (after (bindM m f w))"
  proof (cases "m w")
    case (Pair r w')
    then show ?thesis
      using assms keeps_run [OF assms(1) w Pair] w by (cases r) (auto simp: bindM_def)
  qed
qed

lemma keeps_liftE_bindM:
  assumes "\<And>x. r = Inr x \<Longrightarrow> keeps I (f x)"
  shows "keeps I (bindM (liftE r) f)"
  using assms by (cases r) (auto simp: keeps_def bindM_def)

lemma keeps_whenM [keeps_intros]: "(c \<Longrightarrow> keeps I m) \<Longrightarrow> keeps I (whenM c m)"
  by (cases c) (simp_all add: keeps_retM)

lemma keeps_if [keeps_intros]:
  "(c \<Longrightarrow> keeps I m) \<Longrightarrow> (\<not> c \<Longrightarrow> keeps I n) \<Longrightarrow> keeps I (if c then m else n)"
  by simp

lemma keeps_case_option [keeps_intros]:
  "(x = None \<Longrightarrow> keeps I m) \<Longrightarrow> (\<And>y. x = Some y \<Longrightarrow> keeps I (f y)) \<Longrightarrow>
   keeps I (case x of None \<Rightarrow> m | Some y \<Rightarrow> f y)"
  by (cases x) simp_all

section \<open>Python strings\<close>

text \<open>A Python string with code points below 256; \<open>str.isspace\<close> on them.\<close>

definition py_space :: "char \<Rightarrow> bool" where
  "py_space c \<longleftrightarrow> (let n = (of_char c :: nat)
     in (9 \<le> n \<and> n \<le> 13) \<or> (28 \<le> n \<and> n \<le> 32) \<or> n = 133 \<or> n = 160)"

definition py_strip :: "string \<Rightarrow> string" where
  "py_strip s = rev (dropWhile py_space (rev (dropWhile py_space s)))"

lemma py_strip_Nil [simp]: "py_strip [] = []"
  by (simp add: py_strip_def)

lemma py_strip_eq_Nil_iff: "py_strip s = [] \<longleftrightarrow> (\<forall>c \<in> set s. py_space c)"
proof
  assume "py_strip s = []"
  then have "\<forall>c \<in> set (dropWhile py_space s). py_space c"
    by (simp add: py_strip_def)
  then have "dropWhile py_space s = []"
    by (metis hd_dropWhile list.set_sel(1))
  then show "\<forall>c \<in> set s. py_space c" by simp
next
  assume "\<forall>c \<in> set s. py_space c"
  then have "dropWhile py_space s = []" by simp
  then show "py_strip s = []" unfolding py_strip_def by (simp only: rev.simps dropWhile.simps)
qed

lemma set_py_strip: "set (py_strip s) \<subseteq> set s"
proof
  fix c assume "c \<in> set (py_strip s)"
  then have "c \<in> set (dropWhile py_space (rev (dropWhile py_space s)))"
    unfolding py_strip_def by (simp only: set_rev)
  then have "c \<in> set (rev (dropWhile py_space s))"
    by (rule set_dropWhileD)
  then have "c \<in> set (dropWhile py_space s)" by (simp only: set_rev)
  then show "c \<in> set s" by (rule set_dropWhileD)
qed

lemma dropWhile_idle: "xs = [] \<or> \<not> P (hd xs) \<Longrightarrow> dropWhile P xs = xs"
  by (cases xs) auto

lemma dropWhile_suffix: "\<exists>ys. xs = ys @ dropWhile P xs"
  by (metis takeWhile_dropWhile_id)

lemma hd_prefix_dropWhile: "dropWhile P xs = zs @ ys \<Longrightarrow> zs = [] \<or> \<not> P (hd zs)"
  by (metis append_is_Nil_conv hd_append2 hd_dropWhile)

lemma py_strip_idem [simp]: "py_strip (py_strip s) = py_strip s"
proof -
  define a where "a = dropWhile py_space s"
  define b where "b = dropWhile py_space (rev a)"
  obtain ys where "rev a = ys @ b"
    unfolding b_def using dropWhile_suffix [of "rev a" py_space] by blast
  then have "dropWhile py_space s = rev b @ rev ys"
    unfolding a_def by (metis rev_append rev_rev_ident)
  then have "dropWhile py_space (rev b) = rev b"
    by (intro dropWhile_idle hd_prefix_dropWhile)
  moreover have "dropWhile py_space b = b"
    unfolding b_def by (rule dropWhile_idem)
  ultimately show ?thesis
    unfolding py_strip_def a_def [symmetric] b_def [symmetric] by (simp only: rev_rev_ident)
qed

text \<open>
  \<open>s.upper()\<close>. The two code points below 256 whose upper case lies above 255 (micro sign and
  y with diaeresis) are left unchanged.
\<close>

definition upper_char :: "char \<Rightarrow> string" where
  "upper_char c = (let n = (of_char c :: nat) in
     if (97 \<le> n \<and> n \<le> 122) \<or> (224 \<le> n \<and> n \<le> 254 \<and> n \<noteq> 247) then [char_of (n - 32)]
     else if n = 223 then ''SS'' else [c])"

definition py_upper :: "string \<Rightarrow> string" where
  "py_upper s = concat (map upper_char s)"

text \<open>\<open>s.startswith(p)\<close> and \<open>x or y\<close> on optional strings (an empty string is false).\<close>

definition starts_with :: "string \<Rightarrow> string \<Rightarrow> bool" where
  "starts_with s p \<longleftrightarrow> take (length p) s = p"

definition truthy :: "string option \<Rightarrow> bool" where
  "truthy x \<longleftrightarrow> (case x of None \<Rightarrow> False | Some s \<Rightarrow> s \<noteq> [])"

lemma truthy_simps [simp]: "truthy None = False" "truthy (Some s) = (s \<noteq> [])"
  by (simp_all add: truthy_def)

definition or_str :: "string option \<Rightarrow> string option \<Rightarrow> string option" where
  "or_str x y = (if truthy x then x else y)"

definition or_opt :: "'a option \<Rightarrow> 'a option \<Rightarrow> 'a option" where
  "or_opt x y = (case x of None \<Rightarrow> y | Some v \<Rightarrow> Some v)"

lemma or_opt_simps [simp]: "or_opt None y = y" "or_opt (Some v) y = Some v"
  by (simp_all add: or_opt_def)

lemma or_opt_None_iff [simp]: "or_opt x y = None \<longleftrightarrow> x = None \<and> y = None"
  by (cases x) simp_all

text \<open>\<open>str(n)\<close> for an integer.\<close>

fun str_nat :: "nat \<Rightarrow> string" where
  "str_nat n = (if n < 10 then [char_of (48 + n)] else str_nat (n div 10) @ [char_of (48 + n mod 10)])"

declare str_nat.simps [simp del]

definition str_int :: "int \<Rightarrow> string" where
  "str_int i = (if i < 0 then CHR ''-'' # str_nat (nat (- i)) else str_nat (nat i))"

section \<open>Python dictionaries\<close>

text \<open>\<open>d[k]\<close>, and \<open>d.update(other)\<close>: a key keeps its place, a new key goes to the end.\<close>

type_synonym ('k, 'v) dict = "('k \<times> 'v) list"

definition dict_update :: "('k, 'v) dict \<Rightarrow> ('k, 'v) dict \<Rightarrow> ('k, 'v) dict" where
  "dict_update d other = fold (\<lambda>(k, v) acc. AList.update k v acc) other d"

lemma dict_update_Nil [simp]: "dict_update d [] = d"
  by (simp add: dict_update_def)

lemma dict_update_Cons [simp]: "dict_update d ((k, v) # o') = dict_update (AList.update k v d) o'"
  by (simp add: dict_update_def)

lemma keys_dict_update: "fst ` set (dict_update d o') = fst ` set d \<union> fst ` set o'"
proof (induction o' arbitrary: d)
  case (Cons kv o')
  then show ?case by (cases kv) (auto simp: dom_update)
qed simp

text \<open>The first row that fits.\<close>

lemma find_Some_member: "List.find p xs = Some x \<Longrightarrow> x \<in> set xs \<and> p x"
  by (auto simp: find_Some_iff)

lemma find_append: "List.find p (xs @ ys) = (case List.find p xs of None \<Rightarrow> List.find p ys | Some x \<Rightarrow> Some x)"
  by (induction xs) auto

end
