(* ===== verification/DocTypes.thy ===== *)
theory DocTypes
  imports Prelude
begin

text \<open>
  The data of the documents module (\<open>modules/documents/contracts.py\<close>,
  \<open>modules/documents/errors.py\<close>). Enumerations are datatypes with the source's members,
  frozen dataclasses are records, and the exceptions of the module are one datatype whose
  constructors carry the message; \<open>IntegrityError\<close> is the exception of the database
  driver for a violated table constraint. Record fields have a short prefix (\<open>v_\<close> version state,
  \<open>p_\<close> workflow profile, \<open>h_\<close> header, \<open>a_\<close> artifact) because field names are shared by
  several dataclasses of the source. A timezone-aware \<open>datetime\<close> is an \<open>int\<close> (microseconds
  of UTC), a \<open>timedelta(days=n)\<close> is \<open>n * day\<close>.
\<close>

section \<open>Errors\<close>

datatype doc_error =
    InvalidTransitionError string
  | PermissionDeniedError string
  | ValidationError string
  | SignatureTransitionError string
  | DocumentConflictError
  | HeaderConflictError
  | CommentConflictError
  | IntegrityError string

section \<open>Enumerations\<close>

datatype system_role = USER | ADMIN | QMB

datatype doc_status = PLANNED | DRAFT | IN_PROGRESS | IN_REVIEW | IN_APPROVAL | APPROVED | ARCHIVED

fun status_value :: "doc_status \<Rightarrow> string" where
  "status_value PLANNED = ''PLANNED''"
| "status_value DRAFT = ''DRAFT''"
| "status_value IN_PROGRESS = ''IN_PROGRESS''"
| "status_value IN_REVIEW = ''IN_REVIEW''"
| "status_value IN_APPROVAL = ''IN_APPROVAL''"
| "status_value APPROVED = ''APPROVED''"
| "status_value ARCHIVED = ''ARCHIVED''"

lemma status_value_inject [simp]: "status_value s = status_value t \<longleftrightarrow> s = t"
  by (cases s; cases t) simp_all

definition all_statuses :: "doc_status list" where
  "all_statuses = [PLANNED, DRAFT, IN_PROGRESS, IN_REVIEW, IN_APPROVAL, APPROVED, ARCHIVED]"

lemma set_all_statuses [simp]: "s \<in> set all_statuses"
  by (cases s) (simp_all add: all_statuses_def)

text \<open>\<open>DocumentStatus(value)\<close>: \<open>None\<close> is the \<open>ValueError\<close> of an unknown value.\<close>

definition status_of_value :: "string \<Rightarrow> doc_status option" where
  "status_of_value v = List.find (\<lambda>s. status_value s = v) all_statuses"

lemma status_of_value_status_value [simp]: "status_of_value (status_value s) = Some s"
  by (cases s) (simp_all add: status_of_value_def all_statuses_def)

lemma status_of_value_eq_Some [simp]: "status_of_value v = Some s \<longleftrightarrow> v = status_value s"
proof
  assume "status_of_value v = Some s"
  then show "v = status_value s"
    by (auto simp: status_of_value_def find_Some_iff)
qed simp

definition is_editor_phase :: "doc_status \<Rightarrow> bool" where
  "is_editor_phase s \<longleftrightarrow> s \<in> {IN_PROGRESS, DRAFT}"

datatype doc_type = VA | AA | FB | LS | EXT | OTHER

datatype control_class = CONTROLLED | CONTROLLED_SHORT | EXTERNAL | RECORD

definition control_class_for :: "doc_type \<Rightarrow> control_class" where
  "control_class_for t = (if t = EXT then EXTERNAL else CONTROLLED)"

datatype artifact_type =
    SOURCE_DOCX | SOURCE_PDF | REVIEW_PDF | SIGNED_PDF | RELEASED_PDF
  | SUPERSEDED_RELEASED_PDF | ATTACHMENT | COMMENT_EXPORT

datatype artifact_source_type =
    IMPORT_PDF | IMPORT_DOCX | TEMPLATE_DOTX | TEMPLATE_DOCX | TEMPLATE_DOCT | GENERATED

datatype extension_outcome = UNCHANGED | EDITORIAL | NEW_VERSION_REQUIRED

fun outcome_value :: "extension_outcome \<Rightarrow> string" where
  "outcome_value UNCHANGED = ''unchanged''"
| "outcome_value EDITORIAL = ''editorial''"
| "outcome_value NEW_VERSION_REQUIRED = ''new_version_required''"

datatype comment_context = DOCX_EDIT | PDF_REVIEW | PDF_APPROVAL

datatype comment_source_kind = DOCX_EXTRACTED | PDF_APP | PDF_IMPORTED

datatype comment_status = ACTIVE | RESOLVED | INACTIVE

section \<open>Values of custom fields\<close>

text \<open>
  A Python value as far as the code looks at it. \<open>PyOther\<close> is a value of any other type,
  with the type's name; a float is kept by its text, which the code never inspects.
\<close>

datatype pyval =
    PyNone
  | PyStr string
  | PyInt int
  | PyFloat string
  | PyBool bool
  | PyList "pyval list"
  | PyDict "(pyval \<times> pyval) list"
  | PyOther string

section \<open>Dataclasses\<close>

type_synonym time = int

definition day :: time where
  "day = 24 * 60 * 60 * 1000000"

lemma day_pos [simp]: "0 < day"
  by (simp add: day_def)

record rejection_reason =
  rr_template_id :: "string option"
  rr_template_text :: "string option"
  rr_free_text :: "string option"

definition reason_is_valid :: "rejection_reason \<Rightarrow> bool" where
  "reason_is_valid r =
     (let template = py_strip (case rr_template_text r of None \<Rightarrow> [] | Some t \<Rightarrow> t);
          free = py_strip (case rr_free_text r of None \<Rightarrow> [] | Some t \<Rightarrow> t)
      in template \<noteq> [] \<or> free \<noteq> [])"

record workflow_profile =
  p_profile_id :: string
  p_label :: string
  p_phases :: "doc_status list"
  p_four_eyes_required :: bool
  p_control_class :: control_class
  p_signature_required_transitions :: "string list"
  p_requires_editors :: bool
  p_requires_reviewers :: bool
  p_requires_approvers :: bool
  p_allows_content_changes :: bool
  p_release_evidence_mode :: string

definition long_release_path :: workflow_profile where
  "long_release_path = \<lparr>
     p_profile_id = ''long_release'',
     p_label = ''Long release path'',
     p_phases = [IN_PROGRESS, IN_REVIEW, IN_APPROVAL, APPROVED],
     p_four_eyes_required = True,
     p_control_class = CONTROLLED,
     p_signature_required_transitions =
       [''IN_PROGRESS->IN_REVIEW'', ''IN_REVIEW->IN_APPROVAL'', ''IN_APPROVAL->APPROVED''],
     p_requires_editors = True,
     p_requires_reviewers = True,
     p_requires_approvers = True,
     p_allows_content_changes = True,
     p_release_evidence_mode = ''WORKFLOW''\<rparr>"

record doc_header =
  h_document_id :: string
  h_doc_type :: doc_type
  h_control_class :: control_class
  h_workflow_profile_id :: string
  h_register_binding :: bool
  h_department :: "string option"
  h_site :: "string option"
  h_regulatory_scope :: "string option"
  h_distribution_roles :: "string list"
  h_distribution_sites :: "string list"
  h_distribution_departments :: "string list"
  h_created_at :: time
  h_updated_at :: time

record workflow_assignments =
  as_editors :: "string set"
  as_reviewers :: "string set"
  as_approvers :: "string set"

definition no_assignments :: workflow_assignments where
  "no_assignments = \<lparr>as_editors = {}, as_reviewers = {}, as_approvers = {}\<rparr>"

record version_state =
  v_document_id :: string
  v_version :: int
  v_title :: string
  v_description :: "string option"
  v_doc_type :: doc_type
  v_control_class :: control_class
  v_workflow_profile_id :: string
  v_owner_user_id :: "string option"
  v_status :: doc_status
  v_workflow_active :: bool
  v_workflow_profile :: "workflow_profile option"
  v_assignments :: workflow_assignments
  v_reviewed_by :: "string set"
  v_approved_by :: "string set"
  v_edit_signature_done :: bool
  v_edit_signed_at :: "time option"
  v_edit_signed_by :: "string option"
  v_valid_from :: "time option"
  v_valid_until :: "time option"
  v_next_review_at :: "time option"
  v_review_completed_at :: "time option"
  v_review_completed_by :: "string option"
  v_approval_completed_at :: "time option"
  v_approval_completed_by :: "string option"
  v_released_at :: "time option"
  v_archived_at :: "time option"
  v_archived_by :: "string option"
  v_superseded_by_version :: "int option"
  v_extension_count :: int
  v_last_extended_at :: "time option"
  v_last_extended_by :: "string option"
  v_last_extension_reason :: "string option"
  v_last_extension_review_outcome :: "string option"
  v_custom_fields :: "(string, pyval) dict"
  v_last_event_id :: "string option"
  v_last_event_at :: "time option"
  v_last_actor_user_id :: "string option"
  v_created_at :: "time option"
  v_created_by :: "string option"
  v_updated_at :: "time option"

text \<open>
  The dataclass defaults, for a document id and a version number. The field
  \<open>available_actions\<close> of the source is filled in by the transport layer only and is left out.
\<close>

definition new_version_state :: "string \<Rightarrow> int \<Rightarrow> version_state" where
  "new_version_state doc ver = \<lparr>
     v_document_id = doc, v_version = ver, v_title = '''', v_description = None,
     v_doc_type = OTHER, v_control_class = CONTROLLED,
     v_workflow_profile_id = ''long_release'', v_owner_user_id = None,
     v_status = PLANNED, v_workflow_active = False, v_workflow_profile = None,
     v_assignments = no_assignments, v_reviewed_by = {}, v_approved_by = {},
     v_edit_signature_done = False, v_edit_signed_at = None, v_edit_signed_by = None,
     v_valid_from = None, v_valid_until = None, v_next_review_at = None,
     v_review_completed_at = None, v_review_completed_by = None,
     v_approval_completed_at = None, v_approval_completed_by = None,
     v_released_at = None, v_archived_at = None, v_archived_by = None,
     v_superseded_by_version = None, v_extension_count = 0,
     v_last_extended_at = None, v_last_extended_by = None,
     v_last_extension_reason = None, v_last_extension_review_outcome = None,
     v_custom_fields = [], v_last_event_id = None, v_last_event_at = None,
     v_last_actor_user_id = None, v_created_at = None, v_created_by = None,
     v_updated_at = None\<rparr>"

record doc_artifact =
  a_artifact_id :: string
  a_document_id :: string
  a_version :: int
  a_artifact_type :: artifact_type
  a_source_type :: artifact_source_type
  a_storage_key :: string
  a_original_filename :: string
  a_mime_type :: string
  a_sha256 :: string
  a_size_bytes :: int
  a_is_current :: bool
  a_metadata :: "(string, string) dict"
  a_created_at :: time

end
