(* ===== verification/Actors.thy ===== *)
theory Actors
  imports DocTypes
begin

text \<open>
  The identity of an actor: \<open>UserContext\<close> (\<open>modules/usermanagement/contracts.py\<close>), the guard
  \<open>require_confirmed_user_context\<close> (\<open>modules/usermanagement/api.py\<close>), the role predicates of
  \<open>modules/usermanagement/role_policies.py\<close>, and the mapping to a documents actor
  (\<open>modules/documents/actor_context.py\<close>). A \<open>UserContext\<close> has no attribute \<open>role\<close>, so
  \<open>is_effective_qmb\<close> of it is its flag; of a user record it is the base role or the flag.
\<close>

record user_context =
  u_user_id :: string
  u_session_id :: string
  u_request_id :: string
  u_organization_id :: string
  u_username :: string
  u_global_roles :: "string list"
  u_is_qmb :: bool
  u_confirmed :: bool

definition installation_organization_id :: string where
  "installation_organization_id = ''00000000-0000-4000-8000-000000000001''"

definition normalize_base_role :: "string option \<Rightarrow> string" where
  "normalize_base_role role = py_upper (py_strip (case role of None \<Rightarrow> [] | Some r \<Rightarrow> r))"

definition is_effective_qmb :: "string option \<Rightarrow> bool \<Rightarrow> bool" where
  "is_effective_qmb role is_qmb \<longleftrightarrow> normalize_base_role role = ''QMB'' \<or> is_qmb"

definition can_administer_users :: "user_context \<Rightarrow> bool" where
  "can_administer_users actor \<longleftrightarrow> u_confirmed actor \<and> ''ADMIN'' \<in> set (u_global_roles actor)"

text \<open>The guard; its \<open>AuthorizationError\<close> is the message on the left.\<close>

definition require_confirmed_user_context :: "user_context option \<Rightarrow> string + user_context" where
  "require_confirmed_user_context actor = (case actor of
       None \<Rightarrow> Inl ''confirmed UserContext is required''
     | Some c \<Rightarrow>
         bindE (raise_if (\<not> u_confirmed c) ''confirmed UserContext is required'') (\<lambda>_.
         bindE (raise_if (py_strip (u_user_id c) = []) ''user_id is required'') (\<lambda>_.
         bindE (raise_if (py_strip (u_session_id c) = []) ''session_id is required'') (\<lambda>_.
         bindE (raise_if (py_strip (u_request_id c) = []) ''request_id is required'') (\<lambda>_.
         bindE (raise_if (py_strip (u_organization_id c) = []) ''organization_id is required'') (\<lambda>_.
         bindE (raise_if (u_organization_id c \<noteq> installation_organization_id) ''organization_id is not server-confirmed'') (\<lambda>_.
         Inr c)))))))"

definition actor_user_and_role :: "user_context option \<Rightarrow> doc_error + string \<times> system_role" where
  "actor_user_and_role actor =
     (case require_confirmed_user_context actor of
        Inl _ \<Rightarrow> Inl (PermissionDeniedError ''confirmed UserContext is required'')
      | Inr context \<Rightarrow>
          let normalized_roles = set (map (\<lambda>r. py_upper (py_strip (normalize_base_role (Some r))))
                (filter (\<lambda>r. py_strip r \<noteq> []) (u_global_roles context)));
              role = (if is_effective_qmb None (u_is_qmb context) then QMB
                      else if ''ADMIN'' \<in> normalized_roles then ADMIN
                      else if ''QMB'' \<in> normalized_roles then QMB else USER);
              user_id = py_strip (u_user_id context)
          in bindE (raise_if (user_id = []) (PermissionDeniedError ''user_id is required'')) (\<lambda>_.
             Inr (user_id, role)))"

section \<open>Lemmas\<close>

lemma normalize_base_role_None [simp]: "normalize_base_role None = []"
  by (simp add: normalize_base_role_def py_upper_def)

lemma is_effective_qmb_context [simp]: "is_effective_qmb None q = q"
  by (simp add: is_effective_qmb_def)

lemma require_confirmed_Inr:
  "require_confirmed_user_context actor = Inr c \<longleftrightarrow> actor = Some c \<and> u_confirmed c \<and> py_strip (u_user_id c) \<noteq> [] \<and>
     py_strip (u_session_id c) \<noteq> [] \<and> py_strip (u_request_id c) \<noteq> [] \<and>
     py_strip (u_organization_id c) \<noteq> [] \<and> u_organization_id c = installation_organization_id"
  by (cases actor) (auto simp: require_confirmed_user_context_def)

lemma actor_user_and_role_confirmed:
  assumes "actor_user_and_role actor = Inr (uid, role)"
  shows "\<exists>c. actor = Some c \<and> u_confirmed c \<and> uid = py_strip (u_user_id c) \<and> uid \<noteq> [] \<and> py_strip uid = uid \<and>
    u_organization_id c = installation_organization_id"
proof -
  obtain c where c: "require_confirmed_user_context actor = Inr c"
    using assms by (cases "require_confirmed_user_context actor") (auto simp: actor_user_and_role_def)
  have "uid = py_strip (u_user_id c)" using assms c by (auto simp: actor_user_and_role_def Let_def)
  then show ?thesis using c by (auto simp: require_confirmed_Inr)
qed

end
