(* ===== verification/DocValidation.thy ===== *)
theory DocValidation
  imports DocTypes "HOL-Library.List_Lexorder" "HOL-Library.Char_ord"
begin

text \<open>
  The checks of \<open>modules/documents/validation.py\<close>: each \<open>assert_...\<close> or \<open>ensure_...\<close>
  function is a pure check that returns \<open>Inr ()\<close> or the exception it raises, with the
  source's order of tests. The lemmas characterise when each check passes; the properties at
  the end state what a passed check guarantees.
\<close>

section \<open>Custom fields\<close>

definition forbidden_custom_field_keys :: "string list" where
  "forbidden_custom_field_keys =
     [''status'', ''released_at'', ''approval_completed_at'', ''approval_completed_by'',
      ''review_completed_at'', ''review_completed_by'', ''document_id'', ''version'',
      ''archive'', ''assignments'', ''workflow_profile'', ''workflow_profile_id'',
      ''doc_type'', ''control_class'', ''register_state'', ''active_version'']"

definition forbidden_custom_field_prefixes :: "string list" where
  "forbidden_custom_field_prefixes = [''status.'', ''assignments.'', ''workflow.'', ''registry.'']"

definition ascii_alnum :: "char \<Rightarrow> bool" where
  "ascii_alnum c \<longleftrightarrow> (let n = (of_char c :: nat)
     in (48 \<le> n \<and> n \<le> 57) \<or> (65 \<le> n \<and> n \<le> 90) \<or> (97 \<le> n \<and> n \<le> 122))"

text \<open>
  \<open>re.compile("^[a-zA-Z0-9_.-]{1,64}$").match(key)\<close>. In Python \<open>$\<close> also matches just
  before a final newline, so one trailing newline is tolerated.
\<close>

definition newline :: char where
  "newline = CHR 0x0A"

definition key_char :: "char \<Rightarrow> bool" where
  "key_char c \<longleftrightarrow> ascii_alnum c \<or> c \<in> {CHR ''_'', CHR ''.'', CHR ''-''}"

definition allowed_custom_field_key :: "string \<Rightarrow> bool" where
  "allowed_custom_field_key key =
     (let body = (if key \<noteq> [] \<and> last key = newline then butlast key else key)
      in 1 \<le> length body \<and> length body \<le> 64 \<and> list_all key_char body)"

definition public_id_char :: "char \<Rightarrow> bool" where
  "public_id_char c \<longleftrightarrow> ascii_alnum c \<or> c \<in> {CHR ''.'', CHR ''_'', CHR ''~'', CHR ''-''}"

definition assert_new_document_id_safe :: "string \<Rightarrow> doc_error + unit" where
  "assert_new_document_id_safe document_id =
     bindE (raise_if (py_strip document_id = []) (ValidationError ''document_id is required'')) (\<lambda>_.
       raise_if (\<not> (document_id \<noteq> [] \<and> list_all public_id_char document_id))
         (ValidationError ''new document_id must contain only URL-unreserved ASCII characters''))"

text \<open>\<open>_assert_custom_field_value_safe\<close>: JSON-like values only, recursively.\<close>

fun assert_custom_field_value_safe :: "pyval \<Rightarrow> string \<Rightarrow> doc_error + unit" where
  "assert_custom_field_value_safe PyNone key = Inr ()"
| "assert_custom_field_value_safe (PyStr s) key = Inr ()"
| "assert_custom_field_value_safe (PyInt i) key = Inr ()"
| "assert_custom_field_value_safe (PyFloat f) key = Inr ()"
| "assert_custom_field_value_safe (PyBool b) key = Inr ()"
| "assert_custom_field_value_safe (PyList items) key =
     check_all (\<lambda>item. assert_custom_field_value_safe item key) items"
| "assert_custom_field_value_safe (PyDict entries) key =
     check_all (\<lambda>e. bindE
         (raise_if (\<not> (case fst e of PyStr _ \<Rightarrow> True | _ \<Rightarrow> False))
            (ValidationError (''custom field '' @ key @ '' contains non-string nested key'')))
         (\<lambda>_. assert_custom_field_value_safe (snd e) key)) entries"
| "assert_custom_field_value_safe (PyOther t) key =
     Inl (ValidationError (''custom field '' @ key @ '' contains unsupported value type '' @ t))"

definition assert_custom_fields_safe :: "(string, pyval) dict \<Rightarrow> doc_error + unit" where
  "assert_custom_fields_safe custom =
     bindE (raise_if (list_ex (\<lambda>e. fst e \<in> set forbidden_custom_field_keys) custom)
              (ValidationError ''custom fields must not override steering fields'')) (\<lambda>_.
     check_all (\<lambda>e.
       bindE (raise_if (\<not> allowed_custom_field_key (fst e))
                (ValidationError (''custom field key '' @ fst e @ '' is invalid''))) (\<lambda>_.
       bindE (raise_if (list_ex (starts_with (fst e)) forbidden_custom_field_prefixes)
                (ValidationError (''custom field key '' @ fst e @ '' uses forbidden steering prefix''))) (\<lambda>_.
       assert_custom_field_value_safe (snd e) (fst e)))) custom)"

section \<open>Version states and profiles\<close>

definition lt_opt :: "time option \<Rightarrow> time option \<Rightarrow> bool" where
  "lt_opt a b \<longleftrightarrow> (case (a, b) of (Some x, Some y) \<Rightarrow> x < y | _ \<Rightarrow> False)"

definition assert_state_invariants :: "version_state \<Rightarrow> doc_error + unit" where
  "assert_state_invariants state =
     bindE (raise_if (v_extension_count state < 0 \<or> v_extension_count state > 3)
       (ValidationError ''extension_count must be between 0 and 3'')) (\<lambda>_.
     bindE (raise_if (v_status state \<notin> {APPROVED, ARCHIVED} \<and> v_extension_count state \<noteq> 0)
       (ValidationError ''extension_count may only be > 0 for APPROVED or ARCHIVED status'')) (\<lambda>_.
     bindE (raise_if (v_review_completed_at state \<noteq> None \<and> v_review_completed_by state = None)
       (ValidationError ''review_completed_by must be set when review_completed_at is set'')) (\<lambda>_.
     bindE (raise_if (v_approval_completed_at state \<noteq> None \<and> v_approval_completed_by state = None)
       (ValidationError ''approval_completed_by must be set when approval_completed_at is set'')) (\<lambda>_.
     bindE (raise_if (v_edit_signed_at state \<noteq> None \<and> v_edit_signed_by state = None)
       (ValidationError ''edit_signed_by must be set when edit_signed_at is set'')) (\<lambda>_.
     bindE (raise_if (v_released_at state \<noteq> None \<and> v_approval_completed_at state = None)
       (ValidationError ''released_at requires approval_completed_at'')) (\<lambda>_.
     bindE (raise_if (v_archived_at state \<noteq> None \<and> v_status state \<noteq> ARCHIVED)
       (ValidationError ''archived_at may only be set for ARCHIVED status'')) (\<lambda>_.
     bindE (raise_if (v_status state \<noteq> ARCHIVED \<and> v_archived_by state \<noteq> None)
       (ValidationError ''archived_by may only be set for ARCHIVED status'')) (\<lambda>_.
     bindE (raise_if (lt_opt (v_valid_until state) (v_valid_from state))
       (ValidationError ''valid_until must be greater than or equal to valid_from'')) (\<lambda>_.
     raise_if (lt_opt (v_next_review_at state) (v_valid_from state))
       (ValidationError ''next_review_at must be greater than or equal to valid_from''))))))))))"

definition assert_profile :: "workflow_profile \<Rightarrow> doc_error + unit" where
  "assert_profile profile =
     bindE (raise_if (p_phases profile = [])
       (ValidationError ''workflow profile requires at least one phase'')) (\<lambda>_.
     bindE (raise_if (hd (p_phases profile) \<noteq> IN_PROGRESS)
       (ValidationError ''workflow profile must start with IN_PROGRESS'')) (\<lambda>_.
     raise_if (last (p_phases profile) \<noteq> APPROVED)
       (ValidationError ''workflow profile must end with APPROVED'')))"

definition assert_rejection_reason :: "rejection_reason \<Rightarrow> doc_error + unit" where
  "assert_rejection_reason reason =
     raise_if (\<not> reason_is_valid reason)
       (ValidationError ''rejection reason requires template text and/or free text'')"

definition assert_active_profile :: "version_state \<Rightarrow> doc_error + unit" where
  "assert_active_profile state =
     bindE (raise_if (\<not> v_workflow_active state)
       (InvalidTransitionError ''workflow is not active'')) (\<lambda>_.
     raise_if (v_workflow_profile state = None)
       (ValidationError ''workflow profile is missing''))"

definition assert_assignments_for_profile :: "version_state \<Rightarrow> workflow_profile \<Rightarrow> doc_error + unit" where
  "assert_assignments_for_profile state profile =
     bindE (raise_if (p_requires_editors profile \<and> as_editors (v_assignments state) = {})
       (ValidationError ''workflow-start requires at least one editor for this profile'')) (\<lambda>_.
     bindE (raise_if (p_requires_reviewers profile \<and> as_reviewers (v_assignments state) = {})
       (ValidationError ''workflow-start requires at least one reviewer for this profile'')) (\<lambda>_.
     bindE (raise_if (p_requires_approvers profile \<and> as_approvers (v_assignments state) = {})
       (ValidationError ''workflow-start requires at least one approver for this profile'')) (\<lambda>_.
     raise_if (v_control_class state = EXTERNAL \<and>
         (as_editors (v_assignments state) \<noteq> {} \<or> as_reviewers (v_assignments state) \<noteq> {} \<or>
          as_approvers (v_assignments state) \<noteq> {}))
       (ValidationError ''external documents must not have internal workflow assignments''))))"

fun phase_index :: "doc_status list \<Rightarrow> doc_status \<Rightarrow> nat option" where
  "phase_index [] current = None"
| "phase_index (p # ps) current =
     (if p = current then Some 0 else map_option Suc (phase_index ps current))"

definition next_status_from_profile :: "workflow_profile option \<Rightarrow> doc_status \<Rightarrow> doc_error + doc_status" where
  "next_status_from_profile profile current =
     (case profile of
        None \<Rightarrow> Inl (ValidationError ''workflow profile is required'')
      | Some p \<Rightarrow>
          (case phase_index (p_phases p) current of
             None \<Rightarrow> Inl (ValidationError (''profile does not contain current status '' @ status_value current))
           | Some idx \<Rightarrow>
               if length (p_phases p) - 1 \<le> idx
               then Inl (InvalidTransitionError ''current status is already terminal in profile'')
               else Inr (p_phases p ! (idx + 1))))"

section \<open>Authorisation checks\<close>

definition ensure_owner_or_privileged :: "version_state \<Rightarrow> string \<Rightarrow> system_role \<Rightarrow> doc_error + unit" where
  "ensure_owner_or_privileged state actor_user_id actor_role =
     (if actor_role = QMB then Inr ()
      else if v_owner_user_id state = Some actor_user_id then Inr ()
      else Inl (PermissionDeniedError ''only owner or QMB may execute this action''))"

definition ensure_editor_or_owner_or_privileged :: "version_state \<Rightarrow> string \<Rightarrow> system_role \<Rightarrow> doc_error + unit" where
  "ensure_editor_or_owner_or_privileged state actor_user_id actor_role =
     (if actor_role = QMB then Inr ()
      else if v_owner_user_id state = Some actor_user_id then Inr ()
      else if actor_user_id \<in> as_editors (v_assignments state) then Inr ()
      else Inl (PermissionDeniedError ''only assigned editors, owner, or QMB may complete editing''))"

definition ensure_assignment_update_allowed ::
  "version_state \<Rightarrow> string \<Rightarrow> system_role \<Rightarrow> string set \<Rightarrow> string set \<Rightarrow> string set \<Rightarrow> doc_error + unit" where
  "ensure_assignment_update_allowed state actor_user_id actor_role new_editors new_reviewers new_approvers =
     (if actor_role = USER then
        bindE (raise_if (v_owner_user_id state \<noteq> Some actor_user_id)
          (PermissionDeniedError ''owner required for role updates'')) (\<lambda>_.
        raise_if (v_edit_signature_done state)
          (PermissionDeniedError ''owner cannot update roles after first edit signature''))
      else if actor_role = QMB then
        bindE (raise_if (v_status state \<in> {IN_REVIEW, IN_APPROVAL, APPROVED, ARCHIVED}
                         \<and> new_editors \<noteq> as_editors (v_assignments state))
          (PermissionDeniedError ''QMB cannot change editor roles after review phase started'')) (\<lambda>_.
        bindE (raise_if (v_status state \<in> {IN_APPROVAL, APPROVED, ARCHIVED}
                         \<and> new_reviewers \<noteq> as_reviewers (v_assignments state))
          (PermissionDeniedError ''QMB cannot change reviewer roles after approval phase started'')) (\<lambda>_.
        raise_if (v_status state \<in> {APPROVED, ARCHIVED}
                  \<and> new_approvers \<noteq> as_approvers (v_assignments state))
          (PermissionDeniedError ''QMB cannot change approver roles after approval completed'')))
      else Inl (PermissionDeniedError ''unsupported role for role updates''))"

section \<open>Change requests\<close>

text \<open>\<open>tuple(sorted({v.strip() for v in xs if str(v).strip()}))\<close>, also used for headers.\<close>

definition sorted_stripped_set :: "string list \<Rightarrow> string list" where
  "sorted_stripped_set xs = sort (remdups (filter (\<lambda>v. v \<noteq> []) (map py_strip xs)))"

definition validate_change_request_input ::
  "string \<Rightarrow> string \<Rightarrow> string list \<Rightarrow> doc_error + (string \<times> string \<times> string list)" where
  "validate_change_request_input change_id reason impact_refs =
     bindE (raise_if (py_strip change_id = []) (ValidationError ''change_id is required'')) (\<lambda>_.
     bindE (raise_if (py_strip reason = []) (ValidationError ''reason is required'')) (\<lambda>_.
     Inr (py_strip change_id, py_strip reason, sorted_stripped_set impact_refs)))"

section \<open>What a passed check guarantees\<close>

text \<open>The consistency of a stored version state, read off \<open>assert_state_invariants\<close>.\<close>

definition state_consistent :: "version_state \<Rightarrow> bool" where
  "state_consistent st \<longleftrightarrow>
     0 \<le> v_extension_count st \<and> v_extension_count st \<le> 3 \<and>
     (v_extension_count st \<noteq> 0 \<longrightarrow> v_status st \<in> {APPROVED, ARCHIVED}) \<and>
     (v_review_completed_at st \<noteq> None \<longrightarrow> v_review_completed_by st \<noteq> None) \<and>
     (v_approval_completed_at st \<noteq> None \<longrightarrow> v_approval_completed_by st \<noteq> None) \<and>
     (v_edit_signed_at st \<noteq> None \<longrightarrow> v_edit_signed_by st \<noteq> None) \<and>
     (v_released_at st \<noteq> None \<longrightarrow> v_approval_completed_at st \<noteq> None) \<and>
     (v_archived_at st \<noteq> None \<longrightarrow> v_status st = ARCHIVED) \<and>
     (v_status st \<noteq> ARCHIVED \<longrightarrow> v_archived_by st = None) \<and>
     \<not> lt_opt (v_valid_until st) (v_valid_from st) \<and>
     \<not> lt_opt (v_next_review_at st) (v_valid_from st)"

lemma lt_opt_None [simp]: "\<not> lt_opt None b" "\<not> lt_opt a None"
  by (simp_all add: lt_opt_def split: option.split)

lemma lt_opt_Some [simp]: "lt_opt (Some x) (Some y) \<longleftrightarrow> x < y"
  by (simp add: lt_opt_def)

lemma assert_state_invariants_iff:
  "assert_state_invariants st = Inr u \<longleftrightarrow> state_consistent st"
  unfolding assert_state_invariants_def state_consistent_def bindE_raise_if raise_if_eq_Inr
    not_less de_Morgan_disj de_Morgan_conj not_not imp_conv_disj conj_assoc
  by (simp only: disj_commute)

lemma assert_profile_iff:
  "assert_profile p = Inr u \<longleftrightarrow>
     p_phases p \<noteq> [] \<and> hd (p_phases p) = IN_PROGRESS \<and> last (p_phases p) = APPROVED"
  by (auto simp: assert_profile_def)

lemma assert_rejection_reason_iff [simp]:
  "assert_rejection_reason r = Inr u \<longleftrightarrow> reason_is_valid r"
  by (simp add: assert_rejection_reason_def)

lemma assert_active_profile_iff [simp]:
  "assert_active_profile st = Inr u \<longleftrightarrow> v_workflow_active st \<and> v_workflow_profile st \<noteq> None"
  by (auto simp: assert_active_profile_def)

lemma ensure_owner_or_privileged_iff:
  "ensure_owner_or_privileged st a r = Inr u \<longleftrightarrow> r = QMB \<or> v_owner_user_id st = Some a"
  by (auto simp: ensure_owner_or_privileged_def)

lemma ensure_editor_or_owner_or_privileged_iff:
  "ensure_editor_or_owner_or_privileged st a r = Inr u \<longleftrightarrow>
     r = QMB \<or> v_owner_user_id st = Some a \<or> a \<in> as_editors (v_assignments st)"
  by (auto simp: ensure_editor_or_owner_or_privileged_def)

lemma phase_index_Some:
  "phase_index ps c = Some i \<longleftrightarrow> i < length ps \<and> ps ! i = c \<and> c \<notin> set (take i ps)"
proof (induction ps arbitrary: i)
  case (Cons p ps)
  then show ?case by (cases i) auto
qed simp

lemma phase_index_None [simp]: "phase_index ps c = None \<longleftrightarrow> c \<notin> set ps"
  by (induction ps) auto

text \<open>\<open>next_status_from_profile\<close> is the successor of the first occurrence in the phase list.\<close>

lemma next_status_from_profile_Some:
  "next_status_from_profile (Some p) c = Inr n \<longleftrightarrow>
     (\<exists>pre post. p_phases p = pre @ c # n # post \<and> c \<notin> set pre)"
proof
  assume "next_status_from_profile (Some p) c = Inr n"
  then obtain i where i: "phase_index (p_phases p) c = Some i"
    "\<not> length (p_phases p) - 1 \<le> i" "n = p_phases p ! (i + 1)"
    by (auto simp: next_status_from_profile_def split: option.splits if_splits)
  then have len: "Suc i < length (p_phases p)" and nth: "p_phases p ! i = c"
    and new: "c \<notin> set (take i (p_phases p))"
    by (auto simp: phase_index_Some)
  have "p_phases p = take i (p_phases p) @ c # n # drop (Suc (Suc i)) (p_phases p)"
    using len nth i(3) by (metis Cons_nth_drop_Suc Suc_eq_plus1 Suc_lessD append_take_drop_id)
  with new show "\<exists>pre post. p_phases p = pre @ c # n # post \<and> c \<notin> set pre" by blast
next
  assume "\<exists>pre post. p_phases p = pre @ c # n # post \<and> c \<notin> set pre"
  then obtain pre post where eq: "p_phases p = pre @ c # n # post" and new: "c \<notin> set pre"
    by blast
  have "phase_index (p_phases p) c = Some (length pre)"
    using new by (simp add: phase_index_Some eq)
  then show "next_status_from_profile (Some p) c = Inr n"
    by (simp add: next_status_from_profile_def eq nth_append)
qed

lemma set_sorted_stripped_set [simp]:
  "set (sorted_stripped_set xs) = {py_strip x |x. x \<in> set xs \<and> py_strip x \<noteq> []}"
  by (auto simp: sorted_stripped_set_def)

lemma sorted_sorted_stripped_set [simp]:
  "sorted (sorted_stripped_set xs)" "distinct (sorted_stripped_set xs)"
  by (simp_all add: sorted_stripped_set_def)

end
