(* ===== verification/ProfileStore.thy ===== *)
theory ProfileStore
  imports DocValidation
begin

text \<open>
  The relational workflow profiles of \<open>modules/documents/workflow_profile_store.py\<close> and the
  vocabulary adapter \<open>workflow_profile_runtime_adapter.py\<close>: a profile version is a list of
  transitions between status names; \<open>_validate_definition\<close> accepts it, and
  \<open>to_runtime_profile\<close> turns it into the phase list the workflow engine runs. The tables
  \<open>workflow_profile_definitions\<close>, \<open>workflow_profile_versions\<close> (with their transitions) and
  \<open>document_type_definitions\<close> are the record \<open>profile_db\<close>; the methods of
  \<open>WorkflowProfileRelationalStore\<close> are methods over it. Hashes, change reasons and the audit
  columns of the tables are left out: nothing reads them back into a decision.
\<close>

section \<open>Adapter\<close>

definition normalize_legacy_status_for_storage :: "string \<Rightarrow> string" where
  "normalize_legacy_status_for_storage status =
     (let value = py_upper (py_strip status)
      in if value = ''IN_PROGRESS'' then ''DRAFT'' else value)"

text \<open>On a \<open>DocumentStatus\<close>, and on a string (\<open>None\<close> is the \<open>ValueError\<close> of an unknown name).\<close>

definition runtime_status :: "doc_status \<Rightarrow> doc_status" where
  "runtime_status s = (if s = DRAFT then IN_PROGRESS else s)"

definition runtime_status_from_relational :: "string \<Rightarrow> doc_status option" where
  "runtime_status_from_relational status =
     (let value = py_upper (py_strip status)
      in if value = ''DRAFT'' then Some IN_PROGRESS else status_of_value value)"

definition transition_key :: "doc_status \<Rightarrow> doc_status \<Rightarrow> string" where
  "transition_key a b = status_value a @ ''->'' @ status_value b"

definition runtime_transition_key_from_relational :: "string \<Rightarrow> string \<Rightarrow> string option" where
  "runtime_transition_key_from_relational from_status to_status =
     (case (runtime_status_from_relational from_status, runtime_status_from_relational to_status) of
        (Some a, Some b) \<Rightarrow> Some (transition_key a b)
      | _ \<Rightarrow> None)"

section \<open>Definitions\<close>

record profile_transition =
  t_transition_no :: int
  t_from_status :: string
  t_to_status :: string
  t_required_role :: string
  t_decision_policy :: string
  t_signature_required :: bool
  t_four_eyes_required :: bool
  t_revoke_if_changed :: bool
  t_deadline_seconds :: "int option"
  t_is_enabled :: bool

record profile_definition =
  d_profile_code :: string
  d_label :: string
  d_control_class :: control_class
  d_release_evidence_mode :: string
  d_requires_editors :: bool
  d_requires_reviewers :: bool
  d_requires_approvers :: bool
  d_allows_content_changes :: bool
  d_transitions :: "profile_transition list"

definition enabled_transitions :: "profile_definition \<Rightarrow> profile_transition list" where
  "enabled_transitions d = filter t_is_enabled (d_transitions d)"

definition four_eyes_required :: "profile_definition \<Rightarrow> bool" where
  "four_eyes_required d = list_ex t_four_eyes_required (enabled_transitions d)"

text \<open>
  \<open>to_runtime_profile\<close>: \<open>DRAFT\<close> and the targets of the enabled transitions, adjacent
  duplicates removed, \<open>DRAFT\<close> renamed; \<open>None\<close> is the \<open>ValueError\<close> of \<open>DocumentStatus\<close>.
\<close>

definition to_runtime_profile :: "profile_definition \<Rightarrow> workflow_profile option" where
  "to_runtime_profile d =
     (case (those (map (\<lambda>t. status_of_value (t_to_status t)) (enabled_transitions d)),
            those (map (\<lambda>t. runtime_transition_key_from_relational (t_from_status t) (t_to_status t))
                     (filter t_signature_required (enabled_transitions d)))) of
        (Some targets, Some sigs) \<Rightarrow> Some \<lparr>
          p_profile_id = d_profile_code d,
          p_label = d_label d,
          p_phases = map runtime_status (remdups_adj (DRAFT # targets)),
          p_four_eyes_required = four_eyes_required d,
          p_control_class = d_control_class d,
          p_signature_required_transitions = sigs,
          p_requires_editors = d_requires_editors d,
          p_requires_reviewers = d_requires_reviewers d,
          p_requires_approvers = d_requires_approvers d,
          p_allows_content_changes = d_allows_content_changes d,
          p_release_evidence_mode = d_release_evidence_mode d\<rparr>
      | _ \<Rightarrow> None)"

section \<open>Validation\<close>

definition allowed_profile_statuses :: "string list" where
  "allowed_profile_statuses = [''DRAFT'', ''IN_REVIEW'', ''IN_APPROVAL'', ''APPROVED'']"

definition allowed_roles :: "string list" where
  "allowed_roles = [''EDITOR'', ''REVIEWER'', ''APPROVER'', ''QMB'', ''NONE'']"

definition allowed_policies :: "string list" where
  "allowed_policies = [''ONE_OF_POOL'', ''ALL_ASSIGNED'', ''NONE'']"

definition engine_policies :: "string list" where
  "engine_policies = [''ONE_OF_POOL'', ''NONE'']"

definition expected_role :: "string \<Rightarrow> string \<Rightarrow> string" where
  "expected_role from_status to_status =
     (if from_status = ''DRAFT'' then ''EDITOR''
      else if from_status = ''IN_REVIEW'' then ''REVIEWER''
      else if from_status = ''IN_APPROVAL'' then ''APPROVER''
      else if to_status = ''APPROVED'' then ''APPROVER''
      else ''NONE'')"

text \<open>The loop over the enabled transitions; \<open>prev\<close> is the target of the one before.\<close>

fun validate_transitions ::
  "string option \<Rightarrow> string list \<Rightarrow> (string \<times> string) list \<Rightarrow> profile_transition list \<Rightarrow> doc_error + unit" where
  "validate_transitions prev seen_from seen_edges [] = Inr ()"
| "validate_transitions prev seen_from seen_edges (item # items) =
     bindE (raise_if (t_from_status item \<notin> set allowed_profile_statuses
                      \<or> t_to_status item \<notin> set allowed_profile_statuses)
       (ValidationError ''workflow profile contains unsupported status'')) (\<lambda>_.
     bindE (raise_if (t_from_status item = ''IN_PROGRESS'' \<or> t_to_status item = ''IN_PROGRESS'')
       (ValidationError ''IN_PROGRESS is legacy-only and must be normalized to DRAFT before storage'')) (\<lambda>_.
     bindE (raise_if (t_decision_policy item \<notin> set allowed_policies)
       (ValidationError ''workflow profile contains unsupported decision_policy'')) (\<lambda>_.
     bindE (raise_if (t_decision_policy item \<notin> set engine_policies)
       (ValidationError ''workflow profile contains unsupported decision_policy for current engine'')) (\<lambda>_.
     bindE (raise_if (t_required_role item \<notin> set allowed_roles)
       (ValidationError ''workflow profile contains unsupported required_role'')) (\<lambda>_.
     bindE (raise_if (t_deadline_seconds item \<noteq> None)
       (ValidationError ''deadline_seconds is not evaluated by the current engine'')) (\<lambda>_.
     bindE (raise_if (t_revoke_if_changed item)
       (ValidationError ''revoke_if_changed is not evaluated by the current engine'')) (\<lambda>_.
     bindE (raise_if (t_required_role item \<noteq> expected_role (t_from_status item) (t_to_status item))
       (ValidationError (''required_role is not executable for '' @ t_from_status item @ ''->'' @ t_to_status item))) (\<lambda>_.
     bindE (raise_if (t_from_status item \<in> set seen_from)
       (ValidationError ''workflow profile must be linear without branching'')) (\<lambda>_.
     bindE (raise_if ((t_from_status item, t_to_status item) \<in> set seen_edges)
       (ValidationError ''workflow profile contains duplicate transition edge'')) (\<lambda>_.
     bindE (raise_if (case prev of None \<Rightarrow> False | Some to_status \<Rightarrow> to_status \<noteq> t_from_status item)
       (ValidationError ''workflow profile transitions must form a contiguous chain'')) (\<lambda>_.
     validate_transitions (Some (t_to_status item)) (t_from_status item # seen_from)
       ((t_from_status item, t_to_status item) # seen_edges) items)))))))))))"

definition validate_definition :: "profile_definition \<Rightarrow> doc_error + unit" where
  "validate_definition payload =
     (let enabled = enabled_transitions payload in
     bindE (raise_if (py_strip (d_profile_code payload) = [])
       (ValidationError ''profile_code is required'')) (\<lambda>_.
     bindE (raise_if (py_strip (d_label payload) = [])
       (ValidationError ''label is required'')) (\<lambda>_.
     bindE (raise_if (d_transitions payload = [])
       (ValidationError ''workflow profile requires at least one transition'')) (\<lambda>_.
     bindE (raise_if (enabled = [])
       (ValidationError ''workflow profile requires at least one enabled transition'')) (\<lambda>_.
     bindE (raise_if (t_from_status (hd enabled) \<noteq> ''DRAFT'')
       (ValidationError ''workflow profile must start with DRAFT'')) (\<lambda>_.
     bindE (raise_if (t_to_status (hd enabled) = ''DRAFT'')
       (ValidationError ''workflow profile first transition must leave DRAFT'')) (\<lambda>_.
     bindE (raise_if (t_to_status (last enabled) \<noteq> ''APPROVED'')
       (ValidationError ''workflow profile must end with APPROVED'')) (\<lambda>_.
     bindE (raise_if (map t_transition_no (d_transitions payload) \<noteq> map int [1..<Suc (length (d_transitions payload))])
       (ValidationError ''workflow profile transitions must use contiguous transition_no starting at 1'')) (\<lambda>_.
     bindE (validate_transitions None [] [] enabled) (\<lambda>_.
     case to_runtime_profile payload of
       None \<Rightarrow> Inl (ValidationError ''unknown status'')
     | Some runtime_profile \<Rightarrow>
         bindE (raise_if (hd (p_phases runtime_profile) \<noteq> IN_PROGRESS)
           (ValidationError ''runtime workflow profile must start with IN_PROGRESS'')) (\<lambda>_.
         raise_if (last (p_phases runtime_profile) \<noteq> APPROVED)
           (ValidationError ''runtime workflow profile must end with APPROVED''))))))))))))"

section \<open>Tables and operations\<close>

record profile_row =
  pr_code :: string
  pr_label :: string
  pr_control_class :: control_class
  pr_is_active :: bool
  pr_active_version :: int

record profile_version_row =
  pv_code :: string
  pv_version_no :: int
  pv_effective_from :: time
  pv_payload :: profile_definition

record type_binding =
  tb_document_type :: doc_type
  tb_control_class :: control_class
  tb_default_profile_code :: string
  tb_allows_profile_override :: bool

record profile_db =
  profile_rows :: "profile_row list"
  version_rows :: "profile_version_row list"
  type_bindings :: "type_binding list"

type_synonym 'a profile_meth = "(profile_db, doc_error, 'a) meth"

definition find_profile :: "profile_db \<Rightarrow> string \<Rightarrow> profile_row option" where
  "find_profile db code = List.find (\<lambda>r. pr_code r = code) (profile_rows db)"

text \<open>\<open>MAX(version_no)\<close> over the versions of a code, 0 when there is none.\<close>

definition latest_version :: "profile_db \<Rightarrow> string \<Rightarrow> int" where
  "latest_version db code =
     fold max (map pv_version_no (filter (\<lambda>v. pv_code v = code) (version_rows db))) 0"

text \<open>The row with the greatest version number among the effective ones (\<open>LIMIT 1\<close>).\<close>

definition newest :: "profile_version_row list \<Rightarrow> profile_version_row option" where
  "newest vs = fold (\<lambda>v best. case best of None \<Rightarrow> Some v
     | Some b \<Rightarrow> if pv_version_no b < pv_version_no v then Some v else Some b) vs None"

definition get_active_definition :: "time \<Rightarrow> profile_db \<Rightarrow> string \<Rightarrow> doc_error + profile_definition" where
  "get_active_definition now db profile_code =
     (case find_profile db profile_code of
        None \<Rightarrow> Inl (ValidationError (''unknown active workflow profile: '' @ profile_code))
      | Some r \<Rightarrow>
          if \<not> pr_is_active r
          then Inl (ValidationError (''unknown active workflow profile: '' @ profile_code))
          else (case newest (filter (\<lambda>v. pv_code v = profile_code \<and> pv_effective_from v \<le> now) (version_rows db)) of
                  None \<Rightarrow> Inl (ValidationError (''unknown active workflow profile: '' @ profile_code))
                | Some v \<Rightarrow> Inr ((pv_payload v)\<lparr>d_profile_code := pr_code r, d_label := pr_label r,
                                             d_control_class := pr_control_class r\<rparr>)))"

definition get_profile :: "time \<Rightarrow> profile_db \<Rightarrow> string \<Rightarrow> doc_error + workflow_profile" where
  "get_profile now db profile_code =
     bindE (get_active_definition now db profile_code) (\<lambda>d.
       case to_runtime_profile d of
         None \<Rightarrow> Inl (ValidationError ''unknown status'')
       | Some p \<Rightarrow> Inr p)"

definition resolve_default_profile_code :: "profile_db \<Rightarrow> doc_type \<Rightarrow> doc_error + (string \<times> bool)" where
  "resolve_default_profile_code db t =
     (case List.find (\<lambda>b. tb_document_type b = t) (type_bindings db) of
        None \<Rightarrow> Inl (ValidationError ''document type binding missing'')
      | Some b \<Rightarrow> Inr (tb_default_profile_code b, tb_allows_profile_override b))"

definition list_profile_ids_for_control_class :: "profile_db \<Rightarrow> control_class \<Rightarrow> string list" where
  "list_profile_ids_for_control_class db c =
     sort (map pr_code (filter (\<lambda>r. pr_control_class r = c \<and> pr_is_active r) (profile_rows db)))"

text \<open>
  The constraints of the tables \<open>workflow_profile_versions\<close> and
  \<open>workflow_profile_transitions\<close> that \<open>_insert_version\<close> can hit: the column checks, the unique
  edge per version and the unique definition hash per profile. The hash function is a parameter.
\<close>

definition transition_storable :: "profile_transition \<Rightarrow> bool" where
  "transition_storable t \<longleftrightarrow> 0 < t_transition_no t \<and>
     t_from_status t \<in> set allowed_profile_statuses \<and> t_to_status t \<in> set allowed_profile_statuses \<and>
     t_required_role t \<in> set allowed_roles \<and> t_decision_policy t \<in> set allowed_policies \<and>
     (case t_deadline_seconds t of None \<Rightarrow> True | Some s \<Rightarrow> 0 < s)"

definition insert_version_check ::
  "(profile_definition \<Rightarrow> string) \<Rightarrow> profile_db \<Rightarrow> profile_definition \<Rightarrow> doc_error + unit" where
  "insert_version_check hash db payload =
     bindE (raise_if (list_ex (\<lambda>v. pv_code v = d_profile_code payload \<and> hash (pv_payload v) = hash payload)
                        (version_rows db))
       (IntegrityError ''UNIQUE profile_code, definition_hash'')) (\<lambda>_.
     raise_if (\<not> (list_all transition_storable (d_transitions payload)
                  \<and> distinct (map (\<lambda>t. (t_from_status t, t_to_status t)) (d_transitions payload))))
       (IntegrityError ''workflow_profile_transitions''))"

definition create_definition ::
  "(profile_definition \<Rightarrow> string) \<Rightarrow> time \<Rightarrow> profile_definition \<Rightarrow> string \<Rightarrow> int profile_meth" where
  "create_definition hash now payload actor_user_id =
     bindM (liftE (validate_definition payload)) (\<lambda>_.
     bindM (liftE (raise_if (py_strip actor_user_id = []) (ValidationError ''actor_user_id is required''))) (\<lambda>_.
     bindM (readM (\<lambda>db. find_profile db (d_profile_code payload))) (\<lambda>exists.
     bindM (liftE (raise_if (exists \<noteq> None)
       (ValidationError (''workflow profile definition already exists: '' @ d_profile_code payload)))) (\<lambda>_.
     bindM (readM (\<lambda>db. insert_version_check hash db payload)) (\<lambda>insertable.
     bindM (liftE insertable) (\<lambda>_.
     bindM (modifyM (\<lambda>db. db\<lparr>
         profile_rows := profile_rows db @ [\<lparr>pr_code = d_profile_code payload, pr_label = d_label payload,
           pr_control_class = d_control_class payload, pr_is_active = True, pr_active_version = 1\<rparr>],
         version_rows := version_rows db @ [\<lparr>pv_code = d_profile_code payload, pv_version_no = 1,
           pv_effective_from = now, pv_payload = payload\<rparr>]\<rparr>)) (\<lambda>_.
     retM 1)))))))"

definition create_version ::
  "(profile_definition \<Rightarrow> string) \<Rightarrow> time \<Rightarrow> profile_definition \<Rightarrow> string \<Rightarrow> int profile_meth" where
  "create_version hash now payload actor_user_id =
     bindM (liftE (validate_definition payload)) (\<lambda>_.
     bindM (liftE (raise_if (py_strip actor_user_id = []) (ValidationError ''actor_user_id is required''))) (\<lambda>_.
     bindM (readM (\<lambda>db. (find_profile db (d_profile_code payload), latest_version db (d_profile_code payload)))) (\<lambda>(current, latest).
     case current of
       None \<Rightarrow> raiseM (ValidationError (''workflow profile definition not found: '' @ d_profile_code payload))
     | Some cur \<Rightarrow>
         bindM (liftE (raise_if (latest \<le> 0)
           (ValidationError (''workflow profile definition not found: '' @ d_profile_code payload)))) (\<lambda>_.
         bindM (liftE (raise_if (pr_label cur \<noteq> d_label payload)
           (ValidationError ''workflow profile label is immutable in J03''))) (\<lambda>_.
         bindM (liftE (raise_if (pr_control_class cur \<noteq> d_control_class payload)
           (ValidationError ''workflow profile control_class is immutable in J03''))) (\<lambda>_.
         bindM (readM (\<lambda>db. insert_version_check hash db payload)) (\<lambda>insertable.
         bindM (liftE insertable) (\<lambda>_.
         bindM (modifyM (\<lambda>db. db\<lparr>
             version_rows := version_rows db @ [\<lparr>pv_code = d_profile_code payload, pv_version_no = latest + 1,
               pv_effective_from = now, pv_payload = payload\<rparr>],
             profile_rows := map (\<lambda>r. if pr_code r = d_profile_code payload
                                      then r\<lparr>pr_active_version := latest + 1\<rparr> else r) (profile_rows db)\<rparr>)) (\<lambda>_.
         retM (latest + 1))))))))))"

definition set_active :: "string \<Rightarrow> bool \<Rightarrow> string \<Rightarrow> unit profile_meth" where
  "set_active profile_code is_active actor_user_id =
     bindM (liftE (raise_if (py_strip actor_user_id = []) (ValidationError ''actor_user_id is required''))) (\<lambda>_.
     bindM (readM (\<lambda>db. find_profile db profile_code)) (\<lambda>row.
     bindM (liftE (raise_if (row = None)
       (ValidationError (''workflow profile definition not found: '' @ profile_code)))) (\<lambda>_.
     modifyM (\<lambda>db. db\<lparr>profile_rows := map (\<lambda>r. if pr_code r = profile_code
                                      then r\<lparr>pr_is_active := is_active\<rparr> else r) (profile_rows db)\<rparr>))))"

definition bind_default_profile :: "doc_type \<Rightarrow> string \<Rightarrow> string \<Rightarrow> bool option \<Rightarrow> bool profile_meth" where
  "bind_default_profile t profile_code actor_user_id allows_profile_override =
     bindM (liftE (raise_if (py_strip actor_user_id = []) (ValidationError ''actor_user_id is required''))) (\<lambda>_.
     bindM (readM (\<lambda>db. (find_profile db profile_code,
                          List.find (\<lambda>b. tb_document_type b = t) (type_bindings db)))) (\<lambda>(profile, existing).
     case profile of
       None \<Rightarrow> raiseM (ValidationError (''active workflow profile definition not found: '' @ profile_code))
     | Some p \<Rightarrow>
         bindM (liftE (raise_if (\<not> pr_is_active p)
           (ValidationError (''active workflow profile definition not found: '' @ profile_code)))) (\<lambda>_.
         let override = (case allows_profile_override of Some b \<Rightarrow> b
                         | None \<Rightarrow> (case existing of Some e \<Rightarrow> tb_allows_profile_override e | None \<Rightarrow> False));
             row = \<lparr>tb_document_type = t, tb_control_class = pr_control_class p,
                    tb_default_profile_code = profile_code, tb_allows_profile_override = override\<rparr>
         in bindM (modifyM (\<lambda>db. db\<lparr>type_bindings :=
                (case existing of None \<Rightarrow> type_bindings db @ [row]
                 | Some _ \<Rightarrow> map (\<lambda>b. if tb_document_type b = t then row else b) (type_bindings db))\<rparr>)) (\<lambda>_.
            retM override))))"

section \<open>Accepted definitions\<close>

fun chained :: "string option \<Rightarrow> profile_transition list \<Rightarrow> bool" where
  "chained prev [] \<longleftrightarrow> True"
| "chained prev (t # ts) \<longleftrightarrow>
     (case prev of None \<Rightarrow> True | Some a \<Rightarrow> a = t_from_status t) \<and> chained (Some (t_to_status t)) ts"

lemma validate_transitions_accepts:
  assumes "validate_transitions prev seen edges items = Inr u"
  shows "set (map t_from_status items) \<union> set (map t_to_status items) \<subseteq> set allowed_profile_statuses"
    and "distinct (map t_from_status items)"
    and "set (map t_from_status items) \<inter> set seen = {}"
    and "chained prev items"
proof -
  have "set (map t_from_status items) \<union> set (map t_to_status items) \<subseteq> set allowed_profile_statuses
      \<and> distinct (map t_from_status items) \<and> set (map t_from_status items) \<inter> set seen = {}
      \<and> chained prev items"
    using assms
  proof (induction prev seen edges items rule: validate_transitions.induct)
    case (2 prev seen edges item items)
    from "2.prems" have
      here: "t_from_status item \<in> set allowed_profile_statuses" "t_to_status item \<in> set allowed_profile_statuses"
        "t_from_status item \<notin> set seen"
        "case prev of None \<Rightarrow> True | Some a \<Rightarrow> a = t_from_status item"
      and rest: "validate_transitions (Some (t_to_status item)) (t_from_status item # seen)
           ((t_from_status item, t_to_status item) # edges) items = Inr u"
      by (auto split: option.splits)
    have "set (map t_from_status items) \<union> set (map t_to_status items) \<subseteq> set allowed_profile_statuses
      \<and> distinct (map t_from_status items)
      \<and> set (map t_from_status items) \<inter> set (t_from_status item # seen) = {}
      \<and> chained (Some (t_to_status item)) items"
      using rest by (intro "2.IH") auto
    with here show ?case by auto
  qed simp
  then show "set (map t_from_status items) \<union> set (map t_to_status items) \<subseteq> set allowed_profile_statuses"
    and "distinct (map t_from_status items)"
    and "set (map t_from_status items) \<inter> set seen = {}"
    and "chained prev items"
    by blast+
qed

lemma chained_from_to:
  "chained (Some a) ts \<Longrightarrow> a # map t_to_status ts = map t_from_status ts @ [last (a # map t_to_status ts)]"
  by (induction ts arbitrary: a) auto

lemma validate_definition_accepts:
  assumes "validate_definition d = Inr u"
  shows "distinct (map t_from_status (enabled_transitions d))"
    and "set (map t_from_status (enabled_transitions d)) \<subseteq> set allowed_profile_statuses"
    and "set (map t_to_status (enabled_transitions d)) \<subseteq> set allowed_profile_statuses"
    and "enabled_transitions d \<noteq> []"
    and "''DRAFT'' # map t_to_status (enabled_transitions d)
           = map t_from_status (enabled_transitions d) @ [''APPROVED'']"
    and "\<exists>p. to_runtime_profile d = Some p"
proof -
  let ?e = "enabled_transitions d"
  from assms have v: "validate_transitions None [] [] ?e = Inr ()" and ne: "?e \<noteq> []"
    and hd: "t_from_status (hd ?e) = ''DRAFT''" and lst: "t_to_status (last ?e) = ''APPROVED''"
    and ex: "\<exists>p. to_runtime_profile d = Some p"
    by (auto simp: validate_definition_def Let_def split: option.splits)
  show "distinct (map t_from_status ?e)"
    and "set (map t_from_status ?e) \<subseteq> set allowed_profile_statuses"
    and "set (map t_to_status ?e) \<subseteq> set allowed_profile_statuses"
    using validate_transitions_accepts [OF v] by auto
  show "?e \<noteq> []" by (fact ne)
  show "\<exists>p. to_runtime_profile d = Some p" by (fact ex)
  have "chained (Some ''DRAFT'') ?e"
    using validate_transitions_accepts(4) [OF v] hd ne by (cases ?e) auto
  then have "''DRAFT'' # map t_to_status ?e
      = map t_from_status ?e @ [last (''DRAFT'' # map t_to_status ?e)]"
    by (rule chained_from_to)
  then show "''DRAFT'' # map t_to_status ?e = map t_from_status ?e @ [''APPROVED'']"
    using ne lst by (simp add: last_map)
qed

definition status_named :: "string \<Rightarrow> doc_status" where
  "status_named v = the (status_of_value v)"

lemma status_named_simps [simp]:
  "status_named ''DRAFT'' = DRAFT" "status_named ''IN_REVIEW'' = IN_REVIEW"
  "status_named ''IN_APPROVAL'' = IN_APPROVAL" "status_named ''APPROVED'' = APPROVED"
  by (simp_all add: status_named_def status_of_value_def all_statuses_def)

lemma allowed_profile_status_cases:
  assumes "v \<in> set allowed_profile_statuses"
  obtains "v = ''DRAFT''" | "v = ''IN_REVIEW''" | "v = ''IN_APPROVAL''" | "v = ''APPROVED''"
  using assms unfolding allowed_profile_statuses_def list.set insert_iff empty_iff by blast

lemma allowed_status_of_value:
  "v \<in> set allowed_profile_statuses \<Longrightarrow> status_of_value v = Some (status_named v)"
  by (erule allowed_profile_status_cases) simp_all

lemma inj_status_named: "inj_on (\<lambda>v. runtime_status (status_named v)) (set allowed_profile_statuses)"
proof (rule inj_on_inverseI)
  fix v assume "v \<in> set allowed_profile_statuses"
  then show "(\<lambda>s. status_value (if s = IN_PROGRESS then DRAFT else s)) (runtime_status (status_named v)) = v"
    by (rule allowed_profile_status_cases) (simp_all add: runtime_status_def)
qed

lemma those_map_Some: "(\<And>x. x \<in> set xs \<Longrightarrow> f x = Some (g x)) \<Longrightarrow> those (map f xs) = Some (map g xs)"
  by (induction xs) auto

lemma remdups_adj_snoc_distinct:
  assumes "distinct xs" "xs \<noteq> []"
  shows "remdups_adj (xs @ [a]) = (if last xs = a then xs else xs @ [a])"
proof -
  have "remdups_adj (xs @ [a]) = (if xs \<noteq> [] \<and> last xs = a then remdups_adj xs else remdups_adj xs @ [a])"
    by (induction xs rule: remdups_adj.induct) auto
  with assms show ?thesis by (simp add: remdups_adj_distinct)
qed

text \<open>
  The phase list of an accepted definition: it starts with \<open>IN_PROGRESS\<close>, ends with
  \<open>APPROVED\<close>, names only the four engine statuses, and no phase before the last occurs twice.
\<close>

lemma accepted_runtime_profile:
  assumes ok: "validate_definition d = Inr u" and p: "to_runtime_profile d = Some p"
  shows "p_phases p \<noteq> []" "hd (p_phases p) = IN_PROGRESS" "last (p_phases p) = APPROVED"
    and "distinct (butlast (p_phases p))"
    and "set (p_phases p) \<subseteq> {IN_PROGRESS, IN_REVIEW, IN_APPROVAL, APPROVED}"
proof -
  let ?e = "enabled_transitions d" and ?r = "\<lambda>v. runtime_status (status_named v)"
  note acc = validate_definition_accepts [OF ok]
  have targets: "those (map (\<lambda>t. status_of_value (t_to_status t)) ?e)
      = Some (map (\<lambda>t. status_named (t_to_status t)) ?e)"
    using acc(3) by (intro those_map_Some allowed_status_of_value) (auto simp del: status_of_value_eq_Some)
  have phases: "p_phases p = map runtime_status (remdups_adj (DRAFT # map (\<lambda>t. status_named (t_to_status t)) ?e))"
    using p targets by (auto simp: to_runtime_profile_def split: option.splits)
  define xs where "xs = map status_named (map t_from_status ?e)"
  have "DRAFT # map (\<lambda>t. status_named (t_to_status t)) ?e
      = map status_named (''DRAFT'' # map t_to_status ?e)" by (simp add: comp_def)
  also have "\<dots> = xs @ [APPROVED]" unfolding acc(5) xs_def by simp
  finally have rel: "DRAFT # map (\<lambda>t. status_named (t_to_status t)) ?e = xs @ [APPROVED]" .
  have dist: "distinct (map runtime_status xs)"
    unfolding xs_def using acc(1,2) inj_on_subset [OF inj_status_named]
    by (simp add: distinct_map comp_inj_on_iff comp_def image_image inj_on_def)
  then have dxs: "distinct xs" by (simp add: distinct_map)
  have nxs: "xs \<noteq> []" using acc(4) by (simp add: xs_def)
  have hd_xs: "hd xs = DRAFT" using rel nxs by (cases xs) auto
  have ph: "p_phases p = map runtime_status (if last xs = APPROVED then xs else xs @ [APPROVED])"
    unfolding phases rel remdups_adj_snoc_distinct [OF dxs nxs] ..
  have sub: "set xs \<subseteq> {DRAFT, IN_REVIEW, IN_APPROVAL, APPROVED}"
  proof
    fix s assume "s \<in> set xs"
    then obtain v where "v \<in> set (map t_from_status ?e)" and s: "s = status_named v"
      unfolding xs_def set_map by blast
    with acc(2) have "v \<in> set allowed_profile_statuses" by blast
    then show "s \<in> {DRAFT, IN_REVIEW, IN_APPROVAL, APPROVED}"
      unfolding s by (rule allowed_profile_status_cases) simp_all
  qed
  show "p_phases p \<noteq> []" using nxs by (simp add: ph)
  show "hd (p_phases p) = IN_PROGRESS"
    using nxs hd_xs by (simp add: ph hd_map runtime_status_def)
  show "last (p_phases p) = APPROVED"
    using nxs by (simp add: ph last_map runtime_status_def)
  show "distinct (butlast (p_phases p))"
    using dist by (simp add: ph distinct_butlast)
  show "set (p_phases p) \<subseteq> {IN_PROGRESS, IN_REVIEW, IN_APPROVAL, APPROVED}"
    using sub by (auto simp: ph runtime_status_def)
qed

end
