(* ===== verification/ProfileCatalog.thy ===== *)
theory ProfileCatalog
  imports ProfileStore
begin

text \<open>
  The profile tables as an abstract catalog. \<open>profile_db_ok\<close> is the consistency of the
  tables, kept by every administrative operation; the locale \<open>profile_source\<close> is what the
  documents service relies on when it starts a workflow: a looked-up profile is runnable by
  the engine. It is interpreted on the relational store.
\<close>

section \<open>The interface the workflow engine relies on\<close>

definition engine_phases :: "doc_status list \<Rightarrow> bool" where
  "engine_phases ps \<longleftrightarrow> ps \<noteq> [] \<and> hd ps = IN_PROGRESS \<and> last ps = APPROVED \<and>
     distinct (butlast ps) \<and> set ps \<subseteq> {IN_PROGRESS, IN_REVIEW, IN_APPROVAL, APPROVED}"

locale profile_source =
  fixes lookup :: "'db \<Rightarrow> string \<Rightarrow> doc_error + workflow_profile"
    and consistent :: "'db \<Rightarrow> bool"
  assumes lookup_phases: "consistent db \<Longrightarrow> lookup db code = Inr p \<Longrightarrow> engine_phases (p_phases p)"
    and lookup_id: "consistent db \<Longrightarrow> lookup db code = Inr p \<Longrightarrow> p_profile_id p = code"
begin

lemma lookup_passes_assert_profile:
  "consistent db \<Longrightarrow> lookup db code = Inr p \<Longrightarrow> assert_profile p = Inr ()"
  using lookup_phases by (auto simp: engine_phases_def assert_profile_iff)

text \<open>No phase but the last is stuck: the engine always finds a successor.\<close>

lemma lookup_progress:
  assumes "consistent db" "lookup db code = Inr p" "s \<in> set (butlast (p_phases p))"
  shows "\<exists>n. next_status_from_profile (Some p) s = Inr n \<and> n \<in> set (p_phases p)"
proof -
  have ne: "p_phases p \<noteq> []" using lookup_phases [OF assms(1,2)] by (simp add: engine_phases_def)
  obtain pre post where s: "butlast (p_phases p) = pre @ s # post" "s \<notin> set pre"
    using assms(3) by (metis split_list_first)
  have eq: "p_phases p = pre @ s # (post @ [last (p_phases p)])"
    using ne s(1) by (metis append.assoc append_Cons append_butlast_last_id)
  obtain n rest where n: "post @ [last (p_phases p)] = n # rest"
    by (cases "post @ [last (p_phases p)]") simp_all
  have eq': "p_phases p = pre @ s # n # rest" unfolding n [symmetric] by (rule eq)
  then have "n \<in> set (p_phases p)" by (metis in_set_conv_decomp append_Cons append.assoc list.set_intros(1) list.set_intros(2) Un_iff set_append)
  moreover have "next_status_from_profile (Some p) s = Inr n"
    using eq' s(2) by (auto simp: next_status_from_profile_Some)
  ultimately show ?thesis by blast
qed

end

section \<open>Consistency of the tables\<close>

definition version_row_ok :: "profile_row list \<Rightarrow> profile_version_row \<Rightarrow> bool" where
  "version_row_ok rows v \<longleftrightarrow>
     validate_definition (pv_payload v) = Inr () \<and> 0 < pv_version_no v \<and>
     d_profile_code (pv_payload v) = pv_code v \<and>
     (\<forall>r \<in> set rows. pr_code r = pv_code v \<longrightarrow>
        pr_label r = d_label (pv_payload v) \<and> pr_control_class r = d_control_class (pv_payload v)) \<and>
     pv_code v \<in> pr_code ` set rows"

definition profile_db_ok :: "profile_db \<Rightarrow> bool" where
  "profile_db_ok db \<longleftrightarrow>
     distinct (map pr_code (profile_rows db)) \<and>
     (\<forall>v \<in> set (version_rows db). version_row_ok (profile_rows db) v) \<and>
     distinct (map (\<lambda>v. (pv_code v, pv_version_no v)) (version_rows db)) \<and>
     (\<forall>b \<in> set (type_bindings db). tb_default_profile_code b \<in> pr_code ` set (profile_rows db))"

definition empty_profile_db :: profile_db where
  "empty_profile_db = \<lparr>profile_rows = [], version_rows = [], type_bindings = []\<rparr>"

lemma profile_db_ok_empty: "profile_db_ok empty_profile_db"
  by (simp add: profile_db_ok_def empty_profile_db_def)

lemma newest_Some_in: "newest vs = Some v \<Longrightarrow> v \<in> set vs"
proof -
  let ?f = "\<lambda>v best. case best of None \<Rightarrow> Some v
     | Some b \<Rightarrow> if pv_version_no b < pv_version_no v then Some v else Some b"
  have "fold ?f vs best = Some v \<Longrightarrow> v \<in> set vs \<or> best = Some v" for best
    by (induction vs arbitrary: best) (auto split: option.splits if_splits)
  then show "newest vs = Some v \<Longrightarrow> v \<in> set vs" by (force simp: newest_def)
qed

lemma newest_snoc:
  assumes "\<forall>v \<in> set vs. pv_version_no v < pv_version_no new"
  shows "newest (vs @ [new]) = Some new"
  using assms newest_Some_in [of vs] by (auto simp: newest_def split: option.splits)

lemma fold_max_ge: "x \<in> set xs \<or> x = a \<Longrightarrow> x \<le> fold max xs (a::int)"
  unfolding Max.set_eq_fold [symmetric] by (rule Max_ge) auto

lemma latest_version_ge:
  "v \<in> set (version_rows db) \<Longrightarrow> pv_version_no v \<le> latest_version db (pv_code v)"
  unfolding latest_version_def by (rule fold_max_ge) auto

lemma latest_version_nonneg: "0 \<le> latest_version db code"
  unfolding latest_version_def by (rule fold_max_ge) auto

lemma find_profile_Some:
  "find_profile db code = Some r \<Longrightarrow> r \<in> set (profile_rows db) \<and> pr_code r = code"
  by (auto simp: find_profile_def find_Some_iff)

lemma find_profile_None:
  "find_profile db code = None \<longleftrightarrow> code \<notin> pr_code ` set (profile_rows db)"
  by (auto simp: find_profile_def find_None_iff)

lemma get_active_definition_valid:
  assumes "profile_db_ok db" "get_active_definition now db code = Inr d"
  shows "validate_definition d = Inr ()" "d_profile_code d = code"
proof -
  obtain r v where r: "find_profile db code = Some r"
    and v: "newest (filter (\<lambda>v. pv_code v = code \<and> pv_effective_from v \<le> now) (version_rows db)) = Some v"
    and d: "d = (pv_payload v)\<lparr>d_profile_code := pr_code r, d_label := pr_label r,
                               d_control_class := pr_control_class r\<rparr>"
    using assms(2) by (auto simp: get_active_definition_def split: option.splits if_splits)
  have "v \<in> set (version_rows db)" "pv_code v = code"
    using newest_Some_in [OF v] by auto
  then have "version_row_ok (profile_rows db) v" "pv_code v = code"
    using assms(1) by (auto simp: profile_db_ok_def)
  with find_profile_Some [OF r] have "d = pv_payload v" "validate_definition (pv_payload v) = Inr ()"
    "d_profile_code (pv_payload v) = code"
    by (auto simp: version_row_ok_def d)
  then show "validate_definition d = Inr ()" "d_profile_code d = code" by simp_all
qed

lemma to_runtime_profile_id: "to_runtime_profile d = Some p \<Longrightarrow> p_profile_id p = d_profile_code d"
  by (auto simp: to_runtime_profile_def split: option.splits)

interpretation catalog: profile_source "get_profile now" profile_db_ok
proof
  fix db :: profile_db and code p
  assume ok: "profile_db_ok db" and "get_profile now db code = Inr p"
  then obtain d where d: "get_active_definition now db code = Inr d" and p: "to_runtime_profile d = Some p"
    by (auto simp: get_profile_def split: option.splits)
  note v = get_active_definition_valid [OF ok d]
  show "engine_phases (p_phases p)"
    using accepted_runtime_profile [OF v(1) p] by (simp add: engine_phases_def)
  show "p_profile_id p = code" using to_runtime_profile_id [OF p] v(2) by simp
qed

section \<open>Administrative operations keep the tables consistent\<close>

lemma version_row_ok_mono:
  assumes "version_row_ok rows v" and "pr_code ` set rows \<subseteq> pr_code ` set rows'"
    and "\<And>r. r \<in> set rows' \<Longrightarrow> pr_code r = pv_code v \<Longrightarrow>
           \<exists>r' \<in> set rows. pr_code r' = pr_code r \<and> pr_label r' = pr_label r \<and> pr_control_class r' = pr_control_class r"
  shows "version_row_ok rows' v"
  using assms unfolding version_row_ok_def by (metis subsetD)

lemma profile_db_ok_update_rows:
  assumes ok: "profile_db_ok db"
    and same: "\<And>r. pr_code (f r) = pr_code r" "\<And>r. pr_label (f r) = pr_label r"
      "\<And>r. pr_control_class (f r) = pr_control_class r"
  shows "profile_db_ok (db\<lparr>profile_rows := map f (profile_rows db)\<rparr>)"
proof -
  have codes: "pr_code \<circ> f = pr_code" by (auto simp: same)
  have "version_row_ok (map f (profile_rows db)) v" if "version_row_ok (profile_rows db) v" for v
    using that by (rule version_row_ok_mono) (auto simp: same image_image)
  with ok codes show ?thesis
    unfolding profile_db_ok_def by (simp add: same image_image)
qed

lemma set_active_keeps: "keeps profile_db_ok (set_active code active actor)"
  unfolding set_active_def
  by (intro keeps_intros keeps_modifyM profile_db_ok_update_rows) auto

lemma create_definition_step:
  assumes "create_definition hash now payload actor db = (Inr n, db')"
  shows "validate_definition payload = Inr ()" "find_profile db (d_profile_code payload) = None" "n = 1"
    "db' = db\<lparr>
         profile_rows := profile_rows db @ [\<lparr>pr_code = d_profile_code payload, pr_label = d_label payload,
           pr_control_class = d_control_class payload, pr_is_active = True, pr_active_version = 1\<rparr>],
         version_rows := version_rows db @ [\<lparr>pv_code = d_profile_code payload, pv_version_no = 1,
           pv_effective_from = now, pv_payload = payload\<rparr>]\<rparr>"
  using assms unfolding create_definition_def by simp_all

lemma version_row_ok_snoc:
  "version_row_ok rows v \<Longrightarrow> pr_code r \<notin> pr_code ` set rows \<Longrightarrow> version_row_ok (rows @ [r]) v"
  by (auto simp: version_row_ok_def)

lemma create_definition_ok:
  assumes ok: "profile_db_ok db" and step: "create_definition hash now payload actor db = (Inr n, db')"
  shows "profile_db_ok db'"
proof -
  let ?r = "\<lparr>pr_code = d_profile_code payload, pr_label = d_label payload,
           pr_control_class = d_control_class payload, pr_is_active = True, pr_active_version = 1\<rparr>"
  let ?v = "\<lparr>pv_code = d_profile_code payload, pv_version_no = 1,
           pv_effective_from = now, pv_payload = payload\<rparr>"
  note st = create_definition_step [OF step]
  have new: "d_profile_code payload \<notin> pr_code ` set (profile_rows db)"
    using st(2) by (simp add: find_profile_None)
  have old: "\<forall>v \<in> set (version_rows db). version_row_ok (profile_rows db @ [?r]) v"
    using ok new by (auto simp: profile_db_ok_def intro: version_row_ok_snoc)
  have here: "version_row_ok (profile_rows db @ [?r]) ?v"
    using new st(1) by (auto simp: version_row_ok_def image_iff)
  have "pv_code v \<in> pr_code ` set (profile_rows db)" if "v \<in> set (version_rows db)" for v
    using ok that by (auto simp: profile_db_ok_def version_row_ok_def)
  with new have fresh: "(d_profile_code payload, 1) \<notin> (\<lambda>v. (pv_code v, pv_version_no v)) ` set (version_rows db)"
    by auto
  show ?thesis
    using ok old here new fresh unfolding profile_db_ok_def st(4) by simp
qed

lemma create_version_step:
  assumes "create_version hash now payload actor db = (Inr n, db')"
  shows "validate_definition payload = Inr ()" "n = latest_version db (d_profile_code payload) + 1"
    "\<exists>cur. find_profile db (d_profile_code payload) = Some cur \<and> pr_label cur = d_label payload
        \<and> pr_control_class cur = d_control_class payload"
    "db' = db\<lparr>
         version_rows := version_rows db @ [\<lparr>pv_code = d_profile_code payload, pv_version_no = n,
           pv_effective_from = now, pv_payload = payload\<rparr>],
         profile_rows := map (\<lambda>r. if pr_code r = d_profile_code payload
                                  then r\<lparr>pr_active_version := n\<rparr> else r) (profile_rows db)\<rparr>"
  using assms unfolding create_version_def by (auto split: option.splits)

lemma create_version_ok:
  assumes ok: "profile_db_ok db" and step: "create_version hash now payload actor db = (Inr n, db')"
  shows "profile_db_ok db'"
proof -
  let ?new = "\<lparr>pv_code = d_profile_code payload, pv_version_no = n, pv_effective_from = now, pv_payload = payload\<rparr>"
  note st = create_version_step [OF step]
  obtain cur where cur: "cur \<in> set (profile_rows db)" "pr_code cur = d_profile_code payload"
    "pr_label cur = d_label payload" "pr_control_class cur = d_control_class payload"
    using st(3) find_profile_Some by blast
  have "pr_label r = d_label payload \<and> pr_control_class r = d_control_class payload"
    if "r \<in> set (profile_rows db)" "pr_code r = d_profile_code payload" for r
    using ok cur that by (metis (no_types, lifting) profile_db_ok_def distinct_map inj_onD)
  moreover have "d_profile_code payload \<in> pr_code ` set (profile_rows db)"
    using cur(1,2) by (metis imageI)
  moreover have "0 < n" using latest_version_nonneg [of db "d_profile_code payload"] by (simp add: st(2))
  ultimately have new: "version_row_ok (profile_rows db) ?new"
    using st(1) by (simp add: version_row_ok_def)
  have "(d_profile_code payload, n) \<notin> (\<lambda>v. (pv_code v, pv_version_no v)) ` set (version_rows db)"
    using latest_version_ge [of _ db] by (force simp: st(2))
  with ok new have "profile_db_ok (db\<lparr>version_rows := version_rows db @ [?new]\<rparr>)"
    by (auto simp: profile_db_ok_def)
  then have "profile_db_ok ((db\<lparr>version_rows := version_rows db @ [?new]\<rparr>)\<lparr>profile_rows :=
      map (\<lambda>r. if pr_code r = d_profile_code payload then r\<lparr>pr_active_version := n\<rparr> else r)
        (profile_rows (db\<lparr>version_rows := version_rows db @ [?new]\<rparr>))\<rparr>)"
    by (rule profile_db_ok_update_rows) auto
  then show ?thesis by (simp add: st(4))
qed

lemma create_version_effective:
  assumes ok: "profile_db_ok db" and step: "create_version hash now payload actor db = (Inr n, db')"
    and later: "now \<le> now'" and active: "\<exists>r. find_profile db (d_profile_code payload) = Some r \<and> pr_is_active r"
  shows "get_active_definition now' db' (d_profile_code payload) = Inr payload"
proof -
  let ?code = "d_profile_code payload"
  let ?new = "\<lparr>pv_code = ?code, pv_version_no = n, pv_effective_from = now, pv_payload = payload\<rparr>"
  let ?f = "\<lambda>r. if pr_code r = ?code then r\<lparr>pr_active_version := n\<rparr> else r"
  note st = create_version_step [OF step]
  obtain r where r: "find_profile db ?code = Some r" "pr_is_active r"
    and rl: "pr_label r = d_label payload" "pr_control_class r = d_control_class payload"
    using active st(3) by auto
  have fm: "List.find (\<lambda>r. pr_code r = ?code) (map ?f rows) = map_option ?f (List.find (\<lambda>r. pr_code r = ?code) rows)"
    for rows by (induction rows) auto
  with r(1) have r': "find_profile db' ?code = Some (r\<lparr>pr_active_version := n\<rparr>)"
    using find_profile_Some [OF r(1)] by (simp add: st(4) find_profile_def fm)
  have "newest (filter (\<lambda>v. pv_code v = ?code \<and> pv_effective_from v \<le> now') (version_rows db')) = Some ?new"
    using later latest_version_ge [of _ db]
    by (auto simp: st(4) st(2) intro!: newest_snoc) fastforce
  with r r' rl find_profile_Some [OF r(1)] show ?thesis
    by (simp add: get_active_definition_def)
qed

end
