(* ===== verification/DocStorage.thy ===== *)
theory DocStorage
  imports DocTypes
begin

text \<open>
  Paths and the file storage of the documents module (\<open>modules/documents/storage.py\<close>, the path
  part of \<open>modules/documents/artifact_ops.py\<close> and \<open>modules/documents/naming.py\<close>). A path is a
  string with \<open>/\<close> as separator (the POSIX flavour of \<open>pathlib\<close>); the file system is the set of
  existing files, without symbolic links, so that \<open>Path.resolve\<close> of a path under the storage
  root is the path itself.
\<close>

section \<open>Splitting and joining\<close>

text \<open>\<open>s.split(c)\<close> for a one-character separator: never empty, keeps empty parts.\<close>

fun split_on :: "char \<Rightarrow> string \<Rightarrow> string list" where
  "split_on c [] = [[]]"
| "split_on c (x # xs) =
     (if x = c then [] # split_on c xs
      else (case split_on c xs of [] \<Rightarrow> [[x]] | p # ps \<Rightarrow> (x # p) # ps))"

lemma split_on_not_Nil [simp]: "split_on c s \<noteq> []"
  by (induction s) (auto split: list.splits)

lemma split_on_no_sep: "p \<in> set (split_on c s) \<Longrightarrow> c \<notin> set p"
  by (induction s arbitrary: p) (auto split: list.splits if_splits)

definition replace_char :: "char \<Rightarrow> string \<Rightarrow> string \<Rightarrow> string" where
  "replace_char c by_text s = concat (map (\<lambda>x. if x = c then by_text else [x]) s)"

definition slash :: char where "slash = CHR ''/''"

definition backslash :: char where "backslash = CHR 0x5C"

section \<open>Names and suffixes\<close>

definition path_name :: "string \<Rightarrow> string" where
  "path_name p = last (split_on slash p)"

text \<open>\<open>Path.suffix\<close>: the extension by \<open>splitext\<close>, leading dots of the name do not count.\<close>

definition path_suffix :: "string \<Rightarrow> string" where
  "path_suffix p =
     (let rest = dropWhile (\<lambda>c. c = CHR ''.'') (path_name p);
          parts = split_on (CHR ''.'') rest
      in if length parts \<le> 1 then [] else CHR ''.'' # last parts)"

text \<open>\<open>repr\<close> of a string with code points below 256.\<close>

definition hex_digit :: "nat \<Rightarrow> char" where
  "hex_digit n = (if n < 10 then char_of (48 + n) else char_of (87 + n))"

definition printable :: "nat \<Rightarrow> bool" where
  "printable n \<longleftrightarrow> (32 \<le> n \<and> n \<le> 126) \<or> (161 \<le> n \<and> n \<noteq> 173)"

definition repr_char :: "char \<Rightarrow> char \<Rightarrow> string" where
  "repr_char quote c = (let n = (of_char c :: nat) in
     if c = quote \<or> c = backslash then [backslash, c]
     else if n = 10 then [backslash, CHR ''n''] else if n = 13 then [backslash, CHR ''r'']
     else if n = 9 then [backslash, CHR ''t'']
     else if printable n then [c]
     else [backslash, CHR ''x'', hex_digit (n div 16), hex_digit (n mod 16)])"

definition repr_str :: "string \<Rightarrow> string" where
  "repr_str s = (let q = (if CHR 0x27 \<in> set s \<and> CHR 0x22 \<notin> set s then CHR 0x22 else CHR 0x27)
     in q # concat (map (repr_char q) s) @ [q])"

definition lower_char :: "char \<Rightarrow> char" where
  "lower_char c = (let n = (of_char c :: nat) in
     if (65 \<le> n \<and> n \<le> 90) \<or> (192 \<le> n \<and> n \<le> 222 \<and> n \<noteq> 215) then char_of (n + 32) else c)"

definition py_lower :: "string \<Rightarrow> string" where
  "py_lower s = map lower_char s"

definition allowed_store_suffixes :: "string list" where
  "allowed_store_suffixes = [''.pdf'', ''.docx'', ''.dotx'', ''.doct'', ''.png'']"

definition guess_mime :: "string \<Rightarrow> string" where
  "guess_mime ext =
     (if ext = ''.pdf'' then ''application/pdf''
      else if ext = ''.docx'' then ''application/vnd.openxmlformats-officedocument.wordprocessingml.document''
      else if ext = ''.dotx'' then ''application/vnd.openxmlformats-officedocument.wordprocessingml.template''
      else if ext = ''.doct'' then ''application/octet-stream''
      else ''application/octet-stream'')"

definition validate_source_file :: "string set \<Rightarrow> string \<Rightarrow> string list \<Rightarrow> doc_error + unit" where
  "validate_source_file files source_path allowed_suffixes =
     bindE (raise_if (source_path \<notin> files)
       (ValidationError (''source file not found: '' @ source_path))) (\<lambda>_.
     raise_if (py_lower (path_suffix source_path) \<notin> set allowed_suffixes)
       (ValidationError (''invalid source file extension '' @ py_lower (path_suffix source_path))))"

section \<open>Containment of storage keys\<close>

text \<open>\<open>contained_path\<close>; \<open>None\<close> is its \<open>ValueError\<close>.\<close>

definition join_path :: "string \<Rightarrow> string list \<Rightarrow> string" where
  "join_path root parts = root @ concat (map (\<lambda>part. slash # part) parts)"

definition contained_path :: "string \<Rightarrow> string \<Rightarrow> string option" where
  "contained_path root key =
     (let raw = replace_char backslash [slash] (py_strip key);
          parts = filter (\<lambda>part. part \<notin> {'''', ''.''}) (split_on slash raw)
      in if raw = [] then None
         else if hd raw = slash \<or> hd raw = CHR ''~'' then None
         else if CHR '':'' \<in> set (hd (split_on slash raw)) then None
         else if parts = [] \<or> ''..'' \<in> set parts then None
         else Some (join_path root parts))"

definition resolve_storage_key :: "string \<Rightarrow> string \<Rightarrow> string option" where
  "resolve_storage_key root storage_key = contained_path root storage_key"

text \<open>
  \<open>resolve_artifact_path\<close> for the file system storage: a path named by the metadata when that
  file exists, otherwise the storage key under the storage root.
\<close>

definition metadata_path :: "string set \<Rightarrow> (string, string) dict \<Rightarrow> string option" where
  "metadata_path files metadata =
     List.find (\<lambda>candidate. candidate \<noteq> [] \<and> candidate \<in> files)
       (List.map_filter (map_of metadata) [''absolute_path'', ''file_path'', ''path''])"

definition resolve_artifact_path :: "string \<Rightarrow> string set \<Rightarrow> doc_artifact \<Rightarrow> string option" where
  "resolve_artifact_path root files artifact =
     (case metadata_path files (a_metadata artifact) of
        Some candidate \<Rightarrow> Some candidate
      | None \<Rightarrow> if a_storage_key artifact \<noteq> [] then resolve_storage_key root (a_storage_key artifact) else None)"

text \<open>The check \<open>resolved is not None and resolved.exists() and suffix == ...\<close>.\<close>

definition usable_file :: "string set \<Rightarrow> string \<Rightarrow> string option \<Rightarrow> bool" where
  "usable_file files suffix resolved \<longleftrightarrow>
     (case resolved of None \<Rightarrow> False
      | Some p \<Rightarrow> p \<in> files \<and> py_lower (path_suffix p) = suffix)"

section \<open>Released file names\<close>

definition transliterate_umlauts :: "string \<Rightarrow> string" where
  "transliterate_umlauts raw =
     fold (\<lambda>(c, r). replace_char c r)
       [(CHR 0xE4, ''ae''), (CHR 0xF6, ''oe''), (CHR 0xFC, ''ue''), (CHR 0xC4, ''Ae''),
        (CHR 0xD6, ''Oe''), (CHR 0xDC, ''Ue''), (CHR 0xDF, ''ss'')] raw"

text \<open>\<open>str.isalnum\<close> for code points below 256.\<close>

definition py_alnum :: "char \<Rightarrow> bool" where
  "py_alnum c \<longleftrightarrow> (let n = (of_char c :: nat)
     in (48 \<le> n \<and> n \<le> 57) \<or> (65 \<le> n \<and> n \<le> 90) \<or> (97 \<le> n \<and> n \<le> 122)
        \<or> n \<in> {170, 178, 179, 181, 185, 186, 188, 189, 190} \<or> (192 \<le> n \<and> n \<noteq> 215 \<and> n \<noteq> 247))"

text \<open>\<open>text.replace("..", "_")\<close>: non-overlapping occurrences from the left.\<close>

fun replace_dotdot :: "string \<Rightarrow> string" where
  "replace_dotdot (x # y # zs) =
     (if x = CHR ''.'' \<and> y = CHR ''.'' then CHR ''_'' # replace_dotdot zs
      else x # replace_dotdot (y # zs))"
| "replace_dotdot s = s"

definition strip_chars :: "char set \<Rightarrow> string \<Rightarrow> string" where
  "strip_chars cs s = rev (dropWhile (\<lambda>c. c \<in> cs) (rev (dropWhile (\<lambda>c. c \<in> cs) s)))"

definition safe_filename_token :: "string \<Rightarrow> string \<Rightarrow> string" where
  "safe_filename_token raw fallback =
     (let text = transliterate_umlauts (replace_char (CHR '' '') ''_'' (py_strip raw));
          text = replace_char (CHR '':'') ''_'' (replace_char backslash ''_'' (replace_char slash ''_'' text));
          safe = strip_chars {CHR ''_'', CHR ''-''}
                   (filter (\<lambda>ch. py_alnum ch \<or> ch \<in> {CHR ''_'', CHR ''-''}) (replace_dotdot text))
      in if safe = [] then fallback else safe)"

definition build_released_filename :: "version_state \<Rightarrow> string" where
  "build_released_filename state =
     safe_filename_token (v_document_id state) ''Dokument'' @ ''_'' @
     safe_filename_token (v_title state) ''Dokument'' @ ''.pdf''"

section \<open>Lemmas\<close>

lemma contained_path_parts:
  assumes "contained_path root key = Some p"
  shows "\<exists>parts. parts \<noteq> [] \<and> p = join_path root parts \<and>
           (\<forall>part \<in> set parts. part \<notin> {'''', ''.'', ''..''} \<and> slash \<notin> set part)"
proof -
  let ?raw = "replace_char backslash [slash] (py_strip key)"
  let ?parts = "filter (\<lambda>part. part \<notin> {'''', ''.''}) (split_on slash ?raw)"
  have p: "p = join_path root ?parts" and ne: "?parts \<noteq> []" and dots: "''..'' \<notin> set ?parts"
    using assms by (auto simp: contained_path_def Let_def split: if_splits)
  have "\<forall>part \<in> set ?parts. part \<notin> {'''', ''.'', ''..''} \<and> slash \<notin> set part"
    using dots by (auto dest: split_on_no_sep)
  with p ne show ?thesis by blast
qed

definition filename_char :: "char \<Rightarrow> bool" where
  "filename_char c \<longleftrightarrow> py_alnum c \<or> c \<in> {CHR ''_'', CHR ''-''}"

lemma set_strip_chars: "set (strip_chars cs s) \<subseteq> set s"
proof
  fix c assume "c \<in> set (strip_chars cs s)"
  then have "c \<in> set (dropWhile (\<lambda>c. c \<in> cs) (rev (dropWhile (\<lambda>c. c \<in> cs) s)))"
    unfolding strip_chars_def by (simp only: set_rev)
  then have "c \<in> set (rev (dropWhile (\<lambda>c. c \<in> cs) s))" by (rule set_dropWhileD)
  then have "c \<in> set (dropWhile (\<lambda>c. c \<in> cs) s)" by (simp only: set_rev)
  then show "c \<in> set s" by (rule set_dropWhileD)
qed

lemma safe_filename_token_chars:
  assumes "list_all filename_char fallback"
  shows "list_all filename_char (safe_filename_token raw fallback)"
proof -
  have "list_all filename_char (strip_chars cs (filter (\<lambda>ch. py_alnum ch \<or> ch \<in> {CHR ''_'', CHR ''-''}) t))"
    for cs t
    using set_strip_chars [of cs "filter (\<lambda>ch. py_alnum ch \<or> ch \<in> {CHR ''_'', CHR ''-''}) t"]
    by (auto simp: list_all_iff filename_char_def)
  with assms show ?thesis by (simp add: safe_filename_token_def Let_def)
qed

end
