(* ===== verification/Registry.thy ===== *)
theory Registry
  imports DocTypes
begin

text \<open>
  The register of valid documents: \<open>modules/registry/contracts.py\<close>,
  \<open>modules/registry/service.py\<close> and \<open>modules/registry/projection_api.py\<close>. The table of
  entries is a map from document ids; \<open>apply_documents_state\<close> is the projection step that the
  documents module drives with every change of a version, and \<open>apply_documents_projection\<close>
  the guarded entry point. Events are the envelopes of \<open>qm_platform/events/event_envelope.py\<close>.
\<close>

section \<open>Event envelopes\<close>

record event_envelope =
  ev_event_id :: string
  ev_name :: string
  ev_occurred_at :: time
  ev_correlation_id :: string
  ev_actor_user_id :: "string option"
  ev_module_id :: string
  ev_payload :: "(string, pyval) dict"

text \<open>One call of the audit logger's \<open>emit\<close>.\<close>

record audit_record =
  au_action :: string
  au_actor :: string
  au_target :: string
  au_result :: string
  au_reason :: string

section \<open>Entries\<close>

datatype register_state = RegVALID | RegIN_PROGRESS | RegIN_REVIEW | RegINVALID | RegARCHIVED

datatype release_evidence_mode = WORKFLOW | REGISTRY_NOTE

definition release_mode_of_value :: "string \<Rightarrow> release_evidence_mode option" where
  "release_mode_of_value v =
     (if v = ''WORKFLOW'' then Some WORKFLOW
      else if v = ''REGISTRY_NOTE'' then Some REGISTRY_NOTE else None)"

record registry_entry =
  r_document_id :: string
  r_active_version :: "int option"
  r_release_note :: "string option"
  r_release_evidence_mode :: release_evidence_mode
  r_register_state :: register_state
  r_is_findable :: bool
  r_valid_from :: "time option"
  r_valid_until :: "time option"
  r_last_update_event_id :: string
  r_last_update_at :: time

type_synonym registry = "string \<rightharpoonup> registry_entry"

datatype registry_error = RegistryValueError string | ProjectionPermissionError

section \<open>Operations\<close>

definition map_register_state :: "string \<Rightarrow> register_state \<times> bool" where
  "map_register_state status =
     (if status = ''APPROVED'' then (RegVALID, True)
      else if status = ''IN_REVIEW'' then (RegIN_REVIEW, True)
      else if status \<in> {''IN_PROGRESS'', ''DRAFT''} then (RegIN_PROGRESS, True)
      else if status = ''ARCHIVED'' then (RegARCHIVED, False)
      else (RegINVALID, True))"

text \<open>
  The entry \<open>RegistryService.apply_documents_state\<close> builds from the current one; \<open>now\<close> is the
  clock reading used when there is no event.
\<close>

definition projected_active_version :: "registry_entry option \<Rightarrow> int \<Rightarrow> string \<Rightarrow> int option" where
  "projected_active_version current version status =
     (let active_version = (case current of None \<Rightarrow> None | Some c \<Rightarrow> r_active_version c)
      in if status = ''APPROVED'' then Some version
         else if status = ''ARCHIVED'' \<and> active_version = Some version then None
         else active_version)"

definition projected_findable :: "registry_entry option \<Rightarrow> int \<Rightarrow> string \<Rightarrow> bool" where
  "projected_findable current version status =
     (let active_version = (case current of None \<Rightarrow> None | Some c \<Rightarrow> r_active_version c)
      in if status = ''APPROVED'' then snd (map_register_state status)
         else if status = ''ARCHIVED'' \<and> active_version = Some version then False
         else snd (map_register_state status))"

definition projected_entry ::
  "time \<Rightarrow> registry_entry option \<Rightarrow> string \<Rightarrow> int \<Rightarrow> string \<Rightarrow> release_evidence_mode \<Rightarrow> string option \<Rightarrow>
   time option \<Rightarrow> time option \<Rightarrow> event_envelope option \<Rightarrow> registry_entry" where
  "projected_entry now current document_id version status mode release_note valid_from valid_until event = \<lparr>
     r_document_id = document_id,
     r_active_version = projected_active_version current version status,
     r_release_note = or_opt release_note (Option.bind current r_release_note),
     r_release_evidence_mode = mode,
     r_register_state = fst (map_register_state status),
     r_is_findable = projected_findable current version status,
     r_valid_from = or_opt valid_from (Option.bind current r_valid_from),
     r_valid_until = or_opt valid_until (Option.bind current r_valid_until),
     r_last_update_event_id =
       (case event of Some e \<Rightarrow> ev_event_id e
        | None \<Rightarrow> ''state-sync:'' @ document_id @ '':'' @ str_int version @ '':'' @ status),
     r_last_update_at = (case event of Some e \<Rightarrow> ev_occurred_at e | None \<Rightarrow> now)\<rparr>"

text \<open>\<open>ReleaseEvidenceMode(...)\<close> raises \<open>ValueError\<close> on an unknown mode.\<close>

definition apply_documents_state ::
  "time \<Rightarrow> registry \<Rightarrow> string \<Rightarrow> int \<Rightarrow> string \<Rightarrow> string \<Rightarrow> string option \<Rightarrow>
   time option \<Rightarrow> time option \<Rightarrow> event_envelope option \<Rightarrow> registry_error + registry_entry \<times> registry" where
  "apply_documents_state now reg document_id version status mode_value release_note valid_from valid_until event =
     (case release_mode_of_value mode_value of
        None \<Rightarrow> Inl (RegistryValueError mode_value)
      | Some mode \<Rightarrow>
          let entry = projected_entry now (reg document_id) document_id version status mode
                        release_note valid_from valid_until event
          in Inr (entry, reg(document_id \<mapsto> entry)))"

text \<open>
  \<open>RegistryProjectionApi.apply_documents_projection\<close>: only the documents module may project;
  a foreign caller is answered with an event (the second component) and an exception.
\<close>

definition apply_documents_projection ::
  "time \<Rightarrow> registry \<Rightarrow> string \<Rightarrow> string \<Rightarrow> int \<Rightarrow> string \<Rightarrow> string \<Rightarrow> string option \<Rightarrow>
   time option \<Rightarrow> time option \<Rightarrow> event_envelope option \<Rightarrow>
   (registry_error + registry_entry \<times> registry) \<times> string list" where
  "apply_documents_projection now reg source_module_id document_id version status mode_value
       release_note valid_from valid_until event =
     (if source_module_id \<noteq> ''documents''
      then (Inl ProjectionPermissionError, [''domain.registry.projection.rejected.v1''])
      else (apply_documents_state now reg document_id version status mode_value release_note
              valid_from valid_until event, []))"

section \<open>Lemmas\<close>

lemma snd_map_register_state: "snd (map_register_state status) \<longleftrightarrow> status \<noteq> ''ARCHIVED''"
  by (simp add: map_register_state_def)

lemma projected_findable_iff: "projected_findable current version status \<longleftrightarrow> status \<noteq> ''ARCHIVED''"
  by (simp add: projected_findable_def snd_map_register_state Let_def)

lemma projected_entry_simps [simp]:
  "r_document_id (projected_entry now cur doc ver status mode note vf vu ev) = doc"
  "r_active_version (projected_entry now cur doc ver status mode note vf vu ev) = projected_active_version cur ver status"
  "r_register_state (projected_entry now cur doc ver status mode note vf vu ev) = fst (map_register_state status)"
  "r_is_findable (projected_entry now cur doc ver status mode note vf vu ev) \<longleftrightarrow> status \<noteq> ''ARCHIVED''"
  "r_valid_from (projected_entry now cur doc ver status mode note vf vu ev) = or_opt vf (Option.bind cur r_valid_from)"
  "r_valid_until (projected_entry now cur doc ver status mode note vf vu ev) = or_opt vu (Option.bind cur r_valid_until)"
  by (simp_all add: projected_entry_def projected_findable_iff)

lemma apply_documents_state_Inr:
  "apply_documents_state now reg doc ver status mode note vf vu ev = Inr (e, reg') \<longleftrightarrow>
     (\<exists>m. release_mode_of_value mode = Some m \<and>
        e = projected_entry now (reg doc) doc ver status m note vf vu ev \<and> reg' = reg(doc \<mapsto> e))"
  by (cases "release_mode_of_value mode") (auto simp: apply_documents_state_def Let_def)

lemma apply_documents_state_fails_iff:
  "(\<exists>err. apply_documents_state now reg doc ver status mode note vf vu ev = Inl err)
     \<longleftrightarrow> release_mode_of_value mode = None"
  by (cases "release_mode_of_value mode") (auto simp: apply_documents_state_def Let_def)

text \<open>\<open>_map_register_state\<close> distinguishes exactly the statuses a reader of the register sees.\<close>

lemma map_register_state_valid_iff:
  "fst (map_register_state (status_value s)) = RegVALID \<longleftrightarrow> s = APPROVED"
  by (cases s) (simp_all add: map_register_state_def)

end
