(* ===== verification/DocStore.thy ===== *)
theory DocStore
  imports ProfileCatalog DocStorage Registry
begin

text \<open>
  The state the documents service works on, and its primitive effects.

  \<^item> \<open>docs_db\<close> is the documents database (\<open>modules/documents/sqlite_repository.py\<close>): the tables
    of version rows, headers and artifacts. \<open>upsert_version\<close> is the SQL upsert with its
    \<open>COALESCE\<close> columns and the partial unique index of at most one \<open>APPROVED\<close> row per document;
    \<open>row_to_state\<close> is the row reader, which turns empty texts into \<open>None\<close>.
  \<^item> \<open>docs_world\<close> adds what lives outside the documents database: the service's own cache, the
    register, the published events, the audit log, the file system, and the counters of clock
    readings and of fresh identifiers. A transaction rolls the database back on an exception and
    nothing else.
  \<^item> \<open>docs_env\<close> holds what the code gets from outside: the clock, the uuid generator, the
    content of files (digest and size), the storage root, the DOCX converter, the copy of a PDF,
    and the signature port.

  The service is modelled as \<open>modules/documents/wiring.py\<close> builds it: with repository, storage,
  register, event bus and audit logger. Handlers subscribed to the bus are not modelled: an event
  is recorded when it is published.
\<close>

section \<open>The database\<close>

record docs_db =
  db_versions :: "version_state list"
  db_headers :: "doc_header list"
  db_artifacts :: "doc_artifact list"

definition version_key :: "version_state \<Rightarrow> string \<times> int" where
  "version_key st = (v_document_id st, v_version st)"

definition none_if_empty :: "string option \<Rightarrow> string option" where
  "none_if_empty x = (if x = Some [] then None else x)"

definition row_to_state :: "version_state \<Rightarrow> version_state" where
  "row_to_state row = row\<lparr>
     v_description := none_if_empty (v_description row),
     v_owner_user_id := none_if_empty (v_owner_user_id row),
     v_edit_signed_by := none_if_empty (v_edit_signed_by row),
     v_review_completed_by := none_if_empty (v_review_completed_by row),
     v_approval_completed_by := none_if_empty (v_approval_completed_by row),
     v_archived_by := none_if_empty (v_archived_by row),
     v_last_extended_by := none_if_empty (v_last_extended_by row),
     v_last_extension_reason := none_if_empty (v_last_extension_reason row),
     v_last_extension_review_outcome := none_if_empty (v_last_extension_review_outcome row),
     v_last_event_id := none_if_empty (v_last_event_id row),
     v_last_actor_user_id := none_if_empty (v_last_actor_user_id row),
     v_created_by := none_if_empty (v_created_by row)\<rparr>"

text \<open>The row an upsert leaves behind, given the row it meets (the \<open>COALESCE\<close> columns).\<close>

definition merge_row :: "time \<Rightarrow> version_state option \<Rightarrow> version_state \<Rightarrow> version_state" where
  "merge_row now old new = (case old of
       None \<Rightarrow> new\<lparr>v_updated_at := Some now\<rparr>
     | Some o' \<Rightarrow> new\<lparr>
         v_edit_signed_at := or_opt (v_edit_signed_at o') (v_edit_signed_at new),
         v_edit_signed_by := or_opt (v_edit_signed_by o') (v_edit_signed_by new),
         v_created_at := or_opt (v_created_at o') (v_created_at new),
         v_created_by := or_opt (v_created_by o') (v_created_by new),
         v_updated_at := Some now\<rparr>)"

definition find_row :: "version_state list \<Rightarrow> string \<times> int \<Rightarrow> version_state option" where
  "find_row rows k = List.find (\<lambda>r. version_key r = k) rows"

definition upsert_rows :: "time \<Rightarrow> version_state \<Rightarrow> version_state list \<Rightarrow> version_state list" where
  "upsert_rows now st rows =
     (case find_row rows (version_key st) of
        None \<Rightarrow> rows @ [merge_row now None st]
      | Some old \<Rightarrow> map (\<lambda>r. if version_key r = version_key st then merge_row now (Some old) st else r) rows)"

definition one_approved_violation :: "version_state list \<Rightarrow> version_state \<Rightarrow> bool" where
  "one_approved_violation rows st \<longleftrightarrow> v_status st = APPROVED \<and>
     list_ex (\<lambda>r. v_document_id r = v_document_id st \<and> v_version r \<noteq> v_version st \<and> v_status r = APPROVED) rows"

definition upsert_version :: "time \<Rightarrow> version_state \<Rightarrow> version_state list \<Rightarrow> doc_error + version_state list" where
  "upsert_version now st rows =
     (if one_approved_violation rows st
      then Inl (IntegrityError ''idx_document_versions_one_approved_per_doc'')
      else Inr (upsert_rows now st rows))"

definition get_row :: "version_state list \<Rightarrow> string \<Rightarrow> int \<Rightarrow> version_state option" where
  "get_row rows doc ver = map_option row_to_state (find_row rows (doc, ver))"

definition list_versions_rows :: "version_state list \<Rightarrow> string \<Rightarrow> version_state list" where
  "list_versions_rows rows doc =
     map row_to_state (sort_key v_version (filter (\<lambda>r. v_document_id r = doc) rows))"

definition list_by_status_rows :: "version_state list \<Rightarrow> doc_status \<Rightarrow> version_state list" where
  "list_by_status_rows rows s =
     map row_to_state (sort_key v_document_id (sort_key v_version (filter (\<lambda>r. v_status r = s) rows)))"

definition get_header :: "docs_db \<Rightarrow> string \<Rightarrow> doc_header option" where
  "get_header db doc = List.find (\<lambda>h. h_document_id h = doc) (db_headers db)"

text \<open>\<open>upsert_header\<close>: \<open>created_at\<close> of an existing header stays, \<open>updated_at\<close> is now.\<close>

definition upsert_header :: "time \<Rightarrow> doc_header \<Rightarrow> docs_db \<Rightarrow> docs_db" where
  "upsert_header now h db = (let new = h\<lparr>
       h_distribution_roles := sort (h_distribution_roles h),
       h_distribution_sites := sort (h_distribution_sites h),
       h_distribution_departments := sort (h_distribution_departments h),
       h_updated_at := now\<rparr>
     in db\<lparr>db_headers := (case get_header db (h_document_id h) of
            None \<Rightarrow> db_headers db @ [new]
          | Some _ \<Rightarrow> map (\<lambda>x. if h_document_id x = h_document_id h
                               then new\<lparr>h_created_at := h_created_at x\<rparr> else x) (db_headers db))\<rparr>)"

definition list_artifacts_rows :: "docs_db \<Rightarrow> string \<Rightarrow> int \<Rightarrow> doc_artifact list" where
  "list_artifacts_rows db doc ver =
     sort_key a_created_at (filter (\<lambda>a. a_document_id a = doc \<and> a_version a = ver) (db_artifacts db))"

definition mark_current_artifact ::
  "string \<Rightarrow> int \<Rightarrow> artifact_type \<Rightarrow> string \<Rightarrow> doc_artifact list \<Rightarrow> doc_artifact list" where
  "mark_current_artifact doc ver t artifact_id arts =
     map (\<lambda>a. if a_artifact_id a = artifact_id then a\<lparr>a_is_current := True\<rparr> else a)
       (map (\<lambda>a. if a_document_id a = doc \<and> a_version a = ver \<and> a_artifact_type a = t
                 then a\<lparr>a_is_current := False\<rparr> else a) arts)"

section \<open>The world of the service\<close>

record docs_world =
  w_db :: docs_db
  w_cache :: "(string \<times> int, version_state) dict"
  w_registry :: registry
  w_events :: "event_envelope list"
  w_audit :: "audit_record list"
  w_files :: "string set"
  w_ticks :: nat
  w_uuids :: nat

text \<open>The fields of \<open>SignRequest\<close> the documents module reads or replaces.\<close>

record sign_request =
  sr_template_id :: "string option"
  sr_input_pdf :: string
  sr_output_pdf :: string
  sr_signature_png :: "string option"

text \<open>
  The environment. The signature API is seen as the guard sees it: a call takes the request and
  the existing files, and gives the message of its \<open>SignatureError\<close>, if it raises one, and the
  files it leaves behind.
\<close>

record docs_env =
  clock :: "nat \<Rightarrow> time"
  fresh_uuid :: "nat \<Rightarrow> string"
  file_digest :: "string \<Rightarrow> string"
  file_size :: "string \<Rightarrow> int"
  storage_root :: string
  temp_dir :: string
  docx_to_pdf :: "string \<Rightarrow> bool"
  has_signature_api :: bool
  sign_with_template_for_actor :: "string \<Rightarrow> sign_request \<Rightarrow> string set \<Rightarrow> string option \<times> string set"
  sign_with_fixed_position :: "sign_request \<Rightarrow> string set \<Rightarrow> string option \<times> string set"
  profile_lookup :: "string \<Rightarrow> doc_error + workflow_profile"
  default_profile :: "doc_type \<Rightarrow> doc_error + (string \<times> bool)"

type_synonym 'a doc_meth = "(docs_world, doc_error, 'a) meth"

definition utcnow :: "docs_env \<Rightarrow> time doc_meth" where
  "utcnow env = (\<lambda>w. (Inr (clock env (w_ticks w)), w\<lparr>w_ticks := Suc (w_ticks w)\<rparr>))"

definition uuid4 :: "docs_env \<Rightarrow> string doc_meth" where
  "uuid4 env = (\<lambda>w. (Inr (fresh_uuid env (w_uuids w)), w\<lparr>w_uuids := Suc (w_uuids w)\<rparr>))"

text \<open>
  \<open>_write_transaction\<close>: commit on return, roll the database back on an exception. The code lets a nested
  transaction join the outer one; here it rolls back to its own start. No exception that leaves an inner
  transaction is swallowed on its way (\<open>extend_annual_validity_signed\<close> raises it again), so the outer one rolls
  back as well and the result is the same. A failing commit is not modelled.
\<close>

definition write_transaction :: "'a doc_meth \<Rightarrow> 'a doc_meth" where
  "write_transaction m = (\<lambda>w. case m w of
       (Inl e, w') \<Rightarrow> (Inl e, w'\<lparr>w_db := w_db w\<rparr>)
     | (Inr x, w') \<Rightarrow> (Inr x, w'))"

definition get_document_version :: "string \<Rightarrow> int \<Rightarrow> version_state option doc_meth" where
  "get_document_version doc ver = readM (\<lambda>w. get_row (db_versions (w_db w)) doc ver)"

definition list_versions :: "string \<Rightarrow> version_state list doc_meth" where
  "list_versions doc = readM (\<lambda>w. list_versions_rows (db_versions (w_db w)) doc)"

definition list_artifacts :: "string \<Rightarrow> int \<Rightarrow> doc_artifact list doc_meth" where
  "list_artifacts doc ver = readM (\<lambda>w. list_artifacts_rows (w_db w) doc ver)"

text \<open>\<open>_store_state\<close>: check, cache, upsert. The upsert's own clock reading stamps \<open>updated_at\<close>.\<close>

definition store_state :: "docs_env \<Rightarrow> version_state \<Rightarrow> unit doc_meth" where
  "store_state env state =
     bindM (liftE (assert_state_invariants state)) (\<lambda>_.
     bindM (modifyM (\<lambda>w. w\<lparr>w_cache := AList.update (version_key state) state (w_cache w)\<rparr>)) (\<lambda>_.
     bindM (utcnow env) (\<lambda>now.
     bindM (readM (\<lambda>w. upsert_version now state (db_versions (w_db w)))) (\<lambda>r.
     bindM (liftE r) (\<lambda>rows.
     modifyM (\<lambda>w. w\<lparr>w_db := (w_db w)\<lparr>db_versions := rows\<rparr>\<rparr>))))))"

text \<open>\<open>eventing.publish_event\<close> with \<open>EventEnvelope.create\<close>.\<close>

definition publish_event ::
  "docs_env \<Rightarrow> string \<Rightarrow> version_state \<Rightarrow> (string, pyval) dict \<Rightarrow> string option \<Rightarrow> event_envelope doc_meth" where
  "publish_event env name state payload actor_user_id =
     bindM (uuid4 env) (\<lambda>event_id.
     bindM (utcnow env) (\<lambda>now.
     bindM (uuid4 env) (\<lambda>correlation_id.
     let envelope = \<lparr>ev_event_id = event_id, ev_name = name, ev_occurred_at = now,
           ev_correlation_id = correlation_id, ev_actor_user_id = actor_user_id,
           ev_module_id = ''documents'',
           ev_payload = dict_update [(''document_id'', PyStr (v_document_id state)),
                                     (''version'', PyInt (v_version state))] payload\<rparr>
     in bindM (modifyM (\<lambda>w. w\<lparr>w_events := w_events w @ [envelope]\<rparr>)) (\<lambda>_. retM envelope))))"

definition stamp_event_on_state ::
  "version_state \<Rightarrow> event_envelope option \<Rightarrow> string option \<Rightarrow> version_state" where
  "stamp_event_on_state state event actor_user_id =
     (case event of
        None \<Rightarrow> state
      | Some e \<Rightarrow> state\<lparr>
          v_last_event_id := (if ev_event_id e \<noteq> [] then Some (ev_event_id e) else v_last_event_id state),
          v_last_event_at := Some (ev_occurred_at e),
          v_last_actor_user_id := or_str actor_user_id (or_str (ev_actor_user_id e) (v_last_actor_user_id state))\<rparr>)"

definition emit_audit :: "string \<Rightarrow> string \<Rightarrow> string \<Rightarrow> string \<Rightarrow> unit doc_meth" where
  "emit_audit action actor target reason =
     modifyM (\<lambda>w. w\<lparr>w_audit := w_audit w @ [\<lparr>au_action = action, au_actor = actor, au_target = target,
                                             au_result = ''ok'', au_reason = reason\<rparr>]\<rparr>)"

text \<open>\<open>str(actor_user_id or owner_user_id or "system")\<close> and the audit target of a version.\<close>

definition audit_actor :: "string option \<Rightarrow> string option \<Rightarrow> string" where
  "audit_actor actor owner =
     (case or_str actor owner of None \<Rightarrow> ''system'' | Some a \<Rightarrow> if a = [] then ''system'' else a)"

definition version_target :: "version_state \<Rightarrow> string" where
  "version_target state = v_document_id state @ '':'' @ str_int (v_version state)"

text \<open>\<open>registry_sync.sync_registry\<close>: the projection of a version into the register.\<close>

definition sync_registry :: "docs_env \<Rightarrow> version_state \<Rightarrow> event_envelope option \<Rightarrow> unit doc_meth" where
  "sync_registry env state event =
     bindM (case event of Some _ \<Rightarrow> retM 0 | None \<Rightarrow> utcnow env) (\<lambda>now.
     bindM (readM (\<lambda>w. fst (apply_documents_projection now (w_registry w) ''documents''
         (v_document_id state) (v_version state) (status_value (v_status state))
         (case v_workflow_profile state of Some p \<Rightarrow> p_release_evidence_mode p | None \<Rightarrow> ''WORKFLOW'')
         None (v_valid_from state) (v_valid_until state) event))) (\<lambda>r.
     case r of
       Inl _ \<Rightarrow> raiseM (ValidationError ''ValueError: ReleaseEvidenceMode'')
     | Inr (_, reg) \<Rightarrow> modifyM (\<lambda>w. w\<lparr>w_registry := reg\<rparr>)))"

section \<open>Artifacts\<close>

definition create_artifact ::
  "docs_env \<Rightarrow> version_state \<Rightarrow> string \<Rightarrow> artifact_type \<Rightarrow> artifact_source_type \<Rightarrow>
   (string, string) dict \<Rightarrow> doc_artifact doc_meth" where
  "create_artifact env state source_path atype source_type metadata =
     bindM (uuid4 env) (\<lambda>object_id.
     let ext = py_lower (path_suffix source_path);
         ext = (if ext \<in> set allowed_store_suffixes then ext else '''');
         storage_key = ''objects/'' @ take 2 object_id @ ''/'' @ object_id @ ext
     in case resolve_storage_key (storage_root env) storage_key of
          None \<Rightarrow> raiseM (ValidationError ''storage_key escapes documents storage root'')
        | Some target \<Rightarrow>
          bindM (readM w_files) (\<lambda>files.
          bindM (liftE (raise_if (source_path \<notin> files) (ValidationError (''FileNotFoundError: '' @ source_path)))) (\<lambda>_.
          bindM (modifyM (\<lambda>w. w\<lparr>w_files := insert target (w_files w)\<rparr>)) (\<lambda>_.
          bindM (uuid4 env) (\<lambda>artifact_id.
          bindM (utcnow env) (\<lambda>now.
          let artifact = \<lparr>
                a_artifact_id = artifact_id, a_document_id = v_document_id state,
                a_version = v_version state, a_artifact_type = atype, a_source_type = source_type,
                a_storage_key = storage_key, a_original_filename = path_name source_path,
                a_mime_type = guess_mime ext, a_sha256 = file_digest env source_path,
                a_size_bytes = file_size env source_path, a_is_current = True,
                a_metadata = metadata, a_created_at = now\<rparr>
          in bindM (modifyM (\<lambda>w. w\<lparr>w_db := (w_db w)\<lparr>db_artifacts :=
                 mark_current_artifact (v_document_id state) (v_version state) atype artifact_id
                   (db_artifacts (w_db w) @ [artifact])\<rparr>\<rparr>)) (\<lambda>_.
             retM artifact)))))))"

end
