(* ===== verification/DocStoreLaws.thy ===== *)
theory DocStoreLaws
  imports DocStore
begin

text \<open>
  What the documents database promises to the service. \<open>rows_ok\<close> is the table invariant (one row
  per key, every row consistent, at most one approved version per document). The locale
  \<open>version_table\<close> states the contract of the repository as its client sees it, proves what two
  writes in a row and a rejected write do, and is interpreted on \<open>get_row\<close>, \<open>upsert_version\<close> and
  \<open>rows_ok\<close>. The second part shows which effects keep which parts of the world.
\<close>

section \<open>Rows\<close>

lemma version_key_simps [simp]:
  "version_key (st\<lparr>v_updated_at := u\<rparr>) = version_key st"
  "version_key (row_to_state st) = version_key st"
  by (simp_all add: version_key_def row_to_state_def)

lemma merge_row_simps [simp]:
  "version_key (merge_row now old st) = version_key st"
  "v_document_id (merge_row now old st) = v_document_id st"
  "v_version (merge_row now old st) = v_version st"
  "v_status (merge_row now old st) = v_status st"
  "v_workflow_active (merge_row now old st) = v_workflow_active st"
  "v_workflow_profile (merge_row now old st) = v_workflow_profile st"
  "v_last_event_id (merge_row now old st) = v_last_event_id st"
  "v_extension_count (merge_row now old st) = v_extension_count st"
  "v_owner_user_id (merge_row now old st) = v_owner_user_id st"
  "v_assignments (merge_row now old st) = v_assignments st"
  "v_superseded_by_version (merge_row now old st) = v_superseded_by_version st"
  by (simp_all add: merge_row_def version_key_def split: option.split)

lemma row_to_state_simps [simp]:
  "v_document_id (row_to_state r) = v_document_id r"
  "v_version (row_to_state r) = v_version r"
  "v_status (row_to_state r) = v_status r"
  "v_workflow_active (row_to_state r) = v_workflow_active r"
  "v_workflow_profile (row_to_state r) = v_workflow_profile r"
  "v_extension_count (row_to_state r) = v_extension_count r"
  "v_assignments (row_to_state r) = v_assignments r"
  "v_last_event_id (row_to_state r) = none_if_empty (v_last_event_id r)"
  "v_superseded_by_version (row_to_state r) = v_superseded_by_version r"
  by (simp_all add: row_to_state_def)

lemma merge_row_consistent:
  assumes "state_consistent st" and "\<And>o'. old = Some o' \<Longrightarrow> state_consistent o'"
  shows "state_consistent (merge_row now old st)"
proof (cases old)
  case None
  with assms(1) show ?thesis by (simp add: merge_row_def state_consistent_def)
next
  case (Some o')
  with assms(2) have o': "v_edit_signed_at o' \<noteq> None \<longrightarrow> v_edit_signed_by o' \<noteq> None"
    by (simp add: state_consistent_def)
  show ?thesis
    using assms(1) o' unfolding Some merge_row_def state_consistent_def option.case by simp
qed

lemma find_row_SomeD: "find_row rows k = Some r \<Longrightarrow> r \<in> set rows \<and> version_key r = k"
  by (auto simp: find_row_def find_Some_iff)

lemma find_row_None_iff: "find_row rows k = None \<longleftrightarrow> (\<forall>r \<in> set rows. version_key r \<noteq> k)"
  by (auto simp: find_row_def find_None_iff)

lemma find_row_Cons [simp]:
  "find_row (r # rows) k = (if version_key r = k then Some r else find_row rows k)"
  by (simp add: find_row_def)

lemma find_row_Nil [simp]: "find_row [] k = None"
  by (simp add: find_row_def)

lemma find_row_append:
  "find_row (xs @ ys) k = (case find_row xs k of None \<Rightarrow> find_row ys k | Some r \<Rightarrow> Some r)"
  by (induction xs) simp_all

lemma find_row_replace:
  assumes "version_key new = k"
  shows "find_row (map (\<lambda>r. if version_key r = k then new else r) rows) k' =
    (if k' = k then (case find_row rows k of None \<Rightarrow> None | Some _ \<Rightarrow> Some new) else find_row rows k')"
  using assms by (induction rows) (auto split: option.splits)

lemma find_row_upsert_rows:
  "find_row (upsert_rows now st rows) k =
     (if k = version_key st then Some (merge_row now (find_row rows (version_key st)) st) else find_row rows k)"
proof (cases "find_row rows (version_key st)")
  case None
  then show ?thesis by (auto simp: upsert_rows_def find_row_append split: option.split)
next
  case (Some old)
  then show ?thesis by (simp add: upsert_rows_def find_row_replace)
qed

lemma find_row_distinct:
  assumes "distinct (map version_key rows)" and "r \<in> set rows"
  shows "find_row rows (version_key r) = Some r"
  using assms by (induction rows) (auto simp: image_iff)

lemma map_replace_keys:
  assumes "version_key new = k"
  shows "map version_key (map (\<lambda>r. if version_key r = k then new else r) rows) = map version_key rows"
  using assms by (induction rows) auto

lemma map_version_key_upsert_rows:
  "map version_key (upsert_rows now st rows) =
     (if find_row rows (version_key st) = None then map version_key rows @ [version_key st]
      else map version_key rows)"
  unfolding upsert_rows_def
  by (auto simp: map_replace_keys simp del: map_map split: option.split)

definition row_approved :: "version_state list \<Rightarrow> string \<Rightarrow> int \<Rightarrow> bool" where
  "row_approved rows doc ver \<longleftrightarrow>
     (case find_row rows (doc, ver) of None \<Rightarrow> False | Some r \<Rightarrow> v_status r = APPROVED)"

definition rows_ok :: "version_state list \<Rightarrow> bool" where
  "rows_ok rows \<longleftrightarrow> distinct (map version_key rows) \<and> list_all state_consistent rows \<and>
     (\<forall>doc v v'. row_approved rows doc v \<longrightarrow> row_approved rows doc v' \<longrightarrow> v = v')"

lemma row_approved_upsert_rows:
  "row_approved (upsert_rows now st rows) doc ver \<longleftrightarrow>
     (if (doc, ver) = version_key st then v_status st = APPROVED else row_approved rows doc ver)"
  unfolding row_approved_def find_row_upsert_rows by simp

lemma one_approved_violation_iff:
  assumes "distinct (map version_key rows)"
  shows "one_approved_violation rows st \<longleftrightarrow> v_status st = APPROVED \<and>
    (\<exists>ver. ver \<noteq> v_version st \<and> row_approved rows (v_document_id st) ver)"
proof
  assume "one_approved_violation rows st"
  then obtain r where r: "r \<in> set rows" "v_document_id r = v_document_id st"
    "v_version r \<noteq> v_version st" "v_status r = APPROVED" "v_status st = APPROVED"
    by (auto simp: one_approved_violation_def list_ex_iff)
  then have "row_approved rows (v_document_id st) (v_version r)"
    using find_row_distinct [OF assms r(1)] by (simp add: row_approved_def version_key_def)
  with r show "v_status st = APPROVED \<and> (\<exists>ver. ver \<noteq> v_version st \<and> row_approved rows (v_document_id st) ver)"
    by blast
next
  assume "v_status st = APPROVED \<and> (\<exists>ver. ver \<noteq> v_version st \<and> row_approved rows (v_document_id st) ver)"
  then obtain ver r where "v_status st = APPROVED" "ver \<noteq> v_version st"
    "find_row rows (v_document_id st, ver) = Some r" "v_status r = APPROVED"
    by (auto simp: row_approved_def split: option.splits)
  then show "one_approved_violation rows st"
    by (auto simp: one_approved_violation_def list_ex_iff version_key_def intro!: bexI [of _ r]
        dest!: find_row_SomeD)
qed

lemma upsert_version_Inr:
  "upsert_version now st rows = Inr rows' \<longleftrightarrow>
     \<not> one_approved_violation rows st \<and> rows' = upsert_rows now st rows"
  by (auto simp: upsert_version_def)

lemma upsert_rows_consistent:
  assumes "list_all state_consistent rows" and "state_consistent st"
  shows "list_all state_consistent (upsert_rows now st rows)"
proof -
  have old: "\<And>o'. find_row rows (version_key st) = Some o' \<Longrightarrow> state_consistent o'"
    using assms(1) by (auto simp: list_all_iff dest: find_row_SomeD)
  have new: "state_consistent (merge_row now (find_row rows (version_key st)) st)"
    by (rule merge_row_consistent [OF assms(2) old])
  show ?thesis
    using assms(1) new by (auto simp: upsert_rows_def list_all_iff split: option.splits)
qed

lemma upsert_version_rows_ok:
  assumes ok: "rows_ok rows" and st: "state_consistent st" and up: "upsert_version now st rows = Inr rows'"
  shows "rows_ok rows'"
proof -
  have d: "distinct (map version_key rows)" and c: "list_all state_consistent rows"
    and one: "\<And>doc v v'. row_approved rows doc v \<Longrightarrow> row_approved rows doc v' \<Longrightarrow> v = v'"
    using ok unfolding rows_ok_def by blast+
  have eq: "rows' = upsert_rows now st rows" and nv: "\<not> one_approved_violation rows st"
    using up by (simp_all add: upsert_version_Inr)
  have "distinct (map version_key rows')"
    unfolding eq map_version_key_upsert_rows using d
    by (auto simp: find_row_None_iff)
  moreover have "list_all state_consistent rows'"
    unfolding eq by (rule upsert_rows_consistent [OF c st])
  moreover have "v = v'" if a: "row_approved rows' doc v" "row_approved rows' doc v'" for doc v v'
    using a nv one unfolding eq row_approved_upsert_rows one_approved_violation_iff [OF d]
    by (auto simp: version_key_def split: if_splits)
  ultimately show ?thesis unfolding rows_ok_def by blast
qed

section \<open>The contract of the version table\<close>

locale version_table =
  fixes lookup :: "'db \<Rightarrow> string \<Rightarrow> int \<Rightarrow> version_state option"
    and put :: "time \<Rightarrow> version_state \<Rightarrow> 'db \<Rightarrow> doc_error + 'db"
    and ok :: "'db \<Rightarrow> bool"
  assumes write_keeps: "ok db \<Longrightarrow> state_consistent st \<Longrightarrow> put now st db = Inr db' \<Longrightarrow> ok db'"
    and lookup_written: "put now st db = Inr db' \<Longrightarrow>
      \<exists>st'. lookup db' (v_document_id st) (v_version st) = Some st' \<and> v_status st' = v_status st"
    and lookup_other: "put now st db = Inr db' \<Longrightarrow> (doc, ver) \<noteq> version_key st \<Longrightarrow>
      lookup db' doc ver = lookup db doc ver"
    and one_approved: "ok db \<Longrightarrow> lookup db doc v = Some a \<Longrightarrow> v_status a = APPROVED \<Longrightarrow>
      lookup db doc v' = Some b \<Longrightarrow> v_status b = APPROVED \<Longrightarrow> v = v'"
    and write_fails_iff: "ok db \<Longrightarrow> (\<exists>e. put now st db = Inl e) \<longleftrightarrow> v_status st = APPROVED \<and>
      (\<exists>v a. v \<noteq> v_version st \<and> lookup db (v_document_id st) v = Some a \<and> v_status a = APPROVED)"
begin

lemma write_not_approved:
  assumes "ok db" and "v_status st \<noteq> APPROVED"
  shows "\<exists>db'. put now st db = Inr db'"
  using write_fails_iff [OF assms(1), of now st] assms(2) by (cases "put now st db") auto

text \<open>The second write of the same version always succeeds when the first one did.\<close>

lemma write_again:
  assumes "ok db" and "state_consistent st" and "put now st db = Inr db1"
    and "v_document_id st' = v_document_id st" and "v_version st' = v_version st"
    and "v_status st' = v_status st"
  shows "\<exists>db2. put now' st' db1 = Inr db2"
proof (rule ccontr)
  assume "\<not> ?thesis"
  then obtain e where "put now' st' db1 = Inl e" by (cases "put now' st' db1") auto
  moreover have ok1: "ok db1" by (rule write_keeps [OF assms(1-3)])
  ultimately obtain v a where "v_status st = APPROVED" "v \<noteq> v_version st"
    "lookup db1 (v_document_id st) v = Some a" "v_status a = APPROVED"
    using write_fails_iff [OF ok1, of now' st'] assms(4-6) by auto
  moreover obtain b where "lookup db1 (v_document_id st) (v_version st) = Some b" "v_status b = v_status st"
    using lookup_written [OF assms(3)] by blast
  ultimately show False using one_approved [OF ok1] by metis
qed

text \<open>A version written as approved is the only approved one of its document.\<close>

lemma written_is_the_approved:
  assumes "ok db" and "state_consistent st" and "put now st db = Inr db'" and "v_status st = APPROVED"
    and "lookup db' (v_document_id st) v = Some a" and "v_status a = APPROVED"
  shows "v = v_version st"
proof -
  obtain b where "lookup db' (v_document_id st) (v_version st) = Some b" "v_status b = APPROVED"
    using lookup_written [OF assms(3)] assms(4) by auto
  then show ?thesis using one_approved [OF write_keeps [OF assms(1-3)]] assms(5,6) by blast
qed

end

lemma get_row_upsert_rows:
  "get_row (upsert_rows now st rows) doc ver =
     (if (doc, ver) = version_key st
      then Some (row_to_state (merge_row now (find_row rows (version_key st)) st))
      else get_row rows doc ver)"
  by (auto simp: get_row_def find_row_upsert_rows)

lemma get_row_approved:
  "(\<exists>a. get_row rows doc ver = Some a \<and> v_status a = APPROVED) \<longleftrightarrow> row_approved rows doc ver"
  by (auto simp: get_row_def row_approved_def split: option.split)

interpretation rows: version_table get_row upsert_version rows_ok
proof (unfold_locales, goal_cases)
  case (1 db st now db')
  then show ?case by (rule upsert_version_rows_ok)
next
  case (2 now st db db')
  then show ?case by (simp add: upsert_version_Inr get_row_upsert_rows version_key_def)
next
  case (3 now st db db' doc ver)
  then show ?case by (simp add: upsert_version_Inr get_row_upsert_rows)
next
  case (4 db doc v a v' b)
  then have "row_approved db doc v" "row_approved db doc v'"
    using get_row_approved by blast+
  with 4(1) show ?case unfolding rows_ok_def by blast
next
  case (5 db now st)
  then have d: "distinct (map version_key db)" unfolding rows_ok_def by blast
  have "(\<exists>e. upsert_version now st db = Inl e) \<longleftrightarrow> one_approved_violation db st"
    by (auto simp: upsert_version_def)
  then show ?case
    unfolding one_approved_violation_iff [OF d] using get_row_approved [of db] by metis
qed

section \<open>Effects, exactly\<close>

definition with_rows :: "version_state list \<Rightarrow> docs_world \<Rightarrow> docs_world" where
  "with_rows rows w = w\<lparr>w_db := (w_db w)\<lparr>db_versions := rows\<rparr>\<rparr>"

lemma with_rows_simps [simp]:
  "db_versions (w_db (with_rows rows w)) = rows"
  "db_headers (w_db (with_rows rows w)) = db_headers (w_db w)"
  "db_artifacts (w_db (with_rows rows w)) = db_artifacts (w_db w)"
  "w_registry (with_rows rows w) = w_registry w" "w_events (with_rows rows w) = w_events w"
  "w_audit (with_rows rows w) = w_audit w" "w_files (with_rows rows w) = w_files w"
  "w_ticks (with_rows rows w) = w_ticks w" "w_uuids (with_rows rows w) = w_uuids w"
  "w_cache (with_rows rows w) = w_cache w"
  by (simp_all add: with_rows_def)

text \<open>What a successful \<open>_store_state\<close> leaves, and what a failed one leaves.\<close>

definition stored :: "docs_env \<Rightarrow> version_state \<Rightarrow> docs_world \<Rightarrow> docs_world" where
  "stored env st w = with_rows (upsert_rows (clock env (w_ticks w)) st (db_versions (w_db w)))
     (w\<lparr>w_cache := AList.update (version_key st) st (w_cache w), w_ticks := Suc (w_ticks w)\<rparr>)"

lemma store_state_eq:
  "store_state env st w =
     (if state_consistent st
      then if one_approved_violation (db_versions (w_db w)) st
           then (Inl (IntegrityError ''idx_document_versions_one_approved_per_doc''),
                 w\<lparr>w_cache := AList.update (version_key st) st (w_cache w), w_ticks := Suc (w_ticks w)\<rparr>)
           else (Inr (), stored env st w)
      else (assert_state_invariants st, w))"
proof (cases "assert_state_invariants st")
  case (Inl e)
  then have "\<not> state_consistent st" using assert_state_invariants_iff [of st "()"] by simp
  with Inl show ?thesis by (simp add: store_state_def)
next
  case (Inr u)
  then have "state_consistent st" using assert_state_invariants_iff [of st u] by simp
  with Inr show ?thesis
    by (simp add: store_state_def utcnow_def bindM_Inr upsert_version_def stored_def with_rows_def)
qed

lemma store_state_Inr:
  "store_state env st w = (Inr u, w') \<longleftrightarrow>
     state_consistent st \<and> \<not> one_approved_violation (db_versions (w_db w)) st \<and> w' = stored env st w"
proof (cases "state_consistent st")
  case True
  then show ?thesis by (auto simp: store_state_eq)
next
  case False
  then have "assert_state_invariants st \<noteq> Inr u" using assert_state_invariants_iff by blast
  with False show ?thesis by (simp add: store_state_eq)
qed

lemma stored_simps [simp]:
  "db_versions (w_db (stored env st w)) = upsert_rows (clock env (w_ticks w)) st (db_versions (w_db w))"
  "db_headers (w_db (stored env st w)) = db_headers (w_db w)"
  "db_artifacts (w_db (stored env st w)) = db_artifacts (w_db w)"
  "w_registry (stored env st w) = w_registry w" "w_events (stored env st w) = w_events w"
  "w_audit (stored env st w) = w_audit w" "w_files (stored env st w) = w_files w"
  "w_ticks (stored env st w) = Suc (w_ticks w)" "w_uuids (stored env st w) = w_uuids w"
  by (simp_all add: stored_def)

definition published ::
  "docs_env \<Rightarrow> string \<Rightarrow> version_state \<Rightarrow> (string, pyval) dict \<Rightarrow> string option \<Rightarrow> docs_world \<Rightarrow> event_envelope" where
  "published env name st payload actor w = \<lparr>ev_event_id = fresh_uuid env (w_uuids w), ev_name = name,
     ev_occurred_at = clock env (w_ticks w), ev_correlation_id = fresh_uuid env (Suc (w_uuids w)),
     ev_actor_user_id = actor, ev_module_id = ''documents'',
     ev_payload = dict_update [(''document_id'', PyStr (v_document_id st)),
                               (''version'', PyInt (v_version st))] payload\<rparr>"

definition with_event :: "event_envelope \<Rightarrow> docs_world \<Rightarrow> docs_world" where
  "with_event ev w = w\<lparr>w_events := w_events w @ [ev], w_ticks := Suc (w_ticks w),
     w_uuids := Suc (Suc (w_uuids w))\<rparr>"

lemma publish_event_eq [simp]:
  "publish_event env name st payload actor w =
     (Inr (published env name st payload actor w), with_event (published env name st payload actor w) w)"
  by (simp add: publish_event_def uuid4_def utcnow_def bindM_def Let_def published_def with_event_def)

lemma with_event_simps [simp]:
  "w_db (with_event ev w) = w_db w" "w_registry (with_event ev w) = w_registry w"
  "w_events (with_event ev w) = w_events w @ [ev]" "w_audit (with_event ev w) = w_audit w"
  "w_files (with_event ev w) = w_files w" "w_cache (with_event ev w) = w_cache w"
  "w_ticks (with_event ev w) = Suc (w_ticks w)" "w_uuids (with_event ev w) = Suc (Suc (w_uuids w))"
  by (simp_all add: with_event_def)

lemma stamp_event_simps [simp]:
  "version_key (stamp_event_on_state st ev a) = version_key st"
  "v_document_id (stamp_event_on_state st ev a) = v_document_id st"
  "v_version (stamp_event_on_state st ev a) = v_version st"
  "v_status (stamp_event_on_state st ev a) = v_status st"
  "v_workflow_active (stamp_event_on_state st ev a) = v_workflow_active st"
  "v_workflow_profile (stamp_event_on_state st ev a) = v_workflow_profile st"
  "v_assignments (stamp_event_on_state st ev a) = v_assignments st"
  "v_extension_count (stamp_event_on_state st ev a) = v_extension_count st"
  "v_owner_user_id (stamp_event_on_state st ev a) = v_owner_user_id st"
  "v_valid_from (stamp_event_on_state st ev a) = v_valid_from st"
  "v_valid_until (stamp_event_on_state st ev a) = v_valid_until st"
  "v_superseded_by_version (stamp_event_on_state st ev a) = v_superseded_by_version st"
  "v_released_at (stamp_event_on_state st ev a) = v_released_at st"
  "v_approved_by (stamp_event_on_state st ev a) = v_approved_by st"
  "v_reviewed_by (stamp_event_on_state st ev a) = v_reviewed_by st"
  "v_approval_completed_by (stamp_event_on_state st ev a) = v_approval_completed_by st"
  "v_approval_completed_at (stamp_event_on_state st ev a) = v_approval_completed_at st"
  "state_consistent (stamp_event_on_state st ev a) = state_consistent st"
  by (simp_all add: stamp_event_on_state_def version_key_def state_consistent_def split: option.split)

text \<open>The mode of release evidence a version projects into the register.\<close>

definition release_mode_value :: "version_state \<Rightarrow> string" where
  "release_mode_value st = (case v_workflow_profile st of Some p \<Rightarrow> p_release_evidence_mode p | None \<Rightarrow> ''WORKFLOW'')"

lemma sync_registry_event:
  "sync_registry env st (Some ev) w =
     (case release_mode_of_value (release_mode_value st) of
        None \<Rightarrow> (Inl (ValidationError ''ValueError: ReleaseEvidenceMode''), w)
      | Some mode \<Rightarrow> (Inr (), w\<lparr>w_registry := (w_registry w)(v_document_id st \<mapsto>
            projected_entry 0 (w_registry w (v_document_id st)) (v_document_id st) (v_version st)
              (status_value (v_status st)) mode None (v_valid_from st) (v_valid_until st) (Some ev))\<rparr>))"
  by (simp add: sync_registry_def apply_documents_projection_def apply_documents_state_def
      release_mode_value_def Let_def split: option.split)

lemma emit_audit_result [simp]: "fst (emit_audit a b c d w) = Inr ()"
  by (simp add: emit_audit_def)

lemma emit_audit_simps [simp]:
  "w_db (snd (emit_audit a b c d w)) = w_db w" "w_registry (snd (emit_audit a b c d w)) = w_registry w"
  "w_events (snd (emit_audit a b c d w)) = w_events w" "w_files (snd (emit_audit a b c d w)) = w_files w"
  by (simp_all add: emit_audit_def)

section \<open>Transactions\<close>

lemma write_transaction_Inr:
  "write_transaction m w = (Inr x, w') \<longleftrightarrow> m w = (Inr x, w')"
  by (auto simp: write_transaction_def split: prod.splits sum.splits)

lemma write_transaction_Inl:
  "write_transaction m w = (Inl e, w') \<longleftrightarrow> (\<exists>w1. m w = (Inl e, w1) \<and> w' = w1\<lparr>w_db := w_db w\<rparr>)"
  by (auto simp: write_transaction_def split: prod.splits sum.splits)

text \<open>A failed transaction leaves the database as it was.\<close>

lemma write_transaction_rollback:
  "write_transaction m w = (Inl e, w') \<Longrightarrow> w_db w' = w_db w"
  by (auto simp: write_transaction_Inl)

lemma keeps_write_transaction [keeps_intros]:
  assumes "keeps I m" and "\<And>w w0. I w \<Longrightarrow> I w0 \<Longrightarrow> I (w\<lparr>w_db := w_db w0\<rparr>)"
  shows "keeps I (write_transaction m)"
proof (rule keepsI)
  fix w assume w: "I w"
  obtain r w1 where m: "m w = (r, w1)" by fastforce
  then have "I w1" using keeps_run [OF assms(1) w] by blast
  then show "I (after (write_transaction m w))"
    using assms(2) w m by (cases r) (simp_all add: write_transaction_def)
qed

section \<open>The register and the approved rows\<close>

definition register_agrees :: "version_state list \<Rightarrow> registry \<Rightarrow> bool" where
  "register_agrees rows reg \<longleftrightarrow>
     (\<forall>doc v. Option.bind (reg doc) r_active_version = Some v \<longleftrightarrow> row_approved rows doc v)"

lemma projected_active_version_eq:
  "projected_active_version cur ver (status_value s) =
     (if s = APPROVED then Some ver
      else if s = ARCHIVED \<and> Option.bind cur r_active_version = Some ver then None
      else Option.bind cur r_active_version)"
  by (cases s; cases cur) (simp_all add: projected_active_version_def Let_def)

text \<open>
  A version written and projected: the register goes on naming exactly the approved version, as
  long as a version leaves \<open>APPROVED\<close> only for \<open>ARCHIVED\<close>.
\<close>

lemma register_agrees_commit:
  assumes agree: "register_agrees rows reg" and d: "distinct (map version_key rows)"
    and nv: "\<not> one_approved_violation rows st"
    and leave: "v_status st \<in> {APPROVED, ARCHIVED} \<or> \<not> row_approved rows (v_document_id st) (v_version st)"
    and e: "r_active_version e = projected_active_version (reg (v_document_id st)) (v_version st) (status_value (v_status st))"
  shows "register_agrees (upsert_rows now st rows) (reg(v_document_id st \<mapsto> e))"
  unfolding register_agrees_def
proof (intro allI)
  fix doc v
  have a: "\<And>doc v. Option.bind (reg doc) r_active_version = Some v \<longleftrightarrow> row_approved rows doc v"
    using agree unfolding register_agrees_def by blast
  show "Option.bind ((reg(v_document_id st \<mapsto> e)) doc) r_active_version = Some v \<longleftrightarrow>
        row_approved (upsert_rows now st rows) doc v"
  proof (cases "doc = v_document_id st")
    case False
    then show ?thesis using a by (simp add: row_approved_upsert_rows version_key_def)
  next
    case True
    have u: "row_approved rows d x \<Longrightarrow> row_approved rows d y \<Longrightarrow> x = y" for d x y
      using a by (metis option.inject)
    from True show ?thesis
      using a [of "v_document_id st"] nv leave e u [of "v_document_id st"]
      unfolding one_approved_violation_iff [OF d] projected_active_version_eq
      by (cases "v_status st = APPROVED"; cases "v = v_version st"; cases "v_status st = ARCHIVED")
         (auto simp: row_approved_upsert_rows version_key_def)
  qed
qed

end
