(* ===== verification/SignatureGuard.thy ===== *)
theory SignatureGuard
  imports DocStoreLaws
begin

text \<open>
  Signatures and generated artifacts: \<open>modules/documents/signature_guard.py\<close>, the resolution and
  conversion functions of \<open>modules/documents/artifact_ops.py\<close>, and the methods of
  \<open>DocumentsService\<close> that create the source PDF before signing and the released PDF at release.

  The \<open>finally\<close> block of the guard is \<open>finallyM\<close>. An unlink always succeeds on the modelled file
  system, so its retry loop is one removal.
\<close>

definition finallyM :: "('w, 'e, 'a) meth \<Rightarrow> ('w \<Rightarrow> 'w) \<Rightarrow> ('w, 'e, 'a) meth" where
  "finallyM m g = (\<lambda>w. case m w of (r, w') \<Rightarrow> (r, g w'))"

lemma finallyM_eq: "finallyM m g w = (r, w') \<longleftrightarrow> (\<exists>w1. m w = (r, w1) \<and> w' = g w1)"
  by (auto simp: finallyM_def split: prod.splits)

lemma keeps_finallyM: "keeps I m \<Longrightarrow> (\<And>w. I w \<Longrightarrow> I (g w)) \<Longrightarrow> keeps I (finallyM m g)"
  by (auto simp: keeps_def finallyM_def split: prod.splits)

section \<open>Resolving artifact files\<close>

text \<open>The first artifact whose file exists with the wanted suffix.\<close>

fun first_usable :: "string \<Rightarrow> string set \<Rightarrow> string \<Rightarrow> doc_artifact list \<Rightarrow> string option" where
  "first_usable root files suffix [] = None"
| "first_usable root files suffix (a # as) =
     (let resolved = resolve_artifact_path root files a
      in if usable_file files suffix resolved then resolved else first_usable root files suffix as)"

definition resolve_source_path ::
  "docs_env \<Rightarrow> artifact_type \<Rightarrow> string \<Rightarrow> version_state \<Rightarrow> string option doc_meth" where
  "resolve_source_path env atype suffix state = readM (\<lambda>w.
     first_usable (storage_root env) (w_files w) suffix
       (filter (\<lambda>a. a_artifact_type a = atype)
         (sort_key (\<lambda>a. if a_is_current a then (0 :: nat) else 1)
           (list_artifacts_rows (w_db w) (v_document_id state) (v_version state)))))"

definition resolve_source_pdf_path :: "docs_env \<Rightarrow> version_state \<Rightarrow> string option doc_meth" where
  "resolve_source_pdf_path env state = resolve_source_path env SOURCE_PDF ''.pdf'' state"

definition resolve_source_docx_path :: "docs_env \<Rightarrow> version_state \<Rightarrow> string option doc_meth" where
  "resolve_source_docx_path env state = resolve_source_path env SOURCE_DOCX ''.docx'' state"

text \<open>The first type of a priority list that has a usable file.\<close>

fun first_by_type :: "('t \<Rightarrow> string option) \<Rightarrow> 't list \<Rightarrow> string option" where
  "first_by_type f [] = None"
| "first_by_type f (t # ts) = (case f t of Some p \<Rightarrow> Some p | None \<Rightarrow> first_by_type f ts)"

definition release_order :: "doc_artifact list \<Rightarrow> doc_artifact list" where
  "release_order artifacts =
     sort_key (\<lambda>a. if a_is_current a then (0 :: nat) else 1) (sort_key a_created_at artifacts)"

definition resolve_release_pdf_source_path :: "docs_env \<Rightarrow> version_state \<Rightarrow> string option doc_meth" where
  "resolve_release_pdf_source_path env state = readM (\<lambda>w.
     let ordered = release_order (list_artifacts_rows (w_db w) (v_document_id state) (v_version state));
         priorities = [SIGNED_PDF, SOURCE_PDF, RELEASED_PDF];
         pick = first_usable (storage_root env) (w_files w) ''.pdf''
     in or_opt (first_by_type (\<lambda>t. pick (filter (\<lambda>a. a_artifact_type a = t \<and> a_is_current a) ordered)) priorities)
               (first_by_type (\<lambda>t. pick (rev (filter (\<lambda>a. a_artifact_type a = t) ordered))) priorities))"

definition signature_input_priority :: "string \<Rightarrow> artifact_type list" where
  "signature_input_priority transition =
     (let transition_key = py_upper (py_strip transition)
      in if transition_key \<in> {''IN_REVIEW->IN_APPROVAL'', ''IN_APPROVAL->APPROVED''} then [SIGNED_PDF]
         else if transition_key \<in> {''IN_PROGRESS->IN_REVIEW'', ''IN_PROGRESS->IN_APPROVAL'', ''IN_PROGRESS->APPROVED''}
           then [SIGNED_PDF, SOURCE_PDF]
         else [SIGNED_PDF, SOURCE_PDF, RELEASED_PDF])"

definition resolve_by_type ::
  "string \<Rightarrow> string set \<Rightarrow> doc_artifact list \<Rightarrow> bool \<Rightarrow> artifact_type \<Rightarrow> string option" where
  "resolve_by_type root files artifacts current_only t =
     first_usable root files ''.pdf''
       (sort_key (\<lambda>a. - a_created_at a)
         (filter (\<lambda>a. a_artifact_type a = t \<and> (current_only \<longrightarrow> a_is_current a)) artifacts))"

definition resolve_signature_input_pdf :: "docs_env \<Rightarrow> version_state \<Rightarrow> string \<Rightarrow> string option doc_meth" where
  "resolve_signature_input_pdf env state transition = readM (\<lambda>w.
     let artifacts = list_artifacts_rows (w_db w) (v_document_id state) (v_version state);
         priority = signature_input_priority transition;
         pick = resolve_by_type (storage_root env) (w_files w) artifacts
     in or_opt (first_by_type (pick True) priority) (first_by_type (pick False) priority))"

section \<open>The guard\<close>

definition is_signature_required :: "version_state \<Rightarrow> string \<Rightarrow> bool" where
  "is_signature_required state transition =
     (case v_workflow_profile state of None \<Rightarrow> False
      | Some p \<Rightarrow> transition \<in> set (p_signature_required_transitions p))"

text \<open>A call of the signature API; \<open>SignatureError\<close> becomes \<open>SignatureTransitionError\<close>.\<close>

definition run_sign :: "(string set \<Rightarrow> string option \<times> string set) \<Rightarrow> unit doc_meth" where
  "run_sign call = (\<lambda>w. case call (w_files w) of (failure, files) \<Rightarrow>
     ((case failure of None \<Rightarrow> Inr ()
       | Some msg \<Rightarrow> Inl (SignatureTransitionError (''signature step failed: '' @ msg))),
      w\<lparr>w_files := files\<rparr>))"

definition execute_sign_dispatch :: "docs_env \<Rightarrow> sign_request \<Rightarrow> string option \<Rightarrow> unit doc_meth" where
  "execute_sign_dispatch env req actor =
     (if \<not> has_signature_api env
      then raiseM (SignatureTransitionError ''signature_api missing for signing'')
      else if truthy (sr_template_id req)
      then (case actor of
              None \<Rightarrow> raiseM (SignatureTransitionError ''template_id requires authenticated actor'')
            | Some a \<Rightarrow> run_sign (sign_with_template_for_actor env a req))
      else run_sign (sign_with_fixed_position env req))"

definition has_current_artifact :: "docs_db \<Rightarrow> string \<Rightarrow> int \<Rightarrow> artifact_type \<Rightarrow> bool" where
  "has_current_artifact db doc ver t =
     list_ex (\<lambda>a. a_artifact_type a = t \<and> a_is_current a) (list_artifacts_rows db doc ver)"

text \<open>The body of the guard's \<open>try\<close> block.\<close>

definition sign_and_register ::
  "docs_env \<Rightarrow> version_state \<Rightarrow> string \<Rightarrow> sign_request \<Rightarrow> string option \<Rightarrow> unit doc_meth" where
  "sign_and_register env state transition req actor =
     bindM (execute_sign_dispatch env req actor) (\<lambda>_.
     bindM (readM w_files) (\<lambda>files.
     bindM (liftE (raise_if (\<not> usable_file files ''.pdf'' (Some (sr_output_pdf req)))
       (SignatureTransitionError (''signature transition '' @ transition @ '' did not produce a valid signed PDF output'')))) (\<lambda>_.
     bindM (create_artifact env state (sr_output_pdf req) SIGNED_PDF GENERATED
       [(''transition'', transition), (''generated_from'', sr_input_pdf req)]) (\<lambda>_.
     bindM (readM (\<lambda>w. has_current_artifact (w_db w) (v_document_id state) (v_version state) SIGNED_PDF)) (\<lambda>ok.
     liftE (raise_if (\<not> ok)
       (SignatureTransitionError (''signature transition '' @ transition @ '' did not persist a current SIGNED_PDF artifact'')))
     )))))"

text \<open>The \<open>finally\<close> block: the signature image and the output go, the inputs stay.\<close>

definition cleanup_paths :: "string option \<Rightarrow> sign_request \<Rightarrow> string set" where
  "cleanup_paths canonical req =
     (case sr_signature_png req of None \<Rightarrow> {} | Some p \<Rightarrow> {p}) \<union> {sr_output_pdf req}
     - ((case canonical of None \<Rightarrow> {} | Some p \<Rightarrow> {p}) \<union> {sr_input_pdf req})"

definition cleanup_signing :: "string option \<Rightarrow> sign_request \<Rightarrow> docs_world \<Rightarrow> docs_world" where
  "cleanup_signing canonical req w = w\<lparr>w_files := w_files w - cleanup_paths canonical req\<rparr>"

definition canonical_request :: "string option \<Rightarrow> sign_request \<Rightarrow> sign_request" where
  "canonical_request canonical req =
     (case canonical of None \<Rightarrow> req | Some p \<Rightarrow> req\<lparr>sr_input_pdf := p\<rparr>)"

definition enforce_signature_transition ::
  "docs_env \<Rightarrow> version_state \<Rightarrow> string \<Rightarrow> sign_request option \<Rightarrow> string option \<Rightarrow> unit doc_meth" where
  "enforce_signature_transition env state transition sign_req actor =
     (case v_workflow_profile state of
        None \<Rightarrow> raiseM (ValidationError ''workflow profile is missing'')
      | Some profile \<Rightarrow>
          if transition \<notin> set (p_signature_required_transitions profile) then retM ()
          else (case sign_req of
              None \<Rightarrow> raiseM (SignatureTransitionError (''signature request required for transition '' @ transition))
            | Some req \<Rightarrow>
                bindM (resolve_signature_input_pdf env state transition) (\<lambda>canonical.
                finallyM (sign_and_register env state transition (canonical_request canonical req) actor)
                  (cleanup_signing canonical (canonical_request canonical req)))))"

section \<open>Generated artifacts\<close>

definition convert_docx_to_temp_pdf :: "docs_env \<Rightarrow> string \<Rightarrow> string doc_meth" where
  "convert_docx_to_temp_pdf env source_docx =
     bindM (uuid4 env) (\<lambda>_.
     bindM (liftE (raise_if (\<not> docx_to_pdf env source_docx)
       (ValidationError (''docx to pdf conversion produced no output: '' @ source_docx)))) (\<lambda>_.
     bindM (uuid4 env) (\<lambda>u.
     let persisted = temp_dir env @ ''/'' @ u @ ''_source.pdf''
     in bindM (modifyM (\<lambda>w. w\<lparr>w_files := insert persisted (w_files w)\<rparr>)) (\<lambda>_. retM persisted))))"

definition ensure_source_pdf_artifact_for_signing ::
  "docs_env \<Rightarrow> version_state \<Rightarrow> string option \<Rightarrow> string option doc_meth" where
  "ensure_source_pdf_artifact_for_signing env state actor_user_id =
     bindM (resolve_source_pdf_path env state) (\<lambda>source_pdf.
     case source_pdf of Some p \<Rightarrow> retM (Some p) | None \<Rightarrow>
     bindM (resolve_source_docx_path env state) (\<lambda>source_docx.
     case source_docx of None \<Rightarrow> retM None | Some docx \<Rightarrow>
     bindM (convert_docx_to_temp_pdf env docx) (\<lambda>staged.
     bindM (create_artifact env state staged SOURCE_PDF GENERATED
       [(''generated_from'', docx), (''intake_mode'', ''docx_to_pdf_for_editing_complete'')]) (\<lambda>artifact.
     bindM (publish_event env ''domain.documents.artifact.imported.v1'' state
       [(''artifact_id'', PyStr (a_artifact_id artifact)), (''artifact_type'', PyStr ''SOURCE_PDF''),
        (''source_type'', PyStr ''GENERATED'')] actor_user_id) (\<lambda>event.
     bindM (sync_registry env state (Some event)) (\<lambda>_.
     bindM (emit_audit ''documents.artifact.source_pdf.generated''
       (audit_actor actor_user_id (v_owner_user_id state)) (version_target state) ''docx_to_pdf_before_editing_complete'') (\<lambda>_.
     bindM (readM w_files) (\<lambda>files.
     retM (or_opt (resolve_artifact_path (storage_root env) files artifact) (Some staged))))))))))"

definition require_current_released_pdf_artifact :: "docs_env \<Rightarrow> version_state \<Rightarrow> unit doc_meth" where
  "require_current_released_pdf_artifact env state =
     bindM (readM (\<lambda>w. has_current_artifact (w_db w) (v_document_id state) (v_version state) RELEASED_PDF)) (\<lambda>ok.
     liftE (raise_if (\<not> ok) (ValidationError (''approved document requires current RELEASED_PDF artifact: ''
        @ v_document_id state @ '' v'' @ str_int (v_version state)))))"

definition protect_pdf_copy :: "docs_env \<Rightarrow> string \<Rightarrow> string \<Rightarrow> unit doc_meth" where
  "protect_pdf_copy env source target =
     bindM (uuid4 env) (\<lambda>_. modifyM (\<lambda>w. w\<lparr>w_files := insert target (w_files w)\<rparr>))"

definition ensure_release_pdf_artifact :: "docs_env \<Rightarrow> version_state \<Rightarrow> unit doc_meth" where
  "ensure_release_pdf_artifact env state =
     bindM (resolve_release_pdf_source_path env state) (\<lambda>source_path.
     bindM (readM w_files) (\<lambda>files.
     case source_path of
       None \<Rightarrow> raiseM (ValidationError (''RELEASED_PDF generation failed for '' @ v_document_id state
                 @ '' v'' @ str_int (v_version state) @ '': no source PDF artifact available''))
     | Some src \<Rightarrow>
         bindM (liftE (raise_if (src \<notin> files) (ValidationError (''RELEASED_PDF generation failed for ''
                 @ v_document_id state @ '' v'' @ str_int (v_version state) @ '': no source PDF artifact available'')))) (\<lambda>_.
         let generated_name = build_released_filename state;
             staged = temp_dir env @ ''/qmtool-release/'' @ generated_name
         in bindM (finallyM
              (bindM (protect_pdf_copy env src staged) (\<lambda>_.
               bindM (create_artifact env state staged RELEASED_PDF GENERATED
                 [(''generated_filename'', generated_name), (''source'', src), (''protected'', ''true'')]) (\<lambda>_.
               retM ())))
              (\<lambda>w. w\<lparr>w_files := w_files w - {staged}\<rparr>)) (\<lambda>_.
            require_current_released_pdf_artifact env state))))"

section \<open>What stays as it was\<close>

text \<open>The rows of versions and the register, untouched by everything that deals with files.\<close>

definition same_rows :: "version_state list \<Rightarrow> registry \<Rightarrow> docs_world \<Rightarrow> bool" where
  "same_rows rows reg w \<longleftrightarrow> db_versions (w_db w) = rows \<and> w_registry w = reg"

lemma keeps_same_rows_modify [keeps_intros]:
  "(\<And>w. db_versions (w_db (g w)) = db_versions (w_db w)) \<Longrightarrow> (\<And>w. w_registry (g w) = w_registry w) \<Longrightarrow>
   keeps (same_rows rows reg) (modifyM g)"
  by (rule keeps_modifyM) (simp add: same_rows_def)

lemma keeps_uuid4 [keeps_intros]: "(\<And>w n. I w \<Longrightarrow> I (w\<lparr>w_uuids := n\<rparr>)) \<Longrightarrow> keeps I (uuid4 env)"
  by (simp add: keeps_def uuid4_def)

lemma keeps_utcnow [keeps_intros]: "(\<And>w n. I w \<Longrightarrow> I (w\<lparr>w_ticks := n\<rparr>)) \<Longrightarrow> keeps I (utcnow env)"
  by (simp add: keeps_def utcnow_def)

lemma same_rows_simps [simp]:
  "same_rows rows reg (w\<lparr>w_uuids := n\<rparr>) = same_rows rows reg w"
  "same_rows rows reg (w\<lparr>w_ticks := n\<rparr>) = same_rows rows reg w"
  "same_rows rows reg (w\<lparr>w_files := fs\<rparr>) = same_rows rows reg w"
  "same_rows rows reg (w\<lparr>w_audit := aus\<rparr>) = same_rows rows reg w"
  "same_rows rows reg (with_event ev w) = same_rows rows reg w"
  by (simp_all add: same_rows_def)

lemma keeps_run_sign: "keeps (same_rows rows reg) (run_sign call)"
  by (auto simp: keeps_def run_sign_def split: prod.split)

lemma create_artifact_same_rows [keeps_intros]:
  "keeps (same_rows rows reg) (create_artifact env st src t k md)"
  unfolding create_artifact_def Let_def by (intro keeps_intros allI) simp_all

lemma execute_sign_dispatch_same_rows [keeps_intros]:
  "keeps (same_rows rows reg) (execute_sign_dispatch env req actor)"
  unfolding execute_sign_dispatch_def by (intro keeps_intros keeps_run_sign)

lemma sign_and_register_same_rows [keeps_intros]:
  "keeps (same_rows rows reg) (sign_and_register env st tr req actor)"
  unfolding sign_and_register_def by (intro keeps_intros)

lemma enforce_signature_same_rows [keeps_intros]:
  "keeps (same_rows rows reg) (enforce_signature_transition env st tr req actor)"
  unfolding enforce_signature_transition_def resolve_signature_input_pdf_def
  by (intro keeps_intros keeps_finallyM) (simp add: cleanup_signing_def)

lemma ensure_release_same_rows [keeps_intros]:
  "keeps (same_rows rows reg) (ensure_release_pdf_artifact env st)"
  unfolding ensure_release_pdf_artifact_def resolve_release_pdf_source_path_def protect_pdf_copy_def
    require_current_released_pdf_artifact_def Let_def
  by (intro keeps_intros keeps_finallyM) simp_all

section \<open>Artifacts: one current per slot\<close>

definition same_slot :: "doc_artifact \<Rightarrow> doc_artifact \<Rightarrow> bool" where
  "same_slot a b \<longleftrightarrow> a_document_id a = a_document_id b \<and> a_version a = a_version b \<and>
     a_artifact_type a = a_artifact_type b"

definition artifacts_ok :: "docs_env \<Rightarrow> docs_world \<Rightarrow> bool" where
  "artifacts_ok env w \<longleftrightarrow>
     (\<forall>a \<in> set (db_artifacts (w_db w)). \<exists>k < w_uuids w. a_artifact_id a = fresh_uuid env k) \<and>
     (\<forall>a \<in> set (db_artifacts (w_db w)). \<forall>b \<in> set (db_artifacts (w_db w)).
        a_is_current a \<longrightarrow> a_is_current b \<longrightarrow> same_slot a b \<longrightarrow> a = b)"

definition marked :: "string \<Rightarrow> int \<Rightarrow> artifact_type \<Rightarrow> string \<Rightarrow> doc_artifact \<Rightarrow> doc_artifact" where
  "marked doc ver t i a = a\<lparr>a_is_current := (if a_artifact_id a = i then True
     else a_is_current a \<and> \<not> (a_document_id a = doc \<and> a_version a = ver \<and> a_artifact_type a = t))\<rparr>"

lemma mark_current_artifact_eq: "mark_current_artifact doc ver t i arts = map (marked doc ver t i) arts"
  by (induction arts) (auto simp: mark_current_artifact_def marked_def)

lemma marked_simps [simp]:
  "a_artifact_id (marked doc ver t i a) = a_artifact_id a"
  "a_document_id (marked doc ver t i a) = a_document_id a"
  "a_version (marked doc ver t i a) = a_version a"
  "a_artifact_type (marked doc ver t i a) = a_artifact_type a"
  "a_storage_key (marked doc ver t i a) = a_storage_key a"
  "a_metadata (marked doc ver t i a) = a_metadata a"
  "a_created_at (marked doc ver t i a) = a_created_at a"
  "a_is_current (marked doc ver t i a) \<longleftrightarrow> a_artifact_id a = i \<or>
     a_is_current a \<and> \<not> (a_document_id a = doc \<and> a_version a = ver \<and> a_artifact_type a = t)"
  by (simp_all add: marked_def)

lemma marked_idle:
  assumes "a_artifact_id a \<noteq> i" and "a_is_current (marked doc ver t i a)"
  shows "marked doc ver t i a = a"
  using assms by (simp add: marked_def)

text \<open>A new artifact, marked current: it is the only current one of its slot.\<close>

lemma artifacts_ok_add:
  assumes inj: "inj (fresh_uuid env)" and ok: "artifacts_ok env w"
    and new: "a_document_id new = doc" "a_version new = ver" "a_artifact_type new = t"
      "a_artifact_id new = fresh_uuid env n" "w_uuids w \<le> n" and w': "w_uuids w' = Suc n"
    and arts: "db_artifacts (w_db w') = mark_current_artifact doc ver t (a_artifact_id new) (db_artifacts (w_db w) @ [new])"
  shows "artifacts_ok env w'"
proof -
  let ?m = "marked doc ver t (a_artifact_id new)" and ?A = "set (db_artifacts (w_db w))"
  have ids: "\<And>a. a \<in> ?A \<Longrightarrow> \<exists>k < w_uuids w. a_artifact_id a = fresh_uuid env k"
    and one: "\<And>a b. a \<in> ?A \<Longrightarrow> b \<in> ?A \<Longrightarrow> a_is_current a \<Longrightarrow> a_is_current b \<Longrightarrow> same_slot a b \<Longrightarrow> a = b"
    using ok unfolding artifacts_ok_def by blast+
  have set': "set (db_artifacts (w_db w')) = ?m ` (insert new ?A)"
    unfolding arts mark_current_artifact_eq by simp
  have old_id: "a_artifact_id a \<noteq> a_artifact_id new" if a: "a \<in> ?A" for a
  proof -
    obtain k where k: "k < w_uuids w" "a_artifact_id a = fresh_uuid env k" using ids [OF a] by blast
    then have "k \<noteq> n" using new(5) by linarith
    then show ?thesis using k(2) new(4) injD [OF inj] by auto
  qed
  have fresh': "\<exists>k < w_uuids w'. a_artifact_id (?m a) = fresh_uuid env k" if "a \<in> insert new ?A" for a
  proof (cases "a = new")
    case True
    then show ?thesis using new(4) w' by auto
  next
    case False
    then have "a \<in> ?A" using that by blast
    then obtain k where "k < w_uuids w" "a_artifact_id a = fresh_uuid env k" using ids by blast
    then show ?thesis using new(5) w' by (intro exI [of _ k]) auto
  qed
  have one': "?m a = ?m b"
    if ab: "a \<in> insert new ?A" "b \<in> insert new ?A" "a_is_current (?m a)" "a_is_current (?m b)" "same_slot (?m a) (?m b)" for a b
  proof (cases "a = new \<or> b = new")
    case True
    then show ?thesis using ab new(1-3) old_id by (auto simp: same_slot_def)
  next
    case False
    then have mem: "a \<in> ?A" "b \<in> ?A" using ab by auto
    have eq: "?m a = a" "?m b = b"
      by (rule marked_idle [OF old_id [OF mem(1)] ab(3)], rule marked_idle [OF old_id [OF mem(2)] ab(4)])
    show ?thesis using one [OF mem] ab(3-5) unfolding eq by blast
  qed
  show ?thesis
    unfolding artifacts_ok_def set'
  proof (intro conjI ballI impI)
    fix b assume "b \<in> ?m ` insert new ?A"
    then show "\<exists>k < w_uuids w'. a_artifact_id b = fresh_uuid env k" using fresh' by blast
  next
    fix b c assume bc: "b \<in> ?m ` insert new ?A" "c \<in> ?m ` insert new ?A" "a_is_current b" "a_is_current c" "same_slot b c"
    from bc(1) obtain x where x: "x \<in> insert new ?A" "b = ?m x" by (rule imageE)
    from bc(2) obtain y where y: "y \<in> insert new ?A" "c = ?m y" by (rule imageE)
    show "b = c" using one' [OF x(1) y(1)] bc(3-5) unfolding x(2) y(2) by blast
  qed
qed

lemma artifacts_ok_simps [simp]:
  "artifacts_ok env (w\<lparr>w_ticks := n\<rparr>) = artifacts_ok env w"
  "artifacts_ok env (w\<lparr>w_files := fs\<rparr>) = artifacts_ok env w"
  "artifacts_ok env (w\<lparr>w_audit := aus\<rparr>) = artifacts_ok env w"
  "artifacts_ok env (w\<lparr>w_registry := reg\<rparr>) = artifacts_ok env w"
  "artifacts_ok env (with_rows rows w) = artifacts_ok env w"
  by (simp_all add: artifacts_ok_def)

lemma artifacts_ok_mono:
  assumes "artifacts_ok env w" and "db_artifacts (w_db w') = db_artifacts (w_db w)" and "w_uuids w \<le> w_uuids w'"
  shows "artifacts_ok env w'"
  using assms unfolding artifacts_ok_def by (metis order_less_le_trans)

text \<open>The world after \<open>create_artifact\<close> succeeded, seen from the table of artifacts.\<close>

lemma create_artifact_Inr:
  assumes "create_artifact env st src t k md w = (Inr a, w')"
  shows "a_document_id a = v_document_id st" "a_version a = v_version st" "a_artifact_type a = t"
    "a_metadata a = md" "a_is_current a" "a_artifact_id a = fresh_uuid env (Suc (w_uuids w))"
    "w_uuids w' = Suc (Suc (w_uuids w))" "src \<in> w_files w"
    "db_artifacts (w_db w') = mark_current_artifact (v_document_id st) (v_version st) t (a_artifact_id a)
       (db_artifacts (w_db w) @ [a])"
    "\<exists>f. resolve_storage_key (storage_root env) (a_storage_key a) = Some f \<and> w_files w' = insert f (w_files w)"
  using assms unfolding create_artifact_def Let_def
  by (auto simp: uuid4_def utcnow_def split: option.splits)

lemma create_artifact_Inl:
  assumes "create_artifact env st src t k md w = (Inl e, w')"
  shows "w_db w' = w_db w" "w_uuids w \<le> w_uuids w'" "w_files w' = w_files w"
  using assms unfolding create_artifact_def Let_def
  by (auto simp: uuid4_def utcnow_def bindM_eq_Inl raise_if_def split: option.splits if_splits)

lemma create_artifact_artifacts_ok:
  assumes "inj (fresh_uuid env)"
  shows "keeps (artifacts_ok env) (create_artifact env st src t k md)"
proof (rule keepsI)
  fix w assume w: "artifacts_ok env w"
  obtain r w' where run: "create_artifact env st src t k md w = (r, w')" by fastforce
  show "artifacts_ok env (after (create_artifact env st src t k md w))"
  proof (cases r)
    case (Inl e)
    with run show ?thesis using create_artifact_Inl [of env st src t k md w e w'] artifacts_ok_mono [OF w, of w'] by simp
  next
    case (Inr a)
    with run have c: "create_artifact env st src t k md w = (Inr a, w')" by simp
    note facts = create_artifact_Inr [OF c]
    show ?thesis
      using artifacts_ok_add [OF assms w facts(1-3) facts(6) _ facts(7) facts(9)] c by simp
  qed
qed

text \<open>After a successful \<open>create_artifact\<close> its type has a current artifact.\<close>

lemma create_artifact_current:
  assumes "create_artifact env st src t k md w = (Inr a, w')"
  shows "has_current_artifact (w_db w') (v_document_id st) (v_version st) t"
proof -
  note facts = create_artifact_Inr [OF assms]
  let ?m = "marked (v_document_id st) (v_version st) t (a_artifact_id a)"
  have "?m a \<in> set (db_artifacts (w_db w'))"
    unfolding facts(9) mark_current_artifact_eq by simp
  then have "?m a \<in> set (list_artifacts_rows (w_db w') (v_document_id st) (v_version st))"
    using facts(1,2) by (simp add: list_artifacts_rows_def)
  then show ?thesis
    unfolding has_current_artifact_def list_ex_iff using facts(3) by (intro bexI [of _ "?m a"]) simp_all
qed

section \<open>The guard, exactly\<close>

lemma cleanup_signing_simps [simp]:
  "w_db (cleanup_signing c r w) = w_db w" "w_uuids (cleanup_signing c r w) = w_uuids w"
  "w_registry (cleanup_signing c r w) = w_registry w"
  "w_files (cleanup_signing c r w) = w_files w - cleanup_paths c r"
  by (simp_all add: cleanup_signing_def)

text \<open>
  A required transition passes only with a request, a signature call that did not fail, and a
  current \<open>SIGNED_PDF\<close> artifact of the version in the database afterwards.
\<close>

lemma enforce_signature_Inr:
  assumes "enforce_signature_transition env st tr sign_req actor w = (Inr u, w')"
    and "is_signature_required st tr"
  shows "\<exists>req canonical w1. sign_req = Some req \<and> has_signature_api env
    \<and> resolve_signature_input_pdf env st tr w = (Inr canonical, w)
    \<and> sign_and_register env st tr (canonical_request canonical req) actor w = (Inr u, w1)
    \<and> w' = cleanup_signing canonical (canonical_request canonical req) w1
    \<and> has_current_artifact (w_db w') (v_document_id st) (v_version st) SIGNED_PDF"
proof -
  obtain p where p: "v_workflow_profile st = Some p" "tr \<in> set (p_signature_required_transitions p)"
    using assms(2) by (auto simp: is_signature_required_def split: option.splits)
  obtain req where req: "sign_req = Some req"
    using assms(1) p by (cases sign_req) (simp_all add: enforce_signature_transition_def)
  obtain canonical where c: "resolve_signature_input_pdf env st tr w = (Inr canonical, w)"
    by (simp add: resolve_signature_input_pdf_def Let_def)
  obtain w1 where run: "sign_and_register env st tr (canonical_request canonical req) actor w = (Inr u, w1)"
    and w': "w' = cleanup_signing canonical (canonical_request canonical req) w1"
    using assms(1) p req c unfolding enforce_signature_transition_def by (auto simp: finallyM_eq)
  have "has_signature_api env" and "has_current_artifact (w_db w1) (v_document_id st) (v_version st) SIGNED_PDF"
    using run unfolding sign_and_register_def execute_sign_dispatch_def
    by (auto split: if_splits)
  with req c run w' show ?thesis by auto
qed

lemma enforce_signature_not_required:
  assumes "v_workflow_profile st = Some p" and "tr \<notin> set (p_signature_required_transitions p)"
  shows "enforce_signature_transition env st tr sign_req actor w = (Inr (), w)"
  using assms by (simp add: enforce_signature_transition_def)

lemma enforce_signature_artifacts_ok [keeps_intros]:
  assumes "inj (fresh_uuid env)"
  shows "keeps (artifacts_ok env) (enforce_signature_transition env st tr req actor)"
proof -
  have run: "keeps (artifacts_ok env) (run_sign call)" for call
    by (auto simp: keeps_def run_sign_def split: prod.split)
  have "keeps (artifacts_ok env) (sign_and_register env st tr req actor)" for req
    unfolding sign_and_register_def execute_sign_dispatch_def
    by (intro keeps_intros run create_artifact_artifacts_ok assms)
  then show ?thesis
    unfolding enforce_signature_transition_def resolve_signature_input_pdf_def
    by (intro keeps_intros keeps_finallyM) (simp_all add: cleanup_signing_def)
qed

lemma keeps_emit_audit: "(\<And>w x. I w \<Longrightarrow> I (w\<lparr>w_audit := x\<rparr>)) \<Longrightarrow> keeps I (emit_audit a b c d)"
  unfolding emit_audit_def by (rule keeps_modifyM)

lemma keeps_publish_event:
  "(\<And>w ev. I w \<Longrightarrow> I (with_event ev w)) \<Longrightarrow> keeps I (publish_event env n st p a)"
  by (simp add: keeps_def)

lemma artifacts_ok_with_event [simp]: "artifacts_ok env w \<Longrightarrow> artifacts_ok env (with_event ev w)"
  by (erule artifacts_ok_mono) simp_all

lemma keeps_sync_registry:
  assumes "\<And>w x. I w \<Longrightarrow> I (w\<lparr>w_registry := x\<rparr>)" and "\<And>w n. I w \<Longrightarrow> I (w\<lparr>w_ticks := n\<rparr>)"
  shows "keeps I (sync_registry env st ev)"
  unfolding sync_registry_def
  by (intro keeps_intros keeps_bindM keeps_utcnow) (auto simp: assms keeps_def split: sum.split prod.split)

lemma artifacts_ok_more_uuids: "artifacts_ok env w \<Longrightarrow> artifacts_ok env (w\<lparr>w_uuids := Suc (w_uuids w)\<rparr>)"
  by (erule artifacts_ok_mono) simp_all

lemma keeps_uuid4_artifacts_ok: "keeps (artifacts_ok env) (uuid4 env)"
  by (simp add: keeps_def uuid4_def artifacts_ok_more_uuids)

lemma ensure_release_artifacts_ok:
  assumes "inj (fresh_uuid env)"
  shows "keeps (artifacts_ok env) (ensure_release_pdf_artifact env st)"
  unfolding ensure_release_pdf_artifact_def resolve_release_pdf_source_path_def protect_pdf_copy_def
    require_current_released_pdf_artifact_def Let_def
  by (intro keeps_retM keeps_raiseM keeps_liftE keeps_readM keeps_bindM keeps_case_option keeps_finallyM
      keeps_uuid4_artifacts_ok create_artifact_artifacts_ok assms keeps_modifyM) simp_all

lemma ensure_source_pdf_artifacts_ok:
  assumes "inj (fresh_uuid env)"
  shows "keeps (artifacts_ok env) (ensure_source_pdf_artifact_for_signing env st actor)"
  unfolding ensure_source_pdf_artifact_for_signing_def resolve_source_pdf_path_def resolve_source_docx_path_def
    resolve_source_path_def convert_docx_to_temp_pdf_def Let_def
  by (intro keeps_retM keeps_raiseM keeps_liftE keeps_readM keeps_bindM keeps_case_option
      keeps_uuid4_artifacts_ok create_artifact_artifacts_ok assms keeps_modifyM
      keeps_emit_audit keeps_publish_event keeps_sync_registry) simp_all

lemma ensure_release_Inr:
  assumes "ensure_release_pdf_artifact env st w = (Inr u, w')"
  shows "has_current_artifact (w_db w') (v_document_id st) (v_version st) RELEASED_PDF"
  using assms unfolding ensure_release_pdf_artifact_def require_current_released_pdf_artifact_def Let_def
  by (auto split: option.splits)

text \<open>
  The source PDF made before signing: rows stay, and the register only takes the projection of
  the unchanged version.
\<close>

definition resynced :: "version_state \<Rightarrow> registry \<Rightarrow> registry \<Rightarrow> bool" where
  "resynced st reg reg' \<longleftrightarrow> reg' = reg \<or>
     (\<exists>e. reg' = reg(v_document_id st \<mapsto> e) \<and>
        r_active_version e = projected_active_version (reg (v_document_id st)) (v_version st) (status_value (v_status st)))"

lemma ensure_source_pdf_rows:
  "keeps (\<lambda>w. db_versions (w_db w) = rows) (ensure_source_pdf_artifact_for_signing env st actor)"
proof -
  have c: "keeps (\<lambda>w. db_versions (w_db w) = rows) (create_artifact env st src t k md)" for src t k md
    unfolding create_artifact_def Let_def
    by (intro keeps_intros) (simp_all add: keeps_def)
  show ?thesis
    unfolding ensure_source_pdf_artifact_for_signing_def resolve_source_pdf_path_def resolve_source_docx_path_def
      resolve_source_path_def convert_docx_to_temp_pdf_def Let_def
    by (intro c keeps_retM keeps_raiseM keeps_liftE keeps_readM keeps_bindM keeps_case_option keeps_uuid4
        keeps_modifyM keeps_emit_audit keeps_publish_event keeps_sync_registry) simp_all
qed

end
