(* ===== verification/PyTime.thy ===== *)
theory PyTime
  imports DocTypes
begin

text \<open>
  The text of a timezone-aware \<open>datetime\<close> in UTC (\<open>datetime.isoformat()\<close>), used by the documents
  module as the token of a header and in event payloads. The day count is turned into a civil date
  in the proleptic Gregorian calendar, with years that start in March. The decimal text of a number can be read back.
\<close>

definition civil_from_days :: "int \<Rightarrow> int \<times> int \<times> int" where
  "civil_from_days n =
     (let z = n + 719468;
          era = z div 146097;
          doe = z mod 146097;
          yoe = (doe - doe div 1460 + doe div 36524 - doe div 146096) div 365;
          doy = doe - (365 * yoe + yoe div 4 - yoe div 100);
          mp = (5 * doy + 2) div 153;
          d = doy - (153 * mp + 2) div 5 + 1;
          m = (if mp < 10 then mp + 3 else mp - 9);
          y = yoe + era * 400 + (if m \<le> 2 then 1 else 0)
      in (y, m, d))"

text \<open>Decimal digits with leading zeros.\<close>

definition pad_int :: "nat \<Rightarrow> int \<Rightarrow> string" where
  "pad_int width i = (let s = str_int i in replicate (width - length s) (CHR ''0'') @ s)"

text \<open>Date and time of \<open>isoformat\<close>, without the offset.\<close>

definition iso_fields :: "time \<Rightarrow> string" where
  "iso_fields t =
     (let days = t div day; rest = t mod day;
          micro = rest mod 1000000; secs = rest div 1000000;
          (y, m, d) = civil_from_days days
      in pad_int 4 y @ ''-'' @ pad_int 2 m @ ''-'' @ pad_int 2 d @ ''T'' @
         pad_int 2 (secs div 3600) @ '':'' @ pad_int 2 (secs div 60 mod 60) @ '':'' @ pad_int 2 (secs mod 60) @
         (if micro = 0 then [] else ''.'' @ pad_int 6 micro))"

definition isoformat :: "time \<Rightarrow> string" where
  "isoformat t = iso_fields t @ ''+00:00''"

lemma civil_epoch: "civil_from_days 0 = (1970, 1, 1)"
  by code_simp

lemma civil_leap_day: "civil_from_days 19782 = (2024, 2, 29)"
  by code_simp

lemma isoformat_micro: "isoformat 1700000000000001 = ''2023-11-14T22:13:20.000001+00:00''"
  by code_simp

section \<open>Reading decimal digits\<close>

definition digit_value :: "char \<Rightarrow> nat" where
  "digit_value c = of_char c - 48"

definition decimal_value :: "string \<Rightarrow> nat" where
  "decimal_value s = foldl (\<lambda>acc c. acc * 10 + digit_value c) 0 s"

lemma decimal_value_snoc: "decimal_value (s @ [c]) = decimal_value s * 10 + digit_value c"
  by (simp add: decimal_value_def)

lemma digit_char: "d < 10 \<Longrightarrow> digit_value (char_of (48 + d)) = d"
  by (simp add: digit_value_def)

lemma decimal_value_str_nat: "decimal_value (str_nat n) = n"
proof (induction n rule: str_nat.induct)
  case (1 n)
  show ?case
  proof (cases "n < 10")
    case True
    then have "str_nat n = [] @ [char_of (48 + n)]" by (simp add: str_nat.simps [of n])
    then show ?thesis using True by (simp only: decimal_value_snoc digit_char) (simp add: decimal_value_def)
  next
    case False
    then have "str_nat n = str_nat (n div 10) @ [char_of (48 + n mod 10)]" by (subst str_nat.simps) simp
    then show ?thesis using False 1 by (simp only: decimal_value_snoc digit_char) (simp add: digit_char)
  qed
qed

lemma decimal_value_zeros: "decimal_value (replicate k (CHR ''0'') @ s) = decimal_value s"
  by (induction k) (simp_all add: decimal_value_def digit_value_def)

lemma decimal_value_pad: "0 \<le> i \<Longrightarrow> decimal_value (pad_int w i) = nat i"
  by (simp add: pad_int_def Let_def decimal_value_zeros str_int_def decimal_value_str_nat)

lemma pad_int_inject: "0 \<le> i \<Longrightarrow> 0 \<le> j \<Longrightarrow> pad_int w i = pad_int w j \<Longrightarrow> i = j"
  by (metis decimal_value_pad nat_eq_iff2 nat_0_le)

end
