(* ===== verification/DocWorkflow.thy ===== *)
theory DocWorkflow
  imports SignatureGuard PyTime
begin

text \<open>
  The workflow operations of \<open>modules/documents/workflow_use_cases.py\<close>, one definition per method,
  with the guards in the order of the source. \<open>commit_steps\<close> is the block that every method runs
  inside its write transaction: store the new state, publish the event, stamp the event on the
  state, store it again, then project it into the register (with the step that creates the
  released PDF in between, where the method has one).

  An optional actor is \<open>None\<close> when the caller passes none; \<open>both\<close> is the test that user id and role
  are both given.
\<close>

section \<open>Shared steps\<close>

fun role_value :: "system_role \<Rightarrow> string" where
  "role_value USER = ''USER''"
| "role_value ADMIN = ''ADMIN''"
| "role_value QMB = ''QMB''"

definition both :: "string option \<Rightarrow> system_role option \<Rightarrow> (string \<Rightarrow> system_role \<Rightarrow> doc_error + unit) \<Rightarrow> doc_error + unit" where
  "both actor role check = (case (actor, role) of (Some a, Some r) \<Rightarrow> check a r | _ \<Rightarrow> Inr ())"

lemma both_simps [simp]:
  "both None r c = Inr ()" "both a None c = Inr ()" "both (Some x) (Some y) c = c x y"
  by (simp_all add: both_def split: option.split)

definition commit_steps ::
  "docs_env \<Rightarrow> string \<Rightarrow> version_state \<Rightarrow> (string, pyval) dict \<Rightarrow> string option \<Rightarrow>
   (version_state \<Rightarrow> unit doc_meth) \<Rightarrow> version_state doc_meth" where
  "commit_steps env name updated payload actor_user_id finish =
     bindM (store_state env updated) (\<lambda>_.
     bindM (publish_event env name updated payload actor_user_id) (\<lambda>event.
     let stamped = stamp_event_on_state updated (Some event) actor_user_id
     in bindM (store_state env stamped) (\<lambda>_.
        bindM (finish stamped) (\<lambda>_.
        bindM (sync_registry env stamped (Some event)) (\<lambda>_. retM stamped)))))"

definition no_finish :: "version_state \<Rightarrow> unit doc_meth" where
  "no_finish st = retM ()"

definition commit_version ::
  "docs_env \<Rightarrow> string \<Rightarrow> version_state \<Rightarrow> (string, pyval) dict \<Rightarrow> string option \<Rightarrow>
   (version_state \<Rightarrow> unit doc_meth) \<Rightarrow> version_state doc_meth" where
  "commit_version env name updated payload actor_user_id finish =
     write_transaction (commit_steps env name updated payload actor_user_id finish)"

text \<open>The audit record after the transaction; the actor text may depend on the new state.\<close>

definition audited :: "string \<Rightarrow> (version_state \<Rightarrow> string) \<Rightarrow> string \<Rightarrow> version_state doc_meth \<Rightarrow> version_state doc_meth" where
  "audited action actor_text reason m =
     bindM m (\<lambda>updated.
     bindM (emit_audit action (actor_text updated) (version_target updated) reason) (\<lambda>_.
     retM updated))"

definition actor_or_owner :: "string option \<Rightarrow> version_state \<Rightarrow> string" where
  "actor_or_owner actor_user_id updated = audit_actor actor_user_id (v_owner_user_id updated)"

definition actor_or_system :: "string option \<Rightarrow> version_state \<Rightarrow> string" where
  "actor_or_system actor_user_id updated = audit_actor actor_user_id None"

section \<open>Assigning roles and starting\<close>

definition assign_workflow_roles ::
  "docs_env \<Rightarrow> version_state \<Rightarrow> string set \<Rightarrow> string set \<Rightarrow> string set \<Rightarrow>
   string option \<Rightarrow> system_role option \<Rightarrow> version_state doc_meth" where
  "assign_workflow_roles env state editors reviewers approvers actor_user_id actor_role =
     bindM (liftE (both actor_user_id actor_role (\<lambda>a r.
       ensure_assignment_update_allowed state a r editors reviewers approvers))) (\<lambda>_.
     let updated = state\<lparr>v_assignments :=
           \<lparr>as_editors = editors, as_reviewers = reviewers, as_approvers = approvers\<rparr>\<rparr>
     in audited ''documents.workflow.roles.assigned'' (actor_or_owner actor_user_id) ''assign_workflow_roles''
          (commit_version env ''domain.documents.assignments.updated.v1'' updated
            [(''editors_count'', PyInt (int (card editors))), (''reviewers_count'', PyInt (int (card reviewers))),
             (''approvers_count'', PyInt (int (card approvers)))]
            actor_user_id no_finish))"

definition started :: "version_state \<Rightarrow> workflow_profile \<Rightarrow> version_state" where
  "started state profile = state\<lparr>
     v_status := IN_PROGRESS, v_workflow_active := True, v_workflow_profile := Some profile,
     v_reviewed_by := {}, v_approved_by := {}\<rparr>"

definition start_workflow_use_case ::
  "docs_env \<Rightarrow> version_state \<Rightarrow> workflow_profile \<Rightarrow> string option \<Rightarrow> system_role option \<Rightarrow> version_state doc_meth" where
  "start_workflow_use_case env state profile actor_user_id actor_role =
     bindM (liftE (both actor_user_id actor_role (ensure_owner_or_privileged state))) (\<lambda>_.
     bindM (liftE (raise_if (v_status state \<noteq> PLANNED)
       (InvalidTransitionError ''workflow can only start from PLANNED''))) (\<lambda>_.
     bindM (liftE (assert_profile profile)) (\<lambda>_.
     bindM (liftE (raise_if (p_control_class profile \<noteq> v_control_class state)
       (ValidationError ''profile control_class does not match document control_class''))) (\<lambda>_.
     bindM (liftE (assert_assignments_for_profile state profile)) (\<lambda>_.
     audited ''documents.workflow.started'' (actor_or_owner actor_user_id) (''profile:'' @ p_profile_id profile)
       (commit_version env ''domain.documents.workflow.started.v1'' (started state profile)
         [(''profile_id'', PyStr (p_profile_id profile))] actor_user_id no_finish))))))"

section \<open>Completing the editing phase\<close>

definition mark_edit_signed :: "version_state \<Rightarrow> string option \<Rightarrow> time \<Rightarrow> version_state" where
  "mark_edit_signed state actor_user_id moment =
     (let s = state\<lparr>v_edit_signature_done := True\<rparr>
      in if v_edit_signed_at s = None \<and> truthy actor_user_id
         then s\<lparr>v_edit_signed_at := Some moment, v_edit_signed_by := actor_user_id\<rparr> else s)"

definition sign_moment :: "docs_env \<Rightarrow> version_state \<Rightarrow> string option \<Rightarrow> time doc_meth" where
  "sign_moment env state actor_user_id =
     (if v_edit_signed_at state = None \<and> truthy actor_user_id then utcnow env else retM 0)"

definition released_from_editing :: "version_state \<Rightarrow> time \<Rightarrow> string option \<Rightarrow> version_state" where
  "released_from_editing state now actor_user_id = state\<lparr>
     v_approval_completed_at := Some now, v_approval_completed_by := actor_user_id,
     v_released_at := Some now, v_valid_from := Some now,
     v_valid_until := (case v_valid_until state of Some t \<Rightarrow> Some t | None \<Rightarrow> Some (now + 365 * day)),
     v_next_review_at := Some (now + 365 * day), v_workflow_active := False\<rparr>"

text \<open>The state that leaves the editing phase, given the two clock readings.\<close>

definition edited :: "version_state \<Rightarrow> doc_status \<Rightarrow> string option \<Rightarrow> time \<Rightarrow> time \<Rightarrow> version_state" where
  "edited state next_status actor_user_id moment now =
     (let updated = state\<lparr>v_status := next_status\<rparr>;
          updated = (if is_signature_required state ''IN_PROGRESS->IN_REVIEW''
                     then mark_edit_signed updated actor_user_id moment else updated)
      in if next_status = APPROVED then released_from_editing updated now actor_user_id else updated)"

definition complete_editing ::
  "docs_env \<Rightarrow> version_state \<Rightarrow> sign_request option \<Rightarrow> string option \<Rightarrow> string option \<Rightarrow>
   system_role option \<Rightarrow> version_state doc_meth" where
  "complete_editing env state sign_req actor actor_user_id actor_role =
     bindM (liftE (both actor_user_id actor_role (ensure_editor_or_owner_or_privileged state))) (\<lambda>_.
     bindM (liftE (assert_active_profile state)) (\<lambda>_.
     bindM (liftE (raise_if (v_status state \<noteq> IN_PROGRESS)
       (InvalidTransitionError ''editing can only be completed from IN_PROGRESS''))) (\<lambda>_.
     bindM (ensure_source_pdf_artifact_for_signing env state actor_user_id) (\<lambda>_.
     bindM (enforce_signature_transition env state ''IN_PROGRESS->IN_REVIEW'' sign_req actor) (\<lambda>_.
     bindM (liftE (next_status_from_profile (v_workflow_profile state) IN_PROGRESS)) (\<lambda>next_status.
     bindM (if is_signature_required state ''IN_PROGRESS->IN_REVIEW''
            then sign_moment env state actor_user_id else retM 0) (\<lambda>moment.
     bindM (utcnow env) (\<lambda>now.
     audited ''documents.workflow.editing.completed'' (actor_or_owner actor_user_id) (''to:'' @ status_value next_status)
       (commit_version env ''domain.documents.editing.completed.v1''
         (edited state next_status actor_user_id moment now)
         [(''to_status'', PyStr (status_value next_status))] actor_user_id
         (\<lambda>st. if v_status st = APPROVED then ensure_release_pdf_artifact env st else retM ()))))))))))"

section \<open>Review\<close>

definition reviewed :: "version_state \<Rightarrow> doc_status \<Rightarrow> string \<Rightarrow> time \<Rightarrow> version_state" where
  "reviewed state next_status actor_user_id now = state\<lparr>
     v_status := next_status, v_reviewed_by := insert actor_user_id (v_reviewed_by state),
     v_review_completed_at := Some now, v_review_completed_by := Some actor_user_id\<rparr>"

definition accept_review ::
  "docs_env \<Rightarrow> version_state \<Rightarrow> string \<Rightarrow> sign_request option \<Rightarrow> string option \<Rightarrow> version_state doc_meth" where
  "accept_review env state actor_user_id sign_req actor =
     bindM (liftE (assert_active_profile state)) (\<lambda>_.
     bindM (liftE (raise_if (v_status state \<noteq> IN_REVIEW)
       (InvalidTransitionError ''review accept can only be executed in IN_REVIEW''))) (\<lambda>_.
     bindM (liftE (raise_if (actor_user_id \<notin> as_reviewers (v_assignments state))
       (PermissionDeniedError ''actor is not assigned as reviewer''))) (\<lambda>_.
     bindM (enforce_signature_transition env state ''IN_REVIEW->IN_APPROVAL'' sign_req actor) (\<lambda>_.
     bindM (liftE (next_status_from_profile (v_workflow_profile state) IN_REVIEW)) (\<lambda>next_status.
     bindM (utcnow env) (\<lambda>now.
     audited ''documents.workflow.review.accepted'' (\<lambda>_. actor_user_id) ''review_accept''
       (commit_version env ''domain.documents.review.accepted.v1'' (reviewed state next_status actor_user_id now)
         [(''actor_user_id'', PyStr actor_user_id)] (Some actor_user_id) no_finish)))))))"

definition rejection_text :: "rejection_reason \<Rightarrow> string \<Rightarrow> string" where
  "rejection_text reason fallback =
     (case or_str (rr_template_text reason) (rr_free_text reason) of
        None \<Rightarrow> fallback | Some t \<Rightarrow> if t = [] then fallback else t)"

definition reject_review ::
  "docs_env \<Rightarrow> version_state \<Rightarrow> string \<Rightarrow> rejection_reason \<Rightarrow> version_state doc_meth" where
  "reject_review env state actor_user_id reason =
     bindM (liftE (raise_if (v_status state \<noteq> IN_REVIEW)
       (InvalidTransitionError ''review reject can only be executed in IN_REVIEW''))) (\<lambda>_.
     bindM (liftE (raise_if (actor_user_id \<notin> as_reviewers (v_assignments state))
       (PermissionDeniedError ''actor is not assigned as reviewer''))) (\<lambda>_.
     bindM (liftE (assert_rejection_reason reason)) (\<lambda>_.
     audited ''documents.workflow.review.rejected'' (\<lambda>_. actor_user_id) (rejection_text reason ''review_reject'')
       (commit_version env ''domain.documents.review.rejected.v1'' (state\<lparr>v_status := IN_PROGRESS\<rparr>)
         [(''actor_user_id'', PyStr actor_user_id)] (Some actor_user_id) no_finish))))"

section \<open>Approval\<close>

definition superseded :: "version_state \<Rightarrow> version_state \<Rightarrow> string \<Rightarrow> time \<Rightarrow> version_state" where
  "superseded state candidate actor_user_id now = candidate\<lparr>
     v_status := ARCHIVED, v_workflow_active := False, v_archived_at := Some now,
     v_archived_by := Some actor_user_id, v_superseded_by_version := Some (v_version state)\<rparr>"

fun supersede_loop :: "docs_env \<Rightarrow> version_state \<Rightarrow> string \<Rightarrow> version_state list \<Rightarrow> int list doc_meth" where
  "supersede_loop env state actor_user_id [] = retM []"
| "supersede_loop env state actor_user_id (c # cs) =
     (if v_version c = v_version state \<or> v_status c \<noteq> APPROVED then supersede_loop env state actor_user_id cs
      else bindM (utcnow env) (\<lambda>now.
           bindM (store_state env (superseded state c actor_user_id now)) (\<lambda>_.
           bindM (supersede_loop env state actor_user_id cs) (\<lambda>rest.
           retM (v_version c # rest)))))"

definition supersede_other_approved_versions :: "docs_env \<Rightarrow> version_state \<Rightarrow> string \<Rightarrow> int list doc_meth" where
  "supersede_other_approved_versions env state actor_user_id =
     bindM (list_versions (v_document_id state)) (\<lambda>candidates.
     supersede_loop env state actor_user_id candidates)"

definition opt_text :: "string option \<Rightarrow> pyval" where
  "opt_text x = (case x of None \<Rightarrow> PyNone | Some s \<Rightarrow> PyStr s)"

definition build_distribution_snapshot :: "docs_env \<Rightarrow> version_state \<Rightarrow> (string, pyval) dict doc_meth" where
  "build_distribution_snapshot env state =
     bindM (readM (\<lambda>w. get_header (w_db w) (v_document_id state))) (\<lambda>header.
     case header of
       None \<Rightarrow> retM []
     | Some h \<Rightarrow> bindM (utcnow env) (\<lambda>now. retM
         [(''frozen_at'', PyStr (isoformat now)),
          (''roles'', PyList (map PyStr (h_distribution_roles h))),
          (''sites'', PyList (map PyStr (h_distribution_sites h))),
          (''departments'', PyList (map PyStr (h_distribution_departments h))),
          (''header_department'', opt_text (h_department h)),
          (''header_site'', opt_text (h_site h)),
          (''header_regulatory_scope'', opt_text (h_regulatory_scope h))]))"

definition snapshot_value :: "(string, pyval) dict \<Rightarrow> pyval" where
  "snapshot_value snapshot = PyDict (map (\<lambda>(k, v). (PyStr k, v)) snapshot)"

definition approved :: "version_state \<Rightarrow> string \<Rightarrow> time \<Rightarrow> (string, pyval) dict \<Rightarrow> version_state" where
  "approved state actor_user_id now snapshot =
     (let released_at = (case v_released_at state of Some t \<Rightarrow> t | None \<Rightarrow> now)
      in state\<lparr>
        v_status := APPROVED,
        v_approved_by := insert actor_user_id (v_approved_by state),
        v_approval_completed_at := Some now,
        v_approval_completed_by := Some actor_user_id,
        v_released_at := Some released_at,
        v_valid_from := or_opt (v_valid_from state) (Some now),
        v_valid_until := or_opt (v_valid_until state) (Some (released_at + 365 * day)),
        v_next_review_at := or_opt (v_next_review_at state) (Some (now + 365 * day)),
        v_workflow_active := False,
        v_custom_fields := (if snapshot = [] then v_custom_fields state
           else AList.update ''distribution_snapshot'' (snapshot_value snapshot) (v_custom_fields state))\<rparr>)"

definition four_eyes_blocks :: "version_state \<Rightarrow> string \<Rightarrow> bool" where
  "four_eyes_blocks state actor_user_id =
     (case v_workflow_profile state of None \<Rightarrow> False
      | Some p \<Rightarrow> p_four_eyes_required p \<and> actor_user_id \<in> v_reviewed_by state)"

definition accept_approval ::
  "docs_env \<Rightarrow> version_state \<Rightarrow> string \<Rightarrow> sign_request option \<Rightarrow> string option \<Rightarrow> version_state doc_meth" where
  "accept_approval env state actor_user_id sign_req actor =
     bindM (liftE (assert_active_profile state)) (\<lambda>_.
     bindM (liftE (raise_if (v_status state \<noteq> IN_APPROVAL)
       (InvalidTransitionError ''approval accept can only be executed in IN_APPROVAL''))) (\<lambda>_.
     bindM (liftE (raise_if (actor_user_id \<notin> as_approvers (v_assignments state))
       (PermissionDeniedError ''actor is not assigned as approver''))) (\<lambda>_.
     bindM (liftE (raise_if (four_eyes_blocks state actor_user_id)
       (PermissionDeniedError ''four-eyes principle prevents reviewer from approving the same version''))) (\<lambda>_.
     bindM (enforce_signature_transition env state ''IN_APPROVAL->APPROVED'' sign_req actor) (\<lambda>_.
     bindM (utcnow env) (\<lambda>now.
     audited ''documents.workflow.approval.accepted'' (\<lambda>_. actor_user_id) ''approval_accept''
       (write_transaction
         (bindM (supersede_other_approved_versions env state actor_user_id) (\<lambda>superseded_versions.
          bindM (build_distribution_snapshot env state) (\<lambda>snapshot.
          commit_steps env ''domain.documents.approval.accepted.v1'' (approved state actor_user_id now snapshot)
            [(''actor_user_id'', PyStr actor_user_id),
             (''superseded_versions'', PyList (map PyInt superseded_versions)),
             (''distribution_snapshot'', snapshot_value snapshot)]
            (Some actor_user_id) (ensure_release_pdf_artifact env)))))))))))"

definition reject_approval ::
  "docs_env \<Rightarrow> version_state \<Rightarrow> string \<Rightarrow> rejection_reason \<Rightarrow> version_state doc_meth" where
  "reject_approval env state actor_user_id reason =
     bindM (liftE (raise_if (v_status state \<noteq> IN_APPROVAL)
       (InvalidTransitionError ''approval reject can only be executed in IN_APPROVAL''))) (\<lambda>_.
     bindM (liftE (raise_if (actor_user_id \<notin> as_approvers (v_assignments state))
       (PermissionDeniedError ''actor is not assigned as approver''))) (\<lambda>_.
     bindM (liftE (assert_rejection_reason reason)) (\<lambda>_.
     audited ''documents.workflow.approval.rejected'' (\<lambda>_. actor_user_id) (rejection_text reason ''approval_reject'')
       (commit_version env ''domain.documents.approval.rejected.v1'' (state\<lparr>v_status := IN_PROGRESS\<rparr>)
         [(''actor_user_id'', PyStr actor_user_id)] (Some actor_user_id) no_finish))))"

section \<open>Abort, archive, extension, new version\<close>

definition abort_workflow ::
  "docs_env \<Rightarrow> version_state \<Rightarrow> string option \<Rightarrow> system_role option \<Rightarrow> version_state doc_meth" where
  "abort_workflow env state actor_user_id actor_role =
     bindM (liftE (both actor_user_id actor_role (ensure_owner_or_privileged state))) (\<lambda>_.
     bindM (liftE (raise_if (v_status state \<notin> {IN_PROGRESS, IN_REVIEW, IN_APPROVAL})
       (InvalidTransitionError ''workflow abort is only allowed during active workflow phases''))) (\<lambda>_.
     audited ''documents.workflow.aborted'' (actor_or_owner actor_user_id) ''workflow_abort''
       (commit_version env ''domain.documents.workflow.aborted.v1''
         (state\<lparr>v_status := PLANNED, v_workflow_active := False\<rparr>) [] actor_user_id no_finish)))"

definition archived :: "version_state \<Rightarrow> time \<Rightarrow> string option \<Rightarrow> version_state" where
  "archived state archived_at actor_user_id = state\<lparr>
     v_status := ARCHIVED, v_workflow_active := False, v_archived_at := Some archived_at,
     v_archived_by := actor_user_id, v_valid_until := Some archived_at\<rparr>"

definition archive_approved ::
  "docs_env \<Rightarrow> version_state \<Rightarrow> system_role \<Rightarrow> string option \<Rightarrow> version_state doc_meth" where
  "archive_approved env state actor_role actor_user_id =
     bindM (liftE (raise_if (v_status state \<noteq> APPROVED)
       (InvalidTransitionError ''archiving is only allowed from APPROVED''))) (\<lambda>_.
     bindM (liftE (raise_if (actor_role \<noteq> QMB)
       (PermissionDeniedError ''only an effective QMB can archive approved documents''))) (\<lambda>_.
     bindM (utcnow env) (\<lambda>archived_at.
     audited ''documents.workflow.archived'' (actor_or_system actor_user_id) (''role:'' @ role_value actor_role)
       (commit_version env ''domain.documents.archived.v1'' (archived state archived_at actor_user_id)
         [(''actor_role'', PyStr (role_value actor_role))] actor_user_id no_finish))))"

definition opt_iso :: "time option \<Rightarrow> pyval" where
  "opt_iso t = (case t of None \<Rightarrow> PyNone | Some x \<Rightarrow> PyStr (isoformat x))"

definition extended ::
  "version_state \<Rightarrow> time \<Rightarrow> string \<Rightarrow> int \<Rightarrow> string \<Rightarrow> extension_outcome \<Rightarrow> version_state" where
  "extended state now actor_user_id duration_days reason review_outcome =
     (let base = (case v_valid_until state of None \<Rightarrow> now | Some t \<Rightarrow> t);
          base = (if base < now then now else base);
          new_valid_until = base + duration_days * day
      in state\<lparr>
        v_extension_count := v_extension_count state + 1,
        v_valid_until := Some new_valid_until, v_next_review_at := Some new_valid_until,
        v_last_extended_at := Some now, v_last_extended_by := Some actor_user_id,
        v_last_extension_reason := Some reason,
        v_last_extension_review_outcome := Some (outcome_value review_outcome)\<rparr>)"

definition extend_annual_validity ::
  "docs_env \<Rightarrow> version_state \<Rightarrow> string \<Rightarrow> bool \<Rightarrow> int \<Rightarrow> string \<Rightarrow> extension_outcome \<Rightarrow>
   (version_state \<times> bool) doc_meth" where
  "extend_annual_validity env state actor_user_id signature_present duration_days reason review_outcome =
     bindM (liftE (raise_if (v_status state \<noteq> APPROVED)
       (InvalidTransitionError ''annual validity check is only allowed in APPROVED''))) (\<lambda>_.
     bindM (liftE (raise_if (py_strip actor_user_id = [])
       (ValidationError ''annual validity extension requires actor_user_id''))) (\<lambda>_.
     bindM (liftE (raise_if (duration_days \<le> 0)
       (ValidationError ''annual validity extension requires a positive duration_days''))) (\<lambda>_.
     let normalized_reason = py_strip reason
     in bindM (liftE (raise_if (normalized_reason = [])
       (ValidationError ''annual validity extension requires a reason''))) (\<lambda>_.
     bindM (liftE (raise_if (review_outcome = NEW_VERSION_REQUIRED)
       (InvalidTransitionError ''new version is required; annual extension is not allowed''))) (\<lambda>_.
     if v_extension_count state \<ge> 3 then retM (state, True)
     else bindM (liftE (raise_if (\<not> signature_present)
       (ValidationError ''annual validity extension requires a signature''))) (\<lambda>_.
     bindM (utcnow env) (\<lambda>now.
     let updated = extended state now actor_user_id duration_days normalized_reason review_outcome
     in bindM (audited ''documents.workflow.validity.extended'' (actor_or_system (Some actor_user_id))
          (''extension_count:'' @ str_int (v_extension_count updated) @ ''; outcome:'' @ outcome_value review_outcome)
          (commit_version env ''domain.documents.validity.extended.v1'' updated
            [(''extension_count'', PyInt (v_extension_count updated)),
             (''old_valid_until'', opt_iso (v_valid_until state)),
             (''new_valid_until'', opt_iso (v_valid_until updated)),
             (''old_next_review_at'', opt_iso (v_next_review_at state)),
             (''new_next_review_at'', opt_iso (v_next_review_at updated)),
             (''duration_days'', PyInt duration_days),
             (''reason'', PyStr normalized_reason),
             (''review_outcome'', PyStr (outcome_value review_outcome)),
             (''actor_user_id'', PyStr actor_user_id)]
            (Some actor_user_id) no_finish)) (\<lambda>stamped. retM (stamped, False)))))))))"

definition next_version_of :: "version_state \<Rightarrow> int \<Rightarrow> time \<Rightarrow> string option \<Rightarrow> version_state" where
  "next_version_of state next_version now actor_user_id =
     (new_version_state (v_document_id state) next_version)\<lparr>
       v_title := v_title state, v_description := v_description state,
       v_doc_type := v_doc_type state, v_control_class := v_control_class state,
       v_workflow_profile_id := v_workflow_profile_id state, v_owner_user_id := v_owner_user_id state,
       v_created_at := Some now, v_created_by := actor_user_id\<rparr>"

definition create_new_version_after_archive ::
  "docs_env \<Rightarrow> version_state \<Rightarrow> int \<Rightarrow> string option \<Rightarrow> system_role option \<Rightarrow> version_state doc_meth" where
  "create_new_version_after_archive env state next_version actor_user_id actor_role =
     bindM (liftE (raise_if (v_status state \<noteq> ARCHIVED)
       (InvalidTransitionError ''new version can only be created from ARCHIVED''))) (\<lambda>_.
     bindM (liftE (raise_if (v_superseded_by_version state \<noteq> None)
       (ValidationError ''archived version already superseded''))) (\<lambda>_.
     bindM (liftE (raise_if (next_version \<le> v_version state)
       (ValidationError ''next_version must be greater than the archived version''))) (\<lambda>_.
     bindM (get_document_version (v_document_id state) next_version) (\<lambda>existing.
     bindM (liftE (raise_if (existing \<noteq> None)
       (ValidationError (''document version already exists: '' @ str_int next_version)))) (\<lambda>_.
     bindM (utcnow env) (\<lambda>now.
     let created = next_version_of state next_version now actor_user_id
     in audited ''documents.workflow.new_version_after_archive'' (actor_or_system actor_user_id)
          (''from:'' @ str_int (v_version state) @ '';role:'' @
             (case actor_role of Some r \<Rightarrow> role_value r | None \<Rightarrow> ''none''))
          (write_transaction
            (bindM (publish_event env ''domain.documents.workflow.new_version_after_archive.v1'' created
               [(''from_version'', PyInt (v_version state)), (''next_version'', PyInt next_version),
                (''actor_role'', opt_text (map_option role_value actor_role))] actor_user_id) (\<lambda>event.
             let source_updated = stamp_event_on_state
                   (state\<lparr>v_superseded_by_version := Some next_version\<rparr>) (Some event) actor_user_id;
                 stamped = stamp_event_on_state created (Some event) actor_user_id
             in bindM (liftE (raise_if (\<not> truthy (v_last_event_id stamped))
                  (ValidationError ''new version must receive a non-empty event token''))) (\<lambda>_.
                bindM (store_state env source_updated) (\<lambda>_.
                bindM (store_state env stamped) (\<lambda>_.
                bindM (sync_registry env source_updated (Some event)) (\<lambda>_.
                bindM (sync_registry env stamped (Some event)) (\<lambda>_. retM stamped))))))))))))))"

end
