(* ===== verification/DocWorkflowLaws.thy ===== *)
theory DocWorkflowLaws
  imports DocWorkflow
begin

text \<open>
  Laws of the workflow operations. \<open>db_ok\<close> is the invariant that spans the documents database and
  the register: the version table is well formed, and the register names as active version of a
  document exactly its approved version. Every operation on the current row of a version keeps it,
  whether it returns or raises; what the operations return is characterised by the new state they
  commit.
\<close>

section \<open>The invariant, and moving it through an operation\<close>

definition db_ok :: "docs_world \<Rightarrow> bool" where
  "db_ok w \<longleftrightarrow> rows_ok (db_versions (w_db w)) \<and> register_agrees (db_versions (w_db w)) (w_registry w)"

text \<open>\<open>ready st ap w\<close>: the invariant holds, and the row of \<open>st\<close> is approved only if \<open>ap\<close>.\<close>

definition ready :: "version_state \<Rightarrow> bool \<Rightarrow> docs_world \<Rightarrow> bool" where
  "ready st ap w \<longleftrightarrow> db_ok w \<and>
     (row_approved (db_versions (w_db w)) (v_document_id st) (v_version st) \<longrightarrow> ap)"

definition current_row :: "version_state \<Rightarrow> docs_world \<Rightarrow> bool" where
  "current_row st w \<longleftrightarrow> get_row (db_versions (w_db w)) (v_document_id st) (v_version st) = Some st"

lemma current_row_approved:
  "current_row st w \<Longrightarrow> row_approved (db_versions (w_db w)) (v_document_id st) (v_version st) \<longleftrightarrow> v_status st = APPROVED"
  by (auto simp: current_row_def get_row_def row_approved_def split: option.splits)

lemma ready_current: "db_ok w \<Longrightarrow> current_row st w \<Longrightarrow> ready st (v_status st = APPROVED) w"
  by (simp add: ready_def current_row_approved)

text \<open>From \<open>P\<close> before to \<open>Q\<close> after, for a return as for a raise.\<close>

definition leads :: "('w \<Rightarrow> bool) \<Rightarrow> ('w, 'e, 'a) meth \<Rightarrow> ('w \<Rightarrow> bool) \<Rightarrow> bool" where
  "leads P m Q \<longleftrightarrow> (\<forall>w. P w \<longrightarrow> Q (after (m w)))"

lemma leadsD: "leads P m Q \<Longrightarrow> P w \<Longrightarrow> Q (after (m w))"
  by (simp add: leads_def)

lemma leads_bind:
  assumes "keeps P m" and "\<And>w. P w \<Longrightarrow> Q w" and "\<And>x. leads P (f x) Q"
  shows "leads P (bindM m f) Q"
  unfolding leads_def
proof (intro allI impI)
  fix w assume w: "P w"
  obtain r w' where run: "m w = (r, w')" by fastforce
  then have "P w'" using keeps_run [OF assms(1) w] by blast
  with run assms(2,3) show "Q (after (bindM m f w))"
    by (cases r) (auto simp: bindM_def leads_def)
qed

lemma leads_guard:
  assumes "\<And>w. P w \<Longrightarrow> Q w" and "\<And>x. r = Inr x \<Longrightarrow> leads P (f x) Q"
  shows "leads P (bindM (liftE r) f) Q"
  using assms by (cases r) (auto simp: leads_def)

lemma leads_ret:
  assumes "\<And>w. P w \<Longrightarrow> Q w" shows "leads P (retM x) Q"
  using assms by (simp add: leads_def)

lemma leads_then:
  assumes "leads P m Q" and "\<And>x. keeps Q (f x)"
  shows "leads P (bindM m f) Q"
  unfolding leads_def
proof (intro allI impI)
  fix w assume w: "P w"
  obtain r w' where run: "m w = (r, w')" by fastforce
  with leadsD [OF assms(1) w] assms(2) show "Q (after (bindM m f w))"
    by (cases r) (auto simp: bindM_def keeps_def)
qed

lemma db_ok_simps [simp]:
  "db_ok (w\<lparr>w_ticks := n\<rparr>) = db_ok w" "db_ok (w\<lparr>w_uuids := n\<rparr>) = db_ok w"
  "db_ok (w\<lparr>w_files := fs\<rparr>) = db_ok w" "db_ok (w\<lparr>w_audit := aus\<rparr>) = db_ok w"
  "db_ok (w\<lparr>w_events := evs\<rparr>) = db_ok w" "db_ok (w\<lparr>w_cache := c\<rparr>) = db_ok w"
  by (simp_all add: db_ok_def)

lemma ready_simps [simp]:
  "ready st ap (w\<lparr>w_ticks := n\<rparr>) = ready st ap w" "ready st ap (w\<lparr>w_uuids := n\<rparr>) = ready st ap w"
  by (simp_all add: ready_def)

lemma keeps_same_rows_ready:
  assumes "\<And>rows reg. keeps (same_rows rows reg) m"
  shows "keeps (ready st ap) m"
proof (rule keepsI)
  fix w assume w: "ready st ap w"
  have "same_rows (db_versions (w_db w)) (w_registry w) (after (m w))"
    by (rule keepsD [OF assms]) (simp add: same_rows_def)
  with w show "ready st ap (after (m w))" by (simp add: ready_def db_ok_def same_rows_def)
qed

lemma keeps_audit_db_ok: "keeps db_ok (emit_audit a b c d)"
  by (simp add: keeps_def db_ok_def)

lemma leads_audited:
  assumes "leads P m db_ok" shows "leads P (audited a t r m) db_ok"
  unfolding audited_def by (intro leads_then assms keeps_bindM keeps_audit_db_ok keeps_retM)

section \<open>Commit\<close>

definition quiet_finish :: "(version_state \<Rightarrow> unit doc_meth) \<Rightarrow> bool" where
  "quiet_finish fin \<longleftrightarrow> (\<forall>st rows reg. keeps (same_rows rows reg) (fin st))"

lemma quiet_finish_simps [simp]: "quiet_finish no_finish" "quiet_finish (ensure_release_pdf_artifact env)"
  "quiet_finish (\<lambda>st. if v_status st = APPROVED then ensure_release_pdf_artifact env st else retM ())"
  unfolding quiet_finish_def no_finish_def by (auto intro: keeps_retM ensure_release_same_rows)

lemma quiet_finish_same:
  assumes "quiet_finish fin" and "fin st w = (r, w')"
  shows "db_versions (w_db w') = db_versions (w_db w)" "w_registry w' = w_registry w"
proof -
  have k: "keeps (same_rows (db_versions (w_db w)) (w_registry w)) (fin st)"
    using assms(1) by (simp add: quiet_finish_def)
  have "same_rows (db_versions (w_db w)) (w_registry w) w"
    by (simp add: same_rows_def)
  from keeps_run [OF k this assms(2)] have "same_rows (db_versions (w_db w)) (w_registry w) w'" .
  then show "db_versions (w_db w') = db_versions (w_db w)" "w_registry w' = w_registry w"
    by (simp_all add: same_rows_def)
qed

text \<open>The world between the second write and the last steps of a commit.\<close>

definition after_writes ::
  "docs_env \<Rightarrow> version_state \<Rightarrow> event_envelope \<Rightarrow> version_state \<Rightarrow> docs_world \<Rightarrow> docs_world" where
  "after_writes env st ev stamped w = stored env stamped (with_event ev (stored env st w))"

lemma after_writes_simps [simp]:
  "db_versions (w_db (after_writes env st ev stamped w)) =
     upsert_rows (clock env (Suc (Suc (w_ticks w)))) stamped (upsert_rows (clock env (w_ticks w)) st (db_versions (w_db w)))"
  "w_registry (after_writes env st ev stamped w) = w_registry w"
  "w_events (after_writes env st ev stamped w) = w_events w @ [ev]"
  "db_artifacts (w_db (after_writes env st ev stamped w)) = db_artifacts (w_db w)"
  "w_audit (after_writes env st ev stamped w) = w_audit w"
  by (simp_all add: after_writes_def)

definition registered :: "version_state \<Rightarrow> event_envelope \<Rightarrow> registry \<Rightarrow> release_evidence_mode \<Rightarrow> registry" where
  "registered st ev reg mode = reg(v_document_id st \<mapsto>
     projected_entry 0 (reg (v_document_id st)) (v_document_id st) (v_version st)
       (status_value (v_status st)) mode None (v_valid_from st) (v_valid_until st) (Some ev))"

text \<open>What a commit that returns has done.\<close>

lemma commit_steps_Inr:
  assumes run: "commit_steps env name st payload actor fin w = (Inr stamped, w')" and quiet: "quiet_finish fin"
  obtains ev w3 mode where
    "ev = published env name st payload actor (stored env st w)"
    "stamped = stamp_event_on_state st (Some ev) actor"
    "state_consistent st" "\<not> one_approved_violation (db_versions (w_db w)) st"
    "fin stamped (after_writes env st ev stamped w) = (Inr (), w3)"
    "release_mode_of_value (release_mode_value stamped) = Some mode"
    "w' = w3\<lparr>w_registry := registered stamped ev (w_registry w) mode\<rparr>"
    "db_versions (w_db w') = db_versions (w_db (after_writes env st ev stamped w))"
proof -
  define ev where "ev = published env name st payload actor (stored env st w)"
  define s2 where "s2 = stamp_event_on_state st (Some ev) actor"
  obtain w1 where w1: "store_state env st w = (Inr (), w1)"
    using run unfolding commit_steps_def by auto
  then have c1: "state_consistent st" "\<not> one_approved_violation (db_versions (w_db w)) st" "w1 = stored env st w"
    by (simp_all add: store_state_Inr)
  obtain w2 w3 where w2: "store_state env s2 (with_event ev w1) = (Inr (), w2)"
    and w3: "fin s2 w2 = (Inr (), w3)"
    and w4: "sync_registry env s2 (Some ev) w3 = (Inr (), w')" and st: "stamped = s2"
    using run w1 c1(3) unfolding commit_steps_def by (auto simp: Let_def ev_def s2_def)
  have w2': "w2 = after_writes env st ev s2 w"
    using w2 c1(3) by (simp add: store_state_Inr after_writes_def)
  note same = quiet_finish_same [OF quiet w3]
  obtain mode where mode: "release_mode_of_value (release_mode_value s2) = Some mode"
    and w': "w' = w3\<lparr>w_registry := registered s2 ev (w_registry w3) mode\<rparr>"
    using w4 by (auto simp: sync_registry_event registered_def split: option.splits)
  have reg: "w_registry w3 = w_registry w" using same(2) w2' by simp
  show thesis
  proof (rule that [OF ev_def])
    show "stamped = stamp_event_on_state st (Some ev) actor" using st s2_def by simp
    show "state_consistent st" "\<not> one_approved_violation (db_versions (w_db w)) st" by (rule c1(1), rule c1(2))
    show "fin stamped (after_writes env st ev stamped w) = (Inr (), w3)" using w3 w2' st by simp
    show "release_mode_of_value (release_mode_value stamped) = Some mode" using mode st by simp
    show "w' = w3\<lparr>w_registry := registered stamped ev (w_registry w) mode\<rparr>" using w' reg st by simp
    show "db_versions (w_db w') = db_versions (w_db (after_writes env st ev stamped w))"
      using w' same(1) w2' st by simp
  qed
qed

text \<open>A commit that raises has not touched the register.\<close>

lemma commit_steps_Inl:
  assumes run: "commit_steps env name st payload actor fin w = (Inl e, w')" and quiet: "quiet_finish fin"
  shows "w_registry w' = w_registry w"
proof -
  define ev where "ev = published env name st payload actor (stored env st w)"
  define s2 where "s2 = stamp_event_on_state st (Some ev) actor"
  have store: "w_registry w2 = w_registry w1" if "store_state env s w1 = (r, w2)" for s w1 w2 r
    using that by (auto simp: store_state_eq split: if_splits)
  show ?thesis
  proof (cases "store_state env st w")
    case (Pair r w1)
    show ?thesis
    proof (cases r)
      case (Inl e')
      then show ?thesis using run Pair store [OF Pair] by (simp add: commit_steps_def bindM_def)
    next
      case (Inr u)
      then have w1: "w1 = stored env st w" using Pair by (simp add: store_state_Inr)
      obtain r2 w2 where st2: "store_state env s2 (with_event ev w1) = (r2, w2)" by fastforce
      have reg2: "w_registry w2 = w_registry w" using store [OF st2] w1 by simp
      show ?thesis
      proof (cases r2)
        case (Inl e')
        then show ?thesis using run Pair Inr st2 reg2 w1
          by (simp add: commit_steps_def bindM_def Let_def ev_def s2_def)
      next
        case (Inr u2)
        obtain r3 w3 where fin: "fin s2 w2 = (r3, w3)" by fastforce
        have reg3: "w_registry w3 = w_registry w" using quiet_finish_same(2) [OF quiet fin] reg2 by simp
        show ?thesis
          using run Pair \<open>r = Inr u\<close> st2 Inr fin reg3 w1
          by (cases r3) (auto simp: commit_steps_def bindM_def Let_def ev_def s2_def sync_registry_event
              split: option.splits)
      qed
    qed
  qed
qed

text \<open>A version leaves \<open>APPROVED\<close> only for \<open>ARCHIVED\<close>.\<close>

definition leaves_ok :: "version_state list \<Rightarrow> version_state \<Rightarrow> bool" where
  "leaves_ok rows st \<longleftrightarrow> v_status st \<in> {APPROVED, ARCHIVED} \<or> \<not> row_approved rows (v_document_id st) (v_version st)"

lemma commit_rows_ok:
  assumes "rows_ok rows" and "state_consistent st" and "\<not> one_approved_violation rows st"
  shows "rows_ok (upsert_rows now (stamp_event_on_state st ev a) (upsert_rows now' st rows))"
    "rows_ok (upsert_rows now' st rows)"
    "\<not> one_approved_violation (upsert_rows now' st rows) (stamp_event_on_state st ev a)"
proof -
  let ?s = "stamp_event_on_state st ev a"
  have up: "upsert_version now' st rows = Inr (upsert_rows now' st rows)"
    using assms(3) by (simp add: upsert_version_Inr)
  then show ok1: "rows_ok (upsert_rows now' st rows)" by (rule upsert_version_rows_ok [OF assms(1,2)])
  obtain rows2 where "upsert_version now ?s (upsert_rows now' st rows) = Inr rows2"
    using rows.write_again [OF assms(1,2) up, of ?s] by auto
  then show "rows_ok (upsert_rows now ?s (upsert_rows now' st rows))"
    "\<not> one_approved_violation (upsert_rows now' st rows) ?s"
    using upsert_version_rows_ok [OF ok1] assms(2) by (auto simp: upsert_version_Inr)
qed

lemma register_agrees_double:
  assumes "rows_ok rows" and "register_agrees rows reg" and "state_consistent st"
    and "\<not> one_approved_violation rows st" and "leaves_ok rows st"
  shows "register_agrees (upsert_rows now (stamp_event_on_state st (Some ev) a) (upsert_rows now' st rows))
           (registered (stamp_event_on_state st (Some ev) a) ev reg mode)"
proof -
  let ?s = "stamp_event_on_state st (Some ev) a"
  have eq: "row_approved (upsert_rows now ?s (upsert_rows now' st rows)) d v \<longleftrightarrow>
      row_approved (upsert_rows now' st rows) d v" for d v
    by (simp add: row_approved_upsert_rows)
  have d: "distinct (map version_key rows)" using assms(1) unfolding rows_ok_def by blast
  have "register_agrees (upsert_rows now' st rows) (registered ?s ev reg mode)"
    unfolding registered_def
    using register_agrees_commit [OF assms(2) d assms(4)] assms(5) by (simp add: leaves_ok_def)
  then show ?thesis unfolding register_agrees_def eq .
qed

lemma commit_steps_db_ok:
  assumes "commit_steps env name st payload actor fin w = (Inr stamped, w')" and "quiet_finish fin"
    and "rows_ok (db_versions (w_db w))" and "register_agrees (db_versions (w_db w)) (w_registry w)"
    and "leaves_ok (db_versions (w_db w)) st"
  shows "db_ok w'"
proof -
  obtain ev w3 mode where
    c: "stamped = stamp_event_on_state st (Some ev) actor" "state_consistent st"
      "\<not> one_approved_violation (db_versions (w_db w)) st"
      "w' = w3\<lparr>w_registry := registered stamped ev (w_registry w) mode\<rparr>"
      "db_versions (w_db w') = db_versions (w_db (after_writes env st ev stamped w))"
    by (rule commit_steps_Inr [OF assms(1,2)])
  have reg: "w_registry w' = registered stamped ev (w_registry w) mode" using c(4) by simp
  show ?thesis
    unfolding db_ok_def c(5) reg after_writes_simps c(1)
    using commit_rows_ok(1) [OF assms(3) c(2,3)] register_agrees_double [OF assms(3,4) c(2,3) assms(5)]
    by blast
qed

lemma commit_version_leads:
  assumes "quiet_finish fin" and "\<And>w. P w \<Longrightarrow> db_ok w \<and> leaves_ok (db_versions (w_db w)) st"
  shows "leads P (commit_version env name st payload actor fin) db_ok"
  unfolding leads_def
proof (intro allI impI)
  fix w assume "P w"
  then have w: "db_ok w" "leaves_ok (db_versions (w_db w)) st" using assms(2) by auto
  obtain r w' where run: "commit_version env name st payload actor fin w = (r, w')" by fastforce
  show "db_ok (after (commit_version env name st payload actor fin w))"
  proof (cases r)
    case (Inl e)
    then obtain w1 where w1: "commit_steps env name st payload actor fin w = (Inl e, w1)" "w' = w1\<lparr>w_db := w_db w\<rparr>"
      using run unfolding commit_version_def write_transaction_Inl by (auto simp: write_transaction_Inl)
    then show ?thesis
      using run commit_steps_Inl [OF w1(1) assms(1)] w(1) by (simp add: db_ok_def)
  next
    case (Inr s)
    then have "commit_steps env name st payload actor fin w = (Inr s, w')"
      using run unfolding commit_version_def by (simp add: write_transaction_Inr)
    from commit_steps_db_ok [OF this assms(1)] w show ?thesis using run by (simp add: db_ok_def)
  qed
qed

section \<open>Every operation keeps the invariant\<close>

lemma ready_db_ok: "ready st ap w \<Longrightarrow> db_ok w"
  by (simp add: ready_def)

lemma ready_leaves_ok:
  assumes "ready st ap w" and "v_document_id st' = v_document_id st" and "v_version st' = v_version st"
    and "v_status st' \<in> {APPROVED, ARCHIVED} \<or> \<not> ap"
  shows "db_ok w \<and> leaves_ok (db_versions (w_db w)) st'"
  using assms by (auto simp: ready_def leaves_ok_def)

lemma keeps_ready_utcnow: "keeps (ready st ap) (utcnow env)"
  by (rule keeps_utcnow) simp

lemma keeps_ready_enforce: "keeps (ready st ap) (enforce_signature_transition env s tr req actor)"
  by (intro keeps_same_rows_ready enforce_signature_same_rows)

lemma projected_idle:
  assumes "s \<notin> {APPROVED, ARCHIVED}"
  shows "projected_active_version cur ver (status_value s) = Option.bind cur r_active_version"
  using assms by (simp add: projected_active_version_eq)

lemma register_agrees_resync:
  assumes "register_agrees rows reg" and "r_active_version e = Option.bind (reg doc) r_active_version"
  shows "register_agrees rows (reg(doc \<mapsto> e))"
  using assms unfolding register_agrees_def by (auto split: option.splits)

lemma sync_registry_db_ok:
  assumes "v_status st \<notin> {APPROVED, ARCHIVED}"
  shows "keeps (ready st' ap) (sync_registry env st (Some ev))"
  unfolding keeps_def sync_registry_event ready_def db_ok_def
  by (auto simp: register_agrees_resync projected_idle [OF assms] split: option.split)

lemma convert_docx_same_rows: "keeps (same_rows rows reg) (convert_docx_to_temp_pdf env d)"
  unfolding convert_docx_to_temp_pdf_def Let_def by (intro keeps_intros) simp_all

lemma publish_event_same_rows: "keeps (same_rows rows reg) (publish_event env n st p a)"
  by (rule keeps_publish_event) simp

lemma emit_audit_same_rows: "keeps (same_rows rows reg) (emit_audit x y z u)"
  by (rule keeps_emit_audit) simp

lemma ensure_source_pdf_ready:
  assumes "v_status st \<notin> {APPROVED, ARCHIVED}"
  shows "keeps (ready st ap) (ensure_source_pdf_artifact_for_signing env st actor)"
proof -
  have c: "keeps (ready st ap) (convert_docx_to_temp_pdf env d)"
    "keeps (ready st ap) (create_artifact env st src t k md)"
    "keeps (ready st ap) (publish_event env n st p a)"
    "keeps (ready st ap) (emit_audit x y z u)" for d src t k md n p a x y z u
    by (rule keeps_same_rows_ready [OF convert_docx_same_rows],
        rule keeps_same_rows_ready [OF create_artifact_same_rows],
        rule keeps_same_rows_ready [OF publish_event_same_rows],
        rule keeps_same_rows_ready [OF emit_audit_same_rows])
  show ?thesis
    unfolding ensure_source_pdf_artifact_for_signing_def resolve_source_pdf_path_def resolve_source_docx_path_def
      resolve_source_path_def
    by (intro keeps_retM keeps_raiseM keeps_liftE keeps_readM keeps_bindM keeps_case_option c
        sync_registry_db_ok assms)
qed

lemma ready_commit:
  assumes "quiet_finish fin" and "v_document_id st' = v_document_id st" and "v_version st' = v_version st"
    and "v_status st' \<in> {APPROVED, ARCHIVED} \<or> \<not> ap"
  shows "leads (ready st ap) (commit_version env name st' payload actor fin) db_ok"
  by (rule commit_version_leads [OF assms(1)]) (rule ready_leaves_ok [OF _ assms(2-4)])

lemmas ready_rules = leads_guard leads_bind ready_db_ok keeps_ready_enforce keeps_ready_utcnow
  leads_audited ready_commit quiet_finish_simps

lemma assign_workflow_roles_db_ok:
  "leads (ready st (v_status st = APPROVED)) (assign_workflow_roles env st eds revs apps actor role) db_ok"
  unfolding assign_workflow_roles_def Let_def
  by (intro ready_rules) auto

lemma start_workflow_db_ok:
  "leads (ready st (v_status st = APPROVED)) (start_workflow_use_case env st p actor role) db_ok"
  unfolding start_workflow_use_case_def
  by (intro ready_rules) (auto simp: started_def)

lemma complete_editing_updated_key [simp]:
  "v_document_id (mark_edit_signed st a m) = v_document_id st" "v_version (mark_edit_signed st a m) = v_version st"
  "v_status (mark_edit_signed st a m) = v_status st"
  "v_document_id (released_from_editing st n a) = v_document_id st" "v_version (released_from_editing st n a) = v_version st"
  "v_status (released_from_editing st n a) = v_status st"
  by (simp_all add: mark_edit_signed_def released_from_editing_def Let_def)

lemma edited_simps [simp]:
  "v_document_id (edited st n a m now) = v_document_id st" "v_version (edited st n a m now) = v_version st"
  "v_status (edited st n a m now) = n"
  by (simp_all add: edited_def Let_def)

lemma keeps_sign_moment: "keeps (ready st ap) (sign_moment env st' a)"
  unfolding sign_moment_def by (intro keeps_if keeps_ready_utcnow keeps_retM)

lemma complete_editing_db_ok:
  "leads (ready st (v_status st = APPROVED)) (complete_editing env st req actor uid role) db_ok"
proof (cases "v_status st = IN_PROGRESS")
  case True
  then have s: "v_status st \<notin> {APPROVED, ARCHIVED}" by simp
  show ?thesis
    unfolding complete_editing_def Let_def
    by (intro leads_guard leads_bind ready_db_ok ensure_source_pdf_ready s keeps_ready_enforce
          keeps_if keeps_sign_moment keeps_retM keeps_ready_utcnow leads_audited ready_commit quiet_finish_simps)
       (simp_all add: True)
next
  case False
  then show ?thesis
    unfolding complete_editing_def
    by (intro leads_guard ready_db_ok) auto
qed

lemma accept_review_db_ok:
  "leads (ready st (v_status st = APPROVED)) (accept_review env st uid req actor) db_ok"
  unfolding accept_review_def
  by (intro ready_rules) (auto simp: reviewed_def)

lemma reject_review_db_ok:
  "leads (ready st (v_status st = APPROVED)) (reject_review env st uid reason) db_ok"
  unfolding reject_review_def
  by (intro ready_rules) auto

lemma reject_approval_db_ok:
  "leads (ready st (v_status st = APPROVED)) (reject_approval env st uid reason) db_ok"
  unfolding reject_approval_def
  by (intro ready_rules) auto

lemma abort_workflow_db_ok:
  "leads (ready st (v_status st = APPROVED)) (abort_workflow env st uid role) db_ok"
  unfolding abort_workflow_def
  by (intro ready_rules) auto

lemma archive_approved_db_ok:
  "leads (ready st (v_status st = APPROVED)) (archive_approved env st role uid) db_ok"
  unfolding archive_approved_def
  by (intro ready_rules) (auto simp: archived_def)

lemma extended_simps [simp]:
  "v_document_id (extended st now a d r out) = v_document_id st" "v_version (extended st now a d r out) = v_version st"
  "v_status (extended st now a d r out) = v_status st"
  "v_extension_count (extended st now a d r out) = v_extension_count st + 1"
  by (simp_all add: extended_def Let_def)

lemma leads_if: "(c \<Longrightarrow> leads P m Q) \<Longrightarrow> (\<not> c \<Longrightarrow> leads P n Q) \<Longrightarrow> leads P (if c then m else n) Q"
  by simp

lemma extend_annual_validity_db_ok:
  "leads (ready st (v_status st = APPROVED)) (extend_annual_validity env st uid sig d reason out) db_ok"
proof -
  let ?P = "ready st (v_status st = APPROVED)"
  have last: "leads ?P (bindM (audited a t r (commit_version env n (extended st now uid d r' out) pl ac no_finish))
      (\<lambda>stamped. retM (stamped, False))) db_ok" for a t r n now r' pl ac
    by (intro leads_then leads_audited ready_commit keeps_retM) auto
  show ?thesis
    unfolding extend_annual_validity_def Let_def
    by (intro leads_guard leads_if leads_ret leads_bind [OF keeps_ready_utcnow] last ready_db_ok)
qed

section \<open>Releasing: superseding the other approved version\<close>

text \<open>Other documents' rows and the register, while one document is being changed.\<close>

definition others_as :: "string \<Rightarrow> (string \<Rightarrow> int \<Rightarrow> bool) \<Rightarrow> registry \<Rightarrow> docs_world \<Rightarrow> bool" where
  "others_as doc appr reg w \<longleftrightarrow> rows_ok (db_versions (w_db w)) \<and> w_registry w = reg \<and>
     (\<forall>d v. d \<noteq> doc \<longrightarrow> row_approved (db_versions (w_db w)) d v = appr d v)"

lemma store_state_others:
  assumes "v_document_id st = doc"
  shows "keeps (others_as doc appr reg) (store_state env st)"
proof (rule keepsI)
  fix w assume w: "others_as doc appr reg w"
  show "others_as doc appr reg (after (store_state env st w))"
  proof (cases "state_consistent st \<and> \<not> one_approved_violation (db_versions (w_db w)) st")
    case True
    then have "rows_ok (upsert_rows now st (db_versions (w_db w)))" for now
      using w commit_rows_ok(2) unfolding others_as_def by blast
    with True w assms show ?thesis
      by (simp add: store_state_eq others_as_def row_approved_upsert_rows version_key_def)
  next
    case False
    with w show ?thesis by (simp add: store_state_eq others_as_def)
  qed
qed

lemma superseded_simps [simp]:
  "v_document_id (superseded st c a n) = v_document_id c" "v_version (superseded st c a n) = v_version c"
  "v_status (superseded st c a n) = ARCHIVED"
  "v_superseded_by_version (superseded st c a n) = Some (v_version st)"
  "v_archived_by (superseded st c a n) = Some a"
  "version_key (superseded st c a n) = version_key c"
  by (simp_all add: superseded_def version_key_def)

lemma supersede_loop_others:
  assumes "\<forall>c \<in> set cs. v_document_id c = doc"
  shows "keeps (others_as doc appr reg) (supersede_loop env st a cs)"
  using assms
proof (induction cs)
  case (Cons c cs)
  have t: "keeps (others_as doc appr reg) (utcnow env)"
    by (rule keeps_utcnow) (simp add: others_as_def)
  have "v_document_id (superseded st c a now) = doc" for now
    using Cons.prems by simp
  moreover have "keeps (others_as doc appr reg) (supersede_loop env st a cs)"
    using Cons by simp
  ultimately show ?case
    unfolding supersede_loop.simps
    by (intro keeps_if keeps_bindM keeps_retM t store_state_others)
qed (simp add: keeps_retM)

lemma set_list_versions_rows:
  "set (list_versions_rows rows doc) = row_to_state ` {r \<in> set rows. v_document_id r = doc}"
  by (simp add: list_versions_rows_def)

lemma supersede_others:
  "keeps (others_as (v_document_id st) appr reg) (supersede_other_approved_versions env st a)"
  unfolding supersede_other_approved_versions_def list_versions_def keeps_def bindM_basic
  using keepsD [OF supersede_loop_others] by (auto simp: set_list_versions_rows)

lemma build_snapshot_keeps:
  assumes "\<And>w n. I w \<Longrightarrow> I (w\<lparr>w_ticks := n\<rparr>)"
  shows "keeps I (build_distribution_snapshot env st)"
  unfolding build_distribution_snapshot_def by (intro keeps_intros assms)

lemma approved_simps [simp]:
  "v_document_id (approved st a n s) = v_document_id st" "v_version (approved st a n s) = v_version st"
  "v_status (approved st a n s) = APPROVED" "version_key (approved st a n s) = version_key st"
  "v_workflow_active (approved st a n s) = False"
  "v_approved_by (approved st a n s) = insert a (v_approved_by st)"
  "v_approval_completed_by (approved st a n s) = Some a"
  by (simp_all add: approved_def Let_def version_key_def)

lemma projected_approved [simp]: "projected_active_version cur ver ''APPROVED'' = Some ver"
  by (simp add: projected_active_version_def)

text \<open>
  A commit of an approved version, whatever the approved versions of its document were: if it
  returns, the register names it.
\<close>

lemma commit_approved_db_ok:
  assumes run: "commit_steps env name st payload actor fin w = (Inr stamped, w')" and quiet: "quiet_finish fin"
    and w: "others_as (v_document_id st) appr reg w" and s: "v_status st = APPROVED"
    and reg: "\<And>d v. appr d v \<longleftrightarrow> Option.bind (reg d) r_active_version = Some v"
  shows "db_ok w'"
proof -
  let ?rows = "db_versions (w_db w)"
  have ok: "rows_ok ?rows" and reg_w: "w_registry w = reg"
    and app: "\<And>d v. d \<noteq> v_document_id st \<Longrightarrow> row_approved ?rows d v = appr d v"
    using w unfolding others_as_def by blast+
  obtain ev w3 mode where
    c: "stamped = stamp_event_on_state st (Some ev) actor" "state_consistent st"
      "\<not> one_approved_violation ?rows st"
      "w' = w3\<lparr>w_registry := registered stamped ev (w_registry w) mode\<rparr>"
      "db_versions (w_db w') = db_versions (w_db (after_writes env st ev stamped w))"
    by (rule commit_steps_Inr [OF run quiet])
  have ok': "rows_ok (db_versions (w_db w'))"
    unfolding c(5) after_writes_simps c(1) by (rule commit_rows_ok(1) [OF ok c(2,3)])
  have written: "row_approved (db_versions (w_db w')) d v \<longleftrightarrow>
      (if (d, v) = version_key st then True else row_approved ?rows d v)" for d v
    unfolding c(5) after_writes_simps c(1) by (simp add: row_approved_upsert_rows s)
  have uniq: "row_approved (db_versions (w_db w')) (v_document_id st) v \<longleftrightarrow> v = v_version st" for v
  proof
    assume "row_approved (db_versions (w_db w')) (v_document_id st) v"
    moreover have "row_approved (db_versions (w_db w')) (v_document_id st) (v_version st)"
      unfolding written by (simp add: version_key_def)
    ultimately show "v = v_version st" using ok' unfolding rows_ok_def by blast
  qed (simp add: written version_key_def)
  have "register_agrees (db_versions (w_db w')) (registered stamped ev reg mode)"
    unfolding register_agrees_def
  proof (intro allI)
    fix d v
    show "Option.bind (registered stamped ev reg mode d) r_active_version = Some v \<longleftrightarrow>
        row_approved (db_versions (w_db w')) d v"
    proof (cases "d = v_document_id st")
      case True
      then show ?thesis
        using uniq [of v] s by (auto simp: registered_def c(1))
    next
      case False
      then have "row_approved (db_versions (w_db w')) d v = appr d v"
        using app written by (simp add: version_key_def)
      then show ?thesis using False reg by (simp add: registered_def c(1))
    qed
  qed
  with ok' show ?thesis using c(4) reg_w by (simp add: db_ok_def)
qed

lemma accept_approval_transaction:
  assumes w: "db_ok w" and quiet: "quiet_finish fin"
  shows "db_ok (after (write_transaction
     (bindM (supersede_other_approved_versions env st uid) (\<lambda>vs.
      bindM (build_distribution_snapshot env st) (\<lambda>snapshot.
      commit_steps env name (approved st uid now snapshot) (payload vs snapshot) actor fin))) w))"
  (is "db_ok (after (write_transaction ?m w))")
proof -
  define appr where "appr = row_approved (db_versions (w_db w))"
  define reg where "reg = w_registry w"
  have start: "others_as (v_document_id st) appr reg w"
    using w by (simp add: others_as_def appr_def reg_def db_ok_def)
  have agree: "appr d v \<longleftrightarrow> Option.bind (reg d) r_active_version = Some v" for d v
    using w unfolding db_ok_def register_agrees_def appr_def reg_def by blast
  have snap: "keeps (others_as (v_document_id st) appr reg) (build_distribution_snapshot env st)"
    by (rule build_snapshot_keeps) (simp add: others_as_def)
  obtain r1 w1 where s1: "supersede_other_approved_versions env st uid w = (r1, w1)" by fastforce
  have o1: "others_as (v_document_id st) appr reg w1" by (rule keeps_run [OF supersede_others start s1])
  obtain r2 w2 where s2: "build_distribution_snapshot env st w1 = (r2, w2)" by fastforce
  have o2: "others_as (v_document_id st) appr reg w2" by (rule keeps_run [OF snap o1 s2])
  obtain r w' where run: "?m w = (r, w')" by fastforce
  show ?thesis
  proof (cases r)
    case (Inr stamped)
    then obtain vs snapshot where
      "commit_steps env name (approved st uid now snapshot) (payload vs snapshot) actor fin w2 = (Inr stamped, w')"
      using run s1 s2 by auto
    from commit_approved_db_ok [OF this quiet, of appr reg] o2 agree have "db_ok w'" by simp
    moreover have "write_transaction ?m w = (Inr stamped, w')"
      unfolding write_transaction_Inr using run Inr by (simp only:)
    ultimately show ?thesis by (simp only: snd_conv)
  next
    case (Inl e)
    have "w_registry w' = reg"
    proof (cases r1)
      case (Inl e1)
      then show ?thesis using run s1 o1 by (simp add: bindM_def others_as_def)
    next
      case r1: (Inr vs)
      show ?thesis
      proof (cases r2)
        case (Inl e2)
        then show ?thesis using run s1 s2 r1 o2 by (simp add: bindM_def others_as_def)
      next
        case (Inr snapshot)
        then have "commit_steps env name (approved st uid now snapshot) (payload vs snapshot) actor fin w2 = (Inl e, w')"
          using run s1 s2 r1 \<open>r = Inl e\<close> by (simp add: bindM_Inr)
        from commit_steps_Inl [OF this quiet] o2 show ?thesis by (simp add: others_as_def)
      qed
    qed
    moreover have "write_transaction ?m w = (Inl e, w'\<lparr>w_db := w_db w\<rparr>)"
      unfolding write_transaction_Inl using run Inl by (intro exI [of _ w']) (simp only: simp_thms)
    ultimately show ?thesis using w by (simp add: db_ok_def reg_def)
  qed
qed

lemma accept_approval_db_ok:
  "leads (ready st (v_status st = APPROVED)) (accept_approval env st uid req actor) db_ok"
proof -
  let ?P = "ready st (v_status st = APPROVED)"
  have tx: "leads ?P (write_transaction
     (bindM (supersede_other_approved_versions env st uid) (\<lambda>vs.
      bindM (build_distribution_snapshot env st) (\<lambda>snapshot.
      commit_steps env name (approved st uid now snapshot) (payload vs snapshot) ac (ensure_release_pdf_artifact env))))) db_ok"
    for now name payload ac
    unfolding leads_def using accept_approval_transaction [OF ready_db_ok] by simp
  show ?thesis
    unfolding accept_approval_def
    by (intro leads_guard leads_bind [OF keeps_ready_enforce] leads_bind [OF keeps_ready_utcnow]
        ready_db_ok leads_audited tx)
qed

section \<open>A new version after the archive\<close>

definition store_pair ::
  "docs_env \<Rightarrow> event_envelope \<Rightarrow> version_state \<Rightarrow> version_state \<Rightarrow> version_state doc_meth" where
  "store_pair env ev src new =
     bindM (store_state env src) (\<lambda>_. bindM (store_state env new) (\<lambda>_.
     bindM (sync_registry env src (Some ev)) (\<lambda>_. bindM (sync_registry env new (Some ev)) (\<lambda>_. retM new))))"

lemma release_mode_WORKFLOW: "v_workflow_profile st = None \<Longrightarrow> release_mode_of_value (release_mode_value st) = Some WORKFLOW"
  by (simp add: release_mode_value_def release_mode_of_value_def)

lemma store_state_registry: "store_state env st w = (r, w') \<Longrightarrow> w_registry w' = w_registry w"
  by (auto simp: store_state_eq split: if_splits)

lemma store_pair_Inl:
  assumes "store_pair env ev src new w = (Inl e, w')" and "v_workflow_profile new = None"
  shows "w_registry w' = w_registry w"
proof -
  obtain r1 w1 where s1: "store_state env src w = (r1, w1)" by fastforce
  obtain r2 w2 where s2: "store_state env new w1 = (r2, w2)" by fastforce
  note regs = store_state_registry [OF s1] store_state_registry [OF s2]
  show ?thesis
    using assms(1) regs release_mode_WORKFLOW [OF assms(2)] s1 s2 unfolding store_pair_def bindM_def
    by (cases r1; cases r2) (auto simp: sync_registry_event split: option.splits)
qed

lemma store_pair_Inr:
  assumes run: "store_pair env ev src new w = (Inr x, w')" and w: "db_ok w"
    and src: "v_status src = ARCHIVED" and new: "v_status new = PLANNED"
    and key: "version_key new \<noteq> version_key src" and doc: "v_document_id new = v_document_id src"
    and fresh: "\<not> row_approved (db_versions (w_db w)) (v_document_id new) (v_version new)"
  shows "db_ok w'"
proof -
  let ?rows = "db_versions (w_db w)" and ?reg = "w_registry w"
  have ok: "rows_ok ?rows" and agree: "register_agrees ?rows ?reg" using w by (simp_all add: db_ok_def)
  obtain m1 m2 where
    c1: "state_consistent src" "\<not> one_approved_violation ?rows src"
    and c2: "state_consistent new"
    and eq: "w' = (stored env new (stored env src w))\<lparr>w_registry :=
        registered new ev (registered src ev ?reg m1) m2\<rparr>"
    using run unfolding store_pair_def
    by (auto simp: store_state_Inr sync_registry_event registered_def split: option.splits)
  let ?rows1 = "upsert_rows (clock env (w_ticks w)) src ?rows"
  let ?rows2 = "upsert_rows (clock env (Suc (w_ticks w))) new ?rows1"
  have nv: "\<not> one_approved_violation ?rows1 new" using new by (simp add: one_approved_violation_def)
  have ok1: "rows_ok ?rows1" by (rule commit_rows_ok(2) [OF ok c1])
  have ok2: "rows_ok ?rows2" by (rule commit_rows_ok(2) [OF ok1 c2 nv])
  have a1: "register_agrees ?rows1 (registered src ev ?reg m1)"
    unfolding registered_def
    by (rule register_agrees_commit [OF agree _ c1(2)]) (use ok src in \<open>simp_all add: rows_ok_def\<close>)
  have "register_agrees ?rows2 (registered new ev (registered src ev ?reg m1) m2)"
    unfolding registered_def [of new]
  proof (rule register_agrees_commit [OF a1 _ nv])
    show "distinct (map version_key ?rows1)" using ok1 unfolding rows_ok_def by blast
    have "(v_document_id new, v_version new) \<noteq> version_key src" using key by (simp add: version_key_def)
    then show "v_status new \<in> {APPROVED, ARCHIVED} \<or> \<not> row_approved ?rows1 (v_document_id new) (v_version new)"
      using fresh by (simp only: row_approved_upsert_rows if_False simp_thms)
  qed simp
  then show ?thesis using ok2 by (simp add: db_ok_def eq)
qed

lemma new_version_state_simps [simp]:
  "v_document_id (new_version_state d n) = d" "v_version (new_version_state d n) = n"
  "v_status (new_version_state d n) = PLANNED" "v_workflow_profile (new_version_state d n) = None"
  "v_workflow_active (new_version_state d n) = False" "v_extension_count (new_version_state d n) = 0"
  by (simp_all only: new_version_state_def version_state.select_convs)

lemma next_version_of_simps [simp]:
  "v_document_id (next_version_of st nv now a) = v_document_id st" "v_version (next_version_of st nv now a) = nv"
  "v_status (next_version_of st nv now a) = PLANNED" "v_workflow_profile (next_version_of st nv now a) = None"
  "v_workflow_active (next_version_of st nv now a) = False" "v_extension_count (next_version_of st nv now a) = 0"
  "v_owner_user_id (next_version_of st nv now a) = v_owner_user_id st"
  by (simp_all add: next_version_of_def)

lemma create_new_version_db_ok:
  "leads (ready st (v_status st = APPROVED)) (create_new_version_after_archive env st nv uid role) db_ok"
proof -
  let ?P = "ready st (v_status st = APPROVED)"
  let ?src = "\<lambda>ev. stamp_event_on_state (st\<lparr>v_superseded_by_version := Some nv\<rparr>) (Some ev) uid"
  let ?new = "\<lambda>now ev. stamp_event_on_state (next_version_of st nv now uid) (Some ev) uid"
  let ?body = "\<lambda>now ev. bindM (liftE (raise_if (\<not> truthy (v_last_event_id (?new now ev)))
      (ValidationError ''new version must receive a non-empty event token''))) (\<lambda>_. store_pair env ev (?src ev) (?new now ev))"
  have new: "v_status (?new now ev) = PLANNED" "v_workflow_profile (?new now ev) = None"
    "v_document_id (?new now ev) = v_document_id st" "v_version (?new now ev) = nv" for now ev
    by simp_all
  have tx: "db_ok (after (write_transaction (bindM (publish_event env n s pl uid) (?body now)) w))"
    if w: "db_ok w" and st: "v_status st = ARCHIVED" and lt: "v_version st < nv"
      and none: "get_row (db_versions (w_db w)) (v_document_id st) nv = None" for n s pl now w
  proof -
    define ev where "ev = published env n s pl uid w"
    define w1 where "w1 = with_event ev w"
    have w1: "db_ok w1" "w_registry w1 = w_registry w" "w_db w1 = w_db w"
      using w by (simp_all add: w1_def db_ok_def)
    have fresh: "\<not> row_approved (db_versions (w_db w1)) (v_document_id (?new now ev)) (v_version (?new now ev))"
      using none by (simp add: w1 get_row_def row_approved_def)
    have eq: "bindM (publish_event env n s pl uid) (?body now) w = ?body now ev w1"
      by (simp add: bindM_Inr ev_def w1_def)
    show ?thesis
    proof (cases "truthy (v_last_event_id (?new now ev))")
      case False
      then show ?thesis using w w1(1) by (simp add: write_transaction_def eq db_ok_def w1(2))
    next
      case True
      obtain r w' where run: "store_pair env ev (?src ev) (?new now ev) w1 = (r, w')" by fastforce
      then have tr: "write_transaction (bindM (publish_event env n s pl uid) (?body now)) w =
          (case r of Inl e \<Rightarrow> (Inl e, w'\<lparr>w_db := w_db w\<rparr>) | Inr x \<Rightarrow> (Inr x, w'))"
        unfolding write_transaction_def eq using True by simp
      show ?thesis
      proof (cases r)
        case (Inl e)
        then have "w_registry w' = w_registry w" using store_pair_Inl run new(2) w1(2) by metis
        then show ?thesis using tr Inl w by (simp add: db_ok_def)
      next
        case (Inr x)
        have "db_ok w'"
          by (rule store_pair_Inr [OF run [unfolded Inr] w1(1)])
             (use st lt fresh in \<open>simp_all add: version_key_def\<close>)
        then show ?thesis using tr Inr by simp
      qed
    qed
  qed
  show ?thesis
    unfolding leads_def
  proof (intro allI impI)
    fix w assume w: "?P w"
    show "db_ok (after (create_new_version_after_archive env st nv uid role w))"
    proof (cases "v_status st = ARCHIVED \<and> v_superseded_by_version st = None \<and> v_version st < nv
        \<and> get_row (db_versions (w_db w)) (v_document_id st) nv = None")
      case False
      then show ?thesis using ready_db_ok [OF w]
        unfolding create_new_version_after_archive_def get_document_version_def
        by (auto simp: bindM_liftE raise_if_def bindM_basic)
    next
      case True
      let ?w = "w\<lparr>w_ticks := Suc (w_ticks w)\<rparr>"
      have "leads (\<lambda>w'. w' = ?w) (audited a t r (write_transaction (bindM (publish_event env n s pl uid) (?body now)))) db_ok"
        for a t r n s pl now
        by (rule leads_audited) (use tx [of ?w] True ready_db_ok [OF w] in \<open>simp add: leads_def\<close>)
      then show ?thesis
        using True unfolding create_new_version_after_archive_def get_document_version_def store_pair_def Let_def
        by (simp add: leads_def bindM_Inr utcnow_def)
    qed
  qed
qed

end
