(* ===== verification/WorkflowPolicy.thy ===== *)
theory WorkflowPolicy
  imports Actors DocWorkflowLaws
begin

text \<open>
  Who may do what: the workflow policy (\<open>modules/documents/workflow_policy.py\<close>), read access
  (\<open>DocumentsService._has_read_access\<close>), comment permissions
  (\<open>modules/documents/comment_permissions.py\<close>) and the action descriptors shown to an actor
  (\<open>modules/documents/capabilities.py\<close>). The lemmas relate the policy to the guards of the
  workflow operations.
\<close>

section \<open>The policy\<close>

definition action_ids :: "string list" where
  "action_ids = [''assign_roles'', ''start'', ''open_source'', ''complete_editing'', ''review_accept'',
     ''review_reject'', ''approval_accept'', ''approval_reject'', ''abort'', ''archive'',
     ''extend_validity'', ''new_version'', ''update_metadata'', ''update_header'', ''comments'',
     ''change_requests'']"

record workflow_decision =
  wd_allowed :: bool
  wd_reason :: string
  wd_signature_required :: bool
  wd_assignment_kind :: "string option"

definition decide :: "bool \<Rightarrow> string \<Rightarrow> bool \<Rightarrow> string option \<Rightarrow> workflow_decision" where
  "decide allowed reason signature kind = \<lparr>wd_allowed = allowed, wd_reason = reason,
     wd_signature_required = signature, wd_assignment_kind = kind\<rparr>"

definition source_assignment :: "version_state \<Rightarrow> string set \<times> string option" where
  "source_assignment state =
     (if v_status state = IN_PROGRESS then (as_editors (v_assignments state), Some ''editor'')
      else if v_status state = IN_REVIEW then (as_reviewers (v_assignments state), Some ''reviewer'')
      else if v_status state = IN_APPROVAL then (as_approvers (v_assignments state), Some ''approver'')
      else ({}, None))"

definition evaluate_workflow_action ::
  "version_state \<Rightarrow> string \<Rightarrow> system_role \<Rightarrow> string \<Rightarrow> workflow_decision" where
  "evaluate_workflow_action state raw_user_id role action =
     (let user_id = py_strip raw_user_id;
          is_qmb = (role = QMB);
          is_owner = (v_owner_user_id state = Some user_id);
          status = v_status state
      in if user_id = [] then decide False ''user_id is required'' False None
         else if action = ''assign_roles'' then
           decide (is_qmb \<or> is_owner \<and> \<not> v_edit_signature_done state) ''owner or QMB required'' False (Some ''workflow_roles'')
         else if action = ''start'' then
           decide (status = PLANNED \<and> \<not> v_workflow_active state \<and> (is_owner \<or> is_qmb))
             ''owner or QMB may start a planned workflow'' False None
         else if action = ''open_source'' then
           decide (is_qmb \<or> user_id \<in> fst (source_assignment state)) ''assignment required'' False
             (snd (source_assignment state))
         else if action = ''complete_editing'' then
           decide (status = IN_PROGRESS \<and> (is_qmb \<or> is_owner \<or> user_id \<in> as_editors (v_assignments state)))
             ''assigned editor, owner, or QMB required''
             (is_signature_required state ''IN_PROGRESS->IN_REVIEW'') (Some ''editor'')
         else if action \<in> {''review_accept'', ''review_reject''} then
           decide (status = IN_REVIEW \<and> user_id \<in> as_reviewers (v_assignments state)) ''assigned reviewer required''
             (action = ''review_accept'' \<and> is_signature_required state ''IN_REVIEW->IN_APPROVAL'') (Some ''reviewer'')
         else if action \<in> {''approval_accept'', ''approval_reject''} then
           decide (status = IN_APPROVAL \<and> user_id \<in> as_approvers (v_assignments state)
               \<and> \<not> (action = ''approval_accept'' \<and> four_eyes_blocks state user_id))
             ''assigned approver required and four-eyes rule must hold''
             (action = ''approval_accept'' \<and> is_signature_required state ''IN_APPROVAL->APPROVED'') (Some ''approver'')
         else if action = ''abort'' then
           decide (v_workflow_active state \<and> status \<in> {IN_PROGRESS, IN_REVIEW, IN_APPROVAL} \<and> (is_owner \<or> is_qmb))
             ''owner or QMB may abort an active workflow'' False None
         else if action \<in> {''archive'', ''extend_validity''} then
           decide (status = APPROVED \<and> is_qmb) ''effective QMB required'' False None
         else if action = ''new_version'' then
           decide (status = ARCHIVED \<and> is_qmb) ''effective QMB required'' False None
         else if action \<in> {''update_metadata'', ''change_requests''} then
           decide (is_owner \<or> is_qmb) ''owner or QMB required'' False None
         else if action = ''update_header'' then
           decide is_qmb ''effective QMB required'' False None
         else if action = ''comments'' then
           decide (status \<in> {PLANNED, IN_PROGRESS, IN_REVIEW, IN_APPROVAL})
             ''comments are available only during active document preparation'' False None
         else decide False ''unsupported workflow action'' False None)"

definition available_workflow_actions :: "version_state \<Rightarrow> string \<Rightarrow> system_role \<Rightarrow> string set" where
  "available_workflow_actions state user_id role =
     set (filter (\<lambda>a. wd_allowed (evaluate_workflow_action state user_id role a)) action_ids)"

definition assert_workflow_action :: "version_state \<Rightarrow> string \<Rightarrow> system_role \<Rightarrow> string \<Rightarrow> doc_error + unit" where
  "assert_workflow_action state user_id role action =
     (let decision = evaluate_workflow_action state user_id role action
      in raise_if (\<not> wd_allowed decision) (PermissionDeniedError (wd_reason decision)))"

section \<open>Read access and comments\<close>

definition matches_user_context :: "version_state \<Rightarrow> string \<Rightarrow> string \<Rightarrow> bool" where
  "matches_user_context state user_id role \<longleftrightarrow>
     py_upper role = ''QMB'' \<or> v_owner_user_id state = Some user_id \<or>
     user_id \<in> as_editors (v_assignments state) \<or> user_id \<in> as_reviewers (v_assignments state) \<or>
     user_id \<in> as_approvers (v_assignments state) \<or> v_last_actor_user_id state = Some user_id"

definition has_read_access :: "version_state \<Rightarrow> string \<Rightarrow> system_role \<Rightarrow> bool" where
  "has_read_access state actor_user_id actor_role =
     (if actor_role = QMB then True
      else if v_status state = APPROVED then True
      else if v_status state = ARCHIVED then v_owner_user_id state = Some actor_user_id
      else matches_user_context state actor_user_id (role_value actor_role))"

definition ensure_read_access :: "version_state \<Rightarrow> string \<Rightarrow> system_role \<Rightarrow> doc_error + unit" where
  "ensure_read_access state actor_user_id actor_role =
     raise_if (\<not> has_read_access state actor_user_id actor_role)
       (PermissionDeniedError ''document is not visible to the current actor'')"

definition owner_and_editors :: "version_state \<Rightarrow> string set" where
  "owner_and_editors state = as_editors (v_assignments state) \<union>
     (case v_owner_user_id state of None \<Rightarrow> {} | Some u \<Rightarrow> if u = [] then {} else {u})"

definition comment_denied :: doc_error where
  "comment_denied = PermissionDeniedError ''actor is not allowed to access comments in this context''"

definition ensure_workflow_comment_access ::
  "version_state \<Rightarrow> comment_context \<Rightarrow> string \<Rightarrow> system_role \<Rightarrow> doc_error + unit" where
  "ensure_workflow_comment_access state ctx uid role =
     (if role = QMB then Inr () else (case ctx of
        DOCX_EDIT \<Rightarrow> raise_if (uid \<notin> owner_and_editors state) comment_denied
      | PDF_REVIEW \<Rightarrow> bindE (raise_if (v_status state \<noteq> IN_REVIEW)
            (ValidationError ''PDF_REVIEW comments are only allowed in IN_REVIEW''))
          (\<lambda>_. raise_if (uid \<notin> as_reviewers (v_assignments state)) comment_denied)
      | PDF_APPROVAL \<Rightarrow> bindE (raise_if (v_status state \<noteq> IN_APPROVAL)
            (ValidationError ''PDF_APPROVAL comments are only allowed in IN_APPROVAL''))
          (\<lambda>_. raise_if (uid \<notin> as_approvers (v_assignments state)) comment_denied)))"

definition ensure_workflow_comment_read_access ::
  "version_state \<Rightarrow> comment_context \<Rightarrow> string \<Rightarrow> system_role \<Rightarrow> doc_error + unit" where
  "ensure_workflow_comment_read_access state ctx uid role =
     (if role = QMB then Inr () else (case ctx of
        DOCX_EDIT \<Rightarrow> raise_if (uid \<notin> owner_and_editors state) comment_denied
      | PDF_REVIEW \<Rightarrow> raise_if (uid \<notin> as_reviewers (v_assignments state)) comment_denied
      | PDF_APPROVAL \<Rightarrow> raise_if (uid \<notin> as_approvers (v_assignments state)) comment_denied))"

section \<open>Action descriptors\<close>

datatype severity = SevInfo | SevWarning | SevDanger

record action_descriptor =
  ad_code :: string
  ad_label_key :: string
  ad_enabled :: bool
  ad_disabled_reason :: "string option"
  ad_requires_reason :: bool
  ad_requires_confirmation :: bool
  ad_destructive :: bool
  ad_severity :: severity
  ad_signature_required :: bool
  ad_assignment_kind :: "string option"

text \<open>\<open>requires_reason\<close>, \<open>requires_confirmation\<close>, \<open>destructive\<close>, \<open>severity\<close>.\<close>

definition descriptor_metadata :: "string \<Rightarrow> bool \<times> bool \<times> bool \<times> severity" where
  "descriptor_metadata action =
     (if action \<in> {''review_reject'', ''approval_reject'', ''change_requests'', ''extend_validity''}
        then (True, False, False, SevWarning)
      else if action \<in> {''abort'', ''archive''} then (False, True, True, SevDanger)
      else (False, False, False, SevInfo))"

definition descriptor_signature_required :: "string \<Rightarrow> version_state \<Rightarrow> workflow_decision \<Rightarrow> bool" where
  "descriptor_signature_required action state decision =
     (if action = ''extend_validity'' \<and> wd_allowed decision then v_extension_count state < 3
      else wd_signature_required decision)"

definition workflow_descriptor :: "version_state \<Rightarrow> string \<Rightarrow> system_role \<Rightarrow> string \<Rightarrow> action_descriptor" where
  "workflow_descriptor state user_id role action =
     (let decision = evaluate_workflow_action state user_id role action;
          (reason, confirm, destructive, sev) = descriptor_metadata action
      in \<lparr>ad_code = action, ad_label_key = ''documents.action.'' @ action,
          ad_enabled = wd_allowed decision,
          ad_disabled_reason = (if wd_allowed decision then None else Some (wd_reason decision)),
          ad_requires_reason = reason, ad_requires_confirmation = confirm, ad_destructive = destructive,
          ad_severity = sev, ad_signature_required = descriptor_signature_required action state decision,
          ad_assignment_kind = wd_assignment_kind decision\<rparr>)"

definition artifact_access_codes :: "string list" where
  "artifact_access_codes = [''preview'', ''download'']"

definition artifact_access_descriptor :: "version_state \<Rightarrow> string \<Rightarrow> system_role \<Rightarrow> string \<Rightarrow> action_descriptor" where
  "artifact_access_descriptor state user_id role code =
     (let enabled = has_read_access state user_id role
      in \<lparr>ad_code = code, ad_label_key = ''documents.action.'' @ code, ad_enabled = enabled,
          ad_disabled_reason = (if enabled then None else Some ''document is not visible to the current actor''),
          ad_requires_reason = False, ad_requires_confirmation = False, ad_destructive = False,
          ad_severity = SevInfo, ad_signature_required = False, ad_assignment_kind = None\<rparr>)"

definition action_descriptors_for_actor ::
  "version_state \<Rightarrow> user_context option \<Rightarrow> doc_error + action_descriptor list" where
  "action_descriptors_for_actor state actor =
     bindE (actor_user_and_role actor) (\<lambda>(user_id, role).
     Inr (sort_key ad_code
       (map (workflow_descriptor state user_id role) (sort action_ids) @
        map (artifact_access_descriptor state user_id role) (sort artifact_access_codes))))"

definition compute_available_actions :: "version_state \<Rightarrow> string \<Rightarrow> system_role \<Rightarrow> string set" where
  "compute_available_actions state user_id role =
     (let normalized = py_strip user_id
      in if normalized = [] then {} else available_workflow_actions state normalized role)"

definition available_actions_for_actor :: "version_state \<Rightarrow> user_context option \<Rightarrow> doc_error + string set" where
  "available_actions_for_actor state actor =
     bindE (actor_user_and_role actor) (\<lambda>(user_id, role).
     Inr (compute_available_actions state user_id role \<union>
       (if has_read_access state user_id role then set artifact_access_codes else {})))"

definition compute_global_capabilities ::
  "bool \<Rightarrow> user_context option \<Rightarrow> bool \<Rightarrow> doc_error + (string, bool) dict" where
  "compute_global_capabilities docx_available actor delegated_create_allowed =
     bindE (actor_user_and_role actor) (\<lambda>(user_id, role).
     Inr [(''can_create_new_documents'', role = QMB \<or> delegated_create_allowed),
          (''can_administer_workflow_profiles'',
             (case actor of None \<Rightarrow> False | Some c \<Rightarrow> is_effective_qmb None (u_is_qmb c))),
          (''can_import_docx'', docx_available)])"

section \<open>The policy and the guards of the operations\<close>

lemma decide_simps [simp]:
  "wd_allowed (decide a r s k) = a" "wd_reason (decide a r s k) = r"
  "wd_signature_required (decide a r s k) = s" "wd_assignment_kind (decide a r s k) = k"
  by (simp_all add: decide_def)

text \<open>The policy for one action at a time, for a user id as \<open>actor_user_and_role\<close> returns it.\<close>

lemma policy_simps:
  assumes "py_strip uid = uid" and "uid \<noteq> []"
  shows
    "wd_allowed (evaluate_workflow_action st uid r ''assign_roles'') \<longleftrightarrow>
       r = QMB \<or> v_owner_user_id st = Some uid \<and> \<not> v_edit_signature_done st"
    "wd_allowed (evaluate_workflow_action st uid r ''start'') \<longleftrightarrow>
       v_status st = PLANNED \<and> \<not> v_workflow_active st \<and> (v_owner_user_id st = Some uid \<or> r = QMB)"
    "wd_allowed (evaluate_workflow_action st uid r ''complete_editing'') \<longleftrightarrow>
       v_status st = IN_PROGRESS \<and> (r = QMB \<or> v_owner_user_id st = Some uid \<or> uid \<in> as_editors (v_assignments st))"
    "wd_allowed (evaluate_workflow_action st uid r ''review_accept'') \<longleftrightarrow>
       v_status st = IN_REVIEW \<and> uid \<in> as_reviewers (v_assignments st)"
    "wd_allowed (evaluate_workflow_action st uid r ''review_reject'') \<longleftrightarrow>
       v_status st = IN_REVIEW \<and> uid \<in> as_reviewers (v_assignments st)"
    "wd_allowed (evaluate_workflow_action st uid r ''approval_accept'') \<longleftrightarrow>
       v_status st = IN_APPROVAL \<and> uid \<in> as_approvers (v_assignments st) \<and> \<not> four_eyes_blocks st uid"
    "wd_allowed (evaluate_workflow_action st uid r ''approval_reject'') \<longleftrightarrow>
       v_status st = IN_APPROVAL \<and> uid \<in> as_approvers (v_assignments st)"
    "wd_allowed (evaluate_workflow_action st uid r ''abort'') \<longleftrightarrow>
       v_workflow_active st \<and> v_status st \<in> {IN_PROGRESS, IN_REVIEW, IN_APPROVAL} \<and>
       (v_owner_user_id st = Some uid \<or> r = QMB)"
    "wd_allowed (evaluate_workflow_action st uid r ''archive'') \<longleftrightarrow> v_status st = APPROVED \<and> r = QMB"
    "wd_allowed (evaluate_workflow_action st uid r ''extend_validity'') \<longleftrightarrow> v_status st = APPROVED \<and> r = QMB"
    "wd_allowed (evaluate_workflow_action st uid r ''new_version'') \<longleftrightarrow> v_status st = ARCHIVED \<and> r = QMB"
  using assms by (simp_all add: evaluate_workflow_action_def Let_def)

end
