(* ===== verification/DocService.thy ===== *)
theory DocService
  imports WorkflowPolicy
begin

text \<open>
  The facade of the documents module, \<open>DocumentsService\<close> in \<open>modules/documents/service.py\<close>: creating
  versions, headers, metadata, change requests and imports, the start of a workflow from the bound
  profile, and the optimistic lock \<open>mutate_version_if_current\<close> that every operation of the public
  API (\<open>modules/documents/api.py\<close>) runs under. \<open>run_call\<close> names the operations that the API offers
  on a version.
\<close>

section \<open>Texts of Python values\<close>

text \<open>\<open>repr\<close> and \<open>str\<close> of a value, for code points below 256.\<close>

fun join_with :: "string \<Rightarrow> string list \<Rightarrow> string" where
  "join_with sep [] = []"
| "join_with sep [x] = x"
| "join_with sep (x # y # zs) = x @ sep @ join_with sep (y # zs)"

fun py_repr :: "pyval \<Rightarrow> string" where
  "py_repr PyNone = ''None''"
| "py_repr (PyStr s) = repr_str s"
| "py_repr (PyInt i) = str_int i"
| "py_repr (PyFloat f) = f"
| "py_repr (PyBool b) = (if b then ''True'' else ''False'')"
| "py_repr (PyList xs) = ''['' @ join_with '', '' (map py_repr xs) @ '']''"
| "py_repr (PyDict es) = ''{'' @ join_with '', '' (map (\<lambda>e. py_repr (fst e) @ '': '' @ py_repr (snd e)) es) @ ''}''"
| "py_repr (PyOther t) = t"

definition py_str :: "pyval \<Rightarrow> string" where
  "py_str v = (case v of PyStr s \<Rightarrow> s | _ \<Rightarrow> py_repr v)"

section \<open>Headers\<close>

definition store_header :: "docs_env \<Rightarrow> doc_header \<Rightarrow> unit doc_meth" where
  "store_header env header =
     bindM (readM (\<lambda>w. get_header (w_db w) (h_document_id header))) (\<lambda>existing.
     case existing of
       Some e \<Rightarrow> liftE (bindE (raise_if (h_doc_type e \<noteq> h_doc_type header)
           (ValidationError ''doc_type cannot be changed after first creation''))
         (\<lambda>_. raise_if (h_control_class e \<noteq> h_control_class header)
           (ValidationError ''control_class cannot be changed after first creation'')))
     | None \<Rightarrow> bindM (utcnow env) (\<lambda>now. modifyM (\<lambda>w. w\<lparr>w_db := upsert_header now header (w_db w)\<rparr>)))"

definition assert_workflow_profile_update_allowed ::
  "docs_env \<Rightarrow> string \<Rightarrow> control_class \<Rightarrow> string \<Rightarrow> unit doc_meth" where
  "assert_workflow_profile_update_allowed env document_id cc workflow_profile_id =
     bindM (liftE (profile_lookup env workflow_profile_id)) (\<lambda>profile.
     bindM (liftE (raise_if (p_control_class profile \<noteq> cc)
       (ValidationError ''profile control_class does not match document control_class''))) (\<lambda>_.
     bindM (list_versions document_id) (\<lambda>versions.
     liftE (raise_if (list_ex (\<lambda>v. v_status v \<noteq> PLANNED) versions)
       (ValidationError ''workflow_profile_id can only be changed while all versions are PLANNED'')))))"

text \<open>The optional arguments of a header update.\<close>

record header_changes =
  hc_doc_type :: "doc_type option"
  hc_control_class :: "control_class option"
  hc_workflow_profile_id :: "string option"
  hc_department :: "string option"
  hc_site :: "string option"
  hc_regulatory_scope :: "string option"
  hc_distribution_roles :: "string list option"
  hc_distribution_sites :: "string list option"
  hc_distribution_departments :: "string list option"

definition changed_header :: "doc_header \<Rightarrow> header_changes \<Rightarrow> time \<Rightarrow> doc_header" where
  "changed_header existing c now = existing\<lparr>
     h_doc_type := (case hc_doc_type c of None \<Rightarrow> h_doc_type existing | Some t \<Rightarrow> t),
     h_control_class := (case hc_control_class c of None \<Rightarrow> h_control_class existing | Some t \<Rightarrow> t),
     h_workflow_profile_id := (case hc_workflow_profile_id c of None \<Rightarrow> h_workflow_profile_id existing
        | Some p \<Rightarrow> if p = [] then h_workflow_profile_id existing else p),
     h_department := or_opt (hc_department c) (h_department existing),
     h_site := or_opt (hc_site c) (h_site existing),
     h_regulatory_scope := or_opt (hc_regulatory_scope c) (h_regulatory_scope existing),
     h_distribution_roles := (case hc_distribution_roles c of None \<Rightarrow> h_distribution_roles existing
        | Some xs \<Rightarrow> sorted_stripped_set xs),
     h_distribution_sites := (case hc_distribution_sites c of None \<Rightarrow> h_distribution_sites existing
        | Some xs \<Rightarrow> sorted_stripped_set xs),
     h_distribution_departments := (case hc_distribution_departments c of None \<Rightarrow> h_distribution_departments existing
        | Some xs \<Rightarrow> sorted_stripped_set xs),
     h_updated_at := now\<rparr>"

definition update_document_header ::
  "docs_env \<Rightarrow> string \<Rightarrow> header_changes \<Rightarrow> string option \<Rightarrow> system_role option \<Rightarrow> doc_header doc_meth" where
  "update_document_header env document_id c actor_user_id actor_role =
     bindM (liftE (raise_if (actor_user_id = None \<or> actor_role = None)
       (ValidationError ''actor_user_id and actor_role are required for header updates''))) (\<lambda>_.
     bindM (liftE (raise_if (actor_role \<noteq> Some QMB)
       (PermissionDeniedError ''only an effective QMB may update document headers''))) (\<lambda>_.
     bindM (readM (\<lambda>w. get_header (w_db w) document_id)) (\<lambda>found.
     case found of
       None \<Rightarrow> raiseM (ValidationError (''document header not found: '' @ document_id))
     | Some existing \<Rightarrow>
     bindM (liftE (raise_if (hc_doc_type c \<noteq> None \<and> hc_doc_type c \<noteq> Some (h_doc_type existing))
       (ValidationError ''doc_type cannot be changed after first creation''))) (\<lambda>_.
     bindM (liftE (raise_if (hc_control_class c \<noteq> None \<and> hc_control_class c \<noteq> Some (h_control_class existing))
       (ValidationError ''control_class cannot be changed after first creation''))) (\<lambda>_.
     bindM (case hc_workflow_profile_id c of
              None \<Rightarrow> retM ()
            | Some p \<Rightarrow> whenM (p \<noteq> h_workflow_profile_id existing)
                (assert_workflow_profile_update_allowed env document_id (h_control_class existing) p)) (\<lambda>_.
     bindM (utcnow env) (\<lambda>now.
     let updated = changed_header existing c now
     in bindM (utcnow env) (\<lambda>stamp.
        bindM (modifyM (\<lambda>w. w\<lparr>w_db := upsert_header stamp updated (w_db w)\<rparr>)) (\<lambda>_. retM updated)))))))))"

text \<open>The version used for policy checks: the highest one, from the database or else the cache.\<close>

fun max_by_version :: "version_state \<Rightarrow> version_state list \<Rightarrow> version_state" where
  "max_by_version m [] = m"
| "max_by_version m (v # vs) = max_by_version (if v_version m < v_version v then v else m) vs"

definition version_state_for_document_policy :: "string \<Rightarrow> version_state doc_meth" where
  "version_state_for_document_policy document_id =
     bindM (list_versions document_id) (\<lambda>stored.
     bindM (readM (\<lambda>w. map snd (filter (\<lambda>e. fst (fst e) = document_id) (w_cache w)))) (\<lambda>cached.
     case (if stored \<noteq> [] then stored else cached) of
       [] \<Rightarrow> raiseM (ValidationError (''document version not found: '' @ document_id))
     | v # vs \<Rightarrow> retM (max_by_version v vs)))"

definition update_document_header_if_current ::
  "docs_env \<Rightarrow> string \<Rightarrow> string \<Rightarrow> header_changes \<Rightarrow> string option \<Rightarrow> system_role option \<Rightarrow> doc_header doc_meth" where
  "update_document_header_if_current env document_id expected_updated_at c actor_user_id actor_role =
     write_transaction
       (bindM (readM (\<lambda>w. get_header (w_db w) document_id)) (\<lambda>found.
        case found of
          None \<Rightarrow> raiseM (ValidationError (''document header not found: '' @ document_id))
        | Some current \<Rightarrow>
        bindM (liftE (raise_if (isoformat (h_updated_at current) \<noteq> expected_updated_at) HeaderConflictError)) (\<lambda>_.
        case (actor_user_id, actor_role) of
          (Some a, Some r) \<Rightarrow>
            bindM (version_state_for_document_policy document_id) (\<lambda>policy_state.
            bindM (liftE (assert_workflow_action policy_state a r ''update_header'')) (\<lambda>_.
            update_document_header env document_id c actor_user_id actor_role))
        | _ \<Rightarrow> raiseM (PermissionDeniedError ''confirmed UserContext is required''))))"

section \<open>Creating a version\<close>

definition resolve_workflow_profile_for_document_type ::
  "docs_env \<Rightarrow> doc_type \<Rightarrow> string option \<Rightarrow> control_class option \<Rightarrow> doc_error + string" where
  "resolve_workflow_profile_for_document_type env t workflow_profile_id cc =
     bindE (default_profile env t) (\<lambda>(default_code, allows_override).
     let expected = (case cc of Some c \<Rightarrow> c | None \<Rightarrow> control_class_for t);
         requested = py_strip (case workflow_profile_id of None \<Rightarrow> [] | Some p \<Rightarrow> p)
     in if requested = [] then
          bindE (profile_lookup env default_code) (\<lambda>profile.
          bindE (raise_if (p_control_class profile \<noteq> expected)
            (ValidationError ''default profile control_class does not match document control_class'')) (\<lambda>_.
          Inr (p_profile_id profile)))
        else
          bindE (raise_if (requested \<noteq> default_code \<and> \<not> allows_override)
            (ValidationError ''workflow profile override is not allowed for document type'')) (\<lambda>_.
          bindE (profile_lookup env requested) (\<lambda>profile.
          bindE (raise_if (p_control_class profile \<noteq> expected)
            (ValidationError ''profile control_class does not match document control_class'')) (\<lambda>_.
          Inr (p_profile_id profile)))))"

record create_request =
  cr_owner_user_id :: "string option"
  cr_title :: string
  cr_description :: "string option"
  cr_doc_type :: doc_type
  cr_control_class :: "control_class option"
  cr_workflow_profile_id :: "string option"
  cr_custom_fields :: "(string, pyval) dict"

definition created_state :: "string \<Rightarrow> int \<Rightarrow> create_request \<Rightarrow> control_class \<Rightarrow> string \<Rightarrow> time \<Rightarrow> version_state" where
  "created_state document_id version rq cc profile_id now =
     (new_version_state document_id version)\<lparr>
       v_title := (let t = py_strip (cr_title rq) in if t = [] then document_id else t),
       v_description := cr_description rq, v_doc_type := cr_doc_type rq, v_control_class := cc,
       v_workflow_profile_id := profile_id, v_owner_user_id := cr_owner_user_id rq,
       v_custom_fields := cr_custom_fields rq, v_created_at := Some now,
       v_created_by := cr_owner_user_id rq\<rparr>"

definition new_header :: "string \<Rightarrow> doc_type \<Rightarrow> control_class \<Rightarrow> string \<Rightarrow> time \<Rightarrow> time \<Rightarrow> doc_header" where
  "new_header document_id t cc profile_id created updated = \<lparr>
     h_document_id = document_id, h_doc_type = t, h_control_class = cc,
     h_workflow_profile_id = profile_id, h_register_binding = True,
     h_department = None, h_site = None, h_regulatory_scope = None,
     h_distribution_roles = [], h_distribution_sites = [], h_distribution_departments = [],
     h_created_at = created, h_updated_at = updated\<rparr>"

definition create_document_version :: "docs_env \<Rightarrow> string \<Rightarrow> int \<Rightarrow> create_request \<Rightarrow> version_state doc_meth" where
  "create_document_version env document_id version rq =
     bindM (liftE (raise_if (version \<le> 0) (ValidationError ''version must be > 0''))) (\<lambda>_.
     bindM (liftE (assert_custom_fields_safe (cr_custom_fields rq))) (\<lambda>_.
     let cc = (case cr_control_class rq of Some c \<Rightarrow> c | None \<Rightarrow> control_class_for (cr_doc_type rq))
     in bindM (liftE (resolve_workflow_profile_for_document_type env (cr_doc_type rq)
                       (cr_workflow_profile_id rq) (Some cc))) (\<lambda>profile_id.
        write_transaction
          (bindM (get_document_version document_id version) (\<lambda>existing.
           bindM (liftE (raise_if (existing \<noteq> None) DocumentConflictError)) (\<lambda>_.
           bindM (liftE (assert_new_document_id_safe document_id)) (\<lambda>_.
           bindM (utcnow env) (\<lambda>now.
           let created = created_state document_id version rq cc profile_id now
           in bindM (utcnow env) (\<lambda>h1. bindM (utcnow env) (\<lambda>h2.
              bindM (store_header env (new_header document_id (cr_doc_type rq) cc profile_id h1 h2)) (\<lambda>_.
              bindM (store_state env created) (\<lambda>_.
              bindM (sync_registry env created None) (\<lambda>_.
              retM created)))))))))))))"

definition ensure_document_version :: "docs_env \<Rightarrow> string \<Rightarrow> int \<Rightarrow> create_request \<Rightarrow> version_state doc_meth" where
  "ensure_document_version env document_id version rq =
     bindM (get_document_version document_id version) (\<lambda>found.
     case found of
       Some state \<Rightarrow> retM state
     | None \<Rightarrow> (\<lambda>w. case create_document_version env document_id version rq w of
           (Inl DocumentConflictError, w') \<Rightarrow>
             (case get_document_version document_id version w' of
                (Inr (Some current), w'') \<Rightarrow> (Inr current, w'')
              | (_, w'') \<Rightarrow> (Inl DocumentConflictError, w''))
         | r \<Rightarrow> r))"

section \<open>Importing sources\<close>

text \<open>Publish, stamp, store, project: the block of the methods below, inside their transaction.\<close>

definition publish_steps ::
  "docs_env \<Rightarrow> string \<Rightarrow> version_state \<Rightarrow> (string, pyval) dict \<Rightarrow> string option \<Rightarrow> version_state doc_meth" where
  "publish_steps env name updated payload actor_user_id =
     bindM (publish_event env name updated payload actor_user_id) (\<lambda>event.
     let stamped = stamp_event_on_state updated (Some event) actor_user_id
     in bindM (store_state env stamped) (\<lambda>_.
        bindM (sync_registry env stamped (Some event)) (\<lambda>_. retM stamped)))"

definition publish_and_store ::
  "docs_env \<Rightarrow> string \<Rightarrow> version_state \<Rightarrow> (string, pyval) dict \<Rightarrow> string option \<Rightarrow> version_state doc_meth" where
  "publish_and_store env name updated payload actor_user_id =
     write_transaction (publish_steps env name updated payload actor_user_id)"

definition import_request :: "string \<Rightarrow> string \<Rightarrow> doc_type \<Rightarrow> control_class \<Rightarrow> create_request" where
  "import_request document_id owner t cc = \<lparr>cr_owner_user_id = Some owner, cr_title = document_id,
     cr_description = None, cr_doc_type = t, cr_control_class = Some cc,
     cr_workflow_profile_id = None, cr_custom_fields = []\<rparr>"

definition import_source ::
  "docs_env \<Rightarrow> version_state \<Rightarrow> string \<Rightarrow> artifact_type \<Rightarrow> artifact_source_type \<Rightarrow> string \<Rightarrow> string \<Rightarrow> string \<Rightarrow>
   version_state doc_meth" where
  "import_source env state source_path atype stype intake_mode event_name actor_user_id =
     write_transaction
       (bindM (create_artifact env state source_path atype stype [(''intake_mode'', intake_mode)]) (\<lambda>artifact.
        publish_steps env event_name state [(''artifact_id'', PyStr (a_artifact_id artifact))] (Some actor_user_id)))"

definition import_existing_pdf :: "docs_env \<Rightarrow> string \<Rightarrow> int \<Rightarrow> string \<Rightarrow> string \<Rightarrow> system_role \<Rightarrow> version_state doc_meth" where
  "import_existing_pdf env document_id version source_path actor_user_id actor_role =
     bindM (readM w_files) (\<lambda>files.
     bindM (liftE (validate_source_file files source_path [''.pdf''])) (\<lambda>_.
     bindM (ensure_document_version env document_id version
       (import_request document_id actor_user_id EXT EXTERNAL)) (\<lambda>state.
     bindM (liftE (ensure_owner_or_privileged state actor_user_id actor_role)) (\<lambda>_.
     import_source env state source_path SOURCE_PDF IMPORT_PDF ''import_pdf''
       ''domain.documents.artifact.imported.v1'' actor_user_id))))"

definition import_existing_docx :: "docs_env \<Rightarrow> string \<Rightarrow> int \<Rightarrow> string \<Rightarrow> string \<Rightarrow> system_role \<Rightarrow> version_state doc_meth" where
  "import_existing_docx env document_id version source_path actor_user_id actor_role =
     bindM (readM w_files) (\<lambda>files.
     bindM (liftE (validate_source_file files source_path [''.docx''])) (\<lambda>_.
     bindM (ensure_document_version env document_id version
       (import_request document_id actor_user_id OTHER CONTROLLED)) (\<lambda>state.
     bindM (liftE (ensure_owner_or_privileged state actor_user_id actor_role)) (\<lambda>_.
     import_source env state source_path SOURCE_DOCX IMPORT_DOCX ''import_docx''
       ''domain.documents.artifact.imported.v1'' actor_user_id))))"

definition template_source_type :: "string \<Rightarrow> artifact_source_type" where
  "template_source_type suffix =
     (if suffix = ''.dotx'' then TEMPLATE_DOTX else if suffix = ''.docx'' then TEMPLATE_DOCX else TEMPLATE_DOCT)"

definition create_from_template :: "docs_env \<Rightarrow> string \<Rightarrow> int \<Rightarrow> string \<Rightarrow> string \<Rightarrow> system_role \<Rightarrow> version_state doc_meth" where
  "create_from_template env document_id version template_path actor_user_id actor_role =
     bindM (readM w_files) (\<lambda>files.
     bindM (liftE (validate_source_file files template_path [''.dotx'', ''.docx'', ''.doct''])) (\<lambda>_.
     bindM (ensure_document_version env document_id version
       (import_request document_id actor_user_id OTHER CONTROLLED)) (\<lambda>state.
     bindM (liftE (ensure_owner_or_privileged state actor_user_id actor_role)) (\<lambda>_.
     import_source env state template_path SOURCE_DOCX (template_source_type (py_lower (path_suffix template_path)))
       ''create_from_template'' ''domain.documents.template.created.v1'' actor_user_id))))"

section \<open>Metadata and change requests\<close>

record metadata_changes =
  mc_title :: "string option"
  mc_description :: "string option"
  mc_valid_until :: "time option"
  mc_next_review_at :: "time option"
  mc_custom_fields :: "(string, pyval) dict option"

definition changed_metadata :: "version_state \<Rightarrow> metadata_changes \<Rightarrow> version_state" where
  "changed_metadata state c = state\<lparr>
     v_title := (case mc_title c of None \<Rightarrow> v_title state
        | Some t \<Rightarrow> if py_strip t = [] then v_title state else py_strip t),
     v_description := or_opt (mc_description c) (v_description state),
     v_valid_until := or_opt (mc_valid_until c) (v_valid_until state),
     v_next_review_at := or_opt (mc_next_review_at c) (v_next_review_at state),
     v_custom_fields := (case mc_custom_fields c of None \<Rightarrow> v_custom_fields state
        | Some fs \<Rightarrow> dict_update (v_custom_fields state) fs)\<rparr>"

definition update_version_metadata ::
  "docs_env \<Rightarrow> version_state \<Rightarrow> metadata_changes \<Rightarrow> string option \<Rightarrow> system_role option \<Rightarrow> version_state doc_meth" where
  "update_version_metadata env state c actor_user_id actor_role =
     (case (actor_user_id, actor_role) of
        (Some a, Some r) \<Rightarrow>
          bindM (liftE (ensure_owner_or_privileged state a r)) (\<lambda>_.
          bindM (liftE (raise_if ((mc_valid_until c \<noteq> None \<or> mc_next_review_at c \<noteq> None)
              \<and> v_status state \<notin> {APPROVED, ARCHIVED})
            (ValidationError ''validity dates can only be updated for APPROVED or ARCHIVED versions''))) (\<lambda>_.
          bindM (liftE (raise_if (v_status state = APPROVED \<and> (mc_valid_until c \<noteq> None \<or> mc_next_review_at c \<noteq> None))
            (ValidationError ''validity dates change only through extend_annual_validity in APPROVED''))) (\<lambda>_.
          bindM (liftE (case mc_custom_fields c of None \<Rightarrow> Inr () | Some fs \<Rightarrow> assert_custom_fields_safe fs)) (\<lambda>_.
          publish_and_store env ''domain.documents.metadata.updated.v1'' (changed_metadata state c)
            [(''keys'', PyList (map PyStr (sort (map fst (case mc_custom_fields c of None \<Rightarrow> [] | Some fs \<Rightarrow> fs)))))]
            actor_user_id))))
      | _ \<Rightarrow> raiseM (ValidationError ''actor_user_id and actor_role are required for metadata updates''))"

text \<open>\<open>str(item.get("change_id", "")).strip()\<close> for the items that are dictionaries.\<close>

definition item_change_id :: "(pyval \<times> pyval) list \<Rightarrow> string" where
  "item_change_id entries =
     py_strip (case map_of entries (PyStr ''change_id'') of None \<Rightarrow> [] | Some v \<Rightarrow> py_str v)"

definition existing_change_ids :: "pyval list \<Rightarrow> string list" where
  "existing_change_ids items =
     List.map_filter (\<lambda>v. case v of PyDict es \<Rightarrow> Some (item_change_id es) | _ \<Rightarrow> None) items"

definition change_request_payload :: "string \<Rightarrow> string \<Rightarrow> string list \<Rightarrow> string \<Rightarrow> time \<Rightarrow> pyval" where
  "change_request_payload change_id reason refs created_by now = PyDict
     [(PyStr ''change_id'', PyStr change_id), (PyStr ''reason'', PyStr reason),
      (PyStr ''impact_refs'', PyList (map PyStr refs)), (PyStr ''created_by'', PyStr created_by),
      (PyStr ''created_at'', PyStr (isoformat now))]"

definition add_change_request ::
  "docs_env \<Rightarrow> version_state \<Rightarrow> string \<Rightarrow> string \<Rightarrow> string list \<Rightarrow> string \<Rightarrow> system_role \<Rightarrow> version_state doc_meth" where
  "add_change_request env state change_id reason impact_refs actor_user_id actor_role =
     bindM (liftE (ensure_owner_or_privileged state actor_user_id actor_role)) (\<lambda>_.
     bindM (liftE (validate_change_request_input change_id reason impact_refs)) (\<lambda>(cid, rsn, refs).
     case (case map_of (v_custom_fields state) ''change_requests'' of None \<Rightarrow> PyList [] | Some v \<Rightarrow> v) of
       PyList items \<Rightarrow>
         bindM (liftE (raise_if (cid \<in> set (existing_change_ids items))
           (ValidationError (''change request already exists: '' @ cid)))) (\<lambda>_.
         bindM (utcnow env) (\<lambda>now.
         publish_and_store env ''domain.documents.change_request.added.v1''
           (state\<lparr>v_custom_fields := AList.update ''change_requests''
              (PyList (items @ [change_request_payload cid rsn refs actor_user_id now])) (v_custom_fields state)\<rparr>)
           [(''change_id'', PyStr cid), (''impact_refs'', PyList (map PyStr refs))] (Some actor_user_id)))
     | _ \<Rightarrow> raiseM (ValidationError ''custom field change_requests must be a list'')))"

section \<open>Starting from the bound profile\<close>

definition start_workflow ::
  "docs_env \<Rightarrow> version_state \<Rightarrow> string option \<Rightarrow> string option \<Rightarrow> string option \<Rightarrow> system_role option \<Rightarrow>
   version_state doc_meth" where
  "start_workflow env state profile_arg_id profile_id actor_user_id actor_role =
     (let bound_id = py_strip (v_workflow_profile_id state);
          from_profile = (case profile_arg_id of None \<Rightarrow> None
                          | Some p \<Rightarrow> if py_strip p = [] then None else Some (py_strip p));
          explicit = (case profile_id of None \<Rightarrow> None
                      | Some p \<Rightarrow> if py_strip p = [] then None else Some (py_strip p));
          requested = or_opt explicit from_profile
      in bindM (liftE (raise_if (bound_id = [])
           (ValidationError ''document version has no workflow_profile_id binding''))) (\<lambda>_.
         bindM (liftE (raise_if (from_profile \<noteq> None \<and> explicit \<noteq> None \<and> from_profile \<noteq> explicit)
           (ValidationError ''conflicting workflow profile parameters''))) (\<lambda>_.
         bindM (liftE (raise_if (requested \<noteq> None \<and> requested \<noteq> Some bound_id)
           (ValidationError ''workflow start profile_id does not match bound workflow_profile_id''))) (\<lambda>_.
         bindM (liftE (profile_lookup env bound_id)) (\<lambda>runtime_profile.
         start_workflow_use_case env state runtime_profile actor_user_id actor_role)))))"

section \<open>The optimistic lock\<close>

definition not_found :: doc_error where
  "not_found = ValidationError ''document version not found''"

definition unconfirmed :: doc_error where
  "unconfirmed = PermissionDeniedError ''confirmed UserContext is required''"

text \<open>The authorization step: an exception, or the deferred \<open>authorization_error\<close>.\<close>

definition authorize ::
  "version_state \<Rightarrow> string option \<Rightarrow> system_role option \<Rightarrow> string option \<Rightarrow> bool \<Rightarrow> doc_error + doc_error option" where
  "authorize current actor_user_id actor_role action owner_or_privileged =
     (case (actor_user_id, actor_role) of
        (Some a, Some r) \<Rightarrow>
          (case (case action of
                   Some act \<Rightarrow> assert_workflow_action current a r act
                 | None \<Rightarrow> if owner_or_privileged then ensure_owner_or_privileged current a r else Inr ()) of
             Inl e \<Rightarrow> Inr (Some e)
           | Inr _ \<Rightarrow> Inr None)
      | _ \<Rightarrow> if action \<noteq> None \<or> owner_or_privileged then Inl unconfirmed else Inr None)"

definition mutate_version_if_current ::
  "string \<Rightarrow> int \<Rightarrow> string option \<Rightarrow> (version_state \<Rightarrow> 'a doc_meth) \<Rightarrow>
   string option \<Rightarrow> system_role option \<Rightarrow> string option \<Rightarrow> bool \<Rightarrow> 'a doc_meth" where
  "mutate_version_if_current document_id version expected operation actor_user_id actor_role action owner_or_privileged =
     write_transaction
       (bindM (get_document_version document_id version) (\<lambda>found.
        case found of
          None \<Rightarrow> raiseM not_found
        | Some current \<Rightarrow>
            bindM (liftE (both actor_user_id actor_role (\<lambda>a r. raise_if (\<not> has_read_access current a r) not_found))) (\<lambda>_.
            bindM (liftE (authorize current actor_user_id actor_role action owner_or_privileged)) (\<lambda>authorization_error.
            bindM (liftE (raise_if (v_last_event_id current \<noteq> expected)
              (if authorization_error \<noteq> None then not_found else DocumentConflictError))) (\<lambda>_.
            case authorization_error of
              Some e \<Rightarrow> raiseM e
            | None \<Rightarrow> operation current)))))"

end
