(* ===== verification/DocApi.thy ===== *)
theory DocApi
  imports DocService
begin

text \<open>
  The operations a client reaches (\<open>modules/documents/api.py\<close>, \<open>DocumentsWorkflowApi\<close>): every change
  of a version runs through \<open>mutate_version_if_current\<close> with the current row, the actor's user id and
  role, and the action of the workflow policy. \<open>doc_call\<close> lists the operations with their
  arguments, \<open>api_call\<close> is one request, and \<open>reachable\<close> the worlds a sequence of requests (failed
  ones included) can lead to from an empty database and register.
\<close>

section \<open>Signed extension of the validity\<close>

definition sign_and_store_signed_artifact ::
  "docs_env \<Rightarrow> version_state \<Rightarrow> sign_request \<Rightarrow> string \<Rightarrow> string option \<Rightarrow> doc_artifact doc_meth" where
  "sign_and_store_signed_artifact env state req transition actor =
     bindM (liftE (raise_if (\<not> has_signature_api env)
       (ValidationError ''signature_api is required for signing''))) (\<lambda>_.
     finallyM
       (bindM (execute_sign_dispatch env req actor) (\<lambda>_.
        bindM (readM w_files) (\<lambda>files.
        bindM (liftE (raise_if (\<not> usable_file files ''.pdf'' (Some (sr_output_pdf req)))
          (ValidationError (''signature transition '' @ transition @ '' did not produce a valid signed PDF output'')))) (\<lambda>_.
        create_artifact env state (sr_output_pdf req) SIGNED_PDF GENERATED
          [(''transition'', transition), (''generated_from'', sr_input_pdf req)]))))
       (cleanup_signing None req))"

text \<open>\<open>delete_artifact\<close>: the stored file, then the row.\<close>

definition delete_artifact :: "docs_env \<Rightarrow> doc_artifact \<Rightarrow> docs_world \<Rightarrow> docs_world" where
  "delete_artifact env artifact w =
     (case resolve_storage_key (storage_root env) (a_storage_key artifact) of
        None \<Rightarrow> w
      | Some path \<Rightarrow> w\<lparr>w_files := w_files w - {path},
          w_db := (w_db w)\<lparr>db_artifacts := filter (\<lambda>a. a_artifact_id a \<noteq> a_artifact_id artifact)
                              (db_artifacts (w_db w))\<rparr>\<rparr>)"

text \<open>\<open>try: m except Exception: handler; raise\<close>.\<close>

definition on_error :: "'a doc_meth \<Rightarrow> (docs_world \<Rightarrow> docs_world) \<Rightarrow> 'a doc_meth" where
  "on_error m h = (\<lambda>w. case m w of (Inl e, w') \<Rightarrow> (Inl e, h w') | (Inr x, w') \<Rightarrow> (Inr x, w'))"

text \<open>
  The operation inside \<open>extend_annual_validity_signed\<close>. The request comes from
  \<open>sign_intent_builder.py\<close>, which resolves the input PDF of the transition or raises.
\<close>

definition extend_signed ::
  "docs_env \<Rightarrow> version_state \<Rightarrow> sign_request \<Rightarrow> string \<Rightarrow> int \<Rightarrow> string \<Rightarrow> extension_outcome \<Rightarrow>
   (version_state \<times> bool) doc_meth" where
  "extend_signed env current req user_id duration_days reason review_outcome =
     (if v_extension_count current \<ge> 3
      then extend_annual_validity env current user_id False duration_days reason review_outcome
      else bindM (resolve_signature_input_pdf env current ''EXTEND_VALIDITY'') (\<lambda>input_pdf.
           case input_pdf of
             None \<Rightarrow> raiseM (ValidationError ''no PDF artifact available for signed transition EXTEND_VALIDITY'')
           | Some p \<Rightarrow>
               bindM (sign_and_store_signed_artifact env current (req\<lparr>sr_input_pdf := p\<rparr>) ''EXTEND_VALIDITY'' (Some user_id)) (\<lambda>artifact.
               on_error (extend_annual_validity env current user_id True duration_days reason review_outcome)
                 (delete_artifact env artifact))))"

section \<open>Requests\<close>

datatype doc_call =
    CallAssign "string set" "string set" "string set"
  | CallStart "string option" "string option"
  | CallCompleteEditing "sign_request option"
  | CallReviewAccept "sign_request option"
  | CallReviewReject rejection_reason
  | CallApprovalAccept "sign_request option"
  | CallApprovalReject rejection_reason
  | CallAbort
  | CallArchive
  | CallExtend sign_request int string extension_outcome
  | CallNewVersion int
  | CallUpdateMetadata metadata_changes
  | CallAddChangeRequest string string "string list"

fun action_of :: "doc_call \<Rightarrow> string" where
  "action_of (CallAssign _ _ _) = ''assign_roles''"
| "action_of (CallStart _ _) = ''start''"
| "action_of (CallCompleteEditing _) = ''complete_editing''"
| "action_of (CallReviewAccept _) = ''review_accept''"
| "action_of (CallReviewReject _) = ''review_reject''"
| "action_of (CallApprovalAccept _) = ''approval_accept''"
| "action_of (CallApprovalReject _) = ''approval_reject''"
| "action_of CallAbort = ''abort''"
| "action_of CallArchive = ''archive''"
| "action_of (CallExtend _ _ _ _) = ''extend_validity''"
| "action_of (CallNewVersion _) = ''new_version''"
| "action_of (CallUpdateMetadata _) = ''update_metadata''"
| "action_of (CallAddChangeRequest _ _ _) = ''change_requests''"

fun run_call :: "docs_env \<Rightarrow> doc_call \<Rightarrow> string \<Rightarrow> system_role \<Rightarrow> version_state \<Rightarrow> version_state doc_meth" where
  "run_call env (CallAssign eds revs apps) uid role cur =
     assign_workflow_roles env cur eds revs apps (Some uid) (Some role)"
| "run_call env (CallStart p pid) uid role cur = start_workflow env cur p pid (Some uid) (Some role)"
| "run_call env (CallCompleteEditing req) uid role cur = complete_editing env cur req (Some uid) (Some uid) (Some role)"
| "run_call env (CallReviewAccept req) uid role cur = accept_review env cur uid req (Some uid)"
| "run_call env (CallReviewReject reason) uid role cur = reject_review env cur uid reason"
| "run_call env (CallApprovalAccept req) uid role cur = accept_approval env cur uid req (Some uid)"
| "run_call env (CallApprovalReject reason) uid role cur = reject_approval env cur uid reason"
| "run_call env CallAbort uid role cur = abort_workflow env cur (Some uid) (Some role)"
| "run_call env CallArchive uid role cur = archive_approved env cur role (Some uid)"
| "run_call env (CallExtend req days reason outcome) uid role cur =
     bindM (extend_signed env cur req uid days reason outcome) (\<lambda>r. retM (fst r))"
| "run_call env (CallNewVersion n) uid role cur = create_new_version_after_archive env cur n (Some uid) (Some role)"
| "run_call env (CallUpdateMetadata c) uid role cur = update_version_metadata env cur c (Some uid) (Some role)"
| "run_call env (CallAddChangeRequest cid reason refs) uid role cur = add_change_request env cur cid reason refs uid role"

definition api_call ::
  "docs_env \<Rightarrow> string \<Rightarrow> int \<Rightarrow> string option \<Rightarrow> string \<Rightarrow> system_role \<Rightarrow> doc_call \<Rightarrow> version_state doc_meth" where
  "api_call env document_id version if_match uid role call =
     mutate_version_if_current document_id version if_match (run_call env call uid role)
       (Some uid) (Some role) (Some (action_of call)) False"

text \<open>\<open>DocumentsWorkflowApi.create_document_version\<close>: who may create, and for whom.\<close>

definition api_create ::
  "docs_env \<Rightarrow> string \<Rightarrow> int \<Rightarrow> create_request \<Rightarrow> user_context option \<Rightarrow> bool \<Rightarrow> version_state doc_meth" where
  "api_create env document_id version rq actor delegated_create_allowed =
     bindM (liftE (if actor = None then Inl unconfirmed else actor_user_and_role actor)) (\<lambda>(user_id, role).
     bindM (liftE (raise_if (role \<noteq> QMB \<and> \<not> delegated_create_allowed)
       (PermissionDeniedError ''effective QMB or delegated create permission required''))) (\<lambda>_.
     bindM (liftE (raise_if (cr_owner_user_id rq \<noteq> None \<and> cr_owner_user_id rq \<noteq> Some user_id \<and> role \<noteq> QMB)
       (PermissionDeniedError ''only an effective QMB may assign a different owner''))) (\<lambda>_.
     create_document_version env document_id version
       (rq\<lparr>cr_owner_user_id := Some (case cr_owner_user_id rq of None \<Rightarrow> user_id | Some o' \<Rightarrow> o')\<rparr>))))"

datatype doc_request =
    Request string int "string option" string system_role doc_call
  | Create string int create_request "user_context option" bool
  | ImportPdf string int string string system_role
  | ImportDocx string int string string system_role
  | FromTemplate string int string string system_role
  | EditHeader string string header_changes "string option" "system_role option"

definition forget :: "'a doc_meth \<Rightarrow> unit doc_meth" where
  "forget m = bindM m (\<lambda>_. retM ())"

fun run_request :: "docs_env \<Rightarrow> doc_request \<Rightarrow> unit doc_meth" where
  "run_request env (Request doc ver if_match uid role call) = forget (api_call env doc ver if_match uid role call)"
| "run_request env (Create doc ver rq actor delegated) = forget (api_create env doc ver rq actor delegated)"
| "run_request env (ImportPdf doc ver src uid role) = forget (import_existing_pdf env doc ver src uid role)"
| "run_request env (ImportDocx doc ver src uid role) = forget (import_existing_docx env doc ver src uid role)"
| "run_request env (FromTemplate doc ver src uid role) = forget (create_from_template env doc ver src uid role)"
| "run_request env (EditHeader doc expected c uid role) = forget (update_document_header_if_current env doc expected c uid role)"

definition empty_world :: "string set \<Rightarrow> docs_world" where
  "empty_world files = \<lparr>w_db = \<lparr>db_versions = [], db_headers = [], db_artifacts = []\<rparr>, w_cache = [],
     w_registry = Map.empty, w_events = [], w_audit = [], w_files = files, w_ticks = 0, w_uuids = 0\<rparr>"

inductive reachable :: "docs_env \<Rightarrow> docs_world \<Rightarrow> bool" for env where
  start: "reachable env (empty_world files)"
| step: "reachable env w \<Longrightarrow> reachable env (after (run_request env rq w))"
| new_files: "reachable env w \<Longrightarrow> reachable env (w\<lparr>w_files := files\<rparr>)"

end
