(* ===== verification/DocApiLaws.thy ===== *)
theory DocApiLaws
  imports DocApi
begin

text \<open>
  The documents module as a system: every reachable world satisfies \<open>db_ok\<close>. An operation under
  the optimistic lock may fail at any point; what makes the rollback of the outer transaction safe
  is that a failing operation has left the version rows as they were (\<open>fails_clean\<close>), so that the
  register it may have refreshed still agrees with them.
\<close>

section \<open>Operations that fail cleanly\<close>

definition rows_keep :: "'a doc_meth \<Rightarrow> bool" where
  "rows_keep m \<longleftrightarrow> (\<forall>w. db_versions (w_db (after (m w))) = db_versions (w_db w))"

definition fails_clean :: "'a doc_meth \<Rightarrow> bool" where
  "fails_clean m \<longleftrightarrow> (\<forall>w e w'. m w = (Inl e, w') \<longrightarrow> db_versions (w_db w') = db_versions (w_db w))"

named_theorems clean_intros \<open>rules that reduce \<open>fails_clean\<close> and \<open>rows_keep\<close> to parts of a method\<close>

lemma rows_keep_same_rows:
  assumes "\<And>rows reg. keeps (same_rows rows reg) m"
  shows "rows_keep m"
  unfolding rows_keep_def
proof
  fix w
  have "same_rows (db_versions (w_db w)) (w_registry w) (after (m w))"
    by (rule keepsD [OF assms]) (simp add: same_rows_def)
  then show "db_versions (w_db (after (m w))) = db_versions (w_db w)" by (simp add: same_rows_def)
qed

lemma rows_keep_bindM [clean_intros]:
  assumes "rows_keep m" and "\<And>x. rows_keep (f x)"
  shows "rows_keep (bindM m f)"
  unfolding rows_keep_def
proof
  fix w
  obtain r w' where run: "m w = (r, w')" by fastforce
  have "db_versions (w_db w') = db_versions (w_db w)"
    using assms(1) run unfolding rows_keep_def by (metis snd_conv)
  then show "db_versions (w_db (after (bindM m f w))) = db_versions (w_db w)"
    using run assms(2) by (cases r) (auto simp: bindM_def rows_keep_def)
qed

lemma rows_keep_basic [clean_intros]:
  "rows_keep (retM x)" "rows_keep (raiseM e)" "rows_keep (liftE r)" "rows_keep (readM g)"
  "rows_keep (utcnow env)" "rows_keep (uuid4 env)"
  by (simp_all add: rows_keep_def utcnow_def uuid4_def)

lemma fails_clean_basic [clean_intros]:
  "fails_clean (retM x)" "fails_clean (raiseM e)" "fails_clean (liftE r)" "fails_clean (write_transaction m)"
  by (auto simp: fails_clean_def write_transaction_Inl)

lemma fails_clean_bindM [clean_intros]:
  assumes "rows_keep m" and "\<And>x. fails_clean (f x)"
  shows "fails_clean (bindM m f)"
  unfolding fails_clean_def
proof (intro allI impI)
  fix w e w'
  assume run: "bindM m f w = (Inl e, w')"
  have m: "db_versions (w_db (after (m w))) = db_versions (w_db w)"
    using assms(1) by (simp add: rows_keep_def)
  from run consider "m w = (Inl e, w')" | x w1 where "m w = (Inr x, w1)" "f x w1 = (Inl e, w')"
    by (auto simp: bindM_eq_Inl)
  then show "db_versions (w_db w') = db_versions (w_db w)"
  proof cases
    case 1
    then show ?thesis using m by simp
  next
    case 2
    then show ?thesis using m assms(2) unfolding fails_clean_def by (metis snd_conv)
  qed
qed

lemma fails_clean_then:
  assumes "fails_clean m" and "\<And>x w e w'. f x w \<noteq> (Inl e, w')"
  shows "fails_clean (bindM m f)"
  using assms by (auto simp: fails_clean_def bindM_eq_Inl)

lemma fails_clean_case [clean_intros]:
  "(x = None \<Longrightarrow> fails_clean m) \<Longrightarrow> (\<And>y. x = Some y \<Longrightarrow> fails_clean (f y)) \<Longrightarrow>
   fails_clean (case x of None \<Rightarrow> m | Some y \<Rightarrow> f y)"
  by (cases x) auto

lemma fails_clean_if [clean_intros]:
  "(c \<Longrightarrow> fails_clean m) \<Longrightarrow> (\<not> c \<Longrightarrow> fails_clean n) \<Longrightarrow> fails_clean (if c then m else n)"
  by simp

lemma rows_keep_if [clean_intros]:
  "(c \<Longrightarrow> rows_keep m) \<Longrightarrow> (\<not> c \<Longrightarrow> rows_keep n) \<Longrightarrow> rows_keep (if c then m else n)"
  by simp

lemma rows_keep_enforce [clean_intros]: "rows_keep (enforce_signature_transition env st tr req actor)"
  by (intro rows_keep_same_rows enforce_signature_same_rows)

lemma rows_keep_ensure_source [clean_intros]: "rows_keep (ensure_source_pdf_artifact_for_signing env st actor)"
  unfolding rows_keep_def using ensure_source_pdf_rows [of _ env st actor] by (auto simp: keeps_def)

lemma rows_keep_sign_moment [clean_intros]: "rows_keep (sign_moment env st a)"
  unfolding sign_moment_def by (intro clean_intros)

lemma rows_keep_get [clean_intros]: "rows_keep (get_document_version d v)" "rows_keep (list_versions d)"
  by (simp_all add: get_document_version_def list_versions_def rows_keep_basic)

lemma fails_clean_audited [clean_intros]:
  assumes "fails_clean m" shows "fails_clean (audited a t r m)"
  unfolding audited_def
  by (rule fails_clean_then [OF assms]) (auto simp: bindM_eq_Inl emit_audit_def)

lemma fails_clean_commit [clean_intros]: "fails_clean (commit_version env name st payload actor fin)"
  unfolding commit_version_def by (rule fails_clean_basic)

lemma fails_clean_publish_and_store [clean_intros]: "fails_clean (publish_and_store env name st payload actor)"
  unfolding publish_and_store_def by (rule fails_clean_basic)

lemma fails_clean_extend [clean_intros]: "fails_clean (extend_annual_validity env st uid sig d reason out)"
  unfolding extend_annual_validity_def Let_def
  by (intro clean_intros fails_clean_then [OF fails_clean_audited [OF fails_clean_commit]]) simp

lemma rows_keep_finallyM:
  assumes "rows_keep m" and "\<And>w. db_versions (w_db (g w)) = db_versions (w_db w)"
  shows "rows_keep (finallyM m g)"
  using assms by (auto simp: rows_keep_def finallyM_def split: prod.splits) (metis snd_conv)

lemma sign_and_store_same_rows: "keeps (same_rows rows reg) (sign_and_store_signed_artifact env st req tr actor)"
  unfolding sign_and_store_signed_artifact_def
  by (intro keeps_intros keeps_finallyM) (simp add: cleanup_signing_def)

lemma rows_keep_sign_and_store [clean_intros]: "rows_keep (sign_and_store_signed_artifact env st req tr actor)"
  by (intro rows_keep_same_rows sign_and_store_same_rows)

lemma delete_artifact_simps [simp]:
  "db_versions (w_db (delete_artifact env a w)) = db_versions (w_db w)"
  "w_registry (delete_artifact env a w) = w_registry w"
  "w_uuids (delete_artifact env a w) = w_uuids w"
  by (simp_all add: delete_artifact_def split: option.split)

lemma fails_clean_on_error [clean_intros]:
  "fails_clean m \<Longrightarrow> fails_clean (on_error m (delete_artifact env a))"
  by (auto simp: fails_clean_def on_error_def split: prod.splits sum.splits)

lemma rows_keep_resolve_input [clean_intros]: "rows_keep (resolve_signature_input_pdf env st tr)"
  by (simp add: resolve_signature_input_pdf_def rows_keep_basic)

lemma fails_clean_extend_signed: "fails_clean (extend_signed env st req uid d reason out)"
  unfolding extend_signed_def by (intro clean_intros)

lemma fails_clean_start [clean_intros]: "fails_clean (start_workflow env st p pid a r)"
  unfolding start_workflow_def start_workflow_use_case_def Let_def by (intro clean_intros)

lemma fails_clean_add_change_request: "fails_clean (add_change_request env st cid reason refs a r)"
  unfolding add_change_request_def
  by (auto intro!: clean_intros split: prod.split pyval.split)

lemma fails_clean_run_call: "fails_clean (run_call env call uid role cur)"
proof (cases call)
  case (CallExtend req d reason out)
  then show ?thesis
    by (simp, intro fails_clean_then fails_clean_extend_signed) simp
next
  case (CallAddChangeRequest cid reason refs)
  then show ?thesis by (simp add: fails_clean_add_change_request)
qed (auto simp: assign_workflow_roles_def complete_editing_def accept_review_def reject_review_def
      accept_approval_def reject_approval_def abort_workflow_def archive_approved_def
      create_new_version_after_archive_def update_version_metadata_def Let_def intro!: clean_intros)

section \<open>Every request keeps the invariant\<close>

text \<open>The block after \<open>publish_event\<close>: what it leaves on return and on a raise.\<close>

lemma publish_steps_cases:
  assumes "publish_steps env name st payload actor w = (r, w')"
  obtains (failed) e where "r = Inl e" "w_registry w' = w_registry w"
  | (finished) ev s mode where "r = Inr s" "ev = published env name st payload actor w"
      "s = stamp_event_on_state st (Some ev) actor" "state_consistent s"
      "\<not> one_approved_violation (db_versions (w_db w)) s"
      "release_mode_of_value (release_mode_value s) = Some mode"
      "w' = (stored env s (with_event ev w))\<lparr>w_registry := registered s ev (w_registry w) mode\<rparr>"
proof -
  define ev where "ev = published env name st payload actor w"
  define s where "s = stamp_event_on_state st (Some ev) actor"
  obtain r1 w1 where store: "store_state env s (with_event ev w) = (r1, w1)" by fastforce
  have run: "publish_steps env name st payload actor w =
      (case r1 of Inl e \<Rightarrow> (Inl e, w1) | Inr _ \<Rightarrow> bindM (sync_registry env s (Some ev)) (\<lambda>_. retM s) w1)"
    using store by (cases r1) (simp_all add: publish_steps_def bindM_def Let_def ev_def s_def)
  have reg: "w_registry w1 = w_registry w" using store_state_registry [OF store] by simp
  show thesis
  proof (cases r1)
    case (Inl e)
    then show thesis using failed [of e] run reg assms by simp
  next
    case (Inr u)
    then have c: "state_consistent s" "\<not> one_approved_violation (db_versions (w_db w)) s" "w1 = stored env s (with_event ev w)"
      using store by (simp_all add: store_state_Inr)
    show thesis
    proof (cases "release_mode_of_value (release_mode_value s)")
      case None
      then show thesis
        using failed [of "ValidationError ''ValueError: ReleaseEvidenceMode''"] run reg assms Inr
        by (simp add: bindM_def sync_registry_event)
    next
      case (Some mode)
      show thesis
        by (rule finished [of s ev mode])
          (use run assms Inr Some c reg in \<open>simp_all add: ev_def s_def bindM_def sync_registry_event registered_def\<close>)
    qed
  qed
qed

lemma publish_steps_db_ok:
  assumes w: "ready st (v_status st = APPROVED) w"
    and same: "v_document_id st' = v_document_id st" "v_version st' = v_version st" "v_status st' = v_status st"
    and run: "publish_steps env name st' payload actor w = (Inr s, w')"
  shows "db_ok w'"
  using run
proof (cases rule: publish_steps_cases)
  case (failed e)
  then show ?thesis by simp
next
  case (finished ev s' mode)
  let ?rows = "db_versions (w_db w)"
  have ok: "rows_ok ?rows" and agree: "register_agrees ?rows (w_registry w)"
    using w by (simp_all add: ready_def db_ok_def)
  have leave: "v_status s' \<in> {APPROVED, ARCHIVED} \<or> \<not> row_approved ?rows (v_document_id s') (v_version s')"
    using w same finished(3) by (auto simp: ready_def)
  have d: "distinct (map version_key ?rows)" using ok unfolding rows_ok_def by blast
  show ?thesis
    unfolding db_ok_def finished(7)
    using commit_rows_ok(2) [OF ok finished(4,5)] register_agrees_commit [OF agree d finished(5) leave]
    by (simp add: registered_def)
qed

lemma transaction_leads:
  assumes fail: "\<And>w e w'. P w \<Longrightarrow> m w = (Inl e, w') \<Longrightarrow> w_registry w' = w_registry w"
    and ok: "\<And>w x w'. P w \<Longrightarrow> m w = (Inr x, w') \<Longrightarrow> db_ok w'" and P: "\<And>w. P w \<Longrightarrow> db_ok w"
  shows "leads P (write_transaction m) db_ok"
  unfolding leads_def
proof (intro allI impI)
  fix w assume w: "P w"
  obtain r w' where run: "m w = (r, w')" by fastforce
  show "db_ok (after (write_transaction m w))"
    using run fail [OF w] ok [OF w] P [OF w]
    by (cases r) (simp_all add: write_transaction_def db_ok_def)
qed

lemma publish_and_store_leads:
  assumes "v_document_id st' = v_document_id st" and "v_version st' = v_version st" and "v_status st' = v_status st"
  shows "leads (ready st (v_status st = APPROVED)) (publish_and_store env name st' payload actor) db_ok"
  unfolding publish_and_store_def
proof (rule transaction_leads)
  fix w e w'
  assume "publish_steps env name st' payload actor w = (Inl e, w')"
  then show "w_registry w' = w_registry w" by (cases rule: publish_steps_cases) auto
qed (rule publish_steps_db_ok [OF _ assms], assumption, assumption, rule ready_db_ok)

lemma import_source_leads:
  "leads (ready st (v_status st = APPROVED)) (import_source env st src t k mode ev uid) db_ok"
  unfolding import_source_def
proof (rule transaction_leads)
  let ?c = "create_artifact env st src t k [(''intake_mode'', mode)]"
  let ?f = "\<lambda>a. publish_steps env ev st [(''artifact_id'', PyStr (a_artifact_id a))] (Some uid)"
  have same: "db_versions (w_db w1) = db_versions (w_db w) \<and> w_registry w1 = w_registry w"
    if "?c w = (r, w1)" for w r w1
    using keeps_run [OF create_artifact_same_rows [of "db_versions (w_db w)" "w_registry w"] _ that]
    by (simp add: same_rows_def)
  {
    fix w e w'
    assume "bindM ?c ?f w = (Inl e, w')"
    then consider "?c w = (Inl e, w')" | a w1 where "?c w = (Inr a, w1)" "?f a w1 = (Inl e, w')"
      by (auto simp: bindM_eq_Inl)
    then show "w_registry w' = w_registry w"
    proof cases
      case 1
      then show ?thesis using same by blast
    next
      case 2
      from 2(2) have "w_registry w' = w_registry w1" by (cases rule: publish_steps_cases) auto
      then show ?thesis using same 2(1) by metis
    qed
  }
  fix w x w'
  assume w: "ready st (v_status st = APPROVED) w" and run: "bindM ?c ?f w = (Inr x, w')"
  then obtain a w1 where c: "?c w = (Inr a, w1)" and f: "?f a w1 = (Inr x, w')" by auto
  have "ready st (v_status st = APPROVED) w1"
    using w same [OF c] by (simp add: ready_def db_ok_def)
  from publish_steps_db_ok [OF this _ _ _ f] show "db_ok w'" by simp
qed (rule ready_db_ok)

section \<open>Each operation of a version\<close>

lemma ready_approved_cong: "ready st ap w \<Longrightarrow> (ap \<Longrightarrow> ap') \<Longrightarrow> ready st ap' w"
  by (auto simp: ready_def)

lemma leads_on_error:
  assumes "leads P m db_ok" and "\<And>w. db_ok w \<Longrightarrow> db_ok (h w)"
  shows "leads P (on_error m h) db_ok"
  using assms by (auto simp: leads_def on_error_def split: prod.split sum.split)

lemma delete_artifact_db_ok: "db_ok (delete_artifact env a w) = db_ok w"
  by (simp add: db_ok_def)

lemma keeps_ready_sign: "keeps (ready st ap) (sign_and_store_signed_artifact env s req tr actor)"
  by (intro keeps_same_rows_ready sign_and_store_same_rows)

lemma keeps_ready_resolve: "keeps (ready st ap) (resolve_signature_input_pdf env s tr)"
  unfolding resolve_signature_input_pdf_def by (rule keeps_readM)

lemma extend_signed_db_ok:
  "leads (ready st (v_status st = APPROVED)) (extend_signed env st req uid d reason out) db_ok"
proof -
  have "leads (ready st (v_status st = APPROVED)) (on_error (extend_annual_validity env st uid s d reason out)
      (delete_artifact env a)) db_ok" for s a
    by (rule leads_on_error [OF extend_annual_validity_db_ok]) (simp add: delete_artifact_db_ok)
  note step = leads_bind [OF keeps_ready_sign ready_db_ok this]
  have opt: "leads P (case x of None \<Rightarrow> raiseM e | Some p \<Rightarrow> f p) db_ok"
    if "\<And>w. P w \<Longrightarrow> db_ok w" "\<And>p. leads P (f p) db_ok" for P x e and f :: "'b \<Rightarrow> 'c doc_meth"
    using that by (auto simp: leads_def split: option.split)
  show ?thesis
    unfolding extend_signed_def
    by (intro leads_if extend_annual_validity_db_ok leads_bind [OF keeps_ready_resolve ready_db_ok]
        opt step ready_db_ok)
qed

lemma start_workflow_api_db_ok:
  "leads (ready st (v_status st = APPROVED)) (start_workflow env st p pid a r) db_ok"
  unfolding start_workflow_def Let_def
  by (intro leads_guard ready_db_ok start_workflow_db_ok)

lemma changed_metadata_simps [simp]:
  "v_document_id (changed_metadata st c) = v_document_id st" "v_version (changed_metadata st c) = v_version st"
  "v_status (changed_metadata st c) = v_status st"
  by (simp_all add: changed_metadata_def)

lemma update_version_metadata_db_ok:
  "leads (ready st (v_status st = APPROVED)) (update_version_metadata env st c a r) db_ok"
proof (cases "a = None \<or> r = None")
  case True
  then show ?thesis
    by (auto simp: update_version_metadata_def leads_def ready_db_ok split: option.split)
next
  case False
  then obtain x y where "a = Some x" "r = Some y" by auto
  then show ?thesis
    unfolding update_version_metadata_def
    by (simp only: prod.case option.case) (intro leads_guard ready_db_ok publish_and_store_leads; simp)
qed

lemma add_change_request_db_ok:
  "leads (ready st (v_status st = APPROVED)) (add_change_request env st cid reason refs a r) db_ok"
proof -
  have tail: "leads (ready st (v_status st = APPROVED)) (bindM (liftE g) (\<lambda>_. bindM (utcnow env)
      (\<lambda>now. publish_and_store env n (st\<lparr>v_custom_fields := f now\<rparr>) p ac))) db_ok" for g f n p ac
    by (intro leads_guard leads_bind [OF keeps_ready_utcnow ready_db_ok] ready_db_ok publish_and_store_leads; simp)
  have fail: "leads (ready st (v_status st = APPROVED)) (raiseM e) db_ok" for e :: doc_error
    by (simp add: leads_def ready_db_ok)
  show ?thesis
    unfolding add_change_request_def
    by (intro leads_guard ready_db_ok) (auto split: prod.split pyval.split intro: tail fail)
qed

lemma run_call_db_ok:
  "leads (ready cur (v_status cur = APPROVED)) (run_call env call uid role cur) db_ok"
proof (cases call)
  case (CallExtend req d reason out)
  have "keeps db_ok (retM (fst r))" for r :: "version_state \<times> bool"
    by (rule keeps_retM)
  then show ?thesis unfolding CallExtend run_call.simps by (intro leads_then extend_signed_db_ok)
qed (simp_all add: assign_workflow_roles_db_ok start_workflow_api_db_ok complete_editing_db_ok
    accept_review_db_ok reject_review_db_ok accept_approval_db_ok reject_approval_db_ok
    abort_workflow_db_ok archive_approved_db_ok create_new_version_db_ok
    update_version_metadata_db_ok add_change_request_db_ok)

section \<open>The optimistic lock\<close>

lemma get_row_is_current:
  assumes "get_row (db_versions (w_db w)) doc ver = Some cur" and "db_ok w"
  shows "ready cur (v_status cur = APPROVED) w"
proof -
  obtain r where r: "find_row (db_versions (w_db w)) (doc, ver) = Some r" "cur = row_to_state r"
    using assms(1) by (auto simp: get_row_def)
  then have "version_key r = (doc, ver)" using find_row_SomeD by blast
  then have "v_document_id cur = doc" "v_version cur = ver" using r(2) by (simp_all add: version_key_def)
  with r assms(2) show ?thesis by (simp add: ready_def row_approved_def)
qed

text \<open>The lock opened up: what each of its outcomes means.\<close>

lemma mutate_cases:
  assumes "mutate_version_if_current doc ver expected op a r act owner w = (res, w')"
  obtains (refused) e where "res = Inl e" "w' = w"
  | (ran) cur w1 where "get_row (db_versions (w_db w)) doc ver = Some cur" "v_last_event_id cur = expected"
      "authorize cur a r act owner = Inr None" "op cur w = (res, w1)"
      "w' = (case res of Inl _ \<Rightarrow> w1\<lparr>w_db := w_db w\<rparr> | Inr _ \<Rightarrow> w1)"
      "\<And>x y. a = Some x \<Longrightarrow> r = Some y \<Longrightarrow> has_read_access cur x y"
proof (cases "get_row (db_versions (w_db w)) doc ver")
  case None
  then show thesis
    using refused [of not_found] assms
    by (simp add: mutate_version_if_current_def get_document_version_def write_transaction_def)
next
  case (Some cur)
  let ?vis = "both a r (\<lambda>a r. raise_if (\<not> has_read_access cur a r) not_found)"
  show thesis
  proof (cases "\<exists>e. ?vis = Inl e")
    case True
    then obtain e where "?vis = Inl e" by blast
    with Some show thesis
      using refused [of e] assms
      by (simp add: mutate_version_if_current_def get_document_version_def write_transaction_def)
  next
    case False
    then have vis: "?vis = Inr ()" by (cases ?vis) auto
    show thesis
    proof (cases "authorize cur a r act owner")
      case (Inl e)
      with Some vis show thesis
        using refused [of e] assms
        by (simp add: mutate_version_if_current_def get_document_version_def write_transaction_def)
    next
      case (Inr au)
      show thesis
      proof (cases "v_last_event_id cur = expected \<and> au = None")
        case True
        obtain r1 w1 where run: "op cur w = (r1, w1)" by fastforce
        have eq: "res = r1 \<and> w' = (case r1 of Inl _ \<Rightarrow> w1\<lparr>w_db := w_db w\<rparr> | Inr _ \<Rightarrow> w1)"
          using assms Some vis Inr True run
          by (cases r1) (auto simp add: mutate_version_if_current_def get_document_version_def write_transaction_def)
        have acc: "has_read_access cur x y" if "a = Some x" "r = Some y" for x y
          using vis that by simp
        show thesis
          by (rule ran [OF Some _ _ _ _ acc]) (use True Inr run eq in simp_all)
      next
        case False
        then obtain e where "res = Inl e \<and> w' = w"
          using assms Some vis Inr
          by (cases "v_last_event_id cur = expected"; cases au)
             (auto simp: mutate_version_if_current_def get_document_version_def write_transaction_def)
        then show thesis using refused by blast
      qed
    qed
  qed
qed

lemma mutate_db_ok:
  assumes "\<And>cur. leads (ready cur (v_status cur = APPROVED)) (op cur) db_ok" and "\<And>cur. fails_clean (op cur)"
  shows "keeps db_ok (mutate_version_if_current doc ver expected op a r act owner)"
proof (rule keepsI)
  fix w assume w: "db_ok w"
  obtain res w' where run: "mutate_version_if_current doc ver expected op a r act owner w = (res, w')" by fastforce
  then have "db_ok w'"
  proof (cases rule: mutate_cases)
    case (refused e)
    then show ?thesis using w by simp
  next
    case (ran cur w1)
    have ok1: "db_ok w1"
      using leadsD [OF assms(1) get_row_is_current [OF ran(1) w]] ran(4) by simp
    show ?thesis
    proof (cases res)
      case (Inl e)
      then have "db_versions (w_db w1) = db_versions (w_db w)"
        using assms(2) ran(4) unfolding fails_clean_def by blast
      then show ?thesis using ok1 ran(5) Inl by (simp add: db_ok_def)
    qed (use ok1 ran(5) in simp)
  qed
  then show "db_ok (after (mutate_version_if_current doc ver expected op a r act owner w))" using run by simp
qed

lemma api_call_db_ok: "keeps db_ok (api_call env doc ver if_match uid role call)"
  unfolding api_call_def by (rule mutate_db_ok) (rule run_call_db_ok, rule fails_clean_run_call)

section \<open>Creating versions\<close>

lemma sync_registry_none:
  assumes "v_workflow_profile st = None"
  shows "sync_registry env st None w =
     (Inr (), w\<lparr>w_ticks := Suc (w_ticks w), w_registry := (w_registry w)(v_document_id st \<mapsto>
        projected_entry (clock env (w_ticks w)) (w_registry w (v_document_id st)) (v_document_id st) (v_version st)
          (status_value (v_status st)) WORKFLOW None (v_valid_from st) (v_valid_until st) None)\<rparr>)"
  by (simp add: sync_registry_def apply_documents_projection_def apply_documents_state_def utcnow_def bindM_Inr
      assms release_mode_of_value_def Let_def)

lemma upsert_header_rows [simp]: "db_versions (upsert_header now h db) = db_versions db"
  by (simp add: upsert_header_def Let_def)

lemma store_header_same_rows: "keeps (same_rows rows reg) (store_header env h)"
  unfolding store_header_def by (intro keeps_intros) simp_all

lemma created_state_simps [simp]:
  "v_document_id (created_state d n rq cc p now) = d" "v_version (created_state d n rq cc p now) = n"
  "v_status (created_state d n rq cc p now) = PLANNED" "v_workflow_profile (created_state d n rq cc p now) = None"
  by (simp_all add: created_state_def)

text \<open>Store and project a planned version whose row was not approved.\<close>

definition plan_row :: "docs_env \<Rightarrow> version_state \<Rightarrow> version_state doc_meth" where
  "plan_row env st = bindM (store_state env st) (\<lambda>_. bindM (sync_registry env st None) (\<lambda>_. retM st))"

lemma plan_row_cases:
  assumes "plan_row env st w = (r, w')" and "v_status st = PLANNED" and "v_workflow_profile st = None"
    and "db_ok w" and "\<not> row_approved (db_versions (w_db w)) (v_document_id st) (v_version st)"
  shows "(\<exists>e. r = Inl e) \<and> w_registry w' = w_registry w \<or> r = Inr st \<and> ready st False w'"
proof (cases "state_consistent st")
  case False
  then have "store_state env st w = (Inl (projl (assert_state_invariants st)), w)"
    using store_state_eq [of env st w] assert_state_invariants_iff [of st]
    by (cases "assert_state_invariants st") auto
  then show ?thesis using assms(1) by (auto simp add: plan_row_def bindM_Inl)
next
  case True
  let ?rows = "db_versions (w_db w)"
  have ok: "rows_ok ?rows" and agree: "register_agrees ?rows (w_registry w)" using assms(4) by (simp_all add: db_ok_def)
  have d: "distinct (map version_key ?rows)" using ok unfolding rows_ok_def by blast
  have nv: "\<not> one_approved_violation ?rows st" using assms(2) by (simp add: one_approved_violation_def)
  have run: "plan_row env st w = (Inr st, after (sync_registry env st None (stored env st w)))"
    using True nv assms(3) by (simp add: plan_row_def bindM_Inr store_state_eq sync_registry_none)
  have "ready st False w'"
    using assms(1) commit_rows_ok(2) [OF ok True nv] register_agrees_commit [OF agree d nv] assms(2,3,5)
    unfolding run sync_registry_none [OF assms(3)]
    by (auto simp: ready_def db_ok_def row_approved_upsert_rows version_key_def)
  then show ?thesis using assms(1) run by simp
qed

lemma same_rows_db_ok: "same_rows (db_versions (w_db w)) (w_registry w) w' \<Longrightarrow> db_ok w' = db_ok w"
  by (simp add: same_rows_def db_ok_def)

lemma create_document_version_cases:
  assumes run: "create_document_version env doc ver rq w = (r, w')" and w: "db_ok w"
  shows "db_ok w'" and "r = Inr st \<Longrightarrow> ready st False w' \<and> v_status st = PLANNED"
proof -
  let ?st = "\<lambda>cc p now. created_state doc ver rq cc p now"
  let ?body = "\<lambda>cc p now. bindM (utcnow env) (\<lambda>h1. bindM (utcnow env) (\<lambda>h2.
      bindM (store_header env (new_header doc (cr_doc_type rq) cc p h1 h2)) (\<lambda>_. plan_row env (?st cc p now))))"
  have body: "(\<exists>e. r1 = Inl e) \<and> w_registry w1 = w_registry w0 \<or> r1 = Inr (?st cc p now) \<and> ready (?st cc p now) False w1"
    if run: "?body cc p now w0 = (r1, w1)" and w0: "db_ok w0" "get_row (db_versions (w_db w0)) doc ver = None"
    for cc p now w0 r1 w1
  proof -
    define w2 where "w2 = w0\<lparr>w_ticks := Suc (Suc (w_ticks w0))\<rparr>"
    define h where "h = new_header doc (cr_doc_type rq) cc p (clock env (w_ticks w0)) (clock env (Suc (w_ticks w0)))"
    have run2: "bindM (store_header env h) (\<lambda>_. plan_row env (?st cc p now)) w2 = (r1, w1)"
      using run by (simp add: bindM_Inr utcnow_def w2_def h_def)
    obtain r3 w3 where hd: "store_header env h w2 = (r3, w3)" by fastforce
    have same: "same_rows (db_versions (w_db w0)) (w_registry w0) w3"
      by (rule keeps_run [OF store_header_same_rows _ hd]) (simp add: w2_def same_rows_def)
    show ?thesis
    proof (cases r3)
      case (Inl e)
      then show ?thesis using run2 hd same by (auto simp add: bindM_Inl same_rows_def)
    next
      case (Inr u)
      then have run3: "plan_row env (?st cc p now) w3 = (r1, w1)" using run2 hd by (simp add: bindM_Inr)
      have "\<not> row_approved (db_versions (w_db w3)) (v_document_id (?st cc p now)) (v_version (?st cc p now))"
        using w0(2) same by (simp add: same_rows_def row_approved_def get_row_def)
      from plan_row_cases [OF run3 _ _ _ this] show ?thesis
        using same w0(1) same_rows_db_ok [OF same] by (auto simp: same_rows_def)
    qed
  qed
  have guards: "(\<exists>e. r = Inl e \<and> w' = w) \<or>
      (\<exists>cc p. get_row (db_versions (w_db w)) doc ver = None \<and>
        write_transaction (bindM (utcnow env) (?body cc p)) w = (r, w'))"
    using run unfolding create_document_version_def plan_row_def [symmetric] get_document_version_def Let_def
    by (auto simp: bindM_liftE raise_if_def bindM_basic write_transaction_def split: sum.splits if_splits)
  from guards have "db_ok w' \<and> (r = Inr st \<longrightarrow> ready st False w' \<and> v_status st = PLANNED)"
  proof (elim disjE exE conjE)
    fix e assume "r = Inl e" "w' = w"
    then show ?thesis using w by simp
  next
    fix cc p
    assume none: "get_row (db_versions (w_db w)) doc ver = None"
      and tx: "write_transaction (bindM (utcnow env) (?body cc p)) w = (r, w')"
    let ?w = "w\<lparr>w_ticks := Suc (w_ticks w)\<rparr>" and ?now = "clock env (w_ticks w)"
    obtain r1 w1 where b: "?body cc p ?now ?w = (r1, w1)" by fastforce
    then have tx': "(r, w') = (case r1 of Inl e \<Rightarrow> (Inl e, w1\<lparr>w_db := w_db w\<rparr>) | Inr x \<Rightarrow> (Inr x, w1))"
      using tx by (simp add: write_transaction_def bindM_Inr utcnow_def)
    from body [OF b] w none have "(\<exists>e. r1 = Inl e) \<and> w_registry w1 = w_registry w
        \<or> r1 = Inr (?st cc p ?now) \<and> ready (?st cc p ?now) False w1" by simp
    then show ?thesis
      using tx' w by (auto simp: db_ok_def ready_def)
  qed
  then show "db_ok w'" "r = Inr st \<Longrightarrow> ready st False w' \<and> v_status st = PLANNED" by auto
qed

lemma ensure_document_version_cases:
  assumes run: "ensure_document_version env doc ver rq w = (r, w')" and w: "db_ok w"
  shows "db_ok w' \<and> (\<forall>st. r = Inr st \<longrightarrow> ready st (v_status st = APPROVED) w')"
proof (cases "get_row (db_versions (w_db w)) doc ver")
  case (Some cur)
  then show ?thesis
    using run w get_row_is_current [OF Some w]
    by (auto simp add: ensure_document_version_def get_document_version_def)
next
  case None
  obtain r1 w1 where c: "create_document_version env doc ver rq w = (r1, w1)" by fastforce
  note created = create_document_version_cases [OF c w]
  show ?thesis
  proof (cases "r1 = Inl DocumentConflictError")
    case True
    then show ?thesis
      using run None c created(1) get_row_is_current [OF _ created(1)]
      by (auto simp: ensure_document_version_def get_document_version_def split: option.splits)
  next
    case False
    then have "r = r1 \<and> w' = w1"
      using run None c
      by (auto simp: ensure_document_version_def get_document_version_def split: sum.splits doc_error.splits)
    then show ?thesis using created ready_approved_cong by blast
  qed
qed

section \<open>Reachable worlds\<close>

lemma keeps_forget: "keeps I m \<Longrightarrow> keeps I (forget m)"
  unfolding forget_def by (intro keeps_bindM keeps_retM)

lemma api_create_db_ok: "keeps db_ok (api_create env doc ver rq actor d)"
proof -
  have "keeps db_ok (create_document_version env doc ver rq')" for rq'
    unfolding keeps_def using create_document_version_cases(1) by (metis prod.collapse)
  then show ?thesis
    unfolding api_create_def split_def by (intro keeps_bindM keeps_liftE)
qed

lemma import_db_ok:
  assumes "\<And>st. leads (ready st (v_status st = APPROVED)) (f st) db_ok"
  shows "keeps db_ok (bindM (ensure_document_version env doc ver rq) (\<lambda>st. bindM (liftE (g st)) (\<lambda>_. f st)))"
proof (rule keeps_bindM_result)
  show "keeps db_ok (ensure_document_version env doc ver rq)"
    unfolding keeps_def using ensure_document_version_cases by (metis prod.collapse)
next
  fix st w w'
  assume "db_ok w" "ensure_document_version env doc ver rq w = (Inr st, w')"
  then have "ready st (v_status st = APPROVED) w'" using ensure_document_version_cases by blast
  moreover have "leads (ready st (v_status st = APPROVED)) (bindM (liftE (g st)) (\<lambda>_. f st)) db_ok"
    by (intro leads_guard ready_db_ok assms)
  ultimately show "db_ok (after (bindM (liftE (g st)) (\<lambda>_. f st) w'))" by (rule leadsD [rotated])
qed

lemma header_update_same_rows: "keeps (same_rows rows reg) (update_document_header env doc c a r)"
proof -
  have allowed: "keeps (same_rows rows reg) (assert_workflow_profile_update_allowed env doc cc p)" for cc p
    unfolding assert_workflow_profile_update_allowed_def list_versions_def by (intro keeps_intros)
  show ?thesis
    unfolding update_document_header_def Let_def by (intro keeps_intros allowed) simp_all
qed

lemma header_update_if_current_same_rows:
  "keeps (same_rows rows reg) (update_document_header_if_current env doc ex c a r)"
proof -
  have policy: "keeps (same_rows rows reg) (version_state_for_document_policy doc)"
    unfolding version_state_for_document_policy_def list_versions_def
    by (intro keeps_intros) (simp split: list.split add: keeps_retM keeps_raiseM)
  show ?thesis
    unfolding update_document_header_if_current_def
    by (rule keeps_write_transaction)
       (auto intro!: keeps_intros policy header_update_same_rows simp: same_rows_def split: option.split)
qed

lemma run_request_db_ok: "keeps db_ok (run_request env rq)"
proof (cases rq)
  case (EditHeader doc ex c a r)
  have "keeps db_ok (update_document_header_if_current env doc ex c a r)"
  proof (rule keepsI)
    fix w assume "db_ok w"
    moreover have "same_rows (db_versions (w_db w)) (w_registry w)
        (after (update_document_header_if_current env doc ex c a r w))"
      by (rule keepsD [OF header_update_if_current_same_rows]) (simp add: same_rows_def)
    ultimately show "db_ok (after (update_document_header_if_current env doc ex c a r w))"
      using same_rows_db_ok by blast
  qed
  then show ?thesis unfolding EditHeader run_request.simps by (rule keeps_forget)
qed (auto intro!: keeps_forget api_call_db_ok api_create_db_ok keeps_bindM keeps_readM keeps_liftE import_db_ok
      import_source_leads simp: import_existing_pdf_def import_existing_docx_def create_from_template_def)

lemma reachable_db_ok: "reachable env w \<Longrightarrow> db_ok w"
proof (induction rule: reachable.induct)
  case (start files)
  then show ?case by (simp add: db_ok_def empty_world_def rows_ok_def register_agrees_def row_approved_def)
next
  case (step w rq)
  then show ?case using keepsD [OF run_request_db_ok] by blast
qed simp

section \<open>What a failed request leaves\<close>

text \<open>Of a document version without a row, the planned version and the header of the document; nothing else.\<close>

definition only_planned :: "string \<Rightarrow> int \<Rightarrow> docs_db \<Rightarrow> docs_db \<Rightarrow> bool" where
  "only_planned doc ver db db' \<longleftrightarrow> get_row (db_versions db) doc ver = None \<and>
     (\<exists>st. get_row (db_versions db') doc ver = Some st \<and> v_status st = PLANNED) \<and>
     (\<forall>d v. (d, v) \<noteq> (doc, ver) \<longrightarrow> get_row (db_versions db') d v = get_row (db_versions db) d v) \<and>
     (\<forall>d. d \<noteq> doc \<longrightarrow> get_header db' d = get_header db d) \<and> db_artifacts db' = db_artifacts db"

lemma create_fails: "create_document_version env doc ver rq w = (Inl e, w') \<Longrightarrow> w_db w' = w_db w"
  by (auto simp: create_document_version_def Let_def bindM_liftE raise_if_def write_transaction_Inl split: sum.splits if_splits)

lemma find_rewritten:
  "(\<And>x. P (f x) \<longleftrightarrow> P x) \<Longrightarrow> (\<And>x. P x \<Longrightarrow> f x = x) \<Longrightarrow> List.find P (map f xs) = List.find P xs"
  by (induction xs) auto

lemma get_header_upsert:
  assumes "d \<noteq> h_document_id h"
  shows "get_header (upsert_header now h db) d = get_header db d"
  using assms by (auto simp: get_header_def upsert_header_def Let_def find_append find_rewritten split: option.split)

lemma upsert_header_same:
  "db_versions (upsert_header now h db) = db_versions db" "db_artifacts (upsert_header now h db) = db_artifacts db"
  by (simp_all add: upsert_header_def Let_def)

lemma store_header_leaves:
  assumes "store_header env h w = (Inr u, w')"
  shows "db_versions (w_db w') = db_versions (w_db w) \<and> db_artifacts (w_db w') = db_artifacts (w_db w) \<and>
    (\<forall>d. d \<noteq> h_document_id h \<longrightarrow> get_header (w_db w') d = get_header (w_db w) d)"
  using assms by (auto simp: store_header_def bindM_liftE get_header_upsert utcnow_def upsert_header_same split: option.splits sum.splits)

lemma create_leaves:
  assumes "create_document_version env doc ver rq w = (Inr st, w')"
  shows "only_planned doc ver (w_db w) (w_db w')"
proof -
  obtain cc p now t a b n w2 w3 where none: "get_row (db_versions (w_db w)) doc ver = None"
      and h: "store_header env (new_header doc t cc p a b) (w\<lparr>w_ticks := n\<rparr>) = (Inr (), w2)"
      and s: "store_state env (created_state doc ver rq cc p now) w2 = (Inr (), w3)"
      and r: "sync_registry env (created_state doc ver rq cc p now) None w3 = (Inr (), w')"
    using assms unfolding create_document_version_def get_document_version_def Let_def
    by (auto simp: bindM_liftE raise_if_def write_transaction_Inr bindM_Inr [where m = "utcnow env"] utcnow_def
      bindM_eq_Inr split: sum.splits if_splits)
  have id: "h_document_id (new_header doc t cc p a b) = doc" by (simp add: new_header_def)
  let ?st = "created_state doc ver rq cc p now"
  have w': "w_db w' = w_db w3" using r by (simp add: sync_registry_none) auto
  have "w_db w3 = (w_db w2)\<lparr>db_versions := upsert_rows (clock env (w_ticks w2)) ?st (db_versions (w_db w2))\<rparr>"
    using s assert_state_invariants_iff by (auto simp: store_state_eq stored_def with_rows_def split: if_splits)
  with w' store_header_leaves [OF h] id none show ?thesis
    by (auto simp: only_planned_def get_row_upsert_rows version_key_def get_header_def)
qed

lemma ensure_leaves:
  assumes "ensure_document_version env doc ver rq w = (r, w')"
  shows "w_db w' = w_db w \<or> (\<exists>st. r = Inr st) \<and> only_planned doc ver (w_db w) (w_db w')"
proof (cases "get_row (db_versions (w_db w)) doc ver")
  case (Some cur)
  then show ?thesis using assms by (auto simp: ensure_document_version_def get_document_version_def)
next
  case None
  obtain r1 w1 where c: "create_document_version env doc ver rq w = (r1, w1)" by fastforce
  show ?thesis
  proof (cases r1)
    case (Inl e)
    have same: "w_db w1 = w_db w" using create_fails c Inl by blast
    then have "get_document_version doc ver w1 = (Inr None, w1)" using None by (simp add: get_document_version_def)
    then have "w' = w1" using assms None c Inl
      by (cases e) (simp_all add: ensure_document_version_def get_document_version_def)
    then show ?thesis using same by simp
  next
    case (Inr st)
    then show ?thesis using assms None c create_leaves [of env doc ver rq w st w1]
      by (auto simp: ensure_document_version_def get_document_version_def)
  qed
qed

lemma import_leaves:
  assumes "bindM (ensure_document_version env doc ver rq) (\<lambda>st. bindM (liftE (g st)) (\<lambda>_. write_transaction (f st))) w = (Inl e, w')"
  shows "w_db w' = w_db w \<or> only_planned doc ver (w_db w) (w_db w')"
proof -
  obtain r w1 where en: "ensure_document_version env doc ver rq w = (r, w1)" by fastforce
  have "w_db w' = w_db w1"
    using assms en by (cases r) (auto simp: bindM_Inl bindM_Inr bindM_liftE write_transaction_Inl split: sum.splits)
  then show ?thesis using ensure_leaves [OF en] by auto
qed

text \<open>The requests of two transactions: the version is ensured first, the file is registered second.\<close>

fun import_of :: "doc_request \<Rightarrow> (string \<times> int) option" where
  "import_of (ImportPdf doc ver _ _ _) = Some (doc, ver)"
| "import_of (ImportDocx doc ver _ _ _) = Some (doc, ver)"
| "import_of (FromTemplate doc ver _ _ _) = Some (doc, ver)"
| "import_of _ = None"

lemma forget_Inl: "forget m w = (Inl e, w') \<longleftrightarrow> m w = (Inl e, w')"
  by (auto simp: forget_def bindM_eq_Inl)

lemma failed_request_leaves:
  assumes "run_request env rq w = (Inl e, w')"
  shows "w_db w' = w_db w \<or> (\<exists>doc ver. import_of rq = Some (doc, ver) \<and> only_planned doc ver (w_db w) (w_db w'))"
proof (cases rq)
  case (Request doc ver tok uid role call)
  then have "mutate_version_if_current doc ver tok (run_call env call uid role)
      (Some uid) (Some role) (Some (action_of call)) False w = (Inl e, w')"
    using assms by (auto simp: forget_Inl api_call_def)
  then show ?thesis by (cases rule: mutate_cases) simp_all
next
  case (Create doc ver r actor d)
  then have "api_create env doc ver r actor d w = (Inl e, w')" using assms by (auto simp: forget_Inl)
  then show ?thesis
    unfolding api_create_def by (auto simp: bindM_liftE split_def dest: create_fails split: sum.splits)
next
  case (EditHeader doc tok c uid role)
  then show ?thesis
    using assms by (auto simp: forget_Inl update_document_header_if_current_def write_transaction_Inl)
next
  case (ImportPdf doc ver src uid role)
  then show ?thesis
    using assms by (auto simp: forget_Inl import_existing_pdf_def import_source_def bindM_liftE bindM_basic split: sum.splits dest!: import_leaves)
next
  case (ImportDocx doc ver src uid role)
  then show ?thesis
    using assms by (auto simp: forget_Inl import_existing_docx_def import_source_def bindM_liftE bindM_basic split: sum.splits dest!: import_leaves)
next
  case (FromTemplate doc ver src uid role)
  then show ?thesis
    using assms by (auto simp: forget_Inl create_from_template_def import_source_def bindM_liftE bindM_basic split: sum.splits dest!: import_leaves)
qed

lemma row_approved_get: "row_approved rows d v \<longleftrightarrow> (\<exists>st. get_row rows d v = Some st \<and> v_status st = APPROVED)"
  by (auto simp: row_approved_def get_row_def split: option.splits)

lemma failed_request_register:
  assumes "db_ok w" and "run_request env rq w = (Inl e, w')"
  shows "Option.bind (w_registry w' d) r_active_version = Option.bind (w_registry w d) r_active_version"
proof -
  have "db_ok w'" using keepsD [OF run_request_db_ok assms(1), of env rq] assms(2) by simp
  moreover have "row_approved (db_versions (w_db w')) d v \<longleftrightarrow> row_approved (db_versions (w_db w)) d v" for v
  proof -
    consider "w_db w' = w_db w" | doc ver where "only_planned doc ver (w_db w) (w_db w')"
      using failed_request_leaves [OF assms(2)] by blast
    then show ?thesis
    proof cases
      case 1
      then show ?thesis by simp
    next
      case 2
      then show ?thesis unfolding row_approved_get by (cases "(d, v) = (doc, ver)") (auto simp: only_planned_def)
    qed
  qed
  ultimately have "Option.bind (w_registry w' d) r_active_version = Some v \<longleftrightarrow> Option.bind (w_registry w d) r_active_version = Some v" for v
    using assms(1) by (simp add: db_ok_def register_agrees_def)
  then show ?thesis by (metis option.exhaust)
qed

end
