(* ===== verification/RowInvariants.thy ===== *)
theory RowInvariants
  imports DocApiLaws
begin

text \<open>
  Invariants of the rows of the version table. The locale \<open>row_invariant\<close> is the contract of a
  predicate on version states with the operations: each state transformer of the service keeps it
  under the guards that precede it in the code. Inside the locale every request is shown to keep the
  predicate on all rows, so that it holds in every reachable world. The interpretations at the end
  are the invariants of the product: four eyes, evidence of the edit signature, no steering data in
  custom fields, complete release stamps.
\<close>

text \<open>All rows satisfy \<open>P\<close>, and the keys in \<open>K\<close> have a row.\<close>

definition all_rows :: "(version_state \<Rightarrow> bool) \<Rightarrow> (string \<times> int) set \<Rightarrow> docs_world \<Rightarrow> bool" where
  "all_rows P K w \<longleftrightarrow> (\<forall>r \<in> set (db_versions (w_db w)). P r) \<and> K \<subseteq> version_key ` set (db_versions (w_db w))"

lemma all_rows_db: "db_versions (w_db w') = db_versions (w_db w) \<Longrightarrow> all_rows P K w' = all_rows P K w"
  by (simp add: all_rows_def)

lemma keeps_all_rows_quiet: "rows_keep m \<Longrightarrow> keeps (all_rows P K) m"
  by (rule keepsI) (simp add: rows_keep_def all_rows_def)

lemma keeps_all_rows_transaction: "keeps (all_rows P K) m \<Longrightarrow> keeps (all_rows P K) (write_transaction m)"
  by (rule keeps_write_transaction) (simp_all add: all_rows_def)

lemma keys_upsert_rows:
  "version_key ` set (upsert_rows now st rows) = insert (version_key st) (version_key ` set rows)"
proof -
  have "set (map version_key (upsert_rows now st rows)) = insert (version_key st) (set (map version_key rows))"
    unfolding map_version_key_upsert_rows by (auto simp: find_row_None_iff)
      (metis find_row_SomeD image_eqI option.exhaust_sel)
  then show ?thesis by simp
qed

lemma fresh_key:
  assumes "all_rows P K w" and "get_row (db_versions (w_db w)) d v = None"
  shows "(d, v) \<notin> K"
proof
  assume "(d, v) \<in> K"
  then have "(d, v) \<in> version_key ` set (db_versions (w_db w))" using assms(1) by (auto simp: all_rows_def)
  moreover have "\<forall>r \<in> set (db_versions (w_db w)). version_key r \<noteq> (d, v)"
    using assms(2) by (simp add: get_row_def find_row_None_iff)
  ultimately show False by (metis imageE)
qed

lemma keeps_get_fresh:
  assumes "(d, v) \<notin> K \<Longrightarrow> keeps (all_rows P K) (f None)" and "\<And>cur. keeps (all_rows P K) (f (Some cur))"
  shows "keeps (all_rows P K) (bindM (get_document_version d v) f)"
proof (rule keepsI)
  fix w assume w: "all_rows P K w"
  have run: "bindM (get_document_version d v) f w = f (get_row (db_versions (w_db w)) d v) w"
    by (simp add: get_document_version_def)
  show "all_rows P K (after (bindM (get_document_version d v) f w))"
  proof (cases "get_row (db_versions (w_db w)) d v")
    case None
    then show ?thesis unfolding run using keepsD [OF assms(1) w] fresh_key [OF w None] by simp
  next
    case (Some cur)
    then show ?thesis unfolding run using keepsD [OF assms(2) w] by simp
  qed
qed

lemma rows_keep_publish: "rows_keep (publish_event env n st p a)"
  by (simp add: rows_keep_def)

lemma rows_keep_sync: "rows_keep (sync_registry env st ev)"
proof -
  have k: "keeps (\<lambda>w. db_versions (w_db w) = rows) (sync_registry env st ev)" for rows
    by (rule keeps_sync_registry) simp_all
  show ?thesis
    unfolding rows_keep_def
  proof
    fix w
    show "db_versions (w_db (after (sync_registry env st ev w))) = db_versions (w_db w)"
      by (rule keepsD [OF k]) (rule refl)
  qed
qed

lemma rows_keep_audit: "rows_keep (emit_audit a b c d)"
  by (simp add: rows_keep_def)

lemma rows_keep_finish:
  "rows_keep (no_finish st)" "rows_keep (ensure_release_pdf_artifact env st)"
  "rows_keep (if v_status st = APPROVED then ensure_release_pdf_artifact env st else retM ())"
  by (auto simp: no_finish_def intro: rows_keep_basic rows_keep_same_rows ensure_release_same_rows)

lemma rows_keep_snapshot: "rows_keep (build_distribution_snapshot env st)"
  by (intro rows_keep_same_rows build_snapshot_keeps) simp

lemma rows_keep_create_artifact: "rows_keep (create_artifact env st src t k md)"
  by (intro rows_keep_same_rows create_artifact_same_rows)

lemma rows_keep_store_header: "rows_keep (store_header env h)"
  by (intro rows_keep_same_rows store_header_same_rows)

lemma keeps_all_rows_audited: "keeps (all_rows P K) m \<Longrightarrow> keeps (all_rows P K) (audited a t r m)"
  unfolding audited_def
  by (rule keeps_bindM, assumption) (intro keeps_bindM keeps_retM keeps_all_rows_quiet [OF rows_keep_audit])

locale row_invariant =
  fixes P :: "version_state \<Rightarrow> bool" and K :: "(string \<times> int) set" and good_profile :: "workflow_profile \<Rightarrow> bool"
  assumes read: "P r \<Longrightarrow> P (row_to_state r)"
    and merge: "P st \<Longrightarrow> (\<And>o'. old = Some o' \<Longrightarrow> P o') \<Longrightarrow> P (merge_row now old st)"
    and stamp: "P st \<Longrightarrow> P (stamp_event_on_state st ev a)"
    and created: "assert_custom_fields_safe (cr_custom_fields rq) = Inr () \<Longrightarrow> (doc, n) \<notin> K \<Longrightarrow>
      P (created_state doc n rq cc p now)"
    and next_version: "P st \<Longrightarrow> (v_document_id st, n) \<notin> K \<Longrightarrow> P (next_version_of st n now a)"
    and linked: "P st \<Longrightarrow> v_status st = ARCHIVED \<Longrightarrow> P (st\<lparr>v_superseded_by_version := n'\<rparr>)"
    and assigned: "P st \<Longrightarrow> P (st\<lparr>v_assignments := asg\<rparr>)"
    and start: "P st \<Longrightarrow> v_status st = PLANNED \<Longrightarrow> good_profile pr \<Longrightarrow> assert_profile pr = Inr () \<Longrightarrow> P (started st pr)"
    and edit: "P st \<Longrightarrow> v_status st = IN_PROGRESS \<Longrightarrow> v_workflow_active st \<Longrightarrow> v_workflow_profile st = Some pr \<Longrightarrow>
      next_status_from_profile (Some pr) IN_PROGRESS = Inr s \<Longrightarrow> P (edited st s (Some a') m now)"
    and review: "P st \<Longrightarrow> v_status st = IN_REVIEW \<Longrightarrow> v_workflow_active st \<Longrightarrow> v_workflow_profile st = Some pr \<Longrightarrow>
      next_status_from_profile (Some pr) IN_REVIEW = Inr s \<Longrightarrow> uid \<in> as_reviewers (v_assignments st) \<Longrightarrow>
      P (reviewed st s uid now)"
    and reject: "P st \<Longrightarrow> v_status st \<in> {IN_REVIEW, IN_APPROVAL} \<Longrightarrow> P (st\<lparr>v_status := IN_PROGRESS\<rparr>)"
    and approve: "P st \<Longrightarrow> v_status st = IN_APPROVAL \<Longrightarrow> v_workflow_active st \<Longrightarrow> v_workflow_profile st = Some pr \<Longrightarrow>
      uid \<in> as_approvers (v_assignments st) \<Longrightarrow> \<not> four_eyes_blocks st uid \<Longrightarrow> P (approved st uid now snap)"
    and supersede: "P st \<Longrightarrow> v_status st = APPROVED \<Longrightarrow> P (superseded st' st uid now)"
    and abort: "P st \<Longrightarrow> v_status st \<in> {IN_PROGRESS, IN_REVIEW, IN_APPROVAL} \<Longrightarrow>
      P (st\<lparr>v_status := PLANNED, v_workflow_active := False\<rparr>)"
    and archive: "P st \<Longrightarrow> v_status st = APPROVED \<Longrightarrow> P (archived st now (Some uid))"
    and extend: "P st \<Longrightarrow> v_status st = APPROVED \<Longrightarrow> v_extension_count st < 3 \<Longrightarrow> 0 < d \<Longrightarrow> P (extended st now uid d rsn out)"
    and metadata: "P st \<Longrightarrow> (\<And>fs. mc_custom_fields c = Some fs \<Longrightarrow> assert_custom_fields_safe fs = Inr ()) \<Longrightarrow>
      P (changed_metadata st c)"
    and change: "P st \<Longrightarrow> P (st\<lparr>v_custom_fields := AList.update ''change_requests'' items (v_custom_fields st)\<rparr>)"
begin

lemma store_rows:
  assumes "P st"
  shows "keeps (all_rows P K) (store_state env st)"
proof (rule keepsI)
  fix w assume w: "all_rows P K w"
  have merged: "P (merge_row now (find_row (db_versions (w_db w)) (version_key st)) st)" for now
    by (rule merge [OF assms]) (use w in \<open>auto simp: all_rows_def dest: find_row_SomeD\<close>)
  have "all_rows P K (stored env st w)"
    unfolding all_rows_def stored_simps keys_upsert_rows
    using w merged by (auto simp: all_rows_def upsert_rows_def split: option.splits)
  then show "all_rows P K (after (store_state env st w))"
    using w by (simp add: store_state_eq all_rows_def)
qed

lemma commit_steps_rows:
  assumes "P st" and "\<And>s. rows_keep (fin s)"
  shows "keeps (all_rows P K) (commit_steps env name st payload actor fin)"
  unfolding commit_steps_def Let_def
  by (intro keeps_bindM store_rows assms stamp keeps_retM keeps_all_rows_quiet [OF rows_keep_publish]
      keeps_all_rows_quiet [OF rows_keep_sync] keeps_all_rows_quiet [OF assms(2)])

lemma commit_rows:
  assumes "P st" and "\<And>s. rows_keep (fin s)"
  shows "keeps (all_rows P K) (commit_version env name st payload actor fin)"
  unfolding commit_version_def by (intro keeps_all_rows_transaction commit_steps_rows assms)

lemma publish_steps_rows:
  assumes "P st"
  shows "keeps (all_rows P K) (publish_steps env name st payload actor)"
  unfolding publish_steps_def Let_def
  by (intro keeps_bindM store_rows assms stamp keeps_retM keeps_all_rows_quiet [OF rows_keep_publish]
      keeps_all_rows_quiet [OF rows_keep_sync])

lemmas quiet_rules = keeps_liftE_bindM keeps_bindM keeps_retM keeps_all_rows_quiet [OF rows_keep_enforce]
  keeps_all_rows_quiet [OF rows_keep_ensure_source] keeps_all_rows_quiet [OF rows_keep_basic(5)]
  keeps_all_rows_audited commit_rows rows_keep_finish

lemma supersede_loop_rows:
  assumes "\<forall>c \<in> set cs. P c"
  shows "keeps (all_rows P K) (supersede_loop env st uid cs)"
  using assms
proof (induction cs)
  case (Cons c cs)
  then have c: "P c" and tail: "keeps (all_rows P K) (supersede_loop env st uid cs)" by auto
  show ?case
    unfolding supersede_loop.simps
    by (intro keeps_if tail keeps_bindM keeps_retM keeps_all_rows_quiet [OF rows_keep_basic(5)] store_rows
        supersede [OF c]) simp
qed (simp add: keeps_retM)

lemma supersede_rows: "keeps (all_rows P K) (supersede_other_approved_versions env st uid)"
proof (rule keepsI)
  fix w assume w: "all_rows P K w"
  have "\<forall>c \<in> set (list_versions_rows (db_versions (w_db w)) (v_document_id st)). P c"
    using w read by (auto simp: set_list_versions_rows all_rows_def)
  from keepsD [OF supersede_loop_rows [OF this] w]
  show "all_rows P K (after (supersede_other_approved_versions env st uid w))"
    by (simp add: supersede_other_approved_versions_def list_versions_def)
qed

lemma assign_rows: "P st \<Longrightarrow> keeps (all_rows P K) (assign_workflow_roles env st e r a uid role)"
  unfolding assign_workflow_roles_def Let_def by (intro quiet_rules assigned)

lemma start_rows:
  assumes "P st" and "\<And>pid pr. profile_lookup env pid = Inr pr \<Longrightarrow> good_profile pr"
  shows "keeps (all_rows P K) (start_workflow env st p pid uid role)"
  unfolding start_workflow_def start_workflow_use_case_def Let_def
proof (intro quiet_rules)
  fix pr assume "profile_lookup env (py_strip (v_workflow_profile_id st)) = Inr pr"
  then have good: "good_profile pr" by (rule assms(2))
  fix x assume "raise_if (v_status st \<noteq> PLANNED) (InvalidTransitionError ''workflow can only start from PLANNED'') = Inr x"
  then have "v_status st = PLANNED" by simp
  moreover fix y assume "assert_profile pr = Inr y"
  then have "assert_profile pr = Inr ()" by simp
  ultimately show "P (started st pr)" using start [OF assms(1) _ good] by simp
qed

lemma editing_rows:
  assumes "P st"
  shows "keeps (all_rows P K) (complete_editing env st req actor (Some uid) role)"
  unfolding complete_editing_def
proof (intro quiet_rules keeps_if)
  have "keeps (all_rows P K) (sign_moment env st (Some uid))"
    by (rule keeps_all_rows_quiet [OF rows_keep_sign_moment])
  then show "keeps (all_rows P K) (sign_moment env st (Some uid))" .
  fix u assume "assert_active_profile st = Inr u"
  then obtain pr where a: "v_workflow_active st" "v_workflow_profile st = Some pr" by auto
  fix v assume "raise_if (v_status st \<noteq> IN_PROGRESS)
    (InvalidTransitionError ''editing can only be completed from IN_PROGRESS'') = Inr v"
  then have s: "v_status st = IN_PROGRESS" by simp
  fix n moment now assume "next_status_from_profile (v_workflow_profile st) IN_PROGRESS = Inr n"
  then show "P (edited st n (Some uid) moment now)" using edit [OF assms s a] a by simp
qed

lemma accept_review_rows:
  assumes "P st"
  shows "keeps (all_rows P K) (accept_review env st uid req actor)"
  unfolding accept_review_def
proof (intro quiet_rules)
  fix u assume "assert_active_profile st = Inr u"
  then obtain pr where a: "v_workflow_active st" "v_workflow_profile st = Some pr" by auto
  fix v assume "raise_if (v_status st \<noteq> IN_REVIEW)
    (InvalidTransitionError ''review accept can only be executed in IN_REVIEW'') = Inr v"
  then have s: "v_status st = IN_REVIEW" by simp
  fix x assume "raise_if (uid \<notin> as_reviewers (v_assignments st))
    (PermissionDeniedError ''actor is not assigned as reviewer'') = Inr x"
  then have r: "uid \<in> as_reviewers (v_assignments st)" by simp
  fix n now assume "next_status_from_profile (v_workflow_profile st) IN_REVIEW = Inr n"
  then show "P (reviewed st n uid now)" using review [OF assms s a] a r by simp
qed

lemma rejected_rows:
  "P st \<Longrightarrow> keeps (all_rows P K) (reject_review env st uid reason)"
  "P st \<Longrightarrow> keeps (all_rows P K) (reject_approval env st uid reason)"
  unfolding reject_review_def reject_approval_def by (intro quiet_rules reject; simp)+

lemma approve_transaction_rows:
  assumes "\<And>snap. P (approved st uid now snap)"
  shows "keeps (all_rows P K) (write_transaction (bindM (supersede_other_approved_versions env st uid) (\<lambda>vs.
      bindM (build_distribution_snapshot env st) (\<lambda>snap.
      commit_steps env name (approved st uid now snap) (payload vs snap) actor (ensure_release_pdf_artifact env)))))"
  by (intro keeps_all_rows_transaction keeps_bindM supersede_rows keeps_all_rows_quiet [OF rows_keep_snapshot]
      commit_steps_rows assms rows_keep_finish)

lemma accept_approval_rows:
  assumes "P st"
  shows "keeps (all_rows P K) (accept_approval env st uid req actor)"
  unfolding accept_approval_def
proof (intro quiet_rules approve_transaction_rows)
  fix u assume "assert_active_profile st = Inr u"
  then obtain pr where a: "v_workflow_active st" "v_workflow_profile st = Some pr" by auto
  fix v assume "raise_if (v_status st \<noteq> IN_APPROVAL)
    (InvalidTransitionError ''approval accept can only be executed in IN_APPROVAL'') = Inr v"
  then have s: "v_status st = IN_APPROVAL" by simp
  fix x assume "raise_if (uid \<notin> as_approvers (v_assignments st))
    (PermissionDeniedError ''actor is not assigned as approver'') = Inr x"
  moreover fix y assume "raise_if (four_eyes_blocks st uid)
    (PermissionDeniedError ''four-eyes principle prevents reviewer from approving the same version'') = Inr y"
  ultimately show "P (approved st uid now snap)" for now snap using approve [OF assms s a] by simp
qed

lemma abort_rows: "P st \<Longrightarrow> keeps (all_rows P K) (abort_workflow env st uid role)"
  unfolding abort_workflow_def by (intro quiet_rules abort; simp)

lemma archive_rows: "P st \<Longrightarrow> keeps (all_rows P K) (archive_approved env st role (Some uid))"
  unfolding archive_approved_def by (intro quiet_rules archive; simp)

lemma extend_rows:
  assumes "P st"
  shows "keeps (all_rows P K) (extend_annual_validity env st uid sig d reason out)"
  unfolding extend_annual_validity_def Let_def
  by (intro keeps_if keeps_retM keeps_liftE_bindM keeps_bindM keeps_all_rows_audited commit_rows rows_keep_finish
      keeps_all_rows_quiet [OF rows_keep_basic(5)] extend assms; simp)

lemma new_version_rows:
  assumes "P st"
  shows "keeps (all_rows P K) (create_new_version_after_archive env st n uid role)"
proof (cases "v_status st = ARCHIVED")
  case True
  show ?thesis
    unfolding create_new_version_after_archive_def Let_def
    by (intro keeps_get_fresh keeps_liftE_bindM keeps_bindM keeps_retM keeps_all_rows_audited keeps_all_rows_transaction
        store_rows stamp linked next_version assms True keeps_all_rows_quiet [OF rows_keep_publish]
        keeps_all_rows_quiet [OF rows_keep_sync] keeps_all_rows_quiet [OF rows_keep_basic(5)]) simp_all
next
  case False
  then show ?thesis
    unfolding create_new_version_after_archive_def by (intro keeps_liftE_bindM) simp
qed

lemma publish_and_store_rows: "P st \<Longrightarrow> keeps (all_rows P K) (publish_and_store env n st p a)"
  unfolding publish_and_store_def by (intro keeps_all_rows_transaction publish_steps_rows)

lemma metadata_rows:
  assumes "P st"
  shows "keeps (all_rows P K) (update_version_metadata env st c (Some uid) (Some role))"
  unfolding update_version_metadata_def prod.case option.case
  by (intro keeps_liftE_bindM publish_and_store_rows metadata assms) simp

lemma change_request_rows:
  assumes "P st"
  shows "keeps (all_rows P K) (add_change_request env st cid reason refs uid role)"
proof -
  have "keeps (all_rows P K) (bindM (utcnow env) (\<lambda>now. publish_and_store env n
      (st\<lparr>v_custom_fields := AList.update ''change_requests'' (items now) (v_custom_fields st)\<rparr>) p a))"
    for items n p a
    by (intro keeps_bindM publish_and_store_rows change assms keeps_all_rows_quiet [OF rows_keep_basic(5)])
  then show ?thesis
    unfolding add_change_request_def
    by (auto split: prod.split pyval.split intro!: keeps_liftE_bindM keeps_raiseM)
qed

lemma extend_signed_rows:
  assumes "P st"
  shows "keeps (all_rows P K) (extend_signed env st req uid d reason out)"
proof -
  have "keeps (all_rows P K) (on_error (extend_annual_validity env st uid s d reason out) (delete_artifact env a))" for s a
  proof (rule keepsI)
    fix w assume w: "all_rows P K w"
    obtain res w1 where run: "extend_annual_validity env st uid s d reason out w = (res, w1)" by fastforce
    have "all_rows P K w1" by (rule keeps_run [OF extend_rows [OF assms] w run])
    then show "all_rows P K (after (on_error (extend_annual_validity env st uid s d reason out) (delete_artifact env a) w))"
      using run by (cases res) (simp_all add: on_error_def all_rows_def)
  qed
  then show ?thesis
    unfolding extend_signed_def
    by (intro keeps_if keeps_bindM extend_rows assms keeps_case_option keeps_raiseM
        keeps_all_rows_quiet [OF rows_keep_resolve_input] keeps_all_rows_quiet [OF rows_keep_sign_and_store])
qed

lemma run_call_rows:
  assumes "P cur" and "\<And>pid pr. profile_lookup env pid = Inr pr \<Longrightarrow> good_profile pr"
  shows "keeps (all_rows P K) (run_call env call uid role cur)"
proof (cases call)
  case (CallExtend req d reason out)
  show ?thesis unfolding CallExtend run_call.simps
    by (rule keeps_bindM [OF extend_signed_rows [OF assms(1)] keeps_retM])
qed (simp_all add: assms assign_rows start_rows [OF assms] editing_rows accept_review_rows rejected_rows
    accept_approval_rows abort_rows archive_rows new_version_rows metadata_rows change_request_rows)

section \<open>Requests\<close>

lemma mutate_rows:
  assumes "\<And>cur. P cur \<Longrightarrow> keeps (all_rows P K) (op cur)"
  shows "keeps (all_rows P K) (mutate_version_if_current doc ver expected op a r act owner)"
proof (rule keepsI)
  fix w assume w: "all_rows P K w"
  obtain res w' where run: "mutate_version_if_current doc ver expected op a r act owner w = (res, w')" by fastforce
  then have "all_rows P K w'"
  proof (cases rule: mutate_cases)
    case (ran cur w1)
    have "P cur" using ran(1) w by (auto simp: get_row_def all_rows_def intro!: read dest: find_row_SomeD)
    then have "all_rows P K w1" using keepsD [OF assms w] ran(4) by fastforce
    then show ?thesis using w ran(5) by (cases res) (simp_all add: all_rows_def)
  qed (use w in simp)
  then show "all_rows P K (after (mutate_version_if_current doc ver expected op a r act owner w))" using run by simp
qed

lemma create_rows: "keeps (all_rows P K) (create_document_version env doc ver rq)"
  unfolding create_document_version_def Let_def
  by (intro keeps_get_fresh keeps_liftE_bindM keeps_all_rows_transaction keeps_bindM keeps_retM store_rows created
      keeps_all_rows_quiet [OF rows_keep_sync] keeps_all_rows_quiet [OF rows_keep_basic(5)]
      keeps_all_rows_quiet [OF rows_keep_store_header]) simp_all

text \<open>The state an import works on is a row, or one that \<open>create_document_version\<close> just made.\<close>

lemma create_result:
  assumes "create_document_version env doc ver rq w = (Inr st, w')" and "all_rows P K w"
  shows "P st"
proof -
  have c: "\<exists>cc p now. st = created_state doc ver rq cc p now \<and> assert_custom_fields_safe (cr_custom_fields rq) = Inr ()
      \<and> get_row (db_versions (w_db w)) doc ver = None"
    using assms(1) unfolding create_document_version_def get_document_version_def
    by (auto simp: Let_def write_transaction_Inr)
  then have "(doc, ver) \<notin> K" using fresh_key [OF assms(2)] by blast
  then show ?thesis using c created by blast
qed

lemma ensure_rows:
  assumes run: "ensure_document_version env doc ver rq w = (res, w')" and w: "all_rows P K w"
  shows "all_rows P K w' \<and> (\<forall>st. res = Inr st \<longrightarrow> P st)"
proof -
  have row: "P cur" if "get_row (db_versions (w_db v)) doc ver = Some cur" "all_rows P K v" for cur v
    using that by (auto simp: get_row_def all_rows_def intro!: read dest: find_row_SomeD)
  obtain r1 w1 where c: "create_document_version env doc ver rq w = (r1, w1)" by fastforce
  have w1: "all_rows P K w1" by (rule keeps_run [OF create_rows w c])
  show ?thesis
  proof (cases "get_row (db_versions (w_db w)) doc ver")
    case (Some cur)
    then show ?thesis using run w row by (auto simp: ensure_document_version_def get_document_version_def)
  next
    case None
    then show ?thesis
      using run c w1 row [OF _ w1] create_result [of env doc ver rq w _ w1] w
      by (auto simp: ensure_document_version_def get_document_version_def
          split: sum.splits doc_error.splits option.splits)
  qed
qed

lemma import_rows: "keeps (all_rows P K) (bindM (ensure_document_version env doc ver rq) (\<lambda>st. bindM (liftE (g st))
    (\<lambda>_. import_source env st src t k m n uid)))"
proof (rule keeps_bindM_result)
  show "keeps (all_rows P K) (ensure_document_version env doc ver rq)"
    unfolding keeps_def using ensure_rows by (metis prod.collapse)
next
  fix st w w'
  assume "all_rows P K w" "ensure_document_version env doc ver rq w = (Inr st, w')"
  then have st: "P st" and w': "all_rows P K w'" using ensure_rows by blast+
  have "keeps (all_rows P K) (bindM (liftE (g st)) (\<lambda>_. import_source env st src t k m n uid))"
    unfolding import_source_def
    by (intro keeps_liftE_bindM keeps_all_rows_transaction keeps_bindM publish_steps_rows st
        keeps_all_rows_quiet [OF rows_keep_create_artifact])
  from keepsD [OF this w'] show "all_rows P K (after (bindM (liftE (g st)) (\<lambda>_. import_source env st src t k m n uid) w'))" .
qed

lemma header_rows: "keeps (all_rows P K) (update_document_header_if_current env doc ex c a r)"
  by (intro keeps_all_rows_quiet rows_keep_same_rows header_update_if_current_same_rows)

lemma request_rows:
  assumes "\<And>pid pr. profile_lookup env pid = Inr pr \<Longrightarrow> good_profile pr"
  shows "keeps (all_rows P K) (run_request env rq)"
proof (cases rq)
  case (Request doc ver if_match uid role call)
  show ?thesis unfolding Request run_request.simps api_call_def
    by (intro keeps_forget mutate_rows run_call_rows assms)
next
  case (Create doc ver cr actor d)
  show ?thesis unfolding Create run_request.simps api_create_def split_def
    by (intro keeps_forget keeps_bindM keeps_liftE create_rows)
next
  case (EditHeader doc ex c a r)
  show ?thesis unfolding EditHeader run_request.simps by (intro keeps_forget header_rows)
qed (auto simp: import_existing_pdf_def import_existing_docx_def create_from_template_def
    intro!: keeps_forget keeps_bindM keeps_readM keeps_liftE import_rows)

lemma reachable_rows:
  assumes "reachable env w" and "K = {}" and "\<And>pid pr. profile_lookup env pid = Inr pr \<Longrightarrow> good_profile pr"
    and "get_row (db_versions (w_db w)) doc ver = Some st"
  shows "P st"
proof -
  have "all_rows P K w"
    using assms(1)
  proof (induction rule: reachable.induct)
    case (step w rq)
    then show ?case using keepsD [OF request_rows] assms(3) by blast
  qed (simp_all add: all_rows_def empty_world_def assms(2))
  then show ?thesis
    using assms(4) by (auto simp: get_row_def all_rows_def intro!: read dest: find_row_SomeD)
qed

end

end
