(* ===== verification/DocInvariants.thy ===== *)
theory DocInvariants
  imports RowInvariants
begin

text \<open>
  The row invariants of the product, as interpretations of \<open>row_invariant\<close>: four eyes between review
  and approval, evidence of the edit signature, custom fields without steering keys, complete stamps
  on released versions, and the agreement of \<open>workflow_active\<close> with the status.
\<close>

lemmas row_ops = started_def edited_def mark_edit_signed_def released_from_editing_def reviewed_def approved_def
  superseded_def archived_def extended_def changed_metadata_def created_state_def next_version_of_def Let_def

section \<open>Four eyes\<close>

definition four_eyes_ok :: "version_state \<Rightarrow> bool" where
  "four_eyes_ok st \<longleftrightarrow>
     (v_status st \<notin> {APPROVED, ARCHIVED} \<longrightarrow> v_approved_by st = {}) \<and>
     (case v_workflow_profile st of None \<Rightarrow> True
      | Some p \<Rightarrow> p_four_eyes_required p \<longrightarrow> v_approved_by st \<inter> v_reviewed_by st = {})"

lemma new_version_state_more [simp]:
  "v_approved_by (new_version_state d n) = {}" "v_reviewed_by (new_version_state d n) = {}"
  "v_custom_fields (new_version_state d n) = []" "v_edit_signature_done (new_version_state d n) = False"
  by (simp_all only: new_version_state_def version_state.select_convs)

lemma merge_row_more [simp]:
  "v_approved_by (merge_row now old st) = v_approved_by st" "v_reviewed_by (merge_row now old st) = v_reviewed_by st"
  "v_custom_fields (merge_row now old st) = v_custom_fields st"
  "v_edit_signature_done (merge_row now old st) = v_edit_signature_done st"
  "v_released_at (merge_row now old st) = v_released_at st" "v_valid_from (merge_row now old st) = v_valid_from st"
  "v_valid_until (merge_row now old st) = v_valid_until st" "v_next_review_at (merge_row now old st) = v_next_review_at st"
  "v_approval_completed_at (merge_row now old st) = v_approval_completed_at st"
  "v_approval_completed_by (merge_row now old st) = v_approval_completed_by st"
  by (simp_all add: merge_row_def split: option.split)

lemma row_to_state_more [simp]:
  "v_approved_by (row_to_state r) = v_approved_by r" "v_reviewed_by (row_to_state r) = v_reviewed_by r"
  "v_custom_fields (row_to_state r) = v_custom_fields r"
  "v_edit_signature_done (row_to_state r) = v_edit_signature_done r"
  "v_released_at (row_to_state r) = v_released_at r" "v_valid_from (row_to_state r) = v_valid_from r"
  "v_valid_until (row_to_state r) = v_valid_until r" "v_next_review_at (row_to_state r) = v_next_review_at r"
  "v_approval_completed_at (row_to_state r) = v_approval_completed_at r"
  by (simp_all add: row_to_state_def)

lemma stamp_event_more [simp]:
  "v_custom_fields (stamp_event_on_state st ev a) = v_custom_fields st"
  "v_edit_signature_done (stamp_event_on_state st ev a) = v_edit_signature_done st"
  "v_next_review_at (stamp_event_on_state st ev a) = v_next_review_at st"
  by (simp_all add: stamp_event_on_state_def split: option.split)

interpretation four_eyes: row_invariant four_eyes_ok "{}" "\<lambda>_. True"
  by unfold_locales (auto simp: four_eyes_ok_def row_ops four_eyes_blocks_def split: option.splits)

section \<open>Evidence of the edit signature\<close>

definition edit_signed_ok :: "version_state \<Rightarrow> bool" where
  "edit_signed_ok st \<longleftrightarrow>
     (v_status st \<in> {IN_REVIEW, IN_APPROVAL, APPROVED, ARCHIVED} \<and> is_signature_required st ''IN_PROGRESS->IN_REVIEW''
       \<longrightarrow> v_edit_signature_done st)"

interpretation edit_signed: row_invariant edit_signed_ok "{}" "\<lambda>_. True"
  by unfold_locales (auto simp: edit_signed_ok_def row_ops is_signature_required_def split: option.splits)

section \<open>Custom fields\<close>

definition custom_keys_ok :: "version_state \<Rightarrow> bool" where
  "custom_keys_ok st \<longleftrightarrow> (\<forall>k \<in> fst ` set (v_custom_fields st). k \<notin> set forbidden_custom_field_keys)"

lemma assert_custom_fields_keys:
  "assert_custom_fields_safe fs = Inr () \<Longrightarrow> \<forall>k \<in> fst ` set fs. k \<notin> set forbidden_custom_field_keys"
  by (auto simp: assert_custom_fields_safe_def list_ex_iff)

lemma internal_keys_free:
  "''change_requests'' \<notin> set forbidden_custom_field_keys" "''distribution_snapshot'' \<notin> set forbidden_custom_field_keys"
  by (simp_all add: forbidden_custom_field_keys_def)

lemma custom_keys_update:
  assumes "k \<notin> set forbidden_custom_field_keys" and "\<forall>k \<in> fst ` set d. k \<notin> set forbidden_custom_field_keys"
  shows "\<forall>k \<in> fst ` set (AList.update k v d). k \<notin> set forbidden_custom_field_keys"
  using assms by (auto simp: dom_update)

lemma custom_keys_dict_update:
  assumes "\<forall>k \<in> fst ` set d. k \<notin> set forbidden_custom_field_keys" and "\<forall>k \<in> fst ` set e. k \<notin> set forbidden_custom_field_keys"
  shows "\<forall>k \<in> fst ` set (dict_update d e). k \<notin> set forbidden_custom_field_keys"
  using assms unfolding keys_dict_update by blast

interpretation custom_keys: row_invariant custom_keys_ok "{}" "\<lambda>_. True"
proof (unfold_locales, goal_cases)
  case (17 st c)
  show ?case
  proof (cases "mc_custom_fields c")
    case None
    then show ?thesis using 17(1) by (simp add: custom_keys_ok_def changed_metadata_def)
  next
    case (Some fs)
    then have eq: "v_custom_fields (changed_metadata st c) = dict_update (v_custom_fields st) fs"
      by (simp add: changed_metadata_def)
    show ?thesis
      unfolding custom_keys_ok_def eq
      by (rule custom_keys_dict_update [OF 17(1) [unfolded custom_keys_ok_def] assert_custom_fields_keys [OF 17(2) [OF Some]]])
  qed
next
  case (4 rq doc n cc p now)
  have "v_custom_fields (created_state doc n rq cc p now) = cr_custom_fields rq" by (simp add: created_state_def)
  then show ?case unfolding custom_keys_ok_def using assert_custom_fields_keys [OF 4(1)] by (simp only:)
next
  case (12 st pr uid now snap)
  show ?case
  proof (cases "snap = []")
    case True
    then have eq: "v_custom_fields (approved st uid now snap) = v_custom_fields st" by (simp add: approved_def Let_def)
    show ?thesis unfolding custom_keys_ok_def eq by (rule 12(1) [unfolded custom_keys_ok_def])
  next
    case False
    then have eq: "v_custom_fields (approved st uid now snap) =
        AList.update ''distribution_snapshot'' (snapshot_value snap) (v_custom_fields st)"
      by (simp add: approved_def Let_def)
    show ?thesis
      unfolding custom_keys_ok_def eq
      by (rule custom_keys_update [OF internal_keys_free(2) 12(1) [unfolded custom_keys_ok_def]])
  qed
next
  case (18 st items)
  have eq: "v_custom_fields (st\<lparr>v_custom_fields := AList.update ''change_requests'' items (v_custom_fields st)\<rparr>) =
      AList.update ''change_requests'' items (v_custom_fields st)" by simp
  show ?case
    unfolding custom_keys_ok_def eq
    by (rule custom_keys_update [OF internal_keys_free(1) 18 [unfolded custom_keys_ok_def]])
next
  case (9 st pr s a' m now)
  then show ?case by (simp add: custom_keys_ok_def edited_def mark_edit_signed_def released_from_editing_def Let_def)
qed (simp_all add: custom_keys_ok_def started_def reviewed_def superseded_def archived_def extended_def Let_def
      next_version_of_def)

section \<open>Release stamps and the running workflow\<close>

text \<open>A profile whose phases the engine can walk, and whose review is not the release.\<close>

definition engine_profile :: "workflow_profile \<Rightarrow> bool" where
  "engine_profile p \<longleftrightarrow> engine_phases (p_phases p) \<and>
     next_status_from_profile (Some p) IN_REVIEW \<noteq> Inr APPROVED"

definition release_stamped :: "version_state \<Rightarrow> bool" where
  "release_stamped st \<longleftrightarrow> v_released_at st \<noteq> None \<and> v_approval_completed_at st \<noteq> None \<and>
     v_valid_from st \<noteq> None \<and> v_valid_until st \<noteq> None \<and> v_next_review_at st \<noteq> None"

definition running :: "version_state \<Rightarrow> bool" where
  "running st \<longleftrightarrow> v_status st \<in> {IN_PROGRESS, IN_REVIEW, IN_APPROVAL}"

definition lifecycle_ok :: "version_state \<Rightarrow> bool" where
  "lifecycle_ok st \<longleftrightarrow>
     (case v_workflow_profile st of None \<Rightarrow> \<not> running st \<and> v_status st \<noteq> APPROVED | Some p \<Rightarrow> engine_profile p) \<and>
     v_workflow_active st = running st \<and> v_status st \<noteq> DRAFT \<and>
     (v_status st = APPROVED \<longrightarrow> release_stamped st)"

lemma engine_next:
  assumes "engine_profile p" and "next_status_from_profile (Some p) c = Inr s"
  shows "s \<in> {IN_PROGRESS, IN_REVIEW, IN_APPROVAL, APPROVED}" and "c = IN_REVIEW \<Longrightarrow> s \<noteq> APPROVED"
proof -
  obtain pre post where "p_phases p = pre @ c # s # post"
    using assms(2) by (auto simp: next_status_from_profile_Some)
  then have "s \<in> set (p_phases p)" by simp
  then show "s \<in> {IN_PROGRESS, IN_REVIEW, IN_APPROVAL, APPROVED}"
    using assms(1) unfolding engine_profile_def engine_phases_def by blast
  show "c = IN_REVIEW \<Longrightarrow> s \<noteq> APPROVED" using assms unfolding engine_profile_def by auto
qed

text \<open>The parts of the operations' results that \<open>lifecycle_ok\<close> looks at.\<close>

lemma edited_lifecycle:
  "v_workflow_profile (edited st s a m now) = v_workflow_profile st"
  "v_workflow_active (edited st s a m now) = (v_workflow_active st \<and> s \<noteq> APPROVED)"
  "s = APPROVED \<Longrightarrow> release_stamped (edited st s a m now)"
  by (simp_all add: edited_def mark_edit_signed_def released_from_editing_def Let_def release_stamped_def
      split: option.split)

lemma reviewed_lifecycle:
  "v_workflow_profile (reviewed st s u now) = v_workflow_profile st"
  "v_workflow_active (reviewed st s u now) = v_workflow_active st" "v_status (reviewed st s u now) = s"
  by (simp_all add: reviewed_def)

lemma approved_lifecycle:
  "v_workflow_profile (approved st u now snap) = v_workflow_profile st"
  "release_stamped (approved st u now snap)"
  by (simp_all add: approved_def Let_def release_stamped_def)

lemma next_version_lifecycle: "lifecycle_ok (next_version_of st n now a)"
  by (simp add: lifecycle_ok_def running_def)

lemma created_lifecycle: "lifecycle_ok (created_state d n rq cc p now)"
  by (simp add: lifecycle_ok_def running_def created_state_def)

lemma extended_lifecycle: "release_stamped st \<Longrightarrow> release_stamped (extended st now u d r out)"
  by (simp add: release_stamped_def extended_def Let_def)

lemma metadata_lifecycle:
  "release_stamped st \<Longrightarrow> release_stamped (changed_metadata st c)"
  "v_workflow_profile (changed_metadata st c) = v_workflow_profile st"
  "v_workflow_active (changed_metadata st c) = v_workflow_active st"
  by (auto simp: release_stamped_def changed_metadata_def)

lemma same_stamps:
  "release_stamped (merge_row now old st) = release_stamped st"
  "release_stamped (row_to_state st) = release_stamped st"
  "release_stamped (stamp_event_on_state st ev a) = release_stamped st"
  "release_stamped (st\<lparr>v_assignments := asg\<rparr>) = release_stamped st"
  "release_stamped (st\<lparr>v_custom_fields := cf\<rparr>) = release_stamped st"
  by (simp_all add: release_stamped_def)

lemma extended_more:
  "v_workflow_profile (extended st now u d r out) = v_workflow_profile st"
  "v_workflow_active (extended st now u d r out) = v_workflow_active st"
  by (simp_all add: extended_def Let_def)

interpretation lifecycle: row_invariant lifecycle_ok "{}" engine_profile
proof (unfold_locales, goal_cases)
  case (9 st pr s a' m now)
  note next9 = engine_next [of pr IN_PROGRESS s]
  from 9 have "engine_profile pr" by (simp add: lifecycle_ok_def)
  with 9 next9 show ?case
    by (auto simp: lifecycle_ok_def running_def edited_lifecycle)
next
  case (10 st pr s uid now)
  from 10 have p: "engine_profile pr" by (simp add: lifecycle_ok_def)
  have "s \<in> {IN_PROGRESS, IN_REVIEW, IN_APPROVAL}" using engine_next [OF p 10(5)] by auto
  with 10(1,3,4) p show ?case by (auto simp: lifecycle_ok_def running_def reviewed_lifecycle)
next
  case (12 st pr uid now snap)
  then show ?case by (simp add: lifecycle_ok_def running_def approved_lifecycle)
next
  case (16 st d now uid rsn out)
  then show ?case by (auto simp: lifecycle_ok_def running_def extended_lifecycle extended_more split: option.splits)
next
  case (17 st c)
  then show ?case by (auto simp: lifecycle_ok_def running_def metadata_lifecycle split: option.splits)
next
  case (4 rq doc n cc p now)
  show ?case by (rule created_lifecycle)
next
  case (5 st n now a)
  show ?case by (rule next_version_lifecycle)
qed (auto simp: lifecycle_ok_def running_def same_stamps
    started_def superseded_def archived_def split: option.splits)

section \<open>The lifecycle is one-way\<close>

text \<open>In preparation, released, archived: the stage of a version.\<close>

fun stage :: "doc_status \<Rightarrow> nat" where
  "stage APPROVED = 1"
| "stage ARCHIVED = 2"
| "stage _ = 0"

definition stage_at_least :: "(string \<times> int \<Rightarrow> nat option) \<Rightarrow> version_state \<Rightarrow> bool" where
  "stage_at_least L st \<longleftrightarrow> (\<forall>n. L (version_key st) = Some n \<longrightarrow> n \<le> stage (v_status st))"

lemma stage_at_least_step:
  assumes "stage_at_least L st" and "version_key st' = version_key st" and "stage (v_status st) \<le> stage (v_status st')"
  shows "stage_at_least L st'"
  using assms le_trans unfolding stage_at_least_def by metis

lemma stage_simps [simp]: "stage s = 0 \<longleftrightarrow> s \<noteq> APPROVED \<and> s \<noteq> ARCHIVED"
  by (cases s) simp_all

lemma stage_le_2 [simp]: "stage s \<le> 2"
  by (cases s) simp_all

lemma op_keys [simp]:
  "version_key (started st p) = version_key st" "version_key (edited st s a m now) = version_key st"
  "version_key (reviewed st s u now) = version_key st" "version_key (archived st now a) = version_key st"
  "version_key (extended st now u d r out) = version_key st" "version_key (changed_metadata st c) = version_key st"
  "version_key (st\<lparr>v_status := s\<rparr>) = version_key st" "version_key (st\<lparr>v_assignments := asg\<rparr>) = version_key st"
  "version_key (st\<lparr>v_custom_fields := cf\<rparr>) = version_key st"
  "version_key (st\<lparr>v_superseded_by_version := n\<rparr>) = version_key st"
  "version_key (st\<lparr>v_status := s, v_workflow_active := b\<rparr>) = version_key st"
  "version_key (created_state doc n' rq cc pid now) = (doc, n')" "version_key (next_version_of st n' now a) = (v_document_id st, n')"
  by (simp_all add: version_key_def row_ops)

lemma stage_row_invariant: "row_invariant (stage_at_least L) (dom L) (\<lambda>_. True)"
proof (unfold_locales, goal_cases)
  case (4 rq doc n cc p now)
  then have "L (doc, n) = None" by blast
  then show ?case by (simp add: stage_at_least_def)
next
  case (5 st n now a)
  then have "L (v_document_id st, n) = None" by blast
  then show ?case by (simp add: stage_at_least_def)
next
  case (8 st pr)
  then show ?case by (auto intro: stage_at_least_step)
next
  case (9 st pr s a' m now)
  then show ?case by (auto intro: stage_at_least_step)
next
  case (10 st pr s uid now)
  then show ?case by (auto intro: stage_at_least_step)
next
  case (11 st)
  then show ?case by (auto intro: stage_at_least_step)
next
  case (12 st pr uid now snap)
  then show ?case by (auto intro: stage_at_least_step)
next
  case (13 st st' uid now)
  then show ?case by (auto intro: stage_at_least_step [of L st])
next
  case (14 st)
  then show ?case by (auto intro: stage_at_least_step)
next
  case (15 st now uid)
  have "v_status (archived st now (Some uid)) = ARCHIVED" by (simp add: archived_def)
  with 15 show ?case by (intro stage_at_least_step [OF 15(1)]) simp_all
qed (auto intro: stage_at_least_step)

text \<open>One request: every version is still there, and no version has gone back a stage.\<close>

lemma request_stage:
  assumes ok: "distinct (map version_key (db_versions (w_db w)))"
    and row: "get_row (db_versions (w_db w)) doc ver = Some st"
  shows "\<exists>st'. get_row (db_versions (w_db (after (run_request env rq w)))) doc ver = Some st' \<and>
    stage (v_status st) \<le> stage (v_status st')"
proof -
  let ?rows = "db_versions (w_db w)"
  define L where "L k = map_option (\<lambda>r. stage (v_status r)) (find_row ?rows k)" for k
  have inv: "row_invariant (stage_at_least L) (dom L) (\<lambda>_. True)" by (rule stage_row_invariant)
  have dom: "dom L \<subseteq> version_key ` set ?rows"
  proof
    fix k assume "k \<in> dom L"
    then obtain r where "find_row ?rows k = Some r" by (auto simp: L_def)
    then show "k \<in> version_key ` set ?rows" using find_row_SomeD by (intro image_eqI [of _ _ r]) simp_all
  qed
  have "stage_at_least L r" if "r \<in> set ?rows" for r
    using find_row_distinct [OF ok that] by (simp add: stage_at_least_def L_def)
  then have start: "all_rows (stage_at_least L) (dom L) w" using dom by (simp add: all_rows_def)
  have after: "all_rows (stage_at_least L) (dom L) (after (run_request env rq w))"
    by (rule keepsD [OF row_invariant.request_rows [OF inv] start]) simp
  let ?rows' = "db_versions (w_db (after (run_request env rq w)))"
  obtain r where r: "find_row ?rows (doc, ver) = Some r" "st = row_to_state r"
    using row by (auto simp: get_row_def)
  then have L: "L (doc, ver) = Some (stage (v_status st))" by (simp add: L_def)
  then have "(doc, ver) \<in> version_key ` set ?rows'"
    using after by (auto simp: all_rows_def)
  then obtain r' where r': "find_row ?rows' (doc, ver) = Some r'"
    by (cases "find_row ?rows' (doc, ver)") (auto simp: find_row_None_iff)
  then have "r' \<in> set ?rows'" "version_key r' = (doc, ver)" using find_row_SomeD by blast+
  then have "stage (v_status st) \<le> stage (v_status r')"
    using after L by (auto simp: all_rows_def stage_at_least_def)
  then show ?thesis using r' by (intro exI [of _ "row_to_state r'"]) (simp add: get_row_def)
qed

inductive steps :: "docs_env \<Rightarrow> docs_world \<Rightarrow> docs_world \<Rightarrow> bool" for env where
  no_step: "steps env w w"
| one_request: "steps env w w' \<Longrightarrow> steps env w (after (run_request env rq w'))"
| other_files: "steps env w w' \<Longrightarrow> steps env w (w'\<lparr>w_files := fs\<rparr>)"

lemma steps_reachable: "steps env w w' \<Longrightarrow> reachable env w \<Longrightarrow> reachable env w'"
  by (induction rule: steps.induct) (auto intro: reachable.intros)

lemma steps_stage:
  assumes "steps env w w'" and "reachable env w" and "get_row (db_versions (w_db w)) doc ver = Some st"
  shows "\<exists>st'. get_row (db_versions (w_db w')) doc ver = Some st' \<and> stage (v_status st) \<le> stage (v_status st')"
  using assms
proof (induction rule: steps.induct)
  case (one_request w w' rq)
  then obtain st1 where st1: "get_row (db_versions (w_db w')) doc ver = Some st1"
    "stage (v_status st) \<le> stage (v_status st1)" by blast
  have "reachable env w'" using steps_reachable one_request by blast
  then have "distinct (map version_key (db_versions (w_db w')))"
    using reachable_db_ok unfolding db_ok_def rows_ok_def by blast
  from request_stage [OF this st1(1), of env rq] st1(2) show ?case using le_trans by blast
qed auto

end
