(* ===== verification/DocContracts.thy ===== *)
theory DocContracts
  imports DocInvariants
begin

text \<open>
  What a successful operation has done: postconditions of the methods (\<open>yields\<close>), the row an
  operation leaves, the transition table of the workflow, the contract of an approval, and the exact
  outcome of the optimistic lock.
\<close>

section \<open>Postconditions\<close>

definition yields :: "('a \<Rightarrow> docs_world \<Rightarrow> bool) \<Rightarrow> 'a doc_meth \<Rightarrow> bool" where
  "yields Q m \<longleftrightarrow> (\<forall>w x w'. m w = (Inr x, w') \<longrightarrow> Q x w')"

lemma yieldsD: "yields Q m \<Longrightarrow> m w = (Inr x, w') \<Longrightarrow> Q x w'"
  by (auto simp: yields_def)

lemma yields_bind: "(\<And>x. yields Q (f x)) \<Longrightarrow> yields Q (bindM m f)"
  by (auto simp: yields_def)

lemma yields_guard: "(\<And>x. r = Inr x \<Longrightarrow> yields Q (f x)) \<Longrightarrow> yields Q (bindM (liftE r) f)"
  by (cases r) (auto simp: yields_def)

lemma yields_ret: "(\<And>w. Q x w) \<Longrightarrow> yields Q (retM x)"
  by (simp add: yields_def)

lemma yields_if: "(c \<Longrightarrow> yields Q m) \<Longrightarrow> (\<not> c \<Longrightarrow> yields Q n) \<Longrightarrow> yields Q (if c then m else n)"
  by simp

lemma yields_raise: "yields Q (raiseM e)"
  by (simp add: yields_def)

lemma yields_transaction: "yields Q m \<Longrightarrow> yields Q (write_transaction m)"
  by (auto simp: yields_def write_transaction_Inr)

lemma yields_audited:
  assumes "yields Q m" and "\<And>x w a b c d. Q x w \<Longrightarrow> Q x (after (emit_audit a b c d w))"
  shows "yields Q (audited act t r m)"
  using assms by (auto simp: yields_def audited_def emit_audit_def)

lemma yields_mono: "yields Q m \<Longrightarrow> (\<And>x w. Q x w \<Longrightarrow> R x w) \<Longrightarrow> yields R m"
  by (auto simp: yields_def)

section \<open>The row an operation leaves\<close>

text \<open>The returned state, read back from its row, up to the columns the upsert keeps.\<close>

definition stored_as :: "version_state \<Rightarrow> docs_world \<Rightarrow> bool" where
  "stored_as x w \<longleftrightarrow> (\<exists>now old. get_row (db_versions (w_db w)) (v_document_id x) (v_version x) =
     Some (row_to_state (merge_row now old x)))"

lemma stored_as_db: "db_versions (w_db w') = db_versions (w_db w) \<Longrightarrow> stored_as x w' = stored_as x w"
  by (simp add: stored_as_def)

definition leaves :: "version_state \<Rightarrow> version_state \<Rightarrow> docs_world \<Rightarrow> bool" where
  "leaves st x w \<longleftrightarrow> stored_as x w \<and> (\<exists>ev a. x = stamp_event_on_state st ev a)"

lemma get_row_same_key:
  assumes "v_document_id x = d" and "v_version x = v"
  shows "get_row (upsert_rows now x rows) d v = Some (row_to_state (merge_row now (find_row rows (version_key x)) x))"
  using assms by (simp add: get_row_upsert_rows version_key_def)

lemma commit_steps_leaves:
  assumes "quiet_finish fin"
  shows "yields (leaves st) (commit_steps env name st payload actor fin)"
  unfolding yields_def
proof (intro allI impI)
  fix w x w' assume run: "commit_steps env name st payload actor fin w = (Inr x, w')"
  obtain ev w3 mode where
    c: "x = stamp_event_on_state st (Some ev) actor"
      "db_versions (w_db w') = db_versions (w_db (after_writes env st ev x w))"
    by (rule commit_steps_Inr [OF run assms])
  have "stored_as x w'"
    unfolding stored_as_def c(2) after_writes_simps
    by (subst get_row_same_key [OF refl refl]) blast
  with c(1) show "leaves st x w'" unfolding leaves_def by blast
qed

lemma commit_version_leaves:
  "quiet_finish fin \<Longrightarrow> yields (leaves st) (commit_version env name st payload actor fin)"
  unfolding commit_version_def by (intro yields_transaction commit_steps_leaves)

lemma leaves_audit: "leaves st x w \<Longrightarrow> leaves st x (after (emit_audit a b c d w))"
  by (simp add: leaves_def stored_as_def)

lemma publish_and_store_leaves: "yields (leaves st) (publish_and_store env name st payload actor)"
  unfolding publish_and_store_def
proof (rule yields_transaction, unfold yields_def, intro allI impI)
  fix w x w' assume "publish_steps env name st payload actor w = (Inr x, w')"
  then show "leaves st x w'"
  proof (cases rule: publish_steps_cases)
    case (finished ev s mode)
    then have x: "x = s" by simp
    show ?thesis
      unfolding leaves_def stored_as_def x using finished(3)
      by (auto simp: finished(7) get_row_same_key)
  qed simp
qed

lemmas leaves_rules = yields_audited commit_version_leaves quiet_finish_simps leaves_audit

section \<open>The transition table\<close>

fun workflow_edge :: "doc_call \<Rightarrow> workflow_profile option \<Rightarrow> doc_status \<Rightarrow> doc_status \<Rightarrow> bool" where
  "workflow_edge (CallAssign _ _ _) p s t \<longleftrightarrow> t = s"
| "workflow_edge (CallStart _ _) p s t \<longleftrightarrow> s = PLANNED \<and> t = IN_PROGRESS"
| "workflow_edge (CallCompleteEditing _) p s t \<longleftrightarrow> s = IN_PROGRESS \<and> next_status_from_profile p s = Inr t"
| "workflow_edge (CallReviewAccept _) p s t \<longleftrightarrow> s = IN_REVIEW \<and> next_status_from_profile p s = Inr t"
| "workflow_edge (CallReviewReject _) p s t \<longleftrightarrow> s = IN_REVIEW \<and> t = IN_PROGRESS"
| "workflow_edge (CallApprovalAccept _) p s t \<longleftrightarrow> s = IN_APPROVAL \<and> t = APPROVED"
| "workflow_edge (CallApprovalReject _) p s t \<longleftrightarrow> s = IN_APPROVAL \<and> t = IN_PROGRESS"
| "workflow_edge CallAbort p s t \<longleftrightarrow> s \<in> {IN_PROGRESS, IN_REVIEW, IN_APPROVAL} \<and> t = PLANNED"
| "workflow_edge CallArchive p s t \<longleftrightarrow> s = APPROVED \<and> t = ARCHIVED"
| "workflow_edge (CallExtend _ _ _ _) p s t \<longleftrightarrow> s = APPROVED \<and> t = APPROVED"
| "workflow_edge (CallNewVersion _) p s t \<longleftrightarrow> s = ARCHIVED \<and> t = PLANNED"
| "workflow_edge (CallUpdateMetadata _) p s t \<longleftrightarrow> t = s"
| "workflow_edge (CallAddChangeRequest _ _ _) p s t \<longleftrightarrow> t = s"

text \<open>A result: the state returned is in its row, and its status is one step of the table.\<close>

definition stepped :: "doc_call \<Rightarrow> version_state \<Rightarrow> version_state \<Rightarrow> docs_world \<Rightarrow> bool" where
  "stepped call cur x w \<longleftrightarrow> workflow_edge call (v_workflow_profile cur) (v_status cur) (v_status x) \<and>
     v_document_id x = v_document_id cur \<and>
     (v_version x = v_version cur \<or> (\<exists>n. call = CallNewVersion n \<and> v_version x = n))"

lemma leaves_stepped:
  assumes "yields (leaves st) m" and "workflow_edge call (v_workflow_profile cur) (v_status cur) (v_status st)"
    and "v_document_id st = v_document_id cur" and "v_version st = v_version cur"
  shows "yields (\<lambda>x w. stored_as x w \<and> stepped call cur x w) m"
  unfolding yields_def
proof (intro allI impI)
  fix w x w' assume "m w = (Inr x, w')"
  from yieldsD [OF assms(1) this] obtain ev a where x: "stored_as x w'" "x = stamp_event_on_state st ev a"
    unfolding leaves_def by blast
  then have "v_status x = v_status st" "v_document_id x = v_document_id st" "v_version x = v_version st" by simp_all
  with x(1) assms(2-4) show "stored_as x w' \<and> stepped call cur x w'" by (simp add: stepped_def)
qed

lemma stepped_audit:
  "stored_as x w \<and> stepped call cur x w \<Longrightarrow>
   stored_as x (after (emit_audit a b c d w)) \<and> stepped call cur x (after (emit_audit a b c d w))"
  by (auto simp: stepped_def stored_as_db [of "after (emit_audit a b c d w)" w])

lemma commit_stepped:
  assumes "workflow_edge call (v_workflow_profile cur) (v_status cur) (v_status st)" and "quiet_finish fin"
    and "v_document_id st = v_document_id cur" and "v_version st = v_version cur"
  shows "yields (\<lambda>x w. stored_as x w \<and> stepped call cur x w)
    (audited act t r (commit_version env name st payload actor fin))"
  by (rule yields_audited [OF leaves_stepped [OF commit_version_leaves [OF assms(2)] assms(1,3,4)] stepped_audit])

lemma started_simps [simp]:
  "v_document_id (started st p) = v_document_id st" "v_version (started st p) = v_version st"
  "v_status (started st p) = IN_PROGRESS"
  by (simp_all add: started_def)

lemma reviewed_simps [simp]:
  "v_document_id (reviewed st s u n) = v_document_id st" "v_version (reviewed st s u n) = v_version st"
  "v_status (reviewed st s u n) = s"
  by (simp_all add: reviewed_def)

lemma archived_simps [simp]:
  "v_document_id (archived st n u) = v_document_id st" "v_version (archived st n u) = v_version st"
  "v_status (archived st n u) = ARCHIVED"
  by (simp_all add: archived_def)

lemmas step_rules = yields_guard yields_bind commit_stepped quiet_finish_simps

lemma accept_approval_stepped:
  "yields (\<lambda>x w. stored_as x w \<and> stepped (CallApprovalAccept req) cur x w) (accept_approval env cur uid req' actor)"
proof -
  have tx: "yields (\<lambda>x w. stored_as x w \<and> stepped (CallApprovalAccept req) cur x w)
      (commit_steps env n (approved cur uid now snap) p a (ensure_release_pdf_artifact env))"
    if "v_status cur = IN_APPROVAL" for n now snap p a
    by (rule leaves_stepped [OF commit_steps_leaves]) (use that in simp_all)
  show ?thesis
    unfolding accept_approval_def
    by (intro yields_guard yields_bind yields_audited stepped_audit yields_transaction tx) simp_all
qed

lemma extend_stepped:
  "yields (\<lambda>r w. stored_as (fst r) w \<and> stepped (CallExtend rq d' rs oc) cur (fst r) w)
     (extend_annual_validity env cur uid sig d reason out)" if "v_extension_count cur < 3"
proof -
  have last: "yields (\<lambda>r w. stored_as (fst r) w \<and> stepped (CallExtend rq d' rs oc) cur (fst r) w)
      (bindM (audited act t r' (commit_version env n (extended cur now uid d rsn out) pl ac no_finish))
        (\<lambda>stamped. retM (stamped, False)))" if "v_status cur = APPROVED" for act t r' n now rsn pl ac
  proof -
    have "yields (\<lambda>x w. stored_as x w \<and> stepped (CallExtend rq d' rs oc) cur x w)
        (audited act t r' (commit_version env n (extended cur now uid d rsn out) pl ac no_finish))"
      by (rule commit_stepped) (use that in simp_all)
    then show ?thesis by (auto simp: yields_def)
  qed
  show ?thesis
    unfolding extend_annual_validity_def Let_def using that
    by (intro yields_guard yields_if yields_bind last) simp_all
qed

lemma new_version_stepped:
  "yields (\<lambda>x w. stored_as x w \<and> stepped (CallNewVersion n) cur x w) (create_new_version_after_archive env cur n uid role)"
proof -
  have pair: "yields (\<lambda>x w. stored_as x w \<and> stepped (CallNewVersion n) cur x w) (store_pair env ev src new)"
    if "v_status cur = ARCHIVED" "v_status new = PLANNED" "v_document_id new = v_document_id cur" "v_version new = n" for ev src new
    unfolding yields_def store_pair_def
    using that by (auto simp: store_state_Inr sync_registry_event stepped_def stored_as_def get_row_same_key
        split: option.splits)
  show ?thesis
    unfolding create_new_version_after_archive_def Let_def store_pair_def [symmetric]
    by (intro yields_guard yields_bind yields_audited stepped_audit yields_transaction pair) simp_all
qed

text \<open>What a client sees: the row after the call carries the status and the token of the result.\<close>

definition visible_as :: "version_state \<Rightarrow> docs_world \<Rightarrow> bool" where
  "visible_as x w \<longleftrightarrow> (\<exists>row. get_row (db_versions (w_db w)) (v_document_id x) (v_version x) = Some row \<and>
     v_status row = v_status x \<and> v_last_event_id row = none_if_empty (v_last_event_id x))"

lemma stored_as_visible: "stored_as x w \<Longrightarrow> visible_as x w"
  by (auto simp: stored_as_def visible_as_def)

lemma none_if_empty_idem [simp]: "none_if_empty (none_if_empty x) = none_if_empty x"
  by (simp add: none_if_empty_def)

lemma get_row_visible: "get_row (db_versions (w_db w)) doc ver = Some cur \<Longrightarrow> visible_as cur w"
proof -
  assume a: "get_row (db_versions (w_db w)) doc ver = Some cur"
  then obtain r where r: "find_row (db_versions (w_db w)) (doc, ver) = Some r" "cur = row_to_state r"
    by (auto simp: get_row_def)
  then have "version_key r = (doc, ver)" using find_row_SomeD by blast
  then have "v_document_id cur = doc" "v_version cur = ver" using r(2) by (simp_all add: version_key_def)
  then show "visible_as cur w" using a r(2) by (simp add: visible_as_def)
qed

definition call_done :: "doc_call \<Rightarrow> version_state \<Rightarrow> version_state \<Rightarrow> docs_world \<Rightarrow> bool" where
  "call_done call cur x w \<longleftrightarrow> visible_as x w \<and> stepped call cur x w"

lemma call_done_mono:
  "yields (\<lambda>x w. stored_as x w \<and> stepped call cur x w) m \<Longrightarrow> yields (call_done call cur) m"
  by (erule yields_mono) (simp add: call_done_def stored_as_visible)

lemma metadata_stepped:
  "yields (\<lambda>x w. stored_as x w \<and> stepped (CallUpdateMetadata c) cur x w)
     (update_version_metadata env cur c (Some uid) (Some role))"
  unfolding update_version_metadata_def prod.case option.case
  by (intro yields_guard leaves_stepped [OF publish_and_store_leaves]) simp_all

lemma change_request_stepped:
  "yields (\<lambda>x w. stored_as x w \<and> stepped (CallAddChangeRequest c1 c2 c3) cur x w)
     (add_change_request env cur cid reason refs uid role)"
proof -
  have "yields (\<lambda>x w. stored_as x w \<and> stepped (CallAddChangeRequest c1 c2 c3) cur x w)
      (publish_and_store env n (cur\<lparr>v_custom_fields := cf\<rparr>) p a)" for n cf p a
    by (rule leaves_stepped [OF publish_and_store_leaves]) simp_all
  then show ?thesis
    unfolding add_change_request_def
    by (auto intro!: yields_guard yields_bind yields_raise split: prod.split pyval.split)
qed

lemma extend_signed_done:
  assumes "extend_signed env cur req uid d reason out w = (Inr r, w')"
    and row: "get_row (db_versions (w_db w)) doc ver = Some cur"
  shows "call_done (CallExtend req d reason out) cur (fst r) w'"
proof (cases "v_extension_count cur \<ge> 3")
  case True
  then have run: "extend_annual_validity env cur uid False d reason out w = (Inr r, w')"
    using assms(1) by (simp add: extend_signed_def)
  then have "v_status cur = APPROVED \<and> r = (cur, True) \<and> w' = w"
    using True unfolding extend_annual_validity_def
    by (auto simp: bindM_liftE Let_def raise_if_def split: if_splits)
  then show ?thesis using get_row_visible [OF row] by (simp add: call_done_def stepped_def)
next
  case False
  then have "v_extension_count cur < 3" by simp
  note ext = extend_stepped [OF this, of req d reason out env uid True d reason out]
  have err: "yields Q m \<Longrightarrow> yields Q (on_error m h)" for Q h and m :: "(version_state \<times> bool) doc_meth"
    by (auto simp: yields_def on_error_def split: prod.splits sum.splits)
  have "yields (\<lambda>r w. stored_as (fst r) w \<and> stepped (CallExtend req d reason out) cur (fst r) w)
      (extend_signed env cur req uid d reason out)"
    unfolding extend_signed_def using False
    by (auto intro!: yields_bind yields_raise err ext split: option.split)
  from yieldsD [OF this assms(1)] show ?thesis by (simp add: call_done_def stored_as_visible)
qed

lemma start_stepped:
  "yields (\<lambda>x w. stored_as x w \<and> stepped (CallStart q1 q2) cur x w) (start_workflow env cur p pid a r)"
  unfolding start_workflow_def start_workflow_use_case_def Let_def
  by (intro yields_guard commit_stepped quiet_finish_simps) simp_all

lemma run_call_done:
  assumes run: "run_call env call uid role cur w = (Inr x, w')"
    and row: "get_row (db_versions (w_db w)) doc ver = Some cur"
  shows "call_done call cur x w'"
proof (cases call)
  case (CallExtend req d reason out)
  then obtain r where "extend_signed env cur req uid d reason out w = (Inr r, w')" "x = fst r"
    using run by auto
  then show ?thesis using extend_signed_done [OF _ row] CallExtend by simp
next
  case (CallAssign e r a)
  have "yields (\<lambda>x w. stored_as x w \<and> stepped call cur x w) (run_call env call uid role cur)"
    unfolding CallAssign run_call.simps assign_workflow_roles_def Let_def
    by (intro yields_guard commit_stepped quiet_finish_simps) simp_all
  from yieldsD [OF call_done_mono [OF this] run] show ?thesis .
next
  case (CallStart p pid)
  with yieldsD [OF call_done_mono [OF start_stepped]] run show ?thesis by simp
next
  case (CallCompleteEditing req)
  have "yields (\<lambda>x w. stored_as x w \<and> stepped call cur x w) (run_call env call uid role cur)"
    unfolding CallCompleteEditing run_call.simps complete_editing_def
    by (intro yields_guard yields_bind commit_stepped quiet_finish_simps) simp_all
  from yieldsD [OF call_done_mono [OF this] run] show ?thesis .
next
  case (CallReviewAccept req)
  have "yields (\<lambda>x w. stored_as x w \<and> stepped call cur x w) (run_call env call uid role cur)"
    unfolding CallReviewAccept run_call.simps accept_review_def
    by (intro yields_guard yields_bind commit_stepped quiet_finish_simps) simp_all
  from yieldsD [OF call_done_mono [OF this] run] show ?thesis .
next
  case (CallReviewReject reason)
  have "yields (\<lambda>x w. stored_as x w \<and> stepped call cur x w) (run_call env call uid role cur)"
    unfolding CallReviewReject run_call.simps reject_review_def
    by (intro yields_guard commit_stepped quiet_finish_simps) simp_all
  from yieldsD [OF call_done_mono [OF this] run] show ?thesis .
next
  case (CallApprovalAccept req)
  with yieldsD [OF call_done_mono [OF accept_approval_stepped]] run show ?thesis by simp
next
  case (CallApprovalReject reason)
  have "yields (\<lambda>x w. stored_as x w \<and> stepped call cur x w) (run_call env call uid role cur)"
    unfolding CallApprovalReject run_call.simps reject_approval_def
    by (intro yields_guard commit_stepped quiet_finish_simps) simp_all
  from yieldsD [OF call_done_mono [OF this] run] show ?thesis .
next
  case CallAbort
  have "yields (\<lambda>x w. stored_as x w \<and> stepped call cur x w) (run_call env call uid role cur)"
    unfolding CallAbort run_call.simps abort_workflow_def
    by (intro yields_guard commit_stepped quiet_finish_simps) simp_all
  from yieldsD [OF call_done_mono [OF this] run] show ?thesis .
next
  case CallArchive
  have "yields (\<lambda>x w. stored_as x w \<and> stepped call cur x w) (run_call env call uid role cur)"
    unfolding CallArchive run_call.simps archive_approved_def
    by (intro yields_guard yields_bind commit_stepped quiet_finish_simps) simp_all
  from yieldsD [OF call_done_mono [OF this] run] show ?thesis .
next
  case (CallNewVersion n)
  with yieldsD [OF call_done_mono [OF new_version_stepped]] run show ?thesis by simp
next
  case (CallUpdateMetadata c)
  with yieldsD [OF call_done_mono [OF metadata_stepped]] run show ?thesis by simp
next
  case (CallAddChangeRequest cid reason refs)
  with yieldsD [OF call_done_mono [OF change_request_stepped]] run show ?thesis by simp
qed

section \<open>The approval\<close>

definition superseded_row :: "version_state \<Rightarrow> int \<Rightarrow> docs_world \<Rightarrow> bool" where
  "superseded_row st v w \<longleftrightarrow> (\<exists>row. get_row (db_versions (w_db w)) (v_document_id st) v = Some row \<and>
     v_status row = ARCHIVED \<and> v_superseded_by_version row = Some (v_version st))"

lemma superseded_row_store:
  assumes "store_state env (superseded st c uid now) w = (Inr u, w')" and "v_document_id c = v_document_id st"
  shows "superseded_row st (v_version c) w'" and "superseded_row st v w \<Longrightarrow> superseded_row st v w'"
proof -
  let ?x = "superseded st c uid now"
  have rows: "db_versions (w_db w') = upsert_rows (clock env (w_ticks w)) ?x (db_versions (w_db w))"
    using assms(1) by (simp add: store_state_Inr)
  have new: "get_row (db_versions (w_db w')) (v_document_id st) (v_version c) =
      Some (row_to_state (merge_row (clock env (w_ticks w)) (find_row (db_versions (w_db w)) (version_key ?x)) ?x))"
    unfolding rows by (rule get_row_same_key) (use assms(2) in simp_all)
  show here: "superseded_row st (v_version c) w'" using new by (simp add: superseded_row_def)
  show "superseded_row st v w'" if "superseded_row st v w"
  proof (cases "v = v_version c")
    case False
    then have "get_row (db_versions (w_db w')) (v_document_id st) v = get_row (db_versions (w_db w)) (v_document_id st) v"
      unfolding rows by (simp add: get_row_upsert_rows version_key_def)
    with that show ?thesis by (simp add: superseded_row_def)
  qed (use here in simp)
qed

lemma supersede_loop_done:
  assumes "supersede_loop env st uid cs w = (Inr vs, w')" and "\<forall>c \<in> set cs. v_document_id c = v_document_id st"
  shows "(\<forall>v. superseded_row st v w \<longrightarrow> superseded_row st v w') \<and>
    (\<forall>c \<in> set cs. v_version c \<noteq> v_version st \<longrightarrow> v_status c = APPROVED \<longrightarrow>
       superseded_row st (v_version c) w' \<and> v_version c \<in> set vs)"
  using assms
proof (induction cs arbitrary: w vs)
  case (Cons c cs)
  show ?case
  proof (cases "v_version c = v_version st \<or> v_status c \<noteq> APPROVED")
    case True
    then have tail: "supersede_loop env st uid cs w = (Inr vs, w')" using Cons.prems(1) by simp
    have docs: "\<forall>c \<in> set cs. v_document_id c = v_document_id st" using Cons.prems(2) by simp
    show ?thesis using Cons.IH [OF tail docs] True unfolding list.set by blast
  next
    case False
    then obtain w1 w2 rest where w1: "store_state env (superseded st c uid (clock env (w_ticks w))) w1 = (Inr (), w2)"
      "w1 = w\<lparr>w_ticks := Suc (w_ticks w)\<rparr>"
      and rest: "supersede_loop env st uid cs w2 = (Inr rest, w')" "vs = v_version c # rest"
      using Cons.prems(1) by (auto simp: utcnow_def)
    have c: "v_document_id c = v_document_id st" using Cons.prems(2) by simp
    have ih: "(\<forall>v. superseded_row st v w2 \<longrightarrow> superseded_row st v w') \<and>
        (\<forall>c \<in> set cs. v_version c \<noteq> v_version st \<longrightarrow> v_status c = APPROVED \<longrightarrow>
           superseded_row st (v_version c) w' \<and> v_version c \<in> set rest)"
      by (rule Cons.IH [OF rest(1)]) (use Cons.prems(2) in simp)
    have keep: "superseded_row st v w \<Longrightarrow> superseded_row st v w2" for v
      using superseded_row_store(2) [OF w1(1) c] by (simp add: w1(2) superseded_row_def)
    have head: "superseded_row st (v_version c) w'" using ih superseded_row_store(1) [OF w1(1) c] by blast
    show ?thesis using ih keep head unfolding list.set rest(2) by blast
  qed
qed simp

end
