(* ===== verification/DocRelease.thy ===== *)
theory DocRelease
  imports DocContracts
begin

text \<open>
  The contract of a release (\<open>accept_approval\<close>): who released, what became of the version that was
  approved before, which artifacts exist afterwards. The last part is the exact outcome of a call
  with a stale token.
\<close>

section \<open>Artifacts of other types stay current\<close>

lemma create_artifact_other_current:
  assumes run: "create_artifact env st src t k md w = (Inr a, w')" and other: "t' \<noteq> t"
    and cur: "has_current_artifact (w_db w) d v t'"
  shows "has_current_artifact (w_db w') d v t'"
proof -
  note facts = create_artifact_Inr [OF run]
  let ?m = "marked (v_document_id st) (v_version st) t (a_artifact_id a)"
  obtain b where b: "b \<in> set (db_artifacts (w_db w))" "a_document_id b = d" "a_version b = v"
    "a_artifact_type b = t'" "a_is_current b"
    using cur by (auto simp: has_current_artifact_def list_artifacts_rows_def list_ex_iff)
  have m: "?m b \<in> set (db_artifacts (w_db w'))"
    unfolding facts(9) mark_current_artifact_eq using b(1) by simp
  have "a_is_current (?m b)" using b(4,5) other by simp
  with m b(2-4) show ?thesis
    unfolding has_current_artifact_def list_artifacts_rows_def list_ex_iff
    by (intro bexI [of _ "?m b"]) simp_all
qed

lemma ensure_release_other_current:
  assumes run: "ensure_release_pdf_artifact env st w = (Inr u, w')" and t: "t' \<noteq> RELEASED_PDF"
    and cur: "has_current_artifact (w_db w) d v t'"
  shows "has_current_artifact (w_db w') d v t'"
proof -
  obtain src staged a wa wb g md where c: "create_artifact env st staged RELEASED_PDF GENERATED md wa = (Inr a, wb)"
    and db: "w_db wa = w_db w" "w_db w' = w_db wb"
    using run unfolding ensure_release_pdf_artifact_def require_current_released_pdf_artifact_def Let_def
      resolve_release_pdf_source_path_def protect_pdf_copy_def
    by (auto simp: finallyM_eq uuid4_def split: option.splits)
  show ?thesis using create_artifact_other_current [OF c t] cur db by simp
qed

section \<open>The contract of a release\<close>

lemma supersede_result:
  assumes "supersede_other_approved_versions env st uid w = (Inr vs, w')"
    and "row_approved (db_versions (w_db w)) (v_document_id st) v" and "v \<noteq> v_version st"
  shows "superseded_row st v w' \<and> v \<in> set vs"
proof -
  let ?rows = "db_versions (w_db w)" and ?doc = "v_document_id st"
  have loop: "supersede_loop env st uid (list_versions_rows ?rows ?doc) w = (Inr vs, w')"
    using assms(1) by (simp add: supersede_other_approved_versions_def list_versions_def)
  have docs: "\<forall>c \<in> set (list_versions_rows ?rows ?doc). v_document_id c = ?doc"
    by (auto simp: set_list_versions_rows)
  obtain r where r: "find_row ?rows (?doc, v) = Some r" "v_status r = APPROVED"
    using assms(2) by (auto simp: row_approved_def split: option.splits)
  have "r \<in> set ?rows" "version_key r = (?doc, v)" using find_row_SomeD [OF r(1)] by auto
  then have "row_to_state r \<in> set (list_versions_rows ?rows ?doc)" "v_version r = v"
    by (auto simp: set_list_versions_rows version_key_def)
  then show ?thesis
    using supersede_loop_done [OF loop docs] r(2) assms(3)
    by (metis row_to_state_simps(2) row_to_state_simps(3))
qed

lemma snapshot_same_db: "build_distribution_snapshot env st w = (r, w') \<Longrightarrow> w_db w' = w_db w"
  unfolding build_distribution_snapshot_def by (auto simp: utcnow_def bindM_Inr split: option.splits)

lemma superseded_row_commit:
  assumes run: "commit_steps env name st' payload actor fin w = (Inr x, w')" and quiet: "quiet_finish fin"
    and key: "version_key st' = version_key st" and v: "v \<noteq> v_version st" and old: "superseded_row st v w"
  shows "superseded_row st v w'"
proof -
  obtain ev w3 mode where c: "x = stamp_event_on_state st' (Some ev) actor"
    "db_versions (w_db w') = db_versions (w_db (after_writes env st' ev x w))"
    by (rule commit_steps_Inr [OF run quiet])
  have "get_row (db_versions (w_db w')) (v_document_id st) v = get_row (db_versions (w_db w)) (v_document_id st) v"
    unfolding c(2) after_writes_simps c(1) using key v by (simp add: get_row_upsert_rows version_key_def)
  then show ?thesis using old by (simp add: superseded_row_def)
qed

lemma supersede_same_artifacts:
  "keeps (\<lambda>w. db_artifacts (w_db w) = arts) (supersede_other_approved_versions env st uid)"
proof -
  have store: "keeps (\<lambda>w. db_artifacts (w_db w) = arts) (store_state env s)" for s
    by (simp add: keeps_def store_state_eq)
  have clock: "keeps (\<lambda>w. db_artifacts (w_db w) = arts) (utcnow env)"
    by (simp add: keeps_def utcnow_def)
  have "keeps (\<lambda>w. db_artifacts (w_db w) = arts) (supersede_loop env st uid cs)" for cs
  proof (induction cs)
    case Nil
    show ?case unfolding supersede_loop.simps by (rule keeps_retM)
  next
    case (Cons c cs)
    show ?case unfolding supersede_loop.simps
      using Cons by (simp add: keeps_bindM keeps_retM store clock)
  qed
  then show ?thesis
    unfolding supersede_other_approved_versions_def list_versions_def by (intro keeps_bindM keeps_readM)
qed

lemma has_current_artifacts_cong:
  "db_artifacts db' = db_artifacts db \<Longrightarrow> has_current_artifact db' d v t = has_current_artifact db d v t"
  by (simp add: has_current_artifact_def list_artifacts_rows_def)

lemma accept_approval_Inr:
  assumes run: "accept_approval env st uid req actor w = (Inr x, w')"
  shows "v_workflow_active st" "v_status st = IN_APPROVAL" "uid \<in> as_approvers (v_assignments st)"
    "\<not> four_eyes_blocks st uid"
    "v_status x = APPROVED" "uid \<in> v_approved_by x" "v_approval_completed_by x = Some uid"
    "has_current_artifact (w_db w') (v_document_id st) (v_version st) RELEASED_PDF"
    "is_signature_required st ''IN_APPROVAL->APPROVED'' \<Longrightarrow>
       has_current_artifact (w_db w') (v_document_id st) (v_version st) SIGNED_PDF"
    "\<And>v. row_approved (db_versions (w_db w)) (v_document_id st) v \<Longrightarrow> v \<noteq> v_version st \<Longrightarrow> superseded_row st v w'"
proof -
  let ?d = "v_document_id st" and ?n = "v_version st"
  obtain w1 w2 w3 w4 wq now vs snap where
    guards: "v_workflow_active st" "v_status st = IN_APPROVAL" "uid \<in> as_approvers (v_assignments st)"
      "\<not> four_eyes_blocks st uid"
    and sig: "enforce_signature_transition env st ''IN_APPROVAL->APPROVED'' req actor w = (Inr (), w1)"
    and clock: "utcnow env w1 = (Inr now, w2)"
    and sup: "supersede_other_approved_versions env st uid w2 = (Inr vs, w3)"
    and sn: "build_distribution_snapshot env st w3 = (Inr snap, w4)"
    and com: "commit_steps env ''domain.documents.approval.accepted.v1'' (approved st uid now snap)
      [(''actor_user_id'', PyStr uid), (''superseded_versions'', PyList (map PyInt vs)),
       (''distribution_snapshot'', snapshot_value snap)] (Some uid) (ensure_release_pdf_artifact env) w4 = (Inr x, wq)"
    and db': "w_db w' = w_db wq"
    using run unfolding accept_approval_def audited_def
    by (auto simp: bindM_liftE write_transaction_Inr emit_audit_def raise_if_def split: sum.splits if_splits)
  show "v_workflow_active st" "v_status st = IN_APPROVAL" "uid \<in> as_approvers (v_assignments st)"
    "\<not> four_eyes_blocks st uid" by (fact guards)+
  obtain ev wf mode where
    c: "x = stamp_event_on_state (approved st uid now snap) (Some ev) (Some uid)"
      "ensure_release_pdf_artifact env x (after_writes env (approved st uid now snap) ev x w4) = (Inr (), wf)"
      "wq = wf\<lparr>w_registry := registered x ev (w_registry w4) mode\<rparr>"
    by (rule commit_steps_Inr [OF com quiet_finish_simps(2)])
  show "v_status x = APPROVED" "uid \<in> v_approved_by x" "v_approval_completed_by x = Some uid"
    unfolding c(1) by simp_all
  have dbq: "w_db w' = w_db wf" using db' c(3) by simp
  show "has_current_artifact (w_db w') ?d ?n RELEASED_PDF"
    using ensure_release_Inr [OF c(2)] unfolding dbq c(1) by simp
  have db2: "w_db w2 = w_db w1" using clock by (auto simp: utcnow_def)
  have arts: "db_artifacts (w_db w4) = db_artifacts (w_db w1)"
    using keeps_run [OF supersede_same_artifacts _ sup, of "db_artifacts (w_db w1)"] snapshot_same_db [OF sn] db2 by simp
  show "has_current_artifact (w_db w') ?d ?n SIGNED_PDF"
    if "is_signature_required st ''IN_APPROVAL->APPROVED''"
  proof -
    have "has_current_artifact (w_db w1) ?d ?n SIGNED_PDF"
      using enforce_signature_Inr [OF sig that] by blast
    then have "has_current_artifact (w_db (after_writes env (approved st uid now snap) ev x w4)) ?d ?n SIGNED_PDF"
      using has_current_artifacts_cong [of "w_db (after_writes env (approved st uid now snap) ev x w4)" "w_db w1"] arts
      by simp
    from ensure_release_other_current [OF c(2) _ this] show ?thesis unfolding dbq by simp
  qed
  fix v assume v: "row_approved (db_versions (w_db w)) ?d v" "v \<noteq> ?n"
  have rows1: "db_versions (w_db w1) = db_versions (w_db w)"
    using rows_keep_enforce sig unfolding rows_keep_def by (metis snd_conv)
  have "superseded_row st v w3" using supersede_result [OF sup] v by (simp add: db2 rows1)
  then have "superseded_row st v w4" using snapshot_same_db [OF sn] by (simp add: superseded_row_def)
  from superseded_row_commit [OF com quiet_finish_simps(2) _ v(2) this]
  show "superseded_row st v w'" using db' by (simp add: superseded_row_def)
qed

section \<open>A stale token\<close>

lemma api_call_stale:
  assumes "get_row (db_versions (w_db w)) doc ver = Some cur" and "v_last_event_id cur \<noteq> if_match"
  shows "api_call env doc ver if_match uid role call w =
    (Inl (if has_read_access cur uid role \<and> wd_allowed (evaluate_workflow_action cur uid role (action_of call))
          then DocumentConflictError else not_found), w)"
  using assms
  by (auto simp: api_call_def mutate_version_if_current_def get_document_version_def write_transaction_def
      raise_if_def authorize_def assert_workflow_action_def Let_def)

text \<open>What has passed when an operation of the API returns.\<close>

lemma api_call_Inr:
  assumes "api_call env doc ver if_match uid role call w = (Inr x, w')"
  obtains cur where "get_row (db_versions (w_db w)) doc ver = Some cur" "v_last_event_id cur = if_match"
    "has_read_access cur uid role" "wd_allowed (evaluate_workflow_action cur uid role (action_of call))"
    "run_call env call uid role cur w = (Inr x, w')"
proof -
  from assms have "mutate_version_if_current doc ver if_match (run_call env call uid role)
      (Some uid) (Some role) (Some (action_of call)) False w = (Inr x, w')" by (simp add: api_call_def)
  then show thesis
  proof (cases rule: mutate_cases)
    case (ran cur w1)
    have "wd_allowed (evaluate_workflow_action cur uid role (action_of call))"
      using ran(3) by (auto simp: authorize_def assert_workflow_action_def Let_def raise_if_def split: if_splits)
    then show thesis using that ran by simp
  qed simp
qed

end
