(* ===== verification/DocBehaviour.thy ===== *)
theory DocBehaviour
  imports DocRelease
begin

text \<open>
  Further behaviour of the documents module: which file a signature may start from, the guards that
  the policy and the use cases state twice, the releases that do not pass through an approval, and the
  token that an update of the header returns.
\<close>

section \<open>The file a signature starts from\<close>

lemma first_usable_Some:
  "first_usable root files suffix as = Some p \<Longrightarrow>
   \<exists>a \<in> set as. resolve_artifact_path root files a = Some p \<and> p \<in> files \<and> py_lower (path_suffix p) = suffix"
  by (induction as) (auto simp: Let_def usable_file_def split: if_splits option.splits)

lemma first_by_type_Some: "first_by_type f ts = Some p \<Longrightarrow> \<exists>t \<in> set ts. f t = Some p"
  by (induction ts) (auto split: option.splits)

lemma resolve_by_type_Some:
  assumes "resolve_by_type root files arts cur t = Some p"
  shows "\<exists>a \<in> set arts. a_artifact_type a = t \<and> resolve_artifact_path root files a = Some p \<and> p \<in> files \<and>
    py_lower (path_suffix p) = ''.pdf''"
  using first_usable_Some [OF assms [unfolded resolve_by_type_def]] by auto

lemma resolve_input_Some:
  assumes "resolve_signature_input_pdf env st tr w = (Inr (Some p), w')"
  shows "w' = w \<and> (\<exists>a \<in> set (db_artifacts (w_db w)). a_document_id a = v_document_id st \<and> a_version a = v_version st \<and>
     a_artifact_type a \<in> set (signature_input_priority tr) \<and>
     resolve_artifact_path (storage_root env) (w_files w) a = Some p \<and> p \<in> w_files w)"
proof -
  let ?arts = "list_artifacts_rows (w_db w) (v_document_id st) (v_version st)"
  let ?pick = "resolve_by_type (storage_root env) (w_files w) ?arts"
  have "w' = w" and found: "or_opt (first_by_type (?pick True) (signature_input_priority tr))
      (first_by_type (?pick False) (signature_input_priority tr)) = Some p"
    using assms by (auto simp: resolve_signature_input_pdf_def Let_def)
  from found obtain c t where "t \<in> set (signature_input_priority tr)" "?pick c t = Some p"
    by (auto simp: or_opt_def split: option.splits dest!: first_by_type_Some)
  with resolve_by_type_Some [OF this(2)] \<open>w' = w\<close> show ?thesis by (auto simp: list_artifacts_rows_def)
qed

lemma signed_priority:
  "signature_input_priority ''IN_REVIEW->IN_APPROVAL'' = [SIGNED_PDF]"
  "signature_input_priority ''IN_APPROVAL->APPROVED'' = [SIGNED_PDF]"
  by code_simp+

section \<open>Guards that are checked twice\<close>

fun guarded_by_the_use_case :: "doc_call \<Rightarrow> bool" where
  "guarded_by_the_use_case (CallStart _ _) = False"
| "guarded_by_the_use_case CallAbort = False"
| "guarded_by_the_use_case (CallExtend _ _ _ _) = False"
| "guarded_by_the_use_case (CallNewVersion _) = False"
| "guarded_by_the_use_case _ = True"

lemma policy_more:
  assumes "py_strip uid = uid" and "uid \<noteq> []"
  shows "wd_allowed (evaluate_workflow_action st uid r ''update_metadata'') \<longleftrightarrow> r = QMB \<or> v_owner_user_id st = Some uid"
    "wd_allowed (evaluate_workflow_action st uid r ''change_requests'') \<longleftrightarrow> r = QMB \<or> v_owner_user_id st = Some uid"
  using assms by (auto simp: evaluate_workflow_action_def Let_def decide_def)

lemma guards_imply_policy:
  assumes id: "py_strip uid = uid" "uid \<noteq> []" and g: "guarded_by_the_use_case call"
    and run: "run_call env call uid role cur w = (Inr x, w')"
  shows "wd_allowed (evaluate_workflow_action cur uid role (action_of call))"
proof (cases call)
  case (CallAssign e r a)
  then have "ensure_assignment_update_allowed cur uid role e r a = Inr ()"
    using run by (auto simp: assign_workflow_roles_def both_def)
  then show ?thesis
    using CallAssign policy_simps [OF id]
    by (auto simp: ensure_assignment_update_allowed_def split: if_splits)
next
  case (CallCompleteEditing req)
  then show ?thesis using run policy_simps [OF id]
    by (auto simp: complete_editing_def both_def ensure_editor_or_owner_or_privileged_iff)
next
  case (CallReviewAccept req)
  then show ?thesis using run policy_simps [OF id] by (auto simp: accept_review_def)
next
  case (CallReviewReject reason)
  then show ?thesis using run policy_simps [OF id] by (auto simp: reject_review_def)
next
  case (CallApprovalAccept req)
  then show ?thesis using run policy_simps [OF id] by (auto simp: accept_approval_def)
next
  case (CallApprovalReject reason)
  then show ?thesis using run policy_simps [OF id] by (auto simp: reject_approval_def)
next
  case CallArchive
  then show ?thesis using run policy_simps [OF id] by (auto simp: archive_approved_def)
next
  case (CallUpdateMetadata c)
  then show ?thesis using run policy_more [OF id]
    by (auto simp: update_version_metadata_def ensure_owner_or_privileged_iff)
next
  case (CallAddChangeRequest c r s)
  then show ?thesis using run policy_more [OF id]
    by (auto simp: add_change_request_def ensure_owner_or_privileged_iff)
qed (use g in simp_all)

section \<open>Releases outside an approval\<close>

lemma store_state_blocked:
  assumes "v_status st = APPROVED" and "row_approved (db_versions (w_db w)) (v_document_id st) v" and "v \<noteq> v_version st"
  shows "store_state env st w \<noteq> (Inr u, w')"
proof -
  obtain r where "find_row (db_versions (w_db w)) (v_document_id st, v) = Some r" "v_status r = APPROVED"
    using assms(2) by (auto simp: row_approved_def split: option.splits)
  then have "one_approved_violation (db_versions (w_db w)) st"
    using assms(1,3) find_row_SomeD unfolding one_approved_violation_def list_ex_iff version_key_def
    by (metis fst_conv snd_conv)
  then show ?thesis by (auto simp: store_state_Inr)
qed

text \<open>\<open>complete_editing\<close> of a profile without review and approval does not supersede: another released
  version makes the write fail.\<close>

lemma commit_version_blocked:
  assumes "v_status st = APPROVED" and "row_approved (db_versions (w_db w)) (v_document_id st) v" and "v \<noteq> v_version st"
  shows "commit_version env name st payload actor fin w \<noteq> (Inr x, w')"
  using store_state_blocked [OF assms]
  by (auto simp: commit_version_def write_transaction_Inr commit_steps_def)

lemma complete_editing_blocked:
  assumes direct: "next_status_from_profile (v_workflow_profile st) IN_PROGRESS = Inr APPROVED"
    and other: "row_approved (db_versions (w_db w)) (v_document_id st) v" "v \<noteq> v_version st"
  shows "complete_editing env st req actor uid role w \<noteq> (Inr x, w')"
proof
  assume run: "complete_editing env st req actor uid role w = (Inr x, w')"
  obtain w1 w2 w3 s now a b n p fin y w5 where
    "ensure_source_pdf_artifact_for_signing env st uid w = (Inr s, w1)"
    "enforce_signature_transition env st ''IN_PROGRESS->IN_REVIEW'' req actor w1 = (Inr (), w2)"
    "(if is_signature_required st ''IN_PROGRESS->IN_REVIEW'' then sign_moment env st uid else retM 0) w2 = (Inr a, w3)"
    and c: "utcnow env w3 = (Inr now, b)"
    "commit_version env n (edited st APPROVED uid a now) p uid fin b = (Inr y, w5)"
    using run direct unfolding complete_editing_def audited_def by (auto simp: bindM_liftE split: sum.splits)
  then have "db_versions (w_db w3) = db_versions (w_db w)"
    using rows_keep_ensure_source rows_keep_enforce rows_keep_if [OF rows_keep_sign_moment rows_keep_basic(1)]
    unfolding rows_keep_def by (metis snd_conv)
  then have "db_versions (w_db b) = db_versions (w_db w)" using c(1) by (auto simp: utcnow_def)
  moreover have "v_status (edited st APPROVED uid a now) = APPROVED"
    "v_document_id (edited st APPROVED uid a now) = v_document_id st" "v_version (edited st APPROVED uid a now) = v_version st"
    by simp_all
  ultimately show False using c(2) commit_version_blocked other by metis
qed

text \<open>A review whose successor is the release: no stamps, no PDF, the workflow stays active.\<close>

lemma review_releases:
  assumes run: "accept_review env st uid req actor w = (Inr x, w')"
    and direct: "next_status_from_profile (v_workflow_profile st) IN_REVIEW = Inr APPROVED"
    and unsigned: "\<not> is_signature_required st ''IN_REVIEW->IN_APPROVAL''"
  shows "v_status x = APPROVED" "v_workflow_active x" "v_released_at x = v_released_at st"
    "v_approval_completed_at x = v_approval_completed_at st" "v_valid_from x = v_valid_from st"
    "v_approved_by x = v_approved_by st" "db_artifacts (w_db w') = db_artifacts (w_db w)"
proof -
  obtain p where p: "v_workflow_profile st = Some p" "v_workflow_active st"
    using run by (auto simp: accept_review_def)
  have quiet: "enforce_signature_transition env st ''IN_REVIEW->IN_APPROVAL'' req actor w = (Inr (), w)"
    by (rule enforce_signature_not_required [OF p(1)]) (use unsigned p(1) in \<open>simp add: is_signature_required_def\<close>)
  obtain now n pl w1 w2 where c: "utcnow env w = (Inr now, w1)"
    "commit_version env n (reviewed st APPROVED uid now) pl (Some uid) no_finish w1 = (Inr x, w2)"
    "w_db w' = w_db w2"
    using run direct quiet unfolding accept_review_def audited_def emit_audit_def
    by (auto simp: bindM_liftE split: sum.splits)
  obtain ev w3 mode where d: "x = stamp_event_on_state (reviewed st APPROVED uid now) (Some ev) (Some uid)"
    "no_finish x (after_writes env (reviewed st APPROVED uid now) ev x w1) = (Inr (), w3)"
    "w2 = w3\<lparr>w_registry := registered x ev (w_registry w1) mode\<rparr>"
    using c(2) unfolding commit_version_def write_transaction_Inr
    by (rule commit_steps_Inr [OF _ quiet_finish_simps(1)])
  show "v_status x = APPROVED" "v_workflow_active x" "v_released_at x = v_released_at st"
    "v_approval_completed_at x = v_approval_completed_at st" "v_valid_from x = v_valid_from st"
    "v_approved_by x = v_approved_by st"
    using p(2) unfolding d(1) by (simp_all add: reviewed_def stamp_event_on_state_def)
  have "db_artifacts (w_db w1) = db_artifacts (w_db w)" using c(1) by (auto simp: utcnow_def)
  then show "db_artifacts (w_db w') = db_artifacts (w_db w)"
    unfolding c(3) d(3) using d(2) by (auto simp: no_finish_def)
qed

text \<open>A definition with the transitions \<open>DRAFT->IN_REVIEW\<close> and \<open>IN_REVIEW->APPROVED\<close>.\<close>

definition review_transition :: "int \<Rightarrow> string \<Rightarrow> string \<Rightarrow> string \<Rightarrow> profile_transition" where
  "review_transition n a b role = \<lparr>t_transition_no = n, t_from_status = a, t_to_status = b, t_required_role = role,
     t_decision_policy = ''ONE_OF_POOL'', t_signature_required = False, t_four_eyes_required = False,
     t_revoke_if_changed = False, t_deadline_seconds = None, t_is_enabled = True\<rparr>"

definition two_step_definition :: profile_definition where
  "two_step_definition = \<lparr>d_profile_code = ''two_step'', d_label = ''Two steps'', d_control_class = CONTROLLED,
     d_release_evidence_mode = ''WORKFLOW'', d_requires_editors = True, d_requires_reviewers = True,
     d_requires_approvers = False, d_allows_content_changes = True,
     d_transitions = [review_transition 1 ''DRAFT'' ''IN_REVIEW'' (expected_role ''DRAFT'' ''IN_REVIEW''),
       review_transition 2 ''IN_REVIEW'' ''APPROVED'' (expected_role ''IN_REVIEW'' ''APPROVED'')]\<rparr>"

lemma two_step_accepted: "validate_definition two_step_definition = Inr ()"
  by code_simp

lemma two_step_values:
  "map_option p_phases (to_runtime_profile two_step_definition) = Some [IN_PROGRESS, IN_REVIEW, APPROVED]"
  "map_option p_signature_required_transitions (to_runtime_profile two_step_definition) = Some []"
  by code_simp+

lemma two_step_runtime:
  "\<exists>p. to_runtime_profile two_step_definition = Some p \<and> p_phases p = [IN_PROGRESS, IN_REVIEW, APPROVED] \<and>
     p_signature_required_transitions p = []"
  using two_step_values by auto

section \<open>Writing to an archived version\<close>

lemma archived_metadata_register:
  assumes run: "update_version_metadata env st c (Some uid) (Some role) w = (Inr x, w')"
    and st: "v_status st = ARCHIVED" "Option.bind (w_registry w (v_document_id st)) r_active_version = Some other"
      "other \<noteq> v_version st"
  shows "\<exists>e. w_registry w' (v_document_id st) = Some e \<and> r_active_version e = Some other \<and>
    r_register_state e = RegARCHIVED \<and> \<not> r_is_findable e"
proof -
  obtain n pl where "publish_steps env n (changed_metadata st c) pl (Some uid) w = (Inr x, w')"
    using run by (auto simp: update_version_metadata_def bindM_liftE publish_and_store_def write_transaction_Inr
        split: sum.splits)
  then show ?thesis
  proof (cases rule: publish_steps_cases)
    case (finished ev s mode)
    have s: "v_status s = ARCHIVED" "v_document_id s = v_document_id st" "v_version s = v_version st"
      using st(1) finished(3) by simp_all
    show ?thesis
      unfolding finished(7) using st(2,3) s
      by (cases "w_registry w (v_document_id st)")
        (simp_all add: registered_def projected_active_version_def map_register_state_def)
  qed simp
qed

section \<open>The token of a header\<close>

lemma update_header_token:
  assumes run: "update_document_header env doc c uid role w = (Inr h, w')"
  shows "\<exists>n stored. get_header (w_db w') doc = Some stored \<and> h_updated_at h = clock env n \<and>
    h_updated_at stored = clock env (Suc n)"
proof -
  obtain existing w1 where e: "get_header (w_db w) doc = Some existing"
    and ch: "(case hc_workflow_profile_id c of None \<Rightarrow> retM ()
        | Some p \<Rightarrow> whenM (p \<noteq> h_workflow_profile_id existing)
            (assert_workflow_profile_update_allowed env doc (h_control_class existing) p)) w = (Inr (), w1)"
    and h: "h = changed_header existing c (clock env (w_ticks w1))"
    and w': "w_db w' = upsert_header (clock env (Suc (w_ticks w1))) h (w_db w1)"
    using run unfolding update_document_header_def
    by (auto simp: bindM_liftE utcnow_def Let_def split: option.splits sum.splits)
  have "w1 = w"
    using ch unfolding assert_workflow_profile_update_allowed_def whenM_def list_versions_def
    by (auto simp: bindM_liftE split: option.splits if_splits sum.splits)
  have id: "h_document_id existing = doc"
    using e by (auto simp: get_header_def find_Some_iff)
  then have hd: "h_document_id h = doc" using h by (simp add: changed_header_def)
  have hit: "get_header (w_db w1) (h_document_id h) = Some existing" using e hd \<open>w1 = w\<close> by simp
  have mapped: "List.find (\<lambda>x. h_document_id x = doc)
      (map (\<lambda>x. if h_document_id x = doc then f x else x) hs) =
      map_option f (List.find (\<lambda>x. h_document_id x = doc) hs)"
    if "\<And>x. h_document_id (f x) = doc" for f :: "doc_header \<Rightarrow> doc_header" and hs
    using that by (induction hs) auto
  have "\<exists>stored. get_header (w_db w') doc = Some stored \<and> h_updated_at stored = clock env (Suc (w_ticks w1))"
    unfolding w' upsert_header_def Let_def
    using hit hd id e \<open>w1 = w\<close> by (simp add: get_header_def mapped)
  then show ?thesis using h by (auto simp: changed_header_def)
qed

section \<open>Extension of the validity\<close>

lemma extension_result:
  assumes run: "extend_annual_validity env st uid signed days reason outcome w = (Inr (x, needs_new), w')"
  shows "v_status st = APPROVED \<and> 0 < days \<and> outcome \<noteq> NEW_VERSION_REQUIRED \<and>
    (if v_extension_count st \<ge> 3 then needs_new \<and> x = st \<and> w' = w
     else \<not> needs_new \<and> signed \<and> v_extension_count x = v_extension_count st + 1 \<and>
       (\<exists>now. v_last_extended_at x = Some now \<and> v_next_review_at x = v_valid_until x \<and>
          v_valid_until x = Some (max now (case v_valid_until st of None \<Rightarrow> now | Some t \<Rightarrow> t) + days * day)))"
proof (cases "v_extension_count st \<ge> 3")
  case True
  then show ?thesis using run by (auto simp: extend_annual_validity_def Let_def)
next
  case False
  then obtain now n pl w1 w2 where facts: "v_status st = APPROVED" "0 < days" "outcome \<noteq> NEW_VERSION_REQUIRED" "signed"
      "\<not> needs_new"
    and com: "commit_version env n (extended st now uid days (py_strip reason) outcome) pl (Some uid) no_finish w1 = (Inr x, w2)"
    using run by (auto simp: extend_annual_validity_def Let_def audited_def)
  obtain ev a where x: "x = stamp_event_on_state (extended st now uid days (py_strip reason) outcome) ev a"
    using yieldsD [OF commit_version_leaves [OF quiet_finish_simps(1)] com] by (auto simp: leaves_def)
  have "v_extension_count x = v_extension_count st + 1" "v_last_extended_at x = Some now"
    "v_next_review_at x = v_valid_until x"
    "v_valid_until x = Some (max now (case v_valid_until st of None \<Rightarrow> now | Some t \<Rightarrow> t) + days * day)"
    unfolding x by (auto simp: stamp_event_on_state_def extended_def Let_def max_def split: option.split)
  then show ?thesis using facts False by auto
qed

end
