(* ===== verification/RunMethods.thy ===== *)
theory RunMethods
  imports PyTime
begin

text \<open>
  Rules that let the simplifier run a method on concrete input, step by step like the interpreter: a
  method is unfolded only once it is applied to a world, the rest of the method stays untouched until
  the call before it has returned (\<open>run_bind\<close>), and the branches of a conditional wait for its
  condition (\<open>run_congs\<close>).
\<close>

definition run_bind :: "('e + 'a) \<times> 'w \<Rightarrow> ('a \<Rightarrow> ('w, 'e, 'b) meth) \<Rightarrow> ('e + 'b) \<times> 'w" where
  "run_bind r f = (case r of (Inl e, w) \<Rightarrow> (Inl e, w) | (Inr x, w) \<Rightarrow> f x w)"

lemma bindM_run: "bindM m f w = run_bind (m w) f"
  by (simp add: bindM_def run_bind_def)

lemma run_bind_simps: "run_bind (Inl e, w) f = (Inl e, w)" "run_bind (Inr x, w) f = f x w"
  by (simp_all add: run_bind_def)

lemma char_of_numeral:
  "char_of (numeral n :: nat) =
     Char (odd (numeral n :: nat)) (odd ((numeral n :: nat) div 2)) (odd ((numeral n :: nat) div 4))
       (odd ((numeral n :: nat) div 8)) (odd ((numeral n :: nat) div 16)) (odd ((numeral n :: nat) div 32))
       (odd ((numeral n :: nat) div 64)) (odd ((numeral n :: nat) div 128))"
  by (simp add: char_of_def bit_iff_odd)

lemma replicate_step: "replicate (numeral k) x = x # replicate (pred_numeral k) x"
  by (simp add: numeral_eq_Suc)

lemma take_step: "take (numeral k) (x # xs) = x # take (pred_numeral k) xs"
  by (simp add: numeral_eq_Suc)

lemma str_nat_digit: "n < 10 \<Longrightarrow> str_nat n = [char_of (48 + n)]"
  by (subst str_nat.simps) simp

lemma run_bind_lazy: "r = r' \<Longrightarrow> run_bind r f = run_bind r' f"
  by simp

lemma bindM_lazy: "m = m' \<Longrightarrow> bindM m f = bindM m' f"
  by simp

lemmas run_congs = run_bind_lazy bindM_lazy let_weak_cong

lemmas run_basics = bindM_run run_bind_simps Let_def of_char_Char char_of_numeral replicate_step take_step str_nat_digit

end
