(* ===== verification/Evaluation.thy ===== *)
theory Evaluation
  imports DocApiLaws RunMethods
begin

text \<open>
  Rules that let the simplifier run the documents module on concrete input: \<open>pure_evals\<close> are the pure
  functions, \<open>method_evals\<close> the methods in applied form, and \<open>lazy_congs\<close> the congruences that keep what
  has not been reached folded.
\<close>

lemma write_transaction_app:
  "write_transaction m w =
     (case m w of (Inl e, w') \<Rightarrow> (Inl e, w'\<lparr>w_db := w_db w\<rparr>) | (Inr x, w') \<Rightarrow> (Inr x, w'))"
  by (simp add: write_transaction_def)

lemma finallyM_app: "finallyM m g w = (case m w of (r, w') \<Rightarrow> (r, g w'))"
  by (simp add: finallyM_def)

lemma finallyM_lazy: "m = m' \<Longrightarrow> finallyM m g = finallyM m' g"
  by simp

lemmas lazy_congs = run_congs finallyM_lazy

lemmas basic_evals = run_basics write_transaction_app finallyM_app

lemmas event_evals = with_event_def published_def registered_def after_writes_def stored_def with_rows_def

lemmas pure_evals = raise_if_def py_space_def py_strip_def upper_char_def py_upper_def truthy_def or_str_def
  or_opt_def str_int_def dict_update_def all_statuses_def status_of_value_def is_editor_phase_def
  control_class_for_def day_def reason_is_valid_def long_release_path_def no_assignments_def
  new_version_state_def forbidden_custom_field_keys_def forbidden_custom_field_prefixes_def ascii_alnum_def
  newline_def key_char_def allowed_custom_field_key_def public_id_char_def assert_new_document_id_safe_def
  assert_custom_fields_safe_def lt_opt_def assert_state_invariants_def assert_profile_def
  assert_rejection_reason_def assert_active_profile_def assert_assignments_for_profile_def
  next_status_from_profile_def ensure_owner_or_privileged_def ensure_editor_or_owner_or_privileged_def
  ensure_assignment_update_allowed_def sorted_stripped_set_def validate_change_request_input_def
  civil_from_days_def pad_int_def installation_organization_id_def normalize_base_role_def
  is_effective_qmb_def can_administer_users_def require_confirmed_user_context_def actor_user_and_role_def
  release_mode_of_value_def map_register_state_def projected_active_version_def projected_findable_def
  projected_entry_def apply_documents_state_def apply_documents_projection_def replace_char_def slash_def
  backslash_def path_name_def path_suffix_def lower_char_def py_lower_def allowed_store_suffixes_def
  guess_mime_def validate_source_file_def join_path_def contained_path_def resolve_storage_key_def
  metadata_path_def resolve_artifact_path_def usable_file_def transliterate_umlauts_def py_alnum_def
  strip_chars_def safe_filename_token_def build_released_filename_def filename_char_def version_key_def
  none_if_empty_def row_to_state_def merge_row_def find_row_def upsert_rows_def one_approved_violation_def
  upsert_version_def get_row_def list_versions_rows_def list_by_status_rows_def get_header_def
  upsert_header_def list_artifacts_rows_def mark_current_artifact_def stamp_event_on_state_def
  audit_actor_def version_target_def release_order_def signature_input_priority_def resolve_by_type_def
  is_signature_required_def has_current_artifact_def cleanup_paths_def cleanup_signing_def
  canonical_request_def resynced_def both_def actor_or_owner_def actor_or_system_def started_def
  mark_edit_signed_def released_from_editing_def edited_def reviewed_def rejection_text_def superseded_def
  opt_text_def snapshot_value_def approved_def four_eyes_blocks_def archived_def opt_iso_def extended_def
  next_version_of_def action_ids_def decide_def source_assignment_def evaluate_workflow_action_def
  available_workflow_actions_def assert_workflow_action_def matches_user_context_def has_read_access_def
  ensure_read_access_def owner_and_editors_def comment_denied_def ensure_workflow_comment_access_def
  ensure_workflow_comment_read_access_def descriptor_metadata_def descriptor_signature_required_def
  workflow_descriptor_def artifact_access_codes_def artifact_access_descriptor_def
  action_descriptors_for_actor_def compute_available_actions_def available_actions_for_actor_def
  compute_global_capabilities_def hex_digit_def printable_def repr_char_def repr_str_def py_str_def
  changed_header_def resolve_workflow_profile_for_document_type_def created_state_def new_header_def
  import_request_def template_source_type_def changed_metadata_def item_change_id_def
  existing_change_ids_def change_request_payload_def not_found_def unconfirmed_def authorize_def
  delete_artifact_def empty_world_def

lemmas method_evals = fun_cong [OF utcnow_def] fun_cong [OF uuid4_def] fun_cong [OF get_document_version_def]
  fun_cong [OF list_versions_def] fun_cong [OF list_artifacts_def] fun_cong [OF store_state_def]
  fun_cong [OF publish_event_def] fun_cong [OF emit_audit_def] fun_cong [OF sync_registry_def]
  fun_cong [OF create_artifact_def] fun_cong [OF resolve_source_path_def]
  fun_cong [OF resolve_source_pdf_path_def] fun_cong [OF resolve_source_docx_path_def]
  fun_cong [OF resolve_release_pdf_source_path_def] fun_cong [OF resolve_signature_input_pdf_def]
  fun_cong [OF run_sign_def] fun_cong [OF execute_sign_dispatch_def] fun_cong [OF sign_and_register_def]
  fun_cong [OF enforce_signature_transition_def] fun_cong [OF convert_docx_to_temp_pdf_def]
  fun_cong [OF ensure_source_pdf_artifact_for_signing_def]
  fun_cong [OF require_current_released_pdf_artifact_def] fun_cong [OF protect_pdf_copy_def]
  fun_cong [OF ensure_release_pdf_artifact_def] fun_cong [OF commit_steps_def] fun_cong [OF no_finish_def]
  fun_cong [OF commit_version_def] fun_cong [OF audited_def] fun_cong [OF assign_workflow_roles_def]
  fun_cong [OF start_workflow_use_case_def] fun_cong [OF sign_moment_def] fun_cong [OF complete_editing_def]
  fun_cong [OF accept_review_def] fun_cong [OF reject_review_def]
  fun_cong [OF supersede_other_approved_versions_def] fun_cong [OF build_distribution_snapshot_def]
  fun_cong [OF accept_approval_def] fun_cong [OF reject_approval_def] fun_cong [OF abort_workflow_def]
  fun_cong [OF archive_approved_def] fun_cong [OF extend_annual_validity_def]
  fun_cong [OF create_new_version_after_archive_def] fun_cong [OF store_header_def]
  fun_cong [OF assert_workflow_profile_update_allowed_def] fun_cong [OF update_document_header_def]
  fun_cong [OF version_state_for_document_policy_def] fun_cong [OF update_document_header_if_current_def]
  fun_cong [OF create_document_version_def] fun_cong [OF ensure_document_version_def]
  fun_cong [OF publish_steps_def] fun_cong [OF publish_and_store_def] fun_cong [OF import_source_def]
  fun_cong [OF import_existing_pdf_def] fun_cong [OF import_existing_docx_def]
  fun_cong [OF create_from_template_def] fun_cong [OF update_version_metadata_def]
  fun_cong [OF add_change_request_def] fun_cong [OF start_workflow_def]
  fun_cong [OF mutate_version_if_current_def] fun_cong [OF sign_and_store_signed_artifact_def]
  fun_cong [OF on_error_def] fun_cong [OF extend_signed_def] fun_cong [OF api_call_def]
  fun_cong [OF api_create_def] fun_cong [OF forget_def]

lemmas evals = basic_evals event_evals pure_evals method_evals

end
