(* ===== verification/Scenario.thy ===== *)
theory Scenario
  imports Evaluation
begin

text \<open>
  A concrete environment and a concrete document that goes through the whole workflow: created,
  its source imported, roles assigned, started, edited, reviewed, approved. The worlds of this run
  are the inputs at which the properties are exercised.
\<close>

definition env0 :: docs_env where
  "env0 = \<lparr>clock = (\<lambda>n. int n), fresh_uuid = (\<lambda>n. replicate (n + 3) (CHR ''a'')),
     file_digest = (\<lambda>p. p), file_size = (\<lambda>p. 1), storage_root = ''/s'', temp_dir = ''/t'',
     docx_to_pdf = (\<lambda>p. True), has_signature_api = True,
     sign_with_template_for_actor = (\<lambda>a r fs. (None, insert (sr_output_pdf r) fs)),
     sign_with_fixed_position = (\<lambda>r fs. (None, insert (sr_output_pdf r) fs)),
     profile_lookup = (\<lambda>p. if p = ''long_release'' then Inr long_release_path else Inl (ValidationError ''unknown profile'')),
     default_profile = (\<lambda>t. Inr (''long_release'', False))\<rparr>"

definition sample_sign :: sign_request where
  "sample_sign = \<lparr>sr_template_id = None, sr_input_pdf = ''/x.pdf'', sr_output_pdf = ''/o.pdf'', sr_signature_png = None\<rparr>"

definition sample_create :: create_request where
  "sample_create = \<lparr>cr_owner_user_id = None, cr_title = ''T'', cr_description = None, cr_doc_type = VA,
     cr_control_class = None, cr_workflow_profile_id = None, cr_custom_fields = []\<rparr>"

definition sample_actor :: user_context where
  "sample_actor = \<lparr>u_user_id = ''o'', u_session_id = ''s'', u_request_id = ''q'',
     u_organization_id = installation_organization_id, u_username = ''o'', u_global_roles = [],
     u_is_qmb = True, u_confirmed = True\<rparr>"

text \<open>The token that the row of version 1 carries.\<close>

definition sample_token :: "docs_world \<Rightarrow> string option" where
  "sample_token w = (case get_row (db_versions (w_db w)) ''D'' 1 of None \<Rightarrow> None | Some st \<Rightarrow> v_last_event_id st)"

definition sample_call :: "string \<Rightarrow> system_role \<Rightarrow> doc_call \<Rightarrow> docs_world \<Rightarrow> doc_request" where
  "sample_call uid role c w = Request ''D'' 1 (sample_token w) uid role c"

definition w0 :: docs_world where "w0 = empty_world {''/d.pdf''}"

text \<open>The requests, what they return, and the worlds they leave.\<close>

definition out1 :: "(doc_error + unit) \<times> docs_world" where
  "out1 = run_request env0 (Create ''D'' 1 sample_create (Some sample_actor) False) w0"

definition w1 :: docs_world where "w1 = after out1"

definition out2 :: "(doc_error + unit) \<times> docs_world" where
  "out2 = run_request env0 (ImportPdf ''D'' 1 ''/d.pdf'' ''o'' QMB) w1"

definition w2 :: docs_world where "w2 = after out2"

definition out3 :: "(doc_error + unit) \<times> docs_world" where
  "out3 = run_request env0 (sample_call ''o'' QMB (CallAssign {''e''} {''r''} {''a''}) w2) w2"

definition w3 :: docs_world where "w3 = after out3"

definition out4 :: "(doc_error + unit) \<times> docs_world" where
  "out4 = run_request env0 (sample_call ''o'' QMB (CallStart None None) w3) w3"

definition w4 :: docs_world where "w4 = after out4"

definition out5 :: "(doc_error + unit) \<times> docs_world" where
  "out5 = run_request env0 (sample_call ''e'' USER (CallCompleteEditing (Some sample_sign)) w4) w4"

definition w5 :: docs_world where "w5 = after out5"

definition out6 :: "(doc_error + unit) \<times> docs_world" where
  "out6 = run_request env0 (sample_call ''r'' USER (CallReviewAccept (Some sample_sign)) w5) w5"

definition w6 :: docs_world where "w6 = after out6"

definition out7 :: "(doc_error + unit) \<times> docs_world" where
  "out7 = run_request env0 (sample_call ''a'' USER (CallApprovalAccept (Some sample_sign)) w6) w6"

definition w7 :: docs_world where "w7 = after out7"

text \<open>The run, evaluated by the rules of \<open>Evaluation\<close>, which are declared here only.\<close>

declare evals [simp] env0_def [simp] sample_create_def [simp] sample_actor_def [simp] sample_sign_def [simp]
  sample_token_def [simp] sample_call_def [simp] w0_def [simp]
declare bindM_basic [simp del] bindM_liftE_simps [simp del]
declare lazy_congs [cong]

lemmas out1_eq = out1_def [simplified]
lemmas w1_eq = w1_def [unfolded out1_eq snd_conv]
lemmas out2_eq = out2_def [unfolded w1_eq, simplified]
lemmas w2_eq = w2_def [unfolded out2_eq snd_conv]
lemmas out3_eq = out3_def [unfolded w2_eq, simplified]
lemmas w3_eq = w3_def [unfolded out3_eq snd_conv]
lemmas out4_eq = out4_def [unfolded w3_eq, simplified]
lemmas w4_eq = w4_def [unfolded out4_eq snd_conv]
lemmas out5_eq = out5_def [unfolded w4_eq, simplified]
lemmas w5_eq = w5_def [unfolded out5_eq snd_conv]
lemmas out6_eq = out6_def [unfolded w5_eq, simplified]
lemmas w6_eq = w6_def [unfolded out6_eq snd_conv]
lemmas out7_eq = out7_def [unfolded w6_eq, simplified]
lemmas w7_eq = w7_def [unfolded out7_eq snd_conv]

declare lazy_congs [cong del]
declare evals [simp del] env0_def [simp del] sample_create_def [simp del] sample_actor_def [simp del]
  sample_sign_def [simp del] sample_token_def [simp del] sample_call_def [simp del] w0_def [simp del]
declare bindM_basic [simp] bindM_liftE_simps [simp] of_char_Char [simp]

end
