(* ===== verification/IncidentTypes.thy ===== *)
theory IncidentTypes
  imports Registry DocStorage PyTime
begin

text \<open>
  The data of the incident module (\<open>modules/incident_management/contracts.py\<close>): the
  enumerations, the dataclasses and the exceptions, with the tables of its SQLite database
  (\<open>sqlite_repository.py\<close>, \<open>migrations/0001_initial.sql\<close>) as lists of rows in insertion order.
  Field names carry a prefix per dataclass (\<open>ic_\<close> case, \<open>iq_\<close> inquiry, \<open>ia_\<close> action, \<open>cp_\<close> CAPA,
  \<open>rc_\<close> root cause analysis, \<open>er_\<close> effectiveness review, \<open>af_\<close> artifact, \<open>gr_\<close> group, \<open>la_\<close>
  leadership acknowledgement, \<open>mb_\<close> and \<open>mi_\<close> management review, \<open>tl_\<close> timeline, \<open>ro_\<close> role).
  The members of \<open>IncidentStatus\<close> carry the prefix \<open>S_\<close>. \<open>IncIntegrityError\<close> is the exception of
  the database driver for a violated key, \<open>IncPyError\<close> one of the interpreter.
\<close>

section \<open>Errors and enumerations\<close>

datatype incident_error =
    IncValidationError string
  | IncAuthorizationError string
  | IncNotFoundError string
  | IncIntegrityError string
  | IncPyError string

datatype incident_status =
    S_SUBMITTED | S_QMB_REVIEW | S_INQUIRY_OPEN | S_INQUIRY_ANSWERED | S_ASSESSED | S_DOCUMENTATION_ONLY
  | S_ROOT_CAUSE_REQUIRED | S_ROOT_CAUSE_IN_PROGRESS | S_CAPA_REQUIRED | S_CAPA_PLANNING
  | S_ACTIONS_IN_PROGRESS | S_FOLLOW_UP | S_EFFECTIVENESS_PLANNED | S_EFFECTIVENESS_REVIEW
  | S_CLOSURE_REVIEW | S_LEADERSHIP_ACK_REQUIRED | S_CLOSED | S_ARCHIVED

fun incident_status_value :: "incident_status \<Rightarrow> string" where
  "incident_status_value S_SUBMITTED = ''SUBMITTED''"
| "incident_status_value S_QMB_REVIEW = ''QMB_REVIEW''"
| "incident_status_value S_INQUIRY_OPEN = ''INQUIRY_OPEN''"
| "incident_status_value S_INQUIRY_ANSWERED = ''INQUIRY_ANSWERED''"
| "incident_status_value S_ASSESSED = ''ASSESSED''"
| "incident_status_value S_DOCUMENTATION_ONLY = ''DOCUMENTATION_ONLY''"
| "incident_status_value S_ROOT_CAUSE_REQUIRED = ''ROOT_CAUSE_REQUIRED''"
| "incident_status_value S_ROOT_CAUSE_IN_PROGRESS = ''ROOT_CAUSE_IN_PROGRESS''"
| "incident_status_value S_CAPA_REQUIRED = ''CAPA_REQUIRED''"
| "incident_status_value S_CAPA_PLANNING = ''CAPA_PLANNING''"
| "incident_status_value S_ACTIONS_IN_PROGRESS = ''ACTIONS_IN_PROGRESS''"
| "incident_status_value S_FOLLOW_UP = ''FOLLOW_UP''"
| "incident_status_value S_EFFECTIVENESS_PLANNED = ''EFFECTIVENESS_PLANNED''"
| "incident_status_value S_EFFECTIVENESS_REVIEW = ''EFFECTIVENESS_REVIEW''"
| "incident_status_value S_CLOSURE_REVIEW = ''CLOSURE_REVIEW''"
| "incident_status_value S_LEADERSHIP_ACK_REQUIRED = ''LEADERSHIP_ACK_REQUIRED''"
| "incident_status_value S_CLOSED = ''CLOSED''"
| "incident_status_value S_ARCHIVED = ''ARCHIVED''"

definition all_incident_statuses :: "incident_status list" where
  "all_incident_statuses = [S_SUBMITTED, S_QMB_REVIEW, S_INQUIRY_OPEN, S_INQUIRY_ANSWERED, S_ASSESSED,
     S_DOCUMENTATION_ONLY, S_ROOT_CAUSE_REQUIRED, S_ROOT_CAUSE_IN_PROGRESS, S_CAPA_REQUIRED, S_CAPA_PLANNING,
     S_ACTIONS_IN_PROGRESS, S_FOLLOW_UP, S_EFFECTIVENESS_PLANNED, S_EFFECTIVENESS_REVIEW, S_CLOSURE_REVIEW,
     S_LEADERSHIP_ACK_REQUIRED, S_CLOSED, S_ARCHIVED]"

text \<open>\<open>IncidentStatus(value)\<close>; \<open>None\<close> is its \<open>ValueError\<close>.\<close>

definition incident_status_of_value :: "string \<Rightarrow> incident_status option" where
  "incident_status_of_value v = List.find (\<lambda>s. incident_status_value s = v) all_incident_statuses"

lemma incident_status_of_value_roundtrip [simp]:
  "incident_status_of_value (incident_status_value s) = Some s"
  by (cases s) (simp_all add: incident_status_of_value_def all_incident_statuses_def)

lemma incident_status_value_inject [simp]: "incident_status_value s = incident_status_value t \<longleftrightarrow> s = t"
  by (metis incident_status_of_value_roundtrip option.inject)

datatype incident_classification = OBSERVATION | ERROR | DEVIATION | NEAR_MISS | RISK

fun classification_value :: "incident_classification \<Rightarrow> string" where
  "classification_value OBSERVATION = ''OBSERVATION''"
| "classification_value ERROR = ''ERROR''"
| "classification_value DEVIATION = ''DEVIATION''"
| "classification_value NEAR_MISS = ''NEAR_MISS''"
| "classification_value RISK = ''RISK''"

datatype capa_status = CapaNOT_STARTED | CapaPLANNING | CapaIN_PROGRESS | CapaCOMPLETED

fun capa_status_value :: "capa_status \<Rightarrow> string" where
  "capa_status_value CapaNOT_STARTED = ''NOT_STARTED''"
| "capa_status_value CapaPLANNING = ''PLANNING''"
| "capa_status_value CapaIN_PROGRESS = ''IN_PROGRESS''"
| "capa_status_value CapaCOMPLETED = ''COMPLETED''"

datatype action_type = IMMEDIATE_ACTION | CORRECTIVE_ACTION | PREVENTIVE_ACTION

fun action_type_value :: "action_type \<Rightarrow> string" where
  "action_type_value IMMEDIATE_ACTION = ''IMMEDIATE_ACTION''"
| "action_type_value CORRECTIVE_ACTION = ''CORRECTIVE_ACTION''"
| "action_type_value PREVENTIVE_ACTION = ''PREVENTIVE_ACTION''"

datatype action_status = ActOPEN | ActIN_PROGRESS | ActCOMPLETED

datatype incident_artifact_type = ATTACHMENT | CASE_REPORT_PDF

fun incident_artifact_type_value :: "incident_artifact_type \<Rightarrow> string" where
  "incident_artifact_type_value ATTACHMENT = ''ATTACHMENT''"
| "incident_artifact_type_value CASE_REPORT_PDF = ''CASE_REPORT_PDF''"

datatype timeline_entry_type =
    T_SUBMITTED | T_INQUIRY_OPENED | T_INQUIRY_ANSWERED | T_ASSESSED | T_ACTION_CREATED | T_ACTION_COMPLETED
  | T_CAPA_STARTED | T_CAPA_UPDATED | T_RCA_CREATED | T_EFFECTIVENESS_PLANNED | T_EFFECTIVENESS_REVIEWED
  | T_LEADERSHIP_FORWARDED | T_LEADERSHIP_ACKNOWLEDGED | T_GROUPED | T_ARTIFACT_ATTACHED | T_REPORT_GENERATED
  | T_CLOSED | T_ARCHIVED | T_STATUS_CHANGED | T_MANAGEMENT_REVIEW_CREATED
  | T_MANAGEMENT_REVIEW_IN_DISCUSSION | T_MANAGEMENT_REVIEW_ACKNOWLEDGED

datatype review_item_status = ItemINCLUDED | ItemIN_DISCUSSION | ItemACKNOWLEDGED

datatype review_batch_status = BatchOPEN | BatchIN_DISCUSSION | BatchCOMPLETED

datatype inquiry_status = InqOPEN | InqANSWERED

datatype ack_status = AckPENDING | AckACKNOWLEDGED

datatype module_role = LEITUNG

fun module_role_value :: "module_role \<Rightarrow> string" where
  "module_role_value LEITUNG = ''Leitung''"

datatype effectiveness_status = RevPLANNED | RevCOMPLETED

section \<open>Times from outside\<close>

text \<open>
  A \<open>datetime\<close> the caller chooses: its fields (as microseconds) and its offset from UTC in minutes,
  \<open>None\<close> for a naive one. The times the module reads from the clock are plain UTC times.
\<close>

record datetime =
  dt_local :: time
  dt_offset :: "int option"

definition utc_datetime :: "time \<Rightarrow> datetime" where
  "utc_datetime t = \<lparr>dt_local = t, dt_offset = Some 0\<rparr>"

definition offset_text :: "int \<Rightarrow> string" where
  "offset_text o' = (if o' < 0 then CHR ''-'' else CHR ''+'') #
     pad_int 2 (\<bar>o'\<bar> div 60) @ '':'' @ pad_int 2 (\<bar>o'\<bar> mod 60)"

definition dt_iso :: "datetime \<Rightarrow> string" where
  "dt_iso t = iso_fields (dt_local t) @ (case dt_offset t of None \<Rightarrow> [] | Some o' \<Rightarrow> offset_text o')"

text \<open>\<open>a < b\<close>: two aware times compare in UTC, two naive ones by their fields, otherwise \<open>TypeError\<close>.\<close>

definition dt_less :: "datetime \<Rightarrow> datetime \<Rightarrow> incident_error + bool" where
  "dt_less a b = (case (dt_offset a, dt_offset b) of
       (Some o1, Some o2) \<Rightarrow> Inr (dt_local a - o1 * 60000000 < dt_local b - o2 * 60000000)
     | (None, None) \<Rightarrow> Inr (dt_local a < dt_local b)
     | _ \<Rightarrow> Inl (IncPyError ''TypeError''))"

section \<open>Dataclasses\<close>

record incident_submission =
  is_title :: string
  is_description :: string
  is_category :: string
  is_reported_at :: datetime
  is_labels :: "string list"
  is_area :: "string option"
  is_process_name :: "string option"
  is_device :: "string option"

record assessment_input =
  as_classification :: incident_classification
  as_is_critical :: bool
  as_criticality_reason :: "string option"
  as_is_repeated :: bool
  as_capa_required :: bool
  as_capa_reason :: "string option"
  as_root_cause_required :: bool
  as_group_id :: "string option"
  as_patient_safety_relevant :: bool
  as_formal_deviation :: bool
  as_system_risk_relevant :: bool
  as_result_correctness_issue :: bool
  as_escalation_required :: bool

record incident_case =
  ic_incident_id :: string
  ic_status :: incident_status
  ic_reporter_user_id :: string
  ic_reported_at :: datetime
  ic_title :: string
  ic_description :: string
  ic_category :: string
  ic_labels :: "string list"
  ic_area :: "string option"
  ic_process_name :: "string option"
  ic_device :: "string option"
  ic_classification :: "incident_classification option"
  ic_is_critical :: "bool option"
  ic_criticality_reason :: "string option"
  ic_is_repeated :: "bool option"
  ic_capa_required :: "bool option"
  ic_capa_reason :: "string option"
  ic_root_cause_required :: "bool option"
  ic_group_id :: "string option"
  ic_leadership_required :: bool
  ic_created_at :: time
  ic_updated_at :: time
  ic_closed_at :: "time option"
  ic_archived_at :: "time option"

record incident_inquiry =
  iq_inquiry_id :: string
  iq_incident_id :: string
  iq_question :: string
  iq_answer :: "string option"
  iq_asked_by_user_id :: string
  iq_answered_by_user_id :: "string option"
  iq_asked_at :: time
  iq_answered_at :: "time option"
  iq_status :: inquiry_status

record incident_action =
  ia_action_id :: string
  ia_incident_id :: string
  ia_action_type :: action_type
  ia_status :: action_status
  ia_description :: string
  ia_owner_user_id :: "string option"
  ia_due_at :: "datetime option"
  ia_completed_at :: "time option"
  ia_completed_by_user_id :: "string option"
  ia_created_at :: time

record incident_capa =
  cp_capa_id :: string
  cp_incident_id :: string
  cp_status :: capa_status
  cp_trigger_reason :: "string option"
  cp_goal :: "string option"
  cp_description :: "string option"
  cp_created_at :: time
  cp_updated_at :: time

record root_cause_analysis =
  rc_rca_id :: string
  rc_incident_id :: string
  rc_immediate_event :: "string option"
  rc_trigger :: "string option"
  rc_root_causes :: "string option"
  rc_similar_prior :: "string option"
  rc_systemic_weakness :: "string option"
  rc_future_risk :: "string option"
  rc_method :: "string option"
  rc_created_at :: time
  rc_updated_at :: time

record effectiveness_review =
  er_review_id :: string
  er_incident_id :: string
  er_planned_at :: datetime
  er_criteria :: string
  er_completed_at :: "time option"
  er_completed_by_user_id :: "string option"
  er_result :: "string option"
  er_effective :: "bool option"
  er_notes :: "string option"
  er_status :: effectiveness_status
  er_created_at :: time

record incident_artifact =
  af_artifact_id :: string
  af_incident_id :: string
  af_artifact_type :: incident_artifact_type
  af_storage_key :: string
  af_original_filename :: string
  af_mime_type :: "string option"
  af_sha256 :: "string option"
  af_size_bytes :: "int option"
  af_metadata :: "(string, string) dict"
  af_created_at :: time

record incident_group =
  gr_group_id :: string
  gr_name :: string
  gr_description :: "string option"
  gr_created_by_user_id :: string
  gr_created_at :: time

record leadership_ack =
  la_ack_id :: string
  la_incident_id :: string
  la_forwarded_by_user_id :: string
  la_forwarded_at :: time
  la_leadership_user_id :: string
  la_comment :: "string option"
  la_acknowledged_at :: "time option"
  la_status :: ack_status

record management_batch =
  mb_batch_id :: string
  mb_period_start :: datetime
  mb_period_end :: datetime
  mb_status :: review_batch_status
  mb_created_by_user_id :: string
  mb_created_at :: time
  mb_report_storage_key :: "string option"

record management_item =
  mi_item_id :: string
  mi_batch_id :: string
  mi_incident_id :: string
  mi_status :: review_item_status
  mi_acknowledged_at :: "time option"
  mi_acknowledged_by_user_id :: "string option"

record timeline_entry =
  tl_entry_id :: string
  tl_incident_id :: string
  tl_entry_type :: timeline_entry_type
  tl_actor_user_id :: "string option"
  tl_summary :: string
  tl_details :: "(string, string) dict"
  tl_created_at :: time

record role_assignment =
  ro_assignment_id :: string
  ro_user_id :: string
  ro_role_name :: module_role
  ro_assigned_by_user_id :: string
  ro_assigned_at :: time

record incident_filter =
  fl_status :: "incident_status option"
  fl_category :: "string option"
  fl_reporter_user_id :: "string option"
  fl_from_reported_at :: "datetime option"
  fl_to_reported_at :: "datetime option"

record similar_query =
  sq_incident_id :: "string option"
  sq_category :: "string option"
  sq_labels :: "string list"
  sq_area :: "string option"
  sq_process_name :: "string option"
  sq_device :: "string option"
  sq_from_reported_at :: "datetime option"
  sq_to_reported_at :: "datetime option"
  sq_limit :: int

section \<open>The user and the settings\<close>

text \<open>What the module reads of the current user of the usermanagement service.\<close>

record incident_user =
  iu_user_id :: string
  iu_role :: "string option"
  iu_is_qmb :: bool

text \<open>
  The module settings (\<open>module.py\<close>, \<open>INCIDENT_SETTINGS_CONTRIBUTION\<close>) the operations read. The rules
  are the truth values of \<open>capa_required_rules\<close>, the deadlines the integers of \<open>standard_deadlines\<close>;
  an absent dictionary and an empty one are treated alike by the code. A label group that is not a
  list counts as \<open>None\<close>.
\<close>

record incident_settings =
  st_categories :: "string list"
  st_label_groups :: "(string, string list option) dict"
  st_criticality_groups :: "(string, string) dict"
  st_deadlines :: "(string, int) dict"
  st_effectiveness_delay :: "int option"
  st_capa_rules :: "(string, bool) dict"

end
