(* ===== verification/IncidentStore.thy ===== *)
theory IncidentStore
  imports IncidentTypes "HOL-Library.List_Lexorder" "HOL-Library.Char_ord" "HOL-Library.Product_Lexorder"
begin

text \<open>
  The state of the incident module and its primitive effects: the tables behind
  \<open>modules/incident_management/sqlite_repository.py\<close> with their primary and foreign keys, the
  numbering of incidents (\<open>incident_numbering.py\<close>), the file storage (\<open>storage.py\<close>), and the
  clock, identifiers, audit records and events of \<open>eventing.py\<close>.

  Every repository method commits by itself: the module has no transactions over several calls, so
  what an operation wrote before it fails stays written. Columns of UTC times order by time; columns
  of times from the caller order by their text, as the database does. Rows with equal keys of an
  \<open>ORDER BY\<close> come in insertion order.
\<close>

section \<open>The tables\<close>

record incident_db =
  db_cases :: "incident_case list"
  db_counters :: "(string, int) dict"
  db_timeline :: "timeline_entry list"
  db_inquiries :: "incident_inquiry list"
  db_actions :: "incident_action list"
  db_capas :: "incident_capa list"
  db_rcas :: "root_cause_analysis list"
  db_reviews :: "effectiveness_review list"
  db_case_artifacts :: "incident_artifact list"
  db_groups :: "incident_group list"
  db_acks :: "leadership_ack list"
  db_batches :: "management_batch list"
  db_items :: "management_item list"
  db_roles :: "role_assignment list"

definition empty_incident_db :: incident_db where
  "empty_incident_db = \<lparr>db_cases = [], db_counters = [], db_timeline = [], db_inquiries = [], db_actions = [],
     db_capas = [], db_rcas = [], db_reviews = [], db_case_artifacts = [], db_groups = [], db_acks = [],
     db_batches = [], db_items = [], db_roles = []\<rparr>"

record incident_world =
  iw_db :: incident_db
  iw_events :: "event_envelope list"
  iw_audit :: "audit_record list"
  iw_files :: "string set"
  iw_ticks :: nat
  iw_ids :: nat

definition empty_incident_world :: "string set \<Rightarrow> incident_world" where
  "empty_incident_world files = \<lparr>iw_db = empty_incident_db, iw_events = [], iw_audit = [], iw_files = files,
     iw_ticks = 0, iw_ids = 0\<rparr>"

text \<open>The clock, \<open>uuid4().hex\<close> and \<open>str(uuid4())\<close>, the root of the artifact storage, digest and size of a file.\<close>

record incident_env =
  inc_clock :: "nat \<Rightarrow> time"
  inc_hex :: "nat \<Rightarrow> string"
  inc_uuid :: "nat \<Rightarrow> string"
  artifacts_root :: string
  content_sha256 :: "string \<Rightarrow> string"
  content_size :: "string \<Rightarrow> int"

type_synonym 'a inc_meth = "(incident_world, incident_error, 'a) meth"

definition inc_utcnow :: "incident_env \<Rightarrow> time inc_meth" where
  "inc_utcnow env = (\<lambda>w. (Inr (inc_clock env (iw_ticks w)), w\<lparr>iw_ticks := Suc (iw_ticks w)\<rparr>))"

definition new_id :: "incident_env \<Rightarrow> string inc_meth" where
  "new_id env = (\<lambda>w. (Inr (inc_hex env (iw_ids w)), w\<lparr>iw_ids := Suc (iw_ids w)\<rparr>))"

definition event_uuid :: "incident_env \<Rightarrow> string inc_meth" where
  "event_uuid env = (\<lambda>w. (Inr (inc_uuid env (iw_ids w)), w\<lparr>iw_ids := Suc (iw_ids w)\<rparr>))"

definition read_db :: "(incident_db \<Rightarrow> 'a) \<Rightarrow> 'a inc_meth" where
  "read_db f = readM (\<lambda>w. f (iw_db w))"

definition write_db :: "(incident_db \<Rightarrow> incident_db) \<Rightarrow> unit inc_meth" where
  "write_db f = modifyM (\<lambda>w. w\<lparr>iw_db := f (iw_db w)\<rparr>)"

definition check_db :: "(incident_db \<Rightarrow> incident_error + 'a) \<Rightarrow> 'a inc_meth" where
  "check_db f = (\<lambda>w. (f (iw_db w), w))"

section \<open>Keys\<close>

definition has_case :: "incident_db \<Rightarrow> string \<Rightarrow> bool" where
  "has_case db i \<longleftrightarrow> i \<in> set (map ic_incident_id (db_cases db))"

text \<open>An insert: the primary key must be new, the referenced incident must exist.\<close>

definition fresh_row :: "('r \<Rightarrow> string) \<Rightarrow> 'r \<Rightarrow> 'r list \<Rightarrow> incident_error + unit" where
  "fresh_row key row rows =
     raise_if (key row \<in> set (map key rows)) (IncIntegrityError ''UNIQUE constraint failed'')"

definition refers_to_case :: "incident_db \<Rightarrow> string \<Rightarrow> incident_error + unit" where
  "refers_to_case db i = raise_if (\<not> has_case db i) (IncIntegrityError ''FOREIGN KEY constraint failed'')"

definition insert_child ::
  "('r \<Rightarrow> string) \<Rightarrow> ('r \<Rightarrow> string) \<Rightarrow> (incident_db \<Rightarrow> 'r list) \<Rightarrow>
   (('r list \<Rightarrow> 'r list) \<Rightarrow> incident_db \<Rightarrow> incident_db) \<Rightarrow> 'r \<Rightarrow> unit inc_meth" where
  "insert_child key parent table update_table row =
     bindM (check_db (\<lambda>db. bindE (fresh_row key row (table db)) (\<lambda>_. refers_to_case db (parent row)))) (\<lambda>_.
     write_db (update_table (\<lambda>rows. rows @ [row])))"

definition update_rows :: "('r \<Rightarrow> string) \<Rightarrow> string \<Rightarrow> ('r \<Rightarrow> 'r) \<Rightarrow> 'r list \<Rightarrow> 'r list" where
  "update_rows key k f rows = map (\<lambda>r. if key r = k then f r else r) rows"

section \<open>Numbering\<close>

definition report_date_key :: "datetime \<Rightarrow> string" where
  "report_date_key t = (let (y, m, d) = civil_from_days (dt_local t div day)
     in str_int y @ pad_int 2 m @ pad_int 2 d)"

definition format_incident_id :: "datetime \<Rightarrow> int \<Rightarrow> string" where
  "format_incident_id t n = report_date_key t @ ''_'' @ pad_int 4 n"

definition allocate_incident_id :: "datetime \<Rightarrow> string inc_meth" where
  "allocate_incident_id t =
     (let key = report_date_key t in
      bindM (read_db (\<lambda>db. map_of (db_counters db) key)) (\<lambda>row.
      let n = (case row of None \<Rightarrow> 1 | Some s \<Rightarrow> s) in
      bindM (write_db (db_counters_update (AList.update key (n + 1)))) (\<lambda>_.
      retM (format_incident_id t n))))"

section \<open>Cases\<close>

definition insert_incident :: "incident_case \<Rightarrow> unit inc_meth" where
  "insert_incident c =
     bindM (check_db (\<lambda>db. fresh_row ic_incident_id c (db_cases db))) (\<lambda>_.
     write_db (db_cases_update (\<lambda>rows. rows @ [c])))"

text \<open>The columns an \<open>UPDATE\<close> of a case writes.\<close>

definition case_columns :: "incident_case \<Rightarrow> incident_case \<Rightarrow> incident_case" where
  "case_columns c row = row\<lparr>ic_status := ic_status c, ic_classification := ic_classification c,
     ic_is_critical := ic_is_critical c, ic_criticality_reason := ic_criticality_reason c,
     ic_is_repeated := ic_is_repeated c, ic_capa_required := ic_capa_required c, ic_capa_reason := ic_capa_reason c,
     ic_root_cause_required := ic_root_cause_required c, ic_group_id := ic_group_id c,
     ic_leadership_required := ic_leadership_required c, ic_updated_at := ic_updated_at c,
     ic_closed_at := ic_closed_at c, ic_archived_at := ic_archived_at c\<rparr>"

definition update_incident :: "incident_case \<Rightarrow> unit inc_meth" where
  "update_incident c =
     write_db (db_cases_update (update_rows ic_incident_id (ic_incident_id c) (case_columns c)))"

definition find_case :: "incident_db \<Rightarrow> string \<Rightarrow> incident_case option" where
  "find_case db i = List.find (\<lambda>c. ic_incident_id c = i) (db_cases db)"

definition get_incident_row :: "string \<Rightarrow> incident_case inc_meth" where
  "get_incident_row i = check_db (\<lambda>db. case find_case db i of
       None \<Rightarrow> Inl (IncNotFoundError (''incident not found: '' @ i)) | Some c \<Rightarrow> Inr c)"

definition reported_text :: "incident_case \<Rightarrow> string" where
  "reported_text c = dt_iso (ic_reported_at c)"

definition opt_filter :: "'a option \<Rightarrow> ('a \<Rightarrow> bool) \<Rightarrow> bool" where
  "opt_filter x p \<longleftrightarrow> (case x of None \<Rightarrow> True | Some v \<Rightarrow> p v)"

text \<open>A clause on an optional text is left out for an empty text too.\<close>

definition text_filter :: "string option \<Rightarrow> (string \<Rightarrow> bool) \<Rightarrow> bool" where
  "text_filter x p \<longleftrightarrow> (if truthy x then p (the x) else True)"

definition matches_filter :: "incident_filter \<Rightarrow> incident_case \<Rightarrow> bool" where
  "matches_filter f c \<longleftrightarrow>
     opt_filter (fl_status f) (\<lambda>s. ic_status c = s) \<and>
     text_filter (fl_category f) (\<lambda>s. ic_category c = s) \<and>
     text_filter (fl_reporter_user_id f) (\<lambda>s. ic_reporter_user_id c = s) \<and>
     opt_filter (fl_from_reported_at f) (\<lambda>t. reported_text c \<ge> dt_iso t) \<and>
     opt_filter (fl_to_reported_at f) (\<lambda>t. reported_text c \<le> dt_iso t)"

definition list_incident_rows :: "incident_filter option \<Rightarrow> incident_db \<Rightarrow> incident_case list" where
  "list_incident_rows flt db =
     rev (sort_key (\<lambda>c. (reported_text c, ic_incident_id c))
       (rev (filter (\<lambda>c. opt_filter flt (\<lambda>f. matches_filter f c)) (db_cases db))))"

definition matches_similar :: "similar_query \<Rightarrow> incident_case \<Rightarrow> bool" where
  "matches_similar q c \<longleftrightarrow>
     text_filter (sq_incident_id q) (\<lambda>s. ic_incident_id c \<noteq> s) \<and>
     text_filter (sq_category q) (\<lambda>s. ic_category c = s) \<and>
     text_filter (sq_area q) (\<lambda>s. ic_area c = Some s) \<and>
     text_filter (sq_process_name q) (\<lambda>s. ic_process_name c = Some s) \<and>
     text_filter (sq_device q) (\<lambda>s. ic_device c = Some s) \<and>
     opt_filter (sq_from_reported_at q) (\<lambda>t. reported_text c \<ge> dt_iso t) \<and>
     opt_filter (sq_to_reported_at q) (\<lambda>t. reported_text c \<le> dt_iso t)"

definition list_similar_rows :: "similar_query \<Rightarrow> incident_db \<Rightarrow> incident_case list" where
  "list_similar_rows q db =
     (let limit = nat (max 1 (min (sq_limit q) 100));
          rows = take (if sq_labels q \<noteq> [] then limit * 5 else limit)
            (rev (sort_key reported_text (rev (filter (matches_similar q) (db_cases db)))));
          cases = (if sq_labels q \<noteq> [] then filter (\<lambda>c. list_ex (\<lambda>l. l \<in> set (ic_labels c)) (sq_labels q)) rows else rows)
      in take limit cases)"

definition list_incidents_in_period :: "datetime \<Rightarrow> datetime \<Rightarrow> incident_db \<Rightarrow> incident_case list" where
  "list_incidents_in_period from_time to_time db =
     sort_key (\<lambda>c. (reported_text c, ic_incident_id c))
       (filter (\<lambda>c. dt_iso from_time \<le> reported_text c \<and> reported_text c \<le> dt_iso to_time) (db_cases db))"

section \<open>Timeline, inquiries, actions\<close>

definition add_timeline_entry :: "timeline_entry \<Rightarrow> unit inc_meth" where
  "add_timeline_entry = insert_child tl_entry_id tl_incident_id db_timeline db_timeline_update"

definition list_timeline :: "string \<Rightarrow> incident_db \<Rightarrow> timeline_entry list" where
  "list_timeline i db = sort_key tl_created_at (filter (\<lambda>e. tl_incident_id e = i) (db_timeline db))"

definition add_inquiry :: "incident_inquiry \<Rightarrow> unit inc_meth" where
  "add_inquiry = insert_child iq_inquiry_id iq_incident_id db_inquiries db_inquiries_update"

definition update_inquiry :: "incident_inquiry \<Rightarrow> unit inc_meth" where
  "update_inquiry q = write_db (db_inquiries_update (update_rows iq_inquiry_id (iq_inquiry_id q)
     (\<lambda>r. r\<lparr>iq_answer := iq_answer q, iq_answered_by_user_id := iq_answered_by_user_id q,
            iq_answered_at := iq_answered_at q, iq_status := iq_status q\<rparr>)))"

text \<open>The latest_row by a time column: the first row of \<open>ORDER BY ... DESC LIMIT 1\<close>.\<close>

definition latest_row :: "('r \<Rightarrow> time) \<Rightarrow> 'r list \<Rightarrow> 'r option" where
  "latest_row col rows = (case sort_key (\<lambda>r. - col r) rows of [] \<Rightarrow> None | r # _ \<Rightarrow> Some r)"

definition get_open_inquiry :: "string \<Rightarrow> incident_db \<Rightarrow> incident_inquiry option" where
  "get_open_inquiry i db =
     latest_row iq_asked_at (filter (\<lambda>q. iq_incident_id q = i \<and> iq_status q = InqOPEN) (db_inquiries db))"

definition list_open_inquiry_rows :: "incident_db \<Rightarrow> incident_inquiry list" where
  "list_open_inquiry_rows db = sort_key (\<lambda>q. - iq_asked_at q) (filter (\<lambda>q. iq_status q = InqOPEN) (db_inquiries db))"

definition count_open_inquiries :: "string \<Rightarrow> incident_db \<Rightarrow> nat" where
  "count_open_inquiries i db = length (filter (\<lambda>q. iq_incident_id q = i \<and> iq_status q = InqOPEN) (db_inquiries db))"

definition add_action :: "incident_action \<Rightarrow> unit inc_meth" where
  "add_action = insert_child ia_action_id ia_incident_id db_actions db_actions_update"

definition update_action :: "incident_action \<Rightarrow> unit inc_meth" where
  "update_action a = write_db (db_actions_update (update_rows ia_action_id (ia_action_id a)
     (\<lambda>r. r\<lparr>ia_status := ia_status a, ia_completed_at := ia_completed_at a,
            ia_completed_by_user_id := ia_completed_by_user_id a\<rparr>)))"

definition get_action :: "string \<Rightarrow> incident_action inc_meth" where
  "get_action i = check_db (\<lambda>db. case List.find (\<lambda>a. ia_action_id a = i) (db_actions db) of
       None \<Rightarrow> Inl (IncNotFoundError (''action not found: '' @ i)) | Some a \<Rightarrow> Inr a)"

definition list_actions :: "string \<Rightarrow> incident_db \<Rightarrow> incident_action list" where
  "list_actions i db = sort_key ia_created_at (filter (\<lambda>a. ia_incident_id a = i) (db_actions db))"

definition list_open_action_rows :: "string \<Rightarrow> incident_db \<Rightarrow> incident_action list" where
  "list_open_action_rows i db = filter (\<lambda>a. ia_status a \<noteq> ActCOMPLETED) (list_actions i db)"

definition list_all_open_actions :: "incident_db \<Rightarrow> incident_action list" where
  "list_all_open_actions db =
     sort_key (\<lambda>a. - ia_created_at a) (filter (\<lambda>a. ia_status a \<noteq> ActCOMPLETED) (db_actions db))"

section \<open>CAPA, root cause analysis, effectiveness review\<close>

definition get_capa :: "string \<Rightarrow> incident_db \<Rightarrow> incident_capa option" where
  "get_capa i db = List.find (\<lambda>c. cp_incident_id c = i) (db_capas db)"

text \<open>An existing row is updated by the key of the new one, not by its own.\<close>

definition upsert_capa :: "incident_capa \<Rightarrow> unit inc_meth" where
  "upsert_capa c =
     bindM (read_db (get_capa (cp_incident_id c))) (\<lambda>existing.
     case existing of
       None \<Rightarrow> insert_child cp_capa_id cp_incident_id db_capas db_capas_update c
     | Some _ \<Rightarrow> write_db (db_capas_update (update_rows cp_capa_id (cp_capa_id c)
         (\<lambda>r. r\<lparr>cp_status := cp_status c, cp_trigger_reason := cp_trigger_reason c, cp_goal := cp_goal c,
                cp_description := cp_description c, cp_updated_at := cp_updated_at c\<rparr>))))"

definition get_rca :: "string \<Rightarrow> incident_db \<Rightarrow> root_cause_analysis option" where
  "get_rca i db = List.find (\<lambda>r. rc_incident_id r = i) (db_rcas db)"

definition upsert_rca :: "root_cause_analysis \<Rightarrow> unit inc_meth" where
  "upsert_rca a =
     bindM (read_db (get_rca (rc_incident_id a))) (\<lambda>existing.
     case existing of
       None \<Rightarrow> insert_child rc_rca_id rc_incident_id db_rcas db_rcas_update a
     | Some _ \<Rightarrow> write_db (db_rcas_update (update_rows rc_rca_id (rc_rca_id a)
         (\<lambda>r. r\<lparr>rc_immediate_event := rc_immediate_event a, rc_trigger := rc_trigger a,
                rc_root_causes := rc_root_causes a, rc_similar_prior := rc_similar_prior a,
                rc_systemic_weakness := rc_systemic_weakness a, rc_future_risk := rc_future_risk a,
                rc_method := rc_method a, rc_updated_at := rc_updated_at a\<rparr>))))"

definition add_effectiveness_review :: "effectiveness_review \<Rightarrow> unit inc_meth" where
  "add_effectiveness_review = insert_child er_review_id er_incident_id db_reviews db_reviews_update"

definition update_effectiveness_review :: "effectiveness_review \<Rightarrow> unit inc_meth" where
  "update_effectiveness_review v = write_db (db_reviews_update (update_rows er_review_id (er_review_id v)
     (\<lambda>r. r\<lparr>er_completed_at := er_completed_at v, er_completed_by_user_id := er_completed_by_user_id v,
            er_result := er_result v, er_effective := er_effective v, er_notes := er_notes v,
            er_status := er_status v\<rparr>)))"

definition get_effectiveness_review :: "string \<Rightarrow> incident_db \<Rightarrow> effectiveness_review option" where
  "get_effectiveness_review i db = latest_row er_created_at (filter (\<lambda>r. er_incident_id r = i) (db_reviews db))"

definition list_pending_review_rows :: "incident_db \<Rightarrow> effectiveness_review list" where
  "list_pending_review_rows db =
     sort_key (\<lambda>r. dt_iso (er_planned_at r)) (filter (\<lambda>r. er_status r = RevPLANNED) (db_reviews db))"

section \<open>Artifacts, groups, leadership, management review, roles\<close>

definition add_artifact :: "incident_artifact \<Rightarrow> unit inc_meth" where
  "add_artifact = insert_child af_artifact_id af_incident_id db_case_artifacts db_case_artifacts_update"

definition insert_group :: "incident_group \<Rightarrow> unit inc_meth" where
  "insert_group g =
     bindM (check_db (\<lambda>db. fresh_row gr_group_id g (db_groups db))) (\<lambda>_.
     write_db (db_groups_update (\<lambda>rows. rows @ [g])))"

definition get_group :: "string \<Rightarrow> incident_group inc_meth" where
  "get_group i = check_db (\<lambda>db. case List.find (\<lambda>g. gr_group_id g = i) (db_groups db) of
       None \<Rightarrow> Inl (IncNotFoundError (''group not found: '' @ i)) | Some g \<Rightarrow> Inr g)"

definition add_leadership_ack :: "leadership_ack \<Rightarrow> unit inc_meth" where
  "add_leadership_ack = insert_child la_ack_id la_incident_id db_acks db_acks_update"

definition update_leadership_ack :: "leadership_ack \<Rightarrow> unit inc_meth" where
  "update_leadership_ack a = write_db (db_acks_update (update_rows la_ack_id (la_ack_id a)
     (\<lambda>r. r\<lparr>la_comment := la_comment a, la_acknowledged_at := la_acknowledged_at a, la_status := la_status a\<rparr>)))"

definition get_leadership_ack :: "string \<Rightarrow> incident_db \<Rightarrow> leadership_ack option" where
  "get_leadership_ack i db = latest_row la_forwarded_at (filter (\<lambda>a. la_incident_id a = i) (db_acks db))"

definition list_leadership_rows :: "string \<Rightarrow> incident_db \<Rightarrow> leadership_ack list" where
  "list_leadership_rows user db =
     sort_key (\<lambda>a. - la_forwarded_at a) (filter (\<lambda>a. la_leadership_user_id a = user) (db_acks db))"

definition insert_management_batch :: "management_batch \<Rightarrow> unit inc_meth" where
  "insert_management_batch b =
     bindM (check_db (\<lambda>db. fresh_row mb_batch_id b (db_batches db))) (\<lambda>_.
     write_db (db_batches_update (\<lambda>rows. rows @ [b])))"

definition update_management_batch :: "management_batch \<Rightarrow> unit inc_meth" where
  "update_management_batch b = write_db (db_batches_update (update_rows mb_batch_id (mb_batch_id b)
     (\<lambda>r. r\<lparr>mb_status := mb_status b, mb_report_storage_key := mb_report_storage_key b\<rparr>)))"

definition get_management_batch :: "string \<Rightarrow> management_batch inc_meth" where
  "get_management_batch i = check_db (\<lambda>db. case List.find (\<lambda>b. mb_batch_id b = i) (db_batches db) of
       None \<Rightarrow> Inl (IncNotFoundError (''management review batch not found: '' @ i)) | Some b \<Rightarrow> Inr b)"

definition insert_management_item :: "management_item \<Rightarrow> unit inc_meth" where
  "insert_management_item x =
     bindM (check_db (\<lambda>db.
        bindE (fresh_row mi_item_id x (db_items db)) (\<lambda>_.
        bindE (refers_to_case db (mi_incident_id x)) (\<lambda>_.
        raise_if (mi_batch_id x \<notin> set (map mb_batch_id (db_batches db)))
          (IncIntegrityError ''FOREIGN KEY constraint failed''))))) (\<lambda>_.
     write_db (db_items_update (\<lambda>rows. rows @ [x])))"

definition update_management_item :: "management_item \<Rightarrow> unit inc_meth" where
  "update_management_item x = write_db (db_items_update (update_rows mi_item_id (mi_item_id x)
     (\<lambda>r. r\<lparr>mi_status := mi_status x, mi_acknowledged_at := mi_acknowledged_at x,
            mi_acknowledged_by_user_id := mi_acknowledged_by_user_id x\<rparr>)))"

definition list_management_items :: "string \<Rightarrow> incident_db \<Rightarrow> management_item list" where
  "list_management_items i db = sort_key mi_incident_id (filter (\<lambda>x. mi_batch_id x = i) (db_items db))"

definition upsert_module_role :: "role_assignment \<Rightarrow> unit inc_meth" where
  "upsert_module_role a =
     bindM (read_db db_roles) (\<lambda>rows.
     if \<exists>r \<in> set rows. ro_user_id r = ro_user_id a \<and> ro_role_name r = ro_role_name a
     then write_db (db_roles_update (map (\<lambda>r. if ro_user_id r = ro_user_id a \<and> ro_role_name r = ro_role_name a
            then r\<lparr>ro_assigned_by_user_id := ro_assigned_by_user_id a, ro_assigned_at := ro_assigned_at a\<rparr> else r)))
     else bindM (check_db (\<lambda>db. fresh_row ro_assignment_id a (db_roles db))) (\<lambda>_.
          write_db (db_roles_update (\<lambda>rows. rows @ [a]))))"

definition list_role_rows :: "module_role option \<Rightarrow> incident_db \<Rightarrow> role_assignment list" where
  "list_role_rows role db =
     sort_key (\<lambda>r. - ro_assigned_at r) (filter (\<lambda>r. opt_filter role (\<lambda>x. ro_role_name r = x)) (db_roles db))"

section \<open>Files\<close>

record stored_object =
  so_storage_key :: string
  so_sha256 :: string
  so_size_bytes :: int
  so_mime_type :: string

definition store_file_copy :: "incident_env \<Rightarrow> string \<Rightarrow> string \<Rightarrow> string \<Rightarrow> stored_object inc_meth" where
  "store_file_copy env source_path incident_id artifact_type =
     (let ext = (if py_lower (path_suffix source_path) = [] then ''.bin'' else py_lower (path_suffix source_path)) in
      bindM (new_id env) (\<lambda>object_id.
      let key = incident_id @ ''/'' @ artifact_type @ ''/'' @ object_id @ ext in
      bindM (modifyM (\<lambda>w. w\<lparr>iw_files := insert (artifacts_root env @ ''/'' @ key) (iw_files w)\<rparr>)) (\<lambda>_.
      retM \<lparr>so_storage_key = key, so_sha256 = content_sha256 env source_path, so_size_bytes = content_size env source_path,
            so_mime_type = (if ext = ''.pdf'' then ''application/pdf'' else ''application/octet-stream'')\<rparr>)))"

section \<open>Events, audit, timeline\<close>

definition inc_publish_event :: "incident_env \<Rightarrow> string \<Rightarrow> string \<Rightarrow> (string, pyval) dict \<Rightarrow> unit inc_meth" where
  "inc_publish_event env name actor payload =
     bindM (event_uuid env) (\<lambda>event_id.
     bindM (inc_utcnow env) (\<lambda>now.
     bindM (event_uuid env) (\<lambda>correlation_id.
     modifyM (\<lambda>w. w\<lparr>iw_events := iw_events w @ [\<lparr>ev_event_id = event_id, ev_name = name, ev_occurred_at = now,
       ev_correlation_id = correlation_id, ev_actor_user_id = Some actor, ev_module_id = ''incident_management'',
       ev_payload = payload\<rparr>]\<rparr>))))"

definition inc_emit_audit :: "string \<Rightarrow> string \<Rightarrow> string \<Rightarrow> string \<Rightarrow> unit inc_meth" where
  "inc_emit_audit action actor target reason =
     modifyM (\<lambda>w. w\<lparr>iw_audit := iw_audit w @ [\<lparr>au_action = action, au_actor = actor, au_target = target,
       au_result = ''ok'', au_reason = reason\<rparr>]\<rparr>)"

fun timeline_text :: "timeline_entry_type \<Rightarrow> string" where
  "timeline_text T_SUBMITTED = ''Incident submitted''"
| "timeline_text T_INQUIRY_OPENED = ''Inquiry opened''"
| "timeline_text T_INQUIRY_ANSWERED = ''Inquiry answered''"
| "timeline_text T_ASSESSED = ''Incident assessed''"
| "timeline_text T_ACTION_CREATED = ''Action created''"
| "timeline_text T_ACTION_COMPLETED = ''Action completed''"
| "timeline_text T_CAPA_STARTED = ''CAPA started''"
| "timeline_text T_CAPA_UPDATED = ''CAPA updated''"
| "timeline_text T_RCA_CREATED = ''Root cause analysis created''"
| "timeline_text T_EFFECTIVENESS_PLANNED = ''Effectiveness review planned''"
| "timeline_text T_EFFECTIVENESS_REVIEWED = ''Effectiveness review completed''"
| "timeline_text T_LEADERSHIP_FORWARDED = ''Forwarded to leadership''"
| "timeline_text T_LEADERSHIP_ACKNOWLEDGED = ''Leadership acknowledged''"
| "timeline_text T_GROUPED = ''Incident grouped''"
| "timeline_text T_ARTIFACT_ATTACHED = ''Artifact attached''"
| "timeline_text T_REPORT_GENERATED = ''Report generated''"
| "timeline_text T_CLOSED = ''Incident closed''"
| "timeline_text T_ARCHIVED = ''Incident archived''"
| "timeline_text T_STATUS_CHANGED = ''Status changed''"
| "timeline_text T_MANAGEMENT_REVIEW_CREATED = ''Management review batch created''"
| "timeline_text T_MANAGEMENT_REVIEW_IN_DISCUSSION = ''Management review in discussion''"
| "timeline_text T_MANAGEMENT_REVIEW_ACKNOWLEDGED = ''Management review item acknowledged''"

text \<open>
  The entry every operation builds from \<open>timeline_summary\<close> and writes with a fresh identifier.
  No caller passes a detail that is \<open>None\<close>, so the filter of \<open>timeline_summary\<close> keeps them all.
\<close>

definition record_timeline ::
  "incident_env \<Rightarrow> timeline_entry_type \<Rightarrow> string \<Rightarrow> string option \<Rightarrow> time \<Rightarrow> (string, string) dict \<Rightarrow> unit inc_meth" where
  "record_timeline env t incident actor now details =
     bindM (new_id env) (\<lambda>entry_id.
     add_timeline_entry \<lparr>tl_entry_id = entry_id, tl_incident_id = incident, tl_entry_type = t,
       tl_actor_user_id = actor, tl_summary = timeline_text t, tl_details = details, tl_created_at = now\<rparr>)"

section \<open>Numbers read back\<close>

text \<open>
  The numbers of incidents (\<open>incident_numbering.py\<close>): the decimal text of a number can be read back,
  with or without leading zeros, so that an incident id determines the report date and the number.
\<close>

section \<open>No separator inside\<close>

lemma str_nat_plain: "CHR ''_'' \<notin> set (str_nat n)"
proof (induction n rule: str_nat.induct)
  case (1 n)
  have digit: "char_of (48 + d) \<noteq> CHR ''_''" if "d < 10" for d :: nat
  proof
    assume "char_of (48 + d) = CHR ''_''"
    then have "of_char (char_of (48 + d) :: char) = (of_char (CHR ''_'') :: nat)" by simp
    with that show False by simp
  qed
  show ?case
  proof (cases "n < 10")
    case True
    then show ?thesis using digit [of n] by (simp add: str_nat.simps [of n])
  next
    case False
    then have "str_nat n = str_nat (n div 10) @ [char_of (48 + n mod 10)]" by (subst str_nat.simps) simp
    then show ?thesis using 1 [OF False] digit [of "n mod 10"] by simp
  qed
qed

lemma pad_int_plain: "CHR ''_'' \<notin> set (pad_int w i)"
  using str_nat_plain by (simp add: pad_int_def Let_def str_int_def)

lemma report_date_key_plain: "CHR ''_'' \<notin> set (report_date_key t)"
  using str_nat_plain pad_int_plain by (simp add: report_date_key_def str_int_def split: prod.split)

lemma split_at_separator:
  assumes "xs @ c # ys = xs' @ c # ys'" and "c \<notin> set xs" and "c \<notin> set xs'"
  shows "xs = xs' \<and> ys = ys'"
  using assms
proof (induction xs arbitrary: xs')
  case Nil
  then show ?case by (cases xs') auto
next
  case (Cons x xs)
  then show ?case by (cases xs') auto
qed

lemma format_incident_id_inject:
  assumes "format_incident_id t n = format_incident_id t' m" and "0 \<le> n" and "0 \<le> m"
  shows "report_date_key t = report_date_key t' \<and> n = m"
proof -
  have "report_date_key t = report_date_key t' \<and> pad_int 4 n = pad_int 4 m"
    by (rule split_at_separator) (use assms(1) report_date_key_plain in \<open>simp_all add: format_incident_id_def\<close>)
  then show ?thesis using pad_int_inject assms(2,3) by blast
qed

end
