(* ===== verification/IncidentRules.thy ===== *)
theory IncidentRules
  imports IncidentStore
begin

text \<open>
  The rules of the incident module that need no state: roles (\<open>authorization.py\<close>), status
  transitions (\<open>status_transitions.py\<close>), input checks (\<open>validation.py\<close>), rules and defaults from the
  settings (\<open>settings_rules.py\<close>, \<open>capa_rules.py\<close>) and the outcome of an assessment
  (\<open>assessment_ops.py\<close>).
\<close>

section \<open>Roles\<close>

definition normalize_system_role :: "string option \<Rightarrow> string option" where
  "normalize_system_role role = (case role of
       None \<Rightarrow> None
     | Some r \<Rightarrow> Some (if py_lower r = ''admin'' then ''Admin''
                      else if py_lower r = ''qmb'' then ''QMB''
                      else if py_lower r = ''user'' then ''User'' else r))"

definition user_role :: "incident_user option \<Rightarrow> string" where
  "user_role user = (case Option.bind user (\<lambda>u. normalize_system_role (iu_role u)) of None \<Rightarrow> [] | Some r \<Rightarrow> r)"

definition is_admin :: "incident_user option \<Rightarrow> bool" where
  "is_admin user \<longleftrightarrow> user_role user = ''Admin''"

definition is_qmb :: "incident_user option \<Rightarrow> bool" where
  "is_qmb user \<longleftrightarrow> user_role user = ''QMB'' \<or> user_role user = ''Admin'' \<or>
     (case user of None \<Rightarrow> False | Some u \<Rightarrow> iu_is_qmb u) \<and> user_role user = ''User''"

text \<open>\<open>user_id(None)\<close> raises \<open>AttributeError\<close>; after a passed role check the user is there.\<close>

definition inc_user_id :: "incident_user option \<Rightarrow> incident_error + string" where
  "inc_user_id user = (case user of None \<Rightarrow> Inl (IncPyError ''AttributeError'') | Some u \<Rightarrow> Inr (iu_user_id u))"

definition uid_of :: "incident_user option \<Rightarrow> string" where
  "uid_of user = (case user of None \<Rightarrow> [] | Some u \<Rightarrow> iu_user_id u)"

definition require_authenticated :: "incident_user option \<Rightarrow> incident_error + unit" where
  "require_authenticated user = raise_if (user = None) (IncAuthorizationError ''login required'')"

definition require_qmb :: "incident_user option \<Rightarrow> incident_error + unit" where
  "require_qmb user = raise_if (\<not> is_qmb user) (IncAuthorizationError ''QMB role required'')"

definition require_admin_or_qmb :: "incident_user option \<Rightarrow> incident_error + unit" where
  "require_admin_or_qmb user =
     raise_if (\<not> (is_admin user \<or> is_qmb user)) (IncAuthorizationError ''Admin or QMB role required'')"

definition require_module_role ::
  "incident_user option \<Rightarrow> module_role \<Rightarrow> role_assignment list \<Rightarrow> incident_error + unit" where
  "require_module_role user role assignments =
     bindE (inc_user_id user) (\<lambda>uid.
     raise_if (\<not> list_ex (\<lambda>a. ro_user_id a = uid \<and> ro_role_name a = role) assignments)
       (IncAuthorizationError (''module role '' @ [CHR 0x27] @ module_role_value role @ [CHR 0x27] @ '' required'')))"

text \<open>\<open>has_module_role\<close> catches the \<open>AuthorizationError\<close> only.\<close>

definition has_module_role ::
  "incident_user option \<Rightarrow> module_role \<Rightarrow> role_assignment list \<Rightarrow> incident_error + bool" where
  "has_module_role user role assignments = (case require_module_role user role assignments of
       Inl (IncAuthorizationError _) \<Rightarrow> Inr False | Inl e \<Rightarrow> Inl e | Inr _ \<Rightarrow> Inr True)"

definition require_can_answer_inquiry :: "incident_user option \<Rightarrow> incident_case \<Rightarrow> incident_error + unit" where
  "require_can_answer_inquiry user c =
     bindE (require_authenticated user) (\<lambda>_.
     raise_if (uid_of user \<noteq> ic_reporter_user_id c)
       (IncAuthorizationError ''only incident reporter may answer inquiry''))"

definition require_leadership_recipient :: "incident_user option \<Rightarrow> leadership_ack \<Rightarrow> incident_error + unit" where
  "require_leadership_recipient user ack =
     bindE (require_authenticated user) (\<lambda>_.
     raise_if (la_leadership_user_id ack \<noteq> uid_of user)
       (IncAuthorizationError ''incident not assigned to this leadership user''))"

section \<open>Status transitions\<close>

fun allowed_transitions :: "incident_status \<Rightarrow> incident_status list" where
  "allowed_transitions S_SUBMITTED = [S_QMB_REVIEW, S_INQUIRY_OPEN]"
| "allowed_transitions S_QMB_REVIEW =
     [S_INQUIRY_OPEN, S_DOCUMENTATION_ONLY, S_ASSESSED, S_ROOT_CAUSE_REQUIRED, S_CAPA_REQUIRED]"
| "allowed_transitions S_INQUIRY_OPEN = [S_INQUIRY_ANSWERED]"
| "allowed_transitions S_INQUIRY_ANSWERED =
     [S_QMB_REVIEW, S_DOCUMENTATION_ONLY, S_ASSESSED, S_ROOT_CAUSE_REQUIRED, S_CAPA_REQUIRED]"
| "allowed_transitions S_DOCUMENTATION_ONLY = [S_CLOSURE_REVIEW]"
| "allowed_transitions S_ASSESSED = [S_ACTIONS_IN_PROGRESS, S_CAPA_PLANNING, S_CLOSURE_REVIEW]"
| "allowed_transitions S_ROOT_CAUSE_REQUIRED = [S_ROOT_CAUSE_IN_PROGRESS, S_CAPA_REQUIRED]"
| "allowed_transitions S_ROOT_CAUSE_IN_PROGRESS = [S_CAPA_REQUIRED, S_CAPA_PLANNING, S_CLOSURE_REVIEW]"
| "allowed_transitions S_CAPA_REQUIRED = [S_CAPA_PLANNING, S_ROOT_CAUSE_IN_PROGRESS]"
| "allowed_transitions S_CAPA_PLANNING = [S_ACTIONS_IN_PROGRESS]"
| "allowed_transitions S_ACTIONS_IN_PROGRESS = [S_FOLLOW_UP, S_EFFECTIVENESS_PLANNED]"
| "allowed_transitions S_FOLLOW_UP = [S_ACTIONS_IN_PROGRESS, S_EFFECTIVENESS_PLANNED, S_CAPA_PLANNING]"
| "allowed_transitions S_EFFECTIVENESS_PLANNED = [S_EFFECTIVENESS_REVIEW, S_FOLLOW_UP]"
| "allowed_transitions S_EFFECTIVENESS_REVIEW = [S_CLOSURE_REVIEW, S_FOLLOW_UP]"
| "allowed_transitions S_CLOSURE_REVIEW = [S_LEADERSHIP_ACK_REQUIRED, S_CLOSED]"
| "allowed_transitions S_LEADERSHIP_ACK_REQUIRED = [S_CLOSURE_REVIEW]"
| "allowed_transitions S_CLOSED = [S_ARCHIVED]"
| "allowed_transitions S_ARCHIVED = []"

definition validate_status_transition :: "incident_status \<Rightarrow> incident_status \<Rightarrow> incident_error + unit" where
  "validate_status_transition from_status to_status =
     raise_if (from_status \<noteq> to_status \<and> to_status \<notin> set (allowed_transitions from_status))
       (IncValidationError (''invalid status transition: '' @ incident_status_value from_status @ '' -> '' @
          incident_status_value to_status))"

section \<open>Input checks\<close>

definition strip_opt :: "string option \<Rightarrow> string" where
  "strip_opt x = py_strip (case x of None \<Rightarrow> [] | Some s \<Rightarrow> s)"

definition require_non_empty :: "string option \<Rightarrow> string \<Rightarrow> incident_error + string" where
  "require_non_empty v field_name =
     bindE (raise_if (strip_opt v = []) (IncValidationError (field_name @ '' is required''))) (\<lambda>_. Inr (strip_opt v))"

definition validate_submission :: "incident_submission \<Rightarrow> incident_error + unit" where
  "validate_submission s =
     bindE (require_non_empty (Some (is_title s)) ''title'') (\<lambda>_.
     bindE (require_non_empty (Some (is_description s)) ''description'') (\<lambda>_.
     bindE (require_non_empty (Some (is_category s)) ''category'') (\<lambda>_. Inr ())))"

definition validate_assessment :: "assessment_input \<Rightarrow> incident_error + unit" where
  "validate_assessment a =
     bindE (raise_if (as_is_critical a \<and> strip_opt (as_criticality_reason a) = [])
       (IncValidationError ''criticality_reason is required when incident is critical'')) (\<lambda>_.
     raise_if (as_capa_required a \<and> strip_opt (as_capa_reason a) = [])
       (IncValidationError ''capa_reason is required when CAPA is required''))"

section \<open>Rules from the settings\<close>

definition allowed_labels :: "incident_settings \<Rightarrow> string set" where
  "allowed_labels settings = set (concat (map (\<lambda>(_, labels). case labels of None \<Rightarrow> [] | Some ls \<Rightarrow> ls)
     (st_label_groups settings)))"

definition validate_submission_against_settings ::
  "incident_submission \<Rightarrow> incident_settings \<Rightarrow> incident_error + unit" where
  "validate_submission_against_settings s settings =
     bindE (raise_if (st_categories settings \<noteq> [] \<and> py_strip (is_category s) \<notin> set (st_categories settings))
       (IncValidationError ''category is not in configured categories'')) (\<lambda>_.
     raise_if (is_labels s \<noteq> [] \<and> allowed_labels settings \<noteq> {} \<and>
         list_ex (\<lambda>l. l \<notin> allowed_labels settings) (is_labels s))
       (IncValidationError ''labels are not in configured label_groups''))"

definition deadline_key :: "action_type \<Rightarrow> string" where
  "deadline_key t = (case t of IMMEDIATE_ACTION \<Rightarrow> ''immediate_action_days''
     | CORRECTIVE_ACTION \<Rightarrow> ''corrective_action_days'' | PREVENTIVE_ACTION \<Rightarrow> ''preventive_action_days'')"

definition get_or :: "('k, 'v) dict \<Rightarrow> 'k \<Rightarrow> 'v \<Rightarrow> 'v" where
  "get_or d k fallback = (case map_of d k of None \<Rightarrow> fallback | Some v \<Rightarrow> v)"

definition zero_or :: "int \<Rightarrow> int \<Rightarrow> int" where
  "zero_or n fallback = (if n = 0 then fallback else n)"

definition default_action_due_at :: "incident_settings \<Rightarrow> action_type \<Rightarrow> time \<Rightarrow> datetime" where
  "default_action_due_at settings t base =
     (let deadlines = st_deadlines settings;
          days = zero_or (get_or deadlines (deadline_key t) (get_or deadlines ''action_days'' 30)) 30
      in utc_datetime (base + (if days < 1 then 30 else days) * day))"

definition settings_delay_days :: "incident_settings \<Rightarrow> int" where
  "settings_delay_days settings = (case st_effectiveness_delay settings of None \<Rightarrow> 30 | Some n \<Rightarrow> zero_or n 30)"

definition resolve_criticality_group :: "incident_settings \<Rightarrow> bool \<Rightarrow> string" where
  "resolve_criticality_group settings is_critical =
     (let groups = st_criticality_groups settings; standard = get_or groups ''default'' ''standard''
      in if is_critical then get_or groups ''critical'' standard else get_or groups ''non_critical'' standard)"

definition capa_rule :: "incident_settings \<Rightarrow> string \<Rightarrow> bool" where
  "capa_rule settings key = get_or (st_capa_rules settings) key True"

definition derive_capa_required :: "assessment_input \<Rightarrow> incident_settings \<Rightarrow> bool" where
  "derive_capa_required a settings \<longleftrightarrow>
     (if as_is_critical a \<and> capa_rule settings ''critical'' then True
      else if as_is_repeated a \<and> capa_rule settings ''repeated'' then True
      else if as_patient_safety_relevant a \<and> capa_rule settings ''patient_safety'' then True
      else if as_system_risk_relevant a \<and> capa_rule settings ''system_risk'' then True
      else if as_formal_deviation a \<and> capa_rule settings ''formal_deviation'' then True
      else if as_result_correctness_issue a \<and> capa_rule settings ''result_correctness'' then True
      else if as_escalation_required a \<and> capa_rule settings ''escalation'' then True
      else as_capa_required a)"

section \<open>The outcome of an assessment\<close>

definition effective_root_cause_required :: "assessment_input \<Rightarrow> bool \<Rightarrow> bool" where
  "effective_root_cause_required a capa_required \<longleftrightarrow> as_root_cause_required a \<or> capa_required"

definition stored_capa_reason :: "assessment_input \<Rightarrow> bool \<Rightarrow> string option" where
  "stored_capa_reason a capa_required =
     (if capa_required \<and> strip_opt (as_capa_reason a) = []
      then (if strip_opt (as_criticality_reason a) = [] then None else Some (strip_opt (as_criticality_reason a)))
      else as_capa_reason a)"

definition next_status_after_assessment :: "incident_classification \<Rightarrow> bool \<Rightarrow> bool \<Rightarrow> incident_status" where
  "next_status_after_assessment classification capa_required root_cause_required =
     (if \<not> capa_required \<and> \<not> root_cause_required \<and> classification = OBSERVATION then S_DOCUMENTATION_ONLY
      else if root_cause_required then S_ROOT_CAUSE_REQUIRED
      else if capa_required then S_CAPA_REQUIRED
      else S_ASSESSED)"

end
