(* ===== verification/IncidentOps.thy ===== *)
theory IncidentOps
  imports IncidentRules
begin

text \<open>
  The operations of the incident module, one definition per function of \<open>incident_ops.py\<close>,
  \<open>inquiry_ops.py\<close>, \<open>assessment_ops.py\<close>, \<open>action_ops.py\<close>, \<open>capa_ops.py\<close>, \<open>root_cause_ops.py\<close>,
  \<open>effectiveness_ops.py\<close>, \<open>grouping_ops.py\<close>, \<open>leadership_ops.py\<close>, \<open>role_ops.py\<close>, \<open>artifact_ops.py\<close>,
  \<open>management_review_ops.py\<close> and \<open>query_ops.py\<close>, with their checks and effects in the order of the
  code. The audit logger and the event bus are present, as the wiring builds the service.
\<close>

section \<open>Shared steps\<close>

text \<open>How an operation ends: a timeline entry, an audit record, an event.\<close>

definition conclude ::
  "incident_env \<Rightarrow> timeline_entry_type \<Rightarrow> string \<Rightarrow> string \<Rightarrow> time \<Rightarrow> (string, string) dict \<Rightarrow> string \<Rightarrow>
   string \<Rightarrow> (string, pyval) dict \<Rightarrow> unit inc_meth" where
  "conclude env t incident uid now details audit_action event payload =
     bindM (record_timeline env t incident (Some uid) now details) (\<lambda>_.
     bindM (inc_emit_audit audit_action uid incident []) (\<lambda>_.
     inc_publish_event env event uid payload))"

definition set_status :: "incident_env \<Rightarrow> incident_case \<Rightarrow> incident_status \<Rightarrow> string \<Rightarrow> incident_case inc_meth" where
  "set_status env c status uid =
     bindM (liftE (validate_status_transition (ic_status c) status)) (\<lambda>_.
     bindM (inc_utcnow env) (\<lambda>now.
     let updated = c\<lparr>ic_status := status, ic_updated_at := now\<rparr> in
     bindM (update_incident updated) (\<lambda>_.
     bindM (record_timeline env T_STATUS_CHANGED (ic_incident_id c) (Some uid) now
       [(''from_status'', incident_status_value (ic_status c)), (''to_status'', incident_status_value status)]) (\<lambda>_.
     retM updated))))"

section \<open>Submission\<close>

definition submit_incident ::
  "incident_env \<Rightarrow> incident_settings \<Rightarrow> incident_user option \<Rightarrow> incident_submission \<Rightarrow> incident_case inc_meth" where
  "submit_incident env settings user s =
     bindM (liftE (require_authenticated user)) (\<lambda>_.
     bindM (liftE (validate_submission s)) (\<lambda>_.
     bindM (liftE (validate_submission_against_settings s settings)) (\<lambda>_.
     bindM (inc_utcnow env) (\<lambda>now.
     bindM (allocate_incident_id (is_reported_at s)) (\<lambda>incident_id.
     let c = \<lparr>ic_incident_id = incident_id, ic_status = S_SUBMITTED, ic_reporter_user_id = uid_of user,
           ic_reported_at = is_reported_at s, ic_title = py_strip (is_title s),
           ic_description = py_strip (is_description s), ic_category = py_strip (is_category s),
           ic_labels = is_labels s, ic_area = is_area s, ic_process_name = is_process_name s,
           ic_device = is_device s, ic_classification = None, ic_is_critical = None,
           ic_criticality_reason = None, ic_is_repeated = None, ic_capa_required = None, ic_capa_reason = None,
           ic_root_cause_required = None, ic_group_id = None, ic_leadership_required = False,
           ic_created_at = now, ic_updated_at = now, ic_closed_at = None, ic_archived_at = None\<rparr> in
     bindM (insert_incident c) (\<lambda>_.
     bindM (conclude env T_SUBMITTED incident_id (uid_of user) now [(''incident_id'', incident_id)]
       ''incident.submit'' ''domain.incident_management.incident.submitted.v1''
       [(''incident_id'', PyStr incident_id), (''status'', PyStr (incident_status_value S_SUBMITTED))]) (\<lambda>_.
     retM c)))))))"

section \<open>Inquiries\<close>

definition open_inquiry ::
  "incident_env \<Rightarrow> incident_user option \<Rightarrow> string \<Rightarrow> string \<Rightarrow> incident_inquiry inc_meth" where
  "open_inquiry env user incident question =
     bindM (liftE (require_qmb user)) (\<lambda>_.
     bindM (get_incident_row incident) (\<lambda>c.
     bindM (liftE (require_non_empty (Some question) ''question'')) (\<lambda>question_text.
     bindM (inc_utcnow env) (\<lambda>now.
     bindM (new_id env) (\<lambda>inquiry_id.
     let q = \<lparr>iq_inquiry_id = inquiry_id, iq_incident_id = incident, iq_question = question_text, iq_answer = None,
           iq_asked_by_user_id = uid_of user, iq_answered_by_user_id = None, iq_asked_at = now,
           iq_answered_at = None, iq_status = InqOPEN\<rparr> in
     bindM (add_inquiry q) (\<lambda>_.
     bindM (set_status env c S_INQUIRY_OPEN (uid_of user)) (\<lambda>_.
     bindM (conclude env T_INQUIRY_OPENED incident (uid_of user) now [(''inquiry_id'', inquiry_id)]
       ''incident.inquiry.open'' ''domain.incident_management.inquiry.opened.v1''
       [(''incident_id'', PyStr incident), (''inquiry_id'', PyStr inquiry_id)]) (\<lambda>_.
     retM q))))))))"

definition answer_inquiry ::
  "incident_env \<Rightarrow> incident_user option \<Rightarrow> string \<Rightarrow> string \<Rightarrow> incident_inquiry inc_meth" where
  "answer_inquiry env user incident answer =
     bindM (read_db (get_open_inquiry incident)) (\<lambda>found.
     case found of
       None \<Rightarrow> raiseM (IncValidationError ''no open inquiry for incident'')
     | Some q \<Rightarrow>
         bindM (get_incident_row incident) (\<lambda>c.
         bindM (liftE (require_can_answer_inquiry user c)) (\<lambda>_.
         bindM (liftE (require_non_empty (Some answer) ''answer'')) (\<lambda>answer_text.
         bindM (inc_utcnow env) (\<lambda>now.
         let updated = q\<lparr>iq_incident_id := incident, iq_answer := Some answer_text,
               iq_answered_by_user_id := Some (uid_of user), iq_answered_at := Some now, iq_status := InqANSWERED\<rparr> in
         bindM (update_inquiry updated) (\<lambda>_.
         bindM (set_status env c S_INQUIRY_ANSWERED (uid_of user)) (\<lambda>_.
         bindM (conclude env T_INQUIRY_ANSWERED incident (uid_of user) now [(''inquiry_id'', iq_inquiry_id q)]
           ''incident.inquiry.answer'' ''domain.incident_management.inquiry.answered.v1''
           [(''incident_id'', PyStr incident), (''inquiry_id'', PyStr (iq_inquiry_id q))]) (\<lambda>_.
         retM updated))))))))"

section \<open>Assessment\<close>

definition py_bool_text :: "bool \<Rightarrow> string" where
  "py_bool_text b = (if b then ''True'' else ''False'')"

definition assess_incident ::
  "incident_env \<Rightarrow> incident_settings \<Rightarrow> incident_user option \<Rightarrow> string \<Rightarrow> assessment_input \<Rightarrow> incident_case inc_meth" where
  "assess_incident env settings user incident a =
     bindM (liftE (require_qmb user)) (\<lambda>_.
     bindM (liftE (validate_assessment a)) (\<lambda>_.
     bindM (get_incident_row incident) (\<lambda>c0.
     bindM (liftE (raise_if (ic_status c0 \<in> {S_CLOSED, S_ARCHIVED})
       (IncValidationError ''cannot assess closed or archived incident''))) (\<lambda>_.
     bindM (read_db (count_open_inquiries incident)) (\<lambda>open_inquiries.
     bindM (liftE (raise_if (open_inquiries > 0)
       (IncValidationError ''open inquiry must be answered before assessment''))) (\<lambda>_.
     let capa_required = derive_capa_required a settings;
         root_cause_required = effective_root_cause_required a capa_required;
         capa_reason = stored_capa_reason a capa_required;
         leadership_required = (capa_required \<or> as_is_critical a);
         next_status = next_status_after_assessment (as_classification a) capa_required root_cause_required in
     bindM (inc_utcnow env) (\<lambda>now.
     bindM (if ic_status c0 = S_SUBMITTED then set_status env c0 S_QMB_REVIEW (uid_of user) else retM c0) (\<lambda>c1.
     bindM (set_status env c1 next_status (uid_of user)) (\<lambda>c2.
     let updated = c2\<lparr>ic_classification := Some (as_classification a), ic_is_critical := Some (as_is_critical a),
           ic_criticality_reason := as_criticality_reason a, ic_is_repeated := Some (as_is_repeated a),
           ic_capa_required := Some capa_required, ic_capa_reason := capa_reason,
           ic_root_cause_required := Some root_cause_required,
           ic_group_id := or_str (as_group_id a) (ic_group_id c2), ic_leadership_required := leadership_required\<rparr> in
     bindM (update_incident updated) (\<lambda>_.
     bindM (conclude env T_ASSESSED incident (uid_of user) now
       [(''classification'', classification_value (as_classification a)),
        (''capa_required'', py_bool_text capa_required),
        (''patient_safety'', py_bool_text (as_patient_safety_relevant a)),
        (''system_risk'', py_bool_text (as_system_risk_relevant a))]
       ''incident.assess'' ''domain.incident_management.incident.assessed.v1''
       [(''incident_id'', PyStr incident), (''classification'', PyStr (classification_value (as_classification a))),
        (''capa_required'', PyBool capa_required),
        (''criticality_group'', PyStr (resolve_criticality_group settings (as_is_critical a))),
        (''patient_safety_relevant'', PyBool (as_patient_safety_relevant a)),
        (''system_risk_relevant'', PyBool (as_system_risk_relevant a))]) (\<lambda>_.
     bindM (whenM capa_required (inc_publish_event env ''domain.incident_management.capa.required.v1'' (uid_of user)
       [(''incident_id'', PyStr incident)])) (\<lambda>_.
     retM updated))))))))))))"

section \<open>Actions\<close>

definition create_action ::
  "incident_env \<Rightarrow> incident_settings \<Rightarrow> incident_user option \<Rightarrow> string \<Rightarrow> action_type \<Rightarrow> string \<Rightarrow> string option \<Rightarrow>
   datetime option \<Rightarrow> incident_action inc_meth" where
  "create_action env settings user incident t description owner due =
     bindM (liftE (require_qmb user)) (\<lambda>_.
     bindM (get_incident_row incident) (\<lambda>c.
     bindM (liftE (raise_if (ic_classification c = None)
       (IncValidationError ''incident must be assessed before creating actions''))) (\<lambda>_.
     bindM (liftE (require_non_empty (Some description) ''description'')) (\<lambda>action_text.
     bindM (inc_utcnow env) (\<lambda>now.
     let effective_due = (case due of Some d \<Rightarrow> d | None \<Rightarrow> default_action_due_at settings t now) in
     bindM (new_id env) (\<lambda>action_id.
     let act = \<lparr>ia_action_id = action_id, ia_incident_id = incident, ia_action_type = t, ia_status = ActOPEN,
           ia_description = action_text, ia_owner_user_id = owner, ia_due_at = Some effective_due,
           ia_completed_at = None, ia_completed_by_user_id = None, ia_created_at = now\<rparr> in
     bindM (add_action act) (\<lambda>_.
     bindM (if ic_status c \<in> {S_ASSESSED, S_CAPA_PLANNING, S_ACTIONS_IN_PROGRESS}
            then set_status env c S_ACTIONS_IN_PROGRESS (uid_of user) else retM c) (\<lambda>_.
     bindM (conclude env T_ACTION_CREATED incident (uid_of user) now
       [(''action_id'', action_id), (''action_type'', action_type_value t)]
       ''incident.action.create'' ''domain.incident_management.action.created.v1''
       [(''incident_id'', PyStr incident), (''action_id'', PyStr action_id)]) (\<lambda>_.
     retM act)))))))))"

definition complete_action :: "incident_env \<Rightarrow> incident_user option \<Rightarrow> string \<Rightarrow> incident_action inc_meth" where
  "complete_action env user action_id =
     bindM (liftE (require_qmb user)) (\<lambda>_.
     bindM (get_action action_id) (\<lambda>act.
     bindM (inc_utcnow env) (\<lambda>now.
     let updated = act\<lparr>ia_status := ActCOMPLETED, ia_completed_at := Some now,
           ia_completed_by_user_id := Some (uid_of user)\<rparr> in
     bindM (update_action updated) (\<lambda>_.
     bindM (conclude env T_ACTION_COMPLETED (ia_incident_id act) (uid_of user) now [(''action_id'', action_id)]
       ''incident.action.complete'' ''domain.incident_management.action.completed.v1''
       [(''incident_id'', PyStr (ia_incident_id act)), (''action_id'', PyStr action_id)]) (\<lambda>_.
     retM updated)))))"

section \<open>CAPA and root cause\<close>

definition start_capa ::
  "incident_env \<Rightarrow> incident_user option \<Rightarrow> string \<Rightarrow> string option \<Rightarrow> string option \<Rightarrow> string option \<Rightarrow>
   incident_capa inc_meth" where
  "start_capa env user incident trigger_reason goal description =
     bindM (liftE (require_qmb user)) (\<lambda>_.
     bindM (get_incident_row incident) (\<lambda>c0.
     bindM (liftE (raise_if (ic_capa_required c0 \<noteq> Some True)
       (IncValidationError ''CAPA is not required for this incident''))) (\<lambda>_.
     bindM (inc_utcnow env) (\<lambda>now.
     bindM (new_id env) (\<lambda>capa_id.
     let capa = \<lparr>cp_capa_id = capa_id, cp_incident_id = incident, cp_status = CapaPLANNING,
           cp_trigger_reason = or_str trigger_reason (ic_capa_reason c0), cp_goal = goal,
           cp_description = description, cp_created_at = now, cp_updated_at = now\<rparr> in
     bindM (upsert_capa capa) (\<lambda>_.
     bindM (if ic_status c0 = S_ROOT_CAUSE_REQUIRED then set_status env c0 S_CAPA_REQUIRED (uid_of user)
            else retM c0) (\<lambda>c1.
     bindM (set_status env c1 S_CAPA_PLANNING (uid_of user)) (\<lambda>_.
     bindM (conclude env T_CAPA_STARTED incident (uid_of user) now [(''capa_id'', capa_id)]
       ''incident.capa.start'' ''domain.incident_management.capa.updated.v1''
       [(''incident_id'', PyStr incident), (''capa_id'', PyStr capa_id),
        (''status'', PyStr (capa_status_value CapaPLANNING))]) (\<lambda>_.
     retM capa)))))))))"

definition update_capa ::
  "incident_env \<Rightarrow> incident_user option \<Rightarrow> string \<Rightarrow> capa_status option \<Rightarrow> string option \<Rightarrow> string option \<Rightarrow>
   incident_capa inc_meth" where
  "update_capa env user incident status goal description =
     bindM (liftE (require_qmb user)) (\<lambda>_.
     bindM (read_db (get_capa incident)) (\<lambda>found.
     case found of
       None \<Rightarrow> raiseM (IncValidationError ''CAPA not started for incident'')
     | Some existing \<Rightarrow>
         bindM (inc_utcnow env) (\<lambda>now.
         let capa = existing\<lparr>cp_incident_id := incident,
               cp_status := (case status of Some s \<Rightarrow> s | None \<Rightarrow> cp_status existing),
               cp_goal := or_opt goal (cp_goal existing),
               cp_description := or_opt description (cp_description existing), cp_updated_at := now\<rparr> in
         bindM (upsert_capa capa) (\<lambda>_.
         bindM (whenM (cp_status capa = CapaIN_PROGRESS)
            (bindM (get_incident_row incident) (\<lambda>c.
             bindM (set_status env c S_ACTIONS_IN_PROGRESS (uid_of user)) (\<lambda>_. retM ())))) (\<lambda>_.
         bindM (conclude env T_CAPA_UPDATED incident (uid_of user) now [(''capa_id'', cp_capa_id capa)]
           ''incident.capa.update'' ''domain.incident_management.capa.updated.v1''
           [(''incident_id'', PyStr incident), (''capa_id'', PyStr (cp_capa_id capa)),
            (''status'', PyStr (capa_status_value (cp_status capa)))]) (\<lambda>_.
         retM capa))))))"

text \<open>The keyword arguments of a root cause analysis.\<close>

record rca_input =
  ri_immediate_event :: "string option"
  ri_trigger :: "string option"
  ri_root_causes :: "string option"
  ri_similar_prior :: "string option"
  ri_systemic_weakness :: "string option"
  ri_future_risk :: "string option"
  ri_method :: "string option"

definition create_root_cause_analysis ::
  "incident_env \<Rightarrow> incident_user option \<Rightarrow> string \<Rightarrow> rca_input \<Rightarrow> root_cause_analysis inc_meth" where
  "create_root_cause_analysis env user incident x =
     bindM (liftE (require_qmb user)) (\<lambda>_.
     bindM (get_incident_row incident) (\<lambda>c.
     bindM (liftE (raise_if (ic_root_cause_required c \<noteq> Some True \<and> ic_capa_required c \<noteq> Some True)
       (IncValidationError ''root cause analysis not required for this incident''))) (\<lambda>_.
     bindM (inc_utcnow env) (\<lambda>now.
     bindM (read_db (get_rca incident)) (\<lambda>existing.
     bindM (case existing of Some r \<Rightarrow> retM (rc_rca_id r) | None \<Rightarrow> new_id env) (\<lambda>rca_id.
     let rca = \<lparr>rc_rca_id = rca_id, rc_incident_id = incident, rc_immediate_event = ri_immediate_event x,
           rc_trigger = ri_trigger x, rc_root_causes = ri_root_causes x, rc_similar_prior = ri_similar_prior x,
           rc_systemic_weakness = ri_systemic_weakness x, rc_future_risk = ri_future_risk x,
           rc_method = ri_method x,
           rc_created_at = (case existing of Some r \<Rightarrow> rc_created_at r | None \<Rightarrow> now), rc_updated_at = now\<rparr> in
     bindM (upsert_rca rca) (\<lambda>_.
     bindM (if ic_status c = S_ROOT_CAUSE_REQUIRED then set_status env c S_ROOT_CAUSE_IN_PROGRESS (uid_of user)
            else retM c) (\<lambda>_.
     bindM (conclude env T_RCA_CREATED incident (uid_of user) now [(''rca_id'', rca_id)]
       ''incident.rca.create'' ''domain.incident_management.incident.rca.created.v1''
       [(''incident_id'', PyStr incident), (''rca_id'', PyStr rca_id)]) (\<lambda>_.
     retM rca)))))))))"

section \<open>Effectiveness review and closure\<close>

definition plan_effectiveness_review ::
  "incident_env \<Rightarrow> incident_settings \<Rightarrow> incident_user option \<Rightarrow> string \<Rightarrow> string \<Rightarrow> datetime option \<Rightarrow>
   effectiveness_review inc_meth" where
  "plan_effectiveness_review env settings user incident criteria planned_at =
     bindM (liftE (require_qmb user)) (\<lambda>_.
     bindM (get_incident_row incident) (\<lambda>c.
     bindM (liftE (raise_if (ic_status c \<notin> {S_ACTIONS_IN_PROGRESS, S_FOLLOW_UP}) (IncValidationError
       ''effectiveness review can only be planned from actions in progress or follow-up''))) (\<lambda>_.
     bindM (liftE (raise_if (ic_capa_required c \<noteq> Some True)
       (IncValidationError ''effectiveness review only required for CAPA incidents''))) (\<lambda>_.
     bindM (liftE (raise_if (py_strip criteria = []) (IncValidationError ''criteria is required''))) (\<lambda>_.
     bindM (inc_utcnow env) (\<lambda>now.
     bindM (new_id env) (\<lambda>review_id.
     let review = \<lparr>er_review_id = review_id, er_incident_id = incident,
           er_planned_at = (case planned_at of Some p \<Rightarrow> p
             | None \<Rightarrow> utc_datetime (now + settings_delay_days settings * day)),
           er_criteria = py_strip criteria, er_completed_at = None, er_completed_by_user_id = None,
           er_result = None, er_effective = None, er_notes = None, er_status = RevPLANNED, er_created_at = now\<rparr> in
     bindM (add_effectiveness_review review) (\<lambda>_.
     bindM (set_status env c S_EFFECTIVENESS_PLANNED (uid_of user)) (\<lambda>_.
     bindM (conclude env T_EFFECTIVENESS_PLANNED incident (uid_of user) now [(''review_id'', review_id)]
       ''incident.effectiveness.plan'' ''domain.incident_management.effectiveness.planned.v1''
       [(''incident_id'', PyStr incident), (''review_id'', PyStr review_id)]) (\<lambda>_.
     retM review))))))))))"

definition complete_effectiveness_review ::
  "incident_env \<Rightarrow> incident_user option \<Rightarrow> string \<Rightarrow> bool \<Rightarrow> string \<Rightarrow> string option \<Rightarrow>
   effectiveness_review inc_meth" where
  "complete_effectiveness_review env user incident effective outcome notes =
     bindM (liftE (require_qmb user)) (\<lambda>_.
     bindM (read_db (get_effectiveness_review incident)) (\<lambda>found.
     case found of
       None \<Rightarrow> raiseM (IncValidationError ''no effectiveness review planned'')
     | Some existing \<Rightarrow>
         bindM (inc_utcnow env) (\<lambda>now.
         let review = existing\<lparr>er_incident_id := incident, er_completed_at := Some now,
               er_completed_by_user_id := Some (uid_of user), er_result := Some outcome,
               er_effective := Some effective, er_notes := notes, er_status := RevCOMPLETED\<rparr> in
         bindM (update_effectiveness_review review) (\<lambda>_.
         bindM (get_incident_row incident) (\<lambda>c0.
         bindM (set_status env c0 S_EFFECTIVENESS_REVIEW (uid_of user)) (\<lambda>c1.
         bindM (set_status env c1 (if effective then S_CLOSURE_REVIEW else S_FOLLOW_UP) (uid_of user)) (\<lambda>_.
         bindM (conclude env T_EFFECTIVENESS_REVIEWED incident (uid_of user) now
           [(''review_id'', er_review_id existing), (''effective'', py_bool_text effective)]
           ''incident.effectiveness.complete'' ''domain.incident_management.effectiveness.reviewed.v1''
           [(''incident_id'', PyStr incident), (''review_id'', PyStr (er_review_id existing)),
            (''effective'', PyBool effective)]) (\<lambda>_.
         retM review))))))))"

definition validate_closure :: "incident_db \<Rightarrow> incident_case \<Rightarrow> incident_error + unit" where
  "validate_closure db c =
     (let i = ic_incident_id c in
      bindE (raise_if (ic_classification c = None) (IncValidationError ''assessment required before closure'')) (\<lambda>_.
      bindE (raise_if (count_open_inquiries i db > 0) (IncValidationError ''open inquiries block closure'')) (\<lambda>_.
      bindE (if ic_capa_required c = Some True then
          bindE (raise_if (get_rca i db = None)
            (IncValidationError ''root cause analysis required before closure'')) (\<lambda>_.
          bindE (raise_if (get_capa i db = None) (IncValidationError ''CAPA must be started before closure'')) (\<lambda>_.
          bindE (raise_if (list_open_action_rows i db \<noteq> []) (IncValidationError ''open actions block closure'')) (\<lambda>_.
          case get_effectiveness_review i db of
            None \<Rightarrow> Inl (IncValidationError ''completed effectiveness review required'')
          | Some review \<Rightarrow>
              bindE (raise_if (er_status review \<noteq> RevCOMPLETED)
                (IncValidationError ''completed effectiveness review required'')) (\<lambda>_.
              raise_if (er_effective review = Some False)
                (IncValidationError ''effectiveness review must be effective before closure'')))))
        else Inr ()) (\<lambda>_.
      if ic_leadership_required c then
        (case get_leadership_ack i db of
           None \<Rightarrow> Inl (IncValidationError ''leadership acknowledgement required before closure'')
         | Some ack \<Rightarrow> raise_if (la_status ack \<noteq> AckACKNOWLEDGED)
             (IncValidationError ''leadership acknowledgement required before closure''))
      else Inr ()))))"

definition close_incident :: "incident_env \<Rightarrow> incident_user option \<Rightarrow> string \<Rightarrow> incident_case inc_meth" where
  "close_incident env user incident =
     bindM (liftE (require_qmb user)) (\<lambda>_.
     bindM (get_incident_row incident) (\<lambda>c.
     bindM (liftE (raise_if (ic_status c \<in> {S_CLOSED, S_ARCHIVED})
       (IncValidationError ''incident already closed or archived''))) (\<lambda>_.
     bindM (check_db (\<lambda>db. validate_closure db c)) (\<lambda>_.
     bindM (get_incident_row incident) (\<lambda>c0.
     bindM (if ic_status c0 \<in> {S_DOCUMENTATION_ONLY, S_ASSESSED}
            then set_status env c0 S_CLOSURE_REVIEW (uid_of user) else retM c0) (\<lambda>c1.
     bindM (liftE (raise_if (ic_status c1 = S_LEADERSHIP_ACK_REQUIRED)
       (IncValidationError ''complete leadership acknowledgement before closure''))) (\<lambda>_.
     bindM (liftE (raise_if (ic_status c1 \<noteq> S_CLOSURE_REVIEW)
       (IncValidationError ''incident must reach closure review before close''))) (\<lambda>_.
     bindM (inc_utcnow env) (\<lambda>now.
     bindM (set_status env c1 S_CLOSED (uid_of user)) (\<lambda>closed_case.
     let updated = closed_case\<lparr>ic_closed_at := Some now\<rparr> in
     bindM (update_incident updated) (\<lambda>_.
     bindM (conclude env T_CLOSED incident (uid_of user) now []
       ''incident.close'' ''domain.incident_management.incident.closed.v1'' [(''incident_id'', PyStr incident)]) (\<lambda>_.
     retM updated))))))))))))"

definition archive_incident :: "incident_env \<Rightarrow> incident_user option \<Rightarrow> string \<Rightarrow> incident_case inc_meth" where
  "archive_incident env user incident =
     bindM (liftE (require_qmb user)) (\<lambda>_.
     bindM (get_incident_row incident) (\<lambda>c.
     bindM (liftE (raise_if (ic_status c \<noteq> S_CLOSED)
       (IncValidationError ''incident must be closed before archive''))) (\<lambda>_.
     bindM (inc_utcnow env) (\<lambda>now.
     bindM (set_status env c S_ARCHIVED (uid_of user)) (\<lambda>archived_case.
     let updated = archived_case\<lparr>ic_archived_at := Some now\<rparr> in
     bindM (update_incident updated) (\<lambda>_.
     bindM (conclude env T_ARCHIVED incident (uid_of user) now []
       ''incident.archive'' ''domain.incident_management.incident.archived.v1'' [(''incident_id'', PyStr incident)]) (\<lambda>_.
     retM updated)))))))"

section \<open>Groups, leadership, roles, artifacts\<close>

definition create_incident_group ::
  "incident_env \<Rightarrow> incident_user option \<Rightarrow> string \<Rightarrow> string option \<Rightarrow> incident_group inc_meth" where
  "create_incident_group env user name description =
     bindM (liftE (require_qmb user)) (\<lambda>_.
     bindM (inc_utcnow env) (\<lambda>now.
     bindM (new_id env) (\<lambda>group_id.
     bindM (liftE (require_non_empty (Some name) ''name'')) (\<lambda>name_text.
     let g = \<lparr>gr_group_id = group_id, gr_name = name_text, gr_description = description,
           gr_created_by_user_id = uid_of user, gr_created_at = now\<rparr> in
     bindM (insert_group g) (\<lambda>_.
     bindM (inc_emit_audit ''incident.group.create'' (uid_of user) group_id []) (\<lambda>_.
     retM g))))))"

definition link_incident_to_group ::
  "incident_env \<Rightarrow> incident_user option \<Rightarrow> string \<Rightarrow> string \<Rightarrow> incident_case inc_meth" where
  "link_incident_to_group env user incident group_id =
     bindM (liftE (require_qmb user)) (\<lambda>_.
     bindM (get_group group_id) (\<lambda>_.
     bindM (get_incident_row incident) (\<lambda>c.
     bindM (inc_utcnow env) (\<lambda>now.
     let updated = c\<lparr>ic_group_id := Some group_id, ic_updated_at := now\<rparr> in
     bindM (update_incident updated) (\<lambda>_.
     bindM (conclude env T_GROUPED incident (uid_of user) now [(''group_id'', group_id)]
       ''incident.group.link'' ''domain.incident_management.incident.grouped.v1''
       [(''incident_id'', PyStr incident), (''group_id'', PyStr group_id)]) (\<lambda>_.
     retM updated))))))"

definition forward_to_leadership ::
  "incident_env \<Rightarrow> incident_user option \<Rightarrow> string \<Rightarrow> string \<Rightarrow> leadership_ack inc_meth" where
  "forward_to_leadership env user incident leader =
     bindM (liftE (require_qmb user)) (\<lambda>_.
     bindM (get_incident_row incident) (\<lambda>c.
     bindM (liftE (raise_if (ic_status c \<noteq> S_CLOSURE_REVIEW)
       (IncValidationError ''leadership forward only allowed during closure review''))) (\<lambda>_.
     bindM (liftE (raise_if (\<not> ic_leadership_required c)
       (IncValidationError ''leadership acknowledgement not required for this incident''))) (\<lambda>_.
     bindM (read_db (list_role_rows (Some LEITUNG))) (\<lambda>assignments.
     bindM (liftE (raise_if (leader \<notin> set (map ro_user_id assignments))
       (IncValidationError ''target user does not have Leitung module role''))) (\<lambda>_.
     bindM (inc_utcnow env) (\<lambda>now.
     bindM (new_id env) (\<lambda>ack_id.
     let ack = \<lparr>la_ack_id = ack_id, la_incident_id = incident, la_forwarded_by_user_id = uid_of user,
           la_forwarded_at = now, la_leadership_user_id = leader, la_comment = None, la_acknowledged_at = None,
           la_status = AckPENDING\<rparr> in
     bindM (add_leadership_ack ack) (\<lambda>_.
     bindM (set_status env c S_LEADERSHIP_ACK_REQUIRED (uid_of user)) (\<lambda>_.
     bindM (conclude env T_LEADERSHIP_FORWARDED incident (uid_of user) now [(''leadership_user_id'', leader)]
       ''incident.leadership.forward'' ''domain.incident_management.leadership.forwarded.v1''
       [(''incident_id'', PyStr incident), (''leadership_user_id'', PyStr leader)]) (\<lambda>_.
     retM ack)))))))))))"

definition acknowledge_leadership_review ::
  "incident_env \<Rightarrow> incident_user option \<Rightarrow> string \<Rightarrow> string option \<Rightarrow> leadership_ack inc_meth" where
  "acknowledge_leadership_review env user incident note =
     bindM (read_db (list_role_rows (Some LEITUNG))) (\<lambda>assignments.
     bindM (liftE (require_module_role user LEITUNG assignments)) (\<lambda>_.
     bindM (read_db (get_leadership_ack incident)) (\<lambda>found.
     case found of
       None \<Rightarrow> raiseM (IncValidationError ''no leadership forward for incident'')
     | Some ack \<Rightarrow>
         bindM (liftE (require_leadership_recipient user ack)) (\<lambda>_.
         bindM (inc_utcnow env) (\<lambda>now.
         let updated = ack\<lparr>la_incident_id := incident, la_comment := note, la_acknowledged_at := Some now,
               la_status := AckACKNOWLEDGED\<rparr> in
         bindM (update_leadership_ack updated) (\<lambda>_.
         bindM (get_incident_row incident) (\<lambda>c.
         bindM (if ic_status c = S_LEADERSHIP_ACK_REQUIRED then set_status env c S_CLOSURE_REVIEW (uid_of user)
                else retM c) (\<lambda>_.
         bindM (conclude env T_LEADERSHIP_ACKNOWLEDGED incident (uid_of user) now []
           ''incident.leadership.ack'' ''domain.incident_management.leadership.acknowledged.v1''
           [(''incident_id'', PyStr incident)]) (\<lambda>_.
         retM updated)))))))))"

definition assign_module_role ::
  "incident_env \<Rightarrow> incident_user option \<Rightarrow> string \<Rightarrow> module_role \<Rightarrow> role_assignment inc_meth" where
  "assign_module_role env user target role =
     bindM (liftE (require_admin_or_qmb user)) (\<lambda>_.
     bindM (inc_utcnow env) (\<lambda>now.
     bindM (new_id env) (\<lambda>assignment_id.
     let assignment = \<lparr>ro_assignment_id = assignment_id, ro_user_id = target, ro_role_name = role,
           ro_assigned_by_user_id = uid_of user, ro_assigned_at = now\<rparr> in
     bindM (upsert_module_role assignment) (\<lambda>_.
     bindM (inc_emit_audit ''incident.module_role.assign'' (uid_of user) target (module_role_value role)) (\<lambda>_.
     bindM (inc_publish_event env ''domain.incident_management.role.assigned.v1'' (uid_of user)
       [(''user_id'', PyStr target), (''role_name'', PyStr (module_role_value role))]) (\<lambda>_.
     retM assignment))))))"

text \<open>\<open>Path.is_file\<close> of the source is membership in the existing files.\<close>

definition attach_artifact ::
  "incident_env \<Rightarrow> incident_user option \<Rightarrow> string \<Rightarrow> string \<Rightarrow> incident_artifact_type \<Rightarrow> (string, string) dict \<Rightarrow>
   incident_artifact inc_meth" where
  "attach_artifact env user incident source_path t metadata =
     bindM (liftE (require_authenticated user)) (\<lambda>_.
     bindM (get_incident_row incident) (\<lambda>_.
     bindM (readM (\<lambda>w. source_path \<in> iw_files w)) (\<lambda>is_file.
     bindM (liftE (raise_if (\<not> is_file) (IncValidationError (''source file not found: '' @ source_path)))) (\<lambda>_.
     bindM (inc_utcnow env) (\<lambda>now.
     bindM (store_file_copy env source_path incident (incident_artifact_type_value t)) (\<lambda>stored.
     bindM (new_id env) (\<lambda>artifact_id.
     let art = \<lparr>af_artifact_id = artifact_id, af_incident_id = incident, af_artifact_type = t,
           af_storage_key = so_storage_key stored, af_original_filename = path_name source_path,
           af_mime_type = Some (so_mime_type stored), af_sha256 = Some (so_sha256 stored),
           af_size_bytes = Some (so_size_bytes stored), af_metadata = metadata, af_created_at = now\<rparr> in
     bindM (add_artifact art) (\<lambda>_.
     bindM (conclude env T_ARTIFACT_ATTACHED incident (uid_of user) now
       [(''artifact_id'', artifact_id), (''artifact_type'', incident_artifact_type_value t)]
       ''incident.artifact.add'' ''domain.incident_management.artifact.attached.v1''
       [(''incident_id'', PyStr incident), (''artifact_id'', PyStr artifact_id),
        (''artifact_type'', PyStr (incident_artifact_type_value t)), (''uploaded_by'', PyStr (uid_of user)),
        (''occurred_at'', PyStr (isoformat now))]) (\<lambda>_.
     retM art)))))))))"

section \<open>Management review\<close>

text \<open>The loops of the module run one effectful step per element.\<close>

fun for_each :: "'a list \<Rightarrow> ('a \<Rightarrow> unit inc_meth) \<Rightarrow> unit inc_meth" where
  "for_each [] f = retM ()"
| "for_each (x # xs) f = bindM (f x) (\<lambda>_. for_each xs f)"

definition create_management_review ::
  "incident_env \<Rightarrow> incident_user option \<Rightarrow> datetime \<Rightarrow> datetime \<Rightarrow> management_batch inc_meth" where
  "create_management_review env user period_start period_end =
     bindM (liftE (require_qmb user)) (\<lambda>_.
     bindM (liftE (dt_less period_end period_start)) (\<lambda>reversed.
     bindM (liftE (raise_if reversed (IncValidationError ''period_end must be >= period_start''))) (\<lambda>_.
     bindM (inc_utcnow env) (\<lambda>now.
     bindM (new_id env) (\<lambda>batch_id.
     let batch = \<lparr>mb_batch_id = batch_id, mb_period_start = period_start, mb_period_end = period_end,
           mb_status = BatchOPEN, mb_created_by_user_id = uid_of user, mb_created_at = now,
           mb_report_storage_key = None\<rparr> in
     bindM (insert_management_batch batch) (\<lambda>_.
     bindM (read_db (list_incidents_in_period period_start period_end)) (\<lambda>incidents.
     bindM (for_each incidents (\<lambda>c.
       bindM (new_id env) (\<lambda>item_id.
       insert_management_item \<lparr>mi_item_id = item_id, mi_batch_id = batch_id, mi_incident_id = ic_incident_id c,
         mi_status = ItemINCLUDED, mi_acknowledged_at = None, mi_acknowledged_by_user_id = None\<rparr>))) (\<lambda>_.
     bindM (for_each incidents (\<lambda>c.
       record_timeline env T_MANAGEMENT_REVIEW_CREATED (ic_incident_id c) (Some (uid_of user)) now
         [(''batch_id'', batch_id), (''item_count'', str_int (int (length incidents)))])) (\<lambda>_.
     bindM (inc_emit_audit ''incident.management_review.create'' (uid_of user) batch_id []) (\<lambda>_.
     bindM (inc_publish_event env ''domain.incident_management.management_review.created.v1'' (uid_of user)
       [(''batch_id'', PyStr batch_id), (''item_count'', PyInt (int (length incidents)))]) (\<lambda>_.
     retM batch)))))))))))"

definition mark_management_review_in_discussion ::
  "incident_env \<Rightarrow> incident_user option \<Rightarrow> string \<Rightarrow> management_batch inc_meth" where
  "mark_management_review_in_discussion env user batch_id =
     bindM (liftE (require_qmb user)) (\<lambda>_.
     bindM (get_management_batch batch_id) (\<lambda>batch.
     bindM (inc_utcnow env) (\<lambda>now.
     let updated = batch\<lparr>mb_status := BatchIN_DISCUSSION\<rparr> in
     bindM (update_management_batch updated) (\<lambda>_.
     bindM (read_db (list_management_items batch_id)) (\<lambda>review_items.
     bindM (for_each review_items (\<lambda>x. whenM (mi_status x = ItemINCLUDED)
       (bindM (update_management_item (x\<lparr>mi_status := ItemIN_DISCUSSION\<rparr>)) (\<lambda>_.
        record_timeline env T_MANAGEMENT_REVIEW_IN_DISCUSSION (mi_incident_id x) (Some (uid_of user)) now
          [(''batch_id'', batch_id)])))) (\<lambda>_.
     bindM (inc_emit_audit ''incident.management_review.in_discussion'' (uid_of user) batch_id []) (\<lambda>_.
     bindM (inc_publish_event env ''domain.incident_management.management_review.in_discussion.v1'' (uid_of user)
       [(''batch_id'', PyStr batch_id)]) (\<lambda>_.
     retM updated))))))))"

definition acknowledge_management_review_items ::
  "incident_env \<Rightarrow> incident_user option \<Rightarrow> string \<Rightarrow> string list \<Rightarrow> management_item list inc_meth" where
  "acknowledge_management_review_items env user batch_id incident_ids =
     bindM (liftE (require_qmb user)) (\<lambda>_.
     bindM (get_management_batch batch_id) (\<lambda>_.
     bindM (inc_utcnow env) (\<lambda>now.
     bindM (read_db (list_management_items batch_id)) (\<lambda>review_items.
     let targets = (if incident_ids \<noteq> [] then set incident_ids else set (map mi_incident_id review_items));
         acknowledged = map (\<lambda>x. x\<lparr>mi_status := ItemACKNOWLEDGED, mi_acknowledged_at := Some now,
             mi_acknowledged_by_user_id := Some (uid_of user)\<rparr>)
           (filter (\<lambda>x. mi_incident_id x \<in> targets) review_items) in
     bindM (for_each acknowledged (\<lambda>x.
       bindM (update_management_item x) (\<lambda>_.
       record_timeline env T_MANAGEMENT_REVIEW_ACKNOWLEDGED (mi_incident_id x) (Some (uid_of user)) now
         [(''batch_id'', batch_id), (''incident_id'', mi_incident_id x)]))) (\<lambda>_.
     bindM (get_management_batch batch_id) (\<lambda>batch.
     bindM (read_db (list_management_items batch_id)) (\<lambda>all_items.
     bindM (whenM (list_all (\<lambda>x. mi_status x = ItemACKNOWLEDGED) all_items)
       (update_management_batch (batch\<lparr>mb_status := BatchCOMPLETED\<rparr>))) (\<lambda>_.
     bindM (inc_emit_audit ''incident.management_review.ack'' (uid_of user) batch_id []) (\<lambda>_.
     bindM (inc_publish_event env ''domain.incident_management.management_review.acknowledged.v1'' (uid_of user)
       [(''batch_id'', PyStr batch_id), (''count'', PyInt (int (length acknowledged)))]) (\<lambda>_.
     retM acknowledged))))))))))"

end
