(* ===== verification/IncidentApi.thy ===== *)
theory IncidentApi
  imports IncidentOps
begin

text \<open>
  The interface of the incident module (\<open>api.py\<close>, \<open>service.py\<close>): the reading operations, and the
  changing ones as requests \<open>incident_request\<close> with \<open>run_incident\<close>. \<open>incident_reachable\<close> holds of
  the worlds a sequence of requests leads to from empty tables, whoever sends them, with whatever
  settings, and whether they succeed or fail.
\<close>

section \<open>Reading\<close>

definition get_incident :: "incident_user option \<Rightarrow> string \<Rightarrow> incident_case inc_meth" where
  "get_incident user incident =
     bindM (get_incident_row incident) (\<lambda>c. bindM (liftE (require_authenticated user)) (\<lambda>_. retM c))"

definition list_incidents :: "incident_user option \<Rightarrow> incident_filter option \<Rightarrow> incident_case list inc_meth" where
  "list_incidents user flt =
     bindM (liftE (require_authenticated user)) (\<lambda>_. read_db (list_incident_rows flt))"

text \<open>The filter is built, with the user's id, before the login check.\<close>

definition list_my_incidents :: "incident_user option \<Rightarrow> incident_case list inc_meth" where
  "list_my_incidents user =
     bindM (liftE (inc_user_id user)) (\<lambda>uid.
     list_incidents user (Some \<lparr>fl_status = None, fl_category = None, fl_reporter_user_id = Some uid,
       fl_from_reported_at = None, fl_to_reported_at = None\<rparr>))"

definition list_incident_timeline :: "incident_user option \<Rightarrow> string \<Rightarrow> timeline_entry list inc_meth" where
  "list_incident_timeline user incident =
     bindM (get_incident_row incident) (\<lambda>_.
     bindM (liftE (require_authenticated user)) (\<lambda>_. read_db (list_timeline incident)))"

definition list_similar_incidents :: "incident_user option \<Rightarrow> similar_query \<Rightarrow> incident_case list inc_meth" where
  "list_similar_incidents user q = bindM (liftE (require_qmb user)) (\<lambda>_. read_db (list_similar_rows q))"

definition qmb_review_queue_statuses :: "incident_status list" where
  "qmb_review_queue_statuses = [S_SUBMITTED, S_QMB_REVIEW, S_INQUIRY_OPEN, S_INQUIRY_ANSWERED]"

definition list_qmb_review_queue :: "incident_user option \<Rightarrow> incident_case list inc_meth" where
  "list_qmb_review_queue user = bindM (liftE (require_qmb user)) (\<lambda>_.
     read_db (\<lambda>db. filter (\<lambda>c. ic_status c \<in> set qmb_review_queue_statuses \<and> ic_classification c = None)
       (list_incident_rows None db)))"

definition list_open_inquiries :: "incident_user option \<Rightarrow> incident_inquiry list inc_meth" where
  "list_open_inquiries user = bindM (liftE (require_qmb user)) (\<lambda>_. read_db list_open_inquiry_rows)"

definition list_open_actions :: "incident_user option \<Rightarrow> incident_action list inc_meth" where
  "list_open_actions user = bindM (liftE (require_qmb user)) (\<lambda>_. read_db list_all_open_actions)"

definition list_pending_effectiveness_reviews :: "incident_user option \<Rightarrow> effectiveness_review list inc_meth" where
  "list_pending_effectiveness_reviews user = bindM (liftE (require_qmb user)) (\<lambda>_. read_db list_pending_review_rows)"

definition list_similar_incident_candidates :: "incident_user option \<Rightarrow> string \<Rightarrow> incident_case list inc_meth" where
  "list_similar_incident_candidates user incident = bindM (liftE (require_qmb user)) (\<lambda>_.
     bindM (get_incident_row incident) (\<lambda>c.
     read_db (list_similar_rows \<lparr>sq_incident_id = Some incident, sq_category = Some (ic_category c),
       sq_labels = ic_labels c, sq_area = ic_area c, sq_process_name = ic_process_name c, sq_device = ic_device c,
       sq_from_reported_at = None, sq_to_reported_at = None, sq_limit = 20\<rparr>)))"

definition list_capa_relevant_incidents :: "incident_user option \<Rightarrow> incident_case list inc_meth" where
  "list_capa_relevant_incidents user = bindM (liftE (require_qmb user)) (\<lambda>_.
     read_db (\<lambda>db. filter (\<lambda>c. ic_capa_required c = Some True \<and> ic_status c \<notin> {S_CLOSED, S_ARCHIVED})
       (list_incident_rows None db)))"

definition list_leadership_queue :: "incident_user option \<Rightarrow> leadership_ack list inc_meth" where
  "list_leadership_queue user =
     bindM (liftE (require_authenticated user)) (\<lambda>_.
     bindM (read_db (list_role_rows (Some LEITUNG))) (\<lambda>assignments.
     bindM (liftE (has_module_role user LEITUNG assignments)) (\<lambda>holds.
     if \<not> holds then retM [] else read_db (list_leadership_rows (uid_of user)))))"

definition list_module_roles :: "incident_user option \<Rightarrow> module_role option \<Rightarrow> role_assignment list inc_meth" where
  "list_module_roles user role = bindM (liftE (require_admin_or_qmb user)) (\<lambda>_. read_db (list_role_rows role))"

section \<open>Requests\<close>

datatype incident_request =
    SubmitIncident incident_submission
  | OpenInquiry string string
  | AnswerInquiry string string
  | AssessIncident string assessment_input
  | CreateAction string action_type string "string option" "datetime option"
  | CompleteAction string
  | StartCapa string "string option" "string option" "string option"
  | UpdateCapa string "capa_status option" "string option" "string option"
  | CreateRootCause string rca_input
  | PlanEffectiveness string string "datetime option"
  | CompleteEffectiveness string bool string "string option"
  | CloseIncident string
  | ArchiveIncident string
  | CreateGroup string "string option"
  | LinkToGroup string string
  | ForwardToLeadership string string
  | AcknowledgeLeadership string "string option"
  | AssignModuleRole string module_role
  | AttachArtifact string string incident_artifact_type "(string, string) dict"
  | CreateManagementReview datetime datetime
  | MarkManagementReview string
  | AcknowledgeManagementReview string "string list"

definition ignore :: "'a inc_meth \<Rightarrow> unit inc_meth" where
  "ignore m = bindM m (\<lambda>_. retM ())"

primrec run_incident ::
  "incident_env \<Rightarrow> incident_settings \<Rightarrow> incident_user option \<Rightarrow> incident_request \<Rightarrow> unit inc_meth" where
  "run_incident env settings user (SubmitIncident s) = ignore (submit_incident env settings user s)"
| "run_incident env settings user (OpenInquiry i question) = ignore (open_inquiry env user i question)"
| "run_incident env settings user (AnswerInquiry i answer) = ignore (answer_inquiry env user i answer)"
| "run_incident env settings user (AssessIncident i a) = ignore (assess_incident env settings user i a)"
| "run_incident env settings user (CreateAction i t description owner due) =
     ignore (create_action env settings user i t description owner due)"
| "run_incident env settings user (CompleteAction i) = ignore (complete_action env user i)"
| "run_incident env settings user (StartCapa i reason goal description) =
     ignore (start_capa env user i reason goal description)"
| "run_incident env settings user (UpdateCapa i status goal description) =
     ignore (update_capa env user i status goal description)"
| "run_incident env settings user (CreateRootCause i x) = ignore (create_root_cause_analysis env user i x)"
| "run_incident env settings user (PlanEffectiveness i criteria planned) =
     ignore (plan_effectiveness_review env settings user i criteria planned)"
| "run_incident env settings user (CompleteEffectiveness i effective outcome notes) =
     ignore (complete_effectiveness_review env user i effective outcome notes)"
| "run_incident env settings user (CloseIncident i) = ignore (close_incident env user i)"
| "run_incident env settings user (ArchiveIncident i) = ignore (archive_incident env user i)"
| "run_incident env settings user (CreateGroup name description) = ignore (create_incident_group env user name description)"
| "run_incident env settings user (LinkToGroup i g) = ignore (link_incident_to_group env user i g)"
| "run_incident env settings user (ForwardToLeadership i leader) = ignore (forward_to_leadership env user i leader)"
| "run_incident env settings user (AcknowledgeLeadership i note) = ignore (acknowledge_leadership_review env user i note)"
| "run_incident env settings user (AssignModuleRole target role) = ignore (assign_module_role env user target role)"
| "run_incident env settings user (AttachArtifact i path t metadata) = ignore (attach_artifact env user i path t metadata)"
| "run_incident env settings user (CreateManagementReview s e) = ignore (create_management_review env user s e)"
| "run_incident env settings user (MarkManagementReview b) = ignore (mark_management_review_in_discussion env user b)"
| "run_incident env settings user (AcknowledgeManagementReview b ids) =
     ignore (acknowledge_management_review_items env user b ids)"

inductive incident_reachable :: "incident_env \<Rightarrow> incident_world \<Rightarrow> bool" for env where
  start: "incident_reachable env (empty_incident_world files)"
| step: "incident_reachable env w \<Longrightarrow> incident_reachable env (after (run_incident env settings user req w))"

lemma incident_reachable_invariant:
  assumes "incident_reachable env w"
    and "\<And>files. P (empty_incident_world files)"
    and "\<And>settings user req. keeps P (run_incident env settings user req)"
  shows "P w"
  using assms(1)
proof induction
  case (step w settings user req)
  show ?case by (rule keepsD [OF assms(3) step.IH])
qed (rule assms(2))

text \<open>A sequence of requests, each with the settings and the user of its time.\<close>

fun run_all ::
  "incident_env \<Rightarrow> (incident_settings \<times> incident_user option \<times> incident_request) list \<Rightarrow> incident_world \<Rightarrow> incident_world" where
  "run_all env [] w = w"
| "run_all env ((settings, user, req) # reqs) w = run_all env reqs (after (run_incident env settings user req w))"

lemma run_all_reachable: "incident_reachable env w \<Longrightarrow> incident_reachable env (run_all env reqs w)"
proof (induction env reqs w rule: run_all.induct)
  case (2 env settings user req reqs w)
  then show ?case using incident_reachable.step [of env w settings user req] by simp
qed simp

end
