(* ===== verification/IncidentSteps.thy ===== *)
theory IncidentSteps
  imports IncidentApi
begin

text \<open>
  The incident module as a state machine. A state is the database and the number of identifiers drawn;
  \<open>inc_step\<close> lists the atomic changes: one insert or update of a table, and the change of a status
  together with its timeline entry, guarded by what the operations check (\<open>status_move\<close>).
  \<open>incident_keys\<close> is the invariant of the keys: identifiers were drawn, references do not dangle, the
  numbers of incidents lie below their counters. Every step keeps it.
\<close>

section \<open>Keys\<close>

definition db_ids :: "incident_db \<Rightarrow> string set" where
  "db_ids db = set (map tl_entry_id (db_timeline db)) \<union> set (map iq_inquiry_id (db_inquiries db)) \<union>
     set (map ia_action_id (db_actions db)) \<union> set (map cp_capa_id (db_capas db)) \<union> set (map rc_rca_id (db_rcas db)) \<union>
     set (map er_review_id (db_reviews db)) \<union> set (map af_artifact_id (db_case_artifacts db)) \<union>
     set (map gr_group_id (db_groups db)) \<union> set (map la_ack_id (db_acks db)) \<union> set (map mb_batch_id (db_batches db)) \<union>
     set (map mi_item_id (db_items db)) \<union> set (map ro_assignment_id (db_roles db))"

definition db_parents :: "incident_db \<Rightarrow> string set" where
  "db_parents db = set (map tl_incident_id (db_timeline db)) \<union> set (map iq_incident_id (db_inquiries db)) \<union>
     set (map ia_incident_id (db_actions db)) \<union> set (map cp_incident_id (db_capas db)) \<union> set (map rc_incident_id (db_rcas db)) \<union>
     set (map er_incident_id (db_reviews db)) \<union> set (map af_incident_id (db_case_artifacts db)) \<union>
     set (map la_incident_id (db_acks db)) \<union> set (map mi_incident_id (db_items db))"

definition case_ids :: "incident_db \<Rightarrow> string set" where
  "case_ids db = set (map ic_incident_id (db_cases db))"

definition counter_of :: "incident_db \<Rightarrow> string \<Rightarrow> int" where
  "counter_of db key = (case map_of (db_counters db) key of None \<Rightarrow> 1 | Some n \<Rightarrow> n)"

definition numbered :: "incident_db \<Rightarrow> incident_case \<Rightarrow> bool" where
  "numbered db c \<longleftrightarrow> (\<exists>m. ic_incident_id c = format_incident_id (ic_reported_at c) m \<and> 1 \<le> m \<and>
     m < counter_of db (report_date_key (ic_reported_at c)))"

definition incident_keys :: "incident_env \<Rightarrow> incident_db \<Rightarrow> nat \<Rightarrow> bool" where
  "incident_keys env db n \<longleftrightarrow> db_ids db \<subseteq> inc_hex env ` {..<n} \<and> db_parents db \<subseteq> case_ids db \<and>
     set (map mi_batch_id (db_items db)) \<subseteq> set (map mb_batch_id (db_batches db)) \<and>
     distinct (map ic_incident_id (db_cases db)) \<and> (\<forall>key. 1 \<le> counter_of db key) \<and>
     (\<forall>c \<in> set (db_cases db). numbered db c)"

text \<open>An identifier that was drawn and is in no table.\<close>

definition drawn :: "incident_env \<Rightarrow> incident_db \<Rightarrow> nat \<Rightarrow> string \<Rightarrow> bool" where
  "drawn env db n x \<longleftrightarrow> x \<in> inc_hex env ` {..<n} \<and> x \<notin> db_ids db"

section \<open>The guard of a change of status\<close>

definition status_move :: "incident_db \<Rightarrow> incident_case \<Rightarrow> incident_status \<Rightarrow> bool" where
  "status_move db c s \<longleftrightarrow> ic_status c = s \<or>
     s \<in> set (allowed_transitions (ic_status c)) \<and>
     (s \<in> {S_CAPA_REQUIRED, S_CAPA_PLANNING, S_EFFECTIVENESS_PLANNED} \<longrightarrow> ic_capa_required c = Some True) \<and>
     (s = S_EFFECTIVENESS_REVIEW \<longrightarrow> get_effectiveness_review (ic_incident_id c) db \<noteq> None) \<and>
     (s = S_FOLLOW_UP \<longrightarrow> ic_status c = S_EFFECTIVENESS_REVIEW) \<and>
     (s = S_CLOSURE_REVIEW \<longrightarrow> ic_status c \<in> {S_DOCUMENTATION_ONLY, S_ASSESSED} \<and> validate_closure db c = Inr () \<or>
        ic_status c \<in> {S_EFFECTIVENESS_REVIEW, S_LEADERSHIP_ACK_REQUIRED}) \<and>
     (s = S_LEADERSHIP_ACK_REQUIRED \<longrightarrow> ic_leadership_required c) \<and>
     (s = S_CLOSED \<longrightarrow> validate_closure db c = Inr ())"

definition status_entry :: "incident_case \<Rightarrow> incident_status \<Rightarrow> timeline_entry \<Rightarrow> bool" where
  "status_entry c s e \<longleftrightarrow> tl_incident_id e = ic_incident_id c \<and> tl_entry_type e = T_STATUS_CHANGED \<and>
     tl_details e = [(''from_status'', incident_status_value (ic_status c)), (''to_status'', incident_status_value s)]"

definition put_case :: "incident_case \<Rightarrow> incident_db \<Rightarrow> incident_db" where
  "put_case c = db_cases_update (update_rows ic_incident_id (ic_incident_id c) (case_columns c))"

text \<open>The case an assessment leaves: the status fits the flags.\<close>

definition assessed_case :: "incident_case \<Rightarrow> bool" where
  "assessed_case c \<longleftrightarrow> (\<exists>classification capa root_cause.
     ic_classification c = Some classification \<and> ic_capa_required c = Some capa \<and>
     ic_root_cause_required c = Some root_cause \<and> (capa \<longrightarrow> root_cause \<and> ic_leadership_required c) \<and>
     (ic_is_critical c = Some True \<longrightarrow> ic_leadership_required c) \<and>
     ic_status c = next_status_after_assessment classification capa root_cause)"

text \<open>The columns that no change of status and no update of a row touches.\<close>

definition same_identity :: "incident_case \<Rightarrow> incident_case \<Rightarrow> bool" where
  "same_identity c d \<longleftrightarrow> ic_incident_id d = ic_incident_id c \<and> ic_reporter_user_id d = ic_reporter_user_id c \<and>
     ic_reported_at d = ic_reported_at c \<and> ic_created_at d = ic_created_at c"

definition same_workflow :: "incident_case \<Rightarrow> incident_case \<Rightarrow> bool" where
  "same_workflow c d \<longleftrightarrow> same_identity c d \<and> ic_status d = ic_status c \<and> ic_classification d = ic_classification c \<and>
     ic_is_critical d = ic_is_critical c \<and> ic_capa_required d = ic_capa_required c \<and>
     ic_root_cause_required d = ic_root_cause_required c \<and> ic_leadership_required d = ic_leadership_required c"

text \<open>Updates of rows: keys, parents, order and the time stamps that select a row stay.\<close>

definition amended :: "incident_db \<Rightarrow> incident_db \<Rightarrow> bool" where
  "amended db db' \<longleftrightarrow> db_cases db' = db_cases db \<and> db_counters db' = db_counters db \<and> db_timeline db' = db_timeline db \<and>
     map iq_inquiry_id (db_inquiries db') = map iq_inquiry_id (db_inquiries db) \<and>
     map iq_incident_id (db_inquiries db') = map iq_incident_id (db_inquiries db) \<and>
     map ia_action_id (db_actions db') = map ia_action_id (db_actions db) \<and>
     map ia_incident_id (db_actions db') = map ia_incident_id (db_actions db) \<and>
     map cp_capa_id (db_capas db') = map cp_capa_id (db_capas db) \<and>
     map cp_incident_id (db_capas db') = map cp_incident_id (db_capas db) \<and>
     map rc_rca_id (db_rcas db') = map rc_rca_id (db_rcas db) \<and>
     map rc_incident_id (db_rcas db') = map rc_incident_id (db_rcas db) \<and>
     map er_review_id (db_reviews db') = map er_review_id (db_reviews db) \<and>
     map er_incident_id (db_reviews db') = map er_incident_id (db_reviews db) \<and>
     db_case_artifacts db' = db_case_artifacts db \<and> db_groups db' = db_groups db \<and>
     (\<exists>f. db_acks db' = map f (db_acks db) \<and>
        (\<forall>a. la_ack_id (f a) = la_ack_id a \<and> la_incident_id (f a) = la_incident_id a \<and>
             la_forwarded_at (f a) = la_forwarded_at a \<and>
             (la_status a = AckACKNOWLEDGED \<longrightarrow> la_status (f a) = AckACKNOWLEDGED))) \<and>
     map mb_batch_id (db_batches db') = map mb_batch_id (db_batches db) \<and>
     map mi_item_id (db_items db') = map mi_item_id (db_items db) \<and>
     map mi_batch_id (db_items db') = map mi_batch_id (db_items db) \<and>
     map mi_incident_id (db_items db') = map mi_incident_id (db_items db) \<and>
     map ro_assignment_id (db_roles db') = map ro_assignment_id (db_roles db)"

section \<open>Steps\<close>

inductive inc_step :: "incident_env \<Rightarrow> incident_db \<times> nat \<Rightarrow> incident_db \<times> nat \<Rightarrow> bool" for env where
  draw: "inc_step env (db, n) (db, Suc n)"
| count: "inc_step env (db, n) (db_counters_update (AList.update key (counter_of db key + 1)) db, n)"
| submit: "ic_incident_id c \<notin> case_ids db \<Longrightarrow> numbered db c \<Longrightarrow> ic_status c = S_SUBMITTED \<Longrightarrow>
     ic_classification c = None \<Longrightarrow> ic_capa_required c = None \<Longrightarrow> ic_root_cause_required c = None \<Longrightarrow>
     ic_is_critical c = None \<Longrightarrow> \<not> ic_leadership_required c \<Longrightarrow>
     inc_step env (db, n) (db_cases_update (\<lambda>rows. rows @ [c]) db, n)"
| status: "find_case db (ic_incident_id c) = Some c \<Longrightarrow> status_move db c s \<Longrightarrow> status_entry c s e \<Longrightarrow>
     drawn env db n (tl_entry_id e) \<Longrightarrow>
     inc_step env (db, n)
       (db_timeline_update (\<lambda>rows. rows @ [e]) (put_case (c\<lparr>ic_status := s, ic_updated_at := now\<rparr>) db), n)"
| assessed: "find_case db (ic_incident_id c) = Some c \<Longrightarrow> ic_status d = ic_status c \<Longrightarrow> same_identity c d \<Longrightarrow>
     assessed_case d \<Longrightarrow> inc_step env (db, n) (put_case d db, n)"
| marked: "find_case db (ic_incident_id c) = Some c \<Longrightarrow> same_workflow c d \<Longrightarrow> inc_step env (db, n) (put_case d db, n)"
| logged: "tl_entry_type e \<noteq> T_STATUS_CHANGED \<Longrightarrow> tl_incident_id e \<in> case_ids db \<Longrightarrow> drawn env db n (tl_entry_id e) \<Longrightarrow>
     inc_step env (db, n) (db_timeline_update (\<lambda>rows. rows @ [e]) db, n)"
| inquiry: "iq_incident_id q \<in> case_ids db \<Longrightarrow> drawn env db n (iq_inquiry_id q) \<Longrightarrow>
     inc_step env (db, n) (db_inquiries_update (\<lambda>rows. rows @ [q]) db, n)"
| act: "ia_incident_id a \<in> case_ids db \<Longrightarrow> drawn env db n (ia_action_id a) \<Longrightarrow>
     inc_step env (db, n) (db_actions_update (\<lambda>rows. rows @ [a]) db, n)"
| capa: "cp_incident_id p \<in> case_ids db \<Longrightarrow> drawn env db n (cp_capa_id p) \<Longrightarrow>
     inc_step env (db, n) (db_capas_update (\<lambda>rows. rows @ [p]) db, n)"
| rca: "rc_incident_id r \<in> case_ids db \<Longrightarrow> drawn env db n (rc_rca_id r) \<Longrightarrow>
     inc_step env (db, n) (db_rcas_update (\<lambda>rows. rows @ [r]) db, n)"
| review: "er_incident_id v \<in> case_ids db \<Longrightarrow> drawn env db n (er_review_id v) \<Longrightarrow>
     inc_step env (db, n) (db_reviews_update (\<lambda>rows. rows @ [v]) db, n)"
| artifact: "af_incident_id x \<in> case_ids db \<Longrightarrow> drawn env db n (af_artifact_id x) \<Longrightarrow>
     inc_step env (db, n) (db_case_artifacts_update (\<lambda>rows. rows @ [x]) db, n)"
| group: "drawn env db n (gr_group_id g) \<Longrightarrow> inc_step env (db, n) (db_groups_update (\<lambda>rows. rows @ [g]) db, n)"
| forwarded: "find_case db (la_incident_id a) = Some c \<Longrightarrow> ic_status c = S_CLOSURE_REVIEW \<Longrightarrow>
     drawn env db n (la_ack_id a) \<Longrightarrow> inc_step env (db, n) (db_acks_update (\<lambda>rows. rows @ [a]) db, n)"
| batch: "drawn env db n (mb_batch_id b) \<Longrightarrow> inc_step env (db, n) (db_batches_update (\<lambda>rows. rows @ [b]) db, n)"
| item: "mi_incident_id x \<in> case_ids db \<Longrightarrow> mi_batch_id x \<in> set (map mb_batch_id (db_batches db)) \<Longrightarrow>
     drawn env db n (mi_item_id x) \<Longrightarrow> inc_step env (db, n) (db_items_update (\<lambda>rows. rows @ [x]) db, n)"
| role: "drawn env db n (ro_assignment_id r) \<Longrightarrow> inc_step env (db, n) (db_roles_update (\<lambda>rows. rows @ [r]) db, n)"
| amend: "amended db db' \<Longrightarrow> inc_step env (db, n) (db', n)"

abbreviation inc_steps :: "incident_env \<Rightarrow> incident_db \<times> nat \<Rightarrow> incident_db \<times> nat \<Rightarrow> bool" where
  "inc_steps env \<equiv> (inc_step env)\<^sup>*\<^sup>*"

section \<open>Rows of cases\<close>

lemma update_rows_keys [simp]: "(\<And>r. g (f r) = g r) \<Longrightarrow> map g (update_rows key k f rows) = map g rows"
  by (induction rows) (simp_all add: update_rows_def)

lemma case_columns_identity [simp]:
  "ic_incident_id (case_columns c row) = ic_incident_id row"
  "ic_reported_at (case_columns c row) = ic_reported_at row"
  "ic_reporter_user_id (case_columns c row) = ic_reporter_user_id row"
  "ic_created_at (case_columns c row) = ic_created_at row"
  "ic_status (case_columns c row) = ic_status c"
  "ic_classification (case_columns c row) = ic_classification c"
  "ic_is_critical (case_columns c row) = ic_is_critical c"
  "ic_capa_required (case_columns c row) = ic_capa_required c"
  "ic_root_cause_required (case_columns c row) = ic_root_cause_required c"
  "ic_leadership_required (case_columns c row) = ic_leadership_required c"
  by (simp_all add: case_columns_def)

lemma put_case_tables [simp]:
  "db_counters (put_case c db) = db_counters db" "db_timeline (put_case c db) = db_timeline db"
  "db_inquiries (put_case c db) = db_inquiries db" "db_actions (put_case c db) = db_actions db"
  "db_capas (put_case c db) = db_capas db" "db_rcas (put_case c db) = db_rcas db"
  "db_reviews (put_case c db) = db_reviews db" "db_case_artifacts (put_case c db) = db_case_artifacts db"
  "db_groups (put_case c db) = db_groups db" "db_acks (put_case c db) = db_acks db"
  "db_batches (put_case c db) = db_batches db" "db_items (put_case c db) = db_items db"
  "db_roles (put_case c db) = db_roles db"
  by (simp_all add: put_case_def)

lemma db_cases_put_case:
  "db_cases (put_case c db) = update_rows ic_incident_id (ic_incident_id c) (case_columns c) (db_cases db)"
  by (simp add: put_case_def)

lemma ids_put_case [simp]: "map ic_incident_id (db_cases (put_case c db)) = map ic_incident_id (db_cases db)"
  by (simp add: db_cases_put_case)

lemma case_ids_put_case [simp]: "case_ids (put_case c db) = case_ids db"
  by (simp only: case_ids_def ids_put_case)

lemma find_update_rows:
  "(\<And>r. key (f r) = key r) \<Longrightarrow> List.find (\<lambda>r. key r = j) (update_rows key k f rows) =
     (if j = k then map_option f (List.find (\<lambda>r. key r = j) rows) else List.find (\<lambda>r. key r = j) rows)"
  by (induction rows) (auto simp: update_rows_def)

lemma find_case_put_case:
  "find_case (put_case d db) i =
     (if i = ic_incident_id d then map_option (case_columns d) (find_case db i) else find_case db i)"
  by (simp add: find_case_def db_cases_put_case find_update_rows)

lemma find_case_id: "find_case db i = Some c \<Longrightarrow> ic_incident_id c = i"
  by (auto simp: find_case_def find_Some_iff)

lemma find_case_member: "find_case db i = Some c \<Longrightarrow> c \<in> set (db_cases db)"
  by (auto simp: find_case_def find_Some_iff)

lemma find_case_ids: "find_case db i = Some c \<Longrightarrow> i \<in> case_ids db"
  using find_case_id find_case_member by (fastforce simp: case_ids_def)

lemma find_case_None: "find_case db i = None \<longleftrightarrow> i \<notin> case_ids db"
  by (auto simp: find_case_def case_ids_def find_None_iff)

lemma has_case_ids [simp]: "has_case db i \<longleftrightarrow> i \<in> case_ids db"
  by (simp add: has_case_def case_ids_def)

lemma member_find_case:
  "distinct (map ic_incident_id (db_cases db)) \<Longrightarrow> c \<in> set (db_cases db) \<Longrightarrow> find_case db (ic_incident_id c) = Some c"
proof -
  assume d: "distinct (map ic_incident_id (db_cases db))" and c: "c \<in> set (db_cases db)"
  then obtain c' where c': "find_case db (ic_incident_id c) = Some c'"
    using find_case_None [of db "ic_incident_id c"] by (auto simp: case_ids_def)
  have "ic_incident_id c' = ic_incident_id c" "c' \<in> set (db_cases db)"
    using find_case_id [OF c'] find_case_member [OF c'] by simp_all
  with d c have "c' = c" by (auto simp: distinct_map inj_on_def)
  with c' show ?thesis by simp
qed

text \<open>Writing a case that keeps the identity of the row writes the case itself.\<close>

lemma case_columns_self:
  "same_identity c d \<Longrightarrow> ic_title d = ic_title c \<Longrightarrow> ic_description d = ic_description c \<Longrightarrow>
   ic_category d = ic_category c \<Longrightarrow> ic_labels d = ic_labels c \<Longrightarrow> ic_area d = ic_area c \<Longrightarrow>
   ic_process_name d = ic_process_name c \<Longrightarrow> ic_device d = ic_device c \<Longrightarrow> case_columns d c = d"
  by (rule incident_case.equality) (simp_all add: case_columns_def same_identity_def)

text \<open>The tables of the other records do not select the case.\<close>

lemma find_case_other_tables [simp]:
  "find_case (db_counters_update f1 db) i = find_case db i"
  "find_case (db_timeline_update f2 db) i = find_case db i"
  "find_case (db_inquiries_update f3 db) i = find_case db i"
  "find_case (db_actions_update f4 db) i = find_case db i"
  "find_case (db_capas_update f5 db) i = find_case db i"
  "find_case (db_rcas_update f6 db) i = find_case db i"
  "find_case (db_reviews_update f7 db) i = find_case db i"
  "find_case (db_case_artifacts_update f8 db) i = find_case db i"
  "find_case (db_groups_update f9 db) i = find_case db i"
  "find_case (db_acks_update f10 db) i = find_case db i"
  "find_case (db_batches_update f11 db) i = find_case db i"
  "find_case (db_items_update f12 db) i = find_case db i"
  "find_case (db_roles_update f13 db) i = find_case db i"
  by (simp_all add: find_case_def)

lemma case_ids_other_tables [simp]:
  "case_ids (db_counters_update f1 db) = case_ids db"
  "case_ids (db_timeline_update f2 db) = case_ids db"
  "case_ids (db_inquiries_update f3 db) = case_ids db"
  "case_ids (db_actions_update f4 db) = case_ids db"
  "case_ids (db_capas_update f5 db) = case_ids db"
  "case_ids (db_rcas_update f6 db) = case_ids db"
  "case_ids (db_reviews_update f7 db) = case_ids db"
  "case_ids (db_case_artifacts_update f8 db) = case_ids db"
  "case_ids (db_groups_update f9 db) = case_ids db"
  "case_ids (db_acks_update f10 db) = case_ids db"
  "case_ids (db_batches_update f11 db) = case_ids db"
  "case_ids (db_items_update f12 db) = case_ids db"
  "case_ids (db_roles_update f13 db) = case_ids db"
  by (simp_all add: case_ids_def)

section \<open>Steps keep the keys\<close>

lemma counter_of_update [simp]:
  "counter_of (db_counters_update (AList.update key m) db) k = (if k = key then m else counter_of db k)"
  by (simp add: counter_of_def update_conv')

lemma counter_of_cong: "db_counters db' = db_counters db \<Longrightarrow> counter_of db' = counter_of db"
  by (simp add: counter_of_def fun_eq_iff)

lemma numbered_cong: "db_counters db' = db_counters db \<Longrightarrow> numbered db' = numbered db"
  by (simp add: numbered_def counter_of_def fun_eq_iff)

lemma numbered_identity: "same_identity c d \<Longrightarrow> numbered db d = numbered db c"
  by (simp add: numbered_def same_identity_def)

lemma numbered_columns [simp]: "numbered db (case_columns d c) = numbered db c"
  by (simp add: numbered_def)

lemma keys_ids: "incident_keys env db n \<Longrightarrow> db_ids db \<subseteq> inc_hex env ` {..<n}"
  by (simp add: incident_keys_def)

lemma amended_sets:
  assumes "amended db db'"
  shows "db_ids db' = db_ids db" and "db_parents db' = db_parents db" and "case_ids db' = case_ids db"
    and "set (map mb_batch_id (db_batches db')) = set (map mb_batch_id (db_batches db))"
    and "set (map mi_batch_id (db_items db')) = set (map mi_batch_id (db_items db))"
proof -
  obtain f where f: "db_acks db' = map f (db_acks db)"
      "\<And>a. la_ack_id (f a) = la_ack_id a" "\<And>a. la_incident_id (f a) = la_incident_id a"
    using assms unfolding amended_def by blast
  have acks: "map la_ack_id (db_acks db') = map la_ack_id (db_acks db)"
      "map la_incident_id (db_acks db') = map la_incident_id (db_acks db)"
    using f by (simp_all add: comp_def)
  note eqs = assms [unfolded amended_def] acks
  show "db_ids db' = db_ids db" "db_parents db' = db_parents db" "case_ids db' = case_ids db"
    "set (map mb_batch_id (db_batches db')) = set (map mb_batch_id (db_batches db))"
    "set (map mi_batch_id (db_items db')) = set (map mi_batch_id (db_items db))"
    unfolding db_ids_def db_parents_def case_ids_def by (simp_all only: eqs)
qed

lemma db_ids_append [simp]:
  "db_ids (db_timeline_update (\<lambda>rows. rows @ [e]) db) = insert (tl_entry_id e) (db_ids db)"
  "db_ids (db_inquiries_update (\<lambda>rows. rows @ [q]) db) = insert (iq_inquiry_id q) (db_ids db)"
  "db_ids (db_actions_update (\<lambda>rows. rows @ [a]) db) = insert (ia_action_id a) (db_ids db)"
  "db_ids (db_capas_update (\<lambda>rows. rows @ [p]) db) = insert (cp_capa_id p) (db_ids db)"
  "db_ids (db_rcas_update (\<lambda>rows. rows @ [r]) db) = insert (rc_rca_id r) (db_ids db)"
  "db_ids (db_reviews_update (\<lambda>rows. rows @ [v]) db) = insert (er_review_id v) (db_ids db)"
  "db_ids (db_case_artifacts_update (\<lambda>rows. rows @ [x]) db) = insert (af_artifact_id x) (db_ids db)"
  "db_ids (db_groups_update (\<lambda>rows. rows @ [g]) db) = insert (gr_group_id g) (db_ids db)"
  "db_ids (db_acks_update (\<lambda>rows. rows @ [k]) db) = insert (la_ack_id k) (db_ids db)"
  "db_ids (db_batches_update (\<lambda>rows. rows @ [b]) db) = insert (mb_batch_id b) (db_ids db)"
  "db_ids (db_items_update (\<lambda>rows. rows @ [i]) db) = insert (mi_item_id i) (db_ids db)"
  "db_ids (db_roles_update (\<lambda>rows. rows @ [o']) db) = insert (ro_assignment_id o') (db_ids db)"
  "db_ids (db_counters_update h db) = db_ids db"
  "db_ids (db_cases_update h' db) = db_ids db"
  "db_ids (put_case c db) = db_ids db"
  by (simp_all add: db_ids_def)

lemma db_parents_append [simp]:
  "db_parents (db_timeline_update (\<lambda>rows. rows @ [e]) db) = insert (tl_incident_id e) (db_parents db)"
  "db_parents (db_inquiries_update (\<lambda>rows. rows @ [q]) db) = insert (iq_incident_id q) (db_parents db)"
  "db_parents (db_actions_update (\<lambda>rows. rows @ [a]) db) = insert (ia_incident_id a) (db_parents db)"
  "db_parents (db_capas_update (\<lambda>rows. rows @ [p]) db) = insert (cp_incident_id p) (db_parents db)"
  "db_parents (db_rcas_update (\<lambda>rows. rows @ [r]) db) = insert (rc_incident_id r) (db_parents db)"
  "db_parents (db_reviews_update (\<lambda>rows. rows @ [v]) db) = insert (er_incident_id v) (db_parents db)"
  "db_parents (db_case_artifacts_update (\<lambda>rows. rows @ [x]) db) = insert (af_incident_id x) (db_parents db)"
  "db_parents (db_groups_update g db) = db_parents db"
  "db_parents (db_acks_update (\<lambda>rows. rows @ [k]) db) = insert (la_incident_id k) (db_parents db)"
  "db_parents (db_batches_update b db) = db_parents db"
  "db_parents (db_items_update (\<lambda>rows. rows @ [i]) db) = insert (mi_incident_id i) (db_parents db)"
  "db_parents (db_roles_update o' db) = db_parents db"
  "db_parents (db_counters_update h db) = db_parents db"
  "db_parents (db_cases_update h' db) = db_parents db"
  "db_parents (put_case c db) = db_parents db"
  by (simp_all add: db_parents_def)

lemma case_ids_append [simp]:
  "case_ids (db_cases_update (\<lambda>rows. rows @ [c]) db) = insert (ic_incident_id c) (case_ids db)"
  by (simp add: case_ids_def)

lemma numbered_other_tables [simp]:
  "numbered (db_cases_update f0 db) = numbered db"
  "numbered (db_timeline_update f2 db) = numbered db"
  "numbered (db_inquiries_update f3 db) = numbered db"
  "numbered (db_actions_update f4 db) = numbered db"
  "numbered (db_capas_update f5 db) = numbered db"
  "numbered (db_rcas_update f6 db) = numbered db"
  "numbered (db_reviews_update f7 db) = numbered db"
  "numbered (db_case_artifacts_update f8 db) = numbered db"
  "numbered (db_groups_update f9 db) = numbered db"
  "numbered (db_acks_update f10 db) = numbered db"
  "numbered (db_batches_update f11 db) = numbered db"
  "numbered (db_items_update f12 db) = numbered db"
  "numbered (db_roles_update f13 db) = numbered db"
  "numbered (put_case c db) = numbered db"
  by (simp_all add: numbered_def counter_of_def fun_eq_iff)

lemma counter_of_other_tables [simp]:
  "counter_of (db_cases_update f0 db) = counter_of db"
  "counter_of (db_timeline_update f2 db) = counter_of db"
  "counter_of (db_inquiries_update f3 db) = counter_of db"
  "counter_of (db_actions_update f4 db) = counter_of db"
  "counter_of (db_capas_update f5 db) = counter_of db"
  "counter_of (db_rcas_update f6 db) = counter_of db"
  "counter_of (db_reviews_update f7 db) = counter_of db"
  "counter_of (db_case_artifacts_update f8 db) = counter_of db"
  "counter_of (db_groups_update f9 db) = counter_of db"
  "counter_of (db_acks_update f10 db) = counter_of db"
  "counter_of (db_batches_update f11 db) = counter_of db"
  "counter_of (db_items_update f12 db) = counter_of db"
  "counter_of (db_roles_update f13 db) = counter_of db"
  "counter_of (put_case c db) = counter_of db"
  by (simp_all add: counter_of_def fun_eq_iff)

lemma numbered_put_case:
  "\<forall>c \<in> set (db_cases db). numbered db c \<Longrightarrow> \<forall>c \<in> set (db_cases (put_case d db)). numbered db c"
  by (auto simp: db_cases_put_case update_rows_def)

lemma case_ids_distinct:
  "ic_incident_id c \<notin> case_ids db \<Longrightarrow> distinct (map ic_incident_id (db_cases db)) \<Longrightarrow>
   distinct (map ic_incident_id (db_cases db @ [c]))"
  by (simp add: case_ids_def)

lemma inc_step_keys:
  assumes "inc_step env (db, n) (db', n')" and keys: "incident_keys env db n"
  shows "incident_keys env db' n'"
  using assms(1)
proof cases
  case draw
  then show ?thesis using keys by (auto simp: incident_keys_def lessThan_Suc)
next
  case (count key)
  have "numbered db' c" if "numbered db c" for c
    using that count by (auto simp: numbered_def)
  moreover have "\<forall>k. 1 \<le> counter_of db' k"
    using count keys by (auto simp: incident_keys_def intro: order_trans [OF zero_le_one])
  ultimately show ?thesis using count keys by (simp add: incident_keys_def)
next
  case (submit c)
  then show ?thesis using keys case_ids_distinct [OF submit(3)] by (auto simp: incident_keys_def)
next
  case (status c s e now)
  then show ?thesis using keys numbered_put_case find_case_ids [OF status(3)]
    by (simp add: incident_keys_def drawn_def status_entry_def)
next
  case (assessed c d)
  then show ?thesis using keys numbered_put_case by (simp add: incident_keys_def)
next
  case (marked c d)
  then show ?thesis using keys numbered_put_case by (simp add: incident_keys_def)
next
  case amend
  have "numbered db' = numbered db" "counter_of db' = counter_of db" "db_cases db' = db_cases db"
    using amend by (auto simp: amended_def intro: numbered_cong counter_of_cong)
  then show ?thesis using amend keys unfolding incident_keys_def by (auto simp only: amended_sets)
next
  case (forwarded a c)
  then show ?thesis using keys find_case_ids [OF forwarded(3)] by (simp add: incident_keys_def drawn_def)
qed (use keys in \<open>auto simp: incident_keys_def drawn_def\<close>)

lemma inc_steps_keys:
  assumes "inc_steps env (db, n) (db', n')" and "incident_keys env db n"
  shows "incident_keys env db' n'"
  using assms by (induction rule: rtranclp_induct2) (auto dest: inc_step_keys)

lemma incident_keys_empty: "incident_keys env empty_incident_db n"
  by (simp add: incident_keys_def empty_incident_db_def db_ids_def db_parents_def counter_of_def)

end
