(* ===== verification/IncidentSim.thy ===== *)
theory IncidentSim
  imports IncidentSteps
begin

text \<open>
  The operations refine the state machine: from a state with intact keys every request, successful or
  not, makes a sequence of steps, and it never ends in an \<open>IncIntegrityError\<close>. \<open>runs env P m Q\<close> is the
  judgement behind it, with one rule per primitive effect; identifiers are assumed not to repeat.
\<close>

section \<open>The judgement\<close>

definition no_integrity_error :: "incident_error + 'a \<Rightarrow> bool" where
  "no_integrity_error r \<longleftrightarrow> (\<forall>t. r \<noteq> Inl (IncIntegrityError t))"

definition runs ::
  "incident_env \<Rightarrow> (incident_db \<Rightarrow> nat \<Rightarrow> bool) \<Rightarrow> 'a inc_meth \<Rightarrow> ('a \<Rightarrow> incident_db \<Rightarrow> nat \<Rightarrow> bool) \<Rightarrow> bool" where
  "runs env P m Q \<longleftrightarrow> (\<forall>w r w'. incident_keys env (iw_db w) (iw_ids w) \<longrightarrow> P (iw_db w) (iw_ids w) \<longrightarrow> m w = (r, w') \<longrightarrow>
     inc_steps env (iw_db w, iw_ids w) (iw_db w', iw_ids w') \<and> no_integrity_error r \<and>
     (\<forall>x. r = Inr x \<longrightarrow> Q x (iw_db w') (iw_ids w')))"

named_theorems sim_intros \<open>rules that reduce \<open>runs env P m Q\<close> to the parts of \<open>m\<close>\<close>

lemma no_integrity_error_simps [simp]:
  "no_integrity_error (Inr x)"
  "no_integrity_error (Inl e) \<longleftrightarrow> (\<forall>t. e \<noteq> IncIntegrityError t)"
  by (simp_all add: no_integrity_error_def)

lemma runsI:
  assumes "\<And>w r w'. incident_keys env (iw_db w) (iw_ids w) \<Longrightarrow> P (iw_db w) (iw_ids w) \<Longrightarrow> m w = (r, w') \<Longrightarrow>
     inc_steps env (iw_db w, iw_ids w) (iw_db w', iw_ids w') \<and> no_integrity_error r \<and>
     (\<forall>x. r = Inr x \<longrightarrow> Q x (iw_db w') (iw_ids w'))"
  shows "runs env P m Q"
  unfolding runs_def using assms by blast

lemma runsD:
  assumes "runs env P m Q" and "incident_keys env (iw_db w) (iw_ids w)" and "P (iw_db w) (iw_ids w)" and "m w = (r, w')"
  shows "inc_steps env (iw_db w, iw_ids w) (iw_db w', iw_ids w')" and "no_integrity_error r"
    and "r = Inr x \<Longrightarrow> Q x (iw_db w') (iw_ids w')"
  using assms unfolding runs_def by blast+

lemma runs_keys: "runs env (\<lambda>db n. P db n \<and> incident_keys env db n) m Q \<Longrightarrow> runs env P m Q"
  unfolding runs_def by blast

lemma runs_pre: "runs env P m Q \<Longrightarrow> (\<And>db n. P' db n \<Longrightarrow> P db n) \<Longrightarrow> runs env P' m Q"
  unfolding runs_def by blast

lemma runs_post: "runs env P m Q \<Longrightarrow> (\<And>x db n. Q x db n \<Longrightarrow> Q' x db n) \<Longrightarrow> runs env P m Q'"
  unfolding runs_def by blast

lemma runs_bind:
  assumes m: "runs env P m R" and f: "\<And>x. runs env (R x) (f x) Q"
  shows "runs env P (bindM m f) Q"
proof (rule runsI)
  fix w r w'
  assume keys: "incident_keys env (iw_db w) (iw_ids w)" and P: "P (iw_db w) (iw_ids w)"
    and run: "bindM m f w = (r, w')"
  obtain r1 w1 where m1: "m w = (r1, w1)" by (cases "m w")
  note first = runsD [OF m keys P m1]
  have keys1: "incident_keys env (iw_db w1) (iw_ids w1)" using inc_steps_keys [OF first(1) keys] .
  show "inc_steps env (iw_db w, iw_ids w) (iw_db w', iw_ids w') \<and> no_integrity_error r \<and>
     (\<forall>x. r = Inr x \<longrightarrow> Q x (iw_db w') (iw_ids w'))"
  proof (cases r1)
    case (Inl e)
    then show ?thesis using run m1 first by (auto simp: bindM_def)
  next
    case (Inr x)
    then have run2: "f x w1 = (r, w')" using run m1 by (simp add: bindM_def)
    note second = runsD [OF f keys1 first(3) [OF Inr] run2]
    show ?thesis using second rtranclp_trans [OF first(1) second(1)] by blast
  qed
qed

lemma runs_ret [sim_intros]: "(\<And>db n. P db n \<Longrightarrow> Q x db n) \<Longrightarrow> runs env P (retM x) Q"
  by (simp add: runs_def)

lemma runs_raise: "(\<forall>t. e \<noteq> IncIntegrityError t) \<Longrightarrow> runs env P (raiseM e) Q"
  by (simp add: runs_def)

lemma runs_lift:
  "no_integrity_error r \<Longrightarrow> (\<And>x. r = Inr x \<Longrightarrow> runs env P (f x) Q) \<Longrightarrow> runs env P (bindM (liftE r) f) Q"
  by (cases r) (simp_all add: runs_def bindM_liftE)

lemma runs_check:
  assumes "\<And>db n. P db n \<Longrightarrow> no_integrity_error (g db)"
    and "\<And>x. runs env (\<lambda>db n. P db n \<and> g db = Inr x) (f x) Q"
  shows "runs env P (bindM (check_db g) f) Q"
proof -
  have "runs env P (check_db g) (\<lambda>x db n. P db n \<and> g db = Inr x)"
    using assms(1) by (auto simp: runs_def check_db_def)
  then show ?thesis using assms(2) runs_bind by blast
qed

lemma runs_read:
  assumes "\<And>x. runs env (\<lambda>db n. P db n \<and> g db = x) (f x) Q"
  shows "runs env P (bindM (read_db g) f) Q"
proof -
  have "runs env P (read_db g) (\<lambda>x db n. P db n \<and> g db = x)" by (simp add: runs_def read_db_def)
  then show ?thesis using assms runs_bind by blast
qed

lemma runs_readM: "(\<And>x. runs env P (f x) Q) \<Longrightarrow> runs env P (bindM (readM g) f) Q"
  by (simp add: runs_def)

text \<open>Effects outside the database.\<close>

lemma runs_quiet:
  assumes "\<And>w. iw_db (after (m w)) = iw_db w \<and> iw_ids (after (m w)) = iw_ids w \<and> (\<exists>x. result (m w) = Inr x)"
    and "\<And>x. runs env P (f x) Q"
  shows "runs env P (bindM m f) Q"
proof -
  have "runs env P m (\<lambda>_. P)"
  proof (rule runsI)
    fix w r w' assume "P (iw_db w) (iw_ids w)" "m w = (r, w')"
    then show "inc_steps env (iw_db w, iw_ids w) (iw_db w', iw_ids w') \<and> no_integrity_error r \<and>
        (\<forall>x. r = Inr x \<longrightarrow> P (iw_db w') (iw_ids w'))"
      using assms(1) [of w] by auto
  qed
  then show ?thesis using assms(2) runs_bind by blast
qed

lemma bindM_retM: "bindM m retM = m"
  by (rule ext) (simp add: bindM_def split: prod.split sum.split)

lemma runs_clock: "(\<And>t. runs env P (f t) Q) \<Longrightarrow> runs env P (bindM (inc_utcnow env) f) Q"
  by (rule runs_quiet) (simp_all add: inc_utcnow_def)

lemma runs_audit: "runs env P (f ()) Q \<Longrightarrow> runs env P (bindM (inc_emit_audit a b c d) f) Q"
  by (rule runs_quiet) (simp_all add: inc_emit_audit_def)

lemma runs_modify:
  "(\<And>w. iw_db (g w) = iw_db w \<and> iw_ids (g w) = iw_ids w) \<Longrightarrow> runs env P (f ()) Q \<Longrightarrow> runs env P (bindM (modifyM g) f) Q"
  by (rule runs_quiet) simp_all

text \<open>One step of the machine.\<close>

lemma runs_write:
  assumes "\<And>db n. incident_keys env db n \<Longrightarrow> P db n \<Longrightarrow> inc_step env (db, n) (g db, n)"
    and "\<And>db n. incident_keys env db n \<Longrightarrow> P db n \<Longrightarrow> Q () (g db) n"
  shows "runs env P (write_db g) Q"
  using assms by (auto simp: runs_def write_db_def)

lemma runs_write_bind:
  assumes "\<And>db n. incident_keys env db n \<Longrightarrow> P db n \<Longrightarrow> inc_step env (db, n) (g db, n)"
    and "\<And>db n. incident_keys env db n \<Longrightarrow> P db n \<Longrightarrow> R (g db) n" and "runs env R (f ()) Q"
  shows "runs env P (bindM (write_db g) f) Q"
  by (rule runs_bind [where R = "\<lambda>_. R"], rule runs_write) (use assms in auto)

text \<open>A drawn identifier, when they do not repeat.\<close>

lemma runs_new_id:
  assumes "inj (inc_hex env)"
    and "\<And>x. runs env (\<lambda>db n. P db n \<and> drawn env db n x) (f x) Q" and "\<And>db n. P db n \<Longrightarrow> P db (Suc n)"
  shows "runs env P (bindM (new_id env) f) Q"
proof (rule runs_bind)
  show "runs env P (new_id env) (\<lambda>x db n. P db n \<and> drawn env db n x)"
  proof (rule runsI)
    fix w r w' assume keys: "incident_keys env (iw_db w) (iw_ids w)" and P: "P (iw_db w) (iw_ids w)"
      and run: "new_id env w = (r, w')"
    have "inc_hex env (iw_ids w) \<notin> db_ids (iw_db w)"
      using keys_ids [OF keys] assms(1) by (auto dest: injD)
    then show "inc_steps env (iw_db w, iw_ids w) (iw_db w', iw_ids w') \<and> no_integrity_error r \<and>
        (\<forall>x. r = Inr x \<longrightarrow> P (iw_db w') (iw_ids w') \<and> drawn env (iw_db w') (iw_ids w') x)"
      using run P assms(3) inc_step.draw [of env "iw_db w" "iw_ids w"] by (auto simp: new_id_def drawn_def)
  qed
qed (rule assms(2))

lemma runs_event_uuid:
  assumes "\<And>x. runs env P (f x) Q" and "\<And>db n. P db n \<Longrightarrow> P db (Suc n)"
  shows "runs env P (bindM (event_uuid env) f) Q"
proof (rule runs_bind)
  show "runs env P (event_uuid env) (\<lambda>_. P)"
    using assms(2) inc_step.draw [of env] by (auto simp: runs_def event_uuid_def)
qed (rule assms(1))

lemma runs_publish:
  assumes "runs env P (f ()) Q" and "\<And>db n. P db n \<Longrightarrow> P db (Suc n)"
  shows "runs env P (bindM (inc_publish_event env a b c) f) Q"
proof (rule runs_bind)
  have quiet: "runs env P (modifyM g) (\<lambda>_. P)" if "\<And>w. iw_db (g w) = iw_db w \<and> iw_ids (g w) = iw_ids w" for g
    using that by (simp add: runs_def)
  show "runs env P (inc_publish_event env a b c) (\<lambda>_. P)"
    unfolding inc_publish_event_def
    by (intro runs_event_uuid runs_clock quiet) (simp_all add: assms(2))
qed (simp add: assms(1))

section \<open>Rows\<close>

lemma runs_insert:
  assumes "\<And>db n. P db n \<Longrightarrow> key row \<notin> set (map key (table db)) \<and> parent row \<in> case_ids db"
    and "\<And>db n. P db n \<Longrightarrow> inc_step env (db, n) (upd (\<lambda>rows. rows @ [row]) db, n)"
    and "\<And>db n. P db n \<Longrightarrow> Q () (upd (\<lambda>rows. rows @ [row]) db) n"
  shows "runs env P (insert_child key parent table upd row) Q"
  unfolding insert_child_def
proof (rule runs_check)
  show "no_integrity_error (bindE (fresh_row key row (table db)) (\<lambda>_. refers_to_case db (parent row)))"
    if "P db n" for db n
    using assms(1) [OF that] by (simp add: fresh_row_def refers_to_case_def raise_if_def)
  show "runs env (\<lambda>db n. P db n \<and> bindE (fresh_row key row (table db)) (\<lambda>_. refers_to_case db (parent row)) = Inr x)
      (write_db (upd (\<lambda>rows. rows @ [row]))) Q" for x
    by (rule runs_write) (use assms(2,3) in blast)+
qed

lemma drawn_key:
  "drawn env db n x \<Longrightarrow> x \<notin> set (map tl_entry_id (db_timeline db))"
  "drawn env db n x \<Longrightarrow> x \<notin> set (map iq_inquiry_id (db_inquiries db))"
  "drawn env db n x \<Longrightarrow> x \<notin> set (map ia_action_id (db_actions db))"
  "drawn env db n x \<Longrightarrow> x \<notin> set (map cp_capa_id (db_capas db))"
  "drawn env db n x \<Longrightarrow> x \<notin> set (map rc_rca_id (db_rcas db))"
  "drawn env db n x \<Longrightarrow> x \<notin> set (map er_review_id (db_reviews db))"
  "drawn env db n x \<Longrightarrow> x \<notin> set (map af_artifact_id (db_case_artifacts db))"
  "drawn env db n x \<Longrightarrow> x \<notin> set (map gr_group_id (db_groups db))"
  "drawn env db n x \<Longrightarrow> x \<notin> set (map la_ack_id (db_acks db))"
  "drawn env db n x \<Longrightarrow> x \<notin> set (map mb_batch_id (db_batches db))"
  "drawn env db n x \<Longrightarrow> x \<notin> set (map mi_item_id (db_items db))"
  "drawn env db n x \<Longrightarrow> x \<notin> set (map ro_assignment_id (db_roles db))"
  by (simp_all add: drawn_def db_ids_def)

text \<open>A timeline entry that is not a change of status, and the end of an operation.\<close>

lemma runs_record_timeline:
  assumes "inj (inc_hex env)" and "t \<noteq> T_STATUS_CHANGED" and "\<And>db n. P db n \<Longrightarrow> i \<in> case_ids db"
    and "\<And>db n e. P db n \<Longrightarrow> P (db_timeline_update (\<lambda>rows. rows @ [e]) db) n" and "\<And>db n. P db n \<Longrightarrow> P db (Suc n)"
  shows "runs env P (record_timeline env t i actor now details) (\<lambda>_. P)"
  unfolding record_timeline_def add_timeline_entry_def
  by (rule runs_new_id [OF assms(1)], rule runs_insert)
    (use assms in \<open>auto dest: drawn_key intro!: inc_step.logged\<close>)

section \<open>A change of status\<close>

definition changed_status :: "incident_case \<Rightarrow> incident_status \<Rightarrow> time \<Rightarrow> incident_case" where
  "changed_status c s now = c\<lparr>ic_status := s, ic_updated_at := now\<rparr>"

definition status_changed_db :: "incident_case \<Rightarrow> incident_status \<Rightarrow> time \<Rightarrow> timeline_entry \<Rightarrow> incident_db \<Rightarrow> incident_db" where
  "status_changed_db c s now e db = db_timeline_update (\<lambda>rows. rows @ [e]) (put_case (changed_status c s now) db)"

lemma changed_status_simps [simp]:
  "ic_status (changed_status c s now) = s" "ic_incident_id (changed_status c s now) = ic_incident_id c"
  "ic_capa_required (changed_status c s now) = ic_capa_required c"
  "ic_classification (changed_status c s now) = ic_classification c"
  "ic_leadership_required (changed_status c s now) = ic_leadership_required c"
  "ic_group_id (changed_status c s now) = ic_group_id c"
  "same_identity c (changed_status c s now)"
  by (simp_all add: changed_status_def same_identity_def)

lemma find_case_changed:
  "find_case db (ic_incident_id c) = Some c \<Longrightarrow> find_case (status_changed_db c s now e db) (ic_incident_id c) = Some (changed_status c s now)"
  by (simp add: status_changed_db_def find_case_put_case changed_status_def case_columns_def)

lemma status_changed_tables [simp]:
  "db_inquiries (status_changed_db c s now e db) = db_inquiries db" "db_actions (status_changed_db c s now e db) = db_actions db"
  "db_capas (status_changed_db c s now e db) = db_capas db" "db_rcas (status_changed_db c s now e db) = db_rcas db"
  "db_reviews (status_changed_db c s now e db) = db_reviews db" "db_acks (status_changed_db c s now e db) = db_acks db"
  "case_ids (status_changed_db c s now e db) = case_ids db"
  by (simp_all add: status_changed_db_def)

lemma update_rows_image: "(\<And>r. g (f r) = g r) \<Longrightarrow> g ` set (update_rows key k f rows) = g ` set rows"
  by (metis list.set_map update_rows_keys)

lemma set_status_run:
  assumes "inc_hex env (iw_ids w) \<notin> set (map tl_entry_id (db_timeline (iw_db w)))" and "ic_incident_id c \<in> case_ids (iw_db w)"
    and "validate_status_transition (ic_status c) s = Inr ()"
  shows "\<exists>e. status_entry c s e \<and> tl_entry_id e = inc_hex env (iw_ids w) \<and>
    set_status env c s uid w = (Inr (changed_status c s (inc_clock env (iw_ticks w))),
      w\<lparr>iw_db := status_changed_db c s (inc_clock env (iw_ticks w)) e (iw_db w), iw_ticks := Suc (iw_ticks w), iw_ids := Suc (iw_ids w)\<rparr>)"
proof -
  let ?e = "\<lparr>tl_entry_id = inc_hex env (iw_ids w), tl_incident_id = ic_incident_id c, tl_entry_type = T_STATUS_CHANGED,
    tl_actor_user_id = Some uid, tl_summary = timeline_text T_STATUS_CHANGED,
    tl_details = [(''from_status'', incident_status_value (ic_status c)), (''to_status'', incident_status_value s)],
    tl_created_at = inc_clock env (iw_ticks w)\<rparr>"
  have "set_status env c s uid w = (Inr (changed_status c s (inc_clock env (iw_ticks w))),
      w\<lparr>iw_db := status_changed_db c s (inc_clock env (iw_ticks w)) ?e (iw_db w), iw_ticks := Suc (iw_ticks w), iw_ids := Suc (iw_ids w)\<rparr>)"
    using assms
    by (simp add: set_status_def bindM_def inc_utcnow_def update_incident_def write_db_def record_timeline_def new_id_def
        add_timeline_entry_def insert_child_def check_db_def fresh_row_def refers_to_case_def raise_if_def
        changed_status_def status_changed_db_def put_case_def case_ids_def Let_def update_rows_image)
  moreover have "status_entry c s ?e" by (simp add: status_entry_def)
  ultimately show ?thesis by (intro exI [of _ ?e]) simp
qed

lemma set_status_refused:
  "validate_status_transition (ic_status c) s = Inl e \<Longrightarrow> set_status env c s uid w = (Inl e, w)"
  by (simp add: set_status_def bindM_liftE)

lemma validate_status_transition_Inr:
  "validate_status_transition a b = Inr () \<longleftrightarrow> a = b \<or> b \<in> set (allowed_transitions a)"
  by (auto simp: validate_status_transition_def)

lemma runs_set_status:
  assumes inj: "inj (inc_hex env)" and row: "\<And>db n. P db n \<Longrightarrow> find_case db (ic_incident_id c) = Some c"
    and move: "\<And>db n. P db n \<Longrightarrow> ic_status c = s \<or> s \<in> set (allowed_transitions (ic_status c)) \<Longrightarrow> status_move db c s"
    and post: "\<And>db n e now. P db n \<Longrightarrow> find_case (status_changed_db c s now e db) (ic_incident_id c) = Some (changed_status c s now) \<Longrightarrow>
      Q (changed_status c s now) (status_changed_db c s now e db) (Suc n)"
  shows "runs env P (set_status env c s uid) Q"
proof (rule runsI)
  fix w r w'
  assume keys: "incident_keys env (iw_db w) (iw_ids w)" and P: "P (iw_db w) (iw_ids w)" and run: "set_status env c s uid w = (r, w')"
  let ?x = "inc_hex env (iw_ids w)"
  have free: "?x \<notin> db_ids (iw_db w)" using keys_ids [OF keys] inj by (auto dest: injD)
  then have drawn: "drawn env (iw_db w) (Suc (iw_ids w)) ?x" by (simp add: drawn_def)
  have found: "find_case (iw_db w) (ic_incident_id c) = Some c" using row [OF P] .
  show "inc_steps env (iw_db w, iw_ids w) (iw_db w', iw_ids w') \<and> no_integrity_error r \<and>
     (\<forall>x. r = Inr x \<longrightarrow> Q x (iw_db w') (iw_ids w'))"
  proof (cases "validate_status_transition (ic_status c) s")
    case (Inl e)
    then have "no_integrity_error (Inl e :: incident_error + incident_case)"
      by (auto simp: validate_status_transition_def raise_if_def split: if_splits)
    then show ?thesis using run Inl by (auto simp: set_status_refused)
  next
    case (Inr u)
    then have ok: "validate_status_transition (ic_status c) s = Inr ()" by simp
    obtain e where e: "status_entry c s e" "tl_entry_id e = ?x" and eq: "set_status env c s uid w =
        (Inr (changed_status c s (inc_clock env (iw_ticks w))), w\<lparr>iw_db := status_changed_db c s (inc_clock env (iw_ticks w)) e (iw_db w),
          iw_ticks := Suc (iw_ticks w), iw_ids := Suc (iw_ids w)\<rparr>)"
      using set_status_run [OF _ _ ok, of env w uid] drawn_key(1) [OF drawn] find_case_ids [OF found] by blast
    have "inc_step env (iw_db w, Suc (iw_ids w))
        (status_changed_db c s (inc_clock env (iw_ticks w)) e (iw_db w), Suc (iw_ids w))"
      unfolding status_changed_db_def changed_status_def
      using found move [OF P] ok e drawn by (intro inc_step.status) (simp_all add: validate_status_transition_Inr)
    with inc_step.draw [of env "iw_db w" "iw_ids w"]
    have "inc_steps env (iw_db w, iw_ids w) (status_changed_db c s (inc_clock env (iw_ticks w)) e (iw_db w), Suc (iw_ids w))"
      by (meson converse_rtranclp_into_rtranclp r_into_rtranclp)
    then show ?thesis using run eq post [OF P find_case_changed [OF found]] by auto
  qed
qed

text \<open>The end of an operation asks only for the case to exist.\<close>

lemma runs_conclude:
  assumes "inj (inc_hex env)" and "t \<noteq> T_STATUS_CHANGED" and "\<And>db n. P db n \<Longrightarrow> i \<in> case_ids db"
  shows "runs env P (bindM (conclude env t i uid now details a ev payload) (\<lambda>_. retM x)) (\<lambda>_ db n. i \<in> case_ids db)"
proof (rule runs_pre)
  show "runs env (\<lambda>db n. i \<in> case_ids db) (bindM (conclude env t i uid now details a ev payload) (\<lambda>_. retM x))
      (\<lambda>_ db n. i \<in> case_ids db)"
  proof (rule runs_bind)
    show "runs env (\<lambda>db n. i \<in> case_ids db) (conclude env t i uid now details a ev payload) (\<lambda>_ db n. i \<in> case_ids db)"
      unfolding conclude_def
    proof (rule runs_bind)
      show "runs env (\<lambda>db n. i \<in> case_ids db) (record_timeline env t i (Some uid) now details) (\<lambda>_ db n. i \<in> case_ids db)"
        by (rule runs_record_timeline [OF assms(1,2)]) simp_all
      have "runs env (\<lambda>db n. i \<in> case_ids db) (bindM (inc_publish_event env ev uid payload) retM) (\<lambda>_ db n. i \<in> case_ids db)"
        by (rule runs_publish, rule runs_ret) simp_all
      then have "runs env (\<lambda>db n. i \<in> case_ids db) (inc_publish_event env ev uid payload) (\<lambda>_ db n. i \<in> case_ids db)"
        by (simp add: bindM_retM)
      then show "runs env (\<lambda>db n. i \<in> case_ids db) (bindM (inc_emit_audit a uid i []) (\<lambda>_. inc_publish_event env ev uid payload))
          (\<lambda>_ db n. i \<in> case_ids db)" for u :: unit
        by (rule runs_audit)
    qed
  qed (rule runs_ret)
qed (rule assms(3))

end
