(* ===== verification/IncidentRefine.thy ===== *)
theory IncidentRefine
  imports IncidentSim
begin

text \<open>
  Every operation of the incident module makes steps of the state machine: the rules of the judgement
  for reads, inserts and changes of status, one lemma per operation, and \<open>request_refines\<close> for all of
  them.
\<close>

section \<open>Rules for the operations\<close>

lemma benign_checks [simp]:
  "no_integrity_error (require_authenticated user)"
  "no_integrity_error (require_qmb user)"
  "no_integrity_error (require_admin_or_qmb user)"
  "no_integrity_error (require_leadership_recipient user ack)"
  "no_integrity_error (require_can_answer_inquiry user c)"
  "no_integrity_error (require_non_empty v field_name)"
  "no_integrity_error (validate_submission s)"
  "no_integrity_error (validate_assessment a)"
  "no_integrity_error (validate_submission_against_settings s settings)"
  "no_integrity_error (raise_if b (IncValidationError t))"
  "no_integrity_error (inc_user_id user)"
  "no_integrity_error (dt_less x y)"
  by (simp_all add: require_authenticated_def require_qmb_def require_admin_or_qmb_def raise_if_def bindE_def
      require_leadership_recipient_def require_can_answer_inquiry_def require_non_empty_def validate_submission_def
      validate_assessment_def validate_submission_against_settings_def inc_user_id_def dt_less_def
      split: option.splits)

lemma benign_module_role [simp]: "no_integrity_error (require_module_role user role assignments)"
  by (cases user) (simp_all add: require_module_role_def inc_user_id_def raise_if_def)

lemma benign_closure: "no_integrity_error (validate_closure db c)"
  by (simp add: validate_closure_def Let_def raise_if_def bindE_def split: option.split)

lemma runs_get:
  assumes "\<And>c. ic_incident_id c = i \<Longrightarrow> runs env (\<lambda>db n. P db n \<and> find_case db i = Some c) (f c) Q"
  shows "runs env P (bindM (get_incident_row i) f) Q"
  unfolding get_incident_row_def
proof (rule runs_check)
  show "no_integrity_error (case find_case db i of None \<Rightarrow> Inl (IncNotFoundError (''incident not found: '' @ i)) | Some c \<Rightarrow> Inr c)" for db
    by (simp split: option.split)
  show "runs env (\<lambda>db n. P db n \<and> (case find_case db i of None \<Rightarrow> Inl (IncNotFoundError (''incident not found: '' @ i)) | Some c \<Rightarrow> Inr c) = Inr c)
      (f c) Q" for c
  proof (cases "ic_incident_id c = i")
    case True
    show ?thesis by (rule runs_pre [OF assms [OF True]]) (simp split: option.splits)
  next
    case False
    then show ?thesis by (auto simp: runs_def find_case_id split: option.splits)
  qed
qed

lemma runs_if: "(b \<Longrightarrow> runs env P m Q) \<Longrightarrow> (\<not> b \<Longrightarrow> runs env P m' Q) \<Longrightarrow> runs env P (if b then m else m') Q"
  by simp

lemma runs_given: "(A \<Longrightarrow> runs env P m Q) \<Longrightarrow> runs env (\<lambda>db n. A \<and> P db n) m Q"
  unfolding runs_def by blast

text \<open>An insert behind a case.\<close>

lemma runs_insert_row:
  assumes "\<And>db n. P db n \<Longrightarrow> find_case db (parent row) = Some c \<and> drawn env db n (key row)"
    and "runs env (\<lambda>db n. find_case db (parent row) = Some c) (f ()) Q"
    and "\<And>db n. drawn env db n (key row) \<Longrightarrow> key row \<notin> set (map key (table db))"
    and "\<And>db n. parent row \<in> case_ids db \<Longrightarrow> drawn env db n (key row) \<Longrightarrow>
      inc_step env (db, n) (upd (\<lambda>rows. rows @ [row]) db, n)"
    and "\<And>db. find_case (upd (\<lambda>rows. rows @ [row]) db) (parent row) = find_case db (parent row)"
  shows "runs env P (bindM (insert_child key parent table upd row) f) Q"
proof (rule runs_bind)
  show "runs env P (insert_child key parent table upd row) (\<lambda>_ db n. find_case db (parent row) = Some c)"
  proof (rule runs_insert)
    fix db n assume P: "P db n"
    then show "key row \<notin> set (map key (table db)) \<and> parent row \<in> case_ids db"
      using assms(1,3) find_case_ids by blast
    show "inc_step env (db, n) (upd (\<lambda>rows. rows @ [row]) db, n)"
      using assms(1,4) [of db n] P find_case_ids by blast
    show "find_case (upd (\<lambda>rows. rows @ [row]) db) (parent row) = Some c" using assms(1,5) P by simp
  qed
qed (simp add: assms(2))

lemmas runs_add_inquiry =
  runs_insert_row [where key = iq_inquiry_id and parent = iq_incident_id and table = db_inquiries and upd = db_inquiries_update,
    OF _ _ drawn_key(2) inc_step.inquiry find_case_other_tables(3), folded add_inquiry_def]
lemmas runs_add_action =
  runs_insert_row [where key = ia_action_id and parent = ia_incident_id and table = db_actions and upd = db_actions_update,
    OF _ _ drawn_key(3) inc_step.act find_case_other_tables(4), folded add_action_def]
lemmas runs_add_capa =
  runs_insert_row [where key = cp_capa_id and parent = cp_incident_id and table = db_capas and upd = db_capas_update,
    OF _ _ drawn_key(4) inc_step.capa find_case_other_tables(5)]
lemmas runs_add_rca =
  runs_insert_row [where key = rc_rca_id and parent = rc_incident_id and table = db_rcas and upd = db_rcas_update,
    OF _ _ drawn_key(5) inc_step.rca find_case_other_tables(6)]
lemmas runs_add_review =
  runs_insert_row [where key = er_review_id and parent = er_incident_id and table = db_reviews and upd = db_reviews_update,
    OF _ _ drawn_key(6) inc_step.review find_case_other_tables(7), folded add_effectiveness_review_def]
lemmas runs_add_artifact =
  runs_insert_row [where key = af_artifact_id and parent = af_incident_id and table = db_case_artifacts and upd = db_case_artifacts_update,
    OF _ _ drawn_key(7) inc_step.artifact find_case_other_tables(8), folded add_artifact_def]

lemma runs_move:
  assumes "inj (inc_hex env)" and "\<And>db n. P db n \<Longrightarrow> find_case db (ic_incident_id c) = Some c"
    and "\<And>db n. P db n \<Longrightarrow> ic_status c = s \<or> s \<in> set (allowed_transitions (ic_status c)) \<Longrightarrow> status_move db c s"
    and "\<And>now. runs env (\<lambda>db n. find_case db (ic_incident_id c) = Some (changed_status c s now)) (f (changed_status c s now)) Q"
  shows "runs env P (bindM (set_status env c s uid) f) Q"
proof (rule runs_bind)
  show "runs env P (set_status env c s uid)
      (\<lambda>d db n. \<exists>now. d = changed_status c s now \<and> find_case db (ic_incident_id c) = Some (changed_status c s now))"
    by (rule runs_set_status [OF assms(1)]) (use assms(2,3) in blast)+
  show "runs env (\<lambda>db n. \<exists>now. d = changed_status c s now \<and> find_case db (ic_incident_id c) = Some (changed_status c s now)) (f d) Q" for d
  proof (cases "\<exists>now. d = changed_status c s now")
    case True
    then obtain now where d: "d = changed_status c s now" by blast
    show ?thesis by (rule runs_pre [OF assms(4) [of now, folded d]]) (use d in auto)
  next
    case False
    then show ?thesis by (simp add: runs_def)
  qed
qed

lemma runs_move_if:
  assumes "inj (inc_hex env)" and "\<And>db n. P db n \<Longrightarrow> find_case db (ic_incident_id c) = Some c"
    and "\<And>db n. P db n \<Longrightarrow> b \<Longrightarrow> ic_status c = s \<or> s \<in> set (allowed_transitions (ic_status c)) \<Longrightarrow> status_move db c s"
    and "\<And>d now. d = (if b then changed_status c s now else c) \<Longrightarrow>
      runs env (\<lambda>db n. find_case db (ic_incident_id c) = Some d) (f d) Q"
  shows "runs env P (bindM (if b then set_status env c s uid else retM c) f) Q"
proof (cases b)
  case True
  then have "(if b then set_status env c s uid else retM c) = set_status env c s uid" by simp
  then show ?thesis by (simp only:) (rule runs_move [OF assms(1,2)], use True assms(3,4) in auto)
next
  case False
  have "runs env P (f c) Q" by (rule runs_pre [OF assms(4)]) (use False assms(2) in auto)
  then show ?thesis using False by (simp add: runs_def)
qed

text \<open>A write of a case that keeps its identity.\<close>

lemma runs_put:
  assumes "\<And>db n. P db n \<Longrightarrow> inc_step env (db, n) (put_case d db, n)"
    and "\<And>db n. P db n \<Longrightarrow> ic_incident_id d \<in> case_ids db"
    and "runs env (\<lambda>db n. ic_incident_id d \<in> case_ids db) (f ()) Q"
  shows "runs env P (bindM (update_incident d) f) Q"
  unfolding update_incident_def put_case_def [symmetric]
  by (rule runs_write_bind) (use assms in auto)

lemma runs_amend:
  assumes "\<And>db n. incident_keys env db n \<Longrightarrow> P db n \<Longrightarrow> amended db (g db)" and "\<And>db n. P db n \<Longrightarrow> R (g db) n"
    and "runs env R (f ()) Q"
  shows "runs env P (bindM (write_db g) f) Q"
  by (rule runs_write_bind [where R = R]) (use assms inc_step.amend in blast)+

lemma runs_end:
  assumes "inj (inc_hex env)" and "\<And>db n. P db n \<Longrightarrow> i \<in> case_ids db" and "t \<noteq> T_STATUS_CHANGED"
  shows "runs env P (bindM (conclude env t i uid now details a ev payload) (\<lambda>_. retM x)) (\<lambda>_ _ _. True)"
  by (rule runs_post, rule runs_conclude) (use assms in auto)

text \<open>Updates of rows amend the database.\<close>

lemma amended_refl [simp]: "amended db db"
  by (auto simp: amended_def intro: exI [of _ id])

lemma ex_idle_map: "\<exists>f. xs = map f xs \<and> (\<forall>a. la_ack_id (f a) = la_ack_id a \<and> la_incident_id (f a) = la_incident_id a \<and>
   la_forwarded_at (f a) = la_forwarded_at a \<and> (la_status a = AckACKNOWLEDGED \<longrightarrow> la_status (f a) = AckACKNOWLEDGED))"
  by (rule exI [of _ id]) simp

lemma amended_rows:
  "(\<And>r. iq_inquiry_id (f1 r) = iq_inquiry_id r \<and> iq_incident_id (f1 r) = iq_incident_id r) \<Longrightarrow>
     amended db (db_inquiries_update (update_rows iq_inquiry_id k f1) db)"
  "(\<And>r. ia_action_id (f2 r) = ia_action_id r \<and> ia_incident_id (f2 r) = ia_incident_id r) \<Longrightarrow>
     amended db (db_actions_update (update_rows ia_action_id k f2) db)"
  "(\<And>r. cp_capa_id (f3 r) = cp_capa_id r \<and> cp_incident_id (f3 r) = cp_incident_id r) \<Longrightarrow>
     amended db (db_capas_update (update_rows cp_capa_id k f3) db)"
  "(\<And>r. rc_rca_id (f4 r) = rc_rca_id r \<and> rc_incident_id (f4 r) = rc_incident_id r) \<Longrightarrow>
     amended db (db_rcas_update (update_rows rc_rca_id k f4) db)"
  "(\<And>r. er_review_id (f5 r) = er_review_id r \<and> er_incident_id (f5 r) = er_incident_id r) \<Longrightarrow>
     amended db (db_reviews_update (update_rows er_review_id k f5) db)"
  "(\<And>r. mb_batch_id (f6 r) = mb_batch_id r) \<Longrightarrow> amended db (db_batches_update (update_rows mb_batch_id k f6) db)"
  "(\<And>r. mi_item_id (f7 r) = mi_item_id r \<and> mi_batch_id (f7 r) = mi_batch_id r \<and> mi_incident_id (f7 r) = mi_incident_id r) \<Longrightarrow>
     amended db (db_items_update (update_rows mi_item_id k f7) db)"
  "(\<And>r. ro_assignment_id (f8 r) = ro_assignment_id r) \<Longrightarrow> amended db (db_roles_update (map f8) db)"
  by (simp_all add: amended_def ex_idle_map update_rows_def comp_def)

lemma amended_acks:
  assumes "\<And>a. la_ack_id (f a) = la_ack_id a \<and> la_incident_id (f a) = la_incident_id a \<and>
      la_forwarded_at (f a) = la_forwarded_at a \<and> (la_status a = AckACKNOWLEDGED \<longrightarrow> la_status (f a) = AckACKNOWLEDGED)"
  shows "amended db (db_acks_update (update_rows la_ack_id k f) db)"
proof -
  have "\<exists>g. update_rows la_ack_id k f (db_acks db) = map g (db_acks db) \<and> (\<forall>a. la_ack_id (g a) = la_ack_id a \<and>
      la_incident_id (g a) = la_incident_id a \<and> la_forwarded_at (g a) = la_forwarded_at a \<and>
      (la_status a = AckACKNOWLEDGED \<longrightarrow> la_status (g a) = AckACKNOWLEDGED))"
    by (rule exI [of _ "\<lambda>r. if la_ack_id r = k then f r else r"]) (use assms in \<open>simp add: update_rows_def\<close>)
  then show ?thesis by (simp add: amended_def)
qed

section \<open>The operations\<close>

lemma refines_open_inquiry:
  assumes inj: "inj (inc_hex env)"
  shows "runs env (\<lambda>_ _. True) (open_inquiry env user i question) (\<lambda>_ _ _. True)"
  unfolding open_inquiry_def Let_def
  apply (rule runs_lift, simp)
  apply (rule runs_get)
  apply (rule runs_lift, simp)
  apply (rule runs_clock)
  apply (rule runs_new_id [OF inj])
  subgoal for u c text_arg now x
    apply (rule runs_add_inquiry [where c = c], simp)
    apply simp
    apply (rule runs_move [OF inj])
      apply (simp_all add: status_move_def)
    apply (rule runs_end [OF inj])
     apply (auto dest: find_case_ids)
    done
  apply simp
  done

lemma refines_answer_inquiry:
  assumes inj: "inj (inc_hex env)"
  shows "runs env (\<lambda>_ _. True) (answer_inquiry env user i answer) (\<lambda>_ _ _. True)"
  unfolding answer_inquiry_def Let_def
  apply (rule runs_read)
  subgoal for found
    apply (cases found)
     apply (simp add: runs_raise)
    apply simp
    apply (rule runs_get)
    apply (rule runs_lift, simp)
    apply (rule runs_lift, simp)
    apply (rule runs_clock)
    subgoal for q c
      unfolding update_inquiry_def
      apply (rule runs_amend [where R = "\<lambda>db n. find_case db i = Some c"])
        apply (simp_all add: amended_rows)
      apply (rule runs_move [OF inj])
        apply (simp_all add: status_move_def)
      apply (rule runs_end [OF inj])
       apply (auto dest: find_case_ids)
      done
    done
  done

text \<open>An assessment leaves flags that fit the status.\<close>

lemma assessed_caseI:
  assumes "ic_status c = next_status_after_assessment (as_classification a) capa (effective_root_cause_required a capa)"
    and "ic_classification c = Some (as_classification a)" and "ic_is_critical c = Some (as_is_critical a)"
    and "ic_capa_required c = Some capa" and "ic_root_cause_required c = Some (effective_root_cause_required a capa)"
    and "ic_leadership_required c = (capa \<or> as_is_critical a)"
  shows "assessed_case c"
  using assms by (auto simp: assessed_case_def effective_root_cause_required_def)

lemma next_status_values:
  "next_status_after_assessment cl capa (effective_root_cause_required a capa) \<in> {S_DOCUMENTATION_ONLY, S_ROOT_CAUSE_REQUIRED, S_ASSESSED}"
  by (simp add: next_status_after_assessment_def effective_root_cause_required_def)

lemma move_after_assessment:
  "ic_status c = s \<or> s \<in> set (allowed_transitions (ic_status c)) \<Longrightarrow>
   s \<in> {S_QMB_REVIEW, S_DOCUMENTATION_ONLY, S_ROOT_CAUSE_REQUIRED, S_ASSESSED} \<Longrightarrow> status_move db c s"
  by (auto simp: status_move_def)

lemma runs_end_assess:
  assumes inj: "inj (inc_hex env)" and "\<And>db n. P db n \<Longrightarrow> i \<in> case_ids db" and "t \<noteq> T_STATUS_CHANGED"
  shows "runs env P (bindM (conclude env t i uid now details a ev payload) (\<lambda>_.
     bindM (whenM b (inc_publish_event env ev2 uid payload2)) (\<lambda>_. retM x))) (\<lambda>_ _ _. True)"
proof (rule runs_pre [where P = "\<lambda>db n. i \<in> case_ids db"])
  have "runs env (\<lambda>db n. i \<in> case_ids db) (bindM (conclude env t i uid now details a ev payload) retM) (\<lambda>_ db n. i \<in> case_ids db)"
    using runs_conclude [OF inj assms(3), of "\<lambda>db n. i \<in> case_ids db" i _ _ _ _ _ _ "()"] by (simp add: bindM_retM)
  then have first: "runs env (\<lambda>db n. i \<in> case_ids db) (conclude env t i uid now details a ev payload) (\<lambda>_ db n. i \<in> case_ids db)"
    by (simp add: bindM_retM)
  show "runs env (\<lambda>db n. i \<in> case_ids db) (bindM (conclude env t i uid now details a ev payload) (\<lambda>_.
     bindM (whenM b (inc_publish_event env ev2 uid payload2)) (\<lambda>_. retM x))) (\<lambda>_ _ _. True)"
  proof (rule runs_bind [OF first])
    show "runs env (\<lambda>db n. i \<in> case_ids db) (bindM (whenM b (inc_publish_event env ev2 uid payload2)) (\<lambda>_. retM x)) (\<lambda>_ _ _. True)"
    proof (cases b)
      case True
      then have "whenM b (inc_publish_event env ev2 uid payload2) = inc_publish_event env ev2 uid payload2" by simp
      then show ?thesis by (simp only:) (rule runs_publish, rule runs_ret, simp_all)
    next
      case False
      then show ?thesis by (simp add: runs_def)
    qed
  qed
qed (rule assms(2))

lemma refines_assess_incident:
  assumes inj: "inj (inc_hex env)"
  shows "runs env (\<lambda>_ _. True) (assess_incident env settings user i a) (\<lambda>_ _ _. True)"
  unfolding assess_incident_def Let_def
  apply (rule runs_lift, simp)
  apply (rule runs_lift, simp)
  apply (rule runs_get)
  apply (rule runs_lift, simp)
  apply (rule runs_read)
  apply (rule runs_lift, simp)
  apply (rule runs_clock)
  subgoal for _ _ c0
    apply (rule runs_move_if [OF inj], simp)
     apply (auto intro: move_after_assessment)[1]
    subgoal for c1
      apply (rule runs_move [OF inj])
        apply (auto split: if_splits)[1]
       apply (rule move_after_assessment, assumption)
       apply (insert next_status_values [of "as_classification a" "derive_capa_required a settings" a])[1]
       apply blast
      subgoal for now
        apply (rule runs_put)
          apply (rule inc_step.assessed [where c = "changed_status c1 _ now"])
             apply simp
            apply simp
           apply (simp add: same_identity_def changed_status_def)
          apply (rule assessed_caseI [where a = a and capa = "derive_capa_required a settings"]; simp)
         apply (simp split: if_splits add: find_case_ids)
        apply (rule runs_end_assess [OF inj])
         apply (simp_all split: if_splits)
        done
      done
    done
  done

lemma refines_create_action:
  assumes inj: "inj (inc_hex env)"
  shows "runs env (\<lambda>_ _. True) (create_action env settings user i t description owner due) (\<lambda>_ _ _. True)"
  unfolding create_action_def Let_def
  apply (rule runs_lift, simp)
  apply (rule runs_get)
  apply (rule runs_lift, simp)
  apply (rule runs_lift, simp)
  apply (rule runs_clock)
  apply (rule runs_new_id [OF inj])
  subgoal for _ c
    apply (rule runs_add_action [where c = c], simp)
    apply (rule runs_move_if [OF inj], simp)
     apply (auto simp: status_move_def)[1]
    apply (rule runs_end [OF inj])
     apply (auto dest: find_case_ids)
    done
  apply simp
  done

lemma keys_parents: "incident_keys env db n \<Longrightarrow> db_parents db \<subseteq> case_ids db"
  by (simp add: incident_keys_def)

lemma action_parent:
  "incident_keys env db n \<Longrightarrow> List.find (\<lambda>a. ia_action_id a = j) (db_actions db) = Some act \<Longrightarrow> ia_incident_id act \<in> case_ids db"
  by (drule keys_parents) (auto simp: db_parents_def find_Some_iff)

lemma refines_complete_action:
  assumes inj: "inj (inc_hex env)"
  shows "runs env (\<lambda>_ _. True) (complete_action env user j) (\<lambda>_ _ _. True)"
  unfolding complete_action_def Let_def get_action_def
  apply (rule runs_keys)
  apply (rule runs_lift, simp)
  apply (rule runs_check)
   apply (simp split: option.split)
  apply (rule runs_clock)
  subgoal for _ act now
    unfolding update_action_def
    apply (rule runs_amend [where R = "\<lambda>db n. ia_incident_id act \<in> case_ids db"])
      apply (simp add: amended_rows)
     apply (auto dest: action_parent split: option.splits)[1]
    apply (rule runs_end [OF inj])
     apply simp_all
    done
  done

text \<open>A CAPA or an analysis is inserted or updated behind its case.\<close>

lemma runs_upsert_capa:
  assumes "\<And>db n. P db n \<Longrightarrow> find_case db (cp_incident_id p) = Some c \<and>
      (get_capa (cp_incident_id p) db = None \<longrightarrow> drawn env db n (cp_capa_id p))"
    and "runs env (\<lambda>db n. find_case db (cp_incident_id p) = Some c) (f ()) Q"
  shows "runs env P (bindM (upsert_capa p) f) Q"
proof (rule runs_bind)
  show "runs env P (upsert_capa p) (\<lambda>_ db n. find_case db (cp_incident_id p) = Some c)"
    unfolding upsert_capa_def
  proof (rule runs_read)
    fix x
    show "runs env (\<lambda>db n. P db n \<and> get_capa (cp_incident_id p) db = x)
      (case x of None \<Rightarrow> insert_child cp_capa_id cp_incident_id db_capas db_capas_update p
       | Some _ \<Rightarrow> write_db (db_capas_update (update_rows cp_capa_id (cp_capa_id p)
           (\<lambda>r. r\<lparr>cp_status := cp_status p, cp_trigger_reason := cp_trigger_reason p, cp_goal := cp_goal p,
                cp_description := cp_description p, cp_updated_at := cp_updated_at p\<rparr>))))
      (\<lambda>_ db n. find_case db (cp_incident_id p) = Some c)"
    proof (cases x)
      case None
      have "runs env (\<lambda>db n. P db n \<and> get_capa (cp_incident_id p) db = None)
         (bindM (insert_child cp_capa_id cp_incident_id db_capas db_capas_update p) retM)
         (\<lambda>_ db n. find_case db (cp_incident_id p) = Some c)"
        by (rule runs_add_capa [where c = c]) (use assms(1) in \<open>auto intro: runs_ret\<close>)
      then show ?thesis using None by (simp add: bindM_retM)
    next
      case (Some y)
      then show ?thesis
        by (auto intro!: runs_write inc_step.amend amended_rows dest: assms(1))
    qed
  qed
qed (use assms(2) in simp)

lemma runs_upsert_rca:
  assumes "\<And>db n. P db n \<Longrightarrow> find_case db (rc_incident_id p) = Some c \<and>
      (get_rca (rc_incident_id p) db = None \<longrightarrow> drawn env db n (rc_rca_id p))"
    and "runs env (\<lambda>db n. find_case db (rc_incident_id p) = Some c) (f ()) Q"
  shows "runs env P (bindM (upsert_rca p) f) Q"
proof (rule runs_bind)
  show "runs env P (upsert_rca p) (\<lambda>_ db n. find_case db (rc_incident_id p) = Some c)"
    unfolding upsert_rca_def
  proof (rule runs_read)
    fix x
    show "runs env (\<lambda>db n. P db n \<and> get_rca (rc_incident_id p) db = x)
      (case x of None \<Rightarrow> insert_child rc_rca_id rc_incident_id db_rcas db_rcas_update p
       | Some _ \<Rightarrow> write_db (db_rcas_update (update_rows rc_rca_id (rc_rca_id p)
           (\<lambda>r. r\<lparr>rc_immediate_event := rc_immediate_event p, rc_trigger := rc_trigger p,
                rc_root_causes := rc_root_causes p, rc_similar_prior := rc_similar_prior p,
                rc_systemic_weakness := rc_systemic_weakness p, rc_future_risk := rc_future_risk p,
                rc_method := rc_method p, rc_updated_at := rc_updated_at p\<rparr>))))
      (\<lambda>_ db n. find_case db (rc_incident_id p) = Some c)"
    proof (cases x)
      case None
      have "runs env (\<lambda>db n. P db n \<and> get_rca (rc_incident_id p) db = None)
         (bindM (insert_child rc_rca_id rc_incident_id db_rcas db_rcas_update p) retM)
         (\<lambda>_ db n. find_case db (rc_incident_id p) = Some c)"
        by (rule runs_add_rca [where c = c]) (use assms(1) in \<open>auto intro: runs_ret\<close>)
      then show ?thesis using None by (simp add: bindM_retM)
    next
      case (Some y)
      then show ?thesis
        by (auto intro!: runs_write inc_step.amend amended_rows dest: assms(1))
    qed
  qed
qed (use assms(2) in simp)

lemma refines_start_capa:
  assumes inj: "inj (inc_hex env)"
  shows "runs env (\<lambda>_ _. True) (start_capa env user i reason goal description) (\<lambda>_ _ _. True)"
  unfolding start_capa_def Let_def
  apply (rule runs_lift, simp)
  apply (rule runs_get)
  apply (rule runs_lift, simp)
  apply (rule runs_clock)
  apply (rule runs_new_id [OF inj])
  subgoal for _ c0
    apply (rule runs_upsert_capa [where c = c0], simp)
    apply (rule runs_move_if [OF inj], simp)
     apply (simp add: status_move_def)
    subgoal for c1 now1
      apply (rule runs_move [OF inj])
        apply (simp split: if_splits)
       apply (simp add: status_move_def split: if_splits)
      apply (rule runs_end [OF inj])
       apply (auto dest: find_case_ids split: if_splits)
      done
    done
  apply simp
  done

lemma capa_parent:
  assumes "incident_keys env db n" and "get_capa i db = Some p"
  shows "\<exists>c. find_case db i = Some c"
proof -
  have "p \<in> set (db_capas db)" "cp_incident_id p = i"
    using find_Some_member assms(2) unfolding get_capa_def by fastforce+
  then have "i \<in> case_ids db" using keys_parents [OF assms(1)] by (auto simp: db_parents_def)
  then show ?thesis using find_case_None [of db i] by auto
qed

lemma get_capa_parent: "get_capa i db = Some p \<Longrightarrow> cp_incident_id p = i"
  by (auto simp: get_capa_def find_Some_iff)

lemma refines_update_capa:
  assumes inj: "inj (inc_hex env)"
  shows "runs env (\<lambda>_ _. True) (update_capa env user i status goal description) (\<lambda>_ _ _. True)"
  unfolding update_capa_def Let_def
  apply (rule runs_keys)
  apply (rule runs_lift, simp)
  apply (rule runs_read)
  subgoal for _ found
    apply (cases found)
     apply (simp add: runs_raise)
    apply simp
    apply (rule runs_clock)
    subgoal for p now
      apply (rule runs_bind [where R = "\<lambda>_ db n. i \<in> case_ids db"])
       apply (unfold upsert_capa_def)[1]
       apply (rule runs_read)
      subgoal for y
        apply (cases y)
         apply (auto simp: runs_def dest: get_capa_parent)[1]
        apply simp
        apply (rule runs_write)
         apply (simp add: inc_step.amend amended_rows)
        apply (auto dest: capa_parent find_case_ids)
        done
      apply (rule runs_bind [where R = "\<lambda>_ db n. i \<in> case_ids db"])
       apply (rule runs_pre [where P = "\<lambda>db n. i \<in> case_ids db"])
        apply (cases "(case status of Some s \<Rightarrow> s | None \<Rightarrow> cp_status p) = CapaIN_PROGRESS")
         apply simp
         apply (rule runs_get)
         apply (rule runs_move [OF inj])
           apply simp
          apply (simp add: status_move_def)
         apply (rule runs_ret)
         apply (auto dest: find_case_ids)[1]
        apply (simp add: runs_ret)
       apply simp
      apply (rule runs_end [OF inj])
       apply simp_all
      done
    done
  done

lemma refines_create_root_cause_analysis:
  assumes inj: "inj (inc_hex env)"
  shows "runs env (\<lambda>_ _. True) (create_root_cause_analysis env user i x) (\<lambda>_ _ _. True)"
  unfolding create_root_cause_analysis_def Let_def
  apply (rule runs_lift, simp)
  apply (rule runs_get)
  apply (rule runs_lift, simp)
  apply (rule runs_clock)
  apply (rule runs_read)
  subgoal for _ c _ now existing
    apply (rule runs_bind [where R = "\<lambda>rid db n. find_case db i = Some c \<and> (get_rca i db = None \<longrightarrow> drawn env db n rid)"])
     apply (cases existing)
      apply simp
      apply (subst bindM_retM [symmetric])
      apply (rule runs_new_id [OF inj])
       apply (rule runs_ret)
       apply simp
      apply simp
     apply (auto intro!: runs_ret)[1]
    apply (rule runs_upsert_rca [where c = c], simp)
    apply (rule runs_move_if [OF inj], simp)
     apply (simp add: status_move_def)
    apply (rule runs_end [OF inj])
     apply (auto dest: find_case_ids)
    done
  done

lemma refines_plan_effectiveness_review:
  assumes inj: "inj (inc_hex env)"
  shows "runs env (\<lambda>_ _. True) (plan_effectiveness_review env settings user i criteria planned) (\<lambda>_ _ _. True)"
  unfolding plan_effectiveness_review_def Let_def
  apply (rule runs_lift, simp)
  apply (rule runs_get)
  apply (rule runs_lift, simp)
  apply (rule runs_lift, simp)
  apply (rule runs_lift, simp)
  apply (rule runs_clock)
  apply (rule runs_new_id [OF inj])
  subgoal for _ c
    apply (rule runs_add_review [where c = c], simp)
    apply simp
    apply (rule runs_move [OF inj])
      apply (simp_all add: status_move_def)
    apply (rule runs_end [OF inj])
     apply (auto dest: find_case_ids)
    done
  apply simp
  done

lemma latest_row_None [simp]: "latest_row col rows = None \<longleftrightarrow> rows = []"
proof -
  have "sort_key (\<lambda>r. - col r) rows = [] \<longleftrightarrow> rows = []"
    by (metis length_0_conv length_sort)
  then show ?thesis by (cases "sort_key (\<lambda>r. - col r) rows") (simp_all add: latest_row_def)
qed

lemma latest_row_member: "latest_row col rows = Some r \<Longrightarrow> r \<in> set rows"
  unfolding latest_row_def by (metis list.case_eq_if list.set_sel(1) option.discI option.inject set_sort)

lemma review_exists:
  "get_effectiveness_review i db = None \<longleftrightarrow> i \<notin> er_incident_id ` set (db_reviews db)"
  by (auto simp: get_effectiveness_review_def filter_empty_conv)

lemma refines_complete_effectiveness_review:
  assumes inj: "inj (inc_hex env)"
  shows "runs env (\<lambda>_ _. True) (complete_effectiveness_review env user i effective outcome notes) (\<lambda>_ _ _. True)"
  unfolding complete_effectiveness_review_def Let_def
  apply (rule runs_lift, simp)
  apply (rule runs_read)
  subgoal for _ found
    apply (cases found)
     apply (simp add: runs_raise)
    apply (simp only: option.case)
    apply (rule runs_clock)
    subgoal for v now
      unfolding update_effectiveness_review_def
      apply (rule runs_amend [where R = "\<lambda>db n. get_effectiveness_review i db \<noteq> None"])
        apply (simp add: amended_rows)
       apply (simp add: review_exists update_rows_image)
       apply (metis option.distinct(1) review_exists)
      apply (rule runs_get)
      subgoal for c0
        apply (rule runs_move [OF inj])
          apply simp
         apply (simp add: status_move_def)
        apply (rule runs_move [OF inj])
          apply simp
         apply (simp add: status_move_def)
        apply (rule runs_end [OF inj])
         apply (auto dest: find_case_ids)
        done
      done
    done
  done

text \<open>The closure checks look at the tables and at columns a change of status leaves alone.\<close>

lemma validate_closure_changed [simp]:
  "validate_closure (status_changed_db c s now e db) (changed_status d s' now') = validate_closure db d"
  by (simp add: validate_closure_def Let_def count_open_inquiries_def get_rca_def get_capa_def list_open_action_rows_def
      list_actions_def get_effectiveness_review_def get_leadership_ack_def)

lemma refines_close_incident:
  assumes inj: "inj (inc_hex env)"
  shows "runs env (\<lambda>_ _. True) (close_incident env user i) (\<lambda>_ _ _. True)"
  unfolding close_incident_def Let_def
  apply (rule runs_lift, simp)
  apply (rule runs_get)
  apply (rule runs_lift, simp)
  apply (rule runs_check, simp add: benign_closure)
  apply (rule runs_get)
  subgoal for _ c _ _ c0
    apply (rule runs_bind [where R = "\<lambda>d db n. ic_incident_id d = i \<and> find_case db i = Some d \<and> validate_closure db d = Inr ()"])
     apply (cases "ic_status c0 \<in> {S_DOCUMENTATION_ONLY, S_ASSESSED}")
      apply (simp only: if_True)
      apply (rule runs_set_status [OF inj])
        apply auto[1]
       apply (auto simp: status_move_def)[1]
      apply auto[1]
     apply (simp only: if_False)
     apply (rule runs_ret)
     apply auto[1]
    subgoal for c1
      apply (rule runs_given)
      apply (rule runs_lift, simp)
      apply (rule runs_lift, simp)
      apply (rule runs_clock)
      apply (rule runs_move [OF inj])
        apply simp
       apply (simp add: status_move_def)
      subgoal for _ _ now1 now2
        apply (rule runs_put)
          apply (rule inc_step.marked [where c = "changed_status c1 S_CLOSED now2"])
           apply simp
          apply (simp add: same_workflow_def same_identity_def changed_status_def)
         apply (simp add: find_case_ids)
        apply (rule runs_end [OF inj])
         apply simp_all
        done
      done
    done
  done

lemma refines_archive_incident:
  assumes inj: "inj (inc_hex env)"
  shows "runs env (\<lambda>_ _. True) (archive_incident env user i) (\<lambda>_ _ _. True)"
  unfolding archive_incident_def Let_def
  apply (rule runs_lift, simp)
  apply (rule runs_get)
  apply (rule runs_lift, simp)
  apply (rule runs_clock)
  subgoal for _ c
    apply (rule runs_move [OF inj])
      apply simp
     apply (simp add: status_move_def)
    subgoal for now2
      apply (rule runs_put)
        apply (rule inc_step.marked [where c = "changed_status c S_ARCHIVED now2"])
         apply simp
        apply (simp add: same_workflow_def same_identity_def changed_status_def)
       apply (simp add: find_case_ids)
      apply (rule runs_end [OF inj])
       apply simp_all
      done
    done
  done

lemma refines_create_incident_group:
  assumes inj: "inj (inc_hex env)"
  shows "runs env (\<lambda>_ _. True) (create_incident_group env user name description) (\<lambda>_ _ _. True)"
  unfolding create_incident_group_def Let_def insert_group_def
  apply (rule runs_lift, simp)
  apply (rule runs_clock)
  apply (rule runs_new_id [OF inj])
   apply (rule runs_lift, simp)
   apply (rule runs_bind [where R = "\<lambda>_ _ _. True"])
    apply (rule runs_check)
     apply (auto simp: fresh_row_def raise_if_def dest: drawn_key(8))[1]
    apply (rule runs_write)
     apply (simp add: inc_step.group)
    apply simp
   apply (rule runs_audit)
   apply (simp_all add: runs_ret)
  done

lemma refines_link_incident_to_group:
  assumes inj: "inj (inc_hex env)"
  shows "runs env (\<lambda>_ _. True) (link_incident_to_group env user i g) (\<lambda>_ _ _. True)"
  unfolding link_incident_to_group_def Let_def get_group_def
  apply (rule runs_lift, simp)
  apply (rule runs_check)
   apply (simp split: option.split)
  apply (rule runs_get)
  apply (rule runs_clock)
  subgoal for _ _ c now
    apply (rule runs_put)
      apply (rule inc_step.marked [where c = c])
       apply simp
      apply (simp add: same_workflow_def same_identity_def)
     apply (auto dest: find_case_ids)[1]
    apply (rule runs_end [OF inj])
     apply simp_all
    done
  done

lemma refines_forward_to_leadership:
  assumes inj: "inj (inc_hex env)"
  shows "runs env (\<lambda>_ _. True) (forward_to_leadership env user i leader) (\<lambda>_ _ _. True)"
  unfolding forward_to_leadership_def Let_def add_leadership_ack_def
  apply (rule runs_lift, simp)
  apply (rule runs_get)
  apply (rule runs_lift, simp)
  apply (rule runs_lift, simp)
  apply (rule runs_read)
  apply (rule runs_lift, simp)
  apply (rule runs_clock)
  apply (rule runs_new_id [OF inj])
  subgoal for _ c
    apply (rule runs_bind [where R = "\<lambda>_ db n. find_case db i = Some c"])
     apply (rule runs_insert)
       apply (auto dest: drawn_key(9) find_case_ids)[1]
      apply (rule inc_step.forwarded [where c = c], simp, simp, simp)
     apply simp
    apply (rule runs_move [OF inj])
      apply simp
     apply (simp add: status_move_def)
    apply (rule runs_end [OF inj])
     apply (auto dest: find_case_ids)
    done
  apply simp
  done

lemma refines_acknowledge_leadership_review:
  assumes inj: "inj (inc_hex env)"
  shows "runs env (\<lambda>_ _. True) (acknowledge_leadership_review env user i note) (\<lambda>_ _ _. True)"
  unfolding acknowledge_leadership_review_def Let_def
  apply (rule runs_read)
  apply (rule runs_lift, simp)
  apply (rule runs_read)
  subgoal for _ _ found
    apply (cases found)
     apply (simp add: runs_raise)
    apply (simp only: option.case)
    apply (rule runs_lift, simp)
    apply (rule runs_clock)
    unfolding update_leadership_ack_def
    apply (rule runs_amend [where R = "\<lambda>_ _. True"])
      apply (rule amended_acks, simp)
     apply simp
    apply (rule runs_get)
    apply (rule runs_move_if [OF inj], simp)
     apply (simp add: status_move_def)
    apply (rule runs_end [OF inj])
     apply (auto dest: find_case_ids)
    done
  done

lemma refines_assign_module_role:
  assumes inj: "inj (inc_hex env)"
  shows "runs env (\<lambda>_ _. True) (assign_module_role env user target role) (\<lambda>_ _ _. True)"
  unfolding assign_module_role_def Let_def
  apply (rule runs_lift, simp)
  apply (rule runs_clock)
  apply (rule runs_new_id [OF inj])
   apply (rule runs_bind [where R = "\<lambda>_ _ _. True"])
    apply (unfold upsert_module_role_def)[1]
    apply (rule runs_read)
  subgoal for _ now x rows
    apply (rule runs_if)
     apply (rule runs_write)
      apply (simp add: inc_step.amend amended_rows)
     apply simp
    apply (rule runs_check)
     apply (auto simp: fresh_row_def raise_if_def dest: drawn_key(12))[1]
    apply (rule runs_write)
     apply (simp add: inc_step.role)
    apply simp
    done
   apply (rule runs_audit)
   apply (rule runs_publish)
    apply (simp_all add: runs_ret)
  done

lemma refines_attach_artifact:
  assumes inj: "inj (inc_hex env)"
  shows "runs env (\<lambda>_ _. True) (attach_artifact env user i path t metadata) (\<lambda>_ _ _. True)"
  unfolding attach_artifact_def Let_def
  apply (rule runs_lift, simp)
  apply (rule runs_get)
  apply (rule runs_readM)
  apply (rule runs_lift, simp)
  apply (rule runs_clock)
  subgoal for _ c
    apply (rule runs_bind [where R = "\<lambda>_ db n. find_case db i = Some c"])
     apply (unfold store_file_copy_def Let_def)[1]
     apply (rule runs_new_id [OF inj])
      apply (rule runs_modify, simp)
      apply (rule runs_ret)
      apply simp_all[2]
    apply (rule runs_new_id [OF inj])
     apply (rule runs_add_artifact [where c = c], simp)
     apply (rule runs_end [OF inj])
      apply (auto dest: find_case_ids)
    done
  done

section \<open>Management review\<close>

lemma runs_for_each:
  assumes "\<And>x. x \<in> set xs \<Longrightarrow> runs env P (f x) (\<lambda>_. P)"
  shows "runs env P (for_each xs f) (\<lambda>_. P)"
  using assms
proof (induction xs)
  case Nil
  show ?case unfolding for_each.simps by (rule runs_ret)
next
  case (Cons x xs)
  then show ?case unfolding for_each.simps by (intro runs_bind [where R = "\<lambda>_. P"]) auto
qed

lemma runs_timeline:
  assumes "inj (inc_hex env)" and "t \<noteq> T_STATUS_CHANGED" and "i \<in> S"
  shows "runs env (\<lambda>db n. S \<subseteq> case_ids db) (record_timeline env t i actor now details) (\<lambda>_ db n. S \<subseteq> case_ids db)"
  by (rule runs_record_timeline [OF assms(1,2)]) (use assms(3) in auto)

lemma period_rows: "c \<in> set (list_incidents_in_period a b db) \<Longrightarrow> ic_incident_id c \<in> case_ids db"
  by (auto simp: list_incidents_in_period_def case_ids_def)

lemma runs_publish_ret:
  "runs env P (bindM (inc_publish_event env a b c) (\<lambda>_. retM x)) (\<lambda>_ _ _. True)"
  by (rule runs_pre [where P = "\<lambda>_ _. True"], rule runs_publish, rule runs_ret) simp_all

lemma runs_new_item:
  assumes inj: "inj (inc_hex env)" and "i \<in> S"
  shows "runs env (\<lambda>db n. S \<subseteq> case_ids db \<and> b \<in> set (map mb_batch_id (db_batches db)))
    (bindM (new_id env) (\<lambda>item_id. insert_management_item \<lparr>mi_item_id = item_id, mi_batch_id = b, mi_incident_id = i,
         mi_status = ItemINCLUDED, mi_acknowledged_at = None, mi_acknowledged_by_user_id = None\<rparr>))
    (\<lambda>_ db n. S \<subseteq> case_ids db \<and> b \<in> set (map mb_batch_id (db_batches db)))"
  unfolding insert_management_item_def
  apply (rule runs_new_id [OF inj])
   apply (rule runs_check)
    apply (use assms(2) in \<open>auto simp: fresh_row_def refers_to_case_def raise_if_def bindE_def dest: drawn_key(11)\<close>)[1]
   apply (rule runs_write)
    apply (rule inc_step.item)
      apply (use assms(2) in auto)
  done

lemma refines_create_management_review:
  assumes inj: "inj (inc_hex env)"
  shows "runs env (\<lambda>_ _. True) (create_management_review env user s e) (\<lambda>_ _ _. True)"
  unfolding create_management_review_def Let_def
  apply (rule runs_lift, simp)
  apply (rule runs_lift, simp)
  apply (rule runs_lift, simp)
  apply (rule runs_clock)
  apply (rule runs_new_id [OF inj])
  subgoal for _ _ _ now batch
    apply (rule runs_bind [where R = "\<lambda>_ db n. batch \<in> set (map mb_batch_id (db_batches db))"])
     apply (unfold insert_management_batch_def)[1]
     apply (rule runs_check)
      apply (auto simp: fresh_row_def raise_if_def dest: drawn_key(10))[1]
     apply (rule runs_write)
      apply (simp add: inc_step.batch)
     apply simp
    apply (rule runs_read)
    subgoal for _ incidents
      apply (rule runs_pre [where P = "\<lambda>db n. ic_incident_id ` set incidents \<subseteq> case_ids db \<and>
          batch \<in> set (map mb_batch_id (db_batches db))"])
       apply (rule runs_bind [OF runs_for_each])
        apply (rule runs_new_item [OF inj])
        apply simp
       apply (rule runs_pre [where P = "\<lambda>db n. ic_incident_id ` set incidents \<subseteq> case_ids db"])
        apply (rule runs_bind [OF runs_for_each])
         apply (rule runs_timeline [OF inj])
          apply simp_all[2]
        apply (rule runs_audit)
        apply (rule runs_publish_ret)
       apply simp
      apply (auto dest: period_rows)
      done
    done
  apply simp
  done

lemma keys_items: "incident_keys env db n \<Longrightarrow> x \<in> set (list_management_items b db) \<Longrightarrow> mi_incident_id x \<in> case_ids db"
  by (drule keys_parents) (auto simp: db_parents_def list_management_items_def)

lemma refines_mark_management_review:
  assumes inj: "inj (inc_hex env)"
  shows "runs env (\<lambda>_ _. True) (mark_management_review_in_discussion env user b) (\<lambda>_ _ _. True)"
  unfolding mark_management_review_in_discussion_def Let_def get_management_batch_def update_management_batch_def
  apply (rule runs_lift, simp)
  apply (rule runs_check)
   apply (simp split: option.split)
  apply (rule runs_clock)
  apply (rule runs_amend [where R = "\<lambda>_ _. True"])
    apply (simp add: amended_rows)
   apply simp
  apply (rule runs_keys)
  apply (rule runs_read)
  subgoal for _ batch now review_items
    apply (rule runs_pre [where P = "\<lambda>db n. mi_incident_id ` set review_items \<subseteq> case_ids db"])
     apply (rule runs_bind [OF runs_for_each])
      apply (unfold whenM_def)[1]
      apply (rule runs_if)
       apply (unfold update_management_item_def)[1]
       apply (rule runs_amend)
         apply (simp add: amended_rows)
        prefer 2
        apply (rule runs_timeline [OF inj])
         apply simp_all[3]
      apply (rule runs_ret, assumption)
     apply (rule runs_audit)
     apply (rule runs_publish_ret)
    apply (auto dest: keys_items)
    done
  done

lemma refines_acknowledge_management_review:
  assumes inj: "inj (inc_hex env)"
  shows "runs env (\<lambda>_ _. True) (acknowledge_management_review_items env user b ids) (\<lambda>_ _ _. True)"
  unfolding acknowledge_management_review_items_def Let_def get_management_batch_def
  apply (rule runs_keys)
  apply (rule runs_lift, simp)
  apply (rule runs_check)
   apply (simp split: option.split)
  apply (rule runs_clock)
  apply (rule runs_read)
  subgoal for _ _ now review_items
    apply (rule runs_pre [where P = "\<lambda>db n. mi_incident_id ` set review_items \<subseteq> case_ids db"])
     apply (rule runs_bind [OF runs_for_each])
      apply (unfold update_management_item_def)[1]
      apply (rule runs_amend)
        apply (simp add: amended_rows)
       prefer 2
       apply (rule runs_timeline [OF inj])
        apply (auto)[3]
     apply (rule runs_check)
      apply (simp split: option.split)
     apply (rule runs_read)
     apply (rule runs_bind [where R = "\<lambda>_ _ _. True"])
      apply (unfold whenM_def update_management_batch_def)[1]
      apply (rule runs_if)
       apply (rule runs_write)
        apply (simp add: inc_step.amend amended_rows)
       apply simp
      apply (rule runs_ret, simp)
     apply (rule runs_audit)
     apply (rule runs_publish_ret)
    apply (auto dest: keys_items)
    done
  done

section \<open>Submission\<close>

text \<open>The number drawn for a report date is new, and it lies below the advanced counter.\<close>

definition new_number :: "datetime \<Rightarrow> string \<Rightarrow> incident_db \<Rightarrow> bool" where
  "new_number t i db \<longleftrightarrow> i \<notin> case_ids db \<and>
     (\<exists>m. i = format_incident_id t m \<and> 1 \<le> m \<and> m < counter_of db (report_date_key t))"

lemma next_number_new:
  assumes keys: "incident_keys env db n"
  shows "new_number t (format_incident_id t (counter_of db (report_date_key t)))
    (db_counters_update (AList.update (report_date_key t) (counter_of db (report_date_key t) + 1)) db)"
proof -
  let ?m = "counter_of db (report_date_key t)"
  have pos: "1 \<le> ?m" using keys by (simp add: incident_keys_def)
  have "format_incident_id t ?m \<notin> case_ids db"
  proof
    assume "format_incident_id t ?m \<in> case_ids db"
    then obtain c where c: "c \<in> set (db_cases db)" "ic_incident_id c = format_incident_id t ?m"
      by (auto simp: case_ids_def)
    obtain k where k: "ic_incident_id c = format_incident_id (ic_reported_at c) k" "1 \<le> k"
        "k < counter_of db (report_date_key (ic_reported_at c))"
      using keys c(1) by (auto simp: incident_keys_def numbered_def)
    have "report_date_key (ic_reported_at c) = report_date_key t \<and> k = ?m"
      by (rule format_incident_id_inject) (use c k pos in auto)
    with k show False by simp
  qed
  with pos show ?thesis by (auto simp: new_number_def)
qed

lemma runs_allocate:
  "runs env (\<lambda>_ _. True) (allocate_incident_id t) (\<lambda>i db n. new_number t i db)"
  unfolding allocate_incident_id_def Let_def
proof (rule runs_keys, rule runs_read)
  fix row :: "int option"
  let ?m = "case row of None \<Rightarrow> 1 | Some s \<Rightarrow> s"
  show "runs env (\<lambda>db n. (True \<and> incident_keys env db n) \<and> map_of (db_counters db) (report_date_key t) = row)
     (bindM (write_db (db_counters_update (AList.update (report_date_key t) (?m + 1)))) (\<lambda>_. retM (format_incident_id t ?m)))
     (\<lambda>i db n. new_number t i db)"
  proof (rule runs_write_bind [where R = "\<lambda>db n. new_number t (format_incident_id t ?m) db"])
    fix db n
    assume "(True \<and> incident_keys env db n) \<and> map_of (db_counters db) (report_date_key t) = row"
    then have keys: "incident_keys env db n" and m: "?m = counter_of db (report_date_key t)"
      by (auto simp: counter_of_def)
    show "inc_step env (db, n) (db_counters_update (AList.update (report_date_key t) (?m + 1)) db, n)"
      unfolding m by (rule inc_step.count)
    show "new_number t (format_incident_id t ?m) (db_counters_update (AList.update (report_date_key t) (?m + 1)) db)"
      unfolding m by (rule next_number_new [OF keys])
  qed (rule runs_ret)
qed

lemma refines_submit_incident:
  assumes inj: "inj (inc_hex env)"
  shows "runs env (\<lambda>_ _. True) (submit_incident env settings user s) (\<lambda>_ _ _. True)"
  unfolding submit_incident_def Let_def
  apply (rule runs_lift, simp)
  apply (rule runs_lift, simp)
  apply (rule runs_lift, simp)
  apply (rule runs_clock)
  apply (rule runs_bind [OF runs_allocate])
  subgoal for _ _ _ now i
    apply (rule runs_bind [where R = "\<lambda>_ db n. i \<in> case_ids db"])
     apply (unfold insert_incident_def)[1]
     apply (rule runs_check)
      apply (auto simp: fresh_row_def raise_if_def new_number_def case_ids_def)[1]
     apply (rule runs_write)
      apply (rule inc_step.submit)
              apply (auto simp: new_number_def numbered_def)[8]
     apply simp
    apply (rule runs_end [OF inj])
     apply simp_all
    done
  done

section \<open>Requests\<close>

lemma runs_ignore: "runs env (\<lambda>_ _. True) m (\<lambda>_ _ _. True) \<Longrightarrow> runs env (\<lambda>_ _. True) (ignore m) (\<lambda>_ _ _. True)"
  unfolding ignore_def by (rule runs_bind) (auto intro: runs_ret)

lemma request_refines:
  assumes "inj (inc_hex env)"
  shows "runs env (\<lambda>_ _. True) (run_incident env settings user req) (\<lambda>_ _ _. True)"
  by (cases req; simp only: run_incident.simps; rule runs_ignore)
    (rule assms refines_submit_incident refines_open_inquiry refines_answer_inquiry refines_assess_incident
      refines_create_action refines_complete_action refines_start_capa refines_update_capa
      refines_create_root_cause_analysis refines_plan_effectiveness_review refines_complete_effectiveness_review
      refines_close_incident refines_archive_incident refines_create_incident_group refines_link_incident_to_group
      refines_forward_to_leadership refines_acknowledge_leadership_review refines_assign_module_role
      refines_attach_artifact refines_create_management_review refines_mark_management_review
      refines_acknowledge_management_review)+

lemma reachable_keys_and_steps:
  assumes "incident_reachable env w" and "inj (inc_hex env)"
  shows "inc_steps env (empty_incident_db, 0) (iw_db w, iw_ids w) \<and> incident_keys env (iw_db w) (iw_ids w)"
  using assms(1)
proof induction
  case (start files)
  then show ?case by (simp add: empty_incident_world_def incident_keys_empty)
next
  case (step w settings user req)
  obtain r w' where run: "run_incident env settings user req w = (r, w')" by fastforce
  have keys: "incident_keys env (iw_db w) (iw_ids w)" and first: "inc_steps env (empty_incident_db, 0) (iw_db w, iw_ids w)"
    using step.IH by simp_all
  have next_steps: "inc_steps env (iw_db w, iw_ids w) (iw_db w', iw_ids w')"
    using runsD(1) [OF request_refines [OF assms(2)] keys _ run] by simp
  show ?case using run rtranclp_trans [OF first next_steps] inc_steps_keys [OF next_steps keys] by simp
qed

end
