(* ===== verification/IncidentLaws.thy ===== *)
theory IncidentLaws
  imports IncidentRefine
begin

text \<open>
  What the steps of the incident machine preserve: the timeline replays to the status, flags of an
  assessment fit together, a closed incident keeps its evidence, a closed or archived incident stays so,
  and an incident without CAPA that has reached an action or an analysis never moves again.
\<close>

section \<open>How a case changes in a step\<close>

definition same_flags :: "incident_case \<Rightarrow> incident_case \<Rightarrow> bool" where
  "same_flags c d \<longleftrightarrow> ic_classification d = ic_classification c \<and> ic_is_critical d = ic_is_critical c \<and>
     ic_capa_required d = ic_capa_required c \<and> ic_root_cause_required d = ic_root_cause_required c \<and>
     ic_leadership_required d = ic_leadership_required c"

definition case_change :: "incident_db \<Rightarrow> incident_case \<Rightarrow> incident_case \<Rightarrow> bool" where
  "case_change db c d \<longleftrightarrow> same_identity c d \<and>
     (same_flags c d \<and> status_move db c (ic_status d) \<or> ic_status d = ic_status c \<and> assessed_case d)"

lemma case_change_refl [simp]: "case_change db c c"
  by (simp add: case_change_def same_identity_def same_flags_def status_move_def)

lemma find_case_append:
  "find_case (db_cases_update (\<lambda>rows. rows @ [x]) db) i =
     (case find_case db i of None \<Rightarrow> if ic_incident_id x = i then Some x else None | Some c \<Rightarrow> Some c)"
proof -
  have "List.find p (xs @ [x]) = (case List.find p xs of None \<Rightarrow> if p x then Some x else None | Some c \<Rightarrow> Some c)"
    for p :: "incident_case \<Rightarrow> bool" and xs
    by (induction xs) simp_all
  then show ?thesis by (simp add: find_case_def)
qed

lemma step_case:
  assumes "inc_step env (db, n) (db', n')" and "find_case db i = Some c"
  shows "\<exists>d. find_case db' i = Some d \<and> case_change db c d"
  using assms(1)
proof cases
  case (submit x)
  then show ?thesis using assms(2) by (simp add: find_case_append)
next
  case (status c' s e now)
  have same: "case_change db c' (case_columns (c'\<lparr>ic_status := s, ic_updated_at := now\<rparr>) c')"
    using status(4) by (simp add: case_change_def same_identity_def same_flags_def)
  show ?thesis
  proof (cases "i = ic_incident_id c'")
    case True
    then have "c' = c" using status(3) assms(2) by simp
    then show ?thesis using status True same by (auto simp: find_case_put_case)
  next
    case False
    then show ?thesis using status assms(2) by (simp add: find_case_put_case)
  qed
next
  case (assessed c' d)
  have ids: "ic_incident_id d = ic_incident_id c'" using assessed by (simp add: same_identity_def)
  have "assessed_case (case_columns d c')" using assessed(6) by (simp add: assessed_case_def)
  then have same: "case_change db c' (case_columns d c')"
    using assessed by (simp add: case_change_def same_identity_def)
  show ?thesis
  proof (cases "i = ic_incident_id c'")
    case True
    then have "c' = c" using assessed(3) assms(2) by simp
    then show ?thesis using assessed True same ids by (auto simp: find_case_put_case)
  next
    case False
    then show ?thesis using assessed ids assms(2) by (simp add: find_case_put_case)
  qed
next
  case (marked c' d)
  have ids: "ic_incident_id d = ic_incident_id c'" using marked by (simp add: same_workflow_def same_identity_def)
  have same: "case_change db c' (case_columns d c')"
    using marked by (simp add: case_change_def same_identity_def same_workflow_def same_flags_def status_move_def)
  show ?thesis
  proof (cases "i = ic_incident_id c'")
    case True
    then have "c' = c" using marked(3) assms(2) by simp
    then show ?thesis using marked True same ids by (auto simp: find_case_put_case)
  next
    case False
    then show ?thesis using marked ids assms(2) by (simp add: find_case_put_case)
  qed
next
  case amend
  then have "find_case db' i = find_case db i" by (simp add: amended_def find_case_def)
  then show ?thesis using assms(2) by auto
qed (use assms(2) in simp_all)

lemma steps_case_invariant:
  assumes "inc_steps env (db, n) (db', n')" and "find_case db i = Some c" and "P c"
    and "\<And>db c d. P c \<Longrightarrow> case_change db c d \<Longrightarrow> P d"
  shows "\<exists>d. find_case db' i = Some d \<and> P d"
  using assms(1)
proof (induction rule: rtranclp_induct2)
  case refl
  then show ?case using assms(2,3) by blast
next
  case (step db1 n1 db2 n2)
  then obtain d where d: "find_case db1 i = Some d" "P d" by blast
  obtain e where "find_case db2 i = Some e" "case_change db1 d e" using step_case [OF step(2) d(1)] by blast
  then show ?case using assms(4) d(2) by blast
qed

section \<open>Cases stay, closed cases stay closed\<close>

lemma identity_stays:
  "inc_steps env (db, n) (db', n') \<Longrightarrow> find_case db i = Some c \<Longrightarrow> \<exists>d. find_case db' i = Some d \<and> same_identity c d"
  by (rule steps_case_invariant) (auto simp: same_identity_def case_change_def)

lemma next_status_assessment_cases:
  "next_status_after_assessment cl capa rc \<in> {S_DOCUMENTATION_ONLY, S_ROOT_CAUSE_REQUIRED, S_CAPA_REQUIRED, S_ASSESSED}"
  by (simp add: next_status_after_assessment_def)

lemma assessed_case_status:
  "assessed_case c \<Longrightarrow> ic_status c \<in> {S_DOCUMENTATION_ONLY, S_ROOT_CAUSE_REQUIRED, S_CAPA_REQUIRED, S_ASSESSED}"
  unfolding assessed_case_def using next_status_assessment_cases by metis

lemma closed_change:
  assumes "ic_status c = S_CLOSED \<or> ic_status c = S_ARCHIVED" and "case_change db c d"
  shows "ic_status d = ic_status c \<or> ic_status c = S_CLOSED \<and> ic_status d = S_ARCHIVED"
  using assms by (elim disjE) (auto simp: case_change_def status_move_def)

lemma archived_stays:
  assumes "inc_steps env (db, n) (db', n')" and "find_case db i = Some c" and "ic_status c = S_CLOSED \<or> ic_status c = S_ARCHIVED"
  shows "\<exists>d. find_case db' i = Some d \<and> (ic_status d = S_CLOSED \<or> ic_status d = S_ARCHIVED) \<and>
    (ic_status c = S_ARCHIVED \<longrightarrow> ic_status d = S_ARCHIVED)"
proof (rule steps_case_invariant [OF assms(1,2)])
  fix db x y
  assume x: "(ic_status x = S_CLOSED \<or> ic_status x = S_ARCHIVED) \<and> (ic_status c = S_ARCHIVED \<longrightarrow> ic_status x = S_ARCHIVED)"
    and change: "case_change db x y"
  from closed_change [OF conjunct1 [OF x] change] x
  show "(ic_status y = S_CLOSED \<or> ic_status y = S_ARCHIVED) \<and> (ic_status c = S_ARCHIVED \<longrightarrow> ic_status y = S_ARCHIVED)"
    by auto
qed (use assms(3) in simp)

section \<open>Dead ends\<close>

definition dead_end :: "incident_case \<Rightarrow> bool" where
  "dead_end c \<longleftrightarrow> ic_status c \<in> {S_ACTIONS_IN_PROGRESS, S_ROOT_CAUSE_IN_PROGRESS} \<and> ic_capa_required c \<noteq> Some True"

lemma dead_end_no_move:
  assumes "dead_end c" and "status_move db c s"
  shows "s = ic_status c"
proof -
  from assms(1) have c: "ic_capa_required c \<noteq> Some True"
    and "ic_status c = S_ACTIONS_IN_PROGRESS \<or> ic_status c = S_ROOT_CAUSE_IN_PROGRESS"
    by (simp_all add: dead_end_def)
  then show ?thesis
  proof (elim disjE)
    assume "ic_status c = S_ACTIONS_IN_PROGRESS"
    with assms(2) c show ?thesis by (auto simp: status_move_def)
  next
    assume "ic_status c = S_ROOT_CAUSE_IN_PROGRESS"
    with assms(2) c show ?thesis by (auto simp: status_move_def)
  qed
qed

lemma dead_end_not_assessed: "dead_end c \<Longrightarrow> ic_status d = ic_status c \<Longrightarrow> \<not> assessed_case d"
  using assessed_case_status [of d] by (auto simp: dead_end_def)

lemma dead_end_change:
  assumes "dead_end c" and "case_change db c d"
  shows "dead_end d \<and> ic_status d = ic_status c"
proof -
  have "same_flags c d \<and> status_move db c (ic_status d)"
    using assms dead_end_not_assessed unfolding case_change_def by blast
  moreover from this have "ic_status d = ic_status c" using dead_end_no_move [OF assms(1)] by blast
  ultimately show ?thesis using assms(1) by (simp add: dead_end_def same_flags_def)
qed

lemma dead_end_stays:
  assumes "inc_steps env (db, n) (db', n')" and "find_case db i = Some c" and "dead_end c"
  shows "\<exists>d. find_case db' i = Some d \<and> dead_end d \<and> ic_status d = ic_status c"
proof (rule steps_case_invariant [OF assms(1,2)])
  show "dead_end y \<and> ic_status y = ic_status c" if "dead_end x \<and> ic_status x = ic_status c" "case_change db x y" for db x y
    using that dead_end_change [of x db y] by simp
qed (use assms(3) in simp)

section \<open>The flags of an assessment\<close>

definition flags_ok :: "incident_case \<Rightarrow> bool" where
  "flags_ok c \<longleftrightarrow>
     (ic_classification c = None \<longrightarrow> ic_capa_required c = None \<and> ic_root_cause_required c = None \<and> \<not> ic_leadership_required c) \<and>
     (ic_capa_required c = Some True \<longrightarrow> ic_root_cause_required c = Some True \<and> ic_leadership_required c) \<and>
     (ic_is_critical c = Some True \<longrightarrow> ic_leadership_required c)"

lemma flags_ok_change: "flags_ok c \<Longrightarrow> case_change db c d \<Longrightarrow> flags_ok d"
  by (auto simp: flags_ok_def case_change_def same_flags_def assessed_case_def)

text \<open>An invariant of all cases of a reachable database.\<close>

lemma reachable_case_invariant:
  assumes "inc_steps env (empty_incident_db, 0) (db, n)" and "find_case db i = Some c"
    and change: "\<And>db c d. P c \<Longrightarrow> case_change db c d \<Longrightarrow> P d"
    and fresh: "\<And>c. ic_status c = S_SUBMITTED \<Longrightarrow> ic_classification c = None \<Longrightarrow> ic_capa_required c = None \<Longrightarrow>
      ic_root_cause_required c = None \<Longrightarrow> ic_is_critical c = None \<Longrightarrow> \<not> ic_leadership_required c \<Longrightarrow> P c"
  shows "P c"
proof -
  have "\<forall>i c. find_case db i = Some c \<longrightarrow> P c"
    using assms(1)
  proof (induction rule: rtranclp_induct2)
    case refl
    show ?case by (simp add: find_case_def empty_incident_db_def)
  next
    case (step db1 n1 db2 n2)
    show ?case
    proof (intro allI impI)
      fix i d assume d: "find_case db2 i = Some d"
      show "P d"
      proof (cases "find_case db1 i")
        case (Some c)
        then show ?thesis using step_case [OF step(2) Some] step(3) change d by fastforce
      next
        case None
        from step(2) show ?thesis
        proof cases
          case (submit x)
          then show ?thesis using d None fresh by (auto simp: find_case_append split: if_splits)
        next
          case amend
          then show ?thesis using d None by (simp add: amended_def find_case_def)
        qed (use d None in \<open>simp_all add: find_case_put_case split: if_splits\<close>)
      qed
    qed
  qed
  then show ?thesis using assms(2) by blast
qed

lemma reachable_flags:
  assumes "inc_steps env (empty_incident_db, 0) (db, n)" and "find_case db i = Some c"
  shows "flags_ok c"
  using assms
proof (rule reachable_case_invariant)
  show "flags_ok d" if "flags_ok c" "case_change db c d" for db c d
    using flags_ok_change that .
qed (simp add: flags_ok_def)

section \<open>The timeline replays to the status\<close>

fun replay :: "incident_status \<Rightarrow> timeline_entry list \<Rightarrow> incident_status option" where
  "replay s [] = Some s"
| "replay s (e # es) =
     (if tl_entry_type e \<noteq> T_STATUS_CHANGED then replay s es
      else if map_of (tl_details e) ''from_status'' \<noteq> Some (incident_status_value s) then None
      else (case Option.bind (map_of (tl_details e) ''to_status'') incident_status_of_value of
              None \<Rightarrow> None
            | Some t \<Rightarrow> if t = s \<or> t \<in> set (allowed_transitions s) then replay t es else None))"

lemma replay_append: "replay s (xs @ ys) = Option.bind (replay s xs) (\<lambda>t. replay t ys)"
  by (induction s xs rule: replay.induct) (auto split: option.split)

definition entries_of :: "string \<Rightarrow> incident_db \<Rightarrow> timeline_entry list" where
  "entries_of i db = filter (\<lambda>e. tl_incident_id e = i) (db_timeline db)"

definition trail_ok :: "incident_db \<Rightarrow> bool" where
  "trail_ok db \<longleftrightarrow> (\<forall>i c. find_case db i = Some c \<longrightarrow> replay S_SUBMITTED (entries_of i db) = Some (ic_status c))"

lemma entries_of_cong: "db_timeline db' = db_timeline db \<Longrightarrow> entries_of i db' = entries_of i db"
  by (simp add: entries_of_def)

lemma trail_kept:
  assumes "trail_ok db" and "db_timeline db' = db_timeline db" and "\<And>i d. find_case db' i = Some d \<Longrightarrow>
      \<exists>c. find_case db i = Some c \<and> ic_status d = ic_status c"
  shows "trail_ok db'"
  using assms unfolding trail_ok_def entries_of_def by metis

lemma trail_same_cases:
  "trail_ok db \<Longrightarrow> db_timeline db' = db_timeline db \<Longrightarrow> db_cases db' = db_cases db \<Longrightarrow> trail_ok db'"
  by (rule trail_kept) (auto simp: find_case_def)

lemma no_entries: "incident_keys env db n \<Longrightarrow> i \<notin> case_ids db \<Longrightarrow> entries_of i db = []"
  by (drule keys_parents) (auto simp: entries_of_def db_parents_def filter_empty_conv)

lemma step_trail:
  assumes "inc_step env (db, n) (db', n')" and keys: "incident_keys env db n" and trail: "trail_ok db"
  shows "trail_ok db'"
  using assms(1)
proof cases
  case (submit c)
  show ?thesis unfolding trail_ok_def
  proof (intro allI impI)
    fix i d assume d: "find_case db' i = Some d"
    have same: "entries_of i db' = entries_of i db" using submit by (simp add: entries_of_def)
    show "replay S_SUBMITTED (entries_of i db') = Some (ic_status d)"
    proof (cases "find_case db i")
      case None
      then have "d = c" "i \<notin> case_ids db"
        using d submit None find_case_None [of db i] by (simp_all add: find_case_append split: if_splits)
      then show ?thesis using same no_entries [OF keys] submit by simp
    next
      case (Some c')
      then show ?thesis using d submit same trail by (simp add: find_case_append trail_ok_def)
    qed
  qed
next
  case (status c s e now)
  have e: "tl_entry_type e = T_STATUS_CHANGED" "tl_incident_id e = ic_incident_id c"
      "tl_details e = [(''from_status'', incident_status_value (ic_status c)), (''to_status'', incident_status_value s)]"
    using status by (simp_all add: status_entry_def)
  have move: "s = ic_status c \<or> s \<in> set (allowed_transitions (ic_status c))"
    using status(4) by (auto simp: status_move_def)
  show ?thesis unfolding trail_ok_def
  proof (intro allI impI)
    fix i d assume d: "find_case db' i = Some d"
    show "replay S_SUBMITTED (entries_of i db') = Some (ic_status d)"
    proof (cases "i = ic_incident_id c")
      case True
      then have "ic_status d = s" using d status by (auto simp: find_case_put_case)
      moreover have "entries_of i db' = entries_of i db @ [e]" using status e True by (simp add: entries_of_def)
      moreover have "replay S_SUBMITTED (entries_of i db) = Some (ic_status c)"
        using trail status(3) True by (simp add: trail_ok_def)
      ultimately show ?thesis using e move by (auto simp: replay_append)
    next
      case False
      then have "find_case db i = Some d" using d status by (simp add: find_case_put_case)
      moreover have "entries_of i db' = entries_of i db" using status e False by (simp add: entries_of_def)
      ultimately show ?thesis using trail by (simp add: trail_ok_def)
    qed
  qed
next
  case (assessed c d)
  show ?thesis
    by (rule trail_kept [OF trail]) (use assessed in \<open>auto simp: find_case_put_case same_identity_def split: if_splits\<close>)
next
  case (marked c d)
  show ?thesis
    by (rule trail_kept [OF trail])
      (use marked in \<open>auto simp: find_case_put_case same_identity_def same_workflow_def split: if_splits\<close>)
next
  case (logged e)
  show ?thesis unfolding trail_ok_def
  proof (intro allI impI)
    fix i d assume "find_case db' i = Some d"
    then have "replay S_SUBMITTED (entries_of i db) = Some (ic_status d)" using trail logged by (simp add: trail_ok_def)
    then show "replay S_SUBMITTED (entries_of i db') = Some (ic_status d)"
      using logged by (simp add: entries_of_def replay_append)
  qed
next
  case amend
  show ?thesis by (rule trail_same_cases [OF trail]) (use amend in \<open>simp_all add: amended_def\<close>)
qed (rule trail_same_cases [OF trail]; simp)+

lemma reachable_trail:
  assumes "inc_steps env (empty_incident_db, 0) (db, n)"
  shows "trail_ok db \<and> incident_keys env db n"
  using assms
proof (induction rule: rtranclp_induct2)
  case refl
  then show ?case by (simp add: trail_ok_def find_case_def empty_incident_db_def incident_keys_empty [unfolded empty_incident_db_def])
next
  case (step db1 n1 db2 n2)
  then show ?case using step_trail inc_step_keys by blast
qed

section \<open>The evidence of a closed incident\<close>

definition closure_evidence :: "incident_db \<Rightarrow> incident_case \<Rightarrow> bool" where
  "closure_evidence db c \<longleftrightarrow> ic_classification c \<noteq> None \<and>
     (ic_capa_required c = Some True \<longrightarrow> get_rca (ic_incident_id c) db \<noteq> None \<and> get_capa (ic_incident_id c) db \<noteq> None) \<and>
     (ic_leadership_required c \<longrightarrow>
        (\<exists>a. get_leadership_ack (ic_incident_id c) db = Some a \<and> la_status a = AckACKNOWLEDGED))"

definition closed_ok :: "incident_db \<Rightarrow> incident_case \<Rightarrow> bool" where
  "closed_ok db c \<longleftrightarrow> (ic_status c = S_CLOSED \<or> ic_status c = S_ARCHIVED \<longrightarrow> closure_evidence db c)"

lemma validate_closure_evidence:
  assumes "validate_closure db c = Inr ()"
  shows "ic_classification c \<noteq> None \<and> count_open_inquiries (ic_incident_id c) db = 0 \<and>
    (ic_capa_required c = Some True \<longrightarrow> get_rca (ic_incident_id c) db \<noteq> None \<and> get_capa (ic_incident_id c) db \<noteq> None \<and>
       list_open_action_rows (ic_incident_id c) db = [] \<and>
       (\<exists>v. get_effectiveness_review (ic_incident_id c) db = Some v \<and> er_status v = RevCOMPLETED \<and>
          er_effective v \<noteq> Some False)) \<and>
    (ic_leadership_required c \<longrightarrow>
       (\<exists>a. get_leadership_ack (ic_incident_id c) db = Some a \<and> la_status a = AckACKNOWLEDGED))"
  using assms by (auto simp: validate_closure_def Let_def split: if_splits option.splits)

lemma closed_ok_tables:
  assumes "closed_ok db c" and "get_rca (ic_incident_id c) db \<noteq> None \<Longrightarrow> get_rca (ic_incident_id c) db' \<noteq> None"
    and "get_capa (ic_incident_id c) db \<noteq> None \<Longrightarrow> get_capa (ic_incident_id c) db' \<noteq> None"
    and "\<And>a. get_leadership_ack (ic_incident_id c) db = Some a \<Longrightarrow> la_status a = AckACKNOWLEDGED \<Longrightarrow>
      \<exists>a. get_leadership_ack (ic_incident_id c) db' = Some a \<and> la_status a = AckACKNOWLEDGED"
  shows "closed_ok db' c"
  using assms unfolding closed_ok_def closure_evidence_def by blast

lemma evidence_flags:
  "same_flags c d \<Longrightarrow> ic_incident_id d = ic_incident_id c \<Longrightarrow> closure_evidence db d = closure_evidence db c"
  by (simp only: closure_evidence_def same_flags_def)

lemma validated_evidence: "validate_closure db c = Inr () \<Longrightarrow> closure_evidence db c"
  unfolding closure_evidence_def using validate_closure_evidence by blast

lemma rca_exists: "get_rca i db \<noteq> None \<longleftrightarrow> i \<in> set (map rc_incident_id (db_rcas db))"
  using find_None_iff [of "\<lambda>r. rc_incident_id r = i" "db_rcas db"] by (auto simp: get_rca_def)

lemma capa_exists: "get_capa i db \<noteq> None \<longleftrightarrow> i \<in> set (map cp_incident_id (db_capas db))"
  using find_None_iff [of "\<lambda>r. cp_incident_id r = i" "db_capas db"] by (auto simp: get_capa_def)

lemma insort_key_map:
  "(\<And>r. col (f r) = col r) \<Longrightarrow> insort_key (\<lambda>r. - col r) (f x) (map f ys) = map f (insort_key (\<lambda>r. - col r :: time) x ys)"
  by (induction ys) simp_all

lemma latest_row_map: "(\<And>r. col (f r) = col r) \<Longrightarrow> latest_row col (map f rows) = map_option f (latest_row col rows)"
proof -
  assume same: "\<And>r. col (f r) = col r"
  have "sort_key (\<lambda>r. - col r) (map f rows) = map f (sort_key (\<lambda>r. - col r) rows)"
    by (induction rows) (simp_all add: insort_key_map [where col = col and f = f] same)
  then show ?thesis by (simp add: latest_row_def split: list.split)
qed

lemma amended_ack:
  assumes "amended db db'" and "get_leadership_ack i db = Some a" and "la_status a = AckACKNOWLEDGED"
  shows "\<exists>b. get_leadership_ack i db' = Some b \<and> la_status b = AckACKNOWLEDGED"
proof -
  obtain f where f: "db_acks db' = map f (db_acks db)" "\<And>a. la_incident_id (f a) = la_incident_id a"
      "\<And>a. la_forwarded_at (f a) = la_forwarded_at a" "\<And>a. la_status a = AckACKNOWLEDGED \<Longrightarrow> la_status (f a) = AckACKNOWLEDGED"
    using assms(1) unfolding amended_def by blast
  have "filter (\<lambda>a. la_incident_id a = i) (db_acks db') = map f (filter (\<lambda>a. la_incident_id a = i) (db_acks db))"
    by (simp add: f(1) filter_map comp_def f(2))
  then show ?thesis using assms(2,3) f(3,4) by (simp add: get_leadership_ack_def latest_row_map)
qed

definition closed_all :: "incident_db \<Rightarrow> bool" where
  "closed_all db \<longleftrightarrow> (\<forall>i c. find_case db i = Some c \<longrightarrow> closed_ok db c)"

lemma closed_ok_cong:
  "db_rcas db' = db_rcas db \<Longrightarrow> db_capas db' = db_capas db \<Longrightarrow> db_acks db' = db_acks db \<Longrightarrow> closed_ok db c \<Longrightarrow> closed_ok db' c"
  by (simp only: closed_ok_def closure_evidence_def get_rca_def get_capa_def get_leadership_ack_def)

text \<open>One case across one step, the tables aside.\<close>

lemma not_archived: "S_ARCHIVED \<in> set (allowed_transitions s) \<Longrightarrow> s = S_CLOSED"
  by (cases s) simp_all

lemma closed_ok_change:
  assumes ok: "closed_ok db c" and change: "case_change db c d"
  shows "closed_ok db d"
  unfolding closed_ok_def
proof
  assume closed: "ic_status d = S_CLOSED \<or> ic_status d = S_ARCHIVED"
  have ids: "ic_incident_id d = ic_incident_id c" using change by (simp add: case_change_def same_identity_def)
  have "\<not> assessed_case d" using assessed_case_status [of d] closed by auto
  then have flags: "same_flags c d" and move: "status_move db c (ic_status d)" using change by (simp_all add: case_change_def)
  have "closure_evidence db c"
  proof (cases "ic_status c = S_CLOSED \<or> ic_status c = S_ARCHIVED")
    case True
    then show ?thesis using ok by (simp add: closed_ok_def)
  next
    case False
    then have "ic_status d \<noteq> ic_status c" using closed by auto
    then have "ic_status d \<in> set (allowed_transitions (ic_status c))" "ic_status d = S_CLOSED \<longrightarrow> validate_closure db c = Inr ()"
      using move by (simp_all add: status_move_def)
    then show ?thesis using False closed not_archived validated_evidence by metis
  qed
  then show "closure_evidence db d" using evidence_flags [OF flags ids] by simp
qed

lemma step_closed:
  assumes step: "inc_step env (db, n) (db', n')" and all: "closed_all db"
  shows "closed_all db'"
  unfolding closed_all_def
proof (intro allI impI)
  fix i d assume d: "find_case db' i = Some d"
  show "closed_ok db' d"
  proof (cases "find_case db i")
    case None
    from step have "ic_status d = S_SUBMITTED"
    proof cases
      case (submit x)
      then show ?thesis using d None by (simp add: find_case_append split: if_splits)
    next
      case amend
      then show ?thesis using d None by (simp add: amended_def find_case_def)
    qed (use d None in \<open>simp_all add: find_case_put_case split: if_splits\<close>)
    then show ?thesis by (simp add: closed_ok_def)
  next
    case (Some c)
    have "case_change db c d" using step_case [OF step Some] d by auto
    moreover have "closed_ok db c" using all Some unfolding closed_all_def by blast
    ultimately have ok: "closed_ok db d" using closed_ok_change by blast
    have id: "ic_incident_id d = i" using find_case_id [OF d] .
    from step show ?thesis
    proof cases
      case (capa p)
      show ?thesis by (rule closed_ok_tables [OF ok]) (use capa in \<open>simp_all add: capa_exists rca_exists get_leadership_ack_def del: not_None_eq\<close>)
    next
      case (rca r)
      show ?thesis by (rule closed_ok_tables [OF ok]) (use rca in \<open>simp_all add: capa_exists rca_exists get_leadership_ack_def del: not_None_eq\<close>)
    next
      case (forwarded a c')
      show ?thesis
      proof (cases "la_incident_id a = i")
        case True
        then have "ic_status d = S_CLOSURE_REVIEW" using forwarded d by simp
        then show ?thesis by (simp add: closed_ok_def)
      next
        case False
        show ?thesis by (rule closed_ok_tables [OF ok])
          (use forwarded False id in \<open>simp_all add: capa_exists rca_exists get_leadership_ack_def del: not_None_eq\<close>)
      qed
    next
      case amend
      show ?thesis
      proof (rule closed_ok_tables [OF ok])
        show "get_rca (ic_incident_id d) db \<noteq> None \<Longrightarrow> get_rca (ic_incident_id d) db' \<noteq> None"
          "get_capa (ic_incident_id d) db \<noteq> None \<Longrightarrow> get_capa (ic_incident_id d) db' \<noteq> None"
          using amend unfolding rca_exists capa_exists amended_def by (simp_all only:)
      qed (use amended_ack amend in blast)
    qed (rule closed_ok_cong [OF _ _ _ ok]; simp)+
  qed
qed

lemma reachable_closed: "inc_steps env (empty_incident_db, 0) (db, n) \<Longrightarrow> closed_all db"
proof (induction rule: rtranclp_induct2)
  case refl
  show ?case by (simp add: closed_all_def find_case_def empty_incident_db_def)
next
  case (step db1 n1 db2 n2)
  then show ?case using step_closed by blast
qed

end
