(* ===== verification/IncidentScenario.thy ===== *)
theory IncidentScenario
  imports IncidentApi RunMethods
begin

text \<open>
  A concrete environment, users and requests for the incident module: an observation that is only
  documented, and the whole way of a critical incident through CAPA, analysis, actions, effectiveness
  review and leadership to its archive. The worlds after them are evaluated by the simplifier.
\<close>

definition env1 :: incident_env where
  "env1 = \<lparr>inc_clock = int, inc_hex = str_nat, inc_uuid = (\<lambda>n. CHR ''u'' # str_nat n), artifacts_root = ''root'',
     content_sha256 = (\<lambda>_. ''sha''), content_size = (\<lambda>_. 1)\<rparr>"

lemma env1_inj: "inj (inc_hex env1)"
  by (rule inj_on_inverseI [where g = decimal_value]) (simp add: env1_def decimal_value_str_nat)

definition no_settings :: incident_settings where
  "no_settings = \<lparr>st_categories = [], st_label_groups = [], st_criticality_groups = [], st_deadlines = [],
     st_effectiveness_delay = None, st_capa_rules = []\<rparr>"

definition reporter :: "incident_user option" where
  "reporter = Some \<lparr>iu_user_id = ''r'', iu_role = Some ''User'', iu_is_qmb = False\<rparr>"

definition qmb_user :: "incident_user option" where
  "qmb_user = Some \<lparr>iu_user_id = ''q'', iu_role = Some ''QMB'', iu_is_qmb = True\<rparr>"

definition leader_user :: "incident_user option" where
  "leader_user = Some \<lparr>iu_user_id = ''l'', iu_role = Some ''User'', iu_is_qmb = False\<rparr>"

definition sample_submission :: incident_submission where
  "sample_submission = \<lparr>is_title = ''t'', is_description = ''d'', is_category = ''c'', is_reported_at = utc_datetime 0,
     is_labels = [], is_area = None, is_process_name = None, is_device = None\<rparr>"

definition plain_assessment :: assessment_input where
  "plain_assessment = \<lparr>as_classification = DEVIATION, as_is_critical = False, as_criticality_reason = None,
     as_is_repeated = False, as_capa_required = False, as_capa_reason = None, as_root_cause_required = False,
     as_group_id = None, as_patient_safety_relevant = False, as_formal_deviation = False,
     as_system_risk_relevant = False, as_result_correctness_issue = False, as_escalation_required = False\<rparr>"

definition id1 :: string where
  "id1 = ''19700101_0001''"

section \<open>Running requests\<close>

lemma str_nat_numeral:
  "str_nat (numeral k) = (if (numeral k :: nat) < 10 then [char_of (48 + numeral k :: nat)]
     else str_nat (numeral k div 10) @ [char_of (48 + numeral k mod 10 :: nat)])"
  by (subst str_nat.simps) simp

text \<open>The effects every operation shares, each in one rewrite.\<close>

lemma publish_run:
  "inc_publish_event env name actor payload w = (Inr (), w\<lparr>iw_events := iw_events w @
     [\<lparr>ev_event_id = inc_uuid env (iw_ids w), ev_name = name, ev_occurred_at = inc_clock env (iw_ticks w),
       ev_correlation_id = inc_uuid env (Suc (iw_ids w)), ev_actor_user_id = Some actor,
       ev_module_id = ''incident_management'', ev_payload = payload\<rparr>],
     iw_ticks := Suc (iw_ticks w), iw_ids := Suc (Suc (iw_ids w))\<rparr>)"
  by (simp add: inc_publish_event_def bindM_def event_uuid_def inc_utcnow_def)

lemma timeline_run:
  assumes "inc_hex env (iw_ids w) \<notin> set (map tl_entry_id (db_timeline (iw_db w)))" and "has_case (iw_db w) i"
  shows "record_timeline env t i actor now details w = (Inr (), w\<lparr>iw_db := db_timeline_update (\<lambda>rows. rows @
     [\<lparr>tl_entry_id = inc_hex env (iw_ids w), tl_incident_id = i, tl_entry_type = t, tl_actor_user_id = actor,
       tl_summary = timeline_text t, tl_details = details, tl_created_at = now\<rparr>]) (iw_db w), iw_ids := Suc (iw_ids w)\<rparr>)"
  using assms by (simp add: record_timeline_def bindM_def new_id_def add_timeline_entry_def insert_child_def check_db_def
      fresh_row_def refers_to_case_def raise_if_def write_db_def)

lemma conclude_run:
  assumes "inc_hex env (iw_ids w) \<notin> set (map tl_entry_id (db_timeline (iw_db w)))" and "has_case (iw_db w) i"
  shows "conclude env t i uid now details a ev payload w = (Inr (), w\<lparr>iw_db := db_timeline_update (\<lambda>rows. rows @
     [\<lparr>tl_entry_id = inc_hex env (iw_ids w), tl_incident_id = i, tl_entry_type = t, tl_actor_user_id = Some uid,
       tl_summary = timeline_text t, tl_details = details, tl_created_at = now\<rparr>]) (iw_db w),
     iw_audit := iw_audit w @ [\<lparr>au_action = a, au_actor = uid, au_target = i, au_result = ''ok'', au_reason = []\<rparr>],
     iw_events := iw_events w @
       [\<lparr>ev_event_id = inc_uuid env (Suc (iw_ids w)), ev_name = ev, ev_occurred_at = inc_clock env (iw_ticks w),
         ev_correlation_id = inc_uuid env (Suc (Suc (iw_ids w))), ev_actor_user_id = Some uid,
         ev_module_id = ''incident_management'', ev_payload = payload\<rparr>],
     iw_ticks := Suc (iw_ticks w), iw_ids := Suc (Suc (Suc (iw_ids w)))\<rparr>)"
  by (simp add: conclude_def bindM_def timeline_run [OF assms] inc_emit_audit_def publish_run)

lemma status_run:
  assumes "validate_status_transition (ic_status c) s = Inr ()"
    and "inc_hex env (iw_ids w) \<notin> set (map tl_entry_id (db_timeline (iw_db w)))" and "has_case (iw_db w) (ic_incident_id c)"
  shows "set_status env c s uid w =
     (let now = inc_clock env (iw_ticks w); d = c\<lparr>ic_status := s, ic_updated_at := now\<rparr>
      in (Inr d, w\<lparr>iw_db := db_timeline_update (\<lambda>rows. rows @
         [\<lparr>tl_entry_id = inc_hex env (iw_ids w), tl_incident_id = ic_incident_id c, tl_entry_type = T_STATUS_CHANGED,
           tl_actor_user_id = Some uid, tl_summary = timeline_text T_STATUS_CHANGED,
           tl_details = [(''from_status'', incident_status_value (ic_status c)), (''to_status'', incident_status_value s)],
           tl_created_at = now\<rparr>])
         (db_cases_update (update_rows ic_incident_id (ic_incident_id c) (case_columns d)) (iw_db w)),
         iw_ticks := Suc (iw_ticks w), iw_ids := Suc (iw_ids w)\<rparr>))"
  using assms
  by (simp add: set_status_def bindM_def inc_utcnow_def update_incident_def write_db_def Let_def timeline_run has_case_def
      update_rows_def image_image case_columns_def if_distrib cong: if_cong)

lemmas incident_pure_evals = raise_if_def py_space_def py_strip_def truthy_def or_str_def or_opt_def str_int_def
  day_def civil_from_days_def pad_int_def iso_fields_def isoformat_def lower_char_def py_lower_def split_on.simps
  path_name_def path_suffix_def str_nat_numeral
  all_incident_statuses_def incident_status_of_value_def utc_datetime_def offset_text_def dt_iso_def
  dt_less_def empty_incident_db_def has_case_def fresh_row_def refers_to_case_def update_rows_def
  report_date_key_def format_incident_id_def case_columns_def find_case_def reported_text_def
  opt_filter_def text_filter_def matches_filter_def list_incident_rows_def matches_similar_def
  list_similar_rows_def list_incidents_in_period_def list_timeline_def latest_row_def get_open_inquiry_def
  list_open_inquiry_rows_def count_open_inquiries_def list_actions_def list_open_action_rows_def
  list_all_open_actions_def get_capa_def get_rca_def get_effectiveness_review_def
  list_pending_review_rows_def get_leadership_ack_def list_leadership_rows_def list_management_items_def
  list_role_rows_def normalize_system_role_def user_role_def is_admin_def is_qmb_def inc_user_id_def
  uid_of_def require_authenticated_def require_qmb_def require_admin_or_qmb_def require_module_role_def
  has_module_role_def require_can_answer_inquiry_def require_leadership_recipient_def
  validate_status_transition_def strip_opt_def require_non_empty_def validate_submission_def
  validate_assessment_def allowed_labels_def validate_submission_against_settings_def deadline_key_def
  get_or_def zero_or_def default_action_due_at_def settings_delay_days_def resolve_criticality_group_def
  capa_rule_def derive_capa_required_def effective_root_cause_required_def stored_capa_reason_def
  next_status_after_assessment_def py_bool_text_def validate_closure_def qmb_review_queue_statuses_def

lemmas incident_method_evals =
  fun_cong [OF inc_utcnow_def] fun_cong [OF new_id_def] fun_cong [OF event_uuid_def]
  fun_cong [OF read_db_def] fun_cong [OF write_db_def] fun_cong [OF check_db_def]
  fun_cong [OF insert_child_def] fun_cong [OF allocate_incident_id_def] fun_cong [OF insert_incident_def]
  fun_cong [OF update_incident_def] fun_cong [OF get_incident_row_def] fun_cong [OF add_timeline_entry_def]
  fun_cong [OF add_inquiry_def] fun_cong [OF update_inquiry_def] fun_cong [OF add_action_def]
  fun_cong [OF update_action_def] fun_cong [OF get_action_def] fun_cong [OF upsert_capa_def]
  fun_cong [OF upsert_rca_def] fun_cong [OF add_effectiveness_review_def]
  fun_cong [OF update_effectiveness_review_def] fun_cong [OF add_artifact_def]
  fun_cong [OF insert_group_def] fun_cong [OF get_group_def] fun_cong [OF add_leadership_ack_def]
  fun_cong [OF update_leadership_ack_def] fun_cong [OF insert_management_batch_def]
  fun_cong [OF update_management_batch_def] fun_cong [OF get_management_batch_def]
  fun_cong [OF insert_management_item_def] fun_cong [OF update_management_item_def]
  fun_cong [OF upsert_module_role_def] fun_cong [OF store_file_copy_def]
  fun_cong [OF inc_emit_audit_def]
  fun_cong [OF submit_incident_def]
  fun_cong [OF open_inquiry_def] fun_cong [OF answer_inquiry_def] fun_cong [OF assess_incident_def]
  fun_cong [OF create_action_def] fun_cong [OF complete_action_def] fun_cong [OF start_capa_def]
  fun_cong [OF update_capa_def] fun_cong [OF create_root_cause_analysis_def]
  fun_cong [OF plan_effectiveness_review_def] fun_cong [OF complete_effectiveness_review_def]
  fun_cong [OF close_incident_def] fun_cong [OF archive_incident_def]
  fun_cong [OF create_incident_group_def] fun_cong [OF link_incident_to_group_def]
  fun_cong [OF forward_to_leadership_def] fun_cong [OF acknowledge_leadership_review_def]
  fun_cong [OF assign_module_role_def] fun_cong [OF attach_artifact_def]
  fun_cong [OF create_management_review_def] fun_cong [OF mark_management_review_in_discussion_def]
  fun_cong [OF acknowledge_management_review_items_def] fun_cong [OF get_incident_def]
  fun_cong [OF list_incidents_def] fun_cong [OF list_my_incidents_def]
  fun_cong [OF list_incident_timeline_def] fun_cong [OF list_similar_incidents_def]
  fun_cong [OF list_qmb_review_queue_def] fun_cong [OF list_open_inquiries_def]
  fun_cong [OF list_open_actions_def] fun_cong [OF list_pending_effectiveness_reviews_def]
  fun_cong [OF list_similar_incident_candidates_def] fun_cong [OF list_capa_relevant_incidents_def]
  fun_cong [OF list_leadership_queue_def] fun_cong [OF list_module_roles_def] fun_cong [OF ignore_def]

lemmas incident_evals = numeral_2_eq_2 [symmetric] run_basics incident_pure_evals incident_method_evals for_each.simps
  publish_run timeline_run conclude_run status_run

lemmas sample_defs = env1_def no_settings_def reporter_def qmb_user_def leader_user_def sample_submission_def
  plain_assessment_def id1_def

abbreviation run1 :: "incident_user option \<Rightarrow> incident_request \<Rightarrow> unit inc_meth" where
  "run1 \<equiv> run_incident env1 no_settings"

section \<open>Runs\<close>

text \<open>
  Three sequences of requests, run by the simplifier: an observation that is closed, a deviation without
  CAPA that got an action, and an incident whose CAPA was started. Every world they lead to is reachable.
\<close>

abbreviation by_reporter :: "incident_request \<Rightarrow> incident_settings \<times> incident_user option \<times> incident_request" where
  "by_reporter r \<equiv> (no_settings, reporter, r)"

abbreviation by_qmb :: "incident_request \<Rightarrow> incident_settings \<times> incident_user option \<times> incident_request" where
  "by_qmb r \<equiv> (no_settings, qmb_user, r)"

definition observation_requests :: "(incident_settings \<times> incident_user option \<times> incident_request) list" where
  "observation_requests = [by_reporter (SubmitIncident sample_submission),
     by_qmb (AssessIncident id1 (plain_assessment\<lparr>as_classification := OBSERVATION\<rparr>)), by_qmb (CloseIncident id1)]"

definition action_requests :: "(incident_settings \<times> incident_user option \<times> incident_request) list" where
  "action_requests = [by_reporter (SubmitIncident sample_submission), by_qmb (AssessIncident id1 plain_assessment),
     by_qmb (CreateAction id1 IMMEDIATE_ACTION ''do'' None None)]"

definition capa_requests :: "(incident_settings \<times> incident_user option \<times> incident_request) list" where
  "capa_requests = [by_reporter (SubmitIncident sample_submission),
     by_qmb (AssessIncident id1 (plain_assessment\<lparr>as_is_critical := True, as_criticality_reason := Some ''x''\<rparr>)),
     by_qmb (StartCapa id1 None (Some ''g'') None)]"

abbreviation after_requests :: "(incident_settings \<times> incident_user option \<times> incident_request) list \<Rightarrow> incident_world" where
  "after_requests reqs \<equiv> run_all env1 reqs (empty_incident_world {})"

lemma after_requests_reachable: "incident_reachable env1 (after_requests reqs)"
  by (rule run_all_reachable) (rule incident_reachable.start)

lemmas run_defs = observation_requests_def action_requests_def capa_requests_def sample_defs
  empty_incident_world_def empty_incident_db_def run_incident.simps run_all.simps

lemma observation_run:
  "\<exists>c W. W = after_requests observation_requests \<and> find_case (iw_db W) id1 = Some c \<and> ic_status c = S_CLOSED \<and>
     ic_closed_at c \<noteq> None"
  by (simp add: incident_evals run_defs del: bindM_basic bindM_liftE_simps cong: run_congs)

lemma observation_assessed:
  "\<exists>c W. W = after_requests (take 2 observation_requests) \<and> find_case (iw_db W) id1 = Some c \<and>
     ic_status c = S_DOCUMENTATION_ONLY \<and> validate_closure (iw_db W) c = Inr ()"
  by (simp add: incident_evals run_defs del: bindM_basic bindM_liftE_simps cong: run_congs)

lemma action_run:
  "\<exists>c W. W = after_requests action_requests \<and> find_case (iw_db W) id1 = Some c \<and> ic_status c = S_ACTIONS_IN_PROGRESS \<and>
     ic_capa_required c = Some False"
  by (simp add: incident_evals run_defs del: bindM_basic bindM_liftE_simps cong: run_congs)

lemma capa_run:
  "\<exists>W p q W'. W = after_requests capa_requests \<and> get_capa id1 (iw_db W) = Some p \<and>
     start_capa env1 qmb_user id1 None (Some ''h'') None W = (Inr q, W')"
  by (simp add: incident_evals run_defs del: bindM_basic bindM_liftE_simps cong: run_congs)

section \<open>A CAPA in progress at the closure review\<close>

text \<open>A critical incident, request by request, each world evaluated before the next.\<close>

definition cw0 :: incident_world where "cw0 = empty_incident_world {}"

definition cw1 :: incident_world where
  "cw1 = after (run1 reporter (SubmitIncident sample_submission) cw0)"

definition cw2 :: incident_world where
  "cw2 = after (run1 qmb_user (AssessIncident id1 (plain_assessment\<lparr>as_is_critical := True, as_criticality_reason := Some ''x''\<rparr>)) cw1)"

definition cw3 :: incident_world where
  "cw3 = after (run1 qmb_user (CreateRootCause id1 \<lparr>ri_immediate_event = None, ri_trigger = None, ri_root_causes = None, ri_similar_prior = None,
     ri_systemic_weakness = None, ri_future_risk = None, ri_method = None\<rparr>) cw2)"

definition cw4 :: incident_world where
  "cw4 = after (run1 qmb_user (StartCapa id1 None (Some ''g'') None) cw3)"

definition cw5 :: incident_world where
  "cw5 = after (run1 qmb_user (UpdateCapa id1 (Some CapaIN_PROGRESS) None None) cw4)"

definition cw6 :: incident_world where
  "cw6 = after (run1 qmb_user (PlanEffectiveness id1 ''k'' None) cw5)"

definition cw7 :: incident_world where
  "cw7 = after (run1 qmb_user (CompleteEffectiveness id1 True ''ok'' None) cw6)"

definition cw8 :: incident_world where
  "cw8 = after (run1 qmb_user (AssignModuleRole ''l'' LEITUNG) cw7)"

definition cw9 :: incident_world where
  "cw9 = after (run1 qmb_user (ForwardToLeadership id1 ''l'') cw8)"

definition cw10 :: incident_world where
  "cw10 = after (run1 leader_user (AcknowledgeLeadership id1 None) cw9)"

declare incident_evals [simp] run_defs [simp] cw0_def [simp]
declare bindM_basic [simp del] bindM_liftE_simps [simp del]
declare run_congs [cong]

lemmas cw1_eq = cw1_def [simplified]
lemmas cw2_eq = cw2_def [unfolded cw1_eq, simplified]
lemmas cw3_eq = cw3_def [unfolded cw2_eq, simplified]
lemmas cw4_eq = cw4_def [unfolded cw3_eq, simplified]
lemmas cw5_eq = cw5_def [unfolded cw4_eq, simplified]
lemmas cw6_eq = cw6_def [unfolded cw5_eq, simplified]
lemmas cw7_eq = cw7_def [unfolded cw6_eq, simplified]
lemmas cw8_eq = cw8_def [unfolded cw7_eq, simplified]
lemmas cw9_eq = cw9_def [unfolded cw8_eq, simplified]
lemmas cw10_eq = cw10_def [unfolded cw9_eq, simplified]

declare run_congs [cong del]
declare incident_evals [simp del] run_defs [simp del] cw0_def [simp del]
declare bindM_basic [simp] bindM_liftE_simps [simp] of_char_Char [simp]

lemma capa_in_progress_run:
  "\<exists>c p. find_case (iw_db cw10) id1 = Some c \<and> ic_status c = S_CLOSURE_REVIEW \<and> ic_capa_required c = Some True \<and>
     validate_closure (iw_db cw10) c = Inr () \<and> get_capa id1 (iw_db cw10) = Some p \<and> cp_status p = CapaIN_PROGRESS"
  unfolding cw10_eq by (simp add: incident_evals run_defs del: bindM_basic bindM_liftE_simps cong: run_congs)

lemma cw10_reachable: "incident_reachable env1 cw10"
  unfolding cw0_def cw1_def cw2_def cw3_def cw4_def cw5_def cw6_def cw7_def cw8_def cw9_def cw10_def
  by (intro incident_reachable.intros)

end
