(* ===== verification/IncidentBehaviour.thy ===== *)
theory IncidentBehaviour
  imports IncidentLaws IncidentScenario
begin

text \<open>
  What the incident module promises and what it does instead: contracts of single operations (closing,
  the CAPA rules), and the effects that stay behind when an operation fails after its first write.
\<close>

section \<open>Operations that succeed\<close>

lemma keys_fresh:
  "incident_keys env (iw_db w) (iw_ids w) \<Longrightarrow> inj (inc_hex env) \<Longrightarrow>
   inc_hex env (iw_ids w) \<notin> set (map tl_entry_id (db_timeline (iw_db w)))"
  using keys_ids [of env "iw_db w" "iw_ids w"] drawn_key(1) [of env "iw_db w" "Suc (iw_ids w)" "inc_hex env (iw_ids w)"]
  by (auto simp: drawn_def dest: injD)

lemma set_status_ok:
  assumes "incident_keys env (iw_db w) (iw_ids w)" and "inj (inc_hex env)" and "find_case (iw_db w) (ic_incident_id c) = Some c"
    and "ic_status c = s \<or> s \<in> set (allowed_transitions (ic_status c))" and "status_move (iw_db w) c s"
  shows "\<exists>now e w1. set_status env c s uid w = (Inr (changed_status c s now), w1) \<and>
    iw_db w1 = status_changed_db c s now e (iw_db w) \<and> incident_keys env (iw_db w1) (iw_ids w1)"
proof -
  have ok: "validate_status_transition (ic_status c) s = Inr ()" using assms(4) by (simp add: validate_status_transition_Inr)
  obtain e where run: "set_status env c s uid w = (Inr (changed_status c s (inc_clock env (iw_ticks w))),
      w\<lparr>iw_db := status_changed_db c s (inc_clock env (iw_ticks w)) e (iw_db w), iw_ticks := Suc (iw_ticks w), iw_ids := Suc (iw_ids w)\<rparr>)"
    using set_status_run [OF keys_fresh [OF assms(1,2)] find_case_ids [OF assms(3)] ok] by blast
  have judged: "runs env (\<lambda>db n. db = iw_db w) (set_status env c s uid) (\<lambda>_ _ _. True)"
    by (rule runs_set_status [OF assms(2)]) (use assms(3,5) in auto)
  from inc_steps_keys [OF runsD(1) [OF judged assms(1) refl run] assms(1)] run show ?thesis by auto
qed

lemma conclude_ok:
  assumes "incident_keys env (iw_db w) (iw_ids w)" and "inj (inc_hex env)" and "i \<in> case_ids (iw_db w)"
  shows "\<exists>e w1. conclude env t i uid now details a ev payload w = (Inr (), w1) \<and>
    iw_db w1 = db_timeline_update (\<lambda>rows. rows @ [e]) (iw_db w)"
  using conclude_run [OF keys_fresh [OF assms(1,2)], of i] assms(3) by auto

section \<open>Submission\<close>

lemma first_calls:
  "bindM (inc_utcnow env) f w = f (inc_clock env (iw_ticks w)) (w\<lparr>iw_ticks := Suc (iw_ticks w)\<rparr>)"
  "bindM (new_id env) g w = g (inc_hex env (iw_ids w)) (w\<lparr>iw_ids := Suc (iw_ids w)\<rparr>)"
  by (simp_all add: bindM_def inc_utcnow_def new_id_def)

lemma allocate_run:
  "bindM (allocate_incident_id t) f w =
     (let key = report_date_key t; n = counter_of (iw_db w) key
      in f (format_incident_id t n) (w\<lparr>iw_db := db_counters_update (AList.update key (n + 1)) (iw_db w)\<rparr>))"
  by (simp add: allocate_incident_id_def bindM_def read_db_def write_db_def counter_of_def Let_def split: option.split)

lemma insert_incident_run:
  "ic_incident_id c \<notin> case_ids (iw_db w) \<Longrightarrow>
   bindM (insert_incident c) f w = f () (w\<lparr>iw_db := db_cases_update (\<lambda>rows. rows @ [c]) (iw_db w)\<rparr>)"
  by (simp add: insert_incident_def bindM_def check_db_def fresh_row_def raise_if_def write_db_def case_ids_def)

lemma submit_ok:
  assumes keys: "incident_keys env (iw_db w) (iw_ids w)" and inj: "inj (inc_hex env)" and user: "user = Some u"
    and valid: "validate_submission s = Inr ()" and settings: "validate_submission_against_settings s settings = Inr ()"
  shows "\<exists>x w'. submit_incident env settings user s w = (Inr x, w') \<and>
    ic_incident_id x = format_incident_id (is_reported_at s) (counter_of (iw_db w) (report_date_key (is_reported_at s))) \<and>
    ic_status x = S_SUBMITTED \<and> ic_reporter_user_id x = iu_user_id u \<and>
    ic_incident_id x \<notin> case_ids (iw_db w) \<and> db_cases (iw_db w') = db_cases (iw_db w) @ [x]"
proof -
  let ?key = "report_date_key (is_reported_at s)"
  let ?i = "format_incident_id (is_reported_at s) (counter_of (iw_db w) ?key)"
  have "new_number (is_reported_at s) ?i (db_counters_update (AList.update ?key (counter_of (iw_db w) ?key + 1)) (iw_db w))"
    by (rule next_number_new [OF keys])
  then have fresh: "?i \<notin> case_ids (iw_db w)" by (simp add: new_number_def)
  have entry: "inc_hex env (iw_ids w) \<notin> set (map tl_entry_id (db_timeline (iw_db w)))" by (rule keys_fresh [OF keys inj])
  show ?thesis
    using user valid settings fresh entry unfolding submit_incident_def
    by (simp add: bindM_liftE require_authenticated_def raise_if_def first_calls allocate_run insert_incident_run Let_def
        bindM_Inr [where m = "conclude _ _ _ _ _ _ _ _ _", OF conclude_run] uid_of_def)
qed

section \<open>Closing\<close>

definition closable :: "incident_db \<Rightarrow> incident_case \<Rightarrow> bool" where
  "closable db c \<longleftrightarrow> ic_status c \<in> {S_DOCUMENTATION_ONLY, S_ASSESSED, S_CLOSURE_REVIEW} \<and> validate_closure db c = Inr ()"

text \<open>The checks, read off the tables.\<close>

lemma no_open_inquiry:
  "count_open_inquiries i db = 0 \<longleftrightarrow> (\<forall>q \<in> set (db_inquiries db). iq_incident_id q = i \<longrightarrow> iq_status q \<noteq> InqOPEN)"
  by (auto simp: count_open_inquiries_def filter_empty_conv)

lemma no_open_action:
  "list_open_action_rows i db = [] \<longleftrightarrow> (\<forall>a \<in> set (db_actions db). ia_incident_id a = i \<longrightarrow> ia_status a = ActCOMPLETED)"
  by (auto simp: list_open_action_rows_def list_actions_def filter_empty_conv)

lemma validate_closure_iff:
  "validate_closure db c = Inr () \<longleftrightarrow> ic_classification c \<noteq> None \<and>
     (\<forall>q \<in> set (db_inquiries db). iq_incident_id q = ic_incident_id c \<longrightarrow> iq_status q \<noteq> InqOPEN) \<and>
     (ic_capa_required c = Some True \<longrightarrow>
        ic_incident_id c \<in> set (map rc_incident_id (db_rcas db)) \<and> ic_incident_id c \<in> set (map cp_incident_id (db_capas db)) \<and>
        (\<forall>a \<in> set (db_actions db). ia_incident_id a = ic_incident_id c \<longrightarrow> ia_status a = ActCOMPLETED) \<and>
        (\<exists>v. get_effectiveness_review (ic_incident_id c) db = Some v \<and> er_status v = RevCOMPLETED \<and> er_effective v \<noteq> Some False)) \<and>
     (ic_leadership_required c \<longrightarrow> (\<exists>a. get_leadership_ack (ic_incident_id c) db = Some a \<and> la_status a = AckACKNOWLEDGED))"
  unfolding rca_exists [symmetric] capa_exists [symmetric] no_open_inquiry [symmetric] no_open_action [symmetric]
  by (auto simp: validate_closure_def Let_def bindE_def raise_if_def split: option.splits)

lemma find_put_closed:
  "find_case db (ic_incident_id c) = Some c \<Longrightarrow>
   find_case (put_case (c\<lparr>ic_closed_at := t\<rparr>) db) (ic_incident_id c) = Some (c\<lparr>ic_closed_at := t\<rparr>)"
  by (simp add: find_case_put_case case_columns_def)

text \<open>From closure review on, with the evidence checked.\<close>

lemma close_final:
  assumes keys: "incident_keys env (iw_db w) (iw_ids w)" and inj: "inj (inc_hex env)"
    and row: "find_case (iw_db w) (ic_incident_id c) = Some c" and review: "ic_status c = S_CLOSURE_REVIEW"
    and ok: "validate_closure (iw_db w) c = Inr ()"
  shows "\<exists>x w'. bindM (set_status env c S_CLOSED uid) (\<lambda>d.
       bindM (update_incident (d\<lparr>ic_closed_at := Some now\<rparr>)) (\<lambda>_.
       bindM (conclude env T_CLOSED (ic_incident_id c) uid now [] a ev payload) (\<lambda>_. retM (d\<lparr>ic_closed_at := Some now\<rparr>)))) w = (Inr x, w') \<and>
     find_case (iw_db w') (ic_incident_id c) = Some x \<and> ic_status x = S_CLOSED \<and> ic_closed_at x = Some now"
proof -
  have move: "status_move (iw_db w) c S_CLOSED" using review ok by (simp add: status_move_def)
  obtain t e w1 where w1: "set_status env c S_CLOSED uid w = (Inr (changed_status c S_CLOSED t), w1)"
      "iw_db w1 = status_changed_db c S_CLOSED t e (iw_db w)" "incident_keys env (iw_db w1) (iw_ids w1)"
    using set_status_ok [OF keys inj row _ move] review by (metis allowed_transitions.simps(15) list.set_intros)
  let ?d = "changed_status c S_CLOSED t"
  define w2 where "w2 = w1\<lparr>iw_db := put_case (?d\<lparr>ic_closed_at := Some now\<rparr>) (iw_db w1)\<rparr>"
  have update: "update_incident (?d\<lparr>ic_closed_at := Some now\<rparr>) w1 = (Inr (), w2)"
    by (simp add: update_incident_def write_db_def w2_def put_case_def)
  have row1: "find_case (iw_db w1) (ic_incident_id ?d) = Some ?d" using find_case_changed [OF row] w1(2) by simp
  have step: "inc_step env (iw_db w1, iw_ids w1) (iw_db w2, iw_ids w2)"
    unfolding w2_def using row1 by (simp, intro inc_step.marked [where c = ?d]) (simp_all add: same_workflow_def same_identity_def)
  obtain e2 w3 where w3: "conclude env T_CLOSED (ic_incident_id c) uid now [] a ev payload w2 = (Inr (), w3)"
      "iw_db w3 = db_timeline_update (\<lambda>rows. rows @ [e2]) (iw_db w2)"
    using conclude_ok [OF inc_step_keys [OF step w1(3)] inj, of "ic_incident_id c" T_CLOSED uid now "[]" a ev payload] find_case_ids [OF row1]
    by (auto simp: w2_def)
  have "find_case (iw_db w3) (ic_incident_id c) = Some (?d\<lparr>ic_closed_at := Some now\<rparr>)"
    using find_put_closed [OF row1] w3(2) by (simp add: w2_def)
  then show ?thesis using w1(1) update w3(1) by (simp add: bindM_def)
qed

lemma close_ok:
  assumes keys: "incident_keys env (iw_db w) (iw_ids w)" and inj: "inj (inc_hex env)" and "is_qmb user"
    and row: "find_case (iw_db w) i = Some c" and closable: "closable (iw_db w) c"
  shows "\<exists>x w'. close_incident env user i w = (Inr x, w') \<and> find_case (iw_db w') i = Some x \<and>
    ic_status x = S_CLOSED \<and> ic_closed_at x \<noteq> None"
proof -
  have i: "ic_incident_id c = i" using find_case_id [OF row] .
  have ok: "validate_closure (iw_db w) c = Inr ()" using closable by (simp add: closable_def)
  have get: "get_incident_row i w = (Inr c, w)" using row by (simp add: get_incident_row_def check_db_def)
  have checked: "check_db (\<lambda>db. validate_closure db c) w = (Inr (), w)" using ok by (simp add: check_db_def)
  have open_status: "ic_status c \<notin> {S_CLOSED, S_ARCHIVED}" using closable by (auto simp: closable_def)
  have start: "close_incident env user i w =
      bindM (if ic_status c \<in> {S_DOCUMENTATION_ONLY, S_ASSESSED} then set_status env c S_CLOSURE_REVIEW (uid_of user) else retM c) (\<lambda>c1.
      bindM (liftE (raise_if (ic_status c1 = S_LEADERSHIP_ACK_REQUIRED)
        (IncValidationError ''complete leadership acknowledgement before closure''))) (\<lambda>_.
      bindM (liftE (raise_if (ic_status c1 \<noteq> S_CLOSURE_REVIEW)
        (IncValidationError ''incident must reach closure review before close''))) (\<lambda>_.
      bindM (inc_utcnow env) (\<lambda>now.
      bindM (set_status env c1 S_CLOSED (uid_of user)) (\<lambda>closed_case.
      let updated = closed_case\<lparr>ic_closed_at := Some now\<rparr> in
      bindM (update_incident updated) (\<lambda>_.
      bindM (conclude env T_CLOSED i (uid_of user) now []
        ''incident.close'' ''domain.incident_management.incident.closed.v1'' [(''incident_id'', PyStr i)]) (\<lambda>_.
      retM updated))))))) w"
    using assms(3) open_status unfolding close_incident_def
    by (simp add: bindM_Inr [where m = "get_incident_row i", OF get] require_qmb_def closable_def
        bindM_Inr [where m = "check_db _", OF checked] bindM_liftE raise_if_def)
  obtain c1 w1 where c1: "(if ic_status c \<in> {S_DOCUMENTATION_ONLY, S_ASSESSED} then set_status env c S_CLOSURE_REVIEW (uid_of user) else retM c) w = (Inr c1, w1)"
    and w1: "incident_keys env (iw_db w1) (iw_ids w1)" "find_case (iw_db w1) (ic_incident_id c1) = Some c1" "ic_incident_id c1 = i"
      "ic_status c1 = S_CLOSURE_REVIEW" "validate_closure (iw_db w1) c1 = Inr ()"
  proof (cases "ic_status c \<in> {S_DOCUMENTATION_ONLY, S_ASSESSED}")
    case True
    then have "status_move (iw_db w) c S_CLOSURE_REVIEW" "S_CLOSURE_REVIEW \<in> set (allowed_transitions (ic_status c))"
      using ok by (auto simp: status_move_def)
    then obtain t e w1 where "set_status env c S_CLOSURE_REVIEW (uid_of user) w = (Inr (changed_status c S_CLOSURE_REVIEW t), w1)"
        "iw_db w1 = status_changed_db c S_CLOSURE_REVIEW t e (iw_db w)" "incident_keys env (iw_db w1) (iw_ids w1)"
      using set_status_ok [OF keys inj] row i by blast
    then show ?thesis using that [of "changed_status c S_CLOSURE_REVIEW t" w1] True find_case_changed row i ok by auto
  next
    case False
    then show ?thesis using that [of c w] keys row i ok closable by (auto simp: closable_def)
  qed
  let ?w2 = "w1\<lparr>iw_ticks := Suc (iw_ticks w1)\<rparr>"
  have "\<exists>x w'. bindM (set_status env c1 S_CLOSED (uid_of user)) (\<lambda>d.
       bindM (update_incident (d\<lparr>ic_closed_at := Some (inc_clock env (iw_ticks w1))\<rparr>)) (\<lambda>_.
       bindM (conclude env T_CLOSED i (uid_of user) (inc_clock env (iw_ticks w1)) []
         ''incident.close'' ''domain.incident_management.incident.closed.v1'' [(''incident_id'', PyStr i)])
         (\<lambda>_. retM (d\<lparr>ic_closed_at := Some (inc_clock env (iw_ticks w1))\<rparr>)))) ?w2 = (Inr x, w') \<and>
     find_case (iw_db w') i = Some x \<and> ic_status x = S_CLOSED \<and> ic_closed_at x = Some (inc_clock env (iw_ticks w1))"
    using close_final [of env ?w2 c1] w1 inj by simp
  moreover have "inc_utcnow env w1 = (Inr (inc_clock env (iw_ticks w1)), ?w2)" by (simp add: inc_utcnow_def)
  ultimately show ?thesis unfolding start Let_def bindM_Inr [where m = "if _ then _ else _", OF c1]
    using w1(4) by (auto simp: bindM_liftE bindM_Inr [where m = "inc_utcnow env"] raise_if_def)
qed

lemma close_needs:
  assumes "close_incident env user i w = (Inr x, w')" and "find_case (iw_db w) i = Some c"
  shows "is_qmb user \<and> closable (iw_db w) c"
proof -
  have get: "get_incident_row i w = (Inr c, w)" using assms(2) by (simp add: get_incident_row_def check_db_def)
  from assms(1) have qmb: "is_qmb user" and ok: "validate_closure (iw_db w) c = Inr ()"
    unfolding close_incident_def
    by (auto simp: bindM_liftE bindM_Inr [where m = "get_incident_row i", OF get] require_qmb_def check_db_def raise_if_def
        split: if_splits)
  have "ic_status c \<in> {S_DOCUMENTATION_ONLY, S_ASSESSED} \<or> ic_status c = S_CLOSURE_REVIEW"
  proof (rule ccontr)
    assume "\<not> ?thesis"
    then have other: "ic_status c \<noteq> S_DOCUMENTATION_ONLY" "ic_status c \<noteq> S_ASSESSED" "ic_status c \<noteq> S_CLOSURE_REVIEW" by auto
    have checked: "check_db (\<lambda>db. validate_closure db c) w = (Inr (), w)" using ok by (simp add: check_db_def)
    have "\<exists>e. close_incident env user i w = (Inl e, w)"
      unfolding close_incident_def
      by (simp add: bindM_liftE bindM_Inr [where m = "get_incident_row i", OF get] bindM_Inr [where m = "check_db _", OF checked]
          require_qmb_def qmb raise_if_def other)
    with assms(1) show False by auto
  qed
  then show ?thesis using qmb ok by (auto simp: closable_def)
qed

section \<open>Roles\<close>

text \<open>The requests that start with \<open>require_qmb\<close>.\<close>

fun qmb_request :: "incident_request \<Rightarrow> bool" where
  "qmb_request (SubmitIncident _) = False"
| "qmb_request (AnswerInquiry _ _) = False"
| "qmb_request (AcknowledgeLeadership _ _) = False"
| "qmb_request (AssignModuleRole _ _) = False"
| "qmb_request (AttachArtifact _ _ _ _) = False"
| "qmb_request _ = True"

lemma refused: "\<not> is_qmb user \<Longrightarrow> ignore (bindM (liftE (require_qmb user)) f) w = (Inl (IncAuthorizationError ''QMB role required''), w)"
  by (simp add: ignore_def bindM_def liftE_def require_qmb_def raise_if_def)

lemmas qmb_ops = open_inquiry_def assess_incident_def create_action_def complete_action_def start_capa_def update_capa_def
  create_root_cause_analysis_def plan_effectiveness_review_def complete_effectiveness_review_def close_incident_def
  archive_incident_def create_incident_group_def link_incident_to_group_def forward_to_leadership_def
  create_management_review_def mark_management_review_in_discussion_def acknowledge_management_review_items_def

lemma guarded_request:
  "\<not> is_qmb user \<Longrightarrow> qmb_request req \<Longrightarrow>
   run_incident env settings user req w = (Inl (IncAuthorizationError ''QMB role required''), w)"
  by (cases req) (simp_all only: run_incident.simps qmb_ops refused qmb_request.simps not_False_eq_True simp_thms)

section \<open>The CAPA rules\<close>

text \<open>The rules of an assessment with the setting that switches each of them.\<close>

definition capa_triggers :: "assessment_input \<Rightarrow> (string \<times> bool) list" where
  "capa_triggers a = [(''critical'', as_is_critical a), (''repeated'', as_is_repeated a),
     (''patient_safety'', as_patient_safety_relevant a), (''system_risk'', as_system_risk_relevant a),
     (''formal_deviation'', as_formal_deviation a), (''result_correctness'', as_result_correctness_issue a),
     (''escalation'', as_escalation_required a)]"

lemma derive_capa_triggers:
  "derive_capa_required a settings \<longleftrightarrow>
     as_capa_required a \<or> (\<exists>(key, flag) \<in> set (capa_triggers a). flag \<and> map_of (st_capa_rules settings) key \<noteq> Some False)"
proof -
  have rule: "capa_rule settings key \<longleftrightarrow> map_of (st_capa_rules settings) key \<noteq> Some False" for key
    by (auto simp: capa_rule_def get_or_def split: option.split)
  show ?thesis unfolding derive_capa_required_def rule capa_triggers_def by simp blast
qed

section \<open>What a failed operation leaves behind\<close>

lemma get_row_run: "find_case (iw_db w) i = Some c \<Longrightarrow> get_incident_row i w = (Inr c, w)"
  by (simp add: get_incident_row_def check_db_def)

lemma only_planned_reviewed: "S_EFFECTIVENESS_REVIEW \<in> set (allowed_transitions s) \<Longrightarrow> s = S_EFFECTIVENESS_PLANNED"
  by (cases s) simp_all

lemma review_written_before_check:
  assumes qmb: "is_qmb user" and review: "get_effectiveness_review i (iw_db w) = Some v"
    and row: "find_case (iw_db w) i = Some c" and other: "ic_status c \<notin> {S_EFFECTIVENESS_PLANNED, S_EFFECTIVENESS_REVIEW}"
  shows "\<exists>t w'. complete_effectiveness_review env user i effective outcome notes w = (Inl (IncValidationError t), w') \<and>
    (\<exists>v' \<in> set (db_reviews (iw_db w')). er_review_id v' = er_review_id v \<and> er_status v' = RevCOMPLETED \<and>
       er_effective v' = Some effective \<and> er_result v' = Some outcome)"
proof -
  let ?v = "v\<lparr>er_incident_id := i, er_completed_at := Some (inc_clock env (iw_ticks w)), er_completed_by_user_id := Some (uid_of user),
    er_result := Some outcome, er_effective := Some effective, er_notes := notes, er_status := RevCOMPLETED\<rparr>"
  obtain w1 where w1: "bindM (inc_utcnow env) (\<lambda>now. update_effectiveness_review (v\<lparr>er_incident_id := i, er_completed_at := Some now,
      er_completed_by_user_id := Some (uid_of user), er_result := Some outcome, er_effective := Some effective, er_notes := notes,
      er_status := RevCOMPLETED\<rparr>)) w = (Inr (), w1)"
    and cases: "db_cases (iw_db w1) = db_cases (iw_db w)"
    and reviews: "db_reviews (iw_db w1) = update_rows er_review_id (er_review_id v) (\<lambda>r. r\<lparr>er_completed_at := er_completed_at ?v,
      er_completed_by_user_id := er_completed_by_user_id ?v, er_result := er_result ?v, er_effective := er_effective ?v,
      er_notes := er_notes ?v, er_status := er_status ?v\<rparr>) (db_reviews (iw_db w))"
    by (simp add: bindM_def inc_utcnow_def update_effectiveness_review_def write_db_def)
  have row1: "find_case (iw_db w1) i = Some c" using row cases by (simp add: find_case_def)
  have refused: "\<exists>t. validate_status_transition (ic_status c) S_EFFECTIVENESS_REVIEW = Inl (IncValidationError t)"
    using other only_planned_reviewed by (auto simp: validate_status_transition_def raise_if_def)
  then obtain t where t: "validate_status_transition (ic_status c) S_EFFECTIVENESS_REVIEW = Inl (IncValidationError t)" by blast
  have "complete_effectiveness_review env user i effective outcome notes w = (Inl (IncValidationError t), w1)"
    using qmb review w1 unfolding complete_effectiveness_review_def
    by (auto simp: bindM_liftE require_qmb_def raise_if_def read_db_def bindM_def inc_utcnow_def Let_def get_row_run [OF row1]
        set_status_refused [OF t])
  moreover have "v \<in> set (db_reviews (iw_db w))"
    using latest_row_member review unfolding get_effectiveness_review_def by fastforce
  then have "\<exists>v' \<in> set (db_reviews (iw_db w1)). er_review_id v' = er_review_id v \<and> er_status v' = RevCOMPLETED \<and>
      er_effective v' = Some effective \<and> er_result v' = Some outcome"
    unfolding reviews update_rows_def set_map bex_simps(7) by (rule rev_bexI) simp
  ultimately show ?thesis by blast
qed

text \<open>An inquiry is written before the status is checked.\<close>

lemma inquiry_written_before_check:
  assumes keys: "incident_keys env (iw_db w) (iw_ids w)" and inj: "inj (inc_hex env)" and qmb: "is_qmb user"
    and row: "find_case (iw_db w) i = Some c" and question: "py_strip question \<noteq> []"
    and other: "ic_status c \<notin> {S_SUBMITTED, S_QMB_REVIEW, S_INQUIRY_OPEN}"
  shows "\<exists>t w'. open_inquiry env user i question w = (Inl (IncValidationError t), w') \<and> find_case (iw_db w') i = Some c \<and>
    count_open_inquiries i (iw_db w') = Suc (count_open_inquiries i (iw_db w))"
proof -
  have "S_INQUIRY_OPEN \<in> set (allowed_transitions s) \<Longrightarrow> s = S_SUBMITTED \<or> s = S_QMB_REVIEW" for s by (cases s) simp_all
  then have "\<exists>t. validate_status_transition (ic_status c) S_INQUIRY_OPEN = Inl (IncValidationError t)"
    using other by (auto simp: validate_status_transition_def raise_if_def)
  then obtain t where t: "validate_status_transition (ic_status c) S_INQUIRY_OPEN = Inl (IncValidationError t)" by blast
  let ?x = "inc_hex env (iw_ids w)"
  have "drawn env (iw_db w) (Suc (iw_ids w)) ?x"
    using keys_ids [OF keys] inj by (auto simp: drawn_def dest: injD)
  then have fresh: "?x \<notin> set (map iq_inquiry_id (db_inquiries (iw_db w)))" by (rule drawn_key)
  have "i \<in> case_ids (iw_db w)" using find_case_ids [OF row] .
  then show ?thesis
    using qmb question fresh row unfolding open_inquiry_def
    by (simp add: bindM_liftE require_qmb_def raise_if_def require_non_empty_def strip_opt_def bindM_def get_row_run [OF row]
        inc_utcnow_def new_id_def add_inquiry_def insert_child_def check_db_def fresh_row_def refers_to_case_def write_db_def
        set_status_refused [OF t] count_open_inquiries_def Let_def)
qed

lemma open_inquiry_blocks: "count_open_inquiries (ic_incident_id c) db > 0 \<Longrightarrow> validate_closure db c \<noteq> Inr ()"
  using validate_closure_evidence [of db c] by auto

text \<open>A CAPA that is started again.\<close>

lemma keeps_capas_write:
  "(\<And>db. db_capas (g db) = db_capas db) \<Longrightarrow> keeps (\<lambda>w. db_capas (iw_db w) = X) (write_db g)"
  by (simp add: write_db_def keeps_def)

lemma keeps_capas_basic [keeps_intros]:
  "keeps (\<lambda>w. db_capas (iw_db w) = X) (inc_utcnow env)" "keeps (\<lambda>w. db_capas (iw_db w) = X) (new_id env)"
  "keeps (\<lambda>w. db_capas (iw_db w) = X) (event_uuid env)" "keeps (\<lambda>w. db_capas (iw_db w) = X) (check_db g)"
  "keeps (\<lambda>w. db_capas (iw_db w) = X) (inc_emit_audit a b d e)"
  by (simp_all add: keeps_def inc_utcnow_def new_id_def event_uuid_def check_db_def inc_emit_audit_def)

lemma keeps_capas_timeline [keeps_intros]: "keeps (\<lambda>w. db_capas (iw_db w) = X) (record_timeline env t i actor now details)"
  unfolding record_timeline_def add_timeline_entry_def insert_child_def
  by (intro keeps_intros keeps_capas_write) simp

lemma keeps_capas_publish [keeps_intros]: "keeps (\<lambda>w. db_capas (iw_db w) = X) (inc_publish_event env a b d)"
  unfolding inc_publish_event_def by (intro keeps_intros keeps_modifyM) simp

lemma keeps_capas_conclude [keeps_intros]: "keeps (\<lambda>w. db_capas (iw_db w) = X) (conclude env t i uid now details a ev payload)"
  unfolding conclude_def by (intro keeps_intros)

lemma keeps_capas_status [keeps_intros]: "keeps (\<lambda>w. db_capas (iw_db w) = X) (set_status env c s uid)"
  unfolding set_status_def Let_def update_incident_def by (intro keeps_intros keeps_capas_write) simp

lemma restarted_capa:
  assumes keys: "incident_keys env (iw_db w) (iw_ids w)" and inj: "inj (inc_hex env)"
    and old: "get_capa i (iw_db w) = Some p" and run: "start_capa env user i reason goal description w = (Inr q, w')"
  shows "get_capa i (iw_db w') = Some p \<and> cp_capa_id q \<notin> cp_capa_id ` set (db_capas (iw_db w'))"
proof -
  let ?x = "inc_hex env (iw_ids w)"
  have "drawn env (iw_db w) (Suc (iw_ids w)) ?x"
    using keys_ids [OF keys] inj by (auto simp: drawn_def dest: injD)
  then have fresh: "?x \<notin> set (map cp_capa_id (db_capas (iw_db w)))" by (rule drawn_key)
  then have idle: "update_rows cp_capa_id ?x f (db_capas (iw_db w)) = db_capas (iw_db w)" for f
    unfolding update_rows_def by (intro map_idI) (auto simp: image_iff)
  obtain c0 where c0: "get_incident_row i w = (Inr c0, w)"
    using run unfolding start_capa_def
    by (auto simp: bindM_liftE get_incident_row_def check_db_def split: sum.splits option.splits)
  let ?q = "\<lparr>cp_capa_id = ?x, cp_incident_id = i, cp_status = CapaPLANNING,
           cp_trigger_reason = or_str reason (ic_capa_reason c0), cp_goal = goal,
           cp_description = description, cp_created_at = inc_clock env (iw_ticks w), cp_updated_at = inc_clock env (iw_ticks w)\<rparr>"
  let ?w1 = "w\<lparr>iw_ticks := Suc (iw_ticks w), iw_ids := Suc (iw_ids w)\<rparr>"
  have upsert: "\<exists>w2. upsert_capa ?q ?w1 = (Inr (), w2) \<and> db_capas (iw_db w2) = db_capas (iw_db w)"
    using old idle by (simp add: upsert_capa_def bindM_def read_db_def write_db_def)
  then obtain w2 where w2: "upsert_capa ?q ?w1 = (Inr (), w2)" "db_capas (iw_db w2) = db_capas (iw_db w)" by blast
  let ?rest = "bindM (if ic_status c0 = S_ROOT_CAUSE_REQUIRED then set_status env c0 S_CAPA_REQUIRED (uid_of user)
            else retM c0) (\<lambda>c1.
     bindM (set_status env c1 S_CAPA_PLANNING (uid_of user)) (\<lambda>_.
     bindM (conclude env T_CAPA_STARTED i (uid_of user) (inc_clock env (iw_ticks w)) [(''capa_id'', ?x)]
       ''incident.capa.start'' ''domain.incident_management.capa.updated.v1''
       [(''incident_id'', PyStr i), (''capa_id'', PyStr ?x),
        (''status'', PyStr (capa_status_value CapaPLANNING))]) (\<lambda>_.
     retM ?q)))"
  have rest: "?rest w2 = (Inr q, w')"
    using run unfolding start_capa_def
    by (auto simp: bindM_liftE bindM_Inr [where m = "get_incident_row i", OF c0] first_calls
        bindM_Inr [where m = "upsert_capa _", OF w2(1)] Let_def split: sum.splits if_splits simp del: bindM_eq_Inr)
  have "keeps (\<lambda>w. db_capas (iw_db w) = db_capas (iw_db w2)) ?rest" by (intro keeps_intros)
  from keeps_run [OF this _ rest] have same: "db_capas (iw_db w') = db_capas (iw_db w)" using w2(2) by simp
  from rest have "q = ?q" by auto
  then show ?thesis using same old fresh by (simp add: get_capa_def)
qed

section \<open>Sequences of requests\<close>

lemma run_all_steps:
  assumes "inj (inc_hex env)"
  shows "incident_keys env (iw_db w) (iw_ids w) \<Longrightarrow>
    inc_steps env (iw_db w, iw_ids w) (iw_db (run_all env reqs w), iw_ids (run_all env reqs w))"
proof (induction reqs arbitrary: w)
  case (Cons r reqs)
  obtain settings user req where r: "r = (settings, user, req)" by (cases r)
  obtain x w1 where run: "run_incident env settings user req w = (x, w1)" by fastforce
  have first: "inc_steps env (iw_db w, iw_ids w) (iw_db w1, iw_ids w1)"
    using runsD(1) [OF request_refines [OF assms] Cons.prems _ run] by simp
  then have "inc_steps env (iw_db w1, iw_ids w1) (iw_db (run_all env reqs w1), iw_ids (run_all env reqs w1))"
    using Cons.IH inc_steps_keys Cons.prems by blast
  with first show ?case using run r by (simp add: rtranclp_trans)
qed simp

end
