(* ===== verification/IncidentProperties.thy ===== *)
theory IncidentProperties
  imports IncidentBehaviour
begin

text \<open>
  The properties of the incident module. Each speaks about the worlds that requests can reach from an
  empty database, with identifiers that do not repeat (\<open>uuid4\<close>), or about one call of an operation; each
  witness runs the code on a concrete incident.
\<close>

section \<open>The state machine\<close>

lemma qmb_user_ok: "is_qmb qmb_user"
  by (simp add: is_qmb_def user_role_def normalize_system_role_def qmb_user_def py_lower_def lower_char_def)

text \<open>C25. Every request refines the state machine of the module: whatever it answers, it has made a sequence of
  the atomic steps of \<open>inc_step\<close>, the keys of all tables are intact afterwards (identifiers unique, every
  reference to an incident resolves, the number of an incident lies below its counter), and the answer is
  never an integrity error of the database.\<close>

theorem requests_refine_the_state_machine:
  assumes "incident_reachable env w" and "inj (inc_hex env)" and "run_incident env settings user req w = (r, w')"
  shows "inc_steps env (iw_db w, iw_ids w) (iw_db w', iw_ids w') \<and> incident_keys env (iw_db w') (iw_ids w') \<and>
    (\<forall>t. r \<noteq> Inl (IncIntegrityError t))"
proof -
  have keys: "incident_keys env (iw_db w) (iw_ids w)" using reachable_keys_and_steps assms(1,2) by blast
  note ran = runsD [OF request_refines [OF assms(2)] keys _ assms(3)]
  have steps: "inc_steps env (iw_db w, iw_ids w) (iw_db w', iw_ids w')" using ran(1) by simp
  with ran(2) inc_steps_keys [OF steps keys] show ?thesis by (simp add: no_integrity_error_def)
qed

theorem requests_refine_the_state_machine_witness:
  "\<exists>r w'. run1 qmb_user (CloseIncident id1) (after_requests (take 2 observation_requests)) = (r, w') \<and>
     incident_keys env1 (iw_db w') (iw_ids w')"
proof -
  obtain r w' where "run1 qmb_user (CloseIncident id1) (after_requests (take 2 observation_requests)) = (r, w')" by fastforce
  with requests_refine_the_state_machine [OF after_requests_reachable env1_inj] show ?thesis by blast
qed

text \<open>C26. The timeline is a complete account of the status: starting from \<open>SUBMITTED\<close>, the status entries of an
  incident replay, each from the status the one before it reached and along an allowed transition, to
  exactly the status in the incident's row.\<close>

theorem timeline_replays_to_the_status:
  assumes "incident_reachable env w" and "inj (inc_hex env)" and "find_case (iw_db w) i = Some c"
  shows "replay S_SUBMITTED (entries_of i (iw_db w)) = Some (ic_status c)"
  using reachable_trail reachable_keys_and_steps [OF assms(1,2)] assms(3) unfolding trail_ok_def by blast

theorem timeline_replays_to_the_status_witness:
  "replay S_SUBMITTED (entries_of id1 (iw_db (after_requests observation_requests))) = Some S_CLOSED"
proof -
  obtain c where "find_case (iw_db (after_requests observation_requests)) id1 = Some c" "ic_status c = S_CLOSED"
    using observation_run by blast
  with timeline_replays_to_the_status [OF after_requests_reachable env1_inj] show ?thesis by metis
qed

text \<open>C27. A closed or archived incident was assessed; if it needed a CAPA then its root cause analysis and CAPA
  record exist and leadership was asked; and if leadership had to be asked, the newest leadership review is
  acknowledged. This stays true whatever requests follow.\<close>

theorem closed_incidents_keep_their_evidence:
  assumes "incident_reachable env w" and "inj (inc_hex env)" and "find_case (iw_db w) i = Some c"
    and "ic_status c = S_CLOSED \<or> ic_status c = S_ARCHIVED"
  shows "ic_classification c \<noteq> None \<and>
    (ic_capa_required c = Some True \<longrightarrow> get_rca i (iw_db w) \<noteq> None \<and> get_capa i (iw_db w) \<noteq> None \<and> ic_leadership_required c) \<and>
    (ic_leadership_required c \<longrightarrow> (\<exists>a. get_leadership_ack i (iw_db w) = Some a \<and> la_status a = AckACKNOWLEDGED))"
proof -
  have steps: "inc_steps env (empty_incident_db, 0) (iw_db w, iw_ids w)" using reachable_keys_and_steps assms(1,2) by blast
  have "closure_evidence (iw_db w) c" using reachable_closed [OF steps] assms(3,4) unfolding closed_all_def closed_ok_def by blast
  moreover have "flags_ok c" by (rule reachable_flags [OF steps assms(3)])
  ultimately show ?thesis using find_case_id [OF assms(3)] by (simp add: closure_evidence_def flags_ok_def)
qed

theorem closed_incidents_keep_their_evidence_witness:
  "\<exists>c. find_case (iw_db (after_requests observation_requests)) id1 = Some c \<and> ic_status c = S_CLOSED \<and>
     ic_classification c \<noteq> None"
proof -
  obtain c where c: "find_case (iw_db (after_requests observation_requests)) id1 = Some c" "ic_status c = S_CLOSED"
    using observation_run by blast
  from closed_incidents_keep_their_evidence [OF after_requests_reachable env1_inj c(1) disjI1 [OF c(2)]] c
  show ?thesis by blast
qed

text \<open>C28. Closing succeeds, with the incident \<open>CLOSED\<close> and its closing time set, exactly when a QMB (or
  administrator) asks, the incident is documentation only, assessed or in closure review, it was assessed, none
  of its inquiries is open, when it needs a CAPA there is a root cause analysis and a CAPA record, every action is
  completed and the latest effectiveness review is completed and not ineffective, and when it needs the leadership
  its latest forwarding is acknowledged. Nothing else blocks: the status of the CAPA is not looked at, although
  \<open>INCIDENT_MANAGEMENT_ARCHITECTURE_CONTRACT.md\<close> lists an open CAPA among the blockers; the witness closes an
  incident whose CAPA is in progress.\<close>

theorem closing_succeeds_exactly_when_closable:
  assumes "incident_reachable env w" and "inj (inc_hex env)" and "find_case (iw_db w) i = Some c"
  shows "(\<exists>x w'. close_incident env user i w = (Inr x, w') \<and> find_case (iw_db w') i = Some x \<and>
       ic_status x = S_CLOSED \<and> ic_closed_at x \<noteq> None) \<longleftrightarrow>
     is_qmb user \<and> ic_status c \<in> {S_DOCUMENTATION_ONLY, S_ASSESSED, S_CLOSURE_REVIEW} \<and> ic_classification c \<noteq> None \<and>
     (\<forall>q \<in> set (db_inquiries (iw_db w)). iq_incident_id q = i \<longrightarrow> iq_status q \<noteq> InqOPEN) \<and>
     (ic_capa_required c = Some True \<longrightarrow>
        i \<in> set (map rc_incident_id (db_rcas (iw_db w))) \<and> i \<in> set (map cp_incident_id (db_capas (iw_db w))) \<and>
        (\<forall>a \<in> set (db_actions (iw_db w)). ia_incident_id a = i \<longrightarrow> ia_status a = ActCOMPLETED) \<and>
        (\<exists>v. get_effectiveness_review i (iw_db w) = Some v \<and> er_status v = RevCOMPLETED \<and> er_effective v \<noteq> Some False)) \<and>
     (ic_leadership_required c \<longrightarrow> (\<exists>a. get_leadership_ack i (iw_db w) = Some a \<and> la_status a = AckACKNOWLEDGED))"
proof -
  have keys: "incident_keys env (iw_db w) (iw_ids w)" using reachable_keys_and_steps assms(1,2) by blast
  have "closes \<longleftrightarrow> is_qmb user \<and> closable (iw_db w) c"
    if "closes \<longleftrightarrow> (\<exists>x w'. close_incident env user i w = (Inr x, w') \<and> find_case (iw_db w') i = Some x \<and>
       ic_status x = S_CLOSED \<and> ic_closed_at x \<noteq> None)" for closes
    unfolding that using close_ok [OF keys assms(2) _ assms(3)] close_needs [OF _ assms(3)] by blast
  then show ?thesis using find_case_id [OF assms(3)] unfolding closable_def validate_closure_iff by simp
qed

theorem closing_succeeds_exactly_when_closable_witness:
  "\<exists>x p w'. close_incident env1 qmb_user id1 cw10 = (Inr x, w') \<and> find_case (iw_db w') id1 = Some x \<and> ic_status x = S_CLOSED \<and>
     get_capa id1 (iw_db cw10) = Some p \<and> cp_status p = CapaIN_PROGRESS"
proof -
  obtain c p where c: "find_case (iw_db cw10) id1 = Some c" "ic_status c = S_CLOSURE_REVIEW" "validate_closure (iw_db cw10) c = Inr ()"
      "get_capa id1 (iw_db cw10) = Some p" "cp_status p = CapaIN_PROGRESS"
    using capa_in_progress_run by blast
  note ok = c(3) [unfolded validate_closure_iff find_case_id [OF c(1)]]
  have "\<exists>x w'. close_incident env1 qmb_user id1 cw10 = (Inr x, w') \<and>
      find_case (iw_db w') id1 = Some x \<and> ic_status x = S_CLOSED \<and> ic_closed_at x \<noteq> None"
    by (rule iffD2 [OF closing_succeeds_exactly_when_closable [OF cw10_reachable env1_inj c(1)]])
      (use qmb_user_ok c(2) ok in blast)
  with c(4,5) show ?thesis by blast
qed

text \<open>C29. No sequence of requests deletes an incident, changes its number, reporter, report time or creation
  time, reopens a closed one or takes one out of the archive.\<close>

theorem closed_incidents_stay_closed:
  assumes "incident_reachable env w" and "inj (inc_hex env)" and "find_case (iw_db w) i = Some c"
  shows "\<exists>d. find_case (iw_db (run_all env reqs w)) i = Some d \<and> ic_incident_id d = ic_incident_id c \<and>
    ic_reporter_user_id d = ic_reporter_user_id c \<and> ic_reported_at d = ic_reported_at c \<and> ic_created_at d = ic_created_at c \<and>
    (ic_status c = S_CLOSED \<longrightarrow> ic_status d = S_CLOSED \<or> ic_status d = S_ARCHIVED) \<and>
    (ic_status c = S_ARCHIVED \<longrightarrow> ic_status d = S_ARCHIVED)"
proof -
  have "incident_keys env (iw_db w) (iw_ids w)" using reachable_keys_and_steps assms(1,2) by blast
  note steps = run_all_steps [OF assms(2) this, of reqs]
  obtain d where "find_case (iw_db (run_all env reqs w)) i = Some d" "same_identity c d"
    using identity_stays [OF steps assms(3)] by blast
  with archived_stays [OF steps assms(3)] show ?thesis by (auto simp: same_identity_def)
qed

theorem closed_incidents_stay_closed_witness:
  "\<forall>reqs. \<exists>d. find_case (iw_db (run_all env1 reqs (after_requests observation_requests))) id1 = Some d \<and>
     (ic_status d = S_CLOSED \<or> ic_status d = S_ARCHIVED)"
proof
  fix reqs
  obtain c where c: "find_case (iw_db (after_requests observation_requests)) id1 = Some c" "ic_status c = S_CLOSED"
    using observation_run by blast
  from closed_incidents_stay_closed [OF after_requests_reachable env1_inj c(1), of reqs] c(2)
  show "\<exists>d. find_case (iw_db (run_all env1 reqs (after_requests observation_requests))) id1 = Some d \<and>
     (ic_status d = S_CLOSED \<or> ic_status d = S_ARCHIVED)" by blast
qed

section \<open>Numbers and input\<close>

text \<open>An accepted submission gets the next free number of its report day: the identifier is in no row, the case
  is appended as it was reported, submitted, by the caller; no other case changes.\<close>

theorem submission_gets_a_new_number:
  assumes "incident_reachable env w" and "inj (inc_hex env)" and "user = Some u" and "validate_submission s = Inr ()"
    and "validate_submission_against_settings s settings = Inr ()"
  shows "\<exists>x w'. submit_incident env settings user s w = (Inr x, w') \<and>
    ic_incident_id x = format_incident_id (is_reported_at s) (counter_of (iw_db w) (report_date_key (is_reported_at s))) \<and>
    ic_status x = S_SUBMITTED \<and> ic_reporter_user_id x = iu_user_id u \<and>
    ic_incident_id x \<notin> case_ids (iw_db w) \<and> db_cases (iw_db w') = db_cases (iw_db w) @ [x]"
proof -
  have "incident_keys env (iw_db w) (iw_ids w)" using reachable_keys_and_steps assms(1,2) by blast
  from submit_ok [OF this assms(2,3,4,5)] show ?thesis .
qed

theorem submission_gets_a_new_number_witness:
  "\<exists>x w'. submit_incident env1 no_settings reporter sample_submission (after_requests observation_requests) = (Inr x, w') \<and>
     ic_incident_id x \<notin> case_ids (iw_db (after_requests observation_requests))"
proof -
  obtain u where u: "reporter = Some u" by (simp add: reporter_def)
  have "validate_submission sample_submission = Inr ()"
    and "validate_submission_against_settings sample_submission no_settings = Inr ()"
    by (simp_all add: sample_defs incident_pure_evals)
  from submission_gets_a_new_number [OF after_requests_reachable env1_inj u this] show ?thesis by blast
qed

text \<open>The text of an incident number is unambiguous: it splits at its first underscore into the date key and
  digits that read as the number again, also past 9999.\<close>

theorem incident_number_reads_back:
  assumes "0 \<le> n"
  shows "takeWhile (\<lambda>c. c \<noteq> CHR ''_'') (format_incident_id t n) = report_date_key t \<and>
    int (decimal_value (tl (dropWhile (\<lambda>c. c \<noteq> CHR ''_'') (format_incident_id t n)))) = n"
proof -
  have "format_incident_id t n = report_date_key t @ CHR ''_'' # pad_int 4 n" by (simp add: format_incident_id_def)
  moreover have "\<forall>c \<in> set (report_date_key t). c \<noteq> CHR ''_''" using report_date_key_plain [of t] by metis
  ultimately show ?thesis using assms by (simp add: takeWhile_append2 dropWhile_append2 takeWhile_tail decimal_value_pad)
qed

theorem incident_number_reads_back_witness:
  "int (decimal_value (tl (dropWhile (\<lambda>c. c \<noteq> CHR ''_'') (format_incident_id (utc_datetime 0) 12345)))) = 12345"
  using incident_number_reads_back [of 12345 "utc_datetime 0"] by simp

text \<open>Whether an assessment demands a CAPA: exactly when the assessor asks for it, or one of the seven flags is
  set whose rule the settings do not switch off; a rule that is missing from the settings is on.\<close>

theorem capa_follows_the_rules:
  "derive_capa_required a settings \<longleftrightarrow>
     as_capa_required a \<or> (\<exists>(key, flag) \<in> set (capa_triggers a). flag \<and> map_of (st_capa_rules settings) key \<noteq> Some False)"
  by (rule derive_capa_triggers)

text \<open>The requests of the QMB are refused to everyone else before they touch anything: no row, no file, no audit
  record, no event, not even a reading of the clock.\<close>

theorem qmb_requests_are_guarded:
  assumes "\<not> is_qmb user" and "qmb_request req"
  shows "run_incident env settings user req w = (Inl (IncAuthorizationError ''QMB role required''), w)"
  using assms by (rule guarded_request)

theorem qmb_requests_are_guarded_witness:
  "run1 leader_user (CloseIncident id1) (after_requests observation_requests) =
     (Inl (IncAuthorizationError ''QMB role required''), after_requests observation_requests)"
proof -
  have "\<not> is_qmb leader_user"
    by (simp add: is_qmb_def user_role_def normalize_system_role_def leader_user_def py_lower_def lower_char_def)
  from qmb_requests_are_guarded [OF this, of "CloseIncident id1"] show ?thesis by simp
qed

section \<open>Where operations fall short\<close>

text \<open>An incident that needs no CAPA and is in action or root cause work never leaves that status again, whatever
  requests follow: only the effectiveness review leads on, and planning one demands a CAPA. It can never be
  closed.\<close>

theorem incidents_without_capa_get_stuck:
  assumes "incident_reachable env w" and "inj (inc_hex env)" and "find_case (iw_db w) i = Some c"
    and "ic_status c \<in> {S_ACTIONS_IN_PROGRESS, S_ROOT_CAUSE_IN_PROGRESS}" and "ic_capa_required c \<noteq> Some True"
  shows "\<exists>d. find_case (iw_db (run_all env reqs w)) i = Some d \<and> ic_status d = ic_status c"
proof -
  have "incident_keys env (iw_db w) (iw_ids w)" using reachable_keys_and_steps assms(1,2) by blast
  note steps = run_all_steps [OF assms(2) this, of reqs]
  show ?thesis using dead_end_stays [OF steps assms(3)] assms(4,5) by (auto simp: dead_end_def)
qed

theorem incidents_without_capa_get_stuck_witness:
  "\<forall>reqs. \<exists>d. find_case (iw_db (run_all env1 reqs (after_requests action_requests))) id1 = Some d \<and>
     ic_status d = S_ACTIONS_IN_PROGRESS"
proof
  fix reqs
  obtain c where c: "find_case (iw_db (after_requests action_requests)) id1 = Some c" "ic_status c = S_ACTIONS_IN_PROGRESS"
    "ic_capa_required c = Some False"
    using action_run by blast
  with incidents_without_capa_get_stuck [OF after_requests_reachable env1_inj c(1), of reqs]
  show "\<exists>d. find_case (iw_db (run_all env1 reqs (after_requests action_requests))) id1 = Some d \<and>
     ic_status d = S_ACTIONS_IN_PROGRESS" by simp
qed

text \<open>The result of an effectiveness review is written before the status is checked: outside the two review
  states the caller gets a validation error, and the new verdict has replaced the stored one all the same,
  even on a closed incident.\<close>

theorem refused_review_still_overwrites:
  assumes "is_qmb user" and "get_effectiveness_review i (iw_db w) = Some v" and "find_case (iw_db w) i = Some c"
    and "ic_status c \<notin> {S_EFFECTIVENESS_PLANNED, S_EFFECTIVENESS_REVIEW}"
  shows "\<exists>t w'. complete_effectiveness_review env user i effective outcome notes w = (Inl (IncValidationError t), w') \<and>
    (\<exists>v' \<in> set (db_reviews (iw_db w')). er_review_id v' = er_review_id v \<and> er_status v' = RevCOMPLETED \<and>
       er_effective v' = Some effective \<and> er_result v' = Some outcome)"
  by (rule review_written_before_check [OF assms])

definition closed_case :: incident_case where
  "closed_case = \<lparr>ic_incident_id = id1, ic_status = S_CLOSED, ic_reporter_user_id = ''r'', ic_reported_at = utc_datetime 0,
     ic_title = ''t'', ic_description = ''d'', ic_category = ''c'', ic_labels = [], ic_area = None, ic_process_name = None,
     ic_device = None, ic_classification = Some DEVIATION, ic_is_critical = Some False, ic_criticality_reason = None,
     ic_is_repeated = Some False, ic_capa_required = Some True, ic_capa_reason = None, ic_root_cause_required = Some True,
     ic_group_id = None, ic_leadership_required = True, ic_created_at = 0, ic_updated_at = 1, ic_closed_at = Some 1,
     ic_archived_at = None\<rparr>"

definition past_review :: effectiveness_review where
  "past_review = \<lparr>er_review_id = ''v'', er_incident_id = id1, er_planned_at = utc_datetime 0, er_criteria = ''k'',
     er_completed_at = Some 1, er_completed_by_user_id = Some ''q'', er_result = Some ''ok'', er_effective = Some True,
     er_notes = None, er_status = RevCOMPLETED, er_created_at = 0\<rparr>"

definition reviewed_world :: incident_world where
  "reviewed_world = (empty_incident_world {})\<lparr>iw_db := empty_incident_db\<lparr>db_cases := [closed_case], db_reviews := [past_review]\<rparr>\<rparr>"

lemma reviewed_rows:
  "get_effectiveness_review id1 (iw_db reviewed_world) = Some past_review"
  "find_case (iw_db reviewed_world) id1 = Some closed_case" "ic_status closed_case = S_CLOSED"
  by (simp_all add: reviewed_world_def empty_incident_world_def empty_incident_db_def get_effectiveness_review_def latest_row_def
      find_case_def past_review_def closed_case_def)

theorem refused_review_still_overwrites_witness:
  "er_effective past_review = Some True \<and>
   (\<exists>t w'. complete_effectiveness_review env1 qmb_user id1 False ''bad'' None reviewed_world = (Inl (IncValidationError t), w') \<and>
      (\<exists>v' \<in> set (db_reviews (iw_db w')). er_review_id v' = ''v'' \<and> er_effective v' = Some False))"
  using refused_review_still_overwrites [OF qmb_user_ok reviewed_rows(1,2), of env1 False "''bad''" None] reviewed_rows(3)
  by (auto simp: past_review_def)

text \<open>A CAPA that is started a second time is not stored: the operation answers with a new CAPA identifier that
  is in no row, and the row of the first start is as it was, while status, audit and event report a start.\<close>

theorem restarted_capa_is_lost:
  assumes "incident_reachable env w" and "inj (inc_hex env)" and "get_capa i (iw_db w) = Some p"
    and "start_capa env user i reason goal description w = (Inr q, w')"
  shows "get_capa i (iw_db w') = Some p \<and> cp_capa_id q \<notin> cp_capa_id ` set (db_capas (iw_db w'))"
proof -
  have "incident_keys env (iw_db w) (iw_ids w)" using reachable_keys_and_steps assms(1,2) by blast
  from restarted_capa [OF this assms(2,3,4)] show ?thesis .
qed

theorem restarted_capa_is_lost_witness:
  "\<exists>p q w'. start_capa env1 qmb_user id1 None (Some ''h'') None (after_requests capa_requests) = (Inr q, w') \<and>
     get_capa id1 (iw_db w') = Some p \<and> cp_capa_id q \<notin> cp_capa_id ` set (db_capas (iw_db w'))"
proof -
  obtain p q w' where "get_capa id1 (iw_db (after_requests capa_requests)) = Some p"
    "start_capa env1 qmb_user id1 None (Some ''h'') None (after_requests capa_requests) = (Inr q, w')"
    using capa_run by blast
  with restarted_capa_is_lost [OF after_requests_reachable env1_inj] show ?thesis by blast
qed

text \<open>An inquiry that is refused because of the incident's status stays: the caller gets a validation error, the
  inquiry is open in the database, and from then on the closure checks fail.\<close>

theorem refused_inquiry_stays_open:
  assumes "incident_reachable env w" and "inj (inc_hex env)" and "is_qmb user" and "find_case (iw_db w) i = Some c"
    and "py_strip question \<noteq> []" and "ic_status c \<notin> {S_SUBMITTED, S_QMB_REVIEW, S_INQUIRY_OPEN}"
  shows "\<exists>t w'. open_inquiry env user i question w = (Inl (IncValidationError t), w') \<and>
    count_open_inquiries i (iw_db w') = Suc (count_open_inquiries i (iw_db w)) \<and>
    find_case (iw_db w') i = Some c \<and> validate_closure (iw_db w') c \<noteq> Inr ()"
proof -
  have "incident_keys env (iw_db w) (iw_ids w)" using reachable_keys_and_steps assms(1,2) by blast
  from inquiry_written_before_check [OF this assms(2,3,4,5,6)] show ?thesis
    using open_inquiry_blocks find_case_id [OF assms(4)] by (metis zero_less_Suc)
qed

theorem refused_inquiry_stays_open_witness:
  "\<exists>t w'. open_inquiry env1 qmb_user id1 ''why'' (after_requests (take 2 observation_requests)) = (Inl (IncValidationError t), w') \<and>
     0 < count_open_inquiries id1 (iw_db w')"
proof -
  obtain c where c: "find_case (iw_db (after_requests (take 2 observation_requests))) id1 = Some c"
    "ic_status c = S_DOCUMENTATION_ONLY"
    using observation_assessed by blast
  have "py_strip ''why'' \<noteq> []" by (simp add: incident_pure_evals)
  from refused_inquiry_stays_open [OF after_requests_reachable env1_inj qmb_user_ok c(1) this] c(2)
  show ?thesis by fastforce
qed

end
