(* ===== verification/UserTypes.thy ===== *)
theory UserTypes
  imports Actors Registry DocStorage
begin

text \<open>
  The data of the user management module: accounts and sessions as the PostgreSQL schema keeps them
  (\<open>modules/usermanagement/contracts.py\<close>, \<open>postgres/migrations\<close>), audit events
  (\<open>postgres_audit_repository.py\<close>), the exceptions (\<open>errors.py\<close>), the password policy
  (\<open>password_policy.py\<close>) and the world its operations run in. \<open>bcrypt\<close>, \<open>sha256\<close> and the sources of
  randomness are parameters.
\<close>

section \<open>Exceptions\<close>

datatype um_error =
    UmAuthenticationError string
  | UmInactiveUserError string
  | UmPasswordChangeRequiredError string
  | UmSessionNotFoundError string
  | UmInvalidSessionError string
  | UmExpiredSessionError string
  | UmRevokedSessionError string
  | UmWeakPasswordError string
  | UmAuthorizationError string
  | UmUserNotFoundError string
  | UmUserExistsError string
  | UmLastActiveAdminError string
  | UmInvalidUserUpdateError string
  | UmAuditUnavailableError string
  | UmValueError string
  | UmKeyError string
  | UmDbError string

section \<open>Accounts and sessions\<close>

record authenticated_user =
  us_user_id :: string
  us_username :: string
  us_role :: string
  us_first_name :: "string option"
  us_last_name :: "string option"
  us_display_name :: "string option"
  us_email :: "string option"
  us_department :: "string option"
  us_scope :: "string option"
  us_organization_unit :: "string option"
  us_is_active :: bool
  us_is_qmb :: bool
  us_must_change_password :: bool

text \<open>A row of \<open>usermanagement.users\<close> has these columns besides.\<close>

record account = authenticated_user +
  us_password_hash :: string
  us_deactivated_at :: "time option"
  us_created_at :: time
  us_updated_at :: time

record um_session =
  se_session_id :: string
  se_token_hash :: string
  se_user_id :: string
  se_created_at :: time
  se_last_seen_at :: time
  se_expires_at :: time
  se_client_type :: string
  se_authentication_level :: string
  se_revoked_at :: "time option"

record issued_session =
  is_raw_token :: string
  is_session :: um_session

text \<open>A context that session resolution issues carries the time of the login.\<close>

record session_context = user_context +
  u_authenticated_at :: time

section \<open>Audit events\<close>

datatype audit_actor_kind = ActorUser | ActorSystem | ActorAnonymous

record um_audit_event =
  ax_event_type :: string
  ax_result :: string
  ax_actor_kind :: audit_actor_kind
  ax_occurred_at :: time
  ax_reason_code :: "string option"
  ax_request_id :: string
  ax_actor_user_id :: "string option"
  ax_actor_session_id :: "string option"
  ax_system_actor :: "string option"
  ax_target_user_id :: "string option"
  ax_target_session_id :: "string option"
  ax_affected_session_count :: "nat option"
  ax_changed_fields :: "string list option"
  ax_role_before :: "string option"
  ax_role_after :: "string option"
  ax_is_qmb_before :: "bool option"
  ax_is_qmb_after :: "bool option"
  ax_is_active_before :: "bool option"
  ax_is_active_after :: "bool option"
  ax_must_change_before :: "bool option"
  ax_must_change_after :: "bool option"

text \<open>The keyword arguments an event leaves out.\<close>

definition audit_event_write :: "string \<Rightarrow> string \<Rightarrow> audit_actor_kind \<Rightarrow> string \<Rightarrow> time \<Rightarrow> um_audit_event" where
  "audit_event_write event_type res kind request_id moment =
     \<lparr>ax_event_type = event_type, ax_result = res, ax_actor_kind = kind, ax_occurred_at = moment,
      ax_reason_code = None, ax_request_id = request_id, ax_actor_user_id = None, ax_actor_session_id = None,
      ax_system_actor = None, ax_target_user_id = None, ax_target_session_id = None,
      ax_affected_session_count = None, ax_changed_fields = None, ax_role_before = None, ax_role_after = None,
      ax_is_qmb_before = None, ax_is_qmb_after = None, ax_is_active_before = None, ax_is_active_after = None,
      ax_must_change_before = None, ax_must_change_after = None\<rparr>"

section \<open>The world\<close>

record um_db =
  ud_users :: "account list"
  ud_sessions :: "um_session list"
  ud_audit :: "um_audit_event list"

definition empty_um_db :: um_db where
  "empty_um_db = \<lparr>ud_users = [], ud_sessions = [], ud_audit = []\<rparr>"

record um_world =
  uw_db :: um_db
  uw_events :: "event_envelope list"
  uw_ticks :: nat
  uw_draws :: nat

definition empty_um_world :: um_world where
  "empty_um_world = \<lparr>uw_db = empty_um_db, uw_events = [], uw_ticks = 0, uw_draws = 0\<rparr>"

text \<open>
  The clock, and what the code gets from outside: \<open>uuid4\<close>, \<open>secrets.token_urlsafe\<close>, \<open>sha256\<close>,
  \<open>bcrypt.hashpw\<close> with its salt, \<open>bcrypt.checkpw\<close>.
\<close>

record um_env =
  um_clock :: "nat \<Rightarrow> time"
  um_uuid :: "nat \<Rightarrow> string"
  um_token :: "nat \<Rightarrow> string"
  um_sha256 :: "string \<Rightarrow> string"
  um_hashpw :: "nat \<Rightarrow> string \<Rightarrow> string"
  um_checkpw :: "string \<Rightarrow> string \<Rightarrow> bool"

type_synonym 'a um_meth = "(um_world, um_error, 'a) meth"

definition um_utcnow :: "um_env \<Rightarrow> time um_meth" where
  "um_utcnow env = (\<lambda>w. (Inr (um_clock env (uw_ticks w)), w\<lparr>uw_ticks := Suc (uw_ticks w)\<rparr>))"

definition um_draw :: "(nat \<Rightarrow> 'a) \<Rightarrow> 'a um_meth" where
  "um_draw f = (\<lambda>w. (Inr (f (uw_draws w)), w\<lparr>uw_draws := Suc (uw_draws w)\<rparr>))"

definition um_uuid4 :: "um_env \<Rightarrow> string um_meth" where
  "um_uuid4 env = um_draw (um_uuid env)"

definition generate_session_token :: "um_env \<Rightarrow> string um_meth" where
  "generate_session_token env = um_draw (um_token env)"

definition hash_password :: "um_env \<Rightarrow> string \<Rightarrow> string um_meth" where
  "hash_password env password = um_draw (\<lambda>n. um_hashpw env n password)"

definition hash_session_token :: "um_env \<Rightarrow> string \<Rightarrow> string" where
  "hash_session_token env raw_token = um_sha256 env raw_token"

text \<open>\<open>runtime_connection\<close>: one transaction, committed at the end, rolled back by an exception.\<close>

definition um_transaction :: "'a um_meth \<Rightarrow> 'a um_meth" where
  "um_transaction m = (\<lambda>w. case m w of
       (Inl e, w') \<Rightarrow> (Inl e, w'\<lparr>uw_db := uw_db w\<rparr>)
     | (Inr x, w') \<Rightarrow> (Inr x, w'))"

definition um_read :: "(um_db \<Rightarrow> 'a) \<Rightarrow> 'a um_meth" where
  "um_read f = readM (\<lambda>w. f (uw_db w))"

definition um_write :: "(um_db \<Rightarrow> um_db) \<Rightarrow> unit um_meth" where
  "um_write f = modifyM (\<lambda>w. w\<lparr>uw_db := f (uw_db w)\<rparr>)"

section \<open>Passwords\<close>

definition is_password_hash :: "string \<Rightarrow> bool" where
  "is_password_hash s \<longleftrightarrow> starts_with s ''$2a$'' \<or> starts_with s ''$2b$'' \<or> starts_with s ''$2y$''"

definition verify_password :: "um_env \<Rightarrow> string \<Rightarrow> string \<Rightarrow> bool" where
  "verify_password env stored_password provided =
     (if is_password_hash stored_password then um_checkpw env provided stored_password else provided = stored_password)"

record password_policy =
  pp_min_length :: nat
  pp_require_letter :: bool
  pp_require_digit :: bool
  pp_require_uppercase :: bool
  pp_require_special :: bool

text \<open>\<open>isdigit\<close>, \<open>isalpha\<close> and \<open>isupper\<close> of code points below 256.\<close>

definition py_digit :: "char \<Rightarrow> bool" where
  "py_digit c \<longleftrightarrow> (let n = (of_char c :: nat) in (48 \<le> n \<and> n \<le> 57) \<or> n \<in> {178, 179, 185})"

definition py_alpha :: "char \<Rightarrow> bool" where
  "py_alpha c \<longleftrightarrow> py_alnum c \<and> \<not> py_digit c \<and> (of_char c :: nat) \<notin> {188, 189, 190}"

definition py_isupper :: "char \<Rightarrow> bool" where
  "py_isupper c \<longleftrightarrow> (let n = (of_char c :: nat) in (65 \<le> n \<and> n \<le> 90) \<or> (192 \<le> n \<and> n \<le> 222 \<and> n \<noteq> 215))"

definition validate_password :: "password_policy \<Rightarrow> string \<Rightarrow> um_error + unit" where
  "validate_password policy password =
     (let v = py_strip password; weak = UmWeakPasswordError ''password does not meet policy'' in
      bindE (raise_if (v = []) weak) (\<lambda>_.
      bindE (raise_if (length v < pp_min_length policy) weak) (\<lambda>_.
      bindE (raise_if (pp_require_letter policy \<and> \<not> list_ex py_alpha v) weak) (\<lambda>_.
      bindE (raise_if (pp_require_digit policy \<and> \<not> list_ex py_digit v) weak) (\<lambda>_.
      bindE (raise_if (pp_require_uppercase policy \<and> \<not> list_ex py_isupper v) weak) (\<lambda>_.
      raise_if (pp_require_special policy \<and> \<not> list_ex (\<lambda>c. \<not> py_alnum c \<and> \<not> py_space c) v) weak))))))"

end
