(* ===== verification/UserStore.thy ===== *)
theory UserStore
  imports UserTypes "HOL-Library.Char_ord" "HOL-Library.List_Lexorder" "HOL-Library.Product_Lexorder"
begin

text \<open>
  The PostgreSQL repositories of the user management module, one definition per method:
  \<open>postgres_user_repository.py\<close>, \<open>postgres_session_repository.py\<close> and
  \<open>postgres_audit_repository.py\<close>, with the constraints of the schema. A violated constraint is a
  \<open>UmDbError\<close> with the name of the exception of \<open>psycopg\<close>.
\<close>

section \<open>Users\<close>

definition user_from_row :: "account \<Rightarrow> authenticated_user" where
  "user_from_row r = authenticated_user.truncate r"

definition same_username :: "string \<Rightarrow> account \<Rightarrow> bool" where
  "same_username username r \<longleftrightarrow> py_lower (us_username r) = py_lower username"

definition user_row :: "um_db \<Rightarrow> string \<Rightarrow> account option" where
  "user_row db username = find (same_username username) (ud_users db)"

definition get_by_username :: "um_db \<Rightarrow> string \<Rightarrow> (string \<times> string \<times> string) option" where
  "get_by_username db username =
     map_option (\<lambda>r. (us_user_id r, us_password_hash r, us_role r)) (user_row db username)"

definition get_user :: "um_db \<Rightarrow> string \<Rightarrow> authenticated_user option" where
  "get_user db username = map_option user_from_row (user_row db username)"

definition list_users :: "um_db \<Rightarrow> authenticated_user list" where
  "list_users db = map user_from_row (sort_key (\<lambda>r. (py_lower (us_username r), us_user_id r)) (ud_users db))"

text \<open>\<open>_ServiceUserByIdLookup.get_user_by_id\<close> walks the list of users.\<close>

definition get_user_by_id :: "um_db \<Rightarrow> string \<Rightarrow> authenticated_user option" where
  "get_user_by_id db user_id = find (\<lambda>u. us_user_id u = user_id) (list_users db)"

definition strip_or_none :: "string option \<Rightarrow> string option" where
  "strip_or_none x = (let s = py_strip (case x of None \<Rightarrow> [] | Some v \<Rightarrow> v) in if s = [] then None else Some s)"

text \<open>\<open>display_name.split(",", 1)\<close> cuts at the first comma.\<close>

definition display_values ::
  "string option \<Rightarrow> string option \<Rightarrow> string option \<Rightarrow> string option \<times> string option \<times> string option" where
  "display_values first_name last_name display_name =
     (let first0 = strip_or_none first_name; last0 = strip_or_none last_name;
          use_display = (first0 = None \<and> last0 = None \<and> truthy display_name);
          text = (case display_name of None \<Rightarrow> [] | Some d \<Rightarrow> d);
          first1 = (if use_display then strip_or_none (Some (takeWhile (\<lambda>c. c \<noteq> CHR '','') text)) else first0);
          last1 = (if use_display then strip_or_none (Some (tl (dropWhile (\<lambda>c. c \<noteq> CHR '','') text))) else last0);
          display = (case (first1, last1) of
              (None, None) \<Rightarrow> None | (Some a, None) \<Rightarrow> Some a | (None, Some b) \<Rightarrow> Some b
            | (Some a, Some b) \<Rightarrow> Some (a @ '', '' @ b))
      in (first1, last1, display))"

definition create_user_row ::
  "um_env \<Rightarrow> string \<Rightarrow> string \<Rightarrow> string \<Rightarrow> bool \<Rightarrow> bool \<Rightarrow> bool \<Rightarrow> string option \<Rightarrow> string option \<Rightarrow> string option \<Rightarrow>
   authenticated_user um_meth" where
  "create_user_row env username password role active qmb must_change first_name last_name email =
     (let (first, last, display) = display_values first_name last_name None in
      bindM (um_utcnow env) (\<lambda>now.
      bindM (um_uuid4 env) (\<lambda>user_id.
      bindM (hash_password env password) (\<lambda>hashed.
      let row = \<lparr>us_user_id = user_id, us_username = username, us_role = role,
            us_first_name = or_str first (Some username), us_last_name = last,
            us_display_name = or_str display (Some username), us_email = strip_or_none email,
            us_department = None, us_scope = None, us_organization_unit = None,
            us_is_active = active, us_is_qmb = qmb, us_must_change_password = must_change,
            us_password_hash = hashed, us_deactivated_at = None, us_created_at = now, us_updated_at = now\<rparr> in
      bindM (um_read ud_users) (\<lambda>rows.
      bindM (liftE (raise_if (list_ex (\<lambda>r. us_user_id r = user_id \<or> same_username username r) rows)
        (UmDbError ''UniqueViolation''))) (\<lambda>_.
      bindM (um_write (ud_users_update (\<lambda>rs. rs @ [row]))) (\<lambda>_.
      retM (user_from_row row))))))))"

text \<open>\<open>UPDATE ... WHERE lower(username) = lower(%s) RETURNING user_id\<close>, a \<open>KeyError\<close> without a row.\<close>

definition update_by_username :: "string \<Rightarrow> (account \<Rightarrow> account) \<Rightarrow> account um_meth" where
  "update_by_username username f =
     bindM (um_write (ud_users_update (map (\<lambda>r. if same_username username r then f r else r)))) (\<lambda>_.
     bindM (um_read (\<lambda>db. user_row db username)) (\<lambda>row.
     case row of None \<Rightarrow> raiseM (UmKeyError (''unknown user: '' @ username)) | Some r \<Rightarrow> retM r))"

definition change_password_row :: "um_env \<Rightarrow> string \<Rightarrow> string \<Rightarrow> unit um_meth" where
  "change_password_row env username new_password =
     bindM (hash_password env new_password) (\<lambda>hashed.
     bindM (um_utcnow env) (\<lambda>now.
     bindM (update_by_username username (\<lambda>r. r\<lparr>us_password_hash := hashed, us_must_change_password := False,
       us_updated_at := now\<rparr>)) (\<lambda>_. retM ())))"

definition set_must_change_row :: "um_env \<Rightarrow> string \<Rightarrow> bool \<Rightarrow> unit um_meth" where
  "set_must_change_row env username must_change =
     bindM (um_utcnow env) (\<lambda>now.
     bindM (update_by_username username (\<lambda>r. r\<lparr>us_must_change_password := must_change, us_updated_at := now\<rparr>)) (\<lambda>_.
     retM ()))"

definition update_profile_row ::
  "um_env \<Rightarrow> string \<Rightarrow> string option \<Rightarrow> string option \<Rightarrow> string option \<Rightarrow> string option \<Rightarrow> authenticated_user um_meth" where
  "update_profile_row env username first_name last_name email display_name =
     (let (first, last, display) = display_values first_name last_name display_name in
      bindM (um_utcnow env) (\<lambda>now.
      bindM (update_by_username username (\<lambda>r. r\<lparr>us_first_name := first, us_last_name := last,
        us_display_name := display, us_email := strip_or_none email, us_updated_at := now\<rparr>)) (\<lambda>row.
      retM (user_from_row row))))"

text \<open>The \<open>SELECT COUNT\<close> compares the role without stripping it.\<close>

definition other_active_admins :: "um_db \<Rightarrow> string \<Rightarrow> account list" where
  "other_active_admins db user_id =
     filter (\<lambda>r. us_is_active r \<and> py_upper (us_role r) = ''ADMIN'' \<and> us_user_id r \<noteq> user_id) (ud_users db)"

record access_change =
  xc_department :: "string option"
  xc_scope :: "string option"
  xc_organization_unit :: "string option"
  xc_role :: "string option"
  xc_is_active :: "bool option"
  xc_is_qmb :: "bool option"

definition value_or :: "'a option \<Rightarrow> 'a \<Rightarrow> 'a" where
  "value_or x y = (case x of None \<Rightarrow> y | Some v \<Rightarrow> v)"

definition update_admin_fields_row :: "um_env \<Rightarrow> string \<Rightarrow> access_change \<Rightarrow> authenticated_user um_meth" where
  "update_admin_fields_row env username c =
     bindM (um_read (\<lambda>db. user_row db username)) (\<lambda>found.
     case found of
       None \<Rightarrow> raiseM (UmKeyError (''unknown user: '' @ username))
     | Some current \<Rightarrow>
         let next_active = value_or (xc_is_active c) (us_is_active current);
             next_role = value_or (xc_role c) (us_role current) in
         bindM (if next_active then retM None
                else if us_is_active current then bindM (um_utcnow env) (\<lambda>t. retM (Some t))
                else retM (us_deactivated_at current)) (\<lambda>deactivated_at.
         bindM (um_read (\<lambda>db. other_active_admins db (us_user_id current))) (\<lambda>others.
         bindM (liftE (raise_if
             (us_is_active current \<and> normalize_base_role (Some (us_role current)) = ''ADMIN'' \<and>
              (\<not> next_active \<or> normalize_base_role (Some next_role) \<noteq> ''ADMIN'') \<and> others = [])
             (UmLastActiveAdminError ''cannot remove the last active admin''))) (\<lambda>_.
         bindM (um_utcnow env) (\<lambda>now.
         let row = current\<lparr>us_department := or_opt (xc_department c) (us_department current),
               us_scope := or_opt (xc_scope c) (us_scope current),
               us_organization_unit := or_opt (xc_organization_unit c) (us_organization_unit current),
               us_role := next_role, us_is_active := next_active, us_deactivated_at := deactivated_at,
               us_is_qmb := value_or (xc_is_qmb c) (us_is_qmb current), us_updated_at := now\<rparr> in
         bindM (um_write (ud_users_update (map (\<lambda>r. if us_user_id r = us_user_id current then row else r)))) (\<lambda>_.
         retM (user_from_row row)))))))"

section \<open>Sessions\<close>

definition session_row_ok :: "um_session \<Rightarrow> bool" where
  "session_row_ok s \<longleftrightarrow> se_created_at s < se_expires_at s \<and> se_created_at s \<le> se_last_seen_at s \<and>
     (case se_revoked_at s of None \<Rightarrow> True | Some t \<Rightarrow> se_created_at s \<le> t)"

definition add_session :: "um_session \<Rightarrow> unit um_meth" where
  "add_session s =
     bindM (um_read id) (\<lambda>db.
     bindM (liftE (raise_if (\<not> session_row_ok s) (UmDbError ''CheckViolation''))) (\<lambda>_.
     bindM (liftE (raise_if (list_ex (\<lambda>r. se_session_id r = se_session_id s \<or> se_token_hash r = se_token_hash s) (ud_sessions db))
       (UmDbError ''UniqueViolation''))) (\<lambda>_.
     bindM (liftE (raise_if (\<not> list_ex (\<lambda>r. us_user_id r = se_user_id s) (ud_users db))
       (UmDbError ''ForeignKeyViolation''))) (\<lambda>_.
     um_write (ud_sessions_update (\<lambda>rs. rs @ [s]))))))"

definition get_by_token_hash :: "um_db \<Rightarrow> string \<Rightarrow> um_session option" where
  "get_by_token_hash db token_hash = find (\<lambda>s. se_token_hash s = token_hash) (ud_sessions db)"

text \<open>
  \<open>WHERE session_id = %s::uuid\<close>, for identifiers in the canonical form that \<open>uuid4\<close> prints, on which the cast is
  the identity. Other text is outside the model: PostgreSQL rejects it or reads it as another spelling.
\<close>

definition get_by_session_id :: "um_db \<Rightarrow> string \<Rightarrow> um_session option" where
  "get_by_session_id db session_id = find (\<lambda>s. se_session_id s = session_id) (ud_sessions db)"

text \<open>\<open>UPDATE usermanagement.sessions\<close> of the rows that satisfy a condition, under the \<open>CHECK\<close>s.\<close>

definition update_sessions :: "(um_session \<Rightarrow> bool) \<Rightarrow> (um_session \<Rightarrow> um_session) \<Rightarrow> um_session list um_meth" where
  "update_sessions P f =
     bindM (um_read (\<lambda>db. map f (filter P (ud_sessions db)))) (\<lambda>rows.
     bindM (liftE (raise_if (\<not> list_all session_row_ok rows) (UmDbError ''CheckViolation''))) (\<lambda>_.
     bindM (um_write (ud_sessions_update (map (\<lambda>s. if P s then f s else s)))) (\<lambda>_.
     retM rows)))"

definition touch_session :: "string \<Rightarrow> time \<Rightarrow> um_session option um_meth" where
  "touch_session session_id moment = um_transaction (
     bindM (update_sessions (\<lambda>s. se_session_id s = session_id \<and> se_revoked_at s = None)
       (\<lambda>s. s\<lparr>se_last_seen_at := max (se_last_seen_at s) moment\<rparr>)) (\<lambda>rows.
     case rows of s # _ \<Rightarrow> retM (Some s) | [] \<Rightarrow> um_read (\<lambda>db. get_by_session_id db session_id)))"

definition revoke_row :: "string \<Rightarrow> time \<Rightarrow> um_session option um_meth" where
  "revoke_row session_id moment =
     bindM (update_sessions (\<lambda>s. se_session_id s = session_id \<and> se_revoked_at s = None)
       (\<lambda>s. s\<lparr>se_revoked_at := Some moment\<rparr>)) (\<lambda>rows.
     case rows of s # _ \<Rightarrow> retM (Some s) | [] \<Rightarrow> um_read (\<lambda>db. get_by_session_id db session_id))"

definition by_creation :: "um_session list \<Rightarrow> um_session list" where
  "by_creation rows = sort_key (\<lambda>s. (se_created_at s, se_session_id s)) rows"

definition revoke_all_rows :: "string \<Rightarrow> time \<Rightarrow> um_session list um_meth" where
  "revoke_all_rows user_id moment =
     bindM (update_sessions (\<lambda>s. se_user_id s = user_id \<and> se_revoked_at s = None)
       (\<lambda>s. s\<lparr>se_revoked_at := Some moment\<rparr>)) (\<lambda>rows. retM (by_creation rows))"

definition revoke_other_rows :: "string \<Rightarrow> string \<Rightarrow> time \<Rightarrow> um_session list um_meth" where
  "revoke_other_rows user_id keep_session_id moment =
     bindM (update_sessions (\<lambda>s. se_user_id s = user_id \<and> se_revoked_at s = None \<and> se_session_id s \<noteq> keep_session_id)
       (\<lambda>s. s\<lparr>se_revoked_at := Some moment\<rparr>)) (\<lambda>rows. retM (by_creation rows))"

section \<open>Audit\<close>

text \<open>The constraints of \<open>usermanagement.audit_events\<close>: references, form of the actor, request id.\<close>

definition refers_to :: "('r \<Rightarrow> string) \<Rightarrow> 'r list \<Rightarrow> string option \<Rightarrow> bool" where
  "refers_to key rows x \<longleftrightarrow> (case x of None \<Rightarrow> True | Some k \<Rightarrow> list_ex (\<lambda>r. key r = k) rows)"

definition actor_form :: "um_audit_event \<Rightarrow> bool" where
  "actor_form e \<longleftrightarrow> (case ax_actor_kind e of
       ActorUser \<Rightarrow> ax_actor_user_id e \<noteq> None \<and> ax_actor_session_id e \<noteq> None \<and> ax_system_actor e = None
     | ActorSystem \<Rightarrow> ax_system_actor e = Some ''qmtool.session-expiry'' \<and> ax_actor_user_id e = None \<and> ax_actor_session_id e = None
     | ActorAnonymous \<Rightarrow> ax_actor_user_id e = None \<and> ax_actor_session_id e = None \<and> ax_system_actor e = None)"

definition audit_row_ok :: "um_db \<Rightarrow> um_audit_event \<Rightarrow> bool" where
  "audit_row_ok db e \<longleftrightarrow> py_strip (ax_request_id e) \<noteq> [] \<and> actor_form e \<and>
     refers_to us_user_id (ud_users db) (ax_actor_user_id e) \<and> refers_to us_user_id (ud_users db) (ax_target_user_id e) \<and>
     refers_to se_session_id (ud_sessions db) (ax_actor_session_id e) \<and>
     refers_to se_session_id (ud_sessions db) (ax_target_session_id e)"

definition expiry_recorded :: "um_db \<Rightarrow> um_audit_event \<Rightarrow> bool" where
  "expiry_recorded db e \<longleftrightarrow> ax_event_type e = ''auth.session.expired'' \<and> ax_target_session_id e \<noteq> None \<and>
     list_ex (\<lambda>a. ax_event_type a = ''auth.session.expired'' \<and> ax_target_session_id a = ax_target_session_id e) (ud_audit db)"

text \<open>The draw is the \<open>audit_id\<close>; every failure of the insert is an \<open>AuditUnavailableError\<close>.\<close>

definition insert_audit :: "um_env \<Rightarrow> bool \<Rightarrow> um_audit_event \<Rightarrow> bool um_meth" where
  "insert_audit env on_conflict_do_nothing e =
     bindM (um_uuid4 env) (\<lambda>_.
     bindM (um_read id) (\<lambda>db.
     bindM (liftE (raise_if (\<not> audit_row_ok db e) (UmAuditUnavailableError ''audit evidence unavailable''))) (\<lambda>_.
     if expiry_recorded db e
     then (if on_conflict_do_nothing then retM False
           else raiseM (UmAuditUnavailableError ''audit evidence unavailable''))
     else bindM (um_write (ud_audit_update (\<lambda>es. es @ [e\<lparr>ax_request_id := py_strip (ax_request_id e)\<rparr>]))) (\<lambda>_. retM True))))"

end
