(* ===== verification/UserOps.thy ===== *)
theory UserOps
  imports UserStore
begin

text \<open>
  The operations of the user management module over the PostgreSQL repositories: the transactions of
  \<open>UserManagementService\<close> (\<open>service.py\<close>), the opaque sessions of \<open>session_ops.py\<close> and the account
  operations of \<open>user_admin_ops.py\<close>. The parameter \<open>now\<close> is left out: the public API
  (\<open>modules/usermanagement/api.py\<close>) never passes it. Events go to the bus, audit events into the table.
\<close>

section \<open>Actors\<close>

definition require_admin_actor :: "user_context \<Rightarrow> um_error + unit" where
  "require_admin_actor actor =
     bindE (raise_if (\<not> u_confirmed actor) (UmInvalidSessionError ''user context is not server-confirmed'')) (\<lambda>_.
     raise_if (\<not> can_administer_users actor) (UmAuthorizationError ''admin role required''))"

definition require_confirmed :: "user_context \<Rightarrow> um_error + unit" where
  "require_confirmed context =
     raise_if (\<not> u_confirmed context) (UmInvalidSessionError ''user context is not server-confirmed'')"

definition is_admin_user :: "authenticated_user \<Rightarrow> bool" where
  "is_admin_user user \<longleftrightarrow> normalize_base_role (Some (us_role user)) = ''ADMIN''"

definition session_lifetime :: time where
  "session_lifetime = 12 * 60 * 60 * 1000000"

text \<open>The audit event of an operation that a user made.\<close>

definition by_context :: "user_context \<Rightarrow> string \<Rightarrow> string \<Rightarrow> time \<Rightarrow> um_audit_event" where
  "by_context actor event_type target moment =
     (audit_event_write event_type ''succeeded'' ActorUser (u_request_id actor) moment)
       \<lparr>ax_actor_user_id := Some (u_user_id actor), ax_actor_session_id := Some (u_session_id actor),
        ax_target_user_id := Some target\<rparr>"

section \<open>Login and logout\<close>

definition login_denied :: "um_env \<Rightarrow> string \<Rightarrow> time \<Rightarrow> string \<Rightarrow> string option \<Rightarrow> issued_session option um_meth" where
  "login_denied env request_id moment reason target =
     bindM (insert_audit env False ((audit_event_write ''auth.login.denied'' ''denied'' ActorAnonymous request_id moment)
       \<lparr>ax_reason_code := Some reason, ax_target_user_id := target\<rparr>)) (\<lambda>_. retM None)"

definition login_transaction ::
  "um_env \<Rightarrow> string \<Rightarrow> string \<Rightarrow> string \<Rightarrow> time \<Rightarrow> issued_session option um_meth" where
  "login_transaction env username password request_id moment =
     bindM (um_read (\<lambda>db. get_by_username db username)) (\<lambda>found.
     case found of
       None \<Rightarrow> login_denied env request_id moment ''unknown_user'' None
     | Some (user_id, expected_password, _) \<Rightarrow>
         if \<not> verify_password env expected_password password
         then login_denied env request_id moment ''wrong_password'' (Some user_id)
         else
           bindM (whenM (\<not> is_password_hash expected_password) (change_password_row env username password)) (\<lambda>_.
           bindM (um_read (\<lambda>db. get_user db username)) (\<lambda>loaded.
           case loaded of
             None \<Rightarrow> login_denied env request_id moment ''inactive_user'' (Some user_id)
           | Some user \<Rightarrow>
               if \<not> us_is_active user
               then login_denied env request_id moment ''inactive_user'' (Some user_id)
               else
                 bindM (generate_session_token env) (\<lambda>raw_token.
                 bindM (um_uuid4 env) (\<lambda>session_id.
                 let session = \<lparr>se_session_id = session_id, se_token_hash = hash_session_token env raw_token,
                       se_user_id = us_user_id user, se_created_at = moment, se_last_seen_at = moment,
                       se_expires_at = moment + session_lifetime, se_client_type = ''backend'',
                       se_authentication_level = ''password'', se_revoked_at = None\<rparr> in
                 bindM (add_session session) (\<lambda>_.
                 bindM (insert_audit env False
                   ((audit_event_write ''auth.login.succeeded'' ''succeeded'' ActorUser request_id moment)
                     \<lparr>ax_actor_user_id := Some (us_user_id user), ax_actor_session_id := Some session_id,
                      ax_target_user_id := Some (us_user_id user), ax_target_session_id := Some session_id\<rparr>)) (\<lambda>_.
                 retM (Some \<lparr>is_raw_token = raw_token, is_session = session\<rparr>))))))))"

definition login_backend :: "um_env \<Rightarrow> string \<Rightarrow> string \<Rightarrow> string \<Rightarrow> issued_session um_meth" where
  "login_backend env username password request_id =
     bindM (liftE (raise_if (request_id = []) (UmValueError ''request_id is required''))) (\<lambda>_.
     bindM (um_utcnow env) (\<lambda>moment.
     bindM (um_transaction (login_transaction env username password request_id moment)) (\<lambda>issued.
     case issued of
       None \<Rightarrow> raiseM (UmAuthenticationError ''invalid credentials'')
     | Some s \<Rightarrow> retM s)))"

text \<open>A missing token is \<open>None\<close> or blank.\<close>

definition blank_token :: "string option \<Rightarrow> bool" where
  "blank_token raw_token \<longleftrightarrow> (case raw_token of None \<Rightarrow> True | Some t \<Rightarrow> py_strip t = [])"

definition token_text :: "string option \<Rightarrow> string" where
  "token_text raw_token = (case raw_token of None \<Rightarrow> [] | Some t \<Rightarrow> t)"

definition logout_backend :: "um_env \<Rightarrow> string option \<Rightarrow> string \<Rightarrow> unit um_meth" where
  "logout_backend env raw_token request_id =
     bindM (liftE (raise_if (request_id = []) (UmValueError ''request_id is required''))) (\<lambda>_.
     bindM (liftE (raise_if (blank_token raw_token) (UmInvalidSessionError ''session token is missing''))) (\<lambda>_.
     bindM (um_utcnow env) (\<lambda>moment.
     um_transaction (
       bindM (um_read (\<lambda>db. get_by_token_hash db (hash_session_token env (token_text raw_token)))) (\<lambda>found.
       case found of
         None \<Rightarrow> raiseM (UmSessionNotFoundError ''session not found'')
       | Some session \<Rightarrow>
           if se_revoked_at session \<noteq> None then retM ()
           else
             bindM (revoke_row (se_session_id session) moment) (\<lambda>revoked.
             bindM (liftE (raise_if (Option.bind revoked se_revoked_at = None)
               (UmSessionNotFoundError ''session not found''))) (\<lambda>_.
             bindM (insert_audit env False
               ((audit_event_write ''auth.logout.succeeded'' ''succeeded'' ActorUser request_id moment)
                 \<lparr>ax_actor_user_id := Some (se_user_id session), ax_actor_session_id := Some (se_session_id session),
                  ax_target_user_id := Some (se_user_id session), ax_target_session_id := Some (se_session_id session)\<rparr>)) (\<lambda>_.
             retM ()))))))))"

section \<open>Session resolution\<close>

definition issue_user_context ::
  "string \<Rightarrow> string \<Rightarrow> string \<Rightarrow> string \<Rightarrow> string list \<Rightarrow> bool \<Rightarrow> time \<Rightarrow> um_error + session_context" where
  "issue_user_context user_id session_id request_id username global_roles qmb authenticated_at =
     bindE (raise_if (user_id = [] \<or> session_id = [] \<or> request_id = [] \<or> username = [])
       (UmValueError ''user_id, session_id, request_id, and username are required'')) (\<lambda>_.
     Inr \<lparr>u_user_id = user_id, u_session_id = session_id, u_request_id = request_id,
          u_organization_id = installation_organization_id, u_username = username, u_global_roles = global_roles,
          u_is_qmb = qmb, u_confirmed = True, u_authenticated_at = authenticated_at\<rparr>)"

definition session_live :: "time \<Rightarrow> um_session \<Rightarrow> um_error + unit" where
  "session_live moment session =
     bindE (raise_if (se_revoked_at session \<noteq> None) (UmRevokedSessionError ''session has been revoked'')) (\<lambda>_.
     raise_if (se_expires_at session \<le> moment) (UmExpiredSessionError ''session has expired''))"

definition resolve_opaque_session ::
  "um_env \<Rightarrow> string option \<Rightarrow> string \<Rightarrow> bool \<Rightarrow> bool \<Rightarrow> session_context um_meth" where
  "resolve_opaque_session env raw_token request_id password_change_allowed touch =
     bindM (liftE (raise_if (blank_token raw_token) (UmInvalidSessionError ''session token is missing''))) (\<lambda>_.
     bindM (liftE (raise_if (request_id = []) (UmValueError ''request_id is required''))) (\<lambda>_.
     bindM (um_read (\<lambda>db. get_by_token_hash db (hash_session_token env (token_text raw_token)))) (\<lambda>found.
     case found of
       None \<Rightarrow> raiseM (UmSessionNotFoundError ''session not found'')
     | Some session \<Rightarrow>
         bindM (um_utcnow env) (\<lambda>moment.
         bindM (liftE (session_live moment session)) (\<lambda>_.
         bindM (um_read (\<lambda>db. get_user_by_id db (se_user_id session))) (\<lambda>loaded.
         case loaded of
           None \<Rightarrow> raiseM (UmSessionNotFoundError ''session user no longer exists'')
         | Some user \<Rightarrow>
             bindM (liftE (raise_if (\<not> us_is_active user) (UmInactiveUserError ''user is inactive''))) (\<lambda>_.
             bindM (liftE (raise_if (us_must_change_password user \<and> \<not> password_change_allowed)
               (UmPasswordChangeRequiredError ''password change required''))) (\<lambda>_.
             bindM (touch_session (se_session_id session) (if touch then moment else se_last_seen_at session)) (\<lambda>touched.
             case touched of
               None \<Rightarrow> raiseM (UmSessionNotFoundError ''session not found'')
             | Some current \<Rightarrow>
                 bindM (liftE (session_live moment current)) (\<lambda>_.
                 let role = normalize_base_role (Some (us_role user)) in
                 liftE (issue_user_context (us_user_id user) (se_session_id current) request_id (us_username user)
                   (if role = [] then [] else [role]) (is_effective_qmb (Some (us_role user)) (us_is_qmb user))
                   (se_created_at current))))))))))))"

definition record_session_expired :: "um_env \<Rightarrow> string option \<Rightarrow> string \<Rightarrow> unit um_meth" where
  "record_session_expired env raw_token request_id =
     (if blank_token raw_token then retM ()
      else
        bindM (um_utcnow env) (\<lambda>moment.
        um_transaction (
          bindM (um_read (\<lambda>db. get_by_token_hash db (hash_session_token env (token_text raw_token)))) (\<lambda>found.
          case found of
            None \<Rightarrow> retM ()
          | Some session \<Rightarrow>
              bindM (insert_audit env True
                ((audit_event_write ''auth.session.expired'' ''succeeded'' ActorSystem request_id moment)
                  \<lparr>ax_system_actor := Some ''qmtool.session-expiry'', ax_target_user_id := Some (se_user_id session),
                   ax_target_session_id := Some (se_session_id session)\<rparr>)) (\<lambda>_. retM ())))))"

text \<open>\<open>except ExpiredSessionError\<close>: record the expiry, raise again.\<close>

definition resolve_session ::
  "um_env \<Rightarrow> string option \<Rightarrow> string \<Rightarrow> bool \<Rightarrow> bool \<Rightarrow> session_context um_meth" where
  "resolve_session env raw_token request_id password_change_allowed touch = (\<lambda>w.
     case resolve_opaque_session env raw_token request_id password_change_allowed touch w of
       (Inl (UmExpiredSessionError text), w') \<Rightarrow>
         bindM (record_session_expired env raw_token request_id) (\<lambda>_. raiseM (UmExpiredSessionError text)) w'
     | r \<Rightarrow> r)"

section \<open>Revocation\<close>

definition load_for_revoke :: "um_env \<Rightarrow> string option \<Rightarrow> string option \<Rightarrow> um_session um_meth" where
  "load_for_revoke env session_id raw_token =
     bindM (liftE (raise_if (truthy session_id = truthy raw_token)
       (UmInvalidSessionError ''exactly one of session_id or raw_token is required to revoke''))) (\<lambda>_.
     bindM (um_read (\<lambda>db. if truthy session_id then get_by_session_id db (token_text session_id)
       else get_by_token_hash db (hash_session_token env (token_text raw_token)))) (\<lambda>found.
     case found of
       None \<Rightarrow> raiseM (UmSessionNotFoundError ''session not found'')
     | Some s \<Rightarrow> retM s))"

definition revoke_session :: "um_env \<Rightarrow> string option \<Rightarrow> string option \<Rightarrow> um_session um_meth" where
  "revoke_session env session_id raw_token =
     bindM (load_for_revoke env session_id raw_token) (\<lambda>session.
     if se_revoked_at session \<noteq> None then retM session
     else
       bindM (um_utcnow env) (\<lambda>moment.
       bindM (um_transaction (revoke_row (se_session_id session) moment)) (\<lambda>revoked.
       case revoked of
         Some s \<Rightarrow> retM s
       | None \<Rightarrow>
           bindM (um_read (\<lambda>db. get_by_session_id db (se_session_id session))) (\<lambda>current.
           case current of
             Some c \<Rightarrow> if se_revoked_at c \<noteq> None then retM c else raiseM (UmSessionNotFoundError ''session not found'')
           | None \<Rightarrow> raiseM (UmSessionNotFoundError ''session not found'')))))"

definition revoke_all_for_user :: "um_env \<Rightarrow> string \<Rightarrow> um_session list um_meth" where
  "revoke_all_for_user env user_id =
     bindM (liftE (raise_if (user_id = []) (UmValueError ''user_id is required''))) (\<lambda>_.
     bindM (um_utcnow env) (\<lambda>moment. um_transaction (revoke_all_rows user_id moment)))"

definition revoke_other_sessions_for_user :: "um_env \<Rightarrow> string \<Rightarrow> string \<Rightarrow> um_session list um_meth" where
  "revoke_other_sessions_for_user env user_id keep_session_id =
     bindM (liftE (raise_if (user_id = []) (UmValueError ''user_id is required''))) (\<lambda>_.
     bindM (liftE (raise_if (keep_session_id = []) (UmValueError ''keep_session_id is required''))) (\<lambda>_.
     bindM (um_utcnow env) (\<lambda>moment. um_transaction (revoke_other_rows user_id keep_session_id moment))))"

definition revoke_all_own_sessions :: "um_env \<Rightarrow> user_context \<Rightarrow> um_session list um_meth" where
  "revoke_all_own_sessions env context =
     bindM (liftE (require_confirmed context)) (\<lambda>_.
     bindM (um_utcnow env) (\<lambda>moment.
     um_transaction (
       bindM (revoke_all_rows (u_user_id context) moment) (\<lambda>revoked.
       bindM (insert_audit env False ((by_context context ''auth.logout_all.succeeded'' (u_user_id context) moment)
         \<lparr>ax_affected_session_count := Some (length revoked)\<rparr>)) (\<lambda>_.
       retM revoked)))))"

section \<open>Passwords\<close>

definition change_own_password :: "um_env \<Rightarrow> password_policy \<Rightarrow> user_context \<Rightarrow> string \<Rightarrow> unit um_meth" where
  "change_own_password env policy context new_password =
     bindM (liftE (require_confirmed context)) (\<lambda>_.
     let cleaned = py_strip new_password in
     bindM (liftE (validate_password policy cleaned)) (\<lambda>_.
     bindM (um_utcnow env) (\<lambda>moment.
     um_transaction (
       bindM (um_read (\<lambda>db. get_user db (u_username context))) (\<lambda>before.
       bindM (change_password_row env (u_username context) cleaned) (\<lambda>_.
       bindM (revoke_other_rows (u_user_id context) (u_session_id context) moment) (\<lambda>revoked.
       bindM (insert_audit env False ((by_context context ''user.password_changed'' (u_user_id context) moment)
         \<lparr>ax_affected_session_count := Some (length revoked),
          ax_must_change_before := map_option us_must_change_password before,
          ax_must_change_after := Some False\<rparr>)) (\<lambda>_.
       retM ()))))))))"

definition set_user_password_as_admin ::
  "um_env \<Rightarrow> password_policy \<Rightarrow> user_context \<Rightarrow> string \<Rightarrow> string \<Rightarrow> bool \<Rightarrow> unit um_meth" where
  "set_user_password_as_admin env policy actor username0 new_password must_change =
     bindM (liftE (require_admin_actor actor)) (\<lambda>_.
     let username = py_strip username0; cleaned = py_strip new_password in
     bindM (liftE (raise_if (username = []) (UmValueError ''username is required''))) (\<lambda>_.
     bindM (liftE (validate_password policy cleaned)) (\<lambda>_.
     bindM (um_utcnow env) (\<lambda>moment.
     um_transaction (
       bindM (um_read (\<lambda>db. get_user db username)) (\<lambda>found.
       case found of
         None \<Rightarrow> raiseM (UmUserNotFoundError (''unknown user: '' @ username))
       | Some before \<Rightarrow>
           bindM (change_password_row env username cleaned) (\<lambda>_.
           bindM (set_must_change_row env username must_change) (\<lambda>_.
           bindM (revoke_all_rows (us_user_id before) moment) (\<lambda>revoked.
           bindM (insert_audit env False ((by_context actor ''user.password_changed'' (us_user_id before) moment)
             \<lparr>ax_affected_session_count := Some (length revoked),
              ax_must_change_before := Some (us_must_change_password before),
              ax_must_change_after := Some must_change\<rparr>)) (\<lambda>_.
           retM ()))))))))))"

section \<open>Accounts\<close>

definition role_known :: "string \<Rightarrow> um_error + unit" where
  "role_known role = raise_if (role \<notin> {''Admin'', ''QMB'', ''User''}) (UmValueError ''role must be one of: Admin, QMB, User'')"

text \<open>\<open>except UniqueViolation\<close>.\<close>

definition on_unique :: "um_error \<Rightarrow> 'a um_meth \<Rightarrow> 'a um_meth" where
  "on_unique e m = (\<lambda>w. case m w of (Inl f, w') \<Rightarrow> (Inl (if f = UmDbError ''UniqueViolation'' then e else f), w') | r \<Rightarrow> r)"

definition create_user_as_admin ::
  "um_env \<Rightarrow> password_policy \<Rightarrow> user_context \<Rightarrow> string \<Rightarrow> string \<Rightarrow> string \<Rightarrow> bool \<Rightarrow> bool \<Rightarrow> authenticated_user um_meth" where
  "create_user_as_admin env policy actor username0 password0 role0 qmb must_change =
     bindM (liftE (require_admin_actor actor)) (\<lambda>_.
     let username = py_strip username0; password = py_strip password0; role = py_strip role0 in
     bindM (liftE (raise_if (username = []) (UmValueError ''username is required''))) (\<lambda>_.
     bindM (liftE (role_known role)) (\<lambda>_.
     bindM (liftE (validate_password policy password)) (\<lambda>_.
     bindM (um_utcnow env) (\<lambda>moment.
     on_unique (UmUserExistsError ''user already exists'') (um_transaction (
       bindM (create_user_row env username password role True qmb must_change None None None) (\<lambda>user.
       bindM (insert_audit env False ((by_context actor ''user.created'' (us_user_id user) moment)
         \<lparr>ax_role_after := Some (us_role user), ax_is_qmb_after := Some (us_is_qmb user),
          ax_is_active_after := Some (us_is_active user), ax_must_change_after := Some (us_must_change_password user)\<rparr>)) (\<lambda>_.
       retM user)))))))))"

definition get_user_or_raise :: "string \<Rightarrow> authenticated_user um_meth" where
  "get_user_or_raise username =
     bindM (um_read (\<lambda>db. get_user db username)) (\<lambda>found.
     case found of
       None \<Rightarrow> raiseM (UmUserNotFoundError (''unknown user: '' @ username))
     | Some u \<Rightarrow> retM u)"

definition assert_not_last_active_admin ::
  "authenticated_user list \<Rightarrow> authenticated_user \<Rightarrow> string \<Rightarrow> bool \<Rightarrow> um_error + unit" where
  "assert_not_last_active_admin users current next_role next_active =
     raise_if (is_admin_user current \<and> us_is_active current \<and>
       (normalize_base_role (Some next_role) \<noteq> ''ADMIN'' \<or> \<not> next_active) \<and>
       \<not> list_ex (\<lambda>u. us_user_id u \<noteq> us_user_id current \<and> us_is_active u \<and> is_admin_user u) users)
       (UmLastActiveAdminError ''cannot remove the last active admin'')"

definition changed_access_fields :: "authenticated_user \<Rightarrow> access_change \<Rightarrow> string list" where
  "changed_access_fields current c =
     (if xc_role c \<noteq> None \<and> xc_role c \<noteq> Some (us_role current) then [''role''] else []) @
     (if xc_is_qmb c \<noteq> None \<and> xc_is_qmb c \<noteq> Some (us_is_qmb current) then [''is_qmb''] else []) @
     (if xc_is_active c \<noteq> None \<and> xc_is_active c \<noteq> Some (us_is_active current) then [''is_active''] else [])"

definition apply_user_access_change ::
  "um_env \<Rightarrow> string \<Rightarrow> access_change \<Rightarrow> user_context option \<Rightarrow> authenticated_user um_meth" where
  "apply_user_access_change env username0 c actor =
     (let username = py_strip username0 in
      bindM (liftE (raise_if (username = []) (UmInvalidUserUpdateError ''username is required''))) (\<lambda>_.
      bindM (get_user_or_raise username) (\<lambda>current.
      let next_role = value_or (xc_role c) (us_role current);
          next_active = value_or (xc_is_active c) (us_is_active current) in
      bindM (um_read list_users) (\<lambda>users.
      bindM (liftE (assert_not_last_active_admin users current next_role next_active)) (\<lambda>_.
      let becoming_inactive = (us_is_active current \<and> \<not> next_active);
          changed = changed_access_fields current c in
      bindM (um_utcnow env) (\<lambda>moment.
      um_transaction (
        bindM (update_admin_fields_row env username c) (\<lambda>updated.
        bindM (if becoming_inactive then revoke_all_rows (us_user_id updated) moment else retM []) (\<lambda>revoked.
        bindM (case actor of
            None \<Rightarrow> retM True
          | Some a \<Rightarrow>
              if changed = [] then retM True
              else insert_audit env False ((by_context a ''user.access_changed'' (us_user_id updated) moment)
                \<lparr>ax_affected_session_count := (if becoming_inactive then Some (length revoked) else None),
                 ax_changed_fields := Some changed,
                 ax_role_before := Some (us_role current), ax_role_after := Some (us_role updated),
                 ax_is_qmb_before := Some (us_is_qmb current), ax_is_qmb_after := Some (us_is_qmb updated),
                 ax_is_active_before := Some (us_is_active current), ax_is_active_after := Some (us_is_active updated)\<rparr>)) (\<lambda>_.
        retM updated))))))))))"

definition update_user_access_as_admin ::
  "um_env \<Rightarrow> user_context \<Rightarrow> string \<Rightarrow> string option \<Rightarrow> bool option \<Rightarrow> bool option \<Rightarrow> authenticated_user um_meth" where
  "update_user_access_as_admin env actor username role qmb active =
     bindM (liftE (require_admin_actor actor)) (\<lambda>_.
     bindM (liftE (raise_if (role = None \<and> qmb = None \<and> active = None)
       (UmInvalidUserUpdateError ''at least one of role, is_qmb, is_active is required''))) (\<lambda>_.
     apply_user_access_change env username
       \<lparr>xc_department = None, xc_scope = None, xc_organization_unit = None, xc_role = role,
        xc_is_active = active, xc_is_qmb = qmb\<rparr> (Some actor)))"

definition list_users_for_admin :: "user_context \<Rightarrow> authenticated_user list um_meth" where
  "list_users_for_admin actor = bindM (liftE (require_admin_actor actor)) (\<lambda>_. um_read list_users)"

definition get_user_for_admin :: "user_context \<Rightarrow> string \<Rightarrow> authenticated_user um_meth" where
  "get_user_for_admin actor username0 =
     bindM (liftE (require_admin_actor actor)) (\<lambda>_.
     bindM (liftE (raise_if (py_strip username0 = []) (UmValueError ''username is required''))) (\<lambda>_.
     get_user_or_raise (py_strip username0)))"

section \<open>Account operations of the command line and the desktop\<close>

definition um_publish :: "um_env \<Rightarrow> string \<Rightarrow> (string, pyval) dict \<Rightarrow> string option \<Rightarrow> unit um_meth" where
  "um_publish env name payload actor =
     bindM (um_uuid4 env) (\<lambda>event_id.
     bindM (um_utcnow env) (\<lambda>now.
     bindM (um_uuid4 env) (\<lambda>correlation_id.
     modifyM (\<lambda>w. w\<lparr>uw_events := uw_events w @ [\<lparr>ev_event_id = event_id, ev_name = name, ev_occurred_at = now,
       ev_correlation_id = correlation_id, ev_actor_user_id = actor, ev_module_id = ''usermanagement'',
       ev_payload = payload\<rparr>]\<rparr>))))"

definition create_user ::
  "um_env \<Rightarrow> password_policy \<Rightarrow> string \<Rightarrow> string \<Rightarrow> string \<Rightarrow> bool \<Rightarrow> bool \<Rightarrow> authenticated_user um_meth" where
  "create_user env policy username0 password0 role0 qmb must_change =
     (let username = py_strip username0; password = py_strip password0; role = py_strip role0 in
      bindM (liftE (raise_if (username = []) (UmValueError ''username is required''))) (\<lambda>_.
      bindM (liftE (role_known role)) (\<lambda>_.
      bindM (liftE (validate_password policy password)) (\<lambda>_.
      bindM (on_unique (UmUserExistsError ''user already exists'')
        (um_transaction (create_user_row env username password role True qmb must_change None None None))) (\<lambda>user.
      bindM (um_publish env ''domain.usermanagement.user.created.v1''
        [(''username'', PyStr (us_username user)), (''role'', PyStr (us_role user))] (Some (us_user_id user))) (\<lambda>_.
      retM user))))))"

definition update_user_profile ::
  "um_env \<Rightarrow> string \<Rightarrow> string option \<Rightarrow> string option \<Rightarrow> string option \<Rightarrow> string option \<Rightarrow> authenticated_user um_meth" where
  "update_user_profile env username0 first_name last_name email display_name =
     (let username = py_strip username0; (first, last, display) = display_values first_name last_name display_name in
      bindM (liftE (raise_if (username = []) (UmValueError ''username is required''))) (\<lambda>_.
      um_transaction (update_profile_row env username first last email display)))"

definition set_user_qmb :: "um_env \<Rightarrow> string \<Rightarrow> bool \<Rightarrow> authenticated_user um_meth" where
  "set_user_qmb env username0 qmb =
     (let username = py_strip username0 in
      bindM (liftE (raise_if (username = []) (UmValueError ''username is required''))) (\<lambda>_.
      bindM (\<lambda>w. case um_transaction (update_admin_fields_row env username
            \<lparr>xc_department = None, xc_scope = None, xc_organization_unit = None, xc_role = None, xc_is_active = None,
             xc_is_qmb = Some qmb\<rparr>) w of
          (Inl (UmKeyError t), w') \<Rightarrow> (Inl (UmUserNotFoundError (repr_str t)), w') | r \<Rightarrow> r) (\<lambda>updated.
      bindM (um_publish env ''domain.usermanagement.user.qmb_flag.changed.v1''
        [(''username'', PyStr username0), (''is_qmb'', PyBool qmb)] (Some (us_user_id updated))) (\<lambda>_.
      retM updated))))"

definition self_register ::
  "um_env \<Rightarrow> password_policy \<Rightarrow> string \<Rightarrow> string \<Rightarrow> string option \<Rightarrow> string option \<Rightarrow> string option \<Rightarrow> authenticated_user um_meth" where
  "self_register env policy username0 password0 first_name last_name email =
     (let username = py_strip username0; password = py_strip password0 in
      bindM (liftE (raise_if (username = []) (UmValueError ''username is required''))) (\<lambda>_.
      bindM (liftE (validate_password policy password)) (\<lambda>_.
      bindM (on_unique (UmValueError ''user already exists'')
        (um_transaction (create_user_row env username password ''User'' False False False first_name last_name email))) (\<lambda>user.
      bindM (um_publish env ''domain.usermanagement.user.registered.v1''
        [(''username'', PyStr (us_username user))] (Some (us_user_id user))) (\<lambda>_.
      retM user)))))"

definition change_password :: "um_env \<Rightarrow> password_policy \<Rightarrow> string \<Rightarrow> string \<Rightarrow> unit um_meth" where
  "change_password env policy username0 new_password0 =
     (let username = py_strip username0; new_password = py_strip new_password0 in
      bindM (liftE (raise_if (username = []) (UmValueError ''username is required''))) (\<lambda>_.
      bindM (liftE (validate_password policy new_password)) (\<lambda>_.
      bindM (um_transaction (change_password_row env username new_password)) (\<lambda>_.
      bindM (um_read (\<lambda>db. get_by_username db username)) (\<lambda>user.
      um_publish env ''domain.usermanagement.user.password_changed.v1'' [(''username'', PyStr username)]
        (map_option fst user))))))"

definition ensure_admin_credentials ::
  "um_env \<Rightarrow> password_policy \<Rightarrow> string \<Rightarrow> string \<Rightarrow> string \<Rightarrow> unit um_meth" where
  "ensure_admin_credentials env policy username0 password0 role0 =
     (let username = py_strip username0; password = py_strip password0; role = py_strip role0 in
      bindM (liftE (raise_if (username = []) (UmValueError ''username is required''))) (\<lambda>_.
      bindM (liftE (role_known role)) (\<lambda>_.
      bindM (um_read (\<lambda>db. get_by_username db username)) (\<lambda>existing.
      if existing = None then bindM (create_user env policy username password role False False) (\<lambda>_. retM ())
      else change_password env policy username password))))"

text \<open>The repository strips nothing. It returns \<open>None\<close> whether it inserted or not.\<close>

definition bootstrap_first_admin :: "um_env \<Rightarrow> password_policy \<Rightarrow> string \<Rightarrow> string \<Rightarrow> unit um_meth" where
  "bootstrap_first_admin env policy username password =
     bindM (um_read list_users) (\<lambda>users.
     if users \<noteq> [] then retM ()
     else
       bindM (liftE (validate_password policy (py_strip password))) (\<lambda>_.
       bindM (um_read (\<lambda>db. get_user db username)) (\<lambda>existing.
       if existing \<noteq> None then retM ()
       else bindM (on_unique (UmValueError ''user already exists'')
         (um_transaction (create_user_row env username (py_strip password) ''Admin'' True False True None None None))) (\<lambda>_.
         retM ()))))"

end
