(* ===== verification/UserApi.thy ===== *)
theory UserApi
  imports UserOps
begin

text \<open>
  The interface of the user management module (\<open>modules/usermanagement/api.py\<close> and the methods of
  \<open>UserManagementService\<close>) as requests, and the worlds that sequences of requests reach from an empty
  database. A context that a request carries is any context; the operations check it themselves.
\<close>

datatype um_request =
    LoginBackend string string string
  | LogoutBackend "string option" string
  | ResolveSession "string option" string bool bool
  | RevokeSession "string option" "string option"
  | RevokeAllForUser string
  | RevokeOtherSessions string string
  | RevokeAllOwn user_context
  | ChangeOwnPassword user_context string
  | CreateUserAsAdmin user_context string string string bool bool
  | UpdateUserAccess user_context string "string option" "bool option" "bool option"
  | SetUserPassword user_context string string bool
  | CreateUser string string string bool bool
  | UpdateUserProfile string "string option" "string option" "string option" "string option"
  | UpdateUserAdminFields string access_change
  | SetUserActive string bool
  | SetUserQmb string bool
  | SelfRegister string string "string option" "string option" "string option"
  | ChangePassword string string
  | EnsureAdminCredentials string string string
  | BootstrapFirstAdmin string string

definition done_with :: "'a um_meth \<Rightarrow> unit um_meth" where
  "done_with m = bindM m (\<lambda>_. retM ())"

primrec run_user :: "um_env \<Rightarrow> password_policy \<Rightarrow> um_request \<Rightarrow> unit um_meth" where
  "run_user env policy (LoginBackend username password rid) = done_with (login_backend env username password rid)"
| "run_user env policy (LogoutBackend t rid) = logout_backend env t rid"
| "run_user env policy (ResolveSession t rid allowed touch) = done_with (resolve_session env t rid allowed touch)"
| "run_user env policy (RevokeSession session_id t) = done_with (revoke_session env session_id t)"
| "run_user env policy (RevokeAllForUser user_id) = done_with (revoke_all_for_user env user_id)"
| "run_user env policy (RevokeOtherSessions user_id keep) = done_with (revoke_other_sessions_for_user env user_id keep)"
| "run_user env policy (RevokeAllOwn context) = done_with (revoke_all_own_sessions env context)"
| "run_user env policy (ChangeOwnPassword context password) = change_own_password env policy context password"
| "run_user env policy (CreateUserAsAdmin actor username password role qmb must_change) =
     done_with (create_user_as_admin env policy actor username password role qmb must_change)"
| "run_user env policy (UpdateUserAccess actor username role qmb active) =
     done_with (update_user_access_as_admin env actor username role qmb active)"
| "run_user env policy (SetUserPassword actor username password must_change) =
     set_user_password_as_admin env policy actor username password must_change"
| "run_user env policy (CreateUser username password role qmb must_change) =
     done_with (create_user env policy username password role qmb must_change)"
| "run_user env policy (UpdateUserProfile username first_name last_name email display_name) =
     done_with (update_user_profile env username first_name last_name email display_name)"
| "run_user env policy (UpdateUserAdminFields username c) = done_with (apply_user_access_change env username c None)"
| "run_user env policy (SetUserActive username active) =
     done_with (apply_user_access_change env username
       \<lparr>xc_department = None, xc_scope = None, xc_organization_unit = None, xc_role = None,
        xc_is_active = Some active, xc_is_qmb = None\<rparr> None)"
| "run_user env policy (SetUserQmb username qmb) = done_with (set_user_qmb env username qmb)"
| "run_user env policy (SelfRegister username password first_name last_name email) =
     done_with (self_register env policy username password first_name last_name email)"
| "run_user env policy (ChangePassword username password) = change_password env policy username password"
| "run_user env policy (EnsureAdminCredentials username password role) =
     ensure_admin_credentials env policy username password role"
| "run_user env policy (BootstrapFirstAdmin username password) = bootstrap_first_admin env policy username password"

inductive um_reachable :: "um_env \<Rightarrow> um_world \<Rightarrow> bool" for env where
  start: "um_reachable env empty_um_world"
| step: "um_reachable env w \<Longrightarrow> um_reachable env (after (run_user env policy req w))"

fun run_users :: "um_env \<Rightarrow> (password_policy \<times> um_request) list \<Rightarrow> um_world \<Rightarrow> um_world" where
  "run_users env [] w = w"
| "run_users env ((policy, req) # reqs) w = run_users env reqs (after (run_user env policy req w))"

lemma run_users_reachable: "um_reachable env w \<Longrightarrow> um_reachable env (run_users env reqs w)"
proof (induction env reqs w rule: run_users.induct)
  case (2 env policy req reqs w)
  then show ?case using um_reachable.step [of env w policy req] by simp
qed simp

lemma run_users_invariant:
  assumes "\<And>policy req. keeps I (run_user env policy req)"
  shows "I w \<Longrightarrow> I (run_users env reqs w)"
proof (induction reqs arbitrary: w)
  case (Cons r reqs)
  obtain policy req where r: "r = (policy, req)" by (cases r)
  show ?case using Cons.IH keepsD [OF assms Cons.prems] r by simp
qed simp

lemma um_reachable_invariant:
  assumes "um_reachable env w" and "I empty_um_world" and "\<And>policy req. keeps I (run_user env policy req)"
  shows "I w"
  using assms(1)
proof induction
  case (step w policy req)
  show ?case by (rule keepsD [OF assms(3) step.IH])
qed (rule assms(2))

section \<open>Verifying a password\<close>

text \<open>
  \<open>AuthOps.authenticate\<close> and \<open>all_passwords_hashed\<close> (\<open>modules/usermanagement/auth_ops.py\<close>) over the
  repository. The signature module takes \<open>authenticate\<close> as its password verifier (\<open>modules/signature/wiring.py\<close>).
\<close>

definition auth_failed :: "um_env \<Rightarrow> string \<Rightarrow> string \<Rightarrow> authenticated_user option um_meth" where
  "auth_failed env username reason =
     bindM (um_publish env ''domain.usermanagement.auth.failed.v1''
       [(''username'', PyStr username), (''reason'', PyStr reason)] None) (\<lambda>_. retM None)"

definition plain_user :: "string \<Rightarrow> string \<Rightarrow> string \<Rightarrow> authenticated_user" where
  "plain_user user_id username role = \<lparr>us_user_id = user_id, us_username = username, us_role = role, us_first_name = None,
     us_last_name = None, us_display_name = None, us_email = None, us_department = None, us_scope = None,
     us_organization_unit = None, us_is_active = True, us_is_qmb = False, us_must_change_password = False\<rparr>"

definition authenticate :: "um_env \<Rightarrow> string \<Rightarrow> string \<Rightarrow> authenticated_user option um_meth" where
  "authenticate env username password =
     bindM (um_read (\<lambda>db. get_by_username db username)) (\<lambda>found. case found of
         None \<Rightarrow> auth_failed env username ''unknown_user''
       | Some (user_id, expected_password, role) \<Rightarrow>
           if \<not> verify_password env expected_password password then auth_failed env username ''wrong_password''
           else
             bindM (whenM (\<not> is_password_hash expected_password)
               (um_transaction (change_password_row env username password))) (\<lambda>_.
             bindM (um_read (\<lambda>db. get_user db username)) (\<lambda>loaded.
             let user = (case loaded of None \<Rightarrow> plain_user user_id username role | Some u \<Rightarrow> u) in
             if \<not> us_is_active user then auth_failed env username ''inactive_user''
             else bindM (um_publish env ''domain.usermanagement.auth.succeeded.v1''
                    [(''username'', PyStr username), (''role'', PyStr role)] (Some (us_user_id user))) (\<lambda>_.
                  retM (Some user)))))"

definition all_passwords_hashed :: "um_db \<Rightarrow> bool" where
  "all_passwords_hashed db =
     (let rows = List.map_filter (\<lambda>u. get_by_username db (us_username u)) (list_users db)
      in rows \<noteq> [] \<and> list_all (\<lambda>(_, hashed, _). is_password_hash hashed) rows)"

lemma authenticate_Some:
  assumes "authenticate env username password w = (Inr (Some u), w')"
  shows "\<exists>r. user_row (uw_db w) username = Some r \<and> verify_password env (us_password_hash r) password \<and> us_is_active u"
  using assms unfolding authenticate_def auth_failed_def get_by_username_def
  by (auto simp: um_read_def Let_def split: option.splits if_splits)

lemma authenticate_unknown:
  "user_row (uw_db w) username = None \<Longrightarrow> \<exists>w'. authenticate env username password w = (Inr None, w')"
  unfolding authenticate_def auth_failed_def get_by_username_def um_publish_def um_uuid4_def um_draw_def um_utcnow_def
  by (simp add: um_read_def)

text \<open>The verifier the signature module is wired with.\<close>

definition account_verifier :: "um_env \<Rightarrow> um_world \<Rightarrow> string \<Rightarrow> string \<Rightarrow> bool" where
  "account_verifier env w username password =
     (case authenticate env username password w of (Inr (Some _), _) \<Rightarrow> True | _ \<Rightarrow> False)"

lemma account_verifier_row:
  "account_verifier env w username password \<Longrightarrow>
   \<exists>r. user_row (uw_db w) username = Some r \<and> verify_password env (us_password_hash r) password"
  by (auto simp: account_verifier_def split: prod.splits sum.splits option.splits dest: authenticate_Some)

end
