(* ===== verification/UserLaws.thy ===== *)
theory UserLaws
  imports UserApi
begin

text \<open>
  What the user management keeps. The rules \<open>um_returns\<close> say what a successful call of a primitive has
  done to the tables; \<open>um_ok b\<close> is the invariant: the constraints of the schema, every live session belongs
  to an active account, and, where \<open>b\<close> says that there was one, an active administrator.
\<close>

section \<open>Successful calls of the primitives\<close>

named_theorems um_returns \<open>what a call that returns has done\<close>

lemma um_basic_returns [um_returns]:
  "um_read f w = (r1, w') \<longleftrightarrow> r1 = Inr (f (uw_db w)) \<and> w' = w"
  "um_write g w = (r2, w') \<longleftrightarrow> r2 = Inr () \<and> w' = w\<lparr>uw_db := g (uw_db w)\<rparr>"
  "um_utcnow env w = (r3, w') \<longleftrightarrow> r3 = Inr (um_clock env (uw_ticks w)) \<and> w' = w\<lparr>uw_ticks := Suc (uw_ticks w)\<rparr>"
  "um_draw h w = (r4, w') \<longleftrightarrow> r4 = Inr (h (uw_draws w)) \<and> w' = w\<lparr>uw_draws := Suc (uw_draws w)\<rparr>"
  by (auto simp: um_read_def um_write_def um_utcnow_def um_draw_def readM_def modifyM_def)

lemma liftE_returns [um_returns]: "liftE r w = (Inr x, w') \<longleftrightarrow> r = Inr x \<and> w' = w"
  by (auto simp: liftE_def)

text \<open>A quiet call leaves the tables alone.\<close>

definition quiet :: "'a um_meth \<Rightarrow> bool" where
  "quiet m \<longleftrightarrow> (\<forall>w. uw_db (after (m w)) = uw_db w)"

lemma quietD: "quiet m \<Longrightarrow> m w = (r, w') \<Longrightarrow> uw_db w' = uw_db w"
  unfolding quiet_def by (metis snd_conv)

lemma quiet_draws: "quiet (um_uuid4 env)" "quiet (generate_session_token env)" "quiet (hash_password env p)" "quiet (um_utcnow env)"
  by (simp_all add: quiet_def um_uuid4_def generate_session_token_def hash_password_def um_draw_def um_utcnow_def)

lemma update_by_username_returns [um_returns]:
  "update_by_username username f w = (Inr x, w') \<longleftrightarrow>
     w' = w\<lparr>uw_db := ud_users_update (map (\<lambda>r. if same_username username r then f r else r)) (uw_db w)\<rparr> \<and>
     user_row (uw_db w') username = Some x"
  by (auto simp: update_by_username_def um_returns split: option.splits)

lemma change_password_row_returns:
  assumes "change_password_row env username password w = (Inr x, w')"
  shows "\<exists>hashed now. uw_db w' = ud_users_update (map (\<lambda>r. if same_username username r
     then r\<lparr>us_password_hash := hashed, us_must_change_password := False, us_updated_at := now\<rparr> else r)) (uw_db w)"
  using assms by (auto simp: change_password_row_def hash_password_def um_returns) (intro exI, rule refl)

lemma set_must_change_row_returns:
  assumes "set_must_change_row env username must_change w = (Inr x, w')"
  shows "\<exists>now. uw_db w' = ud_users_update (map (\<lambda>r. if same_username username r
     then r\<lparr>us_must_change_password := must_change, us_updated_at := now\<rparr> else r)) (uw_db w)"
  using assms by (auto simp: set_must_change_row_def um_returns)

lemma update_profile_row_returns:
  assumes "update_profile_row env username first_name last_name email display_name w = (Inr x, w')"
  shows "\<exists>a b c d now. uw_db w' = ud_users_update (map (\<lambda>r. if same_username username r
     then r\<lparr>us_first_name := a, us_last_name := b, us_display_name := c, us_email := d, us_updated_at := now\<rparr> else r)) (uw_db w)"
  using assms by (auto simp: update_profile_row_def um_returns Let_def split: prod.splits) (intro exI, rule refl)

lemma create_user_row_returns:
  assumes "create_user_row env username password role active qmb must_change first_name last_name email w = (Inr x, w')"
  shows "\<exists>row. uw_db w' = ud_users_update (\<lambda>rs. rs @ [row]) (uw_db w) \<and> x = user_from_row row \<and>
     us_user_id row \<notin> us_user_id ` set (ud_users (uw_db w)) \<and>
     py_lower (us_username row) \<notin> (\<lambda>r. py_lower (us_username r)) ` set (ud_users (uw_db w)) \<and>
     us_username row = username \<and> us_role row = role \<and> us_is_active row = active \<and> us_deactivated_at row = None"
  using assms
  by (auto simp: create_user_row_def um_uuid4_def hash_password_def um_returns Let_def raise_if_eq_Inr list_ex_iff same_username_def
      split: prod.splits) (intro exI conjI, rule refl, auto)

lemma update_sessions_returns [um_returns]:
  "update_sessions P f w = (Inr rows, w') \<longleftrightarrow>
     rows = map f (filter P (ud_sessions (uw_db w))) \<and> list_all session_row_ok rows \<and>
     w' = w\<lparr>uw_db := ud_sessions_update (map (\<lambda>s. if P s then f s else s)) (uw_db w)\<rparr>"
  by (auto simp: update_sessions_def um_returns raise_if_eq_Inr)

lemma revoke_row_returns:
  assumes "revoke_row session_id moment w = (Inr x, w')"
  shows "\<exists>P. uw_db w' = ud_sessions_update (map (\<lambda>s. if P s then s\<lparr>se_revoked_at := Some moment\<rparr> else s)) (uw_db w) \<and>
    list_all session_row_ok (map (\<lambda>s. s\<lparr>se_revoked_at := Some moment\<rparr>) (filter P (ud_sessions (uw_db w))))"
  using assms by (auto simp: revoke_row_def um_returns split: list.splits)

lemma revoke_all_rows_returns [um_returns]:
  "revoke_all_rows user_id moment w = (Inr rows, w') \<longleftrightarrow>
     (let P = \<lambda>s. se_user_id s = user_id \<and> se_revoked_at s = None; f = \<lambda>s. s\<lparr>se_revoked_at := Some moment\<rparr> in
      rows = by_creation (map f (filter P (ud_sessions (uw_db w)))) \<and>
      list_all session_row_ok (map f (filter P (ud_sessions (uw_db w)))) \<and>
      w' = w\<lparr>uw_db := ud_sessions_update (map (\<lambda>s. if P s then f s else s)) (uw_db w)\<rparr>)"
  by (auto simp: revoke_all_rows_def um_returns Let_def)

lemma revoke_other_rows_returns [um_returns]:
  "revoke_other_rows user_id keep moment w = (Inr rows, w') \<longleftrightarrow>
     (let P = \<lambda>s. se_user_id s = user_id \<and> se_revoked_at s = None \<and> se_session_id s \<noteq> keep; f = \<lambda>s. s\<lparr>se_revoked_at := Some moment\<rparr> in
      rows = by_creation (map f (filter P (ud_sessions (uw_db w)))) \<and>
      list_all session_row_ok (map f (filter P (ud_sessions (uw_db w)))) \<and>
      w' = w\<lparr>uw_db := ud_sessions_update (map (\<lambda>s. if P s then f s else s)) (uw_db w)\<rparr>)"
  by (auto simp: revoke_other_rows_def um_returns Let_def)

lemma list_ex_keys:
  "list_ex (\<lambda>r. key r = k) rows \<longleftrightarrow> k \<in> key ` set rows"
  "list_ex (\<lambda>r. key r = k \<or> key' r = k') rows \<longleftrightarrow> k \<in> key ` set rows \<or> k' \<in> key' ` set rows"
  by (force simp: list_ex_iff image_iff)+

lemma add_session_returns [um_returns]:
  "add_session s w = (Inr x, w') \<longleftrightarrow> session_row_ok s \<and>
     se_session_id s \<notin> se_session_id ` set (ud_sessions (uw_db w)) \<and> se_token_hash s \<notin> se_token_hash ` set (ud_sessions (uw_db w)) \<and>
     se_user_id s \<in> us_user_id ` set (ud_users (uw_db w)) \<and>
     w' = w\<lparr>uw_db := ud_sessions_update (\<lambda>rs. rs @ [s]) (uw_db w)\<rparr>"
  unfolding add_session_def by (auto simp: um_returns raise_if_eq_Inr list_ex_keys)

lemma insert_audit_returns:
  assumes "insert_audit env b e w = (Inr x, w')"
  shows "\<exists>es. uw_db w' = ud_audit_update (\<lambda>as. as @ es) (uw_db w) \<and>
    (\<not> b \<longrightarrow> es = [e\<lparr>ax_request_id := py_strip (ax_request_id e)\<rparr>])"
  using assms
  by (auto simp: insert_audit_def um_uuid4_def um_returns raise_if_eq_Inr split: if_splits) (rule exI [of _ "[]"], simp)

end
