(* ===== verification/UserInvariants.thy ===== *)
theory UserInvariants
  imports UserLaws
begin

text \<open>
  The invariant of the user management and its proof, one lemma per change of a table and one per
  operation: the constraints of the schema hold, every session that is not revoked belongs to an active
  account, and an active administrator stays.
\<close>

section \<open>The invariant\<close>

definition tables_ok :: "um_db \<Rightarrow> bool" where
  "tables_ok db \<longleftrightarrow> distinct (map us_user_id (ud_users db)) \<and>
     distinct (map (\<lambda>r. py_lower (us_username r)) (ud_users db)) \<and>
     (\<forall>r \<in> set (ud_users db). us_is_active r \<longrightarrow> us_deactivated_at r = None) \<and>
     distinct (map se_session_id (ud_sessions db)) \<and> distinct (map se_token_hash (ud_sessions db)) \<and>
     (\<forall>s \<in> set (ud_sessions db). session_row_ok s \<and> se_user_id s \<in> us_user_id ` set (ud_users db))"

definition active_ids :: "um_db \<Rightarrow> string set" where
  "active_ids db = us_user_id ` {r \<in> set (ud_users db). us_is_active r}"

definition live_except :: "string set \<Rightarrow> um_db \<Rightarrow> bool" where
  "live_except X db \<longleftrightarrow> (\<forall>s \<in> set (ud_sessions db). se_revoked_at s = None \<longrightarrow> se_user_id s \<in> active_ids db \<union> X)"

definition admin_row :: "account \<Rightarrow> bool" where
  "admin_row r \<longleftrightarrow> us_is_active r \<and> normalize_base_role (Some (us_role r)) = ''ADMIN''"

definition has_admin :: "um_db \<Rightarrow> bool" where
  "has_admin db \<longleftrightarrow> (\<exists>r \<in> set (ud_users db). admin_row r)"

definition um_ok :: "bool \<Rightarrow> um_db \<Rightarrow> bool" where
  "um_ok b db \<longleftrightarrow> tables_ok db \<and> live_except {} db \<and> (b \<longrightarrow> has_admin db)"

abbreviation keeps_ok :: "bool \<Rightarrow> 'a um_meth \<Rightarrow> bool" where
  "keeps_ok b \<equiv> keeps (\<lambda>w. um_ok b (uw_db w))"

section \<open>Changes of the tables\<close>

text \<open>An update of accounts that leaves identity, activity and role.\<close>

definition same_account :: "(account \<Rightarrow> account) \<Rightarrow> bool" where
  "same_account f \<longleftrightarrow> (\<forall>r. us_user_id (f r) = us_user_id r \<and> us_username (f r) = us_username r \<and> us_role (f r) = us_role r \<and>
     us_is_active (f r) = us_is_active r \<and> us_deactivated_at (f r) = us_deactivated_at r)"

lemma ok_same_account:
  assumes f: "same_account f" and ok: "um_ok b db"
  shows "um_ok b (ud_users_update (map f) db)"
proof -
  have ids: "us_user_id \<circ> f = us_user_id"
    and names: "(\<lambda>r. py_lower (us_username r)) \<circ> f = (\<lambda>r. py_lower (us_username r))"
    using f by (simp_all add: same_account_def fun_eq_iff)
  have "us_user_id ` f ` A = us_user_id ` A" for A using f by (auto simp: same_account_def image_image)
  moreover have "active_ids (ud_users_update (map f) db) = active_ids db"
    using f by (auto simp: active_ids_def same_account_def image_iff) metis
  moreover have "has_admin (ud_users_update (map f) db) = has_admin db"
    using f by (auto simp: has_admin_def admin_row_def same_account_def)
  ultimately show ?thesis
    using ok f ids names unfolding um_ok_def tables_ok_def live_except_def by (auto simp: same_account_def)
qed

lemma ok_add_account:
  assumes "um_ok b db" and "us_user_id row \<notin> us_user_id ` set (ud_users db)"
    and "py_lower (us_username row) \<notin> (\<lambda>r. py_lower (us_username r)) ` set (ud_users db)" and "us_deactivated_at row = None"
  shows "um_ok b (ud_users_update (\<lambda>rs. rs @ [row]) db)"
  using assms by (auto simp: um_ok_def tables_ok_def live_except_def active_ids_def has_admin_def)

text \<open>An update of sessions that leaves identity and never revives one.\<close>

lemma ok_update_sessions:
  assumes ok: "tables_ok db" and f: "\<And>s. se_session_id (f s) = se_session_id s \<and> se_token_hash (f s) = se_token_hash s \<and> se_user_id (f s) = se_user_id s"
    and rows: "list_all session_row_ok (map f (filter P (ud_sessions db)))"
  shows "tables_ok (ud_sessions_update (map (\<lambda>s. if P s then f s else s)) db)"
proof -
  have "se_session_id \<circ> (\<lambda>s. if P s then f s else s) = se_session_id"
    and "se_token_hash \<circ> (\<lambda>s. if P s then f s else s) = se_token_hash"
    using f by (simp_all add: fun_eq_iff)
  then show ?thesis using ok f rows unfolding tables_ok_def by (auto simp: list_all_iff)
qed

lemma live_update_sessions:
  assumes "live_except X db" and "\<And>s. se_user_id (f s) = se_user_id s" and "\<And>s. se_revoked_at (f s) = None \<Longrightarrow> se_revoked_at s = None"
  shows "live_except X (ud_sessions_update (map (\<lambda>s. if P s then f s else s)) db)"
  using assms by (auto simp: live_except_def active_ids_def)

lemma ok_sessions:
  assumes "um_ok b db" and "\<And>s. se_session_id (f s) = se_session_id s \<and> se_token_hash (f s) = se_token_hash s \<and> se_user_id (f s) = se_user_id s"
    and "\<And>s. se_revoked_at (f s) = None \<Longrightarrow> se_revoked_at s = None"
    and "list_all session_row_ok (map f (filter P (ud_sessions db)))"
  shows "um_ok b (ud_sessions_update (map (\<lambda>s. if P s then f s else s)) db)"
  using assms ok_update_sessions [of db f P] live_update_sessions [of "{}" db f P]
  by (simp add: um_ok_def has_admin_def)

lemma ok_add_session:
  assumes "um_ok b db" and "session_row_ok s" and "se_session_id s \<notin> se_session_id ` set (ud_sessions db)"
    and "se_token_hash s \<notin> se_token_hash ` set (ud_sessions db)" and "se_user_id s \<in> active_ids db"
  shows "um_ok b (ud_sessions_update (\<lambda>rs. rs @ [s]) db)"
  using assms by (auto simp: um_ok_def tables_ok_def live_except_def active_ids_def has_admin_def)

lemma ok_audit [simp]: "um_ok b (ud_audit_update f db) = um_ok b db"
  by (simp add: um_ok_def tables_ok_def live_except_def active_ids_def has_admin_def)

lemma audit_parts [simp]:
  "tables_ok (ud_audit_update f db) = tables_ok db" "live_except X (ud_audit_update f db) = live_except X db"
  "active_ids (ud_audit_update f db) = active_ids db" "has_admin (ud_audit_update f db) = has_admin db"
  by (simp_all add: tables_ok_def live_except_def active_ids_def has_admin_def)

section \<open>Roles\<close>

text \<open>What the \<open>SELECT COUNT\<close> calls an administrator is one for \<open>normalize_base_role\<close>.\<close>

lemma upper_char_space: "py_space c \<Longrightarrow> upper_char c = [c]"
  by (auto simp: py_space_def upper_char_def Let_def)

lemma sql_admin: "py_upper role = ''ADMIN'' \<Longrightarrow> normalize_base_role (Some role) = ''ADMIN''"
proof -
  assume upper: "py_upper role = ''ADMIN''"
  have "\<not> py_space c" if "c \<in> set role" for c
  proof
    assume "py_space c"
    then have "c \<in> set (py_upper role)" using that upper_char_space by (force simp: py_upper_def)
    with upper \<open>py_space c\<close> show False by (auto simp: py_space_def)
  qed
  then have "dropWhile py_space xs = xs" if "set xs \<subseteq> set role" for xs using that by (cases xs) auto
  then have "py_strip role = role" by (simp add: py_strip_def)
  then show ?thesis using upper by (simp add: normalize_base_role_def)
qed

section \<open>The access of an account changes\<close>

lemma user_row_member: "user_row db username = Some r \<Longrightarrow> r \<in> set (ud_users db) \<and> same_username username r"
  unfolding user_row_def by (auto simp: find_Some_iff)

lemma update_admin_fields_row_returns:
  assumes "update_admin_fields_row env username c w = (Inr x, w')"
  shows "\<exists>current row. user_row (uw_db w) username = Some current \<and> x = user_from_row row \<and>
    uw_db w' = ud_users_update (map (\<lambda>r. if us_user_id r = us_user_id current then row else r)) (uw_db w) \<and>
    us_user_id row = us_user_id current \<and> us_username row = us_username current \<and>
    us_is_active row = value_or (xc_is_active c) (us_is_active current) \<and> us_role row = value_or (xc_role c) (us_role current) \<and>
    (us_is_active row \<longrightarrow> us_deactivated_at row = None) \<and>
    (admin_row current \<longrightarrow> admin_row row \<or> other_active_admins (uw_db w) (us_user_id current) \<noteq> [])"
  using assms
  by (auto simp: update_admin_fields_row_def um_returns Let_def raise_if_eq_Inr admin_row_def split: option.splits if_splits)

lemma tables_ok_users:
  assumes "tables_ok db" and ids: "map us_user_id us = map us_user_id (ud_users db)"
    and names: "map (\<lambda>r. py_lower (us_username r)) us = map (\<lambda>r. py_lower (us_username r)) (ud_users db)"
    and "\<forall>r \<in> set us. us_is_active r \<longrightarrow> us_deactivated_at r = None" and db': "ud_users db' = us" "ud_sessions db' = ud_sessions db"
  shows "tables_ok db'"
proof -
  have "us_user_id ` set us = us_user_id ` set (ud_users db)" using ids by (metis list.set_map)
  then show ?thesis using assms unfolding tables_ok_def by simp
qed

lemma ok_access:
  assumes ok: "um_ok b db" and current: "current \<in> set (ud_users db)"
    and row: "us_user_id row = us_user_id current" "us_username row = us_username current"
    and stamp: "us_is_active row \<longrightarrow> us_deactivated_at row = None"
    and admins: "admin_row current \<longrightarrow> admin_row row \<or> other_active_admins db (us_user_id current) \<noteq> []"
  defines "db' \<equiv> ud_users_update (map (\<lambda>r. if us_user_id r = us_user_id current then row else r)) db"
  shows "tables_ok db' \<and> live_except (if us_is_active current \<and> \<not> us_is_active row then {us_user_id current} else {}) db' \<and>
    (b \<longrightarrow> has_admin db')"
proof -
  let ?g = "\<lambda>r. if us_user_id r = us_user_id current then row else r"
  have only: "r = current" if "r \<in> set (ud_users db)" "us_user_id r = us_user_id current" for r
    using ok current that unfolding um_ok_def tables_ok_def by (metis distinct_map inj_onD)
  have ids: "map us_user_id (map ?g (ud_users db)) = map us_user_id (ud_users db)" using row by simp
  have names: "map (\<lambda>r. py_lower (us_username r)) (map ?g (ud_users db)) = map (\<lambda>r. py_lower (us_username r)) (ud_users db)"
    using row only by auto
  have "tables_ok db" and stamps: "\<forall>r \<in> set (ud_users db). us_is_active r \<longrightarrow> us_deactivated_at r = None"
    using ok by (simp_all add: um_ok_def tables_ok_def)
  have tables: "tables_ok db'"
    by (rule tables_ok_users [OF \<open>tables_ok db\<close> ids names]) (use stamps stamp in \<open>auto simp: db'_def\<close>)
  have "live_except (if us_is_active current \<and> \<not> us_is_active row then {us_user_id current} else {}) db'"
    unfolding live_except_def
  proof (intro ballI impI)
    fix s assume "s \<in> set (ud_sessions db')" and "se_revoked_at s = None"
    then obtain r where r: "r \<in> set (ud_users db)" "us_user_id r = se_user_id s" "us_is_active r"
      using ok by (auto simp: um_ok_def live_except_def active_ids_def db'_def)
    have "?g r \<in> set (ud_users db')" using r(1) by (simp add: db'_def)
    then show "se_user_id s \<in> active_ids db' \<union> (if us_is_active current \<and> \<not> us_is_active row then {us_user_id current} else {})"
      using r only [OF r(1)] row by (cases "us_user_id r = us_user_id current") (auto simp: active_ids_def image_iff)
  qed
  moreover have "has_admin db'" if b: b
  proof -
    obtain r where r: "r \<in> set (ud_users db)" "admin_row r" using ok b by (auto simp: um_ok_def has_admin_def)
    show ?thesis
    proof (cases "r = current \<and> \<not> admin_row row")
      case True
      then obtain a where a: "a \<in> set (other_active_admins db (us_user_id current))" using admins r by (cases "other_active_admins db (us_user_id current)") auto
      then have "admin_row a" "a \<in> set (ud_users db)" "us_user_id a \<noteq> us_user_id current"
        by (auto simp: other_active_admins_def admin_row_def sql_admin)
      then show ?thesis by (auto simp: has_admin_def db'_def image_iff intro!: bexI [of _ a])
    next
      case False
      then show ?thesis using r only [OF r(1)] current by (auto simp: has_admin_def db'_def)
    qed
  qed
  ultimately show ?thesis using tables by blast
qed

section \<open>The operations\<close>

text \<open>A transaction keeps the invariant when its body does where it returns.\<close>

definition commits_ok :: "bool \<Rightarrow> 'a um_meth \<Rightarrow> bool" where
  "commits_ok b m \<longleftrightarrow> (\<forall>w x w'. um_ok b (uw_db w) \<longrightarrow> m w = (Inr x, w') \<longrightarrow> um_ok b (uw_db w'))"

lemma keeps_um_transaction [keeps_intros]: "commits_ok b m \<Longrightarrow> keeps_ok b (um_transaction m)"
  unfolding commits_ok_def
  by (rule keepsI) (auto simp: um_transaction_def split: prod.split sum.split)

lemma commits_keeps: "keeps_ok b m \<Longrightarrow> commits_ok b m"
  unfolding commits_ok_def by (metis keeps_run)

lemma commits_bind: "commits_ok b m \<Longrightarrow> (\<And>x. commits_ok b (f x)) \<Longrightarrow> commits_ok b (bindM m f)"
  unfolding commits_ok_def bindM_eq_Inr by metis

lemma keeps_um_basic [keeps_intros]:
  "keeps_ok b (um_read f)" "keeps_ok b (um_utcnow env)" "keeps_ok b (um_uuid4 env)" "keeps_ok b (hash_password env p)"
  "keeps_ok b (generate_session_token env)"
  by (auto simp: keeps_def um_read_def um_utcnow_def um_uuid4_def um_draw_def hash_password_def generate_session_token_def)

lemma keeps_um_publish [keeps_intros]: "keeps_ok b (um_publish env name payload actor)"
  unfolding um_publish_def by (intro keeps_intros keeps_modifyM) simp

lemma keeps_on_unique [keeps_intros]: "keeps_ok b m \<Longrightarrow> keeps_ok b (on_unique e m)"
  by (auto simp: keeps_def on_unique_def split: prod.split sum.split dest: keeps_run)

lemma keeps_done_with [keeps_intros]: "keeps_ok b m \<Longrightarrow> keeps_ok b (done_with m)"
  unfolding done_with_def by (intro keeps_intros)

lemma commits_basic:
  "commits_ok b (retM x)" "commits_ok b (raiseM e)" "commits_ok b (liftE r)" "commits_ok b (um_read f)" "commits_ok b (um_utcnow env)"
  "commits_ok b (um_uuid4 env)" "commits_ok b (hash_password env p)" "commits_ok b (generate_session_token env)"
  by (rule commits_keeps, rule keeps_intros)+

lemma commits_update_by_username:
  assumes "same_account f"
  shows "commits_ok b (update_by_username username f)"
proof -
  have "same_account (\<lambda>r. if same_username username r then f r else r)" using assms by (simp add: same_account_def)
  then show ?thesis unfolding commits_ok_def by (auto simp: um_returns ok_same_account)
qed

lemma commits_account_columns:
  "commits_ok b (change_password_row env username password)"
  "commits_ok b (set_must_change_row env username must_change)"
  "commits_ok b (update_profile_row env username first_name last_name email display_name)"
  unfolding change_password_row_def set_must_change_row_def update_profile_row_def Let_def
  by (auto intro!: commits_bind commits_update_by_username commits_basic simp: same_account_def split: prod.split)

lemma commits_create_user_row:
  "commits_ok b (create_user_row env username password role active qmb must_change first_name last_name email)"
  unfolding commits_ok_def by (auto dest!: create_user_row_returns simp: ok_add_account)

lemma revoked_row_ok:
  "um_ok b db \<Longrightarrow> list_all session_row_ok (map (\<lambda>s. s\<lparr>se_revoked_at := Some moment\<rparr>) (filter P (ud_sessions db))) \<Longrightarrow>
   um_ok b (ud_sessions_update (map (\<lambda>s. if P s then s\<lparr>se_revoked_at := Some moment\<rparr> else s)) db)"
  by (rule ok_sessions) auto

lemma commits_revocations:
  "commits_ok b (revoke_row session_id moment)" "commits_ok b (revoke_all_rows user_id moment)"
  "commits_ok b (revoke_other_rows user_id keep moment)"
  unfolding commits_ok_def
  by (auto dest!: revoke_row_returns simp: um_returns Let_def intro!: revoked_row_ok)

lemma commits_audit: "commits_ok b (insert_audit env c e)"
  unfolding commits_ok_def by (auto dest!: insert_audit_returns)

lemmas commits_intros = commits_basic commits_bind commits_account_columns commits_create_user_row commits_revocations commits_audit

lemma get_user_active: "get_user db username = Some u \<Longrightarrow> us_is_active u \<Longrightarrow> us_user_id u \<in> active_ids db"
  unfolding get_user_def by (auto simp: active_ids_def user_from_row_def authenticated_user.defs dest!: user_row_member)

lemma commits_open_session:
  assumes "um_ok b (uw_db w)" and "se_user_id s \<in> active_ids (uw_db w)"
    and "bindM (add_session s) (\<lambda>_. bindM (insert_audit env c e) (\<lambda>_. retM r)) w = (Inr x, w')"
  shows "um_ok b (uw_db w')"
  using assms by (auto simp: um_returns dest!: insert_audit_returns intro!: ok_add_session)

lemma commits_login: "commits_ok b (login_transaction env username password request_id moment)"
proof -
  have "um_ok b (uw_db w')" if ok: "um_ok b (uw_db w)" and user: "get_user (uw_db w) username = Some u" "us_is_active u"
    and run: "bindM (generate_session_token env) (\<lambda>raw. bindM (um_uuid4 env) (\<lambda>i. bindM (add_session (s raw i)) (\<lambda>_.
      bindM (insert_audit env False (e i)) (\<lambda>_. retM (r raw i))))) w = (Inr x, w')"
    and id: "\<And>raw i. se_user_id (s raw i) = us_user_id u" for w w' u x s e and r :: "string \<Rightarrow> string \<Rightarrow> issued_session option"
  proof -
    obtain raw w0 where w0: "generate_session_token env w = (Inr raw, w0)" and run0: "bindM (um_uuid4 env) (\<lambda>i.
      bindM (add_session (s raw i)) (\<lambda>_. bindM (insert_audit env False (e i)) (\<lambda>_. retM (r raw i)))) w0 = (Inr x, w')"
      using run by (subst (asm) bindM_eq_Inr) blast
    obtain i w1 where w1: "um_uuid4 env w0 = (Inr i, w1)" and rest: "bindM (add_session (s raw i)) (\<lambda>_.
      bindM (insert_audit env False (e i)) (\<lambda>_. retM (r raw i))) w1 = (Inr x, w')"
      using run0 by (subst (asm) bindM_eq_Inr) blast
    have "uw_db w1 = uw_db w" using quietD [OF quiet_draws(2) w0] quietD [OF quiet_draws(1) w1] by simp
    then show ?thesis by (intro commits_open_session [OF _ _ rest]) (use ok get_user_active [OF user] id in simp_all)
  qed
  note session = this
  have last: "commits_ok b (bindM (um_read (\<lambda>db. get_user db username)) f)"
    if "commits_ok b (f None)" and "\<And>u. \<not> us_is_active u \<Longrightarrow> commits_ok b (f (Some u))"
      and "\<And>u w x w'. um_ok b (uw_db w) \<Longrightarrow> get_user (uw_db w) username = Some u \<Longrightarrow> us_is_active u \<Longrightarrow>
        f (Some u) w = (Inr x, w') \<Longrightarrow> um_ok b (uw_db w')" for f :: "authenticated_user option \<Rightarrow> issued_session option um_meth"
    unfolding commits_ok_def
  proof (intro allI impI)
    fix w x w' assume ok: "um_ok b (uw_db w)" and "bindM (um_read (\<lambda>db. get_user db username)) f w = (Inr x, w')"
    then have run: "f (get_user (uw_db w) username) w = (Inr x, w')" by (simp add: um_returns)
    show "um_ok b (uw_db w')"
    proof (cases "get_user (uw_db w) username")
      case None
      then show ?thesis using that(1) ok run by (simp add: commits_ok_def)
    next
      case (Some u)
      then show ?thesis using that(2) [of u] that(3) [of w u] ok run by (cases "us_is_active u") (auto simp: commits_ok_def)
    qed
  qed
  have denied: "commits_ok b (login_denied env request_id moment reason target)" for reason target
    unfolding login_denied_def by (intro commits_intros)
  show ?thesis
    unfolding login_transaction_def Let_def
    apply (rule commits_bind, rule commits_basic)
    apply (simp split: option.split add: denied)
    apply (intro allI impI)
    apply (rule commits_bind)
    apply (simp add: whenM_def commits_account_columns commits_basic)
    apply (rule last)
    apply (simp add: denied)
    apply (simp add: denied)
    apply (simp only: option.case not_True_eq_False if_False)
    apply (erule (2) session, assumption, simp)
    done
qed

lemma keeps_login: "keeps_ok b (login_backend env username password request_id)"
  unfolding login_backend_def
  by (auto intro!: keeps_intros commits_login split: option.split)

lemma keeps_logout: "keeps_ok b (logout_backend env t request_id)"
  unfolding logout_backend_def
  by (intro keeps_intros commits_basic commits_bind)
    (auto split: option.split intro!: commits_intros)

lemma keeps_touch: "keeps_ok b (touch_session session_id moment)"
  unfolding touch_session_def
proof (intro keeps_intros commits_bind)
  show "commits_ok b (update_sessions (\<lambda>s. se_session_id s = session_id \<and> se_revoked_at s = None)
      (\<lambda>s. s\<lparr>se_last_seen_at := max (se_last_seen_at s) moment\<rparr>))"
    unfolding commits_ok_def by (auto simp: um_returns intro!: ok_sessions)
  show "commits_ok b (case rows of s # _ \<Rightarrow> retM (Some s) | [] \<Rightarrow> um_read (\<lambda>db. get_by_session_id db session_id))"
    for rows :: "um_session list"
    by (auto split: list.split intro: commits_basic)
qed

lemma keeps_expired: "keeps_ok b (record_session_expired env t request_id)"
  unfolding record_session_expired_def
  by (auto intro!: keeps_intros commits_bind commits_basic split: option.split) (intro commits_intros)

lemma keeps_resolve: "keeps_ok b (resolve_session env t request_id allowed touch)"
proof (rule keepsI)
  fix w :: um_world assume ok: "um_ok b (uw_db w)"
  have opaque: "keeps_ok b (resolve_opaque_session env t request_id allowed touch)"
    unfolding resolve_opaque_session_def Let_def
    by (auto intro!: keeps_intros keeps_touch split: option.split)
  obtain r w' where r: "resolve_opaque_session env t request_id allowed touch w = (r, w')" by fastforce
  have "um_ok b (uw_db w')" by (rule keeps_run [OF opaque ok r])
  moreover have "keeps_ok b (bindM (record_session_expired env t request_id) (\<lambda>_. raiseM e))" for e
    by (intro keeps_intros keeps_expired)
  ultimately show "um_ok b (uw_db (after (resolve_session env t request_id allowed touch w)))"
    unfolding resolve_session_def r by (auto simp: keeps_def split: sum.split um_error.split)
qed

lemma keeps_revocation:
  "keeps_ok b (revoke_session env session_id t)" "keeps_ok b (revoke_all_for_user env user_id)"
  "keeps_ok b (revoke_other_sessions_for_user env user_id keep)" "keeps_ok b (revoke_all_own_sessions env context)"
  unfolding revoke_session_def load_for_revoke_def revoke_all_for_user_def revoke_other_sessions_for_user_def revoke_all_own_sessions_def
  by (auto intro!: keeps_intros commits_intros split: option.split)

lemma keeps_passwords:
  "keeps_ok b (change_own_password env policy context password)"
  "keeps_ok b (set_user_password_as_admin env policy actor username password must_change)"
  "keeps_ok b (change_password env policy username password)"
  unfolding change_own_password_def set_user_password_as_admin_def change_password_def Let_def
  by (auto intro!: keeps_intros commits_intros split: option.split)

lemma keeps_creation:
  "keeps_ok b (create_user_as_admin env policy actor username password role qmb must_change)"
  "keeps_ok b (create_user env policy username password role qmb must_change)"
  "keeps_ok b (self_register env policy username password first_name last_name email)"
  "keeps_ok b (ensure_admin_credentials env policy username password role)"
  "keeps_ok b (bootstrap_first_admin env policy username password)"
  "keeps_ok b (update_user_profile env username first_name last_name email display_name)"
  unfolding ensure_admin_credentials_def create_user_as_admin_def create_user_def self_register_def
    bootstrap_first_admin_def update_user_profile_def change_password_def Let_def
  by (auto intro!: keeps_intros commits_intros split: prod.split)

section \<open>Changes of access\<close>

text \<open>Between the update and the revocation the sessions of the account are live without it being active.\<close>

lemma ok_revoke_all:
  assumes "tables_ok db" and "live_except {user_id} db" and "b \<longrightarrow> has_admin db" and "revoke_all_rows user_id moment w = (Inr rows, w')"
    and "uw_db w = db"
  shows "um_ok b (uw_db w')"
proof -
  let ?f = "\<lambda>s :: um_session. s\<lparr>se_revoked_at := Some moment\<rparr>" and ?P = "\<lambda>s. se_user_id s = user_id \<and> se_revoked_at s = None"
  have db': "uw_db w' = ud_sessions_update (map (\<lambda>s. if ?P s then ?f s else s)) db"
    and rows: "list_all session_row_ok (map ?f (filter ?P (ud_sessions db)))"
    using assms(4,5) by (auto simp: um_returns Let_def)
  have "tables_ok (uw_db w')" unfolding db' by (rule ok_update_sessions [OF assms(1) _ rows]) simp
  moreover have "live_except {} (uw_db w')" using assms(2) unfolding db' by (auto simp: live_except_def active_ids_def)
  ultimately show ?thesis using assms(3) by (simp add: um_ok_def db' has_admin_def)
qed

lemma access_change_ok:
  assumes ok: "um_ok b (uw_db w)" and user: "get_user (uw_db w) username = Some current"
    and run: "update_admin_fields_row env username c w = (Inr updated, w1)"
    and revoke: "(if us_is_active current \<and> \<not> value_or (xc_is_active c) (us_is_active current)
      then revoke_all_rows (us_user_id updated) moment else retM []) w1 = (Inr revoked, w2)"
  shows "um_ok b (uw_db w2)"
proof -
  obtain old row where old: "user_row (uw_db w) username = Some old" and updated: "updated = user_from_row row"
    and w1: "uw_db w1 = ud_users_update (map (\<lambda>r. if us_user_id r = us_user_id old then row else r)) (uw_db w)"
    and ids: "us_user_id row = us_user_id old" "us_username row = us_username old"
    and active: "us_is_active row = value_or (xc_is_active c) (us_is_active old)" and stamp: "us_is_active row \<longrightarrow> us_deactivated_at row = None"
    and admins: "admin_row old \<longrightarrow> admin_row row \<or> other_active_admins (uw_db w) (us_user_id old) \<noteq> []"
    using update_admin_fields_row_returns [OF run] by blast
  have current: "us_is_active current = us_is_active old" using user old by (auto simp: get_user_def user_from_row_def authenticated_user.defs)
  have id: "us_user_id updated = us_user_id old" by (simp add: updated user_from_row_def authenticated_user.defs ids)
  have tables: "tables_ok (uw_db w1)"
    and live: "live_except (if us_is_active old \<and> \<not> us_is_active row then {us_user_id old} else {}) (uw_db w1)"
    and admin: "b \<longrightarrow> has_admin (uw_db w1)"
    using ok_access [OF ok _ ids stamp admins] user_row_member [OF old] unfolding w1 by blast+
  show ?thesis
  proof (cases "us_is_active old \<and> \<not> us_is_active row")
    case True
    with live have "live_except {us_user_id old} (uw_db w1)" by simp
    moreover from revoke have "revoke_all_rows (us_user_id old) moment w1 = (Inr revoked, w2)"
      using True unfolding current active [symmetric] id by simp
    ultimately show ?thesis using ok_revoke_all tables admin by blast
  next
    case False
    then have "w2 = w1" using revoke active current by (auto split: if_splits)
    then show ?thesis using tables live admin False by (simp add: um_ok_def)
  qed
qed

lemma transaction_ok:
  assumes "um_ok b (uw_db w)" and "\<And>x w'. m w = (Inr x, w') \<Longrightarrow> um_ok b (uw_db w')"
  shows "um_ok b (uw_db (after (um_transaction m w)))"
  using assms by (auto simp: um_transaction_def split: prod.split sum.split)

lemma bindM_assoc: "bindM (bindM m f) g = bindM m (\<lambda>x. bindM (f x) g)"
  by (rule ext) (simp add: bindM_def split: prod.split sum.split)

lemma keeps_access: "keeps_ok b (apply_user_access_change env username0 c actor)"
proof (rule keepsI)
  fix w :: um_world assume ok: "um_ok b (uw_db w)"
  let ?username = "py_strip username0"
  have audit: "commits_ok b (case actor of None \<Rightarrow> retM True
      | Some a \<Rightarrow> if fields = [] then retM True else insert_audit env False (e a))" for e fields
    by (auto intro: commits_intros split: option.split)
  have body: "um_ok b (uw_db w')"
    if "um_ok b (uw_db w1)" "get_user (uw_db w1) ?username = Some current"
      and run: "bindM (update_admin_fields_row env ?username c) (\<lambda>updated.
        bindM (if us_is_active current \<and> \<not> value_or (xc_is_active c) (us_is_active current)
          then revoke_all_rows (us_user_id updated) moment else retM []) (\<lambda>revoked.
        bindM (case actor of None \<Rightarrow> retM True
          | Some a \<Rightarrow> if fields = [] then retM True else insert_audit env False (e updated revoked a)) (\<lambda>_.
        retM updated))) w1 = (Inr x, w')" for w1 current moment fields e x w'
  proof -
    obtain updated w2 revoked w3 y w4 where w2: "update_admin_fields_row env ?username c w1 = (Inr updated, w2)"
      and w3: "(if us_is_active current \<and> \<not> value_or (xc_is_active c) (us_is_active current)
          then revoke_all_rows (us_user_id updated) moment else retM []) w2 = (Inr revoked, w3)"
      and w': "(case actor of None \<Rightarrow> retM True
          | Some a \<Rightarrow> if fields = [] then retM True else insert_audit env False (e updated revoked a)) w3 = (Inr y, w4)"
      and "(retM updated :: authenticated_user um_meth) w4 = (Inr x, w')"
      using run [unfolded bindM_eq_Inr] by (elim exE conjE) (rule that, assumption+)
    have "um_ok b (uw_db w3)" by (rule access_change_ok [OF that(1,2) w2 w3])
    then have "um_ok b (uw_db w4)" using audit [of fields "e updated revoked"] w' unfolding commits_ok_def by blast
    then show ?thesis using \<open>(retM updated :: authenticated_user um_meth) w4 = (Inr x, w')\<close> by simp
  qed
  show "um_ok b (uw_db (after (apply_user_access_change env username0 c actor w)))"
  proof (cases "get_user (uw_db w) ?username")
    case None
    then show ?thesis using ok
      by (simp add: apply_user_access_change_def Let_def get_user_or_raise_def um_read_def bindM_assoc bindM_liftE raise_if_def)
  next
    case (Some current)
    then show ?thesis using ok
      apply (simp add: apply_user_access_change_def Let_def get_user_or_raise_def um_read_def um_utcnow_def bindM_assoc bindM_liftE
        bindM_Inr [where w' = "w\<lparr>uw_ticks := Suc (uw_ticks w)\<rparr>"] del: bindM_eq_Inr split: sum.split)
      apply (intro allI impI transaction_ok)
       apply simp
      apply (erule body [rotated 2])
      apply simp_all
      done
  qed
qed

lemma keeps_update_fields: "keeps_ok b (update_user_access_as_admin env actor username role qmb active)"
  unfolding update_user_access_as_admin_def by (intro keeps_intros keeps_access)

text \<open>Without a change of activity no session has to go.\<close>

lemma commits_qmb_flag:
  assumes "xc_is_active c = None"
  shows "commits_ok b (update_admin_fields_row env username c)"
  unfolding commits_ok_def
proof (intro allI impI)
  fix w x w' assume ok: "um_ok b (uw_db w)" and run: "update_admin_fields_row env username c w = (Inr x, w')"
  obtain old where "user_row (uw_db w) username = Some old" using update_admin_fields_row_returns [OF run] by blast
  then have "get_user (uw_db w) username = Some (user_from_row old)" by (simp add: get_user_def)
  from access_change_ok [OF ok this run, of 0 "[]" w'] show "um_ok b (uw_db w')" using assms by (simp add: value_or_def)
qed

lemma keeps_qmb: "keeps_ok b (set_user_qmb env username qmb)"
proof -
  have 1: "keeps_ok b (um_transaction (update_admin_fields_row env name
      \<lparr>xc_department = None, xc_scope = None, xc_organization_unit = None, xc_role = None, xc_is_active = None, xc_is_qmb = Some qmb\<rparr>))"
    for name by (intro keeps_intros commits_qmb_flag) simp
  show ?thesis
    unfolding set_user_qmb_def Let_def
    by (intro keeps_intros keepsI) (auto split: prod.split sum.split um_error.split dest: keeps_run [OF 1])
qed

lemma keeps_request: "keeps_ok b (run_user env policy req)"
  by (cases req) (auto intro!: keeps_intros keeps_login keeps_logout keeps_resolve keeps_revocation keeps_passwords keeps_creation
      keeps_access keeps_update_fields keeps_qmb)

lemma um_ok_empty: "um_ok False empty_um_db"
  by (simp add: um_ok_def tables_ok_def live_except_def empty_um_db_def)

lemma reachable_um_ok: "um_reachable env w \<Longrightarrow> um_ok False (uw_db w)"
  by (erule um_reachable_invariant [where I = "\<lambda>w. um_ok False (uw_db w)"])
    (simp_all add: um_ok_empty empty_um_world_def keeps_request)

lemma run_users_um_ok: "um_ok b (uw_db w) \<Longrightarrow> um_ok b (uw_db (run_users env reqs w))"
  by (erule run_users_invariant [where I = "\<lambda>w. um_ok b (uw_db w)", OF keeps_request])

end
