(* ===== verification/UserBehaviour.thy ===== *)
theory UserBehaviour
  imports UserInvariants
begin

text \<open>
  What the properties of the user management rest on: what a resolved session has gone through, that a
  session which a login issues resolves, which requests change accounts and sessions only where they
  succeed, and the audit event that a privileged request leaves.
\<close>

section \<open>Rows that the queries find\<close>

lemma found_row: "find P xs = Some x \<Longrightarrow> P x \<and> x \<in> set xs"
  by (auto simp: find_Some_iff)

lemma list_users_member: "u \<in> set (list_users db) \<longleftrightarrow> (\<exists>r \<in> set (ud_users db). u = user_from_row r)"
  by (auto simp: list_users_def)

lemma user_from_row_simps [simp]:
  "us_user_id (user_from_row r) = us_user_id r" "us_username (user_from_row r) = us_username r"
  "us_role (user_from_row r) = us_role r" "us_is_active (user_from_row r) = us_is_active r" "us_is_qmb (user_from_row r) = us_is_qmb r"
  "us_must_change_password (user_from_row r) = us_must_change_password r"
  by (simp_all add: user_from_row_def authenticated_user.defs)

lemma get_user_by_id_Some:
  "get_user_by_id db user_id = Some u \<Longrightarrow> \<exists>r \<in> set (ud_users db). u = user_from_row r \<and> us_user_id r = user_id"
  unfolding get_user_by_id_def by (drule found_row) (auto simp: list_users_member)

lemma get_user_by_id_row:
  assumes "tables_ok db" and "r \<in> set (ud_users db)"
  shows "get_user_by_id db (us_user_id r) = Some (user_from_row r)"
proof -
  have "find (\<lambda>u. us_user_id u = us_user_id r) (list_users db) \<noteq> None"
    using assms(2) by (auto simp: find_None_iff list_users_member)
  then obtain u where u: "get_user_by_id db (us_user_id r) = Some u" by (auto simp: get_user_by_id_def)
  then obtain r' where "r' \<in> set (ud_users db)" "u = user_from_row r'" "us_user_id r' = us_user_id r"
    using get_user_by_id_Some by blast
  moreover from this have "r' = r" using assms unfolding tables_ok_def by (metis distinct_map inj_onD)
  ultimately show ?thesis using u by simp
qed

lemma token_row_Some: "get_by_token_hash db h = Some s \<Longrightarrow> s \<in> set (ud_sessions db) \<and> se_token_hash s = h"
  unfolding get_by_token_hash_def by (auto simp: find_Some_iff)

lemma find_distinct:
  "distinct (map key rows) \<Longrightarrow> r \<in> set rows \<Longrightarrow> find (\<lambda>x. key x = key r) rows = Some r"
  by (induction rows) (auto simp: image_iff)

lemma token_row: "tables_ok db \<Longrightarrow> s \<in> set (ud_sessions db) \<Longrightarrow> get_by_token_hash db (se_token_hash s) = Some s"
  unfolding get_by_token_hash_def tables_ok_def by (intro find_distinct) simp_all

section \<open>Resolution of a session\<close>

lemma um_ok_tables: "um_ok b db \<Longrightarrow> tables_ok db"
  by (simp add: um_ok_def)

text \<open>A touched session keeps everything but the time it was last seen.\<close>

definition touched_rows :: "string \<Rightarrow> time \<Rightarrow> um_session list \<Rightarrow> um_session list" where
  "touched_rows session_id moment =
     map (\<lambda>s. if se_session_id s = session_id \<and> se_revoked_at s = None
       then s\<lparr>se_last_seen_at := max (se_last_seen_at s) moment\<rparr> else s)"

lemma touch_session_returns:
  assumes "touch_session session_id moment w = (Inr x, w')"
  shows "ud_users (uw_db w') = ud_users (uw_db w) \<and> ud_audit (uw_db w') = ud_audit (uw_db w) \<and>
    ud_sessions (uw_db w') = touched_rows session_id moment (ud_sessions (uw_db w))"
  using assms unfolding touch_session_def um_transaction_def touched_rows_def
  by (auto simp: um_returns split: prod.splits sum.splits list.splits)

lemma filter_distinct:
  "distinct (map key rows) \<Longrightarrow> r \<in> set rows \<Longrightarrow> Q r \<Longrightarrow> filter (\<lambda>x. key x = key r \<and> Q x) rows = [r]"
proof (induction rows)
  case (Cons x rows)
  show ?case
  proof (cases "x = r")
    case True
    then have "filter (\<lambda>x. key x = key r \<and> Q x) rows = []" using Cons.prems by (auto simp: filter_empty_conv image_iff)
    then show ?thesis using True Cons.prems by simp
  next
    case False
    then have "r \<in> set rows" "key x \<noteq> key r" using Cons.prems by (auto simp: image_iff)
    then show ?thesis using Cons by simp
  qed
qed simp

lemma touch_live:
  assumes tables: "tables_ok (uw_db w)" and s: "s \<in> set (ud_sessions (uw_db w))" "se_revoked_at s = None"
  shows "touch_session (se_session_id s) moment w =
    (Inr (Some (s\<lparr>se_last_seen_at := max (se_last_seen_at s) moment\<rparr>)),
     w\<lparr>uw_db := ud_sessions_update (touched_rows (se_session_id s) moment) (uw_db w)\<rparr>)"
proof -
  have "filter (\<lambda>x. se_session_id x = se_session_id s \<and> se_revoked_at x = None) (ud_sessions (uw_db w)) = [s]"
    using tables s by (intro filter_distinct) (simp_all add: tables_ok_def)
  moreover have "session_row_ok (s\<lparr>se_last_seen_at := max (se_last_seen_at s) moment\<rparr>)"
    using tables s by (auto simp: tables_ok_def session_row_ok_def)
  ultimately show ?thesis
    unfolding touch_session_def update_sessions_def touched_rows_def um_read_def um_write_def um_transaction_def
    by (simp add: bindM_assoc)
qed

text \<open>The context of an account and a session.\<close>

definition context_of :: "account \<Rightarrow> um_session \<Rightarrow> string \<Rightarrow> session_context" where
  "context_of r s request_id =
     \<lparr>u_user_id = us_user_id r, u_session_id = se_session_id s, u_request_id = request_id,
      u_organization_id = installation_organization_id, u_username = us_username r,
      u_global_roles = (if normalize_base_role (Some (us_role r)) = [] then [] else [normalize_base_role (Some (us_role r))]),
      u_is_qmb = is_effective_qmb (Some (us_role r)) (us_is_qmb r), u_confirmed = True, u_authenticated_at = se_created_at s\<rparr>"

definition resolvable :: "um_db \<Rightarrow> time \<Rightarrow> um_session \<Rightarrow> account \<Rightarrow> bool \<Rightarrow> bool" where
  "resolvable db moment s r allowed \<longleftrightarrow> s \<in> set (ud_sessions db) \<and> se_revoked_at s = None \<and> moment < se_expires_at s \<and>
     r \<in> set (ud_users db) \<and> us_user_id r = se_user_id s \<and> us_is_active r \<and> (us_must_change_password r \<longrightarrow> allowed)"

lemma resolve_opaque_returns:
  assumes tables: "tables_ok (uw_db w)"
  shows "resolve_opaque_session env t request_id allowed touch w = (Inr ctx, w') \<longleftrightarrow>
    \<not> blank_token t \<and> request_id \<noteq> [] \<and>
    (\<exists>s r. se_token_hash s = hash_session_token env (token_text t) \<and> resolvable (uw_db w) (um_clock env (uw_ticks w)) s r allowed \<and>
      us_user_id r \<noteq> [] \<and> se_session_id s \<noteq> [] \<and> us_username r \<noteq> [] \<and> ctx = context_of r s request_id \<and>
      w' = w\<lparr>uw_ticks := Suc (uw_ticks w), uw_db := ud_sessions_update
        (touched_rows (se_session_id s) (if touch then um_clock env (uw_ticks w) else se_last_seen_at s)) (uw_db w)\<rparr>)"
    (is "?run \<longleftrightarrow> ?cond")
proof -
  let ?h = "hash_session_token env (token_text t)" and ?now = "um_clock env (uw_ticks w)"
  let ?w = "w\<lparr>uw_ticks := Suc (uw_ticks w)\<rparr>"
  have step: "touch_session (se_session_id s) moment ?w = (Inr (Some (s\<lparr>se_last_seen_at := max (se_last_seen_at s) moment\<rparr>)),
      ?w\<lparr>uw_db := ud_sessions_update (touched_rows (se_session_id s) moment) (uw_db w)\<rparr>)"
    if "s \<in> set (ud_sessions (uw_db w))" "se_revoked_at s = None" for s moment
    using touch_live [of ?w s moment] tables that by simp
  show ?thesis
  proof (cases "blank_token t \<or> request_id = []")
    case True
    then show ?thesis by (auto simp: resolve_opaque_session_def)
  next
    case False
    show ?thesis
    proof (cases "get_by_token_hash (uw_db w) ?h")
      case None
      then have "se_token_hash s \<noteq> ?h" if "s \<in> set (ud_sessions (uw_db w))" for s
        using token_row [OF tables that] by (metis option.distinct(1))
      then have "\<not> ?cond" unfolding resolvable_def by blast
      moreover have "\<not> ?run" using False None by (simp add: resolve_opaque_session_def um_read_def bindM_liftE)
      ultimately show ?thesis by blast
    next
      case (Some s)
      note s = token_row_Some [OF Some]
      have only: "s' = s" if "s' \<in> set (ud_sessions (uw_db w))" "se_token_hash s' = ?h" for s'
        using token_row [OF tables that(1)] that(2) Some by simp
      show ?thesis
      proof (cases "se_revoked_at s = None \<and> ?now < se_expires_at s")
        case False
        then have "\<not> ?cond" using only by (auto simp: resolvable_def)
        moreover have "\<not> ?run" using False Some \<open>\<not> (blank_token t \<or> request_id = [])\<close>
          by (auto simp: resolve_opaque_session_def um_read_def um_returns session_live_def)
        ultimately show ?thesis by blast
      next
        case True
        obtain r where r: "r \<in> set (ud_users (uw_db w))" "us_user_id r = se_user_id s"
          using tables s by (auto simp: tables_ok_def)
        note u = get_user_by_id_row [OF tables r(1), unfolded r(2)]
        have only_r: "r' = r" if "r' \<in> set (ud_users (uw_db w))" "us_user_id r' = se_user_id s" for r'
          using tables that r unfolding tables_ok_def by (metis distinct_map inj_onD)
        have "?run \<longleftrightarrow> us_is_active r \<and> (us_must_change_password r \<longrightarrow> allowed) \<and> us_user_id r \<noteq> [] \<and> se_session_id s \<noteq> [] \<and>
            us_username r \<noteq> [] \<and> ctx = context_of r s request_id \<and>
            w' = ?w\<lparr>uw_db := ud_sessions_update
              (touched_rows (se_session_id s) (if touch then ?now else se_last_seen_at s)) (uw_db w)\<rparr>"
          using False True Some u step [of s] s
          by (simp add: resolve_opaque_session_def um_read_def um_returns session_live_def issue_user_context_def context_of_def Let_def)
            (auto simp: r(2))
        moreover have "resolvable (uw_db w) ?now s' r' allowed \<and> se_token_hash s' = ?h \<longleftrightarrow>
            s' = s \<and> r' = r \<and> us_is_active r \<and> (us_must_change_password r \<longrightarrow> allowed)" for s' r'
          using only [of s'] only_r [of r'] True r s unfolding resolvable_def by fastforce
        ultimately show ?thesis using False by metis
      qed
    qed
  qed
qed

lemma resolve_session_returns:
  "resolve_session env t request_id allowed touch w = (Inr ctx, w') \<longleftrightarrow>
   resolve_opaque_session env t request_id allowed touch w = (Inr ctx, w')"
  unfolding resolve_session_def
  by (auto split: prod.splits sum.splits um_error.splits)

lemmas resolution_of = resolve_opaque_returns [OF um_ok_tables [OF reachable_um_ok], folded resolve_session_returns]

section \<open>Login\<close>

lemma bindM_um_read: "bindM (um_read f) g w = g (f (uw_db w)) w"
  by (simp add: um_read_def)

lemma login_transaction_returns:
  assumes "login_transaction env username password request_id moment w = (Inr (Some issued), w')"
  shows "\<exists>r u db0. user_row (uw_db w) username = Some r \<and> verify_password env (us_password_hash r) password \<and>
    (if is_password_hash (us_password_hash r) then db0 = uw_db w
     else \<exists>hashed now. db0 = ud_users_update (map (\<lambda>r. if same_username username r
       then r\<lparr>us_password_hash := hashed, us_must_change_password := False, us_updated_at := now\<rparr> else r)) (uw_db w)) \<and>
    get_user db0 username = Some u \<and> us_is_active u \<and> ud_users (uw_db w') = ud_users db0 \<and>
    is_session issued \<in> set (ud_sessions (uw_db w')) \<and> se_token_hash (is_session issued) = hash_session_token env (is_raw_token issued) \<and>
    se_revoked_at (is_session issued) = None \<and> se_expires_at (is_session issued) = moment + session_lifetime \<and>
    se_user_id (is_session issued) = us_user_id u"
proof -
  have denied: "login_denied env request_id moment reason target v \<noteq> (Inr (Some issued), w')" for reason target v
    by (auto simp: login_denied_def)
  obtain r where r: "user_row (uw_db w) username = Some r" "verify_password env (us_password_hash r) password"
    using assms denied unfolding login_transaction_def get_by_username_def
    by (auto simp: um_returns split: option.splits if_splits)
  obtain y w0 where w0: "whenM (\<not> is_password_hash (us_password_hash r)) (change_password_row env username password) w = (Inr y, w0)"
    and rest: "bindM (um_read (\<lambda>db. get_user db username)) (\<lambda>loaded.
           case loaded of
             None \<Rightarrow> login_denied env request_id moment ''inactive_user'' (Some (us_user_id r))
           | Some user \<Rightarrow>
               if \<not> us_is_active user
               then login_denied env request_id moment ''inactive_user'' (Some (us_user_id r))
               else
                 bindM (generate_session_token env) (\<lambda>raw_token.
                 bindM (um_uuid4 env) (\<lambda>session_id.
                 let session = \<lparr>se_session_id = session_id, se_token_hash = hash_session_token env raw_token,
                       se_user_id = us_user_id user, se_created_at = moment, se_last_seen_at = moment,
                       se_expires_at = moment + session_lifetime, se_client_type = ''backend'',
                       se_authentication_level = ''password'', se_revoked_at = None\<rparr> in
                 bindM (add_session session) (\<lambda>_.
                 bindM (insert_audit env False
                   ((audit_event_write ''auth.login.succeeded'' ''succeeded'' ActorUser request_id moment)
                     \<lparr>ax_actor_user_id := Some (us_user_id user), ax_actor_session_id := Some session_id,
                      ax_target_user_id := Some (us_user_id user), ax_target_session_id := Some session_id\<rparr>)) (\<lambda>_.
                 retM (Some \<lparr>is_raw_token = raw_token, is_session = session\<rparr>)))))) w0 = (Inr (Some issued), w')"
    using assms r unfolding login_transaction_def get_by_username_def
    by (simp only: bindM_um_read option.map option.case split_conv not_True_eq_False if_False bindM_eq_Inr) blast
  obtain u where u: "get_user (uw_db w0) username = Some u" "us_is_active u"
    using rest denied by (auto simp: um_returns split: option.splits if_splits)
  have session: "ud_users (uw_db w') = ud_users (uw_db w0) \<and> is_session issued \<in> set (ud_sessions (uw_db w')) \<and>
    se_token_hash (is_session issued) = hash_session_token env (is_raw_token issued) \<and>
    se_revoked_at (is_session issued) = None \<and> se_expires_at (is_session issued) = moment + session_lifetime \<and>
    se_user_id (is_session issued) = us_user_id u"
    using rest u
    by (auto simp: um_returns Let_def generate_session_token_def um_uuid4_def dest!: insert_audit_returns)
  have "if is_password_hash (us_password_hash r) then uw_db w0 = uw_db w
     else \<exists>hashed now. uw_db w0 = ud_users_update (map (\<lambda>r. if same_username username r
       then r\<lparr>us_password_hash := hashed, us_must_change_password := False, us_updated_at := now\<rparr> else r)) (uw_db w)"
    using w0 change_password_row_returns by (auto simp: whenM_def split: if_splits)
  then show ?thesis using r u session by blast
qed

lemma login_returns:
  assumes "login_backend env username password request_id w = (Inr issued, w')"
  shows "\<exists>w1. uw_db w1 = uw_db w \<and>
    login_transaction env username password request_id (um_clock env (uw_ticks w)) w1 = (Inr (Some issued), w')"
  using assms unfolding login_backend_def um_transaction_def
  by (auto simp: um_returns raise_if_eq_Inr split: prod.splits sum.splits option.splits)
    (rule exI [of _ "w\<lparr>uw_ticks := Suc (uw_ticks w)\<rparr>"], simp)

section \<open>Requests that fail\<close>

text \<open>A clean call changes accounts and sessions only where it succeeds; audit events may stay.\<close>

definition same_accounts :: "um_world \<Rightarrow> um_world \<Rightarrow> bool" where
  "same_accounts w w' \<longleftrightarrow> ud_users (uw_db w') = ud_users (uw_db w) \<and> ud_sessions (uw_db w') = ud_sessions (uw_db w)"

definition clean :: "'a um_meth \<Rightarrow> bool" where
  "clean m \<longleftrightarrow> (\<forall>w e w'. m w = (Inl e, w') \<longrightarrow> same_accounts w w')"

definition never_fails :: "'a um_meth \<Rightarrow> bool" where
  "never_fails m \<longleftrightarrow> (\<forall>w e w'. m w \<noteq> (Inl e, w'))"

named_theorems clean_intros \<open>calls that fail cleanly\<close>

lemma clean_um_transaction [clean_intros]: "clean (um_transaction m)"
  by (auto simp: clean_def um_transaction_def same_accounts_def split: prod.splits sum.splits)

lemma clean_basic [clean_intros]: "clean (retM x)" "clean (raiseM e)" "clean (liftE r)" "clean (um_read f)"
  by (auto simp: clean_def same_accounts_def um_read_def)

lemma quiet_basic: "quiet (retM x)" "quiet (liftE r)" "quiet (um_read f)"
  by (auto simp: quiet_def um_read_def)

lemma clean_after_quiet: "quiet m \<Longrightarrow> (\<And>x. clean (f x)) \<Longrightarrow> clean (bindM m f)"
  unfolding clean_def bindM_eq_Inl same_accounts_def by (metis quietD)

lemma clean_then: "clean m \<Longrightarrow> (\<And>x. never_fails (f x)) \<Longrightarrow> clean (bindM m f)"
  unfolding clean_def bindM_eq_Inl never_fails_def by blast

lemma never_fails_basic: "never_fails (retM x)" "never_fails (um_read f)"
  by (simp_all add: never_fails_def um_read_def)

lemma never_fails_bind: "never_fails m \<Longrightarrow> (\<And>x. never_fails (f x)) \<Longrightarrow> never_fails (bindM m f)"
  by (auto simp: never_fails_def bindM_eq_Inl)

lemma never_fails_publish: "never_fails (um_publish env name payload actor)"
  unfolding um_publish_def
  by (intro never_fails_bind) (simp_all add: never_fails_def um_uuid4_def um_utcnow_def um_draw_def)

lemma clean_on_unique [clean_intros]: "clean m \<Longrightarrow> clean (on_unique e m)"
  unfolding clean_def on_unique_def by (auto split: prod.splits sum.splits)

lemma clean_done_with [clean_intros]: "clean m \<Longrightarrow> clean (done_with m)"
  unfolding done_with_def by (intro clean_then never_fails_basic)

lemma clean_cases [clean_intros]:
  "(c \<Longrightarrow> clean m) \<Longrightarrow> (\<not> c \<Longrightarrow> clean m') \<Longrightarrow> clean (if c then m else m')"
  "clean n \<Longrightarrow> (\<And>x. clean (f x)) \<Longrightarrow> clean (case opt of None \<Rightarrow> n | Some x \<Rightarrow> f x)"
  by (auto split: option.split)

lemmas clean_steps = clean_after_quiet [OF quiet_basic(2)] clean_after_quiet [OF quiet_basic(3)] clean_after_quiet [OF quiet_draws(4)]

lemma clean_sessions [clean_intros]:
  "clean (logout_backend env t request_id)" "clean (revoke_all_for_user env user_id)"
  "clean (revoke_other_sessions_for_user env user_id keep)" "clean (revoke_all_own_sessions env context)"
  unfolding logout_backend_def revoke_all_for_user_def revoke_other_sessions_for_user_def revoke_all_own_sessions_def
  by (intro clean_steps clean_intros)+

lemma clean_passwords [clean_intros]:
  "clean (change_own_password env policy context password)"
  "clean (set_user_password_as_admin env policy actor username password must_change)"
  "clean (change_password env policy username password)"
  unfolding change_own_password_def set_user_password_as_admin_def change_password_def Let_def
  by (intro clean_steps clean_intros clean_then never_fails_bind never_fails_basic never_fails_publish)+

lemma clean_get_user: "clean (get_user_or_raise username)" and quiet_get_user: "quiet (get_user_or_raise username)"
  unfolding get_user_or_raise_def
  by (auto simp: clean_def quiet_def same_accounts_def um_read_def split: option.split)

lemma clean_accounts [clean_intros]:
  "clean (create_user_as_admin env policy actor username password role qmb must_change)"
  "clean (create_user env policy username password role qmb must_change)"
  "clean (self_register env policy username password first_name last_name email)"
  "clean (bootstrap_first_admin env policy username password)"
  "clean (update_user_profile env username first_name last_name email display_name)"
  "clean (apply_user_access_change env username c maybe_actor)"
  "clean (update_user_access_as_admin env actor username new_role new_qmb active)"
  unfolding create_user_as_admin_def create_user_def self_register_def bootstrap_first_admin_def update_user_profile_def
    update_user_access_as_admin_def apply_user_access_change_def Let_def
  by (auto intro!: clean_steps clean_after_quiet [OF quiet_get_user] clean_intros clean_then [OF clean_on_unique] never_fails_bind never_fails_basic never_fails_publish
      split: prod.split)

lemma clean_ensure [clean_intros]: "clean (ensure_admin_credentials env policy username password role)"
  unfolding ensure_admin_credentials_def Let_def
  by (intro clean_steps clean_intros clean_then never_fails_basic)

lemma clean_qmb [clean_intros]: "clean (set_user_qmb env username qmb)"
proof -
  have "clean (\<lambda>w. case um_transaction m w of (Inl (UmKeyError t), w') \<Rightarrow> (Inl (UmUserNotFoundError (repr_str t)), w') | r \<Rightarrow> r)"
    for m :: "authenticated_user um_meth"
    using clean_um_transaction [of m] unfolding clean_def by (auto split: prod.splits sum.splits um_error.splits)
  then show ?thesis
    unfolding set_user_qmb_def Let_def
    by (intro clean_steps clean_then never_fails_bind never_fails_basic never_fails_publish)
qed

text \<open>A revocation that finds no session has not changed one.\<close>

lemma revoke_row_None: "revoke_row session_id moment w = (Inr None, w') \<Longrightarrow> same_accounts w w'"
proof -
  assume run: "revoke_row session_id moment w = (Inr None, w')"
  have "map (\<lambda>s. if P s then f s else s) rows = rows" if "filter P rows = []" for P :: "um_session \<Rightarrow> bool" and f rows
    using that by (induction rows) (auto split: if_splits)
  then show ?thesis using run by (auto simp: revoke_row_def um_returns same_accounts_def split: list.splits)
qed

lemma clean_revoke_session [clean_intros]: "clean (revoke_session env session_id t)"
proof -
  have load: "clean (load_for_revoke env session_id t)" "quiet (load_for_revoke env session_id t)"
    unfolding load_for_revoke_def
    by (auto simp: clean_def quiet_def same_accounts_def um_read_def raise_if_def bindM_liftE split: option.split)
  have "clean (bindM (um_transaction (revoke_row i moment)) (\<lambda>revoked.
       case revoked of
         Some s \<Rightarrow> retM s
       | None \<Rightarrow>
           bindM (um_read (\<lambda>db. get_by_session_id db i)) (\<lambda>current.
           case current of
             Some c \<Rightarrow> if se_revoked_at c \<noteq> None then retM c else raiseM (UmSessionNotFoundError ''session not found'')
           | None \<Rightarrow> raiseM (UmSessionNotFoundError ''session not found''))))" (is "clean (bindM _ ?next)") for i moment
  proof (unfold clean_def, intro allI impI)
    fix w e w'
    assume "bindM (um_transaction (revoke_row i moment)) ?next w = (Inl e, w')"
    then consider "um_transaction (revoke_row i moment) w = (Inl e, w')"
      | x w1 where "um_transaction (revoke_row i moment) w = (Inr x, w1)" "?next x w1 = (Inl e, w')"
      unfolding bindM_eq_Inl by blast
    then show "same_accounts w w'"
    proof cases
      case 1
      then show ?thesis using clean_um_transaction unfolding clean_def by blast
    next
      case 2
      then have "x = None" by (cases x) auto
      then have "revoke_row i moment w = (Inr None, w1)" using 2(1) by (auto simp: um_transaction_def split: prod.splits sum.splits)
      moreover have "w' = w1" using 2(2) \<open>x = None\<close> by (auto simp: um_read_def split: option.splits if_splits)
      ultimately show ?thesis using revoke_row_None by blast
    qed
  qed
  then show ?thesis
    unfolding revoke_session_def
    by (intro clean_after_quiet [OF load(2)] clean_intros clean_steps)
qed

lemma denied_same: "login_denied env request_id moment reason target w = (Inr None, w') \<Longrightarrow> same_accounts w w'"
  by (auto simp: login_denied_def same_accounts_def dest!: insert_audit_returns)

lemma login_denied_same:
  assumes "login_transaction env username password request_id moment w = (Inr None, w')"
    and hashed: "\<forall>r \<in> set (ud_users (uw_db w)). is_password_hash (us_password_hash r)"
  shows "same_accounts w w'"
proof (cases "user_row (uw_db w) username")
  case None
  then show ?thesis using assms(1) denied_same by (auto simp: login_transaction_def bindM_um_read get_by_username_def)
next
  case (Some r)
  then have "is_password_hash (us_password_hash r)" using hashed user_row_member by blast
  then show ?thesis
    using assms(1) Some denied_same
    by (auto simp: login_transaction_def bindM_um_read get_by_username_def get_user_def Let_def split: if_splits)
qed

lemma login_clean:
  assumes "login_backend env username password request_id w = (Inl e, w')"
    and hashed: "\<forall>r \<in> set (ud_users (uw_db w)). is_password_hash (us_password_hash r)"
  shows "same_accounts w w'"
proof -
  let ?w = "w\<lparr>uw_ticks := Suc (uw_ticks w)\<rparr>"
  have "request_id = [] \<and> w' = w \<or> (\<exists>r w1. um_transaction (login_transaction env username password request_id
      (um_clock env (uw_ticks w))) ?w = (r, w1) \<and> w' = w1 \<and> (r = Inl e \<or> r = Inr None))"
    using assms(1) unfolding login_backend_def
    by (auto simp: bindM_eq_Inl um_returns raise_if_def um_utcnow_def split: if_splits option.splits)
  then show ?thesis
  proof (elim disjE exE conjE)
    fix r w1
    assume run: "um_transaction (login_transaction env username password request_id (um_clock env (uw_ticks w))) ?w = (r, w1)"
      and "w' = w1" and "r = Inl e"
    then show ?thesis using clean_um_transaction by (fastforce simp: clean_def same_accounts_def)
  next
    fix r w1
    assume run: "um_transaction (login_transaction env username password request_id (um_clock env (uw_ticks w))) ?w = (r, w1)"
      and "w' = w1" and "r = Inr None"
    then have "login_transaction env username password request_id (um_clock env (uw_ticks w)) ?w = (Inr None, w')"
      by (auto simp: um_transaction_def split: prod.splits sum.splits)
    from login_denied_same [OF this] hashed show ?thesis by (simp add: same_accounts_def)
  qed (simp add: same_accounts_def)
qed

text \<open>The session tokens that a request presents are touched even where the resolution fails.\<close>

fun resolves :: "um_request \<Rightarrow> bool" where
  "resolves (ResolveSession t request_id allowed touch) = True"
| "resolves _ = False"

lemma request_clean:
  assumes run: "run_user env policy req w = (Inl e, w')" and "\<not> resolves req"
    and hashed: "\<forall>r \<in> set (ud_users (uw_db w)). is_password_hash (us_password_hash r)"
  shows "same_accounts w w'"
proof (cases "\<exists>username password request_id. req = LoginBackend username password request_id")
  case True
  then obtain username password request_id where req: "req = LoginBackend username password request_id" by blast
  then have "login_backend env username password request_id w = (Inl e, w')"
    using run by (auto simp: done_with_def bindM_eq_Inl)
  then show ?thesis using login_clean hashed by blast
next
  case False
  then have "clean (run_user env policy req)"
    using assms(2) by (cases req) (auto intro: clean_intros)
  then show ?thesis using run by (simp add: clean_def)
qed

section \<open>The evidence of a privileged request\<close>

definition by_actor :: "user_context \<Rightarrow> um_audit_event \<Rightarrow> bool" where
  "by_actor actor e \<longleftrightarrow> ax_actor_kind e = ActorUser \<and> ax_result e = ''succeeded'' \<and>
     ax_actor_user_id e = Some (u_user_id actor) \<and> ax_actor_session_id e = Some (u_session_id actor)"

definition evidenced :: "user_context \<Rightarrow> 'a um_meth \<Rightarrow> bool" where
  "evidenced actor m \<longleftrightarrow> (\<forall>w x w'. m w = (Inr x, w') \<longrightarrow>
     (\<exists>e. ud_audit (uw_db w') = ud_audit (uw_db w) @ [e] \<and> by_actor actor e))"

definition keeps_audit :: "'a um_meth \<Rightarrow> bool" where
  "keeps_audit m \<longleftrightarrow> (\<forall>w. ud_audit (uw_db (after (m w))) = ud_audit (uw_db w))"

lemma keeps_auditD: "keeps_audit m \<Longrightarrow> m w = (r, w') \<Longrightarrow> ud_audit (uw_db w') = ud_audit (uw_db w)"
  unfolding keeps_audit_def by (metis snd_conv)

named_theorems audit_kept \<open>calls that leave the audit table alone\<close>

lemma audit_kept_basic [audit_kept]:
  "keeps_audit (retM x)" "keeps_audit (raiseM e)" "keeps_audit (liftE r)" "keeps_audit (um_read f)" "keeps_audit (um_utcnow env)"
  "keeps_audit (um_uuid4 env)" "keeps_audit (hash_password env p)" "keeps_audit (um_write (ud_users_update g))"
  "keeps_audit (um_write (ud_sessions_update h))"
  by (simp_all add: keeps_audit_def um_read_def um_utcnow_def um_uuid4_def um_draw_def hash_password_def um_write_def)

lemma audit_kept_bind [audit_kept]: "keeps_audit m \<Longrightarrow> (\<And>x. keeps_audit (f x)) \<Longrightarrow> keeps_audit (bindM m f)"
  by (auto simp: keeps_audit_def bindM_def split: prod.split sum.split) (metis snd_conv)+

lemma audit_kept_cases [audit_kept]:
  "(c \<Longrightarrow> keeps_audit m) \<Longrightarrow> (\<not> c \<Longrightarrow> keeps_audit m') \<Longrightarrow> keeps_audit (if c then m else m')"
  "keeps_audit n \<Longrightarrow> (\<And>x. keeps_audit (f x)) \<Longrightarrow> keeps_audit (case opt of None \<Rightarrow> n | Some x \<Rightarrow> f x)"
  "(\<And>x y z. keeps_audit (g x y z)) \<Longrightarrow> keeps_audit (case p of (x, y, z) \<Rightarrow> g x y z)"
  by (auto split: option.split prod.split)

lemma audit_kept_rows [audit_kept]:
  "keeps_audit (change_password_row env username password)" "keeps_audit (set_must_change_row env username must_change)"
  "keeps_audit (create_user_row env username password role active qmb must_change first_name last_name email)"
  "keeps_audit (revoke_all_rows user_id moment)" "keeps_audit (revoke_other_rows user_id keep moment)"
  "keeps_audit (update_admin_fields_row env username c)"
  unfolding change_password_row_def set_must_change_row_def create_user_row_def revoke_all_rows_def revoke_other_rows_def
    update_sessions_def update_by_username_def update_admin_fields_row_def Let_def
  by (intro audit_kept)+

named_theorems evidenced_intros \<open>calls that leave one audit event of their actor\<close>

lemma evidenced_bind: "keeps_audit m \<Longrightarrow> (\<And>x. evidenced actor (f x)) \<Longrightarrow> evidenced actor (bindM m f)"
  unfolding evidenced_def bindM_eq_Inr using keeps_auditD by fastforce

lemma evidenced_insert [evidenced_intros]:
  "by_actor actor e \<Longrightarrow> evidenced actor (bindM (insert_audit env False e) (\<lambda>_. retM y))"
  by (auto simp: evidenced_def by_actor_def dest!: insert_audit_returns)

lemma evidenced_transaction [evidenced_intros]: "evidenced actor m \<Longrightarrow> evidenced actor (um_transaction m)"
  by (auto simp: evidenced_def um_transaction_def split: prod.splits sum.splits)

lemma evidenced_unique [evidenced_intros]: "evidenced actor m \<Longrightarrow> evidenced actor (on_unique e m)"
  unfolding evidenced_def on_unique_def by (auto split: prod.splits sum.splits)

lemma evidenced_done [evidenced_intros]: "evidenced actor m \<Longrightarrow> evidenced actor (done_with m)"
  unfolding evidenced_def done_with_def by auto

lemma evidenced_option [evidenced_intros]:
  "(\<And>x. evidenced actor (f x)) \<Longrightarrow> evidenced actor (case opt of None \<Rightarrow> raiseM e | Some x \<Rightarrow> f x)"
  by (auto simp: evidenced_def split: option.split)

lemma by_context_actor [simp]: "by_actor actor (by_context actor event_type target moment)"
  by (simp add: by_actor_def by_context_def audit_event_write_def)

lemma by_actor_update [simp]:
  "by_actor actor (ax_affected_session_count_update f1 e) = by_actor actor e" "by_actor actor (ax_role_after_update f2 e) = by_actor actor e"
  "by_actor actor (ax_role_before_update f3 e) = by_actor actor e" "by_actor actor (ax_is_qmb_after_update f4 e) = by_actor actor e"
  "by_actor actor (ax_is_qmb_before_update f5 e) = by_actor actor e" "by_actor actor (ax_is_active_after_update f6 e) = by_actor actor e"
  "by_actor actor (ax_is_active_before_update f7 e) = by_actor actor e" "by_actor actor (ax_changed_fields_update f8 e) = by_actor actor e"
  "by_actor actor (ax_must_change_after_update f9 e) = by_actor actor e"
  "by_actor actor (ax_must_change_before_update f10 e) = by_actor actor e"
  by (simp_all add: by_actor_def)

lemma evidenced_requests [evidenced_intros]:
  "evidenced context (revoke_all_own_sessions env context)"
  "evidenced context (change_own_password env policy context password)"
  "evidenced actor (set_user_password_as_admin env policy actor username password must_change)"
  "evidenced actor (create_user_as_admin env policy actor username password role qmb must_change)"
  unfolding revoke_all_own_sessions_def change_own_password_def set_user_password_as_admin_def create_user_as_admin_def Let_def
  by (intro evidenced_intros evidenced_bind audit_kept; simp)+

text \<open>What an account may do, without its profile and its time stamps.\<close>

definition access_columns :: "account \<Rightarrow> string \<times> string \<times> string \<times> string \<times> bool \<times> bool \<times> bool" where
  "access_columns r = (us_user_id r, us_username r, us_password_hash r, us_role r, us_is_active r, us_is_qmb r, us_must_change_password r)"

definition same_access :: "um_db \<Rightarrow> um_db \<Rightarrow> bool" where
  "same_access db db' \<longleftrightarrow> map access_columns (ud_users db') = map access_columns (ud_users db) \<and>
     ud_sessions db' = ud_sessions db \<and> ud_audit db' = ud_audit db"

lemma access_row_returns:
  assumes "update_admin_fields_row env username c w = (Inr x, w')"
  shows "\<exists>current row. user_row (uw_db w) username = Some current \<and>
    uw_db w' = ud_users_update (map (\<lambda>r. if us_user_id r = us_user_id current then row else r)) (uw_db w) \<and>
    access_columns row = (us_user_id current, us_username current, us_password_hash current, value_or (xc_role c) (us_role current),
      value_or (xc_is_active c) (us_is_active current), value_or (xc_is_qmb c) (us_is_qmb current), us_must_change_password current)"
  using assms by (auto simp: update_admin_fields_row_def um_returns Let_def access_columns_def split: option.splits if_splits)

lemma unchanged_access:
  assumes tables: "tables_ok (uw_db w)" and user: "get_user (uw_db w) username = Some current"
    and unchanged: "changed_access_fields current c = []" and run: "update_admin_fields_row env username c w = (Inr x, w')"
  shows "same_access (uw_db w) (uw_db w')"
proof -
  obtain old row where old: "user_row (uw_db w) username = Some old"
    and w': "uw_db w' = ud_users_update (map (\<lambda>r. if us_user_id r = us_user_id old then row else r)) (uw_db w)"
    and row: "access_columns row = (us_user_id old, us_username old, us_password_hash old, value_or (xc_role c) (us_role old),
      value_or (xc_is_active c) (us_is_active old), value_or (xc_is_qmb c) (us_is_qmb old), us_must_change_password old)"
    using access_row_returns [OF run] by blast
  have current: "current = user_from_row old" using user old by (simp add: get_user_def)
  have "value_or (xc_role c) (us_role old) = us_role old" "value_or (xc_is_active c) (us_is_active old) = us_is_active old"
    "value_or (xc_is_qmb c) (us_is_qmb old) = us_is_qmb old"
    using unchanged by (auto simp: current changed_access_fields_def value_or_def split: if_splits option.splits)
  then have "access_columns row = access_columns old" unfolding row by (simp add: access_columns_def)
  moreover have "r = old" if "r \<in> set (ud_users (uw_db w))" "us_user_id r = us_user_id old" for r
    using tables that user_row_member [OF old] unfolding tables_ok_def by (metis distinct_map inj_onD)
  ultimately have "access_columns (if us_user_id r = us_user_id old then row else r) = access_columns r"
    if "r \<in> set (ud_users (uw_db w))" for r using that by auto
  then show ?thesis by (simp add: same_access_def w')
qed

text \<open>A change of access leaves one event, or nothing has changed.\<close>

lemma evidenced_access_body:
  assumes tables: "tables_ok (uw_db w)" and user: "get_user (uw_db w) username = Some current"
    and e: "\<And>updated revoked. by_actor actor (e updated revoked)"
    and body: "bindM (update_admin_fields_row env username c) (\<lambda>updated.
        bindM (if us_is_active current \<and> \<not> value_or (xc_is_active c) (us_is_active current)
          then revoke_all_rows (us_user_id updated) moment else retM []) (\<lambda>revoked.
        bindM (if changed_access_fields current c = [] then retM True else insert_audit env False (e updated revoked)) (\<lambda>_.
        retM updated))) w = (Inr x, w')"
  shows "(\<exists>e. ud_audit (uw_db w') = ud_audit (uw_db w) @ [e] \<and> by_actor actor e) \<or> same_access (uw_db w) (uw_db w')"
proof (cases "changed_access_fields current c = []")
  case True
  then have "\<not> (us_is_active current \<and> \<not> value_or (xc_is_active c) (us_is_active current))"
    by (auto simp: changed_access_fields_def value_or_def split: if_splits option.splits)
  then have "update_admin_fields_row env username c w = (Inr x, w')" using body True by (auto simp: if_not_P)
  then show ?thesis using unchanged_access [OF tables user True] by blast
next
  case False
  have "evidenced actor (bindM (update_admin_fields_row env username c) (\<lambda>updated.
        bindM (if us_is_active current \<and> \<not> value_or (xc_is_active c) (us_is_active current)
          then revoke_all_rows (us_user_id updated) moment else retM []) (\<lambda>revoked.
        bindM (insert_audit env False (e updated revoked)) (\<lambda>_. retM updated))))"
    by (intro evidenced_intros evidenced_bind audit_kept e)
  then show ?thesis using body False unfolding evidenced_def by simp
qed

lemma evidenced_access:
  assumes tables: "tables_ok (uw_db w)" and run: "apply_user_access_change env username0 c (Some actor) w = (Inr x, w')"
  shows "(\<exists>e. ud_audit (uw_db w') = ud_audit (uw_db w) @ [e] \<and> by_actor actor e) \<or> same_access (uw_db w) (uw_db w')"
proof (cases "get_user (uw_db w) (py_strip username0)")
  case None
  then show ?thesis using run
    by (simp add: apply_user_access_change_def Let_def get_user_or_raise_def um_read_def bindM_assoc bindM_liftE raise_if_def split: if_splits)
next
  case (Some current)
  let ?w = "w\<lparr>uw_ticks := Suc (uw_ticks w)\<rparr>" and ?now = "um_clock env (uw_ticks w)"
  let ?inactive = "us_is_active current \<and> \<not> value_or (xc_is_active c) (us_is_active current)"
  define e where "e updated revoked = (by_context actor ''user.access_changed'' (us_user_id updated) ?now)
    \<lparr>ax_affected_session_count := (if ?inactive then Some (length revoked) else None),
     ax_changed_fields := Some (changed_access_fields current c),
     ax_role_before := Some (us_role current), ax_role_after := Some (us_role updated),
     ax_is_qmb_before := Some (us_is_qmb current), ax_is_qmb_after := Some (us_is_qmb updated),
     ax_is_active_before := Some (us_is_active current), ax_is_active_after := Some (us_is_active updated)\<rparr>"
    for updated :: authenticated_user and revoked :: "um_session list"
  have "bindM (update_admin_fields_row env (py_strip username0) c) (\<lambda>updated.
        bindM (if ?inactive then revoke_all_rows (us_user_id updated) ?now else retM []) (\<lambda>revoked.
        bindM (if changed_access_fields current c = [] then retM True else insert_audit env False (e updated revoked)) (\<lambda>_.
        retM updated))) ?w = (Inr x, w')"
    using run Some unfolding e_def
    by (simp add: apply_user_access_change_def Let_def get_user_or_raise_def um_read_def um_utcnow_def bindM_assoc bindM_liftE
        bindM_Inr [where w' = ?w] um_transaction_def del: bindM_eq_Inr split: sum.splits if_splits prod.splits)
  then show ?thesis
    using evidenced_access_body [of ?w "py_strip username0" current actor e env c ?now x w'] tables Some by (simp add: e_def)
qed

text \<open>The requests that carry the actor who is responsible for them.\<close>

fun acting :: "um_request \<Rightarrow> user_context option" where
  "acting (RevokeAllOwn context) = Some context"
| "acting (ChangeOwnPassword context password) = Some context"
| "acting (CreateUserAsAdmin actor username password role qmb must_change) = Some actor"
| "acting (UpdateUserAccess actor username role qmb active) = Some actor"
| "acting (SetUserPassword actor username password must_change) = Some actor"
| "acting _ = None"

fun administers :: "um_request \<Rightarrow> bool" where
  "administers (CreateUserAsAdmin actor username password role qmb must_change) = True"
| "administers (UpdateUserAccess actor username role qmb active) = True"
| "administers (SetUserPassword actor username password must_change) = True"
| "administers _ = False"

lemma required_actor:
  "require_confirmed actor = Inr u \<longleftrightarrow> u_confirmed actor"
  "require_admin_actor actor = Inr v \<longleftrightarrow> u_confirmed actor \<and> ''ADMIN'' \<in> set (u_global_roles actor)"
  by (auto simp: require_confirmed_def require_admin_actor_def can_administer_users_def)

lemma request_authority:
  assumes "run_user env policy req w = (Inr x, w')" and "acting req = Some actor"
  shows "u_confirmed actor \<and> (administers req \<longrightarrow> ''ADMIN'' \<in> set (u_global_roles actor))"
  using assms
  by (cases req) (auto simp: done_with_def create_user_as_admin_def update_user_access_as_admin_def set_user_password_as_admin_def
      change_own_password_def revoke_all_own_sessions_def required_actor)

lemma request_evidence:
  assumes reachable: "um_reachable env w" and run: "run_user env policy req w = (Inr x, w')" and actor: "acting req = Some actor"
  shows "(\<exists>e. ud_audit (uw_db w') = ud_audit (uw_db w) @ [e] \<and> by_actor actor e) \<or> same_access (uw_db w) (uw_db w')"
proof (cases "\<exists>username role qmb active. req = UpdateUserAccess actor username role qmb active")
  case True
  then obtain y username c where "apply_user_access_change env username c (Some actor) w = (Inr y, w')"
    using run by (force simp: done_with_def update_user_access_as_admin_def)
  then show ?thesis using evidenced_access um_ok_tables [OF reachable_um_ok [OF reachable]] by blast
next
  case False
  then have "evidenced actor (run_user env policy req)" using actor by (cases req) (auto intro: evidenced_intros)
  then show ?thesis using run unfolding evidenced_def by blast
qed

lemma user_row_map:
  assumes "\<And>r. us_username (f r) = us_username r"
  shows "find (same_username username) (map f rows) = map_option f (find (same_username username) rows)"
  using assms by (induction rows) (auto simp: same_username_def)

end
