(* ===== verification/UserScenario.thy ===== *)
theory UserScenario
  imports UserBehaviour RunMethods
begin

text \<open>
  A concrete environment of the user management, its first administrator, who logs in, and the worlds that
  the witnesses start from. The functions for hashes stand for \<open>sha256\<close> and \<open>bcrypt\<close>.
\<close>

definition um_env1 :: um_env where
  "um_env1 = \<lparr>um_clock = int, um_uuid = (\<lambda>n. replicate (Suc n) CHR ''u''), um_token = (\<lambda>n. replicate (Suc n) CHR ''t''),
     um_sha256 = (\<lambda>s. CHR ''h'' # s), um_hashpw = (\<lambda>n p. ''$2b$'' @ p), um_checkpw = (\<lambda>p h. h = ''$2b$'' @ p)\<rparr>"

definition policy1 :: password_policy where
  "policy1 = \<lparr>pp_min_length = 6, pp_require_letter = True, pp_require_digit = False, pp_require_uppercase = False,
     pp_require_special = False\<rparr>"

lemma um_env1_simps [simp]:
  "um_clock um_env1 n = int n" "um_uuid um_env1 n = replicate (Suc n) CHR ''u''" "um_token um_env1 n = replicate (Suc n) CHR ''t''"
  "um_sha256 um_env1 s = CHR ''h'' # s" "um_hashpw um_env1 n p = ''$2b$'' @ p" "um_checkpw um_env1 p h \<longleftrightarrow> h = ''$2b$'' @ p"
  by (simp_all add: um_env1_def)

definition um_start :: um_world where
  "um_start = run_users um_env1 [(policy1, BootstrapFirstAdmin ''admin'' ''secret''), (policy1, LoginBackend ''admin'' ''secret'' ''r1'')]
     empty_um_world"


lemmas um_method_evals = fun_cong [OF um_read_def] fun_cong [OF um_write_def] fun_cong [OF um_utcnow_def] fun_cong [OF um_draw_def]
  fun_cong [OF um_uuid4_def] fun_cong [OF generate_session_token_def] fun_cong [OF hash_password_def] fun_cong [OF um_transaction_def]
  fun_cong [OF create_user_row_def] fun_cong [OF update_by_username_def] fun_cong [OF change_password_row_def]
  fun_cong [OF set_must_change_row_def] fun_cong [OF update_profile_row_def] fun_cong [OF update_admin_fields_row_def]
  fun_cong [OF add_session_def] fun_cong [OF update_sessions_def] fun_cong [OF touch_session_def] fun_cong [OF revoke_row_def]
  fun_cong [OF revoke_all_rows_def] fun_cong [OF revoke_other_rows_def] fun_cong [OF insert_audit_def] fun_cong [OF login_denied_def]
  fun_cong [OF login_transaction_def] fun_cong [OF login_backend_def] fun_cong [OF resolve_opaque_session_def]
  fun_cong [OF resolve_session_def] fun_cong [OF revoke_all_own_sessions_def] fun_cong [OF change_own_password_def]
  fun_cong [OF set_user_password_as_admin_def] fun_cong [OF on_unique_def] fun_cong [OF create_user_as_admin_def]
  fun_cong [OF get_user_or_raise_def] fun_cong [OF apply_user_access_change_def] fun_cong [OF update_user_access_as_admin_def]
  fun_cong [OF bootstrap_first_admin_def] fun_cong [OF done_with_def]

lemmas um_data_evals = empty_um_world_def empty_um_db_def policy1_def user_row_def get_by_username_def get_user_def list_users_def
  display_values_def strip_or_none_def same_username_def value_or_def session_row_ok_def get_by_token_hash_def get_by_session_id_def
  audit_row_ok_def actor_form_def refers_to_def expiry_recorded_def audit_event_write_def by_context_def session_lifetime_def
  validate_password_def is_password_hash_def verify_password_def hash_session_token_def user_from_row_def authenticated_user.defs
  py_strip_def py_space_def py_lower_def lower_char_def starts_with_def py_alpha_def py_digit_def py_alnum_def or_str_def find.simps

lemmas um_evals = um_method_evals um_data_evals run_basics

lemma um_start_reachable: "um_reachable um_env1 um_start"
  unfolding um_start_def by (rule run_users_reachable) (rule um_reachable.start)

text \<open>What the bootstrap and the login leave: an obliged administrator and a live session.\<close>

definition first_admin :: account where
  "first_admin = \<lparr>us_user_id = ''u'', us_username = ''admin'', us_role = ''Admin'', us_first_name = Some ''admin'', us_last_name = None,
     us_display_name = Some ''admin'', us_email = None, us_department = None, us_scope = None, us_organization_unit = None,
     us_is_active = True, us_is_qmb = False, us_must_change_password = True, us_password_hash = ''$2b$secret'',
     us_deactivated_at = None, us_created_at = 0, us_updated_at = 0\<rparr>"

definition first_session :: um_session where
  "first_session = \<lparr>se_session_id = ''uuuu'', se_token_hash = ''httt'', se_user_id = ''u'', se_created_at = 1, se_last_seen_at = 1,
     se_expires_at = 43200000001, se_client_type = ''backend'', se_authentication_level = ''password'', se_revoked_at = None\<rparr>"

lemma um_start_state:
  "ud_users (uw_db um_start) = [first_admin]" "ud_sessions (uw_db um_start) = [first_session]" "uw_ticks um_start = 2"
  unfolding um_start_def first_admin_def first_session_def
  by (simp_all add: um_evals del: bindM_basic bindM_liftE_simps cong: run_congs)

lemma admin_role: "normalize_base_role (Some ''Admin'') = ''ADMIN''"
  by (simp add: normalize_base_role_def py_upper_def upper_char_def py_strip_def py_space_def char_of_numeral of_char_Char)

text \<open>The context that the session of the administrator resolves to.\<close>

definition admin_context :: user_context where
  "admin_context = \<lparr>u_user_id = ''u'', u_session_id = ''uuuu'', u_request_id = ''r2'', u_organization_id = installation_organization_id,
     u_username = ''admin'', u_global_roles = [''ADMIN''], u_is_qmb = False, u_confirmed = True\<rparr>"

text \<open>A second login, with another spelling of the name.\<close>

lemma second_login:
  "\<exists>issued w'. login_backend um_env1 ''ADMIN'' ''secret'' ''r3'' um_start = (Inr issued, w') \<and>
     is_raw_token issued = ''tttttt'' \<and> se_session_id (is_session issued) = ''uuuuuuu'' \<and> uw_ticks w' = 3 \<and>
     ud_users (uw_db w') = [first_admin]"
  unfolding um_start_def first_admin_def
  by (simp add: um_evals del: bindM_basic bindM_liftE_simps cong: run_congs)

text \<open>An account that was brought over with a password in plain text, obliged to change it.\<close>

definition legacy_admin :: account where
  "legacy_admin = first_admin\<lparr>us_password_hash := ''secret''\<rparr>"

definition legacy_world :: um_world where
  "legacy_world = empty_um_world\<lparr>uw_db := \<lparr>ud_users = [legacy_admin], ud_sessions = [], ud_audit = []\<rparr>\<rparr>"

lemma legacy_login:
  "\<exists>issued w'. login_backend um_env1 ''admin'' ''secret'' ''r1'' legacy_world = (Inr issued, w')"
  unfolding legacy_world_def legacy_admin_def first_admin_def
  by (simp add: um_evals del: bindM_basic bindM_liftE_simps cong: run_congs)

text \<open>The administrator creates an account, and may not depose itself.\<close>

lemma creation_run:
  "\<exists>x w'. run_user um_env1 policy1 (CreateUserAsAdmin admin_context ''eve'' ''secret'' ''User'' False True) um_start = (Inr x, w')"
  unfolding um_start_def admin_context_def
  by (simp add: um_evals role_known_def require_admin_actor_def can_administer_users_def del: bindM_basic bindM_liftE_simps cong: run_congs)

lemma deposition_run:
  "\<exists>e w'. run_user um_env1 policy1 (SetUserActive ''admin'' False) um_start = (Inl e, w')"
  unfolding um_start_def
  by (simp add: um_evals assert_not_last_active_admin_def is_admin_user_def admin_role del: bindM_basic bindM_liftE_simps cong: run_congs)

end
