(* ===== verification/UserProperties.thy ===== *)
theory UserProperties
  imports UserScenario
begin

text \<open>
  The properties of the user management, over every sequence of requests from an empty database, or over
  every world where that suffices, each with a witness.
\<close>

text \<open>C30. Whatever requests run, deactivation and change of roles included: where there is an active
  administrator, there is an active administrator afterwards.\<close>

theorem an_active_admin_remains:
  assumes "um_reachable env w"
    and "\<exists>r \<in> set (ud_users (uw_db w)). us_is_active r \<and> normalize_base_role (Some (us_role r)) = ''ADMIN''"
  shows "\<exists>r \<in> set (ud_users (uw_db (run_users env reqs w))). us_is_active r \<and> normalize_base_role (Some (us_role r)) = ''ADMIN''"
proof -
  have "um_ok True (uw_db w)"
    using reachable_um_ok [OF assms(1)] assms(2) by (simp add: um_ok_def has_admin_def admin_row_def)
  from run_users_um_ok [OF this, of env reqs] show ?thesis by (simp add: um_ok_def has_admin_def admin_row_def)
qed

theorem an_active_admin_remains_witness:
  "\<exists>r \<in> set (ud_users (uw_db (run_users um_env1 [(policy1, SetUserActive ''admin'' False),
      (policy1, UpdateUserAccess admin_context ''admin'' (Some ''User'') None None)] um_start))).
     us_is_active r \<and> normalize_base_role (Some (us_role r)) = ''ADMIN''"
  by (rule an_active_admin_remains [OF um_start_reachable])
    (simp add: um_start_state first_admin_def admin_role)

text \<open>C31. In every reachable world the user identifiers, the user names in lower case, the session identifiers and
  the token hashes are unique, every session row satisfies the \<open>CHECK\<close>s of its table and belongs to an account,
  and one that is not revoked belongs to an active account.\<close>

theorem tables_stay_well_formed:
  assumes "um_reachable env w"
  shows "distinct (map us_user_id (ud_users (uw_db w))) \<and>
    distinct (map (\<lambda>r. py_lower (us_username r)) (ud_users (uw_db w))) \<and>
    distinct (map se_session_id (ud_sessions (uw_db w))) \<and> distinct (map se_token_hash (ud_sessions (uw_db w))) \<and>
    (\<forall>s \<in> set (ud_sessions (uw_db w)). session_row_ok s \<and>
      (\<exists>r \<in> set (ud_users (uw_db w)). us_user_id r = se_user_id s \<and> (se_revoked_at s = None \<longrightarrow> us_is_active r)))"
proof -
  have ok: "tables_ok (uw_db w)" "live_except {} (uw_db w)" using reachable_um_ok [OF assms] by (simp_all add: um_ok_def)
  have "\<exists>r \<in> set (ud_users (uw_db w)). us_user_id r = se_user_id s \<and> (se_revoked_at s = None \<longrightarrow> us_is_active r)"
    if "s \<in> set (ud_sessions (uw_db w))" for s
    using ok that by (cases "se_revoked_at s = None") (force simp: tables_ok_def live_except_def active_ids_def)+
  then show ?thesis using ok(1) by (simp add: tables_ok_def)
qed

theorem tables_stay_well_formed_witness:
  "first_session \<in> set (ud_sessions (uw_db um_start)) \<and>
   (\<exists>r \<in> set (ud_users (uw_db um_start)). us_user_id r = se_user_id first_session \<and> us_is_active r)"
  using tables_stay_well_formed [OF um_start_reachable] um_start_state by (auto simp: first_session_def)

text \<open>C32. A token resolves exactly where its session is neither revoked nor expired and belongs to an
  active account, one that need not change its password first or may resolve for that; the context then
  has the role of the account as it is now, and only the time the session was last seen changes.\<close>

theorem resolution_contract:
  assumes "um_reachable env w"
  shows "resolve_session env t request_id allowed touch w = (Inr ctx, w') \<longleftrightarrow>
    \<not> blank_token t \<and> request_id \<noteq> [] \<and>
    (\<exists>s \<in> set (ud_sessions (uw_db w)). \<exists>r \<in> set (ud_users (uw_db w)).
      se_token_hash s = hash_session_token env (token_text t) \<and> se_revoked_at s = None \<and>
      um_clock env (uw_ticks w) < se_expires_at s \<and> us_user_id r = se_user_id s \<and> us_is_active r \<and>
      (allowed \<or> \<not> us_must_change_password r) \<and> us_user_id r \<noteq> [] \<and> se_session_id s \<noteq> [] \<and> us_username r \<noteq> [] \<and>
      ctx = context_of r s request_id \<and>
      w' = w\<lparr>uw_ticks := Suc (uw_ticks w), uw_db := ud_sessions_update
        (touched_rows (se_session_id s) (if touch then um_clock env (uw_ticks w) else se_last_seen_at s)) (uw_db w)\<rparr>)"
  unfolding resolution_of [OF assms] resolvable_def by blast

theorem resolution_contract_witness:
  "\<exists>ctx w'. resolve_session um_env1 (Some ''ttt'') ''r2'' True True um_start = (Inr ctx, w') \<and>
     u_user_id ctx = ''u'' \<and> u_global_roles ctx = [''ADMIN''] \<and> (\<nexists>ctx' w''. resolve_session um_env1 (Some ''ttt'') ''r2'' False True um_start = (Inr ctx', w''))"
  unfolding resolution_contract [OF um_start_reachable]
  by (simp add: um_start_state first_admin_def first_session_def context_of_def admin_role blank_token_def token_text_def
      hash_session_token_def py_strip_def py_space_def of_char_Char)

text \<open>C33. The token that a login returns resolves, before the session expires, to the account that logged
  in, also where this one has to change its password and may resolve for that.\<close>

theorem login_token_resolves:
  assumes "um_reachable env w" and login: "login_backend env username password request_id w = (Inr issued, w')"
    and "py_strip (is_raw_token issued) \<noteq> []" and "request_id' \<noteq> []" and "se_session_id (is_session issued) \<noteq> []"
    and "um_clock env (uw_ticks w') < um_clock env (uw_ticks w) + session_lifetime"
    and "\<And>r. r \<in> set (ud_users (uw_db w')) \<Longrightarrow> us_user_id r \<noteq> [] \<and> us_username r \<noteq> []"
  shows "\<exists>ctx w''. resolve_session env (Some (is_raw_token issued)) request_id' True touch w' = (Inr ctx, w'') \<and>
    py_lower (u_username ctx) = py_lower username \<and> u_session_id ctx = se_session_id (is_session issued)"
proof -
  have reachable: "um_reachable env w'"
    using um_reachable.step [OF assms(1), of _ "LoginBackend username password request_id"] login by (simp add: done_with_def bindM_def)
  obtain w1 where w1: "uw_db w1 = uw_db w"
    and run: "login_transaction env username password request_id (um_clock env (uw_ticks w)) w1 = (Inr (Some issued), w')"
    using login_returns [OF login] by blast
  let ?s = "is_session issued"
  obtain u db0 where u: "get_user db0 username = Some u" "us_is_active u" "ud_users (uw_db w') = ud_users db0"
    and s: "?s \<in> set (ud_sessions (uw_db w'))" "se_token_hash ?s = hash_session_token env (is_raw_token issued)" "se_revoked_at ?s = None"
      "se_expires_at ?s = um_clock env (uw_ticks w) + session_lifetime" "se_user_id ?s = us_user_id u"
    using login_transaction_returns [OF run] by blast
  obtain r where r: "r \<in> set (ud_users (uw_db w'))" "same_username username r" "u = user_from_row r"
    using u unfolding get_user_def by (metis map_option_eq_Some user_row_member)
  have "resolve_session env (Some (is_raw_token issued)) request_id' True touch w' = (Inr (context_of r ?s request_id'),
      w'\<lparr>uw_ticks := Suc (uw_ticks w'), uw_db := ud_sessions_update
        (touched_rows (se_session_id ?s) (if touch then um_clock env (uw_ticks w') else se_last_seen_at ?s)) (uw_db w')\<rparr>)"
    unfolding resolution_of [OF reachable]
    using assms(3-7) s r u by (auto simp: blank_token_def token_text_def resolvable_def intro!: exI [of _ ?s] exI [of _ r])
  then show ?thesis using r(2) by (simp add: context_of_def same_username_def)
qed

theorem login_token_resolves_witness:
  "\<exists>issued w' ctx w''. login_backend um_env1 ''ADMIN'' ''secret'' ''r3'' um_start = (Inr issued, w') \<and>
     resolve_session um_env1 (Some (is_raw_token issued)) ''r4'' True True w' = (Inr ctx, w'') \<and>
     py_lower (u_username ctx) = py_lower ''ADMIN'' \<and> u_session_id ctx = se_session_id (is_session issued)"
proof -
  obtain issued w' where login: "login_backend um_env1 ''ADMIN'' ''secret'' ''r3'' um_start = (Inr issued, w')"
    and facts: "is_raw_token issued = ''tttttt''" "se_session_id (is_session issued) = ''uuuuuuu''" "uw_ticks w' = 3"
      "ud_users (uw_db w') = [first_admin]"
    using second_login by blast
  have "\<exists>ctx w''. resolve_session um_env1 (Some (is_raw_token issued)) ''r4'' True True w' = (Inr ctx, w'') \<and>
     py_lower (u_username ctx) = py_lower ''ADMIN'' \<and> u_session_id ctx = se_session_id (is_session issued)"
    by (rule login_token_resolves [OF um_start_reachable login])
      (simp_all add: facts um_start_state first_admin_def session_lifetime_def py_strip_def py_space_def of_char_Char)
  then show ?thesis using login by blast
qed

text \<open>A request that fails leaves accounts and sessions as they were, where no password is stored in
  plain text; the resolution of a session, which touches it, is the exception.\<close>

theorem failed_requests_change_no_account:
  assumes "run_user env policy req w = (Inl e, w')" and "\<not> resolves req"
    and "\<forall>r \<in> set (ud_users (uw_db w)). is_password_hash (us_password_hash r)"
  shows "ud_users (uw_db w') = ud_users (uw_db w) \<and> ud_sessions (uw_db w') = ud_sessions (uw_db w)"
  using request_clean [OF assms] by (simp add: same_accounts_def)

theorem failed_requests_change_no_account_witness:
  "\<exists>e w'. run_user um_env1 policy1 (SetUserActive ''admin'' False) um_start = (Inl e, w') \<and>
     ud_users (uw_db w') = [first_admin] \<and> ud_sessions (uw_db w') = [first_session]"
proof -
  obtain e w' where run: "run_user um_env1 policy1 (SetUserActive ''admin'' False) um_start = (Inl e, w')"
    using deposition_run by blast
  have "ud_users (uw_db w') = ud_users (uw_db um_start) \<and> ud_sessions (uw_db w') = ud_sessions (uw_db um_start)"
    by (rule failed_requests_change_no_account [OF run])
      (simp_all add: um_start_state first_admin_def is_password_hash_def starts_with_def)
  then show ?thesis using run um_start_state by simp
qed

text \<open>A login with a password that is still stored in plain text hashes it and, on the way, lifts the
  obligation to change the password.\<close>

theorem plaintext_login_lifts_the_obligation:
  assumes "login_backend env username password request_id w = (Inr issued, w')"
    and row: "user_row (uw_db w) username = Some r" and plain: "\<not> is_password_hash (us_password_hash r)"
  shows "\<exists>r'. user_row (uw_db w') username = Some r' \<and> us_user_id r' = us_user_id r \<and> \<not> us_must_change_password r'"
proof -
  obtain w1 where w1: "uw_db w1 = uw_db w"
    and run: "login_transaction env username password request_id (um_clock env (uw_ticks w)) w1 = (Inr (Some issued), w')"
    using login_returns [OF assms(1)] by blast
  have "\<exists>hashed now. ud_users (uw_db w') = map (\<lambda>r. if same_username username r
       then r\<lparr>us_password_hash := hashed, us_must_change_password := False, us_updated_at := now\<rparr> else r) (ud_users (uw_db w))"
    using login_transaction_returns [OF run] row plain by (auto simp: w1) blast
  then show ?thesis
    using row user_row_member [OF row] unfolding user_row_def by (auto simp: user_row_map)
qed

theorem plaintext_login_lifts_the_obligation_witness:
  "us_must_change_password legacy_admin \<and>
   (\<exists>issued w' r'. login_backend um_env1 ''admin'' ''secret'' ''r1'' legacy_world = (Inr issued, w') \<and>
     user_row (uw_db w') ''admin'' = Some r' \<and> us_user_id r' = us_user_id legacy_admin \<and> \<not> us_must_change_password r')"
proof -
  obtain issued w' where run: "login_backend um_env1 ''admin'' ''secret'' ''r1'' legacy_world = (Inr issued, w')"
    using legacy_login by blast
  have "user_row (uw_db legacy_world) ''admin'' = Some legacy_admin"
    by (simp add: user_row_def same_username_def legacy_world_def legacy_admin_def first_admin_def)
  moreover have "\<not> is_password_hash (us_password_hash legacy_admin)" "us_must_change_password legacy_admin"
    by (simp_all add: legacy_admin_def first_admin_def is_password_hash_def starts_with_def)
  ultimately show ?thesis using plaintext_login_lifts_the_obligation [OF run] run by blast
qed

text \<open>C34. Where a request of an actor succeeds, the actor was confirmed, an administrator if it is an
  administrative request, and either exactly one audit event names it with its session, or neither access
  nor password nor session of any account has changed.\<close>

theorem privileged_changes_leave_evidence:
  assumes "um_reachable env w" and "run_user env policy req w = (Inr x, w')" and "acting req = Some actor"
  shows "u_confirmed actor \<and> (administers req \<longrightarrow> ''ADMIN'' \<in> set (u_global_roles actor)) \<and>
    ((\<exists>e. ud_audit (uw_db w') = ud_audit (uw_db w) @ [e] \<and> by_actor actor e) \<or> same_access (uw_db w) (uw_db w'))"
  using request_authority [OF assms(2,3)] request_evidence [OF assms] by blast

theorem privileged_changes_leave_evidence_witness:
  "\<exists>x w'. run_user um_env1 policy1 (CreateUserAsAdmin admin_context ''eve'' ''secret'' ''User'' False True) um_start = (Inr x, w') \<and>
    ((\<exists>e. ud_audit (uw_db w') = ud_audit (uw_db um_start) @ [e] \<and> by_actor admin_context e) \<or> same_access (uw_db um_start) (uw_db w'))"
proof -
  obtain x w' where run: "run_user um_env1 policy1 (CreateUserAsAdmin admin_context ''eve'' ''secret'' ''User'' False True) um_start = (Inr x, w')"
    using creation_run by blast
  from privileged_changes_leave_evidence [OF um_start_reachable run] run show ?thesis by auto
qed

end
