(* ===== verification/TrainTypes.thy ===== *)
theory TrainTypes
  imports DocStore UserStore
begin

text \<open>
  The data of the training module: quizzes, tags, overrides, assignment snapshots, progress and comments
  (\<open>modules/training/contracts.py\<close>, \<open>errors.py\<close>), the tables of \<open>migrations/0001_initial.sql\<close> and the world
  of its services. \<open>json.loads\<close>, \<open>sha256\<close>, the Fernet cipher and \<open>random\<close> are parameters.
\<close>

section \<open>Exceptions\<close>

datatype train_error =
    TrValidationError string
  | TrPermissionError string
  | TrKeyError string
  | TrIndexError
  | TrTypeError
  | TrDecodeError string
  | TrDbError string

section \<open>JSON values\<close>

text \<open>A number with a fraction or an exponent is kept as the text that \<open>str\<close> prints for it.\<close>

datatype json =
    JNull
  | JBool bool
  | JInt int
  | JFloat string
  | JStr string
  | JList "json list"
  | JObj "(string \<times> json) list"

section \<open>Quizzes\<close>

record quiz_answer =
  qa_answer_id :: string
  qa_text :: string

record quiz_question =
  qq_question_id :: string
  qq_text :: string
  qq_answers :: "quiz_answer list"
  qq_correct_answer_id :: string

text \<open>The order of the answers as it was shown, per question.\<close>

record presented_question =
  pq_question_id :: string
  pq_answer_id_order :: "string list"

record quiz_session =
  qs_session_id :: string
  qs_user_id :: string
  qs_document_id :: string
  qs_version :: int
  qs_selected_question_ids :: "string list"
  qs_created_at :: time
  qs_presented_questions :: "presented_question list"

text \<open>A row of \<open>training_quiz_attempts\<close> has the result besides.\<close>

record quiz_attempt = quiz_session +
  qt_answers :: "string option list option"
  qt_score :: "int option"
  qt_total :: "int option"
  qt_passed :: "bool option"
  qt_completed_at :: "time option"

record quiz_result =
  qr_session_id :: string
  qr_user_id :: string
  qr_document_id :: string
  qr_version :: int
  qr_score :: int
  qr_total :: int
  qr_passed :: bool
  qr_completed_at :: time

record answer_review =
  av_answer_id :: string
  av_text :: string
  av_is_chosen :: bool
  av_is_correct :: bool

record question_review =
  qv_question_id :: string
  qv_text :: string
  qv_answers :: "answer_review list"
  qv_chosen_answer_id :: "string option"
  qv_correct_answer_id :: string
  qv_is_correct :: bool

record quiz_result_detail = quiz_result +
  qr_questions :: "question_review list"

record quiz_import_result =
  qi_import_id :: string
  qi_document_id :: string
  qi_document_version :: int
  qi_question_count :: int
  qi_auto_bound :: bool
  qi_created_at :: time

record quiz_import_row = quiz_import_result +
  qi_storage_key :: string
  qi_sha256 :: string

record quiz_import_preview =
  qp_document_id :: string
  qp_document_version :: int
  qp_question_count :: int
  qp_active_document_version :: "int option"
  qp_version_matches_active :: bool
  qp_warnings :: "string list"

record pending_mapping =
  pm_import_id :: string
  pm_document_id :: string
  pm_document_version :: int
  pm_created_at :: time
  pm_question_count :: int
  pm_document_title :: "string option"

record quiz_binding =
  qb_binding_id :: string
  qb_document_id :: string
  qb_version :: int
  qb_import_id :: string
  qb_active :: bool
  qb_created_at :: time
  qb_replaced_at :: "time option"
  qb_replaced_by :: "string option"

record replacement_check =
  rc_conflict_id :: "string option"
  rc_existing_binding :: "quiz_binding option"
  rc_has_conflict :: bool

record binding_replacement =
  br_old_binding_id :: string
  br_new_binding_id :: string
  br_replaced_by :: string
  br_replaced_at :: time

section \<open>Overrides, snapshots, progress\<close>

record manual_assignment =
  ma_assignment_id :: string
  ma_user_id :: string
  ma_document_id :: string
  ma_reason :: string
  ma_granted_by :: string
  ma_granted_at :: time
  ma_revoked_at :: "time option"

record training_exemption =
  te_exemption_id :: string
  te_user_id :: string
  te_document_id :: string
  te_version :: int
  te_reason :: string
  te_granted_by :: string
  te_granted_at :: time
  te_valid_until :: "time option"
  te_revoked_at :: "time option"

datatype assignment_source = SrcSCOPE | SrcTAG | SrcMANUAL | SrcEXEMPTED | SrcNOT_RELEVANT

fun source_value :: "assignment_source \<Rightarrow> string" where
  "source_value SrcSCOPE = ''SCOPE''"
| "source_value SrcTAG = ''TAG''"
| "source_value SrcMANUAL = ''MANUAL''"
| "source_value SrcEXEMPTED = ''EXEMPTED''"
| "source_value SrcNOT_RELEVANT = ''NOT_RELEVANT''"

record assignment_snapshot =
  sn_snapshot_id :: string
  sn_user_id :: string
  sn_document_id :: string
  sn_version :: int
  sn_source :: assignment_source
  sn_exempted :: bool
  sn_created_at :: time
  sn_updated_at :: time

record training_progress =
  tp_user_id :: string
  tp_document_id :: string
  tp_version :: int
  tp_read_confirmed_at :: "time option"
  tp_quiz_passed_at :: "time option"
  tp_last_failed_at :: "time option"
  tp_last_score :: "int option"
  tp_quiz_attempts_count :: int

record document_ref =
  dr_document_id :: string
  dr_version :: int
  dr_title :: string
  dr_owner_user_id :: "string option"
  dr_released_at :: "time option"
  dr_department :: "string option"
  dr_site :: "string option"
  dr_regulatory_scope :: "string option"

record inbox_item =
  ib_document_id :: string
  ib_version :: int
  ib_title :: string
  ib_status :: string
  ib_owner_user_id :: "string option"
  ib_released_at :: "time option"
  ib_read_confirmed :: bool
  ib_quiz_available :: bool
  ib_quiz_passed :: bool
  ib_source :: assignment_source

section \<open>Comments and reports\<close>

datatype training_comment_status = CmACTIVE | CmRESOLVED | CmINACTIVE

record training_comment =
  tc_comment_id :: string
  tc_document_id :: string
  tc_version :: int
  tc_document_title_snapshot :: string
  tc_user_id :: string
  tc_username_snapshot :: string
  tc_comment_text :: string
  tc_status :: training_comment_status
  tc_created_at :: time
  tc_updated_at :: time
  tc_page_number :: "int option"
  tc_anchor_json :: "string option"
  tc_resolved_by :: "string option"
  tc_resolved_at :: "time option"
  tc_resolution_note :: "string option"
  tc_inactive_by :: "string option"
  tc_inactive_at :: "time option"
  tc_inactive_note :: "string option"

record training_audit_item =
  ta_log_id :: string
  ta_action :: string
  ta_actor_user_id :: string
  ta_timestamp :: time
  ta_details :: "(string, pyval) dict"

record training_statistics =
  st_total_users :: int
  st_total_assignments :: int
  st_completed :: int
  st_open :: int
  st_failed :: int

record matrix_row =
  mx_user_id :: string
  mx_document_id :: string
  mx_version :: int
  mx_source :: assignment_source
  mx_exempted :: bool
  mx_progress :: "training_progress option"

section \<open>Settings\<close>

text \<open>The settings of the module that the quiz execution reads; an absent key is \<open>None\<close>.\<close>

record training_settings =
  tg_questions_per_quiz :: "int option"
  tg_min_correct_answers :: "int option"
  tg_shuffle_answers :: "bool option"
  tg_retry_cooldown_seconds :: "int option"
  tg_force_reread_on_fail :: "bool option"

section \<open>The world\<close>

record tr_db =
  td_document_tags :: "(string \<times> string) list"
  td_user_tags :: "(string \<times> string) list"
  td_tag_pool :: "(string \<times> time) list"
  td_manual_assignments :: "manual_assignment list"
  td_exemptions :: "training_exemption list"
  td_snapshots :: "assignment_snapshot list"
  td_progress :: "training_progress list"
  td_imports :: "quiz_import_row list"
  td_bindings :: "quiz_binding list"
  td_replacements :: "(string \<times> binding_replacement) list"
  td_attempts :: "quiz_attempt list"
  td_comments :: "training_comment list"
  td_audit_log :: "training_audit_item list"

definition empty_tr_db :: tr_db where
  "empty_tr_db = \<lparr>td_document_tags = [], td_user_tags = [], td_tag_pool = [], td_manual_assignments = [], td_exemptions = [],
     td_snapshots = [], td_progress = [], td_imports = [], td_bindings = [], td_replacements = [], td_attempts = [],
     td_comments = [], td_audit_log = []\<rparr>"

record tr_world =
  tw_db :: tr_db
  tw_blobs :: "(string \<times> string) list"
  tw_events :: "event_envelope list"
  tw_ticks :: nat
  tw_draws :: nat

definition empty_tr_world :: tr_world where
  "empty_tr_world = \<lparr>tw_db = empty_tr_db, tw_blobs = [], tw_events = [], tw_ticks = 0, tw_draws = 0\<rparr>"

text \<open>
  What the code gets from outside: the clock, \<open>uuid4\<close> as text and as \<open>hex\<close>, \<open>json.loads\<close> of decoded bytes
  (left: the message of its exception), \<open>sha256\<close>, the Fernet cipher of the store, whose encryption is
  randomised, \<open>random.sample\<close> and \<open>random.shuffle\<close>.
\<close>

record tr_env =
  tr_clock :: "nat \<Rightarrow> time"
  tr_uuid :: "nat \<Rightarrow> string"
  tr_hex :: "nat \<Rightarrow> string"
  tr_loads :: "string \<Rightarrow> string + json"
  tr_sha256 :: "string \<Rightarrow> string"
  tr_encrypt :: "nat \<Rightarrow> string \<Rightarrow> string"
  tr_decrypt :: "string \<Rightarrow> string option"
  tr_sample :: "nat \<Rightarrow> quiz_question list \<Rightarrow> nat \<Rightarrow> quiz_question list"
  tr_shuffle :: "nat \<Rightarrow> string list \<Rightarrow> string list"

type_synonym 'a tr_meth = "(tr_world, train_error, 'a) meth"

definition tr_utcnow :: "tr_env \<Rightarrow> time tr_meth" where
  "tr_utcnow env = (\<lambda>w. (Inr (tr_clock env (tw_ticks w)), w\<lparr>tw_ticks := Suc (tw_ticks w)\<rparr>))"

definition tr_draw :: "(nat \<Rightarrow> 'a) \<Rightarrow> 'a tr_meth" where
  "tr_draw f = (\<lambda>w. (Inr (f (tw_draws w)), w\<lparr>tw_draws := Suc (tw_draws w)\<rparr>))"

definition uuid4_hex :: "tr_env \<Rightarrow> string tr_meth" where
  "uuid4_hex env = tr_draw (tr_hex env)"

definition tr_read :: "(tr_db \<Rightarrow> 'a) \<Rightarrow> 'a tr_meth" where
  "tr_read f = readM (\<lambda>w. f (tw_db w))"

definition tr_write :: "(tr_db \<Rightarrow> tr_db) \<Rightarrow> unit tr_meth" where
  "tr_write f = modifyM (\<lambda>w. w\<lparr>tw_db := f (tw_db w)\<rparr>)"

text \<open>\<open>_publish\<close> of the services, an \<open>EventEnvelope.create\<close> on the bus.\<close>

definition tr_publish :: "tr_env \<Rightarrow> string \<Rightarrow> (string, pyval) dict \<Rightarrow> string option \<Rightarrow> unit tr_meth" where
  "tr_publish env name payload actor =
     bindM (tr_draw (tr_uuid env)) (\<lambda>event_id.
     bindM (tr_utcnow env) (\<lambda>now.
     bindM (tr_draw (tr_uuid env)) (\<lambda>correlation_id.
     modifyM (\<lambda>w. w\<lparr>tw_events := tw_events w @ [\<lparr>ev_event_id = event_id, ev_name = name, ev_occurred_at = now,
       ev_correlation_id = correlation_id, ev_actor_user_id = actor, ev_module_id = ''training'', ev_payload = payload\<rparr>]\<rparr>))))"

end
