(* ===== verification/TrainStore.thy ===== *)
theory TrainStore
  imports TrainTypes
begin

text \<open>
  The repositories of the training module, one definition per method (\<open>training_*_repository.py\<close>), and the
  encrypted store of the imported quizzes (\<open>secure_store.py\<close>). Every call commits on its own; a violated
  primary key is a \<open>TrDbError\<close>. Time stamps are stored as \<open>isoformat\<close> texts, which sort like the times.
\<close>

definition no_duplicate :: "('r \<Rightarrow> 'k) \<Rightarrow> 'k \<Rightarrow> 'r list \<Rightarrow> train_error + unit" where
  "no_duplicate key k rows = raise_if (list_ex (\<lambda>r. key r = k) rows) (TrDbError ''IntegrityError'')"

section \<open>Tags\<close>

definition tags_of :: "string \<Rightarrow> (string \<times> string) list \<Rightarrow> string set" where
  "tags_of k rows = set (map snd (filter (\<lambda>r. fst r = k) rows))"

definition get_document_tags :: "tr_db \<Rightarrow> string \<Rightarrow> string set" where
  "get_document_tags db document_id = tags_of document_id (td_document_tags db)"

definition get_user_tags :: "tr_db \<Rightarrow> string \<Rightarrow> string set" where
  "get_user_tags db user_id = tags_of user_id (td_user_tags db)"

definition upsert_tag_pool :: "tr_env \<Rightarrow> string list \<Rightarrow> unit tr_meth" where
  "upsert_tag_pool env tags =
     (if tags = [] then retM ()
      else bindM (tr_utcnow env) (\<lambda>now.
        tr_write (td_tag_pool_update (\<lambda>pool. fold (\<lambda>t p. if t \<in> fst ` set p then p else p @ [(t, now)]) tags pool))))"

definition set_document_tags :: "tr_env \<Rightarrow> string \<Rightarrow> string list \<Rightarrow> string set tr_meth" where
  "set_document_tags env document_id tags =
     (let normalized = sorted_stripped_set tags in
      bindM (tr_write (td_document_tags_update (\<lambda>rows. filter (\<lambda>r. fst r \<noteq> document_id) rows @
        map (Pair document_id) normalized))) (\<lambda>_.
      bindM (upsert_tag_pool env normalized) (\<lambda>_. retM (set normalized))))"

definition set_user_tags :: "tr_env \<Rightarrow> string \<Rightarrow> string list \<Rightarrow> string set tr_meth" where
  "set_user_tags env user_id tags =
     (let normalized = sorted_stripped_set tags in
      bindM (tr_write (td_user_tags_update (\<lambda>rows. filter (\<lambda>r. fst r \<noteq> user_id) rows @
        map (Pair user_id) normalized))) (\<lambda>_.
      bindM (upsert_tag_pool env normalized) (\<lambda>_. retM (set normalized))))"

text \<open>The rows come sorted; a document or user without tags has no set.\<close>

definition list_all_tags :: "(string \<times> string) list \<Rightarrow> (string \<times> string set) list" where
  "list_all_tags rows = map (\<lambda>k. (k, tags_of k rows)) (remdups_adj (sort (map fst rows)))"

definition list_tag_pool :: "tr_db \<Rightarrow> string list" where
  "list_tag_pool db = sort (map fst (td_tag_pool db))"

section \<open>Manual assignments and exemptions\<close>

definition create_manual_assignment :: "manual_assignment \<Rightarrow> unit tr_meth" where
  "create_manual_assignment ma =
     bindM (tr_read td_manual_assignments) (\<lambda>rows.
     bindM (liftE (no_duplicate ma_assignment_id (ma_assignment_id ma) rows)) (\<lambda>_.
     tr_write (td_manual_assignments_update (\<lambda>rs. rs @ [ma\<lparr>ma_revoked_at := None\<rparr>]))))"

definition revoke_manual_row :: "string \<Rightarrow> time \<Rightarrow> unit tr_meth" where
  "revoke_manual_row assignment_id moment =
     tr_write (td_manual_assignments_update (map (\<lambda>r.
       if ma_assignment_id r = assignment_id then r\<lparr>ma_revoked_at := Some moment\<rparr> else r)))"

definition list_active_manual_assignments :: "tr_db \<Rightarrow> manual_assignment list" where
  "list_active_manual_assignments db =
     sort_key ma_granted_at (filter (\<lambda>r. ma_revoked_at r = None) (td_manual_assignments db))"

definition list_manual_assignments_for_user :: "tr_db \<Rightarrow> string \<Rightarrow> manual_assignment list" where
  "list_manual_assignments_for_user db user_id =
     filter (\<lambda>r. ma_user_id r = user_id \<and> ma_revoked_at r = None) (td_manual_assignments db)"

definition create_exemption :: "training_exemption \<Rightarrow> unit tr_meth" where
  "create_exemption ex =
     bindM (tr_read td_exemptions) (\<lambda>rows.
     bindM (liftE (no_duplicate te_exemption_id (te_exemption_id ex) rows)) (\<lambda>_.
     tr_write (td_exemptions_update (\<lambda>rs. rs @ [ex\<lparr>te_revoked_at := None\<rparr>]))))"

definition revoke_exemption_row :: "string \<Rightarrow> time \<Rightarrow> unit tr_meth" where
  "revoke_exemption_row exemption_id moment =
     tr_write (td_exemptions_update (map (\<lambda>r.
       if te_exemption_id r = exemption_id then r\<lparr>te_revoked_at := Some moment\<rparr> else r)))"

definition list_active_exemptions :: "tr_db \<Rightarrow> training_exemption list" where
  "list_active_exemptions db = sort_key te_granted_at (filter (\<lambda>r. te_revoked_at r = None) (td_exemptions db))"

definition list_exemptions_for_user_doc :: "tr_db \<Rightarrow> string \<Rightarrow> string \<Rightarrow> int \<Rightarrow> training_exemption list" where
  "list_exemptions_for_user_doc db user_id document_id version =
     filter (\<lambda>r. te_user_id r = user_id \<and> te_document_id r = document_id \<and> te_version r = version \<and> te_revoked_at r = None)
       (td_exemptions db)"

section \<open>Snapshots and progress\<close>

type_synonym training_key = "string \<times> string \<times> int"

definition snapshot_key :: "assignment_snapshot \<Rightarrow> training_key" where
  "snapshot_key s = (sn_user_id s, sn_document_id s, sn_version s)"

definition progress_key :: "training_progress \<Rightarrow> training_key" where
  "progress_key p = (tp_user_id p, tp_document_id p, tp_version p)"

text \<open>\<open>INSERT OR REPLACE\<close> drops every row that a unique constraint sets against the new one.\<close>

definition upsert_snapshot :: "assignment_snapshot \<Rightarrow> unit tr_meth" where
  "upsert_snapshot s =
     tr_write (td_snapshots_update (\<lambda>rows.
       filter (\<lambda>r. sn_snapshot_id r \<noteq> sn_snapshot_id s \<and> snapshot_key r \<noteq> snapshot_key s) rows @ [s]))"

definition delete_all_snapshots :: "unit tr_meth" where
  "delete_all_snapshots = tr_write (td_snapshots_update (\<lambda>_. []))"

definition list_snapshots :: "tr_db \<Rightarrow> assignment_snapshot list" where
  "list_snapshots db = sort_key snapshot_key (td_snapshots db)"

definition list_snapshots_for_user :: "tr_db \<Rightarrow> string \<Rightarrow> assignment_snapshot list" where
  "list_snapshots_for_user db user_id =
     sort_key (\<lambda>s. (sn_document_id s, sn_version s)) (filter (\<lambda>s. sn_user_id s = user_id) (td_snapshots db))"

definition get_snapshot :: "tr_db \<Rightarrow> training_key \<Rightarrow> assignment_snapshot option" where
  "get_snapshot db key = List.find (\<lambda>s. snapshot_key s = key) (td_snapshots db)"

definition upsert_progress :: "training_progress \<Rightarrow> unit tr_meth" where
  "upsert_progress p =
     tr_write (td_progress_update (\<lambda>rows. filter (\<lambda>r. progress_key r \<noteq> progress_key p) rows @ [p]))"

definition get_progress :: "tr_db \<Rightarrow> training_key \<Rightarrow> training_progress option" where
  "get_progress db key = List.find (\<lambda>p. progress_key p = key) (td_progress db)"

definition list_all_progress :: "tr_db \<Rightarrow> training_progress list" where
  "list_all_progress db = sort_key progress_key (td_progress db)"

section \<open>Quizzes\<close>

definition create_quiz_import :: "quiz_import_row \<Rightarrow> unit tr_meth" where
  "create_quiz_import row =
     bindM (tr_read td_imports) (\<lambda>rows.
     bindM (liftE (no_duplicate qi_import_id (qi_import_id row) rows)) (\<lambda>_.
     tr_write (td_imports_update (\<lambda>rs. rs @ [row]))))"

definition get_import_storage_key :: "tr_db \<Rightarrow> string \<Rightarrow> (string \<times> string) option" where
  "get_import_storage_key db import_id =
     map_option (\<lambda>r. (qi_storage_key r, qi_sha256 r)) (List.find (\<lambda>r. qi_import_id r = import_id) (td_imports db))"

definition create_binding :: "quiz_binding \<Rightarrow> unit tr_meth" where
  "create_binding b =
     bindM (tr_read td_bindings) (\<lambda>rows.
     bindM (liftE (no_duplicate qb_binding_id (qb_binding_id b) rows)) (\<lambda>_.
     tr_write (td_bindings_update (\<lambda>rs. rs @ [b]))))"

definition get_active_binding :: "tr_db \<Rightarrow> string \<Rightarrow> int \<Rightarrow> quiz_binding option" where
  "get_active_binding db document_id version =
     List.find (\<lambda>b. qb_document_id b = document_id \<and> qb_version b = version \<and> qb_active b) (td_bindings db)"

definition deactivate_binding :: "string \<Rightarrow> time \<Rightarrow> string \<Rightarrow> unit tr_meth" where
  "deactivate_binding binding_id moment replaced_by =
     tr_write (td_bindings_update (map (\<lambda>b. if qb_binding_id b = binding_id
       then b\<lparr>qb_active := False, qb_replaced_at := Some moment, qb_replaced_by := Some replaced_by\<rparr> else b)))"

text \<open>The newest of a document version comes first.\<close>

definition list_bindings :: "tr_db \<Rightarrow> quiz_binding list" where
  "list_bindings db =
     sort_key (\<lambda>b. (qb_document_id b, qb_version b)) (sort_key (\<lambda>b. - qb_created_at b) (td_bindings db))"

definition list_pending_mapping_rows :: "tr_db \<Rightarrow> pending_mapping list" where
  "list_pending_mapping_rows db =
     map (\<lambda>r. \<lparr>pm_import_id = qi_import_id r, pm_document_id = qi_document_id r, pm_document_version = qi_document_version r,
         pm_created_at = qi_created_at r, pm_question_count = qi_question_count r, pm_document_title = None\<rparr>)
       (sort_key qi_created_at (filter (\<lambda>r. qi_import_id r \<notin> qb_import_id ` set (td_bindings db)) (td_imports db)))"

definition create_replacement_history :: "string \<Rightarrow> binding_replacement \<Rightarrow> unit tr_meth" where
  "create_replacement_history history_id r =
     bindM (tr_read td_replacements) (\<lambda>rows.
     bindM (liftE (no_duplicate fst history_id rows)) (\<lambda>_.
     tr_write (td_replacements_update (\<lambda>rs. rs @ [(history_id, r)]))))"

definition create_quiz_session :: "quiz_session \<Rightarrow> unit tr_meth" where
  "create_quiz_session s =
     bindM (tr_read td_attempts) (\<lambda>rows.
     bindM (liftE (no_duplicate qs_session_id (qs_session_id s) rows)) (\<lambda>_.
     tr_write (td_attempts_update (\<lambda>rs. rs @
       [quiz_session.extend s \<lparr>qt_answers = None, qt_score = None, qt_total = None, qt_passed = None, qt_completed_at = None\<rparr>]))))"

definition get_quiz_session :: "tr_db \<Rightarrow> string \<Rightarrow> quiz_session option" where
  "get_quiz_session db session_id =
     map_option quiz_session.truncate (List.find (\<lambda>a. qs_session_id a = session_id) (td_attempts db))"

definition complete_quiz_session :: "quiz_result \<Rightarrow> string option list \<Rightarrow> unit tr_meth" where
  "complete_quiz_session r answers =
     tr_write (td_attempts_update (map (\<lambda>a. if qs_session_id a = qr_session_id r
       then a\<lparr>qt_answers := Some answers, qt_score := Some (qr_score r), qt_total := Some (qr_total r),
              qt_passed := Some (qr_passed r), qt_completed_at := Some (qr_completed_at r)\<rparr> else a)))"

definition get_last_completed_attempt :: "tr_db \<Rightarrow> training_key \<Rightarrow> quiz_attempt option" where
  "get_last_completed_attempt db key =
     (case sort_key (\<lambda>a. - (case qt_completed_at a of Some t \<Rightarrow> t | None \<Rightarrow> 0))
         (filter (\<lambda>a. (qs_user_id a, qs_document_id a, qs_version a) = key \<and> qt_completed_at a \<noteq> None) (td_attempts db)) of
        [] \<Rightarrow> None | a # _ \<Rightarrow> Some a)"

definition count_attempts_for_user_doc :: "tr_db \<Rightarrow> training_key \<Rightarrow> int" where
  "count_attempts_for_user_doc db key =
     int (length (filter (\<lambda>a. (qs_user_id a, qs_document_id a, qs_version a) = key \<and> qt_completed_at a \<noteq> None) (td_attempts db)))"

definition list_attempts_for_user :: "tr_db \<Rightarrow> string \<Rightarrow> quiz_attempt list" where
  "list_attempts_for_user db user_id =
     sort_key (\<lambda>a. - qs_created_at a) (filter (\<lambda>a. qs_user_id a = user_id) (td_attempts db))"

section \<open>Comments\<close>

definition create_training_comment :: "training_comment \<Rightarrow> unit tr_meth" where
  "create_training_comment c =
     bindM (tr_read td_comments) (\<lambda>rows.
     bindM (liftE (no_duplicate tc_comment_id (tc_comment_id c) rows)) (\<lambda>_.
     tr_write (td_comments_update (\<lambda>rs. rs @
       [c\<lparr>tc_resolved_by := None, tc_resolved_at := None, tc_resolution_note := None,
          tc_inactive_by := None, tc_inactive_at := None, tc_inactive_note := None\<rparr>]))))"

text \<open>\<open>_row_to_record\<close> reads an empty text as \<open>None\<close>.\<close>

definition comment_from_row :: "training_comment \<Rightarrow> training_comment" where
  "comment_from_row r = r\<lparr>tc_anchor_json := none_if_empty (tc_anchor_json r), tc_resolved_by := none_if_empty (tc_resolved_by r),
     tc_resolution_note := none_if_empty (tc_resolution_note r), tc_inactive_by := none_if_empty (tc_inactive_by r),
     tc_inactive_note := none_if_empty (tc_inactive_note r)\<rparr>"

definition get_training_comment :: "tr_db \<Rightarrow> string \<Rightarrow> training_comment option" where
  "get_training_comment db comment_id =
     map_option comment_from_row (List.find (\<lambda>c. tc_comment_id c = comment_id) (td_comments db))"

definition update_training_comment :: "training_comment \<Rightarrow> unit tr_meth" where
  "update_training_comment c =
     tr_write (td_comments_update (map (\<lambda>r. if tc_comment_id r = tc_comment_id c
       then r\<lparr>tc_status := tc_status c, tc_updated_at := tc_updated_at c, tc_resolved_by := tc_resolved_by c,
              tc_resolved_at := tc_resolved_at c, tc_resolution_note := tc_resolution_note c,
              tc_inactive_by := tc_inactive_by c, tc_inactive_at := tc_inactive_at c, tc_inactive_note := tc_inactive_note c\<rparr>
       else r)))"

definition newest_comments :: "(training_comment \<Rightarrow> bool) \<Rightarrow> tr_db \<Rightarrow> training_comment list" where
  "newest_comments P db = map comment_from_row (sort_key (\<lambda>c. - tc_created_at c) (filter P (td_comments db)))"

definition list_active_training_comments :: "tr_db \<Rightarrow> training_comment list" where
  "list_active_training_comments = newest_comments (\<lambda>c. tc_status c = CmACTIVE)"

definition list_training_comments_for_document :: "string \<Rightarrow> int \<Rightarrow> tr_db \<Rightarrow> training_comment list" where
  "list_training_comments_for_document document_id version =
     newest_comments (\<lambda>c. tc_document_id c = document_id \<and> tc_version c = version)"

definition list_training_comments_for_user :: "string \<Rightarrow> string \<Rightarrow> int \<Rightarrow> tr_db \<Rightarrow> training_comment list" where
  "list_training_comments_for_user user_id document_id version =
     newest_comments (\<lambda>c. tc_user_id c = user_id \<and> tc_document_id c = document_id \<and> tc_version c = version)"

section \<open>Reports\<close>

definition add_audit_entry :: "training_audit_item \<Rightarrow> unit tr_meth" where
  "add_audit_entry item =
     bindM (tr_read td_audit_log) (\<lambda>rows.
     bindM (liftE (no_duplicate ta_log_id (ta_log_id item) rows)) (\<lambda>_.
     tr_write (td_audit_log_update (\<lambda>rs. rs @ [item]))))"

definition list_audit_log :: "tr_db \<Rightarrow> training_audit_item list" where
  "list_audit_log db = take 200 (sort_key (\<lambda>a. - ta_timestamp a) (td_audit_log db))"

text \<open>The counts \<open>total\<close>, \<open>completed\<close>, \<open>read_only\<close>.\<close>

definition count_snapshots_by_status :: "tr_db \<Rightarrow> int \<times> int \<times> int" where
  "count_snapshots_by_status db =
     (int (length (filter (\<lambda>s. \<not> sn_exempted s) (td_snapshots db))),
      int (length (filter (\<lambda>p. tp_quiz_passed_at p \<noteq> None) (td_progress db))),
      int (length (filter (\<lambda>p. tp_read_confirmed_at p \<noteq> None \<and> tp_quiz_passed_at p = None) (td_progress db))))"

definition export_matrix_rows :: "tr_db \<Rightarrow> matrix_row list" where
  "export_matrix_rows db =
     map (\<lambda>s. \<lparr>mx_user_id = sn_user_id s, mx_document_id = sn_document_id s, mx_version = sn_version s, mx_source = sn_source s,
       mx_exempted = sn_exempted s, mx_progress = get_progress db (snapshot_key s)\<rparr>) (list_snapshots db)"

section \<open>The encrypted store\<close>

definition put_bytes :: "tr_env \<Rightarrow> string \<Rightarrow> string \<Rightarrow> string tr_meth" where
  "put_bytes env payload extension =
     (let ext = (if starts_with extension ''.'' then extension else ''.'' @ extension) in
      bindM (uuid4_hex env) (\<lambda>name.
      let storage_key = name @ ext @ ''.enc'' in
      bindM (tr_draw (\<lambda>n. tr_encrypt env n payload)) (\<lambda>cipher.
      bindM (modifyM (\<lambda>w. w\<lparr>tw_blobs := AList.update storage_key cipher (tw_blobs w)\<rparr>)) (\<lambda>_. retM storage_key))))"

text \<open>A missing file raises \<open>FileNotFoundError\<close>, a damaged one \<open>InvalidToken\<close>.\<close>

definition get_bytes :: "tr_env \<Rightarrow> string \<Rightarrow> string tr_meth" where
  "get_bytes env storage_key =
     bindM (readM (\<lambda>w. map_of (tw_blobs w) storage_key)) (\<lambda>found.
     case found of
       None \<Rightarrow> raiseM (TrDecodeError ''FileNotFoundError'')
     | Some cipher \<Rightarrow>
         (case tr_decrypt env cipher of None \<Rightarrow> raiseM (TrDecodeError ''InvalidToken'') | Some raw \<Rightarrow> retM raw))"

end
