(* ===== verification/TrainQuiz.thy ===== *)
theory TrainQuiz
  imports TrainStore
begin

text \<open>
  Quizzes of the training module: the check of an imported payload and its import (\<open>quiz_import_service.py\<close>),
  bindings to document versions (\<open>quiz_binding_service.py\<close>) and the execution (\<open>quiz_execution_service.py\<close>).
\<close>

section \<open>Access to JSON values\<close>

text \<open>\<open>repr\<close> and \<open>str\<close> of a decoded value.\<close>

definition join_comma :: "string list \<Rightarrow> string" where
  "join_comma xs = (case xs of [] \<Rightarrow> [] | y # ys \<Rightarrow> y @ concat (map (\<lambda>z. '', '' @ z) ys))"

fun json_repr :: "json \<Rightarrow> string" where
  "json_repr JNull = ''None''"
| "json_repr (JBool b) = (if b then ''True'' else ''False'')"
| "json_repr (JInt n) = str_int n"
| "json_repr (JFloat t) = t"
| "json_repr (JStr s) = repr_str s"
| "json_repr (JList xs) = ''['' @ join_comma (map json_repr xs) @ '']''"
| "json_repr (JObj kvs) = ''{'' @ join_comma (map (\<lambda>(k, v). repr_str k @ '': '' @ json_repr v) kvs) @ ''}''"

definition json_str :: "json \<Rightarrow> string" where
  "json_str j = (case j of JStr s \<Rightarrow> s | _ \<Rightarrow> json_repr j)"

definition text_in :: "string \<Rightarrow> string \<Rightarrow> bool" where
  "text_in sub s = list_ex (\<lambda>k. starts_with (drop k s) sub) [0..<Suc (length s)]"

text \<open>\<open>key in value\<close> and \<open>value[key]\<close> for a text key, on whatever was decoded.\<close>

definition has_key :: "string \<Rightarrow> json \<Rightarrow> train_error + bool" where
  "has_key key j = (case j of
       JObj kvs \<Rightarrow> Inr (key \<in> fst ` set kvs)
     | JList xs \<Rightarrow> Inr (JStr key \<in> set xs)
     | JStr s \<Rightarrow> Inr (text_in key s)
     | _ \<Rightarrow> Inl TrTypeError)"

definition json_item :: "string \<Rightarrow> json \<Rightarrow> train_error + json" where
  "json_item key j = (case j of
       JObj kvs \<Rightarrow> (case map_of kvs key of None \<Rightarrow> Inl (TrKeyError key) | Some v \<Rightarrow> Inr v)
     | _ \<Rightarrow> Inl TrTypeError)"

text \<open>A value as the element of a set: \<open>True\<close> is 1, lists and objects have no hash.\<close>

definition set_element :: "json \<Rightarrow> train_error + json" where
  "set_element j = (case j of
       JBool b \<Rightarrow> Inr (JInt (if b then 1 else 0)) | JList _ \<Rightarrow> Inl TrTypeError | JObj _ \<Rightarrow> Inl TrTypeError | _ \<Rightarrow> Inr j)"

definition json_int :: "json \<Rightarrow> int option" where
  "json_int j = (case j of JInt n \<Rightarrow> Some n | JBool b \<Rightarrow> Some (if b then 1 else 0) | _ \<Rightarrow> None)"

section \<open>The check of a payload\<close>

definition require_key :: "string \<Rightarrow> json \<Rightarrow> string \<Rightarrow> train_error + unit" where
  "require_key key j text = bindE (has_key key j) (\<lambda>found. raise_if (\<not> found) (TrValidationError (text @ key)))"

fun validate_answers :: "string \<Rightarrow> json list \<Rightarrow> json set \<Rightarrow> train_error + json set" where
  "validate_answers qid [] seen = Inr seen"
| "validate_answers qid (a # as) seen =
     bindE (has_key ''answer_id'' a) (\<lambda>has_id.
     bindE (if has_id then has_key ''text'' a else Inr False) (\<lambda>complete.
     bindE (raise_if (\<not> complete)
       (TrValidationError (''question '' @ qid @ '': answer missing answer_id or text''))) (\<lambda>_.
     bindE (json_item ''answer_id'' a) (\<lambda>aid.
     bindE (set_element aid) (\<lambda>element.
     bindE (raise_if (element \<in> seen)
       (TrValidationError (''question '' @ qid @ '': duplicate answer_id: '' @ json_str aid))) (\<lambda>_.
     validate_answers qid as (insert element seen)))))))"

definition in_quotes :: "string \<Rightarrow> string" where
  "in_quotes s = [CHR 0x27] @ s @ [CHR 0x27]"

definition validate_question :: "json \<Rightarrow> json set \<Rightarrow> train_error + json set" where
  "validate_question q seen_qids =
     bindE (check_all (\<lambda>key. require_key key q ''question missing field: '')
       [''question_id'', ''text'', ''answers'', ''correct_answer_id'']) (\<lambda>_.
     bindE (json_item ''question_id'' q) (\<lambda>qid.
     bindE (set_element qid) (\<lambda>element.
     bindE (raise_if (element \<in> seen_qids) (TrValidationError (''duplicate question_id: '' @ json_str qid))) (\<lambda>_.
     bindE (json_item ''answers'' q) (\<lambda>answers.
     bindE (case answers of
         JList as \<Rightarrow> if length as = 4 then validate_answers (json_str qid) as {}
           else Inl (TrValidationError (''question '' @ json_str qid @ '': exactly 4 answers required''))
       | _ \<Rightarrow> Inl (TrValidationError (''question '' @ json_str qid @ '': exactly 4 answers required''))) (\<lambda>aids.
     bindE (json_item ''correct_answer_id'' q) (\<lambda>correct.
     bindE (set_element correct) (\<lambda>c.
     bindE (raise_if (c \<notin> aids)
       (TrValidationError (''question '' @ json_str qid @ '': correct_answer_id '' @ in_quotes (json_str correct) @ '' not in answers''))) (\<lambda>_.
     Inr (insert element seen_qids))))))))))"

fun validate_questions :: "json list \<Rightarrow> json set \<Rightarrow> train_error + unit" where
  "validate_questions [] seen = Inr ()"
| "validate_questions (q # qs) seen = bindE (validate_question q seen) (\<lambda>seen'. validate_questions qs seen')"

text \<open>The checked fields of a payload: document, version (\<open>True\<close> counts as 1) and questions.\<close>

definition validate_and_parse :: "tr_env \<Rightarrow> string \<Rightarrow> train_error + string \<times> int \<times> json list" where
  "validate_and_parse env raw =
     (case tr_loads env raw of
        Inl text \<Rightarrow> Inl (TrValidationError (''invalid JSON: '' @ text))
      | Inr data \<Rightarrow>
          bindE (raise_if (case data of JObj _ \<Rightarrow> False | _ \<Rightarrow> True) (TrValidationError ''quiz payload must be an object'')) (\<lambda>_.
          bindE (check_all (\<lambda>key. require_key key data ''missing required field: '')
            [''document_id'', ''document_version'', ''questions'']) (\<lambda>_.
          bindE (json_item ''document_id'' data) (\<lambda>d.
          bindE (case d of JStr s \<Rightarrow> if py_strip s = [] then Inl (TrValidationError ''document_id must be a non-empty string'') else Inr s
              | _ \<Rightarrow> Inl (TrValidationError ''document_id must be a non-empty string'')) (\<lambda>document_id.
          bindE (json_item ''document_version'' data) (\<lambda>v.
          bindE (case json_int v of None \<Rightarrow> Inl (TrValidationError ''document_version must be an integer'') | Some n \<Rightarrow> Inr n) (\<lambda>version.
          bindE (json_item ''questions'' data) (\<lambda>q.
          bindE (case q of
              JList qs \<Rightarrow> if length qs < 3 then Inl (TrValidationError ''quiz requires at least 3 questions'') else Inr qs
            | _ \<Rightarrow> Inl (TrValidationError ''quiz requires at least 3 questions'')) (\<lambda>questions.
          bindE (validate_questions questions {}) (\<lambda>_.
          Inr (document_id, version, questions)))))))))))"

text \<open>\<open>_parse_questions\<close> turns every field into text.\<close>

fun each_item :: "('a \<Rightarrow> 'e + 'b) \<Rightarrow> 'a list \<Rightarrow> 'e + 'b list" where
  "each_item f [] = Inr []"
| "each_item f (x # xs) = bindE (f x) (\<lambda>y. bindE (each_item f xs) (\<lambda>ys. Inr (y # ys)))"

definition parse_answer :: "json \<Rightarrow> train_error + quiz_answer" where
  "parse_answer a =
     bindE (json_item ''answer_id'' a) (\<lambda>i. bindE (json_item ''text'' a) (\<lambda>t. Inr \<lparr>qa_answer_id = json_str i, qa_text = json_str t\<rparr>))"

definition parse_question :: "json \<Rightarrow> train_error + quiz_question" where
  "parse_question raw =
     bindE (json_item ''answers'' raw) (\<lambda>answers.
     bindE (case answers of JList as \<Rightarrow> each_item parse_answer as | _ \<Rightarrow> Inl TrTypeError) (\<lambda>parsed.
     bindE (json_item ''question_id'' raw) (\<lambda>i.
     bindE (json_item ''text'' raw) (\<lambda>t.
     bindE (json_item ''correct_answer_id'' raw) (\<lambda>c.
     Inr \<lparr>qq_question_id = json_str i, qq_text = json_str t, qq_answers = parsed, qq_correct_answer_id = json_str c\<rparr>)))))"

section \<open>The catalog of released documents\<close>

text \<open>\<open>released_document_catalog_reader.py\<close> over the database of the documents module.\<close>

definition document_ref_of :: "docs_db \<Rightarrow> version_state \<Rightarrow> document_ref" where
  "document_ref_of docs st =
     (let header = get_header docs (v_document_id st) in
      \<lparr>dr_document_id = v_document_id st, dr_version = v_version st, dr_title = v_title st, dr_owner_user_id = v_owner_user_id st,
       dr_released_at = v_released_at st, dr_department = Option.bind header h_department, dr_site = Option.bind header h_site,
       dr_regulatory_scope = Option.bind header h_regulatory_scope\<rparr>)"

definition list_released_documents :: "docs_db \<Rightarrow> document_ref list" where
  "list_released_documents docs =
     map (document_ref_of docs) (filter (\<lambda>st. v_superseded_by_version st = None) (list_by_status_rows (db_versions docs) APPROVED))"

section \<open>Import\<close>

definition resolve_active_version :: "docs_db \<Rightarrow> string \<Rightarrow> int option" where
  "resolve_active_version docs document_id =
     fold (\<lambda>d active. if dr_document_id d \<noteq> document_id then active
         else case active of None \<Rightarrow> Some (dr_version d) | Some n \<Rightarrow> if dr_version d > n then Some (dr_version d) else Some n)
       (list_released_documents docs) None"

definition build_import_preview :: "docs_db \<Rightarrow> string \<Rightarrow> int \<Rightarrow> int \<Rightarrow> quiz_import_preview" where
  "build_import_preview docs document_id version question_count =
     (let active = resolve_active_version docs document_id in
      \<lparr>qp_document_id = document_id, qp_document_version = version, qp_question_count = question_count,
       qp_active_document_version = active, qp_version_matches_active = (active = Some version),
       qp_warnings = (case active of
           None \<Rightarrow> [''Dokument ist aktuell nicht als freigegeben im Katalog vorhanden.'']
         | Some n \<Rightarrow> if n \<noteq> version
             then [''Quiz-Version ('' @ str_int version @ '') weicht von aktiver Dokumentversion ('' @ str_int n @ '') ab.'']
             else [])\<rparr>)"

definition inspect_quiz_json :: "tr_env \<Rightarrow> docs_db \<Rightarrow> string \<Rightarrow> train_error + quiz_import_preview" where
  "inspect_quiz_json env docs raw =
     bindE (validate_and_parse env raw) (\<lambda>(document_id, version, questions).
     Inr (build_import_preview docs document_id version (int (length questions))))"

definition version_mismatch :: train_error where
  "version_mismatch = TrValidationError (''Quiz-Version passt nicht zur aktuell freigegebenen Dokumentversion. '' @
     ''Bitte mit Best'' @ [CHR 0xE4] @ ''tigung erneut importieren.'')"

definition import_quiz_json :: "tr_env \<Rightarrow> docs_db \<Rightarrow> string \<Rightarrow> bool \<Rightarrow> quiz_import_result tr_meth" where
  "import_quiz_json env docs raw force =
     bindM (liftE (validate_and_parse env raw)) (\<lambda>(document_id, version, questions).
     let question_count = int (length questions);
         preview = build_import_preview docs document_id version question_count in
     bindM (liftE (raise_if (\<not> qp_version_matches_active preview \<and> \<not> force) version_mismatch)) (\<lambda>_.
     bindM (put_bytes env raw ''.quiz'') (\<lambda>storage_key.
     bindM (uuid4_hex env) (\<lambda>import_id.
     bindM (tr_utcnow env) (\<lambda>now.
     let res = \<lparr>qi_import_id = import_id, qi_document_id = document_id, qi_document_version = version,
           qi_question_count = question_count, qi_auto_bound = False, qi_created_at = now\<rparr> in
     bindM (create_quiz_import (quiz_import_result.extend res \<lparr>qi_storage_key = storage_key, qi_sha256 = tr_sha256 env raw\<rparr>)) (\<lambda>_.
     bindM (tr_publish env ''domain.training.quiz.imported.v1''
       [(''import_id'', PyStr import_id), (''document_id'', PyStr document_id), (''document_version'', PyInt version),
        (''question_count'', PyInt question_count)] None) (\<lambda>_.
     retM res)))))))"

definition load_questions :: "tr_env \<Rightarrow> string \<Rightarrow> quiz_question list tr_meth" where
  "load_questions env import_id =
     bindM (tr_read (\<lambda>db. get_import_storage_key db import_id)) (\<lambda>info.
     case info of
       None \<Rightarrow> raiseM (TrValidationError ''quiz import not found'')
     | Some (storage_key, expected_sha) \<Rightarrow>
         bindM (get_bytes env storage_key) (\<lambda>raw.
         bindM (liftE (raise_if (tr_sha256 env raw \<noteq> expected_sha) (TrValidationError ''quiz integrity mismatch''))) (\<lambda>_.
         case tr_loads env raw of
           Inl text \<Rightarrow> raiseM (TrDecodeError text)
         | Inr data \<Rightarrow>
             liftE (bindE (json_item ''questions'' data) (\<lambda>q.
               case q of JList qs \<Rightarrow> each_item parse_question qs | _ \<Rightarrow> Inl TrTypeError)))))"

definition load_questions_for_binding :: "tr_env \<Rightarrow> string \<Rightarrow> int \<Rightarrow> quiz_question list tr_meth" where
  "load_questions_for_binding env document_id version =
     bindM (tr_read (\<lambda>db. get_active_binding db document_id version)) (\<lambda>found.
     case found of
       None \<Rightarrow> raiseM (TrValidationError ''no active quiz binding for this document version'')
     | Some b \<Rightarrow> load_questions env (qb_import_id b))"

section \<open>Bindings\<close>

definition bind_quiz_to_document :: "tr_env \<Rightarrow> string \<Rightarrow> string \<Rightarrow> int \<Rightarrow> quiz_binding tr_meth" where
  "bind_quiz_to_document env import_id document_id version =
     bindM (tr_read (\<lambda>db. get_active_binding db document_id version)) (\<lambda>existing.
     bindM (liftE (raise_if (existing \<noteq> None)
       (TrValidationError (''active binding already exists for '' @ document_id @ '' v'' @ str_int version @
          ''. Use check_quiz_replacement_conflict / replace_quiz_binding.'')))) (\<lambda>_.
     bindM (uuid4_hex env) (\<lambda>binding_id.
     bindM (tr_utcnow env) (\<lambda>now.
     let binding = \<lparr>qb_binding_id = binding_id, qb_document_id = document_id, qb_version = version, qb_import_id = import_id,
           qb_active = True, qb_created_at = now, qb_replaced_at = None, qb_replaced_by = None\<rparr> in
     bindM (create_binding binding) (\<lambda>_.
     bindM (tr_publish env ''domain.training.quiz.binding.created.v1''
       [(''binding_id'', PyStr binding_id), (''document_id'', PyStr document_id), (''version'', PyInt version),
        (''import_id'', PyStr import_id)] None) (\<lambda>_.
     retM binding))))))"

definition check_quiz_replacement_conflict :: "tr_env \<Rightarrow> string \<Rightarrow> int \<Rightarrow> string \<Rightarrow> replacement_check tr_meth" where
  "check_quiz_replacement_conflict env document_id version new_import_id =
     bindM (tr_read (\<lambda>db. get_active_binding db document_id version)) (\<lambda>existing.
     case existing of
       None \<Rightarrow> retM \<lparr>rc_conflict_id = None, rc_existing_binding = None, rc_has_conflict = False\<rparr>
     | Some b \<Rightarrow>
         bindM (uuid4_hex env) (\<lambda>conflict_id.
         bindM (tr_publish env ''domain.training.quiz.replacement.detected.v1''
           [(''conflict_id'', PyStr conflict_id), (''document_id'', PyStr document_id), (''version'', PyInt version),
            (''existing_binding_id'', PyStr (qb_binding_id b)), (''new_import_id'', PyStr new_import_id)] None) (\<lambda>_.
         retM \<lparr>rc_conflict_id = Some conflict_id, rc_existing_binding = Some b, rc_has_conflict = True\<rparr>)))"

definition replace_quiz_binding :: "tr_env \<Rightarrow> string \<Rightarrow> int \<Rightarrow> string \<Rightarrow> string \<Rightarrow> binding_replacement tr_meth" where
  "replace_quiz_binding env document_id version new_import_id confirmed_by =
     bindM (tr_read (\<lambda>db. get_active_binding db document_id version)) (\<lambda>found.
     case found of
       None \<Rightarrow> raiseM (TrValidationError ''no active binding to replace'')
     | Some existing \<Rightarrow>
         bindM (tr_utcnow env) (\<lambda>now.
         bindM (deactivate_binding (qb_binding_id existing) now confirmed_by) (\<lambda>_.
         bindM (uuid4_hex env) (\<lambda>binding_id.
         bindM (create_binding \<lparr>qb_binding_id = binding_id, qb_document_id = document_id, qb_version = version,
           qb_import_id = new_import_id, qb_active = True, qb_created_at = now, qb_replaced_at = None, qb_replaced_by = None\<rparr>) (\<lambda>_.
         bindM (uuid4_hex env) (\<lambda>history_id.
         let res = \<lparr>br_old_binding_id = qb_binding_id existing, br_new_binding_id = binding_id,
               br_replaced_by = confirmed_by, br_replaced_at = now\<rparr> in
         bindM (create_replacement_history history_id res) (\<lambda>_.
         bindM (tr_publish env ''domain.training.quiz.replaced.v1''
           [(''old_binding_id'', PyStr (qb_binding_id existing)), (''new_binding_id'', PyStr binding_id),
            (''document_id'', PyStr document_id), (''version'', PyInt version), (''confirmed_by'', PyStr confirmed_by)] None) (\<lambda>_.
         retM res))))))))"

end
