(* ===== verification/TrainExec.thy ===== *)
theory TrainExec
  imports TrainQuiz
begin

text \<open>
  The execution of quizzes (\<open>quiz_execution_service.py\<close>): the start of a session, the grading of its
  answers with the review, and the progress it leaves.
\<close>

section \<open>Settings\<close>

text \<open>\<open>int(settings.get(key, d) or d)\<close>: an absent value and 0 are the default.\<close>

definition int_setting :: "int option \<Rightarrow> int \<Rightarrow> int" where
  "int_setting v d = (case v of None \<Rightarrow> d | Some n \<Rightarrow> if n = 0 then d else n)"

definition questions_per_quiz :: "training_settings \<Rightarrow> int" where
  "questions_per_quiz s = max 1 (int_setting (tg_questions_per_quiz s) 3)"

definition resolve_min_correct_answers :: "training_settings \<Rightarrow> int \<Rightarrow> int" where
  "resolve_min_correct_answers s n = min n (max 1 (int_setting (tg_min_correct_answers s) n))"

definition retry_cooldown_seconds :: "training_settings \<Rightarrow> int" where
  "retry_cooldown_seconds s = max 0 (int_setting (tg_retry_cooldown_seconds s) 0)"

definition force_reread_on_fail :: "training_settings \<Rightarrow> bool" where
  "force_reread_on_fail s \<longleftrightarrow> tg_force_reread_on_fail s = Some True"

definition shuffle_answers :: "training_settings \<Rightarrow> bool" where
  "shuffle_answers s \<longleftrightarrow> tg_shuffle_answers s \<noteq> Some False"

section \<open>Presentation\<close>

text \<open>A dictionary built from a list keeps the last entry of a key.\<close>

definition last_by :: "('a \<Rightarrow> 'k) \<Rightarrow> 'a list \<Rightarrow> 'k \<Rightarrow> 'a option" where
  "last_by key xs k = map_of (rev (map (\<lambda>x. (key x, x)) xs)) k"

fun build_presented_questions :: "tr_env \<Rightarrow> training_settings \<Rightarrow> quiz_question list \<Rightarrow> presented_question list tr_meth" where
  "build_presented_questions env s [] = retM []"
| "build_presented_questions env s (q # qs) =
     (let answer_ids = map qa_answer_id (qq_answers q) in
      bindM (if shuffle_answers s then tr_draw (\<lambda>n. tr_shuffle env n answer_ids) else retM answer_ids) (\<lambda>order.
      bindM (build_presented_questions env s qs) (\<lambda>rest.
      retM (\<lparr>pq_question_id = qq_question_id q, pq_answer_id_order = order\<rparr> # rest))))"

definition ordered_answers :: "quiz_question \<Rightarrow> string list \<Rightarrow> quiz_answer list" where
  "ordered_answers q answer_order =
     (let ordered = List.map_filter (last_by qa_answer_id (qq_answers q)) answer_order in
      if length ordered \<noteq> length (qq_answers q) then qq_answers q else ordered)"

definition display_question :: "quiz_question list \<Rightarrow> presented_question \<Rightarrow> train_error + quiz_question" where
  "display_question selected shown =
     (case last_by qq_question_id selected (pq_question_id shown) of
        None \<Rightarrow> Inl (TrKeyError (pq_question_id shown))
      | Some q \<Rightarrow> Inr (q\<lparr>qq_answers := ordered_answers q (pq_answer_id_order shown)\<rparr>))"

text \<open>The stored presentation counts if it has one entry per question.\<close>

definition decode_presented :: "presented_question list \<Rightarrow> quiz_question list \<Rightarrow> presented_question list" where
  "decode_presented stored selected =
     (if length stored = length selected then stored
      else map (\<lambda>q. \<lparr>pq_question_id = qq_question_id q, pq_answer_id_order = map qa_answer_id (qq_answers q)\<rparr>) selected)"

text \<open>An answer is the identifier of a choice, its place among the displayed choices, or missing.\<close>

datatype answer_input = ByText string | ByIndex int | NoAnswer

definition normalize_answer :: "string list \<Rightarrow> answer_input \<Rightarrow> string option" where
  "normalize_answer answer_ids v = (case v of
       ByText t \<Rightarrow> if t \<in> set answer_ids then Some t else None
     | ByIndex i \<Rightarrow> if 0 \<le> i \<and> i < int (length answer_ids) then Some (answer_ids ! nat i) else None
     | NoAnswer \<Rightarrow> None)"

text \<open>\<open>presented[idx]\<close> raises for an answer too many.\<close>

fun normalize_answers :: "answer_input list \<Rightarrow> presented_question list \<Rightarrow> train_error + string option list" where
  "normalize_answers [] presented = Inr []"
| "normalize_answers (v # vs) [] = Inl TrIndexError"
| "normalize_answers (v # vs) (p # ps) =
     bindE (normalize_answers vs ps) (\<lambda>rest. Inr (normalize_answer (pq_answer_id_order p) v # rest))"

section \<open>Start\<close>

definition cooldown_over :: "tr_env \<Rightarrow> training_settings \<Rightarrow> training_progress \<Rightarrow> bool tr_meth" where
  "cooldown_over env s progress =
     (case tp_last_failed_at progress of
        Some failed \<Rightarrow>
          if retry_cooldown_seconds s > 0
          then bindM (tr_utcnow env) (\<lambda>now. retM (\<not> failed + retry_cooldown_seconds s * 1000000 > now))
          else retM True
      | None \<Rightarrow> retM True)"

definition start_quiz ::
  "tr_env \<Rightarrow> training_settings \<Rightarrow> string \<Rightarrow> string \<Rightarrow> int \<Rightarrow> (quiz_session \<times> quiz_question list) tr_meth" where
  "start_quiz env s user_id document_id version =
     bindM (tr_read (\<lambda>db. get_snapshot db (user_id, document_id, version))) (\<lambda>snap.
     bindM (liftE (raise_if (snap = None) (TrValidationError ''no active assignment for this document version''))) (\<lambda>_.
     bindM (tr_read (\<lambda>db. get_progress db (user_id, document_id, version))) (\<lambda>found.
     case found of
       None \<Rightarrow> raiseM (TrValidationError ''quiz can start only after read confirmation'')
     | Some progress \<Rightarrow>
         bindM (liftE (raise_if (tp_read_confirmed_at progress = None)
           (TrValidationError ''quiz can start only after read confirmation''))) (\<lambda>_.
         bindM (cooldown_over env s progress) (\<lambda>over.
         bindM (liftE (raise_if (\<not> over) (TrValidationError ''Naechster Quiz-Versuch ist noch nicht freigegeben.''))) (\<lambda>_.
         bindM (load_questions_for_binding env document_id version) (\<lambda>questions.
         let selected_count = min (nat (questions_per_quiz s)) (length questions) in
         bindM (tr_draw (\<lambda>n. tr_sample env n questions selected_count)) (\<lambda>selected.
         bindM (build_presented_questions env s selected) (\<lambda>presented.
         bindM (liftE (each_item (display_question selected) presented)) (\<lambda>selected_for_display.
         bindM (uuid4_hex env) (\<lambda>session_id.
         bindM (tr_utcnow env) (\<lambda>now.
         let session = \<lparr>qs_session_id = session_id, qs_user_id = user_id, qs_document_id = document_id, qs_version = version,
               qs_selected_question_ids = map qq_question_id selected, qs_created_at = now,
               qs_presented_questions = presented\<rparr> in
         bindM (create_quiz_session session) (\<lambda>_.
         bindM (tr_publish env ''domain.training.quiz.started.v1''
           [(''session_id'', PyStr session_id), (''user_id'', PyStr user_id), (''document_id'', PyStr document_id),
            (''version'', PyInt version)] (Some user_id)) (\<lambda>_.
         retM (session, selected_for_display)))))))))))))))"

section \<open>Grading\<close>

definition review_answer :: "string option \<Rightarrow> quiz_question \<Rightarrow> quiz_answer \<Rightarrow> answer_review" where
  "review_answer chosen q a =
     \<lparr>av_answer_id = qa_answer_id a, av_text = qa_text a, av_is_chosen = (Some (qa_answer_id a) = chosen),
      av_is_correct = (qa_answer_id a = qq_correct_answer_id q)\<rparr>"

definition review_question :: "quiz_question \<Rightarrow> presented_question \<Rightarrow> string option \<Rightarrow> question_review" where
  "review_question q p chosen =
     \<lparr>qv_question_id = qq_question_id q, qv_text = qq_text q,
      qv_answers = map (review_answer chosen q) (ordered_answers q (pq_answer_id_order p)),
      qv_chosen_answer_id = chosen, qv_correct_answer_id = qq_correct_answer_id q,
      qv_is_correct = (chosen = Some (qq_correct_answer_id q))\<rparr>"

definition review_questions :: "quiz_question list \<Rightarrow> presented_question list \<Rightarrow> string option list \<Rightarrow> question_review list" where
  "review_questions selected presented chosen =
     map (\<lambda>(q, p, c). review_question q p c) (zip selected (zip presented chosen))"

definition quiz_score :: "quiz_question list \<Rightarrow> string option list \<Rightarrow> int" where
  "quiz_score selected chosen =
     int (length (filter (\<lambda>(q, c). c = Some (qq_correct_answer_id q)) (zip selected chosen)))"

text \<open>\<open>[q_map[qid] for qid in ...]\<close>.\<close>

definition select_questions :: "quiz_question list \<Rightarrow> string list \<Rightarrow> train_error + quiz_question list" where
  "select_questions questions ids =
     each_item (\<lambda>i. case last_by qq_question_id questions i of None \<Rightarrow> Inl (TrKeyError i) | Some q \<Rightarrow> Inr q) ids"

text \<open>The progress after an attempt.\<close>

definition progress_after :: "training_settings \<Rightarrow> training_progress option \<Rightarrow> quiz_result \<Rightarrow> training_progress" where
  "progress_after s progress r =
     (let passed = qr_passed r; now = qr_completed_at r; read_confirmed = Option.bind progress tp_read_confirmed_at in
      \<lparr>tp_user_id = qr_user_id r, tp_document_id = qr_document_id r, tp_version = qr_version r,
       tp_read_confirmed_at = (if \<not> passed \<and> force_reread_on_fail s then None else read_confirmed),
       tp_quiz_passed_at = (if passed then Some now else Option.bind progress tp_quiz_passed_at),
       tp_last_failed_at = (if \<not> passed then Some now else Option.bind progress tp_last_failed_at),
       tp_last_score = Some (qr_score r),
       tp_quiz_attempts_count = (case progress of None \<Rightarrow> 0 | Some p \<Rightarrow> tp_quiz_attempts_count p) + 1\<rparr>)"

definition submit_quiz_answers ::
  "tr_env \<Rightarrow> training_settings \<Rightarrow> string \<Rightarrow> answer_input list \<Rightarrow> quiz_result_detail tr_meth" where
  "submit_quiz_answers env s session_id answers =
     bindM (tr_read (\<lambda>db. get_quiz_session db session_id)) (\<lambda>found.
     case found of
       None \<Rightarrow> raiseM (TrValidationError ''unknown quiz session'')
     | Some session \<Rightarrow>
         bindM (liftE (raise_if (length answers \<noteq> length (qs_selected_question_ids session))
           (TrValidationError (''exactly '' @ str_nat (length (qs_selected_question_ids session)) @ '' answers are required'')))) (\<lambda>_.
         bindM (load_questions_for_binding env (qs_document_id session) (qs_version session)) (\<lambda>questions.
         bindM (liftE (select_questions questions (qs_selected_question_ids session))) (\<lambda>selected.
         let presented = decode_presented (qs_presented_questions session) selected in
         bindM (liftE (normalize_answers answers presented)) (\<lambda>chosen.
         let score = quiz_score selected chosen; n = int (length selected) in
         bindM (tr_utcnow env) (\<lambda>now.
         let res = \<lparr>qr_session_id = qs_session_id session, qr_user_id = qs_user_id session, qr_document_id = qs_document_id session,
               qr_version = qs_version session, qr_score = score, qr_total = n,
               qr_passed = (score \<ge> resolve_min_correct_answers s n), qr_completed_at = now\<rparr> in
         bindM (complete_quiz_session res chosen) (\<lambda>_.
         bindM (tr_read (\<lambda>db. get_progress db (qs_user_id session, qs_document_id session, qs_version session))) (\<lambda>progress.
         bindM (upsert_progress (progress_after s progress res)) (\<lambda>_.
         bindM (tr_publish env ''domain.training.quiz.completed.v1''
           [(''session_id'', PyStr (qr_session_id res)), (''user_id'', PyStr (qr_user_id res)),
            (''document_id'', PyStr (qr_document_id res)), (''version'', PyInt (qr_version res)), (''score'', PyInt score),
            (''total'', PyInt n), (''passed'', PyBool (qr_passed res))] (Some (qr_user_id res))) (\<lambda>_.
         retM (quiz_result.extend res \<lparr>qr_questions = review_questions selected presented chosen\<rparr>)))))))))))"

text \<open>The review of the last completed attempt; questions that left the binding are skipped.\<close>

definition get_last_quiz_review ::
  "tr_env \<Rightarrow> string \<Rightarrow> string \<Rightarrow> int \<Rightarrow> quiz_result_detail option tr_meth" where
  "get_last_quiz_review env user_id document_id version =
     bindM (tr_read (\<lambda>db. get_last_completed_attempt db (user_id, document_id, version))) (\<lambda>found.
     case found of
       None \<Rightarrow> retM None
     | Some row \<Rightarrow>
         bindM (load_questions_for_binding env document_id version) (\<lambda>questions.
         let selected = List.map_filter (last_by qq_question_id questions) (qs_selected_question_ids row);
             presented = decode_presented (qs_presented_questions row) selected;
             raw_answers = (case qt_answers row of None \<Rightarrow> [] | Some as \<Rightarrow> as) in
         bindM (liftE (normalize_answers (map (\<lambda>a. case a of None \<Rightarrow> NoAnswer | Some t \<Rightarrow> ByText t) raw_answers) presented)) (\<lambda>chosen.
         let padded = take (length selected) (chosen @ replicate (length selected) None) in
         retM (Some \<lparr>qr_session_id = qs_session_id row, qr_user_id = user_id, qr_document_id = document_id, qr_version = version,
           qr_score = (case qt_score row of Some n \<Rightarrow> n | None \<Rightarrow> quiz_score selected padded),
           qr_total = (case qt_total row of Some n \<Rightarrow> n | None \<Rightarrow> int (length selected)),
           qr_passed = (qt_passed row = Some True),
           qr_completed_at = (case qt_completed_at row of Some t \<Rightarrow> t | None \<Rightarrow> 0),
           qr_questions = review_questions selected presented padded\<rparr>))))"

end
