(* ===== verification/TrainOps.thy ===== *)
theory TrainOps
  imports TrainExec UserOps
begin

text \<open>
  The other services of the training module: scope and priority of an assignment (\<open>scope_resolver.py\<close>,
  \<open>training_assignment_resolver.py\<close>), the projection of snapshots (\<open>training_snapshot_projector.py\<close>), manual
  assignments, exemptions, the inbox, comments, reports, and the subscription to confirmed readings
  (\<open>eventing.py\<close>).
\<close>

section \<open>Scope and priority\<close>

definition same_scope :: "string option \<Rightarrow> string option \<Rightarrow> bool" where
  "same_scope a b \<longleftrightarrow> truthy a \<and> truthy b \<and> map_option (\<lambda>t. py_upper (py_strip t)) a = map_option (\<lambda>t. py_upper (py_strip t)) b"

definition scope_matches :: "document_ref \<Rightarrow> authenticated_user \<Rightarrow> bool" where
  "scope_matches doc user \<longleftrightarrow>
     (\<not> truthy (dr_department doc) \<and> \<not> truthy (dr_site doc) \<and> \<not> truthy (dr_regulatory_scope doc)) \<or>
     same_scope (dr_department doc) (us_department user) \<or> same_scope (dr_site doc) (us_scope user) \<or>
     same_scope (dr_regulatory_scope doc) (us_organization_unit user)"

definition resolve_assignment :: "bool \<Rightarrow> bool \<Rightarrow> bool \<Rightarrow> bool \<Rightarrow> assignment_source" where
  "resolve_assignment scope_match tag_match manual_match exempted =
     (if exempted then SrcEXEMPTED
      else if manual_match then SrcMANUAL
      else if tag_match then SrcTAG
      else if scope_match then SrcSCOPE
      else SrcNOT_RELEVANT)"

section \<open>Projection of the assignments\<close>

text \<open>A later exemption of the same key replaces an earlier one.\<close>

definition exemption_active :: "time \<Rightarrow> training_exemption list \<Rightarrow> training_key \<Rightarrow> bool" where
  "exemption_active now exemptions key =
     (case last_by (\<lambda>e. (te_user_id e, te_document_id e, te_version e)) exemptions key of
        None \<Rightarrow> False
      | Some e \<Rightarrow> \<not> (case te_valid_until e of None \<Rightarrow> False | Some t \<Rightarrow> t < now))"

definition assignment_of :: "tr_db \<Rightarrow> time \<Rightarrow> document_ref \<Rightarrow> authenticated_user \<Rightarrow> assignment_source" where
  "assignment_of db now doc user =
     (let uid = us_user_id user; did = dr_document_id doc in
      resolve_assignment (scope_matches doc user)
        (get_document_tags db did \<inter> get_user_tags db uid \<noteq> {})
        ((uid, did) \<in> (\<lambda>m. (ma_user_id m, ma_document_id m)) ` set (list_active_manual_assignments db))
        (exemption_active now (list_active_exemptions db) (uid, did, dr_version doc)))"

text \<open>One turn of the loop: the number of snapshots grows where the document concerns the user.\<close>

definition project_one ::
  "tr_env \<Rightarrow> tr_db \<Rightarrow> time \<Rightarrow> document_ref \<times> authenticated_user \<Rightarrow> int \<Rightarrow> int tr_meth" where
  "project_one env before now pair n =
     (let (doc, user) = pair; source = assignment_of before now doc user in
      if source = SrcNOT_RELEVANT then retM n
      else
        bindM (uuid4_hex env) (\<lambda>snapshot_id.
        let snap = \<lparr>sn_snapshot_id = snapshot_id, sn_user_id = us_user_id user, sn_document_id = dr_document_id doc,
              sn_version = dr_version doc, sn_source = source, sn_exempted = (source = SrcEXEMPTED),
              sn_created_at = now, sn_updated_at = now\<rparr> in
        bindM (upsert_snapshot snap) (\<lambda>_.
        bindM (tr_publish env
          (if snapshot_key snap \<in> snapshot_key ` set (td_snapshots before)
           then ''domain.training.assignment.snapshot.updated.v1'' else ''domain.training.assignment.snapshot.created.v1'')
          [(''user_id'', PyStr (sn_user_id snap)), (''document_id'', PyStr (sn_document_id snap)),
           (''version'', PyInt (sn_version snap)), (''source'', PyStr (source_value source)),
           (''exempted'', PyBool (sn_exempted snap))] None) (\<lambda>_.
        retM (n + 1)))))"

fun project_all ::
  "tr_env \<Rightarrow> tr_db \<Rightarrow> time \<Rightarrow> (document_ref \<times> authenticated_user) list \<Rightarrow> int \<Rightarrow> int tr_meth" where
  "project_all env before now [] n = retM n"
| "project_all env before now (p # ps) n = bindM (project_one env before now p n) (project_all env before now ps)"

definition rebuild_all :: "tr_env \<Rightarrow> docs_db \<Rightarrow> authenticated_user list \<Rightarrow> int tr_meth" where
  "rebuild_all env docs users =
     bindM (tr_read id) (\<lambda>before.
     bindM (tr_utcnow env) (\<lambda>now.
     bindM delete_all_snapshots (\<lambda>_.
     bindM (project_all env before now (List.product (list_released_documents docs) users) 0) (\<lambda>n.
     bindM (tr_publish env ''domain.training.assignment.snapshot.rebuilt.v1'' [(''count'', PyInt n)] None) (\<lambda>_.
     retM n)))))"

section \<open>Manual assignments and exemptions\<close>

definition grant_manual_assignment ::
  "tr_env \<Rightarrow> string \<Rightarrow> string \<Rightarrow> string \<Rightarrow> string \<Rightarrow> manual_assignment tr_meth" where
  "grant_manual_assignment env user_id document_id reason granted_by =
     bindM (liftE (raise_if (py_strip reason = []) (TrValidationError ''reason is required''))) (\<lambda>_.
     bindM (uuid4_hex env) (\<lambda>assignment_id.
     bindM (tr_utcnow env) (\<lambda>now.
     let ma = \<lparr>ma_assignment_id = assignment_id, ma_user_id = user_id, ma_document_id = document_id,
           ma_reason = py_strip reason, ma_granted_by = granted_by, ma_granted_at = now, ma_revoked_at = None\<rparr> in
     bindM (create_manual_assignment ma) (\<lambda>_.
     bindM (tr_publish env ''domain.training.manual_assignment.granted.v1''
       [(''assignment_id'', PyStr assignment_id), (''user_id'', PyStr user_id), (''document_id'', PyStr document_id)]
       (Some granted_by)) (\<lambda>_.
     retM ma)))))"

definition revoke_manual_assignment :: "tr_env \<Rightarrow> string \<Rightarrow> string \<Rightarrow> unit tr_meth" where
  "revoke_manual_assignment env assignment_id revoked_by =
     bindM (tr_utcnow env) (\<lambda>now.
     bindM (revoke_manual_row assignment_id now) (\<lambda>_.
     tr_publish env ''domain.training.manual_assignment.revoked.v1'' [(''assignment_id'', PyStr assignment_id)] (Some revoked_by)))"

definition grant_exemption ::
  "tr_env \<Rightarrow> string \<Rightarrow> string \<Rightarrow> int \<Rightarrow> string \<Rightarrow> string \<Rightarrow> time option \<Rightarrow> training_exemption tr_meth" where
  "grant_exemption env user_id document_id version reason granted_by valid_until =
     bindM (liftE (raise_if (py_strip reason = []) (TrValidationError ''reason is required''))) (\<lambda>_.
     bindM (uuid4_hex env) (\<lambda>exemption_id.
     bindM (tr_utcnow env) (\<lambda>now.
     let ex = \<lparr>te_exemption_id = exemption_id, te_user_id = user_id, te_document_id = document_id, te_version = version,
           te_reason = py_strip reason, te_granted_by = granted_by, te_granted_at = now, te_valid_until = valid_until,
           te_revoked_at = None\<rparr> in
     bindM (create_exemption ex) (\<lambda>_.
     bindM (tr_publish env ''domain.training.exemption.granted.v1''
       [(''exemption_id'', PyStr exemption_id), (''user_id'', PyStr user_id), (''document_id'', PyStr document_id),
        (''version'', PyInt version)] (Some granted_by)) (\<lambda>_.
     retM ex)))))"

definition revoke_exemption :: "tr_env \<Rightarrow> string \<Rightarrow> string \<Rightarrow> unit tr_meth" where
  "revoke_exemption env exemption_id revoked_by =
     bindM (tr_utcnow env) (\<lambda>now.
     bindM (revoke_exemption_row exemption_id now) (\<lambda>_.
     tr_publish env ''domain.training.exemption.revoked.v1'' [(''exemption_id'', PyStr exemption_id)] (Some revoked_by)))"

section \<open>Confirmed readings\<close>

text \<open>The receipt that the documents module has for the reading, a failure counting as none.\<close>

record read_receipt =
  rr_user_id :: string
  rr_document_id :: string
  rr_version :: int

definition on_read_confirmed ::
  "tr_env \<Rightarrow> read_receipt option \<Rightarrow> string option \<Rightarrow> string option \<Rightarrow> int option \<Rightarrow> unit tr_meth" where
  "on_read_confirmed env receipt user document version_field =
     (case (user, document, version_field) of
        (Some user_id, Some document_id, Some version) \<Rightarrow>
          if user_id = [] \<or> document_id = [] then retM ()
          else (case receipt of
              None \<Rightarrow> retM ()
            | Some r \<Rightarrow>
                if rr_user_id r \<noteq> user_id \<or> rr_document_id r \<noteq> document_id \<or> rr_version r \<noteq> version then retM ()
                else
                  bindM (tr_read (\<lambda>db. get_progress db (user_id, document_id, version))) (\<lambda>progress.
                  if Option.bind progress tp_read_confirmed_at \<noteq> None then retM ()
                  else
                    bindM (tr_utcnow env) (\<lambda>now.
                    upsert_progress \<lparr>tp_user_id = user_id, tp_document_id = document_id, tp_version = version,
                      tp_read_confirmed_at = Some now, tp_quiz_passed_at = Option.bind progress tp_quiz_passed_at,
                      tp_last_failed_at = None, tp_last_score = Option.bind progress tp_last_score,
                      tp_quiz_attempts_count = (case progress of None \<Rightarrow> 0 | Some p \<Rightarrow> tp_quiz_attempts_count p)\<rparr>)))
      | _ \<Rightarrow> retM ())"

section \<open>Inbox\<close>

definition inbox_item_of :: "tr_db \<Rightarrow> document_ref \<Rightarrow> assignment_snapshot \<Rightarrow> inbox_item" where
  "inbox_item_of db doc snap =
     (let progress = get_progress db (snapshot_key snap) in
      \<lparr>ib_document_id = sn_document_id snap, ib_version = sn_version snap, ib_title = dr_title doc,
       ib_status = (if sn_exempted snap then ''EXEMPTED'' else ''APPROVED''), ib_owner_user_id = dr_owner_user_id doc,
       ib_released_at = dr_released_at doc, ib_read_confirmed = (Option.bind progress tp_read_confirmed_at \<noteq> None),
       ib_quiz_available = (get_active_binding db (sn_document_id snap) (sn_version snap) \<noteq> None),
       ib_quiz_passed = (Option.bind progress tp_quiz_passed_at \<noteq> None), ib_source = sn_source snap\<rparr>)"

definition list_training_inbox_for_user :: "docs_db \<Rightarrow> tr_db \<Rightarrow> string \<Rightarrow> bool \<Rightarrow> inbox_item list" where
  "list_training_inbox_for_user docs db user_id open_only =
     List.map_filter (\<lambda>snap.
       if sn_source snap = SrcNOT_RELEVANT then None
       else case last_by (\<lambda>d. (dr_document_id d, dr_version d)) (list_released_documents docs) (sn_document_id snap, sn_version snap) of
           None \<Rightarrow> None
         | Some doc \<Rightarrow>
             let i = inbox_item_of db doc snap in if open_only \<and> ib_quiz_passed i then None else Some i)
       (list_snapshots_for_user db user_id)"

section \<open>Comments\<close>

definition add_pdf_comment ::
  "tr_env \<Rightarrow> string \<Rightarrow> string \<Rightarrow> int \<Rightarrow> int option \<Rightarrow> string \<Rightarrow> string option \<Rightarrow> string \<Rightarrow> string \<Rightarrow> training_comment tr_meth" where
  "add_pdf_comment env user_id document_id version page_number comment_text anchor_json title username =
     (let text = py_strip comment_text in
      bindM (liftE (raise_if (text = []) (TrValidationError ''comment_text is required''))) (\<lambda>_.
      bindM (tr_utcnow env) (\<lambda>now.
      bindM (uuid4_hex env) (\<lambda>comment_id.
      let c = \<lparr>tc_comment_id = comment_id, tc_document_id = document_id, tc_version = version,
            tc_document_title_snapshot = title, tc_user_id = user_id, tc_username_snapshot = username,
            tc_comment_text = text, tc_status = CmACTIVE, tc_created_at = now, tc_updated_at = now,
            tc_page_number = page_number, tc_anchor_json = anchor_json, tc_resolved_by = None, tc_resolved_at = None,
            tc_resolution_note = None, tc_inactive_by = None, tc_inactive_at = None, tc_inactive_note = None\<rparr> in
      bindM (create_training_comment c) (\<lambda>_.
      bindM (tr_publish env ''domain.training.comment.created.v1''
        [(''comment_id'', PyStr comment_id), (''document_id'', PyStr document_id), (''version'', PyInt version),
         (''user_id'', PyStr user_id), (''page_number'', (case page_number of None \<Rightarrow> PyNone | Some n \<Rightarrow> PyInt n))]
        (Some user_id)) (\<lambda>_.
      retM c))))))"

definition add_training_comment ::
  "tr_env \<Rightarrow> string \<Rightarrow> string \<Rightarrow> int \<Rightarrow> string \<Rightarrow> string \<Rightarrow> string \<Rightarrow> training_comment tr_meth" where
  "add_training_comment env user_id document_id version comment_text title username =
     add_pdf_comment env user_id document_id version None comment_text None title username"

text \<open>The record that is written back leaves out page and anchor, which the update does not write.\<close>

definition resolve_training_comment :: "tr_env \<Rightarrow> string \<Rightarrow> string \<Rightarrow> string option \<Rightarrow> training_comment tr_meth" where
  "resolve_training_comment env comment_id resolved_by resolution_note =
     bindM (tr_read (\<lambda>db. get_training_comment db comment_id)) (\<lambda>found.
     case found of
       None \<Rightarrow> raiseM (TrValidationError ''comment not found'')
     | Some c \<Rightarrow>
         bindM (tr_utcnow env) (\<lambda>now.
         let updated = c\<lparr>tc_status := CmRESOLVED, tc_updated_at := now, tc_page_number := None, tc_anchor_json := None,
               tc_resolved_by := Some resolved_by, tc_resolved_at := Some now, tc_resolution_note := resolution_note\<rparr> in
         bindM (update_training_comment updated) (\<lambda>_.
         bindM (tr_publish env ''domain.training.comment.resolved.v1''
           [(''comment_id'', PyStr comment_id), (''resolved_by'', PyStr resolved_by)] (Some resolved_by)) (\<lambda>_.
         retM updated))))"

definition inactivate_training_comment :: "tr_env \<Rightarrow> string \<Rightarrow> string \<Rightarrow> string option \<Rightarrow> training_comment tr_meth" where
  "inactivate_training_comment env comment_id inactive_by inactive_note =
     bindM (tr_read (\<lambda>db. get_training_comment db comment_id)) (\<lambda>found.
     case found of
       None \<Rightarrow> raiseM (TrValidationError ''comment not found'')
     | Some c \<Rightarrow>
         bindM (tr_utcnow env) (\<lambda>now.
         let updated = c\<lparr>tc_status := CmINACTIVE, tc_updated_at := now, tc_page_number := None, tc_anchor_json := None,
               tc_inactive_by := Some inactive_by, tc_inactive_at := Some now, tc_inactive_note := inactive_note\<rparr> in
         bindM (update_training_comment updated) (\<lambda>_.
         bindM (tr_publish env ''domain.training.comment.inactivated.v1''
           [(''comment_id'', PyStr comment_id), (''inactive_by'', PyStr inactive_by)] (Some inactive_by)) (\<lambda>_.
         retM updated))))"

section \<open>Reports\<close>

definition get_training_statistics :: "tr_db \<Rightarrow> training_statistics" where
  "get_training_statistics db =
     (let (n, completed, read_only) = count_snapshots_by_status db in
      \<lparr>st_total_users = 0, st_total_assignments = n, st_completed = completed, st_open = read_only,
       st_failed = max 0 (n - completed - read_only)\<rparr>)"

definition log_action :: "tr_env \<Rightarrow> string \<Rightarrow> string \<Rightarrow> (string, pyval) dict \<Rightarrow> unit tr_meth" where
  "log_action env action actor_user_id details =
     bindM (uuid4_hex env) (\<lambda>log_id.
     bindM (tr_utcnow env) (\<lambda>now.
     add_audit_entry \<lparr>ta_log_id = log_id, ta_action = action, ta_actor_user_id = actor_user_id, ta_timestamp = now,
       ta_details = details\<rparr>))"

record matrix_export =
  me_export_id :: string
  me_row_count :: int
  me_exported_at :: time
  me_rows :: "matrix_row list"

definition export_training_matrix :: "tr_env \<Rightarrow> matrix_export tr_meth" where
  "export_training_matrix env =
     bindM (tr_read export_matrix_rows) (\<lambda>rows.
     bindM (tr_utcnow env) (\<lambda>now.
     bindM (uuid4_hex env) (\<lambda>export_id.
     let payload = [(''export_id'', PyStr export_id), (''row_count'', PyInt (int (length rows)))] in
     bindM (log_action env ''matrix_export'' ''system'' payload) (\<lambda>_.
     bindM (tr_publish env ''domain.training.matrix.exported.v1'' payload None) (\<lambda>_.
     retM \<lparr>me_export_id = export_id, me_row_count = int (length rows), me_exported_at = now, me_rows = rows\<rparr>)))))"

end
