(* ===== verification/TrainApi.thy ===== *)
theory TrainApi
  imports TrainOps
begin

text \<open>
  The ports of the training module (\<open>modules/training/api.py\<close>): requests of trainees and, behind the guard of
  \<open>TrainingAdminApi\<close>, of administrators and quality managers, the event of a confirmed reading, and the
  worlds that sequences of them reach. Settings, documents, accounts and the user who is logged in may change
  between two requests, so every step has its own.
\<close>

definition require_training_admin :: "authenticated_user option \<Rightarrow> train_error + unit" where
  "require_training_admin current_user = (case current_user of
       None \<Rightarrow> Inl (TrPermissionError ''training admin operation requires login'')
     | Some u \<Rightarrow> raise_if (\<not> (py_lower (py_strip (us_role u)) = ''admin'' \<or> is_effective_qmb (Some (us_role u)) (us_is_qmb u)))
         (TrPermissionError ''training admin operation requires Admin or QMB role''))"

definition list_pending_quiz_mappings :: "docs_db \<Rightarrow> tr_db \<Rightarrow> pending_mapping list" where
  "list_pending_quiz_mappings docs db =
     map (\<lambda>row. row\<lparr>pm_document_title := map_option dr_title
         (last_by (\<lambda>d. (dr_document_id d, dr_version d)) (list_released_documents docs) (pm_document_id row, pm_document_version row))\<rparr>)
       (list_pending_mapping_rows db)"

datatype tr_request =
    StartQuiz string string int
  | SubmitQuiz string "answer_input list"
  | AddPdfComment string string int "int option" string "string option" string string
  | ReadConfirmed "read_receipt option" "string option" "string option" "int option"
  | ImportQuiz string bool
  | BindQuiz string string int
  | CheckReplacement string int string
  | ReplaceBinding string int string string
  | SetDocumentTags string "string list"
  | SetUserTags string "string list"
  | GrantManual string string string string
  | RevokeManual string string
  | GrantExemption string string int string string "time option"
  | RevokeExemption string string
  | RebuildSnapshots
  | ResolveComment string string "string option"
  | InactivateComment string string "string option"
  | ExportMatrix

fun needs_admin :: "tr_request \<Rightarrow> bool" where
  "needs_admin (StartQuiz _ _ _) = False"
| "needs_admin (SubmitQuiz _ _) = False"
| "needs_admin (AddPdfComment _ _ _ _ _ _ _ _) = False"
| "needs_admin (ReadConfirmed _ _ _ _) = False"
| "needs_admin _ = True"

definition returning :: "'a tr_meth \<Rightarrow> unit tr_meth" where
  "returning m = bindM m (\<lambda>_. retM ())"

record tr_setting =
  tx_settings :: training_settings
  tx_documents :: docs_db
  tx_users :: "authenticated_user list"
  tx_current_user :: "authenticated_user option"

primrec dispatch_training :: "tr_env \<Rightarrow> tr_setting \<Rightarrow> tr_request \<Rightarrow> unit tr_meth" where
  "dispatch_training env x (StartQuiz user doc ver) = returning (start_quiz env (tx_settings x) user doc ver)"
| "dispatch_training env x (SubmitQuiz session_id answers) = returning (submit_quiz_answers env (tx_settings x) session_id answers)"
| "dispatch_training env x (AddPdfComment user doc ver page text anchor title username) =
     returning (add_pdf_comment env user doc ver page text anchor title username)"
| "dispatch_training env x (ReadConfirmed receipt user doc ver) = on_read_confirmed env receipt user doc ver"
| "dispatch_training env x (ImportQuiz raw force) = returning (import_quiz_json env (tx_documents x) raw force)"
| "dispatch_training env x (BindQuiz import_id doc ver) = returning (bind_quiz_to_document env import_id doc ver)"
| "dispatch_training env x (CheckReplacement doc ver import_id) = returning (check_quiz_replacement_conflict env doc ver import_id)"
| "dispatch_training env x (ReplaceBinding doc ver import_id by) = returning (replace_quiz_binding env doc ver import_id by)"
| "dispatch_training env x (SetDocumentTags doc tags) = returning (set_document_tags env doc tags)"
| "dispatch_training env x (SetUserTags user tags) = returning (set_user_tags env user tags)"
| "dispatch_training env x (GrantManual user doc reason by) = returning (grant_manual_assignment env user doc reason by)"
| "dispatch_training env x (RevokeManual assignment_id by) = revoke_manual_assignment env assignment_id by"
| "dispatch_training env x (GrantExemption user doc ver reason by until) =
     returning (grant_exemption env user doc ver reason by until)"
| "dispatch_training env x (RevokeExemption exemption_id by) = revoke_exemption env exemption_id by"
| "dispatch_training env x RebuildSnapshots = returning (rebuild_all env (tx_documents x) (tx_users x))"
| "dispatch_training env x (ResolveComment comment_id by note) = returning (resolve_training_comment env comment_id by note)"
| "dispatch_training env x (InactivateComment comment_id by note) = returning (inactivate_training_comment env comment_id by note)"
| "dispatch_training env x ExportMatrix = returning (export_training_matrix env)"

definition run_training :: "tr_env \<Rightarrow> tr_setting \<Rightarrow> tr_request \<Rightarrow> unit tr_meth" where
  "run_training env x req =
     bindM (liftE (if needs_admin req then require_training_admin (tx_current_user x) else Inr ())) (\<lambda>_. dispatch_training env x req)"

inductive tr_reachable :: "tr_env \<Rightarrow> tr_world \<Rightarrow> bool" for env where
  start: "tr_reachable env empty_tr_world"
| step: "tr_reachable env w \<Longrightarrow> tr_reachable env (after (run_training env x req w))"

lemma tr_reachable_invariant:
  assumes "tr_reachable env w" and "I empty_tr_world" and "\<And>x req. keeps I (dispatch_training env x req)"
  shows "I w"
  using assms(1)
proof induction
  case (step w x req)
  have "keeps I (run_training env x req)"
    unfolding run_training_def by (intro keeps_intros assms(3))
  then show ?case using step.IH by (rule keepsD)
qed (rule assms(2))

fun run_trainings :: "tr_env \<Rightarrow> (tr_setting \<times> tr_request) list \<Rightarrow> tr_world \<Rightarrow> tr_world" where
  "run_trainings env [] w = w"
| "run_trainings env ((x, req) # reqs) w = run_trainings env reqs (after (run_training env x req w))"

lemma run_trainings_reachable: "tr_reachable env w \<Longrightarrow> tr_reachable env (run_trainings env reqs w)"
proof (induction env reqs w rule: run_trainings.induct)
  case (2 env x req reqs w)
  then show ?case using tr_reachable.step [of env w x req] by simp
qed simp

end
