(* ===== verification/TrainLaws.thy ===== *)
theory TrainLaws
  imports TrainApi
begin

text \<open>
  What every request keeps of the training tables, by weakest preconditions over the tables alone: the rules
  \<open>db_wp\<close> take a method apart, and each change of a table has one lemma.
\<close>

section \<open>Weakest preconditions over the tables\<close>

definition db_wp :: "'a tr_meth \<Rightarrow> ('a \<Rightarrow> tr_db \<Rightarrow> bool) \<Rightarrow> (tr_db \<Rightarrow> bool) \<Rightarrow> tr_db \<Rightarrow> bool" where
  "db_wp m Q E d \<longleftrightarrow> (\<forall>w. tw_db w = d \<longrightarrow> (case m w of (Inl e, w') \<Rightarrow> E (tw_db w') | (Inr x, w') \<Rightarrow> Q x (tw_db w')))"

named_theorems wp_rules \<open>rules that reduce \<open>db_wp\<close> to facts about the tables\<close>

lemma db_wpI:
  "(\<And>w x w'. m w = (Inr x, w') \<Longrightarrow> tw_db w = d \<Longrightarrow> Q x (tw_db w')) \<Longrightarrow>
   (\<And>w e w'. m w = (Inl e, w') \<Longrightarrow> tw_db w = d \<Longrightarrow> E (tw_db w')) \<Longrightarrow> db_wp m Q E d"
  unfolding db_wp_def by (auto split: prod.split sum.split)

lemma db_wpD:
  assumes "db_wp m Q E d" and "tw_db w = d"
  shows "m w = (Inr x, w') \<Longrightarrow> Q x (tw_db w')" and "m w = (Inl e, w') \<Longrightarrow> E (tw_db w')"
  using assms unfolding db_wp_def by (auto dest: spec [of _ w])

lemma wp_bind [wp_rules]:
  assumes "db_wp m (\<lambda>x. db_wp (f x) Q E) E d"
  shows "db_wp (bindM m f) Q E d"
proof (rule db_wpI)
  fix w x w' assume "bindM m f w = (Inr x, w')" and d: "tw_db w = d"
  then obtain y v where "m w = (Inr y, v)" "f y v = (Inr x, w')"
    unfolding bindM_def by (auto split: prod.splits sum.splits)
  then show "Q x (tw_db w')" using db_wpD(1) [OF db_wpD(1) [OF assms d] refl] by blast
next
  fix w e w' assume "bindM m f w = (Inl e, w')" and d: "tw_db w = d"
  then consider "m w = (Inl e, w')" | y v where "m w = (Inr y, v)" "f y v = (Inl e, w')"
    unfolding bindM_def by (auto split: prod.splits sum.splits)
  then show "E (tw_db w')"
    by cases (use db_wpD(2) [OF assms d] db_wpD(2) [OF db_wpD(1) [OF assms d] refl] in blast)+
qed

lemma wp_basic [wp_rules]:
  "Q x d \<Longrightarrow> db_wp (retM x) Q E d"
  "E d \<Longrightarrow> db_wp (raiseM e) Q1 E d"
  "(\<And>x. r = Inr x \<Longrightarrow> Q2 x d) \<Longrightarrow> E d \<Longrightarrow> db_wp (liftE r) Q2 E d"
  "Q3 (g d) d \<Longrightarrow> db_wp (tr_read g) Q3 E d"
  "Q4 () (h d) \<Longrightarrow> db_wp (tr_write h) Q4 E d"
  "(\<And>t. Q5 t d) \<Longrightarrow> db_wp (tr_utcnow env) Q5 E d"
  "(\<And>i. Q6 i d) \<Longrightarrow> db_wp (tr_draw k) Q6 E d"
  by (auto simp: db_wp_def tr_read_def tr_write_def tr_utcnow_def tr_draw_def split: sum.split)

lemma wp_uuid [wp_rules]: "(\<And>i. Q i d) \<Longrightarrow> db_wp (uuid4_hex env) Q E d"
  unfolding uuid4_hex_def by (intro wp_rules)

lemma wp_publish [wp_rules]: "Q () d \<Longrightarrow> db_wp (tr_publish env name payload actor) Q E d"
  unfolding db_wp_def tr_publish_def
  by (auto simp: bindM_def tr_draw_def tr_utcnow_def modifyM_def)

lemma wp_cases [wp_rules]:
  "(c \<Longrightarrow> db_wp m Q E d) \<Longrightarrow> (\<not> c \<Longrightarrow> db_wp m' Q E d) \<Longrightarrow> db_wp (if c then m else m') Q E d"
  "(opt = None \<Longrightarrow> db_wp n Q E d) \<Longrightarrow> (\<And>x. opt = Some x \<Longrightarrow> db_wp (f x) Q E d) \<Longrightarrow>
   db_wp (case opt of None \<Rightarrow> n | Some x \<Rightarrow> f x) Q E d"
  "(\<And>x y. p = (x, y) \<Longrightarrow> db_wp (g x y) Q E d) \<Longrightarrow> db_wp (case p of (x, y) \<Rightarrow> g x y) Q E d"
  "(\<And>e. s = Inl e \<Longrightarrow> db_wp (h e) Q E d) \<Longrightarrow> (\<And>y. s = Inr y \<Longrightarrow> db_wp (k y) Q E d) \<Longrightarrow>
   db_wp (case s of Inl e \<Rightarrow> h e | Inr y \<Rightarrow> k y) Q E d"
  by (auto split: option.split prod.split sum.split)

lemma wp_mono: "db_wp m Q E d \<Longrightarrow> (\<And>x d'. Q x d' \<Longrightarrow> Q' x d') \<Longrightarrow> (\<And>d'. E d' \<Longrightarrow> E' d') \<Longrightarrow> db_wp m Q' E' d"
  by (rule db_wpI) (blast dest: db_wpD)+

text \<open>A calm call leaves the tables alone.\<close>

definition calm :: "'a tr_meth \<Rightarrow> bool" where
  "calm m \<longleftrightarrow> (\<forall>d. db_wp m (\<lambda>_ d'. d' = d) (\<lambda>d'. d' = d) d)"

lemma wp_calm: "calm m \<Longrightarrow> (\<And>x. Q x d) \<Longrightarrow> E d \<Longrightarrow> db_wp m Q E d"
  unfolding calm_def by (rule wp_mono [of m "\<lambda>_ d'. d' = d" "\<lambda>d'. d' = d" d]) auto

lemma calm_store: "calm (put_bytes env payload extension)" "calm (get_bytes env key)"
  unfolding put_bytes_def get_bytes_def calm_def db_wp_def
  by (auto simp: bindM_def uuid4_hex_def tr_draw_def modifyM_def readM_def Let_def split: option.split)

lemma calm_load: "calm (load_questions env import_id)" "calm (load_questions_for_binding env document_id version)"
proof -
  show first: "calm (load_questions env import_id)" for import_id
    unfolding calm_def load_questions_def by (intro allI wp_rules wp_calm [OF calm_store(2)] refl)
  show "calm (load_questions_for_binding env document_id version)"
    unfolding calm_def load_questions_for_binding_def by (intro allI wp_rules wp_calm [OF first] refl)
qed

lemma calm_present: "calm (build_presented_questions env s qs)"
proof (induction qs)
  case (Cons q qs)
  show ?case
    unfolding calm_def build_presented_questions.simps Let_def by (intro allI wp_rules wp_calm [OF Cons.IH] refl)
qed (unfold calm_def build_presented_questions.simps, intro allI wp_rules refl)

lemma calm_cooldown: "calm (cooldown_over env s progress)"
  unfolding calm_def cooldown_over_def by (intro allI wp_rules refl)

lemmas calm_rules = wp_calm [OF calm_store(1)] wp_calm [OF calm_store(2)] wp_calm [OF calm_load(1)] wp_calm [OF calm_load(2)]
  wp_calm [OF calm_present] wp_calm [OF calm_cooldown]

definition keeps_db :: "(tr_db \<Rightarrow> bool) \<Rightarrow> 'a tr_meth \<Rightarrow> bool" where
  "keeps_db I m \<longleftrightarrow> (\<forall>d. I d \<longrightarrow> db_wp m (\<lambda>_. I) I d)"

lemma keeps_dbI: "(\<And>d. I d \<Longrightarrow> db_wp m (\<lambda>_. I) I d) \<Longrightarrow> keeps_db I m"
  by (simp add: keeps_db_def)

lemma keeps_db_keeps: "keeps_db I m \<Longrightarrow> keeps (\<lambda>w. I (tw_db w)) m"
  unfolding keeps_db_def keeps_def by (metis db_wpD prod.collapse sum.exhaust)

lemma keeps_db_returning: "keeps_db I m \<Longrightarrow> keeps_db I (returning m)"
  unfolding keeps_db_def returning_def by (intro allI impI wp_rules) (auto intro: wp_mono wp_rules)

section \<open>Dictionaries built from lists\<close>

lemma last_by_distinct:
  "distinct (map key xs) \<Longrightarrow> last_by key xs k = Some x \<longleftrightarrow> x \<in> set xs \<and> key x = k"
  unfolding last_by_def by (subst map_of_eq_Some_iff) (auto simp: comp_def rev_map [symmetric])

lemma last_by_Some: "last_by key xs k = Some x \<Longrightarrow> x \<in> set xs \<and> key x = k"
  unfolding last_by_def by (auto dest!: map_of_SomeD)

end
