(* ===== verification/TrainInvariants.thy ===== *)
theory TrainInvariants
  imports TrainLaws
begin

text \<open>
  The invariant of the training tables: one active quiz per document version, one snapshot and one progress per
  user and document version, graded attempts within their bounds, and no attempt missing from the count of the
  progress. Every request keeps it.
\<close>

section \<open>The invariant\<close>

definition bindings_ok :: "quiz_binding list \<Rightarrow> bool" where
  "bindings_ok bs \<longleftrightarrow> distinct (map qb_binding_id bs) \<and>
     distinct (map (\<lambda>b. (qb_document_id b, qb_version b)) (filter qb_active bs))"

definition snapshots_ok :: "assignment_snapshot list \<Rightarrow> bool" where
  "snapshots_ok ss \<longleftrightarrow> distinct (map snapshot_key ss) \<and>
     (\<forall>s \<in> set ss. sn_source s \<noteq> SrcNOT_RELEVANT \<and> sn_exempted s = (sn_source s = SrcEXEMPTED))"

definition attempt_ok :: "quiz_attempt \<Rightarrow> bool" where
  "attempt_ok a \<longleftrightarrow> (case (qt_completed_at a, qt_score a, qt_total a, qt_passed a, qt_answers a) of
       (None, None, None, None, None) \<Rightarrow> True
     | (Some _, Some score, Some n, Some passed, Some answers) \<Rightarrow>
         0 \<le> score \<and> score \<le> n \<and> n = int (length (qs_selected_question_ids a)) \<and> int (length answers) = n \<and>
         (passed \<longrightarrow> min 1 n \<le> score)
     | _ \<Rightarrow> False)"

definition attempts_ok :: "quiz_attempt list \<Rightarrow> bool" where
  "attempts_ok as \<longleftrightarrow> distinct (map qs_session_id as) \<and> (\<forall>a \<in> set as. attempt_ok a)"

definition attempts_counted :: "tr_db \<Rightarrow> training_key \<Rightarrow> int" where
  "attempts_counted d key = (case get_progress d key of None \<Rightarrow> 0 | Some p \<Rightarrow> tp_quiz_attempts_count p)"

definition train_ok :: "tr_db \<Rightarrow> bool" where
  "train_ok d \<longleftrightarrow> bindings_ok (td_bindings d) \<and> snapshots_ok (td_snapshots d) \<and> attempts_ok (td_attempts d) \<and>
     distinct (map progress_key (td_progress d)) \<and>
     (\<forall>key. count_attempts_for_user_doc d key \<le> attempts_counted d key)"

lemma train_ok_empty: "train_ok empty_tr_db"
  by (simp add: train_ok_def empty_tr_db_def bindings_ok_def snapshots_ok_def attempts_ok_def attempts_counted_def
      count_attempts_for_user_doc_def get_progress_def)

text \<open>The other tables do not matter.\<close>

lemma train_ok_frame [simp]:
  "train_ok (td_document_tags_update f1 d) = train_ok d" "train_ok (td_user_tags_update f2 d) = train_ok d"
  "train_ok (td_tag_pool_update f3 d) = train_ok d" "train_ok (td_manual_assignments_update f4 d) = train_ok d"
  "train_ok (td_exemptions_update f5 d) = train_ok d" "train_ok (td_imports_update f6 d) = train_ok d"
  "train_ok (td_replacements_update f7 d) = train_ok d" "train_ok (td_comments_update f8 d) = train_ok d"
  "train_ok (td_audit_log_update f9 d) = train_ok d"
  by (simp_all add: train_ok_def attempts_counted_def count_attempts_for_user_doc_def get_progress_def)

section \<open>Writes of the tables\<close>

lemma no_duplicate_Inr [simp]: "no_duplicate key k rows = Inr u \<longleftrightarrow> k \<notin> key ` set rows"
  by (auto simp: no_duplicate_def list_ex_iff)

text \<open>Bindings.\<close>

lemma train_ok_bindings:
  "train_ok d \<Longrightarrow> bindings_ok (f (td_bindings d)) \<Longrightarrow> train_ok (td_bindings_update f d)"
  by (simp add: train_ok_def attempts_counted_def count_attempts_for_user_doc_def get_progress_def)

lemma bindings_okD: "train_ok d \<Longrightarrow> bindings_ok (td_bindings d)"
  by (simp add: train_ok_def)

lemma get_active_binding_iff:
  "get_active_binding d doc ver = None \<longleftrightarrow>
   (doc, ver) \<notin> (\<lambda>b. (qb_document_id b, qb_version b)) ` set (filter qb_active (td_bindings d))"
  by (auto simp: get_active_binding_def find_None_iff)

lemma bindings_ok_add:
  "bindings_ok bs \<Longrightarrow> qb_binding_id b \<notin> qb_binding_id ` set bs \<Longrightarrow>
   (qb_document_id b, qb_version b) \<notin> (\<lambda>b. (qb_document_id b, qb_version b)) ` set (filter qb_active bs) \<Longrightarrow> bindings_ok (bs @ [b])"
  by (auto simp: bindings_ok_def)

lemma bindings_ok_deactivate:
  assumes "bindings_ok bs"
  shows "bindings_ok (map (\<lambda>b. if qb_binding_id b = i
    then b\<lparr>qb_active := False, qb_replaced_at := t, qb_replaced_by := u\<rparr> else b) bs)" (is "bindings_ok (map ?f bs)")
proof -
  have "filter qb_active (map ?f bs) = filter (\<lambda>b. qb_binding_id b \<noteq> i) (filter qb_active bs)" for bs
    by (induction bs) auto
  moreover have "map qb_binding_id (map ?f bs) = map qb_binding_id bs" by simp
  ultimately show ?thesis
    using assms unfolding bindings_ok_def by (simp only: distinct_map_filter simp_thms)
qed

lemma deactivated_gone:
  assumes "bindings_ok bs" and "List.find (\<lambda>b. qb_document_id b = doc \<and> qb_version b = ver \<and> qb_active b) bs = Some x"
  shows "(doc, ver) \<notin> (\<lambda>b. (qb_document_id b, qb_version b)) ` set (filter qb_active (map (\<lambda>b. if qb_binding_id b = qb_binding_id x
    then b\<lparr>qb_active := False, qb_replaced_at := t, qb_replaced_by := u\<rparr> else b) bs))"
proof -
  have x: "x \<in> set (filter qb_active bs)" "qb_document_id x = doc" "qb_version x = ver"
    using assms(2) by (auto simp: find_Some_iff)
  have inj: "inj_on (\<lambda>b. (qb_document_id b, qb_version b)) (set (filter qb_active bs))"
    using assms(1) unfolding bindings_ok_def distinct_map by blast
  have "b = x" if "b \<in> set (filter qb_active bs)" "qb_document_id b = doc" "qb_version b = ver" for b
    using inj_onD [OF inj, of b x] x that by simp
  then show ?thesis by (force split: if_splits)
qed

lemma bindings_ok_replace:
  assumes ok: "bindings_ok bs" and found: "List.find (\<lambda>b. qb_document_id b = doc \<and> qb_version b = ver \<and> qb_active b) bs = Some x"
    and new: "qb_binding_id b \<notin> qb_binding_id ` set (map (\<lambda>b. if qb_binding_id b = qb_binding_id x
      then b\<lparr>qb_active := False, qb_replaced_at := t, qb_replaced_by := u\<rparr> else b) bs)"
    and key: "qb_document_id b = doc" "qb_version b = ver"
  shows "bindings_ok (map (\<lambda>b. if qb_binding_id b = qb_binding_id x
    then b\<lparr>qb_active := False, qb_replaced_at := t, qb_replaced_by := u\<rparr> else b) bs @ [b])"
  by (rule bindings_ok_add [OF bindings_ok_deactivate [OF ok] new]) (simp only: key, rule deactivated_gone [OF ok found])

text \<open>Snapshots.\<close>

lemma train_ok_snapshots:
  "train_ok d \<Longrightarrow> snapshots_ok (f (td_snapshots d)) \<Longrightarrow> train_ok (td_snapshots_update f d)"
  by (simp add: train_ok_def attempts_counted_def count_attempts_for_user_doc_def get_progress_def)

lemma snapshots_ok_upsert:
  "snapshots_ok ss \<Longrightarrow> sn_source s \<noteq> SrcNOT_RELEVANT \<Longrightarrow> sn_exempted s = (sn_source s = SrcEXEMPTED) \<Longrightarrow>
   snapshots_ok (filter (\<lambda>r. sn_snapshot_id r \<noteq> sn_snapshot_id s \<and> snapshot_key r \<noteq> snapshot_key s) ss @ [s])"
  by (auto simp: snapshots_ok_def distinct_map_filter)

lemma train_ok_upsert_snapshot:
  "train_ok d \<Longrightarrow> sn_source s \<noteq> SrcNOT_RELEVANT \<Longrightarrow> sn_exempted s = (sn_source s = SrcEXEMPTED) \<Longrightarrow>
   train_ok (td_snapshots_update (\<lambda>rows.
     filter (\<lambda>r. sn_snapshot_id r \<noteq> sn_snapshot_id s \<and> snapshot_key r \<noteq> snapshot_key s) rows @ [s]) d)"
  by (rule train_ok_snapshots) (simp_all add: snapshots_ok_upsert train_ok_def)

text \<open>Progress and attempts.\<close>

lemma find_key_upsert:
  "List.find (\<lambda>r. k r = key) (filter (\<lambda>r. k r \<noteq> k p) rows @ [p]) =
   (if k p = key then Some p else List.find (\<lambda>r. k r = key) rows)"
  by (induction rows) auto

lemma attempts_counted_upsert:
  "attempts_counted (td_progress_update (\<lambda>rows. filter (\<lambda>r. progress_key r \<noteq> progress_key p) rows @ [p]) d) key =
   (if progress_key p = key then tp_quiz_attempts_count p else attempts_counted d key)"
  by (simp add: attempts_counted_def get_progress_def find_key_upsert)

definition completed_for :: "training_key \<Rightarrow> quiz_attempt \<Rightarrow> bool" where
  "completed_for key a \<longleftrightarrow> (qs_user_id a, qs_document_id a, qs_version a) = key \<and> qt_completed_at a \<noteq> None"

lemma count_attempts_eq:
  "count_attempts_for_user_doc d key = int (length (filter (completed_for key) (td_attempts d)))"
  by (simp add: count_attempts_for_user_doc_def completed_for_def [abs_def])

lemma train_ok_countD: "train_ok d \<Longrightarrow> count_attempts_for_user_doc d key \<le> attempts_counted d key"
  unfolding train_ok_def by blast

lemma train_ok_progress:
  assumes "train_ok d" and "attempts_counted d (progress_key p) \<le> tp_quiz_attempts_count p"
  shows "train_ok (td_progress_update (\<lambda>rows. filter (\<lambda>r. progress_key r \<noteq> progress_key p) rows @ [p]) d)"
proof -
  have "count_attempts_for_user_doc d key \<le> (if progress_key p = key then tp_quiz_attempts_count p else attempts_counted d key)" for key
    using train_ok_countD [OF assms(1), of key] assms(2) by auto
  then show ?thesis
    using assms(1) unfolding train_ok_def attempts_counted_upsert
    by (auto simp: distinct_map_filter count_attempts_eq simp del: split_paired_All)
qed

text \<open>An update of the row with one key counts for at most one more.\<close>

lemma filter_update_one:
  assumes "distinct (map g xs)" and "\<And>x. x \<in> set xs \<Longrightarrow> g x \<noteq> i \<Longrightarrow> f x = x"
  shows "length (filter P (map f xs)) \<le> Suc (length (filter P xs))"
proof (cases "\<exists>x \<in> set xs. g x = i")
  case True
  then obtain x ys zs where xs: "xs = ys @ x # zs" "g x = i" by (meson split_list)
  have "g y \<noteq> i" if "y \<in> set ys \<union> set zs" for y
    using assms(1) xs that by (auto simp: image_iff)
  then have "map f ys = ys" "map f zs = zs"
    using assms(2) xs(1) by (auto intro!: map_idI)
  then show ?thesis using xs by simp
next
  case False
  then have "map f xs = xs" using assms(2) by (intro map_idI) blast
  then show ?thesis by simp
qed

lemma train_ok_new_session:
  "train_ok d \<Longrightarrow> qs_session_id a \<notin> qs_session_id ` set (td_attempts d) \<Longrightarrow> attempt_ok a \<Longrightarrow> qt_completed_at a = None \<Longrightarrow>
   train_ok (td_attempts_update (\<lambda>rs. rs @ [a]) d)"
  by (simp add: train_ok_def attempts_ok_def count_attempts_eq completed_for_def attempts_counted_def get_progress_def)

text \<open>A graded session and the progress it leaves, written one after the other.\<close>

definition completed_row :: "quiz_result \<Rightarrow> string option list \<Rightarrow> quiz_attempt \<Rightarrow> quiz_attempt" where
  "completed_row r answers a = (if qs_session_id a = qr_session_id r
       then a\<lparr>qt_answers := Some answers, qt_score := Some (qr_score r), qt_total := Some (qr_total r),
              qt_passed := Some (qr_passed r), qt_completed_at := Some (qr_completed_at r)\<rparr> else a)"

lemma complete_quiz_session_eq:
  "complete_quiz_session r answers = tr_write (td_attempts_update (map (completed_row r answers)))"
  by (simp add: complete_quiz_session_def completed_row_def [abs_def])

lemma train_ok_graded:
  assumes ok: "train_ok d"
    and row: "\<And>a. a \<in> set (td_attempts d) \<Longrightarrow> qs_session_id a = qr_session_id r \<Longrightarrow>
      (qs_user_id a, qs_document_id a, qs_version a) = progress_key p \<and> attempt_ok (completed_row r answers a)"
    and more: "attempts_counted d (progress_key p) < tp_quiz_attempts_count p"
  shows "train_ok (td_progress_update (\<lambda>rows. filter (\<lambda>r. progress_key r \<noteq> progress_key p) rows @ [p])
    (td_attempts_update (map (completed_row r answers)) d))" (is "train_ok (?up ?d)")
proof -
  have distinct: "distinct (map qs_session_id (td_attempts d))" using ok by (simp add: train_ok_def attempts_ok_def)
  have fixed: "completed_row r answers a = a" if "qs_session_id a \<noteq> qr_session_id r" for a
    using that by (simp add: completed_row_def)
  have ids: "qs_session_id (completed_row r answers a) = qs_session_id a" for a
    by (simp add: completed_row_def)
  have attempts: "attempts_ok (td_attempts (?up ?d))"
    using ok row fixed unfolding train_ok_def attempts_ok_def by (auto simp: comp_def ids; metis)
  have bound: "count_attempts_for_user_doc (?up ?d) key \<le> attempts_counted (?up ?d) key" for key
  proof (cases "progress_key p = key")
    case True
    have "count_attempts_for_user_doc (?up ?d) key \<le> count_attempts_for_user_doc d key + 1"
      using filter_update_one [of qs_session_id "td_attempts d" "qr_session_id r" "completed_row r answers" "completed_for key"]
        distinct fixed by (simp add: count_attempts_eq)
    moreover note train_ok_countD [OF ok, of key]
    ultimately show ?thesis using True more unfolding attempts_counted_upsert by simp
  next
    case False
    have "completed_for key (completed_row r answers a) = completed_for key a" if "a \<in> set (td_attempts d)" for a
      using row [OF that] False by (auto simp: completed_row_def completed_for_def)
    then have "filter (completed_for key) (map (completed_row r answers) (td_attempts d)) =
        map (completed_row r answers) (filter (completed_for key) (td_attempts d))"
      by (auto simp: filter_map comp_def cong: filter_cong)
    moreover note train_ok_countD [OF ok, of key]
    ultimately show ?thesis
      using False unfolding attempts_counted_upsert
      by (simp add: count_attempts_eq attempts_counted_def get_progress_def)
  qed
  from ok attempts bound show ?thesis
    unfolding train_ok_def by (auto simp: distinct_map_filter simp del: split_paired_All)
qed

section \<open>Requests that leave these tables alone\<close>

lemmas tr_table_defs = create_manual_assignment_def create_exemption_def create_quiz_import_def create_binding_def
  create_replacement_history_def create_quiz_session_def create_training_comment_def update_training_comment_def
  add_audit_entry_def revoke_manual_row_def revoke_exemption_row_def deactivate_binding_def upsert_snapshot_def
  delete_all_snapshots_def upsert_tag_pool_def

lemma keeps_simple_requests:
  "keeps_db train_ok (set_document_tags env doc tags)"
  "keeps_db train_ok (set_user_tags env user tags)"
  "keeps_db train_ok (grant_manual_assignment env user doc reason by)"
  "keeps_db train_ok (revoke_manual_assignment env i by)"
  "keeps_db train_ok (grant_exemption env user doc ver reason by until)"
  "keeps_db train_ok (revoke_exemption env i by)"
  "keeps_db train_ok (add_pdf_comment env user doc ver page text anchor title username)"
  "keeps_db train_ok (resolve_training_comment env i by note)"
  "keeps_db train_ok (inactivate_training_comment env i by note)"
  "keeps_db train_ok (check_quiz_replacement_conflict env doc ver i)"
  "keeps_db train_ok (export_training_matrix env)"
  "keeps_db train_ok (import_quiz_json env docs raw force)"
  unfolding set_document_tags_def set_user_tags_def grant_manual_assignment_def revoke_manual_assignment_def
    grant_exemption_def revoke_exemption_def add_pdf_comment_def resolve_training_comment_def
    inactivate_training_comment_def check_quiz_replacement_conflict_def export_training_matrix_def import_quiz_json_def
    log_action_def tr_table_defs Let_def
  by (rule keeps_dbI, intro wp_rules calm_rules; simp)+

section \<open>The other requests\<close>

lemma keeps_bind: "keeps_db train_ok (bind_quiz_to_document env import_id doc ver)"
  unfolding bind_quiz_to_document_def create_binding_def Let_def
  by (rule keeps_dbI, intro wp_rules)
    (auto intro!: train_ok_bindings bindings_ok_add dest: bindings_okD simp: get_active_binding_iff)

lemma keeps_replace: "keeps_db train_ok (replace_quiz_binding env doc ver import_id by)"
  unfolding replace_quiz_binding_def create_binding_def deactivate_binding_def create_replacement_history_def Let_def
    get_active_binding_def
  by (rule keeps_dbI, intro wp_rules)
    (auto intro!: train_ok_bindings bindings_ok_replace bindings_ok_deactivate intro: bindings_okD simp: comp_def)

lemma keeps_project: "db_wp (project_all env before now pairs n) (\<lambda>_. train_ok) train_ok d" if "train_ok d"
  using that
proof (induction pairs arbitrary: n d)
  case (Cons p ps)
  then show ?case
    unfolding project_all.simps project_one_def upsert_snapshot_def Let_def
    by (intro wp_rules Cons.IH train_ok_upsert_snapshot) simp_all
qed (unfold project_all.simps, intro wp_rules)

lemma keeps_rebuild: "keeps_db train_ok (rebuild_all env docs users)"
  unfolding rebuild_all_def delete_all_snapshots_def
  by (rule keeps_dbI, intro wp_rules)
    (rule wp_mono [OF keeps_project], auto intro!: train_ok_snapshots wp_rules simp: snapshots_ok_def)

lemma keeps_read_confirmed: "keeps_db train_ok (on_read_confirmed env receipt user doc ver)"
  unfolding on_read_confirmed_def upsert_progress_def
  by (rule keeps_dbI, intro wp_rules train_ok_progress) (auto simp: attempts_counted_def progress_key_def split: option.split)

section \<open>Sessions\<close>

lemma each_item_length: "each_item f xs = Inr ys \<Longrightarrow> length ys = length xs"
  by (induction xs arbitrary: ys) (auto simp: bindE_def split: sum.splits)

lemma normalize_answers_length: "normalize_answers vs ps = Inr cs \<Longrightarrow> length cs = length vs"
  by (induction vs ps arbitrary: cs rule: normalize_answers.induct) (auto simp: bindE_def split: sum.splits)

lemma quiz_score_bounds: "0 \<le> quiz_score qs cs" "quiz_score qs cs \<le> int (length qs)"
  using length_filter_le [of "\<lambda>(q, c). c = Some (qq_correct_answer_id q)" "zip qs cs"] by (auto simp: quiz_score_def)

lemma min_correct_bounds: "0 \<le> n \<Longrightarrow> min 1 n \<le> resolve_min_correct_answers s n \<and> resolve_min_correct_answers s n \<le> n"
  by (auto simp: resolve_min_correct_answers_def)

lemma keeps_start: "keeps_db train_ok (start_quiz env s user doc ver)"
  unfolding start_quiz_def create_quiz_session_def Let_def
  by (rule keeps_dbI, intro wp_rules calm_rules)
    (auto intro!: train_ok_new_session simp: attempt_ok_def quiz_session.defs)

lemma session_of_row:
  assumes "get_quiz_session d i = Some session" and "train_ok d"
  shows "qs_session_id session = i"
    and "a \<in> set (td_attempts d) \<Longrightarrow> qs_session_id a = i \<Longrightarrow> session = quiz_session.truncate a"
proof -
  obtain b where b: "b \<in> set (td_attempts d)" "qs_session_id b = i" "session = quiz_session.truncate b"
    using assms(1) unfolding get_quiz_session_def by (auto dest: find_Some_member)
  then show "qs_session_id session = i" by (simp add: quiz_session.defs)
  have inj: "inj_on qs_session_id (set (td_attempts d))"
    using assms(2) by (simp add: train_ok_def attempts_ok_def distinct_map)
  show "session = quiz_session.truncate a" if "a \<in> set (td_attempts d)" "qs_session_id a = i"
    using inj_onD [OF inj, of a b] b that by simp
qed

lemma train_ok_submit:
  assumes ok: "train_ok d" and session: "get_quiz_session d i = Some session"
    and answers: "length answers = length (qs_selected_question_ids session)"
    and selected: "select_questions questions (qs_selected_question_ids session) = Inr selected"
    and chosen: "normalize_answers answers presented = Inr chosen"
    and r: "r = \<lparr>qr_session_id = qs_session_id session, qr_user_id = qs_user_id session, qr_document_id = qs_document_id session,
      qr_version = qs_version session, qr_score = quiz_score selected chosen, qr_total = int (length selected),
      qr_passed = (quiz_score selected chosen \<ge> resolve_min_correct_answers s (int (length selected))), qr_completed_at = now\<rparr>"
    and p: "p = progress_after s (get_progress d (qs_user_id session, qs_document_id session, qs_version session)) r"
  shows "train_ok (td_progress_update (\<lambda>rows. filter (\<lambda>r. progress_key r \<noteq> progress_key p) rows @ [p])
    (td_attempts_update (map (completed_row r chosen)) d))"
proof (rule train_ok_graded [OF ok])
  have key: "progress_key p = (qs_user_id session, qs_document_id session, qs_version session)"
    by (simp add: p r progress_after_def progress_key_def Let_def)
  then show "attempts_counted d (progress_key p) < tp_quiz_attempts_count p"
    by (simp add: p attempts_counted_def progress_after_def Let_def)
  have lengths: "length selected = length (qs_selected_question_ids session)" "length chosen = length selected"
    using each_item_length [OF selected [unfolded select_questions_def]] normalize_answers_length [OF chosen] answers by auto
  fix a assume a: "a \<in> set (td_attempts d)" "qs_session_id a = qr_session_id r"
  have "qs_session_id a = i" using a(2) session_of_row(1) [OF session ok] by (simp add: r)
  then have session_a: "session = quiz_session.truncate a" by (rule session_of_row(2) [OF session ok a(1)])
  have same: "qs_user_id session = qs_user_id a" "qs_document_id session = qs_document_id a" "qs_version session = qs_version a"
      "qs_selected_question_ids session = qs_selected_question_ids a"
    by (simp_all add: session_a quiz_session.defs)
  have "attempt_ok (completed_row r chosen a)"
    unfolding attempt_ok_def completed_row_def if_P [OF a(2)]
    using lengths quiz_score_bounds [of selected chosen] min_correct_bounds [of "int (length selected)" s] same(4)
    by (auto simp: r)
  then show "(qs_user_id a, qs_document_id a, qs_version a) = progress_key p \<and> attempt_ok (completed_row r chosen a)"
    using key same by simp
qed

lemma keeps_submit: "keeps_db train_ok (submit_quiz_answers env s i answers)"
  unfolding submit_quiz_answers_def upsert_progress_def complete_quiz_session_eq Let_def
  by (rule keeps_dbI, intro wp_rules calm_rules)
    (assumption | simp only: raise_if_eq_Inr not_not, rule train_ok_submit [OF _ _ _ _ _ refl] | simp add: get_progress_def)+

section \<open>Every request keeps the invariant\<close>

lemma keeps_dispatch: "keeps_db train_ok (dispatch_training env x req)"
  by (cases req)
    (simp_all add: keeps_db_returning keeps_simple_requests keeps_bind keeps_replace keeps_rebuild keeps_read_confirmed keeps_start keeps_submit)

lemma tr_reachable_ok: "tr_reachable env w \<Longrightarrow> train_ok (tw_db w)"
  by (rule tr_reachable_invariant [where I = "\<lambda>w. train_ok (tw_db w)"])
    (auto simp: empty_tr_world_def train_ok_empty intro: keeps_db_keeps keeps_dispatch)

end
