(* ===== verification/TrainBehaviour.thy ===== *)
theory TrainBehaviour
  imports TrainInvariants
begin

text \<open>
  How the quizzes behave: what a start demands, how answers are graded and what the attempt leaves, the
  review that is read back, what a confirmed reading does to the cooldown, and that a quiz which passed
  its import can be loaded.
\<close>

section \<open>Running the methods\<close>

lemma tr_run [simp]:
  "tr_read f w = (Inr (f (tw_db w)), w)"
  "tr_write g w = (Inr (), w\<lparr>tw_db := g (tw_db w)\<rparr>)"
  "tr_utcnow env w = (Inr (tr_clock env (tw_ticks w)), w\<lparr>tw_ticks := Suc (tw_ticks w)\<rparr>)"
  "tr_draw h w = (Inr (h (tw_draws w)), w\<lparr>tw_draws := Suc (tw_draws w)\<rparr>)"
  by (simp_all add: tr_read_def tr_write_def tr_utcnow_def tr_draw_def)

lemma tr_publish_Inr:
  "tr_publish env name payload actor w = (Inr u, w') \<Longrightarrow> tw_db w' = tw_db w \<and> tw_blobs w' = tw_blobs w"
  by (auto simp: tr_publish_def)

lemma tr_publish_result: "\<exists>w'. tr_publish env name payload actor w = (Inr (), w')"
  by (simp add: tr_publish_def bindM_def)

text \<open>Loading a quiz reads the database and the store, and changes nothing.\<close>

lemma get_bytes_Inr:
  "get_bytes env key w = (Inr raw, w') \<longleftrightarrow> w' = w \<and> Option.bind (map_of (tw_blobs w) key) (tr_decrypt env) = Some raw"
  by (auto simp: get_bytes_def split: option.splits)

definition loads_to :: "tr_env \<Rightarrow> (string \<times> string) list \<Rightarrow> quiz_import_row option \<Rightarrow> quiz_question list \<Rightarrow> bool" where
  "loads_to env blobs row qs \<longleftrightarrow>
     (\<exists>r raw data. row = Some r \<and> Option.bind (map_of blobs (qi_storage_key r)) (tr_decrypt env) = Some raw \<and>
        tr_sha256 env raw = qi_sha256 r \<and> tr_loads env raw = Inr data \<and>
        bindE (json_item ''questions'' data) (\<lambda>q. case q of JList qs \<Rightarrow> each_item parse_question qs | _ \<Rightarrow> Inl TrTypeError) = Inr qs)"

lemma case_sum_raise_Inr:
  "(case r of Inl t \<Rightarrow> raiseM (f t) | Inr x \<Rightarrow> g x) w = (Inr y, w') \<longleftrightarrow> (\<exists>x. r = Inr x \<and> g x w = (Inr y, w'))"
  by (cases r) auto

lemma load_questions_Inr:
  "load_questions env i w = (Inr qs, w') \<longleftrightarrow>
   w' = w \<and> loads_to env (tw_blobs w) (List.find (\<lambda>r. qi_import_id r = i) (td_imports (tw_db w))) qs"
  by (cases "List.find (\<lambda>r. qi_import_id r = i) (td_imports (tw_db w))")
    (auto simp: load_questions_def loads_to_def get_import_storage_key_def get_bytes_Inr case_sum_raise_Inr)

lemma loads_to_unique: "loads_to env blobs row qs \<Longrightarrow> loads_to env blobs row qs' \<Longrightarrow> qs' = qs"
  by (auto simp: loads_to_def)

lemma load_for_binding_Inr:
  "load_questions_for_binding env doc ver w = (Inr qs, w') \<longleftrightarrow>
   w' = w \<and> (\<exists>b. get_active_binding (tw_db w) doc ver = Some b \<and>
     loads_to env (tw_blobs w) (List.find (\<lambda>r. qi_import_id r = qb_import_id b) (td_imports (tw_db w))) qs)"
  by (auto simp: load_questions_for_binding_def load_questions_Inr split: option.splits)

section \<open>Submission\<close>

definition graded :: "training_settings \<Rightarrow> quiz_session \<Rightarrow> quiz_question list \<Rightarrow> string option list \<Rightarrow> time \<Rightarrow> quiz_result" where
  "graded s session selected chosen now =
     \<lparr>qr_session_id = qs_session_id session, qr_user_id = qs_user_id session, qr_document_id = qs_document_id session,
      qr_version = qs_version session, qr_score = quiz_score selected chosen, qr_total = int (length selected),
      qr_passed = (quiz_score selected chosen \<ge> resolve_min_correct_answers s (int (length selected))), qr_completed_at = now\<rparr>"

definition session_key :: "quiz_session \<Rightarrow> training_key" where
  "session_key session = (qs_user_id session, qs_document_id session, qs_version session)"

text \<open>What a submission works on.\<close>

definition gradable :: "tr_env \<Rightarrow> tr_world \<Rightarrow> string \<Rightarrow> answer_input list \<Rightarrow> quiz_session \<Rightarrow> quiz_question list \<Rightarrow> string option list \<Rightarrow> bool" where
  "gradable env w i answers session selected chosen \<longleftrightarrow>
     get_quiz_session (tw_db w) i = Some session \<and> length answers = length (qs_selected_question_ids session) \<and>
     (\<exists>questions. load_questions_for_binding env (qs_document_id session) (qs_version session) w = (Inr questions, w) \<and>
        select_questions questions (qs_selected_question_ids session) = Inr selected) \<and>
     normalize_answers answers (decode_presented (qs_presented_questions session) selected) = Inr chosen"

definition after_grading :: "training_settings \<Rightarrow> quiz_result \<Rightarrow> string option list \<Rightarrow> tr_db \<Rightarrow> tr_db" where
  "after_grading s r chosen d =
     (let p = progress_after s (get_progress d (qr_user_id r, qr_document_id r, qr_version r)) r in
      td_progress_update (\<lambda>rows. filter (\<lambda>r. progress_key r \<noteq> progress_key p) rows @ [p])
        (td_attempts_update (map (completed_row r chosen)) d))"

lemma get_progress_attempts [simp]: "get_progress (td_attempts_update f d) key = get_progress d key"
  by (simp add: get_progress_def)

definition detail_of :: "quiz_result \<Rightarrow> quiz_session \<Rightarrow> quiz_question list \<Rightarrow> string option list \<Rightarrow> quiz_result_detail" where
  "detail_of r session selected chosen = quiz_result.extend r
     \<lparr>qr_questions = review_questions selected (decode_presented (qs_presented_questions session) selected) chosen\<rparr>"

lemma submit_run:
  assumes "gradable env w i answers session selected chosen"
    and r_def: "r = graded s session selected chosen (tr_clock env (tw_ticks w))"
  shows "\<exists>w'. submit_quiz_answers env s i answers w = (Inr (detail_of r session selected chosen), w') \<and>
    tw_db w' = after_grading s r chosen (tw_db w) \<and> tw_blobs w' = tw_blobs w"
proof -
  let ?v = "w\<lparr>tw_ticks := Suc (tw_ticks w), tw_db := after_grading s r chosen (tw_db w)\<rparr>"
  obtain w' where w': "tr_publish env ''domain.training.quiz.completed.v1''
           [(''session_id'', PyStr (qr_session_id r)), (''user_id'', PyStr (qr_user_id r)),
            (''document_id'', PyStr (qr_document_id r)), (''version'', PyInt (qr_version r)), (''score'', PyInt (qr_score r)),
            (''total'', PyInt (qr_total r)), (''passed'', PyBool (qr_passed r))] (Some (qr_user_id r)) ?v = (Inr (), w')"
    using tr_publish_result by blast
  from assms(1) obtain questions where parts: "get_quiz_session (tw_db w) i = Some session"
      "length answers = length (qs_selected_question_ids session)"
      "load_questions_for_binding env (qs_document_id session) (qs_version session) w = (Inr questions, w)"
      "select_questions questions (qs_selected_question_ids session) = Inr selected"
      "normalize_answers answers (decode_presented (qs_presented_questions session) selected) = Inr chosen"
    unfolding gradable_def by blast
  have "submit_quiz_answers env s i answers w = (Inr (detail_of r session selected chosen), w')"
    using parts w' unfolding submit_quiz_answers_def complete_quiz_session_eq upsert_progress_def Let_def
    by (simp add: bindM_Inr r_def graded_def after_grading_def detail_of_def Let_def)
  then show ?thesis using tr_publish_Inr [OF w'] by auto
qed

lemma submit_gradable:
  assumes "submit_quiz_answers env s i answers w = (Inr d, w')"
  shows "\<exists>session selected chosen. gradable env w i answers session selected chosen"
proof (cases "get_quiz_session (tw_db w) i")
  case (Some session)
  then show ?thesis
    using assms unfolding submit_quiz_answers_def gradable_def Let_def
    by (simp add: load_for_binding_Inr) blast
qed (use assms in \<open>simp add: submit_quiz_answers_def\<close>)

lemma submit_Inr:
  assumes "submit_quiz_answers env s i answers w = (Inr d, w')"
  obtains session selected chosen r where "gradable env w i answers session selected chosen"
    and "r = graded s session selected chosen (tr_clock env (tw_ticks w))" and "d = detail_of r session selected chosen"
    and "tw_db w' = after_grading s r chosen (tw_db w)" and "tw_blobs w' = tw_blobs w"
proof -
  obtain session selected chosen where g: "gradable env w i answers session selected chosen"
    using submit_gradable [OF assms] by blast
  from submit_run [OF this refl, of s] assms that [OF g refl] show thesis by auto
qed

section \<open>Grading\<close>

lemma select_questions_ids: "select_questions questions ids = Inr selected \<Longrightarrow> map qq_question_id selected = ids"
  unfolding select_questions_def
  by (induction ids arbitrary: selected) (auto split: option.splits dest: last_by_Some)

lemma select_questions_filter:
  "select_questions questions ids = Inr selected \<Longrightarrow> List.map_filter (last_by qq_question_id questions) ids = selected"
  unfolding select_questions_def
  by (induction ids arbitrary: selected) (auto simp: List.map_filter_simps split: option.splits)

lemma decode_presented_length [simp]: "length (decode_presented stored selected) = length selected"
  by (simp add: decode_presented_def)

lemma gradable_lengths:
  assumes "gradable env w i answers session selected chosen"
  shows "length chosen = length selected"
  using assms normalize_answers_length select_questions_ids unfolding gradable_def by (metis length_map)

lemma review_of_answers:
  assumes "length selected = length presented" and "length presented = length chosen"
  shows "map qv_question_id (review_questions selected presented chosen) = map qq_question_id selected \<and>
      map qv_correct_answer_id (review_questions selected presented chosen) = map qq_correct_answer_id selected \<and>
      map qv_chosen_answer_id (review_questions selected presented chosen) = chosen \<and>
      length (filter qv_is_correct (review_questions selected presented chosen)) =
        length (filter (\<lambda>(q, c). c = Some (qq_correct_answer_id q)) (zip selected chosen)) \<and>
      (\<forall>q \<in> set (review_questions selected presented chosen).
        qv_is_correct q = (qv_chosen_answer_id q = Some (qv_correct_answer_id q)))"
  using assms unfolding review_questions_def
  by (induction selected presented chosen rule: list_induct3) (auto simp: review_question_def)

lemma get_progress_upsert:
  "get_progress (td_progress_update (\<lambda>rows. filter (\<lambda>r. progress_key r \<noteq> progress_key p) rows @ [p]) d) key =
   (if progress_key p = key then Some p else get_progress d key)"
  by (simp add: get_progress_def find_key_upsert)

lemma progress_after_key: "progress_key (progress_after s p r) = (qr_user_id r, qr_document_id r, qr_version r)"
  by (simp add: progress_after_def progress_key_def Let_def)

lemma graded_simps [simp]:
  "qr_session_id (graded s session selected chosen now) = qs_session_id session"
  "(qr_user_id (graded s session selected chosen now), qr_document_id (graded s session selected chosen now),
    qr_version (graded s session selected chosen now)) = session_key session"
  "qr_score (graded s session selected chosen now) = quiz_score selected chosen"
  "qr_total (graded s session selected chosen now) = int (length selected)"
  "qr_passed (graded s session selected chosen now) = (quiz_score selected chosen \<ge> resolve_min_correct_answers s (int (length selected)))"
  "qr_completed_at (graded s session selected chosen now) = now"
  by (simp_all add: graded_def session_key_def)

lemma after_grading_progress:
  "get_progress (after_grading s r chosen d) (qr_user_id r, qr_document_id r, qr_version r) =
   Some (progress_after s (get_progress d (qr_user_id r, qr_document_id r, qr_version r)) r)"
  unfolding after_grading_def Let_def get_progress_upsert by (simp add: progress_after_key)

lemma submission_graded:
  assumes "submit_quiz_answers env s i answers w = (Inr d, w')"
  shows "\<exists>session. get_quiz_session (tw_db w) i = Some session \<and>
    map qv_question_id (qr_questions d) = qs_selected_question_ids session \<and>
    (\<forall>q \<in> set (qr_questions d). qv_is_correct q = (qv_chosen_answer_id q = Some (qv_correct_answer_id q))) \<and>
    qr_score d = int (length (filter qv_is_correct (qr_questions d))) \<and> qr_total d = int (length (qr_questions d)) \<and>
    qr_passed d = (resolve_min_correct_answers s (qr_total d) \<le> qr_score d) \<and>
    get_progress (tw_db w') (session_key session) =
      Some (progress_after s (get_progress (tw_db w) (session_key session)) (quiz_result.truncate d))"
proof -
  obtain session selected chosen r where g: "gradable env w i answers session selected chosen"
      and r: "r = graded s session selected chosen (tr_clock env (tw_ticks w))" and d: "d = detail_of r session selected chosen"
      and w': "tw_db w' = after_grading s r chosen (tw_db w)"
    by (rule submit_Inr [OF assms])
  let ?presented = "decode_presented (qs_presented_questions session) selected"
  have same: "quiz_result.truncate d = r" "qr_questions d = review_questions selected ?presented chosen"
      "qr_score d = quiz_score selected chosen" "qr_total d = int (length selected)"
      "qr_passed d = (resolve_min_correct_answers s (int (length selected)) \<le> quiz_score selected chosen)"
    by (simp_all add: d r detail_of_def graded_def quiz_result.defs)
  have lengths: "length selected = length ?presented" "length ?presented = length chosen"
    using gradable_lengths [OF g] by simp_all
  note review = review_of_answers [OF lengths, folded same(2)]
  have ids: "map qq_question_id selected = qs_selected_question_ids session"
    and session: "get_quiz_session (tw_db w) i = Some session"
    using g select_questions_ids unfolding gradable_def by blast+
  have key: "(qr_user_id r, qr_document_id r, qr_version r) = session_key session" by (simp add: r)
  have n: "length (qr_questions d) = length selected"
    using arg_cong [OF conjunct1 [OF review], of length] by simp
  have progress: "get_progress (tw_db w') (session_key session) =
      Some (progress_after s (get_progress (tw_db w) (session_key session)) (quiz_result.truncate d))"
    unfolding w' same(1) by (rule after_grading_progress [of s r chosen "tw_db w", unfolded key])
  have score: "qr_score d = int (length (filter qv_is_correct (qr_questions d)))"
    using review by (simp only: same(3) quiz_score_def)
  have passed: "qr_total d = int (length (qr_questions d))" "qr_passed d = (resolve_min_correct_answers s (qr_total d) \<le> qr_score d)"
    by (simp_all only: n same(3,4,5))
  show ?thesis
    using session review progress score passed unfolding ids by blast
qed

section \<open>The review that is read back\<close>

lemma normalize_again:
  "normalize_answers answers presented = Inr chosen \<Longrightarrow>
   normalize_answers (map (\<lambda>a. case a of None \<Rightarrow> NoAnswer | Some t \<Rightarrow> ByText t) chosen) presented = Inr chosen"
proof (induction answers presented arbitrary: chosen rule: normalize_answers.induct)
  case (3 v vs p ps)
  then show ?case by (auto simp: normalize_answer_def split: answer_input.splits)
qed auto

text \<open>The newest of the completed attempts.\<close>

lemma hd_sort_key:
  fixes f :: "'a \<Rightarrow> 'b::linorder"
  assumes "a \<in> set xs" and "\<And>b. b \<in> set xs \<Longrightarrow> b \<noteq> a \<Longrightarrow> f a < f b"
  shows "\<exists>ys. sort_key f xs = a # ys"
proof (cases "sort_key f xs")
  case (Cons y ys)
  have "sorted (map f (y # ys))" using Cons sorted_sort_key [of f xs] by simp
  moreover have "set (y # ys) = set xs" using Cons by (metis set_sort)
  ultimately have "y \<in> set xs" "f y \<le> f a" using assms(1) by auto
  then have "y = a" using assms(2) leD by blast
  then show ?thesis using Cons by simp
qed (use assms(1) in \<open>metis empty_iff set_empty set_sort\<close>)

lemma newest_attempt:
  assumes "a \<in> set (td_attempts d)" and "completed_for key a" and "qt_completed_at a = Some t"
    and "\<And>b u. b \<in> set (td_attempts d) \<Longrightarrow> completed_for key b \<Longrightarrow> b \<noteq> a \<Longrightarrow> qt_completed_at b = Some u \<Longrightarrow> u < t"
  shows "get_last_completed_attempt d key = Some a"
proof -
  let ?f = "\<lambda>a. - (case qt_completed_at a of Some t \<Rightarrow> t | None \<Rightarrow> 0)"
  have "\<exists>ys. sort_key ?f (filter (completed_for key) (td_attempts d)) = a # ys"
  proof (rule hd_sort_key)
    fix b assume b: "b \<in> set (filter (completed_for key) (td_attempts d))" "b \<noteq> a"
    then obtain u where "qt_completed_at b = Some u" by (auto simp: completed_for_def)
    then show "?f a < ?f b" using b assms(3) assms(4) [of b u] by simp
  qed (use assms in simp)
  then show ?thesis by (auto simp: get_last_completed_attempt_def completed_for_def [abs_def])
qed

definition overtaken :: "tr_db \<Rightarrow> quiz_session \<Rightarrow> time \<Rightarrow> bool" where
  "overtaken d session now \<longleftrightarrow> (\<forall>b \<in> set (td_attempts d). \<forall>u. completed_for (session_key session) b \<and>
     qs_session_id b \<noteq> qs_session_id session \<and> qt_completed_at b = Some u \<longrightarrow> u < now)"

lemma attempts_after_grading [simp]:
  "td_attempts (after_grading s r chosen d) = map (completed_row r chosen) (td_attempts d)"
  "td_bindings (after_grading s r chosen d) = td_bindings d" "td_imports (after_grading s r chosen d) = td_imports d"
  by (simp_all add: after_grading_def Let_def)

lemma graded_attempt_is_last:
  assumes ok: "train_ok d" and session: "get_quiz_session d i = Some session"
    and r: "r = graded s session selected chosen now" and last: "overtaken d session now"
  shows "\<exists>a. get_last_completed_attempt (after_grading s r chosen d) (session_key session) = Some (completed_row r chosen a) \<and>
    session = quiz_session.truncate a \<and> qs_session_id a = qr_session_id r"
proof -
  obtain a where a: "a \<in> set (td_attempts d)" "qs_session_id a = i" "session = quiz_session.truncate a"
    using session by (auto simp: get_quiz_session_def dest!: find_Some_member)
  then have id: "qs_session_id a = qr_session_id r" and key: "session_key session = (qs_user_id a, qs_document_id a, qs_version a)"
    by (simp_all add: r session_key_def quiz_session.defs)
  have inj: "inj_on qs_session_id (set (td_attempts d))"
    using ok by (simp add: train_ok_def attempts_ok_def distinct_map)
  have "get_last_completed_attempt (after_grading s r chosen d) (session_key session) = Some (completed_row r chosen a)"
  proof (rule newest_attempt [where t = now])
    fix b u assume b: "b \<in> set (td_attempts (after_grading s r chosen d))" "completed_for (session_key session) b"
      "b \<noteq> completed_row r chosen a" "qt_completed_at b = Some u"
    then obtain b' where b': "b' \<in> set (td_attempts d)" "b = completed_row r chosen b'" by auto
    then have "b' \<noteq> a" using b(3) by blast
    then have "qs_session_id b' \<noteq> qr_session_id r" using inj_onD [OF inj, of b' a] b'(1) a(1) id by metis
    then show "u < now" using b b' last by (auto simp: completed_row_def overtaken_def r)
  qed (use a id key in \<open>simp_all add: completed_row_def completed_for_def r\<close>)
  with a(3) id show ?thesis by blast
qed

lemma loads_again:
  "load_questions_for_binding env doc ver w = (Inr qs, w) \<Longrightarrow> td_bindings (tw_db v) = td_bindings (tw_db w) \<Longrightarrow>
   td_imports (tw_db v) = td_imports (tw_db w) \<Longrightarrow> tw_blobs v = tw_blobs w \<Longrightarrow>
   load_questions_for_binding env doc ver v = (Inr qs, v)"
  by (simp add: load_for_binding_Inr get_active_binding_def)

lemma review_reads_back:
  assumes run: "submit_quiz_answers env s i answers w = (Inr d, w')" and ok: "train_ok (tw_db w)"
    and session: "get_quiz_session (tw_db w) i = Some session" and last: "overtaken (tw_db w) session (tr_clock env (tw_ticks w))"
  shows "get_last_quiz_review env (qr_user_id d) (qr_document_id d) (qr_version d) w' = (Inr (Some d), w')"
proof -
  obtain session' selected chosen r where g: "gradable env w i answers session' selected chosen"
      and r: "r = graded s session' selected chosen (tr_clock env (tw_ticks w))" and d: "d = detail_of r session' selected chosen"
      and w': "tw_db w' = after_grading s r chosen (tw_db w)" "tw_blobs w' = tw_blobs w"
    by (rule submit_Inr [OF run])
  have same: "session' = session" using g session by (simp add: gradable_def)
  obtain questions where q: "load_questions_for_binding env (qs_document_id session) (qs_version session) w = (Inr questions, w)"
      "select_questions questions (qs_selected_question_ids session) = Inr selected"
      "normalize_answers answers (decode_presented (qs_presented_questions session) selected) = Inr chosen"
    using g unfolding gradable_def same by blast
  obtain a where a: "get_last_completed_attempt (tw_db w') (session_key session) = Some (completed_row r chosen a)"
      "session = quiz_session.truncate a" "qs_session_id a = qr_session_id r"
    using graded_attempt_is_last [OF ok session r [unfolded same] last] unfolding w' by blast
  have row: "qs_selected_question_ids (completed_row r chosen a) = qs_selected_question_ids session"
      "qs_presented_questions (completed_row r chosen a) = qs_presented_questions session"
      "qs_session_id (completed_row r chosen a) = qr_session_id r"
      "qt_answers (completed_row r chosen a) = Some chosen" "qt_score (completed_row r chosen a) = Some (qr_score r)"
      "qt_total (completed_row r chosen a) = Some (qr_total r)" "qt_passed (completed_row r chosen a) = Some (qr_passed r)"
      "qt_completed_at (completed_row r chosen a) = Some (qr_completed_at r)"
    by (simp_all add: completed_row_def a(2,3) quiz_session.defs)
  have who: "(qr_user_id d, qr_document_id d, qr_version d) = session_key session" "qr_document_id d = qs_document_id session"
      "qr_version d = qs_version session"
    by (simp_all add: d r same detail_of_def graded_def session_key_def quiz_result.defs)
  have load: "load_questions_for_binding env (qr_document_id d) (qr_version d) w' = (Inr questions, w')"
    unfolding who by (rule loads_again [OF q(1)]) (simp_all add: w')
  show ?thesis
    unfolding get_last_quiz_review_def Let_def
    by (simp add: who(1) a(1) row bindM_Inr load select_questions_filter [OF q(2)] normalize_again [OF q(3)] gradable_lengths [OF g])
      (simp add: d r same detail_of_def graded_def quiz_result.defs)
qed

section \<open>A session that is submitted again\<close>

lemma session_after_grading:
  "get_quiz_session (after_grading s r chosen d) i = get_quiz_session d i"
proof -
  have "quiz_session.truncate (completed_row r chosen a) = quiz_session.truncate a"
      "qs_session_id (completed_row r chosen a) = qs_session_id a" for a
    by (simp_all add: completed_row_def quiz_session.defs)
  then have "map_option quiz_session.truncate (List.find (\<lambda>a. qs_session_id a = i) (map (completed_row r chosen) xs)) =
      map_option quiz_session.truncate (List.find (\<lambda>a. qs_session_id a = i) xs)" for xs
    by (induction xs) simp_all
  then show ?thesis by (simp add: get_quiz_session_def)
qed

lemma normalize_correct:
  assumes "length qs = length ps" and "\<And>q p. (q, p) \<in> set (zip qs ps) \<Longrightarrow> qq_correct_answer_id q \<in> set (pq_answer_id_order p)"
  shows "normalize_answers (map (\<lambda>q. ByText (qq_correct_answer_id q)) qs) ps = Inr (map (\<lambda>q. Some (qq_correct_answer_id q)) qs)"
  using assms
proof (induction qs ps rule: list_induct2)
  case (Cons q qs p ps)
  have "normalize_answers (map (\<lambda>q. ByText (qq_correct_answer_id q)) qs) ps = Inr (map (\<lambda>q. Some (qq_correct_answer_id q)) qs)"
    by (rule Cons.IH) (use Cons.prems in auto)
  moreover have "qq_correct_answer_id q \<in> set (pq_answer_id_order p)" using Cons.prems by simp
  ultimately show ?case by (simp add: normalize_answer_def)
qed simp

lemma score_correct: "quiz_score qs (map (\<lambda>q. Some (qq_correct_answer_id q)) qs) = int (length qs)"
  by (induction qs) (simp_all add: quiz_score_def)

lemma disclosed_answers_pass:
  assumes run: "submit_quiz_answers env s i answers w = (Inr d, w')" and session: "get_quiz_session (tw_db w) i = Some session"
    and shown: "length (qs_presented_questions session) = length (qr_questions d)"
      "\<And>q p. (q, p) \<in> set (zip (qr_questions d) (qs_presented_questions session)) \<Longrightarrow>
        qv_correct_answer_id q \<in> set (pq_answer_id_order p)"
  shows "\<exists>d' w''. submit_quiz_answers env s' i (map (\<lambda>q. ByText (qv_correct_answer_id q)) (qr_questions d)) w' = (Inr d', w'') \<and>
    qr_passed d' \<and> qr_score d' = qr_total d' \<and>
    Option.bind (get_progress (tw_db w'') (session_key session)) tp_quiz_passed_at = Some (tr_clock env (tw_ticks w'))"
proof -
  obtain session' selected chosen r where g: "gradable env w i answers session' selected chosen"
      and r: "r = graded s session' selected chosen (tr_clock env (tw_ticks w))" and d: "d = detail_of r session' selected chosen"
      and w': "tw_db w' = after_grading s r chosen (tw_db w)" "tw_blobs w' = tw_blobs w"
    by (rule submit_Inr [OF run])
  have same: "session' = session" using g session by (simp add: gradable_def)
  let ?presented = "decode_presented (qs_presented_questions session) selected"
  obtain questions where q: "load_questions_for_binding env (qs_document_id session) (qs_version session) w = (Inr questions, w)"
      "select_questions questions (qs_selected_question_ids session) = Inr selected"
    using g unfolding gradable_def same by blast
  have lengths: "length selected = length ?presented" "length ?presented = length chosen"
    using gradable_lengths [OF g] by simp_all
  have questions: "qr_questions d = review_questions selected ?presented chosen"
    by (simp add: d same detail_of_def quiz_result.defs)
  note review = review_of_answers [OF lengths, folded questions]
  have n: "length (qr_questions d) = length selected" using arg_cong [OF conjunct1 [OF review], of length] by simp
  then have presented: "?presented = qs_presented_questions session" using shown(1) by (simp add: decode_presented_def)
  have correct: "map qv_correct_answer_id (qr_questions d) = map qq_correct_answer_id selected" using review by blast
  have disclosed: "map (\<lambda>q. ByText (qv_correct_answer_id q)) (qr_questions d) = map (\<lambda>q. ByText (qq_correct_answer_id q)) selected"
    using arg_cong [OF correct, of "map ByText"] by (simp add: comp_def)
  let ?all = "map (\<lambda>q. Some (qq_correct_answer_id q)) selected"
  have "normalize_answers (map (\<lambda>q. ByText (qq_correct_answer_id q)) selected) (qs_presented_questions session) = Inr ?all"
  proof (rule normalize_correct)
    fix q p assume "(q, p) \<in> set (zip selected (qs_presented_questions session))"
    then obtain k where "k < length selected" "q = selected ! k" "p = qs_presented_questions session ! k"
      using shown(1) n by (auto simp: set_zip)
    moreover from this have "qv_correct_answer_id (qr_questions d ! k) = qq_correct_answer_id (selected ! k)"
      using arg_cong [OF correct, of "\<lambda>xs. xs ! k"] n by simp
    ultimately show "qq_correct_answer_id q \<in> set (pq_answer_id_order p)"
      using shown(2) [of "qr_questions d ! k" p] shown(1) n by (auto simp: set_zip)
  qed (use shown(1) n in simp)
  then have "gradable env w' i (map (\<lambda>q. ByText (qv_correct_answer_id q)) (qr_questions d)) session selected ?all"
    unfolding gradable_def disclosed presented
    using session loads_again [OF q(1), of w'] q(2) arg_cong [OF select_questions_ids [OF q(2)], of length]
    by (auto simp: w' session_after_grading)
  from submit_run [OF this refl, of s'] obtain w'' where w'':
      "submit_quiz_answers env s' i (map (\<lambda>q. ByText (qv_correct_answer_id q)) (qr_questions d)) w' =
        (Inr (detail_of (graded s' session selected ?all (tr_clock env (tw_ticks w'))) session selected ?all), w'')"
      "tw_db w'' = after_grading s' (graded s' session selected ?all (tr_clock env (tw_ticks w'))) ?all (tw_db w')"
    by blast
  have passed: "resolve_min_correct_answers s' (int (length selected)) \<le> quiz_score selected ?all"
    using min_correct_bounds [of "int (length selected)" s'] by (simp add: score_correct)
  have "get_progress (tw_db w'') (session_key session) = Some (progress_after s'
      (get_progress (tw_db w') (session_key session)) (graded s' session selected ?all (tr_clock env (tw_ticks w'))))"
    using after_grading_progress [of s' "graded s' session selected ?all (tr_clock env (tw_ticks w'))" ?all "tw_db w'"]
    by (simp only: graded_simps w''(2))
  then show ?thesis
    using w''(1) passed by (simp add: detail_of_def quiz_result.defs progress_after_def graded_def Let_def score_correct)
qed

section \<open>What a start demands, and the cooldown\<close>

lemma cooldown_over_iff:
  "cooldown_over env s p w = (Inr True, w') \<Longrightarrow> tp_last_failed_at p = Some failed \<Longrightarrow> 0 < retry_cooldown_seconds s \<Longrightarrow>
   failed + retry_cooldown_seconds s * 1000000 \<le> tr_clock env (tw_ticks w)"
  by (auto simp: cooldown_over_def)

lemma start_demands:
  assumes "start_quiz env s user doc ver w = (Inr (session, shown), w')"
  shows "get_snapshot (tw_db w) (user, doc, ver) \<noteq> None \<and>
    (\<exists>p. get_progress (tw_db w) (user, doc, ver) = Some p \<and> tp_read_confirmed_at p \<noteq> None \<and>
       (\<forall>failed. tp_last_failed_at p = Some failed \<and> 0 < retry_cooldown_seconds s \<longrightarrow>
          failed + retry_cooldown_seconds s * 1000000 \<le> tr_clock env (tw_ticks w))) \<and>
    get_active_binding (tw_db w) doc ver \<noteq> None \<and>
    get_quiz_session (tw_db w') (qs_session_id session) = Some session \<and> session_key session = (user, doc, ver)"
proof -
  obtain p where p: "get_snapshot (tw_db w) (user, doc, ver) \<noteq> None" "get_progress (tw_db w) (user, doc, ver) = Some p"
      "tp_read_confirmed_at p \<noteq> None"
    using assms by (auto simp: start_quiz_def split: option.splits)
  obtain w1 questions where over: "cooldown_over env s p w = (Inr True, w1)"
      and load: "load_questions_for_binding env doc ver w1 = (Inr questions, w1)"
    using assms p by (auto simp: start_quiz_def load_for_binding_Inr)
  have db1: "tw_db w1 = tw_db w"
    using over by (auto simp: cooldown_over_def split: option.splits if_splits)
  obtain before where fresh: "qs_session_id session \<notin> qs_session_id ` set (td_attempts before)"
      and key: "session_key session = (user, doc, ver)"
      and stored: "tw_db w' = td_attempts_update (\<lambda>rs. rs @ [quiz_session.extend session
        \<lparr>qt_answers = None, qt_score = None, qt_total = None, qt_passed = None, qt_completed_at = None\<rparr>]) before"
    using assms p unfolding start_quiz_def create_quiz_session_def Let_def
    by (auto simp: load_for_binding_Inr session_key_def dest!: tr_publish_Inr)
  have "get_quiz_session (tw_db w') (qs_session_id session) = Some session"
    using fresh
    by (auto simp: stored get_quiz_session_def find_append find_None_iff image_iff quiz_session.defs split: option.split dest!: find_Some_member)
  then show ?thesis
    using p cooldown_over_iff [OF over] load db1 key by (auto simp: load_for_binding_Inr)
qed

lemma reading_lifts_the_cooldown:
  assumes "get_progress (tw_db w) (user, doc, ver) = Some p" and "tp_read_confirmed_at p = None" and "user \<noteq> []" and "doc \<noteq> []"
    and "rr_user_id r = user" "rr_document_id r = doc" "rr_version r = ver"
  shows "\<exists>p' w'. on_read_confirmed env (Some r) (Some user) (Some doc) (Some ver) w = (Inr (), w') \<and>
    get_progress (tw_db w') (user, doc, ver) = Some p' \<and> tp_read_confirmed_at p' \<noteq> None \<and>
    tp_quiz_attempts_count p' = tp_quiz_attempts_count p \<and> cooldown_over env s p' w' = (Inr True, w')"
  using assms
  by (simp add: on_read_confirmed_def upsert_progress_def get_progress_def find_key_upsert)
    (simp add: progress_key_def cooldown_over_def)

section \<open>Imported quizzes\<close>

text \<open>
  A quiz that passed the check of its import can be loaded: the check implies that every field which
  \<open>_parse_questions\<close> reads is there.
\<close>

lemma json_item_object: "json_item key j = Inr v \<Longrightarrow> \<exists>kvs. j = JObj kvs \<and> map_of kvs key = Some v"
  by (auto simp: json_item_def split: json.splits option.splits)

lemma json_item_present: "has_key key (JObj kvs) = Inr True \<Longrightarrow> \<exists>v. json_item key (JObj kvs) = Inr v"
  by (cases "map_of kvs key") (auto simp: has_key_def json_item_def map_of_eq_None_iff image_iff)

lemma required_present: "require_key key (JObj kvs) text = Inr () \<Longrightarrow> \<exists>v. json_item key (JObj kvs) = Inr v"
  by (rule json_item_present) (auto simp: require_key_def has_key_def)

lemma each_item_total: "(\<And>x. x \<in> set xs \<Longrightarrow> \<exists>y. f x = Inr y) \<Longrightarrow> \<exists>ys. each_item f xs = Inr ys"
  by (induction xs) fastforce+

lemma each_item_member: "each_item f xs = Inr ys \<Longrightarrow> y \<in> set ys \<Longrightarrow> \<exists>x \<in> set xs. f x = Inr y"
  by (induction xs arbitrary: ys) auto

lemma validated_answers_parse:
  "validate_answers qid as seen = Inr seen' \<Longrightarrow> a \<in> set as \<Longrightarrow> \<exists>p. parse_answer a = Inr p"
proof (induction qid as seen rule: validate_answers.induct)
  case (2 qid b bs seen)
  obtain found where found: "has_key ''answer_id'' b = Inr found"
    using "2.prems"(1) by (cases "has_key ''answer_id'' b") auto
  with "2.prems"(1) have both: "found" "has_key ''text'' b = Inr True"
    by (auto simp: raise_if_def split: if_splits)
  with "2.prems"(1) found obtain v element where v: "json_item ''answer_id'' b = Inr v" "set_element v = Inr element"
      "validate_answers qid bs (insert element seen) = Inr seen'" "element \<notin> seen" by auto
  from v(1) obtain kvs where kvs: "b = JObj kvs" using json_item_object by blast
  obtain t where "json_item ''text'' b = Inr t" using json_item_present both(2) unfolding kvs by blast
  then have "\<exists>p. parse_answer b = Inr p" using v(1) by (simp add: parse_answer_def)
  moreover have "\<exists>p. parse_answer a = Inr p" if "a \<in> set bs"
    using "2.IH" found both v that by simp
  ultimately show ?case using "2.prems"(2) by auto
qed simp

lemma validated_question_parses:
  assumes "validate_question q seen = Inr seen'"
  shows "\<exists>p. parse_question q = Inr p \<and> length (qq_answers p) = 4"
proof -
  have keys: "\<And>key. key \<in> {''question_id'', ''text'', ''answers'', ''correct_answer_id''} \<Longrightarrow>
      require_key key q ''question missing field: '' = Inr ()"
    using assms by (auto simp: validate_question_def)
  obtain qid where qid: "json_item ''question_id'' q = Inr qid" using assms by (auto simp: validate_question_def)
  then obtain kvs where q: "q = JObj kvs" using json_item_object by blast
  have items: "\<exists>v. json_item key q = Inr v" if "key \<in> {''question_id'', ''text'', ''answers'', ''correct_answer_id''}" for key
    using required_present keys [OF that] unfolding q by blast
  obtain answers where answers: "json_item ''answers'' q = Inr answers" using items [of "''answers''"] by auto
  obtain as aids where as: "answers = JList as" "length as = 4" "validate_answers (json_str qid) as {} = Inr aids"
    using assms qid answers by (auto simp: validate_question_def split: json.splits if_splits)
  obtain parsed where parsed: "each_item parse_answer as = Inr parsed"
    using each_item_total [of as parse_answer] validated_answers_parse [OF as(3)] by blast
  then show ?thesis
    using items [of "''text''"] items [of "''correct_answer_id''"] answers qid as each_item_length [OF parsed]
    by (auto simp: parse_question_def)
qed

lemma validated_questions_parse:
  "validate_questions qs seen = Inr u \<Longrightarrow> q \<in> set qs \<Longrightarrow> \<exists>p. parse_question q = Inr p \<and> length (qq_answers p) = 4"
  by (induction qs seen rule: validate_questions.induct) (auto dest: validated_question_parses)

lemma three_questions:
  "(case q of JList qs \<Rightarrow> if length qs < 3 then Inl e else Inr qs | _ \<Rightarrow> Inl e) = Inr questions \<longleftrightarrow>
   q = JList questions \<and> 3 \<le> length questions"
  by (cases q) auto

lemma validated_payload:
  assumes "validate_and_parse env raw = Inr (doc, ver, questions)"
  shows "\<exists>data. tr_loads env raw = Inr data \<and> json_item ''questions'' data = Inr (JList questions) \<and> 3 \<le> length questions \<and>
    validate_questions questions {} = Inr ()"
  using assms by (auto simp: validate_and_parse_def three_questions split: sum.splits)

lemma put_bytes_Inr:
  "put_bytes env payload extension w = (Inr key, w') \<Longrightarrow>
   \<exists>n. map_of (tw_blobs w') key = Some (tr_encrypt env n payload)"
  by (auto simp: put_bytes_def uuid4_hex_def Let_def AList.update_conv')

lemma uuid4_hex_Inr: "uuid4_hex env w = (Inr i, w') \<Longrightarrow> tw_blobs w' = tw_blobs w"
  by (auto simp: uuid4_hex_def)

lemma import_Inr:
  assumes "import_quiz_json env docs raw force w = (Inr r, w')"
  shows "\<exists>key n questions before doc ver. validate_and_parse env raw = Inr (doc, ver, questions) \<and>
    qi_question_count r = int (length questions) \<and> map_of (tw_blobs w') key = Some (tr_encrypt env n raw) \<and>
    qi_import_id r \<notin> qi_import_id ` set (td_imports before) \<and>
    tw_db w' = td_imports_update (\<lambda>rs. rs @ [quiz_import_result.extend r
      \<lparr>qi_storage_key = key, qi_sha256 = tr_sha256 env raw\<rparr>]) before"
proof -
  from assms obtain doc ver questions where v: "validate_and_parse env raw = Inr (doc, ver, questions)"
    by (auto simp: import_quiz_json_def)
  obtain key w1 i w2 name payload actor where run: "put_bytes env raw ''.quiz'' w = (Inr key, w1)" "uuid4_hex env w1 = (Inr i, w2)"
      "qi_import_id r = i" "qi_question_count r = int (length questions)" "i \<notin> qi_import_id ` set (td_imports (tw_db w2))"
      "tr_publish env name payload actor (w2\<lparr>tw_ticks := Suc (tw_ticks w2), tw_db := td_imports_update (\<lambda>rs. rs @ [quiz_import_result.extend r
      \<lparr>qi_storage_key = key, qi_sha256 = tr_sha256 env raw\<rparr>]) (tw_db w2)\<rparr>) = (Inr (), w')"
    using assms v unfolding import_quiz_json_def create_quiz_import_def Let_def
    by (clarsimp simp: quiz_import_result.defs)
  obtain n where "map_of (tw_blobs w1) key = Some (tr_encrypt env n raw)" using put_bytes_Inr [OF run(1)] by blast
  with v run uuid4_hex_Inr [OF run(2)] tr_publish_Inr [OF run(6)] show ?thesis
    by (intro exI [of _ key] exI [of _ n] exI [of _ questions] exI [of _ "tw_db w2"] exI [of _ doc] exI [of _ ver]) simp
qed

lemma imported_loads:
  assumes run: "import_quiz_json env docs raw force w = (Inr r, w')"
    and cipher: "\<And>n. tr_decrypt env (tr_encrypt env n raw) = Some raw"
  shows "\<exists>qs. load_questions env (qi_import_id r) w' = (Inr qs, w') \<and> int (length qs) = qi_question_count r \<and> 3 \<le> length qs \<and>
    (\<forall>q \<in> set qs. length (qq_answers q) = 4)"
proof -
  obtain key n questions before doc ver where i: "validate_and_parse env raw = Inr (doc, ver, questions)"
      "qi_question_count r = int (length questions)" "map_of (tw_blobs w') key = Some (tr_encrypt env n raw)"
      "qi_import_id r \<notin> qi_import_id ` set (td_imports before)"
      "tw_db w' = td_imports_update (\<lambda>rs. rs @ [quiz_import_result.extend r \<lparr>qi_storage_key = key, qi_sha256 = tr_sha256 env raw\<rparr>]) before"
    using import_Inr [OF run] by blast
  obtain data where data: "tr_loads env raw = Inr data" "json_item ''questions'' data = Inr (JList questions)" "3 \<le> length questions"
      "validate_questions questions {} = Inr ()"
    using validated_payload [OF i(1)] by blast
  note parse = validated_questions_parse [OF data(4)]
  obtain qs where qs: "each_item parse_question questions = Inr qs" using each_item_total parse by metis
  have "List.find (\<lambda>x. qi_import_id x = qi_import_id r) (td_imports (tw_db w')) =
      Some (quiz_import_result.extend r \<lparr>qi_storage_key = key, qi_sha256 = tr_sha256 env raw\<rparr>)"
    using i(4) by (auto simp: i(5) find_append image_iff quiz_import_result.defs split: option.split dest!: find_Some_member)
  then have "load_questions env (qi_import_id r) w' = (Inr qs, w')"
    using i(3) cipher data qs by (simp add: load_questions_Inr loads_to_def quiz_import_result.defs)
  moreover have "length (qq_answers q) = 4" if "q \<in> set qs" for q
    using each_item_member [OF qs that] parse by fastforce
  ultimately show ?thesis using each_item_length [OF qs] i(2) data(3) by auto
qed

end
