(* ===== verification/TrainScenario.thy ===== *)
theory TrainScenario
  imports TrainBehaviour UserScenario
begin

text \<open>
  A concrete training: a quiz of three questions is imported and bound to the released document \<open>D\<close>, the
  assignments are projected, the user confirms the reading, starts the quiz and answers it. The functions for
  the cipher, the hash and the choice of questions stand for Fernet, \<open>sha256\<close> and \<open>random\<close>.
\<close>

definition quiz_answers1 :: json where
  "quiz_answers1 = JList (map (\<lambda>a. JObj [(''answer_id'', JStr a), (''text'', JStr a)]) [''a'', ''b'', ''c'', ''d''])"

definition quiz_question1 :: "string \<Rightarrow> json" where
  "quiz_question1 i = JObj [(''question_id'', JStr i), (''text'', JStr i), (''answers'', quiz_answers1), (''correct_answer_id'', JStr ''a'')]"

definition quiz1 :: json where
  "quiz1 = JObj [(''document_id'', JStr ''D''), (''document_version'', JInt 1),
     (''questions'', JList (map quiz_question1 [''p'', ''q'', ''r'']))]"

definition tr_env1 :: tr_env where
  "tr_env1 = \<lparr>tr_clock = int, tr_uuid = (\<lambda>n. ''e''), tr_hex = (\<lambda>n. replicate (Suc n) CHR ''x''),
     tr_loads = (\<lambda>raw. if raw = ''Q'' then Inr quiz1 else Inl ''bad''), tr_sha256 = (\<lambda>s. CHR ''h'' # s),
     tr_encrypt = (\<lambda>n s. CHR ''k'' # s), tr_decrypt = (\<lambda>s. case s of [] \<Rightarrow> None | _ # raw \<Rightarrow> Some raw),
     tr_sample = (\<lambda>n qs k. take k qs), tr_shuffle = (\<lambda>n xs. xs)\<rparr>"

lemma tr_env1_simps [simp]:
  "tr_clock tr_env1 n = int n" "tr_uuid tr_env1 n = ''e''" "tr_hex tr_env1 n = replicate (Suc n) CHR ''x''"
  "tr_sha256 tr_env1 s = CHR ''h'' # s" "tr_encrypt tr_env1 n s = CHR ''k'' # s" "tr_decrypt tr_env1 (c # s) = Some s"
  "tr_loads tr_env1 ''Q'' = Inr quiz1" "tr_sample tr_env1 n qs k = take k qs" "tr_shuffle tr_env1 n xs = xs"
  by (simp_all add: tr_env1_def)

lemma tr_env1_inj: "inj (tr_hex tr_env1)"
  by (rule injI) (simp add: tr_env1_def replicate_eq_replicate)

definition trainee :: authenticated_user where
  "trainee = user_from_row first_admin"

definition setting1 :: tr_setting where
  "setting1 = \<lparr>tx_settings = \<lparr>tg_questions_per_quiz = None, tg_min_correct_answers = Some 2, tg_shuffle_answers = Some False,
       tg_retry_cooldown_seconds = Some 60, tg_force_reread_on_fail = Some True\<rparr>,
     tx_documents = \<lparr>db_versions = [(new_version_state ''D'' 1)\<lparr>v_status := APPROVED\<rparr>], db_headers = [], db_artifacts = []\<rparr>,
     tx_users = [trainee], tx_current_user = Some trainee\<rparr>"

definition reading1 :: tr_request where
  "reading1 = ReadConfirmed (Some \<lparr>rr_user_id = ''u'', rr_document_id = ''D'', rr_version = 1\<rparr>) (Some ''u'') (Some ''D'') (Some 1)"

definition tr_ready :: tr_world where
  "tr_ready = run_trainings tr_env1 [(setting1, ImportQuiz ''Q'' False), (setting1, BindQuiz ''xxx'' ''D'' 1),
     (setting1, RebuildSnapshots), (setting1, reading1)] empty_tr_world"

definition start1 :: "(train_error + quiz_session \<times> quiz_question list) \<times> tr_world" where
  "start1 = start_quiz tr_env1 (tx_settings setting1) ''u'' ''D'' 1 tr_ready"

lemma trainee_simps:
  "require_training_admin (Some trainee) = Inr ()" "us_user_id trainee = ''u''" "us_department trainee = None"
  "us_scope trainee = None" "us_organization_unit trainee = None"
  by (simp_all add: require_training_admin_def trainee_def user_from_row_def authenticated_user.defs first_admin_def py_lower_def
      lower_char_def py_strip_def py_space_def run_basics)

definition import1 :: "(train_error + quiz_import_result) \<times> tr_world" where
  "import1 = import_quiz_json tr_env1 (tx_documents setting1) ''Q'' False empty_tr_world"

definition tr_started :: tr_world where
  "tr_started = after start1"

text \<open>The session that the start opens, and an attempt with one right answer out of three.\<close>

definition session1 :: quiz_session where
  "session1 = \<lparr>qs_session_id = ''xxxxxxxxxxxxxxx'', qs_user_id = ''u'', qs_document_id = ''D'', qs_version = 1,
     qs_selected_question_ids = [''p'', ''q'', ''r''], qs_created_at = 8,
     qs_presented_questions = map (\<lambda>i. \<lparr>pq_question_id = i, pq_answer_id_order = [''a'', ''b'', ''c'', ''d'']\<rparr>) [''p'', ''q'', ''r'']\<rparr>"

definition submit1 :: "(train_error + quiz_result_detail) \<times> tr_world" where
  "submit1 = submit_quiz_answers tr_env1 (tx_settings setting1) ''xxxxxxxxxxxxxxx'' [ByIndex 1, ByText ''a'', NoAnswer] tr_started"

lemmas tr_method_evals = fun_cong [OF tr_read_def] fun_cong [OF tr_write_def] fun_cong [OF tr_utcnow_def] fun_cong [OF tr_draw_def]
  fun_cong [OF uuid4_hex_def] fun_cong [OF tr_publish_def] fun_cong [OF put_bytes_def] fun_cong [OF get_bytes_def]
  fun_cong [OF create_quiz_import_def] fun_cong [OF create_binding_def] fun_cong [OF create_quiz_session_def]
  fun_cong [OF import_quiz_json_def] fun_cong [OF load_questions_def] fun_cong [OF load_questions_for_binding_def]
  fun_cong [OF bind_quiz_to_document_def] fun_cong [OF start_quiz_def] fun_cong [OF submit_quiz_answers_def]
  fun_cong [OF upsert_progress_def] fun_cong [OF complete_quiz_session_def] fun_cong [OF cooldown_over_def]
  fun_cong [OF rebuild_all_def] fun_cong [OF delete_all_snapshots_def] fun_cong [OF project_one_def] fun_cong [OF upsert_snapshot_def]
  fun_cong [OF on_read_confirmed_def] fun_cong [OF returning_def] fun_cong [OF run_training_def]

lemmas tr_data_evals = empty_tr_world_def empty_tr_db_def setting1_def reading1_def quiz1_def quiz_question1_def quiz_answers1_def
  validate_and_parse_def validate_question_def require_key_def has_key_def json_item_def set_element_def json_int_def
  parse_question_def parse_answer_def no_duplicate_def get_import_storage_key_def get_active_binding_def
  json_str_def quiz_import_result.defs quiz_session.defs quiz_result.defs starts_with_def py_strip_def py_space_def
  build_import_preview_def resolve_active_version_def list_released_documents_def list_by_status_rows_def document_ref_of_def
  get_header_def row_to_state_def new_version_state_def find.simps trainee_simps

lemmas tr_project_evals = assignment_of_def scope_matches_def truthy_def resolve_assignment_def exemption_active_def
  list_active_exemptions_def list_active_manual_assignments_def get_document_tags_def get_user_tags_def tags_of_def last_by_def
  snapshot_key_def progress_key_def get_progress_def get_snapshot_def

lemmas tr_quiz_evals = int_setting_def questions_per_quiz_def resolve_min_correct_answers_def retry_cooldown_seconds_def
  force_reread_on_fail_def shuffle_answers_def display_question_def ordered_answers_def get_quiz_session_def select_questions_def
  decode_presented_def normalize_answer_def quiz_score_def progress_after_def review_questions_def review_question_def review_answer_def

lemmas tr_evals = tr_method_evals tr_data_evals tr_project_evals tr_quiz_evals run_basics

declare tr_evals [simp] run_congs [cong]
declare bindM_basic [simp del] bindM_liftE_simps [simp del]

lemmas import1_eq = import1_def [simplified]
lemmas tr_ready_eq = tr_ready_def [simplified]
lemmas start1_eq = start1_def [unfolded tr_ready_eq, simplified]
lemmas tr_started_eq = tr_started_def [unfolded start1_eq snd_conv]
lemmas submit1_eq = submit1_def [unfolded tr_started_eq, simplified]

declare tr_evals [simp del] run_congs [cong del]
declare bindM_basic [simp] bindM_liftE_simps [simp] of_char_Char [simp]

lemma tr_ready_reachable: "tr_reachable tr_env1 tr_ready"
  unfolding tr_ready_def by (rule run_trainings_reachable) (rule tr_reachable.start)

lemma after_returning: "after (returning m w) = after (m w)"
  by (simp add: returning_def bindM_def split: prod.split sum.split)

lemma tr_started_reachable: "tr_reachable tr_env1 tr_started"
proof -
  have eq: "tr_started = after (run_training tr_env1 setting1 (StartQuiz ''u'' ''D'' 1) tr_ready)"
    by (simp add: tr_started_def start1_def run_training_def after_returning)
  show ?thesis unfolding eq by (rule tr_reachable.step [OF tr_ready_reachable])
qed

lemma started1: "\<exists>shown. start_quiz tr_env1 (tx_settings setting1) ''u'' ''D'' 1 tr_ready = (Inr (session1, shown), tr_started)"
  using start1_eq by (simp add: start1_def tr_started_eq session1_def)

lemma session1_stored: "get_quiz_session (tw_db tr_started) ''xxxxxxxxxxxxxxx'' = Some session1"
  by (simp add: tr_started_eq get_quiz_session_def session1_def quiz_session.defs find.simps)

lemma submitted1:
  "\<exists>d. submit1 = (Inr d, after submit1) \<and> qr_score d = 1 \<and> qr_total d = 3 \<and> \<not> qr_passed d \<and>
     map qv_correct_answer_id (qr_questions d) = [''a'', ''a'', ''a'']"
  by (simp add: submit1_eq quiz_result.defs)

lemma imported1:
  "\<exists>r w'. import_quiz_json tr_env1 (tx_documents setting1) ''Q'' False empty_tr_world = (Inr r, w') \<and> qi_question_count r = 3"
  using import1_eq by (simp add: import1_def)

end
