(* ===== verification/TrainProperties.thy ===== *)
theory TrainProperties
  imports TrainScenario
begin

text \<open>
  The properties of the training module, in every world that requests reach or in every world at all, each
  with a witness; the property of the projection, which spans three modules, is in the root theory.
\<close>

text \<open>C36. In every reachable world at most one quiz is active for a document version, a user has at most one
  assignment and one progress per document version, no assignment is stored for a document that does not
  concern the user, and a graded attempt has its score between 0 and the number of its questions; the
  progress counts at least as many attempts as are stored.\<close>

theorem training_tables_stay_consistent:
  assumes "tr_reachable env w"
  shows "distinct (map (\<lambda>b. (qb_document_id b, qb_version b)) (filter qb_active (td_bindings (tw_db w)))) \<and>
    distinct (map snapshot_key (td_snapshots (tw_db w))) \<and> distinct (map progress_key (td_progress (tw_db w))) \<and>
    (\<forall>s \<in> set (td_snapshots (tw_db w)). sn_source s \<noteq> SrcNOT_RELEVANT) \<and>
    (\<forall>a \<in> set (td_attempts (tw_db w)). \<forall>score. qt_score a = Some score \<longrightarrow>
       0 \<le> score \<and> score \<le> int (length (qs_selected_question_ids a))) \<and>
    (\<forall>key. count_attempts_for_user_doc (tw_db w) key \<le>
       (case get_progress (tw_db w) key of None \<Rightarrow> 0 | Some p \<Rightarrow> tp_quiz_attempts_count p))"
proof -
  have ok: "train_ok (tw_db w)" by (rule tr_reachable_ok [OF assms])
  have "0 \<le> score \<and> score \<le> int (length (qs_selected_question_ids a))"
    if "a \<in> set (td_attempts (tw_db w))" "qt_score a = Some score" for a score
  proof -
    have "attempt_ok a" using ok that(1) by (simp add: train_ok_def attempts_ok_def)
    then show ?thesis using that(2) by (auto simp: attempt_ok_def split: option.splits)
  qed
  then show ?thesis
    using ok train_ok_countD [OF ok] unfolding train_ok_def bindings_ok_def snapshots_ok_def attempts_counted_def by blast
qed

theorem training_tables_stay_consistent_witness:
  "td_snapshots (tw_db tr_started) \<noteq> [] \<and> distinct (map snapshot_key (td_snapshots (tw_db tr_started)))"
  using training_tables_stay_consistent [OF tr_started_reachable] by (simp add: tr_started_eq)

text \<open>C37. A quiz starts only for a user with an assignment for the document version, after the reading was
  confirmed, after the cooldown that follows a failed attempt, and with an active quiz; the session that is
  stored is the one that is returned.\<close>

theorem quiz_starts_only_when_due:
  assumes "start_quiz env s user doc ver w = (Inr (session, shown), w')"
  shows "get_snapshot (tw_db w) (user, doc, ver) \<noteq> None \<and>
    (\<exists>p. get_progress (tw_db w) (user, doc, ver) = Some p \<and> tp_read_confirmed_at p \<noteq> None \<and>
       (\<forall>failed. tp_last_failed_at p = Some failed \<and> 0 < retry_cooldown_seconds s \<longrightarrow>
          failed + retry_cooldown_seconds s * 1000000 \<le> tr_clock env (tw_ticks w))) \<and>
    get_active_binding (tw_db w) doc ver \<noteq> None \<and>
    get_quiz_session (tw_db w') (qs_session_id session) = Some session \<and> session_key session = (user, doc, ver)"
  by (rule start_demands [OF assms])

theorem quiz_starts_only_when_due_witness:
  "get_snapshot (tw_db tr_ready) (''u'', ''D'', 1) \<noteq> None \<and>
   get_quiz_session (tw_db tr_started) (qs_session_id session1) = Some session1"
proof -
  obtain shown where "start_quiz tr_env1 (tx_settings setting1) ''u'' ''D'' 1 tr_ready = (Inr (session1, shown), tr_started)"
    using started1 by blast
  from quiz_starts_only_when_due [OF this] show ?thesis by blast
qed

text \<open>C38. The grading: the result reviews exactly the questions of the session, in their order; an answer is right
  where it is the correct one; the score is the number of right answers, and the attempt is passed where
  the score reaches the configured minimum; the progress of the user is updated accordingly.\<close>

theorem grading_is_what_the_review_shows:
  assumes "submit_quiz_answers env s i answers w = (Inr d, w')"
  shows "\<exists>session. get_quiz_session (tw_db w) i = Some session \<and>
    map qv_question_id (qr_questions d) = qs_selected_question_ids session \<and>
    (\<forall>q \<in> set (qr_questions d). qv_is_correct q = (qv_chosen_answer_id q = Some (qv_correct_answer_id q))) \<and>
    qr_score d = int (length (filter qv_is_correct (qr_questions d))) \<and> qr_total d = int (length (qr_questions d)) \<and>
    qr_passed d = (resolve_min_correct_answers s (qr_total d) \<le> qr_score d) \<and>
    get_progress (tw_db w') (session_key session) =
      Some (progress_after s (get_progress (tw_db w) (session_key session)) (quiz_result.truncate d))"
  by (rule submission_graded [OF assms])

theorem grading_is_what_the_review_shows_witness:
  "\<exists>d w'. submit1 = (Inr d, w') \<and> map qv_question_id (qr_questions d) = [''p'', ''q'', ''r''] \<and>
     int (length (filter qv_is_correct (qr_questions d))) = 1"
proof -
  obtain d where d: "submit1 = (Inr d, after submit1)" "qr_score d = 1" using submitted1 by blast
  from grading_is_what_the_review_shows [OF d(1) [unfolded submit1_def]] d session1_stored
  show ?thesis by (auto simp: session1_def)
qed

text \<open>C39. The review of the last attempt that is read back later, with the answers stored in the database and
  the questions decrypted again, is the one that the submission returned, as long as no other attempt of
  the user for this version was completed after it.\<close>

theorem review_reads_back_as_submitted:
  assumes "tr_reachable env w" and "submit_quiz_answers env s i answers w = (Inr d, w')"
    and "get_quiz_session (tw_db w) i = Some session" and "overtaken (tw_db w) session (tr_clock env (tw_ticks w))"
  shows "get_last_quiz_review env (qr_user_id d) (qr_document_id d) (qr_version d) w' = (Inr (Some d), w')"
  by (rule review_reads_back [OF assms(2) tr_reachable_ok [OF assms(1)] assms(3,4)])

theorem review_reads_back_as_submitted_witness:
  "\<exists>d w'. submit1 = (Inr d, w') \<and>
     get_last_quiz_review tr_env1 (qr_user_id d) (qr_document_id d) (qr_version d) w' = (Inr (Some d), w')"
proof -
  obtain d where d: "submit1 = (Inr d, after submit1)" using submitted1 by blast
  have "overtaken (tw_db tr_started) session1 (tr_clock tr_env1 (tw_ticks tr_started))"
    by (simp add: overtaken_def tr_started_eq completed_for_def)
  from review_reads_back_as_submitted [OF tr_started_reachable d [unfolded submit1_def] session1_stored this]
  show ?thesis using d by (auto simp: submit1_def)
qed

text \<open>A completed session can be submitted again: the correct answers that the review of an attempt discloses
  pass the same session at once, whatever the attempt was, without a new reading and without the cooldown,
  and the attempt is overwritten by the new result.\<close>

theorem disclosed_answers_pass_the_same_session:
  assumes "submit_quiz_answers env s i answers w = (Inr d, w')" and "get_quiz_session (tw_db w) i = Some session"
    and "length (qs_presented_questions session) = length (qr_questions d)"
    and "\<And>q p. (q, p) \<in> set (zip (qr_questions d) (qs_presented_questions session)) \<Longrightarrow>
      qv_correct_answer_id q \<in> set (pq_answer_id_order p)"
  shows "\<exists>d' w''. submit_quiz_answers env s' i (map (\<lambda>q. ByText (qv_correct_answer_id q)) (qr_questions d)) w' = (Inr d', w'') \<and>
    qr_passed d' \<and> qr_score d' = qr_total d' \<and>
    Option.bind (get_progress (tw_db w'') (session_key session)) tp_quiz_passed_at = Some (tr_clock env (tw_ticks w'))"
  by (rule disclosed_answers_pass [OF assms])

theorem disclosed_answers_pass_the_same_session_witness:
  "\<exists>d w' d' w''. submit1 = (Inr d, w') \<and> \<not> qr_passed d \<and>
     submit_quiz_answers tr_env1 (tx_settings setting1) ''xxxxxxxxxxxxxxx'' [ByText ''a'', ByText ''a'', ByText ''a''] w' = (Inr d', w'') \<and>
     qr_passed d'"
proof -
  from submitted1 obtain d where d: "submit1 = (Inr d, after submit1)" "\<not> qr_passed d"
      "map qv_correct_answer_id (qr_questions d) = [''a'', ''a'', ''a'']"
    by (elim exE conjE)
  have n: "length (qs_presented_questions session1) = length (qr_questions d)"
    using arg_cong [OF d(3), of length] by (simp add: session1_def)
  have shown: "qv_correct_answer_id q \<in> set (pq_answer_id_order p)" if "(q, p) \<in> set (zip (qr_questions d) (qs_presented_questions session1))" for q p
  proof -
    have "qv_correct_answer_id q \<in> set [''a'', ''a'', ''a'']" unfolding d(3) [symmetric] using set_zip_leftD [OF that] by simp
    moreover have "pq_answer_id_order p = [''a'', ''b'', ''c'', ''d'']"
      using set_zip_rightD [OF that] by (auto simp: session1_def)
    ultimately show ?thesis by simp
  qed
  have disclosed: "map (\<lambda>q. ByText (qv_correct_answer_id q)) (qr_questions d) = [ByText ''a'', ByText ''a'', ByText ''a'']"
    using arg_cong [OF d(3), of "map ByText"] by (simp add: comp_def)
  from disclosed_answers_pass_the_same_session [OF d(1) [unfolded submit1_def] session1_stored n shown, of "tx_settings setting1"]
  obtain d' w'' where "submit_quiz_answers tr_env1 (tx_settings setting1) ''xxxxxxxxxxxxxxx'' [ByText ''a'', ByText ''a'', ByText ''a'']
      (after submit1) = (Inr d', w'')" "qr_passed d'"
    unfolding disclosed submit1_def by blast
  with d(1,2) show ?thesis by blast
qed

text \<open>A confirmed reading lifts the cooldown: where the reading of a user is not confirmed, as after a failed
  attempt that forces a new reading, the confirmation forgets when the last attempt failed, and the next
  quiz may start at once, whatever the cooldown is.\<close>

theorem reading_again_lifts_the_cooldown:
  assumes "get_progress (tw_db w) (user, doc, ver) = Some p" and "tp_read_confirmed_at p = None" and "user \<noteq> []" and "doc \<noteq> []"
    and "rr_user_id r = user" and "rr_document_id r = doc" and "rr_version r = ver"
  shows "\<exists>p' w'. on_read_confirmed env (Some r) (Some user) (Some doc) (Some ver) w = (Inr (), w') \<and>
    get_progress (tw_db w') (user, doc, ver) = Some p' \<and> tp_read_confirmed_at p' \<noteq> None \<and>
    tp_quiz_attempts_count p' = tp_quiz_attempts_count p \<and> cooldown_over env s p' w' = (Inr True, w')"
  by (rule reading_lifts_the_cooldown [OF assms])

definition failed_progress :: training_progress where
  "failed_progress = \<lparr>tp_user_id = ''u'', tp_document_id = ''D'', tp_version = 1, tp_read_confirmed_at = None,
     tp_quiz_passed_at = None, tp_last_failed_at = Some 10, tp_last_score = Some 1, tp_quiz_attempts_count = 1\<rparr>"

lemma failed_progress_stored: "get_progress (tw_db (after submit1)) (''u'', ''D'', 1) = Some failed_progress"
  by (simp add: submit1_eq get_progress_def progress_key_def failed_progress_def find.simps)

theorem reading_again_lifts_the_cooldown_witness:
  "\<exists>p' w'. on_read_confirmed tr_env1 (Some \<lparr>rr_user_id = ''u'', rr_document_id = ''D'', rr_version = 1\<rparr>) (Some ''u'') (Some ''D'') (Some 1)
       (after submit1) = (Inr (), w') \<and>
     get_progress (tw_db w') (''u'', ''D'', 1) = Some p' \<and> tp_quiz_attempts_count p' = 1 \<and>
     cooldown_over tr_env1 (tx_settings setting1) p' w' = (Inr True, w') \<and>
     cooldown_over tr_env1 (tx_settings setting1) failed_progress (after submit1) \<noteq> (Inr True, w')"
proof -
  have "cooldown_over tr_env1 (tx_settings setting1) failed_progress (after submit1) \<noteq> (Inr True, w')" for w'
    by (simp add: cooldown_over_def failed_progress_def setting1_def retry_cooldown_seconds_def int_setting_def submit1_eq)
  with reading_again_lifts_the_cooldown [OF failed_progress_stored, of "\<lparr>rr_user_id = ''u'', rr_document_id = ''D'', rr_version = 1\<rparr>"
      tr_env1 "tx_settings setting1"]
  show ?thesis by (auto simp: failed_progress_def)
qed

text \<open>C40. A quiz that passed the check of its import can be loaded: decrypted, checked against its hash, decoded and
  turned into as many questions as the import counted, at least three, each with four answers.\<close>

theorem imported_quiz_loads:
  assumes "import_quiz_json env docs raw force w = (Inr r, w')"
    and "\<And>n. tr_decrypt env (tr_encrypt env n raw) = Some raw"
  shows "\<exists>qs. load_questions env (qi_import_id r) w' = (Inr qs, w') \<and> int (length qs) = qi_question_count r \<and> 3 \<le> length qs \<and>
    (\<forall>q \<in> set qs. length (qq_answers q) = 4)"
  by (rule imported_loads [OF assms])

theorem imported_quiz_loads_witness:
  "\<exists>r w' qs. import_quiz_json tr_env1 (tx_documents setting1) ''Q'' False empty_tr_world = (Inr r, w') \<and>
     load_questions tr_env1 (qi_import_id r) w' = (Inr qs, w') \<and> length qs = 3"
proof -
  obtain r w' where r: "import_quiz_json tr_env1 (tx_documents setting1) ''Q'' False empty_tr_world = (Inr r, w')"
      "qi_question_count r = 3"
    using imported1 by blast
  from imported_quiz_loads [OF r(1)] show ?thesis using r by auto
qed

end
