(* ===== verification/TrainRebuild.thy ===== *)
theory TrainRebuild
  imports TrainInvariants DocApiLaws UserInvariants
begin

text \<open>
  The projection of the assignments against its specification: over the released documents of a reachable
  documents database and the accounts of a reachable user management, the snapshots are exactly what the
  tables of tags, manual assignments and exemptions say, source by source.
\<close>

section \<open>The specification\<close>

text \<open>The ways in which a document may concern a user, read off the tables directly.\<close>

definition exempted_by :: "tr_db \<Rightarrow> time \<Rightarrow> document_ref \<Rightarrow> authenticated_user \<Rightarrow> bool" where
  "exempted_by db now doc user \<longleftrightarrow>
     (\<exists>e \<in> set (td_exemptions db). te_revoked_at e = None \<and> te_user_id e = us_user_id user \<and>
        te_document_id e = dr_document_id doc \<and> te_version e = dr_version doc \<and>
        (case te_valid_until e of None \<Rightarrow> True | Some t \<Rightarrow> now \<le> t))"

definition assigned_by_hand :: "tr_db \<Rightarrow> document_ref \<Rightarrow> authenticated_user \<Rightarrow> bool" where
  "assigned_by_hand db doc user \<longleftrightarrow>
     (\<exists>m \<in> set (td_manual_assignments db). ma_revoked_at m = None \<and> ma_user_id m = us_user_id user \<and>
        ma_document_id m = dr_document_id doc)"

definition tagged :: "tr_db \<Rightarrow> document_ref \<Rightarrow> authenticated_user \<Rightarrow> bool" where
  "tagged db doc user \<longleftrightarrow>
     (\<exists>t. (dr_document_id doc, t) \<in> set (td_document_tags db) \<and> (us_user_id user, t) \<in> set (td_user_tags db))"

definition wanted_source :: "tr_db \<Rightarrow> time \<Rightarrow> document_ref \<Rightarrow> authenticated_user \<Rightarrow> assignment_source option" where
  "wanted_source db now doc user =
     (if exempted_by db now doc user then Some SrcEXEMPTED
      else if assigned_by_hand db doc user then Some SrcMANUAL
      else if tagged db doc user then Some SrcTAG
      else if scope_matches doc user then Some SrcSCOPE
      else None)"

text \<open>No user has two exemptions for the same document version that are not revoked.\<close>

definition single_exemptions :: "tr_db \<Rightarrow> bool" where
  "single_exemptions db \<longleftrightarrow> distinct (map (\<lambda>e. (te_user_id e, te_document_id e, te_version e))
     (filter (\<lambda>e. te_revoked_at e = None) (td_exemptions db)))"

section \<open>The code computes it\<close>

lemma exemption_active_iff:
  assumes "single_exemptions db"
  shows "exemption_active now (list_active_exemptions db) (us_user_id user, dr_document_id doc, dr_version doc) =
    exempted_by db now doc user"
proof -
  let ?key = "\<lambda>e. (te_user_id e, te_document_id e, te_version e)"
  let ?k = "(us_user_id user, dr_document_id doc, dr_version doc)"
  have "distinct (map ?key (list_active_exemptions db))"
    using assms by (simp add: single_exemptions_def list_active_exemptions_def distinct_map)
  then have found: "last_by ?key (list_active_exemptions db) ?k = Some e \<longleftrightarrow>
      e \<in> set (td_exemptions db) \<and> te_revoked_at e = None \<and> ?key e = ?k" for e
    by (subst last_by_distinct) (simp_all add: list_active_exemptions_def)
  have valid: "(\<not> (case v of None \<Rightarrow> False | Some t \<Rightarrow> t < now)) = (case v of None \<Rightarrow> True | Some t \<Rightarrow> now \<le> t)" for v
    by (cases v) auto
  have "exemption_active now (list_active_exemptions db) ?k \<longleftrightarrow>
      (\<exists>e. last_by ?key (list_active_exemptions db) ?k = Some e \<and> (case te_valid_until e of None \<Rightarrow> True | Some t \<Rightarrow> now \<le> t))"
    by (cases "last_by ?key (list_active_exemptions db) ?k") (simp_all add: exemption_active_def valid)
  then show ?thesis unfolding found exempted_by_def by auto
qed

lemma assignment_of_wanted:
  assumes "single_exemptions db"
  shows "wanted_source db now doc user =
    (let source = assignment_of db now doc user in if source = SrcNOT_RELEVANT then None else Some source)"
proof -
  have "(us_user_id user, dr_document_id doc) \<in> (\<lambda>m. (ma_user_id m, ma_document_id m)) ` set (list_active_manual_assignments db) \<longleftrightarrow>
      assigned_by_hand db doc user"
    by (auto simp: assigned_by_hand_def list_active_manual_assignments_def image_iff)
  moreover have "get_document_tags db (dr_document_id doc) \<inter> get_user_tags db (us_user_id user) \<noteq> {} \<longleftrightarrow> tagged db doc user"
    by (force simp: tagged_def get_document_tags_def get_user_tags_def tags_of_def)
  ultimately show ?thesis
    using exemption_active_iff [OF assms, of now user doc]
    by (simp add: wanted_source_def assignment_of_def resolve_assignment_def Let_def)
qed

section \<open>The loop\<close>

definition pair_key :: "document_ref \<times> authenticated_user \<Rightarrow> training_key" where
  "pair_key p = (us_user_id (snd p), dr_document_id (fst p), dr_version (fst p))"

definition relevant :: "tr_db \<Rightarrow> time \<Rightarrow> document_ref \<times> authenticated_user \<Rightarrow> bool" where
  "relevant db now p \<longleftrightarrow> assignment_of db now (fst p) (snd p) \<noteq> SrcNOT_RELEVANT"

definition drawn_ids :: "tr_env \<Rightarrow> tr_world \<Rightarrow> bool" where
  "drawn_ids env w \<longleftrightarrow> sn_snapshot_id ` set (td_snapshots (tw_db w)) \<subseteq> tr_hex env ` {..<tw_draws w}"

lemma tr_publish_run:
  "\<exists>w'. tr_publish env name payload actor w = (Inr (), w') \<and> tw_db w' = tw_db w \<and> tw_draws w \<le> tw_draws w'"
  by (simp add: tr_publish_def tr_draw_def tr_utcnow_def)

lemma project_one_run:
  assumes "inj (tr_hex env)" and "drawn_ids env w" and "pair_key p \<notin> snapshot_key ` set (td_snapshots (tw_db w))"
  shows "\<exists>w'. project_one env before now p n w = (Inr (n + (if relevant before now p then 1 else 0)), w') \<and> drawn_ids env w' \<and>
    (\<exists>new. map (\<lambda>s. (snapshot_key s, sn_source s)) new =
        (if relevant before now p then [(pair_key p, assignment_of before now (fst p) (snd p))] else []) \<and>
      td_snapshots (tw_db w') = td_snapshots (tw_db w) @ new)"
proof (cases "relevant before now p")
  case True
  obtain doc user where p: "p = (doc, user)" by (cases p)
  define snap where "snap = \<lparr>sn_snapshot_id = tr_hex env (tw_draws w), sn_user_id = us_user_id user, sn_document_id = dr_document_id doc,
    sn_version = dr_version doc, sn_source = assignment_of before now doc user,
    sn_exempted = (assignment_of before now doc user = SrcEXEMPTED), sn_created_at = now, sn_updated_at = now\<rparr>"
  have key: "snapshot_key snap = pair_key p" by (simp add: snap_def snapshot_key_def pair_key_def p)
  have "tr_hex env (tw_draws w) \<notin> tr_hex env ` {..<tw_draws w}" using assms(1) by (auto dest: injD)
  moreover have "sn_snapshot_id snap = tr_hex env (tw_draws w)" by (simp add: snap_def)
  ultimately have fresh: "sn_snapshot_id r \<noteq> sn_snapshot_id snap" if "r \<in> set (td_snapshots (tw_db w))" for r
    using that assms(2) unfolding drawn_ids_def by (metis imageI subsetD)
  have kept: "filter (\<lambda>r. sn_snapshot_id r \<noteq> sn_snapshot_id snap \<and> snapshot_key r \<noteq> snapshot_key snap) (td_snapshots (tw_db w)) =
      td_snapshots (tw_db w)"
    using fresh assms(3) key by (intro filter_True) (auto simp: image_iff)
  let ?v = "w\<lparr>tw_draws := Suc (tw_draws w), tw_db := td_snapshots_update (\<lambda>_. td_snapshots (tw_db w) @ [snap]) (tw_db w)\<rparr>"
  have upsert: "upsert_snapshot snap (w\<lparr>tw_draws := Suc (tw_draws w)\<rparr>) = (Inr (), ?v)"
    using kept by (simp add: upsert_snapshot_def tr_write_def cong: tr_db.fold_congs)
  obtain w' where w': "tr_publish env (if snapshot_key snap \<in> snapshot_key ` set (td_snapshots before)
        then ''domain.training.assignment.snapshot.updated.v1'' else ''domain.training.assignment.snapshot.created.v1'')
      [(''user_id'', PyStr (sn_user_id snap)), (''document_id'', PyStr (sn_document_id snap)),
       (''version'', PyInt (sn_version snap)), (''source'', PyStr (source_value (assignment_of before now doc user))),
       (''exempted'', PyBool (sn_exempted snap))] None ?v = (Inr (), w')" "tw_db w' = tw_db ?v" "tw_draws ?v \<le> tw_draws w'"
    using tr_publish_run by blast
  have "project_one env before now p n w = (Inr (n + 1), w')"
    using True w'(1) upsert by (simp add: relevant_def p project_one_def Let_def uuid4_hex_def tr_draw_def snap_def)
  moreover have "drawn_ids env w'"
  proof -
    have more: "tr_hex env ` {..<tw_draws w} \<subseteq> tr_hex env ` {..<tw_draws w'}" "tr_hex env (tw_draws w) \<in> tr_hex env ` {..<tw_draws w'}"
      using w'(3) by auto
    then show ?thesis using assms(2) w'(2) unfolding drawn_ids_def by (auto simp: snap_def)
  qed
  moreover have "td_snapshots (tw_db w') = td_snapshots (tw_db w) @ [snap]" using w'(2) by simp
  ultimately show ?thesis using True key by (auto simp: p snap_def)
qed (simp add: project_one_def relevant_def case_prod_beta assms(2))

lemma project_all_run:
  assumes "inj (tr_hex env)" and "drawn_ids env w" and "distinct (map pair_key ps)"
    and "pair_key ` set ps \<inter> snapshot_key ` set (td_snapshots (tw_db w)) = {}"
  shows "\<exists>w'. project_all env before now ps n w = (Inr (n + int (length (filter (relevant before now) ps))), w') \<and>
    (\<exists>new. map (\<lambda>s. (snapshot_key s, sn_source s)) new =
        map (\<lambda>p. (pair_key p, assignment_of before now (fst p) (snd p))) (filter (relevant before now) ps) \<and>
      td_snapshots (tw_db w') = td_snapshots (tw_db w) @ new)"
  using assms
proof (induction ps arbitrary: n w)
  case (Cons p ps)
  obtain w1 new where one: "project_one env before now p n w = (Inr (n + (if relevant before now p then 1 else 0)), w1)"
    "drawn_ids env w1" "map (\<lambda>s. (snapshot_key s, sn_source s)) new =
        (if relevant before now p then [(pair_key p, assignment_of before now (fst p) (snd p))] else [])"
    "td_snapshots (tw_db w1) = td_snapshots (tw_db w) @ new"
    using project_one_run [OF Cons.prems(1,2), of p before now n] Cons.prems(4) by auto
  have "map snapshot_key new = (if relevant before now p then [pair_key p] else [])"
    using arg_cong [OF one(3), of "map fst"] by (simp add: comp_def split: if_splits)
  then have "snapshot_key ` set new \<subseteq> {pair_key p}"
    by (metis empty_subsetI list.set(1) list.simps(15) set_map subset_refl)
  then have "pair_key ` set ps \<inter> snapshot_key ` set (td_snapshots (tw_db w1)) = {}"
    using Cons.prems(3,4) one(4) by auto
  from Cons.IH [OF Cons.prems(1) one(2) _ this, of "n + (if relevant before now p then 1 else 0)"] Cons.prems(3)
  obtain w2 new2 where "project_all env before now ps (n + (if relevant before now p then 1 else 0)) w1 =
      (Inr (n + (if relevant before now p then 1 else 0) + int (length (filter (relevant before now) ps))), w2)"
    "map (\<lambda>s. (snapshot_key s, sn_source s)) new2 =
      map (\<lambda>p. (pair_key p, assignment_of before now (fst p) (snd p))) (filter (relevant before now) ps)"
    "td_snapshots (tw_db w2) = td_snapshots (tw_db w1) @ new2" by auto
  with one show ?case
    by (intro exI [of _ w2] conjI exI [of _ "new @ new2"]) auto
qed simp

section \<open>Its inputs\<close>

text \<open>The documents module releases one version of a document at most once, and identifiers of users are unique.\<close>

lemma released_distinct:
  assumes "reachable env w"
  shows "distinct (map (\<lambda>d. (dr_document_id d, dr_version d)) (list_released_documents (w_db w)))"
proof -
  have "distinct (map version_key (db_versions (w_db w)))"
    using reachable_db_ok [OF assms] unfolding db_ok_def rows_ok_def by blast
  moreover have "(\<lambda>d. (dr_document_id d, dr_version d)) \<circ> document_ref_of db = version_key" for db
    by (rule ext) (simp add: document_ref_of_def version_key_def Let_def)
  moreover have "version_key \<circ> row_to_state = version_key"
    by (rule ext) (simp add: row_to_state_def version_key_def)
  moreover have "distinct (map version_key (list_by_status_rows rows s))" if "distinct (map version_key rows)" for rows s
    using that \<open>version_key \<circ> row_to_state = version_key\<close>
    by (auto simp: list_by_status_rows_def distinct_map intro: inj_on_subset)
  ultimately show ?thesis by (simp add: list_released_documents_def distinct_map_filter)
qed

lemma users_distinct:
  assumes "um_reachable env w"
  shows "distinct (map us_user_id (list_users (uw_db w)))"
proof -
  have "us_user_id \<circ> user_from_row = us_user_id"
    by (rule ext) (simp add: user_from_row_def authenticated_user.defs)
  then show ?thesis
    using reachable_um_ok [OF assms] by (simp add: um_ok_def tables_ok_def list_users_def distinct_map)
qed

lemma product_keys_distinct:
  assumes "distinct (map (\<lambda>d. (dr_document_id d, dr_version d)) docs)" and "distinct (map us_user_id users)"
  shows "distinct (map pair_key (List.product docs users))"
  using assms unfolding distinct_map
  by (auto simp: distinct_product inj_on_def pair_key_def)

lemma rebuild_all_run:
  fixes w :: tr_world
  assumes "inj (tr_hex env)" and "distinct (map (\<lambda>d. (dr_document_id d, dr_version d)) (list_released_documents docs))"
    and "distinct (map us_user_id users)"
  defines "now \<equiv> tr_clock env (tw_ticks w)" and "pairs \<equiv> List.product (list_released_documents docs) users"
  shows "\<exists>w'. rebuild_all env docs users w = (Inr (int (length (filter (relevant (tw_db w) now) pairs))), w') \<and>
    map (\<lambda>s. (snapshot_key s, sn_source s)) (td_snapshots (tw_db w')) =
      map (\<lambda>p. (pair_key p, assignment_of (tw_db w) now (fst p) (snd p))) (filter (relevant (tw_db w) now) pairs)"
proof -
  let ?v = "w\<lparr>tw_ticks := Suc (tw_ticks w), tw_db := td_snapshots_update (\<lambda>_. []) (tw_db w)\<rparr>"
  have "drawn_ids env ?v" by (simp add: drawn_ids_def)
  from project_all_run [OF assms(1) this product_keys_distinct [OF assms(2,3)], of "tw_db w" now 0]
  obtain w1 new where w1: "project_all env (tw_db w) now pairs 0 ?v =
      (Inr (int (length (filter (relevant (tw_db w) now) pairs))), w1)"
    "map (\<lambda>s. (snapshot_key s, sn_source s)) new =
      map (\<lambda>p. (pair_key p, assignment_of (tw_db w) now (fst p) (snd p))) (filter (relevant (tw_db w) now) pairs)"
    "td_snapshots (tw_db w1) = new" by (auto simp: pairs_def)
  obtain w' where "tr_publish env ''domain.training.assignment.snapshot.rebuilt.v1''
      [(''count'', PyInt (int (length (filter (relevant (tw_db w) now) pairs))))] None w1 = (Inr (), w')" "tw_db w' = tw_db w1"
    using tr_publish_run by blast
  with w1 show ?thesis
    unfolding rebuild_all_def
    by (intro exI [of _ w']) (simp add: tr_read_def tr_utcnow_def delete_all_snapshots_def tr_write_def now_def pairs_def)
qed

text \<open>The table that the loop leaves, row by row.\<close>

lemma get_snapshot_source:
  assumes rows: "map (\<lambda>s. (snapshot_key s, sn_source s)) (td_snapshots d) = map (\<lambda>p. (k p, f p)) (filter R pairs)"
    and "inj_on k (set pairs)" and "p \<in> set pairs"
  shows "map_option sn_source (get_snapshot d (k p)) = (if R p then Some (f p) else None)"
proof (cases "get_snapshot d (k p)")
  case None
  then have "k p \<notin> fst ` set (map (\<lambda>s. (snapshot_key s, sn_source s)) (td_snapshots d))"
    by (auto simp: get_snapshot_def find_None_iff)
  then show ?thesis using None assms(3) unfolding rows by (auto simp: image_iff)
next
  case (Some s)
  then have "(k p, sn_source s) \<in> set (map (\<lambda>s. (snapshot_key s, sn_source s)) (td_snapshots d))"
    by (force simp: get_snapshot_def image_iff dest!: find_Some_member)
  then obtain q where "q \<in> set pairs" "R q" "k p = k q" "sn_source s = f q" unfolding rows by auto
  moreover then have "q = p" using assms(2,3) by (auto dest: inj_onD)
  ultimately show ?thesis using Some by simp
qed

end
