(* ===== verification/PyFloat.thy ===== *)
theory PyFloat
  imports Complex_Main "HOL-Library.Log_Nat"
begin

text \<open>
  Python's \<open>float\<close>: IEEE 754 binary64 with round-half-even. A finite value is the rational number it stands
  for, so the two zeros are one. An operation rounds the exact result.
\<close>

datatype pyfloat = NaN | NegInf | Fin rat | PosInf

section \<open>Rounding\<close>

definition pow2 :: "int \<Rightarrow> rat" where
  "pow2 e = (if 0 \<le> e then 2 ^ nat e else 1 / 2 ^ nat (- e))"

text \<open>The exponent \<open>e\<close> with \<open>2\<^sup>e \<le> |q| < 2\<^sup>e\<^sup>+\<^sup>1\<close>.\<close>

definition float_exponent :: "rat \<Rightarrow> int" where
  "float_exponent q =
     (let (n, d) = quotient_of \<bar>q\<bar>; e = int (floorlog 2 (nat n)) - int (floorlog 2 (nat d))
      in if pow2 e \<le> \<bar>q\<bar> then e else e - 1)"

definition half_even :: "rat \<Rightarrow> int" where
  "half_even x = (let f = \<lfloor>x\<rfloor>; r = x - of_int f
     in if r < 1 / 2 \<or> (r = 1 / 2 \<and> even f) then f else f + 1)"

definition float_round :: "rat \<Rightarrow> pyfloat" where
  "float_round q = (if q = 0 then Fin 0 else
     let s = pow2 (max (float_exponent q - 52) (- 1074)); r = of_int (half_even (q / s)) * s
     in if 2 ^ 1024 \<le> r then PosInf else if r \<le> - (2 ^ 1024) then NegInf else Fin r)"

section \<open>Arithmetic and comparison\<close>

fun flt_neg :: "pyfloat \<Rightarrow> pyfloat" where
  "flt_neg NaN = NaN"
| "flt_neg NegInf = PosInf"
| "flt_neg (Fin a) = Fin (- a)"
| "flt_neg PosInf = NegInf"

fun flt_add :: "pyfloat \<Rightarrow> pyfloat \<Rightarrow> pyfloat" where
  "flt_add (Fin a) (Fin b) = float_round (a + b)"
| "flt_add NaN _ = NaN"
| "flt_add _ NaN = NaN"
| "flt_add PosInf NegInf = NaN"
| "flt_add NegInf PosInf = NaN"
| "flt_add PosInf _ = PosInf"
| "flt_add _ PosInf = PosInf"
| "flt_add NegInf _ = NegInf"
| "flt_add _ NegInf = NegInf"

definition flt_sub :: "pyfloat \<Rightarrow> pyfloat \<Rightarrow> pyfloat" where
  "flt_sub x y = flt_add x (flt_neg y)"

fun flt_sgn :: "pyfloat \<Rightarrow> int" where
  "flt_sgn NaN = 0"
| "flt_sgn NegInf = - 1"
| "flt_sgn (Fin a) = (if a < 0 then - 1 else if a = 0 then 0 else 1)"
| "flt_sgn PosInf = 1"

fun flt_mul :: "pyfloat \<Rightarrow> pyfloat \<Rightarrow> pyfloat" where
  "flt_mul (Fin a) (Fin b) = float_round (a * b)"
| "flt_mul x y = (let s = flt_sgn x * flt_sgn y
     in if x = NaN \<or> y = NaN \<or> s = 0 then NaN else if 0 < s then PosInf else NegInf)"

text \<open>Every comparison with \<open>NaN\<close> is false.\<close>

fun flt_less :: "pyfloat \<Rightarrow> pyfloat \<Rightarrow> bool" where
  "flt_less (Fin a) (Fin b) = (a < b)"
| "flt_less NegInf (Fin _) = True"
| "flt_less NegInf PosInf = True"
| "flt_less (Fin _) PosInf = True"
| "flt_less _ _ = False"

definition flt_le :: "pyfloat \<Rightarrow> pyfloat \<Rightarrow> bool" where
  "flt_le x y \<longleftrightarrow> flt_less x y \<or> (x \<noteq> NaN \<and> x = y)"

text \<open>\<open>max(a, b)\<close> takes the second value only where it is greater.\<close>

definition flt_max :: "pyfloat \<Rightarrow> pyfloat \<Rightarrow> pyfloat" where
  "flt_max a b = (if flt_less a b then b else a)"

section \<open>Lemmas\<close>

lemma flt_le_simps [simp]: "flt_le (Fin a) (Fin b) \<longleftrightarrow> a \<le> b" "flt_le NaN x = False" "flt_le x NaN = False"
  by (auto simp: flt_le_def elim: flt_less.elims)

lemma flt_less_NaN [simp]: "flt_less x NaN = False" "flt_less NaN x = False"
  by (cases x; simp)+

lemma flt_not_less: "x \<noteq> NaN \<Longrightarrow> y \<noteq> NaN \<Longrightarrow> \<not> flt_less x y \<longleftrightarrow> flt_le y x"
  by (cases x; cases y) (auto simp: flt_le_def)

lemma flt_add_NaN_iff: "flt_add x y = NaN \<longleftrightarrow> x = NaN \<or> y = NaN \<or> {x, y} = {PosInf, NegInf}"
  by (cases x; cases y) (auto simp: float_round_def Let_def doubleton_eq_iff)

lemma flt_max_ge: "a \<noteq> NaN \<Longrightarrow> \<not> flt_less (flt_max a b) a"
  by (cases a; cases b) (auto simp: flt_max_def)

lemma half_even_of_int [simp]: "half_even (of_int n) = n"
  by (simp add: half_even_def)

text \<open>Integers up to \<open>2\<^sup>5\<^sup>3\<close> are exact.\<close>

lemma float_exponent_int:
  assumes "n \<noteq> 0"
  shows "float_exponent (of_int n) = int (floorlog 2 (nat \<bar>n\<bar>)) - 1"
proof -
  let ?k = "nat \<bar>n\<bar>" and ?l = "floorlog 2 (nat \<bar>n\<bar>) - 1"
  have pos: "0 < ?k" using assms by simp
  then have l: "int (floorlog 2 ?k) - 1 = int ?l" by (simp add: floorlog_def)
  have "2 ^ ?l \<le> ?k" using pos floorlog_bounds [of ?k 2] by simp
  then have "(2::int) ^ ?l \<le> int ?k" by (metis of_nat_le_iff of_nat_numeral of_nat_power)
  then have "(2::int) ^ ?l \<le> \<bar>n\<bar>" using pos by simp
  then have "of_int (2 ^ ?l) \<le> (of_int \<bar>n\<bar> :: rat)" by (simp only: of_int_le_iff)
  then have "pow2 (int ?l) \<le> \<bar>of_int n\<bar>" by (simp add: pow2_def)
  moreover have "quotient_of \<bar>of_int n\<bar> = (\<bar>n\<bar>, 1)" by (simp flip: of_int_abs add: quotient_of_int)
  moreover have "floorlog 2 (nat 1) = 1" by (simp add: floorlog_def)
  ultimately show ?thesis unfolding float_exponent_def by (simp add: Let_def l)
qed

lemma exponent_bounds:
  "l \<le> 53 \<Longrightarrow> 1 \<le> l \<Longrightarrow> \<exists>m. max (int l - 1 - 52) (- 1074) = - int m \<and> m \<le> (52 :: nat)"
  by (intro exI [of _ "53 - l"]) linarith

lemma float_round_int:
  assumes "\<bar>n\<bar> < 2 ^ 53"
  shows "float_round (of_int n) = Fin (of_int n)"
proof (cases "n = 0")
  case False
  let ?k = "nat \<bar>n\<bar>" and ?e = "float_exponent (of_int n)"
  have k: "0 < ?k" "?k < 2 ^ 53" using assms False by (simp_all add: nat_less_iff)
  then have "floorlog 2 ?k \<le> 53" by (simp add: floorlog_le_iff)
  moreover have "1 \<le> floorlog 2 ?k" using k by (simp add: floorlog_def)
  ultimately obtain m :: nat where m: "max (?e - 52) (- 1074) = - int m" and "m \<le> 52"
    unfolding float_exponent_int [OF False] by (metis (no_types) exponent_bounds)
  have s: "pow2 (- int m) = 1 / 2 ^ m" by (simp add: pow2_def)
  have "of_int n / pow2 (- int m) = (of_int (n * 2 ^ m) :: rat)" by (simp add: s)
  then have r: "of_int (half_even (of_int n / pow2 (- int m))) * pow2 (- int m) = (of_int n :: rat)"
    by (simp only: half_even_of_int) (simp add: s)
  have "\<bar>n\<bar> < 2 ^ 1024" using assms by (rule order_less_trans) (rule power_strict_increasing, simp_all)
  then have "\<bar>of_int n\<bar> < (2 ^ 1024 :: rat)" by (metis of_int_abs of_int_less_iff of_int_numeral of_int_power)
  then show ?thesis using False unfolding float_round_def m Let_def r by (simp add: abs_less_iff not_le) 
qed (simp add: float_round_def)

text \<open>The exponent is the one promised, and a value rounds to the nearest multiple of its last place.\<close>

lemma pow2_powi: "pow2 e = 2 powi e"
  by (auto simp: pow2_def power_int_def inverse_eq_divide power_divide)

lemma floorlog_rat:
  assumes "0 < n"
  shows "2 powi (int (floorlog 2 (nat n)) - 1) \<le> (of_int n :: rat)" and "(of_int n :: rat) < 2 powi int (floorlog 2 (nat n))"
proof -
  let ?l = "floorlog 2 (nat n)"
  have b: "2 ^ (?l - 1) \<le> nat n" "nat n < 2 ^ ?l" and l: "0 < ?l"
    using floorlog_bounds [of "nat n" 2] assms by (simp_all add: floorlog_def)
  from b have i: "(2::int) ^ (?l - 1) \<le> n" "n < 2 ^ ?l" using assms by (simp_all add: nat_less_iff le_nat_iff)
  have "(of_int (2 ^ (?l - 1)) :: rat) \<le> of_int n" and "(of_int n :: rat) < of_int (2 ^ ?l)"
    using i by (simp_all only: of_int_le_iff of_int_less_iff)
  moreover have "int ?l - 1 = int (?l - 1)" using l by simp
  ultimately show "2 powi (int ?l - 1) \<le> (of_int n :: rat)" "(of_int n :: rat) < 2 powi int ?l"
    by (simp_all only: power_int_of_nat) simp_all
qed

lemma float_exponent_bounds:
  assumes "q \<noteq> 0"
  shows "pow2 (float_exponent q) \<le> \<bar>q\<bar>" and "\<bar>q\<bar> < pow2 (float_exponent q + 1)"
proof -
  obtain n d where nd: "quotient_of \<bar>q\<bar> = (n, d)" by fastforce
  have d: "0 < d" by (rule quotient_of_denom_pos [OF nd])
  have q: "\<bar>q\<bar> = of_int n / of_int d" by (rule quotient_of_div [OF nd])
  have n: "0 < n" using q assms d by (metis abs_eq_0 divide_eq_0_iff of_int_0_eq_iff zero_less_abs_iff zero_less_divide_iff of_int_0_less_iff less_asym)
  define a b where "a = int (floorlog 2 (nat n))" and "b = int (floorlog 2 (nat d))"
  have up: "2 powi (a - 1) \<le> (of_int n :: rat)" "(of_int n :: rat) < 2 powi a"
    and down: "2 powi (b - 1) \<le> (of_int d :: rat)" "(of_int d :: rat) < 2 powi b"
    unfolding a_def b_def using floorlog_rat n d by simp_all
  have d': "0 < (of_int d :: rat)" using d by simp
  have "2 powi (a - b - 1) * of_int d \<le> (2 powi (a - b - 1) * 2 powi b :: rat)"
    using down(2) by (intro mult_left_mono) simp_all
  also have "\<dots> = 2 powi (a - 1)" by (simp flip: power_int_add)
  also have "\<dots> \<le> of_int n" by (rule up(1))
  finally have low: "2 powi (a - b - 1) \<le> \<bar>q\<bar>" using d' by (simp add: q pos_le_divide_eq)
  have "of_int n < (2 powi a :: rat)" by (rule up(2))
  also have "\<dots> = 2 powi (a - b + 1) * 2 powi (b - 1)" by (simp flip: power_int_add)
  also have "\<dots> \<le> 2 powi (a - b + 1) * of_int d" using down(1) by (intro mult_left_mono) simp_all
  finally have high: "\<bar>q\<bar> < 2 powi (a - b + 1)" using d' by (simp add: q pos_divide_less_eq)
  have e: "float_exponent q = (if 2 powi (a - b) \<le> \<bar>q\<bar> then a - b else a - b - 1)"
    by (simp add: float_exponent_def nd a_def b_def pow2_powi Let_def)
  show "pow2 (float_exponent q) \<le> \<bar>q\<bar>" "\<bar>q\<bar> < pow2 (float_exponent q + 1)"
    using low high by (simp_all add: e pow2_powi not_le)
qed

lemma float_exponent_eq:
  assumes "pow2 e \<le> \<bar>q\<bar>" and "\<bar>q\<bar> < pow2 (e + 1)"
  shows "float_exponent q = e"
proof -
  have "0 < pow2 e" by (simp add: pow2_powi)
  with assms(1) have "q \<noteq> 0" by auto
  note b = float_exponent_bounds [OF this]
  have mono: "x < y" if "pow2 x < pow2 y" for x y
    using that power_int_increasing [of y x "2 :: rat"] by (force simp: pow2_powi not_less [symmetric])
  have "float_exponent q < e + 1" by (rule mono [OF order_le_less_trans [OF b(1) assms(2)]])
  moreover have "e < float_exponent q + 1" by (rule mono [OF order_le_less_trans [OF assms(1) b(2)]])
  ultimately show ?thesis by simp
qed

lemma half_even_nearest:
  assumes "\<bar>x - of_int k\<bar> < 1 / 2"
  shows "half_even x = k"
proof (cases "of_int k \<le> x")
  case True
  then have "\<lfloor>x\<rfloor> = k" using assms by (intro floor_unique) (simp_all add: abs_less_iff)
  with True assms show ?thesis by (simp add: half_even_def Let_def)
next
  case False
  then have "\<lfloor>x\<rfloor> = k - 1" using assms by (intro floor_unique) (simp_all add: abs_less_iff)
  with False assms show ?thesis by (simp add: half_even_def Let_def)
qed

lemma float_round_nearest:
  assumes "pow2 e \<le> \<bar>q\<bar>" and "\<bar>q\<bar> < pow2 (e + 1)" and "- 1022 \<le> e" and "\<bar>q / pow2 (e - 52) - of_int k\<bar> < 1 / 2"
    and "\<bar>of_int k * pow2 (e - 52)\<bar> < 2 ^ 1024"
  shows "float_round q = Fin (of_int k * pow2 (e - 52))"
proof -
  have "0 < pow2 e" by (simp add: pow2_powi)
  with assms(1) have "q \<noteq> 0" by auto
  moreover have "max (float_exponent q - 52) (- 1074) = e - 52" using float_exponent_eq [OF assms(1,2)] assms(3) by simp
  ultimately show ?thesis using half_even_nearest [OF assms(4)] assms(5)
    by (simp add: float_round_def Let_def abs_less_iff not_le)
qed

end
