(* ===== verification/SigTypes.thy ===== *)
theory SigTypes
  imports PyFloat PyTime Actors Registry DocStorage
begin

text \<open>
  The data of the signature module: placement, labels, requests, assets and templates
  (\<open>modules/signature/contracts.py\<close>, \<open>visual_models.py\<close>), the exceptions (\<open>errors.py\<close>), the layout arithmetic
  (\<open>layout_math.py\<close>) and the world of its services. Pillow, pypdf, reportlab, Fernet, \<open>sha256\<close>, the
  password verifier and the port of the cryptographic signer are parameters.
\<close>

section \<open>Exceptions\<close>

text \<open>The first eight are \<open>SignatureError\<close>s; a template error may name a field and a code.\<close>

datatype sig_error =
    SgPdfReadError string
  | SgInvalidPlacementError string
  | SgPasswordRequiredError string
  | SgPasswordInvalidError string
  | SgImageRequiredError string
  | SgCryptoNotConfiguredError string
  | SgTemplateError string "(string \<times> string) option"
  | SgAssetError string
  | SgAuthorizationError string
  | SgValueError string
  | SgIndexError string
  | SgRuntimeError string
  | SgOSError string
  | SgDbError string
  | SgLibraryError string

text \<open>\<open>str(exc)\<close>.\<close>

fun sig_error_text :: "sig_error \<Rightarrow> string" where
  "sig_error_text (SgPdfReadError m) = m"
| "sig_error_text (SgInvalidPlacementError m) = m"
| "sig_error_text (SgPasswordRequiredError m) = m"
| "sig_error_text (SgPasswordInvalidError m) = m"
| "sig_error_text (SgImageRequiredError m) = m"
| "sig_error_text (SgCryptoNotConfiguredError m) = m"
| "sig_error_text (SgTemplateError m _) = m"
| "sig_error_text (SgAssetError m) = m"
| "sig_error_text (SgAuthorizationError m) = m"
| "sig_error_text (SgValueError m) = m"
| "sig_error_text (SgIndexError m) = m"
| "sig_error_text (SgRuntimeError m) = m"
| "sig_error_text (SgOSError m) = m"
| "sig_error_text (SgDbError m) = m"
| "sig_error_text (SgLibraryError m) = m"

section \<open>Contracts\<close>

record placement_input =
  pl_page_index :: int
  pl_x :: pyfloat
  pl_y :: pyfloat
  pl_target_width :: pyfloat

record label_layout =
  la_show_signature :: bool
  la_show_name :: bool
  la_show_date :: bool
  la_show_time :: bool
  la_name_text :: "string option"
  la_date_text :: "string option"
  la_name_position :: string
  la_date_position :: string
  la_name_font_size :: int
  la_date_font_size :: int
  la_color_hex :: string
  la_name_above :: pyfloat
  la_name_below :: pyfloat
  la_date_above :: pyfloat
  la_date_below :: pyfloat
  la_x_offset :: pyfloat
  la_name_rel_x :: "pyfloat option"
  la_name_rel_y :: "pyfloat option"
  la_date_rel_x :: "pyfloat option"
  la_date_rel_y :: "pyfloat option"

definition default_layout :: label_layout where
  "default_layout = \<lparr>la_show_signature = True, la_show_name = True, la_show_date = True, la_show_time = False,
     la_name_text = None, la_date_text = None, la_name_position = ''above'', la_date_position = ''below'',
     la_name_font_size = 12, la_date_font_size = 12, la_color_hex = ''#000000'', la_name_above = Fin 6,
     la_name_below = Fin 12, la_date_above = Fin 18, la_date_below = Fin 24, la_x_offset = Fin 0,
     la_name_rel_x = None, la_name_rel_y = None, la_date_rel_x = None, la_date_rel_y = None\<rparr>"

record sig_request =
  sq_input_pdf :: string
  sq_placement :: placement_input
  sq_layout :: label_layout
  sq_signature_png :: "string option"
  sq_output_pdf :: "string option"
  sq_overwrite_output :: bool
  sq_dry_run :: bool
  sq_sign_mode :: string
  sq_signer_user :: "string option"
  sq_password :: "string option"
  sq_reason :: string

record sig_result =
  sz_output_pdf :: string
  sz_signed :: bool
  sz_sha256 :: string
  sz_dry_run :: bool
  sz_mode :: string

record signature_asset =
  sa_asset_id :: string
  sa_owner_user_id :: string
  sa_storage_key :: string
  sa_media_type :: string
  sa_original_filename :: string
  sa_sha256 :: string
  sa_size_bytes :: nat
  sa_created_at :: time

record signature_template =
  tm_template_id :: string
  tm_owner_user_id :: string
  tm_name :: string
  tm_placement :: placement_input
  tm_layout :: label_layout
  tm_signature_asset_id :: "string option"
  tm_created_at :: time
  tm_scope :: string
  tm_document_type :: "string option"
  tm_role_context :: "string option"
  tm_last_used_at :: "time option"

section \<open>Layout arithmetic\<close>

definition compute_target_height :: "pyfloat \<Rightarrow> pyfloat option \<Rightarrow> pyfloat" where
  "compute_target_height target_width signature_aspect =
     (let width = flt_max (Fin 1) target_width;
          aspect = (case signature_aspect of
              None \<Rightarrow> float_round (3 / 10)
            | Some a \<Rightarrow> if flt_le a (Fin 0) then float_round (3 / 10) else a)
      in flt_max (Fin 6) (flt_mul width aspect))"

definition resolve_label_pdf_anchor ::
  "pyfloat \<Rightarrow> pyfloat \<Rightarrow> pyfloat \<Rightarrow> string \<Rightarrow> pyfloat \<Rightarrow> pyfloat \<Rightarrow> pyfloat \<Rightarrow> pyfloat option \<Rightarrow> pyfloat option \<Rightarrow> pyfloat \<times> pyfloat" where
  "resolve_label_pdf_anchor placement_x placement_y signature_height position offset_above offset_below x_offset rel_x rel_y =
     (let x = flt_add placement_x x_offset;
          y = (if position = ''above'' then flt_add (flt_add placement_y signature_height) offset_above
               else if position = ''below'' then flt_sub placement_y offset_below
               else placement_y)
      in ((case rel_x of None \<Rightarrow> x | Some r \<Rightarrow> flt_add x r), (case rel_y of None \<Rightarrow> y | Some r \<Rightarrow> flt_add y r)))"

text \<open>What an overlay page draws: the image with its box, and a label with colour, font size and place.\<close>

datatype draw_op =
    DrawImage string pyfloat pyfloat pyfloat pyfloat
  | DrawLabel "int \<times> int \<times> int" int pyfloat pyfloat string

section \<open>The world\<close>

record active_signature =
  ac_owner_user_id :: string
  ac_asset_id :: string
  ac_updated_at :: time

record sig_db =
  gd_assets :: "signature_asset list"
  gd_templates :: "signature_template list"
  gd_active :: "active_signature list"

definition empty_sig_db :: sig_db where
  "empty_sig_db = \<lparr>gd_assets = [], gd_templates = [], gd_active = []\<rparr>"

record sig_world =
  gw_db :: sig_db
  gw_blobs :: "(string \<times> string) list"
  gw_files :: "string \<Rightarrow> string option"
  gw_events :: "event_envelope list"
  gw_audit :: "audit_record list"
  gw_ticks :: nat
  gw_draws :: nat

definition sig_world_of :: "(string \<Rightarrow> string option) \<Rightarrow> sig_world" where
  "sig_world_of files = \<lparr>gw_db = empty_sig_db, gw_blobs = [], gw_files = files, gw_events = [], gw_audit = [],
     gw_ticks = 0, gw_draws = 0\<rparr>"

text \<open>
  The environment: the clocks, \<open>uuid4\<close> as text and as \<open>hex\<close>, \<open>tempfile\<close>, \<open>sha256\<close>, the Fernet cipher, the
  conversion to PNG and the size of an image (Pillow), the page boxes of a PDF and the PDF with an overlay
  merged onto one page (pypdf, reportlab), the setting \<open>require_password\<close>, the verifier of passwords, the
  cryptographic signer (input, output and reason; left: the message of its exception), and which of the
  optional collaborators are configured.
\<close>

record sig_env =
  ge_clock :: "nat \<Rightarrow> time"
  ge_local_clock :: "nat \<Rightarrow> time"
  ge_uuid :: "nat \<Rightarrow> string"
  ge_hex :: "nat \<Rightarrow> string"
  ge_temp_dir :: "nat \<Rightarrow> string"
  ge_sha256 :: "string \<Rightarrow> string"
  ge_encrypt :: "nat \<Rightarrow> string \<Rightarrow> string"
  ge_decrypt :: "string \<Rightarrow> string option"
  ge_to_png :: "string \<Rightarrow> string option"
  ge_image_size :: "string \<Rightarrow> (nat \<times> nat) option"
  ge_transparent_png :: string
  ge_pdf_pages :: "string \<Rightarrow> (pyfloat \<times> pyfloat) list option"
  ge_merge_overlay :: "string \<Rightarrow> int \<Rightarrow> draw_op list \<Rightarrow> string option"
  ge_require_password :: "bool option"
  ge_password_verifier :: "string \<Rightarrow> string \<Rightarrow> bool"
  ge_crypto_signer :: "(string \<Rightarrow> string \<Rightarrow> string \<Rightarrow> (string \<Rightarrow> string option) \<Rightarrow> string + (string \<Rightarrow> string option)) option"
  ge_has_repository :: bool
  ge_has_secure_store :: bool
  ge_has_event_bus :: bool

type_synonym 'a sg_meth = "(sig_world, sig_error, 'a) meth"

definition sg_utcnow :: "sig_env \<Rightarrow> time sg_meth" where
  "sg_utcnow env = (\<lambda>w. (Inr (ge_clock env (gw_ticks w)), w\<lparr>gw_ticks := Suc (gw_ticks w)\<rparr>))"

definition sg_local_now :: "sig_env \<Rightarrow> time sg_meth" where
  "sg_local_now env = (\<lambda>w. (Inr (ge_local_clock env (gw_ticks w)), w\<lparr>gw_ticks := Suc (gw_ticks w)\<rparr>))"

definition sg_draw :: "(nat \<Rightarrow> 'a) \<Rightarrow> 'a sg_meth" where
  "sg_draw f = (\<lambda>w. (Inr (f (gw_draws w)), w\<lparr>gw_draws := Suc (gw_draws w)\<rparr>))"

definition sg_read :: "(sig_db \<Rightarrow> 'a) \<Rightarrow> 'a sg_meth" where
  "sg_read f = readM (\<lambda>w. f (gw_db w))"

definition sg_write :: "(sig_db \<Rightarrow> sig_db) \<Rightarrow> unit sg_meth" where
  "sg_write f = modifyM (\<lambda>w. w\<lparr>gw_db := f (gw_db w)\<rparr>)"

definition sg_check :: "bool \<Rightarrow> sig_error \<Rightarrow> unit sg_meth" where
  "sg_check bad e = liftE (raise_if bad e)"

text \<open>Files: reading, writing and removing a directory with \<open>rmtree\<close>.\<close>

definition read_file :: "string \<Rightarrow> string sg_meth" where
  "read_file path = (\<lambda>w. (case gw_files w path of
       None \<Rightarrow> Inl (SgOSError ''FileNotFoundError'') | Some content \<Rightarrow> Inr content, w))"

definition write_file :: "string \<Rightarrow> string \<Rightarrow> unit sg_meth" where
  "write_file path content = modifyM (\<lambda>w. w\<lparr>gw_files := (gw_files w)(path := Some content)\<rparr>)"

definition file_exists :: "string \<Rightarrow> bool sg_meth" where
  "file_exists path = readM (\<lambda>w. gw_files w path \<noteq> None)"

definition remove_tree :: "string \<Rightarrow> sig_world \<Rightarrow> sig_world" where
  "remove_tree dir w = w\<lparr>gw_files := (\<lambda>p. if starts_with p (dir @ ''/'') then None else gw_files w p)\<rparr>"

text \<open>\<open>shutil.copyfile\<close>.\<close>

definition copy_file :: "string \<Rightarrow> string \<Rightarrow> unit sg_meth" where
  "copy_file src dst =
     bindM (read_file src) (\<lambda>content.
     bindM (sg_check (src = dst) (SgOSError ''SameFileError'')) (\<lambda>_. write_file dst content))"

text \<open>\<open>_publish_event\<close> and the audit logger.\<close>

definition sg_publish :: "sig_env \<Rightarrow> string \<Rightarrow> (string, pyval) dict \<Rightarrow> string option \<Rightarrow> unit sg_meth" where
  "sg_publish env name payload actor =
     (if \<not> ge_has_event_bus env then retM ()
      else bindM (sg_draw (ge_uuid env)) (\<lambda>event_id.
           bindM (sg_utcnow env) (\<lambda>now.
           bindM (sg_draw (ge_uuid env)) (\<lambda>correlation_id.
           modifyM (\<lambda>w. w\<lparr>gw_events := gw_events w @ [\<lparr>ev_event_id = event_id, ev_name = name, ev_occurred_at = now,
             ev_correlation_id = correlation_id, ev_actor_user_id = actor, ev_module_id = ''signature'',
             ev_payload = payload\<rparr>]\<rparr>)))))"

definition sg_audit :: "string \<Rightarrow> string \<Rightarrow> string \<Rightarrow> string \<Rightarrow> unit sg_meth" where
  "sg_audit action actor target reason =
     modifyM (\<lambda>w. w\<lparr>gw_audit := gw_audit w @ [\<lparr>au_action = action, au_actor = actor, au_target = target,
       au_result = ''ok'', au_reason = reason\<rparr>]\<rparr>)"

text \<open>\<open>except Exception: ...; raise\<close> and \<open>finally\<close>.\<close>

definition on_failure :: "'a sg_meth \<Rightarrow> (sig_error \<Rightarrow> unit sg_meth) \<Rightarrow> 'a sg_meth" where
  "on_failure m handler = (\<lambda>w. case m w of
       (Inl e, w') \<Rightarrow> (Inl e, after (handler e w'))
     | (Inr x, w') \<Rightarrow> (Inr x, w'))"

definition finally_do :: "'a sg_meth \<Rightarrow> (sig_world \<Rightarrow> sig_world) \<Rightarrow> 'a sg_meth" where
  "finally_do m cleanup = (\<lambda>w. case m w of (r, w') \<Rightarrow> (r, cleanup w'))"

end
