(* ===== verification/SigStore.thy ===== *)
theory SigStore
  imports SigTypes "HOL-Library.List_Lexorder" "HOL-Library.Char_ord" "HOL-Library.Product_Lexorder"
begin

text \<open>
  The repository of the signature module over SQLite (\<open>modules/signature/sqlite_repository.py\<close> with the tables
  of \<open>migrations\<close>), one definition per method, and the encrypted store of the images (\<open>secure_store.py\<close>).
\<close>

section \<open>Assets\<close>

definition add_asset :: "signature_asset \<Rightarrow> unit sg_meth" where
  "add_asset asset =
     bindM (sg_read gd_assets) (\<lambda>rows.
     bindM (sg_check (sa_asset_id asset \<in> set (map sa_asset_id rows)) (SgDbError ''IntegrityError'')) (\<lambda>_.
     sg_write (\<lambda>db. db\<lparr>gd_assets := gd_assets db @ [asset]\<rparr>)))"

definition get_asset :: "sig_db \<Rightarrow> string \<Rightarrow> signature_asset option" where
  "get_asset db asset_id = List.find (\<lambda>a. sa_asset_id a = asset_id) (gd_assets db)"

section \<open>Templates\<close>

text \<open>
  What SQLite makes of the parameters: an integer beyond 64 bits raises an \<open>OverflowError\<close>; a \<open>NaN\<close> is stored
  as \<open>NULL\<close>, which a \<open>NOT NULL\<close> column refuses and a nullable one reads back as \<open>None\<close>.
\<close>

definition required_floats :: "signature_template \<Rightarrow> pyfloat list" where
  "required_floats t = (let p = tm_placement t; l = tm_layout t
     in [pl_x p, pl_y p, pl_target_width p, la_name_above l, la_name_below l, la_date_above l, la_date_below l, la_x_offset l])"

definition template_ints :: "signature_template \<Rightarrow> int list" where
  "template_ints t = [pl_page_index (tm_placement t), la_name_font_size (tm_layout t), la_date_font_size (tm_layout t)]"

definition check_template_row :: "signature_template \<Rightarrow> sig_error + unit" where
  "check_template_row t =
     bindE (raise_if (list_ex (\<lambda>i. \<not> (- (2 ^ 63) \<le> i \<and> i < 2 ^ 63)) (template_ints t)) (SgValueError ''OverflowError'')) (\<lambda>_.
     raise_if (NaN \<in> set (required_floats t)) (SgDbError ''IntegrityError''))"

definition nan_as_null :: "pyfloat option \<Rightarrow> pyfloat option" where
  "nan_as_null x = (if x = Some NaN then None else x)"

definition template_row :: "signature_template \<Rightarrow> signature_template" where
  "template_row t = (let l = tm_layout t in
     t\<lparr>tm_layout := l\<lparr>la_name_rel_x := nan_as_null (la_name_rel_x l), la_name_rel_y := nan_as_null (la_name_rel_y l),
       la_date_rel_x := nan_as_null (la_date_rel_x l), la_date_rel_y := nan_as_null (la_date_rel_y l)\<rparr>\<rparr>)"

definition row_to_template :: "signature_template \<Rightarrow> signature_template" where
  "row_to_template r = r\<lparr>tm_scope := if tm_scope r = [] then ''user'' else tm_scope r\<rparr>"

definition upsert_template :: "signature_template \<Rightarrow> unit sg_meth" where
  "upsert_template t =
     bindM (liftE (check_template_row t)) (\<lambda>_.
     sg_write (\<lambda>db. db\<lparr>gd_templates := filter (\<lambda>r. tm_template_id r \<noteq> tm_template_id t) (gd_templates db) @ [template_row t]\<rparr>))"

definition list_templates :: "sig_db \<Rightarrow> string \<Rightarrow> signature_template list" where
  "list_templates db owner_user_id =
     map row_to_template (sort_key tm_name (filter (\<lambda>r. tm_owner_user_id r = owner_user_id) (gd_templates db)))"

definition list_global_templates :: "sig_db \<Rightarrow> signature_template list" where
  "list_global_templates db = map row_to_template (sort_key tm_name (filter (\<lambda>r. tm_scope r = ''global'') (gd_templates db)))"

definition get_template :: "sig_db \<Rightarrow> string \<Rightarrow> signature_template option" where
  "get_template db template_id =
     map_option row_to_template (List.find (\<lambda>r. tm_template_id r = template_id) (gd_templates db))"

definition delete_template :: "string \<Rightarrow> unit sg_meth" where
  "delete_template template_id = 
     sg_write (\<lambda>db. db\<lparr>gd_templates := filter (\<lambda>r. tm_template_id r \<noteq> template_id) (gd_templates db)\<rparr>)"

definition touch_template_last_used_at :: "string \<Rightarrow> time \<Rightarrow> unit sg_meth" where
  "touch_template_last_used_at template_id used_at =
     sg_write (\<lambda>db. db\<lparr>gd_templates :=
       map (\<lambda>r. if tm_template_id r = template_id then r\<lparr>tm_last_used_at := Some used_at\<rparr> else r) (gd_templates db)\<rparr>)"

section \<open>The active signature\<close>

text \<open>\<open>ON CONFLICT(owner_user_id) DO UPDATE\<close>.\<close>

definition active_rows :: "string \<Rightarrow> string \<Rightarrow> time \<Rightarrow> active_signature list \<Rightarrow> active_signature list" where
  "active_rows owner i now rs =
     (if owner \<in> set (map ac_owner_user_id rs)
      then map (\<lambda>r. if ac_owner_user_id r = owner then r\<lparr>ac_asset_id := i, ac_updated_at := now\<rparr> else r) rs
      else rs @ [\<lparr>ac_owner_user_id = owner, ac_asset_id = i, ac_updated_at = now\<rparr>])"

definition set_active_row :: "sig_env \<Rightarrow> string \<Rightarrow> string \<Rightarrow> unit sg_meth" where
  "set_active_row env owner_user_id asset_id =
     bindM (sg_utcnow env) (\<lambda>now.
     sg_write (\<lambda>db. db\<lparr>gd_active := active_rows owner_user_id asset_id now (gd_active db)\<rparr>))"

definition active_asset_id :: "sig_db \<Rightarrow> string \<Rightarrow> string option" where
  "active_asset_id db owner_user_id = map_option ac_asset_id (List.find (\<lambda>r. ac_owner_user_id r = owner_user_id) (gd_active db))"

definition clear_active_row :: "string \<Rightarrow> unit sg_meth" where
  "clear_active_row owner_user_id = 
     sg_write (\<lambda>db. db\<lparr>gd_active := filter (\<lambda>r. ac_owner_user_id r \<noteq> owner_user_id) (gd_active db)\<rparr>)"

section \<open>The encrypted store\<close>

definition put_blob :: "sig_env \<Rightarrow> string \<Rightarrow> string \<Rightarrow> string \<Rightarrow> string sg_meth" where
  "put_blob env owner_user_id extension payload =
     (let safe_ext = (if starts_with extension ''.'' then extension else ''.'' @ extension) in
      bindM (sg_draw (ge_hex env)) (\<lambda>name.
      let storage_key = owner_user_id @ ''/'' @ name @ safe_ext @ ''.enc'' in
      bindM (sg_draw (\<lambda>n. ge_encrypt env n payload)) (\<lambda>cipher.
      bindM (modifyM (\<lambda>w. w\<lparr>gw_blobs := AList.update storage_key cipher (gw_blobs w)\<rparr>)) (\<lambda>_. retM storage_key))))"

text \<open>A missing file is an \<open>OSError\<close>; \<open>InvalidToken\<close> of a damaged one is not.\<close>

definition get_blob :: "sig_env \<Rightarrow> string \<Rightarrow> string sg_meth" where
  "get_blob env storage_key = (\<lambda>w. (case map_of (gw_blobs w) storage_key of
       None \<Rightarrow> Inl (SgOSError ''FileNotFoundError'')
     | Some cipher \<Rightarrow> (case ge_decrypt env cipher of None \<Rightarrow> Inl (SgLibraryError ''InvalidToken'') | Some raw \<Rightarrow> Inr raw), w))"

end
