(* ===== verification/SigExec.thy ===== *)
theory SigExec
  imports SigStore
begin

text \<open>
  Signing: where the output goes (\<open>modules/signature/output_path_policy.py\<close>), the checks, the modes and the
  evidence of a signing (\<open>signature_execute_ops.py\<close>) and the overlay that is drawn (\<open>pdf_signer.py\<close>). Log
  lines are not recorded. The layout is resolved at run time by \<open>signature_policy_ops.py\<close>.
\<close>

section \<open>Paths\<close>

text \<open>A path is its text in the normal form of \<open>pathlib\<close>; the name of the empty path \<open>.\<close> is empty.\<close>

definition pure_name :: "string \<Rightarrow> string" where
  "pure_name p = (if p = ''.'' then [] else path_name p)"

definition path_stem :: "string \<Rightarrow> string" where
  "path_stem p = take (length (pure_name p) - length (path_suffix p)) (pure_name p)"

definition with_name :: "string \<Rightarrow> string \<Rightarrow> sig_error + string" where
  "with_name p name =
     bindE (raise_if (pure_name p = []) (SgValueError (repr_str p @ '' has an empty name''))) (\<lambda>_.
     Inr (take (length p - length (pure_name p)) p @ name))"

text \<open>\<open>with_suffix("")\<close>.\<close>

definition without_suffix :: "string \<Rightarrow> sig_error + string" where
  "without_suffix p =
     bindE (raise_if (pure_name p = []) (SgValueError (repr_str p @ '' has an empty name''))) (\<lambda>_.
     Inr (take (length p - length (path_suffix p)) p))"

section \<open>The output path\<close>

definition output_target :: "sig_request \<Rightarrow> sig_error + string" where
  "output_target req = (case sq_output_pdf req of
       Some p \<Rightarrow> Inr p
     | None \<Rightarrow> with_name (sq_input_pdf req) (path_stem (sq_input_pdf req) @ ''.signed.pdf''))"

definition output_candidate :: "string \<Rightarrow> string \<Rightarrow> nat \<Rightarrow> string" where
  "output_candidate base suffix i = base @ ''-'' @ str_nat i @ suffix"

text \<open>The loop over the candidates \<open>1\<close> to \<open>999\<close>.\<close>

function first_candidate :: "(string \<Rightarrow> bool) \<Rightarrow> string \<Rightarrow> string \<Rightarrow> nat \<Rightarrow> string option" where
  "first_candidate taken base suffix i =
     (if 1000 \<le> i then None
      else if \<not> taken (output_candidate base suffix i) then Some (output_candidate base suffix i)
      else first_candidate taken base suffix (Suc i))"
  by pat_completeness auto

termination by (relation "measure (\<lambda>(taken, base, suffix, i). 1000 - i)") auto

declare first_candidate.simps [simp del]

definition resolve_output :: "(string \<Rightarrow> bool) \<Rightarrow> sig_request \<Rightarrow> sig_error + string" where
  "resolve_output taken req =
     bindE (output_target req) (\<lambda>target.
     if sq_overwrite_output req \<or> \<not> taken target then Inr target
     else bindE (without_suffix target) (\<lambda>base.
       case first_candidate taken base (path_suffix target) 1 of
         Some candidate \<Rightarrow> Inr candidate
       | None \<Rightarrow> Inl (SgRuntimeError ''could not resolve deterministic output path'')))"

section \<open>Checks\<close>

definition enforce_password_policy :: "sig_env \<Rightarrow> sig_request \<Rightarrow> sig_error + unit" where
  "enforce_password_policy env req =
     (if \<not> (case ge_require_password env of None \<Rightarrow> True | Some required \<Rightarrow> required) then Inr ()
      else bindE (raise_if (\<not> truthy (sq_signer_user req))
             (SgPasswordRequiredError ''signer_user is required by password policy'')) (\<lambda>_.
           bindE (raise_if (\<not> truthy (sq_password req)) (SgPasswordRequiredError ''password required by policy'')) (\<lambda>_.
           raise_if (\<not> ge_password_verifier env (the (sq_signer_user req)) (the (sq_password req)))
             (SgPasswordInvalidError ''password verification failed''))))"

definition estimated_height :: "pyfloat \<Rightarrow> pyfloat" where
  "estimated_height target_width = flt_max (Fin 6) (flt_mul target_width (float_round (3 / 10)))"

definition validate_placement :: "placement_input \<Rightarrow> pyfloat \<times> pyfloat \<Rightarrow> sig_error + unit" where
  "validate_placement p page = (let (page_w, page_h) = page; invalid = SgInvalidPlacementError in
     bindE (raise_if (pl_page_index p < 0) (invalid ''page_index must be >= 0'')) (\<lambda>_.
     bindE (raise_if (flt_le (pl_target_width p) (Fin 0)) (invalid ''target_width must be > 0'')) (\<lambda>_.
     bindE (raise_if (flt_less (pl_x p) (Fin 0) \<or> flt_less (pl_y p) (Fin 0)) (invalid ''x and y must be >= 0'')) (\<lambda>_.
     bindE (raise_if (flt_less page_w (pl_x p) \<or> flt_less page_h (pl_y p)) (invalid ''x/y exceeds page bounds'')) (\<lambda>_.
     bindE (raise_if (flt_less page_w (flt_add (pl_x p) (pl_target_width p)))
       (invalid ''x + target_width exceeds page width'')) (\<lambda>_.
     raise_if (flt_less page_h (flt_add (pl_y p) (estimated_height (pl_target_width p))))
       (invalid ''y + estimated signature height exceeds page height'')))))))"

text \<open>\<open>reader.pages[i]\<close>: a negative index counts from the end.\<close>

definition page_at :: "'p list \<Rightarrow> int \<Rightarrow> sig_error + 'p" where
  "page_at pages i = (let k = (if i < 0 then int (length pages) + i else i) in
     if 0 \<le> k \<and> k < int (length pages) then Inr (pages ! nat k) else Inl (SgIndexError ''Sequence index out of range''))"

section \<open>The visual signature\<close>

text \<open>\<open>int(text, 16)\<close> of two characters.\<close>

definition hex_value :: "char \<Rightarrow> int option" where
  "hex_value c = (let n = (of_char c :: nat) in
     if 48 \<le> n \<and> n \<le> 57 then Some (int n - 48)
     else if 65 \<le> n \<and> n \<le> 70 then Some (int n - 55)
     else if 97 \<le> n \<and> n \<le> 102 then Some (int n - 87) else None)"

fun parse_hex_pair :: "string \<Rightarrow> int option" where
  "parse_hex_pair [a, b] =
     (case (hex_value a, hex_value b) of
        (Some x, Some y) \<Rightarrow> Some (16 * x + y)
      | (None, Some y) \<Rightarrow> if a = CHR ''-'' then Some (- y) else if a = CHR ''+'' \<or> py_space a then Some y else None
      | (Some x, None) \<Rightarrow> if py_space b then Some x else None
      | (None, None) \<Rightarrow> None)"
| "parse_hex_pair _ = None"

definition hex_to_rgb :: "string \<Rightarrow> int \<times> int \<times> int" where
  "hex_to_rgb hex = (let s = dropWhile (\<lambda>c. c = CHR ''#'') (py_strip (if hex = [] then ''#000000'' else hex));
       s = (if length s = 3 then concat (map (\<lambda>c. [c, c]) s) else s)
     in if length s \<noteq> 6 then (0, 0, 0)
        else (case (parse_hex_pair (take 2 s), parse_hex_pair (take 2 (drop 2 s)), parse_hex_pair (drop 4 s)) of
            (Some r, Some g, Some b) \<Rightarrow> (r, g, b)
          | _ \<Rightarrow> (0, 0, 0)))"

definition strftime_date :: "time \<Rightarrow> string" where
  "strftime_date t = (let (y, m, d) = civil_from_days (t div day) in pad_int 4 y @ ''-'' @ pad_int 2 m @ ''-'' @ pad_int 2 d)"

definition strftime_clock :: "time \<Rightarrow> string" where
  "strftime_clock t = (let secs = t mod day div 1000000
     in pad_int 2 (secs div 3600) @ '':'' @ pad_int 2 (secs div 60 mod 60) @ '':'' @ pad_int 2 (secs mod 60))"

definition resolve_runtime_layout :: "sig_env \<Rightarrow> label_layout \<Rightarrow> string option \<Rightarrow> label_layout sg_meth" where
  "resolve_runtime_layout env layout signer_user =
     bindM (sg_local_now env) (\<lambda>now. retM (layout\<lparr>
       la_name_text := if la_show_name layout then Some (case signer_user of None \<Rightarrow> [] | Some s \<Rightarrow> s) else la_name_text layout,
       la_date_text :=
         if la_show_date layout \<and> la_show_time layout then Some (strftime_date now @ '' '' @ strftime_clock now)
         else if la_show_date layout then Some (strftime_date now) else la_date_text layout\<rparr>))"

text \<open>\<open>PdfSigner._make_overlay\<close> with the labels \<open>_sign_visual\<close> hands it.\<close>

definition label_op ::
  "placement_input \<Rightarrow> pyfloat \<Rightarrow> int \<times> int \<times> int \<Rightarrow> string option \<Rightarrow> string \<Rightarrow> int \<Rightarrow> pyfloat \<Rightarrow> pyfloat \<Rightarrow> pyfloat \<Rightarrow>
   pyfloat option \<Rightarrow> pyfloat option \<Rightarrow> draw_op list" where
  "label_op p target_h color shown position font_size off_above off_below x_offset rel_x rel_y =
     (if truthy shown \<and> position \<noteq> ''off''
      then let (x, y) = resolve_label_pdf_anchor (pl_x p) (pl_y p) target_h position off_above off_below x_offset rel_x rel_y
           in [DrawLabel color (max 6 font_size) x y (the shown)]
      else [])"

definition make_overlay :: "sig_env \<Rightarrow> string \<Rightarrow> placement_input \<Rightarrow> label_layout \<Rightarrow> sig_error + draw_op list" where
  "make_overlay env png p l =
     (case ge_image_size env png of
        None \<Rightarrow> Inl (SgLibraryError ''UnidentifiedImageError'')
      | Some (width, height) \<Rightarrow>
          let aspect = (if 0 < width then float_round (of_nat height / of_nat width) else float_round (3 / 10));
              target_h = compute_target_height (pl_target_width p) (Some aspect);
              color = hex_to_rgb (la_color_hex l)
          in Inr (DrawImage png (pl_x p) (pl_y p) (pl_target_width p) target_h #
               label_op p target_h color (if la_show_name l then la_name_text l else None) (la_name_position l)
                 (la_name_font_size l) (la_name_above l) (la_name_below l) (la_x_offset l) (la_name_rel_x l) (la_name_rel_y l) @
               label_op p target_h color (if la_show_date l then la_date_text l else None) (la_date_position l)
                 (la_date_font_size l) (la_date_above l) (la_date_below l) (la_x_offset l) (la_date_rel_x l) (la_date_rel_y l)))"

definition label_position :: "string \<Rightarrow> sig_error + unit" where
  "label_position v = raise_if (v \<notin> {''above'', ''below'', ''off''}) (SgValueError (repr_str v @ '' is not a valid LabelPosition''))"

definition sign_pdf :: "sig_env \<Rightarrow> string \<Rightarrow> string \<Rightarrow> string \<Rightarrow> placement_input \<Rightarrow> label_layout \<Rightarrow> unit sg_meth" where
  "sign_pdf env input_path output_path png p l =
     bindM (read_file input_path) (\<lambda>pdf.
     bindM (liftE (make_overlay env png p l)) (\<lambda>ops.
     case ge_merge_overlay env pdf (pl_page_index p) ops of
       None \<Rightarrow> raiseM (SgLibraryError ''PdfError'')
     | Some signed \<Rightarrow> write_file output_path signed))"

definition signature_image :: "sig_env \<Rightarrow> sig_request \<Rightarrow> string sg_meth" where
  "signature_image env req =
     (if la_show_signature (sq_layout req)
      then bindM (readM (\<lambda>w. Option.bind (sq_signature_png req) (gw_files w))) (\<lambda>png.
           case png of
             None \<Rightarrow> raiseM (SgImageRequiredError ''signature image is required when show_signature=true'')
           | Some raw \<Rightarrow> retM raw)
      else retM (ge_transparent_png env))"

definition sign_visual :: "sig_env \<Rightarrow> sig_request \<Rightarrow> string \<Rightarrow> unit sg_meth" where
  "sign_visual env req output_pdf = (let l = sq_layout req in
     if \<not> la_show_signature l \<and> \<not> la_show_name l \<and> \<not> la_show_date l then copy_file (sq_input_pdf req) output_pdf
     else
       bindM (signature_image env req) (\<lambda>png.
       bindM (resolve_runtime_layout env l (sq_signer_user req)) (\<lambda>resolved.
       bindM (liftE (label_position (la_name_position resolved))) (\<lambda>_.
       bindM (liftE (label_position (la_date_position resolved))) (\<lambda>_.
       sign_pdf env (sq_input_pdf req) output_pdf png (sq_placement req) resolved)))))"

definition sign_crypto :: "sig_env \<Rightarrow> string \<Rightarrow> string \<Rightarrow> string \<Rightarrow> unit sg_meth" where
  "sign_crypto env input_pdf output_pdf reason =
     (case ge_crypto_signer env of
        None \<Rightarrow> raiseM (SgCryptoNotConfiguredError ''crypto signer not configured'')
      | Some signer \<Rightarrow> (\<lambda>w. case signer input_pdf output_pdf reason (gw_files w) of
            Inl m \<Rightarrow> (Inl (SgLibraryError m), w)
          | Inr files \<Rightarrow> (Inr (), w\<lparr>gw_files := files\<rparr>)))"

section \<open>A signing\<close>

definition sign_by_mode :: "sig_env \<Rightarrow> sig_request \<Rightarrow> string \<Rightarrow> unit sg_meth" where
  "sign_by_mode env req output_pdf =
     (if sq_sign_mode req = ''visual'' then sign_visual env req output_pdf
      else if sq_sign_mode req = ''crypto'' then sign_crypto env (sq_input_pdf req) output_pdf (sq_reason req)
      else if sq_sign_mode req = ''both'' then
        bindM (sign_visual env req output_pdf) (\<lambda>_. sign_crypto env output_pdf output_pdf (sq_reason req))
      else raiseM (SgValueError (''unsupported sign_mode: '' @ sq_sign_mode req)))"

definition signer_or_system :: "sig_request \<Rightarrow> string" where
  "signer_or_system req = (if truthy (sq_signer_user req) then the (sq_signer_user req) else ''system'')"

definition dry_run_copy :: "sig_env \<Rightarrow> sig_request \<Rightarrow> string \<Rightarrow> sig_result sg_meth" where
  "dry_run_copy env req output_pdf =
     bindM (sg_audit ''signature.dry_run'' (signer_or_system req) output_pdf (sq_reason req)) (\<lambda>_.
     bindM (sg_publish env ''domain.signature.sign.dry_run.v1'' [(''output_pdf'', PyStr output_pdf)] (sq_signer_user req)) (\<lambda>_.
     bindM (copy_file (sq_input_pdf req) output_pdf) (\<lambda>_.
     retM \<lparr>sz_output_pdf = output_pdf, sz_signed = False, sz_sha256 = [], sz_dry_run = True, sz_mode = sq_sign_mode req\<rparr>)))"

definition checked_page :: "sig_env \<Rightarrow> sig_request \<Rightarrow> unit sg_meth" where
  "checked_page env req =
     bindM (read_file (sq_input_pdf req)) (\<lambda>pdf.
     case ge_pdf_pages env pdf of
       None \<Rightarrow> raiseM (SgPdfReadError (''failed reading pdf: '' @ sq_input_pdf req))
     | Some pages \<Rightarrow>
         let p = sq_placement req in
         bindM (sg_check (int (length pages) \<le> pl_page_index p)
           (SgInvalidPlacementError (''page_index out of range: '' @ str_int (pl_page_index p) @ '' >= '' @ str_nat (length pages)))) (\<lambda>_.
         bindM (liftE (page_at pages (pl_page_index p))) (\<lambda>page.
         liftE (validate_placement p page))))"

text \<open>The hash, the audit record and the event of a signed file.\<close>

definition record_signing :: "sig_env \<Rightarrow> sig_request \<Rightarrow> string \<Rightarrow> sig_result sg_meth" where
  "record_signing env req output_pdf =
     bindM (read_file output_pdf) (\<lambda>signed.
     let file_hash = ge_sha256 env signed in
     bindM (sg_audit ''signature.signed'' (signer_or_system req) output_pdf (sq_reason req)) (\<lambda>_.
     bindM (sg_publish env ''domain.signature.sign.succeeded.v1'' [(''output_pdf'', PyStr output_pdf), (''sha256'', PyStr file_hash),
       (''mode'', PyStr (sq_sign_mode req))] (sq_signer_user req)) (\<lambda>_.
     retM \<lparr>sz_output_pdf = output_pdf, sz_signed = True, sz_sha256 = file_hash, sz_dry_run = False, sz_mode = sq_sign_mode req\<rparr>)))"

definition sign_for_real :: "sig_env \<Rightarrow> sig_request \<Rightarrow> string \<Rightarrow> sig_result sg_meth" where
  "sign_for_real env req output_pdf =
     bindM (sg_check (sq_sign_mode req = ''crypto'' \<and> ge_crypto_signer env = None)
       (SgCryptoNotConfiguredError ''crypto signer not configured'')) (\<lambda>_.
     bindM (checked_page env req) (\<lambda>_.
     bindM (sign_by_mode env req output_pdf) (\<lambda>_.
     record_signing env req output_pdf)))"

definition sign_attempt :: "sig_env \<Rightarrow> sig_request \<Rightarrow> sig_result sg_meth" where
  "sign_attempt env req =
     bindM (liftE (enforce_password_policy env req)) (\<lambda>_.
     bindM (readM (\<lambda>w. resolve_output (\<lambda>p. gw_files w p \<noteq> None) req)) (\<lambda>resolved.
     bindM (liftE resolved) (\<lambda>output_pdf.
     bindM (file_exists (sq_input_pdf req)) (\<lambda>found.
     bindM (sg_check (\<not> found) (SgPdfReadError (''input PDF not found: '' @ sq_input_pdf req))) (\<lambda>_.
     if sq_dry_run req then dry_run_copy env req output_pdf else sign_for_real env req output_pdf)))))"

definition sign_fixed_position :: "sig_env \<Rightarrow> sig_request \<Rightarrow> sig_result sg_meth" where
  "sign_fixed_position env req =
     bindM (sg_publish env ''domain.signature.sign.requested.v1'' [(''mode'', PyStr (sq_sign_mode req)),
       (''dry_run'', PyBool (sq_dry_run req))] (sq_signer_user req)) (\<lambda>_.
     on_failure (sign_attempt env req) (\<lambda>e.
       sg_publish env ''domain.signature.sign.failed.v1'' [(''error'', PyStr (sig_error_text e)), (''mode'', PyStr (sq_sign_mode req))]
         (sq_signer_user req)))"

end
