(* ===== verification/SigOps.thy ===== *)
theory SigOps
  imports SigExec
begin

text \<open>
  Assets, templates and the active signature: \<open>modules/signature/template_use_cases.py\<close> and
  \<open>signature_policy_ops.py\<close>. An actor is a \<open>UserContext\<close> that may be missing.
\<close>

abbreviation template_error :: "string \<Rightarrow> sig_error" where
  "template_error m \<equiv> SgTemplateError m None"

definition need_repository :: "sig_env \<Rightarrow> sig_error \<Rightarrow> unit sg_meth" where
  "need_repository env e = sg_check (\<not> ge_has_repository env) e"

definition no_template_storage :: sig_error where
  "no_template_storage = template_error ''signature template storage is not configured''"

definition no_asset_storage :: sig_error where
  "no_asset_storage = SgAssetError ''signature template storage is not configured''"

definition confirmed_actor :: "user_context option \<Rightarrow> user_context sg_meth" where
  "confirmed_actor actor = liftE (case require_confirmed_user_context actor of
       Inl m \<Rightarrow> Inl (SgAuthorizationError m) | Inr c \<Rightarrow> Inr c)"

definition is_technical_admin :: "user_context \<Rightarrow> bool" where
  "is_technical_admin c \<longleftrightarrow> list_ex (\<lambda>role. py_upper (py_strip role) = ''ADMIN'') (u_global_roles c)"

section \<open>Images\<close>

definition to_png_bytes :: "sig_env \<Rightarrow> string \<Rightarrow> string sg_meth" where
  "to_png_bytes env source_path =
     bindM (read_file source_path) (\<lambda>raw.
     if py_lower (path_suffix source_path) = ''.png'' then retM raw
     else (case ge_to_png env raw of
         None \<Rightarrow> raiseM (SgAssetError ''failed to normalize GIF signature to PNG'')
       | Some png \<Rightarrow> retM png))"

text \<open>The second half of the import: the blob, the row, the evidence.\<close>

definition store_asset :: "sig_env \<Rightarrow> string \<Rightarrow> string \<Rightarrow> string \<Rightarrow> signature_asset sg_meth" where
  "store_asset env owner_user_id source_name png_bytes =
     bindM (put_blob env owner_user_id ''.png'' png_bytes) (\<lambda>storage_key.
     bindM (sg_draw (ge_hex env)) (\<lambda>asset_id.
     bindM (sg_utcnow env) (\<lambda>created_at.
     let asset = \<lparr>sa_asset_id = asset_id, sa_owner_user_id = owner_user_id, sa_storage_key = storage_key,
           sa_media_type = ''image/png'', sa_original_filename = source_name, sa_sha256 = ge_sha256 env png_bytes,
           sa_size_bytes = length png_bytes, sa_created_at = created_at\<rparr> in
     bindM (add_asset asset) (\<lambda>_.
     bindM (sg_audit ''signature.asset.imported'' owner_user_id asset_id ''signature_asset_import'') (\<lambda>_.
     bindM (sg_publish env ''domain.signature.asset.imported.v1'' [(''asset_id'', PyStr asset_id),
       (''owner_user_id'', PyStr owner_user_id), (''media_type'', PyStr (sa_media_type asset))] (Some owner_user_id)) (\<lambda>_.
     retM asset))))))"

definition import_signature_asset :: "sig_env \<Rightarrow> string \<Rightarrow> string \<Rightarrow> signature_asset sg_meth" where
  "import_signature_asset env owner_user_id source_path =
     bindM (sg_check (\<not> ge_has_repository env \<or> \<not> ge_has_secure_store env) no_asset_storage) (\<lambda>_.
     bindM (file_exists source_path) (\<lambda>found.
     bindM (sg_check (\<not> found) (SgAssetError (''signature source not found: '' @ source_path))) (\<lambda>_.
     bindM (sg_check (py_lower (path_suffix source_path) \<notin> {''.png'', ''.gif''})
       (SgAssetError ''only PNG or GIF signature images are supported'')) (\<lambda>_.
     bindM (to_png_bytes env source_path) (\<lambda>png_bytes.
     store_asset env owner_user_id (pure_name source_path) png_bytes)))))"

section \<open>Templates\<close>

definition create_user_signature_template ::
  "sig_env \<Rightarrow> string \<Rightarrow> string \<Rightarrow> placement_input \<Rightarrow> label_layout \<Rightarrow> string option \<Rightarrow> string \<Rightarrow> string option \<Rightarrow>
   string option \<Rightarrow> signature_template sg_meth" where
  "create_user_signature_template env owner_user_id name placement layout signature_asset_id scope document_type role_context =
     bindM (need_repository env no_template_storage) (\<lambda>_.
     bindM (sg_check (py_strip name = []) (template_error ''template name is required'')) (\<lambda>_.
     bindM (case signature_asset_id of
         None \<Rightarrow> retM ()
       | Some asset_id \<Rightarrow>
           bindM (sg_check (\<not> ge_has_secure_store env) (template_error ''secure store is not configured'')) (\<lambda>_.
           bindM (sg_read (\<lambda>db. get_asset db asset_id)) (\<lambda>found.
           case found of
             None \<Rightarrow> raiseM (template_error (''unknown signature asset: '' @ asset_id))
           | Some asset \<Rightarrow> sg_check (scope = ''user'' \<and> sa_owner_user_id asset \<noteq> owner_user_id)
               (template_error ''signature asset ownership mismatch'')))) (\<lambda>_.
     bindM (sg_draw (ge_hex env)) (\<lambda>template_id.
     bindM (sg_utcnow env) (\<lambda>created_at.
     let template = \<lparr>tm_template_id = template_id, tm_owner_user_id = owner_user_id, tm_name = py_strip name,
           tm_placement = placement, tm_layout = layout, tm_signature_asset_id = signature_asset_id, tm_created_at = created_at,
           tm_scope = (if scope = ''global'' then ''global'' else ''user''), tm_document_type = document_type,
           tm_role_context = role_context, tm_last_used_at = None\<rparr> in
     bindM (upsert_template template) (\<lambda>_.
     bindM (sg_audit ''signature.template.created'' owner_user_id template_id ''signature_template_create'') (\<lambda>_.
     retM template)))))))"

definition create_user_signature_template_for_actor ::
  "sig_env \<Rightarrow> user_context option \<Rightarrow> string \<Rightarrow> placement_input \<Rightarrow> label_layout \<Rightarrow> string option \<Rightarrow> string \<Rightarrow> string option \<Rightarrow>
   string option \<Rightarrow> signature_template sg_meth" where
  "create_user_signature_template_for_actor env actor name placement layout signature_asset_id scope document_type role_context =
     bindM (if scope = ''global''
            then bindM (confirmed_actor actor) (\<lambda>c.
              sg_check (\<not> is_technical_admin c) (template_error ''only technical admins may create global templates''))
            else retM ()) (\<lambda>_.
     bindM (confirmed_actor actor) (\<lambda>c.
     create_user_signature_template env (u_user_id c) name placement layout signature_asset_id scope document_type role_context))"

definition list_user_signature_templates :: "sig_env \<Rightarrow> string \<Rightarrow> signature_template list sg_meth" where
  "list_user_signature_templates env owner_user_id =
     (if ge_has_repository env then sg_read (\<lambda>db. list_templates db owner_user_id) else retM [])"

definition list_global_signature_templates :: "sig_env \<Rightarrow> signature_template list sg_meth" where
  "list_global_signature_templates env = (if ge_has_repository env then sg_read list_global_templates else retM [])"

definition delete_signature_template :: "sig_env \<Rightarrow> string \<Rightarrow> unit sg_meth" where
  "delete_signature_template env template_id =
     bindM (need_repository env no_template_storage) (\<lambda>_. delete_template template_id)"

text \<open>The template of an identifier, and who may manage it.\<close>

definition known_template :: "string \<Rightarrow> signature_template sg_meth" where
  "known_template template_id =
     bindM (sg_read (\<lambda>db. get_template db template_id)) (\<lambda>found. case found of
         None \<Rightarrow> raiseM (template_error (''unknown signature template: '' @ template_id))
       | Some t \<Rightarrow> retM t)"

definition may_manage_template :: "user_context \<Rightarrow> signature_template \<Rightarrow> unit sg_meth" where
  "may_manage_template c t =
     (if tm_scope t = ''global''
      then sg_check (\<not> is_technical_admin c) (template_error ''only technical admins may manage global templates'')
      else sg_check (tm_owner_user_id t \<noteq> u_user_id c) (template_error ''template ownership mismatch''))"

definition delete_signature_template_for_actor :: "sig_env \<Rightarrow> string \<Rightarrow> user_context option \<Rightarrow> unit sg_meth" where
  "delete_signature_template_for_actor env template_id actor =
     bindM (need_repository env no_template_storage) (\<lambda>_.
     bindM (confirmed_actor actor) (\<lambda>c.
     bindM (known_template template_id) (\<lambda>current.
     bindM (may_manage_template c current) (\<lambda>_.
     delete_template template_id))))"

text \<open>What an update carries; \<open>None\<close> at the outer level of the two presets is \<open>..._provided = False\<close>.\<close>

record template_update =
  tu_name :: "string option"
  tu_placement :: "placement_input option"
  tu_layout :: "label_layout option"
  tu_signature_asset_id :: "string option"
  tu_document_type :: "string option option"
  tu_role_context :: "string option option"

definition updated_template :: "template_update \<Rightarrow> signature_template \<Rightarrow> signature_template" where
  "updated_template u t = t\<lparr>
     tm_name := (case tu_name u of None \<Rightarrow> tm_name t | Some n \<Rightarrow> py_strip n),
     tm_placement := (case tu_placement u of None \<Rightarrow> tm_placement t | Some p \<Rightarrow> p),
     tm_layout := (case tu_layout u of None \<Rightarrow> tm_layout t | Some l \<Rightarrow> l),
     tm_signature_asset_id := or_opt (tu_signature_asset_id u) (tm_signature_asset_id t),
     tm_document_type := (case tu_document_type u of None \<Rightarrow> tm_document_type t | Some d \<Rightarrow> d),
     tm_role_context := (case tu_role_context u of None \<Rightarrow> tm_role_context t | Some r \<Rightarrow> r)\<rparr>"

definition update_signature_template :: "sig_env \<Rightarrow> string \<Rightarrow> string \<Rightarrow> template_update \<Rightarrow> signature_template sg_meth" where
  "update_signature_template env template_id owner_user_id u =
     bindM (need_repository env no_template_storage) (\<lambda>_.
     bindM (known_template template_id) (\<lambda>current.
     bindM (sg_check (tm_owner_user_id current \<noteq> owner_user_id) (template_error ''template ownership mismatch'')) (\<lambda>_.
     bindM (case tu_signature_asset_id u of
         None \<Rightarrow> retM ()
       | Some asset_id \<Rightarrow>
           bindM (sg_read (\<lambda>db. get_asset db asset_id)) (\<lambda>found. case found of
             None \<Rightarrow> raiseM (template_error (''unknown signature asset: '' @ asset_id))
           | Some asset \<Rightarrow> sg_check (tm_scope current = ''user'' \<and> sa_owner_user_id asset \<noteq> owner_user_id)
               (template_error ''signature asset ownership mismatch''))) (\<lambda>_.
     let updated = updated_template u current in
     bindM (sg_check (tm_name updated = []) (template_error ''template name is required'')) (\<lambda>_.
     bindM (upsert_template updated) (\<lambda>_.
     bindM (sg_audit ''signature.template.updated'' owner_user_id (tm_template_id updated) ''signature_template_update'') (\<lambda>_.
     retM updated)))))))"

definition update_signature_template_for_actor ::
  "sig_env \<Rightarrow> user_context option \<Rightarrow> string \<Rightarrow> template_update \<Rightarrow> signature_template sg_meth" where
  "update_signature_template_for_actor env actor template_id u =
     bindM (need_repository env no_template_storage) (\<lambda>_.
     bindM (known_template template_id) (\<lambda>current.
     bindM (confirmed_actor actor) (\<lambda>c.
     bindM (may_manage_template c current) (\<lambda>_.
     update_signature_template env template_id (tm_owner_user_id current) u))))"

text \<open>An \<open>OSError\<close> of the store becomes a template error.\<close>

definition copied_blob :: "sig_env \<Rightarrow> string \<Rightarrow> string \<Rightarrow> string sg_meth" where
  "copied_blob env owner_user_id storage_key = (\<lambda>w.
     case bindM (get_blob env storage_key) (\<lambda>payload. put_blob env owner_user_id ''.png'' payload) w of
       (Inl (SgOSError m), w') \<Rightarrow> (Inl (template_error ''global signature asset could not be copied''), w')
     | other \<Rightarrow> other)"

definition copied_asset_id :: "sig_env \<Rightarrow> string \<Rightarrow> string \<Rightarrow> string sg_meth" where
  "copied_asset_id env owner_user_id asset_id =
     bindM (sg_read (\<lambda>db. get_asset db asset_id)) (\<lambda>found. case found of
         None \<Rightarrow> raiseM (template_error (''unknown signature asset: '' @ asset_id))
       | Some source_asset \<Rightarrow>
           if sa_owner_user_id source_asset = owner_user_id then retM asset_id
           else
             bindM (sg_check (\<not> ge_has_secure_store env) (template_error ''secure store is not configured'')) (\<lambda>_.
             bindM (copied_blob env owner_user_id (sa_storage_key source_asset)) (\<lambda>storage_key.
             bindM (sg_draw (ge_hex env)) (\<lambda>new_id.
             bindM (sg_utcnow env) (\<lambda>now.
             bindM (add_asset (source_asset\<lparr>sa_asset_id := new_id, sa_owner_user_id := owner_user_id,
               sa_storage_key := storage_key, sa_created_at := now\<rparr>)) (\<lambda>_.
             retM new_id))))))"

definition copy_global_template_to_user ::
  "sig_env \<Rightarrow> string \<Rightarrow> string \<Rightarrow> string option \<Rightarrow> signature_template sg_meth" where
  "copy_global_template_to_user env template_id owner_user_id name =
     bindM (need_repository env no_template_storage) (\<lambda>_.
     bindM (known_template template_id) (\<lambda>source.
     bindM (sg_check (tm_scope source \<noteq> ''global'') (template_error ''template is not global'')) (\<lambda>_.
     bindM (case tm_signature_asset_id source of
         None \<Rightarrow> retM None
       | Some asset_id \<Rightarrow> bindM (copied_asset_id env owner_user_id asset_id) (\<lambda>i. retM (Some i))) (\<lambda>asset_id.
     create_user_signature_template env owner_user_id (if truthy name then the name else tm_name source @ ''-copy'')
       (tm_placement source) (tm_layout source) asset_id ''user'' (tm_document_type source) (tm_role_context source)))))"

definition copy_global_template_for_actor ::
  "sig_env \<Rightarrow> string \<Rightarrow> user_context option \<Rightarrow> string option \<Rightarrow> signature_template sg_meth" where
  "copy_global_template_for_actor env template_id actor name =
     bindM (confirmed_actor actor) (\<lambda>c. copy_global_template_to_user env template_id (u_user_id c) name)"

end
