(* ===== verification/SigPolicy.thy ===== *)
theory SigPolicy
  imports SigOps
begin

text \<open>
  The active signature of a user (\<open>modules/signature/signature_policy_ops.py\<close>), the suggestion of a template and
  signing with a template (\<open>template_use_cases.py\<close>).
\<close>

section \<open>The active signature\<close>

definition require_valid_password :: "sig_env \<Rightarrow> string \<Rightarrow> string option \<Rightarrow> unit sg_meth" where
  "require_valid_password env owner_user_id password =
     bindM (sg_check (\<not> truthy password)
       (SgPasswordRequiredError ''password required for replacing or deleting active signature'')) (\<lambda>_.
     sg_check (\<not> ge_password_verifier env owner_user_id (the password)) (SgPasswordInvalidError ''password verification failed''))"

definition set_active_signature_asset :: "sig_env \<Rightarrow> string \<Rightarrow> string \<Rightarrow> string option \<Rightarrow> unit sg_meth" where
  "set_active_signature_asset env owner_user_id asset_id password =
     bindM (need_repository env no_asset_storage) (\<lambda>_.
     bindM (sg_read (\<lambda>db. get_asset db asset_id)) (\<lambda>found. case found of
         None \<Rightarrow> raiseM (SgAssetError (''unknown signature asset: '' @ asset_id))
       | Some asset \<Rightarrow>
           bindM (sg_check (sa_owner_user_id asset \<noteq> owner_user_id) (SgAssetError ''active signature ownership mismatch'')) (\<lambda>_.
           bindM (sg_read (\<lambda>db. active_asset_id db owner_user_id)) (\<lambda>current.
           bindM (if current \<noteq> None \<and> current \<noteq> Some asset_id then require_valid_password env owner_user_id password
                  else retM ()) (\<lambda>_.
           set_active_row env owner_user_id asset_id)))))"

definition get_active_signature_asset_id :: "sig_env \<Rightarrow> string \<Rightarrow> string option sg_meth" where
  "get_active_signature_asset_id env owner_user_id =
     (if ge_has_repository env then sg_read (\<lambda>db. active_asset_id db owner_user_id) else retM None)"

definition clear_active_signature :: "sig_env \<Rightarrow> string \<Rightarrow> string option \<Rightarrow> unit sg_meth" where
  "clear_active_signature env owner_user_id password =
     bindM (need_repository env no_asset_storage) (\<lambda>_.
     bindM (sg_read (\<lambda>db. active_asset_id db owner_user_id)) (\<lambda>current.
     if current = None then retM ()
     else bindM (require_valid_password env owner_user_id password) (\<lambda>_. clear_active_row owner_user_id)))"

definition export_active_signature :: "sig_env \<Rightarrow> string \<Rightarrow> string \<Rightarrow> string sg_meth" where
  "export_active_signature env owner_user_id target_path =
     bindM (sg_check (\<not> ge_has_repository env \<or> \<not> ge_has_secure_store env) no_asset_storage) (\<lambda>_.
     bindM (sg_read (\<lambda>db. active_asset_id db owner_user_id)) (\<lambda>asset_id.
     bindM (sg_check (\<not> truthy asset_id) (SgAssetError ''no active signature for user'')) (\<lambda>_.
     bindM (sg_read (\<lambda>db. get_asset db (the asset_id))) (\<lambda>found. case found of
         None \<Rightarrow> raiseM (SgAssetError ''active signature asset missing'')
       | Some asset \<Rightarrow>
           bindM (get_blob env (sa_storage_key asset)) (\<lambda>blob.
           bindM (write_file target_path blob) (\<lambda>_. retM target_path))))))"

definition safe_png_basename :: "string \<Rightarrow> string" where
  "safe_png_basename filename_hint =
     (let raw = py_strip (replace_char backslash [slash] filename_hint);
          first = hd (split_on slash raw);
          parts = filter (\<lambda>part. part \<notin> {'''', ''.''}) (split_on slash raw)
      in if raw = [] then ''canvas.png''
         else if starts_with raw ''/'' \<or> starts_with raw ''~'' \<or> CHR '':'' \<in> set first then ''canvas.png''
         else if parts = [] \<or> ''..'' \<in> set parts then ''canvas.png''
         else let safe = filter (\<lambda>ch. py_alnum ch \<or> ch \<in> {CHR ''-'', CHR ''_''}) (path_stem (last parts))
              in (if safe = [] then ''canvas'' else safe) @ ''.png'')"

definition import_signature_asset_bytes :: "sig_env \<Rightarrow> string \<Rightarrow> string \<Rightarrow> string \<Rightarrow> signature_asset sg_meth" where
  "import_signature_asset_bytes env owner_user_id png_bytes filename_hint =
     bindM (sg_check (\<not> ge_has_repository env \<or> \<not> ge_has_secure_store env) no_asset_storage) (\<lambda>_.
     bindM (sg_draw (ge_temp_dir env)) (\<lambda>tmp.
     let temp = tmp @ ''/'' @ safe_png_basename filename_hint in
     finally_do
       (bindM (sg_check (\<not> starts_with temp (tmp @ ''/'') \<or> py_lower (path_suffix temp) \<noteq> ''.png'')
          (SgAssetError ''unsafe signature temp path'')) (\<lambda>_.
        bindM (write_file temp png_bytes) (\<lambda>_. import_signature_asset env owner_user_id temp)))
       (remove_tree tmp)))"

definition and_set_active :: "sig_env \<Rightarrow> string \<Rightarrow> string option \<Rightarrow> signature_asset sg_meth \<Rightarrow> signature_asset sg_meth" where
  "and_set_active env owner_user_id password importing =
     bindM importing (\<lambda>asset.
     bindM (set_active_signature_asset env owner_user_id (sa_asset_id asset) password) (\<lambda>_. retM asset))"

definition import_signature_asset_and_set_active ::
  "sig_env \<Rightarrow> string \<Rightarrow> string \<Rightarrow> string option \<Rightarrow> signature_asset sg_meth" where
  "import_signature_asset_and_set_active env owner_user_id source_path password =
     and_set_active env owner_user_id password (import_signature_asset env owner_user_id source_path)"

definition import_signature_asset_bytes_and_set_active ::
  "sig_env \<Rightarrow> string \<Rightarrow> string \<Rightarrow> string \<Rightarrow> string option \<Rightarrow> signature_asset sg_meth" where
  "import_signature_asset_bytes_and_set_active env owner_user_id png_bytes filename_hint password =
     and_set_active env owner_user_id password (import_signature_asset_bytes env owner_user_id png_bytes filename_hint)"

section \<open>Suggesting a template\<close>

definition template_matches_context :: "string option \<Rightarrow> string option \<Rightarrow> signature_template \<Rightarrow> bool" where
  "template_matches_context document_type role_context t \<longleftrightarrow>
     (tm_document_type t = None \<or> tm_document_type t = document_type) \<and>
     (tm_role_context t = None \<or> tm_role_context t = role_context)"

text \<open>The key of a candidate; a template that was never used ranks below every time.\<close>

definition suggestion_rank_key :: "signature_template \<times> bool \<Rightarrow> nat \<times> (nat \<times> time) \<times> time \<times> string" where
  "suggestion_rank_key c = (case c of (t, user_scope) \<Rightarrow>
     (if user_scope then 1 else 0, (case tm_last_used_at t of None \<Rightarrow> (0, 0) | Some u \<Rightarrow> (1, u)), tm_created_at t, tm_template_id t))"

text \<open>The two loops that collect the candidates, with the global templates already seen.\<close>

fun own_candidates ::
  "(signature_template \<Rightarrow> bool) \<Rightarrow> signature_template list \<Rightarrow> (signature_template \<times> bool) list \<Rightarrow> string list \<Rightarrow>
   (signature_template \<times> bool) list \<times> string list" where
  "own_candidates matches [] candidates seen = (candidates, seen)"
| "own_candidates matches (t # ts) candidates seen =
     (if tm_scope t = ''user''
      then own_candidates matches ts (if matches t then candidates @ [(t, True)] else candidates) seen
      else if tm_scope t = ''global'' \<and> tm_template_id t \<notin> set seen \<and> matches t
      then own_candidates matches ts (candidates @ [(t, False)]) (tm_template_id t # seen)
      else own_candidates matches ts candidates seen)"

fun global_candidates ::
  "(signature_template \<Rightarrow> bool) \<Rightarrow> signature_template list \<Rightarrow> (signature_template \<times> bool) list \<Rightarrow> string list \<Rightarrow>
   (signature_template \<times> bool) list" where
  "global_candidates matches [] candidates seen = candidates"
| "global_candidates matches (t # ts) candidates seen =
     (if tm_template_id t \<notin> set seen \<and> matches t
      then global_candidates matches ts (candidates @ [(t, False)]) (tm_template_id t # seen)
      else global_candidates matches ts candidates seen)"

definition suggestion_candidates :: "sig_db \<Rightarrow> string \<Rightarrow> (signature_template \<Rightarrow> bool) \<Rightarrow> (signature_template \<times> bool) list" where
  "suggestion_candidates db user_id matches =
     (case own_candidates matches (list_templates db user_id) [] [] of
        (candidates, seen) \<Rightarrow> global_candidates matches (list_global_templates db) candidates seen)"

text \<open>\<open>max\<close> keeps the first of several greatest elements.\<close>

fun first_max :: "('a \<Rightarrow> 'k :: linorder) \<Rightarrow> 'a \<Rightarrow> 'a list \<Rightarrow> 'a" where
  "first_max key best [] = best"
| "first_max key best (x # xs) = first_max key (if key best < key x then x else best) xs"

definition suggest_template_for_actor ::
  "sig_env \<Rightarrow> user_context option \<Rightarrow> string option \<Rightarrow> string option \<Rightarrow> signature_template option sg_meth" where
  "suggest_template_for_actor env actor document_type role_context =
     (if \<not> ge_has_repository env then retM None
      else bindM (confirmed_actor actor) (\<lambda>c.
           bindM (sg_read (\<lambda>db. suggestion_candidates db (u_user_id c) (template_matches_context document_type role_context))) (\<lambda>cs.
           retM (case cs of [] \<Rightarrow> None | x # xs \<Rightarrow> Some (fst (first_max suggestion_rank_key x xs))))))"

section \<open>Signing with a template\<close>

record template_signing =
  ts_template_id :: string
  ts_input_pdf :: string
  ts_password :: "string option"
  ts_output_pdf :: "string option"
  ts_dry_run :: bool
  ts_overwrite_output :: bool
  ts_sign_mode :: string
  ts_reason :: string
  ts_placement_override :: "placement_input option"
  ts_layout_override :: "label_layout option"

definition signable_template :: "string \<Rightarrow> signature_template sg_meth" where
  "signable_template template_id =
     bindM (sg_read (\<lambda>db. get_template db template_id)) (\<lambda>found. case found of
         None \<Rightarrow> raiseM (SgTemplateError (''unknown signature template: '' @ template_id) (Some (''template_id'', ''unknown'')))
       | Some t \<Rightarrow> retM t)"

text \<open>The stored image of the template, or of the active signature of the signer, in a fresh directory.\<close>

definition signing_asset :: "sig_env \<Rightarrow> signature_template \<Rightarrow> string \<Rightarrow> signature_asset sg_meth" where
  "signing_asset env t signer_user =
     bindM (if truthy (tm_signature_asset_id t) then retM (tm_signature_asset_id t)
            else get_active_signature_asset_id env signer_user) (\<lambda>asset_id.
     bindM (sg_check (\<not> truthy asset_id) (template_error ''template requires signature asset but none is linked'')) (\<lambda>_.
     bindM (sg_check (\<not> ge_has_secure_store env) (template_error ''secure store is not configured'')) (\<lambda>_.
     bindM (sg_read (\<lambda>db. get_asset db (the asset_id))) (\<lambda>found. case found of
         None \<Rightarrow> raiseM (template_error (''unknown signature asset: '' @ the asset_id))
       | Some asset \<Rightarrow> retM asset))))"

definition staged_image :: "sig_env \<Rightarrow> signature_template \<Rightarrow> string \<Rightarrow> string option sg_meth" where
  "staged_image env t signer_user =
     (if la_show_signature (tm_layout t)
      then bindM (signing_asset env t signer_user) (\<lambda>asset.
           bindM (get_blob env (sa_storage_key asset)) (\<lambda>blob.
           bindM (sg_draw (ge_temp_dir env)) (\<lambda>tmp.
           bindM (write_file (tmp @ ''/signature.png'') blob) (\<lambda>_. retM (Some tmp)))))
      else retM None)"

definition template_request :: "template_signing \<Rightarrow> signature_template \<Rightarrow> string \<Rightarrow> string option \<Rightarrow> sig_request" where
  "template_request s t signer_user tmp =
     \<lparr>sq_input_pdf = ts_input_pdf s,
      sq_placement = (case ts_placement_override s of None \<Rightarrow> tm_placement t | Some p \<Rightarrow> p),
      sq_layout = (case ts_layout_override s of None \<Rightarrow> tm_layout t | Some l \<Rightarrow> l),
      sq_signature_png = map_option (\<lambda>d. d @ ''/signature.png'') tmp, sq_output_pdf = ts_output_pdf s,
      sq_overwrite_output = ts_overwrite_output s, sq_dry_run = ts_dry_run s, sq_sign_mode = ts_sign_mode s,
      sq_signer_user = Some signer_user, sq_password = ts_password s, sq_reason = ts_reason s\<rparr>"

definition sign_with_template :: "sig_env \<Rightarrow> string \<Rightarrow> template_signing \<Rightarrow> sig_result sg_meth" where
  "sign_with_template env signer_user s =
     bindM (need_repository env no_template_storage) (\<lambda>_.
     bindM (signable_template (ts_template_id s)) (\<lambda>t.
     bindM (sg_check (ts_sign_mode s \<noteq> ''visual'')
       (SgTemplateError ''signature templates support visual signing only'' (Some (''sign_mode'', ''unsupported_with_template'')))) (\<lambda>_.
     bindM (staged_image env t signer_user) (\<lambda>tmp.
     finally_do
       (bindM (sign_fixed_position env (template_request s t signer_user tmp)) (\<lambda>r.
        bindM (if sz_signed r \<and> \<not> sz_dry_run r
               then bindM (sg_utcnow env) (\<lambda>now. touch_template_last_used_at (ts_template_id s) now)
               else retM ()) (\<lambda>_. retM r)))
       (case tmp of None \<Rightarrow> (\<lambda>w. w) | Some d \<Rightarrow> remove_tree d)))))"

definition sign_template_for_actor :: "sig_env \<Rightarrow> user_context option \<Rightarrow> template_signing \<Rightarrow> sig_result sg_meth" where
  "sign_template_for_actor env actor s =
     bindM (need_repository env no_template_storage) (\<lambda>_.
     bindM (confirmed_actor actor) (\<lambda>c.
     bindM (signable_template (ts_template_id s)) (\<lambda>t.
     bindM (sg_check (tm_scope t \<noteq> ''global'' \<and> tm_owner_user_id t \<noteq> u_user_id c) (template_error ''template ownership mismatch'')) (\<lambda>_.
     sign_with_template env (u_username c) s))))"

section \<open>Requests\<close>

datatype sig_call =
    ImportAsset string string
  | ImportAssetBytes string string string
  | ImportAndActivate string string "string option"
  | ImportBytesAndActivate string string string "string option"
  | SetActive string string "string option"
  | ClearActive string "string option"
  | ExportActive string string
  | CreateTemplate string string placement_input label_layout "string option" string "string option" "string option"
  | CreateTemplateForActor "user_context option" string placement_input label_layout "string option" string "string option" "string option"
  | UpdateTemplate string string template_update
  | UpdateTemplateForActor "user_context option" string template_update
  | DeleteTemplate string
  | DeleteTemplateForActor string "user_context option"
  | CopyGlobal string string "string option"
  | CopyGlobalForActor string "user_context option" "string option"
  | SignFixed sig_request
  | SignTemplate string template_signing
  | SignTemplateForActor "user_context option" template_signing

definition quietly :: "'a sg_meth \<Rightarrow> unit sg_meth" where
  "quietly m = bindM m (\<lambda>_. retM ())"

primrec run_signature :: "sig_env \<Rightarrow> sig_call \<Rightarrow> unit sg_meth" where
  "run_signature env (ImportAsset owner path) = quietly (import_signature_asset env owner path)"
| "run_signature env (ImportAssetBytes owner bytes hint) = quietly (import_signature_asset_bytes env owner bytes hint)"
| "run_signature env (ImportAndActivate owner path pw) = quietly (import_signature_asset_and_set_active env owner path pw)"
| "run_signature env (ImportBytesAndActivate owner bytes hint pw) =
     quietly (import_signature_asset_bytes_and_set_active env owner bytes hint pw)"
| "run_signature env (SetActive owner asset pw) = set_active_signature_asset env owner asset pw"
| "run_signature env (ClearActive owner pw) = clear_active_signature env owner pw"
| "run_signature env (ExportActive owner target) = quietly (export_active_signature env owner target)"
| "run_signature env (CreateTemplate owner name p l asset scope doc role) =
     quietly (create_user_signature_template env owner name p l asset scope doc role)"
| "run_signature env (CreateTemplateForActor actor name p l asset scope doc role) =
     quietly (create_user_signature_template_for_actor env actor name p l asset scope doc role)"
| "run_signature env (UpdateTemplate i owner u) = quietly (update_signature_template env i owner u)"
| "run_signature env (UpdateTemplateForActor actor i u) = quietly (update_signature_template_for_actor env actor i u)"
| "run_signature env (DeleteTemplate i) = delete_signature_template env i"
| "run_signature env (DeleteTemplateForActor i actor) = delete_signature_template_for_actor env i actor"
| "run_signature env (CopyGlobal i owner name) = quietly (copy_global_template_to_user env i owner name)"
| "run_signature env (CopyGlobalForActor i actor name) = quietly (copy_global_template_for_actor env i actor name)"
| "run_signature env (SignFixed req) = quietly (sign_fixed_position env req)"
| "run_signature env (SignTemplate signer s) = quietly (sign_with_template env signer s)"
| "run_signature env (SignTemplateForActor actor s) = quietly (sign_template_for_actor env actor s)"

text \<open>
  The environment may change between two calls (the setting, the accounts behind the verifier, the files others
  write), its identifiers and its cipher stay.
\<close>

inductive sig_reachable :: "sig_env set \<Rightarrow> (sig_call \<Rightarrow> bool) \<Rightarrow> sig_world \<Rightarrow> bool" for envs allowed where
  start: "sig_reachable envs allowed (sig_world_of files)"
| step: "sig_reachable envs allowed w \<Longrightarrow> env \<in> envs \<Longrightarrow> allowed call \<Longrightarrow> sig_reachable envs allowed (after (run_signature env call w))"
| files: "sig_reachable envs allowed w \<Longrightarrow> sig_reachable envs allowed (w\<lparr>gw_files := files\<rparr>)"

end
