(* ===== verification/MethodWp.thy ===== *)
theory MethodWp
  imports Prelude
begin

text \<open>
  Weakest preconditions of methods over the whole world, with one postcondition for a result and one for an
  exception. The equations \<open>wp_simps\<close> take a method apart in the order it runs.
\<close>

definition wp :: "('w, 'e, 'a) meth \<Rightarrow> ('a \<Rightarrow> 'w \<Rightarrow> bool) \<Rightarrow> ('e \<Rightarrow> 'w \<Rightarrow> bool) \<Rightarrow> 'w \<Rightarrow> bool" where
  "wp m Q E w \<longleftrightarrow> (case m w of (Inl e, w') \<Rightarrow> E e w' | (Inr x, w') \<Rightarrow> Q x w')"

named_theorems wp_simps \<open>equations that compute the weakest precondition of a method\<close>

lemma wpI:
  "(\<And>x w'. m w = (Inr x, w') \<Longrightarrow> Q x w') \<Longrightarrow> (\<And>e w'. m w = (Inl e, w') \<Longrightarrow> E e w') \<Longrightarrow> wp m Q E w"
  unfolding wp_def by (auto split: prod.split sum.split)

lemma wp_Inr: "wp m Q E w \<Longrightarrow> m w = (Inr x, w') \<Longrightarrow> Q x w'"
  by (simp add: wp_def)

lemma wp_Inl: "wp m Q E w \<Longrightarrow> m w = (Inl e, w') \<Longrightarrow> E e w'"
  by (simp add: wp_def)

lemma wp_weaken: "wp m Q E w \<Longrightarrow> (\<And>x w'. Q x w' \<Longrightarrow> Q' x w') \<Longrightarrow> (\<And>e w'. E e w' \<Longrightarrow> E' e w') \<Longrightarrow> wp m Q' E' w"
  unfolding wp_def by (auto split: prod.splits sum.splits)

lemma wp_bindM [wp_simps]: "wp (bindM m f) Q E w = wp m (\<lambda>x. wp (f x) Q E) E w"
  unfolding wp_def bindM_def by (auto split: prod.split sum.split)

lemma wp_eqs [wp_simps]:
  "wp (retM x) Q1 E w = Q1 x w"
  "wp (raiseM e) Q2 E w = E e w"
  "wp (liftE r) Q3 E w = (case r of Inl e \<Rightarrow> E e w | Inr x \<Rightarrow> Q3 x w)"
  "wp (readM g) Q4 E w = Q4 (g w) w"
  "wp (modifyM h) Q5 E w = Q5 () (h w)"
  by (auto simp: wp_def split: sum.split)

lemma wp_if [wp_simps]: "wp (if c then m else n) Q E w = (if c then wp m Q E w else wp n Q E w)"
  by simp

lemma wp_case_option [wp_simps]:
  "wp (case opt of None \<Rightarrow> n | Some x \<Rightarrow> f x) Q E w = (case opt of None \<Rightarrow> wp n Q E w | Some x \<Rightarrow> wp (f x) Q E w)"
  by (cases opt) simp_all

lemma wp_case_prod [wp_simps]: "wp (case p of (x, y) \<Rightarrow> f x y) Q E w = (case p of (x, y) \<Rightarrow> wp (f x y) Q E w)"
  by (cases p) simp

lemma wp_case_sum [wp_simps]:
  "wp (case s of Inl e \<Rightarrow> h e | Inr y \<Rightarrow> k y) Q E w = (case s of Inl e \<Rightarrow> wp (h e) Q E w | Inr y \<Rightarrow> wp (k y) Q E w)"
  by (cases s) simp_all

lemma keeps_iff_wp: "keeps I m \<longleftrightarrow> (\<forall>w. I w \<longrightarrow> wp m (\<lambda>_. I) (\<lambda>_. I) w)"
proof
  assume "keeps I m"
  then show "\<forall>w. I w \<longrightarrow> wp m (\<lambda>_. I) (\<lambda>_. I) w" by (auto intro!: wpI dest: keeps_run)
next
  assume wp: "\<forall>w. I w \<longrightarrow> wp m (\<lambda>_. I) (\<lambda>_. I) w"
  show "keeps I m"
  proof (rule keepsI)
    fix w assume "I w"
    with wp have "wp m (\<lambda>_. I) (\<lambda>_. I) w" by blast
    then show "I (after (m w))" unfolding wp_def by (auto split: prod.splits sum.splits)
  qed
qed

lemma wp_keeps: "keeps I m \<Longrightarrow> I w \<Longrightarrow> (\<And>x w'. I w' \<Longrightarrow> Q x w') \<Longrightarrow> (\<And>e w'. I w' \<Longrightarrow> E e w') \<Longrightarrow> wp m Q E w"
  by (blast intro: wpI dest: keeps_run)

lemma keeps_conj: "keeps I m \<Longrightarrow> keeps J m \<Longrightarrow> keeps (\<lambda>w. I w \<and> J w) m"
  by (simp add: keeps_def)

end
