(* ===== verification/SigLaws.thy ===== *)
theory SigLaws
  imports SigPolicy MethodWp
begin

text \<open>
  What the calls of the signature module keep. The locale \<open>sig_frame\<close> is the interface of a fact that only the
  tables and the stored images decide: it survives every change of files, events, audit records, clock and
  draws, so signing keeps it as soon as touching a template does.
\<close>

section \<open>Weakest preconditions of the primitives\<close>

lemma wp_sg [wp_simps]:
  "wp (sg_utcnow env) Q1 E w = Q1 (ge_clock env (gw_ticks w)) (w\<lparr>gw_ticks := Suc (gw_ticks w)\<rparr>)"
  "wp (sg_local_now env) Q2 E w = Q2 (ge_local_clock env (gw_ticks w)) (w\<lparr>gw_ticks := Suc (gw_ticks w)\<rparr>)"
  "wp (sg_draw f) Q3 E w = Q3 (f (gw_draws w)) (w\<lparr>gw_draws := Suc (gw_draws w)\<rparr>)"
  "wp (sg_read g) Q4 E w = Q4 (g (gw_db w)) w"
  "wp (sg_write h) Q5 E w = Q5 () (w\<lparr>gw_db := h (gw_db w)\<rparr>)"
  "wp (sg_check bad e) Q6 E w = (if bad then E e w else Q6 () w)"
  "wp (need_repository env e) Q6 E w = (if ge_has_repository env then Q6 () w else E e w)"
  by (simp_all add: wp_def sg_utcnow_def sg_local_now_def sg_draw_def sg_read_def sg_write_def sg_check_def need_repository_def raise_if_def)

lemma wp_files [wp_simps]:
  "wp (read_file path) Q1 E w =
     (case gw_files w path of None \<Rightarrow> E (SgOSError ''FileNotFoundError'') w | Some content \<Rightarrow> Q1 content w)"
  "wp (write_file path content) Q2 E w = Q2 () (w\<lparr>gw_files := (gw_files w)(path := Some content)\<rparr>)"
  "wp (file_exists path) Q3 E w = Q3 (gw_files w path \<noteq> None) w"
  "wp (sg_audit a b c d) Q2 E w = Q2 () (w\<lparr>gw_audit := gw_audit w @ [\<lparr>au_action = a, au_actor = b, au_target = c,
     au_result = ''ok'', au_reason = d\<rparr>]\<rparr>)"
  by (auto simp: wp_def read_file_def write_file_def file_exists_def sg_audit_def split: option.split)

lemma wp_get_blob [wp_simps]:
  "wp (get_blob env key) Q E w = (case map_of (gw_blobs w) key of
       None \<Rightarrow> E (SgOSError ''FileNotFoundError'') w
     | Some cipher \<Rightarrow> (case ge_decrypt env cipher of None \<Rightarrow> E (SgLibraryError ''InvalidToken'') w | Some raw \<Rightarrow> Q raw w))"
  by (auto simp: wp_def get_blob_def split: option.split)

lemma wp_on_error [wp_simps]: "wp (on_failure m h) Q E w = wp m Q (\<lambda>e w'. E e (after (h e w'))) w"
  by (auto simp: wp_def on_failure_def split: prod.split sum.split)

lemma wp_finally_do [wp_simps]:
  "wp (finally_do m g) Q E w = wp m (\<lambda>x w'. Q x (g w')) (\<lambda>e w'. E e (g w')) w"
  by (auto simp: wp_def finally_do_def split: prod.split sum.split)

lemma wp_confirmed_actor [wp_simps]:
  "wp (confirmed_actor actor) Q E w = (case require_confirmed_user_context actor of
       Inl m \<Rightarrow> E (SgAuthorizationError m) w | Inr c \<Rightarrow> Q c w)"
  by (auto simp: wp_def confirmed_actor_def split: sum.split)

lemma wp_known_template [wp_simps]:
  "wp (known_template i) Q E w = (case get_template (gw_db w) i of
       None \<Rightarrow> E (template_error (''unknown signature template: '' @ i)) w | Some t \<Rightarrow> Q t w)"
  "wp (signable_template i) Q E w = (case get_template (gw_db w) i of
       None \<Rightarrow> E (SgTemplateError (''unknown signature template: '' @ i) (Some (''template_id'', ''unknown''))) w | Some t \<Rightarrow> Q t w)"
  unfolding known_template_def signable_template_def by (simp_all add: wp_simps split: option.split)

text \<open>Publishing an event touches events, clock and draws only; without a bus nothing happens.\<close>

definition event_names :: "sig_world \<Rightarrow> string list" where
  "event_names w = map ev_name (gw_events w)"

definition published_as :: "sig_env \<Rightarrow> string \<Rightarrow> sig_world \<Rightarrow> sig_world \<Rightarrow> bool" where
  "published_as env name w w' \<longleftrightarrow> gw_db w' = gw_db w \<and> gw_blobs w' = gw_blobs w \<and> gw_files w' = gw_files w \<and>
     gw_audit w' = gw_audit w \<and> event_names w' = event_names w @ (if ge_has_event_bus env then [name] else [])"

lemma publish_result: "\<exists>w'. sg_publish env name payload actor w = (Inr (), w') \<and> published_as env name w w'"
  by (simp add: sg_publish_def published_as_def event_names_def bindM_def sg_draw_def sg_utcnow_def)

lemma wp_publish_as: "(\<And>w'. published_as env name w w' \<Longrightarrow> Q () w') \<Longrightarrow> wp (sg_publish env name payload actor) Q E w"
  using publish_result [of env name payload actor w] by (auto simp: wp_def)

section \<open>Frames\<close>

text \<open>What the drawing of a signature keeps: it reads and writes files and reads the clock.\<close>

locale drawing_frame =
  fixes I :: "sig_world \<Rightarrow> bool"
  assumes files: "I w \<Longrightarrow> I (w\<lparr>gw_files := f\<rparr>)"
    and ticks: "I w \<Longrightarrow> I (w\<lparr>gw_ticks := n\<rparr>)"
begin

lemma draws_basic:
  "keeps I (sg_utcnow env)" "keeps I (sg_local_now env)" "keeps I (sg_read h)" "keeps I (sg_check b e)"
  "keeps I (read_file p)" "keeps I (write_file p c)" "keeps I (file_exists p)" "keeps I (get_blob env key)"
  "keeps I (need_repository env e)" "keeps I (confirmed_actor actor)" "keeps I (known_template i)" "keeps I (signable_template i)"
  by (auto simp: keeps_iff_wp wp_simps files ticks split: option.split sum.split)

lemma keeps_remove: "I w \<Longrightarrow> I (remove_tree d w)"
  unfolding remove_tree_def by (rule files)

lemma keeps_finish: "keeps I m \<Longrightarrow> (\<And>w. I w \<Longrightarrow> I (g w)) \<Longrightarrow> keeps I (finally_do m g)"
  unfolding keeps_def finally_do_def by (auto split: prod.split)

lemmas draw_rules = keeps_intros draws_basic keeps_finish

lemma keeps_copy_file: "keeps I (copy_file src dst)"
  unfolding copy_file_def by (intro draw_rules)

lemma keeps_visual: "keeps I (sign_visual env req out)"
  unfolding sign_visual_def signature_image_def resolve_runtime_layout_def sign_pdf_def Let_def
  by (intro draw_rules keeps_copy_file)

lemma keeps_crypto: "keeps I (sign_crypto env i o' r)"
  unfolding sign_crypto_def by (auto simp: keeps_def files split: option.split sum.split)

lemma keeps_by_mode: "keeps I (sign_by_mode env req out)"
  unfolding sign_by_mode_def by (intro draw_rules keeps_visual keeps_crypto)

lemma keeps_checked_page: "keeps I (checked_page env req)"
  unfolding checked_page_def Let_def by (intro draw_rules)

lemma keeps_export: "keeps I (export_active_signature env owner target)"
  unfolding export_active_signature_def by (intro draw_rules)

end

text \<open>What signing keeps: it draws identifiers and records evidence besides.\<close>

locale sig_frame = drawing_frame I for I +
  assumes draws: "I w \<Longrightarrow> I (w\<lparr>gw_draws := Suc (gw_draws w)\<rparr>)"
    and events: "I w \<Longrightarrow> I (w\<lparr>gw_events := es\<rparr>)"
    and audit: "I w \<Longrightarrow> I (w\<lparr>gw_audit := as\<rparr>)"
begin

lemma evidence_basic: "keeps I (sg_draw g)" "keeps I (sg_audit a b' c' d)"
  by (auto simp: keeps_iff_wp wp_simps draws audit)

lemma keeps_publish: "keeps I (sg_publish env name payload actor)"
  unfolding sg_publish_def by (intro draw_rules evidence_basic keeps_modifyM events)

lemma keeps_on_error: "keeps I m \<Longrightarrow> (\<And>e. keeps I (h e)) \<Longrightarrow> keeps I (on_failure m h)"
  unfolding keeps_def on_failure_def by (auto split: prod.split sum.split)

lemmas rules = draw_rules evidence_basic keeps_publish keeps_on_error

lemma keeps_attempt: "keeps I (sign_attempt env req)"
  unfolding sign_attempt_def dry_run_copy_def sign_for_real_def record_signing_def Let_def
  by (intro rules keeps_copy_file keeps_checked_page keeps_by_mode)

lemma keeps_signing: "keeps I (sign_fixed_position env req)"
  unfolding sign_fixed_position_def by (intro rules keeps_attempt)

lemma keeps_staged: "keeps I (staged_image env t signer)"
  unfolding staged_image_def signing_asset_def get_active_signature_asset_id_def by (intro rules)

lemma keeps_with_template:
  assumes "\<And>i now. keeps I (touch_template_last_used_at i now)"
  shows "keeps I (sign_with_template env signer s)"
  unfolding sign_with_template_def
  by (intro rules keeps_staged keeps_signing assms) (auto split: option.split intro: keeps_remove)

lemma keeps_for_actor:
  assumes "\<And>i now. keeps I (touch_template_last_used_at i now)"
  shows "keeps I (sign_template_for_actor env actor s)"
  unfolding sign_template_for_actor_def by (intro rules keeps_with_template assms)

end

end
