(* ===== verification/SigInvariants.thy ===== *)
theory SigInvariants
  imports SigLaws
begin

text \<open>
  The invariants of the signature module over every sequence of calls: the tables are consistent, and every
  stored image decrypts to the bytes whose digest and size its asset records.
\<close>

section \<open>Statements\<close>

lemma wp_add_asset [wp_simps]:
  "wp (add_asset a) Q E w = (if sa_asset_id a \<in> sa_asset_id ` set (gd_assets (gw_db w)) then E (SgDbError ''IntegrityError'') w
     else Q () (w\<lparr>gw_db := (gw_db w)\<lparr>gd_assets := gd_assets (gw_db w) @ [a]\<rparr>\<rparr>))"
  by (simp add: add_asset_def wp_simps)

lemma wp_upsert_template [wp_simps]:
  "wp (upsert_template t) Q E w = (case check_template_row t of Inl e \<Rightarrow> E e w
     | Inr _ \<Rightarrow> Q () (w\<lparr>gw_db := (gw_db w)\<lparr>gd_templates :=
         filter (\<lambda>r. tm_template_id r \<noteq> tm_template_id t) (gd_templates (gw_db w)) @ [template_row t]\<rparr>\<rparr>))"
  by (simp add: upsert_template_def wp_simps split: sum.split)

lemma wp_put_blob:
  "wp (put_blob env owner extension payload) Q E w =
     (let key = owner @ ''/'' @ ge_hex env (gw_draws w) @ (if starts_with extension ''.'' then extension else ''.'' @ extension) @ ''.enc''
      in Q key (w\<lparr>gw_draws := Suc (Suc (gw_draws w)),
           gw_blobs := AList.update key (ge_encrypt env (Suc (gw_draws w)) payload) (gw_blobs w)\<rparr>))"
  by (simp add: put_blob_def wp_simps Let_def)

lemma find_by_key: "distinct (map key xs) \<Longrightarrow> x \<in> set xs \<Longrightarrow> List.find (\<lambda>y. key y = key x) xs = Some x"
  by (induction xs) auto

lemma get_asset_Some: "get_asset db i = Some a \<Longrightarrow> a \<in> set (gd_assets db) \<and> sa_asset_id a = i"
  unfolding get_asset_def by (rule find_Some_member)

lemma get_asset_member:
  assumes "distinct (map sa_asset_id (gd_assets db))" and "a \<in> set (gd_assets db)"
  shows "get_asset db (sa_asset_id a) = Some a"
  unfolding get_asset_def by (rule find_by_key [OF assms])

lemma get_template_Some:
  "get_template db i = Some t \<Longrightarrow> \<exists>r \<in> set (gd_templates db). t = row_to_template r \<and> tm_template_id r = i"
  unfolding get_template_def by (auto dest: find_Some_member)

lemma row_fields [simp]:
  "tm_template_id (template_row t) = tm_template_id t" "tm_owner_user_id (template_row t) = tm_owner_user_id t"
  "tm_signature_asset_id (template_row t) = tm_signature_asset_id t" "tm_scope (template_row t) = tm_scope t"
  "tm_template_id (row_to_template t) = tm_template_id t" "tm_owner_user_id (row_to_template t) = tm_owner_user_id t"
  "tm_signature_asset_id (row_to_template t) = tm_signature_asset_id t"
  by (simp_all add: template_row_def row_to_template_def Let_def)

section \<open>Consistent tables\<close>

definition asset_owned :: "sig_db \<Rightarrow> string \<Rightarrow> string \<Rightarrow> bool" where
  "asset_owned db owner i \<longleftrightarrow> (\<exists>a \<in> set (gd_assets db). sa_asset_id a = i \<and> sa_owner_user_id a = owner)"

definition asset_known :: "sig_db \<Rightarrow> string \<Rightarrow> bool" where
  "asset_known db i \<longleftrightarrow> (\<exists>a \<in> set (gd_assets db). sa_asset_id a = i)"

definition template_row_ok :: "sig_db \<Rightarrow> signature_template \<Rightarrow> bool" where
  "template_row_ok db t \<longleftrightarrow> tm_scope t \<in> {''user'', ''global''} \<and>
     (\<forall>i. tm_signature_asset_id t = Some i \<longrightarrow>
        asset_known db i \<and> (tm_scope t = ''user'' \<longrightarrow> asset_owned db (tm_owner_user_id t) i))"

definition sig_tables_ok :: "sig_db \<Rightarrow> bool" where
  "sig_tables_ok db \<longleftrightarrow>
     distinct (map sa_asset_id (gd_assets db)) \<and> distinct (map tm_template_id (gd_templates db)) \<and>
     distinct (map ac_owner_user_id (gd_active db)) \<and>
     (\<forall>r \<in> set (gd_active db). asset_owned db (ac_owner_user_id r) (ac_asset_id r)) \<and>
     (\<forall>t \<in> set (gd_templates db). template_row_ok db t)"

lemma owned_more [simp]:
  "asset_owned (db\<lparr>gd_templates := ts\<rparr>) o' i = asset_owned db o' i" "asset_known (db\<lparr>gd_templates := ts\<rparr>) i = asset_known db i"
  "asset_owned (db\<lparr>gd_active := xs\<rparr>) o' i = asset_owned db o' i" "asset_known (db\<lparr>gd_active := xs\<rparr>) i = asset_known db i"
  "template_row_ok (db\<lparr>gd_templates := ts\<rparr>) t = template_row_ok db t" "template_row_ok (db\<lparr>gd_active := xs\<rparr>) t = template_row_ok db t"
  by (simp_all add: asset_owned_def asset_known_def template_row_ok_def)

lemma owned_append:
  "asset_owned db o' i \<Longrightarrow> asset_owned (db\<lparr>gd_assets := gd_assets db @ [a]\<rparr>) o' i"
  "asset_known db i \<Longrightarrow> asset_known (db\<lparr>gd_assets := gd_assets db @ [a]\<rparr>) i"
  "template_row_ok db t \<Longrightarrow> template_row_ok (db\<lparr>gd_assets := gd_assets db @ [a]\<rparr>) t"
  by (auto simp: asset_owned_def asset_known_def template_row_ok_def)

lemma tables_add_asset:
  "sig_tables_ok db \<Longrightarrow> sa_asset_id a \<notin> sa_asset_id ` set (gd_assets db) \<Longrightarrow>
   sig_tables_ok (db\<lparr>gd_assets := gd_assets db @ [a]\<rparr>)"
  unfolding sig_tables_ok_def by (auto simp: owned_append)

lemma tables_upsert:
  assumes "sig_tables_ok db" and "template_row_ok db t" and "tm_template_id t = i"
  shows "sig_tables_ok (db\<lparr>gd_templates := filter (\<lambda>r. tm_template_id r \<noteq> i) (gd_templates db) @ [template_row t]\<rparr>)"
proof -
  have "template_row_ok db (template_row t)" using assms(2) by (simp add: template_row_ok_def)
  then show ?thesis using assms(1,3) unfolding sig_tables_ok_def by (auto simp: distinct_map_filter)
qed

lemma tables_touch:
  assumes "sig_tables_ok db"
  shows "sig_tables_ok (db\<lparr>gd_templates := map (\<lambda>r. if tm_template_id r = i then r\<lparr>tm_last_used_at := u\<rparr> else r) (gd_templates db)\<rparr>)"
proof -
  have ids: "map (tm_template_id \<circ> (\<lambda>r. if tm_template_id r = i then r\<lparr>tm_last_used_at := u\<rparr> else r)) ts = map tm_template_id ts" for ts
    by (induction ts) auto
  show ?thesis using assms unfolding sig_tables_ok_def by (auto simp: ids template_row_ok_def)
qed

lemma tables_delete:
  "sig_tables_ok db \<Longrightarrow> sig_tables_ok (db\<lparr>gd_templates := filter P (gd_templates db)\<rparr>)"
  "sig_tables_ok db \<Longrightarrow> sig_tables_ok (db\<lparr>gd_active := filter P' (gd_active db)\<rparr>)"
  unfolding sig_tables_ok_def by (auto simp: distinct_map_filter)

lemma wp_set_active_row [wp_simps]:
  "wp (set_active_row env owner i) Q E w = Q () (w\<lparr>gw_ticks := Suc (gw_ticks w),
     gw_db := (gw_db w)\<lparr>gd_active := active_rows owner i (ge_clock env (gw_ticks w)) (gd_active (gw_db w))\<rparr>\<rparr>)"
  by (simp add: set_active_row_def wp_simps)

lemma active_rows_owners:
  "map ac_owner_user_id (active_rows owner i now rs) =
     (if owner \<in> set (map ac_owner_user_id rs) then map ac_owner_user_id rs else map ac_owner_user_id rs @ [owner])"
  unfolding active_rows_def by (auto simp: comp_def)

lemma active_rows_member:
  "r \<in> set (active_rows owner i now rs) \<Longrightarrow> r \<in> set rs \<or> (ac_owner_user_id r = owner \<and> ac_asset_id r = i)"
  unfolding active_rows_def by (auto split: if_splits)

lemma tables_set_active:
  assumes "sig_tables_ok db" and "asset_owned db owner i"
  shows "sig_tables_ok (db\<lparr>gd_active := active_rows owner i now (gd_active db)\<rparr>)"
  using assms unfolding sig_tables_ok_def by (auto simp: active_rows_owners dest: active_rows_member)

section \<open>Every call keeps the tables consistent\<close>

abbreviation sig_ok :: "sig_world \<Rightarrow> bool" where
  "sig_ok w \<equiv> sig_tables_ok (gw_db w)"

interpretation tables: sig_frame sig_ok
  by unfold_locales simp_all

lemma tables_statements:
  "keeps sig_ok (add_asset a)" "keeps sig_ok (put_blob env owner ext payload)" "keeps sig_ok (touch_template_last_used_at i now)"
  "keeps sig_ok (delete_template i)" "keeps sig_ok (clear_active_row owner)"
  unfolding touch_template_last_used_at_def delete_template_def clear_active_row_def
  by (auto simp: keeps_iff_wp wp_simps wp_put_blob Let_def tables_add_asset tables_touch tables_delete)

lemma tables_import: "keeps sig_ok (import_signature_asset env owner path)"
  unfolding import_signature_asset_def store_asset_def to_png_bytes_def Let_def by (intro tables.rules tables_statements)

lemma tables_import_bytes: "keeps sig_ok (import_signature_asset_bytes env owner bytes hint)"
  unfolding import_signature_asset_bytes_def Let_def by (intro tables.rules tables_import tables.keeps_remove)

lemma owned_asset: "get_asset db i = Some a \<Longrightarrow> asset_owned db (sa_owner_user_id a) i \<and> asset_known db i"
  using get_asset_Some by (fastforce simp: asset_owned_def asset_known_def)

lemma tables_active: "keeps sig_ok (set_active_signature_asset env owner i pw)"
  unfolding keeps_iff_wp set_active_signature_asset_def require_valid_password_def
  by (auto simp: wp_simps tables_set_active split: option.split dest: owned_asset)

lemma tables_activate: "keeps sig_ok m \<Longrightarrow> keeps sig_ok (and_set_active env owner pw m)"
  unfolding and_set_active_def by (intro tables.rules tables_active)

lemma tables_clear: "keeps sig_ok (clear_active_signature env owner pw)"
  unfolding clear_active_signature_def require_valid_password_def by (intro tables.rules tables_statements)

lemma tables_create:
  assumes "scope \<in> {''user'', ''global''}"
  shows "keeps sig_ok (create_user_signature_template env owner name p l asset scope doc role)"
  unfolding keeps_iff_wp create_user_signature_template_def Let_def
  using assms
  by (auto simp: wp_simps template_row_ok_def intro!: tables_upsert dest: owned_asset split: option.split sum.split)

lemma tables_create_actor:
  assumes "scope \<in> {''user'', ''global''}"
  shows "keeps sig_ok (create_user_signature_template_for_actor env actor name p l asset scope doc role)"
  unfolding create_user_signature_template_for_actor_def by (intro tables.rules tables_create [OF assms])

lemma updated_fields [simp]:
  "tm_template_id (updated_template u t) = tm_template_id t" "tm_owner_user_id (updated_template u t) = tm_owner_user_id t"
  "tm_scope (updated_template u t) = tm_scope t"
  "tm_signature_asset_id (updated_template u t) = or_opt (tu_signature_asset_id u) (tm_signature_asset_id t)"
  by (simp_all add: updated_template_def)

lemma known_row_ok:
  assumes "sig_tables_ok db" and "get_template db i = Some t"
  shows "template_row_ok db t" and "tm_template_id t = i"
proof -
  obtain r where r: "r \<in> set (gd_templates db)" "t = row_to_template r" "tm_template_id r = i"
    using get_template_Some [OF assms(2)] by blast
  then have "template_row_ok db r" using assms(1) by (simp add: sig_tables_ok_def)
  then show "template_row_ok db t" using r(2) by (auto simp: template_row_ok_def row_to_template_def)
  show "tm_template_id t = i" using r by simp
qed

lemma tables_update: "keeps sig_ok (update_signature_template env i owner u)"
proof (unfold keeps_iff_wp, intro allI impI)
  fix w assume ok: "sig_ok w"
  show "wp (update_signature_template env i owner u) (\<lambda>_. sig_ok) (\<lambda>_. sig_ok) w"
  proof (cases "get_template (gw_db w) i")
    case None
    with ok show ?thesis by (simp add: update_signature_template_def wp_simps)
  next
    case (Some t)
    note row = known_row_ok [OF ok Some]
    have linked: "template_row_ok (gw_db w) (updated_template u t)"
      if "\<And>a. tu_signature_asset_id u = Some a \<Longrightarrow>
        asset_known (gw_db w) a \<and> (tm_scope t = ''user'' \<longrightarrow> asset_owned (gw_db w) (tm_owner_user_id t) a)"
      using row(1) that by (cases "tu_signature_asset_id u") (auto simp: template_row_ok_def)
    show ?thesis
      using ok Some row(2) unfolding update_signature_template_def Let_def
      by (auto simp: wp_simps intro!: tables_upsert linked dest: owned_asset split: option.split sum.split)
  qed
qed

lemma tables_update_actor: "keeps sig_ok (update_signature_template_for_actor env actor i u)"
  unfolding update_signature_template_for_actor_def may_manage_template_def by (intro tables.rules tables_update)

lemma keeps_copied_blob:
  assumes "\<And>payload. keeps I (put_blob env owner ''.png'' payload)" and "keeps I (get_blob env key)"
  shows "keeps I (copied_blob env owner key)"
proof (rule keepsI)
  fix w assume w: "I w"
  let ?m = "bindM (get_blob env key) (\<lambda>payload. put_blob env owner ''.png'' payload)"
  have "keeps I ?m" by (intro keeps_intros assms)
  then have "I (after (?m w))" using w by (rule keepsD)
  moreover have "after (copied_blob env owner key w) = after (?m w)"
    unfolding copied_blob_def by (auto split: prod.split sum.split sig_error.split)
  ultimately show "I (after (copied_blob env owner key w))" by simp
qed

lemma tables_copied_blob: "keeps sig_ok (copied_blob env owner key)"
  by (intro keeps_copied_blob tables_statements tables.rules)

lemma tables_copied_asset: "keeps sig_ok (copied_asset_id env owner i)"
  unfolding copied_asset_id_def by (intro tables.rules tables_statements tables_copied_blob)

lemma tables_copy: "keeps sig_ok (copy_global_template_to_user env i owner name)"
  unfolding copy_global_template_to_user_def by (intro tables.rules tables_copied_asset tables_create) simp

text \<open>The calls whose scope is one of the two that the contract names.\<close>

fun proper_scope :: "sig_call \<Rightarrow> bool" where
  "proper_scope (CreateTemplate _ _ _ _ _ scope _ _) = (scope \<in> {''user'', ''global''})"
| "proper_scope (CreateTemplateForActor _ _ _ _ _ scope _ _) = (scope \<in> {''user'', ''global''})"
| "proper_scope _ = True"

lemma tables_call: "proper_scope call \<Longrightarrow> keeps sig_ok (run_signature env call)"
  by (cases call; simp only: run_signature.simps quietly_def proper_scope.simps import_signature_asset_and_set_active_def
      import_signature_asset_bytes_and_set_active_def delete_signature_template_def delete_signature_template_for_actor_def
      copy_global_template_for_actor_def may_manage_template_def)
    (intro tables.rules tables_import tables_import_bytes tables_activate tables_active tables_clear tables.keeps_export tables_create
      tables_create_actor tables_update tables_update_actor tables_statements tables_copy tables.keeps_signing tables.keeps_with_template
      tables.keeps_for_actor; assumption)+

lemma reachable_tables:
  assumes "sig_reachable envs proper_scope w"
  shows "sig_ok w"
  using assms
proof induction
  case (step w env call)
  then show ?case using keepsD [OF tables_call] by blast
qed (simp_all add: sig_world_of_def empty_sig_db_def sig_tables_ok_def)

end
