(* ===== verification/SigStored.thy ===== *)
theory SigStored
  imports SigInvariants
begin

text \<open>
  The images: the blob of every asset is in the encrypted store, decrypts, and has the digest and the size that
  the asset records. Fresh keys do not collide: identifiers of \<open>uuid4\<close> differ, are not empty and have no slash.
\<close>

definition uuid_law :: "sig_env \<Rightarrow> bool" where
  "uuid_law env \<longleftrightarrow> inj (ge_hex env) \<and> (\<forall>n. ge_hex env n \<noteq> [] \<and> CHR ''/'' \<notin> set (ge_hex env n))"

definition cipher_law :: "sig_env \<Rightarrow> bool" where
  "cipher_law env \<longleftrightarrow> (\<forall>n raw. ge_decrypt env (ge_encrypt env n raw) = Some raw)"

text \<open>Two environments over the same store: the same identifiers, cipher and digest.\<close>

definition same_store :: "sig_env \<Rightarrow> sig_env \<Rightarrow> bool" where
  "same_store e env \<longleftrightarrow> ge_hex env = ge_hex e \<and> ge_encrypt env = ge_encrypt e \<and> ge_decrypt env = ge_decrypt e \<and>
     ge_sha256 env = ge_sha256 e"

definition blob_key :: "sig_env \<Rightarrow> string \<Rightarrow> nat \<Rightarrow> string" where
  "blob_key env owner n = owner @ ''/'' @ ge_hex env n @ ''.png.enc''"

definition blob_of :: "sig_env \<Rightarrow> sig_world \<Rightarrow> signature_asset \<Rightarrow> string \<Rightarrow> bool" where
  "blob_of env w a raw \<longleftrightarrow> (\<exists>cipher. map_of (gw_blobs w) (sa_storage_key a) = Some cipher \<and> ge_decrypt env cipher = Some raw)"

definition asset_stored :: "sig_env \<Rightarrow> sig_world \<Rightarrow> signature_asset \<Rightarrow> bool" where
  "asset_stored env w a \<longleftrightarrow> sa_asset_id a \<noteq> [] \<and>
     (\<exists>raw. blob_of env w a raw \<and> ge_sha256 env raw = sa_sha256 a \<and> length raw = sa_size_bytes a)"

definition stored_ok :: "sig_env \<Rightarrow> sig_world \<Rightarrow> bool" where
  "stored_ok env w \<longleftrightarrow> (\<forall>a \<in> set (gd_assets (gw_db w)). asset_stored env w a) \<and>
     (\<forall>k \<in> fst ` set (gw_blobs w). \<exists>owner n. n < gw_draws w \<and> k = blob_key env owner n)"

lemma last_part_inj: "xs @ c # ys = xs' @ c # ys' \<Longrightarrow> c \<notin> set ys \<Longrightarrow> c \<notin> set ys' \<Longrightarrow> ys = ys'"
proof -
  assume eq: "xs @ c # ys = xs' @ c # ys'" and new: "c \<notin> set ys" "c \<notin> set ys'"
  have "takeWhile (\<lambda>x. x \<noteq> c) (rev (zs @ c # us)) = rev us" if "c \<notin> set us" for zs us
    using that by (simp add: takeWhile_append)
  from this [OF new(1), of xs] this [OF new(2), of xs'] eq show ?thesis by simp
qed

lemma blob_key_inj:
  assumes "uuid_law env" and "blob_key env o1 n = blob_key env o2 m"
  shows "n = m"
proof -
  have "ge_hex env n @ ''.png.enc'' = ge_hex env m @ ''.png.enc''"
    by (rule last_part_inj [of o1 "CHR ''/''" _ o2]) (use assms in \<open>simp_all add: blob_key_def uuid_law_def\<close>)
  then show ?thesis using assms(1) by (simp add: uuid_law_def inj_eq)
qed

lemma stored_more:
  "stored_ok env (w\<lparr>gw_files := f\<rparr>) = stored_ok env w" "stored_ok env (w\<lparr>gw_ticks := n\<rparr>) = stored_ok env w"
  "stored_ok env (w\<lparr>gw_events := es\<rparr>) = stored_ok env w" "stored_ok env (w\<lparr>gw_audit := as\<rparr>) = stored_ok env w"
  "stored_ok env (w\<lparr>gw_db := (gw_db w)\<lparr>gd_templates := ts\<rparr>\<rparr>) = stored_ok env w"
  "stored_ok env (w\<lparr>gw_db := (gw_db w)\<lparr>gd_active := xs\<rparr>\<rparr>) = stored_ok env w"
  by (simp_all add: stored_ok_def asset_stored_def blob_of_def)

lemma stored_draws: "stored_ok env w \<Longrightarrow> gw_draws w \<le> n \<Longrightarrow> stored_ok env (w\<lparr>gw_draws := n\<rparr>)"
  unfolding stored_ok_def asset_stored_def blob_of_def by (auto 0 4 dest: order_less_le_trans)

interpretation stored: sig_frame "stored_ok e" for e
  by unfold_locales (simp_all add: stored_more stored_draws)

text \<open>A put under a fresh key, and the asset that names it.\<close>

definition put_world :: "sig_env \<Rightarrow> string \<Rightarrow> string \<Rightarrow> sig_world \<Rightarrow> sig_world" where
  "put_world env owner payload w = w\<lparr>gw_draws := Suc (Suc (gw_draws w)),
     gw_blobs := AList.update (blob_key env owner (gw_draws w)) (ge_encrypt env (Suc (gw_draws w)) payload) (gw_blobs w)\<rparr>"

lemma wp_put_png: "wp (put_blob env owner ''.png'' payload) Q E w = Q (blob_key env owner (gw_draws w)) (put_world env owner payload w)"
  by (simp add: wp_put_blob put_world_def blob_key_def starts_with_def Let_def)

lemma put_world_stored:
  assumes "stored_ok env w" and "uuid_law env"
  shows "stored_ok env (put_world env owner payload w)"
proof -
  let ?k = "blob_key env owner (gw_draws w)"
  have keys: "\<exists>o' n. n < gw_draws w \<and> k = blob_key env o' n" if "k \<in> fst ` set (gw_blobs w)" for k
    using assms(1) that unfolding stored_ok_def by (elim conjE) (drule (1) bspec)
  have fresh: "?k \<notin> fst ` set (gw_blobs w)"
  proof
    assume "?k \<in> fst ` set (gw_blobs w)"
    from keys [OF this] obtain o' n where "n < gw_draws w" and "?k = blob_key env o' n" by (elim exE conjE)
    then show False using blob_key_inj [OF assms(2), of owner "gw_draws w" o' n] by simp
  qed
  have asset: "asset_stored env (put_world env owner payload w) a" if "a \<in> set (gd_assets (gw_db w))" for a
  proof -
    have old: "asset_stored env w a" using assms(1) that unfolding stored_ok_def by (elim conjE) (drule (1) bspec)
    then obtain cipher where "map_of (gw_blobs w) (sa_storage_key a) = Some cipher"
      unfolding asset_stored_def blob_of_def by (elim conjE exE)
    then have "sa_storage_key a \<in> fst ` set (gw_blobs w)" by (metis map_of_SomeD fst_conv image_eqI)
    then have "sa_storage_key a \<noteq> ?k" using fresh by metis
    with old show ?thesis by (simp add: asset_stored_def blob_of_def put_world_def update_conv')
  qed
  have new: "\<exists>o' n. n < Suc (Suc (gw_draws w)) \<and> k = blob_key env o' n"
    if "k \<in> fst ` set (AList.update ?k c (gw_blobs w))" for k c
  proof (cases "k = ?k")
    case False
    then have "k \<in> fst ` set (gw_blobs w)" using that by (simp add: dom_update)
    from keys [OF this] obtain o' n where "n < gw_draws w" "k = blob_key env o' n" by (elim exE conjE)
    then show ?thesis by (intro exI [of _ o'] exI [of _ n]) simp
  qed (intro exI [of _ owner] exI [of _ "gw_draws w"], simp)
  show ?thesis unfolding stored_ok_def
    by (intro conjI ballI asset) (simp_all add: put_world_def new)
qed

lemma put_world_blob:
  "cipher_law env \<Longrightarrow> sa_storage_key a = blob_key env owner (gw_draws w) \<Longrightarrow> blob_of env (put_world env owner payload w) a payload"
  by (simp add: blob_of_def put_world_def update_conv' cipher_law_def)

lemma stored_append:
  "stored_ok env w \<Longrightarrow> asset_stored env w a \<Longrightarrow>
   stored_ok env (w\<lparr>gw_db := (gw_db w)\<lparr>gd_assets := gd_assets (gw_db w) @ [a]\<rparr>\<rparr>)"
  by (auto simp: stored_ok_def asset_stored_def blob_of_def)

section \<open>Every call keeps the images\<close>

text \<open>The laws hold of the common store \<open>e\<close>; a call runs in an environment over it.\<close>

lemma same_store_simps:
  assumes "same_store e env"
  shows "blob_key env owner n = blob_key e owner n" "put_world env owner payload w = put_world e owner payload w"
    "ge_hex env = ge_hex e" "ge_decrypt env = ge_decrypt e" "ge_sha256 env = ge_sha256 e"
  using assms by (simp_all add: same_store_def blob_key_def put_world_def)

lemma stored_new_asset:
  assumes "stored_ok e w" and "uuid_law e" and "cipher_law e"
    and "sa_storage_key a = blob_key e owner (gw_draws w)" and "sa_asset_id a = ge_hex e n"
    and "sa_sha256 a = ge_sha256 e payload" and "sa_size_bytes a = length payload"
  shows "asset_stored e (put_world e owner payload w) a"
proof -
  have "ge_hex e n \<noteq> []" using assms(2) by (simp add: uuid_law_def)
  then show ?thesis using put_world_blob [OF assms(3,4)] assms(5-7) unfolding asset_stored_def by metis
qed

lemma put_world_db [simp]: "gw_db (put_world e owner payload w) = gw_db w"
  by (simp add: put_world_def)

lemma stored_append_later:
  assumes "stored_ok e w" and "asset_stored e w a"
  shows "stored_ok e (w\<lparr>gw_draws := Suc (gw_draws w), gw_ticks := n, gw_db := (gw_db w)\<lparr>gd_assets := gd_assets (gw_db w) @ [a]\<rparr>\<rparr>)"
proof -
  let ?w = "w\<lparr>gw_draws := Suc (gw_draws w), gw_ticks := n\<rparr>"
  have "stored_ok e ?w" by (rule stored.ticks [OF stored.draws [OF assms(1)]])
  moreover have "asset_stored e ?w a" using assms(2) by (simp add: asset_stored_def blob_of_def)
  ultimately have "stored_ok e (?w\<lparr>gw_db := (gw_db ?w)\<lparr>gd_assets := gd_assets (gw_db ?w) @ [a]\<rparr>\<rparr>)" by (rule stored_append)
  then show ?thesis by simp
qed

lemma stored_put:
  assumes "uuid_law e" and "same_store e env"
  shows "keeps (stored_ok e) (put_blob env owner ''.png'' payload)"
  by (simp add: keeps_iff_wp wp_put_png same_store_simps [OF assms(2)] put_world_stored assms(1))

lemma stored_publish_wp:
  "stored_ok e w \<Longrightarrow> wp (sg_publish env name payload actor) (\<lambda>_. stored_ok e) (\<lambda>_. stored_ok e) w"
  by (rule wp_keeps [OF stored.keeps_publish])

lemma stored_store_asset_wp:
  assumes "same_store e env"
  shows "wp (store_asset env owner name png) Q E w = (
    let w1 = put_world e owner png w; i = ge_hex e (gw_draws w1);
        a = \<lparr>sa_asset_id = i, sa_owner_user_id = owner, sa_storage_key = blob_key e owner (gw_draws w),
              sa_media_type = ''image/png'', sa_original_filename = name, sa_sha256 = ge_sha256 e png, sa_size_bytes = length png,
              sa_created_at = ge_clock env (gw_ticks w1)\<rparr>;
        w2 = w1\<lparr>gw_draws := Suc (gw_draws w1), gw_ticks := Suc (gw_ticks w1)\<rparr>
    in if i \<in> sa_asset_id ` set (gd_assets (gw_db w)) then E (SgDbError ''IntegrityError'') w2
       else wp (bindM (sg_audit ''signature.asset.imported'' owner i ''signature_asset_import'') (\<lambda>_.
         bindM (sg_publish env ''domain.signature.asset.imported.v1'' [(''asset_id'', PyStr i),
           (''owner_user_id'', PyStr owner), (''media_type'', PyStr ''image/png'')] (Some owner)) (\<lambda>_. retM a))) Q E
         (w2\<lparr>gw_db := (gw_db w)\<lparr>gd_assets := gd_assets (gw_db w) @ [a]\<rparr>\<rparr>))"
  unfolding store_asset_def Let_def
  by (subst wp_bindM, subst wp_put_png, subst wp_bindM, subst wp_sg, subst wp_bindM, subst wp_sg, subst wp_bindM,
      subst wp_add_asset) (simp add: same_store_simps [OF assms])

lemma stored_store_asset:
  assumes "uuid_law e" and "cipher_law e" and "same_store e env"
  shows "keeps (stored_ok e) (store_asset env owner name png)"
proof (unfold keeps_iff_wp, intro allI impI)
  fix w assume ok: "stored_ok e w"
  let ?w = "put_world e owner png w"
  let ?a = "\<lparr>sa_asset_id = ge_hex e (gw_draws ?w), sa_owner_user_id = owner, sa_storage_key = blob_key e owner (gw_draws w),
    sa_media_type = ''image/png'', sa_original_filename = name, sa_sha256 = ge_sha256 e png, sa_size_bytes = length png,
    sa_created_at = ge_clock env (gw_ticks ?w)\<rparr>"
  have put: "stored_ok e ?w" by (rule put_world_stored [OF ok assms(1)])
  have a: "asset_stored e ?w ?a" by (rule stored_new_asset [OF ok assms(1,2)]) simp_all
  have late: "stored_ok e (?w\<lparr>gw_draws := Suc (gw_draws ?w), gw_ticks := Suc (gw_ticks ?w),
      gw_db := (gw_db w)\<lparr>gd_assets := gd_assets (gw_db w) @ [?a]\<rparr>\<rparr>)"
    using stored_append_later [OF put a] by (simp only: put_world_db)
  have early: "stored_ok e (?w\<lparr>gw_draws := Suc (gw_draws ?w), gw_ticks := Suc (gw_ticks ?w)\<rparr>)"
    by (rule stored.ticks [OF stored.draws [OF put]])
  have tail: "keeps (stored_ok e) (bindM (sg_audit a1 a2 a3 a4) (\<lambda>_. bindM (sg_publish env ev payload actor) (\<lambda>_. retM x)))"
    for a1 a2 a3 a4 ev payload actor and x :: signature_asset
    by (intro stored.rules)
  show "wp (store_asset env owner name png) (\<lambda>_. stored_ok e) (\<lambda>_. stored_ok e) w"
  proof (cases "ge_hex e (gw_draws ?w) \<in> sa_asset_id ` set (gd_assets (gw_db w))")
    case True
    show ?thesis unfolding stored_store_asset_wp [OF assms(3)] Let_def put_world_db if_P [OF True] by (rule early)
  next
    case False
    show ?thesis unfolding stored_store_asset_wp [OF assms(3)] Let_def put_world_db if_not_P [OF False]
      by (rule wp_keeps [OF tail]) (fact late)
  qed
qed

lemma stored_import:
  assumes "uuid_law e" and "cipher_law e" and "same_store e env"
  shows "keeps (stored_ok e) (import_signature_asset env owner path)"
  unfolding import_signature_asset_def to_png_bytes_def by (intro stored.rules stored_store_asset [OF assms])

lemma stored_import_bytes:
  assumes "uuid_law e" and "cipher_law e" and "same_store e env"
  shows "keeps (stored_ok e) (import_signature_asset_bytes env owner bytes hint)"
  unfolding import_signature_asset_bytes_def Let_def by (intro stored.rules stored_import [OF assms] stored.keeps_remove)

text \<open>Templates and the active signature do not concern the images.\<close>

lemma stored_rows:
  "keeps (stored_ok e) (upsert_template t)" "keeps (stored_ok e) (touch_template_last_used_at i now)"
  "keeps (stored_ok e) (delete_template i)" "keeps (stored_ok e) (clear_active_row owner)" "keeps (stored_ok e) (set_active_row env owner i)"
proof -
  have 1: "keeps (stored_ok e) (sg_write (\<lambda>db. db\<lparr>gd_templates := f db\<rparr>))" for f
    by (simp add: keeps_iff_wp wp_sg stored_more)
  have 2: "keeps (stored_ok e) (sg_write (\<lambda>db. db\<lparr>gd_active := f db\<rparr>))" for f
    by (simp add: keeps_iff_wp wp_sg stored_more)
  show "keeps (stored_ok e) (upsert_template t)" "keeps (stored_ok e) (touch_template_last_used_at i now)"
    "keeps (stored_ok e) (delete_template i)" "keeps (stored_ok e) (clear_active_row owner)"
    "keeps (stored_ok e) (set_active_row env owner i)"
    unfolding upsert_template_def touch_template_last_used_at_def delete_template_def clear_active_row_def set_active_row_def
    by (intro stored.rules 1 2)+
qed

lemma stored_active:
  "keeps (stored_ok e) (set_active_signature_asset env owner i pw)" "keeps (stored_ok e) (clear_active_signature env owner pw)"
  unfolding set_active_signature_asset_def clear_active_signature_def require_valid_password_def
  by (intro stored.rules stored_rows)+

lemma stored_templates:
  "keeps (stored_ok e) (create_user_signature_template env owner name p l asset scope doc role)"
  "keeps (stored_ok e) (create_user_signature_template_for_actor env actor name p l asset scope doc role)"
  "keeps (stored_ok e) (update_signature_template env i owner u)"
  "keeps (stored_ok e) (update_signature_template_for_actor env actor i u)"
proof -
  show 1: "keeps (stored_ok e) (create_user_signature_template env owner name p l asset scope doc role)" for owner
    unfolding create_user_signature_template_def Let_def by (intro stored.rules stored_rows)
  show 2: "keeps (stored_ok e) (update_signature_template env i owner u)" for owner
    unfolding update_signature_template_def Let_def by (intro stored.rules stored_rows)
  show "keeps (stored_ok e) (create_user_signature_template_for_actor env actor name p l asset scope doc role)"
    unfolding create_user_signature_template_for_actor_def by (intro stored.rules 1)
  show "keeps (stored_ok e) (update_signature_template_for_actor env actor i u)"
    unfolding update_signature_template_for_actor_def may_manage_template_def by (intro stored.rules 2)
qed

text \<open>The copy of a global template's image: same bytes, digest and size under a new owner.\<close>

lemma wp_copied_blob:
  "wp (copied_blob env owner key) Q E w = (case map_of (gw_blobs w) key of
       None \<Rightarrow> E (template_error ''global signature asset could not be copied'') w
     | Some cipher \<Rightarrow> (case ge_decrypt env cipher of None \<Rightarrow> E (SgLibraryError ''InvalidToken'') w
         | Some raw \<Rightarrow> wp (put_blob env owner ''.png'' raw) Q E w))"
  by (auto simp: wp_def copied_blob_def bindM_def get_blob_def put_blob_def sg_draw_def Let_def modifyM_def retM_def
      split: option.split)

lemma stored_copied_asset:
  assumes "uuid_law e" and "cipher_law e" and "same_store e env"
  shows "keeps (stored_ok e) (copied_asset_id env owner i)"
proof (unfold keeps_iff_wp, intro allI impI)
  fix w assume ok: "stored_ok e w"
  show "wp (copied_asset_id env owner i) (\<lambda>_. stored_ok e) (\<lambda>_. stored_ok e) w"
  proof (cases "get_asset (gw_db w) i")
    case None
    with ok show ?thesis by (simp add: copied_asset_id_def wp_simps)
  next
    case (Some a)
    then have "asset_stored e w a" using get_asset_Some ok unfolding stored_ok_def by blast
    then obtain raw where raw: "blob_of e w a raw" "ge_sha256 e raw = sa_sha256 a" "length raw = sa_size_bytes a"
      unfolding asset_stored_def by blast
    then obtain cipher where c: "map_of (gw_blobs w) (sa_storage_key a) = Some cipher" "ge_decrypt e cipher = Some raw"
      unfolding blob_of_def by blast
    let ?w = "put_world e owner raw w"
    let ?a = "a\<lparr>sa_asset_id := ge_hex e (gw_draws ?w), sa_owner_user_id := owner,
        sa_storage_key := blob_key e owner (gw_draws w), sa_created_at := ge_clock env (gw_ticks ?w)\<rparr>"
    have put: "stored_ok e ?w" by (rule put_world_stored [OF ok assms(1)])
    have "asset_stored e ?w ?a" by (rule stored_new_asset [OF ok assms(1,2)]) (simp_all add: raw)
    then have late: "stored_ok e (?w\<lparr>gw_draws := Suc (gw_draws ?w), gw_ticks := Suc (gw_ticks ?w),
        gw_db := (gw_db w)\<lparr>gd_assets := gd_assets (gw_db w) @ [?a]\<rparr>\<rparr>)"
      using stored_append_later [OF put] by (simp only: put_world_db)
    have early: "stored_ok e (?w\<lparr>gw_draws := Suc (gw_draws ?w), gw_ticks := Suc (gw_ticks ?w)\<rparr>)"
      by (rule stored.ticks [OF stored.draws [OF put]])
    show ?thesis
    proof (cases "sa_owner_user_id a = owner")
      case True
      with ok Some show ?thesis by (simp add: copied_asset_id_def wp_simps)
    next
      case False
      have "wp (copied_asset_id env owner i) (\<lambda>_. stored_ok e) (\<lambda>_. stored_ok e) w = (\<not> ge_has_secure_store env \<or>
        wp (bindM (copied_blob env owner (sa_storage_key a)) (\<lambda>storage_key.
             bindM (sg_draw (ge_hex env)) (\<lambda>new_id.
             bindM (sg_utcnow env) (\<lambda>now.
             bindM (add_asset (a\<lparr>sa_asset_id := new_id, sa_owner_user_id := owner,
               sa_storage_key := storage_key, sa_created_at := now\<rparr>)) (\<lambda>_. retM new_id))))) (\<lambda>_. stored_ok e) (\<lambda>_. stored_ok e) w)"
        using Some False ok by (simp add: copied_asset_id_def wp_sg wp_bindM wp_eqs)
      moreover have "wp (bindM (copied_blob env owner (sa_storage_key a)) (\<lambda>storage_key.
             bindM (sg_draw (ge_hex env)) (\<lambda>new_id.
             bindM (sg_utcnow env) (\<lambda>now.
             bindM (add_asset (a\<lparr>sa_asset_id := new_id, sa_owner_user_id := owner,
               sa_storage_key := storage_key, sa_created_at := now\<rparr>)) (\<lambda>_. retM new_id))))) (\<lambda>_. stored_ok e) (\<lambda>_. stored_ok e) w"
        using early late
        by (simp only: wp_bindM wp_copied_blob c same_store_simps [OF assms(3)] option.case wp_put_png wp_sg wp_add_asset wp_eqs
            put_world_db) simp
      ultimately show ?thesis by blast
    qed
  qed
qed

lemma stored_copy:
  assumes "uuid_law e" and "cipher_law e" and "same_store e env"
  shows "keeps (stored_ok e) (copy_global_template_to_user env i owner name)"
  unfolding copy_global_template_to_user_def by (intro stored.rules stored_copied_asset [OF assms] stored_templates)

lemma stored_call:
  assumes "uuid_law e" and "cipher_law e" and "same_store e env"
  shows "keeps (stored_ok e) (run_signature env call)"
  by (cases call; simp only: run_signature.simps quietly_def import_signature_asset_and_set_active_def and_set_active_def
      import_signature_asset_bytes_and_set_active_def delete_signature_template_def delete_signature_template_for_actor_def
      copy_global_template_for_actor_def may_manage_template_def)
    (intro stored.rules stored_import [OF assms] stored_import_bytes [OF assms] stored_active stored_rows stored_templates
      stored_copy [OF assms] stored.keeps_export stored.keeps_signing stored.keeps_with_template stored.keeps_for_actor)+

lemma reachable_stored:
  assumes "sig_reachable envs allowed w" and "uuid_law e" and "cipher_law e" and "\<And>env. env \<in> envs \<Longrightarrow> same_store e env"
  shows "stored_ok e w"
  using assms(1)
proof induction
  case (step w env call)
  then show ?case using keepsD [OF stored_call [OF assms(2,3) assms(4)]] by blast
qed (simp_all only: stored_more, simp add: sig_world_of_def empty_sig_db_def stored_ok_def)

end
