(* ===== verification/SigBehaviour.thy ===== *)
theory SigBehaviour
  imports SigStored
begin

text \<open>
  What a signing has done when it returns, and when it fails: the output path, the checks that were passed, the
  files it may touch, the evidence it leaves; and which calls change an active signature.
\<close>

section \<open>The output path\<close>

lemma first_candidate_Some:
  "first_candidate taken base suffix i = Some p \<Longrightarrow>
   \<exists>k. i \<le> k \<and> k < 1000 \<and> p = output_candidate base suffix k \<and> \<not> taken p \<and>
     (\<forall>j. i \<le> j \<and> j < k \<longrightarrow> taken (output_candidate base suffix j))"
proof (induction taken base suffix i rule: first_candidate.induct)
  case (1 taken base suffix i)
  show ?case
  proof (cases "1000 \<le> i \<or> \<not> taken (output_candidate base suffix i)")
    case True
    with "1.prems" show ?thesis by (subst (asm) first_candidate.simps) (auto split: if_splits)
  next
    case False
    then have "first_candidate taken base suffix (Suc i) = Some p"
      using "1.prems" by (subst (asm) first_candidate.simps) simp
    then obtain k where "Suc i \<le> k" "k < 1000" "p = output_candidate base suffix k" "\<not> taken p"
      "\<forall>j. Suc i \<le> j \<and> j < k \<longrightarrow> taken (output_candidate base suffix j)"
      using "1.IH" False by auto
    then show ?thesis using False by (intro exI [of _ k]) (metis Suc_leD le_antisym not_less_eq_eq)
  qed
qed

lemma first_candidate_None:
  "first_candidate taken base suffix i = None \<Longrightarrow> i \<le> j \<Longrightarrow> j < 1000 \<Longrightarrow> taken (output_candidate base suffix j)"
proof (induction taken base suffix i rule: first_candidate.induct)
  case (1 taken base suffix i)
  have i: "\<not> 1000 \<le> i" using "1.prems"(2,3) by simp
  from "1.prems"(1) i have t: "\<not> \<not> taken (output_candidate base suffix i)"
    by (subst (asm) first_candidate.simps) (simp split: if_splits)
  from "1.prems"(1) i t have n: "first_candidate taken base suffix (Suc i) = None"
    by (subst (asm) first_candidate.simps) simp
  show ?case
  proof (cases "i = j")
    case False
    then have "Suc i \<le> j" using "1.prems"(2) by simp
    then show ?thesis by (rule "1.IH" [OF i t n _ "1.prems"(3)])
  qed (use t in simp)
qed

lemma resolve_output_Inr:
  assumes "resolve_output taken req = Inr p"
  shows "\<exists>target. output_target req = Inr target \<and> (sq_overwrite_output req \<and> p = target \<or> \<not> taken p)"
  using assms by (auto simp: resolve_output_def split: if_splits option.splits dest: first_candidate_Some)

section \<open>The checks\<close>

text \<open>The box of the signature within the page, in the arithmetic of floats.\<close>

definition inside_page :: "placement_input \<Rightarrow> pyfloat \<times> pyfloat \<Rightarrow> bool" where
  "inside_page p page \<longleftrightarrow> flt_less (Fin 0) (pl_target_width p) \<and> flt_le (Fin 0) (pl_x p) \<and> flt_le (Fin 0) (pl_y p) \<and>
     flt_le (flt_add (pl_x p) (pl_target_width p)) (fst page) \<and>
     flt_le (flt_add (pl_y p) (estimated_height (pl_target_width p))) (snd page)"

definition placement_numbers :: "placement_input \<Rightarrow> pyfloat \<times> pyfloat \<Rightarrow> pyfloat list" where
  "placement_numbers p page = [pl_x p, pl_y p, pl_target_width p, fst page, snd page,
     flt_add (pl_x p) (pl_target_width p), flt_add (pl_y p) (estimated_height (pl_target_width p))]"

lemma placement_inside:
  assumes "validate_placement p page = Inr u" and "NaN \<notin> set (placement_numbers p page)"
  shows "inside_page p page"
proof -
  have n: "pl_x p \<noteq> NaN" "pl_y p \<noteq> NaN" "pl_target_width p \<noteq> NaN" "fst page \<noteq> NaN" "snd page \<noteq> NaN"
    "flt_add (pl_x p) (pl_target_width p) \<noteq> NaN" "flt_add (pl_y p) (estimated_height (pl_target_width p)) \<noteq> NaN"
    using assms(2) by (auto simp: placement_numbers_def)
  have "\<not> flt_le (pl_target_width p) (Fin 0)" "\<not> flt_less (pl_x p) (Fin 0)" "\<not> flt_less (pl_y p) (Fin 0)"
    "\<not> flt_less (fst page) (flt_add (pl_x p) (pl_target_width p))"
    "\<not> flt_less (snd page) (flt_add (pl_y p) (estimated_height (pl_target_width p)))"
    using assms(1) by (auto simp: validate_placement_def Let_def split: prod.splits)
  then show ?thesis using n by (simp add: inside_page_def flt_not_less [symmetric])
qed

text \<open>A \<open>NaN\<close> passes every comparison: such a placement is accepted on every page it can be on.\<close>

lemma nan_placement_passes:
  assumes "pl_x p = NaN" and "pl_y p = NaN" and "0 \<le> pl_page_index p" and "\<not> flt_le (pl_target_width p) (Fin 0)"
  shows "validate_placement p page = Inr ()"
  using assms by (cases page; cases "estimated_height (pl_target_width p)"; cases "pl_target_width p")
    (auto simp: validate_placement_def Let_def)

text \<open>The input is a PDF with the page of the placement, and the placement fits it.\<close>

definition page_checked :: "sig_env \<Rightarrow> sig_request \<Rightarrow> (string \<Rightarrow> string option) \<Rightarrow> bool" where
  "page_checked env req files \<longleftrightarrow> (\<exists>pdf pages. files (sq_input_pdf req) = Some pdf \<and> ge_pdf_pages env pdf = Some pages \<and>
     0 \<le> pl_page_index (sq_placement req) \<and> pl_page_index (sq_placement req) < int (length pages) \<and>
     validate_placement (sq_placement req) (pages ! nat (pl_page_index (sq_placement req))) = Inr ())"

lemma wp_checked_page:
  "wp (checked_page env req) (\<lambda>_ w'. w' = w \<and> page_checked env req (gw_files w)) (\<lambda>_ w'. w' = w) w"
  unfolding checked_page_def Let_def page_checked_def
  by (auto simp: wp_simps page_at_def Let_def split: option.split sum.split) (auto simp: validate_placement_def Let_def split: prod.splits)

lemma password_checked:
  assumes "enforce_password_policy env req = Inr u" and "ge_require_password env \<noteq> Some False"
  shows "\<exists>user pw. sq_signer_user req = Some user \<and> user \<noteq> [] \<and> sq_password req = Some pw \<and> pw \<noteq> [] \<and> ge_password_verifier env user pw"
  using assms by (cases "sq_signer_user req"; cases "sq_password req")
    (auto simp: enforce_password_policy_def split: option.splits if_splits)

section \<open>What a signing may write\<close>

text \<open>The contract of the cryptographic signer: it writes the output path only.\<close>

definition signer_writes_output :: "sig_env \<Rightarrow> bool" where
  "signer_writes_output env \<longleftrightarrow> (\<forall>signer i p reason files files'. ge_crypto_signer env = Some signer \<longrightarrow>
     signer i p reason files = Inr files' \<longrightarrow> (\<forall>q. q \<noteq> p \<longrightarrow> files' q = files q))"

definition only_touches :: "string \<Rightarrow> (string \<Rightarrow> string option) \<Rightarrow> sig_world \<Rightarrow> bool" where
  "only_touches out files w \<longleftrightarrow> (\<forall>q. q \<noteq> out \<longrightarrow> gw_files w q = files q)"

lemma touches_basic:
  "keeps (only_touches out fs) (sg_local_now env)" "keeps (only_touches out fs) (sg_check b e)"
  "keeps (only_touches out fs) (read_file p)" "keeps (only_touches out fs) (write_file out c)"
  "keeps (only_touches out fs) (sg_audit a1 a2 a3 a4)" "keeps (only_touches out fs) (sg_publish env name payload actor)"
proof -
  show "keeps (only_touches out fs) (sg_publish env name payload actor)"
    unfolding keeps_iff_wp by (intro allI impI wp_publish_as) (simp add: only_touches_def published_as_def)
qed (auto simp: keeps_iff_wp wp_simps only_touches_def split: option.split)

lemma touches_copy: "keeps (only_touches out fs) (copy_file src out)"
  unfolding copy_file_def by (intro keeps_intros touches_basic)

lemma touches_visual: "keeps (only_touches out fs) (sign_visual env req out)"
  unfolding sign_visual_def signature_image_def resolve_runtime_layout_def sign_pdf_def Let_def
  by (intro keeps_intros touches_basic touches_copy)

lemma touches_crypto: "signer_writes_output env \<Longrightarrow> keeps (only_touches out fs) (sign_crypto env i out r)"
  unfolding keeps_def sign_crypto_def signer_writes_output_def only_touches_def
  by (auto split: option.split sum.split) metis

lemma touches_mode: "signer_writes_output env \<Longrightarrow> keeps (only_touches out fs) (sign_by_mode env req out)"
  unfolding sign_by_mode_def by (intro keeps_intros touches_visual touches_crypto)

lemma touches_output:
  assumes "signer_writes_output env"
  shows "keeps (only_touches out fs) (dry_run_copy env req out)" "keeps (only_touches out fs) (sign_for_real env req out)"
  unfolding dry_run_copy_def sign_for_real_def record_signing_def checked_page_def Let_def
  by (intro keeps_intros touches_basic touches_copy touches_mode [OF assms])+

lemma attempt_files:
  assumes "signer_writes_output env"
  shows "wp (sign_attempt env req)
    (\<lambda>r w'. \<exists>out. resolve_output (\<lambda>p. gw_files w p \<noteq> None) req = Inr out \<and> only_touches out (gw_files w) w')
    (\<lambda>e w'. gw_files w' = gw_files w \<or>
       (\<exists>out. resolve_output (\<lambda>p. gw_files w p \<noteq> None) req = Inr out \<and> only_touches out (gw_files w) w')) w"
proof -
  have start: "only_touches out (gw_files w) w" for out by (simp add: only_touches_def)
  show ?thesis
    unfolding sign_attempt_def
    by (auto simp: wp_simps split: sum.split intro!: wp_keeps [OF touches_output(1) [OF assms] start]
        wp_keeps [OF touches_output(2) [OF assms] start])
qed

lemma signing_files:
  assumes "signer_writes_output env" and "sign_fixed_position env req w = (r, w')"
  shows "gw_files w' = gw_files w \<or>
    (\<exists>out. resolve_output (\<lambda>p. gw_files w p \<noteq> None) req = Inr out \<and> only_touches out (gw_files w) w')"
proof -
  let ?P = "\<lambda>w'. gw_files w' = gw_files w \<or>
    (\<exists>out. resolve_output (\<lambda>p. gw_files w p \<noteq> None) req = Inr out \<and> only_touches out (gw_files w) w')"
  have handler: "?P (after (sg_publish env name payload actor v))" if "?P v" for name payload actor v
    using that publish_result [of env name payload actor v] by (auto simp: published_as_def only_touches_def)
  have "wp (sign_fixed_position env req) (\<lambda>_. ?P) (\<lambda>_. ?P) w"
    unfolding sign_fixed_position_def wp_bindM wp_on_error
  proof (rule wp_publish_as)
    fix v assume "published_as env ''domain.signature.sign.requested.v1'' w v"
    then have same: "gw_files v = gw_files w" by (simp add: published_as_def)
    show "wp (sign_attempt env req) (\<lambda>_. ?P)
        (\<lambda>e w'. ?P (after (sg_publish env ''domain.signature.sign.failed.v1'' [(''error'', PyStr (sig_error_text e)),
          (''mode'', PyStr (sq_sign_mode req))] (sq_signer_user req) w'))) v"
      by (rule wp_weaken [OF attempt_files [OF assms(1)]]) (use same handler in auto)
  qed
  then show ?thesis using assms(2) unfolding wp_def by (cases r) auto
qed

section \<open>The evidence of a signing\<close>

text \<open>Event names, with and without a bus.\<close>

definition emitted :: "sig_env \<Rightarrow> string list \<Rightarrow> string list" where
  "emitted env names = (if ge_has_event_bus env then names else [])"

lemma emitted_append [simp]: "emitted env xs @ emitted env ys = emitted env (xs @ ys)"
  by (simp add: emitted_def)

definition evidence :: "string list \<Rightarrow> audit_record list \<Rightarrow> sig_world \<Rightarrow> bool" where
  "evidence names records w \<longleftrightarrow> event_names w = names \<and> gw_audit w = records"

interpretation evidence: drawing_frame "evidence names records" for names records
  by unfold_locales (simp_all add: evidence_def event_names_def)

lemma published_evidence:
  "published_as env name w w' \<Longrightarrow> evidence names records w \<Longrightarrow> evidence (names @ emitted env [name]) records w'"
  by (simp add: published_as_def evidence_def emitted_def)

lemma evidence_audit:
  "evidence names records w \<Longrightarrow> evidence names (records @ [a]) (w\<lparr>gw_audit := gw_audit w @ [a]\<rparr>)"
  by (simp add: evidence_def event_names_def)

definition audit_of :: "string \<Rightarrow> sig_request \<Rightarrow> string \<Rightarrow> audit_record" where
  "audit_of action req out = \<lparr>au_action = action, au_actor = signer_or_system req, au_target = out, au_result = ''ok'',
     au_reason = sq_reason req\<rparr>"

definition requested_event :: string where "requested_event = ''domain.signature.sign.requested.v1''"

definition succeeded_event :: string where "succeeded_event = ''domain.signature.sign.succeeded.v1''"

definition dry_run_event :: string where "dry_run_event = ''domain.signature.sign.dry_run.v1''"

definition failed_event :: string where "failed_event = ''domain.signature.sign.failed.v1''"

lemmas event_name_defs = requested_event_def succeeded_event_def dry_run_event_def failed_event_def

lemma audit_and_publish:
  assumes "evidence names records v"
  shows "wp (bindM (sg_audit action actor target reason) (\<lambda>_. bindM (sg_publish env name payload user) (\<lambda>_. m))) Q E v \<longleftrightarrow>
    wp (sg_publish env name payload user) (\<lambda>_. wp m Q E) E (v\<lparr>gw_audit := gw_audit v @ [\<lparr>au_action = action, au_actor = actor,
      au_target = target, au_result = ''ok'', au_reason = reason\<rparr>]\<rparr>)"
  by (simp add: wp_bindM wp_files)

lemma published_after_audit:
  assumes "evidence names records v" and "published_as env name (v\<lparr>gw_audit := gw_audit v @ [a]\<rparr>) v'"
  shows "evidence (names @ emitted env [name]) (records @ [a]) v' \<and> gw_files v' = gw_files v"
  using published_evidence [OF assms(2) evidence_audit [OF assms(1)]] assms(2) by (simp add: published_as_def)

definition signed_result :: "sig_env \<Rightarrow> sig_request \<Rightarrow> string \<Rightarrow> sig_result \<Rightarrow> sig_world \<Rightarrow> bool" where
  "signed_result env req out r w \<longleftrightarrow> sz_signed r \<and> \<not> sz_dry_run r \<and> sz_output_pdf r = out \<and> sz_mode r = sq_sign_mode req \<and>
     (\<exists>signed. gw_files w out = Some signed \<and> sz_sha256 r = ge_sha256 env signed)"

lemma record_evidence:
  assumes "evidence names records w"
  shows "wp (record_signing env req out)
    (\<lambda>r w'. signed_result env req out r w' \<and>
      evidence (names @ emitted env [succeeded_event]) (records @ [audit_of ''signature.signed'' req out]) w')
    (\<lambda>e. evidence names records) w"
  unfolding record_signing_def Let_def
  by (auto simp: wp_bindM wp_files assms intro!: wp_publish_as split: option.split)
    (auto simp: wp_eqs audit_of_def succeeded_event_def signed_result_def dest: published_after_audit [OF assms])

lemma real_evidence:
  assumes "evidence names records w"
  shows "wp (sign_for_real env req out)
    (\<lambda>r w'. signed_result env req out r w' \<and> page_checked env req (gw_files w) \<and>
      evidence (names @ emitted env [succeeded_event]) (records @ [audit_of ''signature.signed'' req out]) w')
    (\<lambda>e. evidence names records) w"
proof -
  let ?Q = "\<lambda>r w'. signed_result env req out r w' \<and> page_checked env req (gw_files w) \<and>
      evidence (names @ emitted env [succeeded_event]) (records @ [audit_of ''signature.signed'' req out]) w'"
  have recorded: "wp (record_signing env req out) ?Q (\<lambda>e. evidence names records) v"
    if "evidence names records v" and "page_checked env req (gw_files w)" for v
    by (rule wp_weaken [OF record_evidence [OF that(1)]]) (use that(2) in simp_all)
  have mode: "wp (sign_by_mode env req out) (\<lambda>_. wp (record_signing env req out) ?Q (\<lambda>e. evidence names records))
      (\<lambda>e. evidence names records) w"
    if "page_checked env req (gw_files w)"
    by (rule wp_keeps [OF evidence.keeps_by_mode assms]) (erule recorded [OF _ that])
  have page: "wp (checked_page env req) (\<lambda>_. wp (sign_by_mode env req out) (\<lambda>_. wp (record_signing env req out) ?Q
      (\<lambda>e. evidence names records)) (\<lambda>e. evidence names records)) (\<lambda>e. evidence names records) w"
    by (rule wp_weaken [OF wp_checked_page]) (use assms mode in simp_all)
  show ?thesis
    unfolding sign_for_real_def wp_bindM wp_sg using assms page by simp
qed

lemma dry_run_evidence:
  assumes "evidence names records w" and "gw_files w (sq_input_pdf req) \<noteq> None"
  shows "wp (dry_run_copy env req out)
    (\<lambda>r w'. \<not> sz_signed r \<and> sz_dry_run r \<and> sz_output_pdf r = out \<and> sq_input_pdf req \<noteq> out \<and>
      gw_files w' out = gw_files w (sq_input_pdf req) \<and>
      evidence (names @ emitted env [dry_run_event]) (records @ [audit_of ''signature.dry_run'' req out]) w')
    (\<lambda>e w'. sq_input_pdf req = out \<and>
      evidence (names @ emitted env [dry_run_event]) (records @ [audit_of ''signature.dry_run'' req out]) w') w"
  unfolding dry_run_copy_def copy_file_def
  by (auto simp: wp_bindM wp_files intro!: wp_publish_as)
    (use assms(2) in \<open>auto simp: wp_simps audit_of_def dry_run_event_def evidence_def event_names_def
      dest!: published_after_audit [OF assms(1)] split: option.split\<close>)

text \<open>One outcome per signing, told by the bus and the audit trail.\<close>

definition signing_done :: "sig_env \<Rightarrow> sig_request \<Rightarrow> sig_world \<Rightarrow> sig_error + sig_result \<Rightarrow> sig_world \<Rightarrow> bool" where
  "signing_done env req w res w' \<longleftrightarrow> (case res of
       Inr r \<Rightarrow>
         enforce_password_policy env req = Inr () \<and> resolve_output (\<lambda>p. gw_files w p \<noteq> None) req = Inr (sz_output_pdf r) \<and>
         (if sz_signed r
          then \<not> sq_dry_run req \<and> signed_result env req (sz_output_pdf r) r w' \<and> page_checked env req (gw_files w) \<and>
            evidence (event_names w @ emitted env [requested_event, succeeded_event])
              (gw_audit w @ [audit_of ''signature.signed'' req (sz_output_pdf r)]) w'
          else sq_dry_run req \<and> sz_dry_run r \<and> gw_files w' (sz_output_pdf r) = gw_files w (sq_input_pdf req) \<and>
            gw_files w (sq_input_pdf req) \<noteq> None \<and>
            evidence (event_names w @ emitted env [requested_event, dry_run_event])
              (gw_audit w @ [audit_of ''signature.dry_run'' req (sz_output_pdf r)]) w')
     | Inl e \<Rightarrow>
         evidence (event_names w @ emitted env [requested_event, failed_event]) (gw_audit w) w' \<or>
         sq_dry_run req \<and> resolve_output (\<lambda>p. gw_files w p \<noteq> None) req = Inr (sq_input_pdf req) \<and>
         evidence (event_names w @ emitted env [requested_event, dry_run_event, failed_event])
           (gw_audit w @ [audit_of ''signature.dry_run'' req (sq_input_pdf req)]) w')"

lemma attempt_evidence:
  assumes "evidence names records w"
  shows "wp (sign_attempt env req)
    (\<lambda>r w'. enforce_password_policy env req = Inr () \<and> resolve_output (\<lambda>p. gw_files w p \<noteq> None) req = Inr (sz_output_pdf r) \<and>
       (if sz_signed r
        then \<not> sq_dry_run req \<and> signed_result env req (sz_output_pdf r) r w' \<and> page_checked env req (gw_files w) \<and>
          evidence (names @ emitted env [succeeded_event]) (records @ [audit_of ''signature.signed'' req (sz_output_pdf r)]) w'
        else sq_dry_run req \<and> sz_dry_run r \<and> gw_files w' (sz_output_pdf r) = gw_files w (sq_input_pdf req) \<and>
          gw_files w (sq_input_pdf req) \<noteq> None \<and>
          evidence (names @ emitted env [dry_run_event]) (records @ [audit_of ''signature.dry_run'' req (sz_output_pdf r)]) w'))
    (\<lambda>e w'. evidence names records w' \<or>
       sq_dry_run req \<and> resolve_output (\<lambda>p. gw_files w p \<noteq> None) req = Inr (sq_input_pdf req) \<and>
       evidence (names @ emitted env [dry_run_event]) (records @ [audit_of ''signature.dry_run'' req (sq_input_pdf req)]) w') w"
  unfolding sign_attempt_def
  by (auto simp: wp_bindM wp_eqs wp_files wp_sg assms signed_result_def split: sum.split
      intro!: wp_weaken [OF real_evidence [OF assms]] wp_weaken [OF dry_run_evidence [OF assms]])

lemma signing_evidence:
  assumes "sign_fixed_position env req w = (res, w')"
  shows "signing_done env req w res w'"
proof -
  have "wp (sign_fixed_position env req) (\<lambda>r. signing_done env req w (Inr r)) (\<lambda>e. signing_done env req w (Inl e)) w"
    unfolding sign_fixed_position_def wp_bindM wp_on_error
  proof (rule wp_publish_as)
    fix v assume v: "published_as env ''domain.signature.sign.requested.v1'' w v"
    let ?names = "event_names w @ emitted env [requested_event]"
    have start: "evidence ?names (gw_audit w) v" and same: "gw_files v = gw_files w"
      using published_evidence [OF v, of "event_names w" "gw_audit w"] v
      by (simp_all add: evidence_def requested_event_def published_as_def)
    have failed: "evidence (n @ emitted env [failed_event]) a (after (sg_publish env ''domain.signature.sign.failed.v1'' payload user u))"
      if "evidence n a u" for n a u payload user
      using publish_result [of env "''domain.signature.sign.failed.v1''" payload user u] published_evidence [OF _ that]
      by (auto simp: failed_event_def)
    show "wp (sign_attempt env req) (\<lambda>r. signing_done env req w (Inr r))
       (\<lambda>e u. signing_done env req w (Inl e) (after (sg_publish env ''domain.signature.sign.failed.v1''
         [(''error'', PyStr (sig_error_text e)), (''mode'', PyStr (sq_sign_mode req))] (sq_signer_user req) u))) v"
    proof (rule wp_weaken [OF attempt_evidence [OF start]], goal_cases)
      case (1 r u)
      then show ?case using same by (auto simp: signing_done_def split: if_splits)
    next
      case (2 e u)
      then show ?case
      proof (elim disjE conjE)
        assume "evidence ?names (gw_audit w) u"
        from failed [OF this] show ?thesis by (simp add: signing_done_def)
      next
        assume ev: "evidence (?names @ emitted env [dry_run_event]) (gw_audit w @ [audit_of ''signature.dry_run'' req (sq_input_pdf req)]) u"
          and "sq_dry_run req" "resolve_output (\<lambda>p. gw_files v p \<noteq> None) req = Inr (sq_input_pdf req)"
        with failed [OF ev] same show ?thesis by (simp add: signing_done_def)
      qed
    qed
  qed
  then show ?thesis using assms unfolding wp_def by (cases res) auto
qed

end
