(* ===== verification/SigRights.thy ===== *)
theory SigRights
  imports SigBehaviour
begin

text \<open>
  Who changes an active signature, which template is suggested, and what a signing in the mode \<open>both\<close> leaves
  when no cryptographic signer is configured.
  The suggestion of a template against its specification: among the matching templates the one with the
  greatest rank, own templates before global ones. What a scope outside the contract makes of a foreign image,
  and whose active signature a signing with a template looks up.
\<close>

section \<open>The active signature\<close>

definition active_is :: "string \<Rightarrow> string \<Rightarrow> sig_world \<Rightarrow> bool" where
  "active_is owner i w \<longleftrightarrow> active_asset_id (gw_db w) owner = Some i"

interpretation active: sig_frame "active_is owner i" for owner i
  by unfold_locales (simp_all add: active_is_def)

lemma active_same_rows [simp]:
  "active_asset_id (db\<lparr>gd_assets := as\<rparr>) owner = active_asset_id db owner"
  "active_asset_id (db\<lparr>gd_templates := ts\<rparr>) owner = active_asset_id db owner"
  by (simp_all add: active_asset_id_def)

lemma find_active_rows:
  "map_option ac_asset_id (List.find (\<lambda>r. ac_owner_user_id r = o1) (active_rows o2 i now rs)) =
     (if o1 = o2 then Some i else map_option ac_asset_id (List.find (\<lambda>r. ac_owner_user_id r = o1) rs))"
proof -
  have upd: "map_option ac_asset_id (List.find (\<lambda>r. ac_owner_user_id r = o1)
      (map (\<lambda>r. if ac_owner_user_id r = o2 then r\<lparr>ac_asset_id := i, ac_updated_at := now\<rparr> else r) rs)) =
    (if o1 = o2 \<and> o2 \<in> ac_owner_user_id ` set rs then Some i
     else map_option ac_asset_id (List.find (\<lambda>r. ac_owner_user_id r = o1) rs))"
    by (induction rs) auto
  have miss: "o2 \<notin> ac_owner_user_id ` set rs \<Longrightarrow> List.find (\<lambda>r. ac_owner_user_id r = o2) rs = None"
    by (auto simp: find_None_iff)
  show ?thesis
    by (cases "o2 \<in> ac_owner_user_id ` set rs") (auto simp: active_rows_def upd miss find_append split: option.split)
qed

lemma active_after_set [simp]:
  "active_asset_id (db\<lparr>gd_active := active_rows o2 i now (gd_active db)\<rparr>) o1 = (if o1 = o2 then Some i else active_asset_id db o1)"
  using find_active_rows [of o1 o2 i now "gd_active db"] by (simp add: active_asset_id_def)

lemma active_after_clear:
  "o1 \<noteq> o2 \<Longrightarrow> active_asset_id (db\<lparr>gd_active := filter (\<lambda>r. ac_owner_user_id r \<noteq> o2) (gd_active db)\<rparr>) o1 = active_asset_id db o1"
proof -
  assume ne: "o1 \<noteq> o2"
  have *: "List.find (\<lambda>r. ac_owner_user_id r = o1) (filter (\<lambda>r. ac_owner_user_id r \<noteq> o2) rs) =
      List.find (\<lambda>r. ac_owner_user_id r = o1) rs" for rs
    using ne by (induction rs) auto
  show ?thesis by (simp add: active_asset_id_def *)
qed

text \<open>The owner and the password of a call that may replace or clear an active signature.\<close>

fun active_request :: "sig_call \<Rightarrow> (string \<times> string option) option" where
  "active_request (SetActive owner _ pw) = Some (owner, pw)"
| "active_request (ClearActive owner pw) = Some (owner, pw)"
| "active_request (ImportAndActivate owner _ pw) = Some (owner, pw)"
| "active_request (ImportBytesAndActivate owner _ _ pw) = Some (owner, pw)"
| "active_request _ = None"

definition verified_for :: "sig_env \<Rightarrow> string \<Rightarrow> string option \<Rightarrow> bool" where
  "verified_for env owner pw \<longleftrightarrow> truthy pw \<and> ge_password_verifier env owner (the pw)"

lemma active_statements:
  "keeps (active_is owner i) (add_asset a)" "keeps (active_is owner i) (put_blob env o' ext payload)"
  "keeps (active_is owner i) (upsert_template t)" "keeps (active_is owner i) (touch_template_last_used_at j now)"
  "keeps (active_is owner i) (delete_template j)"
  unfolding touch_template_last_used_at_def delete_template_def
  by (auto simp: keeps_iff_wp wp_simps wp_put_blob Let_def active_is_def split: sum.split)

lemma active_import:
  "keeps (active_is owner i) (import_signature_asset env o' path)"
  "keeps (active_is owner i) (import_signature_asset_bytes env o' bytes hint)"
proof -
  show 1: "keeps (active_is owner i) (import_signature_asset env o' path)" for path
    unfolding import_signature_asset_def store_asset_def to_png_bytes_def Let_def by (intro active.rules active_statements)
  show "keeps (active_is owner i) (import_signature_asset_bytes env o' bytes hint)"
    unfolding import_signature_asset_bytes_def Let_def by (intro active.rules 1 active.keeps_remove)
qed

lemma active_set:
  "\<not> (o' = owner \<and> verified_for env owner pw) \<Longrightarrow> keeps (active_is owner i) (set_active_signature_asset env o' j pw)"
  unfolding keeps_iff_wp set_active_signature_asset_def require_valid_password_def
  by (auto simp: wp_simps active_is_def verified_for_def split: option.split)

lemma active_clear:
  "\<not> (o' = owner \<and> verified_for env owner pw) \<Longrightarrow> keeps (active_is owner i) (clear_active_signature env o' pw)"
  unfolding keeps_iff_wp clear_active_signature_def require_valid_password_def clear_active_row_def
  by (auto simp: wp_simps active_is_def verified_for_def split: option.split) (metis active_after_clear)+

lemma active_templates:
  "keeps (active_is owner i) (create_user_signature_template env o' name p l asset scope doc role)"
  "keeps (active_is owner i) (update_signature_template env j o' u)"
  "keeps (active_is owner i) (copied_asset_id env o' j)"
  unfolding create_user_signature_template_def update_signature_template_def copied_asset_id_def Let_def
  by (intro active.rules active_statements keeps_copied_blob)+

lemma active_call:
  assumes "\<And>pw. active_request call = Some (owner, pw) \<Longrightarrow> \<not> verified_for env owner pw"
  shows "keeps (active_is owner i) (run_signature env call)"
  using assms
  by (cases call; simp only: run_signature.simps quietly_def import_signature_asset_and_set_active_def and_set_active_def
      import_signature_asset_bytes_and_set_active_def delete_signature_template_def delete_signature_template_for_actor_def
      copy_global_template_for_actor_def copy_global_template_to_user_def may_manage_template_def
      create_user_signature_template_for_actor_def update_signature_template_for_actor_def active_request.simps)
    (intro active.rules active_import active_set active_clear active_templates active_statements active.keeps_export
      active.keeps_signing active.keeps_with_template active.keeps_for_actor; auto)+

section \<open>The mode \<open>both\<close>\<close>

text \<open>A method that does not look at the events already published.\<close>

definition event_blind :: "'a sg_meth \<Rightarrow> bool" where
  "event_blind m \<longleftrightarrow> (\<forall>w es. m (w\<lparr>gw_events := es\<rparr>) = (case m w of (r, w') \<Rightarrow> (r, w'\<lparr>gw_events := es\<rparr>)))"

named_theorems blind_rules \<open>methods that do not look at events\<close>

lemma blind_bind [blind_rules]: "event_blind m \<Longrightarrow> (\<And>x. event_blind (f x)) \<Longrightarrow> event_blind (bindM m f)"
  unfolding event_blind_def bindM_def by (auto split: prod.split sum.split)

lemma blind_basic [blind_rules]:
  "event_blind (retM x)" "event_blind (raiseM e)" "event_blind (liftE r)" "event_blind (sg_check b e)" "event_blind (sg_local_now env)"
  "event_blind (read_file p)" "event_blind (write_file p c)" "(\<And>w es. g (w\<lparr>gw_events := es\<rparr>) = g w) \<Longrightarrow> event_blind (readM g)"
  by (simp_all add: event_blind_def sg_check_def sg_local_now_def read_file_def write_file_def)

lemma blind_cases [blind_rules]:
  "(c \<Longrightarrow> event_blind m) \<Longrightarrow> (\<not> c \<Longrightarrow> event_blind n) \<Longrightarrow> event_blind (if c then m else n)"
  "(x = None \<Longrightarrow> event_blind m) \<Longrightarrow> (\<And>y. x = Some y \<Longrightarrow> event_blind (f y)) \<Longrightarrow> event_blind (case x of None \<Rightarrow> m | Some y \<Rightarrow> f y)"
  by (auto split: option.split)

lemma blind_visual: "event_blind (sign_visual env req out)"
  unfolding sign_visual_def signature_image_def resolve_runtime_layout_def sign_pdf_def copy_file_def Let_def
  by (intro blind_rules) simp_all

lemma blind_page: "event_blind (checked_page env req)"
  unfolding checked_page_def Let_def by (intro blind_rules)

lemma event_blindD: "event_blind m \<Longrightarrow> m w = (r, w') \<Longrightarrow> m (w\<lparr>gw_events := es\<rparr>) = (r, w'\<lparr>gw_events := es\<rparr>)"
  by (simp add: event_blind_def)

definition in_mode :: "string \<Rightarrow> sig_request \<Rightarrow> sig_request" where
  "in_mode mode req = req\<lparr>sq_sign_mode := mode\<rparr>"

lemma mode_free:
  "enforce_password_policy env (in_mode m req) = enforce_password_policy env req"
  "resolve_output taken (in_mode m req) = resolve_output taken req"
  "checked_page env (in_mode m req) = checked_page env req"
  "sign_visual env (in_mode m req) out = sign_visual env req out"
  "sq_input_pdf (in_mode m req) = sq_input_pdf req" "sq_dry_run (in_mode m req) = sq_dry_run req"
  "sq_sign_mode (in_mode m req) = m" "sq_signer_user (in_mode m req) = sq_signer_user req"
  by (simp_all add: in_mode_def enforce_password_policy_def resolve_output_def output_target_def checked_page_def Let_def
      sign_visual_def signature_image_def cong: option.case_cong)

lemma on_error_Inr [simp]: "on_failure m h w = (Inr x, w') \<longleftrightarrow> m w = (Inr x, w')"
  by (auto simp: on_failure_def split: prod.split sum.split)

lemma sign_fixed_Inr:
  assumes "sign_fixed_position env req w = (Inr r, w')"
  obtains v where "sg_publish env ''domain.signature.sign.requested.v1'' [(''mode'', PyStr (sq_sign_mode req)),
       (''dry_run'', PyBool (sq_dry_run req))] (sq_signer_user req) w = (Inr (), v)" and "sign_attempt env req v = (Inr r, w')"
  using assms unfolding sign_fixed_position_def by auto

lemma attempt_signed:
  assumes "sign_attempt env req v = (Inr r, w')" and "sz_signed r"
  obtains out where "enforce_password_policy env req = Inr ()" and "resolve_output (\<lambda>p. gw_files v p \<noteq> None) req = Inr out"
    and "gw_files v (sq_input_pdf req) \<noteq> None" and "\<not> sq_dry_run req" and "sign_for_real env req out v = (Inr r, w')"
  using assms unfolding sign_attempt_def
  by (auto simp: file_exists_def sg_check_def dry_run_copy_def split: if_splits)

lemma record_files: "record_signing env req out w = (Inr r, w') \<Longrightarrow> gw_files w' = gw_files w"
proof -
  assume run: "record_signing env req out w = (Inr r, w')"
  have "wp (record_signing env req out) (\<lambda>_ u. gw_files u = gw_files w) (\<lambda>_ _. True) w"
    unfolding record_signing_def Let_def
    by (auto simp: wp_bindM wp_files wp_eqs split: option.split intro!: wp_publish_as) (simp add: published_as_def)
  from wp_Inr [OF this run] show ?thesis .
qed

lemma visual_signed:
  assumes "sign_for_real env (in_mode ''visual'' req) out v = (Inr r, w')"
  obtains u where "checked_page env req v = (Inr (), v)" and "sign_visual env req out v = (Inr (), u)" and "gw_files w' = gw_files u"
proof -
  from assms obtain v1 u where page: "checked_page env req v = (Inr (), v1)" and vis: "sign_visual env req out v1 = (Inr (), u)"
    and rec: "record_signing env (in_mode ''visual'' req) out u = (Inr r, w')"
    unfolding sign_for_real_def by (auto simp: sg_check_def mode_free sign_by_mode_def)
  have "v1 = v" using wp_Inr [OF wp_checked_page page] by simp
  with page vis record_files [OF rec] show ?thesis by (intro that) simp_all
qed

lemma both_fails:
  assumes "ge_crypto_signer env = None" and "checked_page env req v = (Inr (), v)" and "sign_visual env req out v = (Inr (), u)"
  shows "sign_for_real env (in_mode ''both'' req) out v = (Inl (SgCryptoNotConfiguredError ''crypto signer not configured''), u)"
  using assms unfolding sign_for_real_def
  by (simp add: sg_check_def mode_free sign_by_mode_def sign_crypto_def bindM_def)

lemma publish_eq:
  assumes "sg_publish env name payload actor w = (Inr (), v)"
  shows "\<exists>es. sg_publish env name' payload' actor w = (Inr (), v\<lparr>gw_events := es\<rparr>)"
proof (cases "ge_has_event_bus env")
  case True
  with assms show ?thesis by (auto simp: sg_publish_def bindM_def sg_draw_def sg_utcnow_def intro!: exI)
next
  case False
  with assms have "v = w" by (simp add: sg_publish_def)
  with False show ?thesis by (intro exI [of _ "gw_events w"]) (simp add: sg_publish_def)
qed

lemma both_mode_run:
  assumes "ge_crypto_signer env = None" and "sign_fixed_position env (in_mode ''visual'' req) w = (Inr r, w1)" and "sz_signed r"
  shows "\<exists>w2. sign_fixed_position env (in_mode ''both'' req) w =
      (Inl (SgCryptoNotConfiguredError ''crypto signer not configured''), w2) \<and> gw_files w2 = gw_files w1"
proof -
  obtain v where pub: "sg_publish env ''domain.signature.sign.requested.v1'' [(''mode'', PyStr ''visual''),
       (''dry_run'', PyBool (sq_dry_run req))] (sq_signer_user req) w = (Inr (), v)"
    and att: "sign_attempt env (in_mode ''visual'' req) v = (Inr r, w1)"
    by (rule sign_fixed_Inr [OF assms(2), unfolded mode_free])
  obtain out where ok: "enforce_password_policy env req = Inr ()" "resolve_output (\<lambda>p. gw_files v p \<noteq> None) req = Inr out"
      "gw_files v (sq_input_pdf req) \<noteq> None" "\<not> sq_dry_run req"
    and real: "sign_for_real env (in_mode ''visual'' req) out v = (Inr r, w1)"
    by (rule attempt_signed [OF att assms(3), unfolded mode_free])
  obtain u where page: "checked_page env req v = (Inr (), v)" and vis: "sign_visual env req out v = (Inr (), u)"
    and files: "gw_files w1 = gw_files u"
    by (rule visual_signed [OF real])
  obtain es where pub2: "sg_publish env ''domain.signature.sign.requested.v1'' [(''mode'', PyStr ''both''),
       (''dry_run'', PyBool (sq_dry_run req))] (sq_signer_user req) w = (Inr (), v\<lparr>gw_events := es\<rparr>)"
    using publish_eq [OF pub, of "''domain.signature.sign.requested.v1''" "[(''mode'', PyStr ''both''), (''dry_run'', PyBool (sq_dry_run req))]"]
    by (elim exE)
  let ?v = "v\<lparr>gw_events := es\<rparr>" and ?e = "SgCryptoNotConfiguredError ''crypto signer not configured''"
  have "sign_for_real env (in_mode ''both'' req) out ?v = (Inl ?e, u\<lparr>gw_events := es\<rparr>)"
    by (rule both_fails [OF assms(1) event_blindD [OF blind_page page] event_blindD [OF blind_visual vis]])
  then have "sign_attempt env (in_mode ''both'' req) ?v = (Inl ?e, u\<lparr>gw_events := es\<rparr>)"
    using ok by (simp add: sign_attempt_def mode_free file_exists_def sg_check_def)
  then have "sign_fixed_position env (in_mode ''both'' req) w = (Inl ?e, after (sg_publish env ''domain.signature.sign.failed.v1''
      [(''error'', PyStr (sig_error_text ?e)), (''mode'', PyStr ''both'')] (sq_signer_user req) (u\<lparr>gw_events := es\<rparr>)))"
    unfolding sign_fixed_position_def mode_free by (simp add: bindM_def pub2 on_failure_def)
  moreover have "gw_files (after (sg_publish env n p a (u\<lparr>gw_events := es\<rparr>))) = gw_files u" for n p a
    using publish_result [of env n p a "u\<lparr>gw_events := es\<rparr>"] by (auto simp: published_as_def)
  ultimately show ?thesis using files by simp
qed

section \<open>The specification\<close>

definition eligible_templates :: "sig_db \<Rightarrow> string \<Rightarrow> (signature_template \<Rightarrow> bool) \<Rightarrow> (signature_template \<times> bool) set" where
  "eligible_templates db user_id matches =
     (\<lambda>t. (t, True)) ` {t \<in> set (gd_templates db). tm_owner_user_id t = user_id \<and> tm_scope t = ''user'' \<and> matches t} \<union>
     (\<lambda>t. (t, False)) ` {t \<in> set (gd_templates db). tm_scope t = ''global'' \<and> matches t}"

definition best_of :: "(signature_template \<times> bool) set \<Rightarrow> signature_template option \<Rightarrow> bool" where
  "best_of cs res \<longleftrightarrow> (case res of
       None \<Rightarrow> cs = {}
     | Some t \<Rightarrow> \<exists>s. (t, s) \<in> cs \<and> (\<forall>c \<in> cs. c \<noteq> (t, s) \<longrightarrow> suggestion_rank_key c < suggestion_rank_key (t, s)))"

section \<open>The loops\<close>

lemma own_candidates_set:
  assumes "distinct (map tm_template_id ts)" and "tm_template_id ` set ts \<inter> set seen = {}"
  shows "set (fst (own_candidates matches ts cs seen)) = set cs \<union>
      (\<lambda>t. (t, True)) ` {t \<in> set ts. tm_scope t = ''user'' \<and> matches t} \<union>
      (\<lambda>t. (t, False)) ` {t \<in> set ts. tm_scope t = ''global'' \<and> matches t} \<and>
    set (snd (own_candidates matches ts cs seen)) = set seen \<union> tm_template_id ` {t \<in> set ts. tm_scope t = ''global'' \<and> matches t}"
  using assms
proof (induction ts arbitrary: cs seen)
  case (Cons t ts)
  have d: "distinct (map tm_template_id ts)" "tm_template_id t \<notin> tm_template_id ` set ts" using Cons.prems by auto
  consider (own) "tm_scope t = ''user''" | (global) "tm_scope t = ''global''" "matches t"
    | (other) "tm_scope t \<noteq> ''user''" "\<not> (tm_scope t = ''global'' \<and> matches t)" by blast
  then show ?case
  proof cases
    case own
    then show ?thesis using Cons.IH [OF d(1), of seen "if matches t then cs @ [(t, True)] else cs"] Cons.prems(2) by auto
  next
    case global
    have "tm_template_id ` set ts \<inter> set (tm_template_id t # seen) = {}" using Cons.prems d(2) by auto
    from Cons.IH [OF d(1) this, of "cs @ [(t, False)]"] show ?thesis using global Cons.prems(2) by auto
  next
    case other
    then show ?thesis using Cons.IH [OF d(1), of seen cs] Cons.prems(2) by auto
  qed
qed simp

lemma global_candidates_set:
  assumes "distinct (map tm_template_id ts)"
  shows "set (global_candidates matches ts cs seen) = set cs \<union>
    (\<lambda>t. (t, False)) ` {t \<in> set ts. tm_template_id t \<notin> set seen \<and> matches t}"
  using assms
proof (induction ts arbitrary: cs seen)
  case (Cons t ts)
  have d: "distinct (map tm_template_id ts)" "tm_template_id t \<notin> tm_template_id ` set ts" using Cons.prems by auto
  show ?case
  proof (cases "tm_template_id t \<notin> set seen \<and> matches t")
    case True
    have "{u \<in> set ts. tm_template_id u \<notin> set (tm_template_id t # seen) \<and> matches u} =
        {u \<in> set ts. tm_template_id u \<notin> set seen \<and> matches u}"
      using d(2) by (auto simp: image_iff)
    moreover have "{u \<in> set (t # ts). tm_template_id u \<notin> set seen \<and> matches u} =
        insert t {u \<in> set ts. tm_template_id u \<notin> set seen \<and> matches u}"
      using True by auto
    ultimately show ?thesis using True Cons.IH [OF d(1), of "cs @ [(t, False)]" "tm_template_id t # seen"] by simp
  next
    case False
    then show ?thesis using Cons.IH [OF d(1), of cs seen] by auto
  qed
qed simp

lemma first_max_greatest:
  "first_max key x xs \<in> set (x # xs) \<and> (\<forall>y \<in> set (x # xs). key y \<le> key (first_max key x xs))"
proof (induction xs arbitrary: x)
  case (Cons y ys)
  define z where "z = (if key x < key y then y else x)"
  have z: "z \<in> {x, y}" "key x \<le> key z" "key y \<le> key z" by (auto simp: z_def)
  have run: "first_max key x (y # ys) = first_max key z ys" by (simp add: z_def)
  have top: "first_max key z ys \<in> set (z # ys)" "key z \<le> key (first_max key z ys)"
    "\<forall>u \<in> set ys. key u \<le> key (first_max key z ys)"
    using Cons.IH [of z] by simp_all
  have "key x \<le> key (first_max key z ys)" "key y \<le> key (first_max key z ys)"
    by (rule order_trans [OF z(2) top(2)], rule order_trans [OF z(3) top(2)])
  then show ?case unfolding run using top(1,3) z(1) by auto
qed simp

lemma read_back [simp]: "tm_scope t \<in> {''user'', ''global''} \<Longrightarrow> row_to_template t = t"
  by (auto simp: row_to_template_def)

lemma map_read_back: "\<forall>t \<in> set ts. tm_scope t \<in> {''user'', ''global''} \<Longrightarrow> map row_to_template ts = ts"
  by (rule map_idI) simp

lemma distinct_sorted_part:
  "distinct (map f ts) \<Longrightarrow> distinct (map f (sort_key k (filter P ts)))"
  by (simp add: distinct_map distinct_sort inj_on_def)

lemma candidates_eligible:
  assumes "sig_tables_ok db"
  shows "set (suggestion_candidates db user_id matches) = eligible_templates db user_id matches"
proof -
  have scopes: "\<forall>t \<in> set (gd_templates db). tm_scope t \<in> {''user'', ''global''}"
    and ids: "distinct (map tm_template_id (gd_templates db))"
    using assms by (simp_all add: sig_tables_ok_def template_row_ok_def)
  have own: "list_templates db user_id = sort_key tm_name (filter (\<lambda>r. tm_owner_user_id r = user_id) (gd_templates db))"
    unfolding list_templates_def by (rule map_read_back) (use scopes in auto)
  have global: "list_global_templates db = sort_key tm_name (filter (\<lambda>r. tm_scope r = ''global'') (gd_templates db))"
    unfolding list_global_templates_def by (rule map_read_back) (use scopes in auto)
  obtain cs seen where run: "own_candidates matches (list_templates db user_id) [] [] = (cs, seen)" by fastforce
  have "distinct (map tm_template_id (list_templates db user_id))" unfolding own by (rule distinct_sorted_part [OF ids])
  note own_set = own_candidates_set [OF this, of "[]" matches "[]", unfolded run fst_conv snd_conv]
  let ?A = "{t \<in> set (gd_templates db). tm_owner_user_id t = user_id \<and> tm_scope t = ''user'' \<and> matches t}"
  let ?B = "{t \<in> set (gd_templates db). tm_owner_user_id t = user_id \<and> tm_scope t = ''global'' \<and> matches t}"
  let ?C = "{t \<in> set (gd_templates db). tm_scope t = ''global'' \<and> tm_template_id t \<notin> set seen \<and> matches t}"
  let ?G = "{t \<in> set (gd_templates db). tm_scope t = ''global'' \<and> matches t}"
  have parts: "{t \<in> set (list_templates db user_id). tm_scope t = ''user'' \<and> matches t} = ?A"
    "{t \<in> set (list_templates db user_id). tm_scope t = ''global'' \<and> matches t} = ?B"
    "{t \<in> set (list_global_templates db). tm_template_id t \<notin> set seen \<and> matches t} = ?C"
    unfolding own global by auto
  have cs: "set cs = (\<lambda>t. (t, True)) ` ?A \<union> (\<lambda>t. (t, False)) ` ?B" and seen: "set seen = tm_template_id ` ?B"
    using own_set unfolding parts by simp_all
  have "distinct (map tm_template_id (list_global_templates db))" unfolding global by (rule distinct_sorted_part [OF ids])
  from global_candidates_set [OF this, of matches cs seen, unfolded parts]
  have all: "set (suggestion_candidates db user_id matches) = set cs \<union> (\<lambda>t. (t, False)) ` ?C"
    unfolding suggestion_candidates_def run by simp
  have inj: "inj_on tm_template_id (set (gd_templates db))" using ids by (simp add: distinct_map)
  have "?C \<subseteq> ?G" "?B \<subseteq> ?G" by auto
  moreover have "?G \<subseteq> ?B \<union> ?C"
  proof
    fix t assume t: "t \<in> ?G"
    show "t \<in> ?B \<union> ?C"
    proof (cases "tm_template_id t \<in> set seen")
      case True
      then obtain t' where "t' \<in> ?B" "tm_template_id t = tm_template_id t'" unfolding seen by (elim imageE)
      with t inj_onD [OF inj, of t t'] show ?thesis by simp
    qed (use t in simp)
  qed
  ultimately have "?B \<union> ?C = ?G" by (intro equalityI Un_least)
  then have "(\<lambda>t. (t, False)) ` ?B \<union> (\<lambda>t. (t, False)) ` ?C = (\<lambda>t. (t, False)) ` ?G" by (simp only: image_Un [symmetric])
  then show ?thesis unfolding all cs eligible_templates_def Un_assoc by (simp only:)
qed

lemma eligible_rank_inj:
  assumes "sig_tables_ok db" and "c \<in> eligible_templates db u matches" and "c' \<in> eligible_templates db u matches"
    and "suggestion_rank_key c = suggestion_rank_key c'"
  shows "c = c'"
proof -
  have ids: "inj_on tm_template_id (set (gd_templates db))" using assms(1) by (simp add: sig_tables_ok_def distinct_map)
  obtain t s t' s' where c: "c = (t, s)" "c' = (t', s')" by fastforce
  then have "t \<in> set (gd_templates db)" "t' \<in> set (gd_templates db)" using assms(2,3) by (auto simp: eligible_templates_def)
  moreover have "tm_template_id t = tm_template_id t'" "s = s'"
    using assms(4) c by (auto simp: suggestion_rank_key_def split: if_splits)
  ultimately show ?thesis using c inj_onD [OF ids] by simp
qed

lemma suggestion_best:
  assumes "sig_tables_ok (gw_db w)" and "ge_has_repository env" and "require_confirmed_user_context actor = Inr c"
  shows "\<exists>res. suggest_template_for_actor env actor doc role w = (Inr res, w) \<and>
    best_of (eligible_templates (gw_db w) (u_user_id c) (template_matches_context doc role)) res"
proof -
  let ?cs = "suggestion_candidates (gw_db w) (u_user_id c) (template_matches_context doc role)"
  let ?e = "eligible_templates (gw_db w) (u_user_id c) (template_matches_context doc role)"
  have set: "set ?cs = ?e" by (rule candidates_eligible [OF assms(1)])
  have run: "suggest_template_for_actor env actor doc role w =
      (Inr (case ?cs of [] \<Rightarrow> None | x # xs \<Rightarrow> Some (fst (first_max suggestion_rank_key x xs))), w)"
    using assms(2,3) by (simp add: suggest_template_for_actor_def confirmed_actor_def sg_read_def)
  show ?thesis
  proof (cases ?cs)
    case Nil
    then show ?thesis using run set by (simp add: best_of_def)
  next
    case (Cons x xs)
    let ?b = "first_max suggestion_rank_key x xs"
    have e: "set (x # xs) = ?e" using set Cons by simp
    have b: "?b \<in> ?e" "\<forall>y \<in> ?e. suggestion_rank_key y \<le> suggestion_rank_key ?b"
      using first_max_greatest [of suggestion_rank_key x xs] unfolding e by blast+
    have "suggestion_rank_key y < suggestion_rank_key ?b" if "y \<in> ?e" "y \<noteq> ?b" for y
      using b that eligible_rank_inj [OF assms(1) that(1) b(1)] by (metis order_le_less)
    with b(1) have "best_of ?e (Some (fst ?b))"
      unfolding best_of_def by (simp, intro exI [of _ "snd ?b"]) simp
    then show ?thesis using run Cons by simp
  qed
qed

section \<open>Scopes outside the contract\<close>

text \<open>A placement and a layout that the table can hold.\<close>

definition storable :: "placement_input \<Rightarrow> label_layout \<Rightarrow> bool" where
  "storable p l \<longleftrightarrow> NaN \<notin> {pl_x p, pl_y p, pl_target_width p, la_name_above l, la_name_below l, la_date_above l, la_date_below l,
     la_x_offset l} \<and> (\<forall>i \<in> {pl_page_index p, la_name_font_size l, la_date_font_size l}. - (2 ^ 63) \<le> i \<and> i < 2 ^ 63)"

lemma storable_row: "storable (tm_placement t) (tm_layout t) \<Longrightarrow> check_template_row t = Inr ()"
  by (auto simp: storable_def check_template_row_def template_ints_def required_floats_def Let_def)

lemma foreign_template:
  assumes "require_confirmed_user_context actor = Inr c" and "ge_has_repository env" and "ge_has_secure_store env"
    and "py_strip name \<noteq> []" and "get_asset (gw_db w) i = Some a" and "scope \<noteq> ''user''" and "scope \<noteq> ''global''" and "storable p l"
  shows "\<exists>t w'. create_user_signature_template_for_actor env actor name p l (Some i) scope doc role w = (Inr t, w') \<and>
    tm_scope t = ''user'' \<and> tm_owner_user_id t = u_user_id c \<and> tm_signature_asset_id t = Some i \<and>
    get_template (gw_db w') (tm_template_id t) = Some (template_row t) \<and> get_asset (gw_db w') i = Some a"
proof -
  let ?t = "\<lparr>tm_template_id = ge_hex env (gw_draws w), tm_owner_user_id = u_user_id c, tm_name = py_strip name,
      tm_placement = p, tm_layout = l, tm_signature_asset_id = Some i, tm_created_at = ge_clock env (gw_ticks w),
      tm_scope = ''user'', tm_document_type = doc, tm_role_context = role, tm_last_used_at = None\<rparr>"
  have row: "check_template_row ?t = Inr ()" using assms(8) by (intro storable_row) simp
  have "wp (create_user_signature_template_for_actor env actor name p l (Some i) scope doc role)
      (\<lambda>t w'. t = ?t \<and> gd_assets (gw_db w') = gd_assets (gw_db w) \<and> gd_templates (gw_db w') =
        filter (\<lambda>r. tm_template_id r \<noteq> tm_template_id ?t) (gd_templates (gw_db w)) @ [template_row ?t]) (\<lambda>_ _. False) w"
    unfolding create_user_signature_template_for_actor_def create_user_signature_template_def Let_def
    using assms row by (simp add: wp_bindM wp_eqs wp_sg wp_confirmed_actor wp_upsert_template wp_files)
  then obtain w' where run: "create_user_signature_template_for_actor env actor name p l (Some i) scope doc role w = (Inr ?t, w')"
    and db: "gd_assets (gw_db w') = gd_assets (gw_db w)" "gd_templates (gw_db w') =
        filter (\<lambda>r. tm_template_id r \<noteq> tm_template_id ?t) (gd_templates (gw_db w)) @ [template_row ?t]"
    unfolding wp_def by (auto split: prod.splits sum.splits)
  have none: "List.find (\<lambda>r. tm_template_id r = k) (filter (\<lambda>r. tm_template_id r \<noteq> k) ts) = None" for k ts
    by (auto simp: find_None_iff)
  have "get_template (gw_db w') (tm_template_id ?t) = Some (template_row ?t)"
    unfolding get_template_def db(2) by (simp add: find_append none)
  then show ?thesis using run db(1) assms(5) by (intro exI [of _ ?t] exI [of _ w']) (simp add: get_asset_def)
qed

section \<open>Whose image a template signs with\<close>

lemma linked_image:
  "tm_signature_asset_id t = Some i \<Longrightarrow> i \<noteq> [] \<Longrightarrow> ge_has_secure_store env \<Longrightarrow> get_asset (gw_db w) i = Some a \<Longrightarrow>
   signing_asset env t signer w = (Inr a, w)"
  by (simp add: signing_asset_def sg_check_def sg_read_def)

lemma active_image_of_signer:
  assumes "tm_signature_asset_id t = None" and "signing_asset env t signer w = (Inr a, w')"
  shows "\<exists>i. active_asset_id (gw_db w) signer = Some i \<and> get_asset (gw_db w) i = Some a"
  using assms by (cases "active_asset_id (gw_db w) signer")
    (auto simp: signing_asset_def get_active_signature_asset_id_def sg_check_def sg_read_def split: if_splits option.splits)

end
