(* ===== verification/SigGuard.thy ===== *)
theory SigGuard
  imports SigRights UserApi DocContracts
begin

text \<open>
  The signature module seen from its neighbours: as the signature API of the documents' guard
  (\<open>modules/documents/signature_guard.py\<close>), and as a client of the accounts (\<open>modules/signature/wiring.py\<close>).
\<close>

section \<open>The signature API of the guard\<close>

text \<open>
  The documents module keeps the names of the files; the contents are a function of the name. Besides the fields
  that the guard replaces, a request has those of \<open>sx_request\<close>. An exception of any class ends the call.
\<close>

record signature_port =
  sx_env :: sig_env
  sx_world :: sig_world
  sx_contents :: "string \<Rightarrow> string"
  sx_request :: sig_request
  sx_context :: "string \<Rightarrow> user_context option"

definition module_world :: "signature_port \<Rightarrow> string set \<Rightarrow> sig_world" where
  "module_world x files = (sx_world x)\<lparr>gw_files := \<lambda>p. if p \<in> files then Some (sx_contents x p) else None\<rparr>"

definition fixed_request :: "signature_port \<Rightarrow> sign_request \<Rightarrow> sig_request" where
  "fixed_request x req = (sx_request x)\<lparr>sq_input_pdf := sr_input_pdf req, sq_output_pdf := Some (sr_output_pdf req),
     sq_signature_png := sr_signature_png req\<rparr>"

definition guard_template_signing :: "signature_port \<Rightarrow> sign_request \<Rightarrow> template_signing" where
  "guard_template_signing x req = (let q = sx_request x in
     \<lparr>ts_template_id = the (sr_template_id req), ts_input_pdf = sr_input_pdf req, ts_password = sq_password q,
      ts_output_pdf = Some (sr_output_pdf req), ts_dry_run = sq_dry_run q, ts_overwrite_output = sq_overwrite_output q,
      ts_sign_mode = sq_sign_mode q, ts_reason = sq_reason q, ts_placement_override = Some (sq_placement q),
      ts_layout_override = Some (sq_layout q)\<rparr>)"

definition fixed_call :: "signature_port \<Rightarrow> sign_request \<Rightarrow> string set \<Rightarrow> (sig_error + sig_result) \<times> sig_world" where
  "fixed_call x req files = sign_fixed_position (sx_env x) (fixed_request x req) (module_world x files)"

definition template_call ::
  "signature_port \<Rightarrow> string \<Rightarrow> sign_request \<Rightarrow> string set \<Rightarrow> (sig_error + sig_result) \<times> sig_world" where
  "template_call x actor req files =
     sign_template_for_actor (sx_env x) (sx_context x actor) (guard_template_signing x req) (module_world x files)"

definition api_outcome :: "(sig_error + sig_result) \<times> sig_world \<Rightarrow> string option \<times> string set" where
  "api_outcome res = (case res of (r, w) \<Rightarrow>
     (case r of Inl e \<Rightarrow> Some (sig_error_text e) | Inr _ \<Rightarrow> None, {p. gw_files w p \<noteq> None}))"

definition with_signature_module :: "signature_port \<Rightarrow> docs_env \<Rightarrow> docs_env" where
  "with_signature_module x env = env\<lparr>has_signature_api := True,
     sign_with_fixed_position := \<lambda>req files. api_outcome (fixed_call x req files),
     sign_with_template_for_actor := \<lambda>actor req files. api_outcome (template_call x actor req files)\<rparr>"

text \<open>
  What the module signs for the guard, and where: the request itself in the world with the guard's files, or,
  with a template, the request made of the template for the actor, in that world with the staged image.
\<close>

definition module_run ::
  "signature_port \<Rightarrow> string option \<Rightarrow> sign_request \<Rightarrow> string set \<Rightarrow> sig_request \<Rightarrow> sig_world \<Rightarrow> bool" where
  "module_run x actor req files q v \<longleftrightarrow>
     (if truthy (sr_template_id req)
      then \<exists>a c t tmp. actor = Some a \<and> require_confirmed_user_context (sx_context x a) = Inr c \<and>
        get_template (gw_db (sx_world x)) (the (sr_template_id req)) = Some t \<and>
        (tm_scope t = ''global'' \<or> tm_owner_user_id t = u_user_id c) \<and>
        staged_image (sx_env x) t (u_username c) (module_world x files) = (Inr tmp, v) \<and>
        q = template_request (guard_template_signing x req) t (u_username c) tmp \<and> sq_signer_user q = Some (u_username c)
      else v = module_world x files \<and> q = fixed_request x req \<and> sq_signer_user q = sq_signer_user (sx_request x))"

lemma finally_Inr [simp]: "finally_do m cleanup w = (Inr r, w') \<longleftrightarrow> (\<exists>w1. m w = (Inr r, w1) \<and> w' = cleanup w1)"
  by (auto simp: finally_do_def split: prod.split)

lemma signable_Inr:
  "signable_template i w = (Inr t, w') \<longleftrightarrow> get_template (gw_db w) i = Some t \<and> w' = w"
  unfolding signable_template_def by (auto simp: sg_read_def split: option.splits)

lemma need_repository_Inr: "need_repository env msg w = (Inr u, w') \<Longrightarrow> w' = w"
  by (auto simp: need_repository_def sg_check_def raise_if_def split: if_splits)

lemma confirmed_Inr:
  "confirmed_actor actor w = (Inr c, w') \<longleftrightarrow> require_confirmed_user_context actor = Inr c \<and> w' = w"
  by (auto simp: confirmed_actor_def split: sum.splits)

lemma sg_check_Inr [simp]: "sg_check b e w = (Inr u, w') \<longleftrightarrow> \<not> b \<and> w' = w"
  by (auto simp: sg_check_def raise_if_def)

lemma with_template_signs:
  assumes "sign_with_template env signer s w = (Inr r, w')"
  shows "\<exists>t tmp v v'. get_template (gw_db w) (ts_template_id s) = Some t \<and> staged_image env t signer w = (Inr tmp, v) \<and>
    sign_fixed_position env (template_request s t signer tmp) v = (Inr r, v')"
  using assms unfolding sign_with_template_def
  by (simp only: bindM_eq_Inr finally_Inr retM_def prod.inject sum.inject signable_Inr sg_check_Inr) (blast dest: need_repository_Inr)

lemma template_signs:
  assumes "sign_template_for_actor env actor s w = (Inr r, w')"
  shows "\<exists>c t tmp v v'. require_confirmed_user_context actor = Inr c \<and> get_template (gw_db w) (ts_template_id s) = Some t \<and>
    (tm_scope t = ''global'' \<or> tm_owner_user_id t = u_user_id c) \<and> staged_image env t (u_username c) w = (Inr tmp, v) \<and>
    sign_fixed_position env (template_request s t (u_username c) tmp) v = (Inr r, v')"
proof -
  obtain c t where c: "require_confirmed_user_context actor = Inr c" "get_template (gw_db w) (ts_template_id s) = Some t"
      "tm_scope t = ''global'' \<or> tm_owner_user_id t = u_user_id c" and run: "sign_with_template env (u_username c) s w = (Inr r, w')"
    using assms unfolding sign_template_for_actor_def
    by (simp only: bindM_eq_Inr confirmed_Inr signable_Inr sg_check_Inr) (blast dest: need_repository_Inr)
  from with_template_signs [OF run] c show ?thesis by auto
qed

text \<open>Staging leaves the tables and every file but the image.\<close>

lemma staged_files:
  assumes "staged_image env t signer w = (Inr tmp, v)"
  shows "gw_db v = gw_db w \<and> (gw_files v p = None \<longleftrightarrow> gw_files w p = None \<and> map_option (\<lambda>d. d @ ''/signature.png'') tmp \<noteq> Some p)"
proof (cases "la_show_signature (tm_layout t)")
  case True
  then obtain asset blob w1 w2 where a: "signing_asset env t signer w = (Inr asset, w1)" and b: "get_blob env (sa_storage_key asset) w1 = (Inr blob, w2)"
    and v: "v = w2\<lparr>gw_draws := Suc (gw_draws w2), gw_files := (gw_files w2)(the tmp @ ''/signature.png'' := Some blob)\<rparr>" "tmp \<noteq> None"
    using assms unfolding staged_image_def by (auto simp: sg_draw_def write_file_def)
  have "w1 = w"
    using a unfolding signing_asset_def get_active_signature_asset_id_def
    by (auto simp: sg_read_def split: if_splits option.splits)
  moreover have "w2 = w1" using b by (auto simp: get_blob_def)
  ultimately show ?thesis using v by auto
next
  case False
  with assms show ?thesis by (simp add: staged_image_def)
qed

lemma guard_calls_module:
  assumes "execute_sign_dispatch (with_signature_module x env) req actor w = (Inr u, w')"
  shows "\<exists>q v r v'. module_run x actor req (w_files w) q v \<and> sign_fixed_position (sx_env x) q v = (Inr r, v')"
proof (cases "truthy (sr_template_id req)")
  case True
  then obtain a r w1 where a: "actor = Some a" and run: "template_call x a req (w_files w) = (Inr r, w1)"
    using assms unfolding execute_sign_dispatch_def
    by (auto simp: with_signature_module_def run_sign_def api_outcome_def split: option.splits prod.splits sum.splits)
  have given: "ts_template_id (guard_template_signing x req) = the (sr_template_id req)" "gw_db (module_world x (w_files w)) = gw_db (sx_world x)"
    by (simp_all add: guard_template_signing_def module_world_def Let_def)
  have signer: "sq_signer_user (template_request s t signer tmp) = Some signer" for s t signer tmp
    by (simp add: template_request_def)
  from template_signs [OF run [unfolded template_call_def]] a signer show ?thesis
    unfolding module_run_def given by (simp only: True if_True) blast
next
  case False
  then obtain r w1 where "fixed_call x req (w_files w) = (Inr r, w1)"
    using assms unfolding execute_sign_dispatch_def
    by (auto simp: with_signature_module_def run_sign_def api_outcome_def split: option.splits prod.splits sum.splits)
  moreover have "sq_signer_user (fixed_request x req) = sq_signer_user (sx_request x)" by (simp add: fixed_request_def)
  ultimately show ?thesis using False unfolding fixed_call_def module_run_def by auto
qed

text \<open>The fields of the guard's request that reach the signing, whichever way it goes.\<close>

lemma module_run_fields:
  assumes "module_run x actor req files q v"
  shows "sq_input_pdf q = sr_input_pdf req \<and> sq_output_pdf q = Some (sr_output_pdf req) \<and> sq_password q = sq_password (sx_request x) \<and>
    sq_placement q = sq_placement (sx_request x) \<and> sq_layout q = sq_layout (sx_request x) \<and>
    sq_dry_run q = sq_dry_run (sx_request x) \<and> sq_overwrite_output q = sq_overwrite_output (sx_request x)"
  using assms by (auto simp: module_run_def template_request_def guard_template_signing_def fixed_request_def Let_def split: if_splits)

lemma module_run_free:
  assumes "module_run x actor req files q v"
  shows "gw_files v p = None \<longleftrightarrow> p \<notin> files \<and> \<not> (truthy (sr_template_id req) \<and> sq_signature_png q = Some p)"
proof (cases "truthy (sr_template_id req)")
  case True
  then obtain c :: user_context and t tmp where s: "staged_image (sx_env x) t (u_username c) (module_world x files) = (Inr tmp, v)"
      and q: "q = template_request (guard_template_signing x req) t (u_username c) tmp"
    using assms unfolding module_run_def by (simp only: True if_True) blast
  show ?thesis using staged_files [OF s, of p] True by (simp add: q template_request_def module_world_def)
next
  case False
  then show ?thesis using assms by (simp add: module_run_def module_world_def)
qed

text \<open>What a successful signing of a request with an output path says.\<close>

definition signed_as_asked :: "sig_env \<Rightarrow> sig_request \<Rightarrow> sig_world \<Rightarrow> sig_result \<Rightarrow> bool" where
  "signed_as_asked env q w r \<longleftrightarrow>
     (ge_require_password env \<noteq> Some False \<longrightarrow> (\<exists>user pw. sq_signer_user q = Some user \<and> sq_password q = Some pw \<and> ge_password_verifier env user pw)) \<and>
     (sz_signed r \<longleftrightarrow> \<not> sq_dry_run q) \<and> (sz_signed r \<longrightarrow> page_checked env q (gw_files w)) \<and>
     (Some (sz_output_pdf r) = sq_output_pdf q \<longleftrightarrow> sq_overwrite_output q \<or> gw_files w (the (sq_output_pdf q)) = None)"

lemma resolve_given_output:
  assumes "resolve_output taken q = Inr p" and "sq_output_pdf q = Some out"
  shows "p = out \<longleftrightarrow> sq_overwrite_output q \<or> \<not> taken out"
  using assms by (auto simp: resolve_output_def output_target_def split: if_splits option.splits dest: first_candidate_Some)

lemma signing_as_asked:
  assumes "sign_fixed_position env q w = (Inr r, w')" and "sq_output_pdf q = Some out"
  shows "signed_as_asked env q w r"
proof -
  have d: "signing_done env q w (Inr r) w'" by (rule signing_evidence [OF assms(1)])
  then have pw: "enforce_password_policy env q = Inr ()" and out: "resolve_output (\<lambda>p. gw_files w p \<noteq> None) q = Inr (sz_output_pdf r)"
    and signed: "sz_signed r \<longleftrightarrow> \<not> sq_dry_run q" "sz_signed r \<Longrightarrow> page_checked env q (gw_files w)"
    unfolding signing_done_def by (auto split: if_splits)
  have path: "sz_output_pdf r = out \<longleftrightarrow> sq_overwrite_output q \<or> \<not> gw_files w out \<noteq> None"
    by (rule resolve_given_output [OF out assms(2)])
  show ?thesis
    unfolding signed_as_asked_def using signed path assms(2) password_checked [OF pw] by auto
qed

lemma guard_signing:
  assumes "enforce_signature_transition (with_signature_module x env) st tr sign_req actor w = (Inr u, w')"
    and "is_signature_required st tr"
  shows "\<exists>req canonical q v r v'. sign_req = Some req \<and>
    resolve_signature_input_pdf (with_signature_module x env) st tr w = (Inr canonical, w) \<and>
    module_run x actor (canonical_request canonical req) (w_files w) q v \<and> sign_fixed_position (sx_env x) q v = (Inr r, v') \<and>
    signed_as_asked (sx_env x) q v r \<and> has_current_artifact (w_db w') (v_document_id st) (v_version st) SIGNED_PDF"
proof -
  obtain req canonical w1 where req: "sign_req = Some req"
    and inp: "resolve_signature_input_pdf (with_signature_module x env) st tr w = (Inr canonical, w)"
    and run: "sign_and_register (with_signature_module x env) st tr (canonical_request canonical req) actor w = (Inr u, w1)"
    and cur: "has_current_artifact (w_db w') (v_document_id st) (v_version st) SIGNED_PDF"
    using enforce_signature_Inr [OF assms] by blast
  let ?req = "canonical_request canonical req"
  obtain y w2 where "execute_sign_dispatch (with_signature_module x env) ?req actor w = (Inr y, w2)"
    using run unfolding sign_and_register_def by auto
  from guard_calls_module [OF this] obtain q v r v' where q: "module_run x actor ?req (w_files w) q v"
    and s: "sign_fixed_position (sx_env x) q v = (Inr r, v')" by blast
  have "sq_output_pdf q = Some (sr_output_pdf ?req)" using module_run_fields [OF q] by simp
  from signing_as_asked [OF s this] q s cur req inp show ?thesis by blast
qed

section \<open>The accounts behind the verifier\<close>

definition with_accounts :: "um_env \<Rightarrow> um_world \<Rightarrow> sig_env \<Rightarrow> sig_env" where
  "with_accounts uenv uw env = env\<lparr>ge_password_verifier := account_verifier uenv uw\<rparr>"

lemma nobody_verified:
  "user_row (uw_db uw) owner = None \<Longrightarrow> \<not> verified_for (with_accounts uenv uw env) owner pw"
  by (auto simp: verified_for_def with_accounts_def dest: account_verifier_row)

lemma active_locked:
  assumes "user_row (uw_db uw) owner = None"
  shows "keeps (active_is owner i) (run_signature (with_accounts uenv uw env) call)"
  by (rule active_call) (rule nobody_verified [OF assms])

end
