(* ===== verification/SigProperties.thy ===== *)
theory SigProperties
  imports SigRights SigGuard UserScenario RunMethods Scenario
begin

text \<open>
  The properties of the signature module, over every sequence of calls or over every world: signings, tables,
  active signatures, templates, and the module between its neighbours, the documents' guard and the accounts.
  Each has a witness, on a concrete environment whose functions stand for \<open>sha256\<close>, Fernet, Pillow, pypdf and reportlab.
\<close>

definition sg1 :: sig_env where
  "sg1 = \<lparr>ge_clock = int, ge_local_clock = int, ge_uuid = (\<lambda>n. replicate (Suc n) CHR ''e''), ge_hex = (\<lambda>n. replicate (Suc n) CHR ''a''),
     ge_temp_dir = (\<lambda>n. ''/tmp''), ge_sha256 = (\<lambda>s. CHR ''#'' # s), ge_encrypt = (\<lambda>n s. CHR ''x'' # s),
     ge_decrypt = (\<lambda>c. case c of [] \<Rightarrow> None | _ # s \<Rightarrow> Some s), ge_to_png = Some, ge_image_size = (\<lambda>s. Some (10, 3)),
     ge_transparent_png = ''t'', ge_pdf_pages = (\<lambda>s. if s = ''pdf'' then Some [(Fin 600, Fin 800)] else None),
     ge_merge_overlay = (\<lambda>pdf i ops. Some (CHR ''s'' # pdf)), ge_require_password = None,
     ge_password_verifier = (\<lambda>user pw. pw = ''pw''), ge_crypto_signer = None, ge_has_repository = True,
     ge_has_secure_store = True, ge_has_event_bus = True\<rparr>"

definition placement1 :: placement_input where
  "placement1 = \<lparr>pl_page_index = 0, pl_x = Fin 100, pl_y = Fin 100, pl_target_width = Fin 100\<rparr>"

definition request1 :: sig_request where
  "request1 = \<lparr>sq_input_pdf = ''/d.pdf'', sq_placement = placement1, sq_layout = default_layout\<lparr>la_show_name := False, la_show_date := False\<rparr>,
     sq_signature_png = Some ''/s.png'', sq_output_pdf = Some ''/o.pdf'', sq_overwrite_output = False, sq_dry_run = False,
     sq_sign_mode = ''visual'', sq_signer_user = Some ''u'', sq_password = Some ''pw'', sq_reason = ''r''\<rparr>"

definition files1 :: "string \<Rightarrow> string option" where
  "files1 = [''/d.pdf'' \<mapsto> ''pdf'', ''/s.png'' \<mapsto> ''img'']"

definition sw0 :: sig_world where "sw0 = sig_world_of files1"

definition sw1 :: sig_world where "sw1 = after (run_signature sg1 (ImportAndActivate ''u'' ''/s.png'' None) sw0)"

section \<open>Evaluation\<close>

lemmas sig_method_evals = fun_cong [OF sg_utcnow_def] fun_cong [OF sg_local_now_def] fun_cong [OF sg_draw_def] fun_cong [OF sg_read_def]
  fun_cong [OF sg_write_def] fun_cong [OF sg_check_def] fun_cong [OF read_file_def] fun_cong [OF write_file_def]
  fun_cong [OF file_exists_def] fun_cong [OF copy_file_def] fun_cong [OF sg_publish_def] fun_cong [OF sg_audit_def]
  fun_cong [OF SigTypes.on_failure_def] fun_cong [OF finally_do_def] fun_cong [OF add_asset_def] fun_cong [OF upsert_template_def]
  fun_cong [OF touch_template_last_used_at_def] fun_cong [OF set_active_row_def] fun_cong [OF clear_active_row_def]
  fun_cong [OF put_blob_def] fun_cong [OF get_blob_def] fun_cong [OF resolve_runtime_layout_def] fun_cong [OF sign_pdf_def]
  fun_cong [OF signature_image_def] fun_cong [OF sign_visual_def] fun_cong [OF sign_crypto_def] fun_cong [OF sign_by_mode_def]
  fun_cong [OF dry_run_copy_def] fun_cong [OF checked_page_def] fun_cong [OF record_signing_def] fun_cong [OF sign_for_real_def]
  fun_cong [OF sign_attempt_def] fun_cong [OF sign_fixed_position_def] fun_cong [OF need_repository_def]
  fun_cong [OF confirmed_actor_def] fun_cong [OF to_png_bytes_def] fun_cong [OF store_asset_def]
  fun_cong [OF import_signature_asset_def] fun_cong [OF create_user_signature_template_def]
  fun_cong [OF create_user_signature_template_for_actor_def] fun_cong [OF require_valid_password_def]
  fun_cong [OF set_active_signature_asset_def] fun_cong [OF clear_active_signature_def] fun_cong [OF export_active_signature_def]
  fun_cong [OF and_set_active_def] fun_cong [OF import_signature_asset_and_set_active_def] fun_cong [OF quietly_def]

lemmas sig_data_evals = sg1_def placement1_def request1_def files1_def sw0_def sig_world_of_def empty_sig_db_def default_layout_def
  get_asset_def active_rows_def active_asset_id_def raise_if_def truthy_def path_suffix_def pure_name_def path_name_def
  py_lower_def lower_char_def py_strip_def py_space_def starts_with_def slash_def enforce_password_policy_def resolve_output_def
  output_target_def page_at_def validate_placement_def make_overlay_def label_op_def label_position_def find.simps run_signature.simps

lemmas sig_evals = sig_method_evals sig_data_evals run_basics

lemma third: "float_round (3 / 10) = Fin (5404319552844595 / 18014398509481984)"
  using float_round_nearest [of "- 2" "3 / 10" 5404319552844595] by (simp add: pow2_def abs_less_iff)

lemma thirty: "float_round (135107988821114875 / 4503599627370496) = Fin 30"
  using float_round_nearest [of 4 "135107988821114875 / 4503599627370496" 8444249301319680] by (simp add: pow2_def abs_less_iff)

lemma height_100 [simp]: "estimated_height (Fin 100) = Fin 30"
  by (simp add: estimated_height_def third thirty flt_max_def)

lemma two_hundred [simp]: "float_round 200 = Fin 200" "float_round 130 = Fin 130"
  using float_round_int [of 200] float_round_int [of 130] by simp_all

lemma sw1_state:
  "active_asset_id (gw_db sw1) ''u'' = Some ''aaa''" "gw_files sw1 = files1" "get_asset (gw_db sw1) ''aaa'' = Some
     \<lparr>sa_asset_id = ''aaa'', sa_owner_user_id = ''u'', sa_storage_key = ''u/a.png.enc'', sa_media_type = ''image/png'',
      sa_original_filename = ''s.png'', sa_sha256 = ''#img'', sa_size_bytes = 3, sa_created_at = 0\<rparr>" "gd_templates (gw_db sw1) = []"
  unfolding sw1_def
  by (simp_all add: sig_evals del: bindM_basic bindM_liftE_simps cong: run_congs)

lemma visual_run:
  "\<exists>r w'. sign_fixed_position sg1 request1 sw0 = (Inr r, w') \<and> sz_signed r \<and> sz_output_pdf r = ''/o.pdf'' \<and> gw_files w' ''/o.pdf'' = Some ''spdf''"
  by (simp add: sig_evals del: bindM_basic bindM_liftE_simps cong: run_congs)

lemma sw1_reachable: "sig_reachable {sg1} proper_scope sw1"
  unfolding sw1_def sw0_def by (intro sig_reachable.intros) simp_all

section \<open>A signing\<close>

text \<open>C17. A signing that returns a signed result has verified the password given for its signer, unless the setting
  \<open>require_password\<close> is \<open>False\<close>. Whatever the setting, the page exists, the hash of the result is the hash of the
  file at the path of the result, and the box of the signature lies within the page provided that none of the
  numbers compared (position, width, size of the page, right and upper edge) is NaN: the comparisons of the code let a
  NaN through, and such a box may lie anywhere (\<open>nan_placement_passes\<close>).\<close>

theorem signing_contract:
  assumes "sign_fixed_position env req w = (Inr r, w')" and "sz_signed r"
  shows "(ge_require_password env \<noteq> Some False \<longrightarrow>
      (\<exists>user pw. sq_signer_user req = Some user \<and> sq_password req = Some pw \<and> ge_password_verifier env user pw)) \<and>
    (\<exists>pdf pages signed. gw_files w (sq_input_pdf req) = Some pdf \<and> ge_pdf_pages env pdf = Some pages \<and>
      0 \<le> pl_page_index (sq_placement req) \<and> pl_page_index (sq_placement req) < int (length pages) \<and>
      (let page = pages ! nat (pl_page_index (sq_placement req))
       in NaN \<notin> set (placement_numbers (sq_placement req) page) \<longrightarrow> inside_page (sq_placement req) page) \<and>
      gw_files w' (sz_output_pdf r) = Some signed \<and> sz_sha256 r = ge_sha256 env signed \<and> \<not> sz_dry_run r)"
proof -
  have "signing_done env req w (Inr r) w'" by (rule signing_evidence [OF assms(1)])
  then have pw: "enforce_password_policy env req = Inr ()" and res: "signed_result env req (sz_output_pdf r) r w'"
    and page: "page_checked env req (gw_files w)"
    using assms(2) by (simp_all add: signing_done_def)
  from page obtain pdf pages where p: "gw_files w (sq_input_pdf req) = Some pdf" "ge_pdf_pages env pdf = Some pages"
      "0 \<le> pl_page_index (sq_placement req)" "pl_page_index (sq_placement req) < int (length pages)"
    and fits: "validate_placement (sq_placement req) (pages ! nat (pl_page_index (sq_placement req))) = Inr ()"
    unfolding page_checked_def by blast
  have "NaN \<notin> set (placement_numbers (sq_placement req) page) \<longrightarrow> inside_page (sq_placement req) page"
    if "page = pages ! nat (pl_page_index (sq_placement req))" for page
    using placement_inside fits that by blast
  with p res password_checked [OF pw] show ?thesis unfolding signed_result_def Let_def by blast
qed

theorem signing_contract_witness:
  "\<exists>w' r. sign_fixed_position sg1 request1 sw0 = (Inr r, w') \<and> ge_password_verifier sg1 ''u'' ''pw'' \<and>
     gw_files w' (sz_output_pdf r) = Some ''spdf'' \<and> sz_sha256 r = ge_sha256 sg1 ''spdf''"
proof -
  obtain r w' where run: "sign_fixed_position sg1 request1 sw0 = (Inr r, w')" "sz_signed r" "sz_output_pdf r = ''/o.pdf''"
    "gw_files w' ''/o.pdf'' = Some ''spdf''" using visual_run by blast
  with signing_contract [OF run(1,2)] show ?thesis by (auto simp: sg1_def request1_def)
qed

text \<open>C19. A signing writes nothing but its output path, whether it returns or fails; without permission to
  overwrite it changes no existing file, a dry run included.\<close>

theorem signing_spares_existing_files:
  assumes "signer_writes_output env" and "sign_fixed_position env req w = (res, w')" and "gw_files w p = Some content"
    and "\<not> sq_overwrite_output req \<or> output_target req \<noteq> Inr p"
  shows "gw_files w' p = Some content"
proof -
  consider "gw_files w' = gw_files w"
    | out where "resolve_output (\<lambda>p. gw_files w p \<noteq> None) req = Inr out" "only_touches out (gw_files w) w'"
    using signing_files [OF assms(1,2)] by blast
  then show ?thesis
  proof cases
    case 2
    have "out \<noteq> p" using resolve_output_Inr [OF 2(1)] assms(3,4) by auto
    with 2(2) assms(3) show ?thesis by (simp add: only_touches_def)
  qed (use assms(3) in simp)
qed

theorem signing_spares_existing_files_witness:
  "gw_files (snd (sign_fixed_position sg1 request1 sw0)) ''/d.pdf'' = Some ''pdf''"
  using signing_spares_existing_files [of sg1 request1 sw0 "fst (sign_fixed_position sg1 request1 sw0)"
      "snd (sign_fixed_position sg1 request1 sw0)" "''/d.pdf''" "''pdf''"]
  by (simp add: signer_writes_output_def sg1_def request1_def sw0_def sig_world_of_def files1_def)

text \<open>C18. The bus and the audit trail tell every signing once: requested, then succeeded with one audit record for
  a signed result, dry run with one for a copy, or failed without one; the single exception is a dry run onto its
  own input, which is told as a dry run and then as failed.\<close>

theorem signing_is_told_once:
  assumes "sign_fixed_position env req w = (res, w')" and "ge_has_event_bus env"
    and "\<not> (sq_dry_run req \<and> resolve_output (\<lambda>p. gw_files w p \<noteq> None) req = Inr (sq_input_pdf req))"
  shows "map ev_name (gw_events w') = map ev_name (gw_events w) @ [''domain.signature.sign.requested.v1'', case res of
       Inl _ \<Rightarrow> ''domain.signature.sign.failed.v1''
     | Inr r \<Rightarrow> if sz_signed r then ''domain.signature.sign.succeeded.v1'' else ''domain.signature.sign.dry_run.v1''] \<and>
    gw_audit w' = gw_audit w @ (case res of Inl _ \<Rightarrow> []
     | Inr r \<Rightarrow> [\<lparr>au_action = if sz_signed r then ''signature.signed'' else ''signature.dry_run'', au_actor = signer_or_system req,
         au_target = sz_output_pdf r, au_result = ''ok'', au_reason = sq_reason req\<rparr>])"
proof -
  have "signing_done env req w res w'" by (rule signing_evidence [OF assms(1)])
  then show ?thesis
    using assms(2,3) by (cases res) (auto simp: signing_done_def evidence_def emitted_def event_names_def audit_of_def event_name_defs split: if_splits)
qed

theorem signing_is_told_once_witness:
  "map ev_name (gw_events (snd (sign_fixed_position sg1 request1 sw0))) =
     [''domain.signature.sign.requested.v1'', ''domain.signature.sign.succeeded.v1''] \<and>
   map au_action (gw_audit (snd (sign_fixed_position sg1 request1 sw0))) = [''signature.signed'']"
proof -
  obtain r w' where run: "sign_fixed_position sg1 request1 sw0 = (Inr r, w')" "sz_signed r" using visual_run by blast
  from signing_is_told_once [OF run(1)] run(2) show ?thesis
    by (simp add: run(1)) (simp add: sg1_def request1_def sw0_def sig_world_of_def)
qed

text \<open>In the mode \<open>both\<close> without a cryptographic signer a request that the mode \<open>visual\<close> would sign fails, and
  leaves the visually signed file of that mode behind.\<close>

theorem both_mode_leaves_a_signed_file:
  assumes "ge_crypto_signer env = None" and "sign_fixed_position env (req\<lparr>sq_sign_mode := ''visual''\<rparr>) w = (Inr r, wa)" and "sz_signed r"
  shows "\<exists>wb. sign_fixed_position env (req\<lparr>sq_sign_mode := ''both''\<rparr>) w =
      (Inl (SgCryptoNotConfiguredError ''crypto signer not configured''), wb) \<and> gw_files wb = gw_files wa"
  by (rule both_mode_run [unfolded in_mode_def, OF assms])

theorem both_mode_leaves_a_signed_file_witness:
  "\<exists>wb. sign_fixed_position sg1 (request1\<lparr>sq_sign_mode := ''both''\<rparr>) sw0 =
      (Inl (SgCryptoNotConfiguredError ''crypto signer not configured''), wb) \<and> gw_files wb ''/o.pdf'' = Some ''spdf''"
proof -
  obtain r wa where run: "sign_fixed_position sg1 request1 sw0 = (Inr r, wa)" "sz_signed r" "gw_files wa ''/o.pdf'' = Some ''spdf''"
    using visual_run by blast
  have "request1 = request1\<lparr>sq_sign_mode := ''visual''\<rparr>" by (simp add: request1_def)
  with run(1) have "sign_fixed_position sg1 (request1\<lparr>sq_sign_mode := ''visual''\<rparr>) sw0 = (Inr r, wa)" by simp
  from both_mode_leaves_a_signed_file [OF _ this run(2)] run(3) show ?thesis by (auto simp: sg1_def)
qed

section \<open>The output path\<close>

lemma first_candidate_find:
  "first_candidate taken base suffix i = List.find (\<lambda>p. \<not> taken p) (map (output_candidate base suffix) [i..<1000])"
proof (induction taken base suffix i rule: first_candidate.induct)
  case (1 taken base suffix i)
  show ?case
  proof (cases "1000 \<le> i")
    case False
    then have "[i..<1000] = i # [Suc i..<1000]" by (simp add: upt_conv_Cons)
    with 1 False show ?thesis by (subst first_candidate.simps) simp
  qed (subst first_candidate.simps, simp)
qed

text \<open>C20. Without permission to overwrite, the search for the output path ends for every state of the files, after at
  most a thousand probes: with the first free path among the target and its numbered variants \<open>-1\<close> to \<open>-999\<close>, or
  with an error exactly when all of them are taken.\<close>

theorem output_search_ends:
  assumes "output_target req = Inr target" and "pure_name target \<noteq> []" and "\<not> sq_overwrite_output req"
  shows "resolve_output taken req =
    (case List.find (\<lambda>p. \<not> taken p) (target # map (\<lambda>i. take (length target - length (path_suffix target)) target @ ''-'' @
        str_nat i @ path_suffix target) [1..<1000]) of
       Some p \<Rightarrow> Inr p
     | None \<Rightarrow> Inl (SgRuntimeError ''could not resolve deterministic output path''))"
  using assms by (simp add: resolve_output_def without_suffix_def first_candidate_find output_candidate_def [abs_def])

theorem output_search_ends_witness:
  "resolve_output (\<lambda>p. p \<in> {''/o.pdf'', ''/o-1.pdf''}) request1 = Inr ''/o-2.pdf''"
proof -
  have "[1..<1000] = 1 # [Suc 1..<1000]" by (rule upt_conv_Cons) simp
  also have "[Suc 1..<1000] = Suc 1 # [Suc (Suc 1)..<1000]" by (rule upt_conv_Cons) simp
  finally obtain rest where two: "[1..<1000] = 1 # Suc 1 # rest" by blast
  have path: "pure_name ''/o.pdf'' = ''o.pdf''" "path_suffix ''/o.pdf'' = ''.pdf''"
    by (simp_all add: pure_name_def path_suffix_def path_name_def slash_def)
  have "output_target request1 = Inr ''/o.pdf''" "\<not> sq_overwrite_output request1" by (simp_all add: request1_def output_target_def)
  from output_search_ends [OF this(1) _ this(2)] show ?thesis
    unfolding two path by (simp add: str_nat_digit char_of_numeral)
qed

section \<open>Tables and images\<close>

text \<open>C21. In every reachable world keys of the tables differ, an active signature belongs to its user, and a template
  that links an image links a stored one, a private template one of its owner, as long as templates are created
  with one of the two scopes of the contract.\<close>

theorem signature_tables_stay_consistent:
  assumes "sig_reachable envs proper_scope w"
  shows "distinct (map sa_asset_id (gd_assets (gw_db w))) \<and> distinct (map tm_template_id (gd_templates (gw_db w))) \<and>
    distinct (map ac_owner_user_id (gd_active (gw_db w))) \<and>
    (\<forall>r \<in> set (gd_active (gw_db w)). \<exists>a \<in> set (gd_assets (gw_db w)).
       sa_asset_id a = ac_asset_id r \<and> sa_owner_user_id a = ac_owner_user_id r) \<and>
    (\<forall>t \<in> set (gd_templates (gw_db w)). tm_scope t \<in> {''user'', ''global''} \<and>
       (\<forall>i. tm_signature_asset_id t = Some i \<longrightarrow> (\<exists>a \<in> set (gd_assets (gw_db w)). sa_asset_id a = i \<and>
          (tm_scope t = ''user'' \<longrightarrow> sa_owner_user_id a = tm_owner_user_id t))))"
  using reachable_tables [OF assms]
  by (auto simp: sig_tables_ok_def template_row_ok_def asset_owned_def asset_known_def)

theorem signature_tables_stay_consistent_witness:
  "distinct (map ac_owner_user_id (gd_active (gw_db sw1))) \<and> active_asset_id (gw_db sw1) ''u'' = Some ''aaa''"
  using signature_tables_stay_consistent [OF sw1_reachable] sw1_state(1) by simp

text \<open>C22. In every reachable world the active signature of a user can be exported, and the exported file has the digest
  and the size that were recorded when the image was imported.\<close>

theorem active_signature_exports_as_imported:
  assumes "sig_reachable envs proper_scope w" and "uuid_law env" and "cipher_law env" and "\<And>e. e \<in> envs \<Longrightarrow> same_store env e"
    and "ge_has_repository env" and "ge_has_secure_store env" and "active_asset_id (gw_db w) owner = Some i"
  shows "\<exists>a raw w'. get_asset (gw_db w) i = Some a \<and> sa_owner_user_id a = owner \<and>
    export_active_signature env owner target w = (Inr target, w') \<and> gw_files w' target = Some raw \<and>
    ge_sha256 env raw = sa_sha256 a \<and> length raw = sa_size_bytes a"
proof -
  have ok: "sig_tables_ok (gw_db w)" by (rule reachable_tables [OF assms(1)])
  have st: "stored_ok env w"
  proof (rule reachable_stored [OF _ assms(2-4)])
    show "sig_reachable envs proper_scope w" by (rule assms(1))
  qed
  obtain r where r: "r \<in> set (gd_active (gw_db w))" "ac_owner_user_id r = owner" "ac_asset_id r = i"
    using assms(7) find_Some_member unfolding active_asset_id_def by fastforce
  then obtain a where a: "a \<in> set (gd_assets (gw_db w))" "sa_asset_id a = i" "sa_owner_user_id a = owner"
    using ok unfolding sig_tables_ok_def asset_owned_def by fastforce
  have got: "get_asset (gw_db w) i = Some a"
    using get_asset_member [OF _ a(1)] ok a(2) unfolding sig_tables_ok_def by simp
  have "asset_stored env w a" using st a(1) unfolding stored_ok_def by blast
  then obtain raw cipher where raw: "map_of (gw_blobs w) (sa_storage_key a) = Some cipher" "ge_decrypt env cipher = Some raw"
      "ge_sha256 env raw = sa_sha256 a" "length raw = sa_size_bytes a" and i: "i \<noteq> []"
    unfolding asset_stored_def blob_of_def a(2) by blast
  have "export_active_signature env owner target w = (Inr target, w\<lparr>gw_files := (gw_files w)(target := Some raw)\<rparr>)"
    using assms(5-7) got raw(1,2) i
    by (simp add: export_active_signature_def bindM_def sg_check_def sg_read_def get_blob_def write_file_def)
  with got a(3) raw(3,4) show ?thesis by auto
qed

lemma sg1_laws: "uuid_law sg1" "cipher_law sg1" "same_store sg1 sg1"
proof -
  have "inj (\<lambda>n. replicate (Suc n) CHR ''a'')"
    by (rule injI) (metis length_replicate old.nat.inject)
  then show "uuid_law sg1" by (simp add: uuid_law_def sg1_def)
qed (simp_all add: cipher_law_def same_store_def sg1_def)

theorem active_signature_exports_as_imported_witness:
  "\<exists>w' raw. export_active_signature sg1 ''u'' ''/e.png'' sw1 = (Inr ''/e.png'', w') \<and> gw_files w' ''/e.png'' = Some raw \<and>
     ge_sha256 sg1 raw = ''#img''"
proof -
  have "same_store sg1 e" if "e \<in> {sg1}" for e using that sg1_laws(3) by simp
  from active_signature_exports_as_imported [OF sw1_reachable sg1_laws(1,2) this _ _ sw1_state(1), of "''/e.png''"]
  show ?thesis using sw1_state(3) by (auto simp: sg1_def)
qed

section \<open>The active signature\<close>

text \<open>C23. A call replaces or removes the active signature of a user only if it is a call that may, made for that
  user, with a password that the verifier accepts for the user's identifier.\<close>

theorem active_signature_changes_with_password:
  assumes "active_asset_id (gw_db w) owner = Some i"
    and "active_asset_id (gw_db (after (run_signature env call w))) owner \<noteq> Some i"
  shows "\<exists>pw. active_request call = Some (owner, Some pw) \<and> pw \<noteq> [] \<and> ge_password_verifier env owner pw"
proof (rule ccontr)
  assume no: "\<not> ?thesis"
  have "\<not> verified_for env owner pw" if "active_request call = Some (owner, pw)" for pw
    using no that by (cases pw) (auto simp: verified_for_def)
  then have "keeps (active_is owner i) (run_signature env call)" by (rule active_call)
  from keepsD [OF this, of w] assms show False by (simp add: active_is_def)
qed

theorem active_signature_changes_with_password_witness:
  "ge_password_verifier sg1 ''u'' ''pw'' \<and> active_asset_id (gw_db (after (run_signature sg1 (ClearActive ''u'' (Some ''pw'')) sw1))) ''u'' = None"
proof -
  have "active_asset_id (gw_db (after (run_signature sg1 (ClearActive ''u'' (Some ''pw'')) sw1))) ''u'' = None"
    unfolding sw1_def by (simp add: sig_evals del: bindM_basic bindM_liftE_simps cong: run_congs)
  with active_signature_changes_with_password [OF sw1_state(1), of sg1 "ClearActive ''u'' (Some ''pw'')"] show ?thesis by simp
qed

text \<open>The module is wired with a verifier that looks an account up by its name, while the calls hand it the
  user's identifier: where no account is named like the identifier, no call replaces or removes the user's active
  signature, whatever password is given.\<close>

theorem identifiers_lock_the_active_signature:
  assumes "find (same_username user_id) (ud_users (uw_db uw)) = None" and "active_asset_id (gw_db w) user_id = Some i"
  shows "active_asset_id (gw_db (after (run_signature (env\<lparr>ge_password_verifier := account_verifier uenv uw\<rparr>) call w))) user_id = Some i"
proof -
  have "user_row (uw_db uw) user_id = None" using assms(1) by (simp add: user_row_def)
  from keepsD [OF active_locked [where i = i and uenv = uenv and env = env and call = call, OF this], of w] assms(2) show ?thesis by (simp add: active_is_def with_accounts_def)
qed

theorem identifiers_lock_the_active_signature_witness:
  "us_user_id first_admin = ''u'' \<and> verify_password um_env1 (us_password_hash first_admin) ''secret'' \<and>
   active_asset_id (gw_db (after (run_signature (sg1\<lparr>ge_password_verifier := account_verifier um_env1 um_start\<rparr>)
     (ClearActive ''u'' (Some ''secret'')) sw1))) ''u'' = Some ''aaa''"
proof -
  have "find (same_username ''u'') (ud_users (uw_db um_start)) = None"
    by (simp add: um_start_state first_admin_def same_username_def py_lower_def lower_char_def of_char_Char)
  from identifiers_lock_the_active_signature [OF this sw1_state(1), where env = sg1 and uenv = um_env1 and call = "ClearActive ''u'' (Some ''secret'')"] show ?thesis
    by (simp add: first_admin_def verify_password_def is_password_hash_def starts_with_def del: run_signature.simps)
qed

section \<open>Templates\<close>

text \<open>C24. The suggested template is one the user may use that matches the context, and every other such template ranks
  lower: private before global, then the one used last, then the newest; there is none only if none matches.\<close>

theorem suggestion_is_the_best_match:
  assumes "sig_reachable envs proper_scope w" and "ge_has_repository env" and "require_confirmed_user_context actor = Inr c"
  shows "\<exists>res. suggest_template_for_actor env actor doc role w = (Inr res, w) \<and> (let cs = eligible_templates (gw_db w) (u_user_id c)
      (\<lambda>t. (tm_document_type t = None \<or> tm_document_type t = doc) \<and> (tm_role_context t = None \<or> tm_role_context t = role)) in
    case res of None \<Rightarrow> cs = {}
     | Some t \<Rightarrow> \<exists>s. (t, s) \<in> cs \<and> (\<forall>c \<in> cs. c \<noteq> (t, s) \<longrightarrow> suggestion_rank_key c < suggestion_rank_key (t, s)))"
  using suggestion_best [OF reachable_tables [OF assms(1)] assms(2,3), of doc role]
  unfolding best_of_def Let_def template_matches_context_def [abs_def] by blast

text \<open>A private and a global template.\<close>

definition sw2 :: sig_world where
  "sw2 = after (run_signature sg1 (CreateTemplateForActor (Some admin_context) ''g'' placement1 default_layout None ''global'' None None)
     (after (run_signature sg1 (CreateTemplateForActor (Some admin_context) ''p'' placement1 default_layout None ''user'' None None) sw1)))"

definition template1 :: "string \<Rightarrow> string \<Rightarrow> string \<Rightarrow> time \<Rightarrow> signature_template" where
  "template1 i name scope created = \<lparr>tm_template_id = i, tm_owner_user_id = ''u'', tm_name = name, tm_placement = placement1,
     tm_layout = default_layout, tm_signature_asset_id = None, tm_created_at = created, tm_scope = scope, tm_document_type = None,
     tm_role_context = None, tm_last_used_at = None\<rparr>"

lemma sw2_reachable: "sig_reachable {sg1} proper_scope sw2"
  unfolding sw2_def by (intro sig_reachable.step sw1_reachable) simp_all

lemma admin_confirmed: "require_confirmed_user_context (Some admin_context) = Inr admin_context"
  by (simp add: require_confirmed_user_context_def admin_context_def installation_organization_id_def py_strip_def py_space_def of_char_Char)

lemma admin_technical: "is_technical_admin admin_context"
  by (simp add: is_technical_admin_def admin_context_def py_upper_def upper_char_def py_strip_def py_space_def of_char_Char char_of_numeral)

lemma admin_id: "u_user_id admin_context = ''u''"
  by (simp add: admin_context_def)

lemmas template_evals = check_template_row_def template_ints_def required_floats_def template_row_def nan_as_null_def

lemma sw2_state: "\<exists>i j. i \<noteq> j \<and> gd_templates (gw_db sw2) = [template1 i ''p'' ''user'' 3, template1 j ''g'' ''global'' 4]"
  unfolding sw2_def sw1_def template1_def
  by (simp add: sig_evals template_evals admin_confirmed admin_technical admin_id del: bindM_basic bindM_liftE_simps cong: run_congs)

theorem suggestion_is_the_best_match_witness:
  "\<exists>t. suggest_template_for_actor sg1 (Some admin_context) None None sw2 = (Inr (Some t), sw2) \<and> tm_scope t = ''user''"
proof -
  obtain i j where ts: "gd_templates (gw_db sw2) = [template1 i ''p'' ''user'' 3, template1 j ''g'' ''global'' 4]"
    using sw2_state by blast
  let ?p = "template1 i ''p'' ''user'' 3" and ?g = "template1 j ''g'' ''global'' 4"
  have cs: "eligible_templates (gw_db sw2) ''u'' (\<lambda>t. (tm_document_type t = None \<or> tm_document_type t = None) \<and>
      (tm_role_context t = None \<or> tm_role_context t = None)) = {(?p, True), (?g, False)}"
    unfolding eligible_templates_def ts by (auto simp: template1_def)
  have below: "\<not> suggestion_rank_key (?p, True) < suggestion_rank_key (?g, False)" by (simp add: suggestion_rank_key_def)
  have scope: "tm_scope ?p = ''user''" by (simp add: template1_def)
  have "ge_has_repository sg1" by (simp add: sg1_def)
  from suggestion_is_the_best_match [OF sw2_reachable this admin_confirmed, of None None]
  obtain res where run: "suggest_template_for_actor sg1 (Some admin_context) None None sw2 = (Inr res, sw2)"
    and best: "case res of None \<Rightarrow> {(?p, True), (?g, False)} = {} | Some t \<Rightarrow> \<exists>s. (t, s) \<in> {(?p, True), (?g, False)} \<and>
      (\<forall>c \<in> {(?p, True), (?g, False)}. c \<noteq> (t, s) \<longrightarrow> suggestion_rank_key c < suggestion_rank_key (t, s))"
    unfolding admin_id cs Let_def by (elim exE conjE)
  from best below have "res = Some ?p" by (cases res) auto
  with run scope show ?thesis by blast
qed

text \<open>A scope other than the two of the contract skips the check of the image's owner and is stored as a private
  template: any user obtains a template that signs with the image of any other user.\<close>

theorem odd_scope_links_a_foreign_image:
  assumes "require_confirmed_user_context actor = Inr c" and "ge_has_repository env" and "ge_has_secure_store env"
    and "py_strip name \<noteq> []" and "get_asset (gw_db w) i = Some a" and "scope \<notin> {''user'', ''global''}" and "storable p l" and "i \<noteq> []"
  shows "\<exists>t w'. create_user_signature_template_for_actor env actor name p l (Some i) scope doc role w = (Inr t, w') \<and>
    tm_scope t = ''user'' \<and> tm_owner_user_id t = u_user_id c \<and> signing_asset env t (u_username c) w' = (Inr a, w')"
proof -
  obtain t w' where t: "create_user_signature_template_for_actor env actor name p l (Some i) scope doc role w = (Inr t, w')"
      "tm_scope t = ''user''" "tm_owner_user_id t = u_user_id c" "tm_signature_asset_id t = Some i" "get_asset (gw_db w') i = Some a"
    using foreign_template [OF assms(1-5) _ _ assms(7), of scope doc role] assms(6) by blast
  from linked_image [OF t(4) assms(8,3) t(5)] t show ?thesis by blast
qed

theorem odd_scope_links_a_foreign_image_witness:
  "\<exists>t w' a. create_user_signature_template_for_actor sg1 (Some (admin_context\<lparr>u_user_id := ''v''\<rparr>)) ''n'' placement1 default_layout
      (Some ''aaa'') ''x'' None None sw1 = (Inr t, w') \<and> tm_owner_user_id t = ''v'' \<and>
    signing_asset sg1 t ''admin'' w' = (Inr a, w') \<and> sa_owner_user_id a = ''u''"
proof -
  have c: "require_confirmed_user_context (Some (admin_context\<lparr>u_user_id := ''v''\<rparr>)) = Inr (admin_context\<lparr>u_user_id := ''v''\<rparr>)"
    by (simp add: require_confirmed_user_context_def admin_context_def installation_organization_id_def py_strip_def py_space_def of_char_Char)
  have "ge_has_repository sg1" "ge_has_secure_store sg1" by (simp_all add: sg1_def)
  moreover have "py_strip ''n'' \<noteq> []" by (simp add: py_strip_def py_space_def of_char_Char)
  moreover have "storable placement1 default_layout" by (simp add: storable_def placement1_def default_layout_def)
  ultimately show ?thesis
    using odd_scope_links_a_foreign_image [OF c _ _ _ sw1_state(3), of sg1 "''n''" "''x''" placement1 default_layout None None]
    by (force simp: admin_context_def)
qed

section \<open>The documents' guard over the module\<close>







end
