(* ===== verification/DocReading.thy ===== *)
theory DocReading
  imports DocApi
begin

text \<open>
  Readings and comments of documents: the tables of receipts, tracked readings and workflow comments
  (\<open>modules/documents/sqlite_repository.py\<close>), the confirmed reading of a released version (\<open>service.py\<close>), the
  tracked reading of a PDF (\<open>pdf_read_tracking_service.py\<close>), comments and their synchronisation with a DOCX
  (\<open>comment_service.py\<close>, \<open>comment_sync_service.py\<close>, \<open>docx_comment_reader.py\<close>), and the calls of \<open>api.py\<close>.
  SQLite refuses integers beyond 64 bits. Opening the archive and parsing its XML is a parameter.
\<close>

section \<open>Data\<close>

record workflow_comment =
  wc_comment_id :: string
  wc_ref_no :: string
  wc_document_id :: string
  wc_version :: int
  wc_context :: comment_context
  wc_source_kind :: comment_source_kind
  wc_source_key :: string
  wc_artifact_id :: "string option"
  wc_page_number :: "int option"
  wc_anchor_json :: "string option"
  wc_author :: "string option"
  wc_source_created_at :: "time option"
  wc_preview_text :: string
  wc_full_text :: string
  wc_status :: comment_status
  wc_status_note :: "string option"
  wc_status_changed_by :: "string option"
  wc_status_changed_at :: "time option"
  wc_created_at :: time
  wc_updated_at :: time

record document_read_receipt =
  rt_receipt_id :: string
  rt_user_id :: string
  rt_document_id :: string
  rt_version :: int
  rt_confirmed_at :: time
  rt_source :: string

record document_read_session =
  ds_session_id :: string
  ds_user_id :: string
  ds_document_id :: string
  ds_version :: int
  ds_opened_at :: time

text \<open>A tracked reading, with the column of its result.\<close>

record tracked_read =
  tk_session_id :: string
  tk_user_id :: string
  tk_document_id :: string
  tk_version :: int
  tk_artifact_id :: "string option"
  tk_total_pages :: int
  tk_min_seconds_per_page :: int
  tk_source :: string
  tk_opened_at :: time
  tk_completed_at :: "time option"
  tk_completion_result :: "string option"

record page_row =
  pg_session_id :: string
  pg_page_number :: int
  pg_seconds :: int
  pg_reached :: bool
  pg_first_seen_at :: time
  pg_last_seen_at :: time

record read_progress =
  pr_session_id :: string
  pr_total_pages :: int
  pr_completed_pages :: "int list"
  pr_missing_pages :: "int list"
  pr_page_seconds :: "(int \<times> int) list"
  pr_is_complete :: bool

record side_db =
  sd_receipts :: "document_read_receipt list"
  sd_comments :: "workflow_comment list"
  sd_reads :: "tracked_read list"
  sd_pages :: "page_row list"

record side_world =
  sv_docs :: docs_world
  sv_db :: side_db

text \<open>A comment of a DOCX as its XML has it: id, author, date, text nodes; left: why it could not be read.\<close>

record docx_node =
  dn_id :: string
  dn_author :: string
  dn_date :: "time option"
  dn_parts :: "string list"

record side_env =
  sv_env :: docs_env
  sv_docx :: "string \<Rightarrow> string + docx_node list"

type_synonym 'a side_meth = "(side_world, doc_error, 'a) meth"

definition in_docs :: "'a doc_meth \<Rightarrow> 'a side_meth" where
  "in_docs m = (\<lambda>w. case m (sv_docs w) of (r, d) \<Rightarrow> (r, w\<lparr>sv_docs := d\<rparr>))"

definition side_read :: "(side_db \<Rightarrow> 'a) \<Rightarrow> 'a side_meth" where
  "side_read f = readM (\<lambda>w. f (sv_db w))"

definition side_write :: "(side_db \<Rightarrow> side_db) \<Rightarrow> unit side_meth" where
  "side_write f = modifyM (\<lambda>w. w\<lparr>sv_db := f (sv_db w)\<rparr>)"

definition side_check :: "bool \<Rightarrow> doc_error \<Rightarrow> unit side_meth" where
  "side_check bad e = liftE (raise_if bad e)"

definition storable_ints :: "int list \<Rightarrow> unit side_meth" where
  "storable_ints is = side_check (list_ex (\<lambda>i. \<not> (- (2 ^ 63) \<le> i \<and> i < 2 ^ 63)) is) (IntegrityError ''OverflowError'')"

text \<open>An event that no version carries.\<close>

definition side_publish :: "side_env \<Rightarrow> string \<Rightarrow> (string, pyval) dict \<Rightarrow> unit side_meth" where
  "side_publish env name payload = in_docs
     (bindM (uuid4 (sv_env env)) (\<lambda>event_id.
      bindM (utcnow (sv_env env)) (\<lambda>now.
      bindM (uuid4 (sv_env env)) (\<lambda>correlation_id.
      modifyM (\<lambda>d. d\<lparr>w_events := w_events d @ [\<lparr>ev_event_id = event_id, ev_name = name, ev_occurred_at = now,
        ev_correlation_id = correlation_id, ev_actor_user_id = None, ev_module_id = ''documents'', ev_payload = payload\<rparr>]\<rparr>)))))"

section \<open>Statements\<close>

text \<open>\<open>INSERT OR REPLACE\<close> removes the rows it collides with, by the key or the unique index.\<close>

definition replaced_receipts :: "document_read_receipt \<Rightarrow> document_read_receipt list \<Rightarrow> document_read_receipt list" where
  "replaced_receipts r rows = filter (\<lambda>x. \<not> (rt_receipt_id x = rt_receipt_id r \<or>
     (rt_user_id x = rt_user_id r \<and> rt_document_id x = rt_document_id r \<and> rt_version x = rt_version r))) rows @ [r]"

definition create_read_receipt :: "document_read_receipt \<Rightarrow> unit side_meth" where
  "create_read_receipt r = side_write (\<lambda>db. db\<lparr>sd_receipts := replaced_receipts r (sd_receipts db)\<rparr>)"

definition get_read_receipt :: "side_db \<Rightarrow> string \<Rightarrow> string \<Rightarrow> int \<Rightarrow> document_read_receipt option" where
  "get_read_receipt db user doc ver =
     List.find (\<lambda>r. rt_user_id r = user \<and> rt_document_id r = doc \<and> rt_version r = ver) (sd_receipts db)"

definition same_source :: "workflow_comment \<Rightarrow> workflow_comment \<Rightarrow> bool" where
  "same_source a b \<longleftrightarrow> wc_document_id a = wc_document_id b \<and> wc_version a = wc_version b \<and> wc_context a = wc_context b \<and>
     wc_source_key a = wc_source_key b"

text \<open>\<open>DO UPDATE SET\<close>: the columns that an update takes over.\<close>

definition merged_comment :: "workflow_comment \<Rightarrow> workflow_comment \<Rightarrow> workflow_comment" where
  "merged_comment old r = old\<lparr>wc_source_key := wc_source_key r, wc_author := wc_author r,
     wc_source_created_at := wc_source_created_at r, wc_preview_text := wc_preview_text r, wc_full_text := wc_full_text r,
     wc_page_number := wc_page_number r, wc_anchor_json := wc_anchor_json r, wc_status := wc_status r,
     wc_status_note := wc_status_note r, wc_status_changed_by := wc_status_changed_by r,
     wc_status_changed_at := wc_status_changed_at r, wc_updated_at := wc_updated_at r\<rparr>"

definition upserted_comments :: "workflow_comment \<Rightarrow> workflow_comment list \<Rightarrow> doc_error + workflow_comment list" where
  "upserted_comments r rows =
     (case List.find (\<lambda>x. wc_comment_id x = wc_comment_id r) rows of
        None \<Rightarrow> if list_ex (same_source r) rows then Inl (IntegrityError ''workflow comment'') else Inr (rows @ [r])
      | Some old \<Rightarrow>
          let new = merged_comment old r
          in if list_ex (\<lambda>x. wc_comment_id x \<noteq> wc_comment_id r \<and> same_source new x) rows then Inl (IntegrityError ''workflow comment'')
             else Inr (map (\<lambda>x. if wc_comment_id x = wc_comment_id r then new else x) rows))"

definition upsert_workflow_comment :: "workflow_comment \<Rightarrow> unit side_meth" where
  "upsert_workflow_comment r =
     bindM (storable_ints (wc_version r # (case wc_page_number r of None \<Rightarrow> [] | Some p \<Rightarrow> [p]))) (\<lambda>_.
     bindM (side_read (\<lambda>db. upserted_comments r (sd_comments db))) (\<lambda>res.
     bindM (liftE res) (\<lambda>rows. side_write (\<lambda>db. db\<lparr>sd_comments := rows\<rparr>))))"

definition row_to_comment :: "workflow_comment \<Rightarrow> workflow_comment" where
  "row_to_comment r = r\<lparr>wc_artifact_id := none_if_empty (wc_artifact_id r), wc_anchor_json := none_if_empty (wc_anchor_json r),
     wc_author := none_if_empty (wc_author r), wc_status_note := none_if_empty (wc_status_note r),
     wc_status_changed_by := none_if_empty (wc_status_changed_by r)\<rparr>"

definition get_workflow_comment :: "side_db \<Rightarrow> string \<Rightarrow> workflow_comment option" where
  "get_workflow_comment db comment_id = map_option row_to_comment (List.find (\<lambda>r. wc_comment_id r = comment_id) (sd_comments db))"

definition in_context :: "string \<Rightarrow> int \<Rightarrow> comment_context \<Rightarrow> workflow_comment \<Rightarrow> bool" where
  "in_context doc ver ctx r \<longleftrightarrow> wc_document_id r = doc \<and> wc_version r = ver \<and> wc_context r = ctx"

definition comments_of :: "side_db \<Rightarrow> string \<Rightarrow> int \<Rightarrow> comment_context \<Rightarrow> workflow_comment list" where
  "comments_of db doc ver ctx =
     map row_to_comment (sort_key (\<lambda>r. - wc_created_at r) (filter (in_context doc ver ctx) (sd_comments db)))"

definition replaced_reads :: "tracked_read \<Rightarrow> tracked_read list \<Rightarrow> tracked_read list" where
  "replaced_reads s rows = filter (\<lambda>x. tk_session_id x \<noteq> tk_session_id s) rows @ [s]"

definition create_pdf_read_session :: "tracked_read \<Rightarrow> unit side_meth" where
  "create_pdf_read_session s =
     bindM (storable_ints [tk_version s, tk_total_pages s, tk_min_seconds_per_page s]) (\<lambda>_.
     side_write (\<lambda>db. db\<lparr>sd_reads := replaced_reads s (sd_reads db)\<rparr>))"

definition get_pdf_read_session :: "side_db \<Rightarrow> string \<Rightarrow> tracked_read option" where
  "get_pdf_read_session db session_id = map_option (\<lambda>s. s\<lparr>tk_artifact_id := none_if_empty (tk_artifact_id s)\<rparr>)
     (List.find (\<lambda>s. tk_session_id s = session_id) (sd_reads db))"

definition progress_rows :: "string \<Rightarrow> int \<Rightarrow> int \<Rightarrow> bool \<Rightarrow> time \<Rightarrow> page_row list \<Rightarrow> page_row list" where
  "progress_rows session_id page seconds reached now rows =
     (if list_ex (\<lambda>r. pg_session_id r = session_id \<and> pg_page_number r = page) rows
      then map (\<lambda>r. if pg_session_id r = session_id \<and> pg_page_number r = page
             then r\<lparr>pg_seconds := seconds, pg_reached := reached, pg_last_seen_at := now\<rparr> else r) rows
      else rows @ [\<lparr>pg_session_id = session_id, pg_page_number = page, pg_seconds = seconds, pg_reached = reached,
             pg_first_seen_at = now, pg_last_seen_at = now\<rparr>])"

definition update_page_progress :: "side_env \<Rightarrow> string \<Rightarrow> int \<Rightarrow> int \<Rightarrow> bool \<Rightarrow> unit side_meth" where
  "update_page_progress env session_id page seconds reached =
     bindM (in_docs (utcnow (sv_env env))) (\<lambda>now.
     bindM (storable_ints [page, seconds]) (\<lambda>_.
     side_write (\<lambda>db. db\<lparr>sd_pages := progress_rows session_id page seconds reached now (sd_pages db)\<rparr>)))"

definition pdf_read_progress :: "side_db \<Rightarrow> string \<Rightarrow> read_progress option" where
  "pdf_read_progress db session_id =
     (case get_pdf_read_session db session_id of
        None \<Rightarrow> None
      | Some s \<Rightarrow>
          let rows = filter (\<lambda>r. pg_session_id r = session_id) (sd_pages db);
              completed = sort (map pg_page_number (filter pg_reached rows));
              missing = filter (\<lambda>p. p \<notin> set completed) [1..tk_total_pages s]
          in Some \<lparr>pr_session_id = session_id, pr_total_pages = tk_total_pages s, pr_completed_pages = completed,
               pr_missing_pages = missing, pr_page_seconds = map (\<lambda>r. (pg_page_number r, pg_seconds r)) rows,
               pr_is_complete = (missing = [] \<and> 0 < tk_total_pages s)\<rparr>)"

definition completed_reads :: "string \<Rightarrow> time \<Rightarrow> string \<Rightarrow> tracked_read list \<Rightarrow> tracked_read list" where
  "completed_reads session_id completed_at completion_result rows = map (\<lambda>s. if tk_session_id s = session_id
     then s\<lparr>tk_completed_at := Some completed_at, tk_completion_result := Some completion_result\<rparr> else s) rows"

definition complete_pdf_read_session :: "string \<Rightarrow> time \<Rightarrow> string \<Rightarrow> unit side_meth" where
  "complete_pdf_read_session session_id completed_at completion_result =
     side_write (\<lambda>db. db\<lparr>sd_reads := completed_reads session_id completed_at completion_result (sd_reads db)\<rparr>)"

section \<open>Confirmed readings\<close>

definition released_version :: "side_env \<Rightarrow> string \<Rightarrow> int \<Rightarrow> bool \<Rightarrow> version_state side_meth" where
  "released_version env doc ver ask_superseded =
     bindM (in_docs (get_document_version doc ver)) (\<lambda>found. case found of
         None \<Rightarrow> raiseM (ValidationError ''document version not found'')
       | Some state \<Rightarrow>
           bindM (side_check (v_status state \<noteq> APPROVED) (ValidationError ''document version is not approved'')) (\<lambda>_.
           bindM (side_check (ask_superseded \<and> v_superseded_by_version state \<noteq> None)
             (ValidationError ''document version is superseded'')) (\<lambda>_.
           bindM (in_docs (require_current_released_pdf_artifact (sv_env env) state)) (\<lambda>_. retM state))))"

definition open_released_document :: "side_env \<Rightarrow> string \<Rightarrow> string \<Rightarrow> int \<Rightarrow> document_read_session side_meth" where
  "open_released_document env user doc ver =
     bindM (released_version env doc ver True) (\<lambda>_.
     bindM (in_docs (uuid4 (sv_env env))) (\<lambda>session_id.
     bindM (in_docs (utcnow (sv_env env))) (\<lambda>now.
     retM \<lparr>ds_session_id = session_id, ds_user_id = user, ds_document_id = doc, ds_version = ver, ds_opened_at = now\<rparr>)))"

definition confirm_released_document_read :: "side_env \<Rightarrow> string \<Rightarrow> string \<Rightarrow> int \<Rightarrow> string \<Rightarrow> document_read_receipt side_meth" where
  "confirm_released_document_read env user doc ver source =
     bindM (released_version env doc ver False) (\<lambda>state.
     bindM (in_docs (utcnow (sv_env env))) (\<lambda>now.
     bindM (in_docs (uuid4 (sv_env env))) (\<lambda>receipt_id.
     let receipt = \<lparr>rt_receipt_id = receipt_id, rt_user_id = user, rt_document_id = doc, rt_version = ver,
           rt_confirmed_at = now, rt_source = source\<rparr> in
     bindM (create_read_receipt receipt) (\<lambda>_.
     bindM (in_docs (publish_event (sv_env env) ''domain.documents.read.confirmed.v1'' state
       [(''user_id'', PyStr user), (''document_id'', PyStr doc), (''version'', PyInt ver),
        (''confirmed_at'', PyStr (isoformat now)), (''source'', PyStr source), (''read_receipt_id'', PyStr receipt_id)]
       (Some user))) (\<lambda>_.
     retM receipt)))))"

section \<open>Tracked readings\<close>

definition start_tracked_pdf_read ::
  "side_env \<Rightarrow> string \<Rightarrow> string \<Rightarrow> int \<Rightarrow> string option \<Rightarrow> int \<Rightarrow> string \<Rightarrow> int \<Rightarrow> tracked_read side_meth" where
  "start_tracked_pdf_read env user doc ver artifact_id total_pages source min_seconds =
     bindM (in_docs (utcnow (sv_env env))) (\<lambda>now.
     bindM (in_docs (uuid4 (sv_env env))) (\<lambda>session_id.
     let session = \<lparr>tk_session_id = session_id, tk_user_id = user, tk_document_id = doc, tk_version = ver,
           tk_artifact_id = artifact_id, tk_total_pages = total_pages, tk_min_seconds_per_page = min_seconds,
           tk_source = source, tk_opened_at = now, tk_completed_at = None, tk_completion_result = None\<rparr> in
     bindM (create_pdf_read_session session) (\<lambda>_.
     bindM (side_publish env ''domain.documents.read.session.started.v1'' [(''session_id'', PyStr session_id)]) (\<lambda>_.
     retM session))))"

definition no_progress :: "string \<Rightarrow> read_progress" where
  "no_progress session_id = \<lparr>pr_session_id = session_id, pr_total_pages = 0, pr_completed_pages = [], pr_missing_pages = [],
     pr_page_seconds = [], pr_is_complete = False\<rparr>"

definition progress_or_none :: "string \<Rightarrow> read_progress side_meth" where
  "progress_or_none session_id =
     side_read (\<lambda>db. case pdf_read_progress db session_id of None \<Rightarrow> no_progress session_id | Some p \<Rightarrow> p)"

definition record_page_dwell :: "side_env \<Rightarrow> string \<Rightarrow> int \<Rightarrow> int \<Rightarrow> read_progress side_meth" where
  "record_page_dwell env session_id page dwell_seconds =
     bindM (side_read (\<lambda>db. pdf_read_progress db session_id)) (\<lambda>progress.
     let current = (case progress of None \<Rightarrow> 0
           | Some p \<Rightarrow> (case map_of (pr_page_seconds p) page of None \<Rightarrow> 0 | Some s \<Rightarrow> s));
         updated = max 0 (current + max 0 dwell_seconds) in
     bindM (update_page_progress env session_id page updated (10 \<le> updated)) (\<lambda>_. progress_or_none session_id))"

definition finalize_tracked_pdf_read :: "side_env \<Rightarrow> string \<Rightarrow> string \<Rightarrow> document_read_receipt option side_meth" where
  "finalize_tracked_pdf_read env session_id source =
     bindM (side_read (\<lambda>db. pdf_read_progress db session_id)) (\<lambda>progress.
     bindM (side_read (\<lambda>db. get_pdf_read_session db session_id)) (\<lambda>session.
     bindM (in_docs (utcnow (sv_env env))) (\<lambda>now.
     case (progress, session) of
       (Some p, Some s) \<Rightarrow>
         if pr_is_complete p then
           bindM (complete_pdf_read_session session_id now ''COMPLETE'') (\<lambda>_.
           bindM (in_docs (uuid4 (sv_env env))) (\<lambda>receipt_id.
           let receipt = \<lparr>rt_receipt_id = receipt_id, rt_user_id = tk_user_id s, rt_document_id = tk_document_id s,
                 rt_version = tk_version s, rt_confirmed_at = now, rt_source = source\<rparr> in
           bindM (create_read_receipt receipt) (\<lambda>_.
           bindM (side_publish env ''domain.documents.read.session.completed.v1''
             [(''session_id'', PyStr session_id), (''source'', PyStr source)]) (\<lambda>_.
           retM (Some receipt)))))
         else
           bindM (complete_pdf_read_session session_id now ''INCOMPLETE'') (\<lambda>_.
           bindM (side_publish env ''domain.documents.read.session.incomplete.v1''
             [(''session_id'', PyStr session_id), (''source'', PyStr source)]) (\<lambda>_. retM None))
     | _ \<Rightarrow>
         bindM (complete_pdf_read_session session_id now ''INCOMPLETE'') (\<lambda>_.
         bindM (side_publish env ''domain.documents.read.session.incomplete.v1''
           [(''session_id'', PyStr session_id), (''source'', PyStr source)]) (\<lambda>_. retM None)))))"

text \<open>\<open>_require_session_actor\<close>.\<close>

definition side_actor :: "user_context option \<Rightarrow> string side_meth" where
  "side_actor actor = bindM (liftE (actor_user_and_role actor)) (\<lambda>(user_id, _). retM user_id)"

definition require_session_actor :: "user_context option \<Rightarrow> string \<Rightarrow> unit side_meth" where
  "require_session_actor actor session_id =
     bindM (side_actor actor) (\<lambda>user_id.
     bindM (side_read (\<lambda>db. get_pdf_read_session db session_id)) (\<lambda>found. case found of
         None \<Rightarrow> raiseM (ValidationError ''tracked PDF read session not found'')
       | Some s \<Rightarrow> side_check (tk_user_id s \<noteq> user_id)
           (PermissionDeniedError ''tracked PDF read session belongs to another user'')))"

end
