(* ===== verification/DocComments.thy ===== *)
theory DocComments
  imports DocReading
begin

text \<open>
  Workflow comments (\<open>comment_service.py\<close>), their synchronisation with a DOCX (\<open>comment_sync_service.py\<close>,
  \<open>comment_extractors/docx_comment_reader.py\<close>), the calls of \<open>service.py\<close> and \<open>api.py\<close> with the optimistic locks,
  and the worlds that calls to documents, readings and comments can reach.
\<close>

section \<open>Reading a DOCX\<close>

text \<open>\<open>" ".join(s.split())\<close>.\<close>

fun split_words :: "string \<Rightarrow> string \<Rightarrow> string list" where
  "split_words [] word = (if word = [] then [] else [word])"
| "split_words (c # s) word =
     (if py_space c then (if word = [] then split_words s [] else word # split_words s []) else split_words s (word @ [c]))"

fun join_words :: "string list \<Rightarrow> string" where
  "join_words [] = []"
| "join_words [s] = s"
| "join_words (s # t # ts) = s @ CHR '' '' # join_words (t # ts)"

definition context_value :: "comment_context \<Rightarrow> string" where
  "context_value ctx = (case ctx of DOCX_EDIT \<Rightarrow> ''DOCX_EDIT'' | PDF_REVIEW \<Rightarrow> ''PDF_REVIEW'' | PDF_APPROVAL \<Rightarrow> ''PDF_APPROVAL'')"

definition build_source_comment_key :: "string \<Rightarrow> string \<Rightarrow> string" where
  "build_source_comment_key context docx_comment_id = context @ ''|'' @ docx_comment_id"

record docx_comment =
  xc_source_key :: string
  xc_author :: "string option"
  xc_created_at :: "time option"
  xc_full_text :: string
  xc_preview :: string

definition extract_comment_text :: "docx_node \<Rightarrow> string" where
  "extract_comment_text n = join_words (split_words (join_words (filter (\<lambda>p. p \<noteq> []) (dn_parts n))) [])"

definition docx_comment_of :: "string \<Rightarrow> docx_node \<Rightarrow> docx_comment option" where
  "docx_comment_of context n =
     (let comment_id = py_strip (dn_id n); body = py_strip (extract_comment_text n)
      in if comment_id = [] then None
         else Some \<lparr>xc_source_key = build_source_comment_key context comment_id,
           xc_author = none_if_empty (Some (py_strip (dn_author n))), xc_created_at = dn_date n, xc_full_text = body,
           xc_preview = (if length body \<le> 160 then body else take 157 body @ ''...'')\<rparr>)"

definition read_docx_comments :: "side_env \<Rightarrow> string \<Rightarrow> string \<Rightarrow> docx_comment list side_meth" where
  "read_docx_comments env path context =
     bindM (in_docs (readM w_files)) (\<lambda>files.
     bindM (side_check (path \<notin> files) (ValidationError ''docx artifact not found'')) (\<lambda>_.
     liftE (case sv_docx env path of
         Inl m \<Rightarrow> Inl (ValidationError m)
       | Inr nodes \<Rightarrow> Inr (List.map_filter (docx_comment_of context) nodes))))"

definition source_comment_identity :: "string \<Rightarrow> (string \<times> string) option" where
  "source_comment_identity key =
     (case split_on (CHR ''|'') key of
        a # b # _ \<Rightarrow> let context = py_strip a; docx_comment_id = py_strip b
          in if context = [] \<or> docx_comment_id = [] then None else Some (context, docx_comment_id)
      | _ \<Rightarrow> None)"

section \<open>Synchronisation\<close>

definition match_existing_comment :: "string \<Rightarrow> (string, workflow_comment) dict \<Rightarrow> workflow_comment option" where
  "match_existing_comment key remaining =
     (case map_of remaining key of
        Some r \<Rightarrow> Some r
      | None \<Rightarrow> (case source_comment_identity key of
            None \<Rightarrow> None
          | Some wanted \<Rightarrow>
              (case filter (\<lambda>r. source_comment_identity (wc_source_key r) = Some wanted) (map snd remaining) of
                 [r] \<Rightarrow> Some r
               | _ \<Rightarrow> None)))"

text \<open>\<open>int(s)\<close>: digits, single underscores between them, spaces around, a sign.\<close>

fun digits_value :: "string \<Rightarrow> bool \<Rightarrow> int \<Rightarrow> int option" where
  "digits_value [] digit_before acc = (if digit_before then Some acc else None)"
| "digits_value (c # s) digit_before acc =
     (let n = (of_char c :: nat) in
      if 48 \<le> n \<and> n \<le> 57 then digits_value s True (10 * acc + (int n - 48))
      else if c = CHR ''_'' \<and> digit_before then digits_value s False acc
      else None)"

definition py_int :: "string \<Rightarrow> int option" where
  "py_int s = (case py_strip s of
       [] \<Rightarrow> None
     | c # t \<Rightarrow> if c = CHR ''-'' then map_option uminus (digits_value t False 0)
         else if c = CHR ''+'' then digits_value t False 0 else digits_value (c # t) False 0)"

definition docx_prefix :: "string \<Rightarrow> int \<Rightarrow> string" where
  "docx_prefix doc ver = doc @ ''-v'' @ str_int ver @ ''-DOCX-''"

definition ref_index :: "string \<Rightarrow> string \<Rightarrow> int option" where
  "ref_index prefix ref_no = (if starts_with ref_no prefix then py_int (drop (length prefix) ref_no) else None)"

definition next_docx_ref_index :: "string \<Rightarrow> int \<Rightarrow> workflow_comment list \<Rightarrow> int" where
  "next_docx_ref_index doc ver rows =
     fold (\<lambda>r highest. case ref_index (docx_prefix doc ver) (wc_ref_no r) of None \<Rightarrow> highest | Some i \<Rightarrow> max highest i) rows 0 + 1"

definition new_docx_comment :: "version_state \<Rightarrow> time \<Rightarrow> string \<Rightarrow> int \<Rightarrow> docx_comment \<Rightarrow> workflow_comment" where
  "new_docx_comment state now comment_id next_ref x =
     \<lparr>wc_comment_id = comment_id, wc_ref_no = docx_prefix (v_document_id state) (v_version state) @ pad_int 4 next_ref,
      wc_document_id = v_document_id state, wc_version = v_version state, wc_context = DOCX_EDIT,
      wc_source_kind = DOCX_EXTRACTED, wc_source_key = xc_source_key x, wc_artifact_id = None, wc_page_number = None,
      wc_anchor_json = None, wc_author = xc_author x, wc_source_created_at = xc_created_at x, wc_preview_text = xc_preview x,
      wc_full_text = xc_full_text x, wc_status = comment_status.ACTIVE, wc_status_note = None, wc_status_changed_by = None,
      wc_status_changed_at = None, wc_created_at = now, wc_updated_at = now\<rparr>"

text \<open>A comment that was matched keeps its identity and its status.\<close>

definition refreshed_comment :: "version_state \<Rightarrow> time \<Rightarrow> workflow_comment \<Rightarrow> docx_comment \<Rightarrow> workflow_comment" where
  "refreshed_comment state now c x = (new_docx_comment state now (wc_comment_id c) 0 x)\<lparr>wc_ref_no := wc_ref_no c,
     wc_created_at := wc_created_at c, wc_status := wc_status c, wc_status_note := wc_status_note c,
     wc_status_changed_by := wc_status_changed_by c, wc_status_changed_at := wc_status_changed_at c\<rparr>"

fun sync_items ::
  "side_env \<Rightarrow> version_state \<Rightarrow> time \<Rightarrow> (string, workflow_comment) dict \<Rightarrow> int \<Rightarrow> docx_comment list \<Rightarrow> unit side_meth" where
  "sync_items env state now remaining next_ref [] = retM ()"
| "sync_items env state now remaining next_ref (x # xs) =
     (case match_existing_comment (xc_source_key x) remaining of
        None \<Rightarrow>
          bindM (in_docs (uuid4 (sv_env env))) (\<lambda>comment_id.
          bindM (upsert_workflow_comment (new_docx_comment state now comment_id next_ref x)) (\<lambda>_.
          sync_items env state now remaining (next_ref + 1) xs))
      | Some c \<Rightarrow>
          bindM (upsert_workflow_comment (refreshed_comment state now c x)) (\<lambda>_.
          sync_items env state now (AList.delete (wc_source_key c) remaining) next_ref xs))"

definition by_source_key :: "workflow_comment list \<Rightarrow> (string, workflow_comment) dict" where
  "by_source_key rows = fold (\<lambda>r d. AList.update (wc_source_key r) r d) rows []"

definition sync_docx_comments :: "side_env \<Rightarrow> version_state \<Rightarrow> string \<Rightarrow> system_role \<Rightarrow> workflow_comment list side_meth" where
  "sync_docx_comments env state uid role =
     bindM (liftE (ensure_workflow_comment_read_access state DOCX_EDIT uid role)) (\<lambda>_.
     bindM (in_docs (resolve_source_docx_path (sv_env env) state)) (\<lambda>source_docx. case source_docx of
         None \<Rightarrow> retM []
       | Some path \<Rightarrow>
           bindM (read_docx_comments env path (context_value DOCX_EDIT)) (\<lambda>extracted.
           bindM (side_read (\<lambda>db. comments_of db (v_document_id state) (v_version state) DOCX_EDIT)) (\<lambda>existing.
           bindM (in_docs (utcnow (sv_env env))) (\<lambda>now.
           bindM (sync_items env state now (by_source_key existing)
             (next_docx_ref_index (v_document_id state) (v_version state) existing) extracted) (\<lambda>_.
           bindM (side_read (\<lambda>db. comments_of db (v_document_id state) (v_version state) DOCX_EDIT)) (\<lambda>records.
           bindM (side_publish env ''domain.documents.workflow.comment.synced.v1'' [(''document_id'', PyStr (v_document_id state)),
             (''version'', PyInt (v_version state)), (''actor_user_id'', PyStr uid)]) (\<lambda>_.
           retM records))))))))"

section \<open>Comments\<close>

definition pdf_ref_no :: "string \<Rightarrow> int \<Rightarrow> comment_context \<Rightarrow> nat \<Rightarrow> string" where
  "pdf_ref_no doc ver ctx n = doc @ ''-v'' @ str_int ver @ ''-'' @ context_value ctx @ ''-'' @ pad_int 4 (int n)"

definition create_pdf_comment ::
  "side_env \<Rightarrow> version_state \<Rightarrow> comment_context \<Rightarrow> string \<Rightarrow> system_role \<Rightarrow> int \<Rightarrow> string \<Rightarrow> string option \<Rightarrow> workflow_comment side_meth" where
  "create_pdf_comment env state ctx uid role page comment_text anchor =
     bindM (liftE (ensure_workflow_comment_access state ctx uid role)) (\<lambda>_.
     bindM (in_docs (utcnow (sv_env env))) (\<lambda>now.
     bindM (side_read (\<lambda>db. comments_of db (v_document_id state) (v_version state) ctx)) (\<lambda>records.
     let body = py_strip comment_text in
     bindM (side_check (body = []) (ValidationError ''comment_text is required'')) (\<lambda>_.
     bindM (in_docs (uuid4 (sv_env env))) (\<lambda>comment_id.
     bindM (in_docs (uuid4 (sv_env env))) (\<lambda>source_id.
     let record' = \<lparr>wc_comment_id = comment_id,
           wc_ref_no = pdf_ref_no (v_document_id state) (v_version state) ctx (length records + 1),
           wc_document_id = v_document_id state, wc_version = v_version state, wc_context = ctx, wc_source_kind = PDF_APP,
           wc_source_key = ''pdf-app:'' @ source_id, wc_artifact_id = None, wc_page_number = Some page, wc_anchor_json = anchor,
           wc_author = Some uid, wc_source_created_at = Some now, wc_preview_text = take 160 body, wc_full_text = body,
           wc_status = comment_status.ACTIVE, wc_status_note = None, wc_status_changed_by = None, wc_status_changed_at = None,
           wc_created_at = now, wc_updated_at = now\<rparr> in
     bindM (upsert_workflow_comment record') (\<lambda>_.
     bindM (side_publish env ''domain.documents.workflow.comment.created.v1'' [(''comment_id'', PyStr comment_id)]) (\<lambda>_.
     retM record'))))))))"

definition comment_and_version :: "string \<Rightarrow> (workflow_comment \<times> version_state) side_meth" where
  "comment_and_version comment_id =
     bindM (side_read (\<lambda>db. get_workflow_comment db comment_id)) (\<lambda>found. case found of
         None \<Rightarrow> raiseM (ValidationError ''comment not found'')
       | Some c \<Rightarrow> bindM (in_docs (get_document_version (wc_document_id c) (wc_version c))) (\<lambda>state. case state of
             None \<Rightarrow> raiseM (ValidationError ''comment document not found'')
           | Some st \<Rightarrow> retM (c, st)))"

definition set_comment_status ::
  "side_env \<Rightarrow> string \<Rightarrow> comment_status \<Rightarrow> string \<Rightarrow> string option \<Rightarrow> workflow_comment side_meth" where
  "set_comment_status env comment_id new_status uid note =
     bindM (side_read (\<lambda>db. get_workflow_comment db comment_id)) (\<lambda>found. case found of
         None \<Rightarrow> raiseM (ValidationError ''comment not found'')
       | Some current \<Rightarrow>
           bindM (in_docs (utcnow (sv_env env))) (\<lambda>now.
           let updated = current\<lparr>wc_status := new_status, wc_status_note := note, wc_status_changed_by := Some uid,
                 wc_status_changed_at := Some now, wc_updated_at := now\<rparr> in
           bindM (upsert_workflow_comment updated) (\<lambda>_.
           bindM (side_publish env ''domain.documents.workflow.comment.status.changed.v1'' [(''comment_id'', PyStr comment_id)]) (\<lambda>_.
           retM updated))))"

definition set_workflow_comment_status ::
  "side_env \<Rightarrow> string \<Rightarrow> comment_status \<Rightarrow> string \<Rightarrow> system_role \<Rightarrow> string option \<Rightarrow> workflow_comment side_meth" where
  "set_workflow_comment_status env comment_id new_status uid role note =
     bindM (comment_and_version comment_id) (\<lambda>(c, state).
     bindM (liftE (ensure_workflow_comment_read_access state (wc_context c) uid role)) (\<lambda>_.
     set_comment_status env comment_id new_status uid note))"

definition set_workflow_comment_status_if_current ::
  "side_env \<Rightarrow> string \<Rightarrow> string \<Rightarrow> comment_status \<Rightarrow> string \<Rightarrow> system_role \<Rightarrow> string option \<Rightarrow> workflow_comment side_meth" where
  "set_workflow_comment_status_if_current env comment_id expected new_status uid role note =
     bindM (side_read (\<lambda>db. get_workflow_comment db comment_id)) (\<lambda>found. case found of
         None \<Rightarrow> raiseM (ValidationError ''comment not found'')
       | Some current \<Rightarrow>
           bindM (side_check (isoformat (wc_updated_at current) \<noteq> expected) CommentConflictError) (\<lambda>_.
           bindM (in_docs (get_document_version (wc_document_id current) (wc_version current))) (\<lambda>parent. case parent of
               None \<Rightarrow> raiseM (ValidationError ''comment document not found'')
             | Some state \<Rightarrow>
                 bindM (liftE (assert_workflow_action state uid role ''comments'')) (\<lambda>_.
                 set_workflow_comment_status env comment_id new_status uid role note))))"

definition list_workflow_comments :: "version_state \<Rightarrow> comment_context \<Rightarrow> string \<Rightarrow> system_role \<Rightarrow> workflow_comment list side_meth" where
  "list_workflow_comments state ctx uid role =
     bindM (liftE (ensure_workflow_comment_read_access state ctx uid role)) (\<lambda>_.
     side_read (\<lambda>db. comments_of db (v_document_id state) (v_version state) ctx))"

definition workflow_comment_detail :: "string \<Rightarrow> string \<Rightarrow> system_role \<Rightarrow> workflow_comment side_meth" where
  "workflow_comment_detail comment_id uid role =
     bindM (comment_and_version comment_id) (\<lambda>(c, state).
     bindM (liftE (ensure_workflow_comment_read_access state (wc_context c) uid role)) (\<lambda>_. retM c))"

text \<open>\<open>mutate_version_if_current\<close> around an operation on comments: an exception rolls the tables back too.\<close>

definition comments_if_current ::
  "string \<Rightarrow> int \<Rightarrow> string option \<Rightarrow> string \<Rightarrow> system_role \<Rightarrow> (version_state \<Rightarrow> 'a side_meth) \<Rightarrow> 'a side_meth" where
  "comments_if_current doc ver expected uid role operation = (\<lambda>w.
     case bindM (in_docs (mutate_version_if_current doc ver expected retM (Some uid) (Some role) (Some ''comments'') False)) operation w of
       (Inl e, w') \<Rightarrow> (Inl e, w'\<lparr>sv_docs := (sv_docs w')\<lparr>w_db := w_db (sv_docs w)\<rparr>, sv_db := sv_db w\<rparr>)
     | (Inr x, w') \<Rightarrow> (Inr x, w'))"

section \<open>Calls\<close>

datatype side_call =
    DocsCall doc_request
  | ConfirmRead string string int string
  | ConfirmReadForActor "user_context option" string int string
  | StartTrackedRead string string int "string option" int string int
  | StartTrackedReadForActor "user_context option" string int "string option" int string int
  | PageDwell string int int
  | PageDwellForActor "user_context option" string int int
  | FinalizeRead string string
  | FinalizeReadForActor "user_context option" string string
  | CreateComment version_state comment_context string system_role int string "string option"
  | CreateCommentIfCurrent string int "string option" comment_context string system_role int string "string option"
  | SetCommentStatus string comment_status string system_role "string option"
  | SetCommentStatusIfCurrent string string comment_status string system_role "string option"
  | SyncComments version_state string system_role
  | SyncCommentsIfCurrent string int "string option" string system_role

definition done_side :: "'a side_meth \<Rightarrow> unit side_meth" where
  "done_side m = bindM m (\<lambda>_. retM ())"

primrec run_side :: "side_env \<Rightarrow> side_call \<Rightarrow> unit side_meth" where
  "run_side env (DocsCall rq) = in_docs (run_request (sv_env env) rq)"
| "run_side env (ConfirmRead user doc ver source) = done_side (confirm_released_document_read env user doc ver source)"
| "run_side env (ConfirmReadForActor actor doc ver source) =
     bindM (side_actor actor) (\<lambda>user. done_side (confirm_released_document_read env user doc ver source))"
| "run_side env (StartTrackedRead user doc ver artifact pages source secs) =
     done_side (start_tracked_pdf_read env user doc ver artifact pages source secs)"
| "run_side env (StartTrackedReadForActor actor doc ver artifact pages source secs) =
     bindM (side_actor actor) (\<lambda>user. done_side (start_tracked_pdf_read env user doc ver artifact pages source secs))"
| "run_side env (PageDwell sid page secs) = done_side (record_page_dwell env sid page secs)"
| "run_side env (PageDwellForActor actor sid page secs) =
     bindM (require_session_actor actor sid) (\<lambda>_. done_side (record_page_dwell env sid page secs))"
| "run_side env (FinalizeRead sid source) = done_side (finalize_tracked_pdf_read env sid source)"
| "run_side env (FinalizeReadForActor actor sid source) =
     bindM (require_session_actor actor sid) (\<lambda>_. done_side (finalize_tracked_pdf_read env sid source))"
| "run_side env (CreateComment state ctx uid role page body anchor) =
     done_side (create_pdf_comment env state ctx uid role page body anchor)"
| "run_side env (CreateCommentIfCurrent doc ver expected ctx uid role page body anchor) =
     done_side (comments_if_current doc ver expected uid role (\<lambda>st. create_pdf_comment env st ctx uid role page body anchor))"
| "run_side env (SetCommentStatus cid status uid role note) = done_side (set_workflow_comment_status env cid status uid role note)"
| "run_side env (SetCommentStatusIfCurrent cid expected status uid role note) =
     done_side (set_workflow_comment_status_if_current env cid expected status uid role note)"
| "run_side env (SyncComments state uid role) = done_side (sync_docx_comments env state uid role)"
| "run_side env (SyncCommentsIfCurrent doc ver expected uid role) =
     done_side (comments_if_current doc ver expected uid role (\<lambda>st. sync_docx_comments env st uid role))"

definition empty_side_world :: "string set \<Rightarrow> side_world" where
  "empty_side_world files = \<lparr>sv_docs = empty_world files, sv_db = \<lparr>sd_receipts = [], sd_comments = [], sd_reads = [], sd_pages = []\<rparr>\<rparr>"

text \<open>The worlds that a sequence of calls leaves; files may change between two calls.\<close>

inductive side_history :: "side_env \<Rightarrow> side_call list \<Rightarrow> side_world \<Rightarrow> bool" for env where
  start: "side_history env [] (empty_side_world files)"
| step: "side_history env calls w \<Longrightarrow> side_history env (calls @ [call]) (after (run_side env call w))"
| new_files: "side_history env calls w \<Longrightarrow> side_history env calls (w\<lparr>sv_docs := (sv_docs w)\<lparr>w_files := files\<rparr>\<rparr>)"

end
