(* ===== verification/DocReadingLaws.thy ===== *)
theory DocReadingLaws
  imports DocComments MethodWp
begin

text \<open>
  What every call keeps of the tables of readings and comments. The locale \<open>side_frame\<close> names the statements an
  invariant has to tolerate, each with what the code guarantees when it issues it; inside it every call is
  walked once, and \<open>side_tables\<close> adds the time of a page and reaches every world. They are interpreted in
  \<open>DocReadingTables\<close>.
\<close>

section \<open>Weakest preconditions\<close>

lemma wp_any: "(\<And>x w'. Q x w') \<Longrightarrow> (\<And>e w'. E e w') \<Longrightarrow> wp m Q E w"
  by (rule wpI)

lemma wp_in_docs [wp_simps]:
  "wp (in_docs m) Q E w = wp m (\<lambda>x d. Q x (w\<lparr>sv_docs := d\<rparr>)) (\<lambda>e d. E e (w\<lparr>sv_docs := d\<rparr>)) (sv_docs w)"
  by (auto simp: wp_def in_docs_def split: prod.split sum.split)

lemma wp_side_statements [wp_simps]:
  "wp (side_read f) Q1 E w = Q1 (f (sv_db w)) w"
  "wp (side_write g) Q2 E w = Q2 () (w\<lparr>sv_db := g (sv_db w)\<rparr>)"
  "wp (side_check bad err) Q3 E w = (if bad then E err w else Q3 () w)"
  by (auto simp: side_read_def side_write_def side_check_def wp_simps raise_if_def)

lemma wp_ticks [wp_simps]:
  "wp (utcnow env) Q1 E1 d = Q1 (clock env (w_ticks d)) (d\<lparr>w_ticks := Suc (w_ticks d)\<rparr>)"
  "wp (uuid4 env) Q2 E2 d = Q2 (fresh_uuid env (w_uuids d)) (d\<lparr>w_uuids := Suc (w_uuids d)\<rparr>)"
  by (simp_all add: wp_def utcnow_def uuid4_def)

lemma wp_storable [wp_simps]: "wp (storable_ints is) Q E w = (if list_ex (\<lambda>i. \<not> (- (2 ^ 63) \<le> i \<and> i < 2 ^ 63)) is
    then E (IntegrityError ''OverflowError'') w else Q () w)"
  by (simp add: storable_ints_def wp_simps)

lemma wp_upsert_comment [wp_simps]:
  "wp (upsert_workflow_comment r) Q E w =
    (if list_ex (\<lambda>i. \<not> (- (2 ^ 63) \<le> i \<and> i < 2 ^ 63)) (wc_version r # (case wc_page_number r of None \<Rightarrow> [] | Some p \<Rightarrow> [p]))
     then E (IntegrityError ''OverflowError'') w
     else case upserted_comments r (sd_comments (sv_db w)) of
         Inl e \<Rightarrow> E e w
       | Inr rows \<Rightarrow> Q () (w\<lparr>sv_db := (sv_db w)\<lparr>sd_comments := rows\<rparr>\<rparr>))"
  unfolding upsert_workflow_comment_def wp_simps by simp

text \<open>Publishing touches the documents only.\<close>

lemma wp_side_publish: "(\<And>d. Q () (w\<lparr>sv_docs := d\<rparr>)) \<Longrightarrow> wp (side_publish env name payload) Q E w"
  by (simp add: side_publish_def wp_simps)

lemma keeps_in_docs: "keeps (\<lambda>w. I (sv_db w)) (in_docs m)"
  by (rule keepsI) (simp add: in_docs_def split: prod.split)

lemma keeps_case_prod: "(\<And>x y. keeps I (f x y)) \<Longrightarrow> keeps I (case p of (x, y) \<Rightarrow> f x y)"
  by (cases p) simp

section \<open>Rows of comments\<close>

abbreviation comment_ids :: "workflow_comment list \<Rightarrow> string set" where
  "comment_ids rows \<equiv> wc_comment_id ` set rows"

text \<open>The columns that no update changes.\<close>

definition comment_identity :: "workflow_comment \<Rightarrow> string \<times> string \<times> int \<times> comment_context \<times> string" where
  "comment_identity r = (wc_comment_id r, wc_document_id r, wc_version r, wc_context r, wc_ref_no r)"

lemma merged_identity [simp]: "comment_identity (merged_comment old r) = comment_identity old"
  by (simp add: comment_identity_def merged_comment_def)

lemma merged_columns [simp]:
  "wc_comment_id (merged_comment old r) = wc_comment_id old" "wc_ref_no (merged_comment old r) = wc_ref_no old"
  "wc_document_id (merged_comment old r) = wc_document_id old" "wc_version (merged_comment old r) = wc_version old"
  "wc_context (merged_comment old r) = wc_context old" "wc_source_key (merged_comment old r) = wc_source_key r"
  by (simp_all add: merged_comment_def)

lemma row_to_comment_columns [simp]:
  "wc_comment_id (row_to_comment r) = wc_comment_id r" "wc_ref_no (row_to_comment r) = wc_ref_no r"
  "wc_document_id (row_to_comment r) = wc_document_id r" "wc_version (row_to_comment r) = wc_version r"
  "wc_context (row_to_comment r) = wc_context r" "wc_source_key (row_to_comment r) = wc_source_key r"
  "wc_status (row_to_comment r) = wc_status r" "wc_created_at (row_to_comment r) = wc_created_at r"
  by (simp_all add: row_to_comment_def)

lemma upserted_comments_cases:
  assumes "upserted_comments r rows = Inr rows'"
  obtains (new) "wc_comment_id r \<notin> comment_ids rows" "\<forall>x \<in> set rows. \<not> same_source r x" "rows' = rows @ [r]"
  | (old) old where "List.find (\<lambda>x. wc_comment_id x = wc_comment_id r) rows = Some old"
      "old \<in> set rows" "wc_comment_id old = wc_comment_id r"
      "\<forall>x \<in> set rows. wc_comment_id x \<noteq> wc_comment_id r \<longrightarrow> \<not> same_source (merged_comment old r) x"
      "rows' = map (\<lambda>x. if wc_comment_id x = wc_comment_id r then merged_comment old r else x) rows"
proof (cases "List.find (\<lambda>x. wc_comment_id x = wc_comment_id r) rows")
  case None
  then have "wc_comment_id r \<notin> comment_ids rows" by (force simp: find_None_iff)
  with None assms new show ?thesis by (auto simp: upserted_comments_def list_ex_iff split: if_splits)
next
  case (Some o')
  with assms have "\<forall>x \<in> set rows. wc_comment_id x \<noteq> wc_comment_id r \<longrightarrow> \<not> same_source (merged_comment o' r) x"
      "rows' = map (\<lambda>x. if wc_comment_id x = wc_comment_id r then merged_comment o' r else x) rows"
    by (auto simp: upserted_comments_def Let_def list_ex_iff split: if_splits)
  with Some find_Some_member [OF Some] old show ?thesis by blast
qed

lemma ids_replace: "comment_ids (map (\<lambda>x. if wc_comment_id x = i then merged_comment o' r else x) rows) = comment_ids rows"
  if "wc_comment_id o' = i"
proof -
  have "map wc_comment_id (map (\<lambda>x. if wc_comment_id x = i then merged_comment o' r else x) rows) = map wc_comment_id rows"
    using that by simp
  then show ?thesis by (metis set_map)
qed

lemma upserted_ids:
  assumes "upserted_comments r rows = Inr rows'"
  shows "comment_ids rows' = insert (wc_comment_id r) (comment_ids rows)"
  using assms
proof (cases rule: upserted_comments_cases)
  case (old o')
  then have "wc_comment_id r \<in> comment_ids rows" by (metis image_eqI)
  then show ?thesis unfolding old(5) ids_replace [OF old(3)] by blast
qed simp

text \<open>An update in place changes no identity where the ids differ.\<close>

lemma upserted_identities:
  assumes "upserted_comments r rows = Inr rows'" and "distinct (map wc_comment_id rows)"
  shows "map comment_identity rows' = map comment_identity rows @ (if wc_comment_id r \<in> comment_ids rows then [] else [comment_identity r])"
  using assms(1)
proof (cases rule: upserted_comments_cases)
  case (old o')
  have "x = o'" if "x \<in> set rows" "wc_comment_id x = wc_comment_id r" for x
    using assms(2) old(2,3) that by (metis distinct_map inj_onD)
  then have "map comment_identity rows' = map comment_identity rows"
    unfolding old(5) by simp
  moreover have "wc_comment_id r \<in> comment_ids rows" using old(2,3) by (metis image_eqI)
  ultimately show ?thesis by simp
qed simp

section \<open>Reference numbers\<close>

text \<open>Parsing the four digits or more of a number gives the number back.\<close>

lemma digits_value_append:
  assumes "\<forall>c \<in> set s. 48 \<le> (of_char c :: nat) \<and> of_char c \<le> (57 :: nat)"
  shows "digits_value (s @ t) b acc = digits_value t (b \<or> s \<noteq> []) (foldl (\<lambda>a c. 10 * a + (int (of_char c) - 48)) acc s)"
  using assms by (induction s arbitrary: b acc) auto

lemma foldl_digits:
  assumes "\<forall>c \<in> set s. 48 \<le> (of_char c :: nat) \<and> of_char c \<le> (57 :: nat)"
  shows "foldl (\<lambda>a c. 10 * a + (int (of_char c) - 48)) (int n) s = int (foldl (\<lambda>acc c. acc * 10 + digit_value c) n s)"
  using assms
proof (induction s arbitrary: n)
  case (Cons c s)
  then have step: "10 * int n + (int (of_char c) - 48) = int (n * 10 + digit_value c)" by (simp add: digit_value_def)
  show ?case unfolding foldl_Cons step by (rule Cons.IH) (use Cons.prems in simp)
qed simp

lemma digit_range: "d < 10 \<Longrightarrow> of_char (char_of (48 + d) :: char) = (48 + d :: nat)"
  by simp

lemma str_nat_digits: "c \<in> set (str_nat n) \<Longrightarrow> 48 \<le> (of_char c :: nat) \<and> of_char c \<le> (57 :: nat)"
proof (induction n rule: str_nat.induct)
  case (1 n)
  show ?case
  proof (cases "n < 10")
    case True
    with 1(2) have "c = char_of (48 + n)" by (simp add: str_nat.simps [of n])
    with True show ?thesis by simp
  next
    case False
    with 1(2) have "c \<in> set (str_nat (n div 10)) \<or> c = char_of (48 + n mod 10)" by (subst (asm) str_nat.simps) auto
    then show ?thesis using 1(1) [OF False] by auto
  qed
qed

lemma pad_int_digits: "0 \<le> i \<Longrightarrow> c \<in> set (pad_int w i) \<Longrightarrow> 48 \<le> (of_char c :: nat) \<and> of_char c \<le> (57 :: nat)"
  using str_nat_digits by (auto simp: pad_int_def str_int_def Let_def)

lemma pad_int_not_Nil: "pad_int w i \<noteq> []"
proof -
  have "str_nat n \<noteq> []" for n by (subst str_nat.simps) simp
  then show ?thesis by (simp add: pad_int_def str_int_def Let_def)
qed

lemma strip_idle: "\<forall>c \<in> set s. \<not> py_space c \<Longrightarrow> py_strip s = s"
  by (simp add: py_strip_def dropWhile_idle [of s] dropWhile_idle [of "rev s"] hd_in_set disj_commute [of "s = []"])
    (metis dropWhile_idle hd_in_set list.set_sel(1) rev_rev_ident set_rev)

lemma py_int_pad:
  assumes "0 \<le> i"
  shows "py_int (pad_int w i) = Some i"
proof -
  note digits = pad_int_digits [OF assms, of _ w]
  have "\<not> py_space c" if "c \<in> set (pad_int w i)" for c
    using digits [OF that] by (simp add: py_space_def Let_def)
  then have "py_strip (pad_int w i) = pad_int w i" by (intro strip_idle) blast
  moreover obtain c t where ct: "pad_int w i = c # t" using pad_int_not_Nil by (metis neq_Nil_conv)
  moreover have "c \<noteq> CHR ''-''" "c \<noteq> CHR ''+''" using digits [of c] ct by auto
  moreover have "digits_value (pad_int w i) False 0 = Some i"
    using digits_value_append [of "pad_int w i" "[]" False 0] foldl_digits [of "pad_int w i" 0] digits
      decimal_value_pad [OF assms, of w] assms pad_int_not_Nil [of w i]
    by (simp add: decimal_value_def)
  ultimately show ?thesis by (simp add: py_int_def)
qed

text \<open>The number a comment may get: it is stored already, it counts the comments of its context, or it is above
  every number that was given to a comment of the DOCX.\<close>

definition above_docx_numbers :: "string \<Rightarrow> int \<Rightarrow> int \<Rightarrow> workflow_comment list \<Rightarrow> bool" where
  "above_docx_numbers doc ver n rows \<longleftrightarrow>
     (\<forall>x \<in> set rows. in_context doc ver DOCX_EDIT x \<longrightarrow> (\<forall>i. ref_index (docx_prefix doc ver) (wc_ref_no x) = Some i \<longrightarrow> i < n))"

definition numbered :: "workflow_comment list \<Rightarrow> workflow_comment \<Rightarrow> bool" where
  "numbered rows r \<longleftrightarrow>
     wc_comment_id r \<in> comment_ids rows \<or>
     wc_ref_no r = pdf_ref_no (wc_document_id r) (wc_version r) (wc_context r)
       (length (filter (in_context (wc_document_id r) (wc_version r) (wc_context r)) rows) + 1) \<or>
     wc_context r = DOCX_EDIT \<and> (\<exists>n \<ge> 1. wc_ref_no r = docx_prefix (wc_document_id r) (wc_version r) @ pad_int 4 n \<and>
       above_docx_numbers (wc_document_id r) (wc_version r) n rows)"

lemma highest_le: "h \<le> fold (\<lambda>r highest. case f r of None \<Rightarrow> highest | Some i \<Rightarrow> max highest i) rows (h :: int)"
  by (induction rows arbitrary: h) (auto split: option.split intro: order_trans [OF max.cobounded1])

lemma highest_bound:
  "r \<in> set rows \<Longrightarrow> f r = Some i \<Longrightarrow> i \<le> fold (\<lambda>r highest. case f r of None \<Rightarrow> highest | Some i \<Rightarrow> max highest i) rows (h :: int)"
proof (induction rows arbitrary: h)
  case (Cons x rows)
  then show ?case
    using highest_le [of "max h i" f rows] by (auto split: option.split)
qed simp

lemma set_comments_of: "set (comments_of db doc ver ctx) = row_to_comment ` {r \<in> set (sd_comments db). in_context doc ver ctx r}"
  by (simp add: comments_of_def)

lemma length_comments_of: "length (comments_of db doc ver ctx) = length (filter (in_context doc ver ctx) (sd_comments db))"
  by (simp add: comments_of_def)

lemma next_index_above:
  "1 \<le> next_docx_ref_index doc ver (comments_of db doc ver DOCX_EDIT) \<and>
   above_docx_numbers doc ver (next_docx_ref_index doc ver (comments_of db doc ver DOCX_EDIT)) (sd_comments db)"
proof -
  let ?rows = "comments_of db doc ver DOCX_EDIT" and ?f = "\<lambda>r. ref_index (docx_prefix doc ver) (wc_ref_no r)"
  have "i < next_docx_ref_index doc ver ?rows" if "x \<in> set (sd_comments db)" "in_context doc ver DOCX_EDIT x" "?f x = Some i" for x i
    using highest_bound [of "row_to_comment x" ?rows ?f i 0] that by (simp add: set_comments_of next_docx_ref_index_def)
  then show ?thesis
    using highest_le [of 0 ?f ?rows] by (auto simp: above_docx_numbers_def next_docx_ref_index_def)
qed

lemma ref_index_docx [simp]: "0 \<le> n \<Longrightarrow> ref_index (docx_prefix doc ver) (docx_prefix doc ver @ pad_int w n) = Some n"
  by (simp add: ref_index_def starts_with_def py_int_pad)

text \<open>Storing a comment keeps the numbers below a bound, and a new one raises the bound.\<close>

lemma above_docx_upserted:
  assumes "upserted_comments r rows = Inr rows'" and "above_docx_numbers doc ver n rows"
    and "\<And>i. wc_comment_id r \<notin> comment_ids rows \<Longrightarrow> ref_index (docx_prefix doc ver) (wc_ref_no r) = Some i \<Longrightarrow> i < m" and "n \<le> m"
  shows "above_docx_numbers doc ver m rows'"
  using assms(1)
proof (cases rule: upserted_comments_cases)
  case new
  then show ?thesis using assms(2,3,4) unfolding above_docx_numbers_def by fastforce
next
  case (old o')
  then show ?thesis using assms(2,4) unfolding above_docx_numbers_def by (force simp: in_context_def split: if_splits)
qed

text \<open>What the loop of a synchronisation relies on: every comment it may match is stored, and the next number is free.\<close>

definition sync_ready :: "version_state \<Rightarrow> (string, workflow_comment) dict \<Rightarrow> int \<Rightarrow> workflow_comment list \<Rightarrow> bool" where
  "sync_ready state remaining next_ref rows \<longleftrightarrow> (\<forall>c \<in> snd ` set remaining. wc_comment_id c \<in> comment_ids rows) \<and>
     1 \<le> next_ref \<and> above_docx_numbers (v_document_id state) (v_version state) next_ref rows"

lemma match_member:
  assumes "match_existing_comment key remaining = Some c"
  shows "c \<in> snd ` set remaining"
proof (cases "map_of remaining key")
  case None
  with assms obtain wanted where "filter (\<lambda>r. source_comment_identity (wc_source_key r) = Some wanted) (map snd remaining) = [c]"
    by (auto simp: match_existing_comment_def split: option.splits list.splits)
  then have "c \<in> set (filter (\<lambda>r. source_comment_identity (wc_source_key r) = Some wanted) (map snd remaining))" by simp
  then show ?thesis by auto
next
  case (Some r)
  with assms show ?thesis by (force simp: match_existing_comment_def dest: map_of_SomeD)
qed

lemma update_values: "snd ` set (AList.update k v d) \<subseteq> insert v (snd ` set d)"
  by (induction d) auto

lemma by_source_key_values: "snd ` set (by_source_key rows) \<subseteq> set rows"
proof -
  have "snd ` set (fold (\<lambda>r d. AList.update (wc_source_key r) r d) rows d) \<subseteq> set rows \<union> snd ` set d" for d
  proof (induction rows arbitrary: d)
    case (Cons r rows)
    show ?case using Cons [of "AList.update (wc_source_key r) r d"] update_values [of "wc_source_key r" r d] by auto
  qed simp
  from this [of "[]"] show ?thesis by (simp add: by_source_key_def)
qed

lemma sync_ready_start:
  "sync_ready state (by_source_key (comments_of db (v_document_id state) (v_version state) DOCX_EDIT))
     (next_docx_ref_index (v_document_id state) (v_version state) (comments_of db (v_document_id state) (v_version state) DOCX_EDIT))
     (sd_comments db)"
  using by_source_key_values [of "comments_of db (v_document_id state) (v_version state) DOCX_EDIT"]
    next_index_above [of "v_document_id state" "v_version state" db]
  by (force simp: sync_ready_def set_comments_of image_iff)

lemma new_docx_comment_simps [simp]:
  "wc_comment_id (new_docx_comment state now i n x) = i"
  "wc_ref_no (new_docx_comment state now i n x) = docx_prefix (v_document_id state) (v_version state) @ pad_int 4 n"
  "wc_document_id (new_docx_comment state now i n x) = v_document_id state"
  "wc_version (new_docx_comment state now i n x) = v_version state"
  "wc_context (new_docx_comment state now i n x) = DOCX_EDIT"
  "wc_source_key (new_docx_comment state now i n x) = xc_source_key x"
  "wc_page_number (new_docx_comment state now i n x) = None"
  by (simp_all add: new_docx_comment_def)

lemma refreshed_comment_simps [simp]:
  "wc_comment_id (refreshed_comment state now c x) = wc_comment_id c" "wc_ref_no (refreshed_comment state now c x) = wc_ref_no c"
  "wc_document_id (refreshed_comment state now c x) = v_document_id state"
  "wc_version (refreshed_comment state now c x) = v_version state"
  "wc_context (refreshed_comment state now c x) = DOCX_EDIT"
  "wc_source_key (refreshed_comment state now c x) = xc_source_key x"
  "wc_status (refreshed_comment state now c x) = wc_status c" "wc_page_number (refreshed_comment state now c x) = None"
  by (simp_all add: refreshed_comment_def)

lemma sync_ready_new:
  assumes "sync_ready state remaining n rows" and "upserted_comments (new_docx_comment state now i n x) rows = Inr rows'"
  shows "sync_ready state remaining (n + 1) rows'" "numbered rows (new_docx_comment state now i n x)"
proof -
  have "above_docx_numbers (v_document_id state) (v_version state) (n + 1) rows'"
    by (rule above_docx_upserted [OF assms(2), of _ _ n]) (use assms(1) in \<open>auto simp: sync_ready_def\<close>)
  with assms(1) show "sync_ready state remaining (n + 1) rows'"
    by (auto simp: sync_ready_def upserted_ids [OF assms(2)])
  show "numbered rows (new_docx_comment state now i n x)"
    using assms(1) by (auto simp: numbered_def sync_ready_def)
qed

lemma sync_ready_refreshed:
  assumes "sync_ready state remaining n rows" and "match_existing_comment key remaining = Some c"
    and "upserted_comments (refreshed_comment state now c x) rows = Inr rows'"
  shows "sync_ready state (AList.delete k remaining) n rows'" "numbered rows (refreshed_comment state now c x)"
proof -
  have stored: "wc_comment_id c \<in> comment_ids rows"
    using assms(1) match_member [OF assms(2)] unfolding sync_ready_def by blast
  have "above_docx_numbers (v_document_id state) (v_version state) n rows'"
    by (rule above_docx_upserted [OF assms(3), of _ _ n]) (use assms(1) stored in \<open>auto simp: sync_ready_def\<close>)
  with assms(1) show "sync_ready state (AList.delete k remaining) n rows'"
    by (auto simp: sync_ready_def upserted_ids [OF assms(3)] AList.delete_eq)
  show "numbered rows (refreshed_comment state now c x)" using stored by (simp add: numbered_def)
qed

section \<open>The tables under every call\<close>

locale side_frame =
  fixes I :: "side_db \<Rightarrow> bool"
  assumes receipt: "I db \<Longrightarrow> I (db\<lparr>sd_receipts := replaced_receipts r (sd_receipts db)\<rparr>)"
    and reading: "I db \<Longrightarrow> I (db\<lparr>sd_reads := replaced_reads s (sd_reads db)\<rparr>)"
    and finished: "I db \<Longrightarrow> I (db\<lparr>sd_reads := completed_reads sid t res (sd_reads db)\<rparr>)"
    and comment: "I db \<Longrightarrow> numbered (sd_comments db) c \<Longrightarrow> upserted_comments c (sd_comments db) = Inr rows \<Longrightarrow>
      I (db\<lparr>sd_comments := rows\<rparr>)"
begin

abbreviation holds :: "side_world \<Rightarrow> bool" where
  "holds w \<equiv> I (sv_db w)"

abbreviation safe :: "'a side_meth \<Rightarrow> bool" where
  "safe m \<equiv> keeps holds m"

lemma safe_wp: "(\<And>w. holds w \<Longrightarrow> wp m (\<lambda>_. holds) (\<lambda>_. holds) w) \<Longrightarrow> safe m"
  by (simp add: keeps_iff_wp)

lemma safe_docs: "safe (in_docs m)"
  by (rule keeps_in_docs)

lemma safe_read: "safe (side_read f)"
  by (simp add: side_read_def keeps_readM)

lemma safe_check: "safe (side_check bad e)" "safe (storable_ints is)"
  by (simp_all add: side_check_def storable_ints_def keeps_liftE)

lemma safe_publish: "safe (side_publish env name payload)"
  by (rule safe_wp) (rule wp_side_publish, simp)

lemma safe_receipt: "safe (create_read_receipt r)"
  by (rule safe_wp) (simp add: create_read_receipt_def wp_simps receipt)

lemma safe_reading: "safe (create_pdf_read_session s)"
  by (rule safe_wp) (simp add: create_pdf_read_session_def wp_simps reading)

lemma safe_finished: "safe (complete_pdf_read_session sid t res)"
  by (rule safe_wp) (simp add: complete_pdf_read_session_def wp_simps finished)

lemmas safe_rules = safe_docs safe_read safe_check safe_publish safe_receipt safe_reading safe_finished

lemma safe_confirm: "safe (confirm_released_document_read env user doc ver source)"
  unfolding confirm_released_document_read_def released_version_def Let_def
  by (intro keeps_intros safe_rules)

lemma safe_start: "safe (start_tracked_pdf_read env user doc ver artifact pages source secs)"
  unfolding start_tracked_pdf_read_def Let_def by (intro keeps_intros safe_rules)

lemma safe_finalize: "safe (finalize_tracked_pdf_read env sid source)"
  unfolding finalize_tracked_pdf_read_def Let_def by (auto split: option.split intro!: keeps_intros safe_rules)

lemma safe_require: "safe (require_session_actor actor sid)" "safe (side_actor actor)"
  unfolding require_session_actor_def side_actor_def by (intro keeps_intros keeps_case_prod safe_rules)+

lemma wp_store:
  assumes "holds w" and "numbered (sd_comments (sv_db w)) r" and "\<And>w'. holds w' \<Longrightarrow> Q () w'" and "\<And>e. E e w"
  shows "wp (upsert_workflow_comment r) Q E w"
  using assms comment [OF assms(1,2)] by (simp add: wp_simps split: sum.split)

lemma safe_create: "safe (create_pdf_comment env state ctx uid role page body anchor)"
proof (rule safe_wp)
  fix w assume w: "holds w"
  have n: "wc_ref_no r = pdf_ref_no (wc_document_id r) (wc_version r) (wc_context r)
      (Suc (length (filter (in_context (wc_document_id r) (wc_version r) (wc_context r)) rows))) \<Longrightarrow> numbered rows r" for rows r
    by (simp add: numbered_def)
  show "wp (create_pdf_comment env state ctx uid role page body anchor) (\<lambda>_. holds) (\<lambda>_. holds) w"
    using w
    by (auto simp add: create_pdf_comment_def Let_def wp_simps length_comments_of simp del: wp_upsert_comment
        intro!: wp_store wp_side_publish n split: sum.split)
qed

lemma safe_status: "safe (set_comment_status env cid status uid note)"
proof (rule safe_wp)
  fix w assume w: "holds w"
  have n: "numbered (sd_comments (sv_db w)) (c\<lparr>wc_status := status, wc_status_note := note, wc_status_changed_by := Some uid,
      wc_status_changed_at := t, wc_updated_at := t'\<rparr>)" if "get_workflow_comment (sv_db w) cid = Some c" for c t t'
    using that by (auto simp: numbered_def get_workflow_comment_def dest!: find_Some_member)
  show "wp (set_comment_status env cid status uid note) (\<lambda>_. holds) (\<lambda>_. holds) w"
    using w
    by (auto simp add: set_comment_status_def Let_def wp_simps simp del: wp_upsert_comment
        intro!: wp_store wp_side_publish n split: option.split)
qed

lemma wp_items:
  "holds w \<Longrightarrow> sync_ready state remaining n (sd_comments (sv_db w)) \<Longrightarrow>
   wp (sync_items env state now remaining n xs) (\<lambda>_. holds) (\<lambda>_. holds) w"
proof (induction xs arbitrary: w remaining n)
  case (Cons x xs)
  show ?case
  proof (cases "match_existing_comment (xc_source_key x) remaining")
    case None
    have "wp (upsert_workflow_comment (new_docx_comment state now i n x))
        (\<lambda>_. wp (sync_items env state now remaining (n + 1) xs) (\<lambda>_. holds) (\<lambda>_. holds)) (\<lambda>_. holds) (w\<lparr>sv_docs := d\<rparr>)" for i d
      using Cons.prems sync_ready_new [OF Cons.prems(2)]
      by (auto simp: wp_simps intro!: Cons.IH comment split: sum.split)
    then show ?thesis unfolding sync_items.simps None option.case wp_bindM wp_in_docs wp_ticks by this
  next
    case (Some c)
    have "wp (upsert_workflow_comment (refreshed_comment state now c x))
        (\<lambda>_. wp (sync_items env state now (AList.delete (wc_source_key c) remaining) n xs) (\<lambda>_. holds) (\<lambda>_. holds)) (\<lambda>_. holds) w"
      using Cons.prems sync_ready_refreshed [OF Cons.prems(2) Some]
      by (auto simp: wp_simps intro!: Cons.IH comment split: sum.split)
    then show ?thesis unfolding sync_items.simps Some option.case wp_bindM by this
  qed
qed (simp add: wp_simps)

lemma safe_sync: "safe (sync_docx_comments env state uid role)"
proof (rule safe_wp)
  fix w assume w: "holds w"
  have items: "wp (sync_items env state now (by_source_key (comments_of (sv_db w) (v_document_id state) (v_version state) DOCX_EDIT))
      (next_docx_ref_index (v_document_id state) (v_version state) (comments_of (sv_db w) (v_document_id state) (v_version state) DOCX_EDIT)) xs)
      (\<lambda>_ w'. wp (side_publish env name payload) (\<lambda>_. holds) (\<lambda>_. holds) w') (\<lambda>_. holds) (w\<lparr>sv_docs := d\<rparr>)" for xs d now name payload
    by (rule wp_weaken [OF wp_items]) (use w sync_ready_start [of state "sv_db w"] in \<open>auto intro!: wp_side_publish\<close>)
  show "wp (sync_docx_comments env state uid role) (\<lambda>_. holds) (\<lambda>_. holds) w"
    unfolding sync_docx_comments_def read_docx_comments_def wp_simps
    by (auto simp: wp_simps w split: sum.split option.split intro!: wp_any items)
qed

lemma safe_set_status: "safe (set_workflow_comment_status env cid status uid role note)"
  unfolding set_workflow_comment_status_def comment_and_version_def
  by (intro keeps_intros keeps_case_prod safe_rules safe_status)

lemma safe_status_if_current: "safe (set_workflow_comment_status_if_current env cid expected status uid role note)"
  unfolding set_workflow_comment_status_if_current_def by (intro keeps_intros safe_rules safe_set_status)

text \<open>A rolled back operation leaves the tables it found.\<close>

lemma safe_if_current:
  assumes "\<And>st. safe (m st)"
  shows "safe (comments_if_current doc ver expected uid role m)"
proof (rule keepsI)
  fix w assume w: "holds w"
  define inner where "inner = bindM (in_docs (mutate_version_if_current doc ver expected retM (Some uid) (Some role) (Some ''comments'') False)) m"
  have "safe inner" unfolding inner_def by (intro keeps_intros safe_docs assms)
  from keepsD [OF this w] w show "holds (after (comments_if_current doc ver expected uid role m w))"
    unfolding comments_if_current_def inner_def [symmetric] by (auto split: prod.split sum.split)
qed

lemma safe_call:
  assumes "\<And>sid page secs. call = PageDwell sid page secs \<Longrightarrow> safe (record_page_dwell env sid page secs)"
    and "\<And>actor sid page secs. call = PageDwellForActor actor sid page secs \<Longrightarrow> safe (record_page_dwell env sid page secs)"
  shows "safe (run_side env call)"
  using assms
  by (cases call)
    (simp_all add: done_side_def, intro keeps_intros safe_rules safe_confirm safe_start safe_finalize safe_require
      safe_create safe_set_status safe_status_if_current safe_sync safe_if_current; assumption?)+

end

text \<open>An invariant that also tolerates the time of a page, with its threshold, holds in every world that calls lead to.\<close>

locale side_tables = side_frame +
  assumes no_rows: "I \<lparr>sd_receipts = [], sd_comments = [], sd_reads = [], sd_pages = []\<rparr>"
    and dwelt: "I db \<Longrightarrow> 0 \<le> secs \<Longrightarrow> I (db\<lparr>sd_pages := progress_rows sid page secs (10 \<le> secs) now (sd_pages db)\<rparr>)"
begin

lemma safe_progress: "0 \<le> secs \<Longrightarrow> safe (update_page_progress env sid page secs (10 \<le> secs))"
  by (rule safe_wp) (simp add: update_page_progress_def wp_simps dwelt)

lemma safe_dwell: "safe (record_page_dwell env sid page secs)"
  unfolding record_page_dwell_def Let_def progress_or_none_def by (intro keeps_intros safe_rules safe_progress) simp

lemma history: "side_history env calls w \<Longrightarrow> holds w"
proof (induction rule: side_history.induct)
  case (step calls w call)
  then show ?case using keepsD [OF safe_call] safe_dwell by blast
qed (auto simp: empty_side_world_def intro: no_rows)

end

end
