(* ===== verification/DocReadingTables.thy ===== *)
theory DocReadingTables
  imports DocReadingLaws
begin

text \<open>
  The tables of readings and comments in every world that calls lead to: their keys, the threshold of the pages,
  the reference numbers of the comments, and how much reading time a page can have.
\<close>

section \<open>Readings\<close>

definition receipt_key :: "document_read_receipt \<Rightarrow> string \<times> string \<times> int" where
  "receipt_key r = (rt_user_id r, rt_document_id r, rt_version r)"

definition page_key :: "page_row \<Rightarrow> string \<times> int" where
  "page_key r = (pg_session_id r, pg_page_number r)"

definition readings_ok :: "side_db \<Rightarrow> bool" where
  "readings_ok db \<longleftrightarrow> distinct (map rt_receipt_id (sd_receipts db)) \<and> distinct (map receipt_key (sd_receipts db)) \<and>
     distinct (map tk_session_id (sd_reads db)) \<and> distinct (map page_key (sd_pages db)) \<and>
     (\<forall>r \<in> set (sd_pages db). 0 \<le> pg_seconds r \<and> (pg_reached r \<longleftrightarrow> 10 \<le> pg_seconds r))"

lemma distinct_map_filter_snoc:
  "distinct (map f xs) \<Longrightarrow> (\<And>x. x \<in> set xs \<Longrightarrow> P x \<Longrightarrow> f x \<noteq> f y) \<Longrightarrow> distinct (map f (filter P xs @ [y]))"
  by (fastforce simp: distinct_map_filter)

lemma completed_ids: "map tk_session_id (completed_reads sid t res rows) = map tk_session_id rows"
  by (simp add: completed_reads_def)

lemma stored_page: "list_ex (\<lambda>r. pg_session_id r = sid \<and> pg_page_number r = page) rows \<longleftrightarrow> (sid, page) \<in> page_key ` set rows"
  by (auto simp: list_ex_iff page_key_def)

lemma progress_keys:
  "map page_key (progress_rows sid page secs reached now rows) =
     map page_key rows @ (if (sid, page) \<in> page_key ` set rows then [] else [(sid, page)])"
  unfolding progress_rows_def stored_page by (simp add: page_key_def)

lemma progress_rows_cases:
  assumes "r \<in> set (progress_rows sid page secs reached now rows)"
  obtains "r \<in> set rows" "page_key r \<noteq> (sid, page)" | "page_key r = (sid, page)" "pg_seconds r = secs" "pg_reached r = reached"
proof (cases "(sid, page) \<in> page_key ` set rows")
  case True
  with assms obtain q where "q \<in> set rows" "r = (if pg_session_id q = sid \<and> pg_page_number q = page
      then q\<lparr>pg_seconds := secs, pg_reached := reached, pg_last_seen_at := now\<rparr> else q)"
    unfolding progress_rows_def stored_page by auto
  with that show ?thesis by (cases "pg_session_id q = sid \<and> pg_page_number q = page") (auto simp: page_key_def)
next
  case False
  with assms have "r \<in> set rows \<or> page_key r = (sid, page) \<and> pg_seconds r = secs \<and> pg_reached r = reached"
    unfolding progress_rows_def stored_page by (auto simp: page_key_def)
  with False that show ?thesis by (metis image_eqI)
qed

lemma progress_rows_distinct: "distinct (map page_key rows) \<Longrightarrow> distinct (map page_key (progress_rows sid page secs reached now rows))"
  by (auto simp: progress_keys)

interpretation readings: side_tables readings_ok
proof (unfold_locales, goal_cases)
  case (1 db r)
  have "distinct (map rt_receipt_id (replaced_receipts r (sd_receipts db)))" "distinct (map receipt_key (replaced_receipts r (sd_receipts db)))"
    unfolding replaced_receipts_def
    by (rule distinct_map_filter_snoc; use 1 in \<open>auto simp: readings_ok_def receipt_key_def\<close>)+
  with 1 show ?case by (simp add: readings_ok_def)
next
  case (2 db s)
  have "distinct (map tk_session_id (replaced_reads s (sd_reads db)))"
    unfolding replaced_reads_def by (rule distinct_map_filter_snoc) (use 2 in \<open>auto simp: readings_ok_def\<close>)
  with 2 show ?case by (simp add: readings_ok_def)
next
  case (6 db secs sid page now)
  have "0 \<le> pg_seconds r \<and> (pg_reached r \<longleftrightarrow> 10 \<le> pg_seconds r)"
    if "r \<in> set (progress_rows sid page secs (10 \<le> secs) now (sd_pages db))" for r
    using that 6 by (cases rule: progress_rows_cases) (auto simp: readings_ok_def)
  with 6 progress_rows_distinct show ?case by (auto simp: readings_ok_def)
qed (simp_all add: readings_ok_def completed_ids)

section \<open>Keys of the comments\<close>

definition source_of :: "workflow_comment \<Rightarrow> string \<times> int \<times> comment_context \<times> string" where
  "source_of r = (wc_document_id r, wc_version r, wc_context r, wc_source_key r)"

lemma same_source_iff: "same_source a b \<longleftrightarrow> source_of a = source_of b"
  by (simp add: same_source_def source_of_def)

definition comment_keys_ok :: "workflow_comment list \<Rightarrow> bool" where
  "comment_keys_ok rows \<longleftrightarrow> distinct (map wc_comment_id rows) \<and> distinct (map source_of rows)"

lemma distinct_map_replace:
  assumes "distinct (map f xs)" and "distinct (map g xs)" and "\<And>x. x \<in> set xs \<Longrightarrow> f x \<noteq> i \<Longrightarrow> g x \<noteq> g y"
  shows "distinct (map g (map (\<lambda>x. if f x = i then y else x) xs))"
proof -
  have f: "inj_on f (set xs)" and g: "inj_on g (set xs)" using assms(1,2) by (simp_all add: distinct_map)
  have "inj_on (\<lambda>x. g (if f x = i then y else x)) (set xs)"
  proof (rule inj_onI)
    fix x z assume xz: "x \<in> set xs" "z \<in> set xs" and eq: "g (if f x = i then y else x) = g (if f z = i then y else z)"
    consider "f x = i" "f z = i" | "f x = i" "f z \<noteq> i" | "f x \<noteq> i" "f z = i" | "f x \<noteq> i" "f z \<noteq> i" by blast
    then show "x = z"
    proof cases
      case 1
      then show ?thesis using inj_onD [OF f] xz by metis
    next
      case 4
      then show ?thesis using inj_onD [OF g] xz eq by simp
    qed (use assms(3) xz eq in \<open>simp_all, metis\<close>)
  qed
  then show ?thesis using assms(1) by (simp add: distinct_map comp_def)
qed

lemma upserted_keys:
  assumes "upserted_comments r rows = Inr rows'" and "comment_keys_ok rows"
  shows "comment_keys_ok rows'"
  using assms(1)
proof (cases rule: upserted_comments_cases)
  case new
  with assms(2) show ?thesis by (auto simp: comment_keys_ok_def same_source_iff image_iff)
next
  case (old o')
  have "distinct (map source_of rows')" unfolding old(5)
    by (rule distinct_map_replace) (use assms(2) old(4) in \<open>auto simp: comment_keys_ok_def same_source_iff\<close>)
  moreover have "map wc_comment_id rows' = map wc_comment_id rows" unfolding old(5) using old(3) by simp
  ultimately show ?thesis using assms(2) by (simp add: comment_keys_ok_def)
qed

interpretation comment_keys: side_tables "\<lambda>db. comment_keys_ok (sd_comments db)"
  by unfold_locales (simp_all add: upserted_keys, simp add: comment_keys_ok_def)

section \<open>Reference numbers\<close>

definition number_of :: "workflow_comment \<Rightarrow> string \<times> int \<times> string" where
  "number_of r = (wc_document_id r, wc_version r, wc_ref_no r)"

text \<open>The comment in place \<open>k\<close> has the number of its place in its context, or a number of the DOCX.\<close>

definition numbered_at :: "workflow_comment list \<Rightarrow> nat \<Rightarrow> bool" where
  "numbered_at rows k \<longleftrightarrow> (let r = rows ! k in
     wc_ref_no r = pdf_ref_no (wc_document_id r) (wc_version r) (wc_context r)
       (length (filter (in_context (wc_document_id r) (wc_version r) (wc_context r)) (take k rows)) + 1) \<or>
     wc_context r = DOCX_EDIT \<and> (\<exists>n \<ge> 1. wc_ref_no r = docx_prefix (wc_document_id r) (wc_version r) @ pad_int 4 n))"

definition numbers_ok :: "workflow_comment list \<Rightarrow> bool" where
  "numbers_ok rows \<longleftrightarrow> distinct (map wc_comment_id rows) \<and> (\<forall>k < length rows. numbered_at rows k) \<and> distinct (map number_of rows)"

lemma pdf_ref_eq:
  assumes "pdf_ref_no doc ver ctx n = pdf_ref_no doc ver ctx' m"
  shows "ctx = ctx' \<and> n = m"
proof -
  have "context_value ctx @ ''-'' @ pad_int 4 (int n) = context_value ctx' @ ''-'' @ pad_int 4 (int m)"
    using assms by (simp add: pdf_ref_no_def)
  then have "ctx = ctx' \<and> pad_int 4 (int n) = pad_int 4 (int m)"
    by (cases ctx; cases ctx') (simp_all add: context_value_def)
  then show ?thesis using pad_int_inject [of "int n" "int m" 4] by simp
qed

lemma pdf_not_docx: "pdf_ref_no doc ver ctx n \<noteq> docx_prefix doc ver @ s"
  by (cases ctx) (simp_all add: pdf_ref_no_def docx_prefix_def context_value_def)

lemma in_context_identity:
  "in_context doc ver ctx = (\<lambda>(i, d, v, c, r). d = doc \<and> v = ver \<and> c = ctx) \<circ> comment_identity"
  by (auto simp: in_context_def comment_identity_def)

lemma length_in_context:
  assumes "map comment_identity xs = map comment_identity ys"
  shows "length (filter (in_context doc ver ctx) xs) = length (filter (in_context doc ver ctx) ys)"
  unfolding in_context_identity length_filter_map [symmetric] assms by simp

lemma numbered_at_identity:
  assumes "map comment_identity xs = map comment_identity ys" and "k < length xs"
  shows "numbered_at xs k \<longleftrightarrow> numbered_at ys k"
proof -
  have "length xs = length ys" using assms(1) by (rule map_eq_imp_length_eq)
  with assms have "comment_identity (xs ! k) = comment_identity (ys ! k)" by (metis nth_map)
  then have "wc_document_id (xs ! k) = wc_document_id (ys ! k)" "wc_version (xs ! k) = wc_version (ys ! k)"
      "wc_context (xs ! k) = wc_context (ys ! k)" "wc_ref_no (xs ! k) = wc_ref_no (ys ! k)"
    by (simp_all add: comment_identity_def)
  moreover from assms(1) have "map comment_identity (take k xs) = map comment_identity (take k ys)" by (simp add: take_map [symmetric])
  note same = length_in_context [OF this]
  ultimately show ?thesis unfolding numbered_at_def Let_def by (simp only: same)
qed

lemma numbers_identity:
  assumes "map comment_identity xs = map comment_identity ys"
  shows "numbers_ok xs \<longleftrightarrow> numbers_ok ys"
proof -
  have "map wc_comment_id zs = map fst (map comment_identity zs)" for zs by (simp add: comment_identity_def)
  then have "map wc_comment_id xs = map wc_comment_id ys" using assms by metis
  moreover have "map number_of zs = map (\<lambda>(i, d, v, c, r). (d, v, r)) (map comment_identity zs)" for zs
    by (simp add: comment_identity_def number_of_def)
  then have "map number_of xs = map number_of ys" using assms by metis
  moreover have "length xs = length ys" using assms by (rule map_eq_imp_length_eq)
  ultimately show ?thesis using numbered_at_identity [OF assms] by (auto simp: numbers_ok_def)
qed

text \<open>A number that is given by the code is new.\<close>

lemma number_is_new:
  assumes "numbers_ok rows" and "numbered rows r" and "wc_comment_id r \<notin> comment_ids rows" and "x \<in> set rows"
  shows "number_of x \<noteq> number_of r"
proof
  assume same: "number_of x = number_of r"
  obtain k where k: "k < length rows" "rows ! k = x" using assms(4) by (metis in_set_conv_nth)
  let ?doc = "wc_document_id r" and ?ver = "wc_version r"
  have x: "wc_document_id x = ?doc" "wc_version x = ?ver" "wc_ref_no x = wc_ref_no r" using same by (simp_all add: number_of_def)
  have at: "wc_ref_no r = pdf_ref_no ?doc ?ver (wc_context x) (length (filter (in_context ?doc ?ver (wc_context x)) (take k rows)) + 1) \<or>
      wc_context x = DOCX_EDIT \<and> (\<exists>n \<ge> 1. wc_ref_no r = docx_prefix ?doc ?ver @ pad_int 4 n)"
  proof -
    have "numbered_at rows k" using assms(1) k(1) by (simp add: numbers_ok_def)
    then show ?thesis unfolding numbered_at_def Let_def k(2) x by this
  qed
  consider (pdf) "wc_ref_no r = pdf_ref_no ?doc ?ver (wc_context r) (length (filter (in_context ?doc ?ver (wc_context r)) rows) + 1)"
    | (docx) n where "n \<ge> 1" "wc_ref_no r = docx_prefix ?doc ?ver @ pad_int 4 n" "above_docx_numbers ?doc ?ver n rows"
    using assms(2,3) unfolding numbered_def by blast
  then show False
  proof cases
    case pdf
    with at pdf_not_docx have "wc_context x = wc_context r"
        "length (filter (in_context ?doc ?ver (wc_context r)) (take k rows)) = length (filter (in_context ?doc ?ver (wc_context r)) rows)"
      by (metis pdf_ref_eq add_right_cancel)+
    moreover have "filter P rows = filter P (take k rows) @ filter P (x # drop (Suc k) rows)" for P
      using k by (metis append_take_drop_id Cons_nth_drop_Suc filter_append)
    ultimately show False using x by (simp add: in_context_def)
  next
    case docx
    with at pdf_not_docx have "wc_context x = DOCX_EDIT" by metis
    with docx x assms(4) have "n < n"
      unfolding above_docx_numbers_def by (metis in_context_def ref_index_docx order_trans zero_le_one)
    then show False by simp
  qed
qed

lemma upserted_numbers:
  assumes "upserted_comments r rows = Inr rows'" and "numbered rows r" and "numbers_ok rows"
  shows "numbers_ok rows'"
proof (cases "wc_comment_id r \<in> comment_ids rows")
  case True
  with upserted_identities [OF assms(1)] assms(3) show ?thesis
    by (simp add: numbers_ok_def) (metis assms(3) numbers_identity numbers_ok_def)
next
  case False
  have rows': "rows' = rows @ [r]" using assms(1) by (cases rule: upserted_comments_cases) (use False in \<open>simp, metis image_eqI\<close>)
  have "numbered_at (rows @ [r]) k" if "k < length rows" for k
    using that assms(3) by (simp add: numbers_ok_def numbered_at_def nth_append)
  moreover have "numbered_at (rows @ [r]) (length rows)"
    using assms(2) False by (auto simp: numbered_def numbered_at_def)
  moreover have "number_of r \<notin> number_of ` set rows" using number_is_new [OF assms(3,2) False] by force
  ultimately show ?thesis using assms(3) False unfolding rows' by (auto simp: numbers_ok_def less_Suc_eq)
qed

interpretation comment_numbers: side_tables "\<lambda>db. numbers_ok (sd_comments db)"
  by unfold_locales (simp_all add: upserted_numbers, simp add: numbers_ok_def)

section \<open>Reading time\<close>

text \<open>The reading time that calls report for a page; a negative one counts as none.\<close>

fun reported :: "string \<Rightarrow> int \<Rightarrow> side_call \<Rightarrow> int" where
  "reported sid page (PageDwell s p secs) = (if s = sid \<and> p = page then max 0 secs else 0)"
| "reported sid page (PageDwellForActor actor s p secs) = (if s = sid \<and> p = page then max 0 secs else 0)"
| "reported sid page _ = 0"

definition reported_seconds :: "string \<Rightarrow> int \<Rightarrow> side_call list \<Rightarrow> int" where
  "reported_seconds sid page calls = sum_list (map (reported sid page) calls)"

definition pages_within :: "(string \<Rightarrow> int \<Rightarrow> int) \<Rightarrow> side_db \<Rightarrow> bool" where
  "pages_within b db \<longleftrightarrow> (\<forall>r \<in> set (sd_pages db). pg_seconds r \<le> b (pg_session_id r) (pg_page_number r))"

interpretation pages: side_frame "pages_within b" for b
  by unfold_locales (simp_all add: pages_within_def)

lemma after_done_side [simp]: "after (done_side m w) = after (m w)"
  by (auto simp: done_side_def bindM_def split: prod.split sum.split)

lemma require_session_same: "require_session_actor actor sid w = (r, w') \<Longrightarrow> w' = w"
  by (auto simp: require_session_actor_def side_actor_def side_read_def side_check_def bindM_def
      split: prod.splits sum.splits option.splits)

lemma after_required: "after (bindM (require_session_actor actor sid) (\<lambda>_. m) w) = w \<or>
    after (bindM (require_session_actor actor sid) (\<lambda>_. m) w) = after (m w)"
  using require_session_same [of actor sid w]
  by (cases "require_session_actor actor sid w") (auto simp: bindM_def split: sum.split)

lemma reported_nonneg: "0 \<le> reported sid page call"
  by (cases call) simp_all

lemma reported_seconds_nonneg: "0 \<le> reported_seconds sid page calls"
  by (induction calls) (simp_all add: reported_seconds_def reported_nonneg add_nonneg_nonneg)

lemma page_seconds_bound:
  assumes "pages_within b db" and "pdf_read_progress db sid = Some p" and "map_of (pr_page_seconds p) page = Some s"
  shows "s \<le> b sid page"
proof -
  have "(page, s) \<in> set (pr_page_seconds p)" using assms(3) by (rule map_of_SomeD)
  then obtain r where "r \<in> set (sd_pages db)" "pg_session_id r = sid" "page = pg_page_number r" "s = pg_seconds r"
    using assms(2) by (auto simp: pdf_read_progress_def Let_def split: option.splits)
  with assms(1) show ?thesis by (auto simp: pages_within_def)
qed

lemma dwell_within:
  assumes "pages_within b (sv_db w)" and "\<And>s p. 0 \<le> b s p" and "\<And>s p. b s p \<le> c s p" and "b sid page + max 0 secs \<le> c sid page"
  shows "pages_within c (sv_db (after (record_page_dwell env sid page secs w)))"
proof -
  define current where "current = (case pdf_read_progress (sv_db w) sid of None \<Rightarrow> 0
      | Some p \<Rightarrow> (case map_of (pr_page_seconds p) page of None \<Rightarrow> 0 | Some s \<Rightarrow> s))"
  have "current \<le> b sid page"
    using assms(2) page_seconds_bound [OF assms(1)] by (auto simp: current_def split: option.split)
  then have new: "max 0 (current + max 0 secs) \<le> c sid page" using assms(2) [of sid page] assms(4) by linarith
  have grown: "pages_within c (sv_db w)" using assms(1,3) unfolding pages_within_def by (meson order_trans)
  then have "pages_within c ((sv_db w)\<lparr>sd_pages := progress_rows sid page (max 0 (current + max 0 secs)) reached now (sd_pages (sv_db w))\<rparr>)"
    for reached now
    using new unfolding pages_within_def by (auto simp: page_key_def elim!: progress_rows_cases)
  with grown have "wp (record_page_dwell env sid page secs) (\<lambda>_ w'. pages_within c (sv_db w')) (\<lambda>_ w'. pages_within c (sv_db w')) w"
    by (simp add: record_page_dwell_def Let_def wp_simps update_page_progress_def progress_or_none_def current_def [symmetric])
  then show ?thesis by (auto simp: wp_def split: prod.splits sum.splits)
qed

lemma read_time_was_reported:
  "side_history env calls w \<Longrightarrow> pages_within (\<lambda>sid page. reported_seconds sid page calls) (sv_db w)"
proof (induction rule: side_history.induct)
  case (step calls w call)
  let ?b = "\<lambda>sid page. reported_seconds sid page calls" and ?c = "\<lambda>sid page. reported_seconds sid page (calls @ [call])"
  have c: "?c sid page = ?b sid page + reported sid page call" for sid page by (simp add: reported_seconds_def)
  have grown: "pages_within ?b db \<Longrightarrow> pages_within ?c db" for db
    unfolding pages_within_def c using reported_nonneg by (metis add_increasing2)
  have dwell: "pages_within ?c (sv_db (after (record_page_dwell env sid page secs w)))" if "reported sid page call = max 0 secs" for sid page secs
    by (rule dwell_within [OF step.IH]) (use that reported_nonneg reported_seconds_nonneg in \<open>simp_all add: c\<close>)
  show ?case
  proof (cases call)
    case (PageDwell sid page secs)
    then show ?thesis using dwell [of sid page secs] by simp
  next
    case (PageDwellForActor actor sid page secs)
    then show ?thesis
      using dwell [of sid page secs] grown [OF step.IH] after_required [of actor sid "done_side (record_page_dwell env sid page secs)" w]
      by auto
  qed (use keepsD [OF pages.safe_call [where b = ?b and call = call and env = env], of w] step.IH grown in \<open>simp_all\<close>)
qed (simp_all add: empty_side_world_def pages_within_def)

end
