(* ===== verification/DocReadingBehaviour.thy ===== *)
theory DocReadingBehaviour
  imports DocReadingTables TrainBehaviour
begin

text \<open>
  What a synchronisation with a DOCX makes of the comments, what a receipt of a tracked reading needs, and what a
  confirmed reading tells the training.
\<close>

section \<open>Synchronisation\<close>

definition fresh_ids :: "side_env \<Rightarrow> side_world \<Rightarrow> bool" where
  "fresh_ids env w \<longleftrightarrow> inj (fresh_uuid (sv_env env)) \<and>
     (\<forall>n \<ge> w_uuids (sv_docs w). fresh_uuid (sv_env env) n \<notin> comment_ids (sd_comments (sv_db w)))"

text \<open>A row that has taken over an item of the DOCX.\<close>

definition shows_item :: "version_state \<Rightarrow> docx_comment \<Rightarrow> workflow_comment \<Rightarrow> bool" where
  "shows_item state x r \<longleftrightarrow> in_context (v_document_id state) (v_version state) DOCX_EDIT r \<and> wc_source_key r = xc_source_key x \<and>
     wc_full_text r = xc_full_text x \<and> wc_preview_text r = xc_preview x \<and> wc_author r = xc_author x \<and>
     wc_source_created_at r = xc_created_at x"

lemma new_shows: "shows_item state x (new_docx_comment state now i n x)"
  by (simp add: shows_item_def in_context_def new_docx_comment_def)

lemma merged_shows:
  "in_context (v_document_id state) (v_version state) DOCX_EDIT old \<Longrightarrow>
   shows_item state x (merged_comment old (refreshed_comment state now c x))"
  by (simp add: shows_item_def in_context_def merged_comment_def refreshed_comment_def new_docx_comment_def)

text \<open>The comments that the loop may still match: each stored under its key, with its status.\<close>

definition stored_match :: "version_state \<Rightarrow> workflow_comment list \<Rightarrow> string \<times> workflow_comment \<Rightarrow> bool" where
  "stored_match state rows kc \<longleftrightarrow> fst kc = wc_source_key (snd kc) \<and>
     (\<exists>r \<in> set rows. comment_identity r = comment_identity (snd kc) \<and> wc_status r = wc_status (snd kc) \<and>
       in_context (v_document_id state) (v_version state) DOCX_EDIT r)"

definition matches_ok :: "version_state \<Rightarrow> workflow_comment list \<Rightarrow> (string, workflow_comment) dict \<Rightarrow> bool" where
  "matches_ok state rows remaining \<longleftrightarrow> distinct (map fst remaining) \<and> distinct (map (wc_comment_id \<circ> snd) remaining) \<and>
     (\<forall>kc \<in> set remaining. stored_match state rows kc)"

lemma identity_id: "comment_identity a = comment_identity b \<Longrightarrow> wc_comment_id a = wc_comment_id b"
  by (simp add: comment_identity_def)

lemma stored_match_id: "stored_match state rows kc \<Longrightarrow> wc_comment_id (snd kc) \<in> comment_ids rows"
  by (auto simp: stored_match_def dest!: identity_id intro: image_eqI [rotated])

lemma distinct_map_same: "distinct (map f xs) \<Longrightarrow> x \<in> set xs \<Longrightarrow> y \<in> set xs \<Longrightarrow> f x = f y \<Longrightarrow> x = y"
  by (meson distinct_map inj_onD)

text \<open>One turn with a comment that was matched.\<close>

lemma refreshed_turn:
  assumes "upserted_comments (refreshed_comment state now c x) rows = Inr rows'" and "matches_ok state rows remaining"
    and "(k, c) \<in> set remaining" and "distinct (map wc_comment_id rows)"
  obtains old where "old \<in> set rows" "wc_comment_id old = wc_comment_id c" "wc_status old = wc_status c"
      "in_context (v_document_id state) (v_version state) DOCX_EDIT old"
      "rows' = map (\<lambda>r. if wc_comment_id r = wc_comment_id c then merged_comment old (refreshed_comment state now c x) else r) rows"
proof -
  from assms(2,3) have st: "stored_match state rows (k, c)" by (auto simp: matches_ok_def)
  from st obtain r where r: "r \<in> set rows" "comment_identity r = comment_identity c" "wc_status r = wc_status c"
      "in_context (v_document_id state) (v_version state) DOCX_EDIT r"
    by (auto simp: stored_match_def)
  from assms(1) show thesis
  proof (cases rule: upserted_comments_cases)
    case new
    with stored_match_id [OF st] show thesis by simp
  next
    case (old o')
    have "o' = r" by (rule distinct_map_same [OF assms(4)]) (use old r identity_id [OF r(2)] in simp_all)
    with old r that show thesis by auto
  qed
qed

lemma turn_ids: "wc_comment_id old = i \<Longrightarrow> map wc_comment_id (map (\<lambda>r. if wc_comment_id r = i then merged_comment old q else r) rows) = map wc_comment_id rows"
  by simp

lemma matches_after_turn:
  assumes "matches_ok state rows remaining" and "(k, c) \<in> set remaining" and "wc_comment_id old = wc_comment_id c"
  shows "matches_ok state (map (\<lambda>r. if wc_comment_id r = wc_comment_id c then merged_comment old q else r) rows)
      (AList.delete (wc_source_key c) remaining)" (is "matches_ok state ?rows ?left")
    and "wc_comment_id c \<notin> wc_comment_id ` snd ` set (AList.delete (wc_source_key c) remaining)"
proof -
  have k: "k = wc_source_key c" using assms(1,2) by (auto simp: matches_ok_def stored_match_def)
  have sub: "set ?left \<subseteq> set remaining" by (auto simp: AList.delete_eq)
  have gone: "wc_comment_id (snd kc) \<noteq> wc_comment_id c" if "kc \<in> set ?left" for kc
  proof
    assume "wc_comment_id (snd kc) = wc_comment_id c"
    then have "kc = (k, c)"
      by (intro distinct_map_same [of "wc_comment_id \<circ> snd" remaining]) (use assms(1,2) that sub in \<open>auto simp: matches_ok_def\<close>)
    with that k show False by (simp add: AList.delete_eq)
  qed
  show "wc_comment_id c \<notin> wc_comment_id ` snd ` set ?left"
  proof
    assume "wc_comment_id c \<in> wc_comment_id ` snd ` set ?left"
    then obtain kc where "kc \<in> set ?left" "wc_comment_id c = wc_comment_id (snd kc)" by blast
    with gone [OF this(1)] show False by simp
  qed
  have "stored_match state ?rows kc" if "kc \<in> set ?left" for kc
  proof -
    have "stored_match state rows kc" using assms(1) that sub by (auto simp: matches_ok_def)
    then obtain r where "r \<in> set rows" "comment_identity r = comment_identity (snd kc)" "wc_status r = wc_status (snd kc)"
        "in_context (v_document_id state) (v_version state) DOCX_EDIT r" "fst kc = wc_source_key (snd kc)"
      by (auto simp: stored_match_def)
    moreover from this have "wc_comment_id r \<noteq> wc_comment_id c" using gone [OF that] identity_id by metis
    ultimately show ?thesis unfolding stored_match_def by force
  qed
  then show "matches_ok state ?rows ?left"
    using assms(1) by (auto simp: matches_ok_def AList.delete_eq distinct_map_filter)
qed

lemma match_pair: "match_existing_comment key remaining = Some c \<Longrightarrow> \<exists>k. (k, c) \<in> set remaining"
  using match_member by force

lemma matches_append: "matches_ok state rows remaining \<Longrightarrow> matches_ok state (rows @ [r]) remaining"
  by (auto simp: matches_ok_def stored_match_def)

section \<open>The loop of a synchronisation\<close>

text \<open>What one comment keeps, whatever the DOCX says.\<close>

definition keeps_standing :: "workflow_comment list \<Rightarrow> workflow_comment list \<Rightarrow> bool" where
  "keeps_standing rows rows' \<longleftrightarrow> (\<forall>r \<in> set rows. \<exists>r' \<in> set rows'. comment_identity r' = comment_identity r \<and> wc_status r' = wc_status r)"

lemma keeps_standing_refl: "keeps_standing rows rows"
  by (auto simp: keeps_standing_def)

lemma keeps_standing_trans: "keeps_standing a b \<Longrightarrow> keeps_standing b c \<Longrightarrow> keeps_standing a c"
  unfolding keeps_standing_def by metis

lemma fresh_ids_docs:
  "fresh_ids env w \<Longrightarrow> w_uuids (sv_docs w) \<le> w_uuids d \<Longrightarrow> fresh_ids env (w\<lparr>sv_docs := d\<rparr>)"
  by (auto simp: fresh_ids_def)

lemma upsert_Inr:
  assumes "upsert_workflow_comment r w = (Inr u, w')"
  obtains rows' where "upserted_comments r (sd_comments (sv_db w)) = Inr rows'" "w' = w\<lparr>sv_db := (sv_db w)\<lparr>sd_comments := rows'\<rparr>\<rparr>"
proof -
  have "wp (upsert_workflow_comment r) (\<lambda>_ v. \<exists>rows'. upserted_comments r (sd_comments (sv_db w)) = Inr rows' \<and>
      v = w\<lparr>sv_db := (sv_db w)\<lparr>sd_comments := rows'\<rparr>\<rparr>) (\<lambda>_ _. True) w"
    by (auto simp: wp_simps split: sum.split)
  from wp_Inr [OF this assms] that show thesis by blast
qed

text \<open>What one turn does for its item, and what the whole loop does; \<open>left\<close> may still be matched afterwards.\<close>

definition turn_done :: "version_state \<Rightarrow> docx_comment \<Rightarrow> (string, workflow_comment) dict \<Rightarrow> (string, workflow_comment) dict \<Rightarrow>
    workflow_comment list \<Rightarrow> workflow_comment list \<Rightarrow> bool" where
  "turn_done state x remaining left rows rows' \<longleftrightarrow> keeps_standing rows rows' \<and> matches_ok state rows' left \<and>
     distinct (map wc_comment_id rows') \<and>
     (\<exists>r \<in> set rows'. shows_item state x r \<and> wc_comment_id r \<notin> wc_comment_id ` snd ` set left) \<and>
     (\<forall>r \<in> set rows. wc_comment_id r \<notin> wc_comment_id ` snd ` set remaining \<longrightarrow>
        r \<in> set rows' \<and> wc_comment_id r \<notin> wc_comment_id ` snd ` set left)"

definition loop_done :: "version_state \<Rightarrow> docx_comment list \<Rightarrow> (string, workflow_comment) dict \<Rightarrow>
    workflow_comment list \<Rightarrow> workflow_comment list \<Rightarrow> bool" where
  "loop_done state xs remaining rows rows' \<longleftrightarrow> keeps_standing rows rows' \<and> (\<forall>x \<in> set xs. \<exists>r \<in> set rows'. shows_item state x r) \<and>
     (\<forall>r \<in> set rows. wc_comment_id r \<notin> wc_comment_id ` snd ` set remaining \<longrightarrow> r \<in> set rows')"

lemma turn_then_loop:
  "turn_done state x remaining left rows rows1 \<Longrightarrow> loop_done state xs left rows1 rows2 \<Longrightarrow> loop_done state (x # xs) remaining rows rows2"
  unfolding turn_done_def loop_done_def by (auto intro: keeps_standing_trans)

lemma new_turn_done:
  assumes "upserted_comments (new_docx_comment state now i n x) rows = Inr rows'" and "matches_ok state rows remaining"
    and "distinct (map wc_comment_id rows)" and "i \<notin> comment_ids rows"
  shows "turn_done state x remaining remaining rows rows'"
proof -
  let ?r = "new_docx_comment state now i n x"
  have rows': "rows' = rows @ [?r]" using assms(1) by (cases rule: upserted_comments_cases) (use assms(4) in auto)
  have "i \<notin> wc_comment_id ` snd ` set remaining" using assms(2,4) stored_match_id by (fastforce simp: matches_ok_def)
  then show ?thesis
    using assms(2,3,4) new_shows [of state x now i n] unfolding rows' turn_done_def
    by (auto simp: matches_append keeps_standing_def)
qed

lemma refreshed_turn_done:
  assumes "upserted_comments (refreshed_comment state now c x) rows = Inr rows'" and "matches_ok state rows remaining"
    and "(k, c) \<in> set remaining" and "distinct (map wc_comment_id rows)"
  shows "turn_done state x remaining (AList.delete (wc_source_key c) remaining) rows rows'"
proof -
  let ?new = "refreshed_comment state now c x" and ?left = "AList.delete (wc_source_key c) remaining"
  obtain old where old: "old \<in> set rows" "wc_comment_id old = wc_comment_id c" "wc_status old = wc_status c"
      "in_context (v_document_id state) (v_version state) DOCX_EDIT old"
      "rows' = map (\<lambda>r. if wc_comment_id r = wc_comment_id c then merged_comment old ?new else r) rows"
    by (rule refreshed_turn [OF assms])
  have "matches_ok state rows' ?left" unfolding old(5) by (rule matches_after_turn(1) [OF assms(2,3) old(2)])
  moreover have gone: "wc_comment_id c \<notin> wc_comment_id ` snd ` set ?left" by (rule matches_after_turn(2) [OF assms(2,3) old(2)])
  moreover have "distinct (map wc_comment_id rows')" unfolding old(5) turn_ids [OF old(2)] by (rule assms(4))
  moreover have other: "q \<in> set rows'" if "q \<in> set rows" "wc_comment_id q \<noteq> wc_comment_id c" for q
    unfolding old(5) using that by force
  moreover have merged: "merged_comment old ?new \<in> set rows'" unfolding old(5) using old(1,2) by force
  moreover have "keeps_standing rows rows'"
  proof -
    have "q = old" if "q \<in> set rows" "wc_comment_id q = wc_comment_id c" for q
      using distinct_map_same [OF assms(4) that(1) old(1)] that(2) old(2) by simp
    moreover have "wc_status (merged_comment old ?new) = wc_status old" using old(3) by (simp add: merged_comment_def)
    ultimately show ?thesis using other merged unfolding keeps_standing_def by (metis merged_identity)
  qed
  moreover have "shows_item state x (merged_comment old ?new)" by (rule merged_shows [OF old(4)])
  moreover have "wc_comment_id q \<noteq> wc_comment_id c" "wc_comment_id q \<notin> wc_comment_id ` snd ` set ?left"
    if "wc_comment_id q \<notin> wc_comment_id ` snd ` set remaining" for q
    using that assms(3) by (force, auto simp: AList.delete_eq)
  ultimately show ?thesis unfolding turn_done_def using old(2) by (metis merged_columns(1))
qed

lemma sync_items_Inr:
  assumes "sync_items env state now remaining n xs w = (Inr (), w')" and "matches_ok state (sd_comments (sv_db w)) remaining"
    and "distinct (map wc_comment_id (sd_comments (sv_db w)))" and "fresh_ids env w"
  shows "loop_done state xs remaining (sd_comments (sv_db w)) (sd_comments (sv_db w'))"
  using assms
proof (induction xs arbitrary: w remaining n)
  case (Cons x xs)
  let ?rows = "sd_comments (sv_db w)"
  show ?case
  proof (cases "match_existing_comment (xc_source_key x) remaining")
    case None
    define i where "i = fresh_uuid (sv_env env) (w_uuids (sv_docs w))"
    define w1 where "w1 = w\<lparr>sv_docs := (sv_docs w)\<lparr>w_uuids := Suc (w_uuids (sv_docs w))\<rparr>\<rparr>"
    obtain u w2 where up: "upsert_workflow_comment (new_docx_comment state now i n x) w1 = (Inr u, w2)"
        and rest: "sync_items env state now remaining (n + 1) xs w2 = (Inr (), w')"
      using Cons.prems(1) None by (auto simp: in_docs_def uuid4_def i_def w1_def)
    from up obtain rows' where ups: "upserted_comments (new_docx_comment state now i n x) ?rows = Inr rows'"
        and w2: "w2 = w1\<lparr>sv_db := (sv_db w)\<lparr>sd_comments := rows'\<rparr>\<rparr>"
      by (rule upsert_Inr) (simp add: w1_def)
    have new: "i \<notin> comment_ids ?rows" and inj: "inj (fresh_uuid (sv_env env))" using Cons.prems(4) by (simp_all add: fresh_ids_def i_def)
    have turn: "turn_done state x remaining remaining ?rows rows'" by (rule new_turn_done [OF ups Cons.prems(2,3) new])
    have "fresh_ids env w2"
      using Cons.prems(4) inj by (auto simp: fresh_ids_def w2 w1_def upserted_ids [OF ups] i_def dest: injD)
    with Cons.IH [OF rest] turn have "loop_done state xs remaining rows' (sd_comments (sv_db w'))" by (simp add: turn_done_def w2)
    with turn show ?thesis by (rule turn_then_loop)
  next
    case (Some c)
    obtain k where k: "(k, c) \<in> set remaining" using match_pair [OF Some] by blast
    obtain u w2 where up: "upsert_workflow_comment (refreshed_comment state now c x) w = (Inr u, w2)"
        and rest: "sync_items env state now (AList.delete (wc_source_key c) remaining) n xs w2 = (Inr (), w')"
      using Cons.prems(1) Some by auto
    from up obtain rows' where ups: "upserted_comments (refreshed_comment state now c x) ?rows = Inr rows'"
        and w2: "w2 = w\<lparr>sv_db := (sv_db w)\<lparr>sd_comments := rows'\<rparr>\<rparr>"
      by (rule upsert_Inr)
    have turn: "turn_done state x remaining (AList.delete (wc_source_key c) remaining) ?rows rows'"
      by (rule refreshed_turn_done [OF ups Cons.prems(2) k Cons.prems(3)])
    have "wc_comment_id c \<in> comment_ids ?rows" using k Cons.prems(2) stored_match_id by (fastforce simp: matches_ok_def)
    then have "fresh_ids env w2" using Cons.prems(4) upserted_ids [OF ups] by (auto simp: fresh_ids_def w2)
    with Cons.IH [OF rest] turn have "loop_done state xs (AList.delete (wc_source_key c) remaining) rows' (sd_comments (sv_db w'))"
      by (simp add: turn_done_def w2)
    with turn show ?thesis by (rule turn_then_loop)
  qed
qed (simp add: loop_done_def keeps_standing_refl)

section \<open>A synchronisation from its start\<close>

lemma by_source_key_eq: "distinct (map wc_source_key rows) \<Longrightarrow> by_source_key rows = map (\<lambda>r. (wc_source_key r, r)) rows"
proof -
  have "fold (\<lambda>r d. AList.update (wc_source_key r) r d) rows d = d @ map (\<lambda>r. (wc_source_key r, r)) rows"
    if "distinct (map wc_source_key rows)" "wc_source_key ` set rows \<inter> fst ` set d = {}" for d
    using that
  proof (induction rows arbitrary: d)
    case (Cons r rows)
    have "AList.update k v d = d @ [(k, v)]" if "k \<notin> fst ` set d" for k v and d :: "(string \<times> workflow_comment) list"
      using that by (induction d) auto
    with Cons show ?case by auto
  qed simp
  then show "distinct (map wc_source_key rows) \<Longrightarrow> by_source_key rows = map (\<lambda>r. (wc_source_key r, r)) rows"
    by (simp add: by_source_key_def)
qed

lemma distinct_map_sort: "distinct (map f (sort_key g xs)) \<longleftrightarrow> distinct (map f xs)"
  by (simp add: distinct_map)

lemma comments_of_keys:
  assumes "comment_keys_ok (sd_comments db)"
  shows "distinct (map wc_source_key (comments_of db doc ver ctx))" "distinct (map wc_comment_id (comments_of db doc ver ctx))"
proof -
  let ?rows = "filter (in_context doc ver ctx) (sd_comments db)"
  have "distinct (map source_of ?rows)" "distinct (map wc_comment_id ?rows)"
    using assms by (simp_all add: comment_keys_ok_def distinct_map_filter)
  moreover have "map source_of ?rows = map (\<lambda>k. (doc, ver, ctx, k)) (map wc_source_key ?rows)"
    by (simp add: source_of_def in_context_def)
  ultimately have "distinct (map (\<lambda>k. (doc, ver, ctx, k)) (map wc_source_key ?rows))" and ids: "distinct (map wc_comment_id ?rows)"
    by simp_all
  from this(1) have "distinct (map wc_source_key ?rows)" unfolding distinct_map [of "\<lambda>k. (doc, ver, ctx, k)"] by blast
  with ids show "distinct (map wc_source_key (comments_of db doc ver ctx))" "distinct (map wc_comment_id (comments_of db doc ver ctx))"
    by (simp_all add: comments_of_def comp_def distinct_map_sort)
qed

lemma matches_at_start:
  assumes "comment_keys_ok (sd_comments db)"
  shows "matches_ok state (sd_comments db) (by_source_key (comments_of db (v_document_id state) (v_version state) DOCX_EDIT))"
  using comments_of_keys [OF assms] unfolding by_source_key_eq [OF comments_of_keys(1) [OF assms]]
  by (auto simp: matches_ok_def stored_match_def set_comments_of comp_def comment_identity_def)

text \<open>The items that a synchronisation reads from the DOCX of a version.\<close>

definition docx_items :: "side_env \<Rightarrow> version_state \<Rightarrow> side_world \<Rightarrow> docx_comment list option" where
  "docx_items env state w =
     (case result (resolve_source_docx_path (sv_env env) state (sv_docs w)) of
        Inr (Some path) \<Rightarrow> if path \<in> w_files (sv_docs w)
          then (case sv_docx env path of Inl m \<Rightarrow> None | Inr nodes \<Rightarrow> Some (List.map_filter (docx_comment_of (context_value DOCX_EDIT)) nodes))
          else None
      | _ \<Rightarrow> None)"

definition first_remaining :: "version_state \<Rightarrow> side_db \<Rightarrow> (string, workflow_comment) dict" where
  "first_remaining state db = by_source_key (comments_of db (v_document_id state) (v_version state) DOCX_EDIT)"

definition first_ref :: "version_state \<Rightarrow> side_db \<Rightarrow> int" where
  "first_ref state db = next_docx_ref_index (v_document_id state) (v_version state)
     (comments_of db (v_document_id state) (v_version state) DOCX_EDIT)"

lemma sync_unfold:
  assumes "docx_items env state w = Some xs" and "ensure_workflow_comment_read_access state DOCX_EDIT uid role = Inr ()"
  shows "sync_docx_comments env state uid role w =
    bindM (sync_items env state (clock (sv_env env) (w_ticks (sv_docs w))) (first_remaining state (sv_db w)) (first_ref state (sv_db w)) xs)
      (\<lambda>_. bindM (side_read (\<lambda>db. comments_of db (v_document_id state) (v_version state) DOCX_EDIT)) (\<lambda>records.
        bindM (side_publish env ''domain.documents.workflow.comment.synced.v1'' [(''document_id'', PyStr (v_document_id state)),
             (''version'', PyInt (v_version state)), (''actor_user_id'', PyStr uid)]) (\<lambda>_. retM records)))
      (w\<lparr>sv_docs := (sv_docs w)\<lparr>w_ticks := Suc (w_ticks (sv_docs w))\<rparr>\<rparr>)"
  using assms
  by (auto simp: docx_items_def sync_docx_comments_def read_docx_comments_def first_remaining_def first_ref_def
      resolve_source_docx_path_def resolve_source_path_def in_docs_def bindM_def side_check_def side_read_def utcnow_def
      split: option.splits sum.splits if_splits)

lemma sync_Inr:
  assumes "docx_items env state w = Some xs" and "sync_docx_comments env state uid role w = (Inr records, w')"
  obtains w1 where "sync_items env state (clock (sv_env env) (w_ticks (sv_docs w))) (first_remaining state (sv_db w))
      (first_ref state (sv_db w)) xs (w\<lparr>sv_docs := (sv_docs w)\<lparr>w_ticks := Suc (w_ticks (sv_docs w))\<rparr>\<rparr>) = (Inr (), w1)"
    "sv_db w' = sv_db w1" "records = comments_of (sv_db w') (v_document_id state) (v_version state) DOCX_EDIT"
proof -
  have access: "ensure_workflow_comment_read_access state DOCX_EDIT uid role = Inr ()"
    using assms(2) by (auto simp: sync_docx_comments_def)
  from assms(2) [unfolded sync_unfold [OF assms(1) access]] obtain w1 u where
      run: "sync_items env state (clock (sv_env env) (w_ticks (sv_docs w))) (first_remaining state (sv_db w))
        (first_ref state (sv_db w)) xs (w\<lparr>sv_docs := (sv_docs w)\<lparr>w_ticks := Suc (w_ticks (sv_docs w))\<rparr>\<rparr>) = (Inr (), w1)"
      and pub: "side_publish env ''domain.documents.workflow.comment.synced.v1'' [(''document_id'', PyStr (v_document_id state)),
             (''version'', PyInt (v_version state)), (''actor_user_id'', PyStr uid)] w1 = (Inr u, w')"
      and records: "records = comments_of (sv_db w1) (v_document_id state) (v_version state) DOCX_EDIT"
    by (auto simp: side_read_def)
  have "sv_db w' = sv_db w1" using pub by (auto simp: side_publish_def in_docs_def split: prod.splits)
  with run records that show thesis by simp
qed

section \<open>A second synchronisation\<close>

text \<open>Everything of a comment but its place, its notes and when it was last written.\<close>

definition comment_content :: "workflow_comment \<Rightarrow> (string \<times> string \<times> int \<times> comment_context \<times> string) \<times>
    string \<times> string option \<times> time option \<times> string \<times> string \<times> comment_status" where
  "comment_content r = (comment_identity r, wc_source_key r, wc_author r, wc_source_created_at r, wc_preview_text r, wc_full_text r, wc_status r)"

lemma merged_content:
  "shows_item state x old \<Longrightarrow> wc_status old = wc_status c \<Longrightarrow>
   comment_content (merged_comment old (refreshed_comment state now c x)) = comment_content old"
  by (simp add: comment_content_def shows_item_def merged_comment_def refreshed_comment_def new_docx_comment_def comment_identity_def)

lemma content_item: "comment_content r = comment_content r' \<Longrightarrow> shows_item state x r \<longleftrightarrow> shows_item state x r'"
  by (simp add: comment_content_def shows_item_def in_context_def comment_identity_def)

definition storable_version :: "version_state \<Rightarrow> bool" where
  "storable_version state \<longleftrightarrow> - (2 ^ 63) \<le> v_version state \<and> v_version state < 2 ^ 63"

text \<open>Every item is shown by the comment that is stored under its key.\<close>

definition all_shown :: "version_state \<Rightarrow> workflow_comment list \<Rightarrow> (string, workflow_comment) dict \<Rightarrow> docx_comment list \<Rightarrow> bool" where
  "all_shown state rows remaining xs \<longleftrightarrow> (\<forall>x \<in> set xs. \<exists>c r. map_of remaining (xc_source_key x) = Some c \<and> r \<in> set rows \<and>
     wc_comment_id r = wc_comment_id c \<and> wc_status r = wc_status c \<and> wc_source_key c = xc_source_key x \<and> shows_item state x r)"

lemma find_the_row: "distinct (map f rows) \<Longrightarrow> r \<in> set rows \<Longrightarrow> List.find (\<lambda>x. f x = f r) rows = Some r"
  by (induction rows) auto

lemma upsert_shown:
  assumes "comment_keys_ok rows" and "r \<in> set rows" and "wc_comment_id r = wc_comment_id c" and "wc_status r = wc_status c"
    and "shows_item state x r"
  obtains rows' where "upserted_comments (refreshed_comment state now c x) rows = Inr rows'"
    "map comment_content rows' = map comment_content rows"
proof -
  let ?new = "refreshed_comment state now c x"
  let ?rows = "map (\<lambda>q. if wc_comment_id q = wc_comment_id c then merged_comment r ?new else q) rows"
  have found: "List.find (\<lambda>q. wc_comment_id q = wc_comment_id c) rows = Some r"
    using find_the_row [of wc_comment_id rows r] assms(1,2,3) by (simp add: comment_keys_ok_def)
  have same: "source_of (merged_comment r ?new) = source_of r"
    using assms(5) by (simp add: source_of_def shows_item_def)
  have clash: "\<not> list_ex (\<lambda>q. wc_comment_id q \<noteq> wc_comment_id c \<and> same_source (merged_comment r ?new) q) rows"
    using assms(1,2,3) distinct_map_same [of source_of rows r] unfolding list_ex_iff same_source_iff same
    by (metis comment_keys_ok_def)
  have "upserted_comments ?new rows = Inr ?rows" using found clash by (simp add: upserted_comments_def Let_def)
  moreover have "map comment_content ?rows = map comment_content rows"
  proof -
    have "comment_content (if wc_comment_id q = wc_comment_id c then merged_comment r ?new else q) = comment_content q" if "q \<in> set rows" for q
      using merged_content [OF assms(5,4)] distinct_map_same [of wc_comment_id rows q r] that assms(1,2,3)
      by (auto simp: comment_keys_ok_def)
    then show ?thesis by simp
  qed
  ultimately show thesis by (rule that)
qed

lemma content_keys:
  assumes "map comment_content rows' = map comment_content rows"
  shows "comment_keys_ok rows' \<longleftrightarrow> comment_keys_ok rows"
proof -
  have id: "map wc_comment_id zs = map (fst \<circ> fst) (map comment_content zs)" for zs
    by (simp add: comment_content_def comment_identity_def)
  have src: "map source_of zs = map (\<lambda>((i, d, v, c, r), k, _). (d, v, c, k)) (map comment_content zs)" for zs
    by (simp add: comment_content_def comment_identity_def source_of_def)
  show ?thesis unfolding comment_keys_ok_def id src assms by simp
qed

lemma content_member:
  assumes "map comment_content rows' = map comment_content rows" and "r \<in> set rows"
  obtains r' where "r' \<in> set rows'" "comment_content r' = comment_content r"
  using assms by (metis (no_types, lifting) imageE image_eqI list.set_map)

lemma all_shown_next:
  assumes "all_shown state rows remaining (x # xs)" and "map comment_content rows' = map comment_content rows"
    and "distinct (map xc_source_key (x # xs))"
  shows "all_shown state rows' (AList.delete (xc_source_key x) remaining) xs"
  unfolding all_shown_def
proof
  fix y assume y: "y \<in> set xs"
  with assms(1) obtain c r where c: "map_of remaining (xc_source_key y) = Some c" "r \<in> set rows" "wc_comment_id r = wc_comment_id c"
      "wc_status r = wc_status c" "wc_source_key c = xc_source_key y" "shows_item state y r"
    unfolding all_shown_def by auto
  from content_member [OF assms(2) c(2)] obtain r' where r': "r' \<in> set rows'" "comment_content r' = comment_content r" .
  then have "wc_comment_id r' = wc_comment_id r" "wc_status r' = wc_status r"
    by (simp_all add: comment_content_def comment_identity_def)
  moreover have "xc_source_key y \<noteq> xc_source_key x" using y assms(3) by (force simp: image_iff)
  then have "map_of (AList.delete (xc_source_key x) remaining) (xc_source_key y) = Some c" using c(1) by (simp add: delete_conv')
  ultimately show "\<exists>c r. map_of (AList.delete (xc_source_key x) remaining) (xc_source_key y) = Some c \<and> r \<in> set rows' \<and>
      wc_comment_id r = wc_comment_id c \<and> wc_status r = wc_status c \<and> wc_source_key c = xc_source_key y \<and> shows_item state y r"
    using c(3-6) r' content_item [OF r'(2)] by metis
qed

lemma sync_items_again:
  assumes "all_shown state (sd_comments (sv_db w)) remaining xs" and "comment_keys_ok (sd_comments (sv_db w))"
    and "distinct (map xc_source_key xs)" and "xs = [] \<or> storable_version state"
  shows "\<exists>w'. sync_items env state now remaining n xs w = (Inr (), w') \<and>
    map comment_content (sd_comments (sv_db w')) = map comment_content (sd_comments (sv_db w))"
  using assms
proof (induction xs arbitrary: w remaining)
  case (Cons x xs)
  let ?rows = "sd_comments (sv_db w)"
  obtain c r where c: "map_of remaining (xc_source_key x) = Some c" "r \<in> set ?rows" "wc_comment_id r = wc_comment_id c"
      "wc_status r = wc_status c" "wc_source_key c = xc_source_key x" "shows_item state x r"
    using Cons.prems(1) unfolding all_shown_def by auto
  obtain rows' where up: "upserted_comments (refreshed_comment state now c x) ?rows = Inr rows'"
      and same: "map comment_content rows' = map comment_content ?rows"
    by (rule upsert_shown [OF Cons.prems(2) c(2,3,4,6)])
  define w1 where "w1 = w\<lparr>sv_db := (sv_db w)\<lparr>sd_comments := rows'\<rparr>\<rparr>"
  have stored: "upsert_workflow_comment (refreshed_comment state now c x) w = (Inr (), w1)"
    using Cons.prems(4) up
    by (simp add: upsert_workflow_comment_def storable_ints_def side_check_def side_read_def side_write_def storable_version_def w1_def)
  have rows1: "sd_comments (sv_db w1) = rows'" by (simp add: w1_def)
  have "all_shown state (sd_comments (sv_db w1)) (AList.delete (wc_source_key c) remaining) xs"
    unfolding c(5) rows1 by (rule all_shown_next [OF Cons.prems(1) same Cons.prems(3)])
  moreover have "comment_keys_ok (sd_comments (sv_db w1))" using Cons.prems(2) content_keys [OF same] by (simp add: rows1)
  ultimately obtain w' where "sync_items env state now (AList.delete (wc_source_key c) remaining) n xs w1 = (Inr (), w')"
      "map comment_content (sd_comments (sv_db w')) = map comment_content (sd_comments (sv_db w1))"
    using Cons.IH [of w1 "AList.delete (wc_source_key c) remaining"] Cons.prems(3,4) by auto
  with stored c(1) same show ?case by (auto simp: match_existing_comment_def rows1)
qed simp

lemma shown_at_start:
  assumes "comment_keys_ok (sd_comments db)" and "\<forall>x \<in> set xs. \<exists>r \<in> set (sd_comments db). shows_item state x r"
  shows "all_shown state (sd_comments db) (first_remaining state db) xs"
  unfolding all_shown_def
proof
  fix x assume "x \<in> set xs"
  with assms(2) obtain r where r: "r \<in> set (sd_comments db)" "shows_item state x r" by blast
  let ?rows = "comments_of db (v_document_id state) (v_version state) DOCX_EDIT"
  have "row_to_comment r \<in> set ?rows" using r by (auto simp: set_comments_of shows_item_def)
  then have "(xc_source_key x, row_to_comment r) \<in> set (first_remaining state db)"
    unfolding first_remaining_def by_source_key_eq [OF comments_of_keys(1) [OF assms(1)]] using r(2) by (force simp: shows_item_def)
  moreover have "distinct (map fst (first_remaining state db))"
    unfolding first_remaining_def by_source_key_eq [OF comments_of_keys(1) [OF assms(1)]]
    using comments_of_keys(1) [OF assms(1)] by (simp add: comp_def)
  ultimately have "map_of (first_remaining state db) (xc_source_key x) = Some (row_to_comment r)" by simp
  with r show "\<exists>c r. map_of (first_remaining state db) (xc_source_key x) = Some c \<and> r \<in> set (sd_comments db) \<and>
      wc_comment_id r = wc_comment_id c \<and> wc_status r = wc_status c \<and> wc_source_key c = xc_source_key x \<and> shows_item state x r"
    by (intro exI [of _ "row_to_comment r"] exI [of _ r]) (simp add: shows_item_def)
qed

text \<open>A synchronisation leaves documents and files alone.\<close>

definition same_documents :: "docs_db \<Rightarrow> string set \<Rightarrow> side_world \<Rightarrow> bool" where
  "same_documents db files w \<longleftrightarrow> w_db (sv_docs w) = db \<and> w_files (sv_docs w) = files"

lemma same_documents_upsert: "keeps (same_documents db files) (upsert_workflow_comment r)"
  unfolding keeps_iff_wp by (auto simp: wp_simps same_documents_def split: sum.split)

lemma same_documents_uuid: "keeps (same_documents db files) (in_docs (uuid4 env))"
  unfolding keeps_iff_wp by (simp add: wp_simps same_documents_def)

lemma same_documents_items: "keeps (same_documents db files) (sync_items env state now remaining n xs)"
proof (induction xs arbitrary: remaining n)
  case (Cons x xs)
  show ?case unfolding sync_items.simps
    by (intro keeps_case_option keeps_bindM same_documents_upsert same_documents_uuid Cons.IH)
qed (simp add: keeps_retM)

lemma same_documents_sync: "keeps (same_documents db files) (sync_docx_comments env state uid role)"
proof -
  have pub: "keeps (same_documents db files) (side_publish env name payload)" for name payload
    unfolding keeps_iff_wp by (simp add: side_publish_def wp_simps same_documents_def)
  have docs: "keeps (same_documents db files) (in_docs (utcnow (sv_env env)))" "keeps (same_documents db files) (in_docs (readM w_files))"
      "keeps (same_documents db files) (in_docs (resolve_source_docx_path (sv_env env) state))"
    unfolding keeps_iff_wp resolve_source_docx_path_def resolve_source_path_def by (simp_all add: wp_simps same_documents_def)
  show ?thesis unfolding sync_docx_comments_def read_docx_comments_def side_read_def side_check_def
    by (intro keeps_intros docs pub same_documents_items)
qed

lemma docx_items_again:
  assumes "sync_docx_comments env state uid role w = (r, w')"
  shows "docx_items env state w' = docx_items env state w"
proof -
  have "same_documents (w_db (sv_docs w)) (w_files (sv_docs w)) w'"
    by (rule keeps_run [OF same_documents_sync _ assms]) (simp add: same_documents_def)
  then show ?thesis
    by (simp add: docx_items_def same_documents_def resolve_source_docx_path_def resolve_source_path_def
        split: option.split)
qed

lemma items_storable: "sync_items env state now remaining n xs w = (Inr (), w') \<Longrightarrow> xs = [] \<or> storable_version state"
  by (cases xs)
    (auto simp: storable_version_def upsert_workflow_comment_def storable_ints_def side_check_def split: option.splits)

lemma sync_contract:
  assumes "comment_keys_ok (sd_comments (sv_db w))" and "fresh_ids env w" and "docx_items env state w = Some xs"
    and "sync_docx_comments env state uid role w = (Inr records, w')"
  shows "keeps_standing (sd_comments (sv_db w)) (sd_comments (sv_db w')) \<and>
    (\<forall>x \<in> set xs. \<exists>r \<in> set (sd_comments (sv_db w')). shows_item state x r)"
proof -
  from sync_Inr [OF assms(3,4)] obtain w1 where
      "sync_items env state (clock (sv_env env) (w_ticks (sv_docs w))) (first_remaining state (sv_db w))
        (first_ref state (sv_db w)) xs (w\<lparr>sv_docs := (sv_docs w)\<lparr>w_ticks := Suc (w_ticks (sv_docs w))\<rparr>\<rparr>) = (Inr (), w1)"
      and "sv_db w' = sv_db w1" by blast
  from sync_items_Inr [OF this(1)] this(2) assms(1,2) matches_at_start [OF assms(1)] fresh_ids_docs [OF assms(2)]
  show ?thesis by (simp add: first_remaining_def comment_keys_ok_def loop_done_def)
qed

lemma sync_again:
  assumes "comment_keys_ok (sd_comments (sv_db w))" and "comment_keys_ok (sd_comments (sv_db w'))" and "fresh_ids env w"
    and "docx_items env state w = Some xs" and "sync_docx_comments env state uid role w = (Inr records, w')"
    and "distinct (map xc_source_key xs)"
  shows "\<exists>records' w''. sync_docx_comments env state uid role w' = (Inr records', w'') \<and>
    map comment_content (sd_comments (sv_db w'')) = map comment_content (sd_comments (sv_db w'))"
proof -
  have access: "ensure_workflow_comment_read_access state DOCX_EDIT uid role = Inr ()"
    using assms(5) by (auto simp: sync_docx_comments_def)
  have items: "docx_items env state w' = Some xs" using docx_items_again [OF assms(5)] assms(4) by simp
  have shown: "all_shown state (sd_comments (sv_db w')) (first_remaining state (sv_db w')) xs"
    by (rule shown_at_start [OF assms(2)]) (use sync_contract [OF assms(1,3,4,5)] in blast)
  have storable: "xs = [] \<or> storable_version state" by (rule sync_Inr [OF assms(4,5)]) (rule items_storable)
  let ?w = "w'\<lparr>sv_docs := (sv_docs w')\<lparr>w_ticks := Suc (w_ticks (sv_docs w'))\<rparr>\<rparr>"
  obtain w1 where "sync_items env state (clock (sv_env env) (w_ticks (sv_docs w'))) (first_remaining state (sv_db w'))
        (first_ref state (sv_db w')) xs ?w = (Inr (), w1)"
      "map comment_content (sd_comments (sv_db w1)) = map comment_content (sd_comments (sv_db w'))"
    using sync_items_again [of state ?w "first_remaining state (sv_db w')" xs] shown assms(2,6) storable by fastforce
  then show ?thesis unfolding sync_unfold [OF items access]
    by (simp add: bindM_def side_read_def side_publish_def in_docs_def utcnow_def uuid4_def)
qed

section \<open>Readings\<close>

lemma complete_pages:
  assumes "pdf_read_progress db sid = Some p" and "pr_is_complete p"
  obtains s where "get_pdf_read_session db sid = Some s" "0 < tk_total_pages s"
    "\<forall>page \<in> {1..tk_total_pages s}. \<exists>r \<in> set (sd_pages db). pg_session_id r = sid \<and> pg_page_number r = page \<and> pg_reached r"
proof -
  obtain s where s: "get_pdf_read_session db sid = Some s" using assms(1) by (auto simp: pdf_read_progress_def split: option.splits)
  let ?done = "map pg_page_number (filter pg_reached (filter (\<lambda>r. pg_session_id r = sid) (sd_pages db)))"
  have "filter (\<lambda>q. q \<notin> set ?done) [1..tk_total_pages s] = []" "0 < tk_total_pages s"
    using assms s by (auto simp: pdf_read_progress_def Let_def)
  then have "\<forall>q \<in> {1..tk_total_pages s}. q \<in> set ?done" by (simp add: filter_empty_conv)
  with s \<open>0 < tk_total_pages s\<close> that show thesis by fastforce
qed

lemma finalize_Inr:
  assumes "finalize_tracked_pdf_read env sid source w = (Inr (Some r), w')"
  obtains s p ev where "get_pdf_read_session (sv_db w) sid = Some s" "pdf_read_progress (sv_db w) sid = Some p" "pr_is_complete p"
    "receipt_key r = (tk_user_id s, tk_document_id s, tk_version s)"
    "sd_receipts (sv_db w') = replaced_receipts r (sd_receipts (sv_db w))"
    "w_events (sv_docs w') = w_events (sv_docs w) @ [ev]" "ev_name ev = ''domain.documents.read.session.completed.v1''"
proof -
  have "wp (finalize_tracked_pdf_read env sid source)
      (\<lambda>x w'. \<forall>r. x = Some r \<longrightarrow> (\<exists>s p ev. get_pdf_read_session (sv_db w) sid = Some s \<and> pdf_read_progress (sv_db w) sid = Some p \<and>
        pr_is_complete p \<and> receipt_key r = (tk_user_id s, tk_document_id s, tk_version s) \<and>
        sd_receipts (sv_db w') = replaced_receipts r (sd_receipts (sv_db w)) \<and>
        w_events (sv_docs w') = w_events (sv_docs w) @ [ev] \<and> ev_name ev = ''domain.documents.read.session.completed.v1''))
      (\<lambda>_ _. True) w"
    unfolding finalize_tracked_pdf_read_def complete_pdf_read_session_def create_read_receipt_def side_publish_def Let_def
    by (auto simp: wp_simps receipt_key_def split: option.split)
  from wp_Inr [OF this assms] that show thesis by blast
qed

lemma replaced_receipt_found:
  "get_read_receipt (db\<lparr>sd_receipts := replaced_receipts r rows\<rparr>) (rt_user_id r) (rt_document_id r) (rt_version r) = Some r"
proof -
  let ?P = "\<lambda>x. rt_user_id x = rt_user_id r \<and> rt_document_id x = rt_document_id r \<and> rt_version x = rt_version r"
  have "List.find ?P (filter (\<lambda>x. \<not> (rt_receipt_id x = rt_receipt_id r \<or> ?P x)) rows) = None" by (auto simp: find_None_iff)
  then show ?thesis by (simp add: get_read_receipt_def replaced_receipts_def find_append)
qed

lemma receipt_found:
  assumes "sd_receipts db = replaced_receipts r rows"
  shows "get_read_receipt db (rt_user_id r) (rt_document_id r) (rt_version r) = Some r"
  using replaced_receipt_found [where db = db and r = r and rows = rows] assms by (simp add: get_read_receipt_def)

lemma read_pages_reported:
  assumes "side_history env calls w" and "q \<in> set (sd_pages (sv_db w))" and "pg_reached q"
  shows "10 \<le> reported_seconds (pg_session_id q) (pg_page_number q) calls"
  using readings.history [OF assms(1)] read_time_was_reported [OF assms(1)] assms(2,3)
  by (force simp: readings_ok_def pages_within_def)

lemma tracked_receipt:
  assumes "side_history env calls w" and "finalize_tracked_pdf_read env sid source w = (Inr (Some r), w')"
  shows "\<exists>s. get_pdf_read_session (sv_db w) sid = Some s \<and> 0 < tk_total_pages s \<and>
    (\<forall>page \<in> {1..tk_total_pages s}. 10 \<le> reported_seconds sid page calls) \<and>
    receipt_key r = (tk_user_id s, tk_document_id s, tk_version s) \<and>
    get_read_receipt (sv_db w') (tk_user_id s) (tk_document_id s) (tk_version s) = Some r"
proof -
  from finalize_Inr [OF assms(2)] obtain s p where s: "get_pdf_read_session (sv_db w) sid = Some s"
      "pdf_read_progress (sv_db w) sid = Some p" "pr_is_complete p" "receipt_key r = (tk_user_id s, tk_document_id s, tk_version s)"
      "sd_receipts (sv_db w') = replaced_receipts r (sd_receipts (sv_db w))" by blast
  from complete_pages [OF s(2,3)] s(1) have "0 < tk_total_pages s"
      "\<forall>page \<in> {1..tk_total_pages s}. \<exists>q \<in> set (sd_pages (sv_db w)). pg_session_id q = sid \<and> pg_page_number q = page \<and> pg_reached q"
    by (metis option.inject)+
  with read_pages_reported [OF assms(1)] s receipt_found [OF s(5)] show ?thesis
    by (auto simp: receipt_key_def)
qed

section \<open>A confirmed reading and the training\<close>

definition text_field :: "event_envelope \<Rightarrow> string \<Rightarrow> string option" where
  "text_field ev key = (case map_of (ev_payload ev) key of Some (PyStr s) \<Rightarrow> Some s | _ \<Rightarrow> None)"

definition int_field :: "event_envelope \<Rightarrow> string \<Rightarrow> int option" where
  "int_field ev key = (case map_of (ev_payload ev) key of Some (PyInt i) \<Rightarrow> Some i | _ \<Rightarrow> None)"

text \<open>The subscription of the training: the event's fields, and the receipt that documents have for them.\<close>

definition deliver_event :: "tr_env \<Rightarrow> side_db \<Rightarrow> event_envelope \<Rightarrow> unit tr_meth" where
  "deliver_event env db ev =
     (if ev_name ev \<noteq> ''domain.documents.read.confirmed.v1'' then retM ()
      else let user = text_field ev ''user_id''; document = text_field ev ''document_id''; version = int_field ev ''version'';
          receipt = (case (user, document, version) of
              (Some u, Some d, Some v) \<Rightarrow> map_option (\<lambda>r. \<lparr>rr_user_id = rt_user_id r, rr_document_id = rt_document_id r,
                rr_version = rt_version r\<rparr>) (get_read_receipt db u d v)
            | _ \<Rightarrow> None)
        in on_read_confirmed env receipt user document version)"

lemma confirm_Inr:
  assumes "confirm_released_document_read env user doc ver source w = (Inr r, w')"
  obtains st ev where "get_row (db_versions (w_db (sv_docs w))) doc ver = Some st" "v_status st = APPROVED"
    "has_current_artifact (w_db (sv_docs w)) (v_document_id st) (v_version st) RELEASED_PDF"
    "receipt_key r = (user, doc, ver)" "sd_receipts (sv_db w') = replaced_receipts r (sd_receipts (sv_db w))"
    "w_events (sv_docs w') = w_events (sv_docs w) @ [ev]" "ev_name ev = ''domain.documents.read.confirmed.v1''"
    "text_field ev ''user_id'' = Some user" "text_field ev ''document_id'' = Some doc" "int_field ev ''version'' = Some ver"
proof -
  have "wp (confirm_released_document_read env user doc ver source)
      (\<lambda>r w'. \<exists>st ev. get_row (db_versions (w_db (sv_docs w))) doc ver = Some st \<and> v_status st = APPROVED \<and>
        has_current_artifact (w_db (sv_docs w)) (v_document_id st) (v_version st) RELEASED_PDF \<and>
        receipt_key r = (user, doc, ver) \<and> sd_receipts (sv_db w') = replaced_receipts r (sd_receipts (sv_db w)) \<and>
        w_events (sv_docs w') = w_events (sv_docs w) @ [ev] \<and> ev_name ev = ''domain.documents.read.confirmed.v1'' \<and>
        text_field ev ''user_id'' = Some user \<and> text_field ev ''document_id'' = Some doc \<and> int_field ev ''version'' = Some ver)
      (\<lambda>_ _. True) w"
    unfolding confirm_released_document_read_def released_version_def require_current_released_pdf_artifact_def
      get_document_version_def create_read_receipt_def publish_event_def Let_def
    by (auto simp: wp_simps receipt_key_def text_field_def int_field_def raise_if_def split: option.split sum.split)
  from wp_Inr [OF this assms] that show thesis by blast
qed

lemma delivered_reading:
  assumes "ev_name ev = ''domain.documents.read.confirmed.v1''" and "text_field ev ''user_id'' = Some user"
    and "text_field ev ''document_id'' = Some doc" and "int_field ev ''version'' = Some ver" and "user \<noteq> []" and "doc \<noteq> []"
    and "get_read_receipt db user doc ver = Some r" and "receipt_key r = (user, doc, ver)"
  shows "\<exists>p tw'. deliver_event tenv db ev tw = (Inr (), tw') \<and> get_progress (tw_db tw') (user, doc, ver) = Some p \<and>
    tp_read_confirmed_at p \<noteq> None"
proof (cases "Option.bind (get_progress (tw_db tw) (user, doc, ver)) tp_read_confirmed_at")
  case None
  then show ?thesis using assms
    by (simp add: deliver_event_def on_read_confirmed_def receipt_key_def upsert_progress_def get_progress_def find_key_upsert)
      (simp add: progress_key_def)
next
  case (Some t)
  then show ?thesis using assms
    by (simp add: deliver_event_def on_read_confirmed_def receipt_key_def bind_eq_Some_conv) blast
qed

end
