(* ===== verification/DocReadingProperties.thy ===== *)
theory DocReadingProperties
  imports DocReadingBehaviour TrainScenario Scenario
begin

text \<open>
  The properties of readings and comments, each with a witness on the released document of \<open>Scenario\<close> or on
  a DOCX with two comments.
\<close>

section \<open>A concrete run\<close>

definition node1 :: docx_node where
  "node1 = \<lparr>dn_id = ''1'', dn_author = ''e'', dn_date = None, dn_parts = [''a  b'']\<rparr>"

definition node2 :: docx_node where
  "node2 = \<lparr>dn_id = ''2'', dn_author = [], dn_date = Some 7, dn_parts = [''c'', ''d'']\<rparr>"

definition side1 :: side_env where
  "side1 = \<lparr>sv_env = env0, sv_docx = (\<lambda>p. Inr [node1, node2])\<rparr>"

text \<open>The document was created and its DOCX imported; nothing was read or commented yet.\<close>

definition draft_calls :: "side_call list" where
  "draft_calls = [DocsCall (Create ''D'' 1 sample_create (Some sample_actor) False), DocsCall (ImportDocx ''D'' 1 ''/d.docx'' ''o'' QMB)]"

definition out_docx :: "(doc_error + unit) \<times> docs_world" where
  "out_docx = run_request env0 (ImportDocx ''D'' 1 ''/d.docx'' ''o'' QMB) (w1\<lparr>w_files := {''/d.docx''}\<rparr>)"

definition sv1 :: side_world where
  "sv1 = (empty_side_world {})\<lparr>sv_docs := after out_docx\<rparr>"

lemma sv1_history: "side_history side1 draft_calls sv1"
proof -
  define sv0 where "sv0 = (empty_side_world {})\<lparr>sv_docs := w1\<lparr>w_files := {''/d.docx''}\<rparr>\<rparr>"
  have "after (run_side side1 (hd draft_calls) (empty_side_world {''/d.pdf''})) = (empty_side_world {})\<lparr>sv_docs := w1\<rparr>"
    by (simp add: draft_calls_def side1_def in_docs_def empty_side_world_def w1_def out1_def w0_def split: prod.split)
  with side_history.new_files [OF side_history.step [OF side_history.start [of side1 "{''/d.pdf''}"], of "hd draft_calls"], of "{''/d.docx''}"]
  have "side_history side1 [hd draft_calls] sv0" by (simp add: sv0_def)
  moreover have "after (run_side side1 (hd (tl draft_calls)) sv0) = sv1"
    by (simp add: draft_calls_def side1_def in_docs_def sv0_def sv1_def out_docx_def split: prod.split)
  ultimately show ?thesis using side_history.step [of side1 "[hd draft_calls]" sv0 "hd (tl draft_calls)"] by (simp add: draft_calls_def)
qed

declare evals [simp] env0_def [simp] bindM_basic [simp del] bindM_liftE_simps [simp del]
declare lazy_congs [cong]

lemmas out_docx_eq = out_docx_def [unfolded w1_eq, simplified]

declare lazy_congs [cong del]
declare evals [simp del] env0_def [simp del] bindM_basic [simp] bindM_liftE_simps [simp] of_char_Char [simp]

lemmas sv1_eq = sv1_def [unfolded out_docx_eq snd_conv]

definition draft_state :: version_state where
  "draft_state = hd (db_versions (w_db (sv_docs sv1)))"

lemma draft_state_simps [simp]: "v_document_id draft_state = ''D''" "v_version draft_state = 1"
  by (simp_all add: draft_state_def sv1_eq)

lemma sv1_simps [simp]: "sd_comments (sv_db sv1) = []" "w_uuids (sv_docs sv1) = 4" "w_ticks (sv_docs sv1) = 9"
  by (simp_all add: sv1_eq empty_side_world_def)

definition item1 :: docx_comment where
  "item1 = \<lparr>xc_source_key = ''DOCX_EDIT|1'', xc_author = Some ''e'', xc_created_at = None, xc_full_text = ''a b'', xc_preview = ''a b''\<rparr>"

definition item2 :: docx_comment where
  "item2 = \<lparr>xc_source_key = ''DOCX_EDIT|2'', xc_author = None, xc_created_at = Some 7, xc_full_text = ''c d'', xc_preview = ''c d''\<rparr>"

lemma items_read: "docx_comment_of (context_value DOCX_EDIT) node1 = Some item1" "docx_comment_of (context_value DOCX_EDIT) node2 = Some item2"
  by (simp_all add: docx_comment_of_def node1_def node2_def item1_def item2_def py_strip_def py_space_def extract_comment_text_def
      context_value_def build_source_comment_key_def none_if_empty_def Let_def)

lemma sv1_items: "docx_items side1 draft_state sv1 = Some [item1, item2]"
  by (simp add: docx_items_def sv1_eq side1_def items_read resolve_source_docx_path_def resolve_source_path_def list_artifacts_rows_def
      resolve_artifact_path_def usable_file_def env0_def evals map_filter_simps)

lemma env0_fresh: "inj (fresh_uuid env0)"
  by (rule injI) (simp add: env0_def)

lemma sv1_fresh: "fresh_ids side1 sv1"
  by (simp add: fresh_ids_def side1_def env0_fresh)

lemma sync1: "\<exists>records w'. sync_docx_comments side1 draft_state ''o'' QMB sv1 = (Inr records, w')"
proof -
  have access: "ensure_workflow_comment_read_access draft_state DOCX_EDIT ''o'' QMB = Inr ()"
    by (simp add: ensure_workflow_comment_read_access_def)
  have empty: "first_remaining draft_state (sv_db sv1) = []"
    by (simp add: first_remaining_def by_source_key_def comments_of_def)
  show ?thesis unfolding sync_unfold [OF sv1_items access] empty
    by (simp add: bindM_def in_docs_def uuid4_def side1_def env0_def match_existing_comment_def source_comment_identity_def
        upsert_workflow_comment_def storable_ints_def side_check_def side_read_def side_write_def upserted_comments_def
        same_source_def item1_def item2_def side_publish_def utcnow_def split: option.split list.split)
qed

section \<open>Comments\<close>

text \<open>C11. The comments that any sequence of calls leaves have different identifiers, one comment per key of a source in a
  context, and reference numbers that no two comments of a version share, whichever way they came: typed into
  the application or taken over from a DOCX, with failed, repeated and rolled back calls in between.\<close>

theorem comment_numbers_are_unique:
  assumes "side_history env calls w"
  shows "distinct (map wc_comment_id (sd_comments (sv_db w))) \<and>
    distinct (map (\<lambda>r. (wc_document_id r, wc_version r, wc_context r, wc_source_key r)) (sd_comments (sv_db w))) \<and>
    distinct (map (\<lambda>r. (wc_document_id r, wc_version r, wc_ref_no r)) (sd_comments (sv_db w)))"
  using comment_keys.history [OF assms] comment_numbers.history [OF assms]
  by (simp add: comment_keys_ok_def numbers_ok_def source_of_def [abs_def] number_of_def [abs_def])

definition two_comments :: side_world where
  "two_comments = after (run_side side1 (CreateComment draft_state DOCX_EDIT ''o'' QMB 1 ''x'' None)
     (after (run_side side1 (SyncComments draft_state ''o'' QMB) sv1)))"

lemma two_comments_history: "side_history side1 (draft_calls @ [SyncComments draft_state ''o'' QMB] @
    [CreateComment draft_state DOCX_EDIT ''o'' QMB 1 ''x'' None]) two_comments"
  using side_history.step [OF side_history.step [OF sv1_history, of "SyncComments draft_state ''o'' QMB"],
      of "CreateComment draft_state DOCX_EDIT ''o'' QMB 1 ''x'' None"]
  by (simp add: two_comments_def)

theorem comment_numbers_are_unique_witness:
  "distinct (map (\<lambda>r. (wc_document_id r, wc_version r, wc_ref_no r)) (sd_comments (sv_db two_comments)))"
  using comment_numbers_are_unique [OF two_comments_history] by blast

text \<open>C12. A synchronisation that succeeds loses no comment: every comment of before is still there with its identifier,
  place, reference number and status, and every item of the DOCX is shown by a comment of the version.\<close>

theorem synchronisation_contract:
  assumes "side_history env calls w" and "fresh_ids env w" and "docx_items env state w = Some items"
    and "sync_docx_comments env state uid role w = (Inr records, w')"
  shows "(\<forall>r \<in> set (sd_comments (sv_db w)). \<exists>r' \<in> set (sd_comments (sv_db w')).
      wc_comment_id r' = wc_comment_id r \<and> wc_document_id r' = wc_document_id r \<and> wc_version r' = wc_version r \<and>
      wc_context r' = wc_context r \<and> wc_ref_no r' = wc_ref_no r \<and> wc_status r' = wc_status r) \<and>
    (\<forall>x \<in> set items. \<exists>r \<in> set (sd_comments (sv_db w')). shows_item state x r)"
  using sync_contract [OF comment_keys.history [OF assms(1)] assms(2,3,4)]
  by (simp add: keeps_standing_def comment_identity_def)

theorem synchronisation_contract_witness:
  "\<exists>records w'. sync_docx_comments side1 draft_state ''o'' QMB sv1 = (Inr records, w') \<and>
    (\<exists>r \<in> set (sd_comments (sv_db w')). wc_full_text r = ''c d'')"
proof -
  obtain records w' where run: "sync_docx_comments side1 draft_state ''o'' QMB sv1 = (Inr records, w')" using sync1 by blast
  from synchronisation_contract [OF sv1_history sv1_fresh sv1_items run] have "\<exists>r \<in> set (sd_comments (sv_db w')). shows_item draft_state item2 r"
    by simp
  with run show ?thesis by (auto simp: shows_item_def item2_def)
qed

text \<open>C13. Synchronising again changes nothing: after a successful synchronisation with a DOCX whose comments have different
  identifiers, a second one succeeds, creates no comment and leaves identity, place, text, author and status of
  every comment as they are.\<close>

theorem synchronising_again_changes_nothing:
  assumes "side_history env calls w" and "fresh_ids env w" and "docx_items env state w = Some items"
    and "sync_docx_comments env state uid role w = (Inr records, w')" and "distinct (map xc_source_key items)"
  shows "\<exists>records' w''. sync_docx_comments env state uid role w' = (Inr records', w'') \<and>
    map comment_content (sd_comments (sv_db w'')) = map comment_content (sd_comments (sv_db w'))"
proof -
  have "w' = after (run_side env (SyncComments state uid role) w)" using assms(4) by simp
  then have "side_history env (calls @ [SyncComments state uid role]) w'" using side_history.step [OF assms(1), of "SyncComments state uid role"] by simp
  from sync_again [OF comment_keys.history [OF assms(1)] comment_keys.history [OF this] assms(2-5)] show ?thesis .
qed

theorem synchronising_again_changes_nothing_witness:
  "\<exists>records w' records' w''. sync_docx_comments side1 draft_state ''o'' QMB sv1 = (Inr records, w') \<and>
    sync_docx_comments side1 draft_state ''o'' QMB w' = (Inr records', w'') \<and>
    map comment_content (sd_comments (sv_db w'')) = map comment_content (sd_comments (sv_db w'))"
proof -
  obtain records w' where run: "sync_docx_comments side1 draft_state ''o'' QMB sv1 = (Inr records, w')" using sync1 by blast
  have "distinct (map xc_source_key [item1, item2])" by (simp add: item1_def item2_def)
  from synchronising_again_changes_nothing [OF sv1_history sv1_fresh sv1_items run this] run show ?thesis by blast
qed

section \<open>Readings\<close>

text \<open>C14. A receipt of a tracked reading needs the time: finalising returns a receipt only for a reading with at least one
  page, and only if the calls so far reported at least ten seconds for every page of it. The receipt is that of
  the reading's user, document and version, and it is the one found afterwards.\<close>

theorem tracked_receipts_need_the_time:
  assumes "side_history env calls w" and "finalize_tracked_pdf_read env sid source w = (Inr (Some r), w')"
  shows "\<exists>s. get_pdf_read_session (sv_db w) sid = Some s \<and> 0 < tk_total_pages s \<and>
    (\<forall>page \<in> {1..tk_total_pages s}. 10 \<le> reported_seconds sid page calls) \<and>
    receipt_key r = (tk_user_id s, tk_document_id s, tk_version s) \<and>
    get_read_receipt (sv_db w') (tk_user_id s) (tk_document_id s) (tk_version s) = Some r"
  by (rule tracked_receipt [OF assms])

definition read_calls :: "side_call list" where
  "read_calls = [StartTrackedRead ''u'' ''D'' 1 None 1 ''app'' 10, PageDwell ''aaa'' 1 4, PageDwell ''aaa'' 1 7]"

definition read_world :: side_world where
  "read_world = after (run_side side1 (read_calls ! 2) (after (run_side side1 (read_calls ! 1)
     (after (run_side side1 (read_calls ! 0) (empty_side_world {}))))))"

lemma read_history: "side_history side1 read_calls read_world"
  using side_history.step [OF side_history.step [OF side_history.step [OF side_history.start [of side1 "{}"], of "read_calls ! 0"],
      of "read_calls ! 1"], of "read_calls ! 2"]
  by (simp add: read_world_def read_calls_def)

lemma read_world_eq:
  "sd_reads (sv_db read_world) = [\<lparr>tk_session_id = ''aaa'', tk_user_id = ''u'', tk_document_id = ''D'', tk_version = 1,
     tk_artifact_id = None, tk_total_pages = 1, tk_min_seconds_per_page = 10, tk_source = ''app'', tk_opened_at = 0,
     tk_completed_at = None, tk_completion_result = None\<rparr>]"
  "sd_pages (sv_db read_world) = [\<lparr>pg_session_id = ''aaa'', pg_page_number = 1, pg_seconds = 11, pg_reached = True,
     pg_first_seen_at = 2, pg_last_seen_at = 3\<rparr>]"
  by (simp_all add: read_world_def read_calls_def empty_side_world_def empty_world_def done_side_def start_tracked_pdf_read_def
      record_page_dwell_def update_page_progress_def progress_or_none_def create_pdf_read_session_def replaced_reads_def
      side_publish_def storable_ints_def side_check_def side_read_def side_write_def in_docs_def utcnow_def uuid4_def bindM_def
      pdf_read_progress_def get_pdf_read_session_def progress_rows_def side1_def env0_def numeral_eq_Suc Let_def)

lemma read_finished: "\<exists>r w'. finalize_tracked_pdf_read side1 ''aaa'' ''app'' read_world = (Inr (Some r), w')"
  by (simp add: finalize_tracked_pdf_read_def pdf_read_progress_def get_pdf_read_session_def read_world_eq side_read_def
      in_docs_def utcnow_def uuid4_def bindM_def complete_pdf_read_session_def side_write_def create_read_receipt_def
      side_publish_def Let_def image_iff)

theorem tracked_receipts_need_the_time_witness:
  "\<exists>r w'. finalize_tracked_pdf_read side1 ''aaa'' ''app'' read_world = (Inr (Some r), w') \<and>
    get_read_receipt (sv_db w') ''u'' ''D'' 1 = Some r \<and> 10 \<le> reported_seconds ''aaa'' 1 read_calls"
proof -
  obtain r w' where run: "finalize_tracked_pdf_read side1 ''aaa'' ''app'' read_world = (Inr (Some r), w')" using read_finished by blast
  from tracked_receipts_need_the_time [OF read_history run] run show ?thesis
    by (auto simp: get_pdf_read_session_def read_world_eq)
qed

text \<open>C15. A confirmed reading reaches the training: confirming succeeds only for an approved version with a current released
  PDF; then the receipt is stored, and the one event that is published makes the training record the reading of
  that user and version, whatever it knew before.\<close>

theorem confirmed_readings_reach_the_training:
  assumes "confirm_released_document_read env user doc ver source w = (Inr r, w')" and "user \<noteq> []" and "doc \<noteq> []"
  shows "(\<exists>st. get_row (db_versions (w_db (sv_docs w))) doc ver = Some st \<and> v_status st = APPROVED \<and>
      has_current_artifact (w_db (sv_docs w)) (v_document_id st) (v_version st) RELEASED_PDF) \<and>
    get_read_receipt (sv_db w') user doc ver = Some r \<and>
    (\<exists>ev. w_events (sv_docs w') = w_events (sv_docs w) @ [ev] \<and>
      (\<forall>tw. \<exists>p tw'. deliver_event tenv (sv_db w') ev tw = (Inr (), tw') \<and>
        get_progress (tw_db tw') (user, doc, ver) = Some p \<and> tp_read_confirmed_at p \<noteq> None))"
proof -
  from confirm_Inr [OF assms(1)] obtain st ev where st: "get_row (db_versions (w_db (sv_docs w))) doc ver = Some st"
      "v_status st = APPROVED" "has_current_artifact (w_db (sv_docs w)) (v_document_id st) (v_version st) RELEASED_PDF"
      and r: "receipt_key r = (user, doc, ver)" "sd_receipts (sv_db w') = replaced_receipts r (sd_receipts (sv_db w))"
      and ev: "w_events (sv_docs w') = w_events (sv_docs w) @ [ev]" "ev_name ev = ''domain.documents.read.confirmed.v1''"
      "text_field ev ''user_id'' = Some user" "text_field ev ''document_id'' = Some doc" "int_field ev ''version'' = Some ver" .
  have found: "get_read_receipt (sv_db w') user doc ver = Some r"
    using receipt_found [OF r(2)] r(1) by (simp add: receipt_key_def)
  from st ev(1) found delivered_reading [OF ev(2-5) assms(2,3) found r(1)] show ?thesis by blast
qed

lemma released_read: "\<exists>r w'. confirm_released_document_read side1 ''u'' ''D'' 1 ''app'' ((empty_side_world {})\<lparr>sv_docs := w7\<rparr>) = (Inr r, w')"
  by (simp add: confirm_released_document_read_def released_version_def get_document_version_def get_row_def find_row_def version_key_def
      row_to_state_def w7_eq in_docs_def bindM_def side_check_def require_current_released_pdf_artifact_def has_current_artifact_def
      list_artifacts_rows_def utcnow_def uuid4_def create_read_receipt_def side_write_def publish_event_def Let_def)

theorem confirmed_readings_reach_the_training_witness:
  "\<exists>r w'. confirm_released_document_read side1 ''u'' ''D'' 1 ''app'' ((empty_side_world {})\<lparr>sv_docs := w7\<rparr>) = (Inr r, w') \<and>
    (\<exists>ev p tw'. deliver_event tr_env1 (sv_db w') ev empty_tr_world = (Inr (), tw') \<and>
      get_progress (tw_db tw') (''u'', ''D'', 1) = Some p \<and> tp_read_confirmed_at p \<noteq> None)"
proof -
  obtain r w' where run: "confirm_released_document_read side1 ''u'' ''D'' 1 ''app'' ((empty_side_world {})\<lparr>sv_docs := w7\<rparr>) = (Inr r, w')"
    using released_read by blast
  from confirmed_readings_reach_the_training [OF run, of tr_env1] run show ?thesis by blast
qed

text \<open>A receipt of a tracked reading tells the training nothing: the event that finalising publishes is not the one the
  training listens to, so its tables stay as they are.\<close>

theorem tracked_receipts_tell_the_training_nothing:
  assumes "finalize_tracked_pdf_read env sid source w = (Inr (Some r), w')"
  shows "\<exists>ev. w_events (sv_docs w') = w_events (sv_docs w) @ [ev] \<and> (\<forall>tw. deliver_event tenv (sv_db w') ev tw = (Inr (), tw))"
  by (rule finalize_Inr [OF assms]) (auto simp: deliver_event_def)

theorem tracked_receipts_tell_the_training_nothing_witness:
  "\<exists>r w' ev. finalize_tracked_pdf_read side1 ''aaa'' ''app'' read_world = (Inr (Some r), w') \<and>
    w_events (sv_docs w') = w_events (sv_docs read_world) @ [ev] \<and> deliver_event tr_env1 (sv_db w') ev empty_tr_world = (Inr (), empty_tr_world)"
  using read_finished tracked_receipts_tell_the_training_nothing [of side1 "''aaa''" "''app''" read_world _ _ tr_env1] by blast

end
