(* ===== verification/Spec2Isabelle.thy ===== *)
theory Spec2Isabelle
  imports DocBehaviour Scenario IncidentProperties UserProperties TrainProperties TrainRebuild SigProperties DocReadingProperties
begin

text \<open>
  QMToolV7 is a quality management tool for a laboratory: controlled documents with an approval workflow,
  a register of the valid versions, signatures on their PDFs, incidents with their corrective actions, user
  accounts and sessions, and trainings with quizzes on the released documents.
  This library is a model of the core of its Python modules with the theorems that make them correct.

  \<^bold>\<open>How the code is modelled.\<close> A method is a state transformer that returns a Python exception (left) or a
  result (right) together with the world after it; the effects made before an exception stay, unless a
  transaction rolls the database back (\<open>Prelude\<close>). A world holds the database as lists of rows, the recorded
  events and audit records, the files, and counters for the readings of the clock and for the identifiers
  drawn. The clock, \<open>uuid4\<close>, hash functions, bcrypt, the PDF and DOCX libraries and the signing library are
  arguments. Strings are lists of code points below 256; Python's \<open>strip\<close>, \<open>lower\<close>, \<open>upper\<close>, \<open>isalnum\<close> and
  \<open>repr\<close> are defined for them. Time is an integer of microseconds since 1970 (\<open>PyTime\<close> prints it). There is
  no fuel and no partial function: every loop of the modelled code is a recursion over a list, but for the search
  of a free output path, which counts to a bound (\<open>first_candidate\<close>, with its measure). So all definitions are
  total and a theorem about a result never hides a loop that does not end. Floats are IEEE 754 doubles over the
  rationals (\<open>PyFloat\<close>, with the lemmas that make its rounding the nearest value).

  \<^bold>\<open>Documents\<close> (\<open>modules/documents\<close>, \<open>modules/registry\<close>).
  \<^item> \<open>DocTypes\<close> (contracts.py, errors.py), \<open>DocValidation\<close> (validation.py), \<open>DocStorage\<close> (storage.py, naming.py).
  \<^item> \<open>ProfileStore\<close>, \<open>ProfileCatalog\<close>: workflow profiles, their validation and runtime form
    (workflow_profile_store.py, workflow_profile_runtime_adapter.py); the catalog is an abstract specification
    with the locale of its laws.
  \<^item> \<open>Registry\<close>: the projection of a version into the register (registry/service.py, registry_sync.py).
  \<^item> \<open>DocStore\<close>: the database with COALESCE updates and the one-approved index (sqlite_repository.py), events,
    audit, transactions; \<open>DocStoreLaws\<close>: what it promises.
  \<^item> \<open>SignatureGuard\<close> (signature_guard.py, artifact_ops.py), \<open>Actors\<close> (actor_context.py, role_policies.py),
    \<open>WorkflowPolicy\<close> (workflow_policy.py, capabilities.py, comment_permissions.py).
  \<^item> \<open>DocWorkflow\<close>: the transitions (workflow_use_cases.py); \<open>DocService\<close>, \<open>DocApi\<close>: service.py and api.py with the
    optimistic lock.
  \<^item> \<open>DocWorkflowLaws\<close>, \<open>DocApiLaws\<close>: the invariant of database and register over every request.
    \<open>RowInvariants\<close>, \<open>DocInvariants\<close>: invariants of single rows through one locale. \<open>DocContracts\<close>, \<open>DocRelease\<close>,
    \<open>DocBehaviour\<close>: what successful calls have done, and where the code deviates.
  \<^item> \<open>DocReading\<close> (receipts and tracked readings: pdf_read_tracking_service.py), \<open>DocComments\<close> (comment_service.py,
    comment_sync_service.py, docx_comment_reader.py), each with its tables (sqlite_repository.py) and its calls
    (service.py, api.py). \<open>DocReadingLaws\<close>: the locales \<open>side_frame\<close> and \<open>side_tables\<close> of what an invariant of
    these tables must tolerate, walked through every call; \<open>DocReadingTables\<close>: their interpretations, for keys,
    reference numbers and reading times; \<open>DocReadingBehaviour\<close>, \<open>DocReadingProperties\<close>: synchronisation,
    receipts, and the subscription of the training.
  \<^item> \<open>RunMethods\<close>, \<open>Evaluation\<close>, \<open>Scenario\<close>: running the code on concrete input, for the witnesses.

  \<^bold>\<open>Signatures\<close> (\<open>modules/signature\<close>).
  \<^item> \<open>SigTypes\<close> (contracts.py, errors.py, layout_math.py), \<open>SigStore\<close> (sqlite_repository.py, secure_store.py),
    \<open>SigExec\<close> (output_path_policy.py, signature_execute_ops.py, pdf_signer.py), \<open>SigOps\<close>, \<open>SigPolicy\<close>
    (template_use_cases.py, signature_policy_ops.py, the calls of api.py and the reachable worlds). Between two
    calls files, setting and accounts may change.
  \<^item> \<open>MethodWp\<close>, \<open>SigLaws\<close>: weakest preconditions, and the locales \<open>drawing_frame\<close> and \<open>sig_frame\<close> of what an
    invariant must tolerate; \<open>SigInvariants\<close>, \<open>SigStored\<close>: tables and images over every sequence of calls;
    \<open>SigBehaviour\<close>, \<open>SigRights\<close>: files, evidence, passwords, suggestion.
  \<^item> \<open>SigGuard\<close>: the module under the documents' guard and over the accounts;
    \<open>SigProperties\<close>: witnesses and properties.

  \<^bold>\<open>Incidents\<close> (\<open>modules/incident_management\<close>).
  \<^item> \<open>IncidentTypes\<close> (contracts.py), \<open>IncidentStore\<close> (sqlite_repository.py, incident_numbering.py, storage.py,
    eventing.py), \<open>IncidentRules\<close> (authorization.py, status_transitions.py, validation.py, settings_rules.py,
    capa_rules.py), \<open>IncidentOps\<close> (all \<open>*_ops.py\<close> that change state), \<open>IncidentApi\<close> (queries, requests).
  \<^item> \<open>IncidentSteps\<close>: the abstract state machine with its guards; \<open>IncidentSim\<close>, \<open>IncidentRefine\<close>: every request
    refines it; \<open>IncidentLaws\<close>: what the machine preserves;
    \<open>IncidentBehaviour\<close>, \<open>IncidentProperties\<close>: contracts and properties; \<open>IncidentScenario\<close>: witnesses.

  \<^bold>\<open>Users\<close> (\<open>modules/usermanagement\<close>, the PostgreSQL path of the backend).
  \<^item> \<open>UserTypes\<close> (contracts.py, errors.py, password_policy.py, the schema), \<open>UserStore\<close> (postgres_user_repository.py,
    postgres_session_repository.py, postgres_audit_repository.py with the constraints of the tables), \<open>UserOps\<close>
    (service.py, session_ops.py, user_admin_ops.py), \<open>UserApi\<close> (requests, reachable worlds, auth_ops.py).
  \<^item> \<open>UserLaws\<close>: what successful statements have done; \<open>UserInvariants\<close>: the constraints of the tables, live
    sessions of active accounts and the last administrator, kept by every request; \<open>UserBehaviour\<close>,
    \<open>UserProperties\<close>: resolution, login, failure, evidence; \<open>UserScenario\<close>: witnesses.

  \<^bold>\<open>Training\<close> (\<open>modules/training\<close>).
  \<^item> \<open>TrainTypes\<close> (contracts.py, the schema), \<open>TrainStore\<close> (the repositories, secure_store.py), \<open>TrainQuiz\<close>
    (quiz_import_service.py, quiz_binding_service.py, released_document_catalog_reader.py over the database of
    the documents), \<open>TrainExec\<close> (quiz_execution_service.py), \<open>TrainOps\<close> (assignments, exemptions, projection,
    readings, inbox, comments, reports), \<open>TrainApi\<close> (requests and reachable worlds).
  \<^item> \<open>TrainLaws\<close>: weakest preconditions over the tables; \<open>TrainInvariants\<close>: the invariant that every request keeps;
    \<open>TrainBehaviour\<close>: start, grading, review, second submissions, the cooldown, and that a quiz
    which was imported loads; \<open>TrainRebuild\<close>: the projection against its specification, over documents and accounts;
    \<open>TrainScenario\<close>, \<open>TrainProperties\<close>: witnesses and properties.

  \<^bold>\<open>What the theorems show.\<close> C1 to C10 are about documents: at most one released version and the register names
  it, four eyes, no step back, what a failed request leaves, the optimistic lock, the contract of a release and of
  an extension. C11 to C15 are about comments and readings: keys and reference numbers, what a synchronisation
  keeps and covers and that a second one changes nothing, the time a tracked receipt needs, and a confirmed
  reading up to the training. C16 to C24 are about signatures: the signing behind a passed guard, its request and its world,
  the contract, the evidence and the files of a signing, the search of its output path, tables and images, who
  may change an active signature, the suggested template. C25 to C29 are about incidents: refinement of the state
  machine, the timeline, evidence of closed incidents, the conditions of closing read off the tables. C30 to C34 are about users: an administrator
  remains, the tables stay well-formed, which tokens resolve, audit evidence. C35 to C40 are about training: the
  projected assignments agree with documents, accounts and overrides, the tables stay consistent, when a quiz
  starts, how it is graded, the review reads back, and imports load. Lemmas without a number state further
  behaviours, many that fall short (incidents that get stuck, lost CAPA records, overwritten verdicts, stale
  tokens of headers, signed files of failed signings, foreign signature images, locked active signatures, a way
  around the cooldown, tracked readings the training never sees, and others). Each claim states its property in
  the text before it.

  \<^bold>\<open>Not modelled.\<close> Reports and PDF rendering, DOCX conversion, the read models of documents, the XML of a DOCX,
  the inside of the PDF and image libraries, directories and log lines of the signature module, the wiring of the modules, licensing, settings, the object store, schema migrations and
  data import into PostgreSQL, the file session and the SQLite accounts of the desktop, HTTP routes and clients, the command line, the desktop and the web client.
  They are glue, user interface or infrastructure below the modelled operations. Concurrency between
  transactions is not modelled: a request runs alone. Commits do not fail, a copy into the object store fails only
  for a missing source or a key outside its root, and identifiers are canonical \<open>uuid4\<close> text (PostgreSQL's
  \<open>::uuid\<close> is the identity on it).
\<close>

section \<open>Inputs of the witnesses\<close>

text \<open>The worlds of the scenario are reachable, its profiles are ones the engine can walk.\<close>

lemma reachable_scenario:
  "reachable env0 w0" "reachable env0 w1" "reachable env0 w2" "reachable env0 w3" "reachable env0 w4"
  "reachable env0 w5" "reachable env0 w6" "reachable env0 w7"
proof -
  show r0: "reachable env0 w0" unfolding w0_def by (rule reachable.start)
  show r1: "reachable env0 w1" unfolding w1_def out1_def by (rule reachable.step [OF r0])
  show r2: "reachable env0 w2" unfolding w2_def out2_def by (rule reachable.step [OF r1])
  show r3: "reachable env0 w3" unfolding w3_def out3_def by (rule reachable.step [OF r2])
  show r4: "reachable env0 w4" unfolding w4_def out4_def by (rule reachable.step [OF r3])
  show r5: "reachable env0 w5" unfolding w5_def out5_def by (rule reachable.step [OF r4])
  show r6: "reachable env0 w6" unfolding w6_def out6_def by (rule reachable.step [OF r5])
  show "reachable env0 w7" unfolding w7_def out7_def by (rule reachable.step [OF r6])
qed

lemma scenario_steps: "steps env0 w6 w7"
  unfolding w7_def out7_def by (rule steps.one_request [OF steps.no_step])

lemma scenario_profiles: "profile_lookup env0 pid = Inr pr \<Longrightarrow> engine_profile pr"
  by (auto simp: env0_def engine_profile_def engine_phases_def long_release_path_def next_status_from_profile_def
      split: if_splits)

definition released_row :: version_state where
  "released_row = row_to_state (hd (db_versions (w_db w7)))"

lemma w7_row:
  "get_row (db_versions (w_db w7)) ''D'' 1 = Some released_row" "v_status released_row = APPROVED"
  "hd (db_versions (w_db w7)) \<in> set (db_versions (w_db w7))"
  by (simp_all add: w7_eq released_row_def get_row_def find_row_def version_key_def row_to_state_def)

lemma w6_row: "\<exists>st. get_row (db_versions (w_db w6)) ''D'' 1 = Some st \<and> v_status st = IN_APPROVAL"
  by (simp add: w6_eq get_row_def find_row_def version_key_def row_to_state_def)

section \<open>The register and the released version\<close>

text \<open>C1. In every state a sequence of requests can reach, failed requests included, the register names
  exactly the version that is approved: an entry's active version is the approved row of the document,
  and a document without an approved row has no active version.\<close>

theorem register_names_the_approved_version:
  assumes "reachable env w"
  shows "Option.bind (w_registry w doc) r_active_version = Some ver \<longleftrightarrow> row_approved (db_versions (w_db w)) doc ver"
  using reachable_db_ok [OF assms] unfolding db_ok_def register_agrees_def by blast

theorem register_names_the_approved_version_witness:
  "Option.bind (w_registry w7 ''D'') r_active_version = Some 1"
  using register_names_the_approved_version [OF reachable_scenario(8), of "''D''" 1]
  by (simp add: w7_eq row_approved_def find_row_def version_key_def)

text \<open>C2. In every reachable state a document has at most one approved version.\<close>

theorem one_released_version_per_document:
  assumes "reachable env w" and "r \<in> set (db_versions (w_db w))" and "r' \<in> set (db_versions (w_db w))"
    and "v_document_id r = v_document_id r'" and "v_status r = APPROVED" and "v_status r' = APPROVED"
  shows "r = r'"
proof -
  let ?rows = "db_versions (w_db w)"
  have ok: "rows_ok ?rows" using reachable_db_ok [OF assms(1)] by (simp add: db_ok_def)
  then have keys: "distinct (map version_key ?rows)" by (simp add: rows_ok_def)
  have found: "find_row ?rows (version_key r) = Some r" "find_row ?rows (version_key r') = Some r'"
    using find_row_distinct [OF keys] assms(2,3) by simp_all
  then have "row_approved ?rows (v_document_id r) (v_version r)" "row_approved ?rows (v_document_id r) (v_version r')"
    using assms(4-6) by (simp_all add: row_approved_def version_key_def)
  then have "v_version r = v_version r'" using ok unfolding rows_ok_def by blast
  then show ?thesis using found assms(4) by (simp add: version_key_def)
qed

theorem one_released_version_per_document_witness:
  "\<exists>r \<in> set (db_versions (w_db w7)). v_status r = APPROVED \<and>
     (\<forall>r' \<in> set (db_versions (w_db w7)). v_document_id r = v_document_id r' \<and> v_status r' = APPROVED \<longrightarrow> r = r')"
proof (intro bexI conjI ballI impI)
  show "v_status (hd (db_versions (w_db w7))) = APPROVED" by (simp add: w7_eq)
  show "hd (db_versions (w_db w7)) = r'"
    if "r' \<in> set (db_versions (w_db w7))"
      and "v_document_id (hd (db_versions (w_db w7))) = v_document_id r' \<and> v_status r' = APPROVED" for r'
    by (rule one_released_version_per_document [OF reachable_scenario(8) w7_row(3) that(1)])
      (use that in \<open>simp_all add: w7_eq\<close>)
qed (rule w7_row(3))

text \<open>C3. When every workflow profile is one the engine can walk (phases among editing, review,
  approval and release; the review does not release), every version in a reachable state is in one of
  the workflow's states, \<open>workflow_active\<close> says whether its workflow runs, and a released version
  carries all its release stamps: release time, approval time, validity, next review.\<close>

theorem released_versions_are_stamped:
  assumes "reachable env w" and "\<And>pid pr. profile_lookup env pid = Inr pr \<Longrightarrow> engine_profile pr"
    and "get_row (db_versions (w_db w)) doc ver = Some st"
  shows "lifecycle_ok st"
  using lifecycle.reachable_rows [OF assms(1) refl assms(2) assms(3)] .

theorem released_versions_are_stamped_witness:
  "lifecycle_ok released_row \<and> v_status released_row = APPROVED \<and> v_released_at released_row = Some 27"
  using released_versions_are_stamped [OF reachable_scenario(8) scenario_profiles w7_row(1)] w7_row(2)
  by (simp add: released_row_def w7_eq row_to_state_def)

text \<open>C4. Four eyes: in every reachable state, when the version's profile demands it, no one who accepted
  the review of a version is among those who approved it.\<close>

theorem four_eyes_between_review_and_release:
  assumes "reachable env w" and "get_row (db_versions (w_db w)) doc ver = Some st"
    and "v_workflow_profile st = Some p" and "p_four_eyes_required p"
  shows "v_approved_by st \<inter> v_reviewed_by st = {}"
  using four_eyes.reachable_rows [OF assms(1) refl _ assms(2)] assms(3,4) by (simp add: four_eyes_ok_def)

theorem four_eyes_between_review_and_release_witness:
  "v_approved_by released_row = {''a''} \<and> v_approved_by released_row \<inter> v_reviewed_by released_row = {}"
  using four_eyes_between_review_and_release [OF reachable_scenario(8) w7_row(1)]
  by (simp add: released_row_def w7_eq row_to_state_def)

text \<open>Evidence of the edit signature: in every reachable state, a version that has left editing under
  a profile which demands the signature carries the mark that it was signed.\<close>

theorem edit_signature_is_recorded:
  assumes "reachable env w" and "get_row (db_versions (w_db w)) doc ver = Some st"
    and "v_status st \<in> {IN_REVIEW, IN_APPROVAL, APPROVED, ARCHIVED}"
    and "is_signature_required st ''IN_PROGRESS->IN_REVIEW''"
  shows "v_edit_signature_done st"
  using edit_signed.reachable_rows [OF assms(1) refl _ assms(2)] assms(3,4) by (auto simp: edit_signed_ok_def)

theorem edit_signature_is_recorded_witness: "v_edit_signature_done released_row"
  by (rule edit_signature_is_recorded [OF reachable_scenario(8) w7_row(1)])
    (simp_all add: w7_row(2) is_signature_required_def, simp add: released_row_def w7_eq row_to_state_def)

text \<open>Custom fields never carry a steering key (\<open>status\<close>, \<open>assignments\<close>, \<open>active_version\<close> and the
  others), in no reachable state, whatever requests set, merge or snapshot them.\<close>

theorem custom_fields_never_steer:
  assumes "reachable env w" and "get_row (db_versions (w_db w)) doc ver = Some st"
    and "k \<in> fst ` set (v_custom_fields st)"
  shows "k \<notin> set forbidden_custom_field_keys"
  using custom_keys.reachable_rows [OF assms(1) refl _ assms(2)] assms(3) by (auto simp: custom_keys_ok_def)

theorem custom_fields_never_steer_witness:
  "''distribution_snapshot'' \<in> fst ` set (v_custom_fields released_row) \<and>
   ''distribution_snapshot'' \<notin> set forbidden_custom_field_keys"
proof
  show *: "''distribution_snapshot'' \<in> fst ` set (v_custom_fields released_row)"
    by (simp add: released_row_def w7_eq row_to_state_def)
  show "''distribution_snapshot'' \<notin> set forbidden_custom_field_keys"
    by (rule custom_fields_never_steer [OF reachable_scenario(8) w7_row(1) *])
qed

text \<open>C5. The lifecycle is one-way: along any sequence of requests a version is never deleted, and its
  stage (in preparation, released, archived) never goes back.\<close>

theorem versions_never_go_back:
  assumes "steps env w w'" and "reachable env w" and "get_row (db_versions (w_db w)) doc ver = Some st"
  shows "\<exists>st'. get_row (db_versions (w_db w')) doc ver = Some st' \<and> stage (v_status st) \<le> stage (v_status st')"
  by (rule steps_stage [OF assms])

theorem versions_never_go_back_witness:
  "\<exists>st st'. get_row (db_versions (w_db w6)) ''D'' 1 = Some st \<and> get_row (db_versions (w_db w7)) ''D'' 1 = Some st' \<and>
     stage (v_status st) \<le> stage (v_status st')"
  using w6_row versions_never_go_back [OF scenario_steps reachable_scenario(7)] by blast

section \<open>Requests\<close>

lemma w6_state: "get_row (db_versions (w_db w6)) ''D'' 1 = Some (row_to_state (hd (db_versions (w_db w6))))"
  by (simp add: w6_eq get_row_def find_row_def version_key_def)

lemma approval_call:
  "\<exists>x. api_call env0 ''D'' 1 (sample_token w6) ''a'' USER (CallApprovalAccept (Some sample_sign)) w6 = (Inr x, w7)"
proof -
  have "fst out7 = Inr ()" by (simp add: out7_eq)
  then have "run_request env0 (sample_call ''a'' USER (CallApprovalAccept (Some sample_sign)) w6) w6 = (Inr (), w7)"
    unfolding w7_def out7_def [symmetric] by (metis prod.collapse)
  then show ?thesis by (simp add: sample_call_def forget_def)
qed

lemma stale_token: "v_last_event_id (row_to_state (hd (db_versions (w_db w6)))) \<noteq> None"
  by (simp add: w6_eq row_to_state_def none_if_empty_def)

text \<open>C6. A failed request leaves no half-done change, wherever it fails: after signing, between two writes, or
  at the register. The tables are as before, but for one case: an import or a copy of a template is two
  transactions, so when the document version had no row and only the second one fails, the planned version and
  its header stay, without an artifact, and no other version, header or artifact differs. The register, which
  no transaction rolls back, names the same active versions as before.\<close>

theorem failed_requests_leave_no_half_done_change:
  assumes "reachable env w" and "run_request env rq w = (Inl e, w')"
  shows "(w_db w' = w_db w \<or>
     (\<exists>doc ver st. import_of rq = Some (doc, ver) \<and> get_row (db_versions (w_db w)) doc ver = None \<and>
        get_row (db_versions (w_db w')) doc ver = Some st \<and> v_status st = PLANNED \<and>
        (\<forall>d v. (d, v) \<noteq> (doc, ver) \<longrightarrow> get_row (db_versions (w_db w')) d v = get_row (db_versions (w_db w)) d v) \<and>
        (\<forall>d. d \<noteq> doc \<longrightarrow> get_header (w_db w') d = get_header (w_db w) d) \<and> db_artifacts (w_db w') = db_artifacts (w_db w))) \<and>
    (\<forall>d. Option.bind (w_registry w' d) r_active_version = Option.bind (w_registry w d) r_active_version)"
  using failed_request_leaves [OF assms(2)] failed_request_register [OF reachable_db_ok [OF assms(1)] assms(2)]
  unfolding only_planned_def by blast

lemma unsigned_approval:
  "\<exists>e w'. run_request env0 (sample_call ''a'' USER (CallApprovalAccept None) w6) w6 = (Inl e, w')"
  unfolding w6_eq
  by (simp add: evals env0_def sample_call_def sample_token_def del: bindM_basic bindM_liftE_simps cong: lazy_congs)

theorem failed_requests_leave_no_half_done_change_witness:
  "\<exists>e w'. run_request env0 (sample_call ''a'' USER (CallApprovalAccept None) w6) w6 = (Inl e, w') \<and> w_db w' = w_db w6 \<and>
     Option.bind (w_registry w' ''D'') r_active_version = Option.bind (w_registry w6 ''D'') r_active_version"
proof -
  obtain e w' where run: "run_request env0 (sample_call ''a'' USER (CallApprovalAccept None) w6) w6 = (Inl e, w')"
    using unsigned_approval by blast
  have "import_of (sample_call ''a'' USER (CallApprovalAccept None) w6) = None" by (simp add: sample_call_def)
  with failed_requests_leave_no_half_done_change [OF reachable_scenario(7) run] run show ?thesis by simp
qed

text \<open>C7. No lost update: a request whose token is not the row's current one changes nothing. Its answer is
  the conflict only for an actor who may see the version and do the action; anyone else is told that
  the version does not exist.\<close>

theorem stale_token_is_refused:
  assumes "get_row (db_versions (w_db w)) doc ver = Some cur" and "v_last_event_id cur \<noteq> if_match"
  shows "api_call env doc ver if_match uid role call w =
    (Inl (if has_read_access cur uid role \<and> wd_allowed (evaluate_workflow_action cur uid role (action_of call))
          then DocumentConflictError else ValidationError ''document version not found''), w)"
  using api_call_stale [OF assms] by (simp add: not_found_def)

theorem stale_token_is_refused_witness:
  "api_call env0 ''D'' 1 None ''x'' USER CallArchive w6 = (Inl (ValidationError ''document version not found''), w6)"
  by (subst stale_token_is_refused [OF w6_state stale_token])
    (simp add: w6_eq row_to_state_def evaluate_workflow_action_def Let_def decide_def)

text \<open>C8. A request that succeeds was let through by the token, by read access and by the workflow policy,
  moved the status along one edge of the transition table, and returned the status and the token that
  the row now has, so that the next request of the same client is not stale.\<close>

theorem successful_calls_follow_the_workflow:
  assumes "api_call env doc ver if_match uid role call w = (Inr x, w')"
  shows "\<exists>cur row. get_row (db_versions (w_db w)) doc ver = Some cur \<and> v_last_event_id cur = if_match \<and>
    has_read_access cur uid role \<and> wd_allowed (evaluate_workflow_action cur uid role (action_of call)) \<and>
    workflow_edge call (v_workflow_profile cur) (v_status cur) (v_status x) \<and>
    get_row (db_versions (w_db w')) (v_document_id x) (v_version x) = Some row \<and>
    v_status row = v_status x \<and> v_last_event_id row = none_if_empty (v_last_event_id x)"
proof -
  obtain cur where cur: "get_row (db_versions (w_db w)) doc ver = Some cur" "v_last_event_id cur = if_match"
      "has_read_access cur uid role" "wd_allowed (evaluate_workflow_action cur uid role (action_of call))"
    and run: "run_call env call uid role cur w = (Inr x, w')"
    by (rule api_call_Inr [OF assms])
  have "call_done call cur x w'" by (rule run_call_done [OF run cur(1)])
  with cur show ?thesis unfolding call_done_def visible_as_def stepped_def by blast
qed

theorem successful_calls_follow_the_workflow_witness:
  "\<exists>cur (x :: version_state) row. get_row (db_versions (w_db w6)) ''D'' 1 = Some cur \<and>
     workflow_edge (CallApprovalAccept (Some sample_sign)) (v_workflow_profile cur) (v_status cur) (v_status x) \<and>
     get_row (db_versions (w_db w7)) (v_document_id x) (v_version x) = Some row \<and> v_status row = v_status x"
proof -
  obtain x where "api_call env0 ''D'' 1 (sample_token w6) ''a'' USER (CallApprovalAccept (Some sample_sign)) w6 = (Inr x, w7)"
    using approval_call by blast
  from successful_calls_follow_the_workflow [OF this] obtain cur row where
    "get_row (db_versions (w_db w6)) ''D'' 1 = Some cur"
    "workflow_edge (CallApprovalAccept (Some sample_sign)) (v_workflow_profile cur) (v_status cur) (v_status x)"
    "get_row (db_versions (w_db w7)) (v_document_id x) (v_version x) = Some row" "v_status row = v_status x"
    by (elim exE conjE)
  then show ?thesis by (intro exI [of _ cur] exI [of _ x] exI [of _ row] conjI)
qed

text \<open>C9. The contract of a release. When an approval is accepted, the version was in approval, the actor is
  one of its approvers and is not barred by four eyes; afterwards it is approved, has a current
  \<open>RELEASED_PDF\<close> and, if the profile demands the signature, a current \<open>SIGNED_PDF\<close>; and every other
  version that was approved is archived and names the new one as its successor.\<close>

theorem release_contract:
  assumes "api_call env doc ver if_match uid role (CallApprovalAccept req) w = (Inr x, w')"
  shows "\<exists>cur. get_row (db_versions (w_db w)) doc ver = Some cur \<and> v_status cur = IN_APPROVAL \<and>
    uid \<in> as_approvers (v_assignments cur) \<and> \<not> four_eyes_blocks cur uid \<and>
    v_status x = APPROVED \<and> uid \<in> v_approved_by x \<and>
    has_current_artifact (w_db w') (v_document_id cur) (v_version cur) RELEASED_PDF \<and>
    (is_signature_required cur ''IN_APPROVAL->APPROVED'' \<longrightarrow>
       has_current_artifact (w_db w') (v_document_id cur) (v_version cur) SIGNED_PDF) \<and>
    (\<forall>v. row_approved (db_versions (w_db w)) (v_document_id cur) v \<and> v \<noteq> v_version cur \<longrightarrow> superseded_row cur v w')"
proof -
  obtain cur where cur: "get_row (db_versions (w_db w)) doc ver = Some cur"
    and run: "run_call env (CallApprovalAccept req) uid role cur w = (Inr x, w')"
    by (rule api_call_Inr [OF assms])
  from run have "accept_approval env cur uid req (Some uid) w = (Inr x, w')" by simp
  note facts = accept_approval_Inr [OF this]
  show ?thesis using cur facts(2-8) facts(9,10) by (intro exI [of _ cur]) simp
qed

theorem release_contract_witness:
  "\<exists>cur. get_row (db_versions (w_db w6)) ''D'' 1 = Some cur \<and> v_status cur = IN_APPROVAL \<and>
     has_current_artifact (w_db w7) (v_document_id cur) (v_version cur) RELEASED_PDF"
  using approval_call release_contract by blast

section \<open>Signatures\<close>

text \<open>When the guard lets a transition pass that needs a signature, a request was given, the signature
  API is there, signing and registering the output succeeded on the canonical input, and the version
  has a current \<open>SIGNED_PDF\<close> afterwards; the temporary output is gone.\<close>

theorem signature_guard_demands_evidence:
  assumes "enforce_signature_transition env st tr sign_req actor w = (Inr u, w')" and "is_signature_required st tr"
  shows "\<exists>req canonical w1. sign_req = Some req \<and> has_signature_api env \<and>
    resolve_signature_input_pdf env st tr w = (Inr canonical, w) \<and>
    sign_and_register env st tr (canonical_request canonical req) actor w = (Inr u, w1) \<and>
    has_current_artifact (w_db w') (v_document_id st) (v_version st) SIGNED_PDF \<and>
    w_files w' = w_files w1 - cleanup_paths canonical (canonical_request canonical req)"
  using enforce_signature_Inr [OF assms] by auto

definition signing_state :: version_state where
  "signing_state = (new_version_state ''D'' 1)\<lparr>v_workflow_profile := Some long_release_path,
     v_status := IN_PROGRESS, v_workflow_active := True\<rparr>"

lemma signing_run:
  "\<exists>w'. enforce_signature_transition env0 signing_state ''IN_PROGRESS->IN_REVIEW'' (Some sample_sign) (Some ''e'')
     (empty_world {''/x.pdf''}) = (Inr (), w')"
  by (simp add: evals signing_state_def env0_def sample_sign_def del: bindM_basic bindM_liftE_simps cong: lazy_congs)

theorem signature_guard_demands_evidence_witness:
  "\<exists>w'. enforce_signature_transition env0 signing_state ''IN_PROGRESS->IN_REVIEW'' (Some sample_sign) (Some ''e'')
     (empty_world {''/x.pdf''}) = (Inr (), w') \<and> has_current_artifact (w_db w') ''D'' 1 SIGNED_PDF"
proof -
  obtain w' where run: "enforce_signature_transition env0 signing_state ''IN_PROGRESS->IN_REVIEW'' (Some sample_sign)
      (Some ''e'') (empty_world {''/x.pdf''}) = (Inr (), w')" using signing_run by blast
  have "is_signature_required signing_state ''IN_PROGRESS->IN_REVIEW''" "v_document_id signing_state = ''D''"
    "v_version signing_state = 1"
    by (simp_all add: signing_state_def is_signature_required_def long_release_path_def)
  with signature_guard_demands_evidence [OF run] run show ?thesis by auto
qed

text \<open>In the review and the approval the file that is signed is always an already signed PDF of the
  version itself, that exists: never the unsigned source, and never a file of another version.\<close>

theorem review_signs_the_signed_file:
  assumes "tr \<in> {''IN_REVIEW->IN_APPROVAL'', ''IN_APPROVAL->APPROVED''}"
    and "resolve_signature_input_pdf env st tr w = (Inr (Some p), w')"
  shows "\<exists>a \<in> set (db_artifacts (w_db w)). a_artifact_type a = SIGNED_PDF \<and> a_document_id a = v_document_id st \<and>
    a_version a = v_version st \<and> resolve_artifact_path (storage_root env) (w_files w) a = Some p \<and> p \<in> w_files w"
  using resolve_input_Some [OF assms(2)] assms(1) by (auto simp: signed_priority)

theorem review_signs_the_signed_file_witness:
  "\<exists>p a. resolve_signature_input_pdf env0 signing_state ''IN_APPROVAL->APPROVED'' w6 = (Inr (Some p), w6) \<and>
     a \<in> set (db_artifacts (w_db w6)) \<and> a_artifact_type a = SIGNED_PDF \<and>
     resolve_artifact_path (storage_root env0) (w_files w6) a = Some p"
proof -
  have run: "\<exists>p. resolve_signature_input_pdf env0 signing_state ''IN_APPROVAL->APPROVED'' w6 = (Inr (Some p), w6)"
    by (simp add: w6_eq evals signing_state_def env0_def del: bindM_basic bindM_liftE_simps cong: lazy_congs)
  then obtain p where p: "resolve_signature_input_pdf env0 signing_state ''IN_APPROVAL->APPROVED'' w6 = (Inr (Some p), w6)"
    by blast
  from review_signs_the_signed_file [OF _ p] p show ?thesis by blast
qed

section \<open>Policy and guards\<close>

text \<open>Two lines of defence agree: for a trimmed user id, no operation that checks its own guards succeeds
  when the workflow policy denies it (assigning, completing, review, approval, archiving, metadata,
  change requests), so a caller that forgot the policy could not go further.\<close>

theorem denied_actions_fail_in_the_use_case:
  assumes "py_strip uid = uid" and "uid \<noteq> []" and "guarded_by_the_use_case call"
    and "\<not> wd_allowed (evaluate_workflow_action cur uid role (action_of call))"
  shows "run_call env call uid role cur w \<noteq> (Inr x, w')"
  using guards_imply_policy [OF assms(1-3)] assms(4) by blast

theorem denied_actions_fail_in_the_use_case_witness:
  "\<forall>x w'. run_call env0 CallArchive ''a'' USER released_row w7 \<noteq> (Inr x, w')"
  by (intro allI, rule denied_actions_fail_in_the_use_case)
    (simp_all add: evaluate_workflow_action_def Let_def decide_def py_strip_def py_space_def)

text \<open>An administrator who owns a version is told by the policy that he may assign its roles, and the
  assignment is then always refused: the guard knows no rule for the role \<open>ADMIN\<close>.\<close>

theorem owning_admin_cannot_assign:
  assumes "py_strip uid = uid" and "uid \<noteq> []" and "v_owner_user_id st = Some uid" and "\<not> v_edit_signature_done st"
  shows "wd_allowed (evaluate_workflow_action st uid ADMIN ''assign_roles'') \<and>
    run_call env (CallAssign e r a) uid ADMIN st w =
      (Inl (PermissionDeniedError ''unsupported role for role updates''), w)"
  using policy_simps [OF assms(1,2)] assms(3,4)
  by (simp_all add: assign_workflow_roles_def both_def ensure_assignment_update_allowed_def bindM_liftE)

theorem owning_admin_cannot_assign_witness:
  "wd_allowed (evaluate_workflow_action (new_version_state ''D'' 1\<lparr>v_owner_user_id := Some ''o''\<rparr>) ''o'' ADMIN ''assign_roles'') \<and>
   run_call env0 (CallAssign {} {} {}) ''o'' ADMIN (new_version_state ''D'' 1\<lparr>v_owner_user_id := Some ''o''\<rparr>) w0 =
     (Inl (PermissionDeniedError ''unsupported role for role updates''), w0)"
  by (rule owning_admin_cannot_assign) (simp_all add: py_strip_def py_space_def new_version_state_def)

section \<open>Releases beside the approval\<close>

text \<open>The store accepts a profile that goes from review to release (\<open>DRAFT->IN_REVIEW->APPROVED\<close>), and
  accepting the review of a version under it releases the version without any of a release's effects: no
  release stamps, no approver, no artifact, and its workflow still counts as active.\<close>

theorem two_step_profile_releases_at_review:
  assumes "v_workflow_profile st = to_runtime_profile two_step_definition"
    and "accept_review env st uid req actor w = (Inr x, w')"
  shows "validate_definition two_step_definition = Inr () \<and> v_status x = APPROVED \<and> v_workflow_active x \<and>
    v_released_at x = v_released_at st \<and> v_valid_from x = v_valid_from st \<and> v_approved_by x = v_approved_by st \<and>
    db_artifacts (w_db w') = db_artifacts (w_db w)"
proof -
  obtain p where p: "to_runtime_profile two_step_definition = Some p" "p_phases p = [IN_PROGRESS, IN_REVIEW, APPROVED]"
    "p_signature_required_transitions p = []" using two_step_runtime by blast
  then have "next_status_from_profile (v_workflow_profile st) IN_REVIEW = Inr APPROVED"
    using assms(1) by (simp add: next_status_from_profile_def)
  moreover have "\<not> is_signature_required st ''IN_REVIEW->IN_APPROVAL''"
    using p assms(1) by (simp add: is_signature_required_def)
  ultimately show ?thesis using review_releases [OF assms(2)] two_step_accepted by simp
qed

definition two_step_state :: version_state where
  "two_step_state = (new_version_state ''D'' 1)\<lparr>v_workflow_profile := to_runtime_profile two_step_definition,
     v_status := IN_REVIEW, v_workflow_active := True, v_assignments := \<lparr>as_editors = {}, as_reviewers = {''r''}, as_approvers = {}\<rparr>\<rparr>"

lemma two_step_run:
  "\<exists>x w'. accept_review env0 two_step_state ''r'' None (Some ''r'') (empty_world {}) = (Inr x, w')"
proof -
  obtain p where p: "to_runtime_profile two_step_definition = Some p" "p_phases p = [IN_PROGRESS, IN_REVIEW, APPROVED]"
    "p_signature_required_transitions p = []" using two_step_runtime by blast
  have "map_option p_release_evidence_mode (to_runtime_profile two_step_definition) = Some ''WORKFLOW''"
    by code_simp
  with p(1) have mode: "p_release_evidence_mode p = ''WORKFLOW''" by simp
  have state: "two_step_state = (new_version_state ''D'' 1)\<lparr>v_workflow_profile := Some p, v_status := IN_REVIEW,
      v_workflow_active := True, v_assignments := \<lparr>as_editors = {}, as_reviewers = {''r''}, as_approvers = {}\<rparr>\<rparr>"
    by (simp add: two_step_state_def p(1))
  show ?thesis
    unfolding state
    by (simp add: evals env0_def p(2,3) mode del: bindM_basic bindM_liftE_simps cong: lazy_congs)
qed

theorem two_step_profile_releases_at_review_witness:
  "\<exists>x w'. accept_review env0 two_step_state ''r'' None (Some ''r'') (empty_world {}) = (Inr x, w') \<and>
     v_status x = APPROVED \<and> v_released_at x = None \<and> v_workflow_active x"
proof -
  obtain x w' where run: "accept_review env0 two_step_state ''r'' None (Some ''r'') (empty_world {}) = (Inr x, w')"
    using two_step_run by blast
  have "v_workflow_profile two_step_state = to_runtime_profile two_step_definition" "v_released_at two_step_state = None"
    by (simp_all add: two_step_state_def new_version_state_def)
  with two_step_profile_releases_at_review [OF _ run] run show ?thesis by auto
qed

text \<open>Completing the editing of a version whose profile goes straight to the release never succeeds while
  another version of the document is released: this path does not supersede it, and the write is
  refused by the index.\<close>

theorem direct_release_needs_a_free_document:
  assumes "next_status_from_profile (v_workflow_profile st) IN_PROGRESS = Inr APPROVED"
    and "row_approved (db_versions (w_db w)) (v_document_id st) v" and "v \<noteq> v_version st"
  shows "complete_editing env st req actor uid role w \<noteq> (Inr x, w')"
  by (rule complete_editing_blocked [OF assms])

theorem direct_release_needs_a_free_document_witness:
  "\<forall>x w'. complete_editing env0 (new_version_state ''D'' 2\<lparr>v_workflow_profile := Some (long_release_path\<lparr>p_phases := [IN_PROGRESS, APPROVED]\<rparr>)\<rparr>)
     None None None None w7 \<noteq> (Inr x, w')"
  by (intro allI, rule direct_release_needs_a_free_document [of _ _ 1])
    (simp_all add: next_status_from_profile_def row_approved_def w7_eq find_row_def version_key_def new_version_state_def)

text \<open>Editing the metadata of an archived version, while another version is the released one, turns the
  register entry into an archived one that cannot be found, although it still names the released version.\<close>

theorem archived_metadata_hides_the_released_version:
  assumes "update_version_metadata env st c (Some uid) (Some role) w = (Inr x, w')" and "v_status st = ARCHIVED"
    and "Option.bind (w_registry w (v_document_id st)) r_active_version = Some other" and "other \<noteq> v_version st"
  shows "\<exists>e. w_registry w' (v_document_id st) = Some e \<and> r_active_version e = Some other \<and>
    r_register_state e = RegARCHIVED \<and> \<not> r_is_findable e"
  by (rule archived_metadata_register [OF assms])

definition old_version :: version_state where
  "old_version = (new_version_state ''D'' 2)\<lparr>v_status := ARCHIVED\<rparr>"

definition no_change :: metadata_changes where
  "no_change = \<lparr>mc_title = None, mc_description = None, mc_valid_until = None, mc_next_review_at = None, mc_custom_fields = None\<rparr>"

lemma old_version_run: "\<exists>x w'. update_version_metadata env0 old_version no_change (Some ''o'') (Some QMB) w7 = (Inr x, w')"
  by (simp add: w7_eq evals old_version_def no_change_def env0_def del: bindM_basic bindM_liftE_simps cong: lazy_congs)

theorem archived_metadata_hides_the_released_version_witness:
  "\<exists>x w' e. update_version_metadata env0 old_version no_change (Some ''o'') (Some QMB) w7 = (Inr x, w') \<and>
     w_registry w' ''D'' = Some e \<and> r_active_version e = Some 1 \<and> \<not> r_is_findable e"
proof -
  obtain x w' where run: "update_version_metadata env0 old_version no_change (Some ''o'') (Some QMB) w7 = (Inr x, w')"
    using old_version_run by blast
  have "v_status old_version = ARCHIVED" "v_document_id old_version = ''D''" "v_version old_version = 2"
    "Option.bind (w_registry w7 ''D'') r_active_version = Some 1"
    by (simp_all add: old_version_def new_version_state_def w7_eq)
  with archived_metadata_hides_the_released_version [OF run] run show ?thesis by fastforce
qed

text \<open>An update of the header answers with a time stamp that is not the stored one: the repository stamps
  the row with a later reading of the clock. The token a client gets from the answer is stale at once.\<close>

theorem header_update_returns_a_stale_token:
  assumes "update_document_header env doc c uid role w = (Inr h, w')" and "\<And>n. clock env n < clock env (Suc n)"
  shows "\<exists>stored. get_header (w_db w') doc = Some stored \<and> h_updated_at h < h_updated_at stored"
  using update_header_token [OF assms(1)] assms(2) by auto

definition no_header_change :: header_changes where
  "no_header_change = \<lparr>hc_doc_type = None, hc_control_class = None, hc_workflow_profile_id = None, hc_department = None,
     hc_site = None, hc_regulatory_scope = None, hc_distribution_roles = None, hc_distribution_sites = None,
     hc_distribution_departments = None\<rparr>"

lemma header_run: "\<exists>h w'. update_document_header env0 ''D'' no_header_change (Some ''o'') (Some QMB) w7 = (Inr h, w')"
  by (simp add: w7_eq evals no_header_change_def env0_def del: bindM_basic bindM_liftE_simps cong: lazy_congs)

theorem header_update_returns_a_stale_token_witness:
  "\<exists>h w' stored. update_document_header env0 ''D'' no_header_change (Some ''o'') (Some QMB) w7 = (Inr h, w') \<and>
     get_header (w_db w') ''D'' = Some stored \<and> h_updated_at h < h_updated_at stored"
proof -
  obtain h w' where run: "update_document_header env0 ''D'' no_header_change (Some ''o'') (Some QMB) w7 = (Inr h, w')"
    using header_run by blast
  have "\<And>n. clock env0 n < clock env0 (Suc n)" by (simp add: env0_def)
  from header_update_returns_a_stale_token [OF run this] run show ?thesis by blast
qed

text \<open>C10. The annual extension: only for a released version, a positive duration and an outcome that needs no
  new version. At most three extensions: after the third the answer is that a new version is needed and
  nothing changes. Otherwise it needs the signature, counts, and moves the end of validity to the given
  number of days after the later of today and the old end.\<close>

theorem extension_contract:
  assumes "extend_annual_validity env st uid signed days reason outcome w = (Inr (x, needs_new), w')"
  shows "v_status st = APPROVED \<and> 0 < days \<and> outcome \<noteq> NEW_VERSION_REQUIRED \<and>
    (if v_extension_count st \<ge> 3 then needs_new \<and> x = st \<and> w' = w
     else \<not> needs_new \<and> signed \<and> v_extension_count x = v_extension_count st + 1 \<and>
       (\<exists>now. v_last_extended_at x = Some now \<and> v_next_review_at x = v_valid_until x \<and>
          v_valid_until x = Some (max now (case v_valid_until st of None \<Rightarrow> now | Some t \<Rightarrow> t) + days * day)))"
  by (rule extension_result [OF assms])

definition extendable_row :: version_state where
  "extendable_row = (new_version_state ''D'' 1)\<lparr>v_status := APPROVED, v_valid_until := Some 5\<rparr>"

lemma extension_run:
  "\<exists>x w'. extend_annual_validity env0 extendable_row ''q'' True 30 ''ok'' EDITORIAL (empty_world {}) = (Inr (x, False), w')"
  by (simp add: evals extendable_row_def env0_def del: bindM_basic bindM_liftE_simps cong: lazy_congs)

theorem extension_contract_witness:
  "\<exists>x w' now. extend_annual_validity env0 extendable_row ''q'' True 30 ''ok'' EDITORIAL (empty_world {}) = (Inr (x, False), w') \<and>
     v_extension_count x = 1 \<and> v_valid_until x = Some (max now 5 + 30 * day)"
proof -
  obtain x w' where run: "extend_annual_validity env0 extendable_row ''q'' True 30 ''ok'' EDITORIAL (empty_world {}) = (Inr (x, False), w')"
    using extension_run by blast
  have "v_extension_count extendable_row = 0" "v_valid_until extendable_row = Some 5"
    by (simp_all add: extendable_row_def new_version_state_def)
  with extension_contract [OF run] run show ?thesis by auto
qed

section \<open>Across the modules\<close>

text \<open>C35. The projection of the training assignments is what its inputs say: over the released documents of any
  reachable documents database and the accounts of any reachable user management, a user has an assignment
  for a version exactly where an exemption that is not expired, an assignment by hand, a common tag or the
  scope gives one, with the first of these as its source; the answer is the number of assignments.
  No user may have two exemptions for one version.\<close>

theorem assignments_are_what_the_tables_say:
  assumes "inj (tr_hex env)" and "reachable denv dw" and "um_reachable uenv uw" and "single_exemptions (tw_db w)"
  shows "\<exists>w'. rebuild_all env (w_db dw) (list_users (uw_db uw)) w = (Inr (int (length (td_snapshots (tw_db w')))), w') \<and>
    (\<forall>doc \<in> set (list_released_documents (w_db dw)). \<forall>user \<in> set (list_users (uw_db uw)).
       map_option sn_source (get_snapshot (tw_db w') (us_user_id user, dr_document_id doc, dr_version doc)) =
       wanted_source (tw_db w) (tr_clock env (tw_ticks w)) doc user)"
proof -
  let ?now = "tr_clock env (tw_ticks w)"
  let ?pairs = "List.product (list_released_documents (w_db dw)) (list_users (uw_db uw))"
  note distinct = released_distinct [OF assms(2)] users_distinct [OF assms(3)]
  obtain w' where run: "rebuild_all env (w_db dw) (list_users (uw_db uw)) w =
      (Inr (int (length (filter (relevant (tw_db w) ?now) ?pairs))), w')"
    and rows: "map (\<lambda>s. (snapshot_key s, sn_source s)) (td_snapshots (tw_db w')) =
      map (\<lambda>p. (pair_key p, assignment_of (tw_db w) ?now (fst p) (snd p))) (filter (relevant (tw_db w) ?now) ?pairs)"
    using rebuild_all_run [OF assms(1) distinct] by blast
  have inj: "inj_on pair_key (set ?pairs)" using product_keys_distinct [OF distinct] by (simp add: distinct_map)
  have "map_option sn_source (get_snapshot (tw_db w') (pair_key (doc, user))) = wanted_source (tw_db w) ?now doc user"
    if "doc \<in> set (list_released_documents (w_db dw))" "user \<in> set (list_users (uw_db uw))" for doc user
    using get_snapshot_source [OF rows inj, of "(doc, user)"] that
    by (simp add: assignment_of_wanted [OF assms(4)] relevant_def Let_def)
  moreover have "length (td_snapshots (tw_db w')) = length (filter (relevant (tw_db w) ?now) ?pairs)"
    using arg_cong [OF rows, of length] by simp
  ultimately show ?thesis using run by (intro exI [of _ w']) (simp add: pair_key_def)
qed

theorem assignments_are_what_the_tables_say_witness:
  "\<exists>w'. rebuild_all tr_env1 (w_db w7) (list_users (uw_db um_start)) empty_tr_world = (Inr (int (length (td_snapshots (tw_db w')))), w') \<and>
     map_option sn_source (get_snapshot (tw_db w') (''u'', ''D'', 1)) = Some SrcSCOPE"
proof -
  have none: "single_exemptions (tw_db empty_tr_world)" by (simp add: single_exemptions_def empty_tr_world_def empty_tr_db_def)
  let ?doc = "document_ref_of (w_db w7) released_row"
  have doc: "?doc \<in> set (list_released_documents (w_db w7))" "dr_document_id ?doc = ''D''" "dr_version ?doc = 1"
      "\<not> truthy (dr_department ?doc)" "\<not> truthy (dr_site ?doc)" "\<not> truthy (dr_regulatory_scope ?doc)"
    by (simp_all add: list_released_documents_def list_by_status_rows_def document_ref_of_def Let_def released_row_def w7_eq
        row_to_state_def get_header_def truthy_def)
  have user: "user_from_row first_admin \<in> set (list_users (uw_db um_start))" "us_user_id (user_from_row first_admin) = ''u''"
    by (simp_all add: list_users_def um_start_state user_from_row_def first_admin_def authenticated_user.defs)
  have "wanted_source (tw_db empty_tr_world) now ?doc (user_from_row first_admin) = Some SrcSCOPE" for now
    using doc(4-6) by (simp add: wanted_source_def exempted_by_def assigned_by_hand_def tagged_def scope_matches_def
        empty_tr_world_def empty_tr_db_def)
  with assignments_are_what_the_tables_say [OF tr_env1_inj reachable_scenario(8) um_start_reachable none] doc(1-3) user
  show ?thesis by metis
qed

end
